(* ===== verification/Prelude.thy ===== *)
theory Prelude
  imports Main "HOL-Library.Sublist" "HOL-Library.Char_ord"
begin

text \<open>
  Shared ground of the development: the two theorem collections the component
  theories fill (\<open>js_eval\<close> for equations that evaluate the JavaScript library
  functions on closed strings, \<open>state_simps\<close> for frame equations of the state
  machines), list and map facts used by several components, and the interface
  \<open>prefix_code\<close> of a character encoding that can be decoded uniquely.
\<close>

named_theorems js_eval "equations that evaluate the modelled JavaScript library"
named_theorems state_simps "projections and frame facts of the modelled states"

section \<open>Lists\<close>

lemma dropWhile_eq_self: "(xs = [] \<or> \<not> P (hd xs)) \<Longrightarrow> dropWhile P xs = xs"
  by (cases xs) auto

lemma prefix_takeI: "length p \<le> length xs \<Longrightarrow> take (length p) xs = p \<Longrightarrow> prefix p xs"
  by (metis take_is_prefix)

lemma prefix_iff_take: "prefix p xs \<longleftrightarrow> length p \<le> length xs \<and> take (length p) xs = p"
  by (metis append_eq_conv_conj prefix_def prefix_length_le take_is_prefix)

lemma distinct_mid_filter: "distinct (map f (xs @ ys @ zs)) \<Longrightarrow> distinct (map f (xs @ filter P ys @ zs))"
  by (induction ys) auto

lemma find_in: "find P xs = Some x \<Longrightarrow> x \<in> set xs \<and> P x"
  by (induction xs) (auto split: if_splits)

lemma fresh_above: "\<forall>i \<in> S. i < n \<Longrightarrow> \<forall>x \<in> C. n \<le> f x \<Longrightarrow> f ` C \<inter> S = {}" for n :: nat
  by force

lemma filter_other: "distinct (map f (x # xs)) \<Longrightarrow> filter (\<lambda>q. f q \<noteq> f x) xs = xs"
  by (induction xs) auto

lemma nth_append_one: "(xs @ [x]) ! length xs = x"
  by simp

lemma butlast_update_last: "xs \<noteq> [] \<Longrightarrow> butlast (xs[length xs - 1 := y]) = butlast xs"
  by (cases xs rule: rev_cases) auto

lemma mod_step: "r < n \<Longrightarrow> i < n \<Longrightarrow> (r + i) mod n = (if r + i < n then r + i else r + i - n)" for n :: nat
  by (simp add: le_mod_geq)

lemma add_mod_inj:
  assumes "i < n" "j < n"
  shows "(r + i) mod n = (r + j) mod n \<longleftrightarrow> i = (j::nat)"
proof -
  have r: "r mod n < n" using assms by simp
  have "(r + i) mod n = (r mod n + i) mod n" "(r + j) mod n = (r mod n + j) mod n"
    by (simp_all add: mod_add_left_eq)
  then show ?thesis
    using mod_step [OF r assms(1)] mod_step [OF r assms(2)] assms by (auto split: if_splits)
qed

section \<open>Codes that decode uniquely\<close>

text \<open>
  A code maps each symbol to a non-empty word, and no two symbols have words that
  start the same text. The text of a word list then has the prefixes that the
  word list has, and no two word lists have the same text.
\<close>

locale prefix_code =
  fixes enc :: "'a \<Rightarrow> 'b list"
  assumes enc_nonempty: "enc a \<noteq> []"
    and enc_unique: "enc a @ u = enc b @ v \<Longrightarrow> a = b"
begin

definition encode :: "'a list \<Rightarrow> 'b list" where
  "encode s = concat (map enc s)"

lemma encode_simps: "encode [] = []" "encode (a # s) = enc a @ encode s"
  "encode (s @ t) = encode s @ encode t"
  by (simp_all add: encode_def)

lemma encode_Nil_iff: "encode s = [] \<longleftrightarrow> s = []"
  by (cases s) (auto simp: encode_simps enc_nonempty)

lemma encode_prefix_iff: "prefix (encode s) (encode t) \<longleftrightarrow> prefix s t"
proof (induction s arbitrary: t)
  case Nil
  then show ?case by (simp add: encode_simps)
next
  case (Cons a s)
  show ?case
  proof (cases t)
    case Nil
    then show ?thesis by (simp add: encode_simps enc_nonempty)
  next
    case (Cons b t')
    show ?thesis
    proof
      assume "prefix (encode (a # s)) (encode t)"
      then obtain w where w: "enc b @ encode t' = enc a @ (encode s @ w)"
        by (auto simp: Cons prefix_def encode_simps)
      from enc_unique [OF w [symmetric]] have "a = b" .
      with w have "prefix (encode s) (encode t')" by (auto simp: prefix_def)
      with \<open>a = b\<close> Cons.IH Cons show "prefix (a # s) t" by simp
    next
      assume "prefix (a # s) t"
      with Cons have "a = b" "prefix s t'" by auto
      with Cons.IH Cons show "prefix (encode (a # s)) (encode t)"
        by (simp add: encode_simps)
    qed
  qed
qed

lemma encode_inj: "encode s = encode t \<longleftrightarrow> s = t"
  by (metis encode_prefix_iff prefix_order.antisym prefix_order.order_refl)

end

section \<open>Machines and what they keep\<close>

text \<open>
  The states a machine reaches from its start states by its events, and the interface of an
  invariant: it holds at the start and every event keeps it.
\<close>

inductive reachable :: "('s \<Rightarrow> bool) \<Rightarrow> ('e \<Rightarrow> 's \<Rightarrow> 's) \<Rightarrow> 's \<Rightarrow> bool" for start "next" where
  reach_start: "start s \<Longrightarrow> reachable start next s"
| reach_step: "reachable start next s \<Longrightarrow> reachable start next (next e s)"

lemma reachable_run: "reachable start next s \<Longrightarrow> reachable start next (fold next es s)"
  by (induction es arbitrary: s) (auto intro: reach_step)

locale kept =
  fixes start :: "'s \<Rightarrow> bool" and "next" :: "'e \<Rightarrow> 's \<Rightarrow> 's" and inv :: "'s \<Rightarrow> bool"
  assumes holds_at_start: "start s \<Longrightarrow> inv s"
    and kept_by_event: "inv s \<Longrightarrow> inv (next e s)"
begin

lemma holds: "reachable start next s \<Longrightarrow> inv s"
  by (induction rule: reachable.induct) (auto intro: holds_at_start kept_by_event)

lemma holds_after: "inv s \<Longrightarrow> inv (fold next es s)"
  by (induction es arbitrary: s) (auto intro: kept_by_event)

end

lemma distinct_map_filter: "distinct (map f xs) \<Longrightarrow> distinct (map f (filter P xs))"
  by (induction xs) auto

end
