(* ===== verification/JsString.thy ===== *)
theory JsString
  imports Prelude
begin

text \<open>
  The part of the JavaScript string library that the documentation scripts use.
  A string is a list of code units; the model covers the Latin-1 range (one
  \<^typ>\<open>char\<close> per code unit, U+0000 to U+00FF), in which \<open>toLowerCase\<close> maps
  code unit to code unit. Each operation is total, as it is in JavaScript:
  \<open>charAt\<close>, \<open>substring\<close> and \<open>substr\<close> clip their arguments, \<open>indexOf\<close> returns -1
  when there is no match (and 0 for the empty pattern).
\<close>

text \<open>How a script ends early: an exception, or a step the model does not follow.\<close>

datatype js_error = TypeError | ReferenceError | OutsideModel

section \<open>Code units\<close>

definition code :: "char \<Rightarrow> nat" where
  "code c = of_char c"

lemma code_less: "code c < 256"
  by (simp add: code_def)

lemma code_inj: "code a = code b \<longleftrightarrow> a = b"
  by (simp add: code_def)

lemma char_of_code [simp]: "char_of (code c) = c"
  by (simp add: code_def)

lemma code_char_of: "n < 256 \<Longrightarrow> code (char_of n) = n"
  by (simp add: code_def)

definition is_az :: "char \<Rightarrow> bool" where
  "is_az c \<longleftrightarrow> 97 \<le> code c \<and> code c \<le> 122"

definition is_AZ :: "char \<Rightarrow> bool" where
  "is_AZ c \<longleftrightarrow> 65 \<le> code c \<and> code c \<le> 90"

definition is_09 :: "char \<Rightarrow> bool" where
  "is_09 c \<longleftrightarrow> 48 \<le> code c \<and> code c \<le> 57"

text \<open>\<open>\w\<close> of a regular expression.\<close>

definition is_word_char :: "char \<Rightarrow> bool" where
  "is_word_char c \<longleftrightarrow> is_az c \<or> is_AZ c \<or> is_09 c \<or> c = CHR ''_''"

lemmas char_classes = is_az_def is_AZ_def is_09_def is_word_char_def

section \<open>toLowerCase\<close>

definition lower_char :: "char \<Rightarrow> char" where
  "lower_char c =
     (if is_AZ c \<or> (192 \<le> code c \<and> code c \<le> 222 \<and> code c \<noteq> 215)
      then char_of (code c + 32) else c)"

definition toLowerCase :: "string \<Rightarrow> string" where
  "toLowerCase s = map lower_char s"

lemma lower_char_idem [simp]: "lower_char (lower_char c) = lower_char c"
proof (cases "is_AZ c \<or> (192 \<le> code c \<and> code c \<le> 222 \<and> code c \<noteq> 215)")
  case True
  then have "code c + 32 < 256" by (auto simp: is_AZ_def)
  then have "code (lower_char c) = code c + 32" using True
    by (simp add: lower_char_def code_char_of)
  with True have "\<not> (is_AZ (lower_char c) \<or>
      (192 \<le> code (lower_char c) \<and> code (lower_char c) \<le> 222 \<and> code (lower_char c) \<noteq> 215))"
    by (auto simp: is_AZ_def)
  then show ?thesis by (subst lower_char_def) auto
next
  case False
  then have "lower_char c = c" by (auto simp: lower_char_def)
  then show ?thesis by simp
qed

lemma toLowerCase_simps [simp]:
  "toLowerCase [] = []" "toLowerCase (c # s) = lower_char c # toLowerCase s"
  "toLowerCase (s @ t) = toLowerCase s @ toLowerCase t"
  "length (toLowerCase s) = length s" "toLowerCase (toLowerCase s) = toLowerCase s"
  by (simp_all add: toLowerCase_def comp_def)

section \<open>Spaces\<close>

text \<open>\<open>replace(/^ +/, "")\<close>, \<open>replace(/ +$/, "")\<close> and \<open>replace(/ +/g, "")\<close>.\<close>

definition strip_leading :: "string \<Rightarrow> string" where
  "strip_leading s = dropWhile (\<lambda>c. c = CHR '' '') s"

definition strip_trailing :: "string \<Rightarrow> string" where
  "strip_trailing s = rev (dropWhile (\<lambda>c. c = CHR '' '') (rev s))"

definition strip_all :: "string \<Rightarrow> string" where
  "strip_all s = filter (\<lambda>c. c \<noteq> CHR '' '') s"

lemma strip_all_Nil_iff: "strip_all s = [] \<longleftrightarrow> strip_leading s = []"
  by (induction s) (auto simp: strip_all_def strip_leading_def)

lemma strip_leading_idem [simp]: "strip_leading (strip_leading s) = strip_leading s"
  by (simp add: strip_leading_def)

section \<open>Searching and cutting\<close>

fun index_from :: "nat \<Rightarrow> string \<Rightarrow> string \<Rightarrow> int" where
  "index_from k [] p = (if p = [] then int k else -1)"
| "index_from k (c # s) p = (if prefix p (c # s) then int k else index_from (Suc k) s p)"

definition indexOf :: "string \<Rightarrow> string \<Rightarrow> int" where
  "indexOf s p = index_from 0 s p"

fun last_index_from :: "nat \<Rightarrow> int \<Rightarrow> char \<Rightarrow> string \<Rightarrow> int" where
  "last_index_from k r c [] = r"
| "last_index_from k r c (d # s) = last_index_from (Suc k) (if d = c then int k else r) c s"

definition lastIndexOf :: "string \<Rightarrow> char \<Rightarrow> int" where
  "lastIndexOf s c = last_index_from 0 (-1) c s"

text \<open>\<open>s.substring(i)\<close> and \<open>s.substring(i, j)\<close>: negative arguments count as 0.\<close>

definition substring :: "string \<Rightarrow> int \<Rightarrow> string" where
  "substring s i = drop (nat i) s"

definition substring2 :: "string \<Rightarrow> int \<Rightarrow> int \<Rightarrow> string" where
  "substring2 s i j = take (nat (max i j) - nat (min i j)) (drop (nat (min i j)) s)"

text \<open>\<open>s.split(c)\<close> for a separator of one code unit: never the empty array.\<close>

fun split_on :: "char \<Rightarrow> string \<Rightarrow> string list" where
  "split_on c [] = [[]]"
| "split_on c (d # s) =
     (if d = c then [] # split_on c s
      else (case split_on c s of [] \<Rightarrow> [[d]] | w # ws \<Rightarrow> (d # w) # ws))"

lemma split_on_nonempty [simp]: "split_on c s \<noteq> []"
  by (cases s) (auto split: list.splits)

lemma split_on_fresh: "c \<notin> set s \<Longrightarrow> split_on c s = [s]"
  by (induction s) auto

lemma split_on_append: "c \<notin> set s \<Longrightarrow> split_on c (s @ c # t) = s # split_on c t"
  by (induction s) auto

lemma index_from_ge: "index_from k s p = -1 \<or> int k \<le> index_from k s p"
  by (induction k s p rule: index_from.induct) auto

lemma index_from_found:
  "index_from k s p = int (k + n) \<Longrightarrow> n \<le> length s \<and> prefix p (drop n s)"
proof (induction k s p arbitrary: n rule: index_from.induct)
  case (1 k p)
  then show ?case by (auto split: if_splits)
next
  case (2 k c s p)
  show ?case
  proof (cases "prefix p (c # s)")
    case True
    with 2 show ?thesis by simp
  next
    case False
    with "2.prems" have eq: "index_from (Suc k) s p = int (k + n)" by simp
    with index_from_ge [of "Suc k" s p] have "0 < n" by auto
    then obtain m where n: "n = Suc m" by (cases n) auto
    with eq "2.IH" [OF False, of m] show ?thesis by simp
  qed
qed

lemma indexOf_char_nth:
  assumes "indexOf s [c] = int n"
  shows "n < length s" and "s ! n = c"
proof -
  from index_from_found [of 0 s "[c]" n] assms
  have "prefix [c] (drop n s)" by (simp add: indexOf_def)
  then obtain t where "drop n s = c # t" by (auto simp: prefix_def)
  then show "n < length s" and "s ! n = c"
    by (metis drop_eq_Nil linorder_not_le list.discI)
       (metis \<open>drop n s = c # t\<close> drop_eq_Nil hd_drop_conv_nth linorder_not_le list.discI list.sel(1))
qed

lemma index_from_char_iff: "index_from k s [c] = -1 \<longleftrightarrow> c \<notin> set s"
proof (induction s arbitrary: k)
  case Nil
  then show ?case by simp
next
  case (Cons d s)
  then show ?case by auto
qed

lemma indexOf_char_iff: "indexOf s [c] = -1 \<longleftrightarrow> c \<notin> set s"
  by (simp add: indexOf_def index_from_char_iff)

lemma indexOf_Nil [simp]: "indexOf s [] = 0"
  by (cases s) (simp_all add: indexOf_def)

lemma indexOf_cases: "indexOf s p = -1 \<or> 0 \<le> indexOf s p"
  using index_from_ge [of 0 s p] by (simp add: indexOf_def)

section \<open>Numbers in base 16, escape and unescape\<close>

definition hex_digit :: "nat \<Rightarrow> char" where
  "hex_digit n = (if n < 10 then char_of (48 + n) else char_of (87 + n))"

definition HEX_digit :: "nat \<Rightarrow> char" where
  "HEX_digit n = (if n < 10 then char_of (48 + n) else char_of (55 + n))"

text \<open>\<open>n.toString(16)\<close> for a non-negative integer.\<close>

fun toString16 :: "nat \<Rightarrow> string" where
  "toString16 n = (if n < 16 then [hex_digit n] else toString16 (n div 16) @ [hex_digit (n mod 16)])"

declare toString16.simps [simp del]

lemma hex_digit_inj: "m < 16 \<Longrightarrow> n < 16 \<Longrightarrow> hex_digit m = hex_digit n \<Longrightarrow> m = n"
proof -
  assume a: "m < 16" "n < 16" "hex_digit m = hex_digit n"
  have c: "code (hex_digit k) = (if k < 10 then 48 + k else 87 + k)" if "k < 16" for k
    using that by (simp add: hex_digit_def code_char_of)
  from a have "code (hex_digit m) = code (hex_digit n)" by simp
  with c [OF a(1)] c [OF a(2)] a(1,2) show ?thesis by (auto split: if_splits)
qed

lemma toString16_small: "n < 16 \<Longrightarrow> toString16 n = [hex_digit n]"
  by (simp add: toString16.simps)

lemma toString16_byte:
  "16 \<le> n \<Longrightarrow> n < 256 \<Longrightarrow> toString16 n = [hex_digit (n div 16), hex_digit (n mod 16)]"
  by (subst toString16.simps) (simp add: toString16_small)

text \<open>The value of a hexadecimal digit, upper or lower case.\<close>

definition hex_value :: "char \<Rightarrow> nat option" where
  "hex_value c =
     (if is_09 c then Some (code c - 48)
      else if 97 \<le> code c \<and> code c \<le> 102 then Some (code c - 87)
      else if 65 \<le> code c \<and> code c \<le> 70 then Some (code c - 55) else None)"

lemma hex_value_HEX: "n < 16 \<Longrightarrow> hex_value (HEX_digit n) = Some n"
proof -
  assume n: "n < 16"
  have "code (HEX_digit n) = (if n < 10 then 48 + n else 55 + n)"
    using n by (simp add: HEX_digit_def code_char_of)
  with n show ?thesis by (auto simp: hex_value_def is_09_def)
qed

definition escape_safe :: "char \<Rightarrow> bool" where
  "escape_safe c \<longleftrightarrow> is_az c \<or> is_AZ c \<or> is_09 c \<or> c \<in> set ''@*_+-./''"

definition escape_char :: "char \<Rightarrow> string" where
  "escape_char c =
     (if escape_safe c then [c]
      else [CHR ''%'', HEX_digit (code c div 16), HEX_digit (code c mod 16)])"

definition js_escape :: "string \<Rightarrow> string" where
  "js_escape s = concat (map escape_char s)"

text \<open>
  \<open>unescape\<close> takes \<open>%XX\<close> and \<open>%uXXXX\<close> where the digits are hexadecimal and leaves every
  other text alone. \<open>None\<close>: a \<open>%uXXXX\<close> names a code unit outside the model's range.
\<close>

fun js_unescape :: "string \<Rightarrow> string option" where
  "js_unescape [] = Some []"
| "js_unescape (c # s) =
     (if c = CHR ''%'' then
        (case s of
           d1 # d2 # s2 \<Rightarrow>
             (case (hex_value d1, hex_value d2) of
                (Some a, Some b) \<Rightarrow> map_option (Cons (char_of (16 * a + b))) (js_unescape s2)
              | _ \<Rightarrow>
                (case s2 of
                   d3 # d4 # d5 # s5 \<Rightarrow>
                     (case (hex_value d2, hex_value d3, hex_value d4, hex_value d5) of
                        (Some h1, Some h2, Some h3, Some h4) \<Rightarrow>
                          if d1 = CHR ''u'' then
                            (if 4096 * h1 + 256 * h2 < 256
                             then map_option (Cons (char_of (16 * h3 + h4))) (js_unescape s5)
                             else None)
                          else map_option (Cons c) (js_unescape s)
                      | _ \<Rightarrow> map_option (Cons c) (js_unescape s))
                 | _ \<Rightarrow> map_option (Cons c) (js_unescape s)))
         | _ \<Rightarrow> map_option (Cons c) (js_unescape s))
      else map_option (Cons c) (js_unescape s))"

declare js_unescape.simps(2) [simp del]

lemma js_unescape_plain: "c \<noteq> CHR ''%'' \<Longrightarrow> js_unescape (c # s) = map_option (Cons c) (js_unescape s)"
  by (simp add: js_unescape.simps(2))

lemma js_unescape_hex:
  "hex_value d1 = Some a \<Longrightarrow> hex_value d2 = Some b \<Longrightarrow>
   js_unescape (CHR ''%'' # d1 # d2 # s) = map_option (Cons (char_of (16 * a + b))) (js_unescape s)"
  by (simp add: js_unescape.simps(2))

lemma escape_safe_not_percent: "escape_safe c \<Longrightarrow> c \<noteq> CHR ''%''"
  by (auto simp: escape_safe_def char_classes code_def)

lemma js_unescape_escape_char:
  "js_unescape (escape_char c @ s) = map_option (Cons c) (js_unescape s)"
proof (cases "escape_safe c")
  case True
  then show ?thesis
    by (simp add: escape_char_def js_unescape_plain escape_safe_not_percent)
next
  case False
  have "code c div 16 < 16" using code_less [of c] by simp
  with False show ?thesis
    by (simp add: escape_char_def js_unescape_hex hex_value_HEX)
qed

section \<open>Decimal numbers\<close>

text \<open>The text a number gets in a string concatenation.\<close>

fun toString10 :: "nat \<Rightarrow> string" where
  "toString10 n = (if n < 10 then [char_of (48 + n)]
     else toString10 (n div 10) @ [char_of (48 + n mod 10)])"

declare toString10.simps [simp del]

definition int_string :: "int \<Rightarrow> string" where
  "int_string i = (if i < 0 then CHR ''-'' # toString10 (nat (- i)) else toString10 (nat i))"

lemma toString10_small: "n < 10 \<Longrightarrow> toString10 n = [char_of (48 + n)]"
  by (simp add: toString10.simps)

lemma toString10_big: "10 \<le> n \<Longrightarrow> toString10 n = toString10 (n div 10) @ [char_of (48 + n mod 10)]"
  by (subst toString10.simps) simp

lemma toString10_Nil [simp]: "toString10 n \<noteq> []" "[] \<noteq> toString10 n"
proof -
  show "toString10 n \<noteq> []" by (cases "n < 10") (simp_all add: toString10_small toString10_big)
  then show "[] \<noteq> toString10 n" by metis
qed

lemma char_of_digit_inj: "(m::nat) < 10 \<Longrightarrow> n < 10 \<Longrightarrow> (char_of (48 + m) :: char) = char_of (48 + n) \<Longrightarrow> m = n"
  using code_char_of [of "48 + m"] code_char_of [of "48 + n"] by simp

lemma set_toString10: "c \<in> set (toString10 n) \<Longrightarrow> is_09 c"
proof (induction n rule: less_induct)
  case (less n)
  show ?case
  proof (cases "n < 10")
    case True
    with less.prems show ?thesis by (simp add: toString10_small is_09_def code_char_of)
  next
    case False
    with less.prems have "c \<in> set (toString10 (n div 10)) \<or> c = char_of (48 + n mod 10)"
      by (auto simp: toString10_big)
    then show ?thesis
    proof
      assume "c \<in> set (toString10 (n div 10))"
      with less.IH [of "n div 10"] False show ?thesis by simp
    qed (simp add: is_09_def code_char_of)
  qed
qed

lemma toString10_inj: "toString10 m = toString10 n \<Longrightarrow> m = n"
proof (induction m arbitrary: n rule: less_induct)
  case (less m)
  show ?case
  proof (cases "m < 10"; cases "n < 10")
    assume "m < 10" "n < 10"
    with less.prems show ?thesis by (auto simp: toString10_small dest: char_of_digit_inj)
  next
    assume a: "\<not> m < 10" "\<not> n < 10"
    with less.prems have "toString10 (m div 10) = toString10 (n div 10)"
      and d: "(char_of (48 + m mod 10) :: char) = char_of (48 + n mod 10)"
      by (simp_all add: toString10_big)
    with less.IH [of "m div 10"] a have "m div 10 = n div 10" by simp
    moreover have "m mod 10 = n mod 10" by (rule char_of_digit_inj [OF _ _ d]) simp_all
    ultimately show ?thesis by (metis div_mult_mod_eq)
  qed (use less.prems in \<open>auto simp: toString10_small toString10_big\<close>)
qed

lemma int_string_inj: "int_string i = int_string j \<longleftrightarrow> i = j"
proof
  have m: "CHR ''-'' \<notin> set (toString10 n)" for n
    by (auto dest!: set_toString10 simp: is_09_def code_def)
  have no: "CHR ''-'' # s \<noteq> toString10 n" for s n
    using m [of n] by (cases "toString10 n") auto
  assume "int_string i = int_string j"
  then show "i = j"
    using no no [symmetric] by (auto simp: int_string_def dest!: toString10_inj split: if_splits)
qed simp

lemma int_string_no_underscore: "CHR ''_'' \<notin> set (int_string i)"
  by (auto simp: int_string_def dest!: set_toString10 simp: is_09_def code_def)

end
