(* ===== verification/SearchText.thy ===== *)
theory SearchText
  imports JsString
begin

text \<open>
  The text functions of \<open>search/search.js\<close>: \<open>convertToId\<close>, which turns a search
  text into the alphabet of element ids, and the comparison of a converted text
  with the id of a result row. \<open>convertToId\<close> and \<open>escape\<close> are both codes in the
  sense of \<open>prefix_code\<close>, so converting preserves and reflects prefixes.
\<close>

section \<open>convertToId\<close>

text \<open>What the loop body of \<open>convertToId\<close> appends for one code unit.\<close>

definition id_char :: "char \<Rightarrow> string" where
  "id_char c =
     (if is_az c \<or> is_09 c \<or> 128 \<le> code c then [c]
      else if code c < 16 then ''_0'' @ toString16 (code c)
      else ''_'' @ toString16 (code c))"

fun convert_loop :: "string \<Rightarrow> string \<Rightarrow> string" where
  "convert_loop result [] = result"
| "convert_loop result (c # search) = convert_loop (result @ id_char c) search"

definition convertToId :: "string \<Rightarrow> string" where
  "convertToId search = convert_loop [] search"

lemma convert_loop_concat: "convert_loop r s = r @ concat (map id_char s)"
  by (induction s arbitrary: r) auto

lemma convertToId_concat: "convertToId s = concat (map id_char s)"
  by (simp add: convertToId_def convert_loop_concat)

definition id_plain :: "char \<Rightarrow> bool" where
  "id_plain c \<longleftrightarrow> is_az c \<or> is_09 c \<or> 128 \<le> code c"

lemma id_char_plain: "id_plain c \<Longrightarrow> id_char c = [c]"
  by (auto simp: id_char_def id_plain_def)

lemma id_char_other:
  assumes "\<not> id_plain c"
  shows "id_char c = [CHR ''_'', hex_digit (code c div 16), hex_digit (code c mod 16)]"
proof -
  from assms have lt: "code c < 128" and n: "\<not> (is_az c \<or> is_09 c \<or> 128 \<le> code c)"
    by (auto simp: id_plain_def)
  have zero: "hex_digit 0 = CHR ''0''" by code_simp
  show ?thesis
  proof (cases "code c < 16")
    case True
    with n show ?thesis by (simp add: id_char_def toString16_small zero)
  next
    case False
    with n lt show ?thesis by (simp add: id_char_def toString16_byte)
  qed
qed

lemma underscore_not_plain: "\<not> id_plain (CHR ''_'')"
  by (simp add: id_plain_def char_classes code_def)

lemma byte_split_inj:
  assumes "(m::nat) div 16 = n div 16" "m mod 16 = n mod 16" shows "m = n"
  using assms by (metis div_mult_mod_eq)

lemma hex_pair_inj:
  assumes "hex_digit (code a div 16) = hex_digit (code b div 16)"
    and "hex_digit (code a mod 16) = hex_digit (code b mod 16)"
  shows "a = b"
proof -
  have "code a div 16 < 16" "code b div 16 < 16"
    using code_less [of a] code_less [of b] by simp_all
  then have "code a div 16 = code b div 16" using assms(1) by (rule hex_digit_inj)
  moreover have "code a mod 16 = code b mod 16"
    by (rule hex_digit_inj) (simp_all add: assms(2))
  ultimately show ?thesis by (metis byte_split_inj code_inj)
qed

lemma id_char_unique: "id_char a @ u = id_char b @ v \<Longrightarrow> a = b"
proof -
  assume eq: "id_char a @ u = id_char b @ v"
  show "a = b"
  proof (cases "id_plain a"; cases "id_plain b")
    assume "\<not> id_plain a" "\<not> id_plain b"
    with eq show ?thesis by (auto simp: id_char_other intro: hex_pair_inj)
  qed (use eq underscore_not_plain in \<open>auto simp: id_char_plain id_char_other\<close>)
qed

interpretation idc: prefix_code id_char
proof unfold_locales
  fix a show "id_char a \<noteq> []"
    by (cases "id_plain a") (simp_all add: id_char_plain id_char_other)
next
  fix a b u v show "id_char a @ u = id_char b @ v \<Longrightarrow> a = b" by (rule id_char_unique)
qed

lemma convertToId_encode: "convertToId s = idc.encode s"
  by (simp add: convertToId_concat idc.encode_def)

lemma HEX_digit_inj: "m < 16 \<Longrightarrow> n < 16 \<Longrightarrow> HEX_digit m = HEX_digit n \<Longrightarrow> m = n"
  by (metis hex_value_HEX option.inject)

lemma HEX_pair_inj:
  assumes "HEX_digit (code a div 16) = HEX_digit (code b div 16)"
    and "HEX_digit (code a mod 16) = HEX_digit (code b mod 16)"
  shows "a = b"
proof -
  have "code a div 16 < 16" "code b div 16 < 16"
    using code_less [of a] code_less [of b] by simp_all
  then have "code a div 16 = code b div 16" using assms(1) by (rule HEX_digit_inj)
  moreover have "code a mod 16 = code b mod 16"
    by (rule HEX_digit_inj) (simp_all add: assms(2))
  ultimately show ?thesis by (metis byte_split_inj code_inj)
qed

lemma escape_char_unique: "escape_char a @ u = escape_char b @ v \<Longrightarrow> a = b"
proof -
  assume eq: "escape_char a @ u = escape_char b @ v"
  show "a = b"
  proof (cases "escape_safe a"; cases "escape_safe b")
    assume n: "\<not> escape_safe a" "\<not> escape_safe b"
    from eq have "HEX_digit (code a div 16) = HEX_digit (code b div 16)"
      and "HEX_digit (code a mod 16) = HEX_digit (code b mod 16)"
      by (simp_all add: escape_char_def n)
    then show ?thesis by (rule HEX_pair_inj)
  qed (use eq escape_safe_not_percent in \<open>auto simp: escape_char_def\<close>)
qed

interpretation esc: prefix_code escape_char
proof unfold_locales
  fix a show "escape_char a \<noteq> []" by (simp add: escape_char_def)
next
  fix a b u v show "escape_char a @ u = escape_char b @ v \<Longrightarrow> a = b"
    by (rule escape_char_unique)
qed

section \<open>Properties of the conversion\<close>

lemma convertToId_prefix: "prefix (convertToId s) (convertToId t) \<longleftrightarrow> prefix s t"
  by (simp add: convertToId_encode idc.encode_prefix_iff)

lemma convertToId_eq_iff: "convertToId s = convertToId t \<longleftrightarrow> s = t"
  by (simp add: convertToId_encode idc.encode_inj)

text \<open>Ids are made of letters, digits, the underscore and code units from 128 up.\<close>

lemma hex_digit_class: "n < 16 \<Longrightarrow> is_09 (hex_digit n) \<or> is_az (hex_digit n)"
  by (auto simp: hex_digit_def is_09_def is_az_def code_char_of)

lemma set_id_char: "c \<in> set (id_char d) \<Longrightarrow> id_plain c \<or> c = CHR ''_''"
proof (cases "id_plain d")
  case False
  have "code d div 16 < 16" using code_less [of d] by simp
  then show "c \<in> set (id_char d) \<Longrightarrow> ?thesis"
    using hex_digit_class [of "code d div 16"] hex_digit_class [of "code d mod 16"]
    by (auto simp: id_char_other [OF False] id_plain_def)
qed (auto simp: id_char_plain)

lemma set_convertToId: "c \<in> set (convertToId s) \<Longrightarrow> id_plain c \<or> c = CHR ''_''"
  by (auto simp: convertToId_concat dest: set_id_char)

lemma convertToId_no_space: "CHR '' '' \<notin> set (convertToId s)"
proof
  assume "CHR '' '' \<in> set (convertToId s)"
  then have "id_plain (CHR '' '')" by (auto dest: set_convertToId)
  then show False by (simp add: id_plain_def char_classes code_def)
qed

lemma lower_char_az: "is_az c \<or> is_09 c \<or> c = CHR ''_'' \<Longrightarrow> lower_char c = c"
  by (auto simp: lower_char_def is_az_def is_AZ_def is_09_def code_def)

text \<open>Lower-casing the id of a lower-case text leaves it alone.\<close>

lemma lower_id_char: "toLowerCase (id_char (lower_char c)) = id_char (lower_char c)"
proof (cases "id_plain (lower_char c)")
  case True
  then show ?thesis by (simp add: id_char_plain)
next
  case False
  have "code (lower_char c) div 16 < 16" using code_less [of "lower_char c"] by simp
  with False hex_digit_class show ?thesis
    by (simp add: id_char_other) (metis hex_digit_class lower_char_az mod_less_divisor
        zero_less_numeral)
qed

lemma lower_concat:
  "(\<And>x. x \<in> set s \<Longrightarrow> toLowerCase (f x) = f x) \<Longrightarrow>
   toLowerCase (concat (map f s)) = concat (map f s)"
  by (induction s) auto

lemma lower_convertToId: "toLowerCase (convertToId (toLowerCase s)) = convertToId (toLowerCase s)"
  unfolding convertToId_concat
  unfolding toLowerCase_def [of s]
  by (rule lower_concat) (auto simp: lower_id_char)

section \<open>The escaped query\<close>

lemma js_unescape_concat: "js_unescape (concat (map escape_char s)) = Some s"
  by (induction s) (simp_all add: js_unescape_escape_char)

lemma query_code:
  "js_unescape (js_escape s) = Some s \<and> (js_escape s = js_escape t \<longleftrightarrow> s = t)"
  using js_unescape_concat [of s] esc.encode_inj [of s t]
  by (simp add: js_escape_def esc.encode_def)

end
