(* ===== verification/SearchData.thy ===== *)
theory SearchData
  imports SearchText
begin

text \<open>
  The generated table \<open>search/searchdata.js\<close>: for every section of the search index the first
  characters that have a page of results, the name used in the page's file name, and the label
  of the selection menu. A JavaScript object with number keys is an association list in the
  order of its enumeration.
\<close>

definition indexSectionsWithContent :: "(nat \<times> string) list" where
  "indexSectionsWithContent =
     [(0, ''_acdefghilmnopqrstuvw''),
      (1, ''_acdehlmnpstuw''),
      (2, ''acdehlmnopqrstu''),
      (3, ''acdeghimnopqrst''),
      (4, ''acdefghilmnoprstvw''),
      (5, ''delos''),
      (6, ''_et''),
      (7, ''et''),
      (8, ''cmpst''),
      (9, ''cenpst''),
      (10, ''clstu'')]"

definition indexSectionNames :: "(nat \<times> string) list" where
  "indexSectionNames =
     [(0, ''all''),
      (1, ''classes''),
      (2, ''files''),
      (3, ''functions''),
      (4, ''variables''),
      (5, ''typedefs''),
      (6, ''enums''),
      (7, ''enumvalues''),
      (8, ''defines''),
      (9, ''groups''),
      (10, ''pages'')]"

definition indexSectionLabels :: "(nat \<times> string) list" where
  "indexSectionLabels =
     [(0, ''All''),
      (1, ''Data Structures''),
      (2, ''Files''),
      (3, ''Functions''),
      (4, ''Variables''),
      (5, ''Typedefs''),
      (6, ''Enumerations''),
      (7, ''Enumerator''),
      (8, ''Macros''),
      (9, ''Modules''),
      (10, ''Pages'')]"

text \<open>\<open>table[i]\<close>: \<open>None\<close> stands for \<open>undefined\<close>.\<close>

definition table_get :: "(nat \<times> string) list \<Rightarrow> int \<Rightarrow> string option" where
  "table_get t i = (if i < 0 then None else map_of t (nat i))"

lemma table_get_defined: "table_get t i \<noteq> None \<longleftrightarrow> 0 \<le> i \<and> nat i \<in> set (map fst t)"
  using map_of_eq_None_iff [of t "nat i"] by (simp add: table_get_def del: not_None_eq)

lemma section_keys: "set (map fst indexSectionsWithContent) = {0..10}"
  "set (map fst indexSectionNames) = {0..10}" "set (map fst indexSectionLabels) = {0..10}"
  by code_simp+

lemma table_get_sections: "table_get indexSectionsWithContent i \<noteq> None \<longleftrightarrow> 0 \<le> i \<and> i \<le> 10"
  unfolding table_get_defined section_keys by auto

lemma table_get_names: "table_get indexSectionNames i \<noteq> None \<longleftrightarrow> 0 \<le> i \<and> i \<le> 10"
  unfolding table_get_defined section_keys by auto

lemma section_chars_distinct: "table_get indexSectionsWithContent i = Some s \<Longrightarrow> distinct s"
proof -
  have d: "\<forall>p \<in> set indexSectionsWithContent. distinct (snd p)" by code_simp
  assume "table_get indexSectionsWithContent i = Some s"
  then have "(nat i, s) \<in> set indexSectionsWithContent"
    by (auto simp: table_get_def dest: map_of_SomeD split: if_splits)
  with d show ?thesis by fastforce
qed

end
