(* ===== verification/Dom.thy ===== *)
theory Dom
  imports SearchText
begin

text \<open>
  The elements of a documentation page as far as \<open>search.js\<close> looks at them: a tree of
  elements with a node name, attributes, the \<open>style.display\<close> value and children. A
  position is the list of child indices from a given element, so \<open>parentNode\<close>,
  \<open>firstChild\<close> and \<open>nextSibling\<close> are functions on positions, and two positions are
  equal exactly when the DOM objects are the same one.
  The theory models \<open>FindChildElement\<close> and the id lookups, and shows that the
  pointer-chasing loop of \<open>FindChildElement\<close> stops and finds the first element of a
  recursive enumeration.
\<close>

section \<open>Elements and positions\<close>

datatype display = DUnset | DNone | DBlock | DInline

datatype elem = Elem (nodeName: string) (attrs: "(string \<times> string) list")
    (disp: display) (kids: "elem list")

definition attr :: "string \<Rightarrow> elem \<Rightarrow> string" where
  "attr k e = (case map_of (attrs e) k of Some v \<Rightarrow> v | None \<Rightarrow> [])"

definition elemId :: "elem \<Rightarrow> string" where
  "elemId e = attr ''id'' e"

definition elemClass :: "elem \<Rightarrow> string" where
  "elemClass e = attr ''class'' e"

definition set_display :: "display \<Rightarrow> elem \<Rightarrow> elem" where
  "set_display d e = Elem (nodeName e) (attrs e) d (kids e)"

type_synonym pos = "nat list"

fun at :: "elem \<Rightarrow> pos \<Rightarrow> elem option" where
  "at e [] = Some e"
| "at e (i # p) = (if i < length (kids e) then at (kids e ! i) p else None)"

fun update_at :: "pos \<Rightarrow> (elem \<Rightarrow> elem) \<Rightarrow> elem \<Rightarrow> elem" where
  "update_at [] f e = f e"
| "update_at (i # p) f e =
     (if i < length (kids e)
      then Elem (nodeName e) (attrs e) (disp e) ((kids e)[i := update_at p f (kids e ! i)])
      else e)"

text \<open>\<open>element.nextSibling\<close>, and whether there is one, below the element \<open>root\<close>.\<close>

definition has_next :: "elem \<Rightarrow> pos \<Rightarrow> bool" where
  "has_next root p \<longleftrightarrow> p \<noteq> [] \<and> at root (butlast p @ [Suc (last p)]) \<noteq> None"

definition next_sibling :: "pos \<Rightarrow> pos" where
  "next_sibling p = butlast p @ [Suc (last p)]"

lemma at_append: "at e (p @ q) = (case at e p of None \<Rightarrow> None | Some x \<Rightarrow> at x q)"
  by (induction e p rule: at.induct) auto

lemma at_snoc: "at e (p @ [i]) =
    (case at e p of None \<Rightarrow> None | Some x \<Rightarrow> if i < length (kids x) then Some (kids x ! i) else None)"
  by (simp add: at_append split: option.splits)

lemma at_update_at:
  "at e p = Some x \<Longrightarrow> at (update_at p f e) p = Some (f x)"
  by (induction p f e rule: update_at.induct) (auto split: if_splits)

lemma nodeName_update_at [simp]:
  "p \<noteq> [] \<Longrightarrow> nodeName (update_at p f e) = nodeName e"
  by (cases p) auto

section \<open>FindChildElement\<close>

definition is_div :: "elem \<Rightarrow> bool" where
  "is_div e \<longleftrightarrow> nodeName e = ''DIV''"

definition is_children_div :: "elem \<Rightarrow> bool" where
  "is_children_div e \<longleftrightarrow> nodeName e = ''DIV'' \<and> elemClass e = ''SRChildren''"

definition hasChildNodes :: "elem \<Rightarrow> bool" where
  "hasChildNodes e \<longleftrightarrow> kids e \<noteq> []"

text \<open>
  The \<open>do ... while\<close> of the last branch: go to the parent until it is \<open>parentElement\<close>
  (the position \<open>[]\<close>) or has a next sibling.
\<close>

function climb :: "elem \<Rightarrow> pos \<Rightarrow> pos" where
  "climb root p = (let q = butlast p in
     if q = [] \<or> has_next root q then q else climb root q)"
  by pat_completeness auto
termination
proof (relation "measure (\<lambda>(root, p). length p)")
  fix root :: elem and p q :: pos
  assume "q = butlast p" "\<not> (q = [] \<or> has_next root q)"
  then show "((root, q), root, p) \<in> measure (\<lambda>(root, p). length p)"
    by (cases p) auto
qed simp

declare climb.simps [simp del]

text \<open>The number of elements from a position on, in document order, the position included.\<close>

fun esize :: "elem \<Rightarrow> nat" and esize_list :: "elem list \<Rightarrow> nat" where
  "esize (Elem n a d ks) = Suc (esize_list ks)"
| "esize_list [] = 0"
| "esize_list (k # ks) = esize k + esize_list ks"

fun todo :: "elem \<Rightarrow> pos \<Rightarrow> nat" where
  "todo e [] = esize e"
| "todo e (i # p) =
     (if i < length (kids e) then todo (kids e ! i) p + esize_list (drop (Suc i) (kids e)) else 0)"

lemma esize_kids: "esize e = Suc (esize_list (kids e))"
  by (cases e) simp

lemma esize_drop: "i < length ks \<Longrightarrow>
    esize_list (drop i ks) = esize (ks ! i) + esize_list (drop (Suc i) ks)"
  by (simp add: Cons_nth_drop_Suc [symmetric])

lemma todo_child:
  "at e p = Some x \<Longrightarrow> kids x \<noteq> [] \<Longrightarrow> todo e (p @ [0]) < todo e p"
proof (induction e p rule: at.induct)
  case (1 e)
  then show ?case by (cases "kids e") (auto simp: esize_kids)
qed (auto split: if_splits)

lemma todo_pos: "at e p \<noteq> None \<Longrightarrow> 0 < todo e p"
  by (induction e p rule: at.induct) (auto simp: esize_kids split: if_splits)

lemma todo_up:
  "at e (b @ [Suc i]) \<noteq> None \<Longrightarrow> at e (b @ i # r) \<noteq> None \<Longrightarrow>
   todo e (b @ [Suc i]) < todo e (b @ i # r)"
proof (induction b arbitrary: e)
  case Nil
  then have "0 < todo (kids e ! i) r" by (auto intro: todo_pos split: if_splits)
  with Nil show ?case by (auto simp: esize_drop split: if_splits)
qed (auto split: if_splits)

lemma climb_cases:
  "climb root p = [] \<or> (has_next root (climb root p) \<and> prefix (climb root p) p)"
proof (induction root p rule: climb.induct)
  case (1 root p)
  show ?case
  proof (cases "butlast p = [] \<or> has_next root (butlast p)")
    case True
    then have "climb root p = butlast p" by (subst climb.simps) (simp add: Let_def)
    moreover have "prefix (butlast p) p" by (cases p rule: rev_cases) auto
    ultimately show ?thesis using True by auto
  next
    case False
    then have eq: "climb root p = climb root (butlast p)"
      by (subst climb.simps) (simp add: Let_def)
    have "prefix q (butlast p) \<Longrightarrow> prefix q p" for q
      by (cases p rule: rev_cases) auto
    with "1.IH" [OF refl False] eq show ?thesis by auto
  qed
qed

lemma has_next_iff: "has_next root (b @ [i]) \<longleftrightarrow> at root (b @ [Suc i]) \<noteq> None"
  by (simp add: has_next_def)

lemma next_sibling_snoc [simp]: "next_sibling (b @ [i]) = b @ [Suc i]"
  by (simp add: next_sibling_def)

lemma todo_climb:
  assumes "at root p \<noteq> None" "prefix q p" "has_next root q"
  shows "todo root (next_sibling q) < todo root p"
proof -
  from assms(3) obtain b i where q: "q = b @ [i]"
    by (cases q rule: rev_cases) (auto simp: has_next_def)
  from assms(2) obtain r where "p = q @ r" by (auto simp: prefix_def)
  with q assms show ?thesis using todo_up [of root b i r] by (simp add: has_next_iff)
qed

text \<open>
  The \<open>while\<close> loop: \<open>p\<close> is the position of \<open>element\<close>; \<open>[]\<close> is \<open>parentElement\<close> itself,
  where the loop ends without a result.
\<close>

function find_child :: "elem \<Rightarrow> pos \<Rightarrow> pos option" where
  "find_child root p =
     (case at root p of
        None \<Rightarrow> None
      | Some e \<Rightarrow>
          if p = [] then None
          else if is_children_div e then Some p
          else if is_div e \<and> hasChildNodes e then find_child root (p @ [0])
          else if has_next root p then find_child root (next_sibling p)
          else (let q = climb root p in
            if q = [] then None else find_child root (next_sibling q)))"
  by pat_completeness auto
termination
proof (relation "measure (\<lambda>(root, p). todo root p)")
  fix root p e
  assume e: "at root p = Some e"
  show "is_div e \<and> hasChildNodes e \<Longrightarrow>
      ((root, p @ [0]), root, p) \<in> measure (\<lambda>(root, p). todo root p)"
    using todo_child [OF e] by (simp add: hasChildNodes_def)
  show "has_next root p \<Longrightarrow>
      ((root, next_sibling p), root, p) \<in> measure (\<lambda>(root, p). todo root p)"
    using todo_climb [of root p p] e by simp
  show "q = climb root p \<Longrightarrow> q \<noteq> [] \<Longrightarrow>
      ((root, next_sibling q), root, p) \<in> measure (\<lambda>(root, p). todo root p)" for q
    using climb_cases [of root p] todo_climb [of root p q] e by auto
qed simp

declare find_child.simps [simp del]

definition FindChildElement :: "elem \<Rightarrow> pos option" where
  "FindChildElement root = (if kids root = [] then None else find_child root [0])"

section \<open>The loop against a recursive enumeration\<close>

text \<open>
  The positions below an element in document order, entering \<open>DIV\<close> elements only:
  what the loop visits if nothing matches.
\<close>

fun below :: "elem \<Rightarrow> pos list" and below_kids :: "nat \<Rightarrow> elem list \<Rightarrow> pos list" where
  "below (Elem n a d ks) = below_kids 0 ks"
| "below_kids i [] = []"
| "below_kids i (k # ks) =
     [i] # (if is_div k then map (Cons i) (below k) else []) @ below_kids (Suc i) ks"

fun after :: "elem \<Rightarrow> pos \<Rightarrow> pos list" where
  "after e [] = []"
| "after e (i # p) =
     map (Cons i) (after (kids e ! i) p) @ below_kids (Suc i) (drop (Suc i) (kids e))"

definition inside :: "elem \<Rightarrow> pos list" where
  "inside e = (if is_div e then below e else [])"

lemma below_eq: "below e = below_kids 0 (kids e)"
  by (cases e) simp

lemma below_kids_nth: "i < length ks \<Longrightarrow> below_kids i (drop i ks) =
    [i] # map (Cons i) (inside (ks ! i)) @ below_kids (Suc i) (drop (Suc i) ks)"
  by (simp add: Cons_nth_drop_Suc [symmetric] inside_def)

lemma after_snoc: "at e b = Some x \<Longrightarrow> i < length (kids x) \<Longrightarrow>
    after e (b @ [i]) = map ((@) b) (below_kids (Suc i) (drop (Suc i) (kids x))) @ after e b"
proof (induction e b rule: at.induct)
  case (1 e)
  have "(@) [] = (\<lambda>p::pos. p)" by auto
  with 1 show ?case by simp
next
  case (2 e j p)
  have "(@) (j # p) = Cons j \<circ> (@) p" by auto
  with 2 show ?case by (simp split: if_splits)
qed

lemma visit_child:
  assumes "at root p = Some e" "kids e \<noteq> []"
  shows "map ((@) p) (below e) @ after root p =
    (p @ [0]) # map ((@) (p @ [0])) (inside (kids e ! 0)) @ after root (p @ [0])"
  using assms by (simp add: below_eq after_snoc below_kids_nth [of 0 "kids e", simplified])

lemma visit_next:
  assumes "has_next root p" "at root p \<noteq> None"
  shows "after root p = next_sibling p #
    map ((@) (next_sibling p)) (inside (the (at root (next_sibling p)))) @ after root (next_sibling p)"
proof -
  from assms(1) obtain b i where p: "p = b @ [i]"
    by (cases p rule: rev_cases) (auto simp: has_next_def)
  with assms obtain x where x: "at root b = Some x" "Suc i < length (kids x)"
    by (auto simp: has_next_def at_snoc split: option.splits if_splits)
  with p show ?thesis by (simp add: after_snoc below_kids_nth at_snoc)
qed

lemma visit_up:
  assumes "\<not> has_next root p" "at root p \<noteq> None"
  shows "after root p = after root (butlast p)"
proof (cases p rule: rev_cases)
  case (snoc b i)
  with assms obtain x where "at root b = Some x" "i < length (kids x)" "\<not> Suc i < length (kids x)"
    by (auto simp: has_next_def at_snoc split: option.splits if_splits)
  with snoc show ?thesis by (simp add: after_snoc)
qed simp

lemma at_butlast: "at root p \<noteq> None \<Longrightarrow> at root (butlast p) \<noteq> None"
  by (cases p rule: rev_cases) (auto simp: at_append split: option.splits)

lemma visit_climb:
  "at root p \<noteq> None \<Longrightarrow> \<not> has_next root p \<Longrightarrow> after root (climb root p) = after root p"
proof (induction root p rule: climb.induct)
  case (1 root p)
  note up = visit_up [OF "1.prems"(2,1)]
  show ?case
  proof (cases "butlast p = [] \<or> has_next root (butlast p)")
    case True
    then show ?thesis using up by (subst climb.simps) (simp add: Let_def)
  next
    case False
    with "1.IH" [OF refl False at_butlast [OF "1.prems"(1)]] up show ?thesis
      by (subst climb.simps) (simp add: Let_def)
  qed
qed

lemma at_climb: "at root p \<noteq> None \<Longrightarrow> at root (climb root p) \<noteq> None"
proof (induction root p rule: climb.induct)
  case (1 root p)
  show ?case
  proof (cases "butlast p = [] \<or> has_next root (butlast p)")
    case True
    then show ?thesis using at_butlast [OF "1.prems"] by (subst climb.simps) (simp add: Let_def)
  next
    case False
    with "1.IH" [OF refl False at_butlast [OF "1.prems"]] show ?thesis
      by (subst climb.simps) (simp add: Let_def)
  qed
qed

definition matches_at :: "elem \<Rightarrow> pos \<Rightarrow> bool" where
  "matches_at root p = (case at root p of None \<Rightarrow> False | Some e \<Rightarrow> is_children_div e)"

lemma matches_at_Some: "at root p = Some e \<Longrightarrow> matches_at root p = is_children_div e"
  by (simp add: matches_at_def)

lemma find_child_enum:
  assumes "at root p = Some e" "p \<noteq> []"
  shows "find_child root p =
    find (matches_at root) (p # map ((@) p) (inside e) @ after root p)"
  using assms
proof (induction root p arbitrary: e rule: find_child.induct)
  case (1 root p)
  note e = "1.prems"(1) and ne = "1.prems"(2)
  show ?case
  proof (cases "is_children_div e")
    case True
    then show ?thesis using e ne by (subst find_child.simps) (simp add: matches_at_Some)
  next
    case nomatch: False
    show ?thesis
    proof (cases "is_div e \<and> hasChildNodes e")
      case True
      then have k: "kids e \<noteq> []" by (simp add: hasChildNodes_def)
      then have "at root (p @ [0]) = Some (kids e ! 0)" using e by (simp add: at_snoc)
      note IH = "1.IH"(1) [OF e ne nomatch True this]
      have "find_child root p = find_child root (p @ [0])"
        using e ne nomatch True by (subst find_child.simps) simp
      also have "\<dots> = find (matches_at root) (map ((@) p) (below e) @ after root p)"
        unfolding visit_child [OF e k] by (rule IH) simp
      finally show ?thesis using True nomatch e by (simp add: matches_at_Some inside_def)
    next
      case nodown: False
      then have i: "inside e = []" by (cases e) (auto simp: inside_def hasChildNodes_def)
      show ?thesis
      proof (cases "has_next root p")
        case True
        then obtain x where x: "at root (next_sibling p) = Some x"
          by (auto simp: has_next_def next_sibling_def)
        from True have "next_sibling p \<noteq> []" by (simp add: next_sibling_def)
        from "1.IH"(2) [OF e ne nomatch nodown True x this] visit_next [OF True] nodown nomatch
          e ne True i x
        show ?thesis by (subst find_child.simps) (auto simp: matches_at_Some)
      next
        case nonext: False
        have after: "after root (climb root p) = after root p"
          using visit_climb [of root p] e nonext by simp
        show ?thesis
        proof (cases "climb root p = []")
          case True
          with after have "after root p = []" by simp
          with True e ne nomatch nodown nonext i show ?thesis
            by (subst find_child.simps) (auto simp: matches_at_Some Let_def)
        next
          case False
          then have hn: "has_next root (climb root p)" using climb_cases [of root p] by blast
          then obtain x where x: "at root (next_sibling (climb root p)) = Some x"
            by (auto simp: has_next_def next_sibling_def)
          have ne': "next_sibling (climb root p) \<noteq> []" by (simp add: next_sibling_def)
          have "at root (climb root p) \<noteq> None" using at_climb [of root p] e by simp
          from "1.IH"(3) [OF e ne nomatch nodown nonext refl False x ne']
            visit_next [OF hn this] after nodown nomatch e ne nonext False i x
          show ?thesis by (subst find_child.simps) (auto simp: matches_at_Some Let_def)
        qed
      qed
    qed
  qed
qed

lemma FindChildElement_enum: "FindChildElement root = find (matches_at root) (below root)"
proof (cases "kids root = []")
  case True
  then show ?thesis by (simp add: FindChildElement_def below_eq)
next
  case False
  have at0: "at root [0] = Some (kids root ! 0)" using False by simp
  have id: "(@) [] = (\<lambda>p::pos. p)" by auto
  from visit_child [of root "[]" root] False
  have "below root = [0] # map ((@) [0]) (inside (kids root ! 0)) @ after root [0]"
    by (simp add: id)
  with find_child_enum [OF at0] False show ?thesis
    by (simp only: FindChildElement_def) simp
qed

text \<open>C30: \<open>FindChildElement\<close> stops on every element tree, and what its pointer-chasing loop
  returns is the first \<open>DIV\<close> of class \<open>SRChildren\<close> in the recursive enumeration of the elements
  below \<open>parentElement\<close> (document order, descending into \<open>DIV\<close> elements only); it returns
  nothing exactly if there is no such element.\<close>

theorem FindChildElement_first:
  "FindChildElement root = find (matches_at root) (below root)"
  by (rule FindChildElement_enum)

end
