(* ===== verification/ResultsPage.thy ===== *)
theory ResultsPage
  imports Dom "HOL-Library.AList"
begin

text \<open>
  The search results page: \<open>createResults\<close> builds one row per entry of the loaded
  \<open>searchData\<close> table below the element \<open>SRResults\<close>, and \<open>SearchResults.Search\<close> shows
  the rows whose id starts with the converted search text and hides the others.
  The tree of this theory is the element \<open>SRResults\<close>; the status elements
  \<open>Searching\<close> and \<open>NoMatches\<close> are fields of the page.
\<close>

section \<open>createResults\<close>

text \<open>
  One entry of \<open>searchData\<close>: \<open>[id, [name, [href, flag, scope], ...]]\<close>.
\<close>

record search_target =
  href :: string
  inParent :: nat
  scope :: string

record search_entry =
  entryId :: string
  entryName :: string
  targets :: "search_target list"

definition createElement :: "string \<Rightarrow> elem" where
  "createElement n = Elem n [] DUnset []"

definition setAttribute :: "string \<Rightarrow> string \<Rightarrow> elem \<Rightarrow> elem" where
  "setAttribute k v e = Elem (nodeName e) (AList.update k v (attrs e)) (disp e) (kids e)"

definition appendChild :: "elem \<Rightarrow> elem \<Rightarrow> elem" where
  "appendChild c e = Elem (nodeName e) (attrs e) (disp e) (kids e @ [c])"

definition text_node :: "string \<Rightarrow> elem" where
  "text_node s = Elem ''#text'' [(''data'', s)] DUnset []"

definition set_innerHTML :: "string \<Rightarrow> elem \<Rightarrow> elem" where
  "set_innerHTML s e = Elem (nodeName e) (attrs e) (disp e) [text_node s]"

definition setKeyActions :: "string \<Rightarrow> elem \<Rightarrow> elem" where
  "setKeyActions action e =
     setAttribute ''onkeyup'' action (setAttribute ''onkeypress'' action
       (setAttribute ''onkeydown'' action e))"

definition setClassAttr :: "string \<Rightarrow> elem \<Rightarrow> elem" where
  "setClassAttr a e = setAttribute ''className'' a (setAttribute ''class'' a e)"

definition nat_string :: "nat \<Rightarrow> string" where
  "nat_string n = int_string (int n)"

definition item_id :: "int \<Rightarrow> string" where
  "item_id i = ''Item'' @ int_string i"

definition child_id :: "int \<Rightarrow> int \<Rightarrow> string" where
  "child_id i c = ''Item'' @ int_string i @ ''_c'' @ int_string c"

text \<open>The link of entry number \<open>e\<close>, before its \<open>href\<close> is set.\<close>

definition mk_link :: "nat \<Rightarrow> search_entry \<Rightarrow> elem" where
  "mk_link e d =
     set_innerHTML (entryName d)
       (setClassAttr ''SRSymbol''
         (setKeyActions (''return searchResults.Nav(event,'' @ nat_string e @ '')'')
           (setAttribute ''id'' (item_id (int e)) (createElement ''A''))))"

text \<open>A single result: the link goes to the target, and a \<open>SPAN\<close> shows the scope.\<close>

definition set_target :: "search_target \<Rightarrow> elem \<Rightarrow> elem" where
  "set_target t e =
     (let e1 = setAttribute ''href'' (href t) e
      in if inParent t \<noteq> 0 then setAttribute ''target'' ''_parent'' e1 else e1)"

definition mk_scope :: "search_target \<Rightarrow> elem" where
  "mk_scope t = set_innerHTML (scope t) (setClassAttr ''SRScope'' (createElement ''SPAN''))"

text \<open>Several results: the link toggles a list of one child link per target.\<close>

definition mk_child :: "nat \<Rightarrow> nat \<Rightarrow> search_target \<Rightarrow> elem" where
  "mk_child e c t =
     set_innerHTML (scope t)
       (set_target t
         (setClassAttr ''SRScope''
           (setKeyActions
             (''return searchResults.NavChild(event,'' @ nat_string e @ '','' @ nat_string c @ '')'')
             (setAttribute ''id'' (child_id (int e) (int c)) (createElement ''A'')))))"

fun add_children :: "nat \<Rightarrow> nat \<Rightarrow> search_target list \<Rightarrow> elem \<Rightarrow> elem" where
  "add_children e c [] srChildren = srChildren"
| "add_children e c (t # ts) srChildren =
     add_children e (Suc c) ts (appendChild (mk_child e c t) srChildren)"

definition mk_entry :: "nat \<Rightarrow> search_entry \<Rightarrow> elem" where
  "mk_entry e d =
     (let srEntry = setClassAttr ''SREntry'' (createElement ''DIV'') in
      case targets d of
        [t] \<Rightarrow> appendChild (mk_scope t) (appendChild (set_target t (mk_link e d)) srEntry)
      | ts \<Rightarrow>
          appendChild (add_children e 0 ts (setClassAttr ''SRChildren'' (createElement ''DIV'')))
            (appendChild
              (setAttribute ''href''
                (''javascript:searchResults.Toggle(\"SR_'' @ entryId d @ ''\")'') (mk_link e d))
              srEntry))"

definition mk_row :: "nat \<Rightarrow> search_entry \<Rightarrow> elem" where
  "mk_row e d =
     appendChild (mk_entry e d)
       (setClassAttr ''SRResult'' (setAttribute ''id'' (''SR_'' @ entryId d) (createElement ''DIV'')))"

text \<open>The loop over \<open>searchData\<close>; \<open>results\<close> is the element \<open>SRResults\<close>.\<close>

fun create_from :: "nat \<Rightarrow> search_entry list \<Rightarrow> elem \<Rightarrow> elem" where
  "create_from e [] results = results"
| "create_from e (d # searchData) results =
     create_from (Suc e) searchData (appendChild (mk_row e d) results)"

definition createResults :: "search_entry list \<Rightarrow> elem \<Rightarrow> elem" where
  "createResults searchData results = create_from 0 searchData results"

text \<open>The element \<open>SRResults\<close> as the page declares it.\<close>

definition empty_results :: elem where
  "empty_results = Elem ''DIV'' [(''id'', ''SRResults'')] DUnset []"

lemma setAttribute_sel [simp]:
  "nodeName (setAttribute k v e) = nodeName e" "disp (setAttribute k v e) = disp e"
  "kids (setAttribute k v e) = kids e"
  "attr k' (setAttribute k v e) = (if k' = k then v else attr k' e)"
  by (simp_all add: setAttribute_def attr_def update_conv')

lemma appendChild_sel [simp]:
  "nodeName (appendChild c e) = nodeName e" "disp (appendChild c e) = disp e"
  "kids (appendChild c e) = kids e @ [c]" "attr k (appendChild c e) = attr k e"
  by (simp_all add: appendChild_def attr_def)

lemma set_innerHTML_sel [simp]:
  "nodeName (set_innerHTML s e) = nodeName e" "disp (set_innerHTML s e) = disp e"
  "kids (set_innerHTML s e) = [text_node s]" "attr k (set_innerHTML s e) = attr k e"
  by (simp_all add: set_innerHTML_def attr_def)

lemma createElement_sel [simp]:
  "nodeName (createElement n) = n" "disp (createElement n) = DUnset"
  "kids (createElement n) = []" "attr k (createElement n) = []"
  by (simp_all add: createElement_def attr_def)

lemma text_node_sel [simp]:
  "nodeName (text_node s) = ''#text''" "kids (text_node s) = []"
  "elemId (text_node s) = []" "elemClass (text_node s) = []"
  by (simp_all add: text_node_def elemId_def elemClass_def attr_def)

lemma set_target_sel [simp]:
  "nodeName (set_target t e) = nodeName e" "kids (set_target t e) = kids e"
  "elemId (set_target t e) = elemId e" "elemClass (set_target t e) = elemClass e"
  by (simp_all add: set_target_def Let_def elemId_def elemClass_def)

lemma kids_add_children:
  "kids (add_children e c ts x) = kids x @ map (\<lambda>i. mk_child e (c + i) (ts ! i)) [0..<length ts]"
proof (induction ts arbitrary: c x)
  case (Cons t ts)
  have "map (\<lambda>i. mk_child e (c + i) ((t # ts) ! i)) [0..<length (t # ts)] =
      mk_child e c t # map (\<lambda>i. mk_child e (Suc c + i) (ts ! i)) [0..<length ts]"
    by (simp add: map_upt_Suc del: upt_Suc)
  with Cons show ?case by simp
qed simp

lemma add_children_sel [simp]:
  "nodeName (add_children e c ts x) = nodeName x" "attr k (add_children e c ts x) = attr k x"
  by (induction ts arbitrary: c x) auto

lemma kids_create_from:
  "kids (create_from e ds r) = kids r @ map (\<lambda>i. mk_row (e + i) (ds ! i)) [0..<length ds]"
proof (induction ds arbitrary: e r)
  case (Cons d ds)
  have "map (\<lambda>i. mk_row (e + i) ((d # ds) ! i)) [0..<length (d # ds)] =
      mk_row e d # map (\<lambda>i. mk_row (Suc e + i) (ds ! i)) [0..<length ds]"
    by (simp add: map_upt_Suc del: upt_Suc)
  with Cons show ?case by simp
qed simp

lemma kids_createResults:
  "kids (createResults ds empty_results) = map (\<lambda>i. mk_row i (ds ! i)) [0..<length ds]"
  by (simp add: createResults_def kids_create_from empty_results_def)

lemma mk_row_sel [simp]:
  "nodeName (mk_row e d) = ''DIV''" "elemId (mk_row e d) = ''SR_'' @ entryId d"
  "elemClass (mk_row e d) = ''SRResult''" "kids (mk_row e d) = [mk_entry e d]"
  "disp (mk_row e d) = DUnset"
  by (simp_all add: mk_row_def setClassAttr_def elemId_def elemClass_def)

lemma mk_entry_sel [simp]:
  "nodeName (mk_entry e d) = ''DIV''" "elemId (mk_entry e d) = []"
  "elemClass (mk_entry e d) = ''SREntry''" "length (kids (mk_entry e d)) = 2"
  by (auto simp: mk_entry_def Let_def setClassAttr_def elemId_def elemClass_def split: list.splits)

lemma mk_link_sel [simp]:
  "nodeName (mk_link e d) = ''A''" "elemId (mk_link e d) = item_id (int e)"
  "kids (mk_link e d) = [text_node (entryName d)]"
  by (simp_all add: mk_link_def setClassAttr_def setKeyActions_def elemId_def)

lemma mk_child_sel [simp]:
  "nodeName (mk_child e c t) = ''A''" "elemId (mk_child e c t) = child_id (int e) (int c)"
  "kids (mk_child e c t) = [text_node (scope t)]"
  by (simp_all add: mk_child_def setClassAttr_def setKeyActions_def set_target_def Let_def elemId_def)

end
