(* ===== verification/SearchResults.thy ===== *)
theory SearchResults
  imports ResultsPage
begin

text \<open>
  The class \<open>SearchResults\<close> of \<open>search.js\<close>: id lookup, the filter loop \<open>Search\<close>, the
  toggling of child lists and the keyboard navigation (\<open>NavNext\<close>, \<open>NavPrev\<close>,
  \<open>ProcessKeys\<close>, \<open>Nav\<close>, \<open>NavChild\<close>).
\<close>

section \<open>Document order and getElementById\<close>

fun doc_order :: "elem \<Rightarrow> pos list" and doc_kids :: "nat \<Rightarrow> elem list \<Rightarrow> pos list" where
  "doc_order (Elem n a d ks) = doc_kids 0 ks"
| "doc_kids i [] = []"
| "doc_kids i (k # ks) = [i] # map (Cons i) (doc_order k) @ doc_kids (Suc i) ks"

definition id_at :: "elem \<Rightarrow> pos \<Rightarrow> string option" where
  "id_at root p = map_option elemId (at root p)"

text \<open>\<open>document.getElementById(x)\<close>; the empty id names no element.\<close>

definition getElementById :: "elem \<Rightarrow> string \<Rightarrow> pos option" where
  "getElementById root x = (if x = [] then None else find (\<lambda>p. id_at root p = Some x) (doc_order root))"

lemma doc_order_eq: "doc_order e = doc_kids 0 (kids e)"
  by (cases e) simp

lemma doc_kids_Cons_iff:
  "(\<exists>j q. p = (i + j) # q \<and> j < length (k # ks) \<and> at ((k # ks) ! j) q \<noteq> None) \<longleftrightarrow>
     (\<exists>q. p = i # q \<and> at k q \<noteq> None) \<or>
     (\<exists>j q. p = (Suc i + j) # q \<and> j < length ks \<and> at (ks ! j) q \<noteq> None)" (is "?L \<longleftrightarrow> ?A \<or> ?B")
proof
  assume ?L
  then obtain j q where j: "p = (i + j) # q" "j < length (k # ks)" "at ((k # ks) ! j) q \<noteq> None"
    by blast
  then show "?A \<or> ?B" by (cases j) auto
next
  assume "?A \<or> ?B"
  then show ?L
  proof
    assume ?A then show ?L by force
  next
    assume ?B
    then obtain j q where "p = (Suc i + j) # q" "j < length ks" "at (ks ! j) q \<noteq> None" by blast
    then show ?L by (intro exI [of _ "Suc j"] exI [of _ q]) simp
  qed
qed

lemma set_doc:
  "p \<in> set (doc_order e) \<longleftrightarrow> p \<noteq> [] \<and> at e p \<noteq> None"
  "r \<in> set (doc_kids i ks) \<longleftrightarrow> (\<exists>j q. r = (i + j) # q \<and> j < length ks \<and> at (ks ! j) q \<noteq> None)"
proof (induction e and i ks arbitrary: p and r rule: doc_order_doc_kids.induct)
  case (1 n a d ks)
  then show ?case by (cases p) auto
next
  case (3 i k ks)
  have "r \<in> set ([i] # map (Cons i) (doc_order k)) \<longleftrightarrow> (\<exists>q. r = i # q \<and> at k q \<noteq> None)"
    using 3(1) by (cases r) (auto simp: image_iff)
  then show ?case
    unfolding doc_kids_Cons_iff 3(2) [symmetric] by auto
qed simp

lemmas set_doc_order = set_doc(1)

lemma finite_doc: "finite {p. at e p \<noteq> None}"
proof -
  have "{p. at e p \<noteq> None} \<subseteq> insert [] (set (doc_order e))" by (auto simp: set_doc_order)
  then show ?thesis by (rule finite_subset) simp
qed

lemma find_unique:
  assumes "x \<in> set xs" "P x" "\<And>y. y \<in> set xs \<Longrightarrow> P y \<Longrightarrow> y = x"
  shows "find P xs = Some x"
proof (cases "find P xs")
  case None
  with assms(1,2) show ?thesis by (simp add: find_None_iff)
next
  case (Some y)
  with find_in [OF Some] assms(3) show ?thesis by simp
qed

lemma getElementById_SomeD:
  "getElementById root x = Some p \<Longrightarrow> x \<noteq> [] \<and> p \<noteq> [] \<and> id_at root p = Some x"
  by (auto simp: getElementById_def set_doc_order dest!: find_in split: if_splits)

lemma getElementById_at: "getElementById root x = Some p \<Longrightarrow> at root p \<noteq> None"
  by (auto dest!: getElementById_SomeD simp: id_at_def)

lemma getElementById_unique:
  assumes "x \<noteq> []" "p \<noteq> []" "id_at root p = Some x"
    and "\<And>q. q \<noteq> [] \<Longrightarrow> id_at root q = Some x \<Longrightarrow> q = p"
  shows "getElementById root x = Some p"
proof -
  have "p \<in> set (doc_order root)" using assms(2,3) by (auto simp: set_doc_order id_at_def)
  then have "find (\<lambda>p. id_at root p = Some x) (doc_order root) = Some p"
    by (rule find_unique) (auto simp: assms set_doc_order)
  with assms(1) show ?thesis by (simp add: getElementById_def)
qed

lemma getElementById_NoneI:
  "(\<And>q. q \<noteq> [] \<Longrightarrow> id_at root q \<noteq> Some x) \<Longrightarrow> getElementById root x = None"
  by (auto simp: getElementById_def find_None_iff set_doc_order)

text \<open>Finitely many elements carry finitely many ids.\<close>

lemma finite_named:
  assumes "inj f" shows "finite {k. getElementById root (f k) \<noteq> None}"
proof (rule finite_imageD)
  let ?S = "{k. getElementById root (f k) \<noteq> None}"
  let ?g = "\<lambda>k. the (getElementById root (f k))"
  show "finite (?g ` ?S)"
  proof (rule finite_subset [OF _ finite_doc [of root]])
    show "?g ` ?S \<subseteq> {p. at root p \<noteq> None}"
      using getElementById_at by fastforce
  qed
  show "inj_on ?g ?S"
  proof (rule inj_onI)
    fix j k assume jk: "j \<in> ?S" "k \<in> ?S" "?g j = ?g k"
    then obtain p where "getElementById root (f j) = Some p" "getElementById root (f k) = Some p"
      by auto
    then have "f j = f k" by (auto dest!: getElementById_SomeD)
    with assms show "j = k" by (simp add: inj_def)
  qed
qed

section \<open>Changing a style\<close>

definition info :: "elem \<Rightarrow> pos \<Rightarrow> (string \<times> (string \<times> string) list \<times> nat) option" where
  "info e p = map_option (\<lambda>x. (nodeName x, attrs x, length (kids x))) (at e p)"

definition disp_at :: "elem \<Rightarrow> pos \<Rightarrow> display option" where
  "disp_at e p = map_option disp (at e p)"

lemma set_display_sel [simp]:
  "nodeName (set_display d e) = nodeName e" "attrs (set_display d e) = attrs e"
  "kids (set_display d e) = kids e" "disp (set_display d e) = d"
  by (simp_all add: set_display_def)

lemma info_update_at: "info (update_at q (set_display d) e) p = info e p"
proof (induction q "set_display d" e arbitrary: p rule: update_at.induct)
  case (1 e)
  then show ?case by (cases p) (auto simp: info_def)
next
  case (2 i q e)
  then show ?case by (cases p) (auto simp: info_def nth_list_update split: if_splits)
qed

lemma disp_update_at:
  "disp_at (update_at q (set_display d) e) p =
     (if p = q \<and> at e q \<noteq> None then Some d else disp_at e p)"
proof (induction q "set_display d" e arbitrary: p rule: update_at.induct)
  case (1 e)
  then show ?case by (cases p) (auto simp: disp_at_def)
next
  case (2 i q e)
  show ?case
  proof (cases p)
    case Nil
    then show ?thesis by (simp add: disp_at_def)
  next
    case (Cons j r)
    with 2 [of r] show ?thesis by (auto simp: disp_at_def nth_list_update)
  qed
qed

lemma attr_cong: "attrs x = attrs y \<Longrightarrow> attr k x = attr k y"
  by (simp add: attr_def)

lemma info_idD: "info e p = info f p \<Longrightarrow> id_at e p = id_at f p"
  by (auto simp: info_def id_at_def elemId_def map_option_case attr_def split: option.splits)

lemma info_at_None: "info e p = info f p \<Longrightarrow> at e p = None \<longleftrightarrow> at f p = None"
  by (auto simp: info_def map_option_case split: option.splits)

lemma doc_kids_cong:
  "length ks = length ls \<Longrightarrow> (\<And>j. j < length ks \<Longrightarrow> doc_order (ks ! j) = doc_order (ls ! j)) \<Longrightarrow>
   doc_kids i ks = doc_kids i ls"
proof (induction ks ls arbitrary: i rule: list_induct2)
  case (Cons k ks l ls)
  from Cons.prems [of 0] have "doc_order k = doc_order l" by simp
  moreover have "doc_kids (Suc i) ks = doc_kids (Suc i) ls"
  proof (rule Cons.IH)
    fix j assume "j < length ks"
    with Cons.prems [of "Suc j"] show "doc_order (ks ! j) = doc_order (ls ! j)" by simp
  qed
  ultimately show ?case by simp
qed simp

lemma doc_order_info: "(\<And>p. info e p = info f p) \<Longrightarrow> doc_order e = doc_order f"
proof (induction e arbitrary: f)
  case (Elem n a d ks)
  from Elem.prems [of "[]"] have len: "length ks = length (kids f)" by (simp add: info_def)
  have "doc_kids 0 ks = doc_kids 0 (kids f)"
  proof (rule doc_kids_cong [OF len])
    fix j assume j: "j < length ks"
    show "doc_order (ks ! j) = doc_order (kids f ! j)"
    proof (rule Elem.IH)
      show "ks ! j \<in> set ks" using j by simp
      fix p from Elem.prems [of "j # p"] j len show "info (ks ! j) p = info (kids f ! j) p"
        by (simp add: info_def)
    qed
  qed
  then show ?case by (simp add: doc_order_eq [of f])
qed

lemma getElementById_info:
  "(\<And>p. info e p = info f p) \<Longrightarrow> getElementById e x = getElementById f x"
  using doc_order_info [of e f] info_idD [of e _ f] by (simp add: getElementById_def)

section \<open>The page and its filter\<close>

datatype parent_call = CloseResultsWindow | FocusSearchField

record results_page =
  body :: elem
  searchingDisplay :: display
  noMatchesDisplay :: display
  focused :: string
  lastMatchCount :: nat
  lastKey :: nat
  repeatOn :: bool
  parentLog :: "parent_call list"

text \<open>\<open>replace(/^sr\d*_/, '')\<close>.\<close>

definition strip_sr :: "string \<Rightarrow> string" where
  "strip_sr s =
     (if prefix ''sr'' s
      then (case dropWhile is_09 (drop 2 s) of
              c # t \<Rightarrow> if c = CHR ''_'' then t else s
            | [] \<Rightarrow> s)
      else s)"

definition is_row :: "elem \<Rightarrow> bool" where
  "is_row e \<longleftrightarrow> elemClass e = ''SRResult''"

definition row_matches :: "string \<Rightarrow> elem \<Rightarrow> bool" where
  "row_matches search e =
     (let rowMatchName = strip_sr (toLowerCase (elemId e))
      in length search \<le> length rowMatchName \<and> take (length search) rowMatchName = search)"

text \<open>\<open>document.getElementsByTagName("div")\<close>, in document order.\<close>

definition divs :: "elem \<Rightarrow> pos list" where
  "divs root = filter (\<lambda>p. case at root p of None \<Rightarrow> False | Some e \<Rightarrow> is_div e) (doc_order root)"

fun filter_rows :: "string \<Rightarrow> pos list \<Rightarrow> elem \<Rightarrow> nat \<Rightarrow> elem \<times> nat" where
  "filter_rows search [] doc matches = (doc, matches)"
| "filter_rows search (p # rows) doc matches =
     (case at doc p of
        None \<Rightarrow> filter_rows search rows doc matches
      | Some row \<Rightarrow>
          if is_row row then
            (if row_matches search row
             then filter_rows search rows (update_at p (set_display DBlock) doc) (Suc matches)
             else filter_rows search rows (update_at p (set_display DNone) doc) matches)
          else filter_rows search rows doc matches)"

definition normalize_search :: "string \<Rightarrow> string" where
  "normalize_search s = convertToId (toLowerCase (strip_trailing (strip_leading s)))"

text \<open>The search word: the argument, or the query of the page's address.\<close>

definition search_word :: "string \<Rightarrow> string \<Rightarrow> string option" where
  "search_word search locationSearch =
     (if search = [] then js_unescape (substring locationSearch 1) else Some search)"

definition Search :: "results_page \<Rightarrow> string \<Rightarrow> string \<Rightarrow> js_error + (results_page \<times> bool)" where
  "Search pg search locationSearch =
     (case search_word search locationSearch of
        None \<Rightarrow> Inl OutsideModel
      | Some s \<Rightarrow>
          let (doc, matches) = filter_rows (normalize_search s) (divs (body pg)) (body pg) 0
          in Inr (pg\<lparr>body := doc, searchingDisplay := DNone,
                     noMatchesDisplay := (if matches = 0 then DBlock else DNone),
                     lastMatchCount := matches\<rparr>, True))"

text \<open>\<open>Toggle(id)\<close>; \<open>None\<close> for an id that names no element.\<close>

definition child_element :: "elem \<Rightarrow> string \<Rightarrow> js_error + pos option" where
  "child_element root x =
     (case getElementById root x of
        None \<Rightarrow> Inl TypeError
      | Some p \<Rightarrow>
          (case at root p of
             None \<Rightarrow> Inl TypeError
           | Some e \<Rightarrow> Inr (map_option (\<lambda>q. p @ q) (FindChildElement e))))"

definition Toggle :: "results_page \<Rightarrow> string \<Rightarrow> js_error + results_page" where
  "Toggle pg x =
     (case child_element (body pg) x of
        Inl err \<Rightarrow> Inl err
      | Inr None \<Rightarrow> Inr pg
      | Inr (Some p) \<Rightarrow>
          if disp_at (body pg) p = Some DBlock
          then Inr (pg\<lparr>body := update_at p (set_display DNone) (body pg)\<rparr>)
          else Inr (pg\<lparr>body := update_at p (set_display DBlock) (body pg)\<rparr>))"

section \<open>What the filter does\<close>

lemma row_matches_prefix:
  "row_matches search e \<longleftrightarrow> prefix search (strip_sr (toLowerCase (elemId e)))"
  by (simp add: row_matches_def prefix_iff_take Let_def)

lemma row_props_cong:
  "map_option attrs (at e p) = map_option attrs (at f p) \<Longrightarrow> at e p = Some x \<Longrightarrow> at f p = Some y \<Longrightarrow>
   is_row x = is_row y \<and> row_matches s x = row_matches s y"
  by (simp add: is_row_def row_matches_def elemId_def elemClass_def attr_def)

lemma info_attrs: "info e p = info f p \<Longrightarrow> map_option attrs (at e p) = map_option attrs (at f p)"
  by (auto simp: info_def map_option_case split: option.splits)

lemma filter_rows_info: "info (fst (filter_rows s ps doc m)) p = info doc p"
  by (induction s ps doc m rule: filter_rows.induct)
     (auto simp: info_update_at split: option.splits)

text \<open>A row matches in a changed tree exactly if it matched in the tree the loop started with.\<close>

definition row_test :: "string \<Rightarrow> elem \<Rightarrow> pos \<Rightarrow> bool option" where
  "row_test s e p = (case at e p of None \<Rightarrow> None
     | Some x \<Rightarrow> if is_row x then Some (row_matches s x) else None)"

lemma row_test_info: "info e p = info f p \<Longrightarrow> row_test s e p = row_test s f p"
  using row_props_cong [OF info_attrs, of e p f] info_at_None [of e p f]
  by (auto simp: row_test_def split: option.splits)

lemma row_test_update [simp]: "row_test s (update_at q (set_display d) e) p = row_test s e p"
  by (rule row_test_info) (simp add: info_update_at)

lemma filter_rows_step:
  "filter_rows s (p # ps) doc m =
     (case row_test s doc p of
        None \<Rightarrow> filter_rows s ps doc m
      | Some True \<Rightarrow> filter_rows s ps (update_at p (set_display DBlock) doc) (Suc m)
      | Some False \<Rightarrow> filter_rows s ps (update_at p (set_display DNone) doc) m)"
  by (auto simp: row_test_def split: option.splits)

declare filter_rows.simps(2) [simp del]

lemma disp_at_None_iff: "disp_at e p = None \<longleftrightarrow> at e p = None"
  by (simp add: disp_at_def)

lemma row_test_at: "row_test s e p = Some b \<Longrightarrow> at e p \<noteq> None"
  by (auto simp: row_test_def split: option.splits)

lemma filter_rows_disp:
  "distinct ps \<Longrightarrow> disp_at (fst (filter_rows s ps doc m)) p =
     (if p \<in> set ps
      then (case row_test s doc p of None \<Rightarrow> disp_at doc p
            | Some True \<Rightarrow> Some DBlock | Some False \<Rightarrow> Some DNone)
      else disp_at doc p)"
proof (induction ps arbitrary: doc m)
  case (Cons q ps)
  show ?case
  proof (cases "row_test s doc q")
    case None
    with Cons show ?thesis by (auto simp: filter_rows_step)
  next
    case (Some b)
    have "at doc q \<noteq> None" using Some by (rule row_test_at)
    with Some Cons show ?thesis
      by (cases b) (auto simp: filter_rows_step disp_update_at split: option.splits bool.splits)
  qed
qed simp

lemma filter_rows_count:
  "snd (filter_rows s ps doc m) = m + length (filter (\<lambda>p. row_test s doc p = Some True) ps)"
proof (induction ps arbitrary: doc m)
  case (Cons q ps)
  show ?case
  proof (cases "row_test s doc q")
    case None
    with Cons show ?thesis by (auto simp: filter_rows_step)
  next
    case (Some b)
    with Cons show ?thesis by (cases b) (auto simp: filter_rows_step)
  qed
qed simp

lemma distinct_doc: "distinct (doc_order e)" "distinct (doc_kids i ks)"
proof (induction e and i ks rule: doc_order_doc_kids.induct)
  case (3 i k ks)
  have "set ([i] # map (Cons i) (doc_order k)) \<inter> set (doc_kids (Suc i) ks) = {}"
    by (auto simp: set_doc)
  with 3 show ?case by (auto simp: distinct_map set_doc inj_on_def)
qed auto

lemma distinct_divs: "distinct (divs e)"
  by (simp add: divs_def distinct_doc)

section \<open>Pages that createResults built\<close>

definition entry_link :: "nat \<Rightarrow> search_entry \<Rightarrow> elem" where
  "entry_link e d = kids (mk_entry e d) ! 0"

definition entry_rest :: "nat \<Rightarrow> search_entry \<Rightarrow> elem" where
  "entry_rest e d = kids (mk_entry e d) ! 1"

lemma kids_mk_entry: "kids (mk_entry e d) = [entry_link e d, entry_rest e d]"
proof -
  have two: "length xs = 2 \<Longrightarrow> xs = [xs ! 0, xs ! 1]" for xs :: "elem list"
    by (cases xs; cases "tl xs") auto
  show ?thesis unfolding entry_link_def entry_rest_def by (rule two) simp
qed

lemma entry_link_sel [simp]:
  "nodeName (entry_link e d) = ''A''" "elemId (entry_link e d) = item_id (int e)"
  "kids (entry_link e d) = [text_node (entryName d)]"
  using mk_link_sel [of e d]
  by (auto simp: entry_link_def mk_entry_def Let_def setClassAttr_def elemId_def set_target_def
      split: list.splits)

lemma entry_rest_cases:
  "(\<exists>t. targets d = [t] \<and> entry_rest e d = mk_scope t) \<or>
   (length (targets d) \<noteq> 1 \<and> nodeName (entry_rest e d) = ''DIV'' \<and>
    elemClass (entry_rest e d) = ''SRChildren'' \<and> elemId (entry_rest e d) = [] \<and>
    kids (entry_rest e d) = map (\<lambda>i. mk_child e i (targets d ! i)) [0..<length (targets d)])"
  by (auto simp: entry_rest_def mk_entry_def Let_def setClassAttr_def elemId_def elemClass_def
      kids_add_children nth_append simp del: upt_Suc add_children.simps split: list.splits)

lemma mk_scope_sel [simp]:
  "nodeName (mk_scope t) = ''SPAN''" "elemId (mk_scope t) = []" "kids (mk_scope t) = [text_node (scope t)]"
  by (simp_all add: mk_scope_def setClassAttr_def elemId_def)

text \<open>The elements of the second part of an entry: no \<open>DIV\<close> below it, ids of children only.\<close>

lemma at_leaf: "at x q = Some y \<Longrightarrow> kids x = [] \<Longrightarrow> q = [] \<and> y = x"
  by (cases q) auto

lemma at_text_child: "at x q = Some y \<Longrightarrow> kids x = [text_node s] \<Longrightarrow>
    (q = [] \<and> y = x) \<or> (q = [0] \<and> y = text_node s)"
proof (cases q)
  case (Cons i r)
  then show "at x q = Some y \<Longrightarrow> kids x = [text_node s] \<Longrightarrow> ?thesis"
    by (auto dest: at_leaf split: if_splits)
qed auto

lemma at_entry_rest:
  assumes "at (entry_rest e d) q = Some x"
  shows "elemId x = [] \<or> (\<exists>c < length (targets d). q = [c] \<and> length (targets d) \<noteq> 1 \<and>
      elemId x = child_id (int e) (int c))"
    and "is_div x \<Longrightarrow> q = [] \<and> elemClass x = ''SRChildren''"
proof -
  have "(elemId x = [] \<or> (\<exists>c < length (targets d). q = [c] \<and> length (targets d) \<noteq> 1 \<and>
      elemId x = child_id (int e) (int c))) \<and> (is_div x \<longrightarrow> q = [] \<and> elemClass x = ''SRChildren'')"
    using entry_rest_cases [of d e]
  proof
    assume "\<exists>t. targets d = [t] \<and> entry_rest e d = mk_scope t"
    with assms show ?thesis by (auto dest!: at_text_child simp: is_div_def)
  next
    assume r: "length (targets d) \<noteq> 1 \<and> nodeName (entry_rest e d) = ''DIV'' \<and>
      elemClass (entry_rest e d) = ''SRChildren'' \<and> elemId (entry_rest e d) = [] \<and>
      kids (entry_rest e d) = map (\<lambda>i. mk_child e i (targets d ! i)) [0..<length (targets d)]"
    show ?thesis
    proof (cases q)
      case Nil
      with assms r show ?thesis by auto
    next
      case (Cons c q')
      with assms r have "c < length (targets d)" and x: "at (mk_child e c (targets d ! c)) q' = Some x"
        by (auto split: if_splits)
      with at_text_child [OF x mk_child_sel(3)] Cons r show ?thesis by (auto simp: is_div_def)
    qed
  qed
  then show "elemId x = [] \<or> (\<exists>c < length (targets d). q = [c] \<and> length (targets d) \<noteq> 1 \<and>
      elemId x = child_id (int e) (int c))"
    and "is_div x \<Longrightarrow> q = [] \<and> elemClass x = ''SRChildren''" by auto
qed

abbreviation created :: "search_entry list \<Rightarrow> elem" where
  "created ds \<equiv> createResults ds empty_results"

text \<open>Every element of a created page: a row, its entry, the link (and its text), or the rest.\<close>

lemma created_cases:
  assumes "at (created ds) p = Some x" "p \<noteq> []"
  obtains (row) e where "e < length ds" "p = [e]" "x = mk_row e (ds ! e)"
    | (entry) e where "e < length ds" "p = [e, 0]" "x = mk_entry e (ds ! e)"
    | (link) e where "e < length ds" "p = [e, 0, 0]" "x = entry_link e (ds ! e)"
    | (label) e where "e < length ds" "p = [e, 0, 0, 0]" "x = text_node (entryName (ds ! e))"
    | (rest) e q where "e < length ds" "p = [e, 0, 1] @ q" "at (entry_rest e (ds ! e)) q = Some x"
proof -
  from assms obtain e p1 where p1: "p = e # p1" by (cases p) auto
  with assms have e: "e < length ds" and x1: "at (mk_row e (ds ! e)) p1 = Some x"
    by (auto simp: kids_createResults split: if_splits)
  show thesis
  proof (cases p1)
    case Nil
    with row e p1 x1 show thesis by auto
  next
    case (Cons i p2)
    with x1 have i: "i = 0" and x2: "at (mk_entry e (ds ! e)) p2 = Some x"
      by (auto split: if_splits)
    show thesis
    proof (cases p2)
      case Nil
      with entry e p1 Cons i x2 show thesis by auto
    next
      case (Cons j p3)
      from x2 Cons have "j = 0 \<or> j = 1" by (auto simp: kids_mk_entry split: if_splits)
      then show thesis
      proof
        assume j: "j = 0"
        with x2 Cons have "at (entry_link e (ds ! e)) p3 = Some x" by (simp add: kids_mk_entry)
        from at_text_child [OF this entry_link_sel(3)] show thesis
          using link [OF e] label [OF e] p1 \<open>p1 = i # p2\<close> Cons i j by auto
      next
        assume j: "j = 1"
        with x2 Cons have "at (entry_rest e (ds ! e)) p3 = Some x" by (simp add: kids_mk_entry)
        with rest [OF e, of p3] p1 \<open>p1 = i # p2\<close> Cons i j show thesis by simp
      qed
    qed
  qed
qed

lemma at_created:
  assumes "e < length ds"
  shows "at (created ds) [e] = Some (mk_row e (ds ! e))"
    and "at (created ds) [e, 0] = Some (mk_entry e (ds ! e))"
    and "at (created ds) [e, 0, 0] = Some (entry_link e (ds ! e))"
    and "at (created ds) (e # 0 # Suc 0 # q) = at (entry_rest e (ds ! e)) q"
  using assms by (simp_all add: kids_createResults kids_mk_entry)

lemma item_id_inj [simp]: "item_id i = item_id j \<longleftrightarrow> i = j"
  by (simp add: item_id_def int_string_inj)

lemma item_not_child [simp]: "item_id i \<noteq> child_id j c" "child_id j c \<noteq> item_id i"
proof -
  have "CHR ''_'' \<notin> set (item_id i)" "CHR ''_'' \<in> set (child_id j c)"
    using int_string_no_underscore [of i] by (auto simp: item_id_def child_id_def)
  then show "item_id i \<noteq> child_id j c" by metis
  then show "child_id j c \<noteq> item_id i" by metis
qed

lemma item_id_nonempty [simp]: "item_id i \<noteq> []" "[] \<noteq> item_id i" "item_id i \<noteq> CHR ''S'' # s"
    "CHR ''S'' # s \<noteq> item_id i"
  by (simp_all add: item_id_def)

lemma id_created_item:
  assumes "id_at (created ds) p = Some (item_id i)" "p \<noteq> []"
  shows "p = [nat i, 0, 0] \<and> 0 \<le> i \<and> i < int (length ds)"
proof -
  from assms obtain x where x: "at (created ds) p = Some x" and id: "elemId x = item_id i"
    by (auto simp: id_at_def)
  from x assms(2) show ?thesis
  proof (cases rule: created_cases)
    case (rest e q)
    from at_entry_rest(1) [OF rest(3)] id show ?thesis by auto
  qed (use id in auto)
qed

lemma getElementById_item:
  "getElementById (created ds) (item_id i) =
     (if 0 \<le> i \<and> i < int (length ds) then Some [nat i, 0, 0] else None)"
proof (cases "0 \<le> i \<and> i < int (length ds)")
  case True
  then have n: "nat i < length ds" by auto
  from True have "id_at (created ds) [nat i, 0, 0] = Some (item_id i)"
    by (simp only: id_at_def at_created(3) [OF n]) simp
  then have "getElementById (created ds) (item_id i) = Some [nat i, 0, 0]"
    by (intro getElementById_unique) (auto dest: id_created_item)
  with True show ?thesis by simp
next
  case False
  then show ?thesis by (auto intro: getElementById_NoneI dest: id_created_item)
qed

text \<open>The rows are the positions of one index.\<close>

lemma created_row_test:
  "p \<in> set (divs (created ds)) \<Longrightarrow> row_test s (created ds) p = Some b \<Longrightarrow>
   \<exists>e < length ds. p = [e]"
proof -
  assume p: "p \<in> set (divs (created ds))" and t: "row_test s (created ds) p = Some b"
  from p obtain x where x: "at (created ds) p = Some x" "p \<noteq> []" "is_div x"
    by (auto simp: divs_def set_doc_order split: option.splits)
  from t x have row: "is_row x" by (auto simp: row_test_def split: if_splits)
  from x(1,2) show ?thesis
  proof (cases rule: created_cases)
    case (rest e q)
    from at_entry_rest(2) [OF rest(3)] x row show ?thesis by (simp add: is_row_def)
  qed (use x row in \<open>auto simp: is_row_def is_div_def\<close>)
qed

lemma row_in_divs: "e < length ds \<Longrightarrow> [e] \<in> set (divs (created ds))"
  by (simp add: divs_def set_doc_order kids_createResults is_div_def)

definition entry_matches :: "string \<Rightarrow> search_entry \<Rightarrow> bool" where
  "entry_matches s d \<longleftrightarrow> prefix s (strip_sr (toLowerCase (''SR_'' @ entryId d)))"

lemma row_test_created: "e < length ds \<Longrightarrow>
    row_test s (created ds) [e] = Some (entry_matches s (ds ! e))"
  by (simp add: row_test_def kids_createResults is_row_def row_matches_prefix entry_matches_def)

text \<open>A page whose rows were built from \<open>ds\<close>; searches and toggles only change styles.\<close>

definition page_of :: "search_entry list \<Rightarrow> results_page \<Rightarrow> bool" where
  "page_of ds pg \<longleftrightarrow> (\<forall>p. info (body pg) p = info (created ds) p)"

lemma is_div_info: "info e p = info f p \<Longrightarrow>
    (case at e p of None \<Rightarrow> False | Some x \<Rightarrow> is_div x) =
    (case at f p of None \<Rightarrow> False | Some x \<Rightarrow> is_div x)"
  by (auto simp: info_def is_div_def map_option_case split: option.splits)

lemma divs_info: "(\<And>p. info e p = info f p) \<Longrightarrow> divs e = divs f"
  using doc_order_info [of e f] is_div_info [of e _ f] by (simp add: divs_def)

lemma page_of_getElementById:
  "page_of ds pg \<Longrightarrow> getElementById (body pg) x = getElementById (created ds) x"
  by (rule getElementById_info) (simp add: page_of_def)

lemma page_of_style: "page_of ds pg \<Longrightarrow> page_of ds (pg\<lparr>body := update_at p (set_display d) (body pg)\<rparr>)"
  by (simp add: page_of_def info_update_at)

lemma page_of_divs: "page_of ds pg \<Longrightarrow> divs (body pg) = divs (created ds)"
  by (rule divs_info) (simp add: page_of_def)

lemma page_of_row_test: "page_of ds pg \<Longrightarrow> row_test s (body pg) p = row_test s (created ds) p"
  by (rule row_test_info) (simp add: page_of_def)

lemma filter_page_row:
  assumes "page_of ds pg" "e < length ds"
  shows "disp_at (fst (filter_rows s (divs (body pg)) (body pg) m)) [e] =
    Some (if entry_matches s (ds ! e) then DBlock else DNone)"
  using assms
  by (simp add: filter_rows_disp distinct_divs page_of_divs row_in_divs page_of_row_test
      row_test_created)

lemma filter_page_count:
  assumes "page_of ds pg"
  shows "snd (filter_rows s (divs (body pg)) (body pg) 0) = length (filter (entry_matches s) ds)"
proof -
  let ?P = "\<lambda>p. row_test s (created ds) p = Some True"
  have "set (filter ?P (divs (created ds))) = (\<lambda>e. [e]) ` {e. e < length ds \<and> entry_matches s (ds ! e)}"
    (is "?A = ?B")
  proof
    show "?A \<subseteq> ?B" using created_row_test by (force simp: row_test_created)
    show "?B \<subseteq> ?A" by (auto simp: row_in_divs row_test_created)
  qed
  moreover have "length (filter ?P (divs (created ds))) = card ?A"
    by (rule distinct_card [symmetric]) (simp add: distinct_divs)
  moreover have "card ?B = card {e. e < length ds \<and> entry_matches s (ds ! e)}"
    by (rule card_image) (simp add: inj_on_def)
  moreover have "\<dots> = length (filter (entry_matches s) ds)"
    by (simp add: length_filter_conv_card)
  ultimately show ?thesis
    using assms by (simp add: filter_rows_count page_of_divs page_of_row_test)
qed

text \<open>The entries as the documentation generator writes them: the id is the converted name.\<close>

definition well_named :: "search_entry \<Rightarrow> bool" where
  "well_named d \<longleftrightarrow> entryId d = convertToId (toLowerCase (entryName d))"

definition trimmed :: "string \<Rightarrow> string" where
  "trimmed s = strip_trailing (strip_leading s)"

lemma strip_sr_row: "strip_sr (''sr_'' @ x) = x"
  by (simp add: strip_sr_def is_09_def code_def)

lemma lower_SR: "toLowerCase (''SR_'' @ x) = ''sr_'' @ toLowerCase x"
proof -
  have "toLowerCase ''SR_'' = ''sr_''" by code_simp
  then show ?thesis by (simp only: toLowerCase_simps)
qed

lemma entry_matches_name:
  "well_named d \<Longrightarrow> entry_matches (normalize_search s) d \<longleftrightarrow>
     prefix (toLowerCase (trimmed s)) (toLowerCase (entryName d))"
  unfolding entry_matches_def lower_SR strip_sr_row
  by (simp add: well_named_def normalize_search_def trimmed_def lower_convertToId
      convertToId_prefix)

lemma trimmed_strip_leading [simp]: "trimmed (strip_leading s) = trimmed s"
  by (simp add: trimmed_def)

lemma Search_core:
  assumes "page_of ds pg" and "\<forall>d \<in> set ds. well_named d" and "search_word arg query = Some s"
  shows "\<exists>pg'. Search pg arg query = Inr (pg', True) \<and> page_of ds pg' \<and>
    (\<forall>e < length ds. disp_at (body pg') [e] =
       Some (if prefix (toLowerCase (trimmed s)) (toLowerCase (entryName (ds ! e)))
             then DBlock else DNone)) \<and>
    lastMatchCount pg' =
      length (filter (\<lambda>d. prefix (toLowerCase (trimmed s)) (toLowerCase (entryName d))) ds) \<and>
    (noMatchesDisplay pg' = DBlock \<longleftrightarrow> lastMatchCount pg' = 0)"
proof -
  let ?n = "normalize_search s" and ?rows = "divs (body pg)"
  let ?r = "filter_rows ?n ?rows (body pg) 0"
  let ?pg = "pg\<lparr>body := fst ?r, searchingDisplay := DNone,
      noMatchesDisplay := (if snd ?r = 0 then DBlock else DNone), lastMatchCount := snd ?r\<rparr>"
  have "Search pg arg query = Inr (?pg, True)"
    using assms(3) by (simp add: Search_def case_prod_unfold Let_def)
  moreover have "page_of ds ?pg"
    using assms(1) by (simp add: page_of_def filter_rows_info)
  moreover have "filter (entry_matches ?n) ds =
      filter (\<lambda>d. prefix (toLowerCase (trimmed s)) (toLowerCase (entryName d))) ds"
    using assms(2) by (intro filter_cong) (auto simp: entry_matches_name)
  ultimately show ?thesis
    using assms(1,2) by (auto simp: filter_page_row filter_page_count entry_matches_name)
qed

text \<open>C6: the result page shows exactly the entries whose name starts with the search text, in
  either case of letters and without the spaces around the text; the count and the
  \<open>NoMatches\<close> notice agree with the rows shown, whatever was searched or toggled before.\<close>

theorem Search_shows_prefix_matches:
  assumes "page_of ds pg" and "\<forall>d \<in> set ds. well_named d" and "search_word arg query = Some s"
  shows "\<exists>pg'. Search pg arg query = Inr (pg', True) \<and> page_of ds pg' \<and>
    (\<forall>e < length ds. disp_at (body pg') [e] =
       Some (if prefix (toLowerCase (trimmed s)) (toLowerCase (entryName (ds ! e)))
             then DBlock else DNone)) \<and>
    lastMatchCount pg' =
      length (filter (\<lambda>d. prefix (toLowerCase (trimmed s)) (toLowerCase (entryName d))) ds) \<and>
    (noMatchesDisplay pg' = DBlock \<longleftrightarrow> lastMatchCount pg' = 0)"
  by (rule Search_core [OF assms])

definition demo_entries :: "search_entry list" where
  "demo_entries =
     [\<lparr>entryId = ''client_20configuration'', entryName = ''Client Configuration'',
       targets = [\<lparr>href = ''../group__client__config.html'', inParent = 1, scope = []\<rparr>]\<rparr>,
      \<lparr>entryId = ''configuration'', entryName = ''Configuration'',
       targets = [\<lparr>href = ''../group__config__port.html'', inParent = 1, scope = []\<rparr>]\<rparr>,
      \<lparr>entryId = ''configurator_20api'', entryName = ''Configurator API'',
       targets = [\<lparr>href = ''../group___configurator___a_p_i.html'', inParent = 1, scope = []\<rparr>]\<rparr>]"

definition fresh_page :: "search_entry list \<Rightarrow> results_page" where
  "fresh_page ds = \<lparr>body = created ds, searchingDisplay = DUnset, noMatchesDisplay = DUnset,
     focused = [], lastMatchCount = 0, lastKey = 0, repeatOn = False, parentLog = []\<rparr>"

text \<open>What the page of a data file does when it is opened: \<open>createResults\<close>, then \<open>Search\<close> without an
  argument; \<open>query\<close> is \<open>window.location.search\<close>.\<close>

definition load_results :: "search_entry list \<Rightarrow> string \<Rightarrow> js_error + (results_page \<times> bool)" where
  "load_results searchData query = Search ((fresh_page searchData)\<lparr>noMatchesDisplay := DNone\<rparr>) [] query"

lemma page_of_fresh: "page_of ds (fresh_page ds)"
  by (simp add: page_of_def fresh_page_def)

theorem Search_shows_prefix_matches_witness:
  "\<exists>pg'. Search (fresh_page demo_entries) [] ''?CONF%20'' = Inr (pg', True) \<and>
     lastMatchCount pg' = 2 \<and> disp_at (body pg') [0] = Some DNone \<and> disp_at (body pg') [1] = Some DBlock"
proof -
  have w: "\<forall>d \<in> set demo_entries. well_named d" by code_simp
  have q: "search_word [] ''?CONF%20'' = Some ''CONF ''" by code_simp
  have l: "length demo_entries = 3" by code_simp
  have m: "length (filter (\<lambda>d. prefix (toLowerCase (trimmed ''CONF '')) (toLowerCase (entryName d)))
      demo_entries) = 2" by code_simp
  have e: "\<not> prefix (toLowerCase (trimmed ''CONF '')) (toLowerCase (entryName (demo_entries ! 0)))"
    "prefix (toLowerCase (trimmed ''CONF '')) (toLowerCase (entryName (demo_entries ! 1)))"
    by code_simp+
  show ?thesis
    using Search_shows_prefix_matches [OF page_of_fresh w q] l m e by force
qed

end
