(* ===== verification/SearchNav.thy ===== *)
theory SearchNav
  imports SearchResults
begin

text \<open>
  Keyboard navigation of the results page: \<open>NavNext\<close>, \<open>NavPrev\<close>, \<open>ProcessKeys\<close>,
  \<open>Nav\<close> and \<open>NavChild\<close>. Item numbers are integers: \<open>NavPrev\<close> runs below 0, where no
  element has the id. A handler returns a \<open>TypeError\<close> where the script dereferences a
  missing element.
\<close>

section \<open>NavNext and NavPrev\<close>

text \<open>
  \<open>focusItem.parentNode.parentNode.style.display\<close> for the position of an item. Items
  are two levels below a row; a position with fewer levels has its grandparent outside
  the tree of this model.
\<close>

definition row_display :: "elem \<Rightarrow> pos \<Rightarrow> js_error + display" where
  "row_display root p =
     (if length p < 2 then Inl OutsideModel
      else case disp_at root (take (length p - 2) p) of
             None \<Rightarrow> Inl TypeError | Some d \<Rightarrow> Inr d)"

definition row_id :: "elem \<Rightarrow> pos \<Rightarrow> js_error + string" where
  "row_id root p =
     (if length p < 2 then Inl OutsideModel
      else case id_at root (take (length p - 2) p) of
             None \<Rightarrow> Inl TypeError | Some x \<Rightarrow> Inr x)"

definition named_from :: "elem \<Rightarrow> int \<Rightarrow> int set" where
  "named_from root i = {k. i \<le> k \<and> getElementById root (item_id k) \<noteq> None}"

definition named_upto :: "elem \<Rightarrow> int \<Rightarrow> int set" where
  "named_upto root i = {k. k \<le> i \<and> getElementById root (item_id k) \<noteq> None}"

lemma finite_named_items: "finite (named_from root i)" "finite (named_upto root i)"
proof -
  have "inj item_id" by (simp add: inj_def)
  from finite_named [OF this, of root] show "finite (named_from root i)" "finite (named_upto root i)"
    by (auto simp: named_from_def named_upto_def intro: finite_subset [rotated])
qed

function NavNext :: "elem \<Rightarrow> int \<Rightarrow> js_error + pos option" where
  "NavNext root index =
     (case getElementById root (item_id index) of
        None \<Rightarrow> Inr None
      | Some p \<Rightarrow>
          (case row_display root p of
             Inl err \<Rightarrow> Inl err
           | Inr d \<Rightarrow> if d = DBlock then Inr (Some p) else NavNext root (index + 1)))"
  by pat_completeness auto
termination
proof (relation "measure (\<lambda>(root, i). card (named_from root i))")
  fix root i p d
  assume "getElementById root (item_id i) = Some p"
  then have "i \<in> named_from root i" by (simp add: named_from_def)
  moreover have "named_from root (i + 1) \<subseteq> named_from root i - {i}"
    by (auto simp: named_from_def)
  ultimately have "named_from root (i + 1) \<subset> named_from root i" by blast
  then show "((root, i + 1), root, i) \<in> measure (\<lambda>(root, i). card (named_from root i))"
    by (simp add: psubset_card_mono finite_named_items)
qed simp

function NavPrev :: "elem \<Rightarrow> int \<Rightarrow> js_error + pos option" where
  "NavPrev root index =
     (case getElementById root (item_id index) of
        None \<Rightarrow> Inr None
      | Some p \<Rightarrow>
          (case row_display root p of
             Inl err \<Rightarrow> Inl err
           | Inr d \<Rightarrow> if d = DBlock then Inr (Some p) else NavPrev root (index - 1)))"
  by pat_completeness auto
termination
proof (relation "measure (\<lambda>(root, i). card (named_upto root i))")
  fix root i p d
  assume "getElementById root (item_id i) = Some p"
  then have "i \<in> named_upto root i" by (simp add: named_upto_def)
  moreover have "named_upto root (i - 1) \<subseteq> named_upto root i - {i}"
    by (auto simp: named_upto_def)
  ultimately have "named_upto root (i - 1) \<subset> named_upto root i" by blast
  then show "((root, i - 1), root, i) \<in> measure (\<lambda>(root, i). card (named_upto root i))"
    by (simp add: psubset_card_mono finite_named_items)
qed simp

declare NavNext.simps [simp del] NavPrev.simps [simp del]

section \<open>ProcessKeys\<close>

datatype key_type = KeyDown | KeyPress | KeyUp | OtherKey

record key_event =
  etype :: key_type
  keyCode :: nat

text \<open>The state change and the result of \<open>ProcessKeys\<close>.\<close>

definition ProcessKeys :: "results_page \<Rightarrow> key_event \<Rightarrow> results_page \<times> bool" where
  "ProcessKeys pg e =
     (case etype e of
        KeyDown \<Rightarrow>
          let pg1 = pg\<lparr>repeatOn := False, lastKey := keyCode e\<rparr> in (pg1, lastKey pg1 \<noteq> 0)
      | KeyPress \<Rightarrow>
          if \<not> repeatOn pg
          then ((if lastKey pg \<noteq> 0 then pg\<lparr>repeatOn := True\<rparr> else pg), False)
          else (pg, lastKey pg \<noteq> 0)
      | KeyUp \<Rightarrow>
          let pg1 = pg\<lparr>lastKey := 0, repeatOn := False\<rparr> in (pg1, lastKey pg1 \<noteq> 0)
      | OtherKey \<Rightarrow> (pg, lastKey pg \<noteq> 0))"

section \<open>Nav\<close>

text \<open>
  An element is rendered if neither it nor an element around it is hidden. The style sheet of the
  page (\<open>search.css\<close>) hides rows and child lists whose own style says nothing. \<open>focus()\<close> does
  nothing on an element that is not rendered.
\<close>

definition hidden :: "elem \<Rightarrow> bool" where
  "hidden e \<longleftrightarrow> disp e = DNone \<or>
     (disp e = DUnset \<and> (elemClass e = ''SRResult'' \<or> elemClass e = ''SRChildren''))"

fun rendered :: "elem \<Rightarrow> pos \<Rightarrow> bool" where
  "rendered e [] = (\<not> hidden e)"
| "rendered e (i # p) = (\<not> hidden e \<and> i < length (kids e) \<and> rendered (kids e ! i) p)"

definition focus_pos :: "results_page \<Rightarrow> pos \<Rightarrow> results_page" where
  "focus_pos pg p =
     (if rendered (body pg) p
      then pg\<lparr>focused := (case id_at (body pg) p of None \<Rightarrow> [] | Some x \<Rightarrow> x)\<rparr> else pg)"

definition focus_search_field :: "results_page \<Rightarrow> results_page" where
  "focus_search_field pg = pg\<lparr>parentLog := parentLog pg @ [FocusSearchField]\<rparr>"

definition close_results_window :: "results_page \<Rightarrow> results_page" where
  "close_results_window pg = pg\<lparr>parentLog := parentLog pg @ [CloseResultsWindow]\<rparr>"

text \<open>The inner loop of the Up branch: the last of \<open>Item<i>_c0\<close>, \<open>Item<i>_c1\<close>, \<dots>\<close>

definition child_named_from :: "elem \<Rightarrow> int \<Rightarrow> int \<Rightarrow> int set" where
  "child_named_from root i n = {k. n \<le> k \<and> getElementById root (child_id i k) \<noteq> None}"

lemma child_id_inj2: "child_id i j = child_id i k \<longleftrightarrow> j = k"
  by (simp add: child_id_def int_string_inj)

lemma finite_child_named: "finite (child_named_from root i n)"
proof -
  have "inj (child_id i)" by (simp add: inj_def child_id_inj2)
  from finite_named [OF this, of root] show ?thesis
    by (auto simp: child_named_from_def intro: finite_subset [rotated])
qed

function last_child :: "elem \<Rightarrow> int \<Rightarrow> int \<Rightarrow> pos \<Rightarrow> pos" where
  "last_child root i n focusItem =
     (case getElementById root (child_id i n) of
        None \<Rightarrow> focusItem
      | Some p \<Rightarrow> last_child root i (n + 1) p)"
  by pat_completeness auto
termination
proof (relation "measure (\<lambda>(root, i, n, f). card (child_named_from root i n))")
  fix root i n f p
  assume "getElementById root (child_id i n) = Some p"
  then have "n \<in> child_named_from root i n" by (simp add: child_named_from_def)
  moreover have "child_named_from root i (n + 1) \<subseteq> child_named_from root i n - {n}"
    by (auto simp: child_named_from_def)
  ultimately have "child_named_from root i (n + 1) \<subset> child_named_from root i n" by blast
  then show "((root, i, n + 1, p), root, i, n, f)
      \<in> measure (\<lambda>(root, i, n, f). card (child_named_from root i n))"
    by (simp add: psubset_card_mono finite_child_named)
qed simp

declare last_child.simps [simp del]

text \<open>\<open>FindChildElement(item.parentNode.parentNode.id)\<close> for the item at a position.\<close>

definition children_of_item :: "elem \<Rightarrow> pos \<Rightarrow> js_error + pos option" where
  "children_of_item root p =
     (case row_id root p of Inl err \<Rightarrow> Inl err | Inr x \<Rightarrow> child_element root x)"

definition item_children :: "elem \<Rightarrow> int \<Rightarrow> js_error + pos option" where
  "item_children root itemIndex =
     (case getElementById root (item_id itemIndex) of
        None \<Rightarrow> Inl TypeError
      | Some p \<Rightarrow> children_of_item root p)"

definition nav_up :: "results_page \<Rightarrow> int \<Rightarrow> js_error + results_page" where
  "nav_up pg itemIndex =
     (let newIndex = itemIndex - 1 in
      case NavPrev (body pg) newIndex of
        Inl err \<Rightarrow> Inl err
      | Inr None \<Rightarrow> Inr (focus_search_field pg)
      | Inr (Some focusItem) \<Rightarrow>
          (case children_of_item (body pg) focusItem of
             Inl err \<Rightarrow> Inl err
           | Inr None \<Rightarrow> Inr (focus_pos pg focusItem)
           | Inr (Some child) \<Rightarrow>
               if disp_at (body pg) child = Some DBlock
               then Inr (focus_pos pg (last_child (body pg) newIndex 0 focusItem))
               else Inr (focus_pos pg focusItem)))"

definition nav_down :: "results_page \<Rightarrow> int \<Rightarrow> js_error + results_page" where
  "nav_down pg itemIndex =
     (case item_children (body pg) itemIndex of
        Inl err \<Rightarrow> Inl err
      | Inr ch \<Rightarrow>
          let focusItem =
            (case ch of
               None \<Rightarrow> None
             | Some c \<Rightarrow>
                 if disp_at (body pg) c = Some DBlock
                 then getElementById (body pg) (child_id itemIndex 0) else None)
          in case focusItem of
               Some p \<Rightarrow> Inr (focus_pos pg p)
             | None \<Rightarrow>
                 (case NavNext (body pg) (itemIndex + 1) of
                    Inl err \<Rightarrow> Inl err
                  | Inr None \<Rightarrow> Inr pg
                  | Inr (Some p) \<Rightarrow> Inr (focus_pos pg p)))"

definition nav_show :: "display \<Rightarrow> results_page \<Rightarrow> int \<Rightarrow> js_error + results_page" where
  "nav_show d pg itemIndex =
     (case item_children (body pg) itemIndex of
        Inl err \<Rightarrow> Inl err
      | Inr None \<Rightarrow> Inr pg
      | Inr (Some c) \<Rightarrow> Inr (pg\<lparr>body := update_at c (set_display d) (body pg)\<rparr>))"

definition returning :: "bool \<Rightarrow> js_error + results_page \<Rightarrow> js_error + (results_page \<times> bool)" where
  "returning b r = (case r of Inl err \<Rightarrow> Inl err | Inr pg \<Rightarrow> Inr (pg, b))"

definition Nav :: "results_page \<Rightarrow> key_event \<Rightarrow> int \<Rightarrow> js_error + (results_page \<times> bool)" where
  "Nav pg0 e itemIndex =
     (if keyCode e = 13 then Inr (pg0, True)
      else case ProcessKeys pg0 e of
        (pg, False) \<Rightarrow> Inr (pg, False)
      | (pg, True) \<Rightarrow>
          if lastKey pg = 38 then returning False (nav_up pg itemIndex)
          else if lastKey pg = 40 then returning False (nav_down pg itemIndex)
          else if lastKey pg = 39 then returning False (nav_show DBlock pg itemIndex)
          else if lastKey pg = 37 then returning False (nav_show DNone pg itemIndex)
          else if lastKey pg = 27 then Inr (focus_search_field (close_results_window pg), False)
          else if lastKey pg = 13 then Inr (pg, True)
          else Inr (pg, False))"

section \<open>NavChild\<close>

definition focus_id :: "results_page \<Rightarrow> string \<Rightarrow> js_error + results_page" where
  "focus_id pg x =
     (case getElementById (body pg) x of
        None \<Rightarrow> Inl TypeError
      | Some p \<Rightarrow> Inr (focus_pos pg p))"

definition child_up :: "results_page \<Rightarrow> int \<Rightarrow> int \<Rightarrow> js_error + results_page" where
  "child_up pg itemIndex childIndex =
     (if 0 < childIndex then focus_id pg (child_id itemIndex (childIndex - 1))
      else focus_id pg (item_id itemIndex))"

definition child_down :: "results_page \<Rightarrow> int \<Rightarrow> int \<Rightarrow> js_error + results_page" where
  "child_down pg itemIndex childIndex =
     (case getElementById (body pg) (child_id itemIndex (childIndex + 1)) of
        Some p \<Rightarrow> Inr (focus_pos pg p)
      | None \<Rightarrow>
          (case NavNext (body pg) (itemIndex + 1) of
             Inl err \<Rightarrow> Inl err
           | Inr None \<Rightarrow> Inr pg
           | Inr (Some p) \<Rightarrow> Inr (focus_pos pg p)))"

definition NavChild :: "results_page \<Rightarrow> key_event \<Rightarrow> int \<Rightarrow> int \<Rightarrow> js_error + (results_page \<times> bool)" where
  "NavChild pg0 e itemIndex childIndex =
     (if keyCode e = 13 then Inr (pg0, True)
      else case ProcessKeys pg0 e of
        (pg, False) \<Rightarrow> Inr (pg, False)
      | (pg, True) \<Rightarrow>
          if lastKey pg = 38 then returning False (child_up pg itemIndex childIndex)
          else if lastKey pg = 40 then returning False (child_down pg itemIndex childIndex)
          else if lastKey pg = 27 then Inr (focus_search_field (close_results_window pg), False)
          else if lastKey pg = 13 then Inr (pg, True)
          else Inr (pg, False))"

section \<open>Lookups in a created page\<close>

lemma below_kids_cong:
  "length ks = length ls \<Longrightarrow>
   (\<And>j. j < length ks \<Longrightarrow> below (ks ! j) = below (ls ! j) \<and> is_div (ks ! j) = is_div (ls ! j)) \<Longrightarrow>
   below_kids i ks = below_kids i ls"
proof (induction ks ls arbitrary: i rule: list_induct2)
  case (Cons k ks l ls)
  from Cons.prems [of 0] have "below k = below l" "is_div k = is_div l" by simp_all
  moreover have "below_kids (Suc i) ks = below_kids (Suc i) ls"
  proof (rule Cons.IH)
    fix j assume "j < length ks"
    with Cons.prems [of "Suc j"]
    show "below (ks ! j) = below (ls ! j) \<and> is_div (ks ! j) = is_div (ls ! j)" by simp
  qed
  ultimately show ?case by simp
qed simp

lemma below_info: "(\<And>p. info e p = info f p) \<Longrightarrow> below e = below f"
proof (induction e arbitrary: f)
  case (Elem n a d ks)
  from Elem.prems [of "[]"] have len: "length ks = length (kids f)" by (simp add: info_def)
  have "below_kids 0 ks = below_kids 0 (kids f)"
  proof (rule below_kids_cong [OF len])
    fix j assume j: "j < length ks"
    have sub: "info (ks ! j) p = info (kids f ! j) p" for p
      using Elem.prems [of "j # p"] j len by (simp add: info_def)
    have "below (ks ! j) = below (kids f ! j)"
      by (rule Elem.IH) (use j sub in auto)
    moreover have "is_div (ks ! j) = is_div (kids f ! j)"
      using sub [of "[]"] by (simp add: info_def is_div_def)
    ultimately show "below (ks ! j) = below (kids f ! j) \<and> is_div (ks ! j) = is_div (kids f ! j)" ..
  qed
  then show ?case by (simp add: below_eq)
qed

lemma matches_at_info: "info e p = info f p \<Longrightarrow> matches_at e p = matches_at f p"
  by (auto simp: info_def matches_at_def is_children_div_def elemClass_def attr_def map_option_case
      split: option.splits)

lemma FindChildElement_info: "(\<And>p. info e p = info f p) \<Longrightarrow> FindChildElement e = FindChildElement f"
proof -
  assume i: "\<And>p. info e p = info f p"
  have "matches_at e = matches_at f" by (rule ext, rule matches_at_info, rule i)
  with below_info [of e f] i show ?thesis by (simp add: FindChildElement_enum)
qed

text \<open>A row has a child list exactly if its entry does not have one target.\<close>

lemma FindChildElement_row:
  "FindChildElement (mk_row e d) = (if length (targets d) = 1 then None else Some [0, 1])"
proof -
  have cls: "elemClass (entry_link e d) = ''SRSymbol'' \<or> True" by simp
  have nb: "\<not> is_div (entry_link e d)" by (simp add: is_div_def)
  have en: "is_div (mk_entry e d)" "\<not> is_children_div (mk_entry e d)"
    by (simp_all add: is_div_def is_children_div_def)
  have b: "below (mk_row e d) =
      [0] # [0, 0] # [0, 1] # map (\<lambda>q. 0 # 1 # q) (inside (entry_rest e d))"
    by (simp add: below_eq [of "mk_row e d"] below_eq [of "mk_entry e d"] kids_mk_entry nb en
        inside_def)
  have at: "at (mk_row e d) [0] = Some (mk_entry e d)" "at (mk_row e d) [0, 0] = Some (entry_link e d)"
    "at (mk_row e d) (0 # 1 # q) = at (entry_rest e d) q" for q
    by (simp_all add: kids_mk_entry)
  have m: "\<not> matches_at (mk_row e d) [0]" "\<not> matches_at (mk_row e d) [0, 0]"
    using en nb by (simp_all only: matches_at_def at) (simp_all add: is_children_div_def is_div_def)
  show ?thesis
  proof (cases "length (targets d) = 1")
    case True
    with entry_rest_cases [of d e] obtain t where r: "entry_rest e d = mk_scope t" by auto
    then have "inside (entry_rest e d) = []" "\<not> matches_at (mk_row e d) [0, 1]"
      using at(3) [of "[]"] by (simp_all only: matches_at_def inside_def)
        (simp_all add: is_children_div_def is_div_def)
    with True m show ?thesis by (simp add: FindChildElement_enum b)
  next
    case False
    with entry_rest_cases [of d e]
    have "is_children_div (entry_rest e d)" by (auto simp: is_children_div_def)
    then have "matches_at (mk_row e d) [0, 1]"
      using at(3) [of "[]"] by (simp only: matches_at_def) simp
    with False m show ?thesis by (simp add: FindChildElement_enum b)
  qed
qed

lemma append_underscore_inj:
  assumes "CHR ''_'' \<notin> set a" "CHR ''_'' \<notin> set b" "a @ CHR ''_'' # x = b @ CHR ''_'' # y"
  shows "a = b \<and> x = y"
proof -
  have t: "CHR ''_'' \<notin> set w \<Longrightarrow> takeWhile (\<lambda>c. c \<noteq> CHR ''_'') (w @ CHR ''_'' # z) = w" for w z :: string
    by (induction w) auto
  have "a = takeWhile (\<lambda>c. c \<noteq> CHR ''_'') (a @ CHR ''_'' # x)" using t [OF assms(1)] by simp
  also have "\<dots> = b" unfolding assms(3) by (rule t [OF assms(2)])
  finally show ?thesis using assms(3) by simp
qed

lemma child_id_inj [simp]: "child_id i c = child_id j d \<longleftrightarrow> i = j \<and> c = d"
  using append_underscore_inj [OF int_string_no_underscore int_string_no_underscore,
      of i "CHR ''c'' # int_string c" j "CHR ''c'' # int_string d"]
  by (auto simp: child_id_def int_string_inj)

lemma child_id_nonempty [simp]: "child_id i c \<noteq> []"
  by (simp add: child_id_def)

lemma id_created_child:
  assumes "id_at (created ds) p = Some (child_id i c)" "p \<noteq> []"
  shows "\<exists>e k. p = [e, 0, 1, k] \<and> i = int e \<and> c = int k \<and> e < length ds \<and>
    length (targets (ds ! e)) \<noteq> 1 \<and> k < length (targets (ds ! e))"
proof -
  have ne: "child_id i c \<noteq> []" "[] \<noteq> child_id i c" "child_id i c \<noteq> CHR ''S'' # s"
    "CHR ''S'' # s \<noteq> child_id i c" for s
    by (simp_all add: child_id_def)
  from assms obtain x where x: "at (created ds) p = Some x" and id: "elemId x = child_id i c"
    by (auto simp: id_at_def)
  from x assms(2) show ?thesis
  proof (cases rule: created_cases)
    case (rest e q)
    from at_entry_rest(1) [OF rest(3)] id rest ne show ?thesis by auto
  qed (use id ne in auto)
qed

lemma at_created_child:
  assumes "e < length ds" "length (targets (ds ! e)) \<noteq> 1" "k < length (targets (ds ! e))"
  shows "at (created ds) [e, 0, 1, k] = Some (mk_child e k (targets (ds ! e) ! k))"
proof -
  from assms(2) entry_rest_cases [of "ds ! e" e]
  have "kids (entry_rest e (ds ! e)) =
      map (\<lambda>i. mk_child e i (targets (ds ! e) ! i)) [0..<length (targets (ds ! e))]" by auto
  with assms at_created(4) [OF assms(1), of "[k]"] show ?thesis by simp
qed

lemma getElementById_child:
  assumes "e < length ds"
  shows "getElementById (created ds) (child_id (int e) (int k)) =
    (if length (targets (ds ! e)) \<noteq> 1 \<and> k < length (targets (ds ! e)) then Some [e, 0, 1, k] else None)"
proof (cases "length (targets (ds ! e)) \<noteq> 1 \<and> k < length (targets (ds ! e))")
  case True
  then have "id_at (created ds) [e, 0, 1, k] = Some (child_id (int e) (int k))"
    by (simp add: id_at_def at_created_child [OF assms] del: at.simps One_nat_def)
  then have "getElementById (created ds) (child_id (int e) (int k)) = Some [e, 0, 1, k]"
    by (intro getElementById_unique) (auto dest: id_created_child)
  with True show ?thesis by simp
next
  case False
  have "getElementById (created ds) (child_id (int e) (int k)) = None"
  proof (rule getElementById_NoneI)
    fix q :: pos assume q: "q \<noteq> []"
    show "id_at (created ds) q \<noteq> Some (child_id (int e) (int k))"
    proof
      assume "id_at (created ds) q = Some (child_id (int e) (int k))"
      from id_created_child [OF this q] False show False by auto
    qed
  qed
  with False show ?thesis by simp
qed

lemma getElementById_row:
  assumes "distinct (map entryId ds)" "e < length ds"
  shows "getElementById (created ds) (''SR_'' @ entryId (ds ! e)) = Some [e]"
proof (rule getElementById_unique)
  show "id_at (created ds) [e] = Some (''SR_'' @ entryId (ds ! e))"
    using assms(2) by (simp add: id_at_def at_created del: at.simps)
  fix q assume q: "q \<noteq> []" "id_at (created ds) q = Some (''SR_'' @ entryId (ds ! e))"
  then obtain x where x: "at (created ds) q = Some x" and id: "elemId x = ''SR_'' @ entryId (ds ! e)"
    by (auto simp: id_at_def)
  from x q(1) show "q = [e]"
  proof (cases rule: created_cases)
    case (row e')
    with id assms show ?thesis by (auto simp: distinct_conv_nth)
  next
    case (rest e' q)
    from at_entry_rest(1) [OF rest(3)] id show ?thesis by (auto simp: child_id_def)
  qed (use id in \<open>auto simp: item_id_def\<close>)
qed simp_all

section \<open>Moving between visible rows\<close>

definition shown :: "results_page \<Rightarrow> nat \<Rightarrow> bool" where
  "shown pg e \<longleftrightarrow> disp_at (body pg) [e] = Some DBlock"

lemma page_of_at: "page_of ds pg \<Longrightarrow> at (body pg) p = None \<longleftrightarrow> at (created ds) p = None"
  by (rule info_at_None) (simp add: page_of_def)

lemma row_display_item:
  assumes "page_of ds pg" "e < length ds"
  shows "\<exists>d. row_display (body pg) [e, 0, 0] = Inr d \<and> (d = DBlock \<longleftrightarrow> shown pg e)"
proof -
  have "at (body pg) [e] \<noteq> None"
    using page_of_at [OF assms(1), of "[e]"] at_created(1) [OF assms(2)] by simp
  then obtain d where "disp_at (body pg) [e] = Some d" by (auto simp: disp_at_def)
  then show ?thesis by (auto simp: row_display_def shown_def)
qed

lemma find_upt_step:
  "k < n \<Longrightarrow> find P [k..<n] = (if P k then Some k else find P [Suc k..<n])"
  by (simp add: upt_conv_Cons)

lemma NavNext_shown:
  "page_of ds pg \<Longrightarrow>
   NavNext (body pg) (int k) = Inr (map_option (\<lambda>e. [e, 0, 0]) (find (shown pg) [k..<length ds]))"
proof (induction "length ds - k" arbitrary: k)
  case 0
  then show ?case
    by (subst NavNext.simps) (simp add: page_of_getElementById getElementById_item)
next
  case (Suc m)
  then have k: "k < length ds" by simp
  from row_display_item [OF Suc.prems k] obtain d where
    d: "row_display (body pg) [k, 0, 0] = Inr d" "d = DBlock \<longleftrightarrow> shown pg k" by blast
  have "NavNext (body pg) (int (Suc k)) =
      Inr (map_option (\<lambda>e. [e, 0, 0]) (find (shown pg) [Suc k..<length ds]))"
    using Suc k by (intro Suc.hyps(1)) auto
  then have IH: "NavNext (body pg) (int k + 1) =
      Inr (map_option (\<lambda>e. [e, 0, 0]) (find (shown pg) [Suc k..<length ds]))"
    by (simp add: add.commute)
  show ?case
    using d k Suc.prems IH
    by (subst NavNext.simps)
       (simp add: page_of_getElementById getElementById_item find_upt_step)
qed

lemma NavPrev_shown:
  "page_of ds pg \<Longrightarrow> k \<le> length ds \<Longrightarrow>
   NavPrev (body pg) (int k - 1) =
     Inr (map_option (\<lambda>e. [e, 0, 0]) (find (shown pg) (rev [0..<k])))"
proof (induction k)
  case 0
  then show ?case
    by (subst NavPrev.simps) (simp add: page_of_getElementById getElementById_item)
next
  case (Suc k)
  then have k: "k < length ds" by simp
  from row_display_item [OF Suc.prems(1) k] obtain d where
    d: "row_display (body pg) [k, 0, 0] = Inr d" "d = DBlock \<longleftrightarrow> shown pg k" by blast
  have IH: "NavPrev (body pg) (int k - 1) =
      Inr (map_option (\<lambda>e. [e, 0, 0]) (find (shown pg) (rev [0..<k])))"
    using Suc by simp
  show ?case
    using d k Suc.prems IH
    by (subst NavPrev.simps)
       (simp add: page_of_getElementById getElementById_item)
qed

text \<open>C12: keyboard navigation visits the visible rows in order: on a page built from the entries
  \<open>ds\<close>, \<open>NavNext(k)\<close> returns the link of the first row from \<open>k\<close> on that the filter shows, and
  \<open>NavPrev(k - 1)\<close> the link of the last such row before \<open>k\<close>; both loops stop.\<close>

theorem Nav_visits_shown_rows:
  assumes "page_of ds pg" and "k \<le> length ds"
  shows "NavNext (body pg) (int k) =
      Inr (map_option (\<lambda>e. [e, 0, 0]) (find (shown pg) [k..<length ds])) \<and>
    NavPrev (body pg) (int k - 1) =
      Inr (map_option (\<lambda>e. [e, 0, 0]) (find (shown pg) (rev [0..<k])))"
  using NavNext_shown [OF assms(1)] NavPrev_shown [OF assms] by simp

definition hide_row :: "nat \<Rightarrow> results_page \<Rightarrow> results_page" where
  "hide_row e pg = pg\<lparr>body := update_at [e] (set_display DNone) (body pg)\<rparr>"

definition show_at :: "pos \<Rightarrow> results_page \<Rightarrow> results_page" where
  "show_at p pg = pg\<lparr>body := update_at p (set_display DBlock) (body pg)\<rparr>"

definition demo_page :: results_page where
  "demo_page = show_at [0] (hide_row 1 (show_at [2] (fresh_page demo_entries)))"

lemma page_of_demo: "page_of demo_entries demo_page"
  unfolding demo_page_def show_at_def hide_row_def
  by (intro page_of_style page_of_fresh)

lemma shown_demo: "shown demo_page 0" "\<not> shown demo_page 1" "shown demo_page 2"
proof -
  have "length demo_entries = 3" by (simp add: demo_entries_def)
  then have "at (created demo_entries) [k] \<noteq> None" if "k < 3" for k
    using that by (simp add: kids_createResults)
  then show "shown demo_page 0" "\<not> shown demo_page 1" "shown demo_page 2"
    by (simp_all add: shown_def demo_page_def show_at_def hide_row_def disp_update_at
        info_at_None [OF info_update_at] fresh_page_def del: update_at.simps at.simps)
qed

theorem Nav_visits_shown_rows_witness:
  "NavNext (body demo_page) 1 = Inr (Some [2, 0, 0]) \<and> NavPrev (body demo_page) 1 = Inr (Some [0, 0, 0])"
proof -
  have l: "length demo_entries = 3" by (simp add: demo_entries_def)
  from Nav_visits_shown_rows [OF page_of_demo, of 1] Nav_visits_shown_rows [OF page_of_demo, of 2]
  show ?thesis using shown_demo by (simp add: l upt_conv_Cons eval_nat_numeral)
qed

section \<open>Key repetition\<close>

fun run_keys :: "results_page \<Rightarrow> key_event list \<Rightarrow> results_page \<times> bool list" where
  "run_keys pg [] = (pg, [])"
| "run_keys pg (e # es) =
     (case ProcessKeys pg e of (pg1, b) \<Rightarrow>
       case run_keys pg1 es of (pg2, bs) \<Rightarrow> (pg2, b # bs))"

lemma run_keys_repeat:
  "repeatOn pg \<Longrightarrow> lastKey pg \<noteq> 0 \<Longrightarrow> (\<And>e. e \<in> set es \<Longrightarrow> etype e = KeyPress) \<Longrightarrow>
   run_keys pg es = (pg, replicate (length es) True)"
  by (induction es) (auto simp: ProcessKeys_def)

lemma run_keys_append:
  "run_keys pg (es @ fs) =
     (case run_keys pg es of (pg1, bs) \<Rightarrow> case run_keys pg1 fs of (pg2, cs) \<Rightarrow> (pg2, bs @ cs))"
  by (induction es arbitrary: pg) (auto split: prod.splits)

text \<open>C15: one key stroke acts once and then once per repetition: after the \<open>keydown\<close> of a key the
  first \<open>keypress\<close> is ignored and every later one acts, the \<open>keyup\<close> ends the stroke, and a
  \<open>keypress\<close> outside a stroke does nothing; the state before the stroke does not matter.\<close>

theorem key_stroke_acts:
  assumes "c \<noteq> 0" and "\<forall>e \<in> set presses. etype e = KeyPress"
  shows "snd (run_keys pg (\<lparr>etype = KeyDown, keyCode = c\<rparr> # presses @
      [\<lparr>etype = KeyUp, keyCode = u\<rparr>, \<lparr>etype = KeyPress, keyCode = v\<rparr>])) =
    True # (if presses = [] then [] else False # replicate (length presses - 1) True) @ [False, False]"
proof (cases presses)
  case Nil
  then show ?thesis using assms(1) by (simp add: ProcessKeys_def Let_def)
next
  case (Cons p ps)
  let ?pg = "pg\<lparr>lastKey := c, repeatOn := True\<rparr>"
  have "run_keys ?pg ps = (?pg, replicate (length ps) True)"
    using assms Cons by (intro run_keys_repeat) auto
  with Cons assms show ?thesis
    by (simp add: run_keys_append ProcessKeys_def Let_def)
qed

theorem key_stroke_acts_witness:
  "snd (run_keys demo_page (\<lparr>etype = KeyDown, keyCode = 40\<rparr> #
      [\<lparr>etype = KeyPress, keyCode = 40\<rparr>, \<lparr>etype = KeyPress, keyCode = 40\<rparr>] @
      [\<lparr>etype = KeyUp, keyCode = 40\<rparr>, \<lparr>etype = KeyPress, keyCode = 40\<rparr>])) =
    [True, False, True, False, False]"
  using key_stroke_acts [of 40 "[\<lparr>etype = KeyPress, keyCode = 40\<rparr>, \<lparr>etype = KeyPress, keyCode = 40\<rparr>]"
      demo_page 40 40] by simp

section \<open>Going up into a child list\<close>

lemma info_at_sub: "(\<And>p. info e p = info f p) \<Longrightarrow> at e q = Some x \<Longrightarrow> at f q = Some y \<Longrightarrow>
    info x p = info y p"
  by (metis (mono_tags, lifting) at_append info_def option.simps(5))

lemma children_of_row:
  assumes "page_of ds pg" "distinct (map entryId ds)" "e < length ds"
  shows "children_of_item (body pg) [e, 0, 0] =
    Inr (if length (targets (ds ! e)) = 1 then None else Some [e, 0, 1])"
proof -
  have id: "id_at (body pg) [e] = id_at (created ds) [e]"
    using assms(1) by (intro info_idD) (simp add: page_of_def)
  have "id_at (created ds) [e] = Some (''SR_'' @ entryId (ds ! e))"
    using at_created(1) [OF assms(3)] by (simp add: id_at_def del: at.simps)
  with id have rid: "row_id (body pg) [e, 0, 0] = Inr (''SR_'' @ entryId (ds ! e))"
    by (simp add: row_id_def)
  have at: "at (created ds) [e] = Some (mk_row e (ds ! e))" by (rule at_created(1) [OF assms(3)])
  with page_of_at [OF assms(1), of "[e]"] obtain x where x: "at (body pg) [e] = Some x"
    by (cases "at (body pg) [e]") auto
  have "FindChildElement x = FindChildElement (mk_row e (ds ! e))"
  proof (rule FindChildElement_info)
    fix p show "info x p = info (mk_row e (ds ! e)) p"
      by (rule info_at_sub [OF _ x at]) (use assms(1) in \<open>simp add: page_of_def\<close>)
  qed
  moreover have "getElementById (created ds) (CHR ''S'' # CHR ''R'' # CHR ''_'' # entryId (ds ! e)) = Some [e]"
    using getElementById_row [OF assms(2,3)] by simp
  ultimately show ?thesis using x rid assms
    by (simp add: children_of_item_def child_element_def page_of_getElementById
        FindChildElement_row del: at.simps)
qed

lemma last_child_walk:
  assumes "page_of ds pg" "e < length ds" "length (targets (ds ! e)) \<noteq> 1"
    and "n \<le> length (targets (ds ! e))"
  shows "last_child (body pg) (int e) (int n) f =
    (if n = length (targets (ds ! e)) then f else [e, 0, 1, length (targets (ds ! e)) - 1])"
  using assms(4)
proof (induction "length (targets (ds ! e)) - n" arbitrary: n f)
  case 0
  then show ?case using assms
    by (subst last_child.simps) (simp add: page_of_getElementById getElementById_child)
next
  case (Suc m)
  then have n: "n < length (targets (ds ! e))" by simp
  have "last_child (body pg) (int e) (int (Suc n)) [e, 0, 1, n] =
      (if Suc n = length (targets (ds ! e)) then [e, 0, 1, n]
       else [e, 0, 1, length (targets (ds ! e)) - 1])"
    by (rule Suc.hyps(1)) (use Suc n in auto)
  moreover have "last_child (body pg) (int e) (int n) f =
      last_child (body pg) (int e) (int (Suc n)) [e, 0, 1, n]"
    using assms n
    by (subst last_child.simps)
       (simp add: page_of_getElementById getElementById_child add.commute)
  moreover have "Suc n = length (targets (ds ! e)) \<Longrightarrow> n = length (targets (ds ! e)) - 1" by simp
  ultimately show ?case using n by auto
qed

section \<open>What is rendered\<close>

text \<open>Searching and toggling give styles to rows and to child lists only, and these are \<open>block\<close> or
  \<open>none\<close>.\<close>

definition styled_by_script :: "search_entry list \<Rightarrow> results_page \<Rightarrow> bool" where
  "styled_by_script ds pg \<longleftrightarrow> page_of ds pg \<and>
     (\<forall>p d. disp_at (body pg) p = Some d \<longrightarrow>
        disp_at (created ds) p = Some d \<or>
        ((\<exists>e < length ds. p = [e] \<or> p = [e, 0, 1] \<and> length (targets (ds ! e)) \<noteq> 1) \<and>
         (d = DBlock \<or> d = DNone)))"

lemma rendered_snoc:
  "rendered e (p @ [i]) \<longleftrightarrow> rendered e p \<and> (\<exists>x. at e (p @ [i]) = Some x \<and> \<not> hidden x)"
proof (induction e p rule: rendered.induct)
  case (1 e)
  then show ?case by (cases "i < length (kids e)") auto
qed auto

lemma disp_mk_entry [simp]: "disp (mk_entry e d) = DUnset"
  by (auto simp: mk_entry_def Let_def setClassAttr_def split: list.splits)

lemma disp_add_children [simp]: "disp (add_children e c ts x) = disp x"
  by (induction ts arbitrary: c x) auto

lemma disp_set_target [simp]: "disp (set_target t e) = disp e"
  by (simp add: set_target_def Let_def)

lemma disp_entry_parts: "disp (entry_link e d) = DUnset" "disp (entry_rest e d) = DUnset"
  "elemClass (entry_link e d) = ''SRSymbol''" "disp (mk_child e c t) = DUnset" "elemClass (mk_child e c t) = ''SRScope''"
  by (auto simp: entry_link_def entry_rest_def mk_entry_def mk_link_def mk_scope_def mk_child_def Let_def
      setClassAttr_def setKeyActions_def elemClass_def nth_append set_target_def split: list.splits)

lemma created_root: "disp (created ds) = DUnset" "elemClass (created ds) = []"
proof -
  have "disp (create_from e ds r) = disp r \<and> elemClass (create_from e ds r) = elemClass r" for e r
    by (induction ds arbitrary: e r) (simp_all add: elemClass_def)
  then show "disp (created ds) = DUnset" "elemClass (created ds) = []"
    by (simp_all add: createResults_def empty_results_def elemClass_def attr_def)
qed

text \<open>An element of a page keeps its class; its style is that of the created page unless it is a row or
  a child list.\<close>

lemma page_elem:
  assumes "page_of ds pg" "at (created ds) p = Some x"
  obtains y where "at (body pg) p = Some y" "elemClass y = elemClass x" "disp_at (body pg) p = Some (disp y)"
proof -
  from assms(1) have "info (body pg) p = info (created ds) p" by (simp add: page_of_def)
  with assms(2) obtain y where "at (body pg) p = Some y" "attrs y = attrs x" by (auto simp: info_def)
  with that show thesis by (simp add: elemClass_def attr_def disp_at_def)
qed

lemma styled_page: "styled_by_script ds pg \<Longrightarrow> page_of ds pg"
  by (simp add: styled_by_script_def)

lemma never_styled:
  assumes "styled_by_script ds pg" "at (created ds) p = Some x" "disp x = DUnset"
    and "elemClass x \<noteq> ''SRResult''" "elemClass x \<noteq> ''SRChildren''"
    and "\<not> (\<exists>e < length ds. p = [e] \<or> p = [e, 0, 1] \<and> length (targets (ds ! e)) \<noteq> 1)"
  shows "\<exists>y. at (body pg) p = Some y \<and> \<not> hidden y"
proof -
  obtain y where y: "at (body pg) p = Some y" "elemClass y = elemClass x" "disp_at (body pg) p = Some (disp y)"
    using page_elem [OF styled_page [OF assms(1)] assms(2)] .
  with assms have "disp_at (created ds) p = Some (disp y)" by (auto simp: styled_by_script_def)
  with assms y show ?thesis by (simp add: disp_at_def hidden_def)
qed

lemma script_styled:
  assumes "styled_by_script ds pg" "at (created ds) p = Some x" "disp x = DUnset"
    and "elemClass x = ''SRResult'' \<or> elemClass x = ''SRChildren''"
  shows "(\<exists>y. at (body pg) p = Some y \<and> \<not> hidden y) \<longleftrightarrow> disp_at (body pg) p = Some DBlock"
proof -
  obtain y where y: "at (body pg) p = Some y" "elemClass y = elemClass x" "disp_at (body pg) p = Some (disp y)"
    using page_elem [OF styled_page [OF assms(1)] assms(2)] .
  have "disp y = DUnset \<or> disp y = DBlock \<or> disp y = DNone"
    using assms(1-3) y by (fastforce simp: styled_by_script_def disp_at_def)
  with y assms(4) show ?thesis by (auto simp: hidden_def)
qed

text \<open>The link of a row is rendered exactly if the row is shown, a link of its child list if the list is
  open too.\<close>

lemma rendered_entry:
  assumes st: "styled_by_script ds pg" and e: "e < length ds"
  shows "rendered (body pg) [e, 0] \<longleftrightarrow> shown pg e"
proof -
  have "\<exists>y. at (body pg) [] = Some y \<and> \<not> hidden y"
    using created_root [of ds] by (intro never_styled [OF st, of "[]" "created ds"]) simp_all
  then have r: "rendered (body pg) []" by simp
  have "(\<exists>y. at (body pg) [e] = Some y \<and> \<not> hidden y) \<longleftrightarrow> shown pg e"
    unfolding shown_def by (rule script_styled [OF st at_created(1) [OF e]]) simp_all
  moreover have "\<exists>y. at (body pg) [e, 0] = Some y \<and> \<not> hidden y"
    by (rule never_styled [OF st at_created(2) [OF e]]) simp_all
  ultimately show ?thesis
    using r rendered_snoc [of "body pg" "[]" e] rendered_snoc [of "body pg" "[e]" 0]
    by (simp del: rendered.simps at.simps)
qed

lemma rendered_link:
  assumes st: "styled_by_script ds pg" and e: "e < length ds"
  shows "rendered (body pg) [e, 0, 0] \<longleftrightarrow> shown pg e"
proof -
  have "\<exists>y. at (body pg) [e, 0, 0] = Some y \<and> \<not> hidden y"
    by (rule never_styled [OF st at_created(3) [OF e]]) (simp_all add: disp_entry_parts)
  then show ?thesis
    using rendered_entry [OF assms] rendered_snoc [of "body pg" "[e, 0]" 0]
    by (simp del: rendered.simps at.simps)
qed

lemma rendered_child:
  assumes st: "styled_by_script ds pg" and e: "e < length ds"
    and k: "length (targets (ds ! e)) \<noteq> 1" "k < length (targets (ds ! e))"
  shows "rendered (body pg) [e, 0, 1, k] \<longleftrightarrow> shown pg e \<and> disp_at (body pg) [e, 0, 1] = Some DBlock"
proof -
  have at: "at (created ds) [e, 0, 1] = Some (entry_rest e (ds ! e))" using at_created(4) [OF e, of "[]"] by simp
  have cl: "elemClass (entry_rest e (ds ! e)) = ''SRChildren''" using entry_rest_cases [of "ds ! e" e] k(1) by auto
  have "(\<exists>y. at (body pg) [e, 0, 1] = Some y \<and> \<not> hidden y) \<longleftrightarrow> disp_at (body pg) [e, 0, 1] = Some DBlock"
    by (rule script_styled [OF st at]) (simp_all add: disp_entry_parts cl)
  moreover have "\<exists>y. at (body pg) [e, 0, 1, k] = Some y \<and> \<not> hidden y"
    by (rule never_styled [OF st at_created_child [OF e k]]) (simp_all add: disp_entry_parts)
  ultimately show ?thesis
    using rendered_entry [OF st e] rendered_snoc [of "body pg" "[e, 0]" 1] rendered_snoc [of "body pg" "[e, 0, 1]" k]
    by (simp del: rendered.simps at.simps One_nat_def)
qed

lemma id_at_created_link: "e < length ds \<Longrightarrow> id_at (created ds) [e, 0, 0] = Some (item_id (int e))"
  by (simp add: id_at_def at_created del: at.simps)

lemma id_at_created_child: "e < length ds \<Longrightarrow> length (targets (ds ! e)) \<noteq> 1 \<Longrightarrow>
    k < length (targets (ds ! e)) \<Longrightarrow> id_at (created ds) [e, 0, 1, k] = Some (child_id (int e) (int k))"
  by (simp add: id_at_def at_created_child del: at.simps One_nat_def)

section \<open>Searching and toggling keep to rows and child lists\<close>

lemma styled_fresh: "styled_by_script ds (fresh_page ds)"
  using page_of_fresh [of ds] by (simp add: styled_by_script_def fresh_page_def)

lemma styled_update:
  assumes "styled_by_script ds pg" and "d = DBlock \<or> d = DNone" and "e < length ds"
    and "p = [e] \<or> p = [e, 0, 1] \<and> length (targets (ds ! e)) \<noteq> 1"
  shows "styled_by_script ds (pg\<lparr>body := update_at p (set_display d) (body pg)\<rparr>)"
  using assms page_of_style [of ds pg p d] by (auto simp: styled_by_script_def disp_update_at)

lemma styled_Search:
  assumes "styled_by_script ds pg" and "Search pg arg query = Inr (pg', b)"
  shows "styled_by_script ds pg'"
proof -
  from assms(2) obtain s where b: "body pg' = fst (filter_rows s (divs (body pg)) (body pg) 0)"
    by (auto simp: Search_def Let_def case_prod_unfold split: option.splits)
  note pg = styled_page [OF assms(1)]
  have "page_of ds pg'" using pg by (simp add: page_of_def b filter_rows_info)
  moreover have "disp_at (created ds) p = Some d \<or>
      (\<exists>e < length ds. p = [e] \<or> p = [e, 0, 1] \<and> length (targets (ds ! e)) \<noteq> 1) \<and> (d = DBlock \<or> d = DNone)"
    if d: "disp_at (body pg') p = Some d" for p d
  proof (cases "p \<in> set (divs (body pg)) \<and> row_test s (body pg) p \<noteq> None")
    case True
    then obtain t where t: "row_test s (body pg) p = Some t" by blast
    with True pg have "\<exists>e < length ds. p = [e]"
      by (intro created_row_test [of p ds s t]) (simp_all add: page_of_divs page_of_row_test)
    moreover from d t True have "d = DBlock \<or> d = DNone"
      by (cases t) (auto simp: b filter_rows_disp distinct_divs)
    ultimately show ?thesis by blast
  next
    case False
    with d have "disp_at (body pg) p = Some d"
      by (auto simp: b filter_rows_disp distinct_divs split: if_splits)
    with assms(1) show ?thesis unfolding styled_by_script_def by blast
  qed
  ultimately show ?thesis unfolding styled_by_script_def by blast
qed

lemma child_list_at:
  assumes "page_of ds pg" and "child_element (body pg) x = Inr (Some p)"
  shows "\<exists>e < length ds. p = [e, 0, 1] \<and> length (targets (ds ! e)) \<noteq> 1"
proof -
  from assms(2) obtain q r y where p: "p = q @ r" "q \<noteq> []" "at (body pg) q = Some y" "FindChildElement y = Some r"
    by (auto simp: child_element_def dest: getElementById_SomeD split: option.splits)
  from p(4) have "matches_at y r" unfolding FindChildElement_enum by (metis find_Some_iff)
  then obtain z where z: "at y r = Some z" "is_children_div z" by (auto simp: matches_at_def split: option.splits)
  with p have "at (body pg) p = Some z" by (simp add: at_append)
  moreover have "info (body pg) p = info (created ds) p" using assms(1) by (simp add: page_of_def)
  ultimately have "info (created ds) p = Some (nodeName z, attrs z, length (kids z))" by (simp add: info_def)
  then obtain w where w: "at (created ds) p = Some w" "attrs w = attrs z" "nodeName w = nodeName z"
    by (auto simp: info_def)
  then have c: "is_children_div w" using z(2) by (simp add: is_children_div_def elemClass_def attr_def)
  have "p \<noteq> []" using p by simp
  from w(1) this show ?thesis
  proof (cases rule: created_cases)
    case (rest e s)
    have "is_div w" using c by (simp add: is_children_div_def is_div_def)
    with at_entry_rest(2) [OF rest(3)] have "s = []" by simp
    moreover have "length (targets (ds ! e)) \<noteq> 1"
      using entry_rest_cases [of "ds ! e" e] rest(3) \<open>s = []\<close> c by (auto simp: is_children_div_def)
    ultimately show ?thesis using rest by auto
  qed (use c in \<open>auto simp: is_children_div_def\<close>)
qed

lemma styled_Toggle:
  assumes "styled_by_script ds pg" and "Toggle pg x = Inr pg'"
  shows "styled_by_script ds pg'"
proof -
  have "styled_by_script ds (pg\<lparr>body := update_at p (set_display d) (body pg)\<rparr>)"
    if "child_element (body pg) x = Inr (Some p)" "d = DBlock \<or> d = DNone" for p d
    using child_list_at [OF styled_page [OF assms(1)] that(1)] styled_update [OF assms(1) that(2)] by blast
  with assms show ?thesis by (auto simp: Toggle_def split: sum.splits option.splits if_splits)
qed

lemma styled_nav_show:
  assumes "styled_by_script ds pg" and "nav_show d pg i = Inr pg'" and "d = DBlock \<or> d = DNone"
  shows "styled_by_script ds pg'"
proof -
  have "styled_by_script ds (pg\<lparr>body := update_at p (set_display d) (body pg)\<rparr>)"
    if "child_element (body pg) x = Inr (Some p)" for p x
    using child_list_at [OF styled_page [OF assms(1)] that] styled_update [OF assms(1,3)] by blast
  with assms show ?thesis
    by (auto simp: nav_show_def item_children_def children_of_item_def split: sum.splits option.splits)
qed

section \<open>The Up key\<close>

lemma focus_pos_id:
  assumes "page_of ds pg" "id_at (created ds) p = Some x"
  shows "focus_pos pg p = (if rendered (body pg) p then pg\<lparr>focused := x\<rparr> else pg)"
proof -
  have "id_at (body pg) p = id_at (created ds) p"
    using assms(1) by (intro info_idD) (simp add: page_of_def)
  with assms(2) show ?thesis by (simp add: focus_pos_def)
qed

lemma focus_link:
  assumes "styled_by_script ds pg" "e < length ds"
  shows "focus_pos pg [e, 0, 0] = (if shown pg e then pg\<lparr>focused := item_id (int e)\<rparr> else pg)"
  using focus_pos_id [OF styled_page [OF assms(1)] id_at_created_link [OF assms(2)]] rendered_link [OF assms] by simp

lemma focus_child:
  assumes "styled_by_script ds pg" "e < length ds" "length (targets (ds ! e)) \<noteq> 1" "k < length (targets (ds ! e))"
  shows "focus_pos pg [e, 0, 1, k] =
    (if shown pg e \<and> disp_at (body pg) [e, 0, 1] = Some DBlock then pg\<lparr>focused := child_id (int e) (int k)\<rparr> else pg)"
  using focus_pos_id [OF styled_page [OF assms(1)] id_at_created_child [OF assms(2-4)]] rendered_child [OF assms]
  by simp

text \<open>The last child that the loop finds, when it starts from the link of row \<open>j\<close>.\<close>

lemma last_child_of:
  assumes "page_of ds pg" "i < length ds"
  shows "last_child (body pg) (int i) 0 f =
    (let m = length (targets (ds ! i)) in if m \<le> 1 then f else [i, 0, 1, m - 1])"
proof (cases "length (targets (ds ! i)) = 1")
  case True
  then show ?thesis using assms getElementById_child [OF assms(2), of 0]
    by (subst last_child.simps) (simp add: page_of_getElementById)
next
  case False
  have "last_child (body pg) (int i) 0 f =
      (if 0 = length (targets (ds ! i)) then f else [i, 0, 1, length (targets (ds ! i)) - 1])"
    using last_child_walk [OF assms False, of 0 f] by simp
  moreover from False have "0 = length (targets (ds ! i)) \<longleftrightarrow> length (targets (ds ! i)) \<le> 1" by linarith
  ultimately show ?thesis by (simp only: Let_def)
qed

text \<open>C40: where the Up key goes from item \<open>i + 1\<close>. Let \<open>j\<close> be the last row before it that is shown; with
  no such row the focus returns to the search field. If the child list of \<open>j\<close> is open, the script
  looks for the last child of item \<open>i\<close>, not of \<open>j\<close>: when the filter hides the rows between and row
  \<open>i\<close> has several targets, it asks for the focus on a link in a hidden row, which does nothing, and
  the key is stuck. Otherwise the focus goes to the last child of \<open>j\<close> when \<open>j\<close> is \<open>i\<close>, and to the
  link of \<open>j\<close> in all other cases.\<close>

theorem Up_uses_previous_index:
  assumes "styled_by_script ds pg" and "distinct (map entryId ds)" and "i < length ds"
  shows "nav_up pg (int i + 1) = Inr
    (case find (shown pg) (rev [0..<Suc i]) of
       None \<Rightarrow> focus_search_field pg
     | Some j \<Rightarrow>
         if length (targets (ds ! j)) \<noteq> 1 \<and> disp_at (body pg) [j, 0, 1] = Some DBlock \<and>
            1 < length (targets (ds ! i))
         then (if j = i then pg\<lparr>focused := child_id (int i) (int (length (targets (ds ! i)) - 1))\<rparr> else pg)
         else pg\<lparr>focused := item_id (int j)\<rparr>)"
proof (cases "find (shown pg) (rev [0..<Suc i])")
  case None
  then show ?thesis
    using NavPrev_shown [OF styled_page [OF assms(1)], of "Suc i"] assms(3) by (simp add: nav_up_def)
next
  case (Some j)
  note pg = styled_page [OF assms(1)]
  from find_in [OF Some] have j: "j \<le> i" "shown pg j" by auto
  have hid: "\<not> shown pg i" if "j \<noteq> i" using Some that by (auto split: if_splits)
  have prev: "NavPrev (body pg) (int i) = Inr (Some [j, 0, 0])"
    using NavPrev_shown [OF pg, of "Suc i"] assms(3) Some by simp
  have ch: "children_of_item (body pg) [j, 0, 0] =
      Inr (if length (targets (ds ! j)) = 1 then None else Some [j, 0, 1])"
    using children_of_row [OF pg assms(2)] j(1) assms(3) by simp
  have link: "focus_pos pg [j, 0, 0] = pg\<lparr>focused := item_id (int j)\<rparr>"
    using focus_link [OF assms(1)] j assms(3) by simp
  let ?m = "length (targets (ds ! i))"
  show ?thesis
  proof (cases "length (targets (ds ! j)) \<noteq> 1 \<and> disp_at (body pg) [j, 0, 1] = Some DBlock \<and> 1 < ?m")
    case True
    then have "nav_up pg (int i + 1) = Inr (focus_pos pg [i, 0, 1, ?m - 1])"
      by (simp add: nav_up_def prev ch last_child_of [OF pg assms(3)] Let_def)
    moreover have last: "?m - 1 < ?m" using True by linarith
    moreover have "focus_pos pg [i, 0, 1, ?m - 1] =
        (if j = i then pg\<lparr>focused := child_id (int i) (int (?m - 1))\<rparr> else pg)"
      using focus_child [OF assms(1,3) _ last] True j(2) hid by (cases "j = i") (simp_all del: One_nat_def)
    ultimately show ?thesis using True Some by (simp del: One_nat_def of_nat_diff)
  next
    case False
    then have "nav_up pg (int i + 1) = Inr (focus_pos pg [j, 0, 0])"
      by (auto simp: nav_up_def prev ch last_child_of [OF pg assms(3)] Let_def)
    then show ?thesis unfolding Some option.case link if_not_P [OF False] .
  qed
qed

definition target :: "string \<Rightarrow> search_target" where
  "target u = \<lparr>href = u, inParent = 1, scope = u\<rparr>"

definition fold_entries :: "search_entry list" where
  "fold_entries =
     [\<lparr>entryId = ''aa'', entryName = ''aa'', targets = [target ''p'', target ''q'']\<rparr>,
      \<lparr>entryId = ''ab'', entryName = ''ab'', targets = [target ''r'', target ''s'']\<rparr>,
      \<lparr>entryId = ''aac'', entryName = ''aac'', targets = [target ''t'']\<rparr>]"

definition fold_page :: results_page where
  "fold_page = show_at [0, 0, 1] (show_at [2] (hide_row 1 (show_at [0] (fresh_page fold_entries))))"

text \<open>Rows 0 and 2 are shown, row 1 is hidden, and the lists of rows 0 and 1 have two links: Up from row
  2 does nothing.\<close>

theorem Up_uses_previous_index_witness:
  "shown fold_page 0 \<and> nav_up fold_page 2 = Inr fold_page"
proof -
  have l: "length fold_entries = 3" by (simp add: fold_entries_def)
  have st: "styled_by_script fold_entries fold_page"
    unfolding fold_page_def show_at_def hide_row_def
    by (intro styled_update [where e = 0] styled_update [where e = 2] styled_update [where e = 1] styled_fresh)
       (simp_all add: fold_entries_def)
  have e: "at (created fold_entries) [k] \<noteq> None" if "k < 3" for k
    using that l by (simp add: kids_createResults)
  have e1: "at (created fold_entries) [0, 0, 1] \<noteq> None"
    using at_created(4) [of 0 fold_entries "[]"] l by simp
  have d: "disp_at (body fold_page) p =
      (if p = [0, 0, 1] \<or> p = [2] \<or> p = [0] then Some DBlock
       else if p = [1] then Some DNone else disp_at (created fold_entries) p)" for p
    using e e1
    by (simp add: fold_page_def show_at_def hide_row_def disp_update_at
        info_at_None [OF info_update_at] fresh_page_def del: update_at.simps at.simps)
  have s: "shown fold_page 0" "\<not> shown fold_page 1" by (simp_all add: shown_def d)
  have f: "find (shown fold_page) (rev [0..<Suc 1]) = Some 0" using s by (simp add: upt_rec)
  have t: "length (targets (fold_entries ! 1)) = 2" "length (targets (fold_entries ! 0)) = 2"
    "distinct (map entryId fold_entries)"
    by (simp_all add: fold_entries_def)
  from Up_uses_previous_index [OF st t(3), of 1] l f t d s show ?thesis by simp
qed

end
