(* ===== verification/SearchBox.thy ===== *)
theory SearchBox
  imports SearchData SearchNav
begin

text \<open>
  The class \<open>SearchBox\<close> of \<open>search/search.js\<close>: the search field of a documentation page, the
  menu of index sections, the two timers, and the frame with the results page. The state record
  holds the instance variables of the class and what it keeps in the DOM: the value and focus
  of the field, style values, the children of the menu and the address of the frame. Pending
  timers are a list; \<open>focus\<close> and \<open>blur\<close> run the handlers of the field, as the page declares
  them. A step relation over user and timer events carries the invariants.
\<close>

section \<open>Positions on the page\<close>

text \<open>An element's box, and its chain of \<open>offsetParent\<close>s up to, not including, the body.\<close>

record box =
  offsetLeft :: int
  offsetTop :: int
  offsetWidth :: int
  offsetHeight :: int

fun xpos_loop :: "int \<Rightarrow> box list \<Rightarrow> int" where
  "xpos_loop x [] = x"
| "xpos_loop x (item # parents) = xpos_loop (x + offsetLeft item) parents"

fun ypos_loop :: "int \<Rightarrow> box list \<Rightarrow> int" where
  "ypos_loop y [] = y"
| "ypos_loop y (item # parents) = ypos_loop (y + offsetTop item) parents"

definition getXPos :: "box list \<Rightarrow> int" where
  "getXPos chain =
     (case chain of [] \<Rightarrow> 0 | item # _ \<Rightarrow> if offsetWidth item \<noteq> 0 then xpos_loop 0 chain else 0)"

definition getYPos :: "box list \<Rightarrow> int" where
  "getYPos chain =
     (case chain of [] \<Rightarrow> 0 | item # _ \<Rightarrow> if offsetWidth item \<noteq> 0 then ypos_loop 0 chain else 0)"

text \<open>What the browser's layout says about the elements the class asks for.\<close>

record page_layout =
  selectIcon :: "box list"
  searchBoxAt :: "box list"
  selectWindowWidth :: int
  resultsFrameWidth :: int
  bodyClientWidth :: int

section \<open>The state\<close>

datatype focus_target = NoFocus | SearchField | SelectChild nat | ResultsFrame

datatype timer_call = CallSearch | CallCloseSelectionWindow

record search_box =
  boxName :: string
  resultsPath :: string
  keyTimeout :: nat
  keyTimeoutLength :: nat
  closeSelectionTimeout :: nat
  lastSearchValue :: string
  lastResultsPage :: string
  hideTimeout :: nat
  searchIndex :: int
  searchActive :: bool
  insideFrame :: bool
  searchLabel :: string
  fieldValue :: string
  boxClass :: string
  selectDisplay :: display
  selectLeft :: int
  selectTop :: int
  selectNodes :: "elem list"
  resultsDisplay :: display
  resultsLeft :: int
  resultsTop :: int
  resultsWidth :: int
  closeDisplay :: display
  focusOn :: focus_target
  frameLocation :: string
  frame :: "results_page option"
  timers :: "(nat \<times> timer_call \<times> nat) list"
  lastTimer :: nat

text \<open>An exception leaves the state as it was changed so far.\<close>

type_synonym box_result = "(js_error \<times> search_box) + search_box"

definition and_then :: "'e + 'a \<Rightarrow> ('a \<Rightarrow> 'e + 'b) \<Rightarrow> 'e + 'b" where
  "and_then r f = (case r of Inl e \<Rightarrow> Inl e | Inr x \<Rightarrow> f x)"

lemma and_then_simps [simp]: "and_then (Inl e) f = Inl e" "and_then (Inr x) f = f x"
  by (simp_all add: and_then_def)

definition state_of :: "box_result \<Rightarrow> search_box" where
  "state_of r = (case r of Inl (e, b) \<Rightarrow> b | Inr b \<Rightarrow> b)"

lemma state_of_simps [simp]: "state_of (Inl (e, b)) = b" "state_of (Inr b) = b"
  by (simp_all add: state_of_def)

text \<open>\<open>setTimeout\<close> returns a positive number not used before; \<open>clearTimeout\<close>.\<close>

definition setTimeout :: "timer_call \<Rightarrow> nat \<Rightarrow> search_box \<Rightarrow> nat \<times> search_box" where
  "setTimeout call len b =
     (Suc (lastTimer b),
      b\<lparr>timers := timers b @ [(Suc (lastTimer b), call, len)], lastTimer := Suc (lastTimer b)\<rparr>)"

definition clearTimeout :: "nat \<Rightarrow> search_box \<Rightarrow> search_box" where
  "clearTimeout t b = b\<lparr>timers := filter (\<lambda>p. fst p \<noteq> t) (timers b)\<rparr>"

section \<open>Activation\<close>

definition Activate :: "bool \<Rightarrow> search_box \<Rightarrow> search_box" where
  "Activate isActive b =
     (if isActive \<or> resultsDisplay b = DBlock then
        let b1 = b\<lparr>boxClass := ''MSearchBoxActive''\<rparr>
        in if fieldValue b1 = searchLabel b1
           then b1\<lparr>fieldValue := [], searchActive := True\<rparr> else b1
      else b\<lparr>boxClass := ''MSearchBoxInactive'', fieldValue := searchLabel b, searchActive := False,
             lastSearchValue := [], lastResultsPage := []\<rparr>)"

definition OnSearchFieldFocus :: "bool \<Rightarrow> search_box \<Rightarrow> search_box" where
  "OnSearchFieldFocus isActive b = Activate isActive b"

text \<open>
  \<open>focus()\<close> on an element: the field that loses or gets the focus runs its \<open>onblur\<close> or
  \<open>onfocus\<close> handler, which the page sets to \<open>OnSearchFieldFocus\<close>.
\<close>

definition moveFocus :: "focus_target \<Rightarrow> search_box \<Rightarrow> search_box" where
  "moveFocus t b =
     (let b1 = b\<lparr>focusOn := t\<rparr>
      in if focusOn b = t then b
         else if focusOn b = SearchField then OnSearchFieldFocus False b1
         else if t = SearchField then OnSearchFieldFocus True b1
         else b1)"

definition blurField :: "search_box \<Rightarrow> search_box" where
  "blurField b = (if focusOn b = SearchField then moveFocus NoFocus b else b)"

section \<open>Actions\<close>

definition CloseResultsWindow :: "search_box \<Rightarrow> search_box" where
  "CloseResultsWindow b = Activate False (b\<lparr>resultsDisplay := DNone, closeDisplay := DNone\<rparr>)"

definition CloseSelectionWindow :: "search_box \<Rightarrow> search_box" where
  "CloseSelectionWindow b = b\<lparr>selectDisplay := DNone\<rparr>"

definition showResults :: "page_layout \<Rightarrow> search_box \<Rightarrow> search_box" where
  "showResults lay b =
     (if resultsDisplay b \<noteq> DBlock then
        let b1 = b\<lparr>closeDisplay := DInline, resultsDisplay := DBlock\<rparr>
        in if insideFrame b1 then b1\<lparr>resultsWidth := bodyClientWidth lay - 8\<rparr>
           else let left = getXPos (searchBoxAt lay) + 150;
                    top = getYPos (searchBoxAt lay) + 20
                in b1\<lparr>resultsTop := top, resultsLeft := left - resultsFrameWidth lay\<rparr>
      else b)"

text \<open>
  The page of results for a search value: its address without and with the query. A surrogate
  pair at the start of the value is outside the model's code units (all below 256), so the branch
  of \<open>Search\<close> for it is not taken. \<open>None\<close>: the property \<open>indexOf\<close> of \<open>undefined\<close> is read.
\<close>

definition idxChar_of :: "string \<Rightarrow> string" where
  "idxChar_of searchValue = toLowerCase (take 1 searchValue)"

definition results_address :: "search_box \<Rightarrow> string \<Rightarrow> (string \<times> string) option" where
  "results_address b searchValue =
     (case table_get indexSectionsWithContent (searchIndex b) of
        None \<Rightarrow> None
      | Some chars \<Rightarrow>
          let idx = indexOf chars (idxChar_of searchValue) in
          if idx \<noteq> -1 then
            let sectionName = (case table_get indexSectionNames (searchIndex b) of
                                 Some s \<Rightarrow> s | None \<Rightarrow> ''undefined'');
                page = resultsPath b @ ''/'' @ sectionName @ ''_'' @ toString16 (nat idx) @ ''.html''
            in Some (page, page @ ''?'' @ js_escape searchValue)
          else let page = resultsPath b @ ''/nomatches.html'' in Some (page, page))"

definition BoxSearch :: "page_layout \<Rightarrow> search_box \<Rightarrow> box_result" where
  "BoxSearch lay b0 =
     (let b = b0\<lparr>keyTimeout := 0\<rparr>;
          searchValue = strip_leading (fieldValue b)
      in case results_address b searchValue of
           None \<Rightarrow> Inl (TypeError, b)
         | Some (page, pageWithSearch) \<Rightarrow>
             Inr ((showResults lay (b\<lparr>frameLocation := pageWithSearch\<rparr>))
                    \<lparr>lastSearchValue := searchValue, lastResultsPage := page\<rparr>))"

section \<open>The menu of sections\<close>

text \<open>
  The children of \<open>MSearchSelectWindow\<close>. The mark of an item is the text of its first child, kept
  as the markup the script assigns (\<open>&#8226;\<close> is the bullet, \<open>&#160;\<close> a blank).
\<close>

definition is_select_item :: "elem \<Rightarrow> bool" where
  "is_select_item e \<longleftrightarrow> elemClass e = ''SelectItem''"

fun count_items :: "elem list \<Rightarrow> int \<Rightarrow> int" where
  "count_items [] count = count"
| "count_items (child # rest) count =
     count_items rest (if is_select_item child then count + 1 else count)"

definition SelectItemCount :: "search_box \<Rightarrow> int" where
  "SelectItemCount b = count_items (selectNodes b) 0"

definition bullet :: string where "bullet = ''&#8226;''"
definition blank :: string where "blank = ''&#160;''"

text \<open>\<open>child.firstChild.innerHTML = mark\<close>; \<open>None\<close> if the item has no first child.\<close>

definition set_mark :: "string \<Rightarrow> elem \<Rightarrow> elem option" where
  "set_mark m child =
     (case kids child of
        [] \<Rightarrow> None
      | node # rest \<Rightarrow>
          Some (Elem (nodeName child) (attrs child) (disp child) (set_innerHTML m node # rest)))"

fun set_items :: "int \<Rightarrow> int \<Rightarrow> elem list \<Rightarrow> js_error + elem list" where
  "set_items sel j [] = Inr []"
| "set_items sel j (child # rest) =
     (if is_select_item child then
        (case set_mark (if j = sel then bullet else blank) child of
           None \<Rightarrow> Inl TypeError
         | Some child' \<Rightarrow> and_then (set_items sel (j + 1) rest) (\<lambda>rest'. Inr (child' # rest')))
      else and_then (set_items sel j rest) (\<lambda>rest'. Inr (child # rest')))"

text \<open>An item without a mark ends the loop; \<open>init_search\<close> builds every item with one.\<close>

definition SelectItemSet :: "int \<Rightarrow> search_box \<Rightarrow> box_result" where
  "SelectItemSet sel b =
     (case set_items sel 0 (selectNodes b) of
        Inl e \<Rightarrow> Inl (OutsideModel, b)
      | Inr nodes \<Rightarrow> Inr (b\<lparr>selectNodes := nodes\<rparr>))"

definition OnSelectItem :: "page_layout \<Rightarrow> int \<Rightarrow> search_box \<Rightarrow> box_result" where
  "OnSelectItem lay sel b =
     and_then (SelectItemSet sel (b\<lparr>searchIndex := sel\<rparr>))
       (\<lambda>b1. if strip_all (fieldValue b1) \<noteq> [] \<and> searchActive b1 then BoxSearch lay b1 else Inr b1)"

definition OnSearchSelectKey :: "page_layout \<Rightarrow> nat \<Rightarrow> search_box \<Rightarrow> box_result" where
  "OnSearchSelectKey lay key b =
     (if key = 40 \<and> searchIndex b < SelectItemCount b then
        let b1 = b\<lparr>searchIndex := searchIndex b + 1\<rparr> in OnSelectItem lay (searchIndex b1) b1
      else if key = 38 \<and> searchIndex b > 0 then
        let b1 = b\<lparr>searchIndex := searchIndex b - 1\<rparr> in OnSelectItem lay (searchIndex b1) b1
      else if key = 13 \<or> key = 27 then
        and_then (OnSelectItem lay (searchIndex b) b)
          (\<lambda>b1. Inr (moveFocus SearchField (CloseSelectionWindow b1)))
      else Inr b)"

definition OnSearchSelectShow :: "page_layout \<Rightarrow> search_box \<Rightarrow> search_box" where
  "OnSearchSelectShow lay b =
     (let left = getXPos (selectIcon lay);
          top = getYPos (selectIcon lay);
          w = (case selectIcon lay of [] \<Rightarrow> 0 | e # _ \<Rightarrow> offsetWidth e);
          h = (case selectIcon lay of [] \<Rightarrow> 0 | e # _ \<Rightarrow> offsetHeight e);
          b1 = (if insideFrame b
                then b\<lparr>selectDisplay := DBlock, selectLeft := left + (w + 6) - selectWindowWidth lay,
                       selectTop := top + h\<rparr>
                else b\<lparr>selectDisplay := DBlock, selectLeft := left, selectTop := top + h\<rparr>)
      in if hideTimeout b1 \<noteq> 0 then (clearTimeout (hideTimeout b1) b1)\<lparr>hideTimeout := 0\<rparr> else b1)"

definition OnSearchSelectHide :: "search_box \<Rightarrow> search_box" where
  "OnSearchSelectHide b =
     (let (t, b1) = setTimeout CallCloseSelectionWindow (closeSelectionTimeout b) b
      in b1\<lparr>hideTimeout := t\<rparr>)"

section \<open>The search field\<close>

fun first_item :: "nat \<Rightarrow> elem list \<Rightarrow> nat option" where
  "first_item i [] = None"
| "first_item i (child # rest) = (if is_select_item child then Some i else first_item (Suc i) rest)"

definition killKeyTimer :: "search_box \<Rightarrow> search_box" where
  "killKeyTimer b =
     (if keyTimeout b \<noteq> 0 then (clearTimeout (keyTimeout b) b)\<lparr>keyTimeout := 0\<rparr> else b)"

text \<open>The last part of \<open>OnSearchFieldChange\<close>: the text may have changed.\<close>

definition compareValue :: "search_box \<Rightarrow> search_box" where
  "compareValue b =
     (let searchValue = strip_all (fieldValue b) in
      if searchValue \<noteq> lastSearchValue b then
        if searchValue \<noteq> [] then
          let (t, b1) = setTimeout CallSearch (keyTimeoutLength b) b in b1\<lparr>keyTimeout := t\<rparr>
        else b\<lparr>resultsDisplay := DNone, closeDisplay := DNone, lastSearchValue := []\<rparr>
      else b)"

text \<open>\<open>elem.focus()\<close> for the first visible link of the frame. The style sheet hides the results window
  until its own style says \<open>block\<close>; in a hidden window nothing is rendered and \<open>focus()\<close> does nothing.\<close>

definition enterResults :: "search_box \<Rightarrow> box_result" where
  "enterResults b =
     (case frame b of
        None \<Rightarrow> Inr b
      | Some pg \<Rightarrow>
          (case NavNext (body pg) 0 of
             Inl e \<Rightarrow> Inl (e, b)
           | Inr None \<Rightarrow> Inr b
           | Inr (Some p) \<Rightarrow>
               Inr (if resultsDisplay b = DBlock \<and> rendered (body pg) p
                    then moveFocus ResultsFrame (b\<lparr>frame := Some (focus_pos pg p)\<rparr>) else b)))"

definition leaveField :: "search_box \<Rightarrow> search_box" where
  "leaveField b =
     (let b1 = blurField b
      in Activate False (b1\<lparr>resultsDisplay := DNone, closeDisplay := DNone, lastSearchValue := []\<rparr>))"

definition OnSearchFieldChange :: "page_layout \<Rightarrow> nat \<Rightarrow> bool \<Rightarrow> search_box \<Rightarrow> box_result" where
  "OnSearchFieldChange lay key shift b0 =
     (let b = killKeyTimer b0 in
      if key = 40 \<or> key = 13 then
        if shift then
          let b1 = OnSearchSelectShow lay b in
          (case first_item 0 (selectNodes b1) of
             Some i \<Rightarrow> Inr (moveFocus (SelectChild i) b1)
           | None \<Rightarrow> Inr b1)
        else and_then (enterResults b) (\<lambda>b1. Inr (compareValue b1))
      else if key = 27 then Inr (leaveField b)
      else Inr (compareValue b))"

section \<open>Initialisation\<close>

text \<open>One link of the menu, with its mark.\<close>

definition mk_item :: "nat \<Rightarrow> string \<Rightarrow> elem" where
  "mk_item key text =
     Elem ''A'' [(''class'', ''SelectItem''),
                 (''onclick'', ''searchBox.OnSelectItem('' @ nat_string key @ '')''),
                 (''href'', ''javascript:void(0)'')] DUnset
       [Elem ''SPAN'' [(''class'', ''SelectionMark'')] DUnset [text_node blank], text_node text]"

definition menu_items :: "elem list" where
  "menu_items = map (\<lambda>(key, text). mk_item key text) indexSectionLabels"

definition init_search :: "page_layout \<Rightarrow> search_box \<Rightarrow> box_result" where
  "init_search lay b = OnSelectItem lay 0 (b\<lparr>selectNodes := selectNodes b @ menu_items\<rparr>)"

text \<open>\<open>new SearchBox(name, resultsPath, inFrame, label)\<close> on a page that has just loaded: the field
  shows its label, the menu window holds the blank text of the page.\<close>

definition newSearchBox :: "string \<Rightarrow> string \<Rightarrow> bool \<Rightarrow> string \<Rightarrow> search_box" where
  "newSearchBox name resultsPath0 inFrame label =
     \<lparr>boxName = name, resultsPath = resultsPath0, keyTimeout = 0, keyTimeoutLength = 500,
      closeSelectionTimeout = 300, lastSearchValue = [], lastResultsPage = [], hideTimeout = 0,
      searchIndex = 0, searchActive = False, insideFrame = inFrame, searchLabel = label,
      fieldValue = label, boxClass = ''MSearchBoxInactive'', selectDisplay = DUnset, selectLeft = 0,
      selectTop = 0, selectNodes = [text_node [CHR 0x0A]], resultsDisplay = DUnset, resultsLeft = 0,
      resultsTop = 0, resultsWidth = 0, closeDisplay = DUnset, focusOn = NoFocus,
      frameLocation = ''javascript:void(0)'', frame = None, timers = [], lastTimer = 0\<rparr>"

section \<open>Events\<close>

text \<open>
  \<open>ClickItem\<close> and \<open>ClickClose\<close> are clicks of the mouse. Pressing the button takes the focus to the link
  that is clicked, so that the handlers of the field run before that of the click.
\<close>

datatype box_event =
    FocusField
  | BlurField
  | TypeText string
  | FieldKeyUp nat bool
  | ShowSelect
  | HideSelect
  | SelectKey nat
  | ClickItem int
  | ClickClose
  | TimerFires nat
  | FrameLoads results_page
  | FrameKey key_event int
  | FrameChildKey key_event int int

definition item_node :: "int \<Rightarrow> elem list \<Rightarrow> nat" where
  "item_node i nodes = filter (\<lambda>k. is_select_item (nodes ! k)) [0..<length nodes] ! nat i"

definition clickItem :: "page_layout \<Rightarrow> int \<Rightarrow> search_box \<Rightarrow> box_result" where
  "clickItem lay i b =
     (if 0 \<le> i \<and> i < SelectItemCount b
      then OnSelectItem lay i (moveFocus (SelectChild (item_node i (selectNodes b))) b) else Inr b)"

definition fire :: "page_layout \<Rightarrow> nat \<Rightarrow> search_box \<Rightarrow> box_result" where
  "fire lay t b =
     (case find (\<lambda>p. fst p = t) (timers b) of
        None \<Rightarrow> Inr b
      | Some (_, call, _) \<Rightarrow>
          (case call of
             CallSearch \<Rightarrow> BoxSearch lay (clearTimeout t b)
           | CallCloseSelectionWindow \<Rightarrow> Inr (CloseSelectionWindow (clearTimeout t b))))"

text \<open>The calls the results page makes into the page of the search box.\<close>

fun parent_calls :: "parent_call list \<Rightarrow> search_box \<Rightarrow> search_box" where
  "parent_calls [] b = b"
| "parent_calls (c # cs) b =
     parent_calls cs
       (case c of parent_call.CloseResultsWindow \<Rightarrow> CloseResultsWindow b
                | FocusSearchField \<Rightarrow> moveFocus SearchField b)"

definition frame_result :: "search_box \<Rightarrow> js_error + (results_page \<times> bool) \<Rightarrow> box_result" where
  "frame_result b r =
     (case r of
        Inl e \<Rightarrow> Inl (e, b)
      | Inr (pg, _) \<Rightarrow> Inr (parent_calls (parentLog pg) (b\<lparr>frame := Some (pg\<lparr>parentLog := []\<rparr>)\<rparr>)))"

definition box_step :: "page_layout \<Rightarrow> box_event \<Rightarrow> search_box \<Rightarrow> box_result" where
  "box_step lay e b =
     (case e of
        FocusField \<Rightarrow> Inr (moveFocus SearchField b)
      | BlurField \<Rightarrow> Inr (blurField b)
      | TypeText s \<Rightarrow> Inr (if focusOn b = SearchField then b\<lparr>fieldValue := s\<rparr> else b)
      | FieldKeyUp k shift \<Rightarrow> OnSearchFieldChange lay k shift b
      | ShowSelect \<Rightarrow> Inr (OnSearchSelectShow lay b)
      | HideSelect \<Rightarrow> Inr (OnSearchSelectHide b)
      | SelectKey k \<Rightarrow> OnSearchSelectKey lay k b
      | ClickItem i \<Rightarrow> clickItem lay i b
      | ClickClose \<Rightarrow> Inr (CloseResultsWindow (blurField b))
      | TimerFires t \<Rightarrow> fire lay t b
      | FrameLoads pg \<Rightarrow> Inr (b\<lparr>frame := Some pg\<rparr>)
      | FrameKey ke i \<Rightarrow>
          (case frame b of None \<Rightarrow> Inr b | Some pg \<Rightarrow> frame_result b (Nav pg ke i))
      | FrameChildKey ke i c \<Rightarrow>
          (case frame b of None \<Rightarrow> Inr b | Some pg \<Rightarrow> frame_result b (NavChild pg ke i c)))"

definition box_next :: "page_layout \<Rightarrow> box_event \<Rightarrow> search_box \<Rightarrow> search_box" where
  "box_next lay e b = state_of (box_step lay e b)"

definition box_start :: "page_layout \<Rightarrow> search_box \<Rightarrow> bool" where
  "box_start lay b \<longleftrightarrow>
     (\<exists>n p f l. init_search lay (newSearchBox n p f l) = Inr b)"

section \<open>What every operation keeps\<close>

definition timers_ok :: "search_box \<Rightarrow> bool" where
  "timers_ok b \<longleftrightarrow>
     (\<forall>(t, c, l) \<in> set (timers b). 0 < t \<and> t \<le> lastTimer b \<and>
        (t = hideTimeout b \<longrightarrow> c = CallCloseSelectionWindow) \<and> (t = keyTimeout b \<longrightarrow> c = CallSearch)) \<and>
     (keyTimeout b \<noteq> 0 \<longrightarrow> keyTimeout b \<in> fst ` set (timers b)) \<and>
     hideTimeout b \<le> lastTimer b \<and> distinct (map fst (timers b))"

definition windows_ok :: "search_box \<Rightarrow> bool" where
  "windows_ok b \<longleftrightarrow> (resultsDisplay b = DBlock \<longleftrightarrow> closeDisplay b = DInline)"

text \<open>All operations keep the fields the constructor sets once, and most keep the timers, the
  windows or the menu.\<close>

lemma Activate_frame [simp]:
  "timers (Activate a b) = timers b" "lastTimer (Activate a b) = lastTimer b"
  "keyTimeout (Activate a b) = keyTimeout b" "hideTimeout (Activate a b) = hideTimeout b"
  "resultsDisplay (Activate a b) = resultsDisplay b" "closeDisplay (Activate a b) = closeDisplay b"
  "selectNodes (Activate a b) = selectNodes b" "searchIndex (Activate a b) = searchIndex b"
  "searchLabel (Activate a b) = searchLabel b" "resultsPath (Activate a b) = resultsPath b"
  "frame (Activate a b) = frame b" "frameLocation (Activate a b) = frameLocation b"
  "focusOn (Activate a b) = focusOn b"
  by (simp_all add: Activate_def Let_def)

lemma moveFocus_frame [simp]:
  "timers (moveFocus t b) = timers b" "lastTimer (moveFocus t b) = lastTimer b"
  "keyTimeout (moveFocus t b) = keyTimeout b" "hideTimeout (moveFocus t b) = hideTimeout b"
  "resultsDisplay (moveFocus t b) = resultsDisplay b" "closeDisplay (moveFocus t b) = closeDisplay b"
  "selectNodes (moveFocus t b) = selectNodes b" "searchIndex (moveFocus t b) = searchIndex b"
  "searchLabel (moveFocus t b) = searchLabel b" "focusOn (moveFocus t b) = t"
  by (simp_all add: moveFocus_def OnSearchFieldFocus_def Let_def)

lemma blurField_frame [simp]:
  "timers (blurField b) = timers b" "lastTimer (blurField b) = lastTimer b"
  "keyTimeout (blurField b) = keyTimeout b" "hideTimeout (blurField b) = hideTimeout b"
  "resultsDisplay (blurField b) = resultsDisplay b" "closeDisplay (blurField b) = closeDisplay b"
  "selectNodes (blurField b) = selectNodes b" "searchIndex (blurField b) = searchIndex b"
  "searchLabel (blurField b) = searchLabel b"
  by (simp_all add: blurField_def)

lemma showResults_frame [simp]:
  "timers (showResults lay b) = timers b" "lastTimer (showResults lay b) = lastTimer b"
  "keyTimeout (showResults lay b) = keyTimeout b" "hideTimeout (showResults lay b) = hideTimeout b"
  "selectNodes (showResults lay b) = selectNodes b" "searchIndex (showResults lay b) = searchIndex b"
  "frameLocation (showResults lay b) = frameLocation b" "fieldValue (showResults lay b) = fieldValue b"
  "searchActive (showResults lay b) = searchActive b" "resultsDisplay (showResults lay b) = DBlock"
  by (simp_all add: showResults_def Let_def)

lemma close_frame [simp]:
  "timers (CloseSelectionWindow b) = timers b" "timers (CloseResultsWindow b) = timers b"
  "lastTimer (CloseSelectionWindow b) = lastTimer b" "lastTimer (CloseResultsWindow b) = lastTimer b"
  "keyTimeout (CloseSelectionWindow b) = keyTimeout b" "keyTimeout (CloseResultsWindow b) = keyTimeout b"
  "hideTimeout (CloseSelectionWindow b) = hideTimeout b" "hideTimeout (CloseResultsWindow b) = hideTimeout b"
  "selectNodes (CloseSelectionWindow b) = selectNodes b" "selectNodes (CloseResultsWindow b) = selectNodes b"
  "searchIndex (CloseSelectionWindow b) = searchIndex b" "searchIndex (CloseResultsWindow b) = searchIndex b"
  "resultsDisplay (CloseSelectionWindow b) = resultsDisplay b"
  "closeDisplay (CloseSelectionWindow b) = closeDisplay b"
  "resultsDisplay (CloseResultsWindow b) = DNone" "closeDisplay (CloseResultsWindow b) = DNone"
  by (simp_all add: CloseSelectionWindow_def CloseResultsWindow_def)

lemma parent_calls_frame [simp]:
  "timers (parent_calls cs b) = timers b" "lastTimer (parent_calls cs b) = lastTimer b"
  "keyTimeout (parent_calls cs b) = keyTimeout b" "hideTimeout (parent_calls cs b) = hideTimeout b"
  "selectNodes (parent_calls cs b) = selectNodes b" "searchIndex (parent_calls cs b) = searchIndex b"
  by (induction cs b rule: parent_calls.induct) (simp_all split: parent_call.splits)

lemma timers_ok_cong:
  "timers b' = timers b \<Longrightarrow> lastTimer b' = lastTimer b \<Longrightarrow> keyTimeout b' = keyTimeout b \<Longrightarrow>
   hideTimeout b' = hideTimeout b \<Longrightarrow> timers_ok b' = timers_ok b"
  by (simp add: timers_ok_def)

lemma timers_ok_unset: "timers_ok b \<Longrightarrow> timers_ok (b\<lparr>keyTimeout := 0\<rparr>)"
  by (auto simp: timers_ok_def)

lemma BoxSearch_cases:
  obtains "BoxSearch lay b = Inl (TypeError, b\<lparr>keyTimeout := 0\<rparr>)"
  | page q where "BoxSearch lay b = Inr ((showResults lay (b\<lparr>keyTimeout := 0, frameLocation := q\<rparr>))
      \<lparr>lastSearchValue := strip_leading (fieldValue b), lastResultsPage := page\<rparr>)"
  by (cases "results_address (b\<lparr>keyTimeout := 0\<rparr>) (strip_leading (fieldValue b))")
     (auto simp: BoxSearch_def Let_def)

lemma timers_ok_BoxSearch: "timers_ok (b\<lparr>keyTimeout := 0\<rparr>) \<Longrightarrow> timers_ok (state_of (BoxSearch lay b))"
  by (rule BoxSearch_cases [of lay b]) (simp_all add: timers_ok_def)

lemma timers_ok_clear_unset:
  "timers_ok b \<Longrightarrow> timers_ok ((clearTimeout t b)\<lparr>keyTimeout := 0\<rparr>)"
  by (auto simp: timers_ok_def clearTimeout_def distinct_map_filter)

lemma timers_ok_clear_other:
  "timers_ok b \<Longrightarrow> t \<noteq> keyTimeout b \<Longrightarrow> timers_ok (clearTimeout t b)"
  by (auto simp: timers_ok_def clearTimeout_def distinct_map_filter)

lemma timers_ok_clear_hide:
  assumes "timers_ok b" "hideTimeout b \<noteq> 0"
  shows "timers_ok ((clearTimeout (hideTimeout b) b)\<lparr>hideTimeout := 0\<rparr>)"
proof -
  have "hideTimeout b \<noteq> keyTimeout b" using assms by (fastforce simp: timers_ok_def)
  with timers_ok_clear_other [OF assms(1)] have "timers_ok (clearTimeout (hideTimeout b) b)" by simp
  then show ?thesis by (auto simp: timers_ok_def)
qed

lemma timers_ok_new_search:
  assumes "timers_ok b"
  shows "timers_ok ((snd (setTimeout CallSearch l b))\<lparr>keyTimeout := fst (setTimeout CallSearch l b)\<rparr>)"
proof -
  have "\<forall>(t, c, l) \<in> set (timers b). t \<noteq> Suc (lastTimer b)" "hideTimeout b \<noteq> Suc (lastTimer b)"
    using assms by (auto simp: timers_ok_def)
  with assms show ?thesis
    by (fastforce simp: timers_ok_def setTimeout_def)
qed

lemma timers_ok_new_hide:
  assumes "timers_ok b"
  shows "timers_ok ((snd (setTimeout CallCloseSelectionWindow l b))
    \<lparr>hideTimeout := fst (setTimeout CallCloseSelectionWindow l b)\<rparr>)"
proof -
  have "\<forall>(t, c, l) \<in> set (timers b). t \<noteq> Suc (lastTimer b)" "keyTimeout b \<noteq> Suc (lastTimer b)"
    using assms by (fastforce simp: timers_ok_def)+
  with assms show ?thesis
    by (fastforce simp: timers_ok_def setTimeout_def)
qed

lemma timers_ok_OnSelectItem:
  assumes "timers_ok b"
  shows "timers_ok (state_of (OnSelectItem lay i b))"
proof (cases "set_items i 0 (selectNodes b)")
  case (Inl e)
  with assms show ?thesis
    by (simp add: OnSelectItem_def SelectItemSet_def timers_ok_def)
next
  case (Inr nodes)
  let ?b = "b\<lparr>searchIndex := i, selectNodes := nodes\<rparr>"
  have "timers_ok ?b" using assms by (simp add: timers_ok_def)
  moreover from this have "timers_ok (state_of (BoxSearch lay ?b))"
    by (intro timers_ok_BoxSearch timers_ok_unset)
  ultimately show ?thesis
    using Inr by (simp add: OnSelectItem_def SelectItemSet_def)
qed

lemma timers_ok_killKeyTimer: "timers_ok b \<Longrightarrow> timers_ok (killKeyTimer b)"
  by (simp add: killKeyTimer_def timers_ok_clear_unset)

lemma timers_ok_compareValue: "timers_ok b \<Longrightarrow> timers_ok (compareValue b)"
  using timers_ok_new_search [of b "keyTimeoutLength b"]
  by (auto simp: compareValue_def Let_def case_prod_unfold timers_ok_def)

lemma timers_ok_Show: "timers_ok b \<Longrightarrow> timers_ok (OnSearchSelectShow lay b)"
proof -
  assume ok: "timers_ok b"
  have "timers_ok (b\<lparr>selectDisplay := DBlock, selectLeft := x, selectTop := y\<rparr>)" for x y
    using ok by (simp add: timers_ok_def)
  from this timers_ok_clear_hide [OF this] show ?thesis
    by (simp add: OnSearchSelectShow_def Let_def)
qed

lemma timers_ok_moveFocus: "timers_ok (moveFocus t b) = timers_ok b"
  by (simp add: timers_ok_def)

lemma enterResults_frame [simp]:
  "timers (state_of (enterResults b)) = timers b" "lastTimer (state_of (enterResults b)) = lastTimer b"
  "keyTimeout (state_of (enterResults b)) = keyTimeout b"
  "hideTimeout (state_of (enterResults b)) = hideTimeout b"
  "resultsDisplay (state_of (enterResults b)) = resultsDisplay b"
  "closeDisplay (state_of (enterResults b)) = closeDisplay b"
  "selectNodes (state_of (enterResults b)) = selectNodes b"
  "searchIndex (state_of (enterResults b)) = searchIndex b"
  by (simp_all add: enterResults_def split: option.splits sum.splits)

lemma state_of_and_then:
  "state_of (and_then r (\<lambda>b. Inr (f b))) = (case r of Inl (e, b) \<Rightarrow> b | Inr b \<Rightarrow> f b)"
  by (auto split: sum.splits)

lemma timers_ok_enterResults: "timers_ok (state_of (enterResults b)) = timers_ok b"
  by (simp add: timers_ok_def)

lemma timers_ok_FieldChange:
  assumes "timers_ok b"
  shows "timers_ok (state_of (OnSearchFieldChange lay k sh b))"
proof -
  let ?b = "killKeyTimer b"
  have ok: "timers_ok ?b" using assms by (rule timers_ok_killKeyTimer)
  have 1: "timers_ok (state_of (and_then (enterResults ?b) (\<lambda>b1. Inr (compareValue b1))))"
    using ok timers_ok_enterResults [of ?b]
    by (cases "enterResults ?b") (auto simp: timers_ok_compareValue)
  have 2: "timers_ok (leaveField ?b)"
    using ok by (simp add: leaveField_def Let_def timers_ok_def)
  have 3: "timers_ok (OnSearchSelectShow lay ?b)" using ok by (rule timers_ok_Show)
  from 1 2 3 ok show ?thesis
    by (auto simp: OnSearchFieldChange_def Let_def timers_ok_compareValue timers_ok_moveFocus
        split: option.splits)
qed

lemma timers_ok_SelectKey:
  assumes "timers_ok b"
  shows "timers_ok (state_of (OnSearchSelectKey lay k b))"
proof -
  have ok: "timers_ok (b\<lparr>searchIndex := i\<rparr>)" for i using assms by (simp add: timers_ok_def)
  have ok2: "timers_ok (state_of (and_then (OnSelectItem lay (searchIndex b) b)
      (\<lambda>b1. Inr (moveFocus SearchField (CloseSelectionWindow b1)))))"
    using timers_ok_OnSelectItem [OF assms, of lay "searchIndex b"]
    by (cases "OnSelectItem lay (searchIndex b) b") (auto simp: timers_ok_def)
  show ?thesis
    using ok2 timers_ok_OnSelectItem [OF ok] assms
    by (simp add: OnSearchSelectKey_def Let_def)
qed

lemma find_timer: "find (\<lambda>p. fst p = t) ts = Some (u, c, l) \<Longrightarrow> u = t \<and> (t, c, l) \<in> set ts"
  by (induction ts) (auto split: if_splits)

lemma timers_ok_fire:
  assumes "timers_ok b"
  shows "timers_ok (state_of (fire lay t b))"
proof (cases "find (\<lambda>p. fst p = t) (timers b)")
  case (Some p)
  obtain u c l where p: "p = (u, c, l)" by (cases p)
  from find_timer [OF Some [unfolded p]] have m: "(t, c, l) \<in> set (timers b)" by simp
  show ?thesis
  proof (cases c)
    case CallSearch
    with Some p assms show ?thesis
      by (simp add: fire_def timers_ok_BoxSearch timers_ok_clear_unset)
  next
    case CallCloseSelectionWindow
    with m assms have "t \<noteq> keyTimeout b" by (fastforce simp: timers_ok_def)
    with Some p assms CallCloseSelectionWindow show ?thesis
      using timers_ok_clear_other [OF assms, of t]
      by (simp add: fire_def timers_ok_def)
  qed
qed (simp add: fire_def assms)

lemma timers_ok_frame_result: "timers_ok b \<Longrightarrow> timers_ok (state_of (frame_result b r))"
  by (auto simp: frame_result_def timers_ok_def split: sum.splits)

lemma timers_ok_Hide: "timers_ok b \<Longrightarrow> timers_ok (OnSearchSelectHide b)"
  using timers_ok_new_hide [of b "closeSelectionTimeout b"]
  by (simp add: OnSearchSelectHide_def case_prod_unfold Let_def)

lemma timers_ok_updates:
  "timers_ok (b\<lparr>fieldValue := v\<rparr>) = timers_ok b" "timers_ok (b\<lparr>frame := f\<rparr>) = timers_ok b"
  "timers_ok (blurField b) = timers_ok b" "timers_ok (CloseResultsWindow b) = timers_ok b"
  by (simp_all add: timers_ok_def)

lemma timers_ok_next: "timers_ok b \<Longrightarrow> timers_ok (box_next lay e b)"
  by (cases e)
     (simp_all add: box_next_def box_step_def clickItem_def timers_ok_FieldChange timers_ok_SelectKey
        timers_ok_fire timers_ok_frame_result timers_ok_Hide timers_ok_Show timers_ok_OnSelectItem
        timers_ok_moveFocus timers_ok_updates split: option.split)

subsection \<open>The windows\<close>

lemma windows_ok_cong:
  "resultsDisplay b' = resultsDisplay b \<Longrightarrow> closeDisplay b' = closeDisplay b \<Longrightarrow>
   windows_ok b' = windows_ok b"
  by (simp add: windows_ok_def)

lemma windows_ok_closed: "resultsDisplay b = DNone \<Longrightarrow> closeDisplay b = DNone \<Longrightarrow> windows_ok b"
  by (simp add: windows_ok_def)

lemma windows_ok_updates:
  "windows_ok (b\<lparr>fieldValue := v\<rparr>) = windows_ok b" "windows_ok (b\<lparr>frame := f\<rparr>) = windows_ok b"
  "windows_ok (b\<lparr>searchIndex := i\<rparr>) = windows_ok b" "windows_ok (b\<lparr>keyTimeout := t\<rparr>) = windows_ok b"
  "windows_ok (b\<lparr>selectNodes := ns\<rparr>) = windows_ok b" "windows_ok (b\<lparr>hideTimeout := t\<rparr>) = windows_ok b"
  "windows_ok (b\<lparr>frameLocation := q\<rparr>) = windows_ok b"
  "windows_ok (blurField b) = windows_ok b" "windows_ok (moveFocus g b) = windows_ok b"
  "windows_ok (CloseSelectionWindow b) = windows_ok b" "windows_ok (clearTimeout t b) = windows_ok b"
  "windows_ok (snd (setTimeout c l b)) = windows_ok b"
  "windows_ok (CloseResultsWindow b)"
  by (simp_all add: windows_ok_def clearTimeout_def setTimeout_def)

lemma windows_ok_showResults: "windows_ok b \<Longrightarrow> windows_ok (showResults lay b)"
  by (simp add: showResults_def Let_def windows_ok_def)

lemma windows_ok_BoxSearch: "windows_ok b \<Longrightarrow> windows_ok (state_of (BoxSearch lay b))"
proof (rule BoxSearch_cases [of lay b])
  fix page q
  assume ok: "windows_ok b" and r: "BoxSearch lay b = Inr ((showResults lay (b\<lparr>keyTimeout := 0, frameLocation := q\<rparr>))
      \<lparr>lastSearchValue := strip_leading (fieldValue b), lastResultsPage := page\<rparr>)"
  from ok have "windows_ok (showResults lay (b\<lparr>keyTimeout := 0, frameLocation := q\<rparr>))"
    by (intro windows_ok_showResults) (simp add: windows_ok_updates)
  with r show "windows_ok (state_of (BoxSearch lay b))" by (simp add: windows_ok_def)
qed (simp add: windows_ok_updates)

lemma windows_ok_OnSelectItem: "windows_ok b \<Longrightarrow> windows_ok (state_of (OnSelectItem lay i b))"
  by (cases "set_items i 0 (selectNodes b)")
     (simp_all add: OnSelectItem_def SelectItemSet_def windows_ok_updates windows_ok_BoxSearch)

lemma windows_ok_Show: "windows_ok (OnSearchSelectShow lay b) = windows_ok b"
  by (simp add: OnSearchSelectShow_def Let_def windows_ok_def clearTimeout_def)

lemma windows_ok_Hide: "windows_ok (OnSearchSelectHide b) = windows_ok b"
  by (simp add: OnSearchSelectHide_def windows_ok_updates case_prod_unfold Let_def)

lemma windows_ok_compareValue: "windows_ok b \<Longrightarrow> windows_ok (compareValue b)"
  by (simp add: compareValue_def windows_ok_updates case_prod_unfold Let_def windows_ok_closed)

lemma windows_ok_killKeyTimer: "windows_ok (killKeyTimer b) = windows_ok b"
  by (simp add: killKeyTimer_def windows_ok_updates)

lemma windows_ok_FieldChange:
  assumes "windows_ok b"
  shows "windows_ok (state_of (OnSearchFieldChange lay k sh b))"
proof -
  let ?b = "killKeyTimer b"
  have ok: "windows_ok ?b" using assms by (simp add: windows_ok_killKeyTimer)
  have e: "windows_ok (state_of (enterResults ?b))" using ok by (simp add: windows_ok_def)
  then have 1: "windows_ok (state_of (and_then (enterResults ?b) (\<lambda>b1. Inr (compareValue b1))))"
    by (cases "enterResults ?b") (auto simp: windows_ok_compareValue)
  have 2: "windows_ok (leaveField ?b)"
    by (simp add: leaveField_def Let_def windows_ok_closed)
  from 1 2 ok show ?thesis
    by (simp add: OnSearchFieldChange_def Let_def windows_ok_compareValue windows_ok_updates
        windows_ok_Show split: option.split)
qed

lemma windows_ok_SelectKey:
  assumes "windows_ok b"
  shows "windows_ok (state_of (OnSearchSelectKey lay k b))"
proof -
  have "windows_ok (state_of (and_then (OnSelectItem lay (searchIndex b) b)
      (\<lambda>b1. Inr (moveFocus SearchField (CloseSelectionWindow b1)))))"
    using windows_ok_OnSelectItem [OF assms, of lay "searchIndex b"]
    by (cases "OnSelectItem lay (searchIndex b) b") (auto simp: windows_ok_updates)
  with assms show ?thesis
    by (simp add: OnSearchSelectKey_def Let_def windows_ok_OnSelectItem windows_ok_updates)
qed

lemma windows_ok_parent_calls: "windows_ok b \<Longrightarrow> windows_ok (parent_calls cs b)"
  by (induction cs b rule: parent_calls.induct)
     (simp_all add: windows_ok_updates split: parent_call.splits)

lemma windows_ok_next: "windows_ok b \<Longrightarrow> windows_ok (box_next lay e b)"
  by (cases e)
     (auto simp add: box_next_def box_step_def clickItem_def windows_ok_FieldChange windows_ok_SelectKey fire_def
        frame_result_def windows_ok_parent_calls windows_ok_Hide windows_ok_Show
        windows_ok_OnSelectItem windows_ok_updates windows_ok_BoxSearch
        split: option.split sum.split timer_call.split)

subsection \<open>The menu\<close>

definition menu_ok :: "search_box \<Rightarrow> bool" where
  "menu_ok b \<longleftrightarrow> 0 \<le> searchIndex b \<and> searchIndex b \<le> 11 \<and> SelectItemCount b = 11 \<and>
     (\<forall>c \<in> set (selectNodes b). is_select_item c \<longrightarrow> kids c \<noteq> [])"

lemma count_items_app: "count_items (xs @ ys) n = count_items ys (count_items xs n)"
  by (induction xs n rule: count_items.induct) simp_all

lemma set_mark_item: "set_mark m c = Some d \<Longrightarrow> is_select_item d = is_select_item c \<and> kids d \<noteq> []"
  by (cases c) (auto simp: set_mark_def is_select_item_def elemClass_def attr_def split: list.splits)

lemma set_items_keeps:
  "set_items sel j ns = Inr ns' \<Longrightarrow>
   count_items ns' n = count_items ns n \<and> map is_select_item ns' = map is_select_item ns \<and>
   (\<forall>c \<in> set ns'. is_select_item c \<longrightarrow> kids c \<noteq> [])"
proof (induction ns arbitrary: j ns' n)
  case (Cons c rest)
  show ?case
  proof (cases "is_select_item c")
    case False
    with Cons.prems obtain r where r: "set_items sel j rest = Inr r" "ns' = c # r"
      by (auto simp: and_then_def split: sum.splits)
    from Cons.IH [OF r(1)] r(2) False show ?thesis by simp
  next
    case True
    with Cons.prems obtain d r where r: "set_mark (if j = sel then bullet else blank) c = Some d"
      "set_items sel (j + 1) rest = Inr r" "ns' = d # r"
      by (simp add: and_then_def split: sum.splits option.splits)
    from Cons.IH [OF r(2)] set_mark_item [OF r(1)] r(3) True show ?thesis by simp
  qed
qed simp

lemma set_items_total:
  "\<forall>c \<in> set ns. is_select_item c \<longrightarrow> kids c \<noteq> [] \<Longrightarrow> \<exists>ns'. set_items sel j ns = Inr ns'"
proof (induction ns arbitrary: j)
  case (Cons c rest)
  then have ex: "\<exists>r. set_items sel j' rest = Inr r" for j' by simp
  show ?case
  proof (cases "is_select_item c")
    case True
    with Cons.prems obtain d where "set_mark (if j = sel then bullet else blank) c = Some d"
      by (cases "kids c") (auto simp: set_mark_def)
    with True ex [of "j + 1"] show ?thesis by auto
  next
    case False
    with ex [of j] show ?thesis by auto
  qed
qed simp

lemma menu_ok_cong:
  "selectNodes b' = selectNodes b \<Longrightarrow> searchIndex b' = searchIndex b \<Longrightarrow> menu_ok b' = menu_ok b"
  by (simp add: menu_ok_def SelectItemCount_def)

lemma BoxSearch_menu [simp]:
  "selectNodes (state_of (BoxSearch lay b)) = selectNodes b"
  "searchIndex (state_of (BoxSearch lay b)) = searchIndex b"
  by (rule BoxSearch_cases [of lay b]; simp)+

lemma OnSelectItem_menu:
  assumes "menu_ok b" "0 \<le> i" "i \<le> 11"
  obtains ns where "set_items i 0 (selectNodes b) = Inr ns"
    "OnSelectItem lay i b =
       (let b1 = b\<lparr>searchIndex := i, selectNodes := ns\<rparr>
        in if strip_all (fieldValue b) \<noteq> [] \<and> searchActive b then BoxSearch lay b1 else Inr b1)"
    "menu_ok (b\<lparr>searchIndex := i, selectNodes := ns\<rparr>)"
proof -
  from assms set_items_total [of "selectNodes b" i 0] obtain ns
    where ns: "set_items i 0 (selectNodes b) = Inr ns" by (auto simp: menu_ok_def)
  with set_items_keeps [OF ns, of 0] assms show thesis
    by (intro that [of ns]) (simp_all add: OnSelectItem_def SelectItemSet_def menu_ok_def
        SelectItemCount_def Let_def)
qed

lemma menu_ok_OnSelectItem:
  assumes "menu_ok b" "0 \<le> i" "i \<le> 11"
  shows "menu_ok (state_of (OnSelectItem lay i b))"
proof -
  obtain ns where ns: "OnSelectItem lay i b =
       (let b1 = b\<lparr>searchIndex := i, selectNodes := ns\<rparr>
        in if strip_all (fieldValue b) \<noteq> [] \<and> searchActive b then BoxSearch lay b1 else Inr b1)"
    "menu_ok (b\<lparr>searchIndex := i, selectNodes := ns\<rparr>)"
    using OnSelectItem_menu [OF assms] by metis
  have "menu_ok (state_of (BoxSearch lay (b\<lparr>searchIndex := i, selectNodes := ns\<rparr>)))"
    using ns(2) by (subst menu_ok_cong) simp_all
  with ns show ?thesis by (simp add: Let_def)
qed

lemma OnSearchSelectShow_menu [simp]:
  "selectNodes (OnSearchSelectShow lay b) = selectNodes b"
  "searchIndex (OnSearchSelectShow lay b) = searchIndex b"
  by (simp_all add: OnSearchSelectShow_def Let_def clearTimeout_def)

lemma compareValue_menu [simp]:
  "selectNodes (compareValue b) = selectNodes b" "searchIndex (compareValue b) = searchIndex b"
  by (simp_all add: compareValue_def Let_def setTimeout_def)

lemma killKeyTimer_menu [simp]:
  "selectNodes (killKeyTimer b) = selectNodes b" "searchIndex (killKeyTimer b) = searchIndex b"
  by (simp_all add: killKeyTimer_def clearTimeout_def)

lemma FieldChange_menu:
  "selectNodes (state_of (OnSearchFieldChange lay k sh b)) = selectNodes b \<and>
   searchIndex (state_of (OnSearchFieldChange lay k sh b)) = searchIndex b"
proof -
  let ?b = "killKeyTimer b"
  have "selectNodes (state_of (and_then (enterResults ?b) (\<lambda>b1. Inr (compareValue b1)))) = selectNodes b \<and>
      searchIndex (state_of (and_then (enterResults ?b) (\<lambda>b1. Inr (compareValue b1)))) = searchIndex b"
    using enterResults_frame(7,8) [of ?b] by (cases "enterResults ?b") auto
  then show ?thesis
    by (simp add: OnSearchFieldChange_def Let_def leaveField_def split: option.split)
qed

lemma menu_ok_SelectKey:
  assumes "menu_ok b"
  shows "menu_ok (state_of (OnSearchSelectKey lay k b))"
proof -
  have i: "0 \<le> searchIndex b" "searchIndex b \<le> 11" "SelectItemCount b = 11"
    using assms by (simp_all add: menu_ok_def)
  have m: "menu_ok (b\<lparr>searchIndex := j\<rparr>)" if "0 \<le> j" "j \<le> 11" for j
    using assms that by (simp add: menu_ok_def SelectItemCount_def)
  have "menu_ok (state_of (and_then (OnSelectItem lay (searchIndex b) b)
      (\<lambda>b1. Inr (moveFocus SearchField (CloseSelectionWindow b1)))))"
    using menu_ok_OnSelectItem [OF assms i(1,2), of lay]
    by (cases "OnSelectItem lay (searchIndex b) b") (auto simp: menu_ok_def SelectItemCount_def)
  with assms i show ?thesis
    by (simp add: OnSearchSelectKey_def Let_def menu_ok_OnSelectItem m)
qed

lemma menu_ok_updates:
  "menu_ok (b\<lparr>fieldValue := v\<rparr>) = menu_ok b" "menu_ok (b\<lparr>frame := f\<rparr>) = menu_ok b"
  "menu_ok (blurField b) = menu_ok b" "menu_ok (moveFocus g b) = menu_ok b"
  "menu_ok (CloseSelectionWindow b) = menu_ok b" "menu_ok (clearTimeout t b) = menu_ok b"
  "menu_ok (CloseResultsWindow b) = menu_ok b" "menu_ok (OnSearchSelectShow lay b) = menu_ok b"
  "menu_ok (OnSearchSelectHide b) = menu_ok b" "menu_ok (parent_calls cs b) = menu_ok b"
  "menu_ok (state_of (BoxSearch lay b)) = menu_ok b"
  "menu_ok (state_of (OnSearchFieldChange lay k sh b)) = menu_ok b"
  using FieldChange_menu [of lay k sh b]
  by (simp_all add: menu_ok_def SelectItemCount_def clearTimeout_def OnSearchSelectHide_def
      setTimeout_def)

lemma menu_ok_next:
  assumes "menu_ok b"
  shows "menu_ok (box_next lay e b)"
proof -
  have "SelectItemCount b = 11" using assms by (simp add: menu_ok_def)
  with assms show ?thesis
    by (cases e)
       (auto simp add: box_next_def box_step_def clickItem_def menu_ok_SelectKey fire_def frame_result_def
          menu_ok_OnSelectItem menu_ok_updates split: option.split sum.split timer_call.split)
qed

subsection \<open>The start, and the invariants of every reachable state\<close>

lemma kids_mk_item: "kids (mk_item k t) \<noteq> []"
  by (simp add: mk_item_def)

lemma start_nodes:
  obtains ns where "set_items 0 0 (text_node [CHR 0x0A] # menu_items) = Inr ns"
    "count_items ns 0 = 11" "\<forall>c \<in> set ns. is_select_item c \<longrightarrow> kids c \<noteq> []"
proof -
  let ?ns = "text_node [CHR 0x0A] # menu_items"
  have "\<forall>c \<in> set ?ns. is_select_item c \<longrightarrow> kids c \<noteq> []"
    by (auto simp: menu_items_def kids_mk_item is_select_item_def)
  from set_items_total [OF this] obtain ns where ns: "set_items 0 0 ?ns = Inr ns" by blast
  have "count_items ?ns 0 = 11" by code_simp
  with set_items_keeps [OF ns, of 0] that [OF ns] show thesis by simp
qed

lemma start_box:
  assumes "box_start lay b"
  obtains n p f l ns where "b = (newSearchBox n p f l)\<lparr>selectNodes := ns\<rparr>"
    "count_items ns 0 = 11" "\<forall>c \<in> set ns. is_select_item c \<longrightarrow> kids c \<noteq> []"
proof -
  from assms obtain n p f l where b: "init_search lay (newSearchBox n p f l) = Inr b"
    by (auto simp: box_start_def)
  obtain ns where ns: "set_items 0 0 (text_node [CHR 0x0A] # menu_items) = Inr ns"
    "count_items ns 0 = 11" "\<forall>c \<in> set ns. is_select_item c \<longrightarrow> kids c \<noteq> []"
    by (rule start_nodes)
  have "b = (newSearchBox n p f l)\<lparr>selectNodes := ns\<rparr>"
    using b ns(1) by (simp add: init_search_def OnSelectItem_def SelectItemSet_def newSearchBox_def)
  with ns that show thesis by blast
qed

interpretation box_timers: kept "box_start lay" "box_next lay" timers_ok for lay
proof
  fix b assume "box_start lay b"
  then show "timers_ok b" by (rule start_box) (simp add: timers_ok_def newSearchBox_def)
qed (rule timers_ok_next)

interpretation box_windows: kept "box_start lay" "box_next lay" windows_ok for lay
proof
  fix b assume "box_start lay b"
  then show "windows_ok b" by (rule start_box) (simp add: windows_ok_def newSearchBox_def)
qed (rule windows_ok_next)

interpretation box_menu: kept "box_start lay" "box_next lay" menu_ok for lay
proof
  fix b assume "box_start lay b"
  then show "menu_ok b"
    by (rule start_box) (simp add: menu_ok_def newSearchBox_def SelectItemCount_def)
qed (rule menu_ok_next)

text \<open>A concrete page and its first states.\<close>

definition demo_layout :: page_layout where
  "demo_layout =
     \<lparr>selectIcon = [\<lparr>offsetLeft = 3, offsetTop = 4, offsetWidth = 20, offsetHeight = 19\<rparr>,
                    \<lparr>offsetLeft = 500, offsetTop = 10, offsetWidth = 170, offsetHeight = 21\<rparr>],
      searchBoxAt = [\<lparr>offsetLeft = 500, offsetTop = 10, offsetWidth = 170, offsetHeight = 21\<rparr>],
      selectWindowWidth = 150, resultsFrameWidth = 300, bodyClientWidth = 1024\<rparr>"

definition demo_box :: search_box where
  "demo_box = state_of (init_search demo_layout (newSearchBox ''searchBox'' ''search'' False ''Search''))"

definition demo_reaches :: "box_event list \<Rightarrow> search_box" where
  "demo_reaches es = fold (box_next demo_layout) es demo_box"

lemma demo_start: "box_start demo_layout demo_box"
proof -
  obtain ns where ns: "set_items 0 0 (text_node [CHR 0x0A] # menu_items) = Inr ns"
    by (rule start_nodes)
  then have "init_search demo_layout (newSearchBox ''searchBox'' ''search'' False ''Search'') = Inr demo_box"
    by (simp add: demo_box_def init_search_def OnSelectItem_def SelectItemSet_def newSearchBox_def)
  then show ?thesis unfolding box_start_def by blast
qed

lemma demo_reachable: "reachable (box_start demo_layout) (box_next demo_layout) (demo_reaches es)"
  unfolding demo_reaches_def by (intro reachable_run reach_start demo_start)

text \<open>C13: in every state the page can reach, the results window and its close button are shown
  together; a running key timer is one of the pending timers and will call \<open>Search\<close>; timer
  numbers are not reused; the menu keeps its eleven items, and the selected index stays in
  \<open>0..11\<close> (one more than the last section, see \<open>select_down_past_last\<close>).\<close>

theorem box_invariant:
  assumes "reachable (box_start lay) (box_next lay) b"
  shows "(resultsDisplay b = DBlock \<longleftrightarrow> closeDisplay b = DInline) \<and>
    (keyTimeout b \<noteq> 0 \<longrightarrow> (\<exists>l. (keyTimeout b, CallSearch, l) \<in> set (timers b))) \<and>
    distinct (map fst (timers b)) \<and> SelectItemCount b = 11 \<and> 0 \<le> searchIndex b \<and> searchIndex b \<le> 11"
  using box_timers.holds [OF assms] box_windows.holds [OF assms] box_menu.holds [OF assms]
  by (fastforce simp: timers_ok_def windows_ok_def menu_ok_def)

theorem box_invariant_witness:
  "keyTimeout (demo_reaches [FocusField, TypeText ''conf'', FieldKeyUp 70 False]) = 1 \<and>
   (\<exists>l. (1, CallSearch, l) \<in> set (timers (demo_reaches [FocusField, TypeText ''conf'', FieldKeyUp 70 False])))"
proof -
  have k: "keyTimeout (demo_reaches [FocusField, TypeText ''conf'', FieldKeyUp 70 False]) = 1"
    by code_simp
  from box_invariant [OF demo_reachable, of "[FocusField, TypeText ''conf'', FieldKeyUp 70 False]"] k
  show ?thesis by simp
qed

text \<open>C31: the Escape key in the search field resets the panel from every state: both the results
  window and the close button are hidden, the label is back in the field, which has lost the
  focus, nothing is remembered of the last search, and its key timer no longer runs.\<close>

theorem escape_resets:
  "\<exists>b'. OnSearchFieldChange lay 27 shift b = Inr b' \<and>
     resultsDisplay b' = DNone \<and> closeDisplay b' = DNone \<and> fieldValue b' = searchLabel b \<and>
     boxClass b' = ''MSearchBoxInactive'' \<and> \<not> searchActive b' \<and> lastSearchValue b' = [] \<and>
     lastResultsPage b' = [] \<and> focusOn b' \<noteq> SearchField \<and> keyTimeout b' = 0 \<and>
     timers b' = (if keyTimeout b = 0 then timers b
                  else filter (\<lambda>t. fst t \<noteq> keyTimeout b) (timers b))"
  by (simp add: OnSearchFieldChange_def Let_def leaveField_def Activate_def blurField_def moveFocus_def
      OnSearchFieldFocus_def killKeyTimer_def clearTimeout_def)

section \<open>What a search opens\<close>

lemma BoxSearch_found:
  assumes "table_get indexSectionsWithContent (searchIndex b) = Some chars"
    and "table_get indexSectionNames (searchIndex b) = Some sec"
    and "v = strip_leading (fieldValue b)" "v \<noteq> []" "lower_char (hd v) \<in> set chars"
  obtains n where "n < length chars" "chars ! n = lower_char (hd v)"
    "BoxSearch lay b = Inr ((showResults lay (b\<lparr>keyTimeout := 0, frameLocation :=
        resultsPath b @ ''/'' @ sec @ ''_'' @ toString16 n @ ''.html'' @ ''?'' @ js_escape v\<rparr>))
      \<lparr>lastSearchValue := v,
       lastResultsPage := resultsPath b @ ''/'' @ sec @ ''_'' @ toString16 n @ ''.html''\<rparr>)"
proof -
  from assms(4) have i: "idxChar_of v = [lower_char (hd v)]"
    by (cases v) (simp_all add: idxChar_of_def toLowerCase_def)
  with assms(5) have "indexOf chars (idxChar_of v) \<noteq> -1" by (simp add: indexOf_char_iff)
  with indexOf_cases [of chars "idxChar_of v"] have pos: "0 \<le> indexOf chars (idxChar_of v)" by auto
  define n where "n = nat (indexOf chars (idxChar_of v))"
  with pos have n: "indexOf chars (idxChar_of v) = int n" by simp
  with i have "indexOf chars [lower_char (hd v)] = int n" by simp
  from indexOf_char_nth [OF this] have "n < length chars" "chars ! n = lower_char (hd v)" .
  moreover have "results_address (b\<lparr>keyTimeout := 0\<rparr>) v =
      Some (resultsPath b @ ''/'' @ sec @ ''_'' @ toString16 n @ ''.html'',
        (resultsPath b @ ''/'' @ sec @ ''_'' @ toString16 n @ ''.html'') @ ''?'' @ js_escape v)"
    using assms(1,2) n by (simp add: results_address_def Let_def)
  ultimately show thesis
    using assms(3) by (intro that [of n]) (simp_all add: BoxSearch_def Let_def)
qed

lemma search_word_query: "search_word [] (CHR ''?'' # js_escape v) = Some v"
  using query_code [of v v] by (simp add: search_word_def substring_def)

lemma load_results_rows:
  assumes "\<forall>d \<in> set ds. well_named d"
  shows "\<exists>pg. load_results ds (CHR ''?'' # js_escape v) = Inr (pg, True) \<and>
    (\<forall>e < length ds. disp_at (body pg) [e] =
       Some (if prefix (toLowerCase (trimmed v)) (toLowerCase (entryName (ds ! e)))
             then DBlock else DNone))"
proof -
  have "page_of ds ((fresh_page ds)\<lparr>noMatchesDisplay := DNone\<rparr>)"
    using page_of_fresh [of ds] by (simp add: page_of_def)
  from Search_core [OF this assms search_word_query, of v] show ?thesis
    unfolding load_results_def by blast
qed

lemma search_opens_rows:
  assumes "table_get indexSectionsWithContent (searchIndex b) = Some chars"
    and "table_get indexSectionNames (searchIndex b) = Some sec"
    and "v = strip_leading (fieldValue b)" and "v \<noteq> []" and "lower_char (hd v) \<in> set chars"
    and "\<forall>d \<in> set ds. well_named d"
  shows "\<exists>b' n pg. BoxSearch lay b = Inr b' \<and> resultsDisplay b' = DBlock \<and>
    n < length chars \<and> chars ! n = lower_char (hd v) \<and>
    frameLocation b' = resultsPath b @ ''/'' @ sec @ ''_'' @ toString16 n @ ''.html'' @
      CHR ''?'' # js_escape v \<and>
    load_results ds (CHR ''?'' # js_escape v) = Inr (pg, True) \<and>
    (\<forall>e < length ds. disp_at (body pg) [e] =
       Some (if prefix (toLowerCase (trimmed (fieldValue b))) (toLowerCase (entryName (ds ! e)))
             then DBlock else DNone))"
proof -
  obtain n where n: "n < length chars" "chars ! n = lower_char (hd v)"
    "BoxSearch lay b = Inr ((showResults lay (b\<lparr>keyTimeout := 0, frameLocation :=
        resultsPath b @ ''/'' @ sec @ ''_'' @ toString16 n @ ''.html'' @ ''?'' @ js_escape v\<rparr>))
      \<lparr>lastSearchValue := v,
       lastResultsPage := resultsPath b @ ''/'' @ sec @ ''_'' @ toString16 n @ ''.html''\<rparr>)"
    by (rule BoxSearch_found [OF assms(1-5)])
  from load_results_rows [OF assms(6), of v] obtain pg
    where "load_results ds (CHR ''?'' # js_escape v) = Inr (pg, True)"
    "\<forall>e < length ds. disp_at (body pg) [e] =
       Some (if prefix (toLowerCase (trimmed v)) (toLowerCase (entryName (ds ! e)))
             then DBlock else DNone)" by blast
  with n assms(3) show ?thesis by simp (metis n(1,2) assms(3))
qed

section \<open>Past the last section\<close>

lemma results_address_defined: "results_address b v = None \<longleftrightarrow> \<not> (0 \<le> searchIndex b \<and> searchIndex b \<le> 10)"
  using table_get_sections [of "searchIndex b"]
  by (auto simp: results_address_def Let_def split: option.splits)

lemma BoxSearch_error_iff: "isl (BoxSearch lay b) \<longleftrightarrow> \<not> (0 \<le> searchIndex b \<and> searchIndex b \<le> 10)"
  using results_address_defined [of "b\<lparr>keyTimeout := 0\<rparr>" "strip_leading (fieldValue b)"]
  by (auto simp: BoxSearch_def Let_def split: option.splits)

text \<open>C39: the Down key in the menu moves past the last section. On every reachable page the search
  raises a \<open>TypeError\<close> exactly if the selected index is 11, and with the last section selected
  and a text in the field the Down key gets there: it stores the index 11 and the search it
  starts fails.\<close>

theorem select_down_past_last:
  assumes "reachable (box_start lay) (box_next lay) b"
  shows "(isl (BoxSearch lay b) \<longleftrightarrow> searchIndex b = 11) \<and>
    (searchIndex b = 10 \<and> searchActive b \<and> strip_all (fieldValue b) \<noteq> [] \<longrightarrow>
      (\<exists>b'. box_step lay (SelectKey 40) b = Inl (TypeError, b') \<and> searchIndex b' = 11))"
proof -
  have ok: "menu_ok b" using assms by (rule box_menu.holds)
  then have i: "0 \<le> searchIndex b" "searchIndex b \<le> 11" "SelectItemCount b = 11"
    by (simp_all add: menu_ok_def)
  then have "isl (BoxSearch lay b) \<longleftrightarrow> searchIndex b = 11" by (auto simp: BoxSearch_error_iff)
  moreover have "\<exists>b'. box_step lay (SelectKey 40) b = Inl (TypeError, b') \<and> searchIndex b' = 11"
    if h: "searchIndex b = 10" "searchActive b" "strip_all (fieldValue b) \<noteq> []"
  proof -
    have ok': "menu_ok (b\<lparr>searchIndex := 11\<rparr>)" using ok by (simp add: menu_ok_def SelectItemCount_def)
    obtain ns where "OnSelectItem lay 11 (b\<lparr>searchIndex := 11\<rparr>) =
        BoxSearch lay (b\<lparr>searchIndex := 11, selectNodes := ns\<rparr>)"
      by (rule OnSelectItem_menu [OF ok', of 11]) (use h in \<open>simp_all add: Let_def\<close>)
    moreover have "BoxSearch lay (b\<lparr>searchIndex := 11, selectNodes := ns\<rparr>) =
        Inl (TypeError, b\<lparr>searchIndex := 11, selectNodes := ns, keyTimeout := 0\<rparr>)"
      by (rule BoxSearch_cases [of lay "b\<lparr>searchIndex := 11, selectNodes := ns\<rparr>"])
         (use BoxSearch_error_iff [of lay "b\<lparr>searchIndex := 11, selectNodes := ns\<rparr>"] in simp_all)
    ultimately show ?thesis
      using h i by (simp add: box_step_def OnSearchSelectKey_def Let_def)
  qed
  ultimately show ?thesis by blast
qed

theorem select_down_past_last_witness:
  "\<exists>b'. box_step demo_layout (SelectKey 40)
      (demo_reaches [FocusField, TypeText ''con'', FieldKeyUp 78 False, TimerFires 1, ClickItem 10]) = Inl (TypeError, b') \<and>
    searchIndex b' = 11"
proof -
  let ?b = "demo_reaches [FocusField, TypeText ''con'', FieldKeyUp 78 False, TimerFires 1, ClickItem 10]"
  have s: "searchIndex ?b = 10 \<and> searchActive ?b \<and> strip_all (fieldValue ?b) \<noteq> []" by code_simp
  from select_down_past_last [OF demo_reachable] s show ?thesis by blast
qed

section \<open>The delay before a search\<close>

definition pending :: "search_box \<Rightarrow> (nat \<times> timer_call \<times> nat) list" where
  "pending b = filter (\<lambda>(t, c, l). c = CallSearch) (timers b)"

definition tracked :: "search_box \<Rightarrow> bool" where
  "tracked b \<longleftrightarrow> timers_ok b \<and> (\<forall>(t, c, l) \<in> set (timers b). c = CallSearch \<longrightarrow> t = keyTimeout b)"

definition menu_event :: "box_event \<Rightarrow> bool" where
  "menu_event e = (case e of SelectKey k \<Rightarrow> True | ClickItem i \<Rightarrow> True | _ \<Rightarrow> False)"

definition off_menu :: "page_layout \<Rightarrow> box_event \<Rightarrow> search_box \<Rightarrow> search_box" where
  "off_menu lay e b = (if menu_event e then b else box_next lay e b)"

definition keys_kept :: "search_box \<Rightarrow> search_box \<Rightarrow> bool" where
  "keys_kept b b' \<longleftrightarrow> keyTimeout b' = keyTimeout b \<and>
     (\<forall>p \<in> set (timers b'). fst (snd p) = CallSearch \<longrightarrow> p \<in> set (timers b))"

lemma tracked_keys_kept: "tracked b \<Longrightarrow> timers_ok b' \<Longrightarrow> keys_kept b b' \<Longrightarrow> tracked b'"
  by (fastforce simp: tracked_def keys_kept_def)

lemma keys_kept_same: "timers b' = timers b \<Longrightarrow> keyTimeout b' = keyTimeout b \<Longrightarrow> keys_kept b b'"
  by (simp add: keys_kept_def)

lemma keys_kept_Hide: "keys_kept b (OnSearchSelectHide b)"
  by (auto simp: keys_kept_def OnSearchSelectHide_def setTimeout_def)

lemma keys_kept_Show: "keys_kept b (OnSearchSelectShow lay b)"
  by (auto simp: keys_kept_def OnSearchSelectShow_def Let_def clearTimeout_def)

lemma no_search_after_kill:
  "tracked b \<Longrightarrow> p \<in> set (timers (killKeyTimer b)) \<Longrightarrow> fst (snd p) \<noteq> CallSearch"
  by (fastforce simp: tracked_def killKeyTimer_def clearTimeout_def timers_ok_def)

lemma keyTimeout_kill [simp]: "keyTimeout (killKeyTimer b) = 0"
  by (simp add: killKeyTimer_def)

lemma tracked_FieldChange:
  assumes "tracked b"
  shows "tracked (state_of (OnSearchFieldChange lay k sh b))"
proof -
  let ?b = "killKeyTimer b"
  have ok: "timers_ok (state_of (OnSearchFieldChange lay k sh b))"
    using assms by (intro timers_ok_FieldChange) (simp add: tracked_def)
  have none: "\<forall>p \<in> set (timers ?b). fst (snd p) \<noteq> CallSearch"
    using no_search_after_kill [OF assms] by blast
  have cv: "\<forall>(t, c, l) \<in> set (timers (compareValue b1)). c = CallSearch \<longrightarrow> t = keyTimeout (compareValue b1)"
    if "timers b1 = timers ?b" for b1
    using none that by (fastforce simp: compareValue_def Let_def setTimeout_def)
  have er: "\<forall>(t, c, l) \<in> set (timers (state_of (and_then (enterResults ?b) (\<lambda>b1. Inr (compareValue b1))))).
      c = CallSearch \<longrightarrow> t = keyTimeout (state_of (and_then (enterResults ?b) (\<lambda>b1. Inr (compareValue b1))))"
    using enterResults_frame(1) [of ?b] none cv by (cases "enterResults ?b") fastforce+
  have sh: "\<forall>p \<in> set (timers (OnSearchSelectShow lay ?b)). fst (snd p) \<noteq> CallSearch"
    using none keys_kept_Show [of ?b lay] by (auto simp: keys_kept_def)
  have "\<forall>(t, c, l) \<in> set (timers (state_of (OnSearchFieldChange lay k sh b))).
      c = CallSearch \<longrightarrow> t = keyTimeout (state_of (OnSearchFieldChange lay k sh b))"
    using none sh er cv [of ?b]
    by (fastforce simp: OnSearchFieldChange_def Let_def leaveField_def split: option.split)
  with ok show ?thesis by (simp add: tracked_def)
qed

lemma tracked_fire:
  assumes "tracked b"
  shows "tracked (state_of (fire lay t b))"
proof -
  have ok: "timers_ok (state_of (fire lay t b))"
    using assms by (intro timers_ok_fire) (simp add: tracked_def)
  show ?thesis
  proof (cases "find (\<lambda>p. fst p = t) (timers b)")
    case None
    with assms show ?thesis by (simp add: fire_def)
  next
    case (Some p)
    obtain u c l where p: "p = (u, c, l)" by (cases p)
    from find_timer [OF Some [unfolded p]] have m: "(t, c, l) \<in> set (timers b)" by simp
    show ?thesis
    proof (cases c)
      case CallSearch
      with m assms have t: "t = keyTimeout b" by (fastforce simp: tracked_def)
      have "\<forall>p \<in> set (timers (clearTimeout t b)). fst (snd p) \<noteq> CallSearch"
        using assms t by (fastforce simp: tracked_def clearTimeout_def)
      moreover have "timers (state_of (fire lay t b)) = timers (clearTimeout t b)"
        using Some p CallSearch
        by (simp add: fire_def) (rule BoxSearch_cases [of lay "clearTimeout t b"]; simp)
      ultimately show ?thesis using ok by (fastforce simp: tracked_def)
    next
      case CallCloseSelectionWindow
      with Some p have "keys_kept b (state_of (fire lay t b))"
        by (auto simp: fire_def keys_kept_def clearTimeout_def)
      then show ?thesis by (rule tracked_keys_kept [OF assms ok])
    qed
  qed
qed

lemma tracked_off_menu:
  assumes "tracked b"
  shows "tracked (off_menu lay e b)"
proof -
  have ok: "timers_ok (box_next lay e b)"
    using assms by (intro timers_ok_next) (simp add: tracked_def)
  have "tracked (box_next lay e b)" if "\<not> menu_event e"
  proof (cases "\<exists>k s. e = FieldKeyUp k s \<or> e = TimerFires k")
    case True
    with assms show ?thesis by (auto simp: box_next_def box_step_def tracked_FieldChange tracked_fire)
  next
    case False
    with that have "keys_kept b (box_next lay e b)"
      by (cases e) (auto simp: box_next_def box_step_def menu_event_def keys_kept_Show keys_kept_Hide
          frame_result_def intro!: keys_kept_same split: option.split sum.split)
    then show ?thesis by (rule tracked_keys_kept [OF assms ok])
  qed
  with assms show ?thesis by (simp add: off_menu_def)
qed

interpretation one_timer: kept "box_start lay" "off_menu lay" tracked for lay
proof
  fix b assume "box_start lay b"
  then show "tracked b"
    by (rule start_box) (simp add: tracked_def timers_ok_def newSearchBox_def)
qed (rule tracked_off_menu)

lemma tracked_pending: "tracked b \<Longrightarrow> length (pending b) \<le> 1"
proof -
  assume t: "tracked b"
  have "distinct (map fst (pending b))"
    using t by (simp add: tracked_def timers_ok_def pending_def distinct_map_filter)
  moreover have "set (map fst (pending b)) \<subseteq> {keyTimeout b}"
    using t by (fastforce simp: tracked_def pending_def)
  ultimately have "length (map fst (pending b)) \<le> card {keyTimeout b}"
    by (metis card_mono distinct_card finite.emptyI finite_insert)
  then show ?thesis by simp
qed

text \<open>C19: keys in the field never start two searches. Without an event in the menu, at most one
  search is waiting for its timer, and \<open>keyTimeout\<close> is its number, so the next key stops it.\<close>

theorem one_pending_search:
  assumes "reachable (box_start lay) (off_menu lay) b"
  shows "length (pending b) \<le> 1 \<and> (\<forall>(t, c, l) \<in> set (pending b). t = keyTimeout b)"
proof -
  have t: "tracked b" using assms by (rule one_timer.holds)
  from tracked_pending [OF t] t show ?thesis by (fastforce simp: tracked_def pending_def)
qed

theorem one_pending_search_witness:
  "length (pending (fold (off_menu demo_layout)
      [FocusField, TypeText ''co'', FieldKeyUp 79 False, TypeText ''con'', FieldKeyUp 78 False]
      demo_box)) \<le> 1"
proof -
  have "box_start demo_layout demo_box"
    using demo_start .
  then have "reachable (box_start demo_layout) (off_menu demo_layout) (fold (off_menu demo_layout)
      [FocusField, TypeText ''co'', FieldKeyUp 79 False, TypeText ''con'', FieldKeyUp 78 False] demo_box)"
    by (intro reachable_run reach_start)
  from one_pending_search [OF this] show ?thesis by blast
qed

lemma leaving_the_field:
  assumes "focusOn b = SearchField \<longrightarrow> resultsDisplay b = DBlock \<and> fieldValue b \<noteq> searchLabel b"
    and "t \<noteq> SearchField"
  shows "fieldValue (moveFocus t b) = fieldValue b" "searchActive (moveFocus t b) = searchActive b"
    "lastSearchValue (moveFocus t b) = lastSearchValue b"
  using assms by (auto simp: moveFocus_def OnSearchFieldFocus_def Activate_def Let_def)

text \<open>C38: the menu breaks this. \<open>Search\<close> forgets the key timer without stopping it, so when a menu
  item is clicked while a key timer runs, the timer goes on, and with the next change of the text
  two searches are waiting. If the field has the focus, the press on the item takes it away: the
  results must be shown already, and the text must not be the label, or the field is reset.\<close>

theorem menu_leaves_timer:
  assumes "reachable (box_start lay) (box_next lay) b"
    and "focusOn b = SearchField \<longrightarrow> resultsDisplay b = DBlock \<and> fieldValue b \<noteq> searchLabel b"
    and "keyTimeout b \<noteq> 0" and "searchActive b" and "strip_all (fieldValue b) \<noteq> []"
    and "0 \<le> i" and "i \<le> 10" and "strip_all s \<noteq> []"
    and "strip_all s \<noteq> strip_leading (fieldValue b)"
  shows "length (pending (fold (box_next lay)
      [ClickItem i, FocusField, TypeText s, FieldKeyUp 65 False] b)) = Suc (length (pending b))"
proof -
  define b0 where "b0 = moveFocus (SelectChild (item_node i (selectNodes b))) b"
  have b0: "fieldValue b0 = fieldValue b" "searchActive b0 = searchActive b"
    unfolding b0_def by (simp_all add: leaving_the_field [OF assms(2)])
  have ok: "menu_ok b" using assms(1) by (rule box_menu.holds)
  then have ok0: "menu_ok b0" by (simp add: b0_def menu_ok_updates)
  obtain ns where ns: "OnSelectItem lay i b0 = BoxSearch lay (b0\<lparr>searchIndex := i, selectNodes := ns\<rparr>)"
    by (rule OnSelectItem_menu [OF ok0, of i]) (use assms b0 in \<open>simp_all add: Let_def\<close>)
  let ?b = "b0\<lparr>searchIndex := i, selectNodes := ns\<rparr>"
  have "\<not> isl (BoxSearch lay ?b)" using assms(6,7) by (simp add: BoxSearch_error_iff)
  then obtain page q where r: "BoxSearch lay ?b =
      Inr ((showResults lay (?b\<lparr>keyTimeout := 0, frameLocation := q\<rparr>))
        \<lparr>lastSearchValue := strip_leading (fieldValue b), lastResultsPage := page\<rparr>)"
    using BoxSearch_cases [of lay ?b] b0 by fastforce
  define b1 where "b1 = box_next lay (ClickItem i) b"
  have step: "b1 = state_of (OnSelectItem lay i b0)"
    using ok assms(6,7) by (simp add: b1_def box_next_def box_step_def clickItem_def menu_ok_def b0_def)
  have b1: "timers b1 = timers b" "keyTimeout b1 = 0" "lastSearchValue b1 = strip_leading (fieldValue b)"
    unfolding step ns r by (simp_all add: b0_def)
  define b2 where "b2 = box_next lay (TypeText s) (box_next lay FocusField b1)"
  have b2: "timers b2 = timers b" "keyTimeout b2 = 0" "fieldValue b2 = s"
    "lastSearchValue b2 = strip_leading (fieldValue b)"
    using b1 by (simp_all add: b2_def box_next_def box_step_def)
      (simp add: moveFocus_def OnSearchFieldFocus_def Activate_def Let_def)
  have "pending (box_next lay (FieldKeyUp 65 False) b2) =
      pending b @ [(Suc (lastTimer b2), CallSearch, keyTimeoutLength b2)]"
    using b2 assms(8,9)
    by (simp add: box_next_def box_step_def OnSearchFieldChange_def killKeyTimer_def compareValue_def
        Let_def setTimeout_def pending_def)
  then show ?thesis by (simp add: b1_def b2_def)
qed

text \<open>The results for \<open>con\<close> are shown when \<open>conf\<close> is typed and an item is clicked at once.\<close>

theorem menu_leaves_timer_witness:
  "length (pending (fold (box_next demo_layout)
      [ClickItem 3, FocusField, TypeText ''confi'', FieldKeyUp 65 False]
      (demo_reaches [FocusField, TypeText ''con'', FieldKeyUp 78 False, TimerFires 1,
         TypeText ''conf'', FieldKeyUp 70 False]))) =
   Suc (length (pending (demo_reaches [FocusField, TypeText ''con'', FieldKeyUp 78 False, TimerFires 1,
     TypeText ''conf'', FieldKeyUp 70 False])))"
proof (rule menu_leaves_timer [OF demo_reachable])
  let ?b = "demo_reaches [FocusField, TypeText ''con'', FieldKeyUp 78 False, TimerFires 1,
     TypeText ''conf'', FieldKeyUp 70 False]"
  show "focusOn ?b = SearchField \<longrightarrow> resultsDisplay ?b = DBlock \<and> fieldValue ?b \<noteq> searchLabel ?b"
    by code_simp
  show "keyTimeout ?b \<noteq> 0" "searchActive ?b" "strip_all (fieldValue ?b) \<noteq> []" by code_simp+
  show "strip_all ''confi'' \<noteq> strip_leading (fieldValue ?b)" by code_simp
qed (simp_all add: strip_all_def)

end
