(* ===== verification/CharBits.thy ===== *)
theory CharBits
  imports SearchText
begin

text \<open>
  Character classes, lower case and the coding of ids on the bits of a character: the same functions
  as in \<open>JsString\<close> and \<open>SearchText\<close>, with equations that evaluate by rewriting without
  arithmetic on code units.
\<close>

fun bits_az :: "char \<Rightarrow> bool" where
  "bits_az (Char b0 b1 b2 b3 b4 b5 b6 b7) \<longleftrightarrow>
     \<not> b7 \<and> b6 \<and> b5 \<and> (b4 \<or> b3 \<or> b2 \<or> b1 \<or> b0) \<and> \<not> (b4 \<and> b3 \<and> (b2 \<or> b1 \<and> b0))"

fun bits_AZ :: "char \<Rightarrow> bool" where
  "bits_AZ (Char b0 b1 b2 b3 b4 b5 b6 b7) \<longleftrightarrow>
     \<not> b7 \<and> b6 \<and> \<not> b5 \<and> (b4 \<or> b3 \<or> b2 \<or> b1 \<or> b0) \<and> \<not> (b4 \<and> b3 \<and> (b2 \<or> b1 \<and> b0))"

fun bits_09 :: "char \<Rightarrow> bool" where
  "bits_09 (Char b0 b1 b2 b3 b4 b5 b6 b7) \<longleftrightarrow> \<not> b7 \<and> \<not> b6 \<and> b5 \<and> b4 \<and> \<not> (b3 \<and> (b2 \<or> b1))"

fun bits_lower :: "char \<Rightarrow> char" where
  "bits_lower (Char b0 b1 b2 b3 b4 b5 b6 b7) =
     Char b0 b1 b2 b3 b4
       (b5 \<or> b6 \<and> (if b7 then \<not> (b4 \<and> b2 \<and> b1 \<and> b0)
         else (b4 \<or> b3 \<or> b2 \<or> b1 \<or> b0) \<and> \<not> (b4 \<and> b3 \<and> (b2 \<or> b1 \<and> b0)))) b6 b7"

lemmas char_bits = code_def of_char_Char horner_sum_simps

lemma is_az_bits [code]: "is_az c = bits_az c"
  by (cases c) (simp add: is_az_def char_bits split: if_splits)

lemma is_AZ_bits [code]: "is_AZ c = bits_AZ c"
  by (cases c) (simp add: is_AZ_def char_bits split: if_splits)

lemma is_09_bits [code]: "is_09 c = bits_09 c"
  by (cases c) (simp add: is_09_def char_bits split: if_splits)

lemma high_bit: "128 \<le> code (Char b0 b1 b2 b3 b4 b5 b6 b7) \<longleftrightarrow> b7"
  by (simp add: char_bits split: if_splits)

lemma lower_char_bits [code]: "lower_char c = bits_lower c"
proof (cases c)
  case (Char b0 b1 b2 b3 b4 b5 b6 b7)
  have u: "is_AZ c \<or> (192 \<le> code c \<and> code c \<le> 222 \<and> code c \<noteq> 215) \<longleftrightarrow>
     b6 \<and> \<not> b5 \<and> (if b7 then \<not> (b4 \<and> b2 \<and> b1 \<and> b0)
         else (b4 \<or> b3 \<or> b2 \<or> b1 \<or> b0) \<and> \<not> (b4 \<and> b3 \<and> (b2 \<or> b1 \<and> b0)))"
    unfolding is_AZ_bits Char by (cases b7; cases b6; cases b5; cases b4; cases b3; simp add: char_bits)
  have s: "char_of (code c + 32) = Char b0 b1 b2 b3 b4 True b6 b7" if "\<not> b5"
  proof -
    have "code (Char b0 b1 b2 b3 b4 True b6 b7) = code c + 32"
      using that unfolding Char by (simp add: char_bits)
    then show ?thesis by (metis char_of_code)
  qed
  show ?thesis
    unfolding lower_char_def u using s Char by auto
qed

fun nibble :: "bool \<Rightarrow> bool \<Rightarrow> bool \<Rightarrow> bool \<Rightarrow> char" where
  "nibble b0 b1 b2 b3 =
     (if b3 \<and> (b2 \<or> b1) then
        (if b2 then (if b1 then (if b0 then CHR ''f'' else CHR ''e'') else (if b0 then CHR ''d'' else CHR ''c''))
         else (if b0 then CHR ''b'' else CHR ''a''))
      else Char b0 b1 b2 b3 True True False False)"

lemma nibble_hex: "nibble b0 b1 b2 b3 = hex_digit (of_bool b0 + 2 * (of_bool b1 + 2 * (of_bool b2 + 2 * of_bool b3)))"
  by (cases b0; cases b1; cases b2; cases b3; simp add: hex_digit_def char_of_def bit_0)

fun bits_id :: "char \<Rightarrow> string" where
  "bits_id (Char b0 b1 b2 b3 b4 b5 b6 b7) =
     (if bits_az (Char b0 b1 b2 b3 b4 b5 b6 b7) \<or> bits_09 (Char b0 b1 b2 b3 b4 b5 b6 b7) \<or> b7
      then [Char b0 b1 b2 b3 b4 b5 b6 b7]
      else [CHR ''_'', nibble b4 b5 b6 b7, nibble b0 b1 b2 b3])"

lemma id_char_bits [code]: "id_char c = bits_id c"
proof (cases c)
  case (Char b0 b1 b2 b3 b4 b5 b6 b7)
  have p: "id_plain c \<longleftrightarrow> bits_az c \<or> bits_09 c \<or> b7"
    by (simp add: id_plain_def is_az_bits is_09_bits high_bit Char)
  have d: "code c div 16 = of_bool b4 + 2 * (of_bool b5 + 2 * (of_bool b6 + 2 * of_bool b7))"
    "code c mod 16 = of_bool b0 + 2 * (of_bool b1 + 2 * (of_bool b2 + 2 * of_bool b3))"
    unfolding Char char_bits by (cases b0; cases b1; cases b2; cases b3; simp)+
  show ?thesis
  proof (cases "id_plain c")
    case True
    then have "bits_az c \<or> bits_09 c \<or> b7" using p by simp
    then have "bits_id c = [c]" unfolding Char bits_id.simps by (rule if_P)
    with True show ?thesis by (simp add: id_char_plain)
  next
    case False
    then have "\<not> (bits_az c \<or> bits_09 c \<or> b7)" using p by simp
    then have "bits_id c = [CHR ''_'', nibble b4 b5 b6 b7, nibble b0 b1 b2 b3]"
      unfolding Char bits_id.simps by (rule if_not_P)
    with False show ?thesis unfolding nibble_hex d [symmetric] by (simp add: id_char_other)
  qed
qed

end
