(* ===== verification/SearchRow.thy ===== *)
theory SearchRow
  imports SearchResults CharBits
begin

text \<open>
  The shape of the generated result data, and what a page of data is checked for: the id of every
  entry is the converted name in lower case, and every name starts with the letter of the page.
\<close>

text \<open>One row \<open>[id, [name, [href, flag, scope], ...]]\<close> of \<open>searchData\<close>.\<close>

definition row :: "string \<Rightarrow> string \<Rightarrow> (string \<times> nat \<times> string) list \<Rightarrow> search_entry" where
  "row i n ts = \<lparr>entryId = i, entryName = n,
     targets = map (\<lambda>(u, f, s). \<lparr>href = u, inParent = f, scope = s\<rparr>) ts\<rparr>"

lemma row_sel [simp]: "entryId (row i n ts) = i" "entryName (row i n ts) = n"
  by (simp_all add: row_def)

definition entry_fits :: "char \<Rightarrow> search_entry \<Rightarrow> bool" where
  "entry_fits c d \<longleftrightarrow> well_named d \<and> take 1 (toLowerCase (entryName d)) = [c]"

definition page_fits :: "char \<Rightarrow> search_entry list \<Rightarrow> bool" where
  "page_fits c ds \<longleftrightarrow> list_all (entry_fits c) ds"

end
