(* ===== verification/SearchPages0.thy ===== *)
theory SearchPages0
  imports SearchRow
begin

text \<open>
  Generated data of the result pages, \<open>search/all_0.js\<close> to \<open>search/all_c.js\<close>: each
  assigns the entries of its page to the variable \<open>searchData\<close>.
\<close>

definition search_all_0 :: "search_entry list" where
  "search_all_0 =
    [row ''_5fconfigurator_5fserver'' ''_configurator_server'' [(''../struct__configurator__server.html'', 1, '''')],
     row ''_5fcqueue'' ''_CQueue'' [(''../struct___c_queue.html'', 1, '''')],
     row ''_5fsystem_5fthread_5fattr_5ft'' ''_system_thread_attr_t'' [(''../struct__system__thread__attr__t.html'', 1, '''')],
     row ''_5fsystem_5fthread_5fpriority'' ''_system_thread_priority'' [(''../group__thread__port__interface.html#ga1400a0ed4a4c5b30cd6203ad6ffb56b5'', 1, ''thread_port.h'')]]"

definition search_all_1 :: "search_entry list" where
  "search_all_1 =
    [row ''accept'' ''accept'' [(''../structnet__dev__operations.html#aa7117040725691ab877bd629c4f133c1'', 1, ''net_dev_operations'')],
     row ''activate'' ''activate'' [(''../structexo__request__args.html#af18b6cbdfa28e056879ee28eb8d8149b'', 1, ''exo_request_args'')],
     row ''activate_5fsm'' ''activate_sm'' [(''../exosite__api_8c.html#a65f400cf7ab24a50367886e93fb3a6f8'', 1, ''exosite_api.c'')],
     row ''activation_5fdelay'' ''ACTIVATION_DELAY'' [(''../group__config__port.html#ga0ad68b7e15c177f5c5c65858a3002041'', 1, ''config_port.h'')],
     row ''activation_5fretry_5ftype'' ''ACTIVATION_RETRY_TYPE'' [(''../group__config__port.html#ga44947a45f8730ca78692b152f9916be6'', 1, ''config_port.h'')],
     row ''alias'' ''alias'' [(''../structexo__request__args.html#aaed170b373434a254ad199548099dbf4'', 1, ''exo_request_args'')],
     row ''already_5fstarted'' ''already_started'' [(''../structnet__socket.html#a43d206eab083ac59bffd45c34acb5033'', 1, ''net_socket'')],
     row ''app_5ftype'' ''app_type'' [(''../structexo__request__args.html#aaf50078b644d9307d8ca37cd15112b33'', 1, ''exo_request_args'')],
     row ''assert_5fimpl'' ''assert_impl'' [(''../debug_8h.html#ae134ff9e257f4bed289113e9cf5023be'', 1, ''assert_impl(const char *, unsigned):&#160;debug.c''), (''../debug_8c.html#af046044c98c236d3ebc81c925d508fa0'', 1, ''assert_impl(const char *strFile, unsigned uLine):&#160;debug.c'')],
     row ''atheros_5fnet_5fip'' ''atheros_net_ip'' [(''../unionatheros__net__ip.html'', 1, '''')],
     row ''atheros_5fport_2ec'' ''atheros_port.c'' [(''../atheros__port_8c.html'', 1, '''')]]"

definition search_all_2 :: "search_entry list" where
  "search_all_2 =
    [row ''callback'' ''callback'' [(''../structexo__request__args.html#a91fbc400a7e28900bc94fcf961fcdeed'', 1, ''exo_request_args'')],
     row ''capture'' ''capture'' [(''../structcapture.html'', 1, '''')],
     row ''cbuffer_2ec'' ''cbuffer.c'' [(''../cbuffer_8c.html'', 1, '''')],
     row ''cbuffer_2eh'' ''cbuffer.h'' [(''../cbuffer_8h.html'', 1, '''')],
     row ''cbuffer_5fclass'' ''cbuffer_class'' [(''../structcbuffer__class.html'', 1, '''')],
     row ''cbuffer_5fdelete'' ''cbuffer_delete'' [(''../cbuffer_8h.html#a8a5e3d2b62d8b7ec7ca5469a7c5d9f9a'', 1, ''cbuffer_delete(struct cbuffer_class *cbuffer):&#160;cbuffer.c''), (''../cbuffer_8c.html#a8a5e3d2b62d8b7ec7ca5469a7c5d9f9a'', 1, ''cbuffer_delete(struct cbuffer_class *cbuffer):&#160;cbuffer.c'')],
     row ''cbuffer_5fget_5ffree'' ''cbuffer_get_free'' [(''../cbuffer_8h.html#aa26249031a802071f9eac3f03ddb7a1c'', 1, ''cbuffer_get_free(struct cbuffer_class *cbuffer_obj):&#160;cbuffer.c''), (''../cbuffer_8c.html#aa26249031a802071f9eac3f03ddb7a1c'', 1, ''cbuffer_get_free(struct cbuffer_class *cbuffer_obj):&#160;cbuffer.c'')],
     row ''cbuffer_5fget_5fused'' ''cbuffer_get_used'' [(''../cbuffer_8h.html#a80ff3b6e58e146387739a28ee6bde496'', 1, ''cbuffer_get_used(struct cbuffer_class *cbuffer_obj):&#160;cbuffer.c''), (''../cbuffer_8c.html#a80ff3b6e58e146387739a28ee6bde496'', 1, ''cbuffer_get_used(struct cbuffer_class *cbuffer_obj):&#160;cbuffer.c'')],
     row ''cbuffer_5fnew'' ''cbuffer_new'' [(''../cbuffer_8h.html#af0cafb24f63fcd82c108b23050fe6622'', 1, ''cbuffer_new(struct cbuffer_class **cbuffer, size_t size):&#160;cbuffer.c''), (''../cbuffer_8c.html#af0cafb24f63fcd82c108b23050fe6622'', 1, ''cbuffer_new(struct cbuffer_class **cbuffer, size_t size):&#160;cbuffer.c'')],
     row ''cbuffer_5fpop'' ''cbuffer_pop'' [(''../cbuffer_8h.html#a87b371ad832db31b46209bf853c71bfb'', 1, ''cbuffer_pop(struct cbuffer_class *cbuffer, char *buf, size_t max_len):&#160;cbuffer.c''), (''../cbuffer_8c.html#a2d7144c62c574f0970d593bc576446e1'', 1, ''cbuffer_pop(struct cbuffer_class *cbuffer_obj, char *buf, size_t max_len):&#160;cbuffer.c'')],
     row ''cbuffer_5fpush'' ''cbuffer_push'' [(''../cbuffer_8h.html#a4ea8dc3cbd7e8f517f56c8e31e37098d'', 1, ''cbuffer_push(struct cbuffer_class *cbuffer, char ch):&#160;cbuffer.c''), (''../cbuffer_8c.html#ae5612c4ecab13e51a3cb0792c6907317'', 1, ''cbuffer_push(struct cbuffer_class *cbuffer_obj, char ch):&#160;cbuffer.c'')],
     row ''check_5fmemory'' ''check_memory'' [(''../mem__check_8h.html#a3c74ce74ba1115f588f162521a543180'', 1, ''mem_check.c'')],
     row ''cik'' ''cik'' [(''../structexo__request__args.html#ac6b9371942e1c55c4212d6fd8fde8e6e'', 1, ''exo_request_args'')],
     row ''clb_5fparams'' ''clb_params'' [(''../structexo__request__args.html#ae8a014037216c07fdeb05f6554d74b90'', 1, ''exo_request_args'')],
     row ''clear_5fsocket'' ''clear_socket'' [(''../structprotocol__client__ops.html#ad542416a5c24912de4b7e00076cfcb90'', 1, ''protocol_client_ops'')],
     row ''client_20configuration'' ''Client Configuration'' [(''../group__client__config.html'', 1, '''')],
     row ''client_5fconfig_2ec'' ''client_config.c'' [(''../client__config_8c.html'', 1, '''')],
     row ''client_5fconfig_5fget_5fperiodic_5fconfig'' ''client_config_get_periodic_config'' [(''../group__client__config.html#ga00dd14915a00326a6e39b8eeee387780'', 1, ''client_config_get_periodic_config(void):&#160;client_config.c''), (''../group__client__config.html#ga00dd14915a00326a6e39b8eeee387780'', 1, ''client_config_get_periodic_config(void):&#160;client_config.c'')],
     row ''client_5fconfig_5fget_5fprotocol_5fclient_5fconfig'' ''client_config_get_protocol_client_config'' [(''../group__client__config.html#ga51c133c21f108820a33c6cbcd97bde45'', 1, ''client_config_get_protocol_client_config(struct protocol_client_config_class **client_config, enum application_protocol_type type, enum security_mode security):&#160;client_config.c''), (''../group__client__config.html#ga51c133c21f108820a33c6cbcd97bde45'', 1, ''client_config_get_protocol_client_config(struct protocol_client_config_class **client_config, enum application_protocol_type type, enum security_mode security):&#160;client_config.c'')],
     row ''client_5fconfig_5fget_5fserver_5fapi'' ''client_config_get_server_api'' [(''../group__client__config.html#ga7ecfc4f687a6d4e03a885968718423cd'', 1, ''client_config_get_server_api(struct server_api_request_ops **new_request_ops, enum application_protocol_type type):&#160;client_config.c''), (''../group__client__config.html#ga7ecfc4f687a6d4e03a885968718423cd'', 1, ''client_config_get_server_api(struct server_api_request_ops **new_request_ops, enum application_protocol_type type):&#160;client_config.c'')],
     row ''client_5fconfig_5fget_5fserver_5fdata'' ''client_config_get_server_data'' [(''../group__client__config.html#ga0f3c844fa9aae27378590e1840bf9a32'', 1, ''client_config_get_server_data(void):&#160;client_config.c''), (''../group__client__config.html#ga0f3c844fa9aae27378590e1840bf9a32'', 1, ''client_config_get_server_data(void):&#160;client_config.c'')],
     row ''client_5fconfig_5fget_5ftransmission_5fconfig'' ''client_config_get_transmission_config'' [(''../group__client__config.html#ga1dc406ec756f603c58b9ae6680716d6c'', 1, ''client_config_get_transmission_config(void):&#160;client_config.c''), (''../group__client__config.html#ga1dc406ec756f603c58b9ae6680716d6c'', 1, ''client_config_get_transmission_config(void):&#160;client_config.c'')],
     row ''client_5fdev'' ''client_dev'' [(''../structclient__dev.html'', 1, '''')],
     row ''client_5fsocket'' ''client_socket'' [(''../structclient__socket.html'', 1, ''client_socket''), (''../cyassl__client_8c.html#ad1af23f2007ffadf1a4dc0d6f9d334fc'', 1, ''client_socket(struct net_dev_operations *self, struct net_socket **nsocket):&#160;cyassl_client.c'')],
     row ''close'' ''close'' [(''../structnet__dev__operations.html#a9fd6a9817d88fd545642a4c710c96c16'', 1, ''net_dev_operations::close()''), (''../structprotocol__client__ops.html#ab797554943fe45937cbfbcecf826081a'', 1, ''protocol_client_ops::close()'')],
     row ''coap_5fclient_5fnew'' ''coap_client_new'' [(''../group__client__config.html#gafea73188c2073dc2b683fb44bab69349'', 1, ''coap_client_new(struct protocol_client_class **obj, struct net_dev_operations *net_if):&#160;libcoap_client.c''), (''../group__client__config.html#gafea73188c2073dc2b683fb44bab69349'', 1, ''coap_client_new(struct protocol_client_class **obj, struct net_dev_operations *net_if):&#160;libcoap_client.c''), (''../group__client__config.html#gafea73188c2073dc2b683fb44bab69349'', 1, ''coap_client_new(struct protocol_client_class **obj, struct net_dev_operations *net_if):&#160;picocoap_client.c'')],
     row ''common_5fdefines_2eh'' ''common_defines.h'' [(''../common__defines_8h.html'', 1, '''')],
     row ''compile_5ftime_5fdebug_5flevel'' ''COMPILE_TIME_DEBUG_LEVEL'' [(''../group__config__port.html#ga5cb94dc8a4a53289ac2c3735863442e6'', 1, ''config_port.h'')],
     row ''concurrent_5fqueue_2ec'' ''concurrent_queue.c'' [(''../concurrent__queue_8c.html'', 1, '''')],
     row ''concurrent_5fqueue_2eh'' ''concurrent_queue.h'' [(''../concurrent__queue_8h.html'', 1, '''')],
     row ''config'' ''config'' [(''../structnet__dev__operations.html#a17c6796bf622cedaeadf189a7b4b2bc8'', 1, ''net_dev_operations'')],
     row ''config_2eh'' ''config.h'' [(''../config_8h.html'', 1, '''')],
     row ''config_5fcyassl_2eh'' ''config_cyassl.h'' [(''../config__cyassl_8h.html'', 1, '''')],
     row ''config_5ffreertos_5flegacy'' ''CONFIG_FREERTOS_LEGACY'' [(''../group__config__port.html#ga8e1458050722d11b62f88ffd94fa31fa'', 1, ''config_port.h'')],
     row ''config_5fhas_5fconfigurator_5fserver'' ''CONFIG_HAS_CONFIGURATOR_SERVER'' [(''../group__config__port.html#ga7ed5b6c7cde2d0cf187305c882526fba'', 1, ''config_port.h'')],
     row ''config_5fhas_5fhttp'' ''CONFIG_HAS_HTTP'' [(''../group__config__port.html#ga351863517ce2dd6bc71f458cc6a0ca23'', 1, ''config_port.h'')],
     row ''config_5fhas_5flibcoap'' ''CONFIG_HAS_LIBCOAP'' [(''../group__config__port.html#ga084b21d60a4579a4c866f2a095bc65c6'', 1, ''config_port.h'')],
     row ''config_5fhas_5fpicocoap'' ''CONFIG_HAS_PICOCOAP'' [(''../group__config__port.html#ga2fe5244476e17317164dd863ba34a0ea'', 1, ''config_port.h'')],
     row ''config_5fhas_5fssl_5fheap'' ''CONFIG_HAS_SSL_HEAP'' [(''../group__config__port.html#gada1a09fe8b112ccfd27ba0f7722f1cc1'', 1, ''config_port.h'')],
     row ''config_5fhas_5fstring_5fheap'' ''CONFIG_HAS_STRING_HEAP'' [(''../group__config__port.html#ga099581e53d07aedb98b3bf6b520dd62a'', 1, ''config_port.h'')],
     row ''config_5fhas_5ftcp'' ''CONFIG_HAS_TCP'' [(''../group__config__port.html#ga790c97bbd7d37b1ea2d2edeecff9d480'', 1, ''config_port.h'')],
     row ''config_5fhas_5fudp'' ''CONFIG_HAS_UDP'' [(''../group__config__port.html#gaf1a8e3b50eb34ebb5dacd9fcb2f0250c'', 1, ''config_port.h'')],
     row ''config_5flibcoap_5fpacket_5fsize'' ''CONFIG_LIBCOAP_PACKET_SIZE'' [(''../group__config__port.html#gacd294693d00439623abeeacb8f78b33a'', 1, ''config_port.h'')],
     row ''config_5fmbedtls_2eh'' ''config_mbedtls.h'' [(''../config__mbedtls_8h.html'', 1, '''')],
     row ''config_5fnetwork_5fstack'' ''CONFIG_NETWORK_STACK'' [(''../group__config__port.html#gad571c2c076a0a2b5b9126e3778a60f86'', 1, ''config_port.h'')],
     row ''config_5fnumber_5fof_5fstate_5fmachines'' ''CONFIG_NUMBER_OF_STATE_MACHINES'' [(''../group__config__port.html#gaece77dcdf776ae8a75b2c08dea2cbf15'', 1, ''config_port.h'')],
     row ''config_5fos'' ''CONFIG_OS'' [(''../group__config__port.html#gaa71f926ee4abe503b5c13ea0d0edc131'', 1, ''config_port.h'')],
     row ''configuration'' ''Configuration'' [(''../group__config__port.html'', 1, '''')],
     row ''config_5fport_2eh'' ''config_port.h'' [(''../config__port_8h.html'', 1, '''')],
     row ''config_5fsecurity'' ''CONFIG_SECURITY'' [(''../group__config__port.html#gaa6121130d0dd17bf9bb6e3c75871222a'', 1, ''config_port.h'')],
     row ''config_5fssl_5fheap_5fsize'' ''CONFIG_SSL_HEAP_SIZE'' [(''../group__config__port.html#ga122d7b3d8e66a5b7f29b626d1e57c0e6'', 1, ''config_port.h'')],
     row ''config_5fstring_5fheap_5fsize'' ''CONFIG_STRING_HEAP_SIZE'' [(''../group__config__port.html#gabfdba307670e26e0cd69840fc48d89f2'', 1, ''config_port.h'')],
     row ''config_5fversion_5finfo'' ''CONFIG_VERSION_INFO'' [(''../group__config__port.html#gaaf5a0973d3b3092f368ba4af59b7c3d0'', 1, ''config_port.h'')],
     row ''configurator_20api'' ''Configurator API'' [(''../group___configurator___a_p_i.html'', 1, '''')],
     row ''configurator_5fbuffer_5fsize'' ''CONFIGURATOR_BUFFER_SIZE'' [(''../group__config__port.html#gae8c5a13f1bb84e12c962f2f83a5c7640'', 1, ''config_port.h'')],
     row ''connect'' ''connect'' [(''../structnet__dev__operations.html#a017ea21464813e54d35f40cc2ac398ef'', 1, ''net_dev_operations'')],
     row ''connect_5fretries'' ''connect_retries'' [(''../structtransmission__config__class.html#a43911be81d3678ac37486ed5d9b4e9e6'', 1, ''transmission_config_class::connect_retries()''), (''../client__config_8c.html#a5edb2fdb88125c1c6adfd14ea1cde312'', 1, ''CONNECT_RETRIES():&#160;client_config.c'')],
     row ''connect_5ftimeout'' ''connect_timeout'' [(''../structtransmission__config__class.html#a8b5e13338eb27c8e49c828e7115cc3d7'', 1, ''transmission_config_class::connect_timeout()''), (''../client__config_8c.html#a252b2cb72531cb00ecd4d4db37a5a473'', 1, ''CONNECT_TIMEOUT():&#160;client_config.c'')],
     row ''container_5fof'' ''container_of'' [(''../utils_8h.html#af8c317a42292b61c93aae91e59118a46'', 1, ''utils.h'')],
     row ''content'' ''content'' [(''../structexo__request__args.html#a84bce40bef29fd12665380bda77dda6e'', 1, ''exo_request_args'')],
     row ''cqueue_5ffree'' ''cqueue_free'' [(''../concurrent__queue_8h.html#abe1739d6f365fbfe314e2c4d85ab9581'', 1, ''cqueue_free(CQueue *cqueue):&#160;concurrent_queue.c''), (''../concurrent__queue_8c.html#abe1739d6f365fbfe314e2c4d85ab9581'', 1, ''cqueue_free(CQueue *cqueue):&#160;concurrent_queue.c'')],
     row ''cqueue_5fget_5fsize'' ''cqueue_get_size'' [(''../concurrent__queue_8h.html#ace59eba8e971fb368533dc253a6f1639'', 1, ''cqueue_get_size(CQueue *cqueue):&#160;concurrent_queue.c''), (''../concurrent__queue_8c.html#ace59eba8e971fb368533dc253a6f1639'', 1, ''cqueue_get_size(CQueue *cqueue):&#160;concurrent_queue.c'')],
     row ''cqueue_5fis_5fempty'' ''cqueue_is_empty'' [(''../concurrent__queue_8h.html#ad14c5bc780bcc13a4112e98e3cc6db09'', 1, ''cqueue_is_empty(CQueue *cqueue):&#160;concurrent_queue.c''), (''../concurrent__queue_8c.html#ad14c5bc780bcc13a4112e98e3cc6db09'', 1, ''cqueue_is_empty(CQueue *cqueue):&#160;concurrent_queue.c'')],
     row ''cqueue_5fnew'' ''cqueue_new'' [(''../concurrent__queue_8h.html#a13d1b13d62b14239a6a51f5ef05d4931'', 1, ''cqueue_new(size_t max_size):&#160;concurrent_queue.c''), (''../concurrent__queue_8c.html#a13d1b13d62b14239a6a51f5ef05d4931'', 1, ''cqueue_new(size_t max_size):&#160;concurrent_queue.c'')],
     row ''cqueue_5fpeek_5fhead'' ''cqueue_peek_head'' [(''../concurrent__queue_8h.html#a082c71e2ae633f79f9c5e8b9cfd1ca2e'', 1, ''cqueue_peek_head(CQueue *cqueue):&#160;concurrent_queue.c''), (''../concurrent__queue_8c.html#a082c71e2ae633f79f9c5e8b9cfd1ca2e'', 1, ''cqueue_peek_head(CQueue *cqueue):&#160;concurrent_queue.c'')],
     row ''cqueue_5fpeek_5ftail'' ''cqueue_peek_tail'' [(''../concurrent__queue_8h.html#adfb372b4fe6a5e0e298cd3906feb4a8f'', 1, ''cqueue_peek_tail(CQueue *cqueue):&#160;concurrent_queue.c''), (''../concurrent__queue_8c.html#adfb372b4fe6a5e0e298cd3906feb4a8f'', 1, ''cqueue_peek_tail(CQueue *cqueue):&#160;concurrent_queue.c'')],
     row ''cqueue_5fpop_5fhead'' ''cqueue_pop_head'' [(''../concurrent__queue_8h.html#ab93ede1a512270842a3eeb3e3949fcae'', 1, ''cqueue_pop_head(CQueue *cqueue):&#160;concurrent_queue.c''), (''../concurrent__queue_8c.html#ab93ede1a512270842a3eeb3e3949fcae'', 1, ''cqueue_pop_head(CQueue *cqueue):&#160;concurrent_queue.c'')],
     row ''cqueue_5fpop_5ftail'' ''cqueue_pop_tail'' [(''../concurrent__queue_8h.html#a32daa322af17d03980a5ec0911c033c9'', 1, ''cqueue_pop_tail(CQueue *cqueue):&#160;concurrent_queue.c''), (''../concurrent__queue_8c.html#a32daa322af17d03980a5ec0911c033c9'', 1, ''cqueue_pop_tail(CQueue *cqueue):&#160;concurrent_queue.c'')],
     row ''cqueue_5fpush_5fhead'' ''cqueue_push_head'' [(''../concurrent__queue_8h.html#ae5c730edc25b36ccf16e0745e915af26'', 1, ''cqueue_push_head(CQueue *cqueue, CQueueValue data):&#160;concurrent_queue.c''), (''../concurrent__queue_8c.html#ae5c730edc25b36ccf16e0745e915af26'', 1, ''cqueue_push_head(CQueue *cqueue, CQueueValue data):&#160;concurrent_queue.c'')],
     row ''cqueue_5fpush_5ftail'' ''cqueue_push_tail'' [(''../concurrent__queue_8h.html#a8133cf05c1694eb2e705fb6742e0c954'', 1, ''cqueue_push_tail(CQueue *cqueue, CQueueValue data):&#160;concurrent_queue.c''), (''../concurrent__queue_8c.html#a8133cf05c1694eb2e705fb6742e0c954'', 1, ''cqueue_push_tail(CQueue *cqueue, CQueueValue data):&#160;concurrent_queue.c'')],
     row ''create_5fnew_5fsm'' ''create_new_sm'' [(''../exosite__api_8c.html#a60ca897f8c1e389fd9243e23b645541a'', 1, ''exosite_api.c'')],
     row ''ctx'' ''ctx'' [(''../structprotocol__client__class.html#ac5c44b3ebb931ee9cdcdb15c5e20f3ab'', 1, ''protocol_client_class'')],
     row ''cyassl_5fclient_2ec'' ''cyassl_client.c'' [(''../cyassl__client_8c.html'', 1, '''')],
     row ''cyassl_5fheap_2ec'' ''cyassl_heap.c'' [(''../cyassl__heap_8c.html'', 1, '''')],
     row ''cyassl_5fheap_2eh'' ''cyassl_heap.h'' [(''../cyassl__heap_8h.html'', 1, '''')],
     row ''configuration'' ''Configuration'' [(''../sdk_config.html'', 1, '''')]]"

definition search_all_3 :: "search_entry list" where
  "search_all_3 =
    [row ''deb_5fdebug_5fcallback'' ''deb_debug_callback'' [(''../debug_8h.html#afbe515301424cc36a7bfe6435c280ea7'', 1, ''debug.h'')],
     row ''deb_5flog_5ffunction'' ''deb_log_function'' [(''../debug_8h.html#a53cb8c01d6181c264aa25cc37f269ac8'', 1, ''debug.h'')],
     row ''debug_2ec'' ''debug.c'' [(''../debug_8c.html'', 1, '''')],
     row ''debug_2eh'' ''debug.h'' [(''../debug_8h.html'', 1, '''')],
     row ''debug_5fcallback'' ''debug_callback'' [(''../group___exosite___a_p_i.html#ga24eb564aea3e0bf7f15b5da5af6bb804'', 1, ''exosite_api.h'')],
     row ''debug_5finit'' ''debug_init'' [(''../debug_8h.html#a0ec3c4c9919c1f4e145c315eb687aa61'', 1, ''debug_init(deb_log_function log_fn, deb_debug_callback debug_callback):&#160;debug.c''), (''../debug_8c.html#a0ec3c4c9919c1f4e145c315eb687aa61'', 1, ''debug_init(deb_log_function log_fn, deb_debug_callback debug_callback):&#160;debug.c'')],
     row ''debug_5fverbosity'' ''DEBUG_VERBOSITY'' [(''../group__config__port.html#ga2756127335810471fc2ea8b84538f693'', 1, ''config_port.h'')],
     row ''deinit'' ''deinit'' [(''../structnet__dev__operations.html#a317590ba68fea3e35f7f61c37536e106'', 1, ''net_dev_operations'')],
     row ''dictionary_2eh'' ''dictionary.h'' [(''../dictionary_8h.html'', 1, '''')],
     row ''dictionary_5fadd'' ''dictionary_add'' [(''../dictionary_8h.html#a9581c45c8ffca777b6d09ab8a35181c8'', 1, ''dictionary_add(struct dictionary_class *dict, const char *key, void *value):&#160;tdictionary.c''), (''../tdictionary_8c.html#a3796b34c8cc74864f790c6bbc87dc8db'', 1, ''dictionary_add(struct dictionary_class *dict, const char *name, void *value):&#160;tdictionary.c'')],
     row ''dictionary_5fclass'' ''dictionary_class'' [(''../structdictionary__class.html'', 1, '''')],
     row ''dictionary_5fget_5fiterator'' ''dictionary_get_iterator'' [(''../dictionary_8h.html#a9ca1848c12632429cd8a05cb1e7b9356'', 1, ''dictionary_get_iterator(struct dictionary_class *dict):&#160;tdictionary.c''), (''../tdictionary_8c.html#a9ca1848c12632429cd8a05cb1e7b9356'', 1, ''dictionary_get_iterator(struct dictionary_class *dict):&#160;tdictionary.c'')],
     row ''dictionary_5fget_5fvalue'' ''dictionary_get_value'' [(''../dictionary_8h.html#a83cb57209142af0def99f0ff28f52bd3'', 1, ''dictionary_get_value(struct dict_iterator *it):&#160;tdictionary.c''), (''../tdictionary_8c.html#a83cb57209142af0def99f0ff28f52bd3'', 1, ''dictionary_get_value(struct dict_iterator *it):&#160;tdictionary.c'')],
     row ''dictionary_5fiterate'' ''dictionary_iterate'' [(''../dictionary_8h.html#a5aa7e02b70a46d5f8e112c051f63dae8'', 1, ''dictionary_iterate(struct dict_iterator *it):&#160;tdictionary.c''), (''../tdictionary_8c.html#a5aa7e02b70a46d5f8e112c051f63dae8'', 1, ''dictionary_iterate(struct dict_iterator *it):&#160;tdictionary.c'')],
     row ''dictionary_5flookup'' ''dictionary_lookup'' [(''../dictionary_8h.html#a1c287327eeab65bbfdda0fd2399a655f'', 1, ''dictionary_lookup(struct dictionary_class *dict, const char *key):&#160;tdictionary.c''), (''../tdictionary_8c.html#a1c287327eeab65bbfdda0fd2399a655f'', 1, ''dictionary_lookup(struct dictionary_class *dict, const char *key):&#160;tdictionary.c'')],
     row ''dictionary_5fnew'' ''dictionary_new'' [(''../dictionary_8h.html#a6834d7527fc6cf4dd287f8c51bc93157'', 1, ''dictionary_new(struct dictionary_class **new_dict):&#160;tdictionary.c''), (''../tdictionary_8c.html#a6834d7527fc6cf4dd287f8c51bc93157'', 1, ''dictionary_new(struct dictionary_class **new_dict):&#160;tdictionary.c'')],
     row ''dictionary_5fprint'' ''dictionary_print'' [(''../dictionary_8h.html#a334bd741d35625861dd7af95e40e680f'', 1, ''dictionary_print(struct dictionary_class *dict):&#160;tdictionary.c''), (''../tdictionary_8c.html#a334bd741d35625861dd7af95e40e680f'', 1, ''dictionary_print(struct dictionary_class *dict):&#160;tdictionary.c'')],
     row ''dictionary_5fremove'' ''dictionary_remove'' [(''../dictionary_8h.html#aa28558b16c4382e7812651149c98f853'', 1, ''dictionary_remove(struct dictionary_class *dict, char *key):&#160;tdictionary.c''), (''../tdictionary_8c.html#a397510bc2adbd6aa96a59a8e81a0a932'', 1, ''dictionary_remove(struct dictionary_class *dict, char *name):&#160;tdictionary.c'')]]"

definition search_all_4 :: "search_entry list" where
  "search_all_4 =
    [row ''error_2eh'' ''error.h'' [(''../error_8h.html'', 1, '''')],
     row ''exo'' ''exo'' [(''../structexo__request__args.html#a9dfc5d85d98c1543f58c4c4580d01089'', 1, ''exo_request_args'')],
     row ''exo_5fdp_5fwrite'' ''EXO_DP_WRITE'' [(''../exosite__api__internal_8h.html#a1ec075ea005450169975e25e9cfcafcba5c4cb7b3d416073860d26d092605ce1e'', 1, ''exosite_api_internal.h'')],
     row ''exo_5fpp_5factivate'' ''EXO_PP_ACTIVATE'' [(''../exosite__api__internal_8h.html#a1ec075ea005450169975e25e9cfcafcba5f2b8e4127321d256fd9957c0767e36f'', 1, ''exosite_api_internal.h'')],
     row ''exo_5frequest_5fargs'' ''exo_request_args'' [(''../structexo__request__args.html'', 1, '''')],
     row ''exo_5fup_5ftimestamp'' ''EXO_UP_TIMESTAMP'' [(''../exosite__api__internal_8h.html#a1ec075ea005450169975e25e9cfcafcba565874881d768e4e8796e4ecdea839df'', 1, ''exosite_api_internal.h'')],
     row ''exosite_20api'' ''Exosite API'' [(''../group___exosite___a_p_i.html'', 1, '''')],
     row ''exosite_5fapi_2ec'' ''exosite_api.c'' [(''../exosite__api_8c.html'', 1, '''')],
     row ''exosite_5fapi_2eh'' ''exosite_api.h'' [(''../exosite__api_8h.html'', 1, '''')],
     row ''exosite_5fapi_5finternal_2eh'' ''exosite_api_internal.h'' [(''../exosite__api__internal_8h.html'', 1, '''')],
     row ''exosite_5fclass'' ''exosite_class'' [(''../structexosite__class.html'', 1, '''')],
     row ''exosite_5fcoap_5fnew'' ''exosite_coap_new'' [(''../group__client__config.html#gaf6a9fbe09b9918b8a6bcdb4f91794910'', 1, ''exosite_coap_new(struct server_api_request_ops **obj):&#160;exosite_libcoap_api.c''), (''../group__client__config.html#gaf6a9fbe09b9918b8a6bcdb4f91794910'', 1, ''exosite_coap_new(struct server_api_request_ops **obj):&#160;exosite_libcoap_api.c''), (''../group__client__config.html#gaf6a9fbe09b9918b8a6bcdb4f91794910'', 1, ''exosite_coap_new(struct server_api_request_ops **obj):&#160;exosite_picocoap_api.c'')],
     row ''exosite_5fdelay_5fand_5fpoll'' ''exosite_delay_and_poll'' [(''../group___exosite___a_p_i.html#gab8edb09e2a237927624249c76dbf99a4'', 1, ''exosite_delay_and_poll(struct exosite_class *exo, sys_time_t ms):&#160;exosite_api.c''), (''../group___exosite___a_p_i.html#gab8edb09e2a237927624249c76dbf99a4'', 1, ''exosite_delay_and_poll(struct exosite_class *exo, sys_time_t ms):&#160;exosite_api.c'')],
     row ''exosite_5fget_5fstatus'' ''exosite_get_status'' [(''../group___exosite___a_p_i.html#ga1a5c5601699db951d116d0cf7e4c38a1'', 1, ''exosite_get_status(struct exosite_class *exo):&#160;exosite_api.c''), (''../group___exosite___a_p_i.html#ga1a5c5601699db951d116d0cf7e4c38a1'', 1, ''exosite_get_status(struct exosite_class *exo):&#160;exosite_api.c'')],
     row ''exosite_5fhttp_5fapi'' ''exosite_http_api'' [(''../client__config_8c.html#a960fe16594362c852a507668b96820c9'', 1, ''client_config.c'')],
     row ''exosite_5fhttp_5fapi_2ec'' ''exosite_http_api.c'' [(''../exosite__http__api_8c.html'', 1, '''')],
     row ''exosite_5fhttp_5fapi_5frequest_5fnew'' ''exosite_http_api_request_new'' [(''../group__client__config.html#gacc5775b631ae131c3ff8641bc40ca25e'', 1, ''exosite_http_api_request_new(struct server_api_request_ops **obj):&#160;exosite_http_api.c''), (''../group__client__config.html#gacc5775b631ae131c3ff8641bc40ca25e'', 1, ''exosite_http_api_request_new(struct server_api_request_ops **obj):&#160;exosite_http_api.c'')],
     row ''exosite_5flibcoap_5fapi_2ec'' ''exosite_libcoap_api.c'' [(''../exosite__libcoap__api_8c.html'', 1, '''')],
     row ''exosite_5fmalloc_5ffunc'' ''exosite_malloc_func'' [(''../group___exosite___a_p_i.html#ga6518b4e7bb4925ee525e4fa43debc85d'', 1, ''exosite_api.h'')],
     row ''exosite_5fmethod'' ''exosite_method'' [(''../exosite__api__internal_8h.html#a1ec075ea005450169975e25e9cfcafcb'', 1, ''exosite_api_internal.h'')],
     row ''exosite_5fnew'' ''exosite_new'' [(''../group___exosite___a_p_i.html#ga70278e356b752eba1ee606a725aec40b'', 1, ''exosite_new(struct exosite_class **exo, const char *vendor, const char *model, const char *optional_sn, enum application_protocol_type app_type):&#160;exosite_api.c''), (''../group___exosite___a_p_i.html#ga70278e356b752eba1ee606a725aec40b'', 1, ''exosite_new(struct exosite_class **exo, const char *vendor, const char *model, const char *optional_sn, enum application_protocol_type app_type):&#160;exosite_api.c'')],
     row ''exosite_5fon_5fchange'' ''exosite_on_change'' [(''../group___exosite___a_p_i.html#ga9d01bddd12fb83b8c9cb185a2662e8be'', 1, ''exosite_api.h'')],
     row ''exosite_5fon_5fread'' ''exosite_on_read'' [(''../group___exosite___a_p_i.html#ga089a989dc1285a3594501aef49f1dd6a'', 1, ''exosite_api.h'')],
     row ''exosite_5fon_5fwrite'' ''exosite_on_write'' [(''../group___exosite___a_p_i.html#ga84b7eddedcd3e64923683b3f3ce8dbc7'', 1, ''exosite_api.h'')],
     row ''exosite_5fpicocoap_5fapi_2ec'' ''exosite_picocoap_api.c'' [(''../exosite__picocoap__api_8c.html'', 1, '''')],
     row ''exosite_5fpoll'' ''exosite_poll'' [(''../group___exosite___a_p_i.html#ga2681b5ce3d505b037ded36df8bab15ef'', 1, ''exosite_poll(struct exosite_class *exo):&#160;exosite_api.c''), (''../group___exosite___a_p_i.html#ga2681b5ce3d505b037ded36df8bab15ef'', 1, ''exosite_poll(struct exosite_class *exo):&#160;exosite_api.c'')],
     row ''exosite_5fread'' ''exosite_read'' [(''../group___exosite___a_p_i.html#ga035e1a5989983f94d04e838684d2e75c'', 1, ''exosite_read(struct exosite_class *exo, const char *alias, exosite_on_read on_read):&#160;exosite_api.c''), (''../group___exosite___a_p_i.html#ga035e1a5989983f94d04e838684d2e75c'', 1, ''exosite_read(struct exosite_class *exo, const char *alias, exosite_on_read on_read):&#160;exosite_api.c'')],
     row ''exosite_5fsdk_5finit'' ''exosite_sdk_init'' [(''../group___exosite___a_p_i.html#gaac628db55f159c64251584ef611d6ef1'', 1, ''exosite_sdk_init(log_function log_fn, debug_callback debug_cb):&#160;sdk_init.c''), (''../group___exosite___a_p_i.html#gaac628db55f159c64251584ef611d6ef1'', 1, ''exosite_sdk_init(log_function log_fn, debug_callback debug_cb):&#160;sdk_init.c'')],
     row ''exosite_5fsdk_5fregister_5fmemory_5fallocators'' ''exosite_sdk_register_memory_allocators'' [(''../group___exosite___a_p_i.html#gadc34ec5c4ff81d6e0985218f43209ac0'', 1, ''exosite_sdk_register_memory_allocators(exosite_malloc_func, exosite_free_func, exosite_realloc_func):&#160;sdk_init.c''), (''../group___exosite___a_p_i.html#gadc34ec5c4ff81d6e0985218f43209ac0'', 1, ''exosite_sdk_register_memory_allocators(exosite_malloc_func exo_malloc, exosite_free_func exo_free, exosite_realloc_func exo_realloc):&#160;sdk_init.c'')],
     row ''exosite_5fsdk_5fregister_5fmemory_5fbuffer'' ''exosite_sdk_register_memory_buffer'' [(''../group___exosite___a_p_i.html#ga9728f396a2c9259a48796d9c65bac121'', 1, ''exosite_sdk_register_memory_buffer(void *buf, size_t size):&#160;sdk_init.c''), (''../group___exosite___a_p_i.html#ga9728f396a2c9259a48796d9c65bac121'', 1, ''exosite_sdk_register_memory_buffer(void *buf, size_t size):&#160;sdk_init.c'')],
     row ''exosite_5fsdk_5fregister_5fperiodic_5ffn'' ''exosite_sdk_register_periodic_fn'' [(''../group___exosite___a_p_i.html#ga6820c6a3a1004c3cf5b94eeeff670dd8'', 1, ''exosite_api.h'')],
     row ''exosite_5fsend_5fcoap_2ec'' ''exosite_send_coap.c'' [(''../exosite__send__coap_8c.html'', 1, '''')],
     row ''exosite_5fsend_5fhttp_2ec'' ''exosite_send_http.c'' [(''../exosite__send__http_8c.html'', 1, '''')],
     row ''exosite_5fsubscribe'' ''exosite_subscribe'' [(''../group___exosite___a_p_i.html#ga245a9bf0809e30f4bf79a259ca8c9778'', 1, ''exosite_subscribe(struct exosite_class *exo, const char *alias, int32_t since, exosite_on_change on_change):&#160;exosite_api.c''), (''../group___exosite___a_p_i.html#ga245a9bf0809e30f4bf79a259ca8c9778'', 1, ''exosite_subscribe(struct exosite_class *exo, const char *alias, int32_t since, exosite_on_change on_change):&#160;exosite_api.c'')],
     row ''exosite_5fsubscribe_5fcoap_2ec'' ''exosite_subscribe_coap.c'' [(''../exosite__subscribe__coap_8c.html'', 1, '''')],
     row ''exosite_5fsubscribe_5fhttp_2ec'' ''exosite_subscribe_http.c'' [(''../exosite__subscribe__http_8c.html'', 1, '''')],
     row ''exosite_5fwrite'' ''exosite_write'' [(''../group___exosite___a_p_i.html#ga8dea001937a82446e953b63abb7c9e63'', 1, ''exosite_write(struct exosite_class *exo, const char *alias, const char *value, exosite_on_write on_write):&#160;exosite_api.c''), (''../group___exosite___a_p_i.html#ga8dea001937a82446e953b63abb7c9e63'', 1, ''exosite_write(struct exosite_class *exo, const char *alias, const char *value, exosite_on_write on_write):&#160;exosite_api.c'')]]"

definition search_all_5 :: "search_entry list" where
  "search_all_5 =
    [row ''forced_5factivation'' ''forced_activation'' [(''../structtransmission__config__class.html#a2ff28d350c91e09b08be9f0239966b52'', 1, ''transmission_config_class'')]]"

definition search_all_6 :: "search_entry list" where
  "search_all_6 =
    [row ''get_5fpeak_5fheap_5fusage'' ''get_peak_heap_usage'' [(''../debug_8h.html#a4ea0131ca12f47a2f1208e6eec5d68fc'', 1, ''debug.h'')],
     row ''get_5fpeak_5fstack_5fusage'' ''get_peak_stack_usage'' [(''../debug_8h.html#a311734b79248eb747c06a54edb0a7bb0'', 1, ''system.c'')],
     row ''get_5fresponse_5fstatus'' ''get_response_status'' [(''../structprotocol__client__ops.html#a5f5e7d71b6f6a3e212a896b32f31c022'', 1, ''protocol_client_ops'')],
     row ''get_5ftimestamp'' ''get_timestamp'' [(''../structexo__request__args.html#a744eebbd504414a08d7e5fa37636791f'', 1, ''exo_request_args'')],
     row ''global_5fheap_5fconfig'' ''global_heap_config'' [(''../client__config_8c.html#ab06cee2ba0d76c15765a6e4e500a9b9c'', 1, ''client_config.c'')]]"

definition search_all_7 :: "search_entry list" where
  "search_all_7 =
    [row ''have_5fassert_5fh'' ''HAVE_ASSERT_H'' [(''../group__config__port.html#gad0eabe2e5407bc73450eb15b657983cd'', 1, ''config_port.h'')],
     row ''have_5finttypes_5fh'' ''HAVE_INTTYPES_H'' [(''../group__config__port.html#gab90a030ff2790ebdc176660a6dd2a478'', 1, ''config_port.h'')],
     row ''have_5flimits_5fh'' ''HAVE_LIMITS_H'' [(''../group__config__port.html#gac70f0930238c8d095d7cc2ee8b522c77'', 1, ''config_port.h'')],
     row ''have_5fmalloc'' ''HAVE_MALLOC'' [(''../group__config__port.html#ga14503280ca0cb757db915eea09282bfc'', 1, ''config_port.h'')],
     row ''have_5fmemory_5fh'' ''HAVE_MEMORY_H'' [(''../group__config__port.html#gae93a78f9d076138897af441c9f86f285'', 1, ''config_port.h'')],
     row ''have_5fmemset'' ''HAVE_MEMSET'' [(''../group__config__port.html#ga3df52e9809253860c385be6f3a160607'', 1, ''config_port.h'')],
     row ''have_5fstdint_5fh'' ''HAVE_STDINT_H'' [(''../group__config__port.html#gab6cd6d1c63c1e26ea2d4537b77148354'', 1, ''config_port.h'')],
     row ''have_5fstdlib_5fh'' ''HAVE_STDLIB_H'' [(''../group__config__port.html#ga9e0e434ec1a6ddbd97db12b5a32905e0'', 1, ''config_port.h'')],
     row ''have_5fstrcasecmp'' ''HAVE_STRCASECMP'' [(''../group__config__port.html#ga1569275063253ce85180e755a82e536d'', 1, ''config_port.h'')],
     row ''have_5fstring_5fh'' ''HAVE_STRING_H'' [(''../group__config__port.html#gad4c234dd1625255dc626a15886306e7d'', 1, ''config_port.h'')],
     row ''have_5fstrings_5fh'' ''HAVE_STRINGS_H'' [(''../group__config__port.html#ga405d10d46190bcb0320524c54eafc850'', 1, ''config_port.h'')],
     row ''have_5fstrnlen'' ''HAVE_STRNLEN'' [(''../group__config__port.html#ga9bee6d8db098b2230690f8e8db9ffb74'', 1, ''config_port.h'')],
     row ''have_5fstrrchr'' ''HAVE_STRRCHR'' [(''../group__config__port.html#gac113b1149ff6806b32454e2897354a40'', 1, ''config_port.h'')],
     row ''header_5ffield_5ffilter'' ''header_field_filter'' [(''../structheader__field__filter.html'', 1, '''')],
     row ''heap_5fconfig'' ''heap_config'' [(''../structheap__config.html'', 1, '''')],
     row ''heap_5fmanager_2ec'' ''heap_manager.c'' [(''../heap__manager_8c.html'', 1, '''')],
     row ''heap_5fmanager_2eh'' ''heap_manager.h'' [(''../heap__manager_8h.html'', 1, '''')],
     row ''heap_5fspace_5fclass'' ''heap_space_class'' [(''../structheap__space__class.html'', 1, '''')],
     row ''heap_5fspace_5finternal_2eh'' ''heap_space_internal.h'' [(''../heap__space__internal_8h.html'', 1, '''')],
     row ''heap_5ftracker_2ec'' ''heap_tracker.c'' [(''../heap__tracker_8c.html'', 1, '''')],
     row ''heap_5ftracker_2eh'' ''heap_tracker.h'' [(''../heap__tracker_8h.html'', 1, '''')],
     row ''heap_5ftypes_2eh'' ''heap_types.h'' [(''../heap__types_8h.html'', 1, '''')],
     row ''hm_5ffree'' ''hm_free'' [(''../heap__manager_8h.html#a4f4870d1334dd6f817c4e703f1b4ce4a'', 1, ''hm_free(int32_t heap_id, void *p):&#160;heap_manager.c''), (''../heap__manager_8c.html#a4f4870d1334dd6f817c4e703f1b4ce4a'', 1, ''hm_free(int32_t heap_id, void *p):&#160;heap_manager.c'')],
     row ''hm_5finit'' ''hm_init'' [(''../heap__manager_8h.html#abe3ffc4123091cf910712e8bc8b6f5ff'', 1, ''hm_init(void *base, size_t size):&#160;heap_manager.c''), (''../heap__manager_8c.html#abe3ffc4123091cf910712e8bc8b6f5ff'', 1, ''hm_init(void *base, size_t size):&#160;heap_manager.c'')],
     row ''hm_5fmalloc'' ''hm_malloc'' [(''../heap__manager_8h.html#ad55ffa19b719c69a7ff77491ffde38e5'', 1, ''hm_malloc(int32_t heap_id, size_t size, const char *id):&#160;heap_manager.c''), (''../heap__manager_8c.html#ad55ffa19b719c69a7ff77491ffde38e5'', 1, ''hm_malloc(int32_t heap_id, size_t size, const char *id):&#160;heap_manager.c'')],
     row ''hm_5fmem_5falloc'' ''hm_mem_alloc'' [(''../heap__manager_8h.html#a9709a55d2c94b1407332f98fb246524e'', 1, ''hm_mem_alloc(int32_t heap_id, void **ptr, size_t size, const char *chunk_id):&#160;heap_manager.c''), (''../heap__manager_8c.html#a9709a55d2c94b1407332f98fb246524e'', 1, ''hm_mem_alloc(int32_t heap_id, void **ptr, size_t size, const char *chunk_id):&#160;heap_manager.c'')],
     row ''hm_5fmem_5ffree'' ''hm_mem_free'' [(''../heap__manager_8h.html#a8baa85576fa9835e3a1aa6837a62379a'', 1, ''hm_mem_free(int32_t heap_id, void *ptr):&#160;heap_manager.c''), (''../heap__manager_8c.html#a11c2163051d5e412ebb1f8dd24b45948'', 1, ''hm_mem_free(int32_t heap_id, void *p):&#160;heap_manager.c'')],
     row ''hm_5fmem_5frealloc'' ''hm_mem_realloc'' [(''../heap__manager_8h.html#a0e39537c2e3371742bc2443160d048ef'', 1, ''hm_mem_realloc(int32_t heap_id, void **new_ptr, void *old_ptr, size_t size_new, const char *chunk_id):&#160;heap_manager.c''), (''../heap__manager_8c.html#a0e39537c2e3371742bc2443160d048ef'', 1, ''hm_mem_realloc(int32_t heap_id, void **new_ptr, void *old_ptr, size_t size_new, const char *chunk_id):&#160;heap_manager.c'')],
     row ''hm_5fmemcpy'' ''hm_memcpy'' [(''../heap__manager_8h.html#a014cdab9bda09f5eea9fbc6e6f257370'', 1, ''hm_memcpy(int32_t heap_id, void *dst, const void *src, size_t size):&#160;heap_manager.c''), (''../heap__manager_8c.html#a014cdab9bda09f5eea9fbc6e6f257370'', 1, ''hm_memcpy(int32_t heap_id, void *dst, const void *src, size_t size):&#160;heap_manager.c'')],
     row ''hm_5fmemfill'' ''hm_memfill'' [(''../heap__manager_8h.html#a59ea9700053f11233202c878907ba7df'', 1, ''hm_memfill(int32_t heap_id, void *p, uint8_t b, size_t size):&#160;heap_manager.c''), (''../heap__manager_8c.html#a59ea9700053f11233202c878907ba7df'', 1, ''hm_memfill(int32_t heap_id, void *p, uint8_t b, size_t size):&#160;heap_manager.c'')],
     row ''hm_5frealloc'' ''hm_realloc'' [(''../heap__manager_8h.html#ac73167606b674264e2e798aea50932af'', 1, ''hm_realloc(int32_t heap_id, void *p, size_t size, const char *id):&#160;heap_manager.c''), (''../heap__manager_8c.html#ac73167606b674264e2e798aea50932af'', 1, ''hm_realloc(int32_t heap_id, void *p, size_t size, const char *id):&#160;heap_manager.c'')],
     row ''hs_5fconstruct'' ''hs_construct'' [(''../hs__mem_8c.html#a8fe712d2e28a77ac0f96aa5766a3a9e6'', 1, ''hs_construct(struct heap_space_class *heap, void *base, size_t size, const char *name, int32_t id):&#160;hs_mem.c''), (''../hs__mem_8h.html#a8fe712d2e28a77ac0f96aa5766a3a9e6'', 1, ''hs_construct(struct heap_space_class *heap, void *base, size_t size, const char *name, int32_t id):&#160;hs_mem.c'')],
     row ''hs_5fget_5fstats'' ''hs_get_stats'' [(''../hs__mem_8c.html#ad7bfce2880a89919cc97a9ba96c7f021'', 1, ''hs_get_stats(struct heap_space_class *heap):&#160;hs_mem.c''), (''../hs__mem_8h.html#ad7bfce2880a89919cc97a9ba96c7f021'', 1, ''hs_get_stats(struct heap_space_class *heap):&#160;hs_mem.c'')],
     row ''hs_5fmem_2ec'' ''hs_mem.c'' [(''../hs__mem_8c.html'', 1, '''')],
     row ''hs_5fmem_2eh'' ''hs_mem.h'' [(''../hs__mem_8h.html'', 1, '''')],
     row ''hs_5fmem_5falloc'' ''hs_mem_alloc'' [(''../hs__mem_8c.html#a589e439beaf940d2b97c8431048adfb2'', 1, ''hs_mem_alloc(struct heap_space_class *heap, void **new_ptr, size_t size, const char *id):&#160;hs_mem.c''), (''../hs__mem_8h.html#abe60e3b524cb1e625d2536ff7a648b28'', 1, ''hs_mem_alloc(struct heap_space_class *heap, void **ptr, size_t size, const char *id):&#160;hs_mem.c'')],
     row ''hs_5fmem_5ffree'' ''hs_mem_free'' [(''../hs__mem_8c.html#a80522cfaced663b94354eef91be36d18'', 1, ''hs_mem_free(struct heap_space_class *heap, void *ptr):&#160;hs_mem.c''), (''../hs__mem_8h.html#a80522cfaced663b94354eef91be36d18'', 1, ''hs_mem_free(struct heap_space_class *heap, void *ptr):&#160;hs_mem.c'')],
     row ''hs_5fmem_5frealloc'' ''hs_mem_realloc'' [(''../hs__mem_8c.html#a03c3aea29e2ca1d8739d9d2300fa33c3'', 1, ''hs_mem_realloc(struct heap_space_class *heap, void **new_ptr, void *old_ptr, size_t size_new, const char *id):&#160;hs_mem.c''), (''../hs__mem_8h.html#a03c3aea29e2ca1d8739d9d2300fa33c3'', 1, ''hs_mem_realloc(struct heap_space_class *heap, void **new_ptr, void *old_ptr, size_t size_new, const char *id):&#160;hs_mem.c'')],
     row ''http_5fclient_2ec'' ''http_client.c'' [(''../http__client_8c.html'', 1, '''')],
     row ''http_5fclient_5fnew'' ''http_client_new'' [(''../group__client__config.html#ga11fa5f73d9270aa199c83279a7bd59a0'', 1, ''http_client_new(struct protocol_client_class **obj, struct net_dev_operations *net_dev):&#160;http_client.c''), (''../group__client__config.html#ga11fa5f73d9270aa199c83279a7bd59a0'', 1, ''http_client_new(struct protocol_client_class **obj, struct net_dev_operations *net_if):&#160;http_client.c'')],
     row ''http_5fconfig'' ''http_config'' [(''../client__config_8c.html#a9931f2159d63c548c60d30ff1aa0c89f'', 1, ''client_config.c'')],
     row ''http_5fcontext'' ''http_context'' [(''../structhttp__context.html'', 1, '''')],
     row ''http_5fparse_5fheader'' ''http_parse_header'' [(''../http__parser_8c.html#aaa235d5971e8ad6e1caed8f71d2a4022'', 1, ''http_parse_header(char *buffer, size_t buffer_size, int32_t *result_code, size_t *content_length, size_t *payload_index):&#160;http_parser.c''), (''../http__parser_8h.html#a080e90459a19bbd0acf7e3d8a332e581'', 1, ''http_parse_header(char *buffer, size_t size, int32_t *result_code, size_t *content_length, size_t *payload_index):&#160;http_parser.c'')],
     row ''http_5fparser_2ec'' ''http_parser.c'' [(''../http__parser_8c.html'', 1, '''')],
     row ''http_5fparser_2eh'' ''http_parser.h'' [(''../http__parser_8h.html'', 1, '''')]]"

definition search_all_8 :: "search_entry list" where
  "search_all_8 =
    [row ''id'' ''id'' [(''../structexo__request__args.html#a809cfd75f903faaaa31c9cd2abbae047'', 1, ''exo_request_args'')],
     row ''internal_5fset_5fallocators'' ''internal_set_allocators'' [(''../heap__space__internal_8h.html#a1ac1f2903d3f9e4205e022ba8984687e'', 1, ''internal_set_allocators(internal_malloc_func imalloc, internal_free_func ifree, internal_realloc_func irealloc):&#160;hs_mem.c''), (''../hs__mem_8c.html#a1ac1f2903d3f9e4205e022ba8984687e'', 1, ''internal_set_allocators(internal_malloc_func imalloc, internal_free_func ifree, internal_realloc_func irealloc):&#160;hs_mem.c'')],
     row ''is_5flevel_5fprintable'' ''is_level_printable'' [(''../debug_8h.html#a84f0e8b7312f438f913a322ac5b74e24'', 1, ''is_level_printable(uint32_t level):&#160;debug.c''), (''../debug_8c.html#a84f0e8b7312f438f913a322ac5b74e24'', 1, ''is_level_printable(uint32_t level):&#160;debug.c'')],
     row ''is_5fmodule_5fenabled'' ''is_module_enabled'' [(''../debug_8h.html#a2d1aff48a4c82b7e8b4252aa64c19479'', 1, ''is_module_enabled(uint32_t module):&#160;debug.c''), (''../debug_8c.html#a2d1aff48a4c82b7e8b4252aa64c19479'', 1, ''is_module_enabled(uint32_t module):&#160;debug.c'')]]"

definition search_all_9 :: "search_entry list" where
  "search_all_9 =
    [row ''libcoap_5fclient_2ec'' ''libcoap_client.c'' [(''../libcoap__client_8c.html'', 1, '''')],
     row ''link_5flayer_5fif'' ''link_layer_if'' [(''../structlink__layer__if.html'', 1, '''')],
     row ''list_5fhead'' ''list_head'' [(''../structlist__head.html'', 1, '''')],
     row ''log_5ffunction'' ''log_function'' [(''../group___exosite___a_p_i.html#ga9693b45f5a9d30fdce647d2c3a379f44'', 1, ''exosite_api.h'')],
     row ''lookup'' ''lookup'' [(''../structnet__dev__operations.html#a5ce9f3830007182982d99c6bd79411d4'', 1, ''net_dev_operations'')],
     row ''lwip_5fport_2ec'' ''lwip_port.c'' [(''../lwip__port_8c.html'', 1, '''')],
     row ''license'' ''LICENSE'' [(''../md__l_i_c_e_n_s_e.html'', 1, '''')]]"

definition search_all_a :: "search_entry list" where
  "search_all_a =
    [row ''mac_5faddr'' ''mac_addr'' [(''../structmac__addr.html'', 1, '''')],
     row ''main'' ''main'' [(''../exosite__send__coap_8c.html#a0ddf1224851353fc92bfbff6f499fa97'', 1, ''main(int argc, char *argv[]):&#160;exosite_send_coap.c''), (''../exosite__send__http_8c.html#a0ddf1224851353fc92bfbff6f499fa97'', 1, ''main(int argc, char *argv[]):&#160;exosite_send_http.c''), (''../exosite__subscribe__coap_8c.html#a0ddf1224851353fc92bfbff6f499fa97'', 1, ''main(int argc, char *argv[]):&#160;exosite_subscribe_coap.c''), (''../exosite__subscribe__http_8c.html#a0ddf1224851353fc92bfbff6f499fa97'', 1, ''main(int argc, char *argv[]):&#160;exosite_subscribe_http.c'')],
     row ''mallinfo'' ''mallinfo'' [(''../structmallinfo.html'', 1, '''')],
     row ''matchstate'' ''MatchState'' [(''../struct_match_state.html'', 1, '''')],
     row ''max_5fnumber_5fof_5fheaps'' ''MAX_NUMBER_OF_HEAPS'' [(''../heap__types_8h.html#a2189f918f5fd458c5246f6535b6c6f16'', 1, ''heap_types.h'')],
     row ''max_5frequest_5fqueue_5fsize'' ''max_request_queue_size'' [(''../structtransmission__config__class.html#a1064b8324df5a3ed09e97ebbee77db20'', 1, ''transmission_config_class::max_request_queue_size()''), (''../group__config__port.html#ga9c2636db474d43e3b4d079b615b92d18'', 1, ''MAX_REQUEST_QUEUE_SIZE():&#160;config_port.h'')],
     row ''mbedtls_5fclient_2ec'' ''mbedtls_client.c'' [(''../mbedtls__client_8c.html'', 1, '''')],
     row ''mbedtls_5fclient_5fdev'' ''mbedtls_client_dev'' [(''../structmbedtls__client__dev.html'', 1, '''')],
     row ''mem_5fcheck_2eh'' ''mem_check.h'' [(''../mem__check_8h.html'', 1, '''')],
     row ''mem_5fcheck_5fregister_5fheap'' ''mem_check_register_heap'' [(''../mem__check_8h.html#ac3c99c845ef22f3116a10ae5dfb93f29'', 1, ''mem_check.c'')],
     row ''mem_5fdebug_5femulate_5fout_5fof_5fmemory'' ''mem_debug_emulate_out_of_memory'' [(''../sf__malloc_8h.html#a29c249dfdca80ad8d5e1e1e70e9b9425'', 1, ''sf_malloc.h'')],
     row ''mem_5fdebug_5fenable_5flog'' ''mem_debug_enable_log'' [(''../sf__malloc_8h.html#a431f60ff798d3a652be70e7ba6d771f8'', 1, ''sf_malloc.h'')],
     row ''message_5fid'' ''message_id'' [(''../structexo__request__args.html#a10da3940404c5ee12faade87e95fcd97'', 1, ''exo_request_args'')],
     row ''method'' ''method'' [(''../structexo__request__args.html#a4ab12b08060394e54983ed7167bb8557'', 1, ''exo_request_args'')],
     row ''model'' ''model'' [(''../structexo__request__args.html#a96a70e697800a855b1ec9bab6c255f5e'', 1, ''exo_request_args'')]]"

definition search_all_b :: "search_entry list" where
  "search_all_b =
    [row ''name'' ''name'' [(''../struct__system__thread__attr__t.html#a379a3cbfe3eeb32b51bb6bae90edf984'', 1, ''_system_thread_attr_t'')],
     row ''net_5fdev_5ffactory_2ec'' ''net_dev_factory.c'' [(''../net__dev__factory_8c.html'', 1, '''')],
     row ''net_5fdev_5ffactory_5finit'' ''net_dev_factory_init'' [(''../net__dev__factory_8c.html#acb280287adf782228bd50c1f755edb20'', 1, ''net_dev_factory.c'')],
     row ''net_5fdev_5fget'' ''net_dev_get'' [(''../net__dev__factory_8c.html#a385dfe3d6b0a8e3eccb44ae7ee73eb42'', 1, ''net_dev_factory.c'')],
     row ''net_5fdev_5fhttp_5fserver_5fnew'' ''net_dev_http_server_new'' [(''../group__net__port__interface.html#ga6c56f35694918f8250fc2649f3139316'', 1, ''net_port.h'')],
     row ''net_5fdev_5finit'' ''net_dev_init'' [(''../group__net__port__interface.html#ga74f8a52f05a711c0aa99104f23808ecb'', 1, ''net_dev_init(void):&#160;atheros_port.c''), (''../group__net__port__interface.html#ga74f8a52f05a711c0aa99104f23808ecb'', 1, ''net_dev_init(void):&#160;lwip_port.c''), (''../group__net__port__interface.html#ga74f8a52f05a711c0aa99104f23808ecb'', 1, ''net_dev_init(void):&#160;wcm_network_stack_port.c''), (''../group__net__port__interface.html#ga74f8a52f05a711c0aa99104f23808ecb'', 1, ''net_dev_init(void):&#160;posix_port.c''), (''../group__net__port__interface.html#ga74f8a52f05a711c0aa99104f23808ecb'', 1, ''net_dev_init(void):&#160;uip_port.c''), (''../group__net__port__interface.html#ga74f8a52f05a711c0aa99104f23808ecb'', 1, ''net_dev_init(void):&#160;atheros_port.c'')],
     row ''net_5fdev_5foperations'' ''net_dev_operations'' [(''../structnet__dev__operations.html'', 1, '''')],
     row ''net_5fdev_5ftcp_5fnew'' ''net_dev_tcp_new'' [(''../group__net__port__interface.html#ga54772bbed992f9c80914e0935e80f8f8'', 1, ''net_dev_tcp_new():&#160;net_if_atheros_tcp.c''), (''../group__net__port__interface.html#ga54772bbed992f9c80914e0935e80f8f8'', 1, ''net_dev_tcp_new(void):&#160;net_if_lwip_tcp.c''), (''../group__net__port__interface.html#ga54772bbed992f9c80914e0935e80f8f8'', 1, ''net_dev_tcp_new():&#160;net_if_wcm_tcp.c''), (''../group__net__port__interface.html#ga54772bbed992f9c80914e0935e80f8f8'', 1, ''net_dev_tcp_new():&#160;net_if_posix_tcp.c''), (''../group__net__port__interface.html#ga54772bbed992f9c80914e0935e80f8f8'', 1, ''net_dev_tcp_new():&#160;net_if_uip_tcp.c''), (''../group__net__port__interface.html#ga54772bbed992f9c80914e0935e80f8f8'', 1, ''net_dev_tcp_new(void):&#160;net_if_atheros_tcp.c'')],
     row ''net_5fdev_5ftest_2ec'' ''net_dev_test.c'' [(''../net__dev__test_8c.html'', 1, '''')],
     row ''net_5fdev_5ftest_2eh'' ''net_dev_test.h'' [(''../net__dev__test_8h.html'', 1, '''')],
     row ''net_5fdev_5fudp_5fnew'' ''net_dev_udp_new'' [(''../group__net__port__interface.html#gae91e94bda8afc019c748978a7a22e5cb'', 1, ''net_dev_udp_new():&#160;net_if_atheros_udp.c''), (''../group__net__port__interface.html#gae91e94bda8afc019c748978a7a22e5cb'', 1, ''net_dev_udp_new(void):&#160;net_if_lwip_udp.c''), (''../group__net__port__interface.html#gae91e94bda8afc019c748978a7a22e5cb'', 1, ''net_dev_udp_new():&#160;net_if_wcm_udp.c''), (''../group__net__port__interface.html#gae91e94bda8afc019c748978a7a22e5cb'', 1, ''net_dev_udp_new():&#160;net_if_posix_udp.c''), (''../group__net__port__interface.html#gae91e94bda8afc019c748978a7a22e5cb'', 1, ''net_dev_udp_new():&#160;net_if_uip_udp.c''), (''../group__net__port__interface.html#gae91e94bda8afc019c748978a7a22e5cb'', 1, ''net_dev_udp_new(void):&#160;net_if_atheros_udp.c'')],
     row ''net_5fif'' ''net_if'' [(''../structprotocol__client__class.html#a283f3cb42e52f2a7b0d3a2db84255e0b'', 1, ''protocol_client_class'')],
     row ''net_5fif_5faccept'' ''net_if_accept'' [(''../net__if__posix__tcp_8c.html#ae475f293486cafb10aa422872ae2e40e'', 1, ''net_if_posix_tcp.c'')],
     row ''net_5fif_5fatheros_5ftcp_2ec'' ''net_if_atheros_tcp.c'' [(''../net__if__atheros__tcp_8c.html'', 1, '''')],
     row ''net_5fif_5fatheros_5fudp_2ec'' ''net_if_atheros_udp.c'' [(''../net__if__atheros__udp_8c.html'', 1, '''')],
     row ''net_5fif_5flwip_5ftcp_2ec'' ''net_if_lwip_tcp.c'' [(''../net__if__lwip__tcp_8c.html'', 1, '''')],
     row ''net_5fif_5flwip_5fudp_2ec'' ''net_if_lwip_udp.c'' [(''../net__if__lwip__udp_8c.html'', 1, '''')],
     row ''net_5fif_5fposix_5ftcp_2ec'' ''net_if_posix_tcp.c'' [(''../net__if__posix__tcp_8c.html'', 1, '''')],
     row ''net_5fif_5fposix_5fudp_2ec'' ''net_if_posix_udp.c'' [(''../net__if__posix__udp_8c.html'', 1, '''')],
     row ''net_5fif_5fserver_5fsocket_5ftcp'' ''net_if_server_socket_tcp'' [(''../net__if__posix__tcp_8c.html#ae5a27c9e2e04f4d4adafcb9c3dc998c0'', 1, ''net_if_posix_tcp.c'')],
     row ''net_5fif_5fuip_5fudp_2ec'' ''net_if_uip_udp.c'' [(''../net__if__uip__udp_8c.html'', 1, '''')],
     row ''network_20port_20interface'' ''Network Port Interface'' [(''../group__net__port__interface.html'', 1, '''')],
     row ''net_5fsocket'' ''net_socket'' [(''../structnet__socket.html'', 1, '''')],
     row ''next'' ''next'' [(''../structsdev.html#afe3305accaef4765a7c0ad1cadeede34'', 1, ''sdev'')],
     row ''no_5ftype'' ''no_type'' [(''../structexo__request__args.html#a3dceec3a607ab846872017d48f835c32'', 1, ''exo_request_args'')],
     row ''node'' ''node'' [(''../structnode.html'', 1, '''')],
     row ''ns_5flist_2eh'' ''ns_list.h'' [(''../ns__list_8h.html'', 1, '''')]]"

definition search_all_c :: "search_entry list" where
  "search_all_c =
    [row ''on_5factivate_5fclb'' ''on_activate_clb'' [(''../exosite__api__internal_8h.html#af2e35973ee404379204a182bff1e57a0'', 1, ''exosite_api_internal.h'')],
     row ''on_5fchange'' ''on_change'' [(''../exosite__subscribe__coap_8c.html#a6b8e22f298c5bf38d1396a2da5c70eac'', 1, ''on_change(int status, const char *alias, const char *value):&#160;exosite_subscribe_coap.c''), (''../exosite__subscribe__http_8c.html#a6b8e22f298c5bf38d1396a2da5c70eac'', 1, ''on_change(int status, const char *alias, const char *value):&#160;exosite_subscribe_http.c'')],
     row ''on_5fread'' ''on_read'' [(''../exosite__send__coap_8c.html#adf9e893b8610533b2a615f03375a3408'', 1, ''on_read(int status, const char *alias, const char *value):&#160;exosite_send_coap.c''), (''../exosite__send__http_8c.html#adf9e893b8610533b2a615f03375a3408'', 1, ''on_read(int status, const char *alias, const char *value):&#160;exosite_send_http.c'')],
     row ''on_5fread_5fclb'' ''on_read_clb'' [(''../exosite__api__internal_8h.html#ac0bce01861d24a44b7728f465a17d1e2'', 1, ''exosite_api_internal.h'')],
     row ''on_5fsubscribe_5fclb'' ''on_subscribe_clb'' [(''../exosite__api__internal_8h.html#a995df6c4ab768546bd94ed2cc03b8dc3'', 1, ''exosite_api_internal.h'')],
     row ''on_5ftimestamp_5fclb'' ''on_timestamp_clb'' [(''../exosite__api__internal_8h.html#a6184b17f453d49dd002c41c55dce80dc'', 1, ''exosite_api_internal.h'')],
     row ''on_5fwrite'' ''on_write'' [(''../exosite__send__coap_8c.html#a8ffc2c808eb0c212ecac8e088359eac0'', 1, ''on_write(int status, const char *alias):&#160;exosite_send_coap.c''), (''../exosite__send__http_8c.html#a8ffc2c808eb0c212ecac8e088359eac0'', 1, ''on_write(int status, const char *alias):&#160;exosite_send_http.c'')],
     row ''on_5fwrite_5fclb'' ''on_write_clb'' [(''../exosite__api__internal_8h.html#a76a1af0498a651312d2346f57aff04bd'', 1, ''exosite_api_internal.h'')],
     row ''ops'' ''ops'' [(''../structnet__socket.html#a36141c060ffc561b2b90377984e4ff54'', 1, ''net_socket::ops()''), (''../structprotocol__client__class.html#af31fae5c6b03ff0d746d0bc26e0947a2'', 1, ''protocol_client_class::ops()'')],
     row ''os_5flist_2eh'' ''os_list.h'' [(''../os__list_8h.html'', 1, '''')]]"

definition pages_all_a :: "search_entry list list" where
  "pages_all_a = [search_all_0, search_all_1, search_all_2, search_all_3, search_all_4, search_all_5, search_all_6, search_all_7, search_all_8, search_all_9, search_all_a, search_all_b, search_all_c]"

end
