(* ===== verification/SearchPages1.thy ===== *)
theory SearchPages1
  imports SearchRow
begin

text \<open>
  Generated data of the result pages, \<open>search/all_d.js\<close> to \<open>search/all_15.js\<close>: each
  assigns the entries of its page to the variable \<open>searchData\<close>.
\<close>

definition search_all_d :: "search_entry list" where
  "search_all_d =
    [row ''packet_5fbuffer'' ''packet_buffer'' [(''../structpacket__buffer.html'', 1, '''')],
     row ''packet_5fbuffer_2ec'' ''packet_buffer.c'' [(''../packet__buffer_8c.html'', 1, '''')],
     row ''packet_5fbuffer_2eh'' ''packet_buffer.h'' [(''../packet__buffer_8h.html'', 1, '''')],
     row ''packet_5fbuffer_5fentry'' ''packet_buffer_entry'' [(''../structpacket__buffer__entry.html'', 1, '''')],
     row ''packet_5fbuffer_5fnew'' ''packet_buffer_new'' [(''../packet__buffer_8h.html#afcbcad1f1a5b4828819d8e25e5e006ee'', 1, ''packet_buffer_new(struct packet_buffer **obj, size_t size, size_t bufsize):&#160;packet_buffer.c''), (''../packet__buffer_8c.html#afcbcad1f1a5b4828819d8e25e5e006ee'', 1, ''packet_buffer_new(struct packet_buffer **obj, size_t size, size_t bufsize):&#160;packet_buffer.c'')],
     row ''packet_5fbuffer_5fpop'' ''packet_buffer_pop'' [(''../packet__buffer_8h.html#ae97b304f28017466e85c771acfec0478'', 1, ''packet_buffer_pop(struct packet_buffer *self, uint8_t *buf, size_t buflen):&#160;packet_buffer.c''), (''../packet__buffer_8c.html#ae97b304f28017466e85c771acfec0478'', 1, ''packet_buffer_pop(struct packet_buffer *self, uint8_t *buf, size_t buflen):&#160;packet_buffer.c'')],
     row ''packet_5fbuffer_5fpush'' ''packet_buffer_push'' [(''../packet__buffer_8h.html#a21fed34872aa06770baf3e0250c8a611'', 1, ''packet_buffer_push(struct packet_buffer *self, uint8_t *buf, size_t size):&#160;packet_buffer.c''), (''../packet__buffer_8c.html#a21fed34872aa06770baf3e0250c8a611'', 1, ''packet_buffer_push(struct packet_buffer *self, uint8_t *buf, size_t size):&#160;packet_buffer.c'')],
     row ''parallel_5frequest_5flimit'' ''parallel_request_limit'' [(''../structtransmission__config__class.html#a330f2b50ce5b3c811915fdadba95d37c'', 1, ''transmission_config_class'')],
     row ''periodic_20callback_20interface'' ''Periodic Callback interface'' [(''../group__pclb.html'', 1, '''')],
     row ''pclb_2ec'' ''pclb.c'' [(''../pclb_8c.html'', 1, '''')],
     row ''pclb_2eh'' ''pclb.h'' [(''../pclb_8h.html'', 1, '''')],
     row ''pclb_5fget_5fclb_5fnum'' ''pclb_get_clb_num'' [(''../group__pclb.html#ga1019b64a2ec387817a5685540f0d6486'', 1, ''pclb_get_clb_num(void):&#160;pclb.c''), (''../group__pclb.html#ga1019b64a2ec387817a5685540f0d6486'', 1, ''pclb_get_clb_num(void):&#160;pclb.c'')],
     row ''pclb_5finit'' ''pclb_init'' [(''../group__pclb.html#ga28c23ebda75cc16d211cf170b57e65f6'', 1, ''pclb_init(uint32_t stack_size):&#160;pclb.c''), (''../group__pclb.html#ga28c23ebda75cc16d211cf170b57e65f6'', 1, ''pclb_init(uint32_t stack_size):&#160;pclb.c'')],
     row ''pclb_5fregister'' ''pclb_register'' [(''../group__pclb.html#gabaf3ae1c39154d13f10730be4dc13451'', 1, ''pclb_register(timer_data_type period, void(*fn)(void *), void *param, int32_t *id):&#160;pclb.c''), (''../group__pclb.html#gabaf3ae1c39154d13f10730be4dc13451'', 1, ''pclb_register(timer_data_type period, void(*fn)(void *), void *param, int32_t *id):&#160;pclb.c'')],
     row ''pclb_5ftask'' ''pclb_task'' [(''../group__pclb.html#ga2d55dfa4072a1a8426d030c1753824f1'', 1, ''pclb_task(uint32_t ms):&#160;pclb.c''), (''../group__pclb.html#ga2d55dfa4072a1a8426d030c1753824f1'', 1, ''pclb_task(uint32_t ms):&#160;pclb.c'')],
     row ''pclb_5funregister'' ''pclb_unregister'' [(''../group__pclb.html#gac4f5668e377615f881e10902795718a7'', 1, ''pclb_unregister(int32_t id):&#160;pclb.c''), (''../group__pclb.html#gac4f5668e377615f881e10902795718a7'', 1, ''pclb_unregister(int32_t id):&#160;pclb.c'')],
     row ''pcld_5fhas_5fthread'' ''pcld_has_thread'' [(''../group__pclb.html#gaecd6386f09d025ffabc5c4cea4829fcf'', 1, ''pcld_has_thread(void):&#160;pclb.c''), (''../group__pclb.html#gaecd6386f09d025ffabc5c4cea4829fcf'', 1, ''pcld_has_thread(void):&#160;pclb.c'')],
     row ''pcsm_5ftransmit_5fqeueue_5fpush_5fno_5fcopy'' ''pcsm_transmit_qeueue_push_no_copy'' [(''../exosite__api_8c.html#ae2127bcd3a584662dd215d7c9c8fea18'', 1, ''exosite_api.c'')],
     row ''periodic_5fclb_5fclass'' ''periodic_clb_class'' [(''../structperiodic__clb__class.html'', 1, '''')],
     row ''periodic_5fconfig_5fclass'' ''periodic_config_class'' [(''../structperiodic__config__class.html'', 1, '''')],
     row ''picocoap_5fclient_2ec'' ''picocoap_client.c'' [(''../picocoap__client_8c.html'', 1, '''')],
     row ''picocoap_5fcontext'' ''picocoap_context'' [(''../structpicocoap__context.html'', 1, '''')],
     row ''platform_5fexos_2eh'' ''platform_exos.h'' [(''../platform__exos_8h.html'', 1, '''')],
     row ''platform_5ffreertos_2eh'' ''platform_freertos.h'' [(''../platform__freertos_8h.html'', 1, '''')],
     row ''platform_5fget_5fcik'' ''platform_get_cik'' [(''../platform__exos_8h.html#a8471bf7902f30585012b5feaea84021c'', 1, ''platform_get_cik(char *cik, size_t len):&#160;platform_exos.h''), (''../platform__freertos_8h.html#a4d318b9dfbdd9d21b4c503719742694b'', 1, ''platform_get_cik(char *cik, size_t len):&#160;platform_freertos.h''), (''../platform__qmx_8h.html#a4d318b9dfbdd9d21b4c503719742694b'', 1, ''platform_get_cik(char *cik, size_t len):&#160;platform_qmx.h'')],
     row ''platform_5fget_5fsn'' ''platform_get_sn'' [(''../platform__exos_8h.html#a1bdfbc42522159f4df1beccaeabbfe27'', 1, ''platform_get_sn(void):&#160;platform_exos.h''), (''../platform__freertos_8h.html#a1bdfbc42522159f4df1beccaeabbfe27'', 1, ''platform_get_sn(void):&#160;platform_freertos.h''), (''../platform__qmx_8h.html#a1bdfbc42522159f4df1beccaeabbfe27'', 1, ''platform_get_sn(void):&#160;platform_qmx.h'')],
     row ''platform_5flwip_2eh'' ''platform_lwip.h'' [(''../platform__lwip_8h.html'', 1, '''')],
     row ''platform_5fposix_2eh'' ''platform_posix.h'' [(''../platform__posix_8h.html'', 1, '''')],
     row ''platform_5fposix_5fns_2eh'' ''platform_posix_ns.h'' [(''../platform__posix__ns_8h.html'', 1, '''')],
     row ''platform_5fqmx_2eh'' ''platform_qmx.h'' [(''../platform__qmx_8h.html'', 1, '''')],
     row ''platform_5freset'' ''platform_reset'' [(''../platform__exos_8h.html#afea180ee48367b63170d1eeb5fd468e6'', 1, ''platform_reset(void):&#160;platform_exos.h''), (''../platform__freertos_8h.html#afea180ee48367b63170d1eeb5fd468e6'', 1, ''platform_reset(void):&#160;platform_freertos.h''), (''../platform__qmx_8h.html#afea180ee48367b63170d1eeb5fd468e6'', 1, ''platform_reset(void):&#160;platform_qmx.h'')],
     row ''platform_5fset_5fcik'' ''platform_set_cik'' [(''../platform__exos_8h.html#a6e7b369b84a0e5d821565d2cec759bd3'', 1, ''platform_set_cik(const char *cik):&#160;platform_exos.h''), (''../platform__freertos_8h.html#a7ac700a1ab69bba1dd50c7f977cfef26'', 1, ''platform_set_cik(const char *cik):&#160;platform_freertos.h''), (''../platform__qmx_8h.html#a7ac700a1ab69bba1dd50c7f977cfef26'', 1, ''platform_set_cik(const char *cik):&#160;platform_qmx.h'')],
     row ''platform_5fset_5fglobal_5finterrupts'' ''platform_set_global_interrupts'' [(''../platform__exos_8h.html#a231524764892a09a29896ee061fad476'', 1, ''platform_exos.h'')],
     row ''platform_5fuip_2eh'' ''platform_uip.h'' [(''../platform__uip_8h.html'', 1, '''')],
     row ''pmatch_2eh'' ''pmatch.h'' [(''../pmatch_8h.html'', 1, '''')],
     row ''posix_5fport_2ec'' ''posix_port.c'' [(''../posix__port_8c.html'', 1, '''')],
     row ''print_5farray'' ''print_array'' [(''../debug_8h.html#abb433d0baa2427df7c994db4cd5c2a8b'', 1, ''print_array(char *buf, int32_t length):&#160;debug.c''), (''../debug_8c.html#abb433d0baa2427df7c994db4cd5c2a8b'', 1, ''print_array(char *buf, int32_t length):&#160;debug.c'')],
     row ''print_5farray_5fch'' ''print_array_ch'' [(''../debug_8h.html#a56df89b49018da858ba1d8d56e5a6973'', 1, ''print_array_ch(char *buf, int32_t length):&#160;debug.c''), (''../debug_8c.html#a56df89b49018da858ba1d8d56e5a6973'', 1, ''print_array_ch(char *buf, int32_t length):&#160;debug.c'')],
     row ''print_5fmemory_5fstats'' ''print_memory_stats'' [(''../debug_8h.html#ab30d5946e31b7a4e8fafee6e8a68377a'', 1, ''print_memory_stats(void):&#160;heap_manager.c''), (''../heap__manager_8c.html#ab30d5946e31b7a4e8fafee6e8a68377a'', 1, ''print_memory_stats(void):&#160;heap_manager.c'')],
     row ''print_5fused_5fmemory'' ''print_used_memory'' [(''../debug_8h.html#ac5e0bd7e07d3f6954b13cfd9c4153744'', 1, ''print_used_memory(void):&#160;debug.c''), (''../debug_8c.html#ac5e0bd7e07d3f6954b13cfd9c4153744'', 1, ''print_used_memory(void):&#160;debug.c'')],
     row ''priority'' ''priority'' [(''../struct__system__thread__attr__t.html#a4475674eab6377892c6f1b6204d9979d'', 1, ''_system_thread_attr_t'')],
     row ''protocol_20client_20interface'' ''Protocol Client interface'' [(''../group__protocol__client.html'', 1, '''')],
     row ''protocol_5fclient_2eh'' ''protocol_client.h'' [(''../protocol__client_8h.html'', 1, '''')],
     row ''protocol_5fclient_5fclass'' ''protocol_client_class'' [(''../structprotocol__client__class.html'', 1, '''')],
     row ''protocol_5fclient_5fcommon_2eh'' ''protocol_client_common.h'' [(''../protocol__client__common_8h.html'', 1, '''')],
     row ''protocol_5fclient_5fconfig_5fclass'' ''protocol_client_config_class'' [(''../structprotocol__client__config__class.html'', 1, '''')],
     row ''protocol_5fclient_5fops'' ''protocol_client_ops'' [(''../structprotocol__client__ops.html'', 1, '''')],
     row ''protocol_5fclient_5frequest'' ''protocol_client_request'' [(''../structprotocol__client__request.html'', 1, '''')],
     row ''protocol_5fclient_5fresponse'' ''protocol_client_response'' [(''../structprotocol__client__response.html'', 1, '''')],
     row ''protocol_20client_20state_2dmachine_20interface'' ''Protocol Client State-Machine interface'' [(''../group__protocol__client__sm.html'', 1, '''')],
     row ''protocol_5fclient_5fsm_2ec'' ''protocol_client_sm.c'' [(''../protocol__client__sm_8c.html'', 1, '''')],
     row ''protocol_5fclient_5fsm_2eh'' ''protocol_client_sm.h'' [(''../protocol__client__sm_8h.html'', 1, '''')],
     row ''protocol_5fclient_5fsm_5fclass'' ''protocol_client_sm_class'' [(''../structprotocol__client__sm__class.html'', 1, '''')],
     row ''protocol_5fclient_5fsm_5fclear'' ''protocol_client_sm_clear'' [(''../group__protocol__client__sm.html#gad530e5f70715093294451963921d3407'', 1, ''protocol_client_sm_clear(struct protocol_client_sm_class *self):&#160;protocol_client_sm.c''), (''../group__protocol__client__sm.html#gad530e5f70715093294451963921d3407'', 1, ''protocol_client_sm_clear(struct protocol_client_sm_class *self):&#160;protocol_client_sm.c'')],
     row ''protocol_5fclient_5fsm_5fdelete'' ''protocol_client_sm_delete'' [(''../group__protocol__client__sm.html#ga5d6eb263e6472e3da31268c2d13a0a47'', 1, ''protocol_client_sm_delete(struct protocol_client_sm_class *exo):&#160;protocol_client_sm.c''), (''../group__protocol__client__sm.html#ga5d6eb263e6472e3da31268c2d13a0a47'', 1, ''protocol_client_sm_delete(struct protocol_client_sm_class *exo):&#160;protocol_client_sm.c'')],
     row ''protocol_5fclient_5fsm_5finit'' ''protocol_client_sm_init'' [(''../group__protocol__client__sm.html#ga25c31f466eb4402dcfdfe1be49d6cd57'', 1, ''protocol_client_sm_init(void):&#160;protocol_client_sm.c''), (''../group__protocol__client__sm.html#ga25c31f466eb4402dcfdfe1be49d6cd57'', 1, ''protocol_client_sm_init(void):&#160;protocol_client_sm.c'')],
     row ''protocol_5fclient_5fsm_5fis_5fempty'' ''protocol_client_sm_is_empty'' [(''../group__protocol__client__sm.html#ga4f3d55469e8c238a454b3a8e670965ea'', 1, ''protocol_client_sm_is_empty(struct protocol_client_sm_class *self):&#160;protocol_client_sm.c''), (''../group__protocol__client__sm.html#ga4f3d55469e8c238a454b3a8e670965ea'', 1, ''protocol_client_sm_is_empty(struct protocol_client_sm_class *self):&#160;protocol_client_sm.c'')],
     row ''protocol_5fclient_5fsm_5fis_5fqueue_5ffull'' ''protocol_client_sm_is_queue_full'' [(''../group__protocol__client__sm.html#gaf20f6dea17c9ff09ff4c4c5c005390fc'', 1, ''protocol_client_sm_is_queue_full(struct protocol_client_sm_class *self):&#160;protocol_client_sm.c''), (''../group__protocol__client__sm.html#gaf20f6dea17c9ff09ff4c4c5c005390fc'', 1, ''protocol_client_sm_is_queue_full(struct protocol_client_sm_class *self):&#160;protocol_client_sm.c'')],
     row ''protocol_5fclient_5fsm_5fnew'' ''protocol_client_sm_new'' [(''../group__protocol__client__sm.html#ga2eeace0f82cb4db6054278da31fac6df'', 1, ''protocol_client_sm_new(struct protocol_client_sm_class **exo, const char *name, struct protocol_client_config_class *protocol, const char *server_name, uint16_t server_port):&#160;protocol_client_sm.c''), (''../group__protocol__client__sm.html#ga2eeace0f82cb4db6054278da31fac6df'', 1, ''protocol_client_sm_new(struct protocol_client_sm_class **exo, const char *name, struct protocol_client_config_class *protocol, const char *server_name, uint16_t server_port):&#160;protocol_client_sm.c'')],
     row ''protocol_5fclient_5fsm_5fqueue_5fsize'' ''protocol_client_sm_queue_size'' [(''../structtransmission__config__class.html#a4bb3b61887b537ee850a6f5339169444'', 1, ''transmission_config_class::protocol_client_sm_queue_size()''), (''../client__config_8c.html#abc5a447271811dc0cbfcb3e80e4a3a89'', 1, ''PROTOCOL_CLIENT_SM_QUEUE_SIZE():&#160;client_config.c'')],
     row ''protocol_5fclient_5fsm_5fset_5fidentity'' ''protocol_client_sm_set_identity'' [(''../group__protocol__client__sm.html#gaa4630c533cc1804e2de9d8d26e0d7082'', 1, ''protocol_client_sm_set_identity(struct protocol_client_sm_class *exo, const char *identity, const char *passphrase):&#160;protocol_client_sm.c''), (''../group__protocol__client__sm.html#gaa4630c533cc1804e2de9d8d26e0d7082'', 1, ''protocol_client_sm_set_identity(struct protocol_client_sm_class *exo, const char *identity, const char *passphrase):&#160;protocol_client_sm.c'')],
     row ''protocol_5fclient_5fsm_5ftransmit'' ''protocol_client_sm_transmit'' [(''../group__protocol__client__sm.html#gac4759723fde32a0427cbd7d484cc873b'', 1, ''protocol_client_sm_transmit(struct protocol_client_sm_class *self, enum request_type type, void *request, void *request_args, int32_t message_id, pc_sm_callback resp_clb):&#160;protocol_client_sm.c''), (''../group__protocol__client__sm.html#gac4759723fde32a0427cbd7d484cc873b'', 1, ''protocol_client_sm_transmit(struct protocol_client_sm_class *self, enum request_type type, void *request, void *request_args, int32_t message_id, pc_sm_callback resp_clb):&#160;protocol_client_sm.c'')],
     row ''protocol_5ftype'' ''protocol_type'' [(''../structserver__data__class.html#aed84f15d659cb6af80960fdc8123a44f'', 1, ''server_data_class'')]]"

definition search_all_e :: "search_entry list" where
  "search_all_e =
    [row ''queue_2eh'' ''queue.h'' [(''../queue_8h.html'', 1, '''')],
     row ''queue_5ffree'' ''queue_free'' [(''../queue_8h.html#a42c7cc8caeb6778234887511db8fba40'', 1, ''queue.h'')],
     row ''queue_5fget_5fsize'' ''queue_get_size'' [(''../queue_8h.html#afdb1e0bb5faf7e5393e55b13e5b78f3d'', 1, ''queue.h'')],
     row ''queue_5fis_5fempty'' ''queue_is_empty'' [(''../queue_8h.html#a6b4d227552b30fe657a12b88ecad46bb'', 1, ''queue.h'')],
     row ''queue_5fnew'' ''queue_new'' [(''../queue_8h.html#a6822f963b6a23e3890b51dc7b690f09f'', 1, ''queue.h'')],
     row ''queue_5fpeek_5fhead'' ''queue_peek_head'' [(''../queue_8h.html#a8924c24ee3250e23fa4009f46ba4b9d8'', 1, ''queue.h'')],
     row ''queue_5fpeek_5ftail'' ''queue_peek_tail'' [(''../queue_8h.html#a13eed7922e2baaa839b3fca630a04e99'', 1, ''queue.h'')],
     row ''queue_5fpop_5fhead'' ''queue_pop_head'' [(''../queue_8h.html#ad6bcabffd5a8947dfba39698aa003a8b'', 1, ''queue.h'')],
     row ''queue_5fpop_5ftail'' ''queue_pop_tail'' [(''../queue_8h.html#ae5084bfe95c3cf582dff20f05abaf06a'', 1, ''queue.h'')],
     row ''queue_5fpush_5fhead'' ''queue_push_head'' [(''../queue_8h.html#aa4d24e6ff6b3b3300aa4a61fe31a26ab'', 1, ''queue.h'')],
     row ''queue_5fpush_5ftail'' ''queue_push_tail'' [(''../queue_8h.html#a312cbe8ee04e9e89f079c9588c97f4b0'', 1, ''queue.h'')]]"

definition search_all_f :: "search_entry list" where
  "search_all_f =
    [row ''read'' ''read'' [(''../structsdev.html#a43f8fd29f5d3438cca7244e291461289'', 1, ''sdev::read()''), (''../structexo__request__args.html#a3c7f6045f55276f7026f17e8b2bf6c45'', 1, ''exo_request_args::read()'')],
     row ''recv'' ''recv'' [(''../structnet__dev__operations.html#aca9b3c22e5ecdf5e0458a18dd6f07562'', 1, ''net_dev_operations'')],
     row ''recv_5fresponse'' ''recv_response'' [(''../structprotocol__client__ops.html#aa6e33523f5190984e6a898eb90730e4e'', 1, ''protocol_client_ops'')],
     row ''register_5fstack_5fchecker'' ''register_stack_checker'' [(''../mem__check_8h.html#a4ab2b537ab6eac4c5755285ee4440e8f'', 1, ''mem_check.c'')],
     row ''request_5fdelete'' ''request_delete'' [(''../structserver__api__request__ops.html#aeb505fecc5a310ce1873bcd06471d9af'', 1, ''server_api_request_ops'')],
     row ''request_5fnew'' ''request_new'' [(''../structserver__api__request__ops.html#abc1e5c854aa6738aa1d17a299a1b35aa'', 1, ''server_api_request_ops'')],
     row ''request_5fqueue_5fpush'' ''request_queue_push'' [(''../exosite__api_8c.html#a514ffa9538c2749779516886ddbc32a0'', 1, ''exosite_api.c'')],
     row ''response_5fcallback'' ''response_callback'' [(''../structserver__api__request__ops.html#ab2fbf58614c5278e10fcd67bd174765e'', 1, ''server_api_request_ops'')],
     row ''response_5ftimeout'' ''RESPONSE_TIMEOUT'' [(''../group__config__port.html#gaee65942ab29aecd1dabbef2bde8532fa'', 1, ''config_port.h'')],
     row ''rtc_2ec'' ''rtc.c'' [(''../rtc_8c.html'', 1, '''')],
     row ''rtc_5fget'' ''rtc_get'' [(''../rtc_8c.html#ab9566103b8b1de139da5a472000c7617'', 1, ''rtc.c'')],
     row ''rtc_5fperiod'' ''rtc_period'' [(''../structperiodic__config__class.html#ac68231502812b0106d0e03ec2323bb57'', 1, ''periodic_config_class'')],
     row ''rtc_5fperiodic'' ''rtc_periodic'' [(''../rtc_8c.html#a86ce0e5c919135157bb9cac8a8f8655f'', 1, ''rtc.c'')],
     row ''rtc_5fset'' ''rtc_set'' [(''../rtc_8c.html#a6eb764fb255bc69b431cb429fdc177aa'', 1, ''rtc.c'')]]"

definition search_all_10 :: "search_entry list" where
  "search_all_10 =
    [row ''sdev'' ''sdev'' [(''../structsdev.html'', 1, '''')],
     row ''sdk_5fconfig_2eh'' ''sdk_config.h'' [(''../sdk__config_8h.html'', 1, '''')],
     row ''sdk_5finit_2ec'' ''sdk_init.c'' [(''../sdk__init_8c.html'', 1, '''')],
     row ''sdk_20porting_20guide'' ''SDK Porting Guide'' [(''../sdk_porting_guide.html'', 1, '''')],
     row ''security'' ''security'' [(''../structtransmission__config__class.html#af09ab7bf8d3101f310c13c0072b5f02b'', 1, ''transmission_config_class::security()''), (''../structserver__data__class.html#afc70c73843c63c3c6a9195acb5e3342a'', 1, ''server_data_class::security()'')],
     row ''security_5flist_2eh'' ''security_list.h'' [(''../security__list_8h.html'', 1, '''')],
     row ''send'' ''send'' [(''../structnet__dev__operations.html#ae2a48d1cf3cb1d17097cb6a26de7fe78'', 1, ''net_dev_operations'')],
     row ''send_5frequest'' ''send_request'' [(''../structprotocol__client__ops.html#ac4c931fa75636fc811aecd5ca3139b00'', 1, ''protocol_client_ops'')],
     row ''server_5fapi'' ''server_api'' [(''../structexo__request__args.html#a0b31a3b287e3738ee18c5dde21c64b3b'', 1, ''exo_request_args'')],
     row ''server_5fapi_2eh'' ''server_api.h'' [(''../server__api_8h.html'', 1, '''')],
     row ''server_5fapi_5fclass'' ''server_api_class'' [(''../structserver__api__class.html'', 1, '''')],
     row ''server_5fapi_5frequest_5fops'' ''server_api_request_ops'' [(''../structserver__api__request__ops.html'', 1, '''')],
     row ''server_5fdata_5fclass'' ''server_data_class'' [(''../structserver__data__class.html'', 1, '''')],
     row ''server_5fdata_5fhttp'' ''server_data_http'' [(''../client__config_8c.html#a454f969d9aab3198f064d6c48d121570'', 1, ''client_config.c'')],
     row ''server_5fname'' ''server_name'' [(''../structserver__data__class.html#aece1f4dd418bd5d83db629a66a2153c3'', 1, ''server_data_class'')],
     row ''server_5fport'' ''server_port'' [(''../structserver__data__class.html#aea2bd70a53925d45c2d7794c4c3e23c6'', 1, ''server_data_class'')],
     row ''server_5fsocket'' ''server_socket'' [(''../structnet__dev__operations.html#a936778ff19ef0234cc8b2b58dbdeb68e'', 1, ''net_dev_operations'')],
     row ''set_5fidentity'' ''set_identity'' [(''../structnet__dev__operations.html#a9b673fe73e9041e3ba033fe9792fd998'', 1, ''net_dev_operations'')],
     row ''set_5fsocket'' ''set_socket'' [(''../structprotocol__client__ops.html#adf92c0c94fe4567247e1e78936586614'', 1, ''protocol_client_ops'')],
     row ''sf_5ffree'' ''sf_free'' [(''../sf__malloc_8h.html#a05d3c6a4f409b6603ba0d1239b952ab8'', 1, ''sf_malloc.h'')],
     row ''sf_5fmalloc'' ''sf_malloc'' [(''../sf__malloc_8h.html#afa76a4dbc64e0696ba5294eca128177a'', 1, ''sf_malloc.h'')],
     row ''sf_5fmalloc_2eh'' ''sf_malloc.h'' [(''../sf__malloc_8h.html'', 1, '''')],
     row ''sf_5fmem_5falloc'' ''sf_mem_alloc'' [(''../sf__malloc_8h.html#a005081174717896877b73030b6399fe5'', 1, ''sf_malloc.h'')],
     row ''sf_5fmem_5ffree'' ''sf_mem_free'' [(''../sf__malloc_8h.html#a1802190363c4c55f6bb61235e175fa16'', 1, ''sf_malloc.h'')],
     row ''sf_5fmem_5frealloc'' ''sf_mem_realloc'' [(''../sf__malloc_8h.html#a67acc98962d3af4d35439101597c5ca6'', 1, ''sf_malloc.h'')],
     row ''sf_5fmemcpy'' ''sf_memcpy'' [(''../sf__malloc_8h.html#a596711f8a4c914f9da585abf80fead36'', 1, ''sf_malloc.h'')],
     row ''sf_5fmemfill'' ''sf_memfill'' [(''../sf__malloc_8h.html#a7661fea66b9b807c49726786b49e4a6a'', 1, ''sf_malloc.h'')],
     row ''sf_5frealloc'' ''sf_realloc'' [(''../sf__malloc_8h.html#a923d5aca489915e01cac6d4ee243258c'', 1, ''sf_malloc.h'')],
     row ''sm_5flist_5fitem'' ''sm_list_item'' [(''../structsm__list__item.html'', 1, '''')],
     row ''sm_5fperiod'' ''sm_period'' [(''../structperiodic__config__class.html#a4b07310b4b4491059444259661d8876b'', 1, ''periodic_config_class'')],
     row ''sn'' ''sn'' [(''../structexo__request__args.html#ac74ac39218e72f4c88652adbc00c65f2'', 1, ''exo_request_args'')],
     row ''socket'' ''socket'' [(''../structnet__dev__operations.html#a2f5b1d769acebb45d85d712de02160c3'', 1, ''net_dev_operations::socket()''), (''../structprotocol__client__class.html#aca8a898eaf07a43dee8627d50e1cf1ba'', 1, ''protocol_client_class::socket()'')],
     row ''sockfd'' ''sockfd'' [(''../structnet__socket.html#ac89a11feb66f89678637ad3c729344e2'', 1, ''net_socket'')],
     row ''ssl_5fclient_2eh'' ''ssl_client.h'' [(''../ssl__client_8h.html'', 1, '''')],
     row ''ssl_5fclient_5finit'' ''ssl_client_init'' [(''../ssl__client_8h.html#a5bd9a41c7b8c230735c46624fc13bb1a'', 1, ''ssl_client_init(void):&#160;cyassl_client.c''), (''../cyassl__client_8c.html#a5bd9a41c7b8c230735c46624fc13bb1a'', 1, ''ssl_client_init(void):&#160;cyassl_client.c''), (''../mbedtls__client_8c.html#a5bd9a41c7b8c230735c46624fc13bb1a'', 1, ''ssl_client_init(void):&#160;mbedtls_client.c'')],
     row ''ssl_5fclient_5fnew'' ''ssl_client_new'' [(''../ssl__client_8h.html#a02c20a3169dfdc6418ed518675ab1736'', 1, ''ssl_client_new(struct net_dev_operations *net_dev, enum transport_protocol_type type):&#160;cyassl_client.c''), (''../cyassl__client_8c.html#a02c20a3169dfdc6418ed518675ab1736'', 1, ''ssl_client_new(struct net_dev_operations *net_dev, enum transport_protocol_type type):&#160;cyassl_client.c''), (''../mbedtls__client_8c.html#a02c20a3169dfdc6418ed518675ab1736'', 1, ''ssl_client_new(struct net_dev_operations *net_dev, enum transport_protocol_type type):&#160;mbedtls_client.c'')],
     row ''st_5ftransmit'' ''st_transmit'' [(''../protocol__client__sm_8c.html#ab3047b363558745911b4782f5abc26fd'', 1, ''protocol_client_sm.c'')],
     row ''stack_5fchecker'' ''stack_checker'' [(''../mem__check_8h.html#ae2483e2b904e2c143797446aa2d1d492'', 1, ''mem_check.h'')],
     row ''stack_5floc'' ''stack_loc'' [(''../struct__system__thread__attr__t.html#a067e5da622dab67495c54084c3a48062'', 1, ''_system_thread_attr_t'')],
     row ''stack_5fsize'' ''stack_size'' [(''../struct__system__thread__attr__t.html#ab130225c1ecefc38938759d140c63cd3'', 1, ''_system_thread_attr_t'')],
     row ''start_5fconfigurator_5fserver'' ''start_configurator_server'' [(''../group___configurator___a_p_i.html#gaa08bc3adea39f236fc473a595ae6fb96'', 1, ''start_configurator_server(const char *ip, uint16_t port, int32_t(*on_set)(struct wifi_settings *)):&#160;configurator_server.c''), (''../group___configurator___a_p_i.html#gaa08bc3adea39f236fc473a595ae6fb96'', 1, ''start_configurator_server(const char *ip, uint16_t port, int32_t(*on_set)(struct wifi_settings *)):&#160;configurator_server.c'')],
     row ''stdc_5fheaders'' ''STDC_HEADERS'' [(''../group__config__port.html#ga550e5c272cc3cf3814651721167dcd23'', 1, ''config_port.h'')],
     row ''stop_5fconfigurator_5fserver'' ''stop_configurator_server'' [(''../group___configurator___a_p_i.html#ga1736c42332e463fa31e148dd3826c780'', 1, ''stop_configurator_server(void):&#160;configurator_server.c''), (''../group___configurator___a_p_i.html#ga1736c42332e463fa31e148dd3826c780'', 1, ''stop_configurator_server(void):&#160;configurator_server.c'')],
     row ''string_5fcat'' ''string_cat'' [(''../string__class_8h.html#abc6229c233e7671be132774cc8a5a8dc'', 1, ''string_cat(struct string_class *str, struct string_class *str2):&#160;string_class.c''), (''../string__class_8c.html#abc6229c233e7671be132774cc8a5a8dc'', 1, ''string_cat(struct string_class *str, struct string_class *str2):&#160;string_class.c'')],
     row ''string_5fcatc'' ''string_catc'' [(''../string__class_8h.html#a3942f35051f61d7370d4ec8ec904e2ca'', 1, ''string_catc(struct string_class *str, const char *str2):&#160;string_class.c''), (''../string__class_8c.html#a3942f35051f61d7370d4ec8ec904e2ca'', 1, ''string_catc(struct string_class *str, const char *str2):&#160;string_class.c'')],
     row ''string_5fcatcn'' ''string_catcn'' [(''../string__class_8h.html#ab10e7fa9ead90aa12bcab56578595ad3'', 1, ''string_catcn(struct string_class *str, const char *new_chunk, size_t new_chunk_size):&#160;string_class.c''), (''../string__class_8c.html#ab10e7fa9ead90aa12bcab56578595ad3'', 1, ''string_catcn(struct string_class *str, const char *new_chunk, size_t new_chunk_size):&#160;string_class.c'')],
     row ''string_5fclass'' ''string_class'' [(''../structstring__class.html'', 1, '''')],
     row ''string_5fclass_2ec'' ''string_class.c'' [(''../string__class_8c.html'', 1, '''')],
     row ''string_5fclass_2eh'' ''string_class.h'' [(''../string__class_8h.html'', 1, '''')],
     row ''string_5fclass_5fpriv_2eh'' ''string_class_priv.h'' [(''../string__class__priv_8h.html'', 1, '''')],
     row ''string_5fdelete'' ''string_delete'' [(''../string__class_8h.html#a6f65fa996f09a3ce90557fa121a1c333'', 1, ''string_delete(struct string_class *str):&#160;string_class.c''), (''../string__class_8c.html#a6f65fa996f09a3ce90557fa121a1c333'', 1, ''string_delete(struct string_class *str):&#160;string_class.c'')],
     row ''string_5fempty'' ''string_empty'' [(''../string__class_8h.html#a5aff4005ac362285b7363fa2c201e6f7'', 1, ''string_empty(struct string_class *str):&#160;string_class.c''), (''../string__class_8c.html#a5aff4005ac362285b7363fa2c201e6f7'', 1, ''string_empty(struct string_class *str):&#160;string_class.c'')],
     row ''string_5fget_5fbuffer'' ''string_get_buffer'' [(''../string__class_8h.html#ac80dc6c93952467919eb8c8e75415390'', 1, ''string_get_buffer(struct string_class *str):&#160;string_class.c''), (''../string__class_8c.html#ac80dc6c93952467919eb8c8e75415390'', 1, ''string_get_buffer(struct string_class *str):&#160;string_class.c'')],
     row ''string_5fget_5fcstring'' ''string_get_cstring'' [(''../string__class_8h.html#acbcddcbdf37a4476c1ce27ce101960ed'', 1, ''string_get_cstring(struct string_class *str):&#160;string_class.c''), (''../string__class_8c.html#acbcddcbdf37a4476c1ce27ce101960ed'', 1, ''string_get_cstring(struct string_class *str):&#160;string_class.c'')],
     row ''string_5fget_5fsize'' ''string_get_size'' [(''../string__class_8h.html#a20d0c5ee7a5bc90abdffdb02e837cabf'', 1, ''string_get_size(struct string_class *str):&#160;string_class.c''), (''../string__class_8c.html#a20d0c5ee7a5bc90abdffdb02e837cabf'', 1, ''string_get_size(struct string_class *str):&#160;string_class.c'')],
     row ''string_5fis_5fequal'' ''string_is_equal'' [(''../string__class_8h.html#ae2f56113e3fb9d5b1a9cc11d908767b7'', 1, ''string_is_equal(struct string_class *str, const char *cstring):&#160;string_class.c''), (''../string__class_8c.html#ae2f56113e3fb9d5b1a9cc11d908767b7'', 1, ''string_is_equal(struct string_class *str, const char *cstring):&#160;string_class.c'')],
     row ''string_5fnew'' ''string_new'' [(''../string__class_8h.html#a1077f82572b93979a0a1f374dadd9297'', 1, ''string_new(struct string_class **new_str, const char *init_string):&#160;string_class.c''), (''../string__class_8c.html#a8422c6ac5a273f270c36eaf237c94f04'', 1, ''string_new(struct string_class **new_string, const char *init_string):&#160;string_class.c'')],
     row ''string_5fnew_5fconst'' ''string_new_const'' [(''../string__class_8h.html#a220590225cb85736f21497ea29148fa8'', 1, ''string_new_const(struct string_class **new_string, const char *init_string, size_t size):&#160;string_class.c''), (''../string__class_8c.html#a220590225cb85736f21497ea29148fa8'', 1, ''string_new_const(struct string_class **new_string, const char *init_string, size_t size):&#160;string_class.c'')],
     row ''string_5fprint'' ''string_print'' [(''../string__class_8h.html#a08a45356d772a55b48f2b65be881f237'', 1, ''string_print(struct string_class *str):&#160;string_class.c''), (''../string__class_8c.html#a08a45356d772a55b48f2b65be881f237'', 1, ''string_print(struct string_class *str):&#160;string_class.c'')],
     row ''string_5freplace'' ''string_replace'' [(''../string__class_8h.html#aa7367c5e6085093b8dface7b3fcee178'', 1, ''string_replace(struct string_class *str, const char *substr, const char *replacement):&#160;string_class.c''), (''../string__class_8c.html#aa7367c5e6085093b8dface7b3fcee178'', 1, ''string_replace(struct string_class *str, const char *substr, const char *replacement):&#160;string_class.c'')],
     row ''subscribe'' ''subscribe'' [(''../structexo__request__args.html#a853be85f06f87735b01a3ff715d95e3a'', 1, ''exo_request_args'')],
     row ''subscribe_5fitem'' ''subscribe_item'' [(''../structsubscribe__item.html'', 1, '''')],
     row ''system_5fdebug_5fdevice_5finit'' ''system_debug_device_init'' [(''../group__system__port__interface.html#ga9feeb70b1abd192deab9df0df68aed92'', 1, ''system_port.h'')],
     row ''system_5fdelay_5fand_5fpoll'' ''system_delay_and_poll'' [(''../system__utils_8h.html#a93d3ad7efae2f983a54ae5264145c9a2'', 1, ''system_delay_and_poll(uint32_t ms):&#160;system_utils.c''), (''../system__utils_8c.html#a73dd8fa42fa897b8c7226cf954e3d965'', 1, ''system_delay_and_poll(sys_time_t ms):&#160;system_utils.c'')],
     row ''system_5fenter_5fcritical_5fsection'' ''system_enter_critical_section'' [(''../group__system__port__interface.html#ga100b86113d1fadedf408aa73f69616d0'', 1, ''system_enter_critical_section(void):&#160;system.c''), (''../group__system__port__interface.html#ga100b86113d1fadedf408aa73f69616d0'', 1, ''system_enter_critical_section(void):&#160;system.c''), (''../group__system__port__interface.html#ga100b86113d1fadedf408aa73f69616d0'', 1, ''system_enter_critical_section(void):&#160;system.c''), (''../group__system__port__interface.html#ga100b86113d1fadedf408aa73f69616d0'', 1, ''system_enter_critical_section(void):&#160;system.c''), (''../group__system__port__interface.html#ga100b86113d1fadedf408aa73f69616d0'', 1, ''system_enter_critical_section(void):&#160;system.c'')],
     row ''system_5fget_5fcik'' ''system_get_cik'' [(''../group__system__port__interface.html#ga694b8756f4eac9935d58923c9652f8e8'', 1, ''system_get_cik(char *cik, size_t len):&#160;system.c''), (''../group__system__port__interface.html#ga694b8756f4eac9935d58923c9652f8e8'', 1, ''system_get_cik(char *cik, size_t len):&#160;system.c''), (''../group__system__port__interface.html#ga694b8756f4eac9935d58923c9652f8e8'', 1, ''system_get_cik(char *cik, size_t len):&#160;system.c''), (''../group__system__port__interface.html#ga694b8756f4eac9935d58923c9652f8e8'', 1, ''system_get_cik(char *cik, size_t len):&#160;system.c''), (''../group__system__port__interface.html#ga694b8756f4eac9935d58923c9652f8e8'', 1, ''system_get_cik(char *cik, size_t len):&#160;system.c'')],
     row ''system_5fget_5fdiff_5ftime'' ''system_get_diff_time'' [(''../system__utils_8h.html#ac2c7bbb10ec79feaeaa01b7a128beb36'', 1, ''system_get_diff_time(sys_time_t start):&#160;system_utils.c''), (''../system__utils_8c.html#ac2c7bbb10ec79feaeaa01b7a128beb36'', 1, ''system_get_diff_time(sys_time_t start):&#160;system_utils.c'')],
     row ''system_5fget_5fsn'' ''system_get_sn'' [(''../group__system__port__interface.html#gacd4ffaeda19468b998d390451652133a'', 1, ''system_get_sn(void):&#160;system.c''), (''../group__system__port__interface.html#gacd4ffaeda19468b998d390451652133a'', 1, ''system_get_sn(void):&#160;system.c''), (''../group__system__port__interface.html#gacd4ffaeda19468b998d390451652133a'', 1, ''system_get_sn(void):&#160;system.c''), (''../group__system__port__interface.html#gacd4ffaeda19468b998d390451652133a'', 1, ''system_get_sn(void):&#160;system.c''), (''../group__system__port__interface.html#gacd4ffaeda19468b998d390451652133a'', 1, ''system_get_sn(void):&#160;system.c'')],
     row ''system_5fget_5fthread_5fstack_5ffreesize'' ''system_get_thread_stack_freesize'' [(''../group__thread__port__interface.html#ga0ae99c82b2bffa8342d49a3be86fba2c'', 1, ''system_get_thread_stack_freesize(system_thread_t *thread):&#160;thread.c''), (''../group__thread__port__interface.html#ga0ae99c82b2bffa8342d49a3be86fba2c'', 1, ''system_get_thread_stack_freesize(system_thread_t *thread):&#160;thread.c'')],
     row ''system_5fget_5ftime'' ''system_get_time'' [(''../group__system__port__interface.html#ga48c1a60a65fe4aebb0821b338de0c683'', 1, ''system_get_time(void):&#160;system.c''), (''../group__system__port__interface.html#ga48c1a60a65fe4aebb0821b338de0c683'', 1, ''system_get_time(void):&#160;system.c''), (''../group__system__port__interface.html#ga48c1a60a65fe4aebb0821b338de0c683'', 1, ''system_get_time(void):&#160;system.c''), (''../group__system__port__interface.html#ga48c1a60a65fe4aebb0821b338de0c683'', 1, ''system_get_time(void):&#160;system.c''), (''../group__system__port__interface.html#ga48c1a60a65fe4aebb0821b338de0c683'', 1, ''system_get_time(void):&#160;system.c'')],
     row ''system_5finit'' ''system_init'' [(''../group__system__port__interface.html#gad4c2a0f4911bc247f3629e4bc30d1ce3'', 1, ''system_init(void):&#160;system.c''), (''../group__system__port__interface.html#gad4c2a0f4911bc247f3629e4bc30d1ce3'', 1, ''system_init(void):&#160;system.c''), (''../group__system__port__interface.html#gad4c2a0f4911bc247f3629e4bc30d1ce3'', 1, ''system_init(void):&#160;system.c''), (''../group__system__port__interface.html#gad4c2a0f4911bc247f3629e4bc30d1ce3'', 1, ''system_init(void):&#160;system.c''), (''../group__system__port__interface.html#gad4c2a0f4911bc247f3629e4bc30d1ce3'', 1, ''system_init(void):&#160;system.c'')],
     row ''system_5fis_5fcik_5fformat_5fvalid'' ''system_is_cik_format_valid'' [(''../system__utils_8h.html#a2e391d6625b10de37e81aed4995e0302'', 1, ''system_is_cik_format_valid(const char *cik):&#160;system_utils.c''), (''../system__utils_8c.html#a2e391d6625b10de37e81aed4995e0302'', 1, ''system_is_cik_format_valid(const char *cik):&#160;system_utils.c'')],
     row ''system_5fleave_5fcritical_5fsection'' ''system_leave_critical_section'' [(''../group__system__port__interface.html#ga89525ce656ca48f2506477d69c538794'', 1, ''system_leave_critical_section(void):&#160;system.c''), (''../group__system__port__interface.html#ga89525ce656ca48f2506477d69c538794'', 1, ''system_leave_critical_section(void):&#160;system.c''), (''../group__system__port__interface.html#ga89525ce656ca48f2506477d69c538794'', 1, ''system_leave_critical_section(void):&#160;system.c''), (''../group__system__port__interface.html#ga89525ce656ca48f2506477d69c538794'', 1, ''system_leave_critical_section(void):&#160;system.c''), (''../group__system__port__interface.html#ga89525ce656ca48f2506477d69c538794'', 1, ''system_leave_critical_section(void):&#160;system.c'')],
     row ''system_5fmutex_5fcreate'' ''system_mutex_create'' [(''../group__thread__port__interface.html#gab37a0136390eff5aaf2bd8d6650f4532'', 1, ''system_mutex_create(system_mutex_t *mutex):&#160;mutex.c''), (''../group__thread__port__interface.html#gab37a0136390eff5aaf2bd8d6650f4532'', 1, ''system_mutex_create(system_mutex_t *mutex):&#160;mutex.c''), (''../group__thread__port__interface.html#gab37a0136390eff5aaf2bd8d6650f4532'', 1, ''system_mutex_create(system_mutex_t *mutex):&#160;mutex.c''), (''../group__thread__port__interface.html#gab37a0136390eff5aaf2bd8d6650f4532'', 1, ''system_mutex_create(system_mutex_t *mutex):&#160;mutex.c''), (''../group__thread__port__interface.html#gab37a0136390eff5aaf2bd8d6650f4532'', 1, ''system_mutex_create(system_mutex_t *mutex):&#160;mutex.c'')],
     row ''system_5fmutex_5fdestroy'' ''system_mutex_destroy'' [(''../group__thread__port__interface.html#ga5ff76e122b93e2e9aa258f49eff037b4'', 1, ''system_mutex_destroy(system_mutex_t mutex):&#160;mutex.c''), (''../group__thread__port__interface.html#ga5ff76e122b93e2e9aa258f49eff037b4'', 1, ''system_mutex_destroy(system_mutex_t mutex):&#160;mutex.c''), (''../group__thread__port__interface.html#ga5ff76e122b93e2e9aa258f49eff037b4'', 1, ''system_mutex_destroy(system_mutex_t mutex):&#160;mutex.c''), (''../group__thread__port__interface.html#ga5ff76e122b93e2e9aa258f49eff037b4'', 1, ''system_mutex_destroy(system_mutex_t mutex):&#160;mutex.c''), (''../group__thread__port__interface.html#ga5ff76e122b93e2e9aa258f49eff037b4'', 1, ''system_mutex_destroy(system_mutex_t mutex):&#160;mutex.c'')],
     row ''system_5fmutex_5flock'' ''system_mutex_lock'' [(''../group__thread__port__interface.html#ga7f59d2e926f019ad955ccba7d87c3e4f'', 1, ''system_mutex_lock(system_mutex_t mutex):&#160;mutex.c''), (''../group__thread__port__interface.html#ga7f59d2e926f019ad955ccba7d87c3e4f'', 1, ''system_mutex_lock(system_mutex_t mutex):&#160;mutex.c''), (''../group__thread__port__interface.html#ga7f59d2e926f019ad955ccba7d87c3e4f'', 1, ''system_mutex_lock(system_mutex_t mutex):&#160;mutex.c''), (''../group__thread__port__interface.html#ga7f59d2e926f019ad955ccba7d87c3e4f'', 1, ''system_mutex_lock(system_mutex_t mutex):&#160;mutex.c''), (''../group__thread__port__interface.html#ga7f59d2e926f019ad955ccba7d87c3e4f'', 1, ''system_mutex_lock(system_mutex_t mutex):&#160;mutex.c'')],
     row ''system_5fmutex_5ftrylock'' ''system_mutex_trylock'' [(''../group__thread__port__interface.html#ga53bc3277f7f3474be3e08dd3a12d09a5'', 1, ''system_mutex_trylock(system_mutex_t mutex, uint8_t *acquired):&#160;mutex.c''), (''../group__thread__port__interface.html#ga53bc3277f7f3474be3e08dd3a12d09a5'', 1, ''system_mutex_trylock(system_mutex_t mutex, uint8_t *acquired):&#160;mutex.c''), (''../group__thread__port__interface.html#ga53bc3277f7f3474be3e08dd3a12d09a5'', 1, ''system_mutex_trylock(system_mutex_t mutex, uint8_t *acquired):&#160;mutex.c''), (''../group__thread__port__interface.html#ga53bc3277f7f3474be3e08dd3a12d09a5'', 1, ''system_mutex_trylock(system_mutex_t mutex, uint8_t *acquired):&#160;mutex.c''), (''../group__thread__port__interface.html#ga53bc3277f7f3474be3e08dd3a12d09a5'', 1, ''system_mutex_trylock(system_mutex_t mutex, uint8_t *acquired):&#160;mutex.c'')],
     row ''system_5fmutex_5funlock'' ''system_mutex_unlock'' [(''../group__thread__port__interface.html#ga3f1ab376de20ab7bf067703dea235bf5'', 1, ''system_mutex_unlock(system_mutex_t mutex):&#160;mutex.c''), (''../group__thread__port__interface.html#ga3f1ab376de20ab7bf067703dea235bf5'', 1, ''system_mutex_unlock(system_mutex_t mutex):&#160;mutex.c''), (''../group__thread__port__interface.html#ga3f1ab376de20ab7bf067703dea235bf5'', 1, ''system_mutex_unlock(system_mutex_t mutex):&#160;mutex.c''), (''../group__thread__port__interface.html#ga3f1ab376de20ab7bf067703dea235bf5'', 1, ''system_mutex_unlock(system_mutex_t mutex):&#160;mutex.c''), (''../group__thread__port__interface.html#ga3f1ab376de20ab7bf067703dea235bf5'', 1, ''system_mutex_unlock(system_mutex_t mutex):&#160;mutex.c'')],
     row ''system_5fpoll'' ''system_poll'' [(''../system__utils_8h.html#abd723470d3686000632614e2f2c0fd80'', 1, ''system_poll(sys_time_t ms):&#160;system_utils.c''), (''../system__utils_8c.html#abd723470d3686000632614e2f2c0fd80'', 1, ''system_poll(sys_time_t ms):&#160;system_utils.c'')],
     row ''system_20port_20interface'' ''System Port Interface'' [(''../group__system__port__interface.html'', 1, '''')],
     row ''system_5freset'' ''system_reset'' [(''../group__system__port__interface.html#gaa6b8b52cd91774ae02c2b293d982a646'', 1, ''system_reset(void):&#160;system.c''), (''../group__system__port__interface.html#gaa6b8b52cd91774ae02c2b293d982a646'', 1, ''system_reset(void):&#160;system.c''), (''../group__system__port__interface.html#gaa6b8b52cd91774ae02c2b293d982a646'', 1, ''system_reset(void):&#160;system.c''), (''../group__system__port__interface.html#gaa6b8b52cd91774ae02c2b293d982a646'', 1, ''system_reset(void):&#160;system.c''), (''../group__system__port__interface.html#gaa6b8b52cd91774ae02c2b293d982a646'', 1, ''system_reset(void):&#160;system.c'')],
     row ''system_5fset_5fcik'' ''system_set_cik'' [(''../group__system__port__interface.html#ga7ecf46987ea3260b0e54fb6e5765bc7e'', 1, ''system_set_cik(const char *cik):&#160;system.c''), (''../group__system__port__interface.html#ga7ecf46987ea3260b0e54fb6e5765bc7e'', 1, ''system_set_cik(const char *cik):&#160;system.c''), (''../group__system__port__interface.html#ga7ecf46987ea3260b0e54fb6e5765bc7e'', 1, ''system_set_cik(const char *cik):&#160;system.c''), (''../group__system__port__interface.html#ga7ecf46987ea3260b0e54fb6e5765bc7e'', 1, ''system_set_cik(const char *cik):&#160;system.c''), (''../group__system__port__interface.html#ga7ecf46987ea3260b0e54fb6e5765bc7e'', 1, ''system_set_cik(const char *cik):&#160;system.c'')],
     row ''system_5fsleep_5fms'' ''system_sleep_ms'' [(''../group__system__port__interface.html#ga06f6bc506ca833208f11fa9bf4c18c3f'', 1, ''system_sleep_ms(timer_data_type delay_ms):&#160;system.c''), (''../group__system__port__interface.html#ga06f6bc506ca833208f11fa9bf4c18c3f'', 1, ''system_sleep_ms(timer_data_type delay_ms):&#160;system.c''), (''../group__system__port__interface.html#ga06f6bc506ca833208f11fa9bf4c18c3f'', 1, ''system_sleep_ms(timer_data_type delay_ms):&#160;system.c''), (''../group__system__port__interface.html#ga06f6bc506ca833208f11fa9bf4c18c3f'', 1, ''system_sleep_ms(timer_data_type delay_ms):&#160;system.c''), (''../group__system__port__interface.html#ga06f6bc506ca833208f11fa9bf4c18c3f'', 1, ''system_sleep_ms(timer_data_type ms):&#160;system.c'')],
     row ''system_5fthread_5fattr_5ft'' ''system_thread_attr_t'' [(''../group__thread__port__interface.html#ga5381c059d28416a8dfcc7f2d5fb71e22'', 1, ''thread_port.h'')],
     row ''system_5fthread_5fcreate'' ''system_thread_create'' [(''../group__thread__port__interface.html#ga46f8aaa2375b466fc565c9459ee43556'', 1, ''system_thread_create(system_thread_t *thread, const system_thread_attr_t *attr, void *(*start_routine)(void *), void *param):&#160;thread.c''), (''../group__thread__port__interface.html#ga46f8aaa2375b466fc565c9459ee43556'', 1, ''system_thread_create(system_thread_t *thread, const system_thread_attr_t *attr, void *(*start_routine)(void *), void *param):&#160;thread.c''), (''../group__thread__port__interface.html#ga46f8aaa2375b466fc565c9459ee43556'', 1, ''system_thread_create(system_thread_t *thread, const system_thread_attr_t *attr, void *(*start_routine)(void *), void *param):&#160;thread.c''), (''../group__thread__port__interface.html#ga46f8aaa2375b466fc565c9459ee43556'', 1, ''system_thread_create(system_thread_t *thread, const system_thread_attr_t *attr, void *(*start_routine)(void *), void *param):&#160;thread.c''), (''../group__thread__port__interface.html#ga46f8aaa2375b466fc565c9459ee43556'', 1, ''system_thread_create(system_thread_t *thread, const system_thread_attr_t *attr, void *(*start_routine)(void *), void *param):&#160;thread.c'')],
     row ''system_5fthread_5fpriority'' ''system_thread_priority'' [(''../group__thread__port__interface.html#gaa8b9fd873cdf3adc814876bb222efffc'', 1, ''thread_port.h'')],
     row ''system_5futils_2ec'' ''system_utils.c'' [(''../system__utils_8c.html'', 1, '''')],
     row ''system_5futils_2eh'' ''system_utils.h'' [(''../system__utils_8h.html'', 1, '''')]]"

definition search_all_11 :: "search_entry list" where
  "search_all_11 =
    [row ''tutorial'' ''Tutorial'' [(''../exosite_send_http.html'', 1, '''')],
     row ''technical_20overview'' ''Technical Overview'' [(''../md_docs__t_e_c_h_n_i_c_a_l__o_v_e_r_v_i_e_w.html'', 1, '''')],
     row ''tcp_5fbuffer_2ec'' ''tcp_buffer.c'' [(''../tcp__buffer_8c.html'', 1, '''')],
     row ''tcp_5fbuffer_2eh'' ''tcp_buffer.h'' [(''../tcp__buffer_8h.html'', 1, '''')],
     row ''tcp_5fbuffer_5fclass'' ''tcp_buffer_class'' [(''../structtcp__buffer__class.html'', 1, '''')],
     row ''tcp_5fbuffer_5fdelete'' ''tcp_buffer_delete'' [(''../tcp__buffer_8h.html#a6d191aca3ca006d60c27247bc9c734f1'', 1, ''tcp_buffer_delete(struct tcp_buffer_class *tcpbuf):&#160;tcp_buffer.c''), (''../tcp__buffer_8c.html#a6d191aca3ca006d60c27247bc9c734f1'', 1, ''tcp_buffer_delete(struct tcp_buffer_class *tcpbuf):&#160;tcp_buffer.c'')],
     row ''tcp_5fbuffer_5fget_5ffree'' ''tcp_buffer_get_free'' [(''../tcp__buffer_8h.html#a7489d7d4726c351c19d2fd50ab13847c'', 1, ''tcp_buffer_get_free(struct tcp_buffer_class *tcp_buffer_obj):&#160;tcp_buffer.c''), (''../tcp__buffer_8c.html#a7489d7d4726c351c19d2fd50ab13847c'', 1, ''tcp_buffer_get_free(struct tcp_buffer_class *tcp_buffer_obj):&#160;tcp_buffer.c'')],
     row ''tcp_5fbuffer_5fget_5fused'' ''tcp_buffer_get_used'' [(''../tcp__buffer_8h.html#a6f61fe92245308031949dcc67e5720ba'', 1, ''tcp_buffer_get_used(struct tcp_buffer_class *tcp_buffer_obj):&#160;tcp_buffer.c''), (''../tcp__buffer_8c.html#a6f61fe92245308031949dcc67e5720ba'', 1, ''tcp_buffer_get_used(struct tcp_buffer_class *tcp_buffer_obj):&#160;tcp_buffer.c'')],
     row ''tcp_5fbuffer_5fnew'' ''tcp_buffer_new'' [(''../tcp__buffer_8h.html#a4d516969837473d35f3a4351ec99b215'', 1, ''tcp_buffer_new(struct tcp_buffer_class **tcpbuf, size_t size):&#160;tcp_buffer.c''), (''../tcp__buffer_8c.html#a4d516969837473d35f3a4351ec99b215'', 1, ''tcp_buffer_new(struct tcp_buffer_class **tcpbuf, size_t size):&#160;tcp_buffer.c'')],
     row ''tcp_5fbuffer_5fpop'' ''tcp_buffer_pop'' [(''../tcp__buffer_8h.html#a0dd4511ed1c91af31789bca10d7c35e8'', 1, ''tcp_buffer_pop(struct tcp_buffer_class *tcp_buffer_obj, char *buf, size_t max_size):&#160;tcp_buffer.c''), (''../tcp__buffer_8c.html#a0dd4511ed1c91af31789bca10d7c35e8'', 1, ''tcp_buffer_pop(struct tcp_buffer_class *tcp_buffer_obj, char *buf, size_t max_size):&#160;tcp_buffer.c'')],
     row ''tcp_5fbuffer_5fpush'' ''tcp_buffer_push'' [(''../tcp__buffer_8h.html#ae7f0eb5e342504e94626fa9e87c8e95f'', 1, ''tcp_buffer_push(struct tcp_buffer_class *tcp_buffer_obj, char *buf, size_t size):&#160;tcp_buffer.c''), (''../tcp__buffer_8c.html#ae7f0eb5e342504e94626fa9e87c8e95f'', 1, ''tcp_buffer_push(struct tcp_buffer_class *tcp_buffer_obj, char *buf, size_t size):&#160;tcp_buffer.c'')],
     row ''tdictionary_2ec'' ''tdictionary.c'' [(''../tdictionary_8c.html'', 1, '''')],
     row ''thread_5finstance_5fargs'' ''thread_instance_args'' [(''../structthread__instance__args.html'', 1, '''')],
     row ''thread_20port_20interface'' ''Thread Port Interface'' [(''../group__thread__port__interface.html'', 1, '''')],
     row ''timeout'' ''timeout'' [(''../structexo__request__args.html#a6271c4da956daa9e384105567950020e'', 1, ''exo_request_args'')],
     row ''timestamp'' ''timestamp'' [(''../structexo__request__args.html#a338fd2aa5bed723d9baf705ec8cc2bb5'', 1, ''exo_request_args'')],
     row ''transmission_5fconfig_5fclass'' ''transmission_config_class'' [(''../structtransmission__config__class.html'', 1, '''')],
     row ''transmission_5fretries'' ''transmission_retries'' [(''../structtransmission__config__class.html#af4151a8902591e0f5b9f8507b4aaae7a'', 1, ''transmission_config_class::transmission_retries()''), (''../client__config_8c.html#ad741a21703155842220b2623d358e45a'', 1, ''TRANSMISSION_RETRIES():&#160;client_config.c'')],
     row ''transmission_5ftimeout'' ''transmission_timeout'' [(''../structtransmission__config__class.html#a0dbb57a5d1895dbe2293f1d24a3f93d4'', 1, ''transmission_config_class'')],
     row ''transport_5fproto_5ftcp'' ''TRANSPORT_PROTO_TCP'' [(''../group__net__port__interface.html#gga939b5c918f33d00da530eee4a47e142dac94dd5f2c451c7dd87ed23e78240a41c'', 1, ''net_port.h'')],
     row ''transport_5fproto_5fudp'' ''TRANSPORT_PROTO_UDP'' [(''../group__net__port__interface.html#gga939b5c918f33d00da530eee4a47e142dae8a6d6a784f1a4dd5a66d93a0dcc73c9'', 1, ''net_port.h'')],
     row ''transport_5fprotocol_5ftype'' ''transport_protocol_type'' [(''../group__net__port__interface.html#ga939b5c918f33d00da530eee4a47e142d'', 1, ''net_port.h'')],
     row ''ts_5fcbuffer_2eh'' ''ts_cbuffer.h'' [(''../ts__cbuffer_8h.html'', 1, '''')],
     row ''ts_5fcbuffer_5fdelete'' ''ts_cbuffer_delete'' [(''../ts__cbuffer_8h.html#ad6e9c1cd3d49fa374e4f26857df6108f'', 1, ''ts_cbuffer.c'')],
     row ''ts_5fcbuffer_5fget_5ffree'' ''ts_cbuffer_get_free'' [(''../ts__cbuffer_8h.html#a0971fdc8382b814be46a2cd60931aaa1'', 1, ''ts_cbuffer.c'')],
     row ''ts_5fcbuffer_5fget_5fused'' ''ts_cbuffer_get_used'' [(''../ts__cbuffer_8h.html#a5e002c83d58fddbb5268235f664e3b56'', 1, ''ts_cbuffer.c'')],
     row ''ts_5fcbuffer_5fnew'' ''ts_cbuffer_new'' [(''../ts__cbuffer_8h.html#a86dcbd1d167c3f979d08f7948fca7ccc'', 1, ''ts_cbuffer.c'')],
     row ''ts_5fcbuffer_5fpop'' ''ts_cbuffer_pop'' [(''../ts__cbuffer_8h.html#a9ae4a1535f5e7495d5530ccbd0f97488'', 1, ''ts_cbuffer.c'')],
     row ''ts_5fcbuffer_5fpush'' ''ts_cbuffer_push'' [(''../ts__cbuffer_8h.html#a6773a1abe116f2db101429fbe0eeb897'', 1, ''ts_cbuffer.c'')],
     row ''type_2eh'' ''type.h'' [(''../type_8h.html'', 1, '''')]]"

definition search_all_12 :: "search_entry list" where
  "search_all_12 =
    [row ''user_20api'' ''User API'' [(''../md_include__r_e_a_d_m_e.html'', 1, '''')],
     row ''uip_5fadapter_5fconf_2eh'' ''uip_adapter_conf.h'' [(''../uip__adapter__conf_8h.html'', 1, '''')],
     row ''uip_5fnet_5fip'' ''uip_net_ip'' [(''../unionuip__net__ip.html'', 1, '''')],
     row ''uip_5fstate'' ''uip_state'' [(''../structuip__state.html'', 1, '''')],
     row ''unlimited_5fstate_5fmachines'' ''UNLIMITED_STATE_MACHINES'' [(''../group__config__port.html#gabe44721da938e6d638054219dd72c907'', 1, ''config_port.h'')],
     row ''use_5fssl_5fheap_2eh'' ''use_ssl_heap.h'' [(''../use__ssl__heap_8h.html'', 1, '''')],
     row ''use_5fstring_5fheap_2eh'' ''use_string_heap.h'' [(''../use__string__heap_8h.html'', 1, '''')],
     row ''utils_2eh'' ''utils.h'' [(''../utils_8h.html'', 1, '''')]]"

definition search_all_13 :: "search_entry list" where
  "search_all_13 =
    [row ''value'' ''value'' [(''../structexo__request__args.html#a7f2d771a96695e8eeb0d41dae29d2909'', 1, ''exo_request_args'')],
     row ''vendor'' ''vendor'' [(''../structexo__request__args.html#a3567e0e7dee740a58073da31dec9c0e9'', 1, ''exo_request_args'')]]"

definition search_all_14 :: "search_entry list" where
  "search_all_14 =
    [row ''wifi_5fpassw'' ''WIFI_PASSW'' [(''../group__config__port.html#ga346f861aa5bdea452c2d0edbec3cb852'', 1, ''config_port.h'')],
     row ''wifi_5fsettings'' ''wifi_settings'' [(''../structwifi__settings.html'', 1, '''')],
     row ''wifi_5fssid'' ''WIFI_SSID'' [(''../group__config__port.html#ga586542b79d00e4db7e1d5a667ae83a2b'', 1, ''config_port.h'')],
     row ''write'' ''write'' [(''../structsdev.html#af3db0101f756546c78423d450da90f89'', 1, ''sdev::write()''), (''../structexo__request__args.html#a0504ddc0add39895e2636f86f5b072e2'', 1, ''exo_request_args::write()'')]]"

definition search_all_15 :: "search_entry list" where
  "search_all_15 =
    [row ''wifi_5fpassw'' ''WIFI_PASSW'' [(''../group__config__port.html#ga346f861aa5bdea452c2d0edbec3cb852'', 1, ''config_port.h'')],
     row ''wifi_5fssid'' ''WIFI_SSID'' [(''../group__config__port.html#ga586542b79d00e4db7e1d5a667ae83a2b'', 1, ''config_port.h'')],
     row ''write'' ''write'' [(''../structsdev.html#af3db0101f756546c78423d450da90f89'', 1, ''sdev::write()''), (''../structexo__request__args.html#a0504ddc0add39895e2636f86f5b072e2'', 1, ''exo_request_args::write()''), (''../structbdev.html#a57137541082df48bce31900558ffdc84'', 1, ''bdev::write()'')]]"

definition pages_all_b :: "search_entry list list" where
  "pages_all_b = [search_all_d, search_all_e, search_all_f, search_all_10, search_all_11, search_all_12, search_all_13, search_all_14, search_all_15]"

end
