(* ===== verification/SearchPages2.thy ===== *)
theory SearchPages2
  imports SearchRow
begin

text \<open>
  Generated data of the result pages, \<open>search/classes_0.js\<close> to \<open>search/functions_10.js\<close>: each
  assigns the entries of its page to the variable \<open>searchData\<close>.
\<close>

definition search_classes_0 :: "search_entry list" where
  "search_classes_0 =
    [row ''_5fconfigurator_5fserver'' ''_configurator_server'' [(''../struct__configurator__server.html'', 1, '''')],
     row ''_5fcqueue'' ''_CQueue'' [(''../struct___c_queue.html'', 1, '''')],
     row ''_5fsystem_5fthread_5fattr_5ft'' ''_system_thread_attr_t'' [(''../struct__system__thread__attr__t.html'', 1, '''')]]"

definition search_classes_1 :: "search_entry list" where
  "search_classes_1 =
    [row ''atheros_5fnet_5fip'' ''atheros_net_ip'' [(''../unionatheros__net__ip.html'', 1, '''')]]"

definition search_classes_2 :: "search_entry list" where
  "search_classes_2 =
    [row ''capture'' ''capture'' [(''../structcapture.html'', 1, '''')],
     row ''cbuffer_5fclass'' ''cbuffer_class'' [(''../structcbuffer__class.html'', 1, '''')],
     row ''client_5fdev'' ''client_dev'' [(''../structclient__dev.html'', 1, '''')],
     row ''client_5fsocket'' ''client_socket'' [(''../structclient__socket.html'', 1, '''')]]"

definition search_classes_3 :: "search_entry list" where
  "search_classes_3 =
    [row ''dictionary_5fclass'' ''dictionary_class'' [(''../structdictionary__class.html'', 1, '''')]]"

definition search_classes_4 :: "search_entry list" where
  "search_classes_4 =
    [row ''exo_5frequest_5fargs'' ''exo_request_args'' [(''../structexo__request__args.html'', 1, '''')],
     row ''exosite_5fclass'' ''exosite_class'' [(''../structexosite__class.html'', 1, '''')]]"

definition search_classes_5 :: "search_entry list" where
  "search_classes_5 =
    [row ''header_5ffield_5ffilter'' ''header_field_filter'' [(''../structheader__field__filter.html'', 1, '''')],
     row ''heap_5fconfig'' ''heap_config'' [(''../structheap__config.html'', 1, '''')],
     row ''heap_5fspace_5fclass'' ''heap_space_class'' [(''../structheap__space__class.html'', 1, '''')],
     row ''http_5fcontext'' ''http_context'' [(''../structhttp__context.html'', 1, '''')]]"

definition search_classes_6 :: "search_entry list" where
  "search_classes_6 =
    [row ''link_5flayer_5fif'' ''link_layer_if'' [(''../structlink__layer__if.html'', 1, '''')],
     row ''list_5fhead'' ''list_head'' [(''../structlist__head.html'', 1, '''')]]"

definition search_classes_7 :: "search_entry list" where
  "search_classes_7 =
    [row ''mac_5faddr'' ''mac_addr'' [(''../structmac__addr.html'', 1, '''')],
     row ''mallinfo'' ''mallinfo'' [(''../structmallinfo.html'', 1, '''')],
     row ''matchstate'' ''MatchState'' [(''../struct_match_state.html'', 1, '''')],
     row ''mbedtls_5fclient_5fdev'' ''mbedtls_client_dev'' [(''../structmbedtls__client__dev.html'', 1, '''')]]"

definition search_classes_8 :: "search_entry list" where
  "search_classes_8 =
    [row ''net_5fdev_5foperations'' ''net_dev_operations'' [(''../structnet__dev__operations.html'', 1, '''')],
     row ''net_5fsocket'' ''net_socket'' [(''../structnet__socket.html'', 1, '''')],
     row ''node'' ''node'' [(''../structnode.html'', 1, '''')]]"

definition search_classes_9 :: "search_entry list" where
  "search_classes_9 =
    [row ''packet_5fbuffer'' ''packet_buffer'' [(''../structpacket__buffer.html'', 1, '''')],
     row ''packet_5fbuffer_5fentry'' ''packet_buffer_entry'' [(''../structpacket__buffer__entry.html'', 1, '''')],
     row ''periodic_5fclb_5fclass'' ''periodic_clb_class'' [(''../structperiodic__clb__class.html'', 1, '''')],
     row ''periodic_5fconfig_5fclass'' ''periodic_config_class'' [(''../structperiodic__config__class.html'', 1, '''')],
     row ''picocoap_5fcontext'' ''picocoap_context'' [(''../structpicocoap__context.html'', 1, '''')],
     row ''protocol_5fclient_5fclass'' ''protocol_client_class'' [(''../structprotocol__client__class.html'', 1, '''')],
     row ''protocol_5fclient_5fconfig_5fclass'' ''protocol_client_config_class'' [(''../structprotocol__client__config__class.html'', 1, '''')],
     row ''protocol_5fclient_5fops'' ''protocol_client_ops'' [(''../structprotocol__client__ops.html'', 1, '''')],
     row ''protocol_5fclient_5frequest'' ''protocol_client_request'' [(''../structprotocol__client__request.html'', 1, '''')],
     row ''protocol_5fclient_5fresponse'' ''protocol_client_response'' [(''../structprotocol__client__response.html'', 1, '''')],
     row ''protocol_5fclient_5fsm_5fclass'' ''protocol_client_sm_class'' [(''../structprotocol__client__sm__class.html'', 1, '''')]]"

definition search_classes_a :: "search_entry list" where
  "search_classes_a =
    [row ''sdev'' ''sdev'' [(''../structsdev.html'', 1, '''')],
     row ''server_5fapi_5fclass'' ''server_api_class'' [(''../structserver__api__class.html'', 1, '''')],
     row ''server_5fapi_5frequest_5fops'' ''server_api_request_ops'' [(''../structserver__api__request__ops.html'', 1, '''')],
     row ''server_5fdata_5fclass'' ''server_data_class'' [(''../structserver__data__class.html'', 1, '''')],
     row ''sm_5flist_5fitem'' ''sm_list_item'' [(''../structsm__list__item.html'', 1, '''')],
     row ''string_5fclass'' ''string_class'' [(''../structstring__class.html'', 1, '''')],
     row ''subscribe_5fitem'' ''subscribe_item'' [(''../structsubscribe__item.html'', 1, '''')]]"

definition search_classes_b :: "search_entry list" where
  "search_classes_b =
    [row ''tcp_5fbuffer_5fclass'' ''tcp_buffer_class'' [(''../structtcp__buffer__class.html'', 1, '''')],
     row ''thread_5finstance_5fargs'' ''thread_instance_args'' [(''../structthread__instance__args.html'', 1, '''')],
     row ''transmission_5fconfig_5fclass'' ''transmission_config_class'' [(''../structtransmission__config__class.html'', 1, '''')]]"

definition search_classes_c :: "search_entry list" where
  "search_classes_c =
    [row ''uip_5fnet_5fip'' ''uip_net_ip'' [(''../unionuip__net__ip.html'', 1, '''')],
     row ''uip_5fstate'' ''uip_state'' [(''../structuip__state.html'', 1, '''')]]"

definition search_classes_d :: "search_entry list" where
  "search_classes_d =
    [row ''wifi_5fsettings'' ''wifi_settings'' [(''../structwifi__settings.html'', 1, '''')]]"

definition search_classes_e :: "search_entry list" where
  "search_classes_e =
    [row ''tcp_5fbuffer_5fclass'' ''tcp_buffer_class'' [(''../structtcp__buffer__class.html'', 1, '''')],
     row ''thread_5finstance_5fargs'' ''thread_instance_args'' [(''../structthread__instance__args.html'', 1, '''')],
     row ''transmission_5fconfig_5fclass'' ''transmission_config_class'' [(''../structtransmission__config__class.html'', 1, '''')]]"

definition search_classes_f :: "search_entry list" where
  "search_classes_f =
    [row ''uip_5fnet_5fip'' ''uip_net_ip'' [(''../unionuip__net__ip.html'', 1, '''')],
     row ''uip_5fstate'' ''uip_state'' [(''../structuip__state.html'', 1, '''')]]"

definition search_classes_10 :: "search_entry list" where
  "search_classes_10 =
    [row ''uip_5fnet_5fip'' ''uip_net_ip'' [(''../unionuip__net__ip.html'', 1, '''')],
     row ''uip_5fstate'' ''uip_state'' [(''../structuip__state.html'', 1, '''')]]"

definition search_files_0 :: "search_entry list" where
  "search_files_0 =
    [row ''atheros_5fport_2ec'' ''atheros_port.c'' [(''../atheros__port_8c.html'', 1, '''')]]"

definition search_files_1 :: "search_entry list" where
  "search_files_1 =
    [row ''cbuffer_2ec'' ''cbuffer.c'' [(''../cbuffer_8c.html'', 1, '''')],
     row ''cbuffer_2eh'' ''cbuffer.h'' [(''../cbuffer_8h.html'', 1, '''')],
     row ''client_5fconfig_2ec'' ''client_config.c'' [(''../client__config_8c.html'', 1, '''')],
     row ''common_5fdefines_2eh'' ''common_defines.h'' [(''../common__defines_8h.html'', 1, '''')],
     row ''concurrent_5fqueue_2ec'' ''concurrent_queue.c'' [(''../concurrent__queue_8c.html'', 1, '''')],
     row ''concurrent_5fqueue_2eh'' ''concurrent_queue.h'' [(''../concurrent__queue_8h.html'', 1, '''')],
     row ''config_2eh'' ''config.h'' [(''../config_8h.html'', 1, '''')],
     row ''config_5fcyassl_2eh'' ''config_cyassl.h'' [(''../config__cyassl_8h.html'', 1, '''')],
     row ''config_5fmbedtls_2eh'' ''config_mbedtls.h'' [(''../config__mbedtls_8h.html'', 1, '''')],
     row ''config_5fport_2eh'' ''config_port.h'' [(''../config__port_8h.html'', 1, '''')],
     row ''cyassl_5fclient_2ec'' ''cyassl_client.c'' [(''../cyassl__client_8c.html'', 1, '''')],
     row ''cyassl_5fheap_2ec'' ''cyassl_heap.c'' [(''../cyassl__heap_8c.html'', 1, '''')],
     row ''cyassl_5fheap_2eh'' ''cyassl_heap.h'' [(''../cyassl__heap_8h.html'', 1, '''')]]"

definition search_files_2 :: "search_entry list" where
  "search_files_2 =
    [row ''debug_2ec'' ''debug.c'' [(''../debug_8c.html'', 1, '''')],
     row ''debug_2eh'' ''debug.h'' [(''../debug_8h.html'', 1, '''')],
     row ''dictionary_2eh'' ''dictionary.h'' [(''../dictionary_8h.html'', 1, '''')]]"

definition search_files_3 :: "search_entry list" where
  "search_files_3 =
    [row ''error_2eh'' ''error.h'' [(''../error_8h.html'', 1, '''')],
     row ''exosite_5fapi_2ec'' ''exosite_api.c'' [(''../exosite__api_8c.html'', 1, '''')],
     row ''exosite_5fapi_2eh'' ''exosite_api.h'' [(''../exosite__api_8h.html'', 1, '''')],
     row ''exosite_5fapi_5finternal_2eh'' ''exosite_api_internal.h'' [(''../exosite__api__internal_8h.html'', 1, '''')],
     row ''exosite_5fhttp_5fapi_2ec'' ''exosite_http_api.c'' [(''../exosite__http__api_8c.html'', 1, '''')],
     row ''exosite_5flibcoap_5fapi_2ec'' ''exosite_libcoap_api.c'' [(''../exosite__libcoap__api_8c.html'', 1, '''')],
     row ''exosite_5fpicocoap_5fapi_2ec'' ''exosite_picocoap_api.c'' [(''../exosite__picocoap__api_8c.html'', 1, '''')],
     row ''exosite_5fsend_5fcoap_2ec'' ''exosite_send_coap.c'' [(''../exosite__send__coap_8c.html'', 1, '''')],
     row ''exosite_5fsend_5fhttp_2ec'' ''exosite_send_http.c'' [(''../exosite__send__http_8c.html'', 1, '''')],
     row ''exosite_5fsubscribe_5fcoap_2ec'' ''exosite_subscribe_coap.c'' [(''../exosite__subscribe__coap_8c.html'', 1, '''')],
     row ''exosite_5fsubscribe_5fhttp_2ec'' ''exosite_subscribe_http.c'' [(''../exosite__subscribe__http_8c.html'', 1, '''')]]"

definition search_files_4 :: "search_entry list" where
  "search_files_4 =
    [row ''heap_5fmanager_2ec'' ''heap_manager.c'' [(''../heap__manager_8c.html'', 1, '''')],
     row ''heap_5fmanager_2eh'' ''heap_manager.h'' [(''../heap__manager_8h.html'', 1, '''')],
     row ''heap_5fspace_5finternal_2eh'' ''heap_space_internal.h'' [(''../heap__space__internal_8h.html'', 1, '''')],
     row ''heap_5ftracker_2ec'' ''heap_tracker.c'' [(''../heap__tracker_8c.html'', 1, '''')],
     row ''heap_5ftracker_2eh'' ''heap_tracker.h'' [(''../heap__tracker_8h.html'', 1, '''')],
     row ''heap_5ftypes_2eh'' ''heap_types.h'' [(''../heap__types_8h.html'', 1, '''')],
     row ''hs_5fmem_2ec'' ''hs_mem.c'' [(''../hs__mem_8c.html'', 1, '''')],
     row ''hs_5fmem_2eh'' ''hs_mem.h'' [(''../hs__mem_8h.html'', 1, '''')],
     row ''http_5fclient_2ec'' ''http_client.c'' [(''../http__client_8c.html'', 1, '''')],
     row ''http_5fparser_2ec'' ''http_parser.c'' [(''../http__parser_8c.html'', 1, '''')],
     row ''http_5fparser_2eh'' ''http_parser.h'' [(''../http__parser_8h.html'', 1, '''')]]"

definition search_files_5 :: "search_entry list" where
  "search_files_5 =
    [row ''libcoap_5fclient_2ec'' ''libcoap_client.c'' [(''../libcoap__client_8c.html'', 1, '''')],
     row ''lwip_5fport_2ec'' ''lwip_port.c'' [(''../lwip__port_8c.html'', 1, '''')]]"

definition search_files_6 :: "search_entry list" where
  "search_files_6 =
    [row ''mbedtls_5fclient_2ec'' ''mbedtls_client.c'' [(''../mbedtls__client_8c.html'', 1, '''')],
     row ''mem_5fcheck_2eh'' ''mem_check.h'' [(''../mem__check_8h.html'', 1, '''')]]"

definition search_files_7 :: "search_entry list" where
  "search_files_7 =
    [row ''net_5fdev_5ffactory_2ec'' ''net_dev_factory.c'' [(''../net__dev__factory_8c.html'', 1, '''')],
     row ''net_5fdev_5ftest_2ec'' ''net_dev_test.c'' [(''../net__dev__test_8c.html'', 1, '''')],
     row ''net_5fdev_5ftest_2eh'' ''net_dev_test.h'' [(''../net__dev__test_8h.html'', 1, '''')],
     row ''net_5fif_5fatheros_5ftcp_2ec'' ''net_if_atheros_tcp.c'' [(''../net__if__atheros__tcp_8c.html'', 1, '''')],
     row ''net_5fif_5fatheros_5fudp_2ec'' ''net_if_atheros_udp.c'' [(''../net__if__atheros__udp_8c.html'', 1, '''')],
     row ''net_5fif_5flwip_5ftcp_2ec'' ''net_if_lwip_tcp.c'' [(''../net__if__lwip__tcp_8c.html'', 1, '''')],
     row ''net_5fif_5flwip_5fudp_2ec'' ''net_if_lwip_udp.c'' [(''../net__if__lwip__udp_8c.html'', 1, '''')],
     row ''net_5fif_5fposix_5ftcp_2ec'' ''net_if_posix_tcp.c'' [(''../net__if__posix__tcp_8c.html'', 1, '''')],
     row ''net_5fif_5fposix_5fudp_2ec'' ''net_if_posix_udp.c'' [(''../net__if__posix__udp_8c.html'', 1, '''')],
     row ''net_5fif_5fuip_5fudp_2ec'' ''net_if_uip_udp.c'' [(''../net__if__uip__udp_8c.html'', 1, '''')],
     row ''ns_5flist_2eh'' ''ns_list.h'' [(''../ns__list_8h.html'', 1, '''')]]"

definition search_files_8 :: "search_entry list" where
  "search_files_8 =
    [row ''os_5flist_2eh'' ''os_list.h'' [(''../os__list_8h.html'', 1, '''')]]"

definition search_files_9 :: "search_entry list" where
  "search_files_9 =
    [row ''packet_5fbuffer_2ec'' ''packet_buffer.c'' [(''../packet__buffer_8c.html'', 1, '''')],
     row ''packet_5fbuffer_2eh'' ''packet_buffer.h'' [(''../packet__buffer_8h.html'', 1, '''')],
     row ''pclb_2ec'' ''pclb.c'' [(''../pclb_8c.html'', 1, '''')],
     row ''pclb_2eh'' ''pclb.h'' [(''../pclb_8h.html'', 1, '''')],
     row ''picocoap_5fclient_2ec'' ''picocoap_client.c'' [(''../picocoap__client_8c.html'', 1, '''')],
     row ''platform_5fexos_2eh'' ''platform_exos.h'' [(''../platform__exos_8h.html'', 1, '''')],
     row ''platform_5ffreertos_2eh'' ''platform_freertos.h'' [(''../platform__freertos_8h.html'', 1, '''')],
     row ''platform_5flwip_2eh'' ''platform_lwip.h'' [(''../platform__lwip_8h.html'', 1, '''')],
     row ''platform_5fposix_2eh'' ''platform_posix.h'' [(''../platform__posix_8h.html'', 1, '''')],
     row ''platform_5fposix_5fns_2eh'' ''platform_posix_ns.h'' [(''../platform__posix__ns_8h.html'', 1, '''')],
     row ''platform_5fqmx_2eh'' ''platform_qmx.h'' [(''../platform__qmx_8h.html'', 1, '''')],
     row ''platform_5fuip_2eh'' ''platform_uip.h'' [(''../platform__uip_8h.html'', 1, '''')],
     row ''pmatch_2eh'' ''pmatch.h'' [(''../pmatch_8h.html'', 1, '''')],
     row ''posix_5fport_2ec'' ''posix_port.c'' [(''../posix__port_8c.html'', 1, '''')],
     row ''protocol_5fclient_2eh'' ''protocol_client.h'' [(''../protocol__client_8h.html'', 1, '''')],
     row ''protocol_5fclient_5fcommon_2eh'' ''protocol_client_common.h'' [(''../protocol__client__common_8h.html'', 1, '''')],
     row ''protocol_5fclient_5fsm_2ec'' ''protocol_client_sm.c'' [(''../protocol__client__sm_8c.html'', 1, '''')],
     row ''protocol_5fclient_5fsm_2eh'' ''protocol_client_sm.h'' [(''../protocol__client__sm_8h.html'', 1, '''')]]"

definition search_files_a :: "search_entry list" where
  "search_files_a =
    [row ''queue_2eh'' ''queue.h'' [(''../queue_8h.html'', 1, '''')]]"

definition search_files_b :: "search_entry list" where
  "search_files_b =
    [row ''rtc_2ec'' ''rtc.c'' [(''../rtc_8c.html'', 1, '''')]]"

definition search_files_c :: "search_entry list" where
  "search_files_c =
    [row ''sdk_5fconfig_2eh'' ''sdk_config.h'' [(''../sdk__config_8h.html'', 1, '''')],
     row ''sdk_5finit_2ec'' ''sdk_init.c'' [(''../sdk__init_8c.html'', 1, '''')],
     row ''security_5flist_2eh'' ''security_list.h'' [(''../security__list_8h.html'', 1, '''')],
     row ''server_5fapi_2eh'' ''server_api.h'' [(''../server__api_8h.html'', 1, '''')],
     row ''sf_5fmalloc_2eh'' ''sf_malloc.h'' [(''../sf__malloc_8h.html'', 1, '''')],
     row ''ssl_5fclient_2eh'' ''ssl_client.h'' [(''../ssl__client_8h.html'', 1, '''')],
     row ''string_5fclass_2ec'' ''string_class.c'' [(''../string__class_8c.html'', 1, '''')],
     row ''string_5fclass_2eh'' ''string_class.h'' [(''../string__class_8h.html'', 1, '''')],
     row ''string_5fclass_5fpriv_2eh'' ''string_class_priv.h'' [(''../string__class__priv_8h.html'', 1, '''')],
     row ''system_5futils_2ec'' ''system_utils.c'' [(''../system__utils_8c.html'', 1, '''')],
     row ''system_5futils_2eh'' ''system_utils.h'' [(''../system__utils_8h.html'', 1, '''')]]"

definition search_files_d :: "search_entry list" where
  "search_files_d =
    [row ''tcp_5fbuffer_2ec'' ''tcp_buffer.c'' [(''../tcp__buffer_8c.html'', 1, '''')],
     row ''tcp_5fbuffer_2eh'' ''tcp_buffer.h'' [(''../tcp__buffer_8h.html'', 1, '''')],
     row ''tdictionary_2ec'' ''tdictionary.c'' [(''../tdictionary_8c.html'', 1, '''')],
     row ''ts_5fcbuffer_2eh'' ''ts_cbuffer.h'' [(''../ts__cbuffer_8h.html'', 1, '''')],
     row ''type_2eh'' ''type.h'' [(''../type_8h.html'', 1, '''')]]"

definition search_files_e :: "search_entry list" where
  "search_files_e =
    [row ''uip_5fadapter_5fconf_2eh'' ''uip_adapter_conf.h'' [(''../uip__adapter__conf_8h.html'', 1, '''')],
     row ''use_5fssl_5fheap_2eh'' ''use_ssl_heap.h'' [(''../use__ssl__heap_8h.html'', 1, '''')],
     row ''use_5fstring_5fheap_2eh'' ''use_string_heap.h'' [(''../use__string__heap_8h.html'', 1, '''')],
     row ''utils_2eh'' ''utils.h'' [(''../utils_8h.html'', 1, '''')]]"

definition search_functions_0 :: "search_entry list" where
  "search_functions_0 =
    [row ''activate_5fsm'' ''activate_sm'' [(''../exosite__api_8c.html#a65f400cf7ab24a50367886e93fb3a6f8'', 1, ''exosite_api.c'')],
     row ''assert_5fimpl'' ''assert_impl'' [(''../debug_8h.html#ae134ff9e257f4bed289113e9cf5023be'', 1, ''assert_impl(const char *, unsigned):&#160;debug.c''), (''../debug_8c.html#af046044c98c236d3ebc81c925d508fa0'', 1, ''assert_impl(const char *strFile, unsigned uLine):&#160;debug.c'')]]"

definition search_functions_1 :: "search_entry list" where
  "search_functions_1 =
    [row ''cbuffer_5fdelete'' ''cbuffer_delete'' [(''../cbuffer_8h.html#a8a5e3d2b62d8b7ec7ca5469a7c5d9f9a'', 1, ''cbuffer_delete(struct cbuffer_class *cbuffer):&#160;cbuffer.c''), (''../cbuffer_8c.html#a8a5e3d2b62d8b7ec7ca5469a7c5d9f9a'', 1, ''cbuffer_delete(struct cbuffer_class *cbuffer):&#160;cbuffer.c'')],
     row ''cbuffer_5fget_5ffree'' ''cbuffer_get_free'' [(''../cbuffer_8h.html#aa26249031a802071f9eac3f03ddb7a1c'', 1, ''cbuffer_get_free(struct cbuffer_class *cbuffer_obj):&#160;cbuffer.c''), (''../cbuffer_8c.html#aa26249031a802071f9eac3f03ddb7a1c'', 1, ''cbuffer_get_free(struct cbuffer_class *cbuffer_obj):&#160;cbuffer.c'')],
     row ''cbuffer_5fget_5fused'' ''cbuffer_get_used'' [(''../cbuffer_8h.html#a80ff3b6e58e146387739a28ee6bde496'', 1, ''cbuffer_get_used(struct cbuffer_class *cbuffer_obj):&#160;cbuffer.c''), (''../cbuffer_8c.html#a80ff3b6e58e146387739a28ee6bde496'', 1, ''cbuffer_get_used(struct cbuffer_class *cbuffer_obj):&#160;cbuffer.c'')],
     row ''cbuffer_5fnew'' ''cbuffer_new'' [(''../cbuffer_8h.html#af0cafb24f63fcd82c108b23050fe6622'', 1, ''cbuffer_new(struct cbuffer_class **cbuffer, size_t size):&#160;cbuffer.c''), (''../cbuffer_8c.html#af0cafb24f63fcd82c108b23050fe6622'', 1, ''cbuffer_new(struct cbuffer_class **cbuffer, size_t size):&#160;cbuffer.c'')],
     row ''cbuffer_5fpop'' ''cbuffer_pop'' [(''../cbuffer_8h.html#a87b371ad832db31b46209bf853c71bfb'', 1, ''cbuffer_pop(struct cbuffer_class *cbuffer, char *buf, size_t max_len):&#160;cbuffer.c''), (''../cbuffer_8c.html#a2d7144c62c574f0970d593bc576446e1'', 1, ''cbuffer_pop(struct cbuffer_class *cbuffer_obj, char *buf, size_t max_len):&#160;cbuffer.c'')],
     row ''cbuffer_5fpush'' ''cbuffer_push'' [(''../cbuffer_8h.html#a4ea8dc3cbd7e8f517f56c8e31e37098d'', 1, ''cbuffer_push(struct cbuffer_class *cbuffer, char ch):&#160;cbuffer.c''), (''../cbuffer_8c.html#ae5612c4ecab13e51a3cb0792c6907317'', 1, ''cbuffer_push(struct cbuffer_class *cbuffer_obj, char ch):&#160;cbuffer.c'')],
     row ''check_5fmemory'' ''check_memory'' [(''../mem__check_8h.html#a3c74ce74ba1115f588f162521a543180'', 1, ''mem_check.c'')],
     row ''client_5fconfig_5fget_5fperiodic_5fconfig'' ''client_config_get_periodic_config'' [(''../group__client__config.html#ga00dd14915a00326a6e39b8eeee387780'', 1, ''client_config_get_periodic_config(void):&#160;client_config.c''), (''../group__client__config.html#ga00dd14915a00326a6e39b8eeee387780'', 1, ''client_config_get_periodic_config(void):&#160;client_config.c'')],
     row ''client_5fconfig_5fget_5fprotocol_5fclient_5fconfig'' ''client_config_get_protocol_client_config'' [(''../group__client__config.html#ga51c133c21f108820a33c6cbcd97bde45'', 1, ''client_config_get_protocol_client_config(struct protocol_client_config_class **client_config, enum application_protocol_type type, enum security_mode security):&#160;client_config.c''), (''../group__client__config.html#ga51c133c21f108820a33c6cbcd97bde45'', 1, ''client_config_get_protocol_client_config(struct protocol_client_config_class **client_config, enum application_protocol_type type, enum security_mode security):&#160;client_config.c'')],
     row ''client_5fconfig_5fget_5fserver_5fapi'' ''client_config_get_server_api'' [(''../group__client__config.html#ga7ecfc4f687a6d4e03a885968718423cd'', 1, ''client_config_get_server_api(struct server_api_request_ops **new_request_ops, enum application_protocol_type type):&#160;client_config.c''), (''../group__client__config.html#ga7ecfc4f687a6d4e03a885968718423cd'', 1, ''client_config_get_server_api(struct server_api_request_ops **new_request_ops, enum application_protocol_type type):&#160;client_config.c'')],
     row ''client_5fconfig_5fget_5fserver_5fdata'' ''client_config_get_server_data'' [(''../group__client__config.html#ga0f3c844fa9aae27378590e1840bf9a32'', 1, ''client_config_get_server_data(void):&#160;client_config.c''), (''../group__client__config.html#ga0f3c844fa9aae27378590e1840bf9a32'', 1, ''client_config_get_server_data(void):&#160;client_config.c'')],
     row ''client_5fconfig_5fget_5ftransmission_5fconfig'' ''client_config_get_transmission_config'' [(''../group__client__config.html#ga1dc406ec756f603c58b9ae6680716d6c'', 1, ''client_config_get_transmission_config(void):&#160;client_config.c''), (''../group__client__config.html#ga1dc406ec756f603c58b9ae6680716d6c'', 1, ''client_config_get_transmission_config(void):&#160;client_config.c'')],
     row ''client_5fsocket'' ''client_socket'' [(''../cyassl__client_8c.html#ad1af23f2007ffadf1a4dc0d6f9d334fc'', 1, ''cyassl_client.c'')],
     row ''coap_5fclient_5fnew'' ''coap_client_new'' [(''../group__client__config.html#gafea73188c2073dc2b683fb44bab69349'', 1, ''coap_client_new(struct protocol_client_class **obj, struct net_dev_operations *net_if):&#160;libcoap_client.c''), (''../group__client__config.html#gafea73188c2073dc2b683fb44bab69349'', 1, ''coap_client_new(struct protocol_client_class **obj, struct net_dev_operations *net_if):&#160;libcoap_client.c''), (''../group__client__config.html#gafea73188c2073dc2b683fb44bab69349'', 1, ''coap_client_new(struct protocol_client_class **obj, struct net_dev_operations *net_if):&#160;picocoap_client.c'')],
     row ''cqueue_5ffree'' ''cqueue_free'' [(''../concurrent__queue_8h.html#abe1739d6f365fbfe314e2c4d85ab9581'', 1, ''cqueue_free(CQueue *cqueue):&#160;concurrent_queue.c''), (''../concurrent__queue_8c.html#abe1739d6f365fbfe314e2c4d85ab9581'', 1, ''cqueue_free(CQueue *cqueue):&#160;concurrent_queue.c'')],
     row ''cqueue_5fget_5fsize'' ''cqueue_get_size'' [(''../concurrent__queue_8h.html#ace59eba8e971fb368533dc253a6f1639'', 1, ''cqueue_get_size(CQueue *cqueue):&#160;concurrent_queue.c''), (''../concurrent__queue_8c.html#ace59eba8e971fb368533dc253a6f1639'', 1, ''cqueue_get_size(CQueue *cqueue):&#160;concurrent_queue.c'')],
     row ''cqueue_5fis_5fempty'' ''cqueue_is_empty'' [(''../concurrent__queue_8h.html#ad14c5bc780bcc13a4112e98e3cc6db09'', 1, ''cqueue_is_empty(CQueue *cqueue):&#160;concurrent_queue.c''), (''../concurrent__queue_8c.html#ad14c5bc780bcc13a4112e98e3cc6db09'', 1, ''cqueue_is_empty(CQueue *cqueue):&#160;concurrent_queue.c'')],
     row ''cqueue_5fnew'' ''cqueue_new'' [(''../concurrent__queue_8h.html#a13d1b13d62b14239a6a51f5ef05d4931'', 1, ''cqueue_new(size_t max_size):&#160;concurrent_queue.c''), (''../concurrent__queue_8c.html#a13d1b13d62b14239a6a51f5ef05d4931'', 1, ''cqueue_new(size_t max_size):&#160;concurrent_queue.c'')],
     row ''cqueue_5fpeek_5fhead'' ''cqueue_peek_head'' [(''../concurrent__queue_8h.html#a082c71e2ae633f79f9c5e8b9cfd1ca2e'', 1, ''cqueue_peek_head(CQueue *cqueue):&#160;concurrent_queue.c''), (''../concurrent__queue_8c.html#a082c71e2ae633f79f9c5e8b9cfd1ca2e'', 1, ''cqueue_peek_head(CQueue *cqueue):&#160;concurrent_queue.c'')],
     row ''cqueue_5fpeek_5ftail'' ''cqueue_peek_tail'' [(''../concurrent__queue_8h.html#adfb372b4fe6a5e0e298cd3906feb4a8f'', 1, ''cqueue_peek_tail(CQueue *cqueue):&#160;concurrent_queue.c''), (''../concurrent__queue_8c.html#adfb372b4fe6a5e0e298cd3906feb4a8f'', 1, ''cqueue_peek_tail(CQueue *cqueue):&#160;concurrent_queue.c'')],
     row ''cqueue_5fpop_5fhead'' ''cqueue_pop_head'' [(''../concurrent__queue_8h.html#ab93ede1a512270842a3eeb3e3949fcae'', 1, ''cqueue_pop_head(CQueue *cqueue):&#160;concurrent_queue.c''), (''../concurrent__queue_8c.html#ab93ede1a512270842a3eeb3e3949fcae'', 1, ''cqueue_pop_head(CQueue *cqueue):&#160;concurrent_queue.c'')],
     row ''cqueue_5fpop_5ftail'' ''cqueue_pop_tail'' [(''../concurrent__queue_8h.html#a32daa322af17d03980a5ec0911c033c9'', 1, ''cqueue_pop_tail(CQueue *cqueue):&#160;concurrent_queue.c''), (''../concurrent__queue_8c.html#a32daa322af17d03980a5ec0911c033c9'', 1, ''cqueue_pop_tail(CQueue *cqueue):&#160;concurrent_queue.c'')],
     row ''cqueue_5fpush_5fhead'' ''cqueue_push_head'' [(''../concurrent__queue_8h.html#ae5c730edc25b36ccf16e0745e915af26'', 1, ''cqueue_push_head(CQueue *cqueue, CQueueValue data):&#160;concurrent_queue.c''), (''../concurrent__queue_8c.html#ae5c730edc25b36ccf16e0745e915af26'', 1, ''cqueue_push_head(CQueue *cqueue, CQueueValue data):&#160;concurrent_queue.c'')],
     row ''cqueue_5fpush_5ftail'' ''cqueue_push_tail'' [(''../concurrent__queue_8h.html#a8133cf05c1694eb2e705fb6742e0c954'', 1, ''cqueue_push_tail(CQueue *cqueue, CQueueValue data):&#160;concurrent_queue.c''), (''../concurrent__queue_8c.html#a8133cf05c1694eb2e705fb6742e0c954'', 1, ''cqueue_push_tail(CQueue *cqueue, CQueueValue data):&#160;concurrent_queue.c'')],
     row ''create_5fnew_5fsm'' ''create_new_sm'' [(''../exosite__api_8c.html#a60ca897f8c1e389fd9243e23b645541a'', 1, ''exosite_api.c'')]]"

definition search_functions_2 :: "search_entry list" where
  "search_functions_2 =
    [row ''debug_5finit'' ''debug_init'' [(''../debug_8h.html#a0ec3c4c9919c1f4e145c315eb687aa61'', 1, ''debug_init(deb_log_function log_fn, deb_debug_callback debug_callback):&#160;debug.c''), (''../debug_8c.html#a0ec3c4c9919c1f4e145c315eb687aa61'', 1, ''debug_init(deb_log_function log_fn, deb_debug_callback debug_callback):&#160;debug.c'')],
     row ''dictionary_5fadd'' ''dictionary_add'' [(''../dictionary_8h.html#a9581c45c8ffca777b6d09ab8a35181c8'', 1, ''dictionary_add(struct dictionary_class *dict, const char *key, void *value):&#160;tdictionary.c''), (''../tdictionary_8c.html#a3796b34c8cc74864f790c6bbc87dc8db'', 1, ''dictionary_add(struct dictionary_class *dict, const char *name, void *value):&#160;tdictionary.c'')],
     row ''dictionary_5fget_5fiterator'' ''dictionary_get_iterator'' [(''../dictionary_8h.html#a9ca1848c12632429cd8a05cb1e7b9356'', 1, ''dictionary_get_iterator(struct dictionary_class *dict):&#160;tdictionary.c''), (''../tdictionary_8c.html#a9ca1848c12632429cd8a05cb1e7b9356'', 1, ''dictionary_get_iterator(struct dictionary_class *dict):&#160;tdictionary.c'')],
     row ''dictionary_5fget_5fvalue'' ''dictionary_get_value'' [(''../dictionary_8h.html#a83cb57209142af0def99f0ff28f52bd3'', 1, ''dictionary_get_value(struct dict_iterator *it):&#160;tdictionary.c''), (''../tdictionary_8c.html#a83cb57209142af0def99f0ff28f52bd3'', 1, ''dictionary_get_value(struct dict_iterator *it):&#160;tdictionary.c'')],
     row ''dictionary_5fiterate'' ''dictionary_iterate'' [(''../dictionary_8h.html#a5aa7e02b70a46d5f8e112c051f63dae8'', 1, ''dictionary_iterate(struct dict_iterator *it):&#160;tdictionary.c''), (''../tdictionary_8c.html#a5aa7e02b70a46d5f8e112c051f63dae8'', 1, ''dictionary_iterate(struct dict_iterator *it):&#160;tdictionary.c'')],
     row ''dictionary_5flookup'' ''dictionary_lookup'' [(''../dictionary_8h.html#a1c287327eeab65bbfdda0fd2399a655f'', 1, ''dictionary_lookup(struct dictionary_class *dict, const char *key):&#160;tdictionary.c''), (''../tdictionary_8c.html#a1c287327eeab65bbfdda0fd2399a655f'', 1, ''dictionary_lookup(struct dictionary_class *dict, const char *key):&#160;tdictionary.c'')],
     row ''dictionary_5fnew'' ''dictionary_new'' [(''../dictionary_8h.html#a6834d7527fc6cf4dd287f8c51bc93157'', 1, ''dictionary_new(struct dictionary_class **new_dict):&#160;tdictionary.c''), (''../tdictionary_8c.html#a6834d7527fc6cf4dd287f8c51bc93157'', 1, ''dictionary_new(struct dictionary_class **new_dict):&#160;tdictionary.c'')],
     row ''dictionary_5fprint'' ''dictionary_print'' [(''../dictionary_8h.html#a334bd741d35625861dd7af95e40e680f'', 1, ''dictionary_print(struct dictionary_class *dict):&#160;tdictionary.c''), (''../tdictionary_8c.html#a334bd741d35625861dd7af95e40e680f'', 1, ''dictionary_print(struct dictionary_class *dict):&#160;tdictionary.c'')],
     row ''dictionary_5fremove'' ''dictionary_remove'' [(''../dictionary_8h.html#aa28558b16c4382e7812651149c98f853'', 1, ''dictionary_remove(struct dictionary_class *dict, char *key):&#160;tdictionary.c''), (''../tdictionary_8c.html#a397510bc2adbd6aa96a59a8e81a0a932'', 1, ''dictionary_remove(struct dictionary_class *dict, char *name):&#160;tdictionary.c'')]]"

definition search_functions_3 :: "search_entry list" where
  "search_functions_3 =
    [row ''exosite_5fcoap_5fnew'' ''exosite_coap_new'' [(''../group__client__config.html#gaf6a9fbe09b9918b8a6bcdb4f91794910'', 1, ''exosite_coap_new(struct server_api_request_ops **obj):&#160;exosite_libcoap_api.c''), (''../group__client__config.html#gaf6a9fbe09b9918b8a6bcdb4f91794910'', 1, ''exosite_coap_new(struct server_api_request_ops **obj):&#160;exosite_libcoap_api.c''), (''../group__client__config.html#gaf6a9fbe09b9918b8a6bcdb4f91794910'', 1, ''exosite_coap_new(struct server_api_request_ops **obj):&#160;exosite_picocoap_api.c'')],
     row ''exosite_5fdelay_5fand_5fpoll'' ''exosite_delay_and_poll'' [(''../group___exosite___a_p_i.html#gab8edb09e2a237927624249c76dbf99a4'', 1, ''exosite_delay_and_poll(struct exosite_class *exo, sys_time_t ms):&#160;exosite_api.c''), (''../group___exosite___a_p_i.html#gab8edb09e2a237927624249c76dbf99a4'', 1, ''exosite_delay_and_poll(struct exosite_class *exo, sys_time_t ms):&#160;exosite_api.c'')],
     row ''exosite_5fget_5fstatus'' ''exosite_get_status'' [(''../group___exosite___a_p_i.html#ga1a5c5601699db951d116d0cf7e4c38a1'', 1, ''exosite_get_status(struct exosite_class *exo):&#160;exosite_api.c''), (''../group___exosite___a_p_i.html#ga1a5c5601699db951d116d0cf7e4c38a1'', 1, ''exosite_get_status(struct exosite_class *exo):&#160;exosite_api.c'')],
     row ''exosite_5fhttp_5fapi_5frequest_5fnew'' ''exosite_http_api_request_new'' [(''../group__client__config.html#gacc5775b631ae131c3ff8641bc40ca25e'', 1, ''exosite_http_api_request_new(struct server_api_request_ops **obj):&#160;exosite_http_api.c''), (''../group__client__config.html#gacc5775b631ae131c3ff8641bc40ca25e'', 1, ''exosite_http_api_request_new(struct server_api_request_ops **obj):&#160;exosite_http_api.c'')],
     row ''exosite_5fnew'' ''exosite_new'' [(''../group___exosite___a_p_i.html#ga70278e356b752eba1ee606a725aec40b'', 1, ''exosite_new(struct exosite_class **exo, const char *vendor, const char *model, const char *optional_sn, enum application_protocol_type app_type):&#160;exosite_api.c''), (''../group___exosite___a_p_i.html#ga70278e356b752eba1ee606a725aec40b'', 1, ''exosite_new(struct exosite_class **exo, const char *vendor, const char *model, const char *optional_sn, enum application_protocol_type app_type):&#160;exosite_api.c'')],
     row ''exosite_5fpoll'' ''exosite_poll'' [(''../group___exosite___a_p_i.html#ga2681b5ce3d505b037ded36df8bab15ef'', 1, ''exosite_poll(struct exosite_class *exo):&#160;exosite_api.c''), (''../group___exosite___a_p_i.html#ga2681b5ce3d505b037ded36df8bab15ef'', 1, ''exosite_poll(struct exosite_class *exo):&#160;exosite_api.c'')],
     row ''exosite_5fread'' ''exosite_read'' [(''../group___exosite___a_p_i.html#ga035e1a5989983f94d04e838684d2e75c'', 1, ''exosite_read(struct exosite_class *exo, const char *alias, exosite_on_read on_read):&#160;exosite_api.c''), (''../group___exosite___a_p_i.html#ga035e1a5989983f94d04e838684d2e75c'', 1, ''exosite_read(struct exosite_class *exo, const char *alias, exosite_on_read on_read):&#160;exosite_api.c'')],
     row ''exosite_5fsdk_5finit'' ''exosite_sdk_init'' [(''../group___exosite___a_p_i.html#gaac628db55f159c64251584ef611d6ef1'', 1, ''exosite_sdk_init(log_function log_fn, debug_callback debug_cb):&#160;sdk_init.c''), (''../group___exosite___a_p_i.html#gaac628db55f159c64251584ef611d6ef1'', 1, ''exosite_sdk_init(log_function log_fn, debug_callback debug_cb):&#160;sdk_init.c'')],
     row ''exosite_5fsdk_5fregister_5fmemory_5fallocators'' ''exosite_sdk_register_memory_allocators'' [(''../group___exosite___a_p_i.html#gadc34ec5c4ff81d6e0985218f43209ac0'', 1, ''exosite_sdk_register_memory_allocators(exosite_malloc_func, exosite_free_func, exosite_realloc_func):&#160;sdk_init.c''), (''../group___exosite___a_p_i.html#gadc34ec5c4ff81d6e0985218f43209ac0'', 1, ''exosite_sdk_register_memory_allocators(exosite_malloc_func exo_malloc, exosite_free_func exo_free, exosite_realloc_func exo_realloc):&#160;sdk_init.c'')],
     row ''exosite_5fsdk_5fregister_5fmemory_5fbuffer'' ''exosite_sdk_register_memory_buffer'' [(''../group___exosite___a_p_i.html#ga9728f396a2c9259a48796d9c65bac121'', 1, ''exosite_sdk_register_memory_buffer(void *buf, size_t size):&#160;sdk_init.c''), (''../group___exosite___a_p_i.html#ga9728f396a2c9259a48796d9c65bac121'', 1, ''exosite_sdk_register_memory_buffer(void *buf, size_t size):&#160;sdk_init.c'')],
     row ''exosite_5fsdk_5fregister_5fperiodic_5ffn'' ''exosite_sdk_register_periodic_fn'' [(''../group___exosite___a_p_i.html#ga6820c6a3a1004c3cf5b94eeeff670dd8'', 1, ''exosite_api.h'')],
     row ''exosite_5fsubscribe'' ''exosite_subscribe'' [(''../group___exosite___a_p_i.html#ga245a9bf0809e30f4bf79a259ca8c9778'', 1, ''exosite_subscribe(struct exosite_class *exo, const char *alias, int32_t since, exosite_on_change on_change):&#160;exosite_api.c''), (''../group___exosite___a_p_i.html#ga245a9bf0809e30f4bf79a259ca8c9778'', 1, ''exosite_subscribe(struct exosite_class *exo, const char *alias, int32_t since, exosite_on_change on_change):&#160;exosite_api.c'')],
     row ''exosite_5fwrite'' ''exosite_write'' [(''../group___exosite___a_p_i.html#ga8dea001937a82446e953b63abb7c9e63'', 1, ''exosite_write(struct exosite_class *exo, const char *alias, const char *value, exosite_on_write on_write):&#160;exosite_api.c''), (''../group___exosite___a_p_i.html#ga8dea001937a82446e953b63abb7c9e63'', 1, ''exosite_write(struct exosite_class *exo, const char *alias, const char *value, exosite_on_write on_write):&#160;exosite_api.c'')]]"

definition search_functions_4 :: "search_entry list" where
  "search_functions_4 =
    [row ''get_5fpeak_5fheap_5fusage'' ''get_peak_heap_usage'' [(''../debug_8h.html#a4ea0131ca12f47a2f1208e6eec5d68fc'', 1, ''debug.h'')],
     row ''get_5fpeak_5fstack_5fusage'' ''get_peak_stack_usage'' [(''../debug_8h.html#a311734b79248eb747c06a54edb0a7bb0'', 1, ''system.c'')]]"

definition search_functions_5 :: "search_entry list" where
  "search_functions_5 =
    [row ''hm_5ffree'' ''hm_free'' [(''../heap__manager_8h.html#a4f4870d1334dd6f817c4e703f1b4ce4a'', 1, ''hm_free(int32_t heap_id, void *p):&#160;heap_manager.c''), (''../heap__manager_8c.html#a4f4870d1334dd6f817c4e703f1b4ce4a'', 1, ''hm_free(int32_t heap_id, void *p):&#160;heap_manager.c'')],
     row ''hm_5finit'' ''hm_init'' [(''../heap__manager_8h.html#abe3ffc4123091cf910712e8bc8b6f5ff'', 1, ''hm_init(void *base, size_t size):&#160;heap_manager.c''), (''../heap__manager_8c.html#abe3ffc4123091cf910712e8bc8b6f5ff'', 1, ''hm_init(void *base, size_t size):&#160;heap_manager.c'')],
     row ''hm_5fmalloc'' ''hm_malloc'' [(''../heap__manager_8h.html#ad55ffa19b719c69a7ff77491ffde38e5'', 1, ''hm_malloc(int32_t heap_id, size_t size, const char *id):&#160;heap_manager.c''), (''../heap__manager_8c.html#ad55ffa19b719c69a7ff77491ffde38e5'', 1, ''hm_malloc(int32_t heap_id, size_t size, const char *id):&#160;heap_manager.c'')],
     row ''hm_5fmem_5falloc'' ''hm_mem_alloc'' [(''../heap__manager_8h.html#a9709a55d2c94b1407332f98fb246524e'', 1, ''hm_mem_alloc(int32_t heap_id, void **ptr, size_t size, const char *chunk_id):&#160;heap_manager.c''), (''../heap__manager_8c.html#a9709a55d2c94b1407332f98fb246524e'', 1, ''hm_mem_alloc(int32_t heap_id, void **ptr, size_t size, const char *chunk_id):&#160;heap_manager.c'')],
     row ''hm_5fmem_5ffree'' ''hm_mem_free'' [(''../heap__manager_8h.html#a8baa85576fa9835e3a1aa6837a62379a'', 1, ''hm_mem_free(int32_t heap_id, void *ptr):&#160;heap_manager.c''), (''../heap__manager_8c.html#a11c2163051d5e412ebb1f8dd24b45948'', 1, ''hm_mem_free(int32_t heap_id, void *p):&#160;heap_manager.c'')],
     row ''hm_5fmem_5frealloc'' ''hm_mem_realloc'' [(''../heap__manager_8h.html#a0e39537c2e3371742bc2443160d048ef'', 1, ''hm_mem_realloc(int32_t heap_id, void **new_ptr, void *old_ptr, size_t size_new, const char *chunk_id):&#160;heap_manager.c''), (''../heap__manager_8c.html#a0e39537c2e3371742bc2443160d048ef'', 1, ''hm_mem_realloc(int32_t heap_id, void **new_ptr, void *old_ptr, size_t size_new, const char *chunk_id):&#160;heap_manager.c'')],
     row ''hm_5fmemcpy'' ''hm_memcpy'' [(''../heap__manager_8h.html#a014cdab9bda09f5eea9fbc6e6f257370'', 1, ''hm_memcpy(int32_t heap_id, void *dst, const void *src, size_t size):&#160;heap_manager.c''), (''../heap__manager_8c.html#a014cdab9bda09f5eea9fbc6e6f257370'', 1, ''hm_memcpy(int32_t heap_id, void *dst, const void *src, size_t size):&#160;heap_manager.c'')],
     row ''hm_5fmemfill'' ''hm_memfill'' [(''../heap__manager_8h.html#a59ea9700053f11233202c878907ba7df'', 1, ''hm_memfill(int32_t heap_id, void *p, uint8_t b, size_t size):&#160;heap_manager.c''), (''../heap__manager_8c.html#a59ea9700053f11233202c878907ba7df'', 1, ''hm_memfill(int32_t heap_id, void *p, uint8_t b, size_t size):&#160;heap_manager.c'')],
     row ''hm_5frealloc'' ''hm_realloc'' [(''../heap__manager_8h.html#ac73167606b674264e2e798aea50932af'', 1, ''hm_realloc(int32_t heap_id, void *p, size_t size, const char *id):&#160;heap_manager.c''), (''../heap__manager_8c.html#ac73167606b674264e2e798aea50932af'', 1, ''hm_realloc(int32_t heap_id, void *p, size_t size, const char *id):&#160;heap_manager.c'')],
     row ''hs_5fconstruct'' ''hs_construct'' [(''../hs__mem_8c.html#a8fe712d2e28a77ac0f96aa5766a3a9e6'', 1, ''hs_construct(struct heap_space_class *heap, void *base, size_t size, const char *name, int32_t id):&#160;hs_mem.c''), (''../hs__mem_8h.html#a8fe712d2e28a77ac0f96aa5766a3a9e6'', 1, ''hs_construct(struct heap_space_class *heap, void *base, size_t size, const char *name, int32_t id):&#160;hs_mem.c'')],
     row ''hs_5fget_5fstats'' ''hs_get_stats'' [(''../hs__mem_8c.html#ad7bfce2880a89919cc97a9ba96c7f021'', 1, ''hs_get_stats(struct heap_space_class *heap):&#160;hs_mem.c''), (''../hs__mem_8h.html#ad7bfce2880a89919cc97a9ba96c7f021'', 1, ''hs_get_stats(struct heap_space_class *heap):&#160;hs_mem.c'')],
     row ''hs_5fmem_5falloc'' ''hs_mem_alloc'' [(''../hs__mem_8c.html#a589e439beaf940d2b97c8431048adfb2'', 1, ''hs_mem_alloc(struct heap_space_class *heap, void **new_ptr, size_t size, const char *id):&#160;hs_mem.c''), (''../hs__mem_8h.html#abe60e3b524cb1e625d2536ff7a648b28'', 1, ''hs_mem_alloc(struct heap_space_class *heap, void **ptr, size_t size, const char *id):&#160;hs_mem.c'')],
     row ''hs_5fmem_5ffree'' ''hs_mem_free'' [(''../hs__mem_8c.html#a80522cfaced663b94354eef91be36d18'', 1, ''hs_mem_free(struct heap_space_class *heap, void *ptr):&#160;hs_mem.c''), (''../hs__mem_8h.html#a80522cfaced663b94354eef91be36d18'', 1, ''hs_mem_free(struct heap_space_class *heap, void *ptr):&#160;hs_mem.c'')],
     row ''hs_5fmem_5frealloc'' ''hs_mem_realloc'' [(''../hs__mem_8c.html#a03c3aea29e2ca1d8739d9d2300fa33c3'', 1, ''hs_mem_realloc(struct heap_space_class *heap, void **new_ptr, void *old_ptr, size_t size_new, const char *id):&#160;hs_mem.c''), (''../hs__mem_8h.html#a03c3aea29e2ca1d8739d9d2300fa33c3'', 1, ''hs_mem_realloc(struct heap_space_class *heap, void **new_ptr, void *old_ptr, size_t size_new, const char *id):&#160;hs_mem.c'')],
     row ''http_5fclient_5fnew'' ''http_client_new'' [(''../group__client__config.html#ga11fa5f73d9270aa199c83279a7bd59a0'', 1, ''http_client_new(struct protocol_client_class **obj, struct net_dev_operations *net_dev):&#160;http_client.c''), (''../group__client__config.html#ga11fa5f73d9270aa199c83279a7bd59a0'', 1, ''http_client_new(struct protocol_client_class **obj, struct net_dev_operations *net_if):&#160;http_client.c'')],
     row ''http_5fparse_5fheader'' ''http_parse_header'' [(''../http__parser_8c.html#aaa235d5971e8ad6e1caed8f71d2a4022'', 1, ''http_parse_header(char *buffer, size_t buffer_size, int32_t *result_code, size_t *content_length, size_t *payload_index):&#160;http_parser.c''), (''../http__parser_8h.html#a080e90459a19bbd0acf7e3d8a332e581'', 1, ''http_parse_header(char *buffer, size_t size, int32_t *result_code, size_t *content_length, size_t *payload_index):&#160;http_parser.c'')]]"

definition search_functions_6 :: "search_entry list" where
  "search_functions_6 =
    [row ''internal_5fset_5fallocators'' ''internal_set_allocators'' [(''../heap__space__internal_8h.html#a1ac1f2903d3f9e4205e022ba8984687e'', 1, ''internal_set_allocators(internal_malloc_func imalloc, internal_free_func ifree, internal_realloc_func irealloc):&#160;hs_mem.c''), (''../hs__mem_8c.html#a1ac1f2903d3f9e4205e022ba8984687e'', 1, ''internal_set_allocators(internal_malloc_func imalloc, internal_free_func ifree, internal_realloc_func irealloc):&#160;hs_mem.c'')],
     row ''is_5flevel_5fprintable'' ''is_level_printable'' [(''../debug_8h.html#a84f0e8b7312f438f913a322ac5b74e24'', 1, ''is_level_printable(uint32_t level):&#160;debug.c''), (''../debug_8c.html#a84f0e8b7312f438f913a322ac5b74e24'', 1, ''is_level_printable(uint32_t level):&#160;debug.c'')],
     row ''is_5fmodule_5fenabled'' ''is_module_enabled'' [(''../debug_8h.html#a2d1aff48a4c82b7e8b4252aa64c19479'', 1, ''is_module_enabled(uint32_t module):&#160;debug.c''), (''../debug_8c.html#a2d1aff48a4c82b7e8b4252aa64c19479'', 1, ''is_module_enabled(uint32_t module):&#160;debug.c'')]]"

definition search_functions_7 :: "search_entry list" where
  "search_functions_7 =
    [row ''main'' ''main'' [(''../exosite__send__coap_8c.html#a0ddf1224851353fc92bfbff6f499fa97'', 1, ''main(int argc, char *argv[]):&#160;exosite_send_coap.c''), (''../exosite__send__http_8c.html#a0ddf1224851353fc92bfbff6f499fa97'', 1, ''main(int argc, char *argv[]):&#160;exosite_send_http.c''), (''../exosite__subscribe__coap_8c.html#a0ddf1224851353fc92bfbff6f499fa97'', 1, ''main(int argc, char *argv[]):&#160;exosite_subscribe_coap.c''), (''../exosite__subscribe__http_8c.html#a0ddf1224851353fc92bfbff6f499fa97'', 1, ''main(int argc, char *argv[]):&#160;exosite_subscribe_http.c'')],
     row ''mem_5fcheck_5fregister_5fheap'' ''mem_check_register_heap'' [(''../mem__check_8h.html#ac3c99c845ef22f3116a10ae5dfb93f29'', 1, ''mem_check.c'')],
     row ''mem_5fdebug_5femulate_5fout_5fof_5fmemory'' ''mem_debug_emulate_out_of_memory'' [(''../sf__malloc_8h.html#a29c249dfdca80ad8d5e1e1e70e9b9425'', 1, ''sf_malloc.h'')],
     row ''mem_5fdebug_5fenable_5flog'' ''mem_debug_enable_log'' [(''../sf__malloc_8h.html#a431f60ff798d3a652be70e7ba6d771f8'', 1, ''sf_malloc.h'')]]"

definition search_functions_8 :: "search_entry list" where
  "search_functions_8 =
    [row ''net_5fdev_5ffactory_5finit'' ''net_dev_factory_init'' [(''../net__dev__factory_8c.html#acb280287adf782228bd50c1f755edb20'', 1, ''net_dev_factory.c'')],
     row ''net_5fdev_5fget'' ''net_dev_get'' [(''../net__dev__factory_8c.html#a385dfe3d6b0a8e3eccb44ae7ee73eb42'', 1, ''net_dev_factory.c'')],
     row ''net_5fdev_5fhttp_5fserver_5fnew'' ''net_dev_http_server_new'' [(''../group__net__port__interface.html#ga6c56f35694918f8250fc2649f3139316'', 1, ''net_port.h'')],
     row ''net_5fdev_5finit'' ''net_dev_init'' [(''../group__net__port__interface.html#ga74f8a52f05a711c0aa99104f23808ecb'', 1, ''net_dev_init(void):&#160;atheros_port.c''), (''../group__net__port__interface.html#ga74f8a52f05a711c0aa99104f23808ecb'', 1, ''net_dev_init(void):&#160;lwip_port.c''), (''../group__net__port__interface.html#ga74f8a52f05a711c0aa99104f23808ecb'', 1, ''net_dev_init(void):&#160;wcm_network_stack_port.c''), (''../group__net__port__interface.html#ga74f8a52f05a711c0aa99104f23808ecb'', 1, ''net_dev_init(void):&#160;posix_port.c''), (''../group__net__port__interface.html#ga74f8a52f05a711c0aa99104f23808ecb'', 1, ''net_dev_init(void):&#160;uip_port.c''), (''../group__net__port__interface.html#ga74f8a52f05a711c0aa99104f23808ecb'', 1, ''net_dev_init(void):&#160;atheros_port.c'')],
     row ''net_5fdev_5ftcp_5fnew'' ''net_dev_tcp_new'' [(''../group__net__port__interface.html#ga54772bbed992f9c80914e0935e80f8f8'', 1, ''net_dev_tcp_new():&#160;net_if_atheros_tcp.c''), (''../group__net__port__interface.html#ga54772bbed992f9c80914e0935e80f8f8'', 1, ''net_dev_tcp_new(void):&#160;net_if_lwip_tcp.c''), (''../group__net__port__interface.html#ga54772bbed992f9c80914e0935e80f8f8'', 1, ''net_dev_tcp_new():&#160;net_if_wcm_tcp.c''), (''../group__net__port__interface.html#ga54772bbed992f9c80914e0935e80f8f8'', 1, ''net_dev_tcp_new():&#160;net_if_posix_tcp.c''), (''../group__net__port__interface.html#ga54772bbed992f9c80914e0935e80f8f8'', 1, ''net_dev_tcp_new():&#160;net_if_uip_tcp.c''), (''../group__net__port__interface.html#ga54772bbed992f9c80914e0935e80f8f8'', 1, ''net_dev_tcp_new(void):&#160;net_if_atheros_tcp.c'')],
     row ''net_5fdev_5fudp_5fnew'' ''net_dev_udp_new'' [(''../group__net__port__interface.html#gae91e94bda8afc019c748978a7a22e5cb'', 1, ''net_dev_udp_new():&#160;net_if_atheros_udp.c''), (''../group__net__port__interface.html#gae91e94bda8afc019c748978a7a22e5cb'', 1, ''net_dev_udp_new(void):&#160;net_if_lwip_udp.c''), (''../group__net__port__interface.html#gae91e94bda8afc019c748978a7a22e5cb'', 1, ''net_dev_udp_new():&#160;net_if_wcm_udp.c''), (''../group__net__port__interface.html#gae91e94bda8afc019c748978a7a22e5cb'', 1, ''net_dev_udp_new():&#160;net_if_posix_udp.c''), (''../group__net__port__interface.html#gae91e94bda8afc019c748978a7a22e5cb'', 1, ''net_dev_udp_new():&#160;net_if_uip_udp.c''), (''../group__net__port__interface.html#gae91e94bda8afc019c748978a7a22e5cb'', 1, ''net_dev_udp_new(void):&#160;net_if_atheros_udp.c'')],
     row ''net_5fif_5faccept'' ''net_if_accept'' [(''../net__if__posix__tcp_8c.html#ae475f293486cafb10aa422872ae2e40e'', 1, ''net_if_posix_tcp.c'')],
     row ''net_5fif_5fserver_5fsocket_5ftcp'' ''net_if_server_socket_tcp'' [(''../net__if__posix__tcp_8c.html#ae5a27c9e2e04f4d4adafcb9c3dc998c0'', 1, ''net_if_posix_tcp.c'')]]"

definition search_functions_9 :: "search_entry list" where
  "search_functions_9 =
    [row ''on_5fchange'' ''on_change'' [(''../exosite__subscribe__coap_8c.html#a6b8e22f298c5bf38d1396a2da5c70eac'', 1, ''on_change(int status, const char *alias, const char *value):&#160;exosite_subscribe_coap.c''), (''../exosite__subscribe__http_8c.html#a6b8e22f298c5bf38d1396a2da5c70eac'', 1, ''on_change(int status, const char *alias, const char *value):&#160;exosite_subscribe_http.c'')],
     row ''on_5fread'' ''on_read'' [(''../exosite__send__coap_8c.html#adf9e893b8610533b2a615f03375a3408'', 1, ''on_read(int status, const char *alias, const char *value):&#160;exosite_send_coap.c''), (''../exosite__send__http_8c.html#adf9e893b8610533b2a615f03375a3408'', 1, ''on_read(int status, const char *alias, const char *value):&#160;exosite_send_http.c'')],
     row ''on_5fwrite'' ''on_write'' [(''../exosite__send__coap_8c.html#a8ffc2c808eb0c212ecac8e088359eac0'', 1, ''on_write(int status, const char *alias):&#160;exosite_send_coap.c''), (''../exosite__send__http_8c.html#a8ffc2c808eb0c212ecac8e088359eac0'', 1, ''on_write(int status, const char *alias):&#160;exosite_send_http.c'')]]"

definition search_functions_a :: "search_entry list" where
  "search_functions_a =
    [row ''packet_5fbuffer_5fnew'' ''packet_buffer_new'' [(''../packet__buffer_8h.html#afcbcad1f1a5b4828819d8e25e5e006ee'', 1, ''packet_buffer_new(struct packet_buffer **obj, size_t size, size_t bufsize):&#160;packet_buffer.c''), (''../packet__buffer_8c.html#afcbcad1f1a5b4828819d8e25e5e006ee'', 1, ''packet_buffer_new(struct packet_buffer **obj, size_t size, size_t bufsize):&#160;packet_buffer.c'')],
     row ''packet_5fbuffer_5fpop'' ''packet_buffer_pop'' [(''../packet__buffer_8h.html#ae97b304f28017466e85c771acfec0478'', 1, ''packet_buffer_pop(struct packet_buffer *self, uint8_t *buf, size_t buflen):&#160;packet_buffer.c''), (''../packet__buffer_8c.html#ae97b304f28017466e85c771acfec0478'', 1, ''packet_buffer_pop(struct packet_buffer *self, uint8_t *buf, size_t buflen):&#160;packet_buffer.c'')],
     row ''packet_5fbuffer_5fpush'' ''packet_buffer_push'' [(''../packet__buffer_8h.html#a21fed34872aa06770baf3e0250c8a611'', 1, ''packet_buffer_push(struct packet_buffer *self, uint8_t *buf, size_t size):&#160;packet_buffer.c''), (''../packet__buffer_8c.html#a21fed34872aa06770baf3e0250c8a611'', 1, ''packet_buffer_push(struct packet_buffer *self, uint8_t *buf, size_t size):&#160;packet_buffer.c'')],
     row ''pclb_5fget_5fclb_5fnum'' ''pclb_get_clb_num'' [(''../group__pclb.html#ga1019b64a2ec387817a5685540f0d6486'', 1, ''pclb_get_clb_num(void):&#160;pclb.c''), (''../group__pclb.html#ga1019b64a2ec387817a5685540f0d6486'', 1, ''pclb_get_clb_num(void):&#160;pclb.c'')],
     row ''pclb_5finit'' ''pclb_init'' [(''../group__pclb.html#ga28c23ebda75cc16d211cf170b57e65f6'', 1, ''pclb_init(uint32_t stack_size):&#160;pclb.c''), (''../group__pclb.html#ga28c23ebda75cc16d211cf170b57e65f6'', 1, ''pclb_init(uint32_t stack_size):&#160;pclb.c'')],
     row ''pclb_5fregister'' ''pclb_register'' [(''../group__pclb.html#gabaf3ae1c39154d13f10730be4dc13451'', 1, ''pclb_register(timer_data_type period, void(*fn)(void *), void *param, int32_t *id):&#160;pclb.c''), (''../group__pclb.html#gabaf3ae1c39154d13f10730be4dc13451'', 1, ''pclb_register(timer_data_type period, void(*fn)(void *), void *param, int32_t *id):&#160;pclb.c'')],
     row ''pclb_5ftask'' ''pclb_task'' [(''../group__pclb.html#ga2d55dfa4072a1a8426d030c1753824f1'', 1, ''pclb_task(uint32_t ms):&#160;pclb.c''), (''../group__pclb.html#ga2d55dfa4072a1a8426d030c1753824f1'', 1, ''pclb_task(uint32_t ms):&#160;pclb.c'')],
     row ''pclb_5funregister'' ''pclb_unregister'' [(''../group__pclb.html#gac4f5668e377615f881e10902795718a7'', 1, ''pclb_unregister(int32_t id):&#160;pclb.c''), (''../group__pclb.html#gac4f5668e377615f881e10902795718a7'', 1, ''pclb_unregister(int32_t id):&#160;pclb.c'')],
     row ''pcld_5fhas_5fthread'' ''pcld_has_thread'' [(''../group__pclb.html#gaecd6386f09d025ffabc5c4cea4829fcf'', 1, ''pcld_has_thread(void):&#160;pclb.c''), (''../group__pclb.html#gaecd6386f09d025ffabc5c4cea4829fcf'', 1, ''pcld_has_thread(void):&#160;pclb.c'')],
     row ''pcsm_5ftransmit_5fqeueue_5fpush_5fno_5fcopy'' ''pcsm_transmit_qeueue_push_no_copy'' [(''../exosite__api_8c.html#ae2127bcd3a584662dd215d7c9c8fea18'', 1, ''exosite_api.c'')],
     row ''platform_5fget_5fcik'' ''platform_get_cik'' [(''../platform__exos_8h.html#a8471bf7902f30585012b5feaea84021c'', 1, ''platform_get_cik(char *cik, size_t len):&#160;platform_exos.h''), (''../platform__freertos_8h.html#a4d318b9dfbdd9d21b4c503719742694b'', 1, ''platform_get_cik(char *cik, size_t len):&#160;platform_freertos.h''), (''../platform__qmx_8h.html#a4d318b9dfbdd9d21b4c503719742694b'', 1, ''platform_get_cik(char *cik, size_t len):&#160;platform_qmx.h'')],
     row ''platform_5fget_5fsn'' ''platform_get_sn'' [(''../platform__exos_8h.html#a1bdfbc42522159f4df1beccaeabbfe27'', 1, ''platform_get_sn(void):&#160;platform_exos.h''), (''../platform__freertos_8h.html#a1bdfbc42522159f4df1beccaeabbfe27'', 1, ''platform_get_sn(void):&#160;platform_freertos.h''), (''../platform__qmx_8h.html#a1bdfbc42522159f4df1beccaeabbfe27'', 1, ''platform_get_sn(void):&#160;platform_qmx.h'')],
     row ''platform_5freset'' ''platform_reset'' [(''../platform__exos_8h.html#afea180ee48367b63170d1eeb5fd468e6'', 1, ''platform_reset(void):&#160;platform_exos.h''), (''../platform__freertos_8h.html#afea180ee48367b63170d1eeb5fd468e6'', 1, ''platform_reset(void):&#160;platform_freertos.h''), (''../platform__qmx_8h.html#afea180ee48367b63170d1eeb5fd468e6'', 1, ''platform_reset(void):&#160;platform_qmx.h'')],
     row ''platform_5fset_5fcik'' ''platform_set_cik'' [(''../platform__exos_8h.html#a6e7b369b84a0e5d821565d2cec759bd3'', 1, ''platform_set_cik(const char *cik):&#160;platform_exos.h''), (''../platform__freertos_8h.html#a7ac700a1ab69bba1dd50c7f977cfef26'', 1, ''platform_set_cik(const char *cik):&#160;platform_freertos.h''), (''../platform__qmx_8h.html#a7ac700a1ab69bba1dd50c7f977cfef26'', 1, ''platform_set_cik(const char *cik):&#160;platform_qmx.h'')],
     row ''platform_5fset_5fglobal_5finterrupts'' ''platform_set_global_interrupts'' [(''../platform__exos_8h.html#a231524764892a09a29896ee061fad476'', 1, ''platform_exos.h'')],
     row ''print_5farray'' ''print_array'' [(''../debug_8h.html#abb433d0baa2427df7c994db4cd5c2a8b'', 1, ''print_array(char *buf, int32_t length):&#160;debug.c''), (''../debug_8c.html#abb433d0baa2427df7c994db4cd5c2a8b'', 1, ''print_array(char *buf, int32_t length):&#160;debug.c'')],
     row ''print_5farray_5fch'' ''print_array_ch'' [(''../debug_8h.html#a56df89b49018da858ba1d8d56e5a6973'', 1, ''print_array_ch(char *buf, int32_t length):&#160;debug.c''), (''../debug_8c.html#a56df89b49018da858ba1d8d56e5a6973'', 1, ''print_array_ch(char *buf, int32_t length):&#160;debug.c'')],
     row ''print_5fmemory_5fstats'' ''print_memory_stats'' [(''../debug_8h.html#ab30d5946e31b7a4e8fafee6e8a68377a'', 1, ''print_memory_stats(void):&#160;heap_manager.c''), (''../heap__manager_8c.html#ab30d5946e31b7a4e8fafee6e8a68377a'', 1, ''print_memory_stats(void):&#160;heap_manager.c'')],
     row ''print_5fused_5fmemory'' ''print_used_memory'' [(''../debug_8h.html#ac5e0bd7e07d3f6954b13cfd9c4153744'', 1, ''print_used_memory(void):&#160;debug.c''), (''../debug_8c.html#ac5e0bd7e07d3f6954b13cfd9c4153744'', 1, ''print_used_memory(void):&#160;debug.c'')],
     row ''protocol_5fclient_5fsm_5fclear'' ''protocol_client_sm_clear'' [(''../group__protocol__client__sm.html#gad530e5f70715093294451963921d3407'', 1, ''protocol_client_sm_clear(struct protocol_client_sm_class *self):&#160;protocol_client_sm.c''), (''../group__protocol__client__sm.html#gad530e5f70715093294451963921d3407'', 1, ''protocol_client_sm_clear(struct protocol_client_sm_class *self):&#160;protocol_client_sm.c'')],
     row ''protocol_5fclient_5fsm_5fdelete'' ''protocol_client_sm_delete'' [(''../group__protocol__client__sm.html#ga5d6eb263e6472e3da31268c2d13a0a47'', 1, ''protocol_client_sm_delete(struct protocol_client_sm_class *exo):&#160;protocol_client_sm.c''), (''../group__protocol__client__sm.html#ga5d6eb263e6472e3da31268c2d13a0a47'', 1, ''protocol_client_sm_delete(struct protocol_client_sm_class *exo):&#160;protocol_client_sm.c'')],
     row ''protocol_5fclient_5fsm_5finit'' ''protocol_client_sm_init'' [(''../group__protocol__client__sm.html#ga25c31f466eb4402dcfdfe1be49d6cd57'', 1, ''protocol_client_sm_init(void):&#160;protocol_client_sm.c''), (''../group__protocol__client__sm.html#ga25c31f466eb4402dcfdfe1be49d6cd57'', 1, ''protocol_client_sm_init(void):&#160;protocol_client_sm.c'')],
     row ''protocol_5fclient_5fsm_5fis_5fempty'' ''protocol_client_sm_is_empty'' [(''../group__protocol__client__sm.html#ga4f3d55469e8c238a454b3a8e670965ea'', 1, ''protocol_client_sm_is_empty(struct protocol_client_sm_class *self):&#160;protocol_client_sm.c''), (''../group__protocol__client__sm.html#ga4f3d55469e8c238a454b3a8e670965ea'', 1, ''protocol_client_sm_is_empty(struct protocol_client_sm_class *self):&#160;protocol_client_sm.c'')],
     row ''protocol_5fclient_5fsm_5fis_5fqueue_5ffull'' ''protocol_client_sm_is_queue_full'' [(''../group__protocol__client__sm.html#gaf20f6dea17c9ff09ff4c4c5c005390fc'', 1, ''protocol_client_sm_is_queue_full(struct protocol_client_sm_class *self):&#160;protocol_client_sm.c''), (''../group__protocol__client__sm.html#gaf20f6dea17c9ff09ff4c4c5c005390fc'', 1, ''protocol_client_sm_is_queue_full(struct protocol_client_sm_class *self):&#160;protocol_client_sm.c'')],
     row ''protocol_5fclient_5fsm_5fnew'' ''protocol_client_sm_new'' [(''../group__protocol__client__sm.html#ga2eeace0f82cb4db6054278da31fac6df'', 1, ''protocol_client_sm_new(struct protocol_client_sm_class **exo, const char *name, struct protocol_client_config_class *protocol, const char *server_name, uint16_t server_port):&#160;protocol_client_sm.c''), (''../group__protocol__client__sm.html#ga2eeace0f82cb4db6054278da31fac6df'', 1, ''protocol_client_sm_new(struct protocol_client_sm_class **exo, const char *name, struct protocol_client_config_class *protocol, const char *server_name, uint16_t server_port):&#160;protocol_client_sm.c'')],
     row ''protocol_5fclient_5fsm_5fset_5fidentity'' ''protocol_client_sm_set_identity'' [(''../group__protocol__client__sm.html#gaa4630c533cc1804e2de9d8d26e0d7082'', 1, ''protocol_client_sm_set_identity(struct protocol_client_sm_class *exo, const char *identity, const char *passphrase):&#160;protocol_client_sm.c''), (''../group__protocol__client__sm.html#gaa4630c533cc1804e2de9d8d26e0d7082'', 1, ''protocol_client_sm_set_identity(struct protocol_client_sm_class *exo, const char *identity, const char *passphrase):&#160;protocol_client_sm.c'')],
     row ''protocol_5fclient_5fsm_5ftransmit'' ''protocol_client_sm_transmit'' [(''../group__protocol__client__sm.html#gac4759723fde32a0427cbd7d484cc873b'', 1, ''protocol_client_sm_transmit(struct protocol_client_sm_class *self, enum request_type type, void *request, void *request_args, int32_t message_id, pc_sm_callback resp_clb):&#160;protocol_client_sm.c''), (''../group__protocol__client__sm.html#gac4759723fde32a0427cbd7d484cc873b'', 1, ''protocol_client_sm_transmit(struct protocol_client_sm_class *self, enum request_type type, void *request, void *request_args, int32_t message_id, pc_sm_callback resp_clb):&#160;protocol_client_sm.c'')]]"

definition search_functions_b :: "search_entry list" where
  "search_functions_b =
    [row ''queue_5ffree'' ''queue_free'' [(''../queue_8h.html#a42c7cc8caeb6778234887511db8fba40'', 1, ''queue.h'')],
     row ''queue_5fget_5fsize'' ''queue_get_size'' [(''../queue_8h.html#afdb1e0bb5faf7e5393e55b13e5b78f3d'', 1, ''queue.h'')],
     row ''queue_5fis_5fempty'' ''queue_is_empty'' [(''../queue_8h.html#a6b4d227552b30fe657a12b88ecad46bb'', 1, ''queue.h'')],
     row ''queue_5fnew'' ''queue_new'' [(''../queue_8h.html#a6822f963b6a23e3890b51dc7b690f09f'', 1, ''queue.h'')],
     row ''queue_5fpeek_5fhead'' ''queue_peek_head'' [(''../queue_8h.html#a8924c24ee3250e23fa4009f46ba4b9d8'', 1, ''queue.h'')],
     row ''queue_5fpeek_5ftail'' ''queue_peek_tail'' [(''../queue_8h.html#a13eed7922e2baaa839b3fca630a04e99'', 1, ''queue.h'')],
     row ''queue_5fpop_5fhead'' ''queue_pop_head'' [(''../queue_8h.html#ad6bcabffd5a8947dfba39698aa003a8b'', 1, ''queue.h'')],
     row ''queue_5fpop_5ftail'' ''queue_pop_tail'' [(''../queue_8h.html#ae5084bfe95c3cf582dff20f05abaf06a'', 1, ''queue.h'')],
     row ''queue_5fpush_5fhead'' ''queue_push_head'' [(''../queue_8h.html#aa4d24e6ff6b3b3300aa4a61fe31a26ab'', 1, ''queue.h'')],
     row ''queue_5fpush_5ftail'' ''queue_push_tail'' [(''../queue_8h.html#a312cbe8ee04e9e89f079c9588c97f4b0'', 1, ''queue.h'')]]"

definition search_functions_c :: "search_entry list" where
  "search_functions_c =
    [row ''register_5fstack_5fchecker'' ''register_stack_checker'' [(''../mem__check_8h.html#a4ab2b537ab6eac4c5755285ee4440e8f'', 1, ''mem_check.c'')],
     row ''request_5fqueue_5fpush'' ''request_queue_push'' [(''../exosite__api_8c.html#a514ffa9538c2749779516886ddbc32a0'', 1, ''exosite_api.c'')],
     row ''rtc_5fget'' ''rtc_get'' [(''../rtc_8c.html#ab9566103b8b1de139da5a472000c7617'', 1, ''rtc.c'')],
     row ''rtc_5fperiodic'' ''rtc_periodic'' [(''../rtc_8c.html#a86ce0e5c919135157bb9cac8a8f8655f'', 1, ''rtc.c'')],
     row ''rtc_5fset'' ''rtc_set'' [(''../rtc_8c.html#a6eb764fb255bc69b431cb429fdc177aa'', 1, ''rtc.c'')]]"

definition search_functions_d :: "search_entry list" where
  "search_functions_d =
    [row ''ssl_5fclient_5finit'' ''ssl_client_init'' [(''../ssl__client_8h.html#a5bd9a41c7b8c230735c46624fc13bb1a'', 1, ''ssl_client_init(void):&#160;cyassl_client.c''), (''../cyassl__client_8c.html#a5bd9a41c7b8c230735c46624fc13bb1a'', 1, ''ssl_client_init(void):&#160;cyassl_client.c''), (''../mbedtls__client_8c.html#a5bd9a41c7b8c230735c46624fc13bb1a'', 1, ''ssl_client_init(void):&#160;mbedtls_client.c'')],
     row ''ssl_5fclient_5fnew'' ''ssl_client_new'' [(''../ssl__client_8h.html#a02c20a3169dfdc6418ed518675ab1736'', 1, ''ssl_client_new(struct net_dev_operations *net_dev, enum transport_protocol_type type):&#160;cyassl_client.c''), (''../cyassl__client_8c.html#a02c20a3169dfdc6418ed518675ab1736'', 1, ''ssl_client_new(struct net_dev_operations *net_dev, enum transport_protocol_type type):&#160;cyassl_client.c''), (''../mbedtls__client_8c.html#a02c20a3169dfdc6418ed518675ab1736'', 1, ''ssl_client_new(struct net_dev_operations *net_dev, enum transport_protocol_type type):&#160;mbedtls_client.c'')],
     row ''st_5ftransmit'' ''st_transmit'' [(''../protocol__client__sm_8c.html#ab3047b363558745911b4782f5abc26fd'', 1, ''protocol_client_sm.c'')],
     row ''start_5fconfigurator_5fserver'' ''start_configurator_server'' [(''../group___configurator___a_p_i.html#gaa08bc3adea39f236fc473a595ae6fb96'', 1, ''start_configurator_server(const char *ip, uint16_t port, int32_t(*on_set)(struct wifi_settings *)):&#160;configurator_server.c''), (''../group___configurator___a_p_i.html#gaa08bc3adea39f236fc473a595ae6fb96'', 1, ''start_configurator_server(const char *ip, uint16_t port, int32_t(*on_set)(struct wifi_settings *)):&#160;configurator_server.c'')],
     row ''stop_5fconfigurator_5fserver'' ''stop_configurator_server'' [(''../group___configurator___a_p_i.html#ga1736c42332e463fa31e148dd3826c780'', 1, ''stop_configurator_server(void):&#160;configurator_server.c''), (''../group___configurator___a_p_i.html#ga1736c42332e463fa31e148dd3826c780'', 1, ''stop_configurator_server(void):&#160;configurator_server.c'')],
     row ''string_5fcat'' ''string_cat'' [(''../string__class_8h.html#abc6229c233e7671be132774cc8a5a8dc'', 1, ''string_cat(struct string_class *str, struct string_class *str2):&#160;string_class.c''), (''../string__class_8c.html#abc6229c233e7671be132774cc8a5a8dc'', 1, ''string_cat(struct string_class *str, struct string_class *str2):&#160;string_class.c'')],
     row ''string_5fcatc'' ''string_catc'' [(''../string__class_8h.html#a3942f35051f61d7370d4ec8ec904e2ca'', 1, ''string_catc(struct string_class *str, const char *str2):&#160;string_class.c''), (''../string__class_8c.html#a3942f35051f61d7370d4ec8ec904e2ca'', 1, ''string_catc(struct string_class *str, const char *str2):&#160;string_class.c'')],
     row ''string_5fcatcn'' ''string_catcn'' [(''../string__class_8h.html#ab10e7fa9ead90aa12bcab56578595ad3'', 1, ''string_catcn(struct string_class *str, const char *new_chunk, size_t new_chunk_size):&#160;string_class.c''), (''../string__class_8c.html#ab10e7fa9ead90aa12bcab56578595ad3'', 1, ''string_catcn(struct string_class *str, const char *new_chunk, size_t new_chunk_size):&#160;string_class.c'')],
     row ''string_5fdelete'' ''string_delete'' [(''../string__class_8h.html#a6f65fa996f09a3ce90557fa121a1c333'', 1, ''string_delete(struct string_class *str):&#160;string_class.c''), (''../string__class_8c.html#a6f65fa996f09a3ce90557fa121a1c333'', 1, ''string_delete(struct string_class *str):&#160;string_class.c'')],
     row ''string_5fempty'' ''string_empty'' [(''../string__class_8h.html#a5aff4005ac362285b7363fa2c201e6f7'', 1, ''string_empty(struct string_class *str):&#160;string_class.c''), (''../string__class_8c.html#a5aff4005ac362285b7363fa2c201e6f7'', 1, ''string_empty(struct string_class *str):&#160;string_class.c'')],
     row ''string_5fget_5fbuffer'' ''string_get_buffer'' [(''../string__class_8h.html#ac80dc6c93952467919eb8c8e75415390'', 1, ''string_get_buffer(struct string_class *str):&#160;string_class.c''), (''../string__class_8c.html#ac80dc6c93952467919eb8c8e75415390'', 1, ''string_get_buffer(struct string_class *str):&#160;string_class.c'')],
     row ''string_5fget_5fcstring'' ''string_get_cstring'' [(''../string__class_8h.html#acbcddcbdf37a4476c1ce27ce101960ed'', 1, ''string_get_cstring(struct string_class *str):&#160;string_class.c''), (''../string__class_8c.html#acbcddcbdf37a4476c1ce27ce101960ed'', 1, ''string_get_cstring(struct string_class *str):&#160;string_class.c'')],
     row ''string_5fget_5fsize'' ''string_get_size'' [(''../string__class_8h.html#a20d0c5ee7a5bc90abdffdb02e837cabf'', 1, ''string_get_size(struct string_class *str):&#160;string_class.c''), (''../string__class_8c.html#a20d0c5ee7a5bc90abdffdb02e837cabf'', 1, ''string_get_size(struct string_class *str):&#160;string_class.c'')],
     row ''string_5fis_5fequal'' ''string_is_equal'' [(''../string__class_8h.html#ae2f56113e3fb9d5b1a9cc11d908767b7'', 1, ''string_is_equal(struct string_class *str, const char *cstring):&#160;string_class.c''), (''../string__class_8c.html#ae2f56113e3fb9d5b1a9cc11d908767b7'', 1, ''string_is_equal(struct string_class *str, const char *cstring):&#160;string_class.c'')],
     row ''string_5fnew'' ''string_new'' [(''../string__class_8h.html#a1077f82572b93979a0a1f374dadd9297'', 1, ''string_new(struct string_class **new_str, const char *init_string):&#160;string_class.c''), (''../string__class_8c.html#a8422c6ac5a273f270c36eaf237c94f04'', 1, ''string_new(struct string_class **new_string, const char *init_string):&#160;string_class.c'')],
     row ''string_5fnew_5fconst'' ''string_new_const'' [(''../string__class_8h.html#a220590225cb85736f21497ea29148fa8'', 1, ''string_new_const(struct string_class **new_string, const char *init_string, size_t size):&#160;string_class.c''), (''../string__class_8c.html#a220590225cb85736f21497ea29148fa8'', 1, ''string_new_const(struct string_class **new_string, const char *init_string, size_t size):&#160;string_class.c'')],
     row ''string_5fprint'' ''string_print'' [(''../string__class_8h.html#a08a45356d772a55b48f2b65be881f237'', 1, ''string_print(struct string_class *str):&#160;string_class.c''), (''../string__class_8c.html#a08a45356d772a55b48f2b65be881f237'', 1, ''string_print(struct string_class *str):&#160;string_class.c'')],
     row ''string_5freplace'' ''string_replace'' [(''../string__class_8h.html#aa7367c5e6085093b8dface7b3fcee178'', 1, ''string_replace(struct string_class *str, const char *substr, const char *replacement):&#160;string_class.c''), (''../string__class_8c.html#aa7367c5e6085093b8dface7b3fcee178'', 1, ''string_replace(struct string_class *str, const char *substr, const char *replacement):&#160;string_class.c'')],
     row ''system_5fdebug_5fdevice_5finit'' ''system_debug_device_init'' [(''../group__system__port__interface.html#ga9feeb70b1abd192deab9df0df68aed92'', 1, ''system_port.h'')],
     row ''system_5fdelay_5fand_5fpoll'' ''system_delay_and_poll'' [(''../system__utils_8h.html#a93d3ad7efae2f983a54ae5264145c9a2'', 1, ''system_delay_and_poll(uint32_t ms):&#160;system_utils.c''), (''../system__utils_8c.html#a73dd8fa42fa897b8c7226cf954e3d965'', 1, ''system_delay_and_poll(sys_time_t ms):&#160;system_utils.c'')],
     row ''system_5fenter_5fcritical_5fsection'' ''system_enter_critical_section'' [(''../group__system__port__interface.html#ga100b86113d1fadedf408aa73f69616d0'', 1, ''system_enter_critical_section(void):&#160;system.c''), (''../group__system__port__interface.html#ga100b86113d1fadedf408aa73f69616d0'', 1, ''system_enter_critical_section(void):&#160;system.c''), (''../group__system__port__interface.html#ga100b86113d1fadedf408aa73f69616d0'', 1, ''system_enter_critical_section(void):&#160;system.c''), (''../group__system__port__interface.html#ga100b86113d1fadedf408aa73f69616d0'', 1, ''system_enter_critical_section(void):&#160;system.c''), (''../group__system__port__interface.html#ga100b86113d1fadedf408aa73f69616d0'', 1, ''system_enter_critical_section(void):&#160;system.c'')],
     row ''system_5fget_5fcik'' ''system_get_cik'' [(''../group__system__port__interface.html#ga694b8756f4eac9935d58923c9652f8e8'', 1, ''system_get_cik(char *cik, size_t len):&#160;system.c''), (''../group__system__port__interface.html#ga694b8756f4eac9935d58923c9652f8e8'', 1, ''system_get_cik(char *cik, size_t len):&#160;system.c''), (''../group__system__port__interface.html#ga694b8756f4eac9935d58923c9652f8e8'', 1, ''system_get_cik(char *cik, size_t len):&#160;system.c''), (''../group__system__port__interface.html#ga694b8756f4eac9935d58923c9652f8e8'', 1, ''system_get_cik(char *cik, size_t len):&#160;system.c''), (''../group__system__port__interface.html#ga694b8756f4eac9935d58923c9652f8e8'', 1, ''system_get_cik(char *cik, size_t len):&#160;system.c'')],
     row ''system_5fget_5fdiff_5ftime'' ''system_get_diff_time'' [(''../system__utils_8h.html#ac2c7bbb10ec79feaeaa01b7a128beb36'', 1, ''system_get_diff_time(sys_time_t start):&#160;system_utils.c''), (''../system__utils_8c.html#ac2c7bbb10ec79feaeaa01b7a128beb36'', 1, ''system_get_diff_time(sys_time_t start):&#160;system_utils.c'')],
     row ''system_5fget_5fsn'' ''system_get_sn'' [(''../group__system__port__interface.html#gacd4ffaeda19468b998d390451652133a'', 1, ''system_get_sn(void):&#160;system.c''), (''../group__system__port__interface.html#gacd4ffaeda19468b998d390451652133a'', 1, ''system_get_sn(void):&#160;system.c''), (''../group__system__port__interface.html#gacd4ffaeda19468b998d390451652133a'', 1, ''system_get_sn(void):&#160;system.c''), (''../group__system__port__interface.html#gacd4ffaeda19468b998d390451652133a'', 1, ''system_get_sn(void):&#160;system.c''), (''../group__system__port__interface.html#gacd4ffaeda19468b998d390451652133a'', 1, ''system_get_sn(void):&#160;system.c'')],
     row ''system_5fget_5fthread_5fstack_5ffreesize'' ''system_get_thread_stack_freesize'' [(''../group__thread__port__interface.html#ga0ae99c82b2bffa8342d49a3be86fba2c'', 1, ''system_get_thread_stack_freesize(system_thread_t *thread):&#160;thread.c''), (''../group__thread__port__interface.html#ga0ae99c82b2bffa8342d49a3be86fba2c'', 1, ''system_get_thread_stack_freesize(system_thread_t *thread):&#160;thread.c'')],
     row ''system_5fget_5ftime'' ''system_get_time'' [(''../group__system__port__interface.html#ga48c1a60a65fe4aebb0821b338de0c683'', 1, ''system_get_time(void):&#160;system.c''), (''../group__system__port__interface.html#ga48c1a60a65fe4aebb0821b338de0c683'', 1, ''system_get_time(void):&#160;system.c''), (''../group__system__port__interface.html#ga48c1a60a65fe4aebb0821b338de0c683'', 1, ''system_get_time(void):&#160;system.c''), (''../group__system__port__interface.html#ga48c1a60a65fe4aebb0821b338de0c683'', 1, ''system_get_time(void):&#160;system.c''), (''../group__system__port__interface.html#ga48c1a60a65fe4aebb0821b338de0c683'', 1, ''system_get_time(void):&#160;system.c'')],
     row ''system_5finit'' ''system_init'' [(''../group__system__port__interface.html#gad4c2a0f4911bc247f3629e4bc30d1ce3'', 1, ''system_init(void):&#160;system.c''), (''../group__system__port__interface.html#gad4c2a0f4911bc247f3629e4bc30d1ce3'', 1, ''system_init(void):&#160;system.c''), (''../group__system__port__interface.html#gad4c2a0f4911bc247f3629e4bc30d1ce3'', 1, ''system_init(void):&#160;system.c''), (''../group__system__port__interface.html#gad4c2a0f4911bc247f3629e4bc30d1ce3'', 1, ''system_init(void):&#160;system.c''), (''../group__system__port__interface.html#gad4c2a0f4911bc247f3629e4bc30d1ce3'', 1, ''system_init(void):&#160;system.c'')],
     row ''system_5fis_5fcik_5fformat_5fvalid'' ''system_is_cik_format_valid'' [(''../system__utils_8h.html#a2e391d6625b10de37e81aed4995e0302'', 1, ''system_is_cik_format_valid(const char *cik):&#160;system_utils.c''), (''../system__utils_8c.html#a2e391d6625b10de37e81aed4995e0302'', 1, ''system_is_cik_format_valid(const char *cik):&#160;system_utils.c'')],
     row ''system_5fleave_5fcritical_5fsection'' ''system_leave_critical_section'' [(''../group__system__port__interface.html#ga89525ce656ca48f2506477d69c538794'', 1, ''system_leave_critical_section(void):&#160;system.c''), (''../group__system__port__interface.html#ga89525ce656ca48f2506477d69c538794'', 1, ''system_leave_critical_section(void):&#160;system.c''), (''../group__system__port__interface.html#ga89525ce656ca48f2506477d69c538794'', 1, ''system_leave_critical_section(void):&#160;system.c''), (''../group__system__port__interface.html#ga89525ce656ca48f2506477d69c538794'', 1, ''system_leave_critical_section(void):&#160;system.c''), (''../group__system__port__interface.html#ga89525ce656ca48f2506477d69c538794'', 1, ''system_leave_critical_section(void):&#160;system.c'')],
     row ''system_5fmutex_5fcreate'' ''system_mutex_create'' [(''../group__thread__port__interface.html#gab37a0136390eff5aaf2bd8d6650f4532'', 1, ''system_mutex_create(system_mutex_t *mutex):&#160;mutex.c''), (''../group__thread__port__interface.html#gab37a0136390eff5aaf2bd8d6650f4532'', 1, ''system_mutex_create(system_mutex_t *mutex):&#160;mutex.c''), (''../group__thread__port__interface.html#gab37a0136390eff5aaf2bd8d6650f4532'', 1, ''system_mutex_create(system_mutex_t *mutex):&#160;mutex.c''), (''../group__thread__port__interface.html#gab37a0136390eff5aaf2bd8d6650f4532'', 1, ''system_mutex_create(system_mutex_t *mutex):&#160;mutex.c''), (''../group__thread__port__interface.html#gab37a0136390eff5aaf2bd8d6650f4532'', 1, ''system_mutex_create(system_mutex_t *mutex):&#160;mutex.c'')],
     row ''system_5fmutex_5fdestroy'' ''system_mutex_destroy'' [(''../group__thread__port__interface.html#ga5ff76e122b93e2e9aa258f49eff037b4'', 1, ''system_mutex_destroy(system_mutex_t mutex):&#160;mutex.c''), (''../group__thread__port__interface.html#ga5ff76e122b93e2e9aa258f49eff037b4'', 1, ''system_mutex_destroy(system_mutex_t mutex):&#160;mutex.c''), (''../group__thread__port__interface.html#ga5ff76e122b93e2e9aa258f49eff037b4'', 1, ''system_mutex_destroy(system_mutex_t mutex):&#160;mutex.c''), (''../group__thread__port__interface.html#ga5ff76e122b93e2e9aa258f49eff037b4'', 1, ''system_mutex_destroy(system_mutex_t mutex):&#160;mutex.c''), (''../group__thread__port__interface.html#ga5ff76e122b93e2e9aa258f49eff037b4'', 1, ''system_mutex_destroy(system_mutex_t mutex):&#160;mutex.c'')],
     row ''system_5fmutex_5flock'' ''system_mutex_lock'' [(''../group__thread__port__interface.html#ga7f59d2e926f019ad955ccba7d87c3e4f'', 1, ''system_mutex_lock(system_mutex_t mutex):&#160;mutex.c''), (''../group__thread__port__interface.html#ga7f59d2e926f019ad955ccba7d87c3e4f'', 1, ''system_mutex_lock(system_mutex_t mutex):&#160;mutex.c''), (''../group__thread__port__interface.html#ga7f59d2e926f019ad955ccba7d87c3e4f'', 1, ''system_mutex_lock(system_mutex_t mutex):&#160;mutex.c''), (''../group__thread__port__interface.html#ga7f59d2e926f019ad955ccba7d87c3e4f'', 1, ''system_mutex_lock(system_mutex_t mutex):&#160;mutex.c''), (''../group__thread__port__interface.html#ga7f59d2e926f019ad955ccba7d87c3e4f'', 1, ''system_mutex_lock(system_mutex_t mutex):&#160;mutex.c'')],
     row ''system_5fmutex_5ftrylock'' ''system_mutex_trylock'' [(''../group__thread__port__interface.html#ga53bc3277f7f3474be3e08dd3a12d09a5'', 1, ''system_mutex_trylock(system_mutex_t mutex, uint8_t *acquired):&#160;mutex.c''), (''../group__thread__port__interface.html#ga53bc3277f7f3474be3e08dd3a12d09a5'', 1, ''system_mutex_trylock(system_mutex_t mutex, uint8_t *acquired):&#160;mutex.c''), (''../group__thread__port__interface.html#ga53bc3277f7f3474be3e08dd3a12d09a5'', 1, ''system_mutex_trylock(system_mutex_t mutex, uint8_t *acquired):&#160;mutex.c''), (''../group__thread__port__interface.html#ga53bc3277f7f3474be3e08dd3a12d09a5'', 1, ''system_mutex_trylock(system_mutex_t mutex, uint8_t *acquired):&#160;mutex.c''), (''../group__thread__port__interface.html#ga53bc3277f7f3474be3e08dd3a12d09a5'', 1, ''system_mutex_trylock(system_mutex_t mutex, uint8_t *acquired):&#160;mutex.c'')],
     row ''system_5fmutex_5funlock'' ''system_mutex_unlock'' [(''../group__thread__port__interface.html#ga3f1ab376de20ab7bf067703dea235bf5'', 1, ''system_mutex_unlock(system_mutex_t mutex):&#160;mutex.c''), (''../group__thread__port__interface.html#ga3f1ab376de20ab7bf067703dea235bf5'', 1, ''system_mutex_unlock(system_mutex_t mutex):&#160;mutex.c''), (''../group__thread__port__interface.html#ga3f1ab376de20ab7bf067703dea235bf5'', 1, ''system_mutex_unlock(system_mutex_t mutex):&#160;mutex.c''), (''../group__thread__port__interface.html#ga3f1ab376de20ab7bf067703dea235bf5'', 1, ''system_mutex_unlock(system_mutex_t mutex):&#160;mutex.c''), (''../group__thread__port__interface.html#ga3f1ab376de20ab7bf067703dea235bf5'', 1, ''system_mutex_unlock(system_mutex_t mutex):&#160;mutex.c'')],
     row ''system_5fpoll'' ''system_poll'' [(''../system__utils_8h.html#abd723470d3686000632614e2f2c0fd80'', 1, ''system_poll(sys_time_t ms):&#160;system_utils.c''), (''../system__utils_8c.html#abd723470d3686000632614e2f2c0fd80'', 1, ''system_poll(sys_time_t ms):&#160;system_utils.c'')],
     row ''system_5freset'' ''system_reset'' [(''../group__system__port__interface.html#gaa6b8b52cd91774ae02c2b293d982a646'', 1, ''system_reset(void):&#160;system.c''), (''../group__system__port__interface.html#gaa6b8b52cd91774ae02c2b293d982a646'', 1, ''system_reset(void):&#160;system.c''), (''../group__system__port__interface.html#gaa6b8b52cd91774ae02c2b293d982a646'', 1, ''system_reset(void):&#160;system.c''), (''../group__system__port__interface.html#gaa6b8b52cd91774ae02c2b293d982a646'', 1, ''system_reset(void):&#160;system.c''), (''../group__system__port__interface.html#gaa6b8b52cd91774ae02c2b293d982a646'', 1, ''system_reset(void):&#160;system.c'')],
     row ''system_5fset_5fcik'' ''system_set_cik'' [(''../group__system__port__interface.html#ga7ecf46987ea3260b0e54fb6e5765bc7e'', 1, ''system_set_cik(const char *cik):&#160;system.c''), (''../group__system__port__interface.html#ga7ecf46987ea3260b0e54fb6e5765bc7e'', 1, ''system_set_cik(const char *cik):&#160;system.c''), (''../group__system__port__interface.html#ga7ecf46987ea3260b0e54fb6e5765bc7e'', 1, ''system_set_cik(const char *cik):&#160;system.c''), (''../group__system__port__interface.html#ga7ecf46987ea3260b0e54fb6e5765bc7e'', 1, ''system_set_cik(const char *cik):&#160;system.c''), (''../group__system__port__interface.html#ga7ecf46987ea3260b0e54fb6e5765bc7e'', 1, ''system_set_cik(const char *cik):&#160;system.c'')],
     row ''system_5fsleep_5fms'' ''system_sleep_ms'' [(''../group__system__port__interface.html#ga06f6bc506ca833208f11fa9bf4c18c3f'', 1, ''system_sleep_ms(timer_data_type delay_ms):&#160;system.c''), (''../group__system__port__interface.html#ga06f6bc506ca833208f11fa9bf4c18c3f'', 1, ''system_sleep_ms(timer_data_type delay_ms):&#160;system.c''), (''../group__system__port__interface.html#ga06f6bc506ca833208f11fa9bf4c18c3f'', 1, ''system_sleep_ms(timer_data_type delay_ms):&#160;system.c''), (''../group__system__port__interface.html#ga06f6bc506ca833208f11fa9bf4c18c3f'', 1, ''system_sleep_ms(timer_data_type delay_ms):&#160;system.c''), (''../group__system__port__interface.html#ga06f6bc506ca833208f11fa9bf4c18c3f'', 1, ''system_sleep_ms(timer_data_type ms):&#160;system.c'')],
     row ''system_5fthread_5fcreate'' ''system_thread_create'' [(''../group__thread__port__interface.html#ga46f8aaa2375b466fc565c9459ee43556'', 1, ''system_thread_create(system_thread_t *thread, const system_thread_attr_t *attr, void *(*start_routine)(void *), void *param):&#160;thread.c''), (''../group__thread__port__interface.html#ga46f8aaa2375b466fc565c9459ee43556'', 1, ''system_thread_create(system_thread_t *thread, const system_thread_attr_t *attr, void *(*start_routine)(void *), void *param):&#160;thread.c''), (''../group__thread__port__interface.html#ga46f8aaa2375b466fc565c9459ee43556'', 1, ''system_thread_create(system_thread_t *thread, const system_thread_attr_t *attr, void *(*start_routine)(void *), void *param):&#160;thread.c''), (''../group__thread__port__interface.html#ga46f8aaa2375b466fc565c9459ee43556'', 1, ''system_thread_create(system_thread_t *thread, const system_thread_attr_t *attr, void *(*start_routine)(void *), void *param):&#160;thread.c''), (''../group__thread__port__interface.html#ga46f8aaa2375b466fc565c9459ee43556'', 1, ''system_thread_create(system_thread_t *thread, const system_thread_attr_t *attr, void *(*start_routine)(void *), void *param):&#160;thread.c'')]]"

definition search_functions_e :: "search_entry list" where
  "search_functions_e =
    [row ''tcp_5fbuffer_5fdelete'' ''tcp_buffer_delete'' [(''../tcp__buffer_8h.html#a6d191aca3ca006d60c27247bc9c734f1'', 1, ''tcp_buffer_delete(struct tcp_buffer_class *tcpbuf):&#160;tcp_buffer.c''), (''../tcp__buffer_8c.html#a6d191aca3ca006d60c27247bc9c734f1'', 1, ''tcp_buffer_delete(struct tcp_buffer_class *tcpbuf):&#160;tcp_buffer.c'')],
     row ''tcp_5fbuffer_5fget_5ffree'' ''tcp_buffer_get_free'' [(''../tcp__buffer_8h.html#a7489d7d4726c351c19d2fd50ab13847c'', 1, ''tcp_buffer_get_free(struct tcp_buffer_class *tcp_buffer_obj):&#160;tcp_buffer.c''), (''../tcp__buffer_8c.html#a7489d7d4726c351c19d2fd50ab13847c'', 1, ''tcp_buffer_get_free(struct tcp_buffer_class *tcp_buffer_obj):&#160;tcp_buffer.c'')],
     row ''tcp_5fbuffer_5fget_5fused'' ''tcp_buffer_get_used'' [(''../tcp__buffer_8h.html#a6f61fe92245308031949dcc67e5720ba'', 1, ''tcp_buffer_get_used(struct tcp_buffer_class *tcp_buffer_obj):&#160;tcp_buffer.c''), (''../tcp__buffer_8c.html#a6f61fe92245308031949dcc67e5720ba'', 1, ''tcp_buffer_get_used(struct tcp_buffer_class *tcp_buffer_obj):&#160;tcp_buffer.c'')],
     row ''tcp_5fbuffer_5fnew'' ''tcp_buffer_new'' [(''../tcp__buffer_8h.html#a4d516969837473d35f3a4351ec99b215'', 1, ''tcp_buffer_new(struct tcp_buffer_class **tcpbuf, size_t size):&#160;tcp_buffer.c''), (''../tcp__buffer_8c.html#a4d516969837473d35f3a4351ec99b215'', 1, ''tcp_buffer_new(struct tcp_buffer_class **tcpbuf, size_t size):&#160;tcp_buffer.c'')],
     row ''tcp_5fbuffer_5fpop'' ''tcp_buffer_pop'' [(''../tcp__buffer_8h.html#a0dd4511ed1c91af31789bca10d7c35e8'', 1, ''tcp_buffer_pop(struct tcp_buffer_class *tcp_buffer_obj, char *buf, size_t max_size):&#160;tcp_buffer.c''), (''../tcp__buffer_8c.html#a0dd4511ed1c91af31789bca10d7c35e8'', 1, ''tcp_buffer_pop(struct tcp_buffer_class *tcp_buffer_obj, char *buf, size_t max_size):&#160;tcp_buffer.c'')],
     row ''tcp_5fbuffer_5fpush'' ''tcp_buffer_push'' [(''../tcp__buffer_8h.html#ae7f0eb5e342504e94626fa9e87c8e95f'', 1, ''tcp_buffer_push(struct tcp_buffer_class *tcp_buffer_obj, char *buf, size_t size):&#160;tcp_buffer.c''), (''../tcp__buffer_8c.html#ae7f0eb5e342504e94626fa9e87c8e95f'', 1, ''tcp_buffer_push(struct tcp_buffer_class *tcp_buffer_obj, char *buf, size_t size):&#160;tcp_buffer.c'')],
     row ''ts_5fcbuffer_5fdelete'' ''ts_cbuffer_delete'' [(''../ts__cbuffer_8h.html#ad6e9c1cd3d49fa374e4f26857df6108f'', 1, ''ts_cbuffer.c'')],
     row ''ts_5fcbuffer_5fget_5ffree'' ''ts_cbuffer_get_free'' [(''../ts__cbuffer_8h.html#a0971fdc8382b814be46a2cd60931aaa1'', 1, ''ts_cbuffer.c'')],
     row ''ts_5fcbuffer_5fget_5fused'' ''ts_cbuffer_get_used'' [(''../ts__cbuffer_8h.html#a5e002c83d58fddbb5268235f664e3b56'', 1, ''ts_cbuffer.c'')],
     row ''ts_5fcbuffer_5fnew'' ''ts_cbuffer_new'' [(''../ts__cbuffer_8h.html#a86dcbd1d167c3f979d08f7948fca7ccc'', 1, ''ts_cbuffer.c'')],
     row ''ts_5fcbuffer_5fpop'' ''ts_cbuffer_pop'' [(''../ts__cbuffer_8h.html#a9ae4a1535f5e7495d5530ccbd0f97488'', 1, ''ts_cbuffer.c'')],
     row ''ts_5fcbuffer_5fpush'' ''ts_cbuffer_push'' [(''../ts__cbuffer_8h.html#a6773a1abe116f2db101429fbe0eeb897'', 1, ''ts_cbuffer.c'')]]"

definition search_functions_f :: "search_entry list" where
  "search_functions_f =
    [row ''ssl_5fclient_5finit'' ''ssl_client_init'' [(''../ssl__client_8h.html#a5bd9a41c7b8c230735c46624fc13bb1a'', 1, ''ssl_client_init(void):&#160;cyassl_client.c''), (''../cyassl__client_8c.html#a5bd9a41c7b8c230735c46624fc13bb1a'', 1, ''ssl_client_init(void):&#160;cyassl_client.c'')],
     row ''ssl_5fclient_5fnew'' ''ssl_client_new'' [(''../ssl__client_8h.html#a02c20a3169dfdc6418ed518675ab1736'', 1, ''ssl_client_new(struct net_dev_operations *net_dev, enum transport_protocol_type type):&#160;cyassl_client.c''), (''../cyassl__client_8c.html#a02c20a3169dfdc6418ed518675ab1736'', 1, ''ssl_client_new(struct net_dev_operations *net_dev, enum transport_protocol_type type):&#160;cyassl_client.c'')],
     row ''st_5ftransmit'' ''st_transmit'' [(''../protocol__client__sm_8c.html#abf18a8136ac0d8dea057e606af346c2b'', 1, ''protocol_client_sm.c'')],
     row ''string_5fcat'' ''string_cat'' [(''../string__class_8h.html#abc6229c233e7671be132774cc8a5a8dc'', 1, ''string_cat(struct string_class *str, struct string_class *str2):&#160;string_class.c''), (''../string__class_8c.html#abc6229c233e7671be132774cc8a5a8dc'', 1, ''string_cat(struct string_class *str, struct string_class *str2):&#160;string_class.c'')],
     row ''string_5fcatc'' ''string_catc'' [(''../string__class_8h.html#a3942f35051f61d7370d4ec8ec904e2ca'', 1, ''string_catc(struct string_class *str, const char *str2):&#160;string_class.c''), (''../string__class_8c.html#a3942f35051f61d7370d4ec8ec904e2ca'', 1, ''string_catc(struct string_class *str, const char *str2):&#160;string_class.c'')],
     row ''string_5fcatcn'' ''string_catcn'' [(''../string__class_8h.html#ab10e7fa9ead90aa12bcab56578595ad3'', 1, ''string_catcn(struct string_class *str, const char *new_chunk, size_t new_chunk_size):&#160;string_class.c''), (''../string__class_8c.html#ab10e7fa9ead90aa12bcab56578595ad3'', 1, ''string_catcn(struct string_class *str, const char *new_chunk, size_t new_chunk_size):&#160;string_class.c'')],
     row ''string_5fdelete'' ''string_delete'' [(''../string__class_8h.html#a6f65fa996f09a3ce90557fa121a1c333'', 1, ''string_delete(struct string_class *str):&#160;string_class.c''), (''../string__class_8c.html#a6f65fa996f09a3ce90557fa121a1c333'', 1, ''string_delete(struct string_class *str):&#160;string_class.c'')],
     row ''string_5fempty'' ''string_empty'' [(''../string__class_8h.html#a5aff4005ac362285b7363fa2c201e6f7'', 1, ''string_empty(struct string_class *str):&#160;string_class.c''), (''../string__class_8c.html#a5aff4005ac362285b7363fa2c201e6f7'', 1, ''string_empty(struct string_class *str):&#160;string_class.c'')],
     row ''string_5fget_5fbuffer'' ''string_get_buffer'' [(''../string__class_8h.html#ac80dc6c93952467919eb8c8e75415390'', 1, ''string_get_buffer(struct string_class *str):&#160;string_class.c''), (''../string__class_8c.html#ac80dc6c93952467919eb8c8e75415390'', 1, ''string_get_buffer(struct string_class *str):&#160;string_class.c'')],
     row ''string_5fget_5fcstring'' ''string_get_cstring'' [(''../string__class_8h.html#acbcddcbdf37a4476c1ce27ce101960ed'', 1, ''string_get_cstring(struct string_class *str):&#160;string_class.c''), (''../string__class_8c.html#acbcddcbdf37a4476c1ce27ce101960ed'', 1, ''string_get_cstring(struct string_class *str):&#160;string_class.c'')],
     row ''string_5fget_5fsize'' ''string_get_size'' [(''../string__class_8h.html#a20d0c5ee7a5bc90abdffdb02e837cabf'', 1, ''string_get_size(struct string_class *str):&#160;string_class.c''), (''../string__class_8c.html#a20d0c5ee7a5bc90abdffdb02e837cabf'', 1, ''string_get_size(struct string_class *str):&#160;string_class.c'')],
     row ''string_5fis_5fequal'' ''string_is_equal'' [(''../string__class_8h.html#ae2f56113e3fb9d5b1a9cc11d908767b7'', 1, ''string_is_equal(struct string_class *str, const char *cstring):&#160;string_class.c''), (''../string__class_8c.html#ae2f56113e3fb9d5b1a9cc11d908767b7'', 1, ''string_is_equal(struct string_class *str, const char *cstring):&#160;string_class.c'')],
     row ''string_5fnew'' ''string_new'' [(''../string__class_8h.html#a1077f82572b93979a0a1f374dadd9297'', 1, ''string_new(struct string_class **new_str, const char *init_string):&#160;string_class.c''), (''../string__class_8c.html#a8422c6ac5a273f270c36eaf237c94f04'', 1, ''string_new(struct string_class **new_string, const char *init_string):&#160;string_class.c'')],
     row ''string_5fnew_5fconst'' ''string_new_const'' [(''../string__class_8h.html#a220590225cb85736f21497ea29148fa8'', 1, ''string_new_const(struct string_class **new_string, const char *init_string, size_t size):&#160;string_class.c''), (''../string__class_8c.html#a220590225cb85736f21497ea29148fa8'', 1, ''string_new_const(struct string_class **new_string, const char *init_string, size_t size):&#160;string_class.c'')],
     row ''string_5fprint'' ''string_print'' [(''../string__class_8h.html#a08a45356d772a55b48f2b65be881f237'', 1, ''string_print(struct string_class *str):&#160;string_class.c''), (''../string__class_8c.html#a08a45356d772a55b48f2b65be881f237'', 1, ''string_print(struct string_class *str):&#160;string_class.c'')],
     row ''string_5freplace'' ''string_replace'' [(''../string__class_8h.html#aa7367c5e6085093b8dface7b3fcee178'', 1, ''string_replace(struct string_class *str, const char *substr, const char *replacement):&#160;string_class.c''), (''../string__class_8c.html#aa7367c5e6085093b8dface7b3fcee178'', 1, ''string_replace(struct string_class *str, const char *substr, const char *replacement):&#160;string_class.c'')],
     row ''system_5fdebug_5fdevice_5finit'' ''system_debug_device_init'' [(''../group__system__port__interface.html#ga9feeb70b1abd192deab9df0df68aed92'', 1, ''system_port.h'')],
     row ''system_5fdelay_5fand_5fpoll'' ''system_delay_and_poll'' [(''../system__utils_8h.html#a93d3ad7efae2f983a54ae5264145c9a2'', 1, ''system_delay_and_poll(uint32_t ms):&#160;system_utils.c''), (''../system__utils_8c.html#a73dd8fa42fa897b8c7226cf954e3d965'', 1, ''system_delay_and_poll(sys_time_t ms):&#160;system_utils.c'')],
     row ''system_5fenter_5fcritical_5fsection'' ''system_enter_critical_section'' [(''../group__system__port__interface.html#ga100b86113d1fadedf408aa73f69616d0'', 1, ''system_enter_critical_section(void):&#160;system.c''), (''../group__system__port__interface.html#ga100b86113d1fadedf408aa73f69616d0'', 1, ''system_enter_critical_section(void):&#160;system.c''), (''../group__system__port__interface.html#ga100b86113d1fadedf408aa73f69616d0'', 1, ''system_enter_critical_section(void):&#160;system.c''), (''../group__system__port__interface.html#ga100b86113d1fadedf408aa73f69616d0'', 1, ''system_enter_critical_section(void):&#160;system.c''), (''../group__system__port__interface.html#ga100b86113d1fadedf408aa73f69616d0'', 1, ''system_enter_critical_section(void):&#160;system.c'')],
     row ''system_5fget_5fcik'' ''system_get_cik'' [(''../group__system__port__interface.html#ga694b8756f4eac9935d58923c9652f8e8'', 1, ''system_get_cik(char *cik, size_t len):&#160;system.c''), (''../group__system__port__interface.html#ga694b8756f4eac9935d58923c9652f8e8'', 1, ''system_get_cik(char *cik, size_t len):&#160;system.c''), (''../group__system__port__interface.html#ga694b8756f4eac9935d58923c9652f8e8'', 1, ''system_get_cik(char *cik, size_t len):&#160;system.c''), (''../group__system__port__interface.html#ga694b8756f4eac9935d58923c9652f8e8'', 1, ''system_get_cik(char *cik, size_t len):&#160;system.c''), (''../group__system__port__interface.html#ga694b8756f4eac9935d58923c9652f8e8'', 1, ''system_get_cik(char *cik, size_t len):&#160;system.c'')],
     row ''system_5fget_5fdevices'' ''system_get_devices'' [(''../system__utils_8h.html#a540c8e80ff1175ea1b540a12b8e57dc0'', 1, ''system_get_devices(void):&#160;system_utils.c''), (''../system__utils_8c.html#a540c8e80ff1175ea1b540a12b8e57dc0'', 1, ''system_get_devices(void):&#160;system_utils.c'')],
     row ''system_5fget_5fdiff_5ftime'' ''system_get_diff_time'' [(''../system__utils_8h.html#ac2c7bbb10ec79feaeaa01b7a128beb36'', 1, ''system_get_diff_time(sys_time_t start):&#160;system_utils.c''), (''../system__utils_8c.html#ac2c7bbb10ec79feaeaa01b7a128beb36'', 1, ''system_get_diff_time(sys_time_t start):&#160;system_utils.c'')],
     row ''system_5fget_5fsn'' ''system_get_sn'' [(''../group__system__port__interface.html#gacd4ffaeda19468b998d390451652133a'', 1, ''system_get_sn(void):&#160;system.c''), (''../group__system__port__interface.html#gacd4ffaeda19468b998d390451652133a'', 1, ''system_get_sn(void):&#160;system.c''), (''../group__system__port__interface.html#gacd4ffaeda19468b998d390451652133a'', 1, ''system_get_sn(void):&#160;system.c''), (''../group__system__port__interface.html#gacd4ffaeda19468b998d390451652133a'', 1, ''system_get_sn(void):&#160;system.c''), (''../group__system__port__interface.html#gacd4ffaeda19468b998d390451652133a'', 1, ''system_get_sn(void):&#160;system.c'')],
     row ''system_5fget_5ftime'' ''system_get_time'' [(''../group__system__port__interface.html#ga48c1a60a65fe4aebb0821b338de0c683'', 1, ''system_get_time(void):&#160;system.c''), (''../group__system__port__interface.html#ga48c1a60a65fe4aebb0821b338de0c683'', 1, ''system_get_time(void):&#160;system.c''), (''../group__system__port__interface.html#ga48c1a60a65fe4aebb0821b338de0c683'', 1, ''system_get_time(void):&#160;system.c''), (''../group__system__port__interface.html#ga48c1a60a65fe4aebb0821b338de0c683'', 1, ''system_get_time(void):&#160;system.c''), (''../group__system__port__interface.html#ga48c1a60a65fe4aebb0821b338de0c683'', 1, ''system_get_time(void):&#160;system.c'')],
     row ''system_5finit'' ''system_init'' [(''../group__system__port__interface.html#gad4c2a0f4911bc247f3629e4bc30d1ce3'', 1, ''system_init(void):&#160;system.c''), (''../group__system__port__interface.html#gad4c2a0f4911bc247f3629e4bc30d1ce3'', 1, ''system_init(void):&#160;system.c''), (''../group__system__port__interface.html#gad4c2a0f4911bc247f3629e4bc30d1ce3'', 1, ''system_init(void):&#160;system.c''), (''../group__system__port__interface.html#gad4c2a0f4911bc247f3629e4bc30d1ce3'', 1, ''system_init(void):&#160;system.c''), (''../group__system__port__interface.html#gad4c2a0f4911bc247f3629e4bc30d1ce3'', 1, ''system_init(void):&#160;system.c'')],
     row ''system_5fis_5fcik_5fformat_5fvalid'' ''system_is_cik_format_valid'' [(''../system__utils_8h.html#a2e391d6625b10de37e81aed4995e0302'', 1, ''system_is_cik_format_valid(const char *cik):&#160;system_utils.c''), (''../system__utils_8c.html#a2e391d6625b10de37e81aed4995e0302'', 1, ''system_is_cik_format_valid(const char *cik):&#160;system_utils.c'')],
     row ''system_5fleave_5fcritical_5fsection'' ''system_leave_critical_section'' [(''../group__system__port__interface.html#ga89525ce656ca48f2506477d69c538794'', 1, ''system_leave_critical_section(void):&#160;system.c''), (''../group__system__port__interface.html#ga89525ce656ca48f2506477d69c538794'', 1, ''system_leave_critical_section(void):&#160;system.c''), (''../group__system__port__interface.html#ga89525ce656ca48f2506477d69c538794'', 1, ''system_leave_critical_section(void):&#160;system.c''), (''../group__system__port__interface.html#ga89525ce656ca48f2506477d69c538794'', 1, ''system_leave_critical_section(void):&#160;system.c''), (''../group__system__port__interface.html#ga89525ce656ca48f2506477d69c538794'', 1, ''system_leave_critical_section(void):&#160;system.c'')],
     row ''system_5fmutex_5fcreate'' ''system_mutex_create'' [(''../group__thread__port__interface.html#gab37a0136390eff5aaf2bd8d6650f4532'', 1, ''system_mutex_create(system_mutex_t *mutex):&#160;mutex.c''), (''../group__thread__port__interface.html#gab37a0136390eff5aaf2bd8d6650f4532'', 1, ''system_mutex_create(system_mutex_t *mutex):&#160;mutex.c''), (''../group__thread__port__interface.html#gab37a0136390eff5aaf2bd8d6650f4532'', 1, ''system_mutex_create(system_mutex_t *mutex):&#160;mutex.c''), (''../group__thread__port__interface.html#gab37a0136390eff5aaf2bd8d6650f4532'', 1, ''system_mutex_create(system_mutex_t *mutex):&#160;mutex.c''), (''../group__thread__port__interface.html#gab37a0136390eff5aaf2bd8d6650f4532'', 1, ''system_mutex_create(system_mutex_t *mutex):&#160;mutex.c'')],
     row ''system_5fmutex_5fdestroy'' ''system_mutex_destroy'' [(''../group__thread__port__interface.html#ga5ff76e122b93e2e9aa258f49eff037b4'', 1, ''system_mutex_destroy(system_mutex_t mutex):&#160;mutex.c''), (''../group__thread__port__interface.html#ga5ff76e122b93e2e9aa258f49eff037b4'', 1, ''system_mutex_destroy(system_mutex_t mutex):&#160;mutex.c''), (''../group__thread__port__interface.html#ga5ff76e122b93e2e9aa258f49eff037b4'', 1, ''system_mutex_destroy(system_mutex_t mutex):&#160;mutex.c''), (''../group__thread__port__interface.html#ga5ff76e122b93e2e9aa258f49eff037b4'', 1, ''system_mutex_destroy(system_mutex_t mutex):&#160;mutex.c''), (''../group__thread__port__interface.html#ga5ff76e122b93e2e9aa258f49eff037b4'', 1, ''system_mutex_destroy(system_mutex_t mutex):&#160;mutex.c'')],
     row ''system_5fmutex_5flock'' ''system_mutex_lock'' [(''../group__thread__port__interface.html#ga7f59d2e926f019ad955ccba7d87c3e4f'', 1, ''system_mutex_lock(system_mutex_t mutex):&#160;mutex.c''), (''../group__thread__port__interface.html#ga7f59d2e926f019ad955ccba7d87c3e4f'', 1, ''system_mutex_lock(system_mutex_t mutex):&#160;mutex.c''), (''../group__thread__port__interface.html#ga7f59d2e926f019ad955ccba7d87c3e4f'', 1, ''system_mutex_lock(system_mutex_t mutex):&#160;mutex.c''), (''../group__thread__port__interface.html#ga7f59d2e926f019ad955ccba7d87c3e4f'', 1, ''system_mutex_lock(system_mutex_t mutex):&#160;mutex.c''), (''../group__thread__port__interface.html#ga7f59d2e926f019ad955ccba7d87c3e4f'', 1, ''system_mutex_lock(system_mutex_t mutex):&#160;mutex.c'')],
     row ''system_5fmutex_5ftrylock'' ''system_mutex_trylock'' [(''../group__thread__port__interface.html#ga53bc3277f7f3474be3e08dd3a12d09a5'', 1, ''system_mutex_trylock(system_mutex_t mutex, uint8_t *acquired):&#160;mutex.c''), (''../group__thread__port__interface.html#ga53bc3277f7f3474be3e08dd3a12d09a5'', 1, ''system_mutex_trylock(system_mutex_t mutex, uint8_t *acquired):&#160;mutex.c''), (''../group__thread__port__interface.html#ga53bc3277f7f3474be3e08dd3a12d09a5'', 1, ''system_mutex_trylock(system_mutex_t mutex, uint8_t *acquired):&#160;mutex.c''), (''../group__thread__port__interface.html#ga53bc3277f7f3474be3e08dd3a12d09a5'', 1, ''system_mutex_trylock(system_mutex_t mutex, uint8_t *acquired):&#160;mutex.c''), (''../group__thread__port__interface.html#ga53bc3277f7f3474be3e08dd3a12d09a5'', 1, ''system_mutex_trylock(system_mutex_t mutex, uint8_t *acquired):&#160;mutex.c'')],
     row ''system_5fmutex_5funlock'' ''system_mutex_unlock'' [(''../group__thread__port__interface.html#ga3f1ab376de20ab7bf067703dea235bf5'', 1, ''system_mutex_unlock(system_mutex_t mutex):&#160;mutex.c''), (''../group__thread__port__interface.html#ga3f1ab376de20ab7bf067703dea235bf5'', 1, ''system_mutex_unlock(system_mutex_t mutex):&#160;mutex.c''), (''../group__thread__port__interface.html#ga3f1ab376de20ab7bf067703dea235bf5'', 1, ''system_mutex_unlock(system_mutex_t mutex):&#160;mutex.c''), (''../group__thread__port__interface.html#ga3f1ab376de20ab7bf067703dea235bf5'', 1, ''system_mutex_unlock(system_mutex_t mutex):&#160;mutex.c''), (''../group__thread__port__interface.html#ga3f1ab376de20ab7bf067703dea235bf5'', 1, ''system_mutex_unlock(system_mutex_t mutex):&#160;mutex.c'')],
     row ''system_5fpoll'' ''system_poll'' [(''../system__utils_8h.html#abd723470d3686000632614e2f2c0fd80'', 1, ''system_poll(sys_time_t ms):&#160;system_utils.c''), (''../system__utils_8c.html#abd723470d3686000632614e2f2c0fd80'', 1, ''system_poll(sys_time_t ms):&#160;system_utils.c'')],
     row ''system_5fregister_5fdebug_5fdevice'' ''system_register_debug_device'' [(''../system__utils_8h.html#a4ef9612603317f8f3f70734534557e00'', 1, ''system_register_debug_device(struct sdev *debug):&#160;system_utils.c''), (''../system__utils_8c.html#a4ef9612603317f8f3f70734534557e00'', 1, ''system_register_debug_device(struct sdev *debug):&#160;system_utils.c'')],
     row ''system_5fregister_5fnetwork_5fll_5fdevice'' ''system_register_network_ll_device'' [(''../system__utils_8h.html#a26f991f2639d2366132d2afca47bcd0b'', 1, ''system_register_network_ll_device(struct link_layer_if *ll_if):&#160;system_utils.c''), (''../system__utils_8c.html#a26f991f2639d2366132d2afca47bcd0b'', 1, ''system_register_network_ll_device(struct link_layer_if *ll_if):&#160;system_utils.c'')],
     row ''system_5freset'' ''system_reset'' [(''../group__system__port__interface.html#gaa6b8b52cd91774ae02c2b293d982a646'', 1, ''system_reset(void):&#160;system.c''), (''../group__system__port__interface.html#gaa6b8b52cd91774ae02c2b293d982a646'', 1, ''system_reset(void):&#160;system.c''), (''../group__system__port__interface.html#gaa6b8b52cd91774ae02c2b293d982a646'', 1, ''system_reset(void):&#160;system.c''), (''../group__system__port__interface.html#gaa6b8b52cd91774ae02c2b293d982a646'', 1, ''system_reset(void):&#160;system.c''), (''../group__system__port__interface.html#gaa6b8b52cd91774ae02c2b293d982a646'', 1, ''system_reset(void):&#160;system.c'')],
     row ''system_5fset_5fcik'' ''system_set_cik'' [(''../group__system__port__interface.html#ga7ecf46987ea3260b0e54fb6e5765bc7e'', 1, ''system_set_cik(const char *cik):&#160;system.c''), (''../group__system__port__interface.html#ga7ecf46987ea3260b0e54fb6e5765bc7e'', 1, ''system_set_cik(const char *cik):&#160;system.c''), (''../group__system__port__interface.html#ga7ecf46987ea3260b0e54fb6e5765bc7e'', 1, ''system_set_cik(const char *cik):&#160;system.c''), (''../group__system__port__interface.html#ga7ecf46987ea3260b0e54fb6e5765bc7e'', 1, ''system_set_cik(const char *cik):&#160;system.c''), (''../group__system__port__interface.html#ga7ecf46987ea3260b0e54fb6e5765bc7e'', 1, ''system_set_cik(const char *cik):&#160;system.c'')],
     row ''system_5fsleep_5fms'' ''system_sleep_ms'' [(''../group__system__port__interface.html#ga06f6bc506ca833208f11fa9bf4c18c3f'', 1, ''system_sleep_ms(timer_data_type delay_ms):&#160;system.c''), (''../group__system__port__interface.html#ga06f6bc506ca833208f11fa9bf4c18c3f'', 1, ''system_sleep_ms(timer_data_type delay_ms):&#160;system.c''), (''../group__system__port__interface.html#ga06f6bc506ca833208f11fa9bf4c18c3f'', 1, ''system_sleep_ms(timer_data_type delay_ms):&#160;system.c''), (''../group__system__port__interface.html#ga06f6bc506ca833208f11fa9bf4c18c3f'', 1, ''system_sleep_ms(timer_data_type delay_ms):&#160;system.c''), (''../group__system__port__interface.html#ga06f6bc506ca833208f11fa9bf4c18c3f'', 1, ''system_sleep_ms(timer_data_type ms):&#160;system.c'')],
     row ''system_5fthread_5fcreate'' ''system_thread_create'' [(''../group__thread__port__interface.html#ga46f8aaa2375b466fc565c9459ee43556'', 1, ''system_thread_create(system_thread_t *thread, const system_thread_attr_t *attr, void *(*start_routine)(void *), void *param):&#160;thread.c''), (''../group__thread__port__interface.html#ga46f8aaa2375b466fc565c9459ee43556'', 1, ''system_thread_create(system_thread_t *thread, const system_thread_attr_t *attr, void *(*start_routine)(void *), void *param):&#160;thread.c''), (''../group__thread__port__interface.html#ga46f8aaa2375b466fc565c9459ee43556'', 1, ''system_thread_create(system_thread_t *thread, const system_thread_attr_t *attr, void *(*start_routine)(void *), void *param):&#160;thread.c''), (''../group__thread__port__interface.html#ga46f8aaa2375b466fc565c9459ee43556'', 1, ''system_thread_create(system_thread_t *thread, const system_thread_attr_t *attr, void *(*start_routine)(void *), void *param):&#160;thread.c''), (''../group__thread__port__interface.html#ga46f8aaa2375b466fc565c9459ee43556'', 1, ''system_thread_create(system_thread_t *thread, const system_thread_attr_t *attr, void *(*start_routine)(void *), void *param):&#160;thread.c'')]]"

definition search_functions_10 :: "search_entry list" where
  "search_functions_10 =
    [row ''tcp_5fbuffer_5fdelete'' ''tcp_buffer_delete'' [(''../tcp__buffer_8h.html#a6d191aca3ca006d60c27247bc9c734f1'', 1, ''tcp_buffer_delete(struct tcp_buffer_class *tcpbuf):&#160;tcp_buffer.c''), (''../tcp__buffer_8c.html#a6d191aca3ca006d60c27247bc9c734f1'', 1, ''tcp_buffer_delete(struct tcp_buffer_class *tcpbuf):&#160;tcp_buffer.c'')],
     row ''tcp_5fbuffer_5fget_5ffree'' ''tcp_buffer_get_free'' [(''../tcp__buffer_8h.html#a7489d7d4726c351c19d2fd50ab13847c'', 1, ''tcp_buffer_get_free(struct tcp_buffer_class *tcp_buffer_obj):&#160;tcp_buffer.c''), (''../tcp__buffer_8c.html#a7489d7d4726c351c19d2fd50ab13847c'', 1, ''tcp_buffer_get_free(struct tcp_buffer_class *tcp_buffer_obj):&#160;tcp_buffer.c'')],
     row ''tcp_5fbuffer_5fget_5fused'' ''tcp_buffer_get_used'' [(''../tcp__buffer_8h.html#a6f61fe92245308031949dcc67e5720ba'', 1, ''tcp_buffer_get_used(struct tcp_buffer_class *tcp_buffer_obj):&#160;tcp_buffer.c''), (''../tcp__buffer_8c.html#a6f61fe92245308031949dcc67e5720ba'', 1, ''tcp_buffer_get_used(struct tcp_buffer_class *tcp_buffer_obj):&#160;tcp_buffer.c'')],
     row ''tcp_5fbuffer_5fnew'' ''tcp_buffer_new'' [(''../tcp__buffer_8h.html#a4d516969837473d35f3a4351ec99b215'', 1, ''tcp_buffer_new(struct tcp_buffer_class **tcpbuf, size_t size):&#160;tcp_buffer.c''), (''../tcp__buffer_8c.html#a4d516969837473d35f3a4351ec99b215'', 1, ''tcp_buffer_new(struct tcp_buffer_class **tcpbuf, size_t size):&#160;tcp_buffer.c'')],
     row ''tcp_5fbuffer_5fpop'' ''tcp_buffer_pop'' [(''../tcp__buffer_8h.html#a0dd4511ed1c91af31789bca10d7c35e8'', 1, ''tcp_buffer_pop(struct tcp_buffer_class *tcp_buffer_obj, char *buf, size_t max_size):&#160;tcp_buffer.c''), (''../tcp__buffer_8c.html#a0dd4511ed1c91af31789bca10d7c35e8'', 1, ''tcp_buffer_pop(struct tcp_buffer_class *tcp_buffer_obj, char *buf, size_t max_size):&#160;tcp_buffer.c'')],
     row ''tcp_5fbuffer_5fpush'' ''tcp_buffer_push'' [(''../tcp__buffer_8h.html#ae7f0eb5e342504e94626fa9e87c8e95f'', 1, ''tcp_buffer_push(struct tcp_buffer_class *tcp_buffer_obj, char *buf, size_t size):&#160;tcp_buffer.c''), (''../tcp__buffer_8c.html#ae7f0eb5e342504e94626fa9e87c8e95f'', 1, ''tcp_buffer_push(struct tcp_buffer_class *tcp_buffer_obj, char *buf, size_t size):&#160;tcp_buffer.c'')],
     row ''ts_5fcbuffer_5fdelete'' ''ts_cbuffer_delete'' [(''../ts__cbuffer_8h.html#ad6e9c1cd3d49fa374e4f26857df6108f'', 1, ''ts_cbuffer.c'')],
     row ''ts_5fcbuffer_5fget_5ffree'' ''ts_cbuffer_get_free'' [(''../ts__cbuffer_8h.html#a0971fdc8382b814be46a2cd60931aaa1'', 1, ''ts_cbuffer.c'')],
     row ''ts_5fcbuffer_5fget_5fused'' ''ts_cbuffer_get_used'' [(''../ts__cbuffer_8h.html#a5e002c83d58fddbb5268235f664e3b56'', 1, ''ts_cbuffer.c'')],
     row ''ts_5fcbuffer_5fnew'' ''ts_cbuffer_new'' [(''../ts__cbuffer_8h.html#a86dcbd1d167c3f979d08f7948fca7ccc'', 1, ''ts_cbuffer.c'')],
     row ''ts_5fcbuffer_5fpop'' ''ts_cbuffer_pop'' [(''../ts__cbuffer_8h.html#a9ae4a1535f5e7495d5530ccbd0f97488'', 1, ''ts_cbuffer.c'')],
     row ''ts_5fcbuffer_5fpush'' ''ts_cbuffer_push'' [(''../ts__cbuffer_8h.html#a6773a1abe116f2db101429fbe0eeb897'', 1, ''ts_cbuffer.c'')]]"

definition pages_classes :: "search_entry list list" where
  "pages_classes = [search_classes_0, search_classes_1, search_classes_2, search_classes_3, search_classes_4, search_classes_5, search_classes_6, search_classes_7, search_classes_8, search_classes_9, search_classes_a, search_classes_b, search_classes_c, search_classes_d, search_classes_e, search_classes_f, search_classes_10]"

definition pages_files :: "search_entry list list" where
  "pages_files = [search_files_0, search_files_1, search_files_2, search_files_3, search_files_4, search_files_5, search_files_6, search_files_7, search_files_8, search_files_9, search_files_a, search_files_b, search_files_c, search_files_d, search_files_e]"

definition pages_functions :: "search_entry list list" where
  "pages_functions = [search_functions_0, search_functions_1, search_functions_2, search_functions_3, search_functions_4, search_functions_5, search_functions_6, search_functions_7, search_functions_8, search_functions_9, search_functions_a, search_functions_b, search_functions_c, search_functions_d, search_functions_e, search_functions_f, search_functions_10]"

end
