(* ===== verification/SearchPages3.thy ===== *)
theory SearchPages3
  imports SearchRow
begin

text \<open>
  Generated data of the result pages, \<open>search/variables_0.js\<close> to \<open>search/pages_4.js\<close>: each
  assigns the entries of its page to the variable \<open>searchData\<close>.
\<close>

definition search_variables_0 :: "search_entry list" where
  "search_variables_0 =
    [row ''accept'' ''accept'' [(''../structnet__dev__operations.html#aa7117040725691ab877bd629c4f133c1'', 1, ''net_dev_operations'')],
     row ''activate'' ''activate'' [(''../structexo__request__args.html#af18b6cbdfa28e056879ee28eb8d8149b'', 1, ''exo_request_args'')],
     row ''alias'' ''alias'' [(''../structexo__request__args.html#aaed170b373434a254ad199548099dbf4'', 1, ''exo_request_args'')],
     row ''already_5fstarted'' ''already_started'' [(''../structnet__socket.html#a43d206eab083ac59bffd45c34acb5033'', 1, ''net_socket'')],
     row ''app_5ftype'' ''app_type'' [(''../structexo__request__args.html#aaf50078b644d9307d8ca37cd15112b33'', 1, ''exo_request_args'')]]"

definition search_variables_1 :: "search_entry list" where
  "search_variables_1 =
    [row ''callback'' ''callback'' [(''../structexo__request__args.html#a91fbc400a7e28900bc94fcf961fcdeed'', 1, ''exo_request_args'')],
     row ''cik'' ''cik'' [(''../structexo__request__args.html#ac6b9371942e1c55c4212d6fd8fde8e6e'', 1, ''exo_request_args'')],
     row ''clb_5fparams'' ''clb_params'' [(''../structexo__request__args.html#ae8a014037216c07fdeb05f6554d74b90'', 1, ''exo_request_args'')],
     row ''clear_5fsocket'' ''clear_socket'' [(''../structprotocol__client__ops.html#ad542416a5c24912de4b7e00076cfcb90'', 1, ''protocol_client_ops'')],
     row ''close'' ''close'' [(''../structnet__dev__operations.html#a9fd6a9817d88fd545642a4c710c96c16'', 1, ''net_dev_operations::close()''), (''../structprotocol__client__ops.html#ab797554943fe45937cbfbcecf826081a'', 1, ''protocol_client_ops::close()'')],
     row ''config'' ''config'' [(''../structnet__dev__operations.html#a17c6796bf622cedaeadf189a7b4b2bc8'', 1, ''net_dev_operations'')],
     row ''connect'' ''connect'' [(''../structnet__dev__operations.html#a017ea21464813e54d35f40cc2ac398ef'', 1, ''net_dev_operations'')],
     row ''connect_5fretries'' ''connect_retries'' [(''../structtransmission__config__class.html#a43911be81d3678ac37486ed5d9b4e9e6'', 1, ''transmission_config_class'')],
     row ''connect_5ftimeout'' ''connect_timeout'' [(''../structtransmission__config__class.html#a8b5e13338eb27c8e49c828e7115cc3d7'', 1, ''transmission_config_class'')],
     row ''content'' ''content'' [(''../structexo__request__args.html#a84bce40bef29fd12665380bda77dda6e'', 1, ''exo_request_args'')],
     row ''ctx'' ''ctx'' [(''../structprotocol__client__class.html#ac5c44b3ebb931ee9cdcdb15c5e20f3ab'', 1, ''protocol_client_class'')]]"

definition search_variables_2 :: "search_entry list" where
  "search_variables_2 =
    [row ''deinit'' ''deinit'' [(''../structnet__dev__operations.html#a317590ba68fea3e35f7f61c37536e106'', 1, ''net_dev_operations'')]]"

definition search_variables_3 :: "search_entry list" where
  "search_variables_3 =
    [row ''exo'' ''exo'' [(''../structexo__request__args.html#a9dfc5d85d98c1543f58c4c4580d01089'', 1, ''exo_request_args'')],
     row ''exosite_5fhttp_5fapi'' ''exosite_http_api'' [(''../client__config_8c.html#a960fe16594362c852a507668b96820c9'', 1, ''client_config.c'')]]"

definition search_variables_4 :: "search_entry list" where
  "search_variables_4 =
    [row ''forced_5factivation'' ''forced_activation'' [(''../structtransmission__config__class.html#a2ff28d350c91e09b08be9f0239966b52'', 1, ''transmission_config_class'')]]"

definition search_variables_5 :: "search_entry list" where
  "search_variables_5 =
    [row ''get_5fresponse_5fstatus'' ''get_response_status'' [(''../structprotocol__client__ops.html#a5f5e7d71b6f6a3e212a896b32f31c022'', 1, ''protocol_client_ops'')],
     row ''get_5ftimestamp'' ''get_timestamp'' [(''../structexo__request__args.html#a744eebbd504414a08d7e5fa37636791f'', 1, ''exo_request_args'')],
     row ''global_5fheap_5fconfig'' ''global_heap_config'' [(''../client__config_8c.html#ab06cee2ba0d76c15765a6e4e500a9b9c'', 1, ''client_config.c'')]]"

definition search_variables_6 :: "search_entry list" where
  "search_variables_6 =
    [row ''http_5fconfig'' ''http_config'' [(''../client__config_8c.html#a9931f2159d63c548c60d30ff1aa0c89f'', 1, ''client_config.c'')]]"

definition search_variables_7 :: "search_entry list" where
  "search_variables_7 =
    [row ''id'' ''id'' [(''../structexo__request__args.html#a809cfd75f903faaaa31c9cd2abbae047'', 1, ''exo_request_args'')]]"

definition search_variables_8 :: "search_entry list" where
  "search_variables_8 =
    [row ''lookup'' ''lookup'' [(''../structnet__dev__operations.html#a5ce9f3830007182982d99c6bd79411d4'', 1, ''net_dev_operations'')]]"

definition search_variables_9 :: "search_entry list" where
  "search_variables_9 =
    [row ''max_5frequest_5fqueue_5fsize'' ''max_request_queue_size'' [(''../structtransmission__config__class.html#a1064b8324df5a3ed09e97ebbee77db20'', 1, ''transmission_config_class'')],
     row ''message_5fid'' ''message_id'' [(''../structexo__request__args.html#a10da3940404c5ee12faade87e95fcd97'', 1, ''exo_request_args'')],
     row ''method'' ''method'' [(''../structexo__request__args.html#a4ab12b08060394e54983ed7167bb8557'', 1, ''exo_request_args'')],
     row ''model'' ''model'' [(''../structexo__request__args.html#a96a70e697800a855b1ec9bab6c255f5e'', 1, ''exo_request_args'')]]"

definition search_variables_a :: "search_entry list" where
  "search_variables_a =
    [row ''name'' ''name'' [(''../struct__system__thread__attr__t.html#a379a3cbfe3eeb32b51bb6bae90edf984'', 1, ''_system_thread_attr_t'')],
     row ''net_5fif'' ''net_if'' [(''../structprotocol__client__class.html#a283f3cb42e52f2a7b0d3a2db84255e0b'', 1, ''protocol_client_class'')],
     row ''next'' ''next'' [(''../structsdev.html#afe3305accaef4765a7c0ad1cadeede34'', 1, ''sdev'')],
     row ''no_5ftype'' ''no_type'' [(''../structexo__request__args.html#a3dceec3a607ab846872017d48f835c32'', 1, ''exo_request_args'')]]"

definition search_variables_b :: "search_entry list" where
  "search_variables_b =
    [row ''ops'' ''ops'' [(''../structnet__socket.html#a36141c060ffc561b2b90377984e4ff54'', 1, ''net_socket::ops()''), (''../structprotocol__client__class.html#af31fae5c6b03ff0d746d0bc26e0947a2'', 1, ''protocol_client_class::ops()'')]]"

definition search_variables_c :: "search_entry list" where
  "search_variables_c =
    [row ''parallel_5frequest_5flimit'' ''parallel_request_limit'' [(''../structtransmission__config__class.html#a330f2b50ce5b3c811915fdadba95d37c'', 1, ''transmission_config_class'')],
     row ''priority'' ''priority'' [(''../struct__system__thread__attr__t.html#a4475674eab6377892c6f1b6204d9979d'', 1, ''_system_thread_attr_t'')],
     row ''protocol_5fclient_5fsm_5fqueue_5fsize'' ''protocol_client_sm_queue_size'' [(''../structtransmission__config__class.html#a4bb3b61887b537ee850a6f5339169444'', 1, ''transmission_config_class'')],
     row ''protocol_5ftype'' ''protocol_type'' [(''../structserver__data__class.html#aed84f15d659cb6af80960fdc8123a44f'', 1, ''server_data_class'')]]"

definition search_variables_d :: "search_entry list" where
  "search_variables_d =
    [row ''read'' ''read'' [(''../structsdev.html#a43f8fd29f5d3438cca7244e291461289'', 1, ''sdev::read()''), (''../structexo__request__args.html#a3c7f6045f55276f7026f17e8b2bf6c45'', 1, ''exo_request_args::read()'')],
     row ''recv'' ''recv'' [(''../structnet__dev__operations.html#aca9b3c22e5ecdf5e0458a18dd6f07562'', 1, ''net_dev_operations'')],
     row ''recv_5fresponse'' ''recv_response'' [(''../structprotocol__client__ops.html#aa6e33523f5190984e6a898eb90730e4e'', 1, ''protocol_client_ops'')],
     row ''request_5fdelete'' ''request_delete'' [(''../structserver__api__request__ops.html#aeb505fecc5a310ce1873bcd06471d9af'', 1, ''server_api_request_ops'')],
     row ''request_5fnew'' ''request_new'' [(''../structserver__api__request__ops.html#abc1e5c854aa6738aa1d17a299a1b35aa'', 1, ''server_api_request_ops'')],
     row ''response_5fcallback'' ''response_callback'' [(''../structserver__api__request__ops.html#ab2fbf58614c5278e10fcd67bd174765e'', 1, ''server_api_request_ops'')],
     row ''rtc_5fperiod'' ''rtc_period'' [(''../structperiodic__config__class.html#ac68231502812b0106d0e03ec2323bb57'', 1, ''periodic_config_class'')]]"

definition search_variables_e :: "search_entry list" where
  "search_variables_e =
    [row ''security'' ''security'' [(''../structtransmission__config__class.html#af09ab7bf8d3101f310c13c0072b5f02b'', 1, ''transmission_config_class::security()''), (''../structserver__data__class.html#afc70c73843c63c3c6a9195acb5e3342a'', 1, ''server_data_class::security()'')],
     row ''send'' ''send'' [(''../structnet__dev__operations.html#ae2a48d1cf3cb1d17097cb6a26de7fe78'', 1, ''net_dev_operations'')],
     row ''send_5frequest'' ''send_request'' [(''../structprotocol__client__ops.html#ac4c931fa75636fc811aecd5ca3139b00'', 1, ''protocol_client_ops'')],
     row ''server_5fapi'' ''server_api'' [(''../structexo__request__args.html#a0b31a3b287e3738ee18c5dde21c64b3b'', 1, ''exo_request_args'')],
     row ''server_5fdata_5fhttp'' ''server_data_http'' [(''../client__config_8c.html#a454f969d9aab3198f064d6c48d121570'', 1, ''client_config.c'')],
     row ''server_5fname'' ''server_name'' [(''../structserver__data__class.html#aece1f4dd418bd5d83db629a66a2153c3'', 1, ''server_data_class'')],
     row ''server_5fport'' ''server_port'' [(''../structserver__data__class.html#aea2bd70a53925d45c2d7794c4c3e23c6'', 1, ''server_data_class'')],
     row ''server_5fsocket'' ''server_socket'' [(''../structnet__dev__operations.html#a936778ff19ef0234cc8b2b58dbdeb68e'', 1, ''net_dev_operations'')],
     row ''set_5fidentity'' ''set_identity'' [(''../structnet__dev__operations.html#a9b673fe73e9041e3ba033fe9792fd998'', 1, ''net_dev_operations'')],
     row ''set_5fsocket'' ''set_socket'' [(''../structprotocol__client__ops.html#adf92c0c94fe4567247e1e78936586614'', 1, ''protocol_client_ops'')],
     row ''sm_5fperiod'' ''sm_period'' [(''../structperiodic__config__class.html#a4b07310b4b4491059444259661d8876b'', 1, ''periodic_config_class'')],
     row ''sn'' ''sn'' [(''../structexo__request__args.html#ac74ac39218e72f4c88652adbc00c65f2'', 1, ''exo_request_args'')],
     row ''socket'' ''socket'' [(''../structnet__dev__operations.html#a2f5b1d769acebb45d85d712de02160c3'', 1, ''net_dev_operations::socket()''), (''../structprotocol__client__class.html#aca8a898eaf07a43dee8627d50e1cf1ba'', 1, ''protocol_client_class::socket()'')],
     row ''sockfd'' ''sockfd'' [(''../structnet__socket.html#ac89a11feb66f89678637ad3c729344e2'', 1, ''net_socket'')],
     row ''stack_5floc'' ''stack_loc'' [(''../struct__system__thread__attr__t.html#a067e5da622dab67495c54084c3a48062'', 1, ''_system_thread_attr_t'')],
     row ''stack_5fsize'' ''stack_size'' [(''../struct__system__thread__attr__t.html#ab130225c1ecefc38938759d140c63cd3'', 1, ''_system_thread_attr_t'')],
     row ''subscribe'' ''subscribe'' [(''../structexo__request__args.html#a853be85f06f87735b01a3ff715d95e3a'', 1, ''exo_request_args'')]]"

definition search_variables_f :: "search_entry list" where
  "search_variables_f =
    [row ''timeout'' ''timeout'' [(''../structexo__request__args.html#a6271c4da956daa9e384105567950020e'', 1, ''exo_request_args'')],
     row ''timestamp'' ''timestamp'' [(''../structexo__request__args.html#a338fd2aa5bed723d9baf705ec8cc2bb5'', 1, ''exo_request_args'')],
     row ''transmission_5fretries'' ''transmission_retries'' [(''../structtransmission__config__class.html#af4151a8902591e0f5b9f8507b4aaae7a'', 1, ''transmission_config_class'')],
     row ''transmission_5ftimeout'' ''transmission_timeout'' [(''../structtransmission__config__class.html#a0dbb57a5d1895dbe2293f1d24a3f93d4'', 1, ''transmission_config_class'')]]"

definition search_variables_10 :: "search_entry list" where
  "search_variables_10 =
    [row ''value'' ''value'' [(''../structexo__request__args.html#a7f2d771a96695e8eeb0d41dae29d2909'', 1, ''exo_request_args'')],
     row ''vendor'' ''vendor'' [(''../structexo__request__args.html#a3567e0e7dee740a58073da31dec9c0e9'', 1, ''exo_request_args'')]]"

definition search_variables_11 :: "search_entry list" where
  "search_variables_11 =
    [row ''write'' ''write'' [(''../structsdev.html#af3db0101f756546c78423d450da90f89'', 1, ''sdev::write()''), (''../structexo__request__args.html#a0504ddc0add39895e2636f86f5b072e2'', 1, ''exo_request_args::write()'')]]"

definition search_typedefs_0 :: "search_entry list" where
  "search_typedefs_0 =
    [row ''deb_5fdebug_5fcallback'' ''deb_debug_callback'' [(''../debug_8h.html#afbe515301424cc36a7bfe6435c280ea7'', 1, ''debug.h'')],
     row ''deb_5flog_5ffunction'' ''deb_log_function'' [(''../debug_8h.html#a53cb8c01d6181c264aa25cc37f269ac8'', 1, ''debug.h'')],
     row ''debug_5fcallback'' ''debug_callback'' [(''../group___exosite___a_p_i.html#ga24eb564aea3e0bf7f15b5da5af6bb804'', 1, ''exosite_api.h'')]]"

definition search_typedefs_1 :: "search_entry list" where
  "search_typedefs_1 =
    [row ''exosite_5fmalloc_5ffunc'' ''exosite_malloc_func'' [(''../group___exosite___a_p_i.html#ga6518b4e7bb4925ee525e4fa43debc85d'', 1, ''exosite_api.h'')],
     row ''exosite_5fon_5fchange'' ''exosite_on_change'' [(''../group___exosite___a_p_i.html#ga9d01bddd12fb83b8c9cb185a2662e8be'', 1, ''exosite_api.h'')],
     row ''exosite_5fon_5fread'' ''exosite_on_read'' [(''../group___exosite___a_p_i.html#ga089a989dc1285a3594501aef49f1dd6a'', 1, ''exosite_api.h'')],
     row ''exosite_5fon_5fwrite'' ''exosite_on_write'' [(''../group___exosite___a_p_i.html#ga84b7eddedcd3e64923683b3f3ce8dbc7'', 1, ''exosite_api.h'')]]"

definition search_typedefs_2 :: "search_entry list" where
  "search_typedefs_2 =
    [row ''log_5ffunction'' ''log_function'' [(''../group___exosite___a_p_i.html#ga9693b45f5a9d30fdce647d2c3a379f44'', 1, ''exosite_api.h'')]]"

definition search_typedefs_3 :: "search_entry list" where
  "search_typedefs_3 =
    [row ''on_5factivate_5fclb'' ''on_activate_clb'' [(''../exosite__api__internal_8h.html#af2e35973ee404379204a182bff1e57a0'', 1, ''exosite_api_internal.h'')],
     row ''on_5fread_5fclb'' ''on_read_clb'' [(''../exosite__api__internal_8h.html#ac0bce01861d24a44b7728f465a17d1e2'', 1, ''exosite_api_internal.h'')],
     row ''on_5fsubscribe_5fclb'' ''on_subscribe_clb'' [(''../exosite__api__internal_8h.html#a995df6c4ab768546bd94ed2cc03b8dc3'', 1, ''exosite_api_internal.h'')],
     row ''on_5ftimestamp_5fclb'' ''on_timestamp_clb'' [(''../exosite__api__internal_8h.html#a6184b17f453d49dd002c41c55dce80dc'', 1, ''exosite_api_internal.h'')],
     row ''on_5fwrite_5fclb'' ''on_write_clb'' [(''../exosite__api__internal_8h.html#a76a1af0498a651312d2346f57aff04bd'', 1, ''exosite_api_internal.h'')]]"

definition search_typedefs_4 :: "search_entry list" where
  "search_typedefs_4 =
    [row ''stack_5fchecker'' ''stack_checker'' [(''../mem__check_8h.html#ae2483e2b904e2c143797446aa2d1d492'', 1, ''mem_check.h'')],
     row ''system_5fthread_5fattr_5ft'' ''system_thread_attr_t'' [(''../group__thread__port__interface.html#ga5381c059d28416a8dfcc7f2d5fb71e22'', 1, ''thread_port.h'')],
     row ''system_5fthread_5fpriority'' ''system_thread_priority'' [(''../group__thread__port__interface.html#gaa8b9fd873cdf3adc814876bb222efffc'', 1, ''thread_port.h'')]]"

definition search_enums_0 :: "search_entry list" where
  "search_enums_0 =
    [row ''_5fsystem_5fthread_5fpriority'' ''_system_thread_priority'' [(''../group__thread__port__interface.html#ga1400a0ed4a4c5b30cd6203ad6ffb56b5'', 1, ''thread_port.h'')]]"

definition search_enums_1 :: "search_entry list" where
  "search_enums_1 =
    [row ''exosite_5fmethod'' ''exosite_method'' [(''../exosite__api__internal_8h.html#a1ec075ea005450169975e25e9cfcafcb'', 1, ''exosite_api_internal.h'')]]"

definition search_enums_2 :: "search_entry list" where
  "search_enums_2 =
    [row ''transport_5fprotocol_5ftype'' ''transport_protocol_type'' [(''../group__net__port__interface.html#ga939b5c918f33d00da530eee4a47e142d'', 1, ''net_port.h'')]]"

definition search_enumvalues_0 :: "search_entry list" where
  "search_enumvalues_0 =
    [row ''exo_5fdp_5fwrite'' ''EXO_DP_WRITE'' [(''../exosite__api__internal_8h.html#a1ec075ea005450169975e25e9cfcafcba5c4cb7b3d416073860d26d092605ce1e'', 1, ''exosite_api_internal.h'')],
     row ''exo_5fpp_5factivate'' ''EXO_PP_ACTIVATE'' [(''../exosite__api__internal_8h.html#a1ec075ea005450169975e25e9cfcafcba5f2b8e4127321d256fd9957c0767e36f'', 1, ''exosite_api_internal.h'')],
     row ''exo_5fup_5ftimestamp'' ''EXO_UP_TIMESTAMP'' [(''../exosite__api__internal_8h.html#a1ec075ea005450169975e25e9cfcafcba565874881d768e4e8796e4ecdea839df'', 1, ''exosite_api_internal.h'')]]"

definition search_enumvalues_1 :: "search_entry list" where
  "search_enumvalues_1 =
    [row ''transport_5fproto_5ftcp'' ''TRANSPORT_PROTO_TCP'' [(''../group__net__port__interface.html#gga939b5c918f33d00da530eee4a47e142dac94dd5f2c451c7dd87ed23e78240a41c'', 1, ''net_port.h'')],
     row ''transport_5fproto_5fudp'' ''TRANSPORT_PROTO_UDP'' [(''../group__net__port__interface.html#gga939b5c918f33d00da530eee4a47e142dae8a6d6a784f1a4dd5a66d93a0dcc73c9'', 1, ''net_port.h'')]]"

definition search_defines_0 :: "search_entry list" where
  "search_defines_0 =
    [row ''connect_5fretries'' ''CONNECT_RETRIES'' [(''../client__config_8c.html#a5edb2fdb88125c1c6adfd14ea1cde312'', 1, ''client_config.c'')],
     row ''connect_5ftimeout'' ''CONNECT_TIMEOUT'' [(''../client__config_8c.html#a252b2cb72531cb00ecd4d4db37a5a473'', 1, ''client_config.c'')],
     row ''container_5fof'' ''container_of'' [(''../utils_8h.html#af8c317a42292b61c93aae91e59118a46'', 1, ''utils.h'')]]"

definition search_defines_1 :: "search_entry list" where
  "search_defines_1 =
    [row ''max_5fnumber_5fof_5fheaps'' ''MAX_NUMBER_OF_HEAPS'' [(''../heap__types_8h.html#a2189f918f5fd458c5246f6535b6c6f16'', 1, ''heap_types.h'')]]"

definition search_defines_2 :: "search_entry list" where
  "search_defines_2 =
    [row ''protocol_5fclient_5fsm_5fqueue_5fsize'' ''PROTOCOL_CLIENT_SM_QUEUE_SIZE'' [(''../client__config_8c.html#abc5a447271811dc0cbfcb3e80e4a3a89'', 1, ''client_config.c'')]]"

definition search_defines_3 :: "search_entry list" where
  "search_defines_3 =
    [row ''sf_5ffree'' ''sf_free'' [(''../sf__malloc_8h.html#a05d3c6a4f409b6603ba0d1239b952ab8'', 1, ''sf_malloc.h'')],
     row ''sf_5fmalloc'' ''sf_malloc'' [(''../sf__malloc_8h.html#afa76a4dbc64e0696ba5294eca128177a'', 1, ''sf_malloc.h'')],
     row ''sf_5fmem_5falloc'' ''sf_mem_alloc'' [(''../sf__malloc_8h.html#a005081174717896877b73030b6399fe5'', 1, ''sf_malloc.h'')],
     row ''sf_5fmem_5ffree'' ''sf_mem_free'' [(''../sf__malloc_8h.html#a1802190363c4c55f6bb61235e175fa16'', 1, ''sf_malloc.h'')],
     row ''sf_5fmem_5frealloc'' ''sf_mem_realloc'' [(''../sf__malloc_8h.html#a67acc98962d3af4d35439101597c5ca6'', 1, ''sf_malloc.h'')],
     row ''sf_5fmemcpy'' ''sf_memcpy'' [(''../sf__malloc_8h.html#a596711f8a4c914f9da585abf80fead36'', 1, ''sf_malloc.h'')],
     row ''sf_5fmemfill'' ''sf_memfill'' [(''../sf__malloc_8h.html#a7661fea66b9b807c49726786b49e4a6a'', 1, ''sf_malloc.h'')],
     row ''sf_5frealloc'' ''sf_realloc'' [(''../sf__malloc_8h.html#a923d5aca489915e01cac6d4ee243258c'', 1, ''sf_malloc.h'')]]"

definition search_defines_4 :: "search_entry list" where
  "search_defines_4 =
    [row ''transmission_5fretries'' ''TRANSMISSION_RETRIES'' [(''../client__config_8c.html#ad741a21703155842220b2623d358e45a'', 1, ''client_config.c'')]]"

definition search_defines_5 :: "search_entry list" where
  "search_defines_5 =
    [row ''stdc_5fheaders'' ''STDC_HEADERS'' [(''../config__port_8h.html#a550e5c272cc3cf3814651721167dcd23'', 1, ''config_port.h'')]]"

definition search_defines_6 :: "search_entry list" where
  "search_defines_6 =
    [row ''transmission_5ftimeout'' ''TRANSMISSION_TIMEOUT'' [(''../config__port_8h.html#a6d457d51d43f7824fd667b6f3f5d4d9b'', 1, ''config_port.h'')]]"

definition search_defines_7 :: "search_entry list" where
  "search_defines_7 =
    [row ''wifi_5fpassw'' ''WIFI_PASSW'' [(''../config__port_8h.html#a346f861aa5bdea452c2d0edbec3cb852'', 1, ''config_port.h'')],
     row ''wifi_5fssid'' ''WIFI_SSID'' [(''../config__port_8h.html#a586542b79d00e4db7e1d5a667ae83a2b'', 1, ''config_port.h'')]]"

definition search_groups_0 :: "search_entry list" where
  "search_groups_0 =
    [row ''client_20configuration'' ''Client Configuration'' [(''../group__client__config.html'', 1, '''')],
     row ''configuration'' ''Configuration'' [(''../group__config__port.html'', 1, '''')],
     row ''configurator_20api'' ''Configurator API'' [(''../group___configurator___a_p_i.html'', 1, '''')]]"

definition search_groups_1 :: "search_entry list" where
  "search_groups_1 =
    [row ''exosite_20api'' ''Exosite API'' [(''../group___exosite___a_p_i.html'', 1, '''')]]"

definition search_groups_2 :: "search_entry list" where
  "search_groups_2 =
    [row ''network_20port_20interface'' ''Network Port Interface'' [(''../group__net__port__interface.html'', 1, '''')]]"

definition search_groups_3 :: "search_entry list" where
  "search_groups_3 =
    [row ''periodic_20callback_20interface'' ''Periodic Callback interface'' [(''../group__pclb.html'', 1, '''')],
     row ''protocol_20client_20interface'' ''Protocol Client interface'' [(''../group__protocol__client.html'', 1, '''')],
     row ''protocol_20client_20state_2dmachine_20interface'' ''Protocol Client State-Machine interface'' [(''../group__protocol__client__sm.html'', 1, '''')]]"

definition search_groups_4 :: "search_entry list" where
  "search_groups_4 =
    [row ''system_20port_20interface'' ''System Port Interface'' [(''../group__system__port__interface.html'', 1, '''')]]"

definition search_groups_5 :: "search_entry list" where
  "search_groups_5 =
    [row ''thread_20port_20interface'' ''Thread Port Interface'' [(''../group__thread__port__interface.html'', 1, '''')]]"

definition search_pages_0 :: "search_entry list" where
  "search_pages_0 =
    [row ''configuration'' ''Configuration'' [(''../sdk_config.html'', 1, '''')]]"

definition search_pages_1 :: "search_entry list" where
  "search_pages_1 =
    [row ''license'' ''LICENSE'' [(''../md__l_i_c_e_n_s_e.html'', 1, '''')]]"

definition search_pages_2 :: "search_entry list" where
  "search_pages_2 =
    [row ''sdk_20porting_20guide'' ''SDK Porting Guide'' [(''../sdk_porting_guide.html'', 1, '''')]]"

definition search_pages_3 :: "search_entry list" where
  "search_pages_3 =
    [row ''tutorial'' ''Tutorial'' [(''../exosite_send_http.html'', 1, '''')],
     row ''technical_20overview'' ''Technical Overview'' [(''../md_docs__t_e_c_h_n_i_c_a_l__o_v_e_r_v_i_e_w.html'', 1, '''')]]"

definition search_pages_4 :: "search_entry list" where
  "search_pages_4 =
    [row ''user_20api'' ''User API'' [(''../md_include__r_e_a_d_m_e.html'', 1, '''')]]"

definition pages_variables :: "search_entry list list" where
  "pages_variables = [search_variables_0, search_variables_1, search_variables_2, search_variables_3, search_variables_4, search_variables_5, search_variables_6, search_variables_7, search_variables_8, search_variables_9, search_variables_a, search_variables_b, search_variables_c, search_variables_d, search_variables_e, search_variables_f, search_variables_10, search_variables_11]"

definition pages_typedefs :: "search_entry list list" where
  "pages_typedefs = [search_typedefs_0, search_typedefs_1, search_typedefs_2, search_typedefs_3, search_typedefs_4]"

definition pages_enums :: "search_entry list list" where
  "pages_enums = [search_enums_0, search_enums_1, search_enums_2]"

definition pages_enumvalues :: "search_entry list list" where
  "pages_enumvalues = [search_enumvalues_0, search_enumvalues_1]"

definition pages_defines :: "search_entry list list" where
  "pages_defines = [search_defines_0, search_defines_1, search_defines_2, search_defines_3, search_defines_4, search_defines_5, search_defines_6, search_defines_7]"

definition pages_groups :: "search_entry list list" where
  "pages_groups = [search_groups_0, search_groups_1, search_groups_2, search_groups_3, search_groups_4, search_groups_5]"

definition pages_pages :: "search_entry list list" where
  "pages_pages = [search_pages_0, search_pages_1, search_pages_2, search_pages_3, search_pages_4]"

end
