(* ===== verification/SearchWhole.thy ===== *)
theory SearchWhole
  imports SearchBox SearchPages0 SearchPages1 SearchPages2 SearchPages3
begin

text \<open>
  The search with its generated data: which page of which section a text opens, what that page
  shows, and that no page of the section that is not opened could show anything. The last pages of
  three sections are left over from an earlier run of the generator (\<open>all_15\<close>, \<open>classes_e\<close> to
  \<open>classes_10\<close>, \<open>functions_f\<close>, \<open>functions_10\<close>, \<open>defines_5\<close> to \<open>defines_7\<close>): no search opens them.
\<close>

definition section_pages :: "string \<Rightarrow> search_entry list list option" where
  "section_pages sec =
     (if sec = ''all'' then Some (pages_all_a @ pages_all_b)
      else if sec = ''classes'' then Some pages_classes
      else if sec = ''files'' then Some pages_files
      else if sec = ''functions'' then Some pages_functions
      else if sec = ''variables'' then Some pages_variables
      else if sec = ''typedefs'' then Some pages_typedefs
      else if sec = ''enums'' then Some pages_enums
      else if sec = ''enumvalues'' then Some pages_enumvalues
      else if sec = ''defines'' then Some pages_defines
      else if sec = ''groups'' then Some pages_groups
      else if sec = ''pages'' then Some pages_pages
      else None)"

text \<open>The data that \<open>search/\<close>section\<open>_\<close>n\<open>.js\<close> assigns, \<open>n\<close> in hexadecimal.\<close>

definition search_page :: "string \<Rightarrow> nat \<Rightarrow> search_entry list option" where
  "search_page sec n =
     (case section_pages sec of None \<Rightarrow> None
      | Some ps \<Rightarrow> if n < length ps then Some (ps ! n) else None)"

text \<open>The pages of the letters, in order; further pages do not count.\<close>

fun pages_fit :: "string \<Rightarrow> search_entry list list \<Rightarrow> bool" where
  "pages_fit [] pss = True"
| "pages_fit (c # cs) [] = False"
| "pages_fit (c # cs) (ds # pss) = (page_fits c ds \<and> pages_fit cs pss)"

lemma pages_fit_nth: "pages_fit cs pss \<Longrightarrow> n < length cs \<Longrightarrow> n < length pss \<and> page_fits (cs ! n) (pss ! n)"
  by (induction cs pss arbitrary: n rule: pages_fit.induct) (auto simp: less_Suc_eq_0_disj)

lemma pages_fit_append: "pages_fit cs pss \<Longrightarrow> pages_fit ds qss \<Longrightarrow> length pss = length cs \<Longrightarrow>
    pages_fit (cs @ ds) (pss @ qss)"
  by (induction cs pss rule: pages_fit.induct) auto

lemma fit_all_a: "pages_fit ''_acdefghilmno'' pages_all_a \<and> length pages_all_a = length ''_acdefghilmno''"
  by code_simp

lemma fit_all_b: "pages_fit ''pqrstuvw'' pages_all_b"
  by code_simp

lemma fit_all: "pages_fit ''_acdefghilmnopqrstuvw'' (pages_all_a @ pages_all_b)"
  using pages_fit_append [OF conjunct1 [OF fit_all_a] fit_all_b] fit_all_a by simp

lemma fit_classes: "pages_fit ''_acdehlmnpstuw'' pages_classes"
  by code_simp

lemma fit_files: "pages_fit ''acdehlmnopqrstu'' pages_files"
  by code_simp

lemma fit_functions: "pages_fit ''acdeghimnopqrst'' pages_functions"
  by code_simp

lemma fit_variables: "pages_fit ''acdefghilmnoprstvw'' pages_variables"
  by code_simp

lemma fit_others: "pages_fit ''delos'' pages_typedefs \<and> pages_fit ''_et'' pages_enums \<and>
    pages_fit ''et'' pages_enumvalues \<and> pages_fit ''cmpst'' pages_defines \<and>
    pages_fit ''cenpst'' pages_groups \<and> pages_fit ''clstu'' pages_pages"
  by code_simp

lemmas section_fits = fit_all fit_classes fit_files fit_functions fit_variables fit_others

lemma section_pages_fit:
  assumes "table_get indexSectionsWithContent i = Some chars" "table_get indexSectionNames i = Some sec"
  shows "\<exists>ps. section_pages sec = Some ps \<and> pages_fit chars ps"
proof -
  from assms(1) table_get_sections [of i] have "0 \<le> i" "i \<le> 10" by auto
  then have "nat i \<in> set [0..<11]" by auto
  also have "set [0..<11] = {0, 1, 2, 3, 4, 5, 6, 7, 8, 9, 10 :: nat}" by code_simp
  finally show ?thesis
    using assms \<open>0 \<le> i\<close> by (elim insertE emptyE)
      (clarsimp simp: table_get_def indexSectionsWithContent_def indexSectionNames_def section_pages_def
        section_fits)+
qed

lemma search_page_fits:
  assumes "table_get indexSectionsWithContent i = Some chars" "table_get indexSectionNames i = Some sec"
    and "n < length chars"
  obtains ds where "search_page sec n = Some ds" "page_fits (chars ! n) ds"
proof -
  from section_pages_fit [OF assms(1,2)] obtain ps where ps: "section_pages sec = Some ps" "pages_fit chars ps" by blast
  from pages_fit_nth [OF ps(2) assms(3)] ps(1) that [of "ps ! n"] show thesis
    by (simp add: search_page_def)
qed

lemma page_fitsD:
  assumes "page_fits c ds" "d \<in> set ds"
  shows "well_named d" "take 1 (toLowerCase (entryName d)) = [c]"
  using assms by (auto simp: page_fits_def list_all_iff entry_fits_def)

lemma trimmed_starts:
  assumes "strip_leading s \<noteq> []"
  shows "take 1 (trimmed s) = [hd (strip_leading s)]"
proof -
  define v where "v = strip_leading s"
  have "hd v \<noteq> CHR '' ''" using assms hd_dropWhile [of "\<lambda>c. c = CHR '' ''" s]
    by (simp add: v_def strip_leading_def)
  moreover obtain c r where "v = c # r" using assms by (cases v) (auto simp: v_def)
  ultimately have "trimmed s = c # rev (dropWhile (\<lambda>c. c = CHR '' '') (rev r))"
    by (simp add: trimmed_def strip_trailing_def v_def [symmetric] dropWhile_append split: if_splits)
  with \<open>v = c # r\<close> show ?thesis by (simp add: v_def [symmetric])
qed

lemma match_starts:
  assumes "page_fits c ds" "d \<in> set ds" "strip_leading s \<noteq> []"
    and "prefix (toLowerCase (trimmed s)) (toLowerCase (entryName d))"
  shows "lower_char (hd (strip_leading s)) = c"
proof -
  from trimmed_starts [OF assms(3)] obtain r where "trimmed s = hd (strip_leading s) # r"
    by (cases "trimmed s") auto
  with assms(4) page_fitsD(2) [OF assms(1,2)] show ?thesis
    by (auto simp: toLowerCase_def prefix_def split: list.splits)
qed

text \<open>C2: from the search field to the rows that are shown, with the data that is shipped. If the
  first letter of the text (without leading spaces, in lower case) has a page in the selected
  section, \<open>Search\<close> shows the results window with the data page of that letter and the text as its
  query; loading the page shows exactly those of its entries whose name starts with the text,
  letter case and surrounding spaces apart; and no other page of the section has such an entry.\<close>

theorem search_opens_matching_rows:
  assumes "table_get indexSectionsWithContent (searchIndex b) = Some chars"
    and "table_get indexSectionNames (searchIndex b) = Some sec"
    and "v = strip_leading (fieldValue b)" and "v \<noteq> []" and "lower_char (hd v) \<in> set chars"
  shows "\<exists>b' n ds pg. BoxSearch lay b = Inr b' \<and> resultsDisplay b' = DBlock \<and>
    n < length chars \<and> search_page sec n = Some ds \<and>
    frameLocation b' = resultsPath b @ ''/'' @ sec @ ''_'' @ toString16 n @ ''.html'' @
      CHR ''?'' # js_escape v \<and>
    load_results ds (CHR ''?'' # js_escape v) = Inr (pg, True) \<and>
    (\<forall>e < length ds. disp_at (body pg) [e] =
       Some (if prefix (toLowerCase (trimmed (fieldValue b))) (toLowerCase (entryName (ds ! e)))
             then DBlock else DNone)) \<and>
    (\<forall>m < length chars. m \<noteq> n \<longrightarrow> (\<forall>ds'. search_page sec m = Some ds' \<longrightarrow> (\<forall>d \<in> set ds'.
       \<not> prefix (toLowerCase (trimmed (fieldValue b))) (toLowerCase (entryName d)))))"
proof -
  from assms(5) obtain k where "k < length chars" "chars ! k = lower_char (hd v)"
    by (auto simp: in_set_conv_nth)
  have others: "m = n" if n: "n < length chars" "chars ! n = lower_char (hd v)" and m: "m < length chars"
    and d: "search_page sec m = Some ds'" "d \<in> set ds'"
      "prefix (toLowerCase (trimmed (fieldValue b))) (toLowerCase (entryName d))" for m n ds' d
  proof -
    obtain es where es: "search_page sec m = Some es" "page_fits (chars ! m) es"
      by (rule search_page_fits [OF assms(1,2) m])
    with d have "lower_char (hd v) = chars ! m"
      using match_starts [of "chars ! m" es d "fieldValue b"] assms(3,4) by simp
    with n m section_chars_distinct [OF assms(1)] show ?thesis by (simp add: nth_eq_iff_index_eq)
  qed
  obtain b' n pg0 where b': "BoxSearch lay b = Inr b'" "resultsDisplay b' = DBlock" "n < length chars"
    "chars ! n = lower_char (hd v)"
    "frameLocation b' = resultsPath b @ ''/'' @ sec @ ''_'' @ toString16 n @ ''.html'' @ CHR ''?'' # js_escape v"
    using search_opens_rows [OF assms(1-5), of "[]" lay] by auto
  obtain ds where ds: "search_page sec n = Some ds" "page_fits (chars ! n) ds"
    by (rule search_page_fits [OF assms(1,2) b'(3)])
  then have "\<forall>d \<in> set ds. well_named d" using page_fitsD(1) by blast
  from load_results_rows [OF this, of v] obtain pg where
    pg: "load_results ds (CHR ''?'' # js_escape v) = Inr (pg, True)"
    "\<forall>e < length ds. disp_at (body pg) [e] =
       Some (if prefix (toLowerCase (trimmed (fieldValue b))) (toLowerCase (entryName (ds ! e)))
             then DBlock else DNone)"
    using assms(3) by auto
  have "\<forall>m < length chars. m \<noteq> n \<longrightarrow> (\<forall>ds'. search_page sec m = Some ds' \<longrightarrow> (\<forall>d \<in> set ds'.
       \<not> prefix (toLowerCase (trimmed (fieldValue b))) (toLowerCase (entryName d))))"
    using others [OF b'(3,4)] by blast
  with b'(1-3,5) ds(1) pg show ?thesis by blast
qed

theorem search_opens_matching_rows_witness:
  "\<exists>b' n ds pg. BoxSearch demo_layout (demo_box\<lparr>fieldValue := ''  conf''\<rparr>) = Inr b' \<and> n < 21 \<and>
     search_page ''all'' n = Some ds \<and> load_results ds ''?conf'' = Inr (pg, True) \<and>
     (\<forall>e < length ds. disp_at (body pg) [e] =
       Some (if prefix ''conf'' (toLowerCase (entryName (ds ! e))) then DBlock else DNone))"
proof -
  let ?b = "demo_box\<lparr>fieldValue := ''  conf''\<rparr>"
  have i: "searchIndex ?b = 0" by code_simp
  have t: "table_get indexSectionsWithContent (searchIndex ?b) = Some ''_acdefghilmnopqrstuvw''"
    "table_get indexSectionNames (searchIndex ?b) = Some ''all''"
    unfolding i by code_simp+
  have v: "''conf'' = strip_leading (fieldValue ?b)" by (simp add: strip_leading_def)
  have l: "lower_char (hd ''conf'') \<in> set ''_acdefghilmnopqrstuvw''" by code_simp
  have e: "js_escape ''conf'' = ''conf''" "toLowerCase (trimmed (fieldValue ?b)) = ''conf''" by code_simp+
  have n: "length ''_acdefghilmnopqrstuvw'' = 21" by code_simp
  from search_opens_matching_rows [OF t v _ l, of demo_layout] obtain b' n ds pg where
    "BoxSearch demo_layout ?b = Inr b'" "n < 21" "search_page ''all'' n = Some ds"
    "load_results ds (CHR ''?'' # js_escape ''conf'') = Inr (pg, True)"
    "\<forall>e < length ds. disp_at (body pg) [e] =
       Some (if prefix (toLowerCase (trimmed (fieldValue ?b))) (toLowerCase (entryName (ds ! e)))
             then DBlock else DNone)"
    unfolding n by blast
  then show ?thesis unfolding e by blast
qed

text \<open>C18: \<open>Search\<close> shows the page \<open>nomatches.html\<close> only when there is nothing to show: if the first
  letter of a text has no page in the selected section, that page is opened, and no entry of a page
  of the section starts with the text.\<close>

theorem nomatches_is_right:
  assumes "table_get indexSectionsWithContent (searchIndex b) = Some chars"
    and "table_get indexSectionNames (searchIndex b) = Some sec"
    and "v = strip_leading (fieldValue b)" and "v \<noteq> []" and "lower_char (hd v) \<notin> set chars"
  shows "\<exists>b'. BoxSearch lay b = Inr b' \<and> resultsDisplay b' = DBlock \<and>
    frameLocation b' = resultsPath b @ ''/nomatches.html'' \<and>
    (\<forall>m < length chars. \<forall>ds. search_page sec m = Some ds \<longrightarrow> (\<forall>d \<in> set ds.
       \<not> prefix (toLowerCase (trimmed (fieldValue b))) (toLowerCase (entryName d))))"
proof -
  from assms(4) have i: "idxChar_of v = [lower_char (hd v)]"
    by (cases v) (simp_all add: idxChar_of_def toLowerCase_def)
  with assms(5) have "indexOf chars (idxChar_of v) = -1" by (simp add: indexOf_char_iff)
  then have a: "results_address (b\<lparr>keyTimeout := 0\<rparr>) v =
      Some (resultsPath b @ ''/nomatches.html'', resultsPath b @ ''/nomatches.html'')"
    using assms(1) by (simp add: results_address_def Let_def)
  have no: "\<not> prefix (toLowerCase (trimmed (fieldValue b))) (toLowerCase (entryName d))"
    if m: "m < length chars" "search_page sec m = Some ds" "d \<in> set ds" for m ds d
  proof
    assume p: "prefix (toLowerCase (trimmed (fieldValue b))) (toLowerCase (entryName d))"
    obtain es where "search_page sec m = Some es" "page_fits (chars ! m) es"
      by (rule search_page_fits [OF assms(1,2) m(1)])
    with m(2,3) p have "lower_char (hd v) = chars ! m"
      using match_starts [of "chars ! m" es d "fieldValue b"] assms(3,4) by simp
    with assms(5) m(1) show False by simp
  qed
  from a no assms(3) show ?thesis by (auto simp: BoxSearch_def Let_def showResults_def)
qed

theorem nomatches_is_right_witness:
  "\<exists>b'. BoxSearch demo_layout (demo_box\<lparr>fieldValue := ''zebra''\<rparr>) = Inr b' \<and>
     frameLocation b' = ''search/nomatches.html''"
proof -
  let ?b = "demo_box\<lparr>fieldValue := ''zebra''\<rparr>"
  have i: "searchIndex ?b = 0" "resultsPath ?b = ''search''" by code_simp+
  have t: "table_get indexSectionsWithContent (searchIndex ?b) = Some ''_acdefghilmnopqrstuvw''"
    "table_get indexSectionNames (searchIndex ?b) = Some ''all''"
    unfolding i by code_simp+
  have v: "''zebra'' = strip_leading (fieldValue ?b)" by (simp add: strip_leading_def)
  have l: "lower_char (hd ''zebra'') \<notin> set ''_acdefghilmnopqrstuvw''" by code_simp
  show ?thesis
    using nomatches_is_right [OF t v _ l, of demo_layout] unfolding i(2) by auto
qed

end
