(* ===== verification/NavData.thy ===== *)
theory NavData
  imports SearchText
begin

text \<open>
  The generated file \<open>navtreedata.js\<close>: the top of the navigation tree and the first key of each
  of the seven index tables, and the loop of \<open>navTo\<close> (\<open>navtree.js\<close>) that picks the table for an
  address. The tables themselves are in \<open>NavIndex0\<close> to \<open>NavIndex6\<close>.
\<close>

section \<open>Tree data\<close>

text \<open>One entry \<open>[text, link, children]\<close>: the children are missing (\<open>null\<close>), a list, or the name
  of the variable that a script of its own will define.\<close>

datatype nav_data = NavEntry (entryText: string) (entryLink: "string option") (entryChildren: nav_children)
  and nav_children = NoChildren | ScriptVar string | Entries "nav_data list"

definition NAVTREE :: "nav_data list" where
  "NAVTREE =
   [NavEntry ''Exosite Ready SDK'' (Some ''index.html'') (Entries
     [NavEntry ''Tutorial'' (Some ''exosite_send_http.html'') (Entries
       [NavEntry ''Send data over HTTP'' (Some ''exosite_send_http.html#http_send'') NoChildren]),
      NavEntry ''Technical Overview'' (Some ''md_docs__t_e_c_h_n_i_c_a_l__o_v_e_r_v_i_e_w.html'') NoChildren,
      NavEntry ''User API'' (Some ''md_include__r_e_a_d_m_e.html'') NoChildren,
      NavEntry ''LICENSE'' (Some ''md__l_i_c_e_n_s_e.html'') NoChildren,
      NavEntry ''Configuration'' (Some ''sdk_config.html'') NoChildren,
      NavEntry ''SDK Porting Guide'' (Some ''sdk_porting_guide.html'') NoChildren,
      NavEntry ''Modules'' (Some ''modules.html'') (ScriptVar ''modules''),
      NavEntry ''Data Structures'' (Some ''annotated.html'') (Entries
       [NavEntry ''Data Structures'' (Some ''annotated.html'') (ScriptVar ''annotated_dup''),
        NavEntry ''Data Structure Index'' (Some ''classes.html'') NoChildren,
        NavEntry ''Data Fields'' (Some ''functions.html'') (Entries
         [NavEntry ''All'' (Some ''functions.html'') NoChildren,
          NavEntry ''Variables'' (Some ''functions_vars.html'') NoChildren])]),
      NavEntry ''Files'' None (Entries
       [NavEntry ''File List'' (Some ''files.html'') (ScriptVar ''files''),
        NavEntry ''Globals'' (Some ''globals.html'') (Entries
         [NavEntry ''All'' (Some ''globals.html'') (ScriptVar ''globals_dup''),
          NavEntry ''Functions'' (Some ''globals_func.html'') (ScriptVar ''globals_func''),
          NavEntry ''Variables'' (Some ''globals_vars.html'') NoChildren,
          NavEntry ''Typedefs'' (Some ''globals_type.html'') NoChildren,
          NavEntry ''Enumerations'' (Some ''globals_enum.html'') NoChildren,
          NavEntry ''Enumerator'' (Some ''globals_eval.html'') NoChildren,
          NavEntry ''Macros'' (Some ''globals_defs.html'') NoChildren])]),
      NavEntry ''Examples'' (Some ''examples.html'') (ScriptVar ''examples'')])]"

definition NAVTREEINDEX :: "string list" where
  "NAVTREEINDEX =
     [''annotated.html'',
      ''debug_8h.html#a79da58dac9dcdbcd4005f1d440e363ba'',
      ''globals_func_i.html'',
      ''group__protocol__client__sm.html#gaf20f6dea17c9ff09ff4c4c5c005390fc'',
      ''net__if__posix__tcp_8c.html#ae475f293486cafb10aa422872ae2e40e'',
      ''string__class_8h.html#ae2f56113e3fb9d5b1a9cc11d908767b7'',
      ''structprotocol__client__response.html#aa311384c3d43d1052514fc2bfe2c0c76'']"

section \<open>The table of an address\<close>

text \<open>\<open>a <= b\<close> on strings: by code units.\<close>

fun js_le :: "string \<Rightarrow> string \<Rightarrow> bool" where
  "js_le [] t = True"
| "js_le (c # s) [] = False"
| "js_le (c # s) (d # t) = (if c = d then js_le s t else code c < code d)"

text \<open>The same order on characters by their bits, which evaluates faster.\<close>

fun char_less :: "char \<Rightarrow> char \<Rightarrow> bool" where
  "char_less (Char a0 a1 a2 a3 a4 a5 a6 a7) (Char b0 b1 b2 b3 b4 b5 b6 b7) =
     (if a7 \<noteq> b7 then b7 else if a6 \<noteq> b6 then b6 else if a5 \<noteq> b5 then b5 else if a4 \<noteq> b4 then b4
      else if a3 \<noteq> b3 then b3 else if a2 \<noteq> b2 then b2 else if a1 \<noteq> b1 then b1 else a0 \<noteq> b0 \<and> b0)"

lemma bit_less: "of_bool a + 2 * x < of_bool b + 2 * y \<longleftrightarrow> (if x \<noteq> y then x < y else \<not> a \<and> b)" for x y :: nat
  by (cases a; cases b) auto

lemma bit_eq: "of_bool a + 2 * x = of_bool b + 2 * y \<longleftrightarrow> x = y \<and> a = b" for x y :: nat
  by (cases a; cases b; simp; presburger)

lemma char_less_code: "char_less c d \<longleftrightarrow> code c < code d"
  by (cases c; cases d; simp only: code_def of_char_Char char_less.simps horner_sum_simps bit_less bit_eq; argo?)

lemma js_le_code [code]:
  "js_le [] t = True"
  "js_le (c # s) [] = False"
  "js_le (c # s) (d # t) = (if c = d then js_le s t else char_less c d)"
  by (simp_all add: char_less_code)

lemma js_le_refl [simp]: "js_le s s"
  by (induction s) auto

lemma js_le_trans: "js_le a b \<Longrightarrow> js_le b c \<Longrightarrow> js_le a c"
proof (induction a b arbitrary: c rule: js_le.induct)
  case (3 x s y t)
  then show ?case by (cases c) (auto split: if_splits)
qed auto

lemma js_le_antisym: "js_le a b \<Longrightarrow> js_le b a \<Longrightarrow> a = b"
  by (induction a b rule: js_le.induct) (auto split: if_splits elim: js_le.elims)

lemma js_le_linear: "js_le a b \<or> js_le b a"
  by (induction a b rule: js_le.induct) (auto simp: code_inj [symmetric])

text \<open>The loop \<open>while (NAVTREEINDEX[i+1]<=url) i++\<close>: the list holds the elements from \<open>i+1\<close> on, and
  the comparison with \<open>undefined\<close> beyond the last is false.\<close>

fun locate_from :: "int \<Rightarrow> string list \<Rightarrow> string \<Rightarrow> int" where
  "locate_from i [] url = i"
| "locate_from i (b # bounds) url = (if js_le b url then locate_from (i + 1) bounds url else i)"

definition nav_locate :: "string \<Rightarrow> int" where
  "nav_locate url = locate_from (-1) NAVTREEINDEX url"

lemma locate_from_range: "i \<le> locate_from i bs url \<and> locate_from i bs url \<le> i + int (length bs)"
  by (induction i bs url rule: locate_from.induct) auto

lemma locate_from_takeWhile: "locate_from i bs url = i + int (length (takeWhile (\<lambda>b. js_le b url) bs))"
  by (induction i bs url rule: locate_from.induct) auto

text \<open>The row of an index table: an address and the child indices that lead to its node. A key
  that occurs twice in the object literal has the value of its last occurrence.\<close>

type_synonym nav_index = "(string \<times> nat list) list"

definition index_get :: "nav_index \<Rightarrow> string \<Rightarrow> nat list option" where
  "index_get t url = map_of (rev t) url"

lemma index_get_defined: "index_get t url \<noteq> None \<longleftrightarrow> url \<in> fst ` set t"
  using map_of_eq_None_iff [of "rev t" url] by (simp add: index_get_def del: not_None_eq)

text \<open>Every key of a table is an address that the loop sends to that table; one address is the
  last key of table 2 and the first key of table 3.\<close>

definition shared_key :: string where
  "shared_key = ''group__protocol__client__sm.html#gaf20f6dea17c9ff09ff4c4c5c005390fc''"

definition located_in :: "int \<Rightarrow> nav_index \<Rightarrow> bool" where
  "located_in i t \<longleftrightarrow> (\<forall>(u, p) \<in> set t. nav_locate u = i \<or> i = 2 \<and> u = shared_key)"

lemma located_in_Nil: "located_in i []"
  by (simp add: located_in_def)

lemma located_in_append: "located_in i (s @ t) \<longleftrightarrow> located_in i s \<and> located_in i t"
  by (auto simp: located_in_def)

lemma bounds_sorted: "sorted_wrt js_le NAVTREEINDEX"
  by code_simp

text \<open>As the bounds are sorted, two of them decide.\<close>

definition in_range :: "nat \<Rightarrow> string \<Rightarrow> bool" where
  "in_range i u \<longleftrightarrow> js_le (NAVTREEINDEX ! i) u \<and>
     (if Suc i = length NAVTREEINDEX then True else \<not> js_le (NAVTREEINDEX ! Suc i) u)"

lemma in_range_located:
  assumes i: "i < length NAVTREEINDEX" and r: "in_range i u"
  shows "nav_locate u = int i"
proof -
  have lo: "js_le b u" if "b \<in> set (take (Suc i) NAVTREEINDEX)" for b
  proof -
    from that obtain j where j: "j \<le> i" "b = NAVTREEINDEX ! j"
      using i by (auto simp: in_set_conv_nth less_Suc_eq_le)
    then have "js_le b (NAVTREEINDEX ! i)"
      using bounds_sorted i by (cases "j = i") (auto simp: sorted_wrt_iff_nth_less)
    with r show ?thesis using js_le_trans by (auto simp: in_range_def)
  qed
  have "takeWhile (\<lambda>b. js_le b u) NAVTREEINDEX = take (Suc i) NAVTREEINDEX"
  proof -
    have "takeWhile (\<lambda>b. js_le b u) (take (Suc i) NAVTREEINDEX @ drop (Suc i) NAVTREEINDEX) = take (Suc i) NAVTREEINDEX"
      using lo i r by (subst takeWhile_append2)
        (auto simp: in_range_def takeWhile_eq_Nil_iff hd_drop_conv_nth split: if_splits)
    then show ?thesis by simp
  qed
  with i show ?thesis by (simp add: nav_locate_def locate_from_takeWhile)
qed

lemma located_in_code: "i < length NAVTREEINDEX \<Longrightarrow>
    list_all (\<lambda>(u, p). in_range i u \<or> i = 2 \<and> u = shared_key) t \<Longrightarrow> located_in (int i) t"
  using in_range_located by (fastforce simp: located_in_def list_all_iff)

end
