(* ===== verification/NavTree.thy ===== *)
theory NavTree
  imports Dom NavData
begin

text \<open>
  The navigation tree of the documentation pages (\<open>navtree.js\<close>). The tree is a store of node
  objects addressed by their child indices from \<open>o.node\<close>; nodes are created when their parent is
  first opened. Data that a script of its own defines arrives later: \<open>getScript\<close> leaves its
  callback in \<open>waiting\<close>, and \<open>deliver\<close> runs one. The contents of the per-directory data files are
  the argument \<open>files\<close>, the index tables the argument \<open>tables\<close>. What the tree looks like and where
  it scrolls is in \<open>NavLooks\<close>.
\<close>

section \<open>Addresses\<close>

definition stripPath :: "string \<Rightarrow> string" where
  "stripPath uri = substring uri (lastIndexOf uri CHR ''/'' + 1)"

text \<open>The match of \<open>/\/d\w\/d\w\w\/$/\<close>.\<close>

definition hashed_dir :: "string \<Rightarrow> bool" where
  "hashed_dir s \<longleftrightarrow> 8 \<le> length s \<and>
     (let t = drop (length s - 8) s
      in t ! 0 = CHR ''/'' \<and> t ! 1 = CHR ''d'' \<and> is_word_char (t ! 2) \<and> t ! 3 = CHR ''/'' \<and>
         t ! 4 = CHR ''d'' \<and> is_word_char (t ! 5) \<and> is_word_char (t ! 6) \<and> t ! 7 = CHR ''/'')"

definition stripPath2 :: "string \<Rightarrow> string" where
  "stripPath2 uri =
     (let i = lastIndexOf uri CHR ''/'';
          s = substring uri (i + 1)
      in if hashed_dir (substring2 uri 0 (i + 1)) then substring uri (i - 6) else s)"

text \<open>The variable that \<open>getData\<close> evaluates.\<close>

definition getData_name :: "string \<Rightarrow> string" where
  "getData_name varName =
     (let i = lastIndexOf varName CHR ''/'';
          n = (if 0 \<le> i then substring varName (i + 1) else varName)
      in map (\<lambda>c. if c = CHR ''-'' then CHR ''_'' else c) n)"

definition hash_char :: "char \<Rightarrow> bool" where
  "hash_char c \<longleftrightarrow> is_word_char c \<or> c = CHR ''-''"

definition path_char :: "char \<Rightarrow> bool" where
  "path_char c \<longleftrightarrow> is_az c \<or> is_AZ c \<or> is_09 c \<or> c \<in> set ''-+&@#/%?=~_|!:,.;()''"

text \<open>\<open>link.replace('#', ':')\<close>: the first occurrence.\<close>

fun replace_hash :: "string \<Rightarrow> string" where
  "replace_hash [] = []"
| "replace_hash (c # s) = (if c = CHR ''#'' then CHR '':'' # s else c # replace_hash s)"

definition line_anchor :: "string \<Rightarrow> bool" where
  "line_anchor hash \<longleftrightarrow> 3 \<le> length hash \<and> take 2 hash = ''#l'' \<and> list_all is_09 (drop 2 hash)"

section \<open>The state\<close>

type_synonym path = "nat list"

text \<open>What the \<open>onclick\<close> of a label does: nothing, toggle the children, store the link it closes over,
  or store the link and go to an anchor of the page.\<close>

datatype link_click =
    NoHandler
  | TogglesChildren
  | StoresLink string
  | GoesToAnchor string string

record nav_node =
  nodeText :: string
  childrenData :: nav_children
  childrenVisited :: bool
  expanded :: bool
  ulDisplay :: display
  linkClass :: string
  linkHref :: string
  linkClick :: link_click
  selected :: bool
  depth :: nat

text \<open>The callbacks handed to \<open>getScript\<close>: the data of node \<open>q\<close> is set, then \<open>showNode\<close> goes on at
  node \<open>p\<close> (after \<open>p.expanded = false\<close> in the retry), or \<open>expandNode\<close> at \<open>q\<close>; or an index table
  is set and \<open>gotoNode\<close> follows.\<close>

datatype nav_cont =
    ShowAfter path string path nat string bool
  | ExpandAfter path string bool
  | GotoAfter nat string string

record nav_state =
  toroot :: string
  relpath :: string
  locPath :: string
  locHash :: string
  storageSupported :: bool
  navpath :: "string option"
  syncOn :: bool
  syncTop :: nat
  subIndices :: "nat \<Rightarrow> nav_index option"
  breadcrumbs :: "nat list"
  nodes :: "path \<Rightarrow> nav_node option"
  made :: "path list"
  waiting :: "nav_cont list"

type_synonym nav_result = "(js_error \<times> nav_state) + nav_state"

definition hashValue :: "nav_state \<Rightarrow> string" where
  "hashValue st = filter hash_char (substring (locHash st) 1)"

definition hashUrl :: "nav_state \<Rightarrow> string" where
  "hashUrl st = CHR ''#'' # hashValue st"

definition pathName :: "nav_state \<Rightarrow> string" where
  "pathName st = filter path_char (locPath st)"

section \<open>The stored link\<close>

definition storeLink :: "string \<Rightarrow> nav_state \<Rightarrow> nav_state" where
  "storeLink link st =
     (if \<not> syncOn st \<and> storageSupported st then st\<lparr>navpath := Some link\<rparr> else st)"

definition deleteLink :: "nav_state \<Rightarrow> nav_state" where
  "deleteLink st = (if storageSupported st then st\<lparr>navpath := Some []\<rparr> else st)"

text \<open>\<open>null\<close> and the empty string are both false where the result is tested.\<close>

definition cachedLink :: "nav_state \<Rightarrow> string" where
  "cachedLink st =
     (if storageSupported st then (case navpath st of Some l \<Rightarrow> l | None \<Rightarrow> []) else [])"

definition toggleSyncButton :: "nav_state \<Rightarrow> nav_state" where
  "toggleSyncButton st =
     (if syncOn st
      then (let st1 = st\<lparr>syncOn := False\<rparr> in storeLink (stripPath2 (pathName st1) @ hashUrl st1) st1)
      else deleteLink (st\<lparr>syncOn := True\<rparr>))"

section \<open>Nodes\<close>

definition update_node :: "path \<Rightarrow> (nav_node \<Rightarrow> nav_node) \<Rightarrow> nav_state \<Rightarrow> nav_state" where
  "update_node p f st = st\<lparr>nodes := (nodes st)(p := map_option f (nodes st p))\<rparr>"

text \<open>The address of an entry without the mark of an external link, and its \<open>href\<close>.\<close>

definition link_target :: "string \<Rightarrow> string" where
  "link_target link = (if take 1 link = ''^'' then substring link 1 else link)"

definition link_url :: "nav_state \<Rightarrow> string \<Rightarrow> string" where
  "link_url st link = (if take 1 link = ''^'' then substring link 1 else relpath st @ link)"

definition link_href :: "nav_state \<Rightarrow> string \<Rightarrow> string" where
  "link_href st link =
     (let l = link_target link in
      if indexOf l ''#'' \<noteq> -1 then
        (if stripPath (pathName st) \<noteq> stripPath (hd (split_on CHR ''#'' l)) then link_url st link
         else ''javascript:void(0)'')
      else link_url st link)"

text \<open>The handler that \<open>newNode\<close> gives the label. The closure sees \<open>link\<close> without the mark, and \<open>aname\<close>.\<close>

definition label_click :: "nav_data \<Rightarrow> link_click" where
  "label_click entry =
     (let nolink = (if entryChildren entry \<noteq> NoChildren then TogglesChildren else NoHandler)
      in case entryLink entry of
           None \<Rightarrow> nolink
         | Some link \<Rightarrow>
             if link \<noteq> [] then
               let l = link_target link in
               if indexOf l ''#'' \<noteq> -1 then GoesToAnchor l (CHR ''#'' # split_on CHR ''#'' l ! 1)
               else StoresLink l
             else nolink)"

text \<open>An entry with the link \<open>null\<close> or \<open>''\<close> has no address; it can still toggle its children.\<close>

definition newNode :: "nav_state \<Rightarrow> nat \<Rightarrow> nav_data \<Rightarrow> nav_node" where
  "newNode st d entry =
     (let nolink = (if entryChildren entry \<noteq> NoChildren then ''nolink'' else []);
          nohref = (if entryChildren entry \<noteq> NoChildren then ''javascript:void(0)'' else [])
      in \<lparr>nodeText = entryText entry, childrenData = entryChildren entry, childrenVisited = False,
          expanded = False, ulDisplay = DNone,
          linkClass = (case entryLink entry of
             Some link \<Rightarrow> if link \<noteq> [] then stripPath (replace_hash (link_target link)) else nolink
           | None \<Rightarrow> nolink),
          linkHref = (case entryLink entry of
             Some link \<Rightarrow> if link \<noteq> [] then link_href st link else nohref
           | None \<Rightarrow> nohref),
          linkClick = label_click entry, selected = False, depth = d\<rparr>)"

text \<open>\<open>getNode\<close>: creates the nodes of all children of \<open>p\<close>.\<close>

fun make_children :: "path \<Rightarrow> nat \<Rightarrow> nat \<Rightarrow> nav_data list \<Rightarrow> nav_state \<Rightarrow> nav_state" where
  "make_children p d i [] st = st"
| "make_children p d i (e # es) st =
     make_children p d (Suc i) es
       (st\<lparr>nodes := (nodes st)(p @ [i] \<mapsto> newNode st d e), made := made st @ [p @ [i]]\<rparr>)"

definition getNode :: "path \<Rightarrow> nav_data list \<Rightarrow> nav_state \<Rightarrow> nav_state" where
  "getNode p es st =
     make_children p (Suc (length p)) 0 es (update_node p (\<lambda>n. n\<lparr>childrenVisited := True\<rparr>) st)"

definition visitNode :: "path \<Rightarrow> nav_data list \<Rightarrow> bool \<Rightarrow> nav_state \<Rightarrow> nav_state" where
  "visitNode p es visited st = (if visited then st else getNode p es st)"

definition openNode :: "path \<Rightarrow> nav_state \<Rightarrow> nav_state" where
  "openNode p st = update_node p (\<lambda>n. n\<lparr>ulDisplay := DBlock, expanded := True\<rparr>) st"

definition getScript :: "nav_cont \<Rightarrow> nav_state \<Rightarrow> nav_state" where
  "getScript c st = st\<lparr>waiting := waiting st @ [c]\<rparr>"

definition expandNode :: "path \<Rightarrow> bool \<Rightarrow> nav_state \<Rightarrow> nav_state" where
  "expandNode p imm st =
     (case nodes st p of
        None \<Rightarrow> st
      | Some node \<Rightarrow>
          if expanded node then st
          else (case childrenData node of
                  NoChildren \<Rightarrow> st
                | ScriptVar v \<Rightarrow> getScript (ExpandAfter p v imm) st
                | Entries es \<Rightarrow> openNode p (visitNode p es (childrenVisited node) st)))"

text \<open>The handler of the arrow of a node.\<close>

definition toggleNode :: "path \<Rightarrow> nav_state \<Rightarrow> nav_state" where
  "toggleNode p st =
     (case nodes st p of
        None \<Rightarrow> st
      | Some node \<Rightarrow>
          if expanded node then update_node p (\<lambda>n. n\<lparr>ulDisplay := DNone, expanded := False\<rparr>) st
          else expandNode p False st)"

section \<open>Selection\<close>

definition clearSelected :: "nav_state \<Rightarrow> nav_state" where
  "clearSelected st = st\<lparr>nodes := (\<lambda>p. map_option (\<lambda>n. n\<lparr>selected := False\<rparr>) (nodes st p))\<rparr>"

definition setSelected :: "path \<Rightarrow> nav_state \<Rightarrow> nav_state" where
  "setSelected p st = update_node p (\<lambda>n. n\<lparr>selected := True\<rparr>) st"

text \<open>The \<open>onclick\<close> of the label of node \<open>p\<close>. The second part of the result is the anchor that
  \<open>gotoAnchor\<close> scrolls to (\<open>NavLooks\<close>); the browser then follows the \<open>href\<close>, if it is a page.\<close>

definition clickLabel :: "path \<Rightarrow> nav_state \<Rightarrow> nav_state \<times> string option" where
  "clickLabel p st =
     (case nodes st p of
        None \<Rightarrow> (st, None)
      | Some node \<Rightarrow>
          (case linkClick node of
             NoHandler \<Rightarrow> (st, None)
           | TogglesChildren \<Rightarrow> (toggleNode p st, None)
           | StoresLink link \<Rightarrow> (storeLink link st, None)
           | GoesToAnchor link aname \<Rightarrow>
               let st1 = storeLink link st;
                   st2 = (if selected node then st1 else setSelected p (clearSelected st1))
               in (st2, Some aname)))"

text \<open>The nodes whose link has a class that ends with \<open>page:anchor\<close>.\<close>

definition anchorNodes :: "string \<Rightarrow> nav_state \<Rightarrow> path list" where
  "anchorNodes hash st =
     (if hash = [] then []
      else let link = stripPath (pathName st) @ '':'' @ substring hash 1
           in filter (\<lambda>p. case nodes st p of None \<Rightarrow> False | Some n \<Rightarrow> suffix link (linkClass n)) (made st))"

definition selectAndHighlight :: "string \<Rightarrow> path option \<Rightarrow> nav_state \<Rightarrow> nav_state" where
  "selectAndHighlight hash n st =
     (let st1 = (if anchorNodes hash st \<noteq> [] then fold setSelected (anchorNodes hash st) st
                 else (case n of Some p \<Rightarrow> setSelected p st | None \<Rightarrow> st))
      in st1\<lparr>syncTop := (case nodes st1 [0] of
                Some f \<Rightarrow> if selected f then 30 else 5 | None \<Rightarrow> 5)\<rparr>)"

section \<open>Showing the node of an address\<close>

text \<open>\<open>o.toroot.replace(/\..+$/, '')\<close>.\<close>

definition strip_ext :: "string \<Rightarrow> string" where
  "strip_ext s =
     (let t = takeWhile (\<lambda>c. c \<noteq> CHR ''.'') s in if Suc (length t) < length s then t else s)"

definition index_root :: "nav_state \<Rightarrow> bool" where
  "index_root st =
     (let rootBase = stripPath (strip_ext (toroot st))
      in rootBase = ''index'' \<or> rootBase = ''pages'' \<or> rootBase = ''search'')"

text \<open>
  \<open>showNode(o, node, index, hash)\<close>: \<open>p\<close> is the node, \<open>crumbs\<close> what \<open>o.breadcrumbs\<close> holds from
  \<open>index\<close> on. A step below a missing crumb reads a property of \<open>undefined\<close>.
\<close>

fun show_from :: "path \<Rightarrow> nat \<Rightarrow> nat list \<Rightarrow> string \<Rightarrow> nav_state \<Rightarrow> nav_result" where
  "show_from p k crumbs hash st =
     (case nodes st p of
        None \<Rightarrow> Inr (selectAndHighlight hash None st)
      | Some node \<Rightarrow>
          (case childrenData node of
             NoChildren \<Rightarrow> Inr (selectAndHighlight hash None st)
           | ScriptVar v \<Rightarrow> Inr (getScript (ShowAfter p v p k hash False) st)
           | Entries es \<Rightarrow>
               let st1 = openNode p (visitNode p es (childrenVisited node) st) in
               (case crumbs of
                  [] \<Rightarrow> Inl (TypeError, st1)
                | c # cs \<Rightarrow>
                    let q = p @ [c] in
                    if cs \<noteq> [] then show_from q (Suc k) cs hash st1
                    else (case nodes st1 q of
                            None \<Rightarrow> Inl (TypeError, st1)
                          | Some n \<Rightarrow>
                              (case childrenData n of
                                 ScriptVar v \<Rightarrow> Inr (getScript (ShowAfter q v p k hash True) st1)
                               | _ \<Rightarrow> Inr (selectAndHighlight hash (Some q)
                                        (if index_root st1 then expandNode q True st1 else st1)))))))"

declare show_from.simps [simp del]

definition showNode :: "path \<Rightarrow> nat \<Rightarrow> string \<Rightarrow> nav_state \<Rightarrow> nav_result" where
  "showNode p k hash st = show_from p k (drop k (breadcrumbs st)) hash st"

text \<open>
  \<open>$.extend(true, [], x)\<close> copies the array \<open>x\<close>, and returns the empty array for \<open>undefined\<close>. So
  \<open>o.breadcrumbs\<close> is always an array, and \<open>!o.breadcrumbs\<close> is never true: the fallback of
  \<open>gotoNode\<close> does not run.
\<close>

definition copy_array :: "nat list option \<Rightarrow> nat list" where
  "copy_array x = (case x of None \<Rightarrow> [] | Some bs \<Rightarrow> bs)"

definition gotoNode :: "nav_index \<Rightarrow> string \<Rightarrow> string \<Rightarrow> nav_state \<Rightarrow> nav_result" where
  "gotoNode table root hash st =
     (let nti = index_get table (root @ hash);
          bs = copy_array (case nti of Some x \<Rightarrow> Some x | None \<Rightarrow> index_get table root)
      in showNode [] 0 hash (st\<lparr>breadcrumbs := 0 # bs\<rparr>))"

text \<open>The address \<open>navTo\<close> goes to: the stored link if there is one.\<close>

definition nav_request :: "nav_state \<Rightarrow> string \<Rightarrow> string \<Rightarrow> string \<times> string" where
  "nav_request st root hash =
     (let link = cachedLink st;
          parts = split_on CHR ''#'' link;
          (root1, hash1) =
            (if link \<noteq> [] then
               (parts ! 0, if 1 < length parts then CHR ''#'' # filter hash_char (parts ! 1) else [])
             else (root, hash))
      in (root1, if line_anchor hash1 then [] else hash1))"

definition nav_home :: string where
  "nav_home = (case entryLink (hd NAVTREE) of Some l \<Rightarrow> l | None \<Rightarrow> [])"

definition navTo :: "string \<Rightarrow> string \<Rightarrow> nav_state \<Rightarrow> nav_result" where
  "navTo root0 hash0 st =
     (let (root, hash) = nav_request st root0 hash0;
          i = nav_locate (root @ hash);
          (j, root1) = (if i = -1 then (0, nav_home) else (nat i, root))
      in case subIndices st j of
           Some table \<Rightarrow> gotoNode table root1 hash st
         | None \<Rightarrow> Inr (getScript (GotoAfter j root1 hash) st))"

section \<open>Scripts arrive\<close>

definition setData :: "path \<Rightarrow> nav_data list \<Rightarrow> nav_state \<Rightarrow> nav_state" where
  "setData q es st = update_node q (\<lambda>n. n\<lparr>childrenData := Entries es\<rparr>) st"

definition deliver :: "(string \<Rightarrow> nav_data list option) \<Rightarrow> (nat \<Rightarrow> nav_index option) \<Rightarrow>
    nav_cont \<Rightarrow> nav_state \<Rightarrow> nav_result" where
  "deliver files tables c st =
     (case c of
        ShowAfter q v p k hash retry \<Rightarrow>
          (case files (getData_name v) of
             None \<Rightarrow> Inl (ReferenceError, st)
           | Some es \<Rightarrow>
               let st1 = setData q es st;
                   st2 = (if retry then update_node p (\<lambda>n. n\<lparr>expanded := False\<rparr>) st1 else st1)
               in showNode p k hash st2)
      | ExpandAfter q v imm \<Rightarrow>
          (case files (getData_name v) of
             None \<Rightarrow> Inl (ReferenceError, st)
           | Some es \<Rightarrow> Inr (expandNode q imm (setData q es st)))
      | GotoAfter i root hash \<Rightarrow>
          (case tables i of
             None \<Rightarrow> Inl (ReferenceError, st)
           | Some t \<Rightarrow> gotoNode t root hash (st\<lparr>subIndices := (subIndices st)(i \<mapsto> t)\<rparr>)))"

text \<open>\<open>n\<close> scripts arrive, each the one that was asked for first.\<close>

fun run_scripts :: "(string \<Rightarrow> nav_data list option) \<Rightarrow> (nat \<Rightarrow> nav_index option) \<Rightarrow>
    nat \<Rightarrow> nav_result \<Rightarrow> nav_result" where
  "run_scripts files tables n (Inl e) = Inl e"
| "run_scripts files tables 0 (Inr st) = Inr st"
| "run_scripts files tables (Suc n) (Inr st) =
     (case waiting st of
        [] \<Rightarrow> Inr st
      | c # cs \<Rightarrow> run_scripts files tables n (deliver files tables c (st\<lparr>waiting := cs\<rparr>)))"

section \<open>The page loads\<close>

definition initNavTree :: "string \<Rightarrow> string \<Rightarrow> string \<Rightarrow> string \<Rightarrow> bool \<Rightarrow> string option \<Rightarrow> bool \<Rightarrow> nav_state" where
  "initNavTree toroot0 relpath0 path0 hash0 storage link sync =
     (let st = \<lparr>toroot = toroot0, relpath = relpath0, locPath = path0, locHash = hash0,
                storageSupported = storage, navpath = link, syncOn = sync, syncTop = 5,
                subIndices = (\<lambda>i. None), breadcrumbs = [],
                nodes = [[] \<mapsto> \<lparr>nodeText = [], childrenData = Entries NAVTREE, childrenVisited = False,
                   expanded = False, ulDisplay = DUnset, linkClass = [], linkHref = [],
                   linkClick = NoHandler, selected = False, depth = 0\<rparr>],
                made = [], waiting = []\<rparr>
      in if storage \<and> cachedLink st \<noteq> [] then st\<lparr>syncOn := False\<rparr> else st)"

definition onLoad :: "nav_state \<Rightarrow> nav_result" where
  "onLoad st = navTo (toroot st) (hashUrl st) st"

definition anchorSelected :: "nav_state \<Rightarrow> bool" where
  "anchorSelected st =
     (let link = stripPath (pathName st) @ '':'' @ hashValue st
      in locHash st \<noteq> [] \<and>
         (\<exists>p \<in> set (made st). case nodes st p of None \<Rightarrow> False
                | Some n \<Rightarrow> suffix link (linkClass n) \<and> selected n))"

text \<open>The handler of \<open>hashchange\<close>; \<open>busy\<close> is \<open>animationInProgress\<close>.\<close>

definition onHashChange :: "bool \<Rightarrow> string \<Rightarrow> nav_state \<Rightarrow> nav_result" where
  "onHashChange busy newHash st0 =
     (let st = st0\<lparr>locHash := newHash\<rparr> in
      if 1 < length (locHash st) then
        (let st1 = (if anchorSelected st then st else clearSelected st)
         in navTo (stripPath2 (pathName st1)) (hashUrl st1) st1)
      else if \<not> busy then
        (let st1 = clearSelected st in navTo (toroot st1) (hashUrl st1) st1)
      else Inr st)"

end
