(* ===== verification/NavShow.thy ===== *)
theory NavShow
  imports NavTree
begin

text \<open>
  What \<open>showNode\<close> achieves: when the data files arrive, the node of the breadcrumbs is reached,
  every node on the way is open, and it is the one that is selected unless the address names an
  anchor of the page. The invariant \<open>nodes_ok\<close> says that the node objects agree with the data.
\<close>

section \<open>The data as one tree\<close>

definition child_entries :: "(string \<Rightarrow> nav_data list option) \<Rightarrow> nav_children \<Rightarrow> nav_data list option" where
  "child_entries files c =
     (case c of NoChildren \<Rightarrow> None | Entries es \<Rightarrow> Some es | ScriptVar v \<Rightarrow> files (getData_name v))"

fun entry_at :: "(string \<Rightarrow> nav_data list option) \<Rightarrow> nav_data list \<Rightarrow> path \<Rightarrow> nav_data option" where
  "entry_at files es [] = None"
| "entry_at files es (i # p) =
     (if i < length es then
        (if p = [] then Some (es ! i)
         else (case child_entries files (entryChildren (es ! i)) of
                 None \<Rightarrow> None | Some es' \<Rightarrow> entry_at files es' p))
      else None)"

definition data_of :: "(string \<Rightarrow> nav_data list option) \<Rightarrow> path \<Rightarrow> nav_children option" where
  "data_of files p = (if p = [] then Some (Entries NAVTREE)
                      else map_option entryChildren (entry_at files NAVTREE p))"

lemma entry_at_snoc:
  "entry_at files es (p @ [i]) =
     (if p = [] then (if i < length es then Some (es ! i) else None)
      else (case entry_at files es p of None \<Rightarrow> None
            | Some e \<Rightarrow> (case child_entries files (entryChildren e) of None \<Rightarrow> None
                | Some es' \<Rightarrow> if i < length es' then Some (es' ! i) else None)))"
  by (induction files es p rule: entry_at.induct) (auto split: option.splits)

lemma data_of_child:
  assumes "data_of files p = Some c" "child_entries files c = Some es" "i < length es"
  shows "data_of files (p @ [i]) = Some (entryChildren (es ! i))"
  using assms by (auto simp: data_of_def entry_at_snoc child_entries_def split: if_splits)

definition data_agrees :: "(string \<Rightarrow> nav_data list option) \<Rightarrow> nav_children \<Rightarrow> nav_children \<Rightarrow> bool" where
  "data_agrees files c d \<longleftrightarrow>
     d = c \<or> (\<exists>v es. c = ScriptVar v \<and> files (getData_name v) = Some es \<and> d = Entries es)"

definition node_ok :: "(string \<Rightarrow> nav_data list option) \<Rightarrow> nav_state \<Rightarrow> path \<Rightarrow> nav_node \<Rightarrow> bool" where
  "node_ok files st p n \<longleftrightarrow>
     (\<exists>c. data_of files p = Some c \<and> data_agrees files c (childrenData n)) \<and>
     (p \<noteq> [] \<longrightarrow> map_option entryText (entry_at files NAVTREE p) = Some (nodeText n)) \<and>
     (childrenVisited n \<longrightarrow>
        (\<exists>es. childrenData n = Entries es \<and> (\<forall>i < length es. nodes st (p @ [i]) \<noteq> None)))"

definition nodes_ok :: "(string \<Rightarrow> nav_data list option) \<Rightarrow> nav_state \<Rightarrow> bool" where
  "nodes_ok files st \<longleftrightarrow>
     nodes st [] \<noteq> None \<and> (\<forall>p n. nodes st p = Some n \<longrightarrow> node_ok files st p n)"

lemma nodes_okD: "nodes_ok files st \<Longrightarrow> nodes st p = Some n \<Longrightarrow> node_ok files st p n"
  by (simp add: nodes_ok_def)

section \<open>How the operations change the store\<close>

lemma nodes_update [simp]:
  "nodes (update_node p f st) q = (if q = p then map_option f (nodes st p) else nodes st q)"
  by (simp add: update_node_def)

lemma update_node_frame [simp]:
  "breadcrumbs (update_node p f st) = breadcrumbs st" "waiting (update_node p f st) = waiting st"
  "made (update_node p f st) = made st" "toroot (update_node p f st) = toroot st"
  "relpath (update_node p f st) = relpath st" "locPath (update_node p f st) = locPath st"
  by (simp_all add: update_node_def)

lemma make_children_frame [simp]:
  "breadcrumbs (make_children p d i es st) = breadcrumbs st"
  "waiting (make_children p d i es st) = waiting st" "toroot (make_children p d i es st) = toroot st"
  "relpath (make_children p d i es st) = relpath st" "locPath (make_children p d i es st) = locPath st"
  by (induction p d i es st rule: make_children.induct) simp_all

lemma newNode_cong:
  assumes "relpath st = relpath st'" "locPath st = locPath st'"
  shows "newNode st d e = newNode st' d e"
proof -
  have "link_href st = link_href st'"
    using assms by (intro ext) (simp add: link_href_def link_url_def pathName_def Let_def)
  then show ?thesis by (simp only: newNode_def)
qed

lemma butlast_same [simp]: "\<not> (p \<noteq> [] \<and> butlast p = p \<and> r)"
  by (cases p rule: rev_cases) auto

lemma newNode_sel [simp]:
  "childrenData (newNode st d e) = entryChildren e" "\<not> childrenVisited (newNode st d e)"
  "nodeText (newNode st d e) = entryText e" "\<not> selected (newNode st d e)" "\<not> expanded (newNode st d e)"
  by (simp_all add: newNode_def Let_def)

lemma nodes_make_children:
  "nodes (make_children p d i es st) q =
     (if q \<noteq> [] \<and> butlast q = p \<and> i \<le> last q \<and> last q < i + length es
      then Some (newNode st d (es ! (last q - i))) else nodes st q)"
proof (induction es arbitrary: i st)
  case (Cons e es)
  let ?st = "st\<lparr>nodes := (nodes st)(p @ [i] \<mapsto> newNode st d e), made := made st @ [p @ [i]]\<rparr>"
  have new: "newNode ?st d = newNode st d" by (intro ext newNode_cong) simp_all
  have eq: "q = p @ [i] \<longleftrightarrow> q \<noteq> [] \<and> butlast q = p \<and> last q = i"
    by (cases q rule: rev_cases) auto
  show ?case
  proof (cases "last q = i")
    case True
    then show ?thesis by (simp only: make_children.simps Cons.IH) (auto simp: new eq)
  next
    case False
    then show ?thesis
      by (simp only: make_children.simps Cons.IH) (auto simp: new eq nth_Cons' Suc_diff_le)
  qed
qed auto

lemma getNode_frame [simp]:
  "breadcrumbs (getNode p es st) = breadcrumbs st" "waiting (getNode p es st) = waiting st"
  "toroot (getNode p es st) = toroot st"
  by (simp_all add: getNode_def)

lemma nodes_getNode:
  "nodes (getNode p es st) q =
     (if q \<noteq> [] \<and> butlast q = p \<and> last q < length es then Some (newNode st (Suc (length p)) (es ! last q))
      else if q = p then map_option (\<lambda>n. n\<lparr>childrenVisited := True\<rparr>) (nodes st p) else nodes st q)"
proof -
  have "newNode (update_node p (\<lambda>n. n\<lparr>childrenVisited := True\<rparr>) st) = newNode st"
    by (intro ext newNode_cong) simp_all
  then show ?thesis by (simp add: getNode_def nodes_make_children)
qed

lemma visitNode_frame [simp]:
  "breadcrumbs (visitNode p es v st) = breadcrumbs st" "waiting (visitNode p es v st) = waiting st"
  "toroot (visitNode p es v st) = toroot st"
  by (simp_all add: visitNode_def)

lemma openNode_frame [simp]:
  "breadcrumbs (openNode p st) = breadcrumbs st" "waiting (openNode p st) = waiting st"
  "toroot (openNode p st) = toroot st"
  by (simp_all add: openNode_def)

section \<open>The operations keep the agreement\<close>

lemma nodes_ok_update:
  assumes "nodes_ok files st" and "\<And>n. nodes st p = Some n \<Longrightarrow> childrenData (f n) = childrenData n"
    and "\<And>n. nodes st p = Some n \<Longrightarrow> childrenVisited (f n) = childrenVisited n"
    and "\<And>n. nodes st p = Some n \<Longrightarrow> nodeText (f n) = nodeText n"
  shows "nodes_ok files (update_node p f st)"
  unfolding nodes_ok_def
proof (intro conjI allI impI)
  show "nodes (update_node p f st) [] \<noteq> None" using assms(1) by (auto simp: nodes_ok_def)
  fix q n assume q: "nodes (update_node p f st) q = Some n"
  have dom: "nodes (update_node p f st) r \<noteq> None \<longleftrightarrow> nodes st r \<noteq> None" for r by simp
  from q obtain n0 where n0: "nodes st q = Some n0" "childrenData n = childrenData n0"
    "childrenVisited n = childrenVisited n0" "nodeText n = nodeText n0"
    using assms(2-4) by (auto split: if_splits)
  from nodes_okD [OF assms(1) n0(1)] n0(2-4) show "node_ok files (update_node p f st) q n"
    unfolding node_ok_def dom by simp
qed

lemma nodes_ok_setData:
  assumes "nodes_ok files st" "nodes st q = Some n" "childrenData n = ScriptVar v"
    and "files (getData_name v) = Some es"
  shows "nodes_ok files (setData q es st)"
  unfolding nodes_ok_def
proof (intro conjI allI impI)
  show "nodes (setData q es st) [] \<noteq> None" using assms(1) by (auto simp: nodes_ok_def setData_def)
  fix r m assume r: "nodes (setData q es st) r = Some m"
  have dom: "nodes (setData q es st) s \<noteq> None \<longleftrightarrow> nodes st s \<noteq> None" for s by (simp add: setData_def)
  show "node_ok files (setData q es st) r m"
  proof (cases "r = q")
    case False
    with r have "nodes st r = Some m" by (simp add: setData_def)
    from nodes_okD [OF assms(1) this] show ?thesis unfolding node_ok_def dom .
  next
    case True
    with r assms(2) have m: "m = n\<lparr>childrenData := Entries es\<rparr>" by (simp add: setData_def)
    from nodes_okD [OF assms(1,2)] have ok: "node_ok files st q n" .
    with assms(3) have "data_of files q = Some (ScriptVar v)" "\<not> childrenVisited n"
      by (auto simp: node_ok_def data_agrees_def)
    with ok m True assms(4) show ?thesis by (auto simp: node_ok_def data_agrees_def)
  qed
qed

lemma nodes_ok_getNode:
  assumes "nodes_ok files st" "nodes st p = Some n" "childrenData n = Entries es"
  shows "nodes_ok files (getNode p es st)"
  unfolding nodes_ok_def
proof (intro conjI allI impI)
  show "nodes (getNode p es st) [] \<noteq> None"
    using assms(1) by (auto simp: nodes_ok_def nodes_getNode)
  fix q m assume q: "nodes (getNode p es st) q = Some m"
  have dom: "nodes (getNode p es st) s \<noteq> None" if "nodes st s \<noteq> None" for s
    using that by (auto simp: nodes_getNode)
  obtain c where c: "data_of files p = Some c" "data_agrees files c (Entries es)"
    using nodes_okD [OF assms(1,2)] assms(3) by (auto simp: node_ok_def)
  then have ce: "child_entries files c = Some es"
    by (auto simp: data_agrees_def child_entries_def)
  show "node_ok files (getNode p es st) q m"
  proof (cases "q \<noteq> [] \<and> butlast q = p \<and> last q < length es")
    case True
    then have qq: "q = p @ [last q]" by (metis append_butlast_last_id)
    from True q have m: "m = newNode st (Suc (length p)) (es ! last q)" by (simp add: nodes_getNode)
    have d: "data_of files q = Some (entryChildren (es ! last q))"
      using data_of_child [OF c(1) ce, of "last q"] True qq by simp
    have "entry_at files NAVTREE q = Some (es ! last q)"
      using c(1) ce True qq entry_at_snoc [of files NAVTREE p "last q"]
      by (auto simp: data_of_def child_entries_def split: if_splits)
    with d m True show ?thesis by (simp add: node_ok_def data_agrees_def)
  next
    case False
    show ?thesis
    proof (cases "q = p")
      case True
      with False q assms(2) have m: "m = n\<lparr>childrenVisited := True\<rparr>" by (auto simp: nodes_getNode)
      have "\<forall>i < length es. nodes (getNode p es st) (p @ [i]) \<noteq> None" by (simp add: nodes_getNode)
      with nodes_okD [OF assms(1,2)] m True assms(3) show ?thesis by (simp add: node_ok_def)
    next
      case other: False
      with False q have "nodes st q = Some m" by (auto simp: nodes_getNode split: if_splits)
      from nodes_okD [OF assms(1) this] dom show ?thesis unfolding node_ok_def by blast
    qed
  qed
qed

lemma nodes_ok_cong: "nodes st' = nodes st \<Longrightarrow> nodes_ok files st' = nodes_ok files st"
  by (simp add: nodes_ok_def node_ok_def)

section \<open>Reaching the node of the breadcrumbs\<close>

definition opened :: "nav_state \<Rightarrow> path \<Rightarrow> bool" where
  "opened st p \<longleftrightarrow> (\<exists>n. nodes st p = Some n \<and> expanded n \<and> ulDisplay n = DBlock)"

lemma nodes_ok_open: "nodes_ok files st \<Longrightarrow> nodes_ok files (openNode p st)"
  unfolding openNode_def by (rule nodes_ok_update) simp_all

lemma opening_node:
  assumes "nodes_ok files st" "nodes st p = Some n" "childrenData n = Entries es"
  defines "st1 \<equiv> openNode p (visitNode p es (childrenVisited n) st)"
  shows "nodes_ok files st1" "opened st1 p" "i < length es \<Longrightarrow> nodes st1 (p @ [i]) \<noteq> None"
    "\<And>q. length q < length p \<Longrightarrow> nodes st1 q = nodes st q"
    "\<exists>m. nodes st1 p = Some m \<and> childrenData m = Entries es \<and> childrenVisited m"
proof -
  let ?v = "visitNode p es (childrenVisited n) st"
  have "nodes_ok files ?v"
    using nodes_ok_getNode [OF assms(1-3)] assms(1) by (simp add: visitNode_def)
  then show "nodes_ok files st1" unfolding st1_def by (rule nodes_ok_open)
  have p: "nodes ?v p = Some (n\<lparr>childrenVisited := True\<rparr>)"
    using assms(2) by (auto simp: visitNode_def nodes_getNode)
  then show "opened st1 p" by (simp add: opened_def st1_def openNode_def)
  from p show "\<exists>m. nodes st1 p = Some m \<and> childrenData m = Entries es \<and> childrenVisited m"
    using assms(3) by (simp add: st1_def openNode_def)
  show "nodes st1 (p @ [i]) \<noteq> None" if "i < length es"
  proof (cases "childrenVisited n")
    case True
    with nodes_okD [OF assms(1,2)] assms(3) that
    show ?thesis by (auto simp: node_ok_def st1_def openNode_def visitNode_def)
  next
    case False
    with that show ?thesis by (simp add: st1_def openNode_def visitNode_def nodes_getNode)
  qed
  fix q :: path assume l: "length q < length p"
  then have "\<not> (q \<noteq> [] \<and> butlast q = p)" "q \<noteq> p" by auto
  then show "nodes st1 q = nodes st q"
    by (auto simp: st1_def openNode_def visitNode_def nodes_getNode)
qed

text \<open>What holds when the scripts for the crumbs from \<open>k\<close> on have arrived.\<close>

definition arrived :: "(string \<Rightarrow> nav_data list option) \<Rightarrow> nat list \<Rightarrow> nat \<Rightarrow> nav_state \<Rightarrow> nav_state \<Rightarrow> bool" where
  "arrived files bs k st st2 \<longleftrightarrow> nodes_ok files st2 \<and> waiting st2 = [] \<and> nodes st2 bs \<noteq> None \<and>
     (\<forall>j. k \<le> j \<and> j < length bs \<longrightarrow> opened st2 (take j bs)) \<and>
     (\<forall>q. length q < k \<longrightarrow> nodes st2 q = nodes st q)"

lemma leaf_arrives:
  assumes ok: "nodes_ok files st1" and w: "waiting st1 = []" and p: "opened st1 p"
    and n: "nodes st1 (p @ [c]) = Some n" "\<forall>v. childrenData n \<noteq> ScriptVar v"
    and fr: "\<And>q. length q < length p \<Longrightarrow> nodes st1 q = nodes st q"
  shows "arrived files (p @ [c]) (length p) st
    (if index_root st1 then expandNode (p @ [c]) True st1 else st1)"
proof -
  let ?e = "expandNode (p @ [c]) True st1"
  have e: "nodes_ok files ?e \<and> waiting ?e = [] \<and> (\<forall>q. length q \<le> length p \<longrightarrow> nodes ?e q = nodes st1 q) \<and>
      nodes ?e (p @ [c]) \<noteq> None"
  proof (cases "childrenData n")
    case (Entries es)
    from opening_node [OF ok n(1) Entries] have o: "nodes_ok files (openNode (p @ [c]) (visitNode (p @ [c]) es (childrenVisited n) st1))"
      "\<And>q. length q < length (p @ [c]) \<Longrightarrow>
         nodes (openNode (p @ [c]) (visitNode (p @ [c]) es (childrenVisited n) st1)) q = nodes st1 q"
      "nodes (openNode (p @ [c]) (visitNode (p @ [c]) es (childrenVisited n) st1)) (p @ [c]) \<noteq> None"
      by auto
    with Entries n(1) ok w show ?thesis by (auto simp: expandNode_def)
  qed (use ok w n in \<open>simp_all add: expandNode_def\<close>)
  have j: "take j (p @ [c]) = p" if "length p \<le> j" "j < length (p @ [c])" for j using that by simp
  from e p ok w n fr show ?thesis
    by (auto simp: arrived_def opened_def j)
qed

lemma run_scripts_waiting:
  "waiting st = [] \<Longrightarrow> run_scripts files tables (Suc n) (Inr (getScript c st)) =
     run_scripts files tables n (deliver files tables c st)"
  by (cases st) (simp add: getScript_def)

lemma run_scripts_Inr [simp]: "waiting st = [] \<Longrightarrow> run_scripts files tables n (Inr st) = Inr st"
  by (cases n) simp_all

lemma nodes_ok_child:
  assumes "nodes_ok files st" "nodes st (p @ [c]) = Some n" "data_of files p = Some d"
    "child_entries files d = Some es" "c < length es"
  shows "data_agrees files (entryChildren (es ! c)) (childrenData n)"
    "nodeText n = entryText (es ! c)"
proof -
  have d: "data_of files (p @ [c]) = Some (entryChildren (es ! c))"
    using data_of_child [OF assms(3-5)] .
  have "entry_at files NAVTREE (p @ [c]) = Some (es ! c)"
    using assms(3-5) entry_at_snoc [of files NAVTREE p c]
    by (auto simp: data_of_def child_entries_def split: if_splits)
  with d nodes_okD [OF assms(1,2)]
  show "data_agrees files (entryChildren (es ! c)) (childrenData n)" "nodeText n = entryText (es ! c)"
    by (auto simp: node_ok_def)
qed

lemma agrees_cases:
  assumes "data_agrees files d x" "child_entries files d = Some es"
  obtains "x = Entries es" | v where "x = ScriptVar v" "files (getData_name v) = Some es"
  using assms by (auto simp: data_agrees_def child_entries_def split: nav_children.splits)

lemma setData_frame [simp]:
  "breadcrumbs (setData q es st) = breadcrumbs st" "waiting (setData q es st) = waiting st"
  by (simp_all add: setData_def)

text \<open>The result of \<open>show_from\<close> once at most \<open>n\<close> scripts have arrived.\<close>

definition shows_node :: "(string \<Rightarrow> nav_data list option) \<Rightarrow> (nat \<Rightarrow> nav_index option) \<Rightarrow>
    nat list \<Rightarrow> nat \<Rightarrow> string \<Rightarrow> nat \<Rightarrow> nav_state \<Rightarrow> nav_result \<Rightarrow> bool" where
  "shows_node files tables bs k hash n st r \<longleftrightarrow>
     (\<exists>m \<le> n. \<exists>st2. run_scripts files tables m r = Inr (selectAndHighlight hash (Some bs) st2) \<and>
        arrived files bs k st st2)"

lemma shows_node_script:
  assumes "waiting st = []" "shows_node files tables bs k hash n st' (deliver files tables c st)"
    and "\<And>q. length q < k \<Longrightarrow> nodes st' q = nodes st0 q"
  shows "shows_node files tables bs k hash (Suc n) st0 (Inr (getScript c st))"
proof -
  from assms(2) obtain m st2 where m: "m \<le> n"
    "run_scripts files tables m (deliver files tables c st) = Inr (selectAndHighlight hash (Some bs) st2)"
    "arrived files bs k st' st2" by (auto simp: shows_node_def)
  with assms(3) have "arrived files bs k st0 st2" by (simp add: arrived_def)
  with m show ?thesis
    unfolding shows_node_def
    by (intro exI [of _ "Suc m"] conjI exI [of _ st2]) (simp_all add: run_scripts_waiting [OF assms(1)] del: run_scripts.simps)
qed

lemma selectAndHighlight_waiting [simp]: "waiting (selectAndHighlight hash n st) = waiting st"
proof -
  have "waiting (fold setSelected ps st) = waiting st" for ps
    by (induction ps arbitrary: st) (simp_all add: setSelected_def)
  then show ?thesis by (simp add: selectAndHighlight_def Let_def setSelected_def split: option.split)
qed

lemma shows_node_now:
  "arrived files bs k st0 st \<Longrightarrow>
   shows_node files tables bs k hash n st0 (Inr (selectAndHighlight hash (Some bs) st))"
  unfolding shows_node_def by (intro exI [of _ 0] conjI exI [of _ st]) simp_all

lemma last_crumb:
  assumes ok: "nodes_ok files st" and w: "waiting st = []" and b: "breadcrumbs st = p @ [c]"
    and n: "nodes st p = Some n" "childrenData n = Entries es" and d: "data_of files p = Some d"
    "child_entries files d = Some es" "c < length es"
    and leaf: "entryChildren (es ! c) = NoChildren \<or> child_entries files (entryChildren (es ! c)) \<noteq> None"
  shows "shows_node files tables (p @ [c]) (length p) hash 1 st (show_from p (length p) [c] hash st)"
proof -
  define st1 where "st1 = openNode p (visitNode p es (childrenVisited n) st)"
  note o = opening_node [OF ok n, folded st1_def]
  from o(3) [OF d(3)] obtain x where x: "nodes st1 (p @ [c]) = Some x" by auto
  have agree: "data_agrees files (entryChildren (es ! c)) (childrenData x)"
    by (rule nodes_ok_child(1) [OF o(1) x d])
  have w1: "waiting st1 = []" "breadcrumbs st1 = p @ [c]" using w b by (simp_all add: st1_def)
  show ?thesis
  proof (cases "\<exists>v. childrenData x = ScriptVar v")
    case False
    then have now: "show_from p (length p) [c] hash st = Inr (selectAndHighlight hash (Some (p @ [c]))
        (if index_root st1 then expandNode (p @ [c]) True st1 else st1))"
      using n x by (cases "childrenData x") (simp_all add: show_from.simps Let_def flip: st1_def)
    show ?thesis unfolding now
      by (rule shows_node_now, rule leaf_arrives [OF o(1) w1(1) o(2) x _ o(4)]) (use False in auto)
  next
    case True
    then obtain v where v: "childrenData x = ScriptVar v" by blast
    with agree have ec: "entryChildren (es ! c) = ScriptVar v" by (auto simp: data_agrees_def)
    with leaf obtain es' where es': "files (getData_name v) = Some es'"
      by (auto simp: child_entries_def)
    let ?c = "ShowAfter (p @ [c]) v p (length p) hash True"
    have sf: "show_from p (length p) [c] hash st = Inr (getScript ?c st1)"
      using n x v by (simp add: show_from.simps Let_def flip: st1_def)
    define st3 where "st3 = update_node p (\<lambda>n. n\<lparr>expanded := False\<rparr>) (setData (p @ [c]) es' st1)"
    from o(5) obtain y where y: "nodes st1 p = Some y" "childrenData y = Entries es" "childrenVisited y" by blast
    have ok3: "nodes_ok files st3" unfolding st3_def
      by (rule nodes_ok_update, rule nodes_ok_setData [OF o(1) x v es']) simp_all
    have n3: "nodes st3 p = Some (y\<lparr>expanded := False\<rparr>)" using y by (simp add: st3_def setData_def)
    have x3: "nodes st3 (p @ [c]) = Some (x\<lparr>childrenData := Entries es'\<rparr>)"
      using x by (simp add: st3_def setData_def)
    define st4 where "st4 = openNode p st3"
    have st4: "st4 = openNode p (visitNode p es (childrenVisited (y\<lparr>expanded := False\<rparr>)) st3)"
      using y by (simp add: st4_def visitNode_def)
    have o4: "nodes_ok files st4" "opened st4 p" "\<And>q. length q < length p \<Longrightarrow> nodes st4 q = nodes st3 q"
      using opening_node [OF ok3 n3, of es] y unfolding st4 by simp_all
    have x4: "nodes st4 (p @ [c]) = Some (x\<lparr>childrenData := Entries es'\<rparr>)"
      using x3 by (simp add: st4_def openNode_def)
    have fr: "nodes st4 q = nodes st q" if "length q < length p" for q
      using that o4(3) o(4) by (auto simp: st3_def setData_def)
    have w4: "waiting st4 = []" using w1 by (simp add: st4_def st3_def)
    have bs: "drop (length p) (breadcrumbs st3) = [c]" using w1 by (simp add: st3_def)
    have "show_from p (length p) [c] hash st3 = Inr (selectAndHighlight hash (Some (p @ [c]))
        (if index_root st4 then expandNode (p @ [c]) True st4 else st4))"
      using n3 y x4 by (simp add: show_from.simps Let_def visitNode_def flip: st4_def)
    then have del: "deliver files tables ?c st1 = Inr (selectAndHighlight hash (Some (p @ [c]))
        (if index_root st4 then expandNode (p @ [c]) True st4 else st4))"
      using es' bs by (simp add: deliver_def Let_def showNode_def flip: st3_def)
    have "arrived files (p @ [c]) (length p) st (if index_root st4 then expandNode (p @ [c]) True st4 else st4)"
      by (rule leaf_arrives [OF o4(1) w4 o4(2) x4 _ fr]) simp_all
    from shows_node_now [OF this, of tables hash 0]
    show ?thesis unfolding sf
      using shows_node_script [OF w1(1), of files tables "p @ [c]" "length p" hash 0 st ?c st]
      by (simp add: del)
  qed
qed

lemma shows_node_mono: "shows_node files tables bs k hash n st r \<Longrightarrow> n \<le> n' \<Longrightarrow>
    shows_node files tables bs k hash n' st r"
  unfolding shows_node_def by (meson order_trans)

lemma arrived_up:
  assumes "arrived files bs (Suc k) st1 st2" "opened st1 (take k bs)" "length (take k bs) = k"
    and "\<And>q. length q < k \<Longrightarrow> nodes st1 q = nodes st q"
  shows "arrived files bs k st st2"
proof -
  have "nodes st2 (take k bs) = nodes st1 (take k bs)"
    using assms(1,3) by (simp add: arrived_def)
  with assms(2) have "opened st2 (take k bs)" by (simp add: opened_def)
  with assms(1,4) show ?thesis
    by (auto simp: arrived_def) (metis not_less_eq_eq le_antisym)
qed

lemma crumbs_arrive:
  assumes "nodes_ok files st" "waiting st = []" "breadcrumbs st = p @ crumbs" "crumbs \<noteq> []"
    and "nodes st p = Some n" "data_of files p = Some d" "child_entries files d = Some es"
    and "entry_at files es crumbs = Some e"
    and "entryChildren e = NoChildren \<or> child_entries files (entryChildren e) \<noteq> None"
  shows "shows_node files tables (p @ crumbs) (length p) hash (Suc (length crumbs)) st
    (show_from p (length p) crumbs hash st)"
  using assms
proof (induction crumbs arbitrary: p st n d es)
  case (Cons c cs)
  have c: "c < length es" using Cons.prems(8) by (auto split: if_splits)
  have resolved: "shows_node files tables (p @ c # cs) (length p) hash (Suc (length cs)) s
      (show_from p (length p) (c # cs) hash s)"
    if ok: "nodes_ok files s" and w: "waiting s = []" and b: "breadcrumbs s = p @ c # cs"
      and m: "nodes s p = Some m" "childrenData m = Entries es" for s m
  proof (cases "cs = []")
    case True
    with Cons.prems(8) c have "e = es ! c" by simp
    with last_crumb [OF ok w _ m Cons.prems(6,7) c, of tables hash] b True Cons.prems(9)
    show ?thesis by simp
  next
    case False
    define s1 where "s1 = openNode p (visitNode p es (childrenVisited m) s)"
    note o = opening_node [OF ok m, folded s1_def]
    from o(3) [OF c] obtain x where x: "nodes s1 (p @ [c]) = Some x" by auto
    from False Cons.prems(8) c obtain es' where es': "child_entries files (entryChildren (es ! c)) = Some es'"
      "entry_at files es' cs = Some e" by (auto split: option.splits)
    have sf: "show_from p (length p) (c # cs) hash s = show_from (p @ [c]) (length (p @ [c])) cs hash s1"
      using m False by (subst show_from.simps) (simp add: Let_def flip: s1_def)
    have "shows_node files tables ((p @ [c]) @ cs) (length (p @ [c])) hash (Suc (length cs)) s1
        (show_from (p @ [c]) (length (p @ [c])) cs hash s1)"
      by (rule Cons.IH [OF o(1) _ _ False x data_of_child [OF Cons.prems(6,7) c] es' Cons.prems(9)])
         (use w b in \<open>simp_all add: s1_def\<close>)
    then obtain k st2 where k: "k \<le> Suc (length cs)"
      "run_scripts files tables k (show_from (p @ [c]) (length (p @ [c])) cs hash s1) =
         Inr (selectAndHighlight hash (Some (p @ c # cs)) st2)"
      "arrived files (p @ c # cs) (Suc (length p)) s1 st2" by (auto simp: shows_node_def)
    have "arrived files (p @ c # cs) (length p) s st2"
      by (rule arrived_up [OF k(3)]) (use o(2,4) in simp_all)
    with k(1,2) show ?thesis unfolding sf shows_node_def by blast
  qed
  obtain d' where d': "data_of files p = Some d'" "data_agrees files d' (childrenData n)"
    using nodes_okD [OF Cons.prems(1,5)] by (auto simp: node_ok_def)
  with Cons.prems(6) have agree: "data_agrees files d (childrenData n)" by simp
  show ?case
  proof (rule agrees_cases [OF agree Cons.prems(7)])
    assume "childrenData n = Entries es"
    from resolved [OF Cons.prems(1-3,5) this] show ?thesis by (rule shows_node_mono) simp
  next
    fix v assume v: "childrenData n = ScriptVar v" "files (getData_name v) = Some es"
    let ?s = "setData p es st" and ?c = "ShowAfter p v p (length p) hash False"
    have "shows_node files tables (p @ c # cs) (length p) hash (Suc (length cs)) ?s
        (show_from p (length p) (c # cs) hash ?s)"
      by (rule resolved [OF nodes_ok_setData [OF Cons.prems(1,5) v], of "n\<lparr>childrenData := Entries es\<rparr>"])
         (use Cons.prems(2,3,5) in \<open>simp_all add: setData_def\<close>)
    moreover have "deliver files tables ?c st = show_from p (length p) (c # cs) hash ?s"
      using v Cons.prems(3) by (simp add: deliver_def Let_def showNode_def)
    ultimately have "shows_node files tables (p @ c # cs) (length p) hash (Suc (Suc (length cs))) st
        (Inr (getScript ?c st))"
      by (intro shows_node_script [OF Cons.prems(2), of _ _ _ _ _ _ ?s]) (auto simp: setData_def)
    moreover have "show_from p (length p) (c # cs) hash st = Inr (getScript ?c st)"
      using v Cons.prems(5) by (simp add: show_from.simps)
    ultimately show ?thesis by simp
  qed
qed simp

section \<open>What is selected\<close>

lemma nodes_select_fold:
  "nodes (fold setSelected ps st) q =
     (if q \<in> set ps then map_option (\<lambda>n. n\<lparr>selected := True\<rparr>) (nodes st q) else nodes st q)"
  by (induction ps arbitrary: st) (auto simp: setSelected_def option.map_comp comp_def)

lemma select_fold_frame: "made (fold setSelected ps st) = made st" "locPath (fold setSelected ps st) = locPath st"
  by (induction ps arbitrary: st) (simp_all add: setSelected_def)

lemma nodes_select:
  "nodes (selectAndHighlight hash n st) q =
     (if anchorNodes hash st \<noteq> [] \<and> q \<in> set (anchorNodes hash st) \<or> anchorNodes hash st = [] \<and> n = Some q
      then map_option (\<lambda>n. n\<lparr>selected := True\<rparr>) (nodes st q) else nodes st q)"
  by (auto simp: selectAndHighlight_def Let_def nodes_select_fold setSelected_def split: option.split)

lemma anchorNodes_select [simp]: "anchorNodes hash (selectAndHighlight hash n st) = anchorNodes hash st"
proof -
  have m: "made (selectAndHighlight hash n st) = made st" "locPath (selectAndHighlight hash n st) = locPath st"
    by (simp_all add: selectAndHighlight_def Let_def select_fold_frame setSelected_def split: option.split)
  have "(case nodes (selectAndHighlight hash n st) p of None \<Rightarrow> False | Some x \<Rightarrow> suffix l (linkClass x)) =
      (case nodes st p of None \<Rightarrow> False | Some x \<Rightarrow> suffix l (linkClass x))" for p l
    by (auto simp: nodes_select split: option.split)
  with m show ?thesis by (simp add: anchorNodes_def pathName_def cong: filter_cong)
qed

definition reached :: "(string \<Rightarrow> nav_data list option) \<Rightarrow> string \<Rightarrow> path \<Rightarrow> nav_state \<Rightarrow> bool" where
  "reached files hash bs st \<longleftrightarrow>
     waiting st = [] \<and> (\<forall>j < length bs. opened st (take j bs)) \<and>
     (\<exists>n. nodes st bs = Some n \<and> Some (nodeText n) = map_option entryText (entry_at files NAVTREE bs) \<and>
        (anchorNodes hash st = [] \<longrightarrow> selected n)) \<and>
     (\<forall>q \<in> set (anchorNodes hash st). \<exists>n. nodes st q = Some n \<and> selected n)"

lemma arrived_reached:
  assumes "arrived files bs 0 st st2" "bs \<noteq> []"
  shows "reached files hash bs (selectAndHighlight hash (Some bs) st2)"
proof -
  let ?st = "selectAndHighlight hash (Some bs) st2"
  have op: "opened ?st q" if "opened st2 q" for q using that by (auto simp: opened_def nodes_select)
  obtain n where n: "nodes st2 bs = Some n" using assms(1) by (auto simp: arrived_def)
  have ok: "nodes_ok files st2" using assms(1) by (simp add: arrived_def)
  from nodes_okD [OF ok n] assms(2)
  have t: "map_option entryText (entry_at files NAVTREE bs) = Some (nodeText n)" by (simp add: node_ok_def)
  have a: "\<exists>m. nodes ?st q = Some m \<and> selected m" if q: "q \<in> set (anchorNodes hash st2)" for q
  proof -
    from q obtain m where "nodes st2 q = Some m"
      by (auto simp: anchorNodes_def Let_def split: if_splits option.splits)
    moreover from q have "anchorNodes hash st2 \<noteq> []" by auto
    ultimately show ?thesis using q by (simp add: nodes_select)
  qed
  have b: "\<exists>m. nodes ?st bs = Some m \<and> nodeText m = nodeText n \<and> (anchorNodes hash st2 = [] \<longrightarrow> selected m)"
    using n by (auto simp: nodes_select)
  from op t a b assms(1) show ?thesis
    by (auto simp: reached_def arrived_def)
qed

lemma showNode_reaches:
  assumes "nodes_ok files st" "waiting st = []" "breadcrumbs st = bs" "bs \<noteq> []"
    and "entry_at files NAVTREE bs = Some e"
    and "entryChildren e = NoChildren \<or> child_entries files (entryChildren e) \<noteq> None"
  shows "\<exists>m \<le> Suc (length bs). \<exists>st'. run_scripts files tables m (showNode [] 0 hash st) = Inr st' \<and>
    reached files hash bs st'"
proof -
  from assms(1) obtain n where n: "nodes st [] = Some n" by (auto simp: nodes_ok_def)
  have d: "data_of files [] = Some (Entries NAVTREE)" "child_entries files (Entries NAVTREE) = Some NAVTREE"
    by (simp_all add: data_of_def child_entries_def)
  have "shows_node files tables ([] @ bs) (length ([]::path)) hash (Suc (length bs)) st
      (show_from [] (length ([]::path)) bs hash st)"
    by (rule crumbs_arrive [OF assms(1,2) _ assms(4) n d assms(5,6)]) (simp add: assms(3))
  then obtain m st2 where "m \<le> Suc (length bs)"
    "run_scripts files tables m (showNode [] 0 hash st) = Inr (selectAndHighlight hash (Some bs) st2)"
    "arrived files bs 0 st st2"
    using assms(3) by (auto simp: shows_node_def showNode_def)
  with arrived_reached [OF _ assms(4)] show ?thesis by blast
qed

lemma navTo_reaches:
  assumes ok: "nodes_ok files st" "waiting st = []"
    and req: "nav_request st root0 hash0 = (root, hash)"
    and loc: "nav_locate (root @ hash) = int i" and t: "tables i = Some t"
    and sub: "subIndices st i = None \<or> subIndices st i = Some t"
    and idx: "index_get t (root @ hash) = Some bs \<or>
      index_get t (root @ hash) = None \<and> index_get t root = Some bs"
    and e: "entry_at files NAVTREE (0 # bs) = Some e"
    and leaf: "entryChildren e = NoChildren \<or> child_entries files (entryChildren e) \<noteq> None"
  shows "\<exists>m \<le> length bs + 3. \<exists>st'. run_scripts files tables m (navTo root0 hash0 st) = Inr st' \<and>
    reached files hash (0 # bs) st'"
proof -
  define st1 where "st1 = st\<lparr>subIndices := (subIndices st)(i \<mapsto> t)\<rparr>"
  have goto: "gotoNode t root hash s = showNode [] 0 hash (s\<lparr>breadcrumbs := 0 # bs\<rparr>)" for s
    using idx by (auto simp: gotoNode_def Let_def copy_array_def)
  have go: "\<exists>m \<le> Suc (Suc (length bs)). \<exists>st'. run_scripts files tables m (gotoNode t root hash s) = Inr st' \<and>
      reached files hash (0 # bs) st'" if s: "nodes s = nodes st" "waiting s = []" for s
  proof -
    have "nodes_ok files (s\<lparr>breadcrumbs := 0 # bs\<rparr>)"
      using ok(1) s(1) by (subst nodes_ok_cong [of _ st]) simp_all
    from showNode_reaches [OF this _ _ _ e leaf, of tables hash] s(2) show ?thesis
      unfolding goto by simp
  qed
  have i: "nat (nav_locate (root @ hash)) = i" "nav_locate (root @ hash) \<noteq> -1" using loc by simp_all
  show ?thesis
  proof (cases "subIndices st i")
    case (Some u)
    with sub have "navTo root0 hash0 st = gotoNode t root hash st"
      using req loc by (simp add: navTo_def)
    with go [of st] ok(2) show ?thesis by (metis (no_types, lifting) Suc_eq_plus1 add_Suc_right le_SucI numeral_3_eq_3 add_0_right)
  next
    case None
    then have n: "navTo root0 hash0 st = Inr (getScript (GotoAfter i root hash) st)"
      using req loc by (simp add: navTo_def)
    have del: "deliver files tables (GotoAfter i root hash) st = gotoNode t root hash st1"
      using t by (simp add: deliver_def st1_def)
    from go [of st1] ok(2) obtain m st' where m: "m \<le> Suc (Suc (length bs))"
      "run_scripts files tables m (gotoNode t root hash st1) = Inr st'" "reached files hash (0 # bs) st'"
      by (auto simp: st1_def)
    have "run_scripts files tables (Suc m) (navTo root0 hash0 st) = Inr st'"
      using m(2) by (simp add: n run_scripts_waiting [OF ok(2)] del del: run_scripts.simps)
    with m(1,3) show ?thesis by (intro exI [of _ "Suc m"]) auto
  qed
qed

lemma initNavTree_ok: "nodes_ok files (initNavTree t r p h s l y)"
  by (auto simp: initNavTree_def Let_def nodes_ok_def node_ok_def data_of_def data_agrees_def)

lemma initNavTree_waiting [simp]: "waiting (initNavTree t r p h s l y) = []"
  "subIndices (initNavTree t r p h s l y) i = None"
  by (simp_all add: initNavTree_def Let_def)

end
