(* ===== verification/NavFiles0.thy ===== *)
theory NavFiles0
  imports NavData
begin

text \<open>
  Generated data files of the navigation tree, \<open>allocator_8c.js\<close> to \<open>dir_fe84b31a651d1608d95dc2e6540ef310.js\<close>: each
  defines one variable of its own name, the list of the entries below one node. The last two
  definitions map the name of a variable to its list.
\<close>

definition nav_allocator_8c :: "nav_data list" where
  "nav_allocator_8c =
    [NavEntry ''MEM_END_ADDRESS'' (Some ''allocator_8c.html#a05fb2a75a24717ac7288872099aa023b'') NoChildren,
     NavEntry ''MEM_START_ADDRESS'' (Some ''allocator_8c.html#a1bfd95a181dabd7fd475a2bc400149c5'') NoChildren,
     NavEntry ''MIN_ALIGN'' (Some ''allocator_8c.html#ae7d6d1aec4b8fbaca9c1803032bbc3e8'') NoChildren,
     NavEntry ''MIN_ALIGN_SHIFT'' (Some ''allocator_8c.html#ade9b7ae6b21a862fb65e0bcc14a31fa4'') NoChildren,
     NavEntry ''platform_get_first_free_ram'' (Some ''allocator_8c.html#a3d70a8e1dfadd6abd12d33fa282ff287'') NoChildren,
     NavEntry ''platform_get_last_free_ram'' (Some ''allocator_8c.html#aa59b20294819167021f015ac41fed276'') NoChildren,
     NavEntry ''end'' (Some ''allocator_8c.html#af4f810c521bcfd87215d3007005a8325'') NoChildren]"

definition nav_allocator_8h :: "nav_data list" where
  "nav_allocator_8h =
    [NavEntry ''platform_get_first_free_ram'' (Some ''allocator_8h.html#a3d70a8e1dfadd6abd12d33fa282ff287'') NoChildren,
     NavEntry ''platform_get_last_free_ram'' (Some ''allocator_8h.html#aa59b20294819167021f015ac41fed276'') NoChildren]"

definition nav_annotated_dup :: "nav_data list" where
  "nav_annotated_dup =
    [NavEntry ''_configurator_server'' (Some ''struct__configurator__server.html'') (ScriptVar ''struct__configurator__server''),
     NavEntry ''_CQueue'' (Some ''struct___c_queue.html'') (ScriptVar ''struct___c_queue''),
     NavEntry ''_system_thread_attr_t'' (Some ''struct__system__thread__attr__t.html'') (ScriptVar ''struct__system__thread__attr__t''),
     NavEntry ''atheros_net_ip'' (Some ''unionatheros__net__ip.html'') (ScriptVar ''unionatheros__net__ip''),
     NavEntry ''capture'' (Some ''structcapture.html'') (ScriptVar ''structcapture''),
     NavEntry ''cbuffer_class'' (Some ''structcbuffer__class.html'') (ScriptVar ''structcbuffer__class''),
     NavEntry ''client_dev'' (Some ''structclient__dev.html'') (ScriptVar ''structclient__dev''),
     NavEntry ''client_socket'' (Some ''structclient__socket.html'') (ScriptVar ''structclient__socket''),
     NavEntry ''dictionary_class'' (Some ''structdictionary__class.html'') (ScriptVar ''structdictionary__class''),
     NavEntry ''exo_request_args'' (Some ''structexo__request__args.html'') (ScriptVar ''structexo__request__args''),
     NavEntry ''exosite_class'' (Some ''structexosite__class.html'') (ScriptVar ''structexosite__class''),
     NavEntry ''header_field_filter'' (Some ''structheader__field__filter.html'') (ScriptVar ''structheader__field__filter''),
     NavEntry ''heap_config'' (Some ''structheap__config.html'') (ScriptVar ''structheap__config''),
     NavEntry ''heap_space_class'' (Some ''structheap__space__class.html'') (ScriptVar ''structheap__space__class''),
     NavEntry ''http_context'' (Some ''structhttp__context.html'') (ScriptVar ''structhttp__context''),
     NavEntry ''link_layer_if'' (Some ''structlink__layer__if.html'') (ScriptVar ''structlink__layer__if''),
     NavEntry ''list_head'' (Some ''structlist__head.html'') (ScriptVar ''structlist__head''),
     NavEntry ''mac_addr'' (Some ''structmac__addr.html'') (ScriptVar ''structmac__addr''),
     NavEntry ''mallinfo'' (Some ''structmallinfo.html'') (ScriptVar ''structmallinfo''),
     NavEntry ''MatchState'' (Some ''struct_match_state.html'') (ScriptVar ''struct_match_state''),
     NavEntry ''mbedtls_client_dev'' (Some ''structmbedtls__client__dev.html'') (ScriptVar ''structmbedtls__client__dev''),
     NavEntry ''net_dev_operations'' (Some ''structnet__dev__operations.html'') (ScriptVar ''structnet__dev__operations''),
     NavEntry ''net_socket'' (Some ''structnet__socket.html'') (ScriptVar ''structnet__socket''),
     NavEntry ''node'' (Some ''structnode.html'') (ScriptVar ''structnode''),
     NavEntry ''packet_buffer'' (Some ''structpacket__buffer.html'') (ScriptVar ''structpacket__buffer''),
     NavEntry ''packet_buffer_entry'' (Some ''structpacket__buffer__entry.html'') (ScriptVar ''structpacket__buffer__entry''),
     NavEntry ''periodic_clb_class'' (Some ''structperiodic__clb__class.html'') (ScriptVar ''structperiodic__clb__class''),
     NavEntry ''periodic_config_class'' (Some ''structperiodic__config__class.html'') (ScriptVar ''structperiodic__config__class''),
     NavEntry ''picocoap_context'' (Some ''structpicocoap__context.html'') (ScriptVar ''structpicocoap__context''),
     NavEntry ''protocol_client_class'' (Some ''structprotocol__client__class.html'') (ScriptVar ''structprotocol__client__class''),
     NavEntry ''protocol_client_config_class'' (Some ''structprotocol__client__config__class.html'') (ScriptVar ''structprotocol__client__config__class''),
     NavEntry ''protocol_client_ops'' (Some ''structprotocol__client__ops.html'') (ScriptVar ''structprotocol__client__ops''),
     NavEntry ''protocol_client_request'' (Some ''structprotocol__client__request.html'') (ScriptVar ''structprotocol__client__request''),
     NavEntry ''protocol_client_response'' (Some ''structprotocol__client__response.html'') (ScriptVar ''structprotocol__client__response''),
     NavEntry ''protocol_client_sm_class'' (Some ''structprotocol__client__sm__class.html'') (ScriptVar ''structprotocol__client__sm__class''),
     NavEntry ''sdev'' (Some ''structsdev.html'') (ScriptVar ''structsdev''),
     NavEntry ''server_api_class'' (Some ''structserver__api__class.html'') (ScriptVar ''structserver__api__class''),
     NavEntry ''server_api_request_ops'' (Some ''structserver__api__request__ops.html'') (ScriptVar ''structserver__api__request__ops''),
     NavEntry ''server_data_class'' (Some ''structserver__data__class.html'') (ScriptVar ''structserver__data__class''),
     NavEntry ''sm_list_item'' (Some ''structsm__list__item.html'') (ScriptVar ''structsm__list__item''),
     NavEntry ''string_class'' (Some ''structstring__class.html'') (ScriptVar ''structstring__class''),
     NavEntry ''subscribe_item'' (Some ''structsubscribe__item.html'') (ScriptVar ''structsubscribe__item''),
     NavEntry ''tcp_buffer_class'' (Some ''structtcp__buffer__class.html'') (ScriptVar ''structtcp__buffer__class''),
     NavEntry ''thread_instance_args'' (Some ''structthread__instance__args.html'') (ScriptVar ''structthread__instance__args''),
     NavEntry ''transmission_config_class'' (Some ''structtransmission__config__class.html'') (ScriptVar ''structtransmission__config__class''),
     NavEntry ''uip_net_ip'' (Some ''unionuip__net__ip.html'') (ScriptVar ''unionuip__net__ip''),
     NavEntry ''uip_state'' (Some ''structuip__state.html'') (ScriptVar ''structuip__state''),
     NavEntry ''wifi_settings'' (Some ''structwifi__settings.html'') (ScriptVar ''structwifi__settings'')]"

definition nav_atheros__port_8c :: "nav_data list" where
  "nav_atheros__port_8c =
    [NavEntry ''net_dev_init'' (Some ''group__net__port__interface.html#ga74f8a52f05a711c0aa99104f23808ecb'') NoChildren]"

definition nav_cbuffer_8c :: "nav_data list" where
  "nav_cbuffer_8c =
    [NavEntry ''cbuffer_class'' (Some ''structcbuffer__class.html'') (ScriptVar ''structcbuffer__class''),
     NavEntry ''cbuffer_delete'' (Some ''cbuffer_8c.html#a8a5e3d2b62d8b7ec7ca5469a7c5d9f9a'') NoChildren,
     NavEntry ''cbuffer_get_free'' (Some ''cbuffer_8c.html#aa26249031a802071f9eac3f03ddb7a1c'') NoChildren,
     NavEntry ''cbuffer_get_used'' (Some ''cbuffer_8c.html#a80ff3b6e58e146387739a28ee6bde496'') NoChildren,
     NavEntry ''cbuffer_new'' (Some ''cbuffer_8c.html#af0cafb24f63fcd82c108b23050fe6622'') NoChildren,
     NavEntry ''cbuffer_pop'' (Some ''cbuffer_8c.html#a2d7144c62c574f0970d593bc576446e1'') NoChildren,
     NavEntry ''cbuffer_push'' (Some ''cbuffer_8c.html#ae5612c4ecab13e51a3cb0792c6907317'') NoChildren]"

definition nav_cbuffer_8h :: "nav_data list" where
  "nav_cbuffer_8h =
    [NavEntry ''cbuffer_delete'' (Some ''cbuffer_8h.html#a8a5e3d2b62d8b7ec7ca5469a7c5d9f9a'') NoChildren,
     NavEntry ''cbuffer_get_free'' (Some ''cbuffer_8h.html#aa26249031a802071f9eac3f03ddb7a1c'') NoChildren,
     NavEntry ''cbuffer_get_used'' (Some ''cbuffer_8h.html#a80ff3b6e58e146387739a28ee6bde496'') NoChildren,
     NavEntry ''cbuffer_new'' (Some ''cbuffer_8h.html#af0cafb24f63fcd82c108b23050fe6622'') NoChildren,
     NavEntry ''cbuffer_pop'' (Some ''cbuffer_8h.html#a87b371ad832db31b46209bf853c71bfb'') NoChildren,
     NavEntry ''cbuffer_push'' (Some ''cbuffer_8h.html#a4ea8dc3cbd7e8f517f56c8e31e37098d'') NoChildren]"

definition nav_classcreate__update__file_1_1_oap_header :: "nav_data list" where
  "nav_classcreate__update__file_1_1_oap_header =
    [NavEntry ''__init__'' (Some ''classcreate__update__file_1_1_oap_header.html#ab1a327775772287cede3b49031facfd3'') NoChildren,
     NavEntry ''add_field'' (Some ''classcreate__update__file_1_1_oap_header.html#a125087ccf3bf25627f22daca917ce896'') NoChildren,
     NavEntry ''close'' (Some ''classcreate__update__file_1_1_oap_header.html#addaf2235c4b5ffa49428e04ba9da2231'') NoChildren,
     NavEntry ''get'' (Some ''classcreate__update__file_1_1_oap_header.html#a51a02d7b005d1ad1dbc3bd9f83d289a1'') NoChildren,
     NavEntry ''header_string'' (Some ''classcreate__update__file_1_1_oap_header.html#ae11141af39efd093577dc406df755e39'') NoChildren,
     NavEntry ''length_placeholder'' (Some ''classcreate__update__file_1_1_oap_header.html#a865efadc1017c7dd7e6ea17c9fc3bd15'') NoChildren]"

definition nav_client__config_8c :: "nav_data list" where
  "nav_client__config_8c =
    [NavEntry ''CONNECT_RETRIES'' (Some ''client__config_8c.html#a5edb2fdb88125c1c6adfd14ea1cde312'') NoChildren,
     NavEntry ''CONNECT_TIMEOUT'' (Some ''client__config_8c.html#a252b2cb72531cb00ecd4d4db37a5a473'') NoChildren,
     NavEntry ''PROTOCOL_CLIENT_SM_QUEUE_SIZE'' (Some ''client__config_8c.html#abc5a447271811dc0cbfcb3e80e4a3a89'') NoChildren,
     NavEntry ''RTC_PERIOD'' (Some ''client__config_8c.html#a100e0ab1d8bcbd5779ed7ee0f8dc4045'') NoChildren,
     NavEntry ''STATE_MACHINE_PERIOD'' (Some ''client__config_8c.html#a05cdb74a1adfd47a6a5ce3576b47127d'') NoChildren,
     NavEntry ''TRANSMISSION_RETRIES'' (Some ''client__config_8c.html#ad741a21703155842220b2623d358e45a'') NoChildren,
     NavEntry ''client_config_get_heap_config'' (Some ''group__client__config.html#ga1cf61a25d85cf08a85d6d9adbaed5b09'') NoChildren,
     NavEntry ''client_config_get_periodic_config'' (Some ''group__client__config.html#ga00dd14915a00326a6e39b8eeee387780'') NoChildren,
     NavEntry ''client_config_get_protocol_client_config'' (Some ''group__client__config.html#ga51c133c21f108820a33c6cbcd97bde45'') NoChildren,
     NavEntry ''client_config_get_server_api'' (Some ''group__client__config.html#ga7ecfc4f687a6d4e03a885968718423cd'') NoChildren,
     NavEntry ''client_config_get_server_data'' (Some ''group__client__config.html#ga0f3c844fa9aae27378590e1840bf9a32'') NoChildren,
     NavEntry ''client_config_get_transmission_config'' (Some ''group__client__config.html#ga1dc406ec756f603c58b9ae6680716d6c'') NoChildren,
     NavEntry ''coap_config'' (Some ''client__config_8c.html#a9c5a1927a18c4ef85da348e9e5b0b77d'') NoChildren,
     NavEntry ''exosite_coap_api'' (Some ''client__config_8c.html#ae84592975f71f23e0f3f6e55c37814ac'') NoChildren,
     NavEntry ''exosite_http_api'' (Some ''client__config_8c.html#a960fe16594362c852a507668b96820c9'') NoChildren,
     NavEntry ''global_heap_config'' (Some ''client__config_8c.html#ab06cee2ba0d76c15765a6e4e500a9b9c'') NoChildren,
     NavEntry ''http_config'' (Some ''client__config_8c.html#a9931f2159d63c548c60d30ff1aa0c89f'') NoChildren,
     NavEntry ''periodic_config'' (Some ''client__config_8c.html#a7b0df01f44d2fd37f0b4b2179c09f69a'') NoChildren,
     NavEntry ''protocol_client_configs'' (Some ''client__config_8c.html#a18c574db255718397b4d6bc65ddddb08'') NoChildren,
     NavEntry ''server_apis'' (Some ''client__config_8c.html#acf6f5dc40635e3ae0f3f8f3ed1822918'') NoChildren,
     NavEntry ''server_data'' (Some ''client__config_8c.html#acb5ccb31638cdc0e1863bd27a3fd6acf'') NoChildren,
     NavEntry ''server_data_coap'' (Some ''client__config_8c.html#adcbad00b17e6ffa81169735d65be0d3a'') NoChildren,
     NavEntry ''server_data_coaps'' (Some ''client__config_8c.html#a78350433d123287f55af87e1223d38e5'') NoChildren,
     NavEntry ''server_data_http'' (Some ''client__config_8c.html#a454f969d9aab3198f064d6c48d121570'') NoChildren,
     NavEntry ''server_data_https'' (Some ''client__config_8c.html#a5ee8dbda58c4714067c35f664f5a600d'') NoChildren,
     NavEntry ''transmission_config'' (Some ''client__config_8c.html#aefe8531ed840e6f83e8725c8be8fbe7b'') NoChildren]"

definition nav_common__defines_8h :: "nav_data list" where
  "nav_common__defines_8h =
    [NavEntry ''DEBUG_DEBUG'' (Some ''common__defines_8h.html#a055fa550e08799c557e9758c8e7fb33b'') NoChildren,
     NavEntry ''DEBUG_EMERG'' (Some ''common__defines_8h.html#a1cc9468e05bece36e61907abe60c9c38'') NoChildren,
     NavEntry ''DEBUG_ERROR'' (Some ''common__defines_8h.html#a49bce9dafa991fde5616257caa9e3c4a'') NoChildren,
     NavEntry ''DEBUG_FATAL'' (Some ''common__defines_8h.html#a722eaa2d34b5468859b5556359116f48'') NoChildren,
     NavEntry ''DEBUG_INFO'' (Some ''common__defines_8h.html#a4407b4d6eae3ba7fe9538b1242a7e165'') NoChildren,
     NavEntry ''DEBUG_INFO_SDK'' (Some ''common__defines_8h.html#aebd07260354e7800236116a0496bd6c5'') NoChildren,
     NavEntry ''DEBUG_TRACE'' (Some ''common__defines_8h.html#a1a14f2ab6e23e263754ecca29d5114f1'') NoChildren,
     NavEntry ''DEBUG_WARNING'' (Some ''common__defines_8h.html#a8a4e4885193c12b840ff3cbedec2451d'') NoChildren]"

definition nav_concurrent__queue_8c :: "nav_data list" where
  "nav_concurrent__queue_8c =
    [NavEntry ''_CQueue'' (Some ''struct___c_queue.html'') (ScriptVar ''struct___c_queue''),
     NavEntry ''cqueue_free'' (Some ''concurrent__queue_8c.html#abe1739d6f365fbfe314e2c4d85ab9581'') NoChildren,
     NavEntry ''cqueue_get_size'' (Some ''concurrent__queue_8c.html#ace59eba8e971fb368533dc253a6f1639'') NoChildren,
     NavEntry ''cqueue_is_empty'' (Some ''concurrent__queue_8c.html#ad14c5bc780bcc13a4112e98e3cc6db09'') NoChildren,
     NavEntry ''cqueue_new'' (Some ''concurrent__queue_8c.html#a13d1b13d62b14239a6a51f5ef05d4931'') NoChildren,
     NavEntry ''cqueue_peek_head'' (Some ''concurrent__queue_8c.html#a082c71e2ae633f79f9c5e8b9cfd1ca2e'') NoChildren,
     NavEntry ''cqueue_peek_tail'' (Some ''concurrent__queue_8c.html#adfb372b4fe6a5e0e298cd3906feb4a8f'') NoChildren,
     NavEntry ''cqueue_pop_head'' (Some ''concurrent__queue_8c.html#ab93ede1a512270842a3eeb3e3949fcae'') NoChildren,
     NavEntry ''cqueue_pop_tail'' (Some ''concurrent__queue_8c.html#a32daa322af17d03980a5ec0911c033c9'') NoChildren,
     NavEntry ''cqueue_push_head'' (Some ''concurrent__queue_8c.html#ae5c730edc25b36ccf16e0745e915af26'') NoChildren,
     NavEntry ''cqueue_push_tail'' (Some ''concurrent__queue_8c.html#a8133cf05c1694eb2e705fb6742e0c954'') NoChildren]"

definition nav_concurrent__queue_8h :: "nav_data list" where
  "nav_concurrent__queue_8h =
    [NavEntry ''QUEUE_SIZE_UNLIMITED'' (Some ''concurrent__queue_8h.html#aa946bef772d46cd7423e5aa3fdc9b0a3'') NoChildren,
     NavEntry ''CQueue'' (Some ''concurrent__queue_8h.html#ad17a3090f35e87f09c27ee0a136f8743'') NoChildren,
     NavEntry ''CQueueValue'' (Some ''concurrent__queue_8h.html#aefc9faa4cd22e3979d9401bb6f2955ee'') NoChildren,
     NavEntry ''cqueue_free'' (Some ''concurrent__queue_8h.html#abe1739d6f365fbfe314e2c4d85ab9581'') NoChildren,
     NavEntry ''cqueue_get_size'' (Some ''concurrent__queue_8h.html#ace59eba8e971fb368533dc253a6f1639'') NoChildren,
     NavEntry ''cqueue_is_empty'' (Some ''concurrent__queue_8h.html#ad14c5bc780bcc13a4112e98e3cc6db09'') NoChildren,
     NavEntry ''cqueue_new'' (Some ''concurrent__queue_8h.html#a13d1b13d62b14239a6a51f5ef05d4931'') NoChildren,
     NavEntry ''cqueue_peek_head'' (Some ''concurrent__queue_8h.html#a082c71e2ae633f79f9c5e8b9cfd1ca2e'') NoChildren,
     NavEntry ''cqueue_peek_tail'' (Some ''concurrent__queue_8h.html#adfb372b4fe6a5e0e298cd3906feb4a8f'') NoChildren,
     NavEntry ''cqueue_pop_head'' (Some ''concurrent__queue_8h.html#ab93ede1a512270842a3eeb3e3949fcae'') NoChildren,
     NavEntry ''cqueue_pop_tail'' (Some ''concurrent__queue_8h.html#a32daa322af17d03980a5ec0911c033c9'') NoChildren,
     NavEntry ''cqueue_push_head'' (Some ''concurrent__queue_8h.html#ae5c730edc25b36ccf16e0745e915af26'') NoChildren,
     NavEntry ''cqueue_push_tail'' (Some ''concurrent__queue_8h.html#a8133cf05c1694eb2e705fb6742e0c954'') NoChildren]"

definition nav_config__cyassl_8h :: "nav_data list" where
  "nav_config__cyassl_8h =
    [NavEntry ''CUSTOM_RAND_GENERATE'' (Some ''config__cyassl_8h.html#ad821d3823a5f6bfe9a1b54e7307fb9b9'') NoChildren,
     NavEntry ''CYASSL_DTLS'' (Some ''config__cyassl_8h.html#a2683f7f5c4e8a60f4c92541969851507'') NoChildren,
     NavEntry ''CYASSL_SMALL_STACK'' (Some ''config__cyassl_8h.html#a6a66bb85a847abdaf6f837ccd16320fd'') NoChildren,
     NavEntry ''CYASSL_USER_IO'' (Some ''config__cyassl_8h.html#a5af8613455f8fe5fcaed941bf2532072'') NoChildren,
     NavEntry ''HAVE_AESCCM'' (Some ''config__cyassl_8h.html#a0b5f6f89c67931193942dc3dc929fe17'') NoChildren,
     NavEntry ''NO_CYASSL_SERVER'' (Some ''config__cyassl_8h.html#a6bc2cc41a5932c347f119282ea9cb728'') NoChildren,
     NavEntry ''NO_DES3'' (Some ''config__cyassl_8h.html#a45af1e3d5329309a0a02e455b9497930'') NoChildren,
     NavEntry ''NO_DEV_RANDOM'' (Some ''config__cyassl_8h.html#ad396dd5f1d22ba9a948f9dcd9296c73c'') NoChildren,
     NavEntry ''NO_DSA'' (Some ''config__cyassl_8h.html#aed916aa8b71fbdcf140051cf0ac47611'') NoChildren,
     NavEntry ''NO_EVDEV'' (Some ''config__cyassl_8h.html#a56504bff07ab22b60e12175b06fb6930'') NoChildren,
     NavEntry ''NO_FILESYSTEM'' (Some ''config__cyassl_8h.html#a03af94e90933761ea641e2ff4785e92b'') NoChildren,
     NavEntry ''NO_HC128'' (Some ''config__cyassl_8h.html#a4ac30654e67e206d019dc7949c3fb524'') NoChildren,
     NavEntry ''NO_MD4'' (Some ''config__cyassl_8h.html#a06f3f162bfbd41b1cdc1a29130d0cc7a'') NoChildren,
     NavEntry ''NO_PWDBASED'' (Some ''config__cyassl_8h.html#a7f104765d6a3301af5bf519cf5cf8eaa'') NoChildren,
     NavEntry ''NO_RABBIT'' (Some ''config__cyassl_8h.html#a95d6f182a8e0e7324a1b424e2ec6d8de'') NoChildren,
     NavEntry ''NO_RC4'' (Some ''config__cyassl_8h.html#a77e8846d00607f5e457ae6ba88a981ad'') NoChildren,
     NavEntry ''NO_WRITEV'' (Some ''config__cyassl_8h.html#a7cb2bc5dd18d959101fbf0fdf47bcbcb'') NoChildren,
     NavEntry ''SINGLE_THREADED'' (Some ''config__cyassl_8h.html#a3c0eb63307250fcdc3bb40cf342cfcc9'') NoChildren,
     NavEntry ''TFM_TIMING_RESISTANT'' (Some ''config__cyassl_8h.html#af6185694e805fc231df5e0a19c07b9d7'') NoChildren,
     NavEntry ''USE_FAST_MATH'' (Some ''config__cyassl_8h.html#af4b5801a4c9128b19e3c604bc04bd0b0'') NoChildren,
     NavEntry ''USER_TIME'' (Some ''config__cyassl_8h.html#ad136c89fde7a7561cb617fb71b6c240b'') NoChildren,
     NavEntry ''cyassl_client_generate_seed'' (Some ''config__cyassl_8h.html#abea6eca7ea86b9aea0f1662b71eecc92'') NoChildren,
     NavEntry ''call_num'' (Some ''config__cyassl_8h.html#a6fcd232e7c921bffec06f3398959a3a5'') NoChildren]"

definition nav_config__mbedtls_8h :: "nav_data list" where
  "nav_config__mbedtls_8h =
    [NavEntry ''MBEDTLS_AES_C'' (Some ''config__mbedtls_8h.html#a54a11655ee76cbd7b4d8b159e377adef'') NoChildren,
     NavEntry ''MBEDTLS_AES_ROM_TABLES'' (Some ''config__mbedtls_8h.html#aa0aaa3f0466b5ae15ff9bf176f632a3d'') NoChildren,
     NavEntry ''MBEDTLS_ASN1_PARSE_C'' (Some ''config__mbedtls_8h.html#ab6d2cedeb9ad2d5f11e008708c922a7d'') NoChildren,
     NavEntry ''MBEDTLS_ASN1_WRITE_C'' (Some ''config__mbedtls_8h.html#a79098f46901a7da949424ca81fcb4be2'') NoChildren,
     NavEntry ''MBEDTLS_BASE64_C'' (Some ''config__mbedtls_8h.html#a95e58aa3f6b5391f9fc423b3809cf9a4'') NoChildren,
     NavEntry ''MBEDTLS_BIGNUM_C'' (Some ''config__mbedtls_8h.html#a1cceb2b05fcbf777d24948d63a1aa74c'') NoChildren,
     NavEntry ''MBEDTLS_CERTS_C'' (Some ''config__mbedtls_8h.html#a9ac44283cf06c7c475c574774ed51338'') NoChildren,
     NavEntry ''MBEDTLS_CIPHER_C'' (Some ''config__mbedtls_8h.html#a4a186eda38ce80f484524f3f12de2923'') NoChildren,
     NavEntry ''MBEDTLS_CIPHER_MODE_CBC'' (Some ''config__mbedtls_8h.html#ae0290beb1dc98ac21d930144d34ae2d0'') NoChildren,
     NavEntry ''MBEDTLS_CTR_DRBG_C'' (Some ''config__mbedtls_8h.html#a493cf54dbd2c093c8541b1ad106436e9'') NoChildren,
     NavEntry ''MBEDTLS_DEBUG_C'' (Some ''config__mbedtls_8h.html#ac64f663ce793cda3cc14e5a300e30a65'') NoChildren,
     NavEntry ''MBEDTLS_DHM_C'' (Some ''config__mbedtls_8h.html#ae6058d084fccdc95cce6de3b5e46b367'') NoChildren,
     NavEntry ''MBEDTLS_ECDH_C'' (Some ''config__mbedtls_8h.html#aa3615295cbab56882c919eb9cf79fe10'') NoChildren,
     NavEntry ''MBEDTLS_ECP_C'' (Some ''config__mbedtls_8h.html#ae9d24fd58758d905e43ace39f9798b46'') NoChildren,
     NavEntry ''MBEDTLS_ECP_DP_BP256R1_ENABLED'' (Some ''config__mbedtls_8h.html#abc22a5b0870dd8ff1b38cdce1423b0ff'') NoChildren,
     NavEntry ''MBEDTLS_ECP_DP_BP384R1_ENABLED'' (Some ''config__mbedtls_8h.html#a980c4064e72ef188840d9b0a68d2e85e'') NoChildren,
     NavEntry ''MBEDTLS_ECP_DP_BP512R1_ENABLED'' (Some ''config__mbedtls_8h.html#afd338008d2ae25ba0dba0c07ba1e2482'') NoChildren,
     NavEntry ''MBEDTLS_ECP_DP_CURVE25519_ENABLED'' (Some ''config__mbedtls_8h.html#a7bb6872451a7b080abda9d489bd56826'') NoChildren,
     NavEntry ''MBEDTLS_ECP_DP_SECP192K1_ENABLED'' (Some ''config__mbedtls_8h.html#a3a85a85a23a2b5935e97d400d224eac5'') NoChildren,
     NavEntry ''MBEDTLS_ECP_DP_SECP192R1_ENABLED'' (Some ''config__mbedtls_8h.html#a8c45e2be551b48e4feb1453fff99b8d5'') NoChildren,
     NavEntry ''MBEDTLS_ECP_DP_SECP224K1_ENABLED'' (Some ''config__mbedtls_8h.html#a056eb2e0e44147c2df7ec5a4c0c8b152'') NoChildren,
     NavEntry ''MBEDTLS_ECP_DP_SECP224R1_ENABLED'' (Some ''config__mbedtls_8h.html#a53ca938afec54658ef4b643c60ed617c'') NoChildren,
     NavEntry ''MBEDTLS_ECP_DP_SECP256K1_ENABLED'' (Some ''config__mbedtls_8h.html#a5234a2a9d84b7b6c8de05f1494ead4d7'') NoChildren,
     NavEntry ''MBEDTLS_ECP_DP_SECP256R1_ENABLED'' (Some ''config__mbedtls_8h.html#aa7661e25bab8f0e87060ee05f1216fe4'') NoChildren,
     NavEntry ''MBEDTLS_ECP_DP_SECP384R1_ENABLED'' (Some ''config__mbedtls_8h.html#a8d7d810065d58b237787c6749b7ef232'') NoChildren,
     NavEntry ''MBEDTLS_ECP_DP_SECP521R1_ENABLED'' (Some ''config__mbedtls_8h.html#a0afb3cbe18e3ad5abde001c32f319d12'') NoChildren,
     NavEntry ''MBEDTLS_ECP_MAX_BITS'' (Some ''config__mbedtls_8h.html#a98099ce7241e89e42ba34b79e770a0ab'') NoChildren,
     NavEntry ''MBEDTLS_ECP_WINDOW_SIZE'' (Some ''config__mbedtls_8h.html#a0e14e10966cfd209e80d66a16b6c94ec'') NoChildren,
     NavEntry ''MBEDTLS_ENTROPY_C'' (Some ''config__mbedtls_8h.html#a24884ce4da3fed0ceff29962dd7a01fc'') NoChildren,
     NavEntry ''MBEDTLS_HAVE_ASM'' (Some ''config__mbedtls_8h.html#a6eb06bd9262371cafc5e51e40285d4bb'') NoChildren,
     NavEntry ''MBEDTLS_HAVE_TIME'' (Some ''config__mbedtls_8h.html#a0d2a3e0e00f099a570fa56a0c4cf0d35'') NoChildren,
     NavEntry ''MBEDTLS_KEY_EXCHANGE_RSA_ENABLED'' (Some ''config__mbedtls_8h.html#a4e31bcb46f4cd29deced2ef3ef6a8925'') NoChildren,
     NavEntry ''MBEDTLS_MD5_C'' (Some ''config__mbedtls_8h.html#a76686ebb937ad5cc1623638965c4bc22'') NoChildren,
     NavEntry ''MBEDTLS_MD_C'' (Some ''config__mbedtls_8h.html#a17195cf7384dbcab5bae3f1d2971fb03'') NoChildren,
     NavEntry ''MBEDTLS_MPI_MAX_SIZE'' (Some ''config__mbedtls_8h.html#a02bfffc46b7b2e10c0080d29bb56e6b0'') NoChildren,
     NavEntry ''MBEDTLS_MPI_WINDOW_SIZE'' (Some ''config__mbedtls_8h.html#a7cec1de79c434f1053488b1d3b9454c4'') NoChildren,
     NavEntry ''MBEDTLS_NET_C'' (Some ''config__mbedtls_8h.html#ae73dbeb395510070a756ed6689459b30'') NoChildren,
     NavEntry ''MBEDTLS_NO_DEFAULT_ENTROPY_SOURCES'' (Some ''config__mbedtls_8h.html#af7975b148abc283e6ee41854637185e1'') NoChildren,
     NavEntry ''MBEDTLS_OID_C'' (Some ''config__mbedtls_8h.html#a0960129d0cf6e043a1cbc7c41d7c2297'') NoChildren,
     NavEntry ''MBEDTLS_PEM_PARSE_C'' (Some ''config__mbedtls_8h.html#ac90a92552ac2f87c701b24857fd6d4c1'') NoChildren,
     NavEntry ''MBEDTLS_PK_C'' (Some ''config__mbedtls_8h.html#a0dcc79b4e757e34d2a625470fb016e18'') NoChildren,
     NavEntry ''MBEDTLS_PK_PARSE_C'' (Some ''config__mbedtls_8h.html#a09eefef8f4562ba86a9c7a47c114ddaa'') NoChildren,
     NavEntry ''MBEDTLS_PKCS1_V15'' (Some ''config__mbedtls_8h.html#ab9ff33e1da5c1afaf8ce3fc47ab8d577'') NoChildren,
     NavEntry ''MBEDTLS_PLATFORM_C'' (Some ''config__mbedtls_8h.html#a756fb086e76be2a76954beb682195a49'') NoChildren,
     NavEntry ''MBEDTLS_PLATFORM_MEMORY'' (Some ''config__mbedtls_8h.html#ae58dba1b4a4c30f8c4d2f0e6080351af'') NoChildren,
     NavEntry ''MBEDTLS_RSA_C'' (Some ''config__mbedtls_8h.html#a035227f1c3c88103fdb13621e9a5df51'') NoChildren,
     NavEntry ''MBEDTLS_SHA1_C'' (Some ''config__mbedtls_8h.html#af0a5a26171b8cc9ba46b9775cf56b541'') NoChildren,
     NavEntry ''MBEDTLS_SHA256_C'' (Some ''config__mbedtls_8h.html#a8cc51fc9b077f5b669bc4dfba0bde43e'') NoChildren,
     NavEntry ''MBEDTLS_SSL_CLI_C'' (Some ''config__mbedtls_8h.html#a38112435a93c8cf0e9c9e9c15cb3f516'') NoChildren,
     NavEntry ''MBEDTLS_SSL_MAX_CONTENT_LEN'' (Some ''config__mbedtls_8h.html#a4a5b73bae4d762a05684812ad6c6b1b2'') NoChildren,
     NavEntry ''MBEDTLS_SSL_PROTO_TLS1_1'' (Some ''config__mbedtls_8h.html#a04d813ba9404e494a175e14a675cf711'') NoChildren,
     NavEntry ''MBEDTLS_SSL_PROTO_TLS1_2'' (Some ''config__mbedtls_8h.html#a8a7aca10569198cf8e8dbff1c40677c6'') NoChildren,
     NavEntry ''MBEDTLS_SSL_SRV_C'' (Some ''config__mbedtls_8h.html#a311e2a994e4e5f25b550e170ca9605e0'') NoChildren,
     NavEntry ''MBEDTLS_SSL_TLS_C'' (Some ''config__mbedtls_8h.html#a85f2821433dbf22916e865a49f2652df'') NoChildren,
     NavEntry ''MBEDTLS_X509_CRT_PARSE_C'' (Some ''config__mbedtls_8h.html#a813d4cf0b3fc03db0f9dbec52ba04b40'') NoChildren,
     NavEntry ''MBEDTLS_X509_USE_C'' (Some ''config__mbedtls_8h.html#ad377c385a02385defbd866a5b190bba8'') NoChildren]"

definition nav_config__port_8h :: "nav_data list" where
  "nav_config__port_8h =
    [NavEntry ''ACTIVATION_DELAY'' (Some ''group__config__port.html#ga0ad68b7e15c177f5c5c65858a3002041'') NoChildren,
     NavEntry ''ACTIVATION_RETRY_TYPE'' (Some ''group__config__port.html#ga44947a45f8730ca78692b152f9916be6'') NoChildren,
     NavEntry ''COMPILE_TIME_DEBUG_LEVEL'' (Some ''group__config__port.html#ga5cb94dc8a4a53289ac2c3735863442e6'') NoChildren,
     NavEntry ''CONFIG_FREERTOS_LEGACY'' (Some ''group__config__port.html#ga8e1458050722d11b62f88ffd94fa31fa'') NoChildren,
     NavEntry ''CONFIG_HAS_CONFIGURATOR_SERVER'' (Some ''group__config__port.html#ga7ed5b6c7cde2d0cf187305c882526fba'') NoChildren,
     NavEntry ''CONFIG_HAS_HTTP'' (Some ''group__config__port.html#ga351863517ce2dd6bc71f458cc6a0ca23'') NoChildren,
     NavEntry ''CONFIG_HAS_LIBCOAP'' (Some ''group__config__port.html#ga084b21d60a4579a4c866f2a095bc65c6'') NoChildren,
     NavEntry ''CONFIG_HAS_PICOCOAP'' (Some ''group__config__port.html#ga2fe5244476e17317164dd863ba34a0ea'') NoChildren,
     NavEntry ''CONFIG_HAS_SSL_HEAP'' (Some ''group__config__port.html#gada1a09fe8b112ccfd27ba0f7722f1cc1'') NoChildren,
     NavEntry ''CONFIG_HAS_STRING_HEAP'' (Some ''group__config__port.html#ga099581e53d07aedb98b3bf6b520dd62a'') NoChildren,
     NavEntry ''CONFIG_HAS_TCP'' (Some ''group__config__port.html#ga790c97bbd7d37b1ea2d2edeecff9d480'') NoChildren,
     NavEntry ''CONFIG_HAS_UDP'' (Some ''group__config__port.html#gaf1a8e3b50eb34ebb5dacd9fcb2f0250c'') NoChildren,
     NavEntry ''CONFIG_LIBCOAP_PACKET_SIZE'' (Some ''group__config__port.html#gacd294693d00439623abeeacb8f78b33a'') NoChildren,
     NavEntry ''CONFIG_NETWORK_STACK'' (Some ''group__config__port.html#gad571c2c076a0a2b5b9126e3778a60f86'') NoChildren,
     NavEntry ''CONFIG_NUMBER_OF_STATE_MACHINES'' (Some ''group__config__port.html#gaece77dcdf776ae8a75b2c08dea2cbf15'') NoChildren,
     NavEntry ''CONFIG_OS'' (Some ''group__config__port.html#gaa71f926ee4abe503b5c13ea0d0edc131'') NoChildren,
     NavEntry ''CONFIG_SECURITY'' (Some ''group__config__port.html#gaa6121130d0dd17bf9bb6e3c75871222a'') NoChildren,
     NavEntry ''CONFIG_SSL_HEAP_SIZE'' (Some ''group__config__port.html#ga122d7b3d8e66a5b7f29b626d1e57c0e6'') NoChildren,
     NavEntry ''CONFIG_STRING_HEAP_SIZE'' (Some ''group__config__port.html#gabfdba307670e26e0cd69840fc48d89f2'') NoChildren,
     NavEntry ''CONFIG_VERSION_INFO'' (Some ''group__config__port.html#gaaf5a0973d3b3092f368ba4af59b7c3d0'') NoChildren,
     NavEntry ''CONFIG_XXX'' (Some ''group__config__port.html#ga701661959748304450fc323fe09f617b'') NoChildren,
     NavEntry ''CONFIGURATOR_BUFFER_SIZE'' (Some ''group__config__port.html#gae8c5a13f1bb84e12c962f2f83a5c7640'') NoChildren,
     NavEntry ''DEBUG_VERBOSITY'' (Some ''group__config__port.html#ga2756127335810471fc2ea8b84538f693'') NoChildren,
     NavEntry ''HAVE_ASSERT_H'' (Some ''group__config__port.html#gad0eabe2e5407bc73450eb15b657983cd'') NoChildren,
     NavEntry ''HAVE_INTTYPES_H'' (Some ''group__config__port.html#gab90a030ff2790ebdc176660a6dd2a478'') NoChildren,
     NavEntry ''HAVE_LIMITS_H'' (Some ''group__config__port.html#gac70f0930238c8d095d7cc2ee8b522c77'') NoChildren,
     NavEntry ''HAVE_MALLOC'' (Some ''group__config__port.html#ga14503280ca0cb757db915eea09282bfc'') NoChildren,
     NavEntry ''HAVE_MEMORY_H'' (Some ''group__config__port.html#gae93a78f9d076138897af441c9f86f285'') NoChildren,
     NavEntry ''HAVE_MEMSET'' (Some ''group__config__port.html#ga3df52e9809253860c385be6f3a160607'') NoChildren,
     NavEntry ''HAVE_STDINT_H'' (Some ''group__config__port.html#gab6cd6d1c63c1e26ea2d4537b77148354'') NoChildren,
     NavEntry ''HAVE_STDLIB_H'' (Some ''group__config__port.html#ga9e0e434ec1a6ddbd97db12b5a32905e0'') NoChildren,
     NavEntry ''HAVE_STRCASECMP'' (Some ''group__config__port.html#ga1569275063253ce85180e755a82e536d'') NoChildren,
     NavEntry ''HAVE_STRING_H'' (Some ''group__config__port.html#gad4c234dd1625255dc626a15886306e7d'') NoChildren,
     NavEntry ''HAVE_STRINGS_H'' (Some ''group__config__port.html#ga405d10d46190bcb0320524c54eafc850'') NoChildren,
     NavEntry ''HAVE_STRNLEN'' (Some ''group__config__port.html#ga9bee6d8db098b2230690f8e8db9ffb74'') NoChildren,
     NavEntry ''HAVE_STRRCHR'' (Some ''group__config__port.html#gac113b1149ff6806b32454e2897354a40'') NoChildren,
     NavEntry ''MAX_REQUEST_QUEUE_SIZE'' (Some ''group__config__port.html#ga9c2636db474d43e3b4d079b615b92d18'') NoChildren,
     NavEntry ''RESPONSE_TIMEOUT'' (Some ''group__config__port.html#gaee65942ab29aecd1dabbef2bde8532fa'') NoChildren,
     NavEntry ''STDC_HEADERS'' (Some ''group__config__port.html#ga550e5c272cc3cf3814651721167dcd23'') NoChildren,
     NavEntry ''UNLIMITED_STATE_MACHINES'' (Some ''group__config__port.html#gabe44721da938e6d638054219dd72c907'') NoChildren,
     NavEntry ''WIFI_PASSW'' (Some ''group__config__port.html#ga346f861aa5bdea452c2d0edbec3cb852'') NoChildren,
     NavEntry ''WIFI_SSID'' (Some ''group__config__port.html#ga586542b79d00e4db7e1d5a667ae83a2b'') NoChildren]"

definition nav_configfs_8h :: "nav_data list" where
  "nav_configfs_8h =
    [NavEntry ''bdev'' (Some ''structbdev.html'') (ScriptVar ''structbdev''),
     NavEntry ''config_fs'' (Some ''structconfig__fs.html'') (ScriptVar ''structconfig__fs''),
     NavEntry ''CONFIG_ACTIVE_BOOT_IMAGE_ADDR'' (Some ''configfs_8h.html#a8afc89f1ccd7694d60d75d89d47c2f58'') NoChildren,
     NavEntry ''CONFIG_FS_START'' (Some ''configfs_8h.html#a1c64577340dca5ceb7d6c511b2fdffa5'') NoChildren,
     NavEntry ''CONFIG_MAGIC_ADDR'' (Some ''configfs_8h.html#a425a31250bfe3e86c1925af8b10d2a18'') NoChildren,
     NavEntry ''CONFIG_STARTED_FLAG_ADDR'' (Some ''configfs_8h.html#aa46cc73203c07634209fb9ecd254bf57'') NoChildren,
     NavEntry ''CONFIG_UPDATED_FLAG_ADDR'' (Some ''configfs_8h.html#a061755e8f7c5f9edaac15620f8500aa0'') NoChildren,
     NavEntry ''config_fs_init'' (Some ''configfs_8h.html#a5d8283c87f7265a1f456529f655fe5a9'') NoChildren]"

definition nav_cyassl__client_8c :: "nav_data list" where
  "nav_cyassl__client_8c =
    [NavEntry ''client_dev'' (Some ''structclient__dev.html'') (ScriptVar ''structclient__dev''),
     NavEntry ''caCert'' (Some ''cyassl__client_8c.html#ab1209bfc79c3a7bc1e4d53a5aa30c1ee'') NoChildren,
     NavEntry ''IDENTITY_MAX_SIZE'' (Some ''cyassl__client_8c.html#a72485f691c477cca885a6089365b6b24'') NoChildren,
     NavEntry ''PASSPHRASE_MAX_SIZE'' (Some ''cyassl__client_8c.html#a736c30ff881d73d7c115dfb2f1d19a62'') NoChildren,
     NavEntry ''client_close'' (Some ''cyassl__client_8c.html#a2b436c2c2eb12d6d72705e069bafd5f0'') NoChildren,
     NavEntry ''client_config'' (Some ''cyassl__client_8c.html#af822cc28da7d3738c97d8a941236a062'') NoChildren,
     NavEntry ''client_connect'' (Some ''cyassl__client_8c.html#ae4e8ff46f8eef30def6b8c33f12ec666'') NoChildren,
     NavEntry ''client_deinit'' (Some ''cyassl__client_8c.html#aba8d2dd3b68b2a9af67b7f1c76171b90'') NoChildren,
     NavEntry ''client_logging_cb'' (Some ''cyassl__client_8c.html#a9bad63b84c38a487cca33e6535b395c8'') NoChildren,
     NavEntry ''client_lookup'' (Some ''cyassl__client_8c.html#ac9007b477fae12bd58317ec24872cffc'') NoChildren,
     NavEntry ''client_recv'' (Some ''cyassl__client_8c.html#a9e1419d5eaba42b5878e6676f2cc7988'') NoChildren,
     NavEntry ''client_send'' (Some ''cyassl__client_8c.html#a811d40865ec9c5bc3044a5cfa4612276'') NoChildren,
     NavEntry ''client_set_identity'' (Some ''cyassl__client_8c.html#ac1d4acf81e8d75a063b4d53967cd6b6c'') NoChildren,
     NavEntry ''client_socket'' (Some ''cyassl__client_8c.html#ad1af23f2007ffadf1a4dc0d6f9d334fc'') NoChildren,
     NavEntry ''cy_free'' (Some ''cyassl__client_8c.html#a4b2dea8150bf311ec03c66f596a9fe88'') NoChildren,
     NavEntry ''cy_malloc'' (Some ''cyassl__client_8c.html#a5ae9243df9888f36401c7e0248ec1f1b'') NoChildren,
     NavEntry ''cy_realloc'' (Some ''cyassl__client_8c.html#a2b27f7fe2a3753bacbf49d3a1638f7b5'') NoChildren,
     NavEntry ''cyassl_recv'' (Some ''cyassl__client_8c.html#a676d6c06e8eeee00e65951929d8e761f'') NoChildren,
     NavEntry ''cyassl_send'' (Some ''cyassl__client_8c.html#a1496a9b08b6c460f88cdc738eeb7b7b9'') NoChildren,
     NavEntry ''err_sys'' (Some ''cyassl__client_8c.html#a5c8056091f9a8cd7d8b14ff6bdb1df25'') NoChildren,
     NavEntry ''exosite_psk_client_cb'' (Some ''cyassl__client_8c.html#a419954f51ac51f82736dc2008328d7d2'') NoChildren,
     NavEntry ''map_cyassl_error_code'' (Some ''cyassl__client_8c.html#a422d12a79e1ce4e47211e3ed6b0cbc4c'') NoChildren,
     NavEntry ''showPeer'' (Some ''cyassl__client_8c.html#ab462a9afbccc3695e963b2c1fbafddf0'') NoChildren,
     NavEntry ''ssl_client_init'' (Some ''cyassl__client_8c.html#a5bd9a41c7b8c230735c46624fc13bb1a'') NoChildren,
     NavEntry ''ssl_client_new'' (Some ''cyassl__client_8c.html#a02c20a3169dfdc6418ed518675ab1736'') NoChildren,
     NavEntry ''XTIME'' (Some ''cyassl__client_8c.html#a8d3665206b0dbb3dea506e8fd8541aa1'') NoChildren,
     NavEntry ''net_if_identity'' (Some ''cyassl__client_8c.html#a7f6d1291ebc8fa56f72cb4752f908e43'') NoChildren,
     NavEntry ''net_if_ops'' (Some ''cyassl__client_8c.html#a4b002f35a665663bfab60eb577537f4f'') NoChildren,
     NavEntry ''net_if_passphrase'' (Some ''cyassl__client_8c.html#a1b3c92e068e27568f92f8240a48df984'') NoChildren,
     NavEntry ''net_if_type'' (Some ''cyassl__client_8c.html#a78212fc67ef153e2df0f4fe3a22cdeca'') NoChildren,
     NavEntry ''ssl_client_ops'' (Some ''cyassl__client_8c.html#af44aa7f44da6c96d5c4e1a8fdba09627'') NoChildren]"

definition nav_cyassl__heap_8c :: "nav_data list" where
  "nav_cyassl__heap_8c =
    [NavEntry ''SSL_HEAP_BIG_SIZE'' (Some ''cyassl__heap_8c.html#ae5dbaf232eb055721252c5e82dd2658e'') NoChildren,
     NavEntry ''SSL_HEAP_SIZE'' (Some ''cyassl__heap_8c.html#a14008c9d326b94a5398bd3ae01861b3a'') NoChildren,
     NavEntry ''belongs_to_big_heap'' (Some ''cyassl__heap_8c.html#a2743998ef433692f1f68554a15f03efa'') NoChildren,
     NavEntry ''cyassl_heap_init'' (Some ''cyassl__heap_8c.html#a1412b82da3c295e48ee8aee5e7fe04aa'') NoChildren,
     NavEntry ''ssl_heap_get_stats'' (Some ''cyassl__heap_8c.html#aa94bf85171fab481c50c3334078cdf13'') NoChildren,
     NavEntry ''uip_sbrk'' (Some ''cyassl__heap_8c.html#a7c82063eca53ff1f49fa5c058c12040a'') NoChildren,
     NavEntry ''XFREE'' (Some ''cyassl__heap_8c.html#ae4dc607e12745ea1fe128d411792c62f'') NoChildren,
     NavEntry ''XMALLOC'' (Some ''cyassl__heap_8c.html#a5c9b66e660c8d0594a88fead475da6b0'') NoChildren,
     NavEntry ''XREALLOC'' (Some ''cyassl__heap_8c.html#ae7781a4145ce4e925392b313e4f4ad63'') NoChildren,
     NavEntry ''big_max_usage'' (Some ''cyassl__heap_8c.html#a23e53227e214563ae30478825f2ea0c3'') NoChildren,
     NavEntry ''big_usage'' (Some ''cyassl__heap_8c.html#a75664d973604173d369b9d8a5b0358c9'') NoChildren,
     NavEntry ''ssl_heap'' (Some ''cyassl__heap_8c.html#ad622f5be63e319c0cc0348f7a6b62bb0'') NoChildren,
     NavEntry ''ssl_heap_big'' (Some ''cyassl__heap_8c.html#a454ef3982917cfc24247436eb6837c5a'') NoChildren,
     NavEntry ''ssl_heap_big_blocks'' (Some ''cyassl__heap_8c.html#ad8fdb4469cb541e88ae9dabb7bfbd803'') NoChildren,
     NavEntry ''ssl_heap_big_space'' (Some ''cyassl__heap_8c.html#ab2c49468a1306361d948619f1789c704'') NoChildren,
     NavEntry ''ssl_heap_blocks'' (Some ''cyassl__heap_8c.html#ac3a95abb659f6005b812b59a2ac50b03'') NoChildren,
     NavEntry ''ssl_heap_space'' (Some ''cyassl__heap_8c.html#a63a4053bc5955fc7c861917111f045a7'') NoChildren]"

definition nav_cyassl__heap_8h :: "nav_data list" where
  "nav_cyassl__heap_8h =
    [NavEntry ''cyassl_heap_init'' (Some ''cyassl__heap_8h.html#a1412b82da3c295e48ee8aee5e7fe04aa'') NoChildren,
     NavEntry ''ssl_heap_get_stats'' (Some ''cyassl__heap_8h.html#aa94bf85171fab481c50c3334078cdf13'') NoChildren]"

definition nav_debug_8c :: "nav_data list" where
  "nav_debug_8c =
    [NavEntry ''assert_impl'' (Some ''debug_8c.html#af046044c98c236d3ebc81c925d508fa0'') NoChildren,
     NavEntry ''debug_init'' (Some ''debug_8c.html#a0ec3c4c9919c1f4e145c315eb687aa61'') NoChildren,
     NavEntry ''is_level_printable'' (Some ''debug_8c.html#a84f0e8b7312f438f913a322ac5b74e24'') NoChildren,
     NavEntry ''is_module_enabled'' (Some ''debug_8c.html#a2d1aff48a4c82b7e8b4252aa64c19479'') NoChildren,
     NavEntry ''print_array'' (Some ''debug_8c.html#abb433d0baa2427df7c994db4cd5c2a8b'') NoChildren,
     NavEntry ''print_array_ch'' (Some ''debug_8c.html#a56df89b49018da858ba1d8d56e5a6973'') NoChildren,
     NavEntry ''print_used_memory'' (Some ''debug_8c.html#ac5e0bd7e07d3f6954b13cfd9c4153744'') NoChildren,
     NavEntry ''enabled_modules'' (Some ''debug_8c.html#a45e25a89e7e3fc603ca4a7bf1db6d4e2'') NoChildren,
     NavEntry ''g_debug_callback'' (Some ''debug_8c.html#a47c445f8400690f1e4a361710073c294'') NoChildren,
     NavEntry ''g_log_fn'' (Some ''debug_8c.html#a88bdb1952e8645245a9e7a7e7890c682'') NoChildren,
     NavEntry ''system_debug_level'' (Some ''debug_8c.html#a175bf51679637462bfb6b9d11a96193e'') NoChildren]"

definition nav_debug_8h :: "nav_data list" where
  "nav_debug_8h =
    [NavEntry ''__FILENAME__'' (Some ''debug_8h.html#a5fccb4fc71e44089a1b1a77fc76c0b68'') NoChildren,
     NavEntry ''ASSERT'' (Some ''debug_8h.html#a79da58dac9dcdbcd4005f1d440e363ba'') NoChildren,
     NavEntry ''DEBUG_APPLICATION'' (Some ''debug_8h.html#a6b831f5f57f87e0b03ee3a5f0c669975'') NoChildren,
     NavEntry ''DEBUG_COMMON'' (Some ''debug_8h.html#aa6f3dc01f32854cbc27447ae06836bd4'') NoChildren,
     NavEntry ''DEBUG_CONFIGURATOR'' (Some ''debug_8h.html#aa6ff61ba82790f0a97fc37ac636bc84b'') NoChildren,
     NavEntry ''DEBUG_EXOAPI'' (Some ''debug_8h.html#ab5e6b51515439b22ac0321d70af265b8'') NoChildren,
     NavEntry ''DEBUG_HTTP'' (Some ''debug_8h.html#ae3248ebf89f7b4059c3401f01b99f154'') NoChildren,
     NavEntry ''debug_log'' (Some ''debug_8h.html#a44f3fbef24c0bc8fca979d0e1c32e020'') NoChildren,
     NavEntry ''DEBUG_MEM'' (Some ''debug_8h.html#ab5f6b65aa5fa2b22443dd966aa13b84a'') NoChildren,
     NavEntry ''DEBUG_NET'' (Some ''debug_8h.html#aac019ee8ef1c8aae888df379e793d951'') NoChildren,
     NavEntry ''DEBUG_PLATFORM'' (Some ''debug_8h.html#aa3abaafc5cd85852a33525ef90941a68'') NoChildren,
     NavEntry ''DEBUG_PRC_SM'' (Some ''debug_8h.html#afeea07958e3e5c2cade7a12f8a3f6ea0'') NoChildren,
     NavEntry ''DEBUG_SSL'' (Some ''debug_8h.html#a21ded5ca7e2b71b5911b0d6a1d5be5b2'') NoChildren,
     NavEntry ''DEBUG_UPDATE'' (Some ''debug_8h.html#a7137837d0f551831ca629773f23d85d5'') NoChildren,
     NavEntry ''DEBUG_VERBOSITY'' (Some ''debug_8h.html#a2756127335810471fc2ea8b84538f693'') NoChildren,
     NavEntry ''EASDK_DEBUG_LEVEL_DEBUG'' (Some ''debug_8h.html#a8de935a0028f3f702ac188c25ad52945'') NoChildren,
     NavEntry ''EASDK_DEBUG_LEVEL_ERROR'' (Some ''debug_8h.html#a5ddc525d20abf0ce5a9bf965ccc33a4a'') NoChildren,
     NavEntry ''EASDK_DEBUG_LEVEL_INFO'' (Some ''debug_8h.html#ae05a21ecb1eedbf50483847ffb4419ec'') NoChildren,
     NavEntry ''EASDK_DEBUG_LEVEL_WARNING'' (Some ''debug_8h.html#a999297658e9b434ba58d4bfebb78d9f0'') NoChildren,
     NavEntry ''error_log'' (Some ''debug_8h.html#a73b80f4c98130d298291127e18c454b0'') NoChildren,
     NavEntry ''flush_command'' (Some ''debug_8h.html#a5ee44d5cd954fe9d29fa02ea5cca2979'') NoChildren,
     NavEntry ''info_log'' (Some ''debug_8h.html#aaf23acbb1b06b4abadab578f11119662'') NoChildren,
     NavEntry ''sdk_error'' (Some ''debug_8h.html#ab4fb31c7a01a3748ddbffc1512e50cb5'') NoChildren,
     NavEntry ''sdk_log'' (Some ''debug_8h.html#ad6b29a4957040b515517ec9f6240addd'') NoChildren,
     NavEntry ''trace_log'' (Some ''debug_8h.html#a48eeabf5f18f05ac73b454fdfd5e5307'') NoChildren,
     NavEntry ''warning_log'' (Some ''debug_8h.html#a459730ceedb53f637caa7c09222df569'') NoChildren,
     NavEntry ''deb_debug_callback'' (Some ''debug_8h.html#afbe515301424cc36a7bfe6435c280ea7'') NoChildren,
     NavEntry ''deb_log_function'' (Some ''debug_8h.html#a53cb8c01d6181c264aa25cc37f269ac8'') NoChildren,
     NavEntry ''assert_impl'' (Some ''debug_8h.html#ae134ff9e257f4bed289113e9cf5023be'') NoChildren,
     NavEntry ''debug_init'' (Some ''debug_8h.html#a0ec3c4c9919c1f4e145c315eb687aa61'') NoChildren,
     NavEntry ''get_peak_heap_usage'' (Some ''debug_8h.html#a4ea0131ca12f47a2f1208e6eec5d68fc'') NoChildren,
     NavEntry ''get_peak_stack_usage'' (Some ''debug_8h.html#a311734b79248eb747c06a54edb0a7bb0'') NoChildren,
     NavEntry ''is_level_printable'' (Some ''debug_8h.html#a84f0e8b7312f438f913a322ac5b74e24'') NoChildren,
     NavEntry ''is_module_enabled'' (Some ''debug_8h.html#a2d1aff48a4c82b7e8b4252aa64c19479'') NoChildren,
     NavEntry ''print_array'' (Some ''debug_8h.html#abb433d0baa2427df7c994db4cd5c2a8b'') NoChildren,
     NavEntry ''print_array_ch'' (Some ''debug_8h.html#a56df89b49018da858ba1d8d56e5a6973'') NoChildren,
     NavEntry ''print_debug_message'' (Some ''debug_8h.html#a82de04bdc2900d1db3b60e3660b89d71'') NoChildren,
     NavEntry ''print_debug_message_arg'' (Some ''debug_8h.html#aae79cd06585322c9652075e3b59cc307'') NoChildren,
     NavEntry ''print_memory_stats'' (Some ''debug_8h.html#ab30d5946e31b7a4e8fafee6e8a68377a'') NoChildren,
     NavEntry ''print_used_memory'' (Some ''debug_8h.html#ac5e0bd7e07d3f6954b13cfd9c4153744'') NoChildren,
     NavEntry ''g_debug_callback'' (Some ''debug_8h.html#a47c445f8400690f1e4a361710073c294'') NoChildren,
     NavEntry ''g_log_fn'' (Some ''debug_8h.html#a88bdb1952e8645245a9e7a7e7890c682'') NoChildren]"

definition nav_dictionary_8h :: "nav_data list" where
  "nav_dictionary_8h =
    [NavEntry ''dictionary_add'' (Some ''dictionary_8h.html#a9581c45c8ffca777b6d09ab8a35181c8'') NoChildren,
     NavEntry ''dictionary_get_iterator'' (Some ''dictionary_8h.html#a9ca1848c12632429cd8a05cb1e7b9356'') NoChildren,
     NavEntry ''dictionary_get_value'' (Some ''dictionary_8h.html#a83cb57209142af0def99f0ff28f52bd3'') NoChildren,
     NavEntry ''dictionary_iterate'' (Some ''dictionary_8h.html#a5aa7e02b70a46d5f8e112c051f63dae8'') NoChildren,
     NavEntry ''dictionary_lookup'' (Some ''dictionary_8h.html#a1c287327eeab65bbfdda0fd2399a655f'') NoChildren,
     NavEntry ''dictionary_new'' (Some ''dictionary_8h.html#a6834d7527fc6cf4dd287f8c51bc93157'') NoChildren,
     NavEntry ''dictionary_print'' (Some ''dictionary_8h.html#a334bd741d35625861dd7af95e40e680f'') NoChildren,
     NavEntry ''dictionary_remove'' (Some ''dictionary_8h.html#aa28558b16c4382e7812651149c98f853'') NoChildren]"

definition nav_dir_04ac16e32990e7b0365b3b7d643d7e2a :: "nav_data list" where
  "nav_dir_04ac16e32990e7b0365b3b7d643d7e2a =
    [NavEntry ''platform_exos.h'' (Some ''platform__exos_8h.html'') (ScriptVar ''platform__exos_8h'')]"

definition nav_dir_09c654bbd753bf05984e95de00625755 :: "nav_data list" where
  "nav_dir_09c654bbd753bf05984e95de00625755 =
    [NavEntry ''exos'' (Some ''dir_04ac16e32990e7b0365b3b7d643d7e2a.html'') (ScriptVar ''dir_04ac16e32990e7b0365b3b7d643d7e2a''),
     NavEntry ''FreeRTOS'' (Some ''dir_76f8db89a3e7bf177d9ae3aeb9b0a3ba.html'') (ScriptVar ''dir_76f8db89a3e7bf177d9ae3aeb9b0a3ba''),
     NavEntry ''mqx'' (Some ''dir_7944cfc02ed5cb6d1bf914c22b431ac5.html'') (ScriptVar ''dir_7944cfc02ed5cb6d1bf914c22b431ac5''),
     NavEntry ''posix'' (Some ''dir_298e725e8e36626d488bd488cba4f616.html'') (ScriptVar ''dir_298e725e8e36626d488bd488cba4f616''),
     NavEntry ''os_list.h'' (Some ''os__list_8h.html'') (ScriptVar ''os__list_8h'')]"

definition nav_dir_1db864ab52b1f4aea7ed36a891798c74 :: "nav_data list" where
  "nav_dir_1db864ab52b1f4aea7ed36a891798c74 =
    [NavEntry ''exosite_http_api.c'' (Some ''exosite__http__api_8c.html'') (ScriptVar ''exosite__http__api_8c''),
     NavEntry ''exosite_libcoap_api.c'' (Some ''exosite__libcoap__api_8c.html'') (ScriptVar ''exosite__libcoap__api_8c''),
     NavEntry ''exosite_picocoap_api.c'' (Some ''exosite__picocoap__api_8c.html'') (ScriptVar ''exosite__picocoap__api_8c'')]"

definition nav_dir_298e725e8e36626d488bd488cba4f616 :: "nav_data list" where
  "nav_dir_298e725e8e36626d488bd488cba4f616 =
    [NavEntry ''platform_posix.h'' (Some ''platform__posix_8h.html'') NoChildren]"

definition nav_dir_30f49a23f5f475de00557f56aa665ba8 :: "nav_data list" where
  "nav_dir_30f49a23f5f475de00557f56aa665ba8 =
    [NavEntry ''lwip_port.c'' (Some ''lwip__port_8c.html'') (ScriptVar ''lwip__port_8c''),
     NavEntry ''net_if_lwip_tcp.c'' (Some ''net__if__lwip__tcp_8c.html'') (ScriptVar ''net__if__lwip__tcp_8c''),
     NavEntry ''net_if_lwip_udp.c'' (Some ''net__if__lwip__udp_8c.html'') (ScriptVar ''net__if__lwip__udp_8c''),
     NavEntry ''platform_lwip.h'' (Some ''platform__lwip_8h.html'') (ScriptVar ''platform__lwip_8h'')]"

definition nav_dir_33b3ca06880ffefdf34f947cbb778e50 :: "nav_data list" where
  "nav_dir_33b3ca06880ffefdf34f947cbb778e50 =
    [NavEntry ''config.h'' (Some ''config_8h.html'') NoChildren,
     NavEntry ''config_cyassl.h'' (Some ''config__cyassl_8h.html'') (ScriptVar ''config__cyassl_8h''),
     NavEntry ''config_mbedtls.h'' (Some ''config__mbedtls_8h.html'') (ScriptVar ''config__mbedtls_8h''),
     NavEntry ''security_list.h'' (Some ''security__list_8h.html'') (ScriptVar ''security__list_8h'')]"

definition nav_dir_68267d1309a1af8e8297ef4c3efbcdba :: "nav_data list" where
  "nav_dir_68267d1309a1af8e8297ef4c3efbcdba =
    [NavEntry ''include'' (Some ''dir_b0856f6b0d80ccb263b2f415c91f9e17.html'') (ScriptVar ''dir_b0856f6b0d80ccb263b2f415c91f9e17''),
     NavEntry ''lib'' (Some ''dir_c85d3e3c5052e9ad9ce18c6863244a25.html'') (ScriptVar ''dir_c85d3e3c5052e9ad9ce18c6863244a25''),
     NavEntry ''protocol_clients'' (Some ''dir_fe84b31a651d1608d95dc2e6540ef310.html'') (ScriptVar ''dir_fe84b31a651d1608d95dc2e6540ef310''),
     NavEntry ''server_api'' (Some ''dir_1db864ab52b1f4aea7ed36a891798c74.html'') (ScriptVar ''dir_1db864ab52b1f4aea7ed36a891798c74''),
     NavEntry ''client_config.c'' (Some ''client__config_8c.html'') (ScriptVar ''client__config_8c''),
     NavEntry ''exosite_api.c'' (Some ''exosite__api_8c.html'') (ScriptVar ''exosite__api_8c''),
     NavEntry ''net_dev_factory.c'' (Some ''net__dev__factory_8c.html'') (ScriptVar ''net__dev__factory_8c''),
     NavEntry ''protocol_client_sm.c'' (Some ''protocol__client__sm_8c.html'') (ScriptVar ''protocol__client__sm_8c''),
     NavEntry ''rtc.c'' (Some ''rtc_8c.html'') (ScriptVar ''rtc_8c''),
     NavEntry ''sdk_init.c'' (Some ''sdk__init_8c.html'') (ScriptVar ''sdk__init_8c''),
     NavEntry ''system_utils.c'' (Some ''system__utils_8c.html'') (ScriptVar ''system__utils_8c'')]"

definition nav_dir_76f8db89a3e7bf177d9ae3aeb9b0a3ba :: "nav_data list" where
  "nav_dir_76f8db89a3e7bf177d9ae3aeb9b0a3ba =
    [NavEntry ''platform_freertos.h'' (Some ''platform__freertos_8h.html'') (ScriptVar ''platform__freertos_8h'')]"

definition nav_dir_7944cfc02ed5cb6d1bf914c22b431ac5 :: "nav_data list" where
  "nav_dir_7944cfc02ed5cb6d1bf914c22b431ac5 =
    [NavEntry ''platform_qmx.h'' (Some ''platform__qmx_8h.html'') (ScriptVar ''platform__qmx_8h'')]"

definition nav_dir_8189c79547c228efec742fac4d82511f :: "nav_data list" where
  "nav_dir_8189c79547c228efec742fac4d82511f =
    [NavEntry ''cbuffer.h'' (Some ''cbuffer_8h.html'') (ScriptVar ''cbuffer_8h''),
     NavEntry ''common_defines.h'' (Some ''common__defines_8h.html'') (ScriptVar ''common__defines_8h''),
     NavEntry ''concurrent_queue.h'' (Some ''concurrent__queue_8h.html'') (ScriptVar ''concurrent__queue_8h''),
     NavEntry ''debug.h'' (Some ''debug_8h.html'') (ScriptVar ''debug_8h''),
     NavEntry ''dictionary.h'' (Some ''dictionary_8h.html'') (ScriptVar ''dictionary_8h''),
     NavEntry ''dlmalloc.h'' (Some ''dlmalloc_8h_source.html'') NoChildren,
     NavEntry ''e_list.h'' (Some ''e__list_8h_source.html'') NoChildren,
     NavEntry ''error.h'' (Some ''error_8h.html'') (ScriptVar ''error_8h''),
     NavEntry ''fault_injection.h'' (Some ''fault__injection_8h_source.html'') NoChildren,
     NavEntry ''heap_manager.h'' (Some ''heap__manager_8h.html'') (ScriptVar ''heap__manager_8h''),
     NavEntry ''heap_types.h'' (Some ''heap__types_8h.html'') (ScriptVar ''heap__types_8h''),
     NavEntry ''mem_check.h'' (Some ''mem__check_8h.html'') (ScriptVar ''mem__check_8h''),
     NavEntry ''packet_buffer.h'' (Some ''packet__buffer_8h.html'') (ScriptVar ''packet__buffer_8h''),
     NavEntry ''pclb.h'' (Some ''pclb_8h.html'') (ScriptVar ''pclb_8h''),
     NavEntry ''pmatch.h'' (Some ''pmatch_8h.html'') (ScriptVar ''pmatch_8h''),
     NavEntry ''queue.h'' (Some ''queue_8h.html'') (ScriptVar ''queue_8h''),
     NavEntry ''sf_malloc.h'' (Some ''sf__malloc_8h.html'') (ScriptVar ''sf__malloc_8h''),
     NavEntry ''string_class.h'' (Some ''string__class_8h.html'') (ScriptVar ''string__class_8h''),
     NavEntry ''string_class_priv.h'' (Some ''string__class__priv_8h.html'') NoChildren,
     NavEntry ''tcp_buffer.h'' (Some ''tcp__buffer_8h.html'') (ScriptVar ''tcp__buffer_8h''),
     NavEntry ''ts_cbuffer.h'' (Some ''ts__cbuffer_8h.html'') (ScriptVar ''ts__cbuffer_8h''),
     NavEntry ''type.h'' (Some ''type_8h.html'') (ScriptVar ''type_8h''),
     NavEntry ''use_ssl_heap.h'' (Some ''use__ssl__heap_8h.html'') NoChildren,
     NavEntry ''use_string_heap.h'' (Some ''use__string__heap_8h.html'') NoChildren,
     NavEntry ''utils.h'' (Some ''utils_8h.html'') (ScriptVar ''utils_8h'')]"

definition nav_dir_89a94aa400c16e6b27756798f08d373c :: "nav_data list" where
  "nav_dir_89a94aa400c16e6b27756798f08d373c =
    [NavEntry ''atheros'' (Some ''dir_f3f7307f0e41f69a5ec1b4435b779b71.html'') (ScriptVar ''dir_f3f7307f0e41f69a5ec1b4435b779b71''),
     NavEntry ''lwip'' (Some ''dir_30f49a23f5f475de00557f56aa665ba8.html'') (ScriptVar ''dir_30f49a23f5f475de00557f56aa665ba8''),
     NavEntry ''posix'' (Some ''dir_cc1e723a43c6fd793dfb80461726ce9d.html'') (ScriptVar ''dir_cc1e723a43c6fd793dfb80461726ce9d''),
     NavEntry ''uip'' (Some ''dir_91748ab148b5df81b5ed0ba36e6eb6cf.html'') (ScriptVar ''dir_91748ab148b5df81b5ed0ba36e6eb6cf''),
     NavEntry ''ns_list.h'' (Some ''ns__list_8h.html'') (ScriptVar ''ns__list_8h'')]"

definition nav_dir_91748ab148b5df81b5ed0ba36e6eb6cf :: "nav_data list" where
  "nav_dir_91748ab148b5df81b5ed0ba36e6eb6cf =
    [NavEntry ''net_if_uip_udp.c'' (Some ''net__if__uip__udp_8c.html'') (ScriptVar ''net__if__uip__udp_8c''),
     NavEntry ''platform_uip.h'' (Some ''platform__uip_8h.html'') (ScriptVar ''platform__uip_8h''),
     NavEntry ''uip_adapter_conf.h'' (Some ''uip__adapter__conf_8h.html'') (ScriptVar ''uip__adapter__conf_8h''),
     NavEntry ''uip_net.h'' (Some ''uip__net_8h_source.html'') NoChildren,
     NavEntry ''uip_port.h'' (Some ''uip__port_8h_source.html'') NoChildren]"

definition nav_dir_968146b2f5d1eb6a88e35043954dc549 :: "nav_data list" where
  "nav_dir_968146b2f5d1eb6a88e35043954dc549 =
    [NavEntry ''devman.h'' (Some ''devman_8h_source.html'') NoChildren,
     NavEntry ''genstd.h'' (Some ''genstd_8h_source.html'') NoChildren,
     NavEntry ''ioctl.h'' (Some ''ioctl_8h_source.html'') NoChildren]"

definition nav_dir_b0856f6b0d80ccb263b2f415c91f9e17 :: "nav_data list" where
  "nav_dir_b0856f6b0d80ccb263b2f415c91f9e17 =
    [NavEntry ''config'' (Some ''dir_33b3ca06880ffefdf34f947cbb778e50.html'') (ScriptVar ''dir_33b3ca06880ffefdf34f947cbb778e50''),
     NavEntry ''lib'' (Some ''dir_8189c79547c228efec742fac4d82511f.html'') (ScriptVar ''dir_8189c79547c228efec742fac4d82511f''),
     NavEntry ''client_config.h'' (Some ''client__config_8h_source.html'') NoChildren,
     NavEntry ''exosite_api_internal.h'' (Some ''exosite__api__internal_8h.html'') (ScriptVar ''exosite__api__internal_8h''),
     NavEntry ''net_dev_factory.h'' (Some ''net__dev__factory_8h_source.html'') NoChildren,
     NavEntry ''net_dev_test.h'' (Some ''net__dev__test_8h.html'') (ScriptVar ''net__dev__test_8h''),
     NavEntry ''protocol_client.h'' (Some ''protocol__client_8h.html'') NoChildren,
     NavEntry ''protocol_client_common.h'' (Some ''protocol__client__common_8h.html'') (ScriptVar ''protocol__client__common_8h''),
     NavEntry ''protocol_client_sm.h'' (Some ''protocol__client__sm_8h.html'') (ScriptVar ''protocol__client__sm_8h''),
     NavEntry ''rtc_if.h'' (Some ''rtc__if_8h_source.html'') NoChildren,
     NavEntry ''sdk_config.h'' (Some ''sdk__config_8h.html'') (ScriptVar ''sdk__config_8h''),
     NavEntry ''server_api.h'' (Some ''server__api_8h.html'') (Entries
      [NavEntry ''server_api_request_ops'' (Some ''structserver__api__request__ops.html'') (ScriptVar ''structserver__api__request__ops'')]),
     NavEntry ''ssl_client.h'' (Some ''ssl__client_8h.html'') (ScriptVar ''ssl__client_8h''),
     NavEntry ''system_utils.h'' (Some ''system__utils_8h.html'') (ScriptVar ''system__utils_8h'')]"

definition nav_dir_c84a3667f9d748dc370e18b6bbe94799 :: "nav_data list" where
  "nav_dir_c84a3667f9d748dc370e18b6bbe94799 =
    [NavEntry ''net'' (Some ''dir_89a94aa400c16e6b27756798f08d373c.html'') (ScriptVar ''dir_89a94aa400c16e6b27756798f08d373c''),
     NavEntry ''system'' (Some ''dir_09c654bbd753bf05984e95de00625755.html'') (ScriptVar ''dir_09c654bbd753bf05984e95de00625755''),
     NavEntry ''config_port.h'' (Some ''config__port_8h.html'') (ScriptVar ''config__port_8h''),
     NavEntry ''net_port.h'' (Some ''net__port_8h_source.html'') NoChildren,
     NavEntry ''system_port.h'' (Some ''system__port_8h_source.html'') NoChildren,
     NavEntry ''thread_port.h'' (Some ''thread__port_8h_source.html'') NoChildren]"

definition nav_dir_c85d3e3c5052e9ad9ce18c6863244a25 :: "nav_data list" where
  "nav_dir_c85d3e3c5052e9ad9ce18c6863244a25 =
    [NavEntry ''cbuffer.c'' (Some ''cbuffer_8c.html'') (ScriptVar ''cbuffer_8c''),
     NavEntry ''concurrent_queue.c'' (Some ''concurrent__queue_8c.html'') (ScriptVar ''concurrent__queue_8c''),
     NavEntry ''debug.c'' (Some ''debug_8c.html'') (ScriptVar ''debug_8c''),
     NavEntry ''heap_manager.c'' (Some ''heap__manager_8c.html'') (ScriptVar ''heap__manager_8c''),
     NavEntry ''heap_space_internal.h'' (Some ''heap__space__internal_8h.html'') (ScriptVar ''heap__space__internal_8h''),
     NavEntry ''heap_tracker.c'' (Some ''heap__tracker_8c.html'') NoChildren,
     NavEntry ''heap_tracker.h'' (Some ''heap__tracker_8h.html'') (ScriptVar ''heap__tracker_8h''),
     NavEntry ''hs_mem.c'' (Some ''hs__mem_8c.html'') (ScriptVar ''hs__mem_8c''),
     NavEntry ''hs_mem.h'' (Some ''hs__mem_8h.html'') (ScriptVar ''hs__mem_8h''),
     NavEntry ''packet_buffer.c'' (Some ''packet__buffer_8c.html'') (ScriptVar ''packet__buffer_8c''),
     NavEntry ''pclb.c'' (Some ''pclb_8c.html'') (ScriptVar ''pclb_8c''),
     NavEntry ''string_class.c'' (Some ''string__class_8c.html'') (ScriptVar ''string__class_8c''),
     NavEntry ''tcp_buffer.c'' (Some ''tcp__buffer_8c.html'') (ScriptVar ''tcp__buffer_8c''),
     NavEntry ''tdictionary.c'' (Some ''tdictionary_8c.html'') (ScriptVar ''tdictionary_8c'')]"

definition nav_dir_cc1e723a43c6fd793dfb80461726ce9d :: "nav_data list" where
  "nav_dir_cc1e723a43c6fd793dfb80461726ce9d =
    [NavEntry ''net_if_posix_tcp.c'' (Some ''net__if__posix__tcp_8c.html'') (ScriptVar ''net__if__posix__tcp_8c''),
     NavEntry ''net_if_posix_udp.c'' (Some ''net__if__posix__udp_8c.html'') (ScriptVar ''net__if__posix__udp_8c''),
     NavEntry ''platform_posix_ns.h'' (Some ''platform__posix__ns_8h.html'') NoChildren,
     NavEntry ''posix_port.c'' (Some ''posix__port_8c.html'') (ScriptVar ''posix__port_8c'')]"

definition nav_dir_d28a4824dc47e487b107a5db32ef43c4 :: "nav_data list" where
  "nav_dir_d28a4824dc47e487b107a5db32ef43c4 =
    [NavEntry ''exosite_send_coap.c'' (Some ''exosite__send__coap_8c.html'') (ScriptVar ''exosite__send__coap_8c''),
     NavEntry ''exosite_send_http.c'' (Some ''exosite__send__http_8c.html'') (ScriptVar ''exosite__send__http_8c''),
     NavEntry ''exosite_subscribe_coap.c'' (Some ''exosite__subscribe__coap_8c.html'') (ScriptVar ''exosite__subscribe__coap_8c''),
     NavEntry ''exosite_subscribe_http.c'' (Some ''exosite__subscribe__http_8c.html'') (ScriptVar ''exosite__subscribe__http_8c'')]"

definition nav_dir_d44c64559bbebec7f509842c48db8b23 :: "nav_data list" where
  "nav_dir_d44c64559bbebec7f509842c48db8b23 =
    [NavEntry ''configurator_api.h'' (Some ''configurator__api_8h_source.html'') NoChildren,
     NavEntry ''exosite_api.h'' (Some ''exosite__api_8h.html'') (ScriptVar ''exosite__api_8h'')]"

definition nav_dir_f3f7307f0e41f69a5ec1b4435b779b71 :: "nav_data list" where
  "nav_dir_f3f7307f0e41f69a5ec1b4435b779b71 =
    [NavEntry ''atheros_net.h'' (Some ''atheros__net_8h_source.html'') NoChildren,
     NavEntry ''atheros_port.c'' (Some ''atheros__port_8c.html'') (ScriptVar ''atheros__port_8c''),
     NavEntry ''net_if_atheros_tcp.c'' (Some ''net__if__atheros__tcp_8c.html'') (ScriptVar ''net__if__atheros__tcp_8c''),
     NavEntry ''net_if_atheros_udp.c'' (Some ''net__if__atheros__udp_8c.html'') (ScriptVar ''net__if__atheros__udp_8c'')]"

definition nav_dir_fe84b31a651d1608d95dc2e6540ef310 :: "nav_data list" where
  "nav_dir_fe84b31a651d1608d95dc2e6540ef310 =
    [NavEntry ''ca-cert.h'' (Some ''ca-cert_8h_source.html'') NoChildren,
     NavEntry ''cyassl_client.c'' (Some ''cyassl__client_8c.html'') (ScriptVar ''cyassl__client_8c''),
     NavEntry ''cyassl_heap.c'' (Some ''cyassl__heap_8c.html'') (ScriptVar ''cyassl__heap_8c''),
     NavEntry ''cyassl_heap.h'' (Some ''cyassl__heap_8h.html'') (ScriptVar ''cyassl__heap_8h''),
     NavEntry ''http_client.c'' (Some ''http__client_8c.html'') (ScriptVar ''http__client_8c''),
     NavEntry ''http_parser.c'' (Some ''http__parser_8c.html'') (ScriptVar ''http__parser_8c''),
     NavEntry ''http_parser.h'' (Some ''http__parser_8h.html'') (ScriptVar ''http__parser_8h''),
     NavEntry ''libcoap_client.c'' (Some ''libcoap__client_8c.html'') (ScriptVar ''libcoap__client_8c''),
     NavEntry ''mbedtls_client.c'' (Some ''mbedtls__client_8c.html'') (ScriptVar ''mbedtls__client_8c''),
     NavEntry ''net_dev_test.c'' (Some ''net__dev__test_8c.html'') (ScriptVar ''net__dev__test_8c''),
     NavEntry ''picocoap_client.c'' (Some ''picocoap__client_8c.html'') (ScriptVar ''picocoap__client_8c'')]"

definition nav_files0a :: "string \<Rightarrow> nav_data list option" where
  "nav_files0a v =
    (if v = ''allocator_8c'' then Some nav_allocator_8c
     else if v = ''allocator_8h'' then Some nav_allocator_8h
     else if v = ''annotated_dup'' then Some nav_annotated_dup
     else if v = ''atheros__port_8c'' then Some nav_atheros__port_8c
     else if v = ''cbuffer_8c'' then Some nav_cbuffer_8c
     else if v = ''cbuffer_8h'' then Some nav_cbuffer_8h
     else if v = ''classcreate__update__file_1_1_oap_header'' then Some nav_classcreate__update__file_1_1_oap_header
     else if v = ''client__config_8c'' then Some nav_client__config_8c
     else if v = ''common__defines_8h'' then Some nav_common__defines_8h
     else if v = ''concurrent__queue_8c'' then Some nav_concurrent__queue_8c
     else if v = ''concurrent__queue_8h'' then Some nav_concurrent__queue_8h
     else if v = ''config__cyassl_8h'' then Some nav_config__cyassl_8h
     else if v = ''config__mbedtls_8h'' then Some nav_config__mbedtls_8h
     else if v = ''config__port_8h'' then Some nav_config__port_8h
     else if v = ''configfs_8h'' then Some nav_configfs_8h
     else if v = ''cyassl__client_8c'' then Some nav_cyassl__client_8c
     else if v = ''cyassl__heap_8c'' then Some nav_cyassl__heap_8c
     else if v = ''cyassl__heap_8h'' then Some nav_cyassl__heap_8h
     else if v = ''debug_8c'' then Some nav_debug_8c
     else if v = ''debug_8h'' then Some nav_debug_8h
     else if v = ''dictionary_8h'' then Some nav_dictionary_8h
     else None)"

definition nav_files0b :: "string \<Rightarrow> nav_data list option" where
  "nav_files0b v =
    (if v = ''dir_04ac16e32990e7b0365b3b7d643d7e2a'' then Some nav_dir_04ac16e32990e7b0365b3b7d643d7e2a
     else if v = ''dir_09c654bbd753bf05984e95de00625755'' then Some nav_dir_09c654bbd753bf05984e95de00625755
     else if v = ''dir_1db864ab52b1f4aea7ed36a891798c74'' then Some nav_dir_1db864ab52b1f4aea7ed36a891798c74
     else if v = ''dir_298e725e8e36626d488bd488cba4f616'' then Some nav_dir_298e725e8e36626d488bd488cba4f616
     else if v = ''dir_30f49a23f5f475de00557f56aa665ba8'' then Some nav_dir_30f49a23f5f475de00557f56aa665ba8
     else if v = ''dir_33b3ca06880ffefdf34f947cbb778e50'' then Some nav_dir_33b3ca06880ffefdf34f947cbb778e50
     else if v = ''dir_68267d1309a1af8e8297ef4c3efbcdba'' then Some nav_dir_68267d1309a1af8e8297ef4c3efbcdba
     else if v = ''dir_76f8db89a3e7bf177d9ae3aeb9b0a3ba'' then Some nav_dir_76f8db89a3e7bf177d9ae3aeb9b0a3ba
     else if v = ''dir_7944cfc02ed5cb6d1bf914c22b431ac5'' then Some nav_dir_7944cfc02ed5cb6d1bf914c22b431ac5
     else if v = ''dir_8189c79547c228efec742fac4d82511f'' then Some nav_dir_8189c79547c228efec742fac4d82511f
     else if v = ''dir_89a94aa400c16e6b27756798f08d373c'' then Some nav_dir_89a94aa400c16e6b27756798f08d373c
     else if v = ''dir_91748ab148b5df81b5ed0ba36e6eb6cf'' then Some nav_dir_91748ab148b5df81b5ed0ba36e6eb6cf
     else if v = ''dir_968146b2f5d1eb6a88e35043954dc549'' then Some nav_dir_968146b2f5d1eb6a88e35043954dc549
     else if v = ''dir_b0856f6b0d80ccb263b2f415c91f9e17'' then Some nav_dir_b0856f6b0d80ccb263b2f415c91f9e17
     else if v = ''dir_c84a3667f9d748dc370e18b6bbe94799'' then Some nav_dir_c84a3667f9d748dc370e18b6bbe94799
     else if v = ''dir_c85d3e3c5052e9ad9ce18c6863244a25'' then Some nav_dir_c85d3e3c5052e9ad9ce18c6863244a25
     else if v = ''dir_cc1e723a43c6fd793dfb80461726ce9d'' then Some nav_dir_cc1e723a43c6fd793dfb80461726ce9d
     else if v = ''dir_d28a4824dc47e487b107a5db32ef43c4'' then Some nav_dir_d28a4824dc47e487b107a5db32ef43c4
     else if v = ''dir_d44c64559bbebec7f509842c48db8b23'' then Some nav_dir_d44c64559bbebec7f509842c48db8b23
     else if v = ''dir_f3f7307f0e41f69a5ec1b4435b779b71'' then Some nav_dir_f3f7307f0e41f69a5ec1b4435b779b71
     else if v = ''dir_fe84b31a651d1608d95dc2e6540ef310'' then Some nav_dir_fe84b31a651d1608d95dc2e6540ef310
     else None)"

end
