(* ===== verification/NavFiles1.thy ===== *)
theory NavFiles1
  imports NavData
begin

text \<open>
  Generated data files of the navigation tree, \<open>error_8h.js\<close> to \<open>heap__space__mem__check_8h.js\<close>: each
  defines one variable of its own name, the list of the entries below one node. The last two
  definitions map the name of a variable to its list.
\<close>

definition nav_error_8h :: "nav_data list" where
  "nav_error_8h =
    [NavEntry ''ERR_SUCCESS'' (Some ''error_8h.html#adc29c2ff13d900c2f185ee95427fb06ca6d4f18a9728f434ff2d1a64043ebe6e8'') NoChildren,
     NavEntry ''ERR_FAILURE'' (Some ''error_8h.html#adc29c2ff13d900c2f185ee95427fb06cafc3fcefbe5fe939745539df41ab0bd20'') NoChildren,
     NavEntry ''ERR_WOULD_BLOCK'' (Some ''error_8h.html#adc29c2ff13d900c2f185ee95427fb06cabab57420ffe640266775a7582eeb045a'') NoChildren,
     NavEntry ''ERR_NO_MEMORY'' (Some ''error_8h.html#adc29c2ff13d900c2f185ee95427fb06ca308199736159a4f167ad4f58db8a3830'') NoChildren,
     NavEntry ''ERR_NOT_IMPLEMENTED'' (Some ''error_8h.html#adc29c2ff13d900c2f185ee95427fb06ca5bed3f42a08e195b307cf8622e913327'') NoChildren,
     NavEntry ''ERR_NOT_APPLICABLE'' (Some ''error_8h.html#adc29c2ff13d900c2f185ee95427fb06caa89c4aca3f88ee2abd714a3bf86af80f'') NoChildren,
     NavEntry ''ERR_TIMEOUT'' (Some ''error_8h.html#adc29c2ff13d900c2f185ee95427fb06cac568baeb6407ef5e2630084ccbc34be8'') NoChildren,
     NavEntry ''ERR_OVERFLOW'' (Some ''error_8h.html#adc29c2ff13d900c2f185ee95427fb06caa2f43f08171ac5a0c298d31ff96b6ea3'') NoChildren,
     NavEntry ''ERR_NOT_FOUND'' (Some ''error_8h.html#adc29c2ff13d900c2f185ee95427fb06ca3cfe3eff41c31f8283d57f835269a958'') NoChildren,
     NavEntry ''ERR_BAD_ARGS'' (Some ''error_8h.html#adc29c2ff13d900c2f185ee95427fb06ca802dd0d5f2099eee1a479a916ce40d9b'') NoChildren,
     NavEntry ''ERR_BUSY'' (Some ''error_8h.html#adc29c2ff13d900c2f185ee95427fb06ca8d4f409eda53a10f049dc6d5a833ccba'') NoChildren,
     NavEntry ''ERR_INVALID_FORMAT'' (Some ''error_8h.html#adc29c2ff13d900c2f185ee95427fb06ca48cdce01beb2e06f56b4f6885c62c6b3'') NoChildren,
     NavEntry ''ERR_COULD_NOT_SEND'' (Some ''error_8h.html#adc29c2ff13d900c2f185ee95427fb06ca79f85ef669e3d189a75f92a4a120d08a'') NoChildren,
     NavEntry ''ERR_NO_RESOURCE'' (Some ''error_8h.html#adc29c2ff13d900c2f185ee95427fb06caec0e6fbb561943d5153c0aa0c98c6a46'') NoChildren,
     NavEntry ''ERR_DUPLICATE'' (Some ''error_8h.html#adc29c2ff13d900c2f185ee95427fb06ca15990d4e48ef10e993b4ca80ae0aadf1'') NoChildren,
     NavEntry ''ERR_NO_NET_DEV'' (Some ''error_8h.html#adc29c2ff13d900c2f185ee95427fb06caa55cbd2b04e90d413e504ec72d76451a'') NoChildren,
     NavEntry ''ERR_NO_CONTENT'' (Some ''error_8h.html#adc29c2ff13d900c2f185ee95427fb06ca54898c0397598a0e041fa7b0e2f3ff73'') NoChildren,
     NavEntry ''ERR_UNCHANGED'' (Some ''error_8h.html#adc29c2ff13d900c2f185ee95427fb06cac0f6a8a19421df17185e37b22b2d056a'') NoChildren,
     NavEntry ''ERR_NO_CIK'' (Some ''error_8h.html#adc29c2ff13d900c2f185ee95427fb06ca205aebe6ccc3901e86e03b174ee65512'') NoChildren,
     NavEntry ''ERR_CIK_NOT_VALID'' (Some ''error_8h.html#adc29c2ff13d900c2f185ee95427fb06ca4467b54d45d258245db407ec0cfb774e'') NoChildren,
     NavEntry ''ERR_REQUEST_ABORTED'' (Some ''error_8h.html#adc29c2ff13d900c2f185ee95427fb06ca7b7138523e0b03b89d2bed6c6b7f630f'') NoChildren,
     NavEntry ''ERR_ACTIVATE_CONFLICT'' (Some ''error_8h.html#adc29c2ff13d900c2f185ee95427fb06ca068cda9cf27c3a95dde74dffca000a4b'') NoChildren,
     NavEntry ''ERR_ACTIVATE_NOT_FOUND'' (Some ''error_8h.html#adc29c2ff13d900c2f185ee95427fb06ca8202c3d9be21fc3b42caf07f1ce11abc'') NoChildren,
     NavEntry ''ERR_NET_TIMEDOUT'' (Some ''error_8h.html#adc29c2ff13d900c2f185ee95427fb06cadc9f2a735e2abcf988f6e586dee481fa'') NoChildren,
     NavEntry ''ERR_NET_CLOSED'' (Some ''error_8h.html#adc29c2ff13d900c2f185ee95427fb06caac5fef038dfa68c9fcba888f6c2f37d3'') NoChildren,
     NavEntry ''ERR_NET_ABORTED'' (Some ''error_8h.html#adc29c2ff13d900c2f185ee95427fb06cac0bb67e2982b4328c32a81d1d52f5058'') NoChildren,
     NavEntry ''ERR_NET_OVERFLOW'' (Some ''error_8h.html#adc29c2ff13d900c2f185ee95427fb06ca2e69e1496ff0e4db3266029918fa0a43'') NoChildren,
     NavEntry ''ERR_NET_DNS_ERROR'' (Some ''error_8h.html#adc29c2ff13d900c2f185ee95427fb06ca0b4e5c222ac30e1ebb2951f70dea3567'') NoChildren,
     NavEntry ''ERR_MODULE_CYASSL'' (Some ''error_8h.html#a61dadd085c1777f559549e05962b2c9ea3941722ed0b7835f5f38d353b144620e'') NoChildren,
     NavEntry ''map_error_code'' (Some ''error_8h.html#a90b16c5679595accfab59b6b8b882308'') NoChildren]"

definition nav_examples :: "nav_data list" where
  "nav_examples =
    [NavEntry ''exosite_send_coap.c'' (Some ''exosite_send_coap_8c-example.html'') NoChildren,
     NavEntry ''exosite_send_http.c'' (Some ''exosite_send_http_8c-example.html'') NoChildren,
     NavEntry ''exosite_subscribe_coap.c'' (Some ''exosite_subscribe_coap_8c-example.html'') NoChildren,
     NavEntry ''exosite_subscribe_http.c'' (Some ''exosite_subscribe_http_8c-example.html'') NoChildren]"

definition nav_exosite__api_8c :: "nav_data list" where
  "nav_exosite__api_8c =
    [NavEntry ''sm_list_item'' (Some ''structsm__list__item.html'') (ScriptVar ''structsm__list__item''),
     NavEntry ''exosite_class'' (Some ''structexosite__class.html'') (ScriptVar ''structexosite__class''),
     NavEntry ''subscribe_item'' (Some ''structsubscribe__item.html'') (ScriptVar ''structsubscribe__item''),
     NavEntry ''ARG_CPY'' (Some ''exosite__api_8c.html#aaed3bf6494ca3c829e8708c343459ebc'') NoChildren,
     NavEntry ''ARG_SIZE'' (Some ''exosite__api_8c.html#a4220bc598405e83e01ca79c3d99d7392'') NoChildren,
     NavEntry ''TIMEOUT_STR_SIZE'' (Some ''exosite__api_8c.html#ad63bfde46de7b2630517ca0cbadc2069'') NoChildren,
     NavEntry ''activate_states'' (Some ''exosite__api_8c.html#a4aad5a1453c31249d8688201537205ef'') (Entries
      [NavEntry ''AS_SEND_GET_TIMESTAMP'' (Some ''exosite__api_8c.html#a4aad5a1453c31249d8688201537205efacb502e9b0cb29d691d65e56177545bd9'') NoChildren,
       NavEntry ''AS_WAIT_TIMESTAMP'' (Some ''exosite__api_8c.html#a4aad5a1453c31249d8688201537205efa83f331d627addfdb12be805123bdfd67'') NoChildren,
       NavEntry ''AS_INIT'' (Some ''exosite__api_8c.html#a4aad5a1453c31249d8688201537205efaed7086089069fee94e1a0ed4bdc2444a'') NoChildren,
       NavEntry ''AS_START'' (Some ''exosite__api_8c.html#a4aad5a1453c31249d8688201537205efa9b4139d79be42352e563562248aaf7e8'') NoChildren,
       NavEntry ''AS_PREPARE_ACTIVATE'' (Some ''exosite__api_8c.html#a4aad5a1453c31249d8688201537205efa146e826e08fccc19896301e509beb617'') NoChildren,
       NavEntry ''AS_SEND_ACTIVATE'' (Some ''exosite__api_8c.html#a4aad5a1453c31249d8688201537205efaf29726d3d5c22e931fcf218fac5c0292'') NoChildren,
       NavEntry ''AS_WAIT_ACTIVATE'' (Some ''exosite__api_8c.html#a4aad5a1453c31249d8688201537205efa4d58d2823ca3f705933bfa1fa618115c'') NoChildren,
       NavEntry ''AS_ACTIVATED'' (Some ''exosite__api_8c.html#a4aad5a1453c31249d8688201537205efaee1b161df07b8ba816d172f47ee09919'') NoChildren]),
     NavEntry ''sm_type'' (Some ''exosite__api_8c.html#abca7bdbb52f87b7733c680b1ac64bca5'') (Entries
      [NavEntry ''SM_MAIN'' (Some ''exosite__api_8c.html#abca7bdbb52f87b7733c680b1ac64bca5aa8d21515f7fa9d58dd81240f81329601'') NoChildren,
       NavEntry ''SM_HTTP_LONG_POLL'' (Some ''exosite__api_8c.html#abca7bdbb52f87b7733c680b1ac64bca5a1d1edd148f5296a22da3e5a1b88692b9'') NoChildren,
       NavEntry ''SM_TIME_SYNC'' (Some ''exosite__api_8c.html#abca7bdbb52f87b7733c680b1ac64bca5a63fb56cd4a7c8d7b017ea6b71b92c388'') NoChildren]),
     NavEntry ''activate'' (Some ''exosite__api_8c.html#ace0faab8cc3ec86564203d9c9c06ed1b'') NoChildren,
     NavEntry ''activate_sm'' (Some ''exosite__api_8c.html#a65f400cf7ab24a50367886e93fb3a6f8'') NoChildren,
     NavEntry ''add_to_subscribe_map'' (Some ''exosite__api_8c.html#a17dcb0d46d084257e321cbea1d92c86b'') NoChildren,
     NavEntry ''api_get_cik'' (Some ''exosite__api_8c.html#a8f3a5acb5ba42aed972003572eda3b3f'') NoChildren,
     NavEntry ''create_new_sm'' (Some ''exosite__api_8c.html#a60ca897f8c1e389fd9243e23b645541a'') NoChildren,
     NavEntry ''exo_request_args_delete'' (Some ''exosite__api_8c.html#a7f9c0a7808b75cc88e82fd9d5e7f3bbd'') NoChildren,
     NavEntry ''exo_request_args_new'' (Some ''exosite__api_8c.html#ac372540c9a5f248d69273a58a22834ba'') NoChildren,
     NavEntry ''exo_subscribe_item_delete'' (Some ''exosite__api_8c.html#a78eee434b05b518bd6aa3db3a38e633e'') NoChildren,
     NavEntry ''exo_subscribe_item_new'' (Some ''exosite__api_8c.html#afc6464a5ce51715566ed6abbf7c192c3'') NoChildren,
     NavEntry ''exosite_api_callback'' (Some ''exosite__api_8c.html#a0436842a103e458d51c7b48ce9d735d3'') NoChildren,
     NavEntry ''exosite_delay_and_poll'' (Some ''group___exosite___a_p_i.html#gab8edb09e2a237927624249c76dbf99a4'') NoChildren,
     NavEntry ''exosite_get_status'' (Some ''group___exosite___a_p_i.html#ga1a5c5601699db951d116d0cf7e4c38a1'') NoChildren,
     NavEntry ''exosite_new'' (Some ''group___exosite___a_p_i.html#ga70278e356b752eba1ee606a725aec40b'') NoChildren,
     NavEntry ''exosite_poll'' (Some ''group___exosite___a_p_i.html#ga2681b5ce3d505b037ded36df8bab15ef'') NoChildren,
     NavEntry ''exosite_read'' (Some ''group___exosite___a_p_i.html#ga035e1a5989983f94d04e838684d2e75c'') NoChildren,
     NavEntry ''exosite_sdk_register_periodic_fn'' (Some ''exosite__api_8c.html#a87c26b1fab1a6c68218d239bd2735fd4'') NoChildren,
     NavEntry ''exosite_subscribe'' (Some ''group___exosite___a_p_i.html#ga245a9bf0809e30f4bf79a259ca8c9778'') NoChildren,
     NavEntry ''exosite_write'' (Some ''group___exosite___a_p_i.html#ga8dea001937a82446e953b63abb7c9e63'') NoChildren,
     NavEntry ''find_sm'' (Some ''exosite__api_8c.html#a3205f8ee56f91f04079eddeebf659555'') NoChildren,
     NavEntry ''get_timestamp'' (Some ''exosite__api_8c.html#a3db0c33c745e0b74ebc87e243d863d64'') NoChildren,
     NavEntry ''on_activate'' (Some ''exosite__api_8c.html#a0dfc6bdb207dc01d4e6c66a6f4b8dc03'') NoChildren,
     NavEntry ''on_subscribe'' (Some ''exosite__api_8c.html#ae53581938a33faf0cffd5ede9ade8f1c'') NoChildren,
     NavEntry ''on_timestamp'' (Some ''exosite__api_8c.html#a2d52d2c2cdb7316aea39c31e4c9d1ecb'') NoChildren,
     NavEntry ''pcsm_transmit_qeueue_push_no_copy'' (Some ''exosite__api_8c.html#ae2127bcd3a584662dd215d7c9c8fea18'') NoChildren,
     NavEntry ''pcsm_transmit_queue_push'' (Some ''exosite__api_8c.html#af44f4ac9612be5ff1efb26d09f0da2ed'') NoChildren,
     NavEntry ''print_state_change'' (Some ''exosite__api_8c.html#a96dc33d8c0ed189c3f0502b3598b1113'') NoChildren,
     NavEntry ''request_delete'' (Some ''exosite__api_8c.html#ab378caa28aab2d7047e71263af252ca6'') NoChildren,
     NavEntry ''request_queue_push'' (Some ''exosite__api_8c.html#a514ffa9538c2749779516886ddbc32a0'') NoChildren,
     NavEntry ''select_server_data'' (Some ''exosite__api_8c.html#a92138ea7fb3d6331f4038681f784cafa'') NoChildren,
     NavEntry ''should_delay_activate'' (Some ''exosite__api_8c.html#ad1b63408daffa26fdf5b3705a8de3b3c'') NoChildren,
     NavEntry ''gmessage_id'' (Some ''exosite__api_8c.html#a449f10c878b734714ff2cfd93c5d87cb'') NoChildren,
     NavEntry ''long_poll_sm_name'' (Some ''exosite__api_8c.html#a98c9fb576a723ad34428a2cd39e0c384'') NoChildren,
     NavEntry ''main_sm_name'' (Some ''exosite__api_8c.html#adf30a697b0ad9976bd2a98d96f20859c'') NoChildren,
     NavEntry ''time_sync_sm_name'' (Some ''exosite__api_8c.html#ab69cb59e5331032de1383c55f0ea17de'') NoChildren]"

definition nav_exosite__api_8h :: "nav_data list" where
  "nav_exosite__api_8h =
    [NavEntry ''debug_callback'' (Some ''group___exosite___a_p_i.html#ga24eb564aea3e0bf7f15b5da5af6bb804'') NoChildren,
     NavEntry ''exosite_free_func'' (Some ''group___exosite___a_p_i.html#ga5e26d3ea540cea5325256a25eb6a3f8a'') NoChildren,
     NavEntry ''exosite_malloc_func'' (Some ''group___exosite___a_p_i.html#ga6518b4e7bb4925ee525e4fa43debc85d'') NoChildren,
     NavEntry ''exosite_on_change'' (Some ''group___exosite___a_p_i.html#ga9d01bddd12fb83b8c9cb185a2662e8be'') NoChildren,
     NavEntry ''exosite_on_read'' (Some ''group___exosite___a_p_i.html#ga089a989dc1285a3594501aef49f1dd6a'') NoChildren,
     NavEntry ''exosite_on_write'' (Some ''group___exosite___a_p_i.html#ga84b7eddedcd3e64923683b3f3ce8dbc7'') NoChildren,
     NavEntry ''exosite_realloc_func'' (Some ''group___exosite___a_p_i.html#gaeb9551e987ca4d871864732b3da1233e'') NoChildren,
     NavEntry ''log_function'' (Some ''group___exosite___a_p_i.html#ga9693b45f5a9d30fdce647d2c3a379f44'') NoChildren,
     NavEntry ''exosite_device_status'' (Some ''group___exosite___a_p_i.html#ga1a2cc30a82998509f33b7f08388b8274'') (Entries
      [NavEntry ''DEVICE_STATUS_UNKNOWN'' (Some ''group___exosite___a_p_i.html#gga1a2cc30a82998509f33b7f08388b8274ab12deb5de5374012eb6e586bed50dfc5'') NoChildren,
       NavEntry ''DEVICE_STATUS_NOT_ACTIVATED'' (Some ''group___exosite___a_p_i.html#gga1a2cc30a82998509f33b7f08388b8274aa99124b4129730fc6de8275519af1fbd'') NoChildren,
       NavEntry ''DEVICE_STATUS_ACTIVATED'' (Some ''group___exosite___a_p_i.html#gga1a2cc30a82998509f33b7f08388b8274adadd8b75c632ecb5e4f70670b701e313'') NoChildren,
       NavEntry ''DEVICE_STATUS_EXPIRED'' (Some ''group___exosite___a_p_i.html#gga1a2cc30a82998509f33b7f08388b8274af3fb151cad7b03a0c89855a4ab36896a'') NoChildren,
       NavEntry ''DEVICE_STATUS_REVOKED'' (Some ''group___exosite___a_p_i.html#gga1a2cc30a82998509f33b7f08388b8274a7a0e78e6954dec518f535198c6474c7f'') NoChildren]),
     NavEntry ''exosite_delay_and_poll'' (Some ''group___exosite___a_p_i.html#gab8edb09e2a237927624249c76dbf99a4'') NoChildren,
     NavEntry ''exosite_get_status'' (Some ''group___exosite___a_p_i.html#ga1a5c5601699db951d116d0cf7e4c38a1'') NoChildren,
     NavEntry ''exosite_new'' (Some ''group___exosite___a_p_i.html#ga70278e356b752eba1ee606a725aec40b'') NoChildren,
     NavEntry ''exosite_poll'' (Some ''group___exosite___a_p_i.html#ga2681b5ce3d505b037ded36df8bab15ef'') NoChildren,
     NavEntry ''exosite_read'' (Some ''group___exosite___a_p_i.html#ga035e1a5989983f94d04e838684d2e75c'') NoChildren,
     NavEntry ''exosite_sdk_init'' (Some ''group___exosite___a_p_i.html#gaac628db55f159c64251584ef611d6ef1'') NoChildren,
     NavEntry ''exosite_sdk_register_memory_allocators'' (Some ''group___exosite___a_p_i.html#gadc34ec5c4ff81d6e0985218f43209ac0'') NoChildren,
     NavEntry ''exosite_sdk_register_memory_buffer'' (Some ''group___exosite___a_p_i.html#ga9728f396a2c9259a48796d9c65bac121'') NoChildren,
     NavEntry ''exosite_sdk_register_periodic_fn'' (Some ''group___exosite___a_p_i.html#ga6820c6a3a1004c3cf5b94eeeff670dd8'') NoChildren,
     NavEntry ''exosite_subscribe'' (Some ''group___exosite___a_p_i.html#ga245a9bf0809e30f4bf79a259ca8c9778'') NoChildren,
     NavEntry ''exosite_write'' (Some ''group___exosite___a_p_i.html#ga8dea001937a82446e953b63abb7c9e63'') NoChildren]"

definition nav_exosite__api__internal_8h :: "nav_data list" where
  "nav_exosite__api__internal_8h =
    [NavEntry ''exo_request_args'' (Some ''structexo__request__args.html'') (ScriptVar ''structexo__request__args''),
     NavEntry ''on_activate_clb'' (Some ''exosite__api__internal_8h.html#af2e35973ee404379204a182bff1e57a0'') NoChildren,
     NavEntry ''on_read_clb'' (Some ''exosite__api__internal_8h.html#ac0bce01861d24a44b7728f465a17d1e2'') NoChildren,
     NavEntry ''on_subscribe_clb'' (Some ''exosite__api__internal_8h.html#a995df6c4ab768546bd94ed2cc03b8dc3'') NoChildren,
     NavEntry ''on_timestamp_clb'' (Some ''exosite__api__internal_8h.html#a6184b17f453d49dd002c41c55dce80dc'') NoChildren,
     NavEntry ''on_write_clb'' (Some ''exosite__api__internal_8h.html#a76a1af0498a651312d2346f57aff04bd'') NoChildren,
     NavEntry ''exosite_method'' (Some ''exosite__api__internal_8h.html#a1ec075ea005450169975e25e9cfcafcb'') (Entries
      [NavEntry ''EXO_DP_WRITE'' (Some ''exosite__api__internal_8h.html#a1ec075ea005450169975e25e9cfcafcba5c4cb7b3d416073860d26d092605ce1e'') NoChildren,
       NavEntry ''EXO_DP_READ'' (Some ''exosite__api__internal_8h.html#a1ec075ea005450169975e25e9cfcafcba10423e45e8433479bee71b69d4047bc8'') NoChildren,
       NavEntry ''EXO_DP_READ_WRITE'' (Some ''exosite__api__internal_8h.html#a1ec075ea005450169975e25e9cfcafcbacf6fd802a9500a6e072389efbbb324b0'') NoChildren,
       NavEntry ''EXO_DP_SUBSCRIBE'' (Some ''exosite__api__internal_8h.html#a1ec075ea005450169975e25e9cfcafcba9c4360e5d933410c60e9a92855b11b15'') NoChildren,
       NavEntry ''EXO_PP_ACTIVATE'' (Some ''exosite__api__internal_8h.html#a1ec075ea005450169975e25e9cfcafcba5f2b8e4127321d256fd9957c0767e36f'') NoChildren,
       NavEntry ''EXO_PP_LIST_CONTENT'' (Some ''exosite__api__internal_8h.html#a1ec075ea005450169975e25e9cfcafcbacb44101c823a709223b7a5de91c21432'') NoChildren,
       NavEntry ''EXO_PP_DOWNLOAD_CONTENT'' (Some ''exosite__api__internal_8h.html#a1ec075ea005450169975e25e9cfcafcbaa817e0430ad931be29a5fd8b133b9e76'') NoChildren,
       NavEntry ''EXO_UP_TIMESTAMP'' (Some ''exosite__api__internal_8h.html#a1ec075ea005450169975e25e9cfcafcba565874881d768e4e8796e4ecdea839df'') NoChildren,
       NavEntry ''EXO_UP_IP'' (Some ''exosite__api__internal_8h.html#a1ec075ea005450169975e25e9cfcafcba9532e7bfe77959cb91c213bf9451c75c'') NoChildren])]"

definition nav_exosite__http__api_8c :: "nav_data list" where
  "nav_exosite__http__api_8c =
    [NavEntry ''http_context'' (Some ''structhttp__context.html'') (ScriptVar ''structhttp__context''),
     NavEntry ''LENGTH_STRING_MAX_SIZE'' (Some ''exosite__http__api_8c.html#a63773fbd1391d14eb45002876ee0ffa5'') NoChildren,
     NavEntry ''http_type'' (Some ''exosite__http__api_8c.html#adb72f0e9ea0dcb42f51bca3d3251e5ec'') (Entries
      [NavEntry ''REST_POST'' (Some ''http__client_8c.html#adb72f0e9ea0dcb42f51bca3d3251e5eca6c4e86ee86eeeb33c535992d67e2c04e'') NoChildren,
       NavEntry ''REST_GET'' (Some ''http__client_8c.html#adb72f0e9ea0dcb42f51bca3d3251e5eca02ced3c5e0a56e8678da531813ce1c9d'') NoChildren,
       NavEntry ''HTTP_POST'' (Some ''exosite__http__api_8c.html#adb72f0e9ea0dcb42f51bca3d3251e5ecaa763023b51da2b3618f24cbf994b34bf'') NoChildren,
       NavEntry ''HTTP_GET'' (Some ''exosite__http__api_8c.html#adb72f0e9ea0dcb42f51bca3d3251e5eca4ad23c3d2f21f7502ba058ef89518166'') NoChildren]),
     NavEntry ''provisioning_procedure'' (Some ''exosite__http__api_8c.html#a6a88e0579c5a6accca1b65bc299c01bd'') (Entries
      [NavEntry ''PP_ACTIVATE'' (Some ''exosite__http__api_8c.html#a6a88e0579c5a6accca1b65bc299c01bda20dbeb18499bdc5b57fd973960f4cff0'') NoChildren]),
     NavEntry ''append_accept_str'' (Some ''exosite__http__api_8c.html#a35b7da877ba1129a08420f4661a7d899'') NoChildren,
     NavEntry ''append_cik_str'' (Some ''exosite__http__api_8c.html#a13866c4d2045861a54cef96f71028fd6'') NoChildren,
     NavEntry ''append_content_str'' (Some ''exosite__http__api_8c.html#ae0000dbd8c0185f4d03208e1a8b87d67'') NoChildren,
     NavEntry ''append_http_data_proc_header'' (Some ''exosite__http__api_8c.html#a13c5270a774f1b0062104db05871e8ab'') NoChildren,
     NavEntry ''append_http_header_common'' (Some ''exosite__http__api_8c.html#a47979aafc73a40e44719946a8671e2f6'') NoChildren,
     NavEntry ''append_http_provisioning_header'' (Some ''exosite__http__api_8c.html#a0524361ae85610d48f04b8c684874b5c'') NoChildren,
     NavEntry ''append_http_utility_header'' (Some ''exosite__http__api_8c.html#a5a6f06f774f0f2431fd484db64d55959'') NoChildren,
     NavEntry ''exosite_http_api_request_new'' (Some ''group__client__config.html#gacc5775b631ae131c3ff8641bc40ca25e'') NoChildren,
     NavEntry ''http_create_download_content_request'' (Some ''exosite__http__api_8c.html#ad069df8f25c704cdb66fd4c092df5cc9'') NoChildren,
     NavEntry ''http_create_hybrid_wr_request'' (Some ''exosite__http__api_8c.html#a7afd23f1440658d41acc6e73299de7a4'') NoChildren,
     NavEntry ''http_create_ip_request'' (Some ''exosite__http__api_8c.html#aa2843843bb29a9b6332c3611a47c1dd6'') NoChildren,
     NavEntry ''http_create_list_av_content_request'' (Some ''exosite__http__api_8c.html#a388ddf924b81e63b614e4de767dc5628'') NoChildren,
     NavEntry ''http_create_long_polling_request'' (Some ''exosite__http__api_8c.html#aa7f7fcf8755920b0fa7027dd3bb0afa9'') NoChildren,
     NavEntry ''http_create_provisioning_request'' (Some ''exosite__http__api_8c.html#a26dd0f10ea649c0b13c6495376961820'') NoChildren,
     NavEntry ''http_create_read_request'' (Some ''exosite__http__api_8c.html#a084c00682e14af18a1e7d1955d2f1cc5'') NoChildren,
     NavEntry ''http_create_request'' (Some ''exosite__http__api_8c.html#a0b8fb43064ed1e40ec2bee6a17fb13a9'') NoChildren,
     NavEntry ''http_create_timestamp_request'' (Some ''exosite__http__api_8c.html#ad49224254f5fd50853ff66da8efa401b'') NoChildren,
     NavEntry ''http_create_write_request'' (Some ''exosite__http__api_8c.html#a010c836604118ae8edd6970bb1536450'') NoChildren,
     NavEntry ''http_parse_payload'' (Some ''exosite__http__api_8c.html#ab056dbeac16a3dc6da696e0e8d1947f4'') NoChildren,
     NavEntry ''http_request_delete'' (Some ''exosite__http__api_8c.html#afb71b6cbb08030bfac57d6f6577d4b70'') NoChildren,
     NavEntry ''http_request_new'' (Some ''exosite__http__api_8c.html#a8f2bd7ddc64f8cbd1bba11bf6fb6071b'') NoChildren,
     NavEntry ''response_code_to_system_error'' (Some ''exosite__http__api_8c.html#a944bef8ecc53d43b562bf7636065cd86'') NoChildren,
     NavEntry ''activate_procedure_url'' (Some ''exosite__http__api_8c.html#ae183ed7a04cb3b848033c4d117a6778a'') NoChildren,
     NavEntry ''crlf_str'' (Some ''exosite__http__api_8c.html#ae4e9acb58e6fe9b82dc8998aa28216b4'') NoChildren,
     NavEntry ''data_procedures_url'' (Some ''exosite__http__api_8c.html#ad5abc58fc0867d50548af0be237c7914'') NoChildren,
     NavEntry ''server_api'' (Some ''exosite__http__api_8c.html#a5a8e1ea08a0e816c6d71d9c67ecaef5c'') NoChildren]"

definition nav_exosite__libcoap__api_8c :: "nav_data list" where
  "nav_exosite__libcoap__api_8c =
    [NavEntry ''coap_create_request'' (Some ''exosite__libcoap__api_8c.html#a2d5ae1ff3e905e9e2f379179fab3b2c7'') NoChildren,
     NavEntry ''coap_fill_request'' (Some ''exosite__libcoap__api_8c.html#aece1a432dd603e87bb7dbfc76038f694'') NoChildren,
     NavEntry ''coap_parse_payload'' (Some ''exosite__libcoap__api_8c.html#a6be9df1a19ef2810f0980fad6daf81d9'') NoChildren,
     NavEntry ''coap_request_delete'' (Some ''exosite__libcoap__api_8c.html#a560b6ce61cb862b34e545578d4a86c9b'') NoChildren,
     NavEntry ''coap_request_new'' (Some ''exosite__libcoap__api_8c.html#a6806468df9e0dcae164d9bcca072e873'') NoChildren,
     NavEntry ''exosite_coap_new'' (Some ''group__client__config.html#gaf6a9fbe09b9918b8a6bcdb4f91794910'') NoChildren,
     NavEntry ''new_option_node'' (Some ''exosite__libcoap__api_8c.html#ab6510041ef6223e615ef4dbe8530bb0a'') NoChildren,
     NavEntry ''order_opts'' (Some ''exosite__libcoap__api_8c.html#ad773b314b1ac7591f38f7b4b04d9e68d'') NoChildren,
     NavEntry ''response_code_to_system_error'' (Some ''exosite__libcoap__api_8c.html#a944bef8ecc53d43b562bf7636065cd86'') NoChildren,
     NavEntry ''message_id'' (Some ''exosite__libcoap__api_8c.html#af5d7adf42092bc224273910c4098ca36'') NoChildren,
     NavEntry ''server_api'' (Some ''exosite__libcoap__api_8c.html#a5a8e1ea08a0e816c6d71d9c67ecaef5c'') NoChildren]"

definition nav_exosite__picocoap__api_8c :: "nav_data list" where
  "nav_exosite__picocoap__api_8c =
    [NavEntry ''MSG_BUF_LEN'' (Some ''exosite__picocoap__api_8c.html#abd55521187de5f99b96a34c3acc93ac1'') NoChildren,
     NavEntry ''coap_create_request'' (Some ''exosite__picocoap__api_8c.html#a204443e8b93a8883bcdaac26d5c8b9fc'') NoChildren,
     NavEntry ''coap_parse_payload'' (Some ''exosite__picocoap__api_8c.html#a6be9df1a19ef2810f0980fad6daf81d9'') NoChildren,
     NavEntry ''coap_request_delete'' (Some ''exosite__picocoap__api_8c.html#abcc9f02c3a3095633eeac46058a43424'') NoChildren,
     NavEntry ''coap_request_new'' (Some ''exosite__picocoap__api_8c.html#ae708dcde54ede5e302991eae28a5621b'') NoChildren,
     NavEntry ''exosite_coap_new'' (Some ''group__client__config.html#gaf6a9fbe09b9918b8a6bcdb4f91794910'') NoChildren,
     NavEntry ''response_code_to_system_error'' (Some ''exosite__picocoap__api_8c.html#a944bef8ecc53d43b562bf7636065cd86'') NoChildren,
     NavEntry ''message_id'' (Some ''exosite__picocoap__api_8c.html#acae062551517cfd53da2fff02462fc9a'') NoChildren,
     NavEntry ''server_api'' (Some ''exosite__picocoap__api_8c.html#a5a8e1ea08a0e816c6d71d9c67ecaef5c'') NoChildren]"

definition nav_exosite__send__coap_8c :: "nav_data list" where
  "nav_exosite__send__coap_8c =
    [NavEntry ''main'' (Some ''exosite__send__coap_8c.html#a0ddf1224851353fc92bfbff6f499fa97'') NoChildren,
     NavEntry ''on_read'' (Some ''exosite__send__coap_8c.html#adf9e893b8610533b2a615f03375a3408'') NoChildren,
     NavEntry ''on_write'' (Some ''exosite__send__coap_8c.html#a8ffc2c808eb0c212ecac8e088359eac0'') NoChildren,
     NavEntry ''counter'' (Some ''exosite__send__coap_8c.html#a617a47c70795bcff659815ad0efd2266'') NoChildren,
     NavEntry ''counter_str'' (Some ''exosite__send__coap_8c.html#a751d7b3fd21bd292464fc9a3241b962d'') NoChildren]"

definition nav_exosite__send__http_8c :: "nav_data list" where
  "nav_exosite__send__http_8c =
    [NavEntry ''main'' (Some ''exosite__send__http_8c.html#a0ddf1224851353fc92bfbff6f499fa97'') NoChildren,
     NavEntry ''on_read'' (Some ''exosite__send__http_8c.html#adf9e893b8610533b2a615f03375a3408'') NoChildren,
     NavEntry ''on_write'' (Some ''exosite__send__http_8c.html#a8ffc2c808eb0c212ecac8e088359eac0'') NoChildren,
     NavEntry ''counter'' (Some ''exosite__send__http_8c.html#a617a47c70795bcff659815ad0efd2266'') NoChildren,
     NavEntry ''counter_str'' (Some ''exosite__send__http_8c.html#a751d7b3fd21bd292464fc9a3241b962d'') NoChildren]"

definition nav_exosite__subscribe__coap_8c :: "nav_data list" where
  "nav_exosite__subscribe__coap_8c =
    [NavEntry ''main'' (Some ''exosite__subscribe__coap_8c.html#a0ddf1224851353fc92bfbff6f499fa97'') NoChildren,
     NavEntry ''on_change'' (Some ''exosite__subscribe__coap_8c.html#a6b8e22f298c5bf38d1396a2da5c70eac'') NoChildren]"

definition nav_exosite__subscribe__http_8c :: "nav_data list" where
  "nav_exosite__subscribe__http_8c =
    [NavEntry ''main'' (Some ''exosite__subscribe__http_8c.html#a0ddf1224851353fc92bfbff6f499fa97'') NoChildren,
     NavEntry ''on_change'' (Some ''exosite__subscribe__http_8c.html#a6b8e22f298c5bf38d1396a2da5c70eac'') NoChildren]"

definition nav_files :: "nav_data list" where
  "nav_files =
    [NavEntry ''examples'' (Some ''dir_d28a4824dc47e487b107a5db32ef43c4.html'') (ScriptVar ''dir_d28a4824dc47e487b107a5db32ef43c4''),
     NavEntry ''include'' (Some ''dir_d44c64559bbebec7f509842c48db8b23.html'') (ScriptVar ''dir_d44c64559bbebec7f509842c48db8b23''),
     NavEntry ''porting'' (Some ''dir_c84a3667f9d748dc370e18b6bbe94799.html'') (ScriptVar ''dir_c84a3667f9d748dc370e18b6bbe94799''),
     NavEntry ''src'' (Some ''dir_68267d1309a1af8e8297ef4c3efbcdba.html'') (ScriptVar ''dir_68267d1309a1af8e8297ef4c3efbcdba'')]"

definition nav_globals_dup :: "nav_data list" where
  "nav_globals_dup =
    [NavEntry ''a'' (Some ''globals.html'') NoChildren,
     NavEntry ''c'' (Some ''globals_c.html'') NoChildren,
     NavEntry ''d'' (Some ''globals_d.html'') NoChildren,
     NavEntry ''e'' (Some ''globals_e.html'') NoChildren,
     NavEntry ''g'' (Some ''globals_g.html'') NoChildren,
     NavEntry ''h'' (Some ''globals_h.html'') NoChildren,
     NavEntry ''i'' (Some ''globals_i.html'') NoChildren,
     NavEntry ''l'' (Some ''globals_l.html'') NoChildren,
     NavEntry ''m'' (Some ''globals_m.html'') NoChildren,
     NavEntry ''n'' (Some ''globals_n.html'') NoChildren,
     NavEntry ''o'' (Some ''globals_o.html'') NoChildren,
     NavEntry ''p'' (Some ''globals_p.html'') NoChildren,
     NavEntry ''q'' (Some ''globals_q.html'') NoChildren,
     NavEntry ''r'' (Some ''globals_r.html'') NoChildren,
     NavEntry ''s'' (Some ''globals_s.html'') NoChildren,
     NavEntry ''t'' (Some ''globals_t.html'') NoChildren,
     NavEntry ''u'' (Some ''globals_u.html'') NoChildren,
     NavEntry ''w'' (Some ''globals_w.html'') NoChildren]"

definition nav_globals_func :: "nav_data list" where
  "nav_globals_func =
    [NavEntry ''a'' (Some ''globals_func.html'') NoChildren,
     NavEntry ''c'' (Some ''globals_func_c.html'') NoChildren,
     NavEntry ''d'' (Some ''globals_func_d.html'') NoChildren,
     NavEntry ''e'' (Some ''globals_func_e.html'') NoChildren,
     NavEntry ''g'' (Some ''globals_func_g.html'') NoChildren,
     NavEntry ''h'' (Some ''globals_func_h.html'') NoChildren,
     NavEntry ''i'' (Some ''globals_func_i.html'') NoChildren,
     NavEntry ''m'' (Some ''globals_func_m.html'') NoChildren,
     NavEntry ''n'' (Some ''globals_func_n.html'') NoChildren,
     NavEntry ''o'' (Some ''globals_func_o.html'') NoChildren,
     NavEntry ''p'' (Some ''globals_func_p.html'') NoChildren,
     NavEntry ''q'' (Some ''globals_func_q.html'') NoChildren,
     NavEntry ''r'' (Some ''globals_func_r.html'') NoChildren,
     NavEntry ''s'' (Some ''globals_func_s.html'') NoChildren,
     NavEntry ''t'' (Some ''globals_func_t.html'') NoChildren]"

definition nav_group___configurator___a_p_i :: "nav_data list" where
  "nav_group___configurator___a_p_i =
    [NavEntry ''wifi_settings'' (Some ''structwifi__settings.html'') (Entries
      [NavEntry ''OPEN'' (Some ''structwifi__settings.html#afb0f25fe5d5c0a8d6658a59b00cfc1c8a35399e653b4fc82050565587d15af295'') NoChildren,
       NavEntry ''WPA2'' (Some ''structwifi__settings.html#afb0f25fe5d5c0a8d6658a59b00cfc1c8a0c3a65f3cfb6b4972f421b445c7b707a'') NoChildren,
       NavEntry ''passpharase'' (Some ''structwifi__settings.html#a1ecb2b0ba66e404c577856ddb8c984d0'') NoChildren,
       NavEntry ''security'' (Some ''structwifi__settings.html#a6666158891102cd2a40c5515da609bc4'') NoChildren,
       NavEntry ''ssid'' (Some ''structwifi__settings.html#a3a01ea343f60a1a4d9200589fd6babba'') NoChildren]),
     NavEntry ''start_configurator_server'' (Some ''group___configurator___a_p_i.html#gaa08bc3adea39f236fc473a595ae6fb96'') NoChildren,
     NavEntry ''stop_configurator_server'' (Some ''group___configurator___a_p_i.html#ga1736c42332e463fa31e148dd3826c780'') NoChildren]"

definition nav_group___exosite___a_p_i :: "nav_data list" where
  "nav_group___exosite___a_p_i =
    [NavEntry ''debug_callback'' (Some ''group___exosite___a_p_i.html#ga24eb564aea3e0bf7f15b5da5af6bb804'') NoChildren,
     NavEntry ''exosite_malloc_func'' (Some ''group___exosite___a_p_i.html#ga6518b4e7bb4925ee525e4fa43debc85d'') NoChildren,
     NavEntry ''exosite_on_change'' (Some ''group___exosite___a_p_i.html#ga9d01bddd12fb83b8c9cb185a2662e8be'') NoChildren,
     NavEntry ''exosite_on_read'' (Some ''group___exosite___a_p_i.html#ga089a989dc1285a3594501aef49f1dd6a'') NoChildren,
     NavEntry ''exosite_on_write'' (Some ''group___exosite___a_p_i.html#ga84b7eddedcd3e64923683b3f3ce8dbc7'') NoChildren,
     NavEntry ''log_function'' (Some ''group___exosite___a_p_i.html#ga9693b45f5a9d30fdce647d2c3a379f44'') NoChildren,
     NavEntry ''exosite_delay_and_poll'' (Some ''group___exosite___a_p_i.html#gab8edb09e2a237927624249c76dbf99a4'') NoChildren,
     NavEntry ''exosite_get_status'' (Some ''group___exosite___a_p_i.html#ga1a5c5601699db951d116d0cf7e4c38a1'') NoChildren,
     NavEntry ''exosite_new'' (Some ''group___exosite___a_p_i.html#ga70278e356b752eba1ee606a725aec40b'') NoChildren,
     NavEntry ''exosite_poll'' (Some ''group___exosite___a_p_i.html#ga2681b5ce3d505b037ded36df8bab15ef'') NoChildren,
     NavEntry ''exosite_read'' (Some ''group___exosite___a_p_i.html#ga035e1a5989983f94d04e838684d2e75c'') NoChildren,
     NavEntry ''exosite_sdk_init'' (Some ''group___exosite___a_p_i.html#gaac628db55f159c64251584ef611d6ef1'') NoChildren,
     NavEntry ''exosite_sdk_register_memory_allocators'' (Some ''group___exosite___a_p_i.html#gadc34ec5c4ff81d6e0985218f43209ac0'') NoChildren,
     NavEntry ''exosite_sdk_register_memory_buffer'' (Some ''group___exosite___a_p_i.html#ga9728f396a2c9259a48796d9c65bac121'') NoChildren,
     NavEntry ''exosite_sdk_register_periodic_fn'' (Some ''group___exosite___a_p_i.html#ga6820c6a3a1004c3cf5b94eeeff670dd8'') NoChildren,
     NavEntry ''exosite_subscribe'' (Some ''group___exosite___a_p_i.html#ga245a9bf0809e30f4bf79a259ca8c9778'') NoChildren,
     NavEntry ''exosite_write'' (Some ''group___exosite___a_p_i.html#ga8dea001937a82446e953b63abb7c9e63'') NoChildren]"

definition nav_group__client__config :: "nav_data list" where
  "nav_group__client__config =
    [NavEntry ''transmission_config_class'' (Some ''structtransmission__config__class.html'') (Entries
      [NavEntry ''connect_retries'' (Some ''structtransmission__config__class.html#a43911be81d3678ac37486ed5d9b4e9e6'') NoChildren,
       NavEntry ''connect_timeout'' (Some ''structtransmission__config__class.html#a8b5e13338eb27c8e49c828e7115cc3d7'') NoChildren,
       NavEntry ''forced_activation'' (Some ''structtransmission__config__class.html#a2ff28d350c91e09b08be9f0239966b52'') NoChildren,
       NavEntry ''max_request_queue_size'' (Some ''structtransmission__config__class.html#a1064b8324df5a3ed09e97ebbee77db20'') NoChildren,
       NavEntry ''parallel_request_limit'' (Some ''structtransmission__config__class.html#a330f2b50ce5b3c811915fdadba95d37c'') NoChildren,
       NavEntry ''protocol_client_sm_queue_size'' (Some ''structtransmission__config__class.html#a4bb3b61887b537ee850a6f5339169444'') NoChildren,
       NavEntry ''security'' (Some ''structtransmission__config__class.html#af09ab7bf8d3101f310c13c0072b5f02b'') NoChildren,
       NavEntry ''transmission_retries'' (Some ''structtransmission__config__class.html#af4151a8902591e0f5b9f8507b4aaae7a'') NoChildren,
       NavEntry ''transmission_timeout'' (Some ''structtransmission__config__class.html#a0dbb57a5d1895dbe2293f1d24a3f93d4'') NoChildren]),
     NavEntry ''periodic_config_class'' (Some ''structperiodic__config__class.html'') (Entries
      [NavEntry ''rtc_period'' (Some ''structperiodic__config__class.html#ac68231502812b0106d0e03ec2323bb57'') NoChildren,
       NavEntry ''sm_period'' (Some ''structperiodic__config__class.html#a4b07310b4b4491059444259661d8876b'') NoChildren]),
     NavEntry ''server_data_class'' (Some ''structserver__data__class.html'') (Entries
      [NavEntry ''protocol_type'' (Some ''structserver__data__class.html#aed84f15d659cb6af80960fdc8123a44f'') NoChildren,
       NavEntry ''security'' (Some ''structserver__data__class.html#afc70c73843c63c3c6a9195acb5e3342a'') NoChildren,
       NavEntry ''server_name'' (Some ''structserver__data__class.html#aece1f4dd418bd5d83db629a66a2153c3'') NoChildren,
       NavEntry ''server_port'' (Some ''structserver__data__class.html#aea2bd70a53925d45c2d7794c4c3e23c6'') NoChildren]),
     NavEntry ''protocol_client_config_class'' (Some ''structprotocol__client__config__class.html'') (Entries
      [NavEntry ''appproto_type'' (Some ''structprotocol__client__config__class.html#aa08598d5d85304a2194062e3094f3607'') NoChildren,
       NavEntry ''exo_api'' (Some ''structprotocol__client__config__class.html#af1f10a95911f469f1d158319c89e0c71'') NoChildren,
       NavEntry ''name'' (Some ''structprotocol__client__config__class.html#a77de9c5cc28e9161d4f30b88de2acc1b'') NoChildren,
       NavEntry ''new'' (Some ''structprotocol__client__config__class.html#a2d4a27d9a5bbc97e99a554477640902e'') NoChildren,
       NavEntry ''rq_limit'' (Some ''structprotocol__client__config__class.html#acb5fbe20c2e29991014dbffd14d5417c'') NoChildren,
       NavEntry ''stype'' (Some ''structprotocol__client__config__class.html#aa5c8819aa979d74e7d70d0a175eddfcb'') NoChildren,
       NavEntry ''tproto_type'' (Some ''structprotocol__client__config__class.html#a6ee393b341b25e0dafc1304d8c226439'') NoChildren]),
     NavEntry ''server_api_class'' (Some ''structserver__api__class.html'') (Entries
      [NavEntry ''api_ops'' (Some ''structserver__api__class.html#a544784c3730f51016647576b68e6c0e9'') NoChildren,
       NavEntry ''appproto_type'' (Some ''structserver__api__class.html#a61d76beae0e1bf475da1fa6760b48a18'') NoChildren,
       NavEntry ''name'' (Some ''structserver__api__class.html#a4dea164194e86353d9541b4831139857'') NoChildren,
       NavEntry ''new'' (Some ''structserver__api__class.html#a422de71a59ec445d5f6e93f95e3403b9'') NoChildren]),
     NavEntry ''heap_config'' (Some ''structheap__config.html'') (Entries
      [NavEntry ''id'' (Some ''structheap__config.html#ae66f9133ff4354d8adef645d5d2a5036'') NoChildren,
       NavEntry ''name'' (Some ''structheap__config.html#a83b03a9733c1bfad5e8d831e124690a4'') NoChildren,
       NavEntry ''size'' (Some ''structheap__config.html#ab7ba5d5b655e54f9378adfdc35e55935'') NoChildren]),
     NavEntry ''client_config_get_periodic_config'' (Some ''group__client__config.html#ga00dd14915a00326a6e39b8eeee387780'') NoChildren,
     NavEntry ''client_config_get_protocol_client_config'' (Some ''group__client__config.html#ga51c133c21f108820a33c6cbcd97bde45'') NoChildren,
     NavEntry ''client_config_get_server_api'' (Some ''group__client__config.html#ga7ecfc4f687a6d4e03a885968718423cd'') NoChildren,
     NavEntry ''client_config_get_server_data'' (Some ''group__client__config.html#ga0f3c844fa9aae27378590e1840bf9a32'') NoChildren,
     NavEntry ''client_config_get_transmission_config'' (Some ''group__client__config.html#ga1dc406ec756f603c58b9ae6680716d6c'') NoChildren,
     NavEntry ''coap_client_new'' (Some ''group__client__config.html#gafea73188c2073dc2b683fb44bab69349'') NoChildren,
     NavEntry ''exosite_coap_new'' (Some ''group__client__config.html#gaf6a9fbe09b9918b8a6bcdb4f91794910'') NoChildren,
     NavEntry ''exosite_http_api_request_new'' (Some ''group__client__config.html#gacc5775b631ae131c3ff8641bc40ca25e'') NoChildren,
     NavEntry ''http_client_new'' (Some ''group__client__config.html#ga11fa5f73d9270aa199c83279a7bd59a0'') NoChildren]"

definition nav_group__config__port :: "nav_data list" where
  "nav_group__config__port =
    [NavEntry ''ACTIVATION_DELAY'' (Some ''group__config__port.html#ga0ad68b7e15c177f5c5c65858a3002041'') NoChildren,
     NavEntry ''ACTIVATION_RETRY_TYPE'' (Some ''group__config__port.html#ga44947a45f8730ca78692b152f9916be6'') NoChildren,
     NavEntry ''COMPILE_TIME_DEBUG_LEVEL'' (Some ''group__config__port.html#ga5cb94dc8a4a53289ac2c3735863442e6'') NoChildren,
     NavEntry ''CONFIG_FREERTOS_LEGACY'' (Some ''group__config__port.html#ga8e1458050722d11b62f88ffd94fa31fa'') NoChildren,
     NavEntry ''CONFIG_HAS_CONFIGURATOR_SERVER'' (Some ''group__config__port.html#ga7ed5b6c7cde2d0cf187305c882526fba'') NoChildren,
     NavEntry ''CONFIG_HAS_HTTP'' (Some ''group__config__port.html#ga351863517ce2dd6bc71f458cc6a0ca23'') NoChildren,
     NavEntry ''CONFIG_HAS_LIBCOAP'' (Some ''group__config__port.html#ga084b21d60a4579a4c866f2a095bc65c6'') NoChildren,
     NavEntry ''CONFIG_HAS_PICOCOAP'' (Some ''group__config__port.html#ga2fe5244476e17317164dd863ba34a0ea'') NoChildren,
     NavEntry ''CONFIG_HAS_SSL_HEAP'' (Some ''group__config__port.html#gada1a09fe8b112ccfd27ba0f7722f1cc1'') NoChildren,
     NavEntry ''CONFIG_HAS_STRING_HEAP'' (Some ''group__config__port.html#ga099581e53d07aedb98b3bf6b520dd62a'') NoChildren,
     NavEntry ''CONFIG_HAS_TCP'' (Some ''group__config__port.html#ga790c97bbd7d37b1ea2d2edeecff9d480'') NoChildren,
     NavEntry ''CONFIG_HAS_UDP'' (Some ''group__config__port.html#gaf1a8e3b50eb34ebb5dacd9fcb2f0250c'') NoChildren,
     NavEntry ''CONFIG_LIBCOAP_PACKET_SIZE'' (Some ''group__config__port.html#gacd294693d00439623abeeacb8f78b33a'') NoChildren,
     NavEntry ''CONFIG_NETWORK_STACK'' (Some ''group__config__port.html#gad571c2c076a0a2b5b9126e3778a60f86'') NoChildren,
     NavEntry ''CONFIG_NUMBER_OF_STATE_MACHINES'' (Some ''group__config__port.html#gaece77dcdf776ae8a75b2c08dea2cbf15'') NoChildren,
     NavEntry ''CONFIG_OS'' (Some ''group__config__port.html#gaa71f926ee4abe503b5c13ea0d0edc131'') NoChildren,
     NavEntry ''CONFIG_SECURITY'' (Some ''group__config__port.html#gaa6121130d0dd17bf9bb6e3c75871222a'') NoChildren,
     NavEntry ''CONFIG_SSL_HEAP_SIZE'' (Some ''group__config__port.html#ga122d7b3d8e66a5b7f29b626d1e57c0e6'') NoChildren,
     NavEntry ''CONFIG_STRING_HEAP_SIZE'' (Some ''group__config__port.html#gabfdba307670e26e0cd69840fc48d89f2'') NoChildren,
     NavEntry ''CONFIG_VERSION_INFO'' (Some ''group__config__port.html#gaaf5a0973d3b3092f368ba4af59b7c3d0'') NoChildren,
     NavEntry ''CONFIGURATOR_BUFFER_SIZE'' (Some ''group__config__port.html#gae8c5a13f1bb84e12c962f2f83a5c7640'') NoChildren,
     NavEntry ''DEBUG_VERBOSITY'' (Some ''group__config__port.html#ga2756127335810471fc2ea8b84538f693'') NoChildren,
     NavEntry ''HAVE_ASSERT_H'' (Some ''group__config__port.html#gad0eabe2e5407bc73450eb15b657983cd'') NoChildren,
     NavEntry ''HAVE_INTTYPES_H'' (Some ''group__config__port.html#gab90a030ff2790ebdc176660a6dd2a478'') NoChildren,
     NavEntry ''HAVE_LIMITS_H'' (Some ''group__config__port.html#gac70f0930238c8d095d7cc2ee8b522c77'') NoChildren,
     NavEntry ''HAVE_MALLOC'' (Some ''group__config__port.html#ga14503280ca0cb757db915eea09282bfc'') NoChildren,
     NavEntry ''HAVE_MEMORY_H'' (Some ''group__config__port.html#gae93a78f9d076138897af441c9f86f285'') NoChildren,
     NavEntry ''HAVE_MEMSET'' (Some ''group__config__port.html#ga3df52e9809253860c385be6f3a160607'') NoChildren,
     NavEntry ''HAVE_STDINT_H'' (Some ''group__config__port.html#gab6cd6d1c63c1e26ea2d4537b77148354'') NoChildren,
     NavEntry ''HAVE_STDLIB_H'' (Some ''group__config__port.html#ga9e0e434ec1a6ddbd97db12b5a32905e0'') NoChildren,
     NavEntry ''HAVE_STRCASECMP'' (Some ''group__config__port.html#ga1569275063253ce85180e755a82e536d'') NoChildren,
     NavEntry ''HAVE_STRING_H'' (Some ''group__config__port.html#gad4c234dd1625255dc626a15886306e7d'') NoChildren,
     NavEntry ''HAVE_STRINGS_H'' (Some ''group__config__port.html#ga405d10d46190bcb0320524c54eafc850'') NoChildren,
     NavEntry ''HAVE_STRNLEN'' (Some ''group__config__port.html#ga9bee6d8db098b2230690f8e8db9ffb74'') NoChildren,
     NavEntry ''HAVE_STRRCHR'' (Some ''group__config__port.html#gac113b1149ff6806b32454e2897354a40'') NoChildren,
     NavEntry ''MAX_REQUEST_QUEUE_SIZE'' (Some ''group__config__port.html#ga9c2636db474d43e3b4d079b615b92d18'') NoChildren,
     NavEntry ''RESPONSE_TIMEOUT'' (Some ''group__config__port.html#gaee65942ab29aecd1dabbef2bde8532fa'') NoChildren,
     NavEntry ''STDC_HEADERS'' (Some ''group__config__port.html#ga550e5c272cc3cf3814651721167dcd23'') NoChildren,
     NavEntry ''UNLIMITED_STATE_MACHINES'' (Some ''group__config__port.html#gabe44721da938e6d638054219dd72c907'') NoChildren,
     NavEntry ''WIFI_PASSW'' (Some ''group__config__port.html#ga346f861aa5bdea452c2d0edbec3cb852'') NoChildren,
     NavEntry ''WIFI_SSID'' (Some ''group__config__port.html#ga586542b79d00e4db7e1d5a667ae83a2b'') NoChildren]"

definition nav_group__net__port__interface :: "nav_data list" where
  "nav_group__net__port__interface =
    [NavEntry ''mac_addr'' (Some ''structmac__addr.html'') (Entries
      [NavEntry ''addr_bytes'' (Some ''structmac__addr.html#ad3c2609cad6d7e8cce2b8f39c4bbdac1'') NoChildren]),
     NavEntry ''net_dev_operations'' (Some ''structnet__dev__operations.html'') (Entries
      [NavEntry ''accept'' (Some ''structnet__dev__operations.html#aa7117040725691ab877bd629c4f133c1'') NoChildren,
       NavEntry ''close'' (Some ''structnet__dev__operations.html#a9fd6a9817d88fd545642a4c710c96c16'') NoChildren,
       NavEntry ''config'' (Some ''structnet__dev__operations.html#a17c6796bf622cedaeadf189a7b4b2bc8'') NoChildren,
       NavEntry ''connect'' (Some ''structnet__dev__operations.html#a017ea21464813e54d35f40cc2ac398ef'') NoChildren,
       NavEntry ''deinit'' (Some ''structnet__dev__operations.html#a317590ba68fea3e35f7f61c37536e106'') NoChildren,
       NavEntry ''lookup'' (Some ''structnet__dev__operations.html#a5ce9f3830007182982d99c6bd79411d4'') NoChildren,
       NavEntry ''recv'' (Some ''structnet__dev__operations.html#aca9b3c22e5ecdf5e0458a18dd6f07562'') NoChildren,
       NavEntry ''send'' (Some ''structnet__dev__operations.html#ae2a48d1cf3cb1d17097cb6a26de7fe78'') NoChildren,
       NavEntry ''server_socket'' (Some ''structnet__dev__operations.html#a936778ff19ef0234cc8b2b58dbdeb68e'') NoChildren,
       NavEntry ''set_identity'' (Some ''structnet__dev__operations.html#a9b673fe73e9041e3ba033fe9792fd998'') NoChildren,
       NavEntry ''socket'' (Some ''structnet__dev__operations.html#a2f5b1d769acebb45d85d712de02160c3'') NoChildren]),
     NavEntry ''net_socket'' (Some ''structnet__socket.html'') (Entries
      [NavEntry ''addr'' (Some ''structnet__socket.html#a906b0dc6c99704ba90e0f3b1e1aaab39'') NoChildren,
       NavEntry ''already_started'' (Some ''structnet__socket.html#a43d206eab083ac59bffd45c34acb5033'') NoChildren,
       NavEntry ''connected'' (Some ''structnet__socket.html#a51823687b80ced9c16654ab93f561d3b'') NoChildren,
       NavEntry ''dtls'' (Some ''structnet__socket.html#a1f2f5eb54891234342bf3d4ceda7f698'') NoChildren,
       NavEntry ''non_blocking'' (Some ''structnet__socket.html#aceac1b2ee9517c972a9d84c17f4fa0bc'') NoChildren,
       NavEntry ''ops'' (Some ''structnet__socket.html#a36141c060ffc561b2b90377984e4ff54'') NoChildren,
       NavEntry ''port'' (Some ''structnet__socket.html#a8d6d86b48d9216989465d9f9505057b1'') NoChildren,
       NavEntry ''rflags'' (Some ''structnet__socket.html#ab964cba0295ccd244984ddc7605cca57'') NoChildren,
       NavEntry ''sockfd'' (Some ''structnet__socket.html#ac89a11feb66f89678637ad3c729344e2'') NoChildren,
       NavEntry ''wflags'' (Some ''structnet__socket.html#a0e354ca21b2dbee0799d270a94b96eaf'') NoChildren]),
     NavEntry ''transport_protocol_type'' (Some ''group__net__port__interface.html#ga939b5c918f33d00da530eee4a47e142d'') (Entries
      [NavEntry ''TRANSPORT_PROTO_TCP'' (Some ''group__net__port__interface.html#gga939b5c918f33d00da530eee4a47e142dac94dd5f2c451c7dd87ed23e78240a41c'') NoChildren,
       NavEntry ''TRANSPORT_PROTO_UDP'' (Some ''group__net__port__interface.html#gga939b5c918f33d00da530eee4a47e142dae8a6d6a784f1a4dd5a66d93a0dcc73c9'') NoChildren]),
     NavEntry ''net_dev_http_server_new'' (Some ''group__net__port__interface.html#ga6c56f35694918f8250fc2649f3139316'') NoChildren,
     NavEntry ''net_dev_init'' (Some ''group__net__port__interface.html#ga74f8a52f05a711c0aa99104f23808ecb'') NoChildren,
     NavEntry ''net_dev_tcp_new'' (Some ''group__net__port__interface.html#ga54772bbed992f9c80914e0935e80f8f8'') NoChildren,
     NavEntry ''net_dev_udp_new'' (Some ''group__net__port__interface.html#gae91e94bda8afc019c748978a7a22e5cb'') NoChildren]"

definition nav_group__pclb :: "nav_data list" where
  "nav_group__pclb =
    [NavEntry ''pclb_get_clb_num'' (Some ''group__pclb.html#ga1019b64a2ec387817a5685540f0d6486'') NoChildren,
     NavEntry ''pclb_init'' (Some ''group__pclb.html#ga28c23ebda75cc16d211cf170b57e65f6'') NoChildren,
     NavEntry ''pclb_register'' (Some ''group__pclb.html#gabaf3ae1c39154d13f10730be4dc13451'') NoChildren,
     NavEntry ''pclb_task'' (Some ''group__pclb.html#ga2d55dfa4072a1a8426d030c1753824f1'') NoChildren,
     NavEntry ''pclb_unregister'' (Some ''group__pclb.html#gac4f5668e377615f881e10902795718a7'') NoChildren,
     NavEntry ''pcld_has_thread'' (Some ''group__pclb.html#gaecd6386f09d025ffabc5c4cea4829fcf'') NoChildren]"

definition nav_group__protocol__client :: "nav_data list" where
  "nav_group__protocol__client =
    [NavEntry ''protocol_client_class'' (Some ''structprotocol__client__class.html'') (Entries
      [NavEntry ''ctx'' (Some ''structprotocol__client__class.html#ac5c44b3ebb931ee9cdcdb15c5e20f3ab'') NoChildren,
       NavEntry ''net_if'' (Some ''structprotocol__client__class.html#a283f3cb42e52f2a7b0d3a2db84255e0b'') NoChildren,
       NavEntry ''ops'' (Some ''structprotocol__client__class.html#af31fae5c6b03ff0d746d0bc26e0947a2'') NoChildren,
       NavEntry ''socket'' (Some ''structprotocol__client__class.html#aca8a898eaf07a43dee8627d50e1cf1ba'') NoChildren]),
     NavEntry ''protocol_client_ops'' (Some ''structprotocol__client__ops.html'') (Entries
      [NavEntry ''clear_socket'' (Some ''structprotocol__client__ops.html#ad542416a5c24912de4b7e00076cfcb90'') NoChildren,
       NavEntry ''close'' (Some ''structprotocol__client__ops.html#ab797554943fe45937cbfbcecf826081a'') NoChildren,
       NavEntry ''get_response_status'' (Some ''structprotocol__client__ops.html#a5f5e7d71b6f6a3e212a896b32f31c022'') NoChildren,
       NavEntry ''recv_response'' (Some ''structprotocol__client__ops.html#aa6e33523f5190984e6a898eb90730e4e'') NoChildren,
       NavEntry ''send_request'' (Some ''structprotocol__client__ops.html#ac4c931fa75636fc811aecd5ca3139b00'') NoChildren,
       NavEntry ''set_socket'' (Some ''structprotocol__client__ops.html#adf92c0c94fe4567247e1e78936586614'') NoChildren])]"

definition nav_group__protocol__client__sm :: "nav_data list" where
  "nav_group__protocol__client__sm =
    [NavEntry ''protocol_client_response'' (Some ''structprotocol__client__response.html'') (Entries
      [NavEntry ''id'' (Some ''structprotocol__client__response.html#ac3b1c7e0b66499a5ea17db5b575fac7c'') NoChildren,
       NavEntry ''max_payload_size'' (Some ''structprotocol__client__response.html#abba561eeab6bdc6d59e77e1687d3c912'') NoChildren,
       NavEntry ''payload'' (Some ''structprotocol__client__response.html#ae65e59ec2796e797fc8b423abaa6b441'') NoChildren,
       NavEntry ''payload_size'' (Some ''structprotocol__client__response.html#a75f646539bc0a2f249f317013ea43210'') NoChildren,
       NavEntry ''request_type'' (Some ''structprotocol__client__response.html#ad9b91a24b0217ee69bcb92b7e066d019'') NoChildren,
       NavEntry ''response_code'' (Some ''structprotocol__client__response.html#a3f9cc66d63f22740024b7a6945e69fca'') NoChildren,
       NavEntry ''sm'' (Some ''structprotocol__client__response.html#aa311384c3d43d1052514fc2bfe2c0c76'') NoChildren,
       NavEntry ''status'' (Some ''structprotocol__client__response.html#a5e2239fd9d3b8de5b2073e6fdcf1dacb'') NoChildren]),
     NavEntry ''protocol_client_sm_clear'' (Some ''group__protocol__client__sm.html#gad530e5f70715093294451963921d3407'') NoChildren,
     NavEntry ''protocol_client_sm_delete'' (Some ''group__protocol__client__sm.html#ga5d6eb263e6472e3da31268c2d13a0a47'') NoChildren,
     NavEntry ''protocol_client_sm_init'' (Some ''group__protocol__client__sm.html#ga25c31f466eb4402dcfdfe1be49d6cd57'') NoChildren,
     NavEntry ''protocol_client_sm_is_empty'' (Some ''group__protocol__client__sm.html#ga4f3d55469e8c238a454b3a8e670965ea'') NoChildren,
     NavEntry ''protocol_client_sm_is_queue_full'' (Some ''group__protocol__client__sm.html#gaf20f6dea17c9ff09ff4c4c5c005390fc'') NoChildren,
     NavEntry ''protocol_client_sm_new'' (Some ''group__protocol__client__sm.html#ga2eeace0f82cb4db6054278da31fac6df'') NoChildren,
     NavEntry ''protocol_client_sm_set_identity'' (Some ''group__protocol__client__sm.html#gaa4630c533cc1804e2de9d8d26e0d7082'') NoChildren,
     NavEntry ''protocol_client_sm_transmit'' (Some ''group__protocol__client__sm.html#gac4759723fde32a0427cbd7d484cc873b'') NoChildren]"

definition nav_group__system__port__interface :: "nav_data list" where
  "nav_group__system__port__interface =
    [NavEntry ''sdev'' (Some ''structsdev.html'') (Entries
      [NavEntry ''base_address'' (Some ''structsdev.html#a46787df128b58d868311376bcd04d739'') NoChildren,
       NavEntry ''next'' (Some ''structsdev.html#afe3305accaef4765a7c0ad1cadeede34'') NoChildren,
       NavEntry ''read'' (Some ''structsdev.html#a43f8fd29f5d3438cca7244e291461289'') NoChildren,
       NavEntry ''write'' (Some ''structsdev.html#af3db0101f756546c78423d450da90f89'') NoChildren]),
     NavEntry ''system_debug_device_init'' (Some ''group__system__port__interface.html#ga9feeb70b1abd192deab9df0df68aed92'') NoChildren,
     NavEntry ''system_enter_critical_section'' (Some ''group__system__port__interface.html#ga100b86113d1fadedf408aa73f69616d0'') NoChildren,
     NavEntry ''system_get_cik'' (Some ''group__system__port__interface.html#ga694b8756f4eac9935d58923c9652f8e8'') NoChildren,
     NavEntry ''system_get_sn'' (Some ''group__system__port__interface.html#gacd4ffaeda19468b998d390451652133a'') NoChildren,
     NavEntry ''system_get_time'' (Some ''group__system__port__interface.html#ga48c1a60a65fe4aebb0821b338de0c683'') NoChildren,
     NavEntry ''system_init'' (Some ''group__system__port__interface.html#gad4c2a0f4911bc247f3629e4bc30d1ce3'') NoChildren,
     NavEntry ''system_leave_critical_section'' (Some ''group__system__port__interface.html#ga89525ce656ca48f2506477d69c538794'') NoChildren,
     NavEntry ''system_reset'' (Some ''group__system__port__interface.html#gaa6b8b52cd91774ae02c2b293d982a646'') NoChildren,
     NavEntry ''system_set_cik'' (Some ''group__system__port__interface.html#ga7ecf46987ea3260b0e54fb6e5765bc7e'') NoChildren,
     NavEntry ''system_sleep_ms'' (Some ''group__system__port__interface.html#ga06f6bc506ca833208f11fa9bf4c18c3f'') NoChildren]"

definition nav_group__thread__port__interface :: "nav_data list" where
  "nav_group__thread__port__interface =
    [NavEntry ''_system_thread_attr_t'' (Some ''struct__system__thread__attr__t.html'') (Entries
      [NavEntry ''name'' (Some ''struct__system__thread__attr__t.html#a379a3cbfe3eeb32b51bb6bae90edf984'') NoChildren,
       NavEntry ''priority'' (Some ''struct__system__thread__attr__t.html#a4475674eab6377892c6f1b6204d9979d'') NoChildren,
       NavEntry ''stack_loc'' (Some ''struct__system__thread__attr__t.html#a067e5da622dab67495c54084c3a48062'') NoChildren,
       NavEntry ''stack_size'' (Some ''struct__system__thread__attr__t.html#ab130225c1ecefc38938759d140c63cd3'') NoChildren]),
     NavEntry ''system_thread_attr_t'' (Some ''group__thread__port__interface.html#ga5381c059d28416a8dfcc7f2d5fb71e22'') NoChildren,
     NavEntry ''system_thread_priority'' (Some ''group__thread__port__interface.html#gaa8b9fd873cdf3adc814876bb222efffc'') NoChildren,
     NavEntry ''_system_thread_priority'' (Some ''group__thread__port__interface.html#ga1400a0ed4a4c5b30cd6203ad6ffb56b5'') NoChildren,
     NavEntry ''system_get_thread_stack_freesize'' (Some ''group__thread__port__interface.html#ga0ae99c82b2bffa8342d49a3be86fba2c'') NoChildren,
     NavEntry ''system_mutex_create'' (Some ''group__thread__port__interface.html#gab37a0136390eff5aaf2bd8d6650f4532'') NoChildren,
     NavEntry ''system_mutex_destroy'' (Some ''group__thread__port__interface.html#ga5ff76e122b93e2e9aa258f49eff037b4'') NoChildren,
     NavEntry ''system_mutex_lock'' (Some ''group__thread__port__interface.html#ga7f59d2e926f019ad955ccba7d87c3e4f'') NoChildren,
     NavEntry ''system_mutex_trylock'' (Some ''group__thread__port__interface.html#ga53bc3277f7f3474be3e08dd3a12d09a5'') NoChildren,
     NavEntry ''system_mutex_unlock'' (Some ''group__thread__port__interface.html#ga3f1ab376de20ab7bf067703dea235bf5'') NoChildren,
     NavEntry ''system_thread_create'' (Some ''group__thread__port__interface.html#ga46f8aaa2375b466fc565c9459ee43556'') NoChildren]"

definition nav_heap__manager_8c :: "nav_data list" where
  "nav_heap__manager_8c =
    [NavEntry ''ersdk_sbrk'' (Some ''heap__manager_8c.html#ae7d703c2cfa87d66c6f01d4419ab6f1d'') NoChildren,
     NavEntry ''hm_find_heap'' (Some ''heap__manager_8c.html#a9b087321eeff841aaa8a9d0099879d05'') NoChildren,
     NavEntry ''hm_free'' (Some ''heap__manager_8c.html#a4f4870d1334dd6f817c4e703f1b4ce4a'') NoChildren,
     NavEntry ''hm_init'' (Some ''heap__manager_8c.html#abe3ffc4123091cf910712e8bc8b6f5ff'') NoChildren,
     NavEntry ''hm_malloc'' (Some ''heap__manager_8c.html#ad55ffa19b719c69a7ff77491ffde38e5'') NoChildren,
     NavEntry ''hm_mem_alloc'' (Some ''heap__manager_8c.html#a9709a55d2c94b1407332f98fb246524e'') NoChildren,
     NavEntry ''hm_mem_free'' (Some ''heap__manager_8c.html#a11c2163051d5e412ebb1f8dd24b45948'') NoChildren,
     NavEntry ''hm_mem_realloc'' (Some ''heap__manager_8c.html#a0e39537c2e3371742bc2443160d048ef'') NoChildren,
     NavEntry ''hm_memcpy'' (Some ''heap__manager_8c.html#a014cdab9bda09f5eea9fbc6e6f257370'') NoChildren,
     NavEntry ''hm_memfill'' (Some ''heap__manager_8c.html#a59ea9700053f11233202c878907ba7df'') NoChildren,
     NavEntry ''hm_realloc'' (Some ''heap__manager_8c.html#ac73167606b674264e2e798aea50932af'') NoChildren,
     NavEntry ''print_memory_stats'' (Some ''heap__manager_8c.html#ab30d5946e31b7a4e8fafee6e8a68377a'') NoChildren,
     NavEntry ''heap_array'' (Some ''heap__manager_8c.html#abd1ca9b002dcac8b42b772ef33b65cc2'') NoChildren]"

definition nav_heap__manager_8h :: "nav_data list" where
  "nav_heap__manager_8h =
    [NavEntry ''hm_free'' (Some ''heap__manager_8h.html#a4f4870d1334dd6f817c4e703f1b4ce4a'') NoChildren,
     NavEntry ''hm_init'' (Some ''heap__manager_8h.html#abe3ffc4123091cf910712e8bc8b6f5ff'') NoChildren,
     NavEntry ''hm_malloc'' (Some ''heap__manager_8h.html#ad55ffa19b719c69a7ff77491ffde38e5'') NoChildren,
     NavEntry ''hm_mem_alloc'' (Some ''heap__manager_8h.html#a9709a55d2c94b1407332f98fb246524e'') NoChildren,
     NavEntry ''hm_mem_free'' (Some ''heap__manager_8h.html#a8baa85576fa9835e3a1aa6837a62379a'') NoChildren,
     NavEntry ''hm_mem_realloc'' (Some ''heap__manager_8h.html#a0e39537c2e3371742bc2443160d048ef'') NoChildren,
     NavEntry ''hm_memcpy'' (Some ''heap__manager_8h.html#a014cdab9bda09f5eea9fbc6e6f257370'') NoChildren,
     NavEntry ''hm_memfill'' (Some ''heap__manager_8h.html#a59ea9700053f11233202c878907ba7df'') NoChildren,
     NavEntry ''hm_realloc'' (Some ''heap__manager_8h.html#ac73167606b674264e2e798aea50932af'') NoChildren]"

definition nav_heap__space_8c :: "nav_data list" where
  "nav_heap__space_8c =
    [NavEntry ''hs_construct'' (Some ''heap__space_8c.html#a641373dc60dc5a0af56d173ad94f958f'') NoChildren,
     NavEntry ''hs_get_stats'' (Some ''heap__space_8c.html#ad7bfce2880a89919cc97a9ba96c7f021'') NoChildren,
     NavEntry ''hs_mem_alloc'' (Some ''heap__space_8c.html#adea8de4da67a4258573451bb383ddd0e'') NoChildren,
     NavEntry ''hs_mem_free'' (Some ''heap__space_8c.html#aaf666b77acd340df3297a9a6206c9def'') NoChildren,
     NavEntry ''hs_mem_realloc'' (Some ''heap__space_8c.html#a769ece9eee4191be116aecefea892392'') NoChildren,
     NavEntry ''internal_free'' (Some ''heap__space_8c.html#aa4c679cb45aedbde274813901b9e971c'') NoChildren,
     NavEntry ''internal_malloc'' (Some ''heap__space_8c.html#af4fee48a8244986b8fd2e14e17dc1599'') NoChildren,
     NavEntry ''internal_realloc'' (Some ''heap__space_8c.html#a69ae61cbe3fefb6abddd03f6e8f7f0d8'') NoChildren,
     NavEntry ''internal_set_allocators'' (Some ''heap__space_8c.html#a1ac1f2903d3f9e4205e022ba8984687e'') NoChildren,
     NavEntry ''emulate_out_of_memory'' (Some ''heap__space_8c.html#aa88678fc84cbd17b08b588ae18cbac3d'') NoChildren,
     NavEntry ''in_free'' (Some ''heap__space_8c.html#aa5729502103345cfc0eae7f057467eb1'') NoChildren,
     NavEntry ''in_malloc'' (Some ''heap__space_8c.html#a1e8e12ef58fd905bb7105942576052db'') NoChildren,
     NavEntry ''in_realloc'' (Some ''heap__space_8c.html#a7c1e70261e3452e8f72ff53e827a3938'') NoChildren,
     NavEntry ''log_enable'' (Some ''heap__space_8c.html#a47528543f9fdf3d4eda64b9e1fddcb7e'') NoChildren]"

definition nav_heap__space_8h :: "nav_data list" where
  "nav_heap__space_8h =
    [NavEntry ''hs_construct'' (Some ''heap__space_8h.html#a641373dc60dc5a0af56d173ad94f958f'') NoChildren,
     NavEntry ''hs_get_stats'' (Some ''heap__space_8h.html#ad7bfce2880a89919cc97a9ba96c7f021'') NoChildren,
     NavEntry ''hs_mem_alloc'' (Some ''heap__space_8h.html#adea8de4da67a4258573451bb383ddd0e'') NoChildren,
     NavEntry ''hs_mem_free'' (Some ''heap__space_8h.html#aaf666b77acd340df3297a9a6206c9def'') NoChildren,
     NavEntry ''hs_mem_realloc'' (Some ''heap__space_8h.html#a769ece9eee4191be116aecefea892392'') NoChildren]"

definition nav_heap__space__internal_8h :: "nav_data list" where
  "nav_heap__space__internal_8h =
    [NavEntry ''heap_space_class'' (Some ''structheap__space__class.html'') (ScriptVar ''structheap__space__class''),
     NavEntry ''free_call_func'' (Some ''heap__space__internal_8h.html#a52ba851d3b7ea59f4a1e9c603e1274f3'') NoChildren,
     NavEntry ''internal_free_func'' (Some ''heap__space__internal_8h.html#a4f0acc986673de16a419acbd316758c8'') NoChildren,
     NavEntry ''internal_malloc_func'' (Some ''heap__space__internal_8h.html#abb95733e44e9a0314a47aed84b6daff9'') NoChildren,
     NavEntry ''internal_realloc_func'' (Some ''heap__space__internal_8h.html#aa2b613ea7a3b04266caa641aa7e455f4'') NoChildren,
     NavEntry ''malloc_call_func'' (Some ''heap__space__internal_8h.html#a889b8610956439677e9ba5672fc230ed'') NoChildren,
     NavEntry ''realloc_call_func'' (Some ''heap__space__internal_8h.html#a252d9209df207f63174aa9981c5c07a5'') NoChildren,
     NavEntry ''internal_malloc'' (Some ''heap__space__internal_8h.html#af4fee48a8244986b8fd2e14e17dc1599'') NoChildren,
     NavEntry ''internal_set_allocators'' (Some ''heap__space__internal_8h.html#a1ac1f2903d3f9e4205e022ba8984687e'') NoChildren]"

definition nav_heap__space__mem__check_8c :: "nav_data list" where
  "nav_heap__space__mem__check_8c =
    [NavEntry ''hs_check_memory'' (Some ''heap__space__mem__check_8c.html#a779ff7acc066238c7ec4e73a787256e2'') NoChildren,
     NavEntry ''hs_print_allocated_memory'' (Some ''heap__space__mem__check_8c.html#a42a63cf78c1bfe0ec24a928182943173'') NoChildren,
     NavEntry ''hs_print_mem_blocks'' (Some ''heap__space__mem__check_8c.html#a7430b0a8466fdffa5c10a0c168636474'') NoChildren]"

definition nav_heap__space__mem__check_8h :: "nav_data list" where
  "nav_heap__space__mem__check_8h =
    [NavEntry ''heap_space_class'' (Some ''structheap__space__class.html'') (ScriptVar ''structheap__space__class''),
     NavEntry ''HEAP_CANARY'' (Some ''heap__space__mem__check_8h.html#aa94491f754f8b3c1ee2f5bd311999978'') NoChildren,
     NavEntry ''MEMORY_DELETE_PATTERN'' (Some ''heap__space__mem__check_8h.html#a0f824ba1c01d03514b1ab7c820fe508d'') NoChildren,
     NavEntry ''MEMORY_FILL_PATTERN'' (Some ''heap__space__mem__check_8h.html#a5784ed37925765483372f072dd738821'') NoChildren,
     NavEntry ''SIZEOF_CANARY'' (Some ''heap__space__mem__check_8h.html#a83f85af3133103f0226e2b9d72d151d0'') NoChildren,
     NavEntry ''hs_check_memory'' (Some ''heap__space__mem__check_8h.html#a779ff7acc066238c7ec4e73a787256e2'') NoChildren,
     NavEntry ''hs_free_block_info'' (Some ''heap__space__mem__check_8h.html#a14339d9059a06adfe2bbca402d192c06'') NoChildren,
     NavEntry ''hs_init_mem_block_info'' (Some ''heap__space__mem__check_8h.html#a7f4c0c8733a854c66a0f43349ddd8ff9'') NoChildren,
     NavEntry ''hs_new_adv_block_info'' (Some ''heap__space__mem__check_8h.html#add10543b007b9471ff5b83eeae1ee1c9'') NoChildren,
     NavEntry ''hs_new_block_info'' (Some ''heap__space__mem__check_8h.html#a63ead9e804099ce37862c1943c768645'') NoChildren,
     NavEntry ''hs_pointer_is_valid'' (Some ''heap__space__mem__check_8h.html#a7d6786be57cdc4cb7b88e2092c1be735'') NoChildren,
     NavEntry ''hs_print_allocated_memory'' (Some ''heap__space__mem__check_8h.html#a42a63cf78c1bfe0ec24a928182943173'') NoChildren,
     NavEntry ''hs_print_mem_blocks'' (Some ''heap__space__mem__check_8h.html#a7430b0a8466fdffa5c10a0c168636474'') NoChildren,
     NavEntry ''hs_sizeof_block'' (Some ''heap__space__mem__check_8h.html#a615e81c239f827479f1dca77c5b6dfe9'') NoChildren,
     NavEntry ''hs_update_block_info'' (Some ''heap__space__mem__check_8h.html#a691d244562835bbebcccc3f52895b451'') NoChildren]"

definition nav_files1a :: "string \<Rightarrow> nav_data list option" where
  "nav_files1a v =
    (if v = ''error_8h'' then Some nav_error_8h
     else if v = ''examples'' then Some nav_examples
     else if v = ''exosite__api_8c'' then Some nav_exosite__api_8c
     else if v = ''exosite__api_8h'' then Some nav_exosite__api_8h
     else if v = ''exosite__api__internal_8h'' then Some nav_exosite__api__internal_8h
     else if v = ''exosite__http__api_8c'' then Some nav_exosite__http__api_8c
     else if v = ''exosite__libcoap__api_8c'' then Some nav_exosite__libcoap__api_8c
     else if v = ''exosite__picocoap__api_8c'' then Some nav_exosite__picocoap__api_8c
     else if v = ''exosite__send__coap_8c'' then Some nav_exosite__send__coap_8c
     else if v = ''exosite__send__http_8c'' then Some nav_exosite__send__http_8c
     else if v = ''exosite__subscribe__coap_8c'' then Some nav_exosite__subscribe__coap_8c
     else if v = ''exosite__subscribe__http_8c'' then Some nav_exosite__subscribe__http_8c
     else if v = ''files'' then Some nav_files
     else if v = ''globals_dup'' then Some nav_globals_dup
     else if v = ''globals_func'' then Some nav_globals_func
     else if v = ''group___configurator___a_p_i'' then Some nav_group___configurator___a_p_i
     else None)"

definition nav_files1b :: "string \<Rightarrow> nav_data list option" where
  "nav_files1b v =
    (if v = ''group___exosite___a_p_i'' then Some nav_group___exosite___a_p_i
     else if v = ''group__client__config'' then Some nav_group__client__config
     else if v = ''group__config__port'' then Some nav_group__config__port
     else if v = ''group__net__port__interface'' then Some nav_group__net__port__interface
     else if v = ''group__pclb'' then Some nav_group__pclb
     else if v = ''group__protocol__client'' then Some nav_group__protocol__client
     else if v = ''group__protocol__client__sm'' then Some nav_group__protocol__client__sm
     else if v = ''group__system__port__interface'' then Some nav_group__system__port__interface
     else if v = ''group__thread__port__interface'' then Some nav_group__thread__port__interface
     else if v = ''heap__manager_8c'' then Some nav_heap__manager_8c
     else if v = ''heap__manager_8h'' then Some nav_heap__manager_8h
     else if v = ''heap__space_8c'' then Some nav_heap__space_8c
     else if v = ''heap__space_8h'' then Some nav_heap__space_8h
     else if v = ''heap__space__internal_8h'' then Some nav_heap__space__internal_8h
     else if v = ''heap__space__mem__check_8c'' then Some nav_heap__space__mem__check_8c
     else if v = ''heap__space__mem__check_8h'' then Some nav_heap__space__mem__check_8h
     else None)"

end
