(* ===== verification/NavFiles2.thy ===== *)
theory NavFiles2
  imports NavData
begin

text \<open>
  Generated data files of the navigation tree, \<open>heap__tracker_8h.js\<close> to \<open>struct__configurator__server.js\<close>: each
  defines one variable of its own name, the list of the entries below one node. The last two
  definitions map the name of a variable to its list.
\<close>

definition nav_heap__tracker_8h :: "nav_data list" where
  "nav_heap__tracker_8h =
    [NavEntry ''heap_tracker_add_block'' (Some ''heap__tracker_8h.html#a8677fbdd6478373ff798b1b54d575070'') NoChildren,
     NavEntry ''heap_tracker_check_memory'' (Some ''heap__tracker_8h.html#ad8ac258df7b6abec8f073b33c4a04a27'') NoChildren,
     NavEntry ''heap_tracker_get_usage'' (Some ''heap__tracker_8h.html#adb60b33c5836f6fd74023c3875325117'') NoChildren,
     NavEntry ''heap_tracker_init'' (Some ''heap__tracker_8h.html#ad8b83aa14d8f63bb5ae1d7e6a06f1f30'') NoChildren,
     NavEntry ''heap_tracker_is_pointer_valid'' (Some ''heap__tracker_8h.html#a14a226a0932f7f37add9cd192dd61cab'') NoChildren,
     NavEntry ''heap_tracker_is_range_valid'' (Some ''heap__tracker_8h.html#a748cf12dd4dfbaa99424174a72cf6997'') NoChildren,
     NavEntry ''heap_tracker_print_allocated_memory'' (Some ''heap__tracker_8h.html#a7cd975175c109bcfbf58357eebee4fc8'') NoChildren,
     NavEntry ''heap_tracker_print_mem_blocks'' (Some ''heap__tracker_8h.html#addf20b6b016f3973dbed6018193ef9f9'') NoChildren,
     NavEntry ''heap_tracker_remove_block'' (Some ''heap__tracker_8h.html#aff64ae8138815cd0220055a569a48423'') NoChildren,
     NavEntry ''heap_tracker_update_block'' (Some ''heap__tracker_8h.html#a441643e406222575ce010889af191358'') NoChildren]"

definition nav_heap__types_8h :: "nav_data list" where
  "nav_heap__types_8h =
    [NavEntry ''MAIN_HEAP'' (Some ''heap__types_8h.html#a5366ca355250281cafbf8d52e5f1c132'') NoChildren,
     NavEntry ''MAX_NUMBER_OF_HEAPS'' (Some ''heap__types_8h.html#a2189f918f5fd458c5246f6535b6c6f16'') NoChildren,
     NavEntry ''SSL_HEAP'' (Some ''heap__types_8h.html#a131513ede31377e2bc97895d93554efb'') NoChildren,
     NavEntry ''STRING_HEAP'' (Some ''heap__types_8h.html#a1f27fad81dc4701347d633d2669eb23f'') NoChildren]"

definition nav_hs__mem_8c :: "nav_data list" where
  "nav_hs__mem_8c =
    [NavEntry ''hs_mem_log'' (Some ''hs__mem_8c.html#accf4a69ee5c00d1aca4ed7688b289194'') NoChildren,
     NavEntry ''hs_construct'' (Some ''hs__mem_8c.html#a8fe712d2e28a77ac0f96aa5766a3a9e6'') NoChildren,
     NavEntry ''hs_get_stats'' (Some ''hs__mem_8c.html#ad7bfce2880a89919cc97a9ba96c7f021'') NoChildren,
     NavEntry ''hs_mem_alloc'' (Some ''hs__mem_8c.html#a589e439beaf940d2b97c8431048adfb2'') NoChildren,
     NavEntry ''hs_mem_free'' (Some ''hs__mem_8c.html#a80522cfaced663b94354eef91be36d18'') NoChildren,
     NavEntry ''hs_mem_realloc'' (Some ''hs__mem_8c.html#a03c3aea29e2ca1d8739d9d2300fa33c3'') NoChildren,
     NavEntry ''internal_free'' (Some ''hs__mem_8c.html#af35ccedd1e68d8ab7e523022b2312b30'') NoChildren,
     NavEntry ''internal_malloc'' (Some ''hs__mem_8c.html#af4fee48a8244986b8fd2e14e17dc1599'') NoChildren,
     NavEntry ''internal_realloc'' (Some ''hs__mem_8c.html#a725283494be0db3da21055876e952065'') NoChildren,
     NavEntry ''internal_set_allocators'' (Some ''hs__mem_8c.html#a1ac1f2903d3f9e4205e022ba8984687e'') NoChildren,
     NavEntry ''emulate_out_of_memory'' (Some ''hs__mem_8c.html#a81a3ed5acc0322b55531cda770fa6b7d'') NoChildren,
     NavEntry ''free_call'' (Some ''hs__mem_8c.html#aae34cdbf1ab14641f3e8faca94b65400'') NoChildren,
     NavEntry ''in_free'' (Some ''hs__mem_8c.html#aa5729502103345cfc0eae7f057467eb1'') NoChildren,
     NavEntry ''in_malloc'' (Some ''hs__mem_8c.html#a1e8e12ef58fd905bb7105942576052db'') NoChildren,
     NavEntry ''in_realloc'' (Some ''hs__mem_8c.html#a7c1e70261e3452e8f72ff53e827a3938'') NoChildren,
     NavEntry ''malloc_call'' (Some ''hs__mem_8c.html#a9ddd2215bcc5df514b05fe6bfd91eda7'') NoChildren,
     NavEntry ''realloc_call'' (Some ''hs__mem_8c.html#a47bc255bc7f708ea1cbb3f2718364dbd'') NoChildren]"

definition nav_hs__mem_8h :: "nav_data list" where
  "nav_hs__mem_8h =
    [NavEntry ''hs_construct'' (Some ''hs__mem_8h.html#a8fe712d2e28a77ac0f96aa5766a3a9e6'') NoChildren,
     NavEntry ''hs_get_stats'' (Some ''hs__mem_8h.html#ad7bfce2880a89919cc97a9ba96c7f021'') NoChildren,
     NavEntry ''hs_mem_alloc'' (Some ''hs__mem_8h.html#abe60e3b524cb1e625d2536ff7a648b28'') NoChildren,
     NavEntry ''hs_mem_free'' (Some ''hs__mem_8h.html#a80522cfaced663b94354eef91be36d18'') NoChildren,
     NavEntry ''hs_mem_realloc'' (Some ''hs__mem_8h.html#a03c3aea29e2ca1d8739d9d2300fa33c3'') NoChildren]"

definition nav_http__client_8c :: "nav_data list" where
  "nav_http__client_8c =
    [NavEntry ''http_context'' (Some ''structhttp__context.html'') (ScriptVar ''structhttp__context''),
     NavEntry ''RECV_BUFFER_SIZE'' (Some ''http__client_8c.html#a2024c7586f13b16cee236910e4ced78f'') NoChildren,
     NavEntry ''http_type'' (Some ''http__client_8c.html#adb72f0e9ea0dcb42f51bca3d3251e5ec'') (Entries
      [NavEntry ''REST_POST'' (Some ''http__client_8c.html#adb72f0e9ea0dcb42f51bca3d3251e5eca6c4e86ee86eeeb33c535992d67e2c04e'') NoChildren,
       NavEntry ''REST_GET'' (Some ''http__client_8c.html#adb72f0e9ea0dcb42f51bca3d3251e5eca02ced3c5e0a56e8678da531813ce1c9d'') NoChildren,
       NavEntry ''HTTP_POST'' (Some ''exosite__http__api_8c.html#adb72f0e9ea0dcb42f51bca3d3251e5ecaa763023b51da2b3618f24cbf994b34bf'') NoChildren,
       NavEntry ''HTTP_GET'' (Some ''exosite__http__api_8c.html#adb72f0e9ea0dcb42f51bca3d3251e5eca4ad23c3d2f21f7502ba058ef89518166'') NoChildren]),
     NavEntry ''http_clear_socket'' (Some ''http__client_8c.html#ac5d5b8c741ba234b056159f8f676d8b1'') NoChildren,
     NavEntry ''http_client_new'' (Some ''group__client__config.html#ga11fa5f73d9270aa199c83279a7bd59a0'') NoChildren,
     NavEntry ''http_close'' (Some ''http__client_8c.html#a68db36952738158b292291ed4d5e8ae9'') NoChildren,
     NavEntry ''http_get_response_status'' (Some ''http__client_8c.html#ab549ad2be6a298e4f6523350fa3e817e'') NoChildren,
     NavEntry ''http_recv'' (Some ''http__client_8c.html#aa8b0ac6215e7a232d88b1f67ef1a40fb'') NoChildren,
     NavEntry ''http_send'' (Some ''http__client_8c.html#ae4ea76f9a40ffec36623d28424cbc475'') NoChildren,
     NavEntry ''http_set_socket'' (Some ''http__client_8c.html#a47526076b45c28eff60b5f8bcd96e759'') NoChildren,
     NavEntry ''http_client_operations'' (Some ''http__client_8c.html#ad60c3ee8e60735a48140b6eb6b2be82c'') NoChildren]"

definition nav_http__parser_8c :: "nav_data list" where
  "nav_http__parser_8c =
    [NavEntry ''http_parse_header'' (Some ''http__parser_8c.html#aaa235d5971e8ad6e1caed8f71d2a4022'') NoChildren]"

definition nav_http__parser_8h :: "nav_data list" where
  "nav_http__parser_8h =
    [NavEntry ''http_parse_header'' (Some ''http__parser_8h.html#a080e90459a19bbd0acf7e3d8a332e581'') NoChildren]"

definition nav_libcoap__client_8c :: "nav_data list" where
  "nav_libcoap__client_8c =
    [NavEntry ''MIN'' (Some ''libcoap__client_8c.html#ad2f3678bf5eae3684fc497130b946eae'') NoChildren,
     NavEntry ''WITHOUT_BLOCK'' (Some ''libcoap__client_8c.html#aabc497173a09768daedbe2b1dd4eea2f'') NoChildren,
     NavEntry ''append_to_output'' (Some ''libcoap__client_8c.html#abc446dce76352a9d523347019508de46'') NoChildren,
     NavEntry ''check_token'' (Some ''libcoap__client_8c.html#ad2a730d35eec70bc8d141d5d934d069f'') NoChildren,
     NavEntry ''coap_clear_socket'' (Some ''libcoap__client_8c.html#a9b537b4b0fcecf9ee6165f27dd947e48'') NoChildren,
     NavEntry ''coap_client_new'' (Some ''group__client__config.html#gafea73188c2073dc2b683fb44bab69349'') NoChildren,
     NavEntry ''coap_get_response_status'' (Some ''libcoap__client_8c.html#a46c3d6acda82830fcc0eebcc7ccd4dd3'') NoChildren,
     NavEntry ''coap_pdu_copy'' (Some ''libcoap__client_8c.html#aab0c5cc5db68a422004add5ff99e7f91'') NoChildren,
     NavEntry ''coap_recv_response'' (Some ''libcoap__client_8c.html#a8302c46748200737c319a44a20c1f7b8'') NoChildren,
     NavEntry ''coap_request_delete_all'' (Some ''libcoap__client_8c.html#a699d266b20540b000d6ac20cbba15f88'') NoChildren,
     NavEntry ''coap_send_request'' (Some ''libcoap__client_8c.html#a9c3b3b68af7cec983147ae5b96fee3c9'') NoChildren,
     NavEntry ''coap_set_socket'' (Some ''libcoap__client_8c.html#ad9ca4a191feaf20d711f13566ab8b9ce'') NoChildren,
     NavEntry ''get_block'' (Some ''libcoap__client_8c.html#aedfe6aa9526d8a12974e6413b5ae9291'') NoChildren,
     NavEntry ''message_handler'' (Some ''libcoap__client_8c.html#a84c73675e0711227fec0231ac44e3441'') NoChildren,
     NavEntry ''set_timeout'' (Some ''libcoap__client_8c.html#a207cae0e752016f3bd8e8f6cab4283fd'') NoChildren,
     NavEntry ''coap_client_operations'' (Some ''libcoap__client_8c.html#a11b93a7e19b9152269789f137e606878'') NoChildren,
     NavEntry ''max_wait'' (Some ''libcoap__client_8c.html#ac467e9dbbd3caafa4e31321bbe24694d'') NoChildren,
     NavEntry ''obs_seconds'' (Some ''libcoap__client_8c.html#afbd843f4997908fdeae2a22bd6ff3878'') NoChildren,
     NavEntry ''obs_wait'' (Some ''libcoap__client_8c.html#afbd853b38b9ef381b3715c4c7525ce4b'') NoChildren,
     NavEntry ''wait_seconds'' (Some ''libcoap__client_8c.html#a32ef43b419c476c8473b7000688740ae'') NoChildren]"

definition nav_lwip__port_8c :: "nav_data list" where
  "nav_lwip__port_8c =
    [NavEntry ''net_dev_init'' (Some ''group__net__port__interface.html#ga74f8a52f05a711c0aa99104f23808ecb'') NoChildren]"

definition nav_mbedtls__client_8c :: "nav_data list" where
  "nav_mbedtls__client_8c =
    [NavEntry ''mbedtls_client_dev'' (Some ''structmbedtls__client__dev.html'') (ScriptVar ''structmbedtls__client__dev''),
     NavEntry ''IDENTITY_MAX_SIZE'' (Some ''mbedtls__client_8c.html#a72485f691c477cca885a6089365b6b24'') NoChildren,
     NavEntry ''mbedtls_printf'' (Some ''mbedtls__client_8c.html#af846397815d6b78aadc6ce9bb6bc9238'') NoChildren,
     NavEntry ''PASSPHRASE_MAX_SIZE'' (Some ''mbedtls__client_8c.html#a736c30ff881d73d7c115dfb2f1d19a62'') NoChildren,
     NavEntry ''mbedtls_client_calloc'' (Some ''mbedtls__client_8c.html#a4aa2463995c8fecfebcb42473971d8e7'') NoChildren,
     NavEntry ''mbedtls_client_close'' (Some ''mbedtls__client_8c.html#a5335f3d92fcc5a0251343ff2a488903d'') NoChildren,
     NavEntry ''mbedtls_client_config'' (Some ''mbedtls__client_8c.html#a17184d9964af1b4a098dc06ede81c079'') NoChildren,
     NavEntry ''mbedtls_client_connect'' (Some ''mbedtls__client_8c.html#a29f484533bf20c3fdc279c375327049c'') NoChildren,
     NavEntry ''mbedtls_client_deinit'' (Some ''mbedtls__client_8c.html#ad7c91d0ff5c8e6ff5b44b1c8cb04b934'') NoChildren,
     NavEntry ''mbedtls_client_entropy_poll'' (Some ''mbedtls__client_8c.html#ac91ef0c52b25b75bd5b1e0a276290b53'') NoChildren,
     NavEntry ''mbedtls_client_free'' (Some ''mbedtls__client_8c.html#a6725e00970694716c672b03087235ada'') NoChildren,
     NavEntry ''mbedtls_client_init_context'' (Some ''mbedtls__client_8c.html#a2c09b9548f4ce6cb1436d2e41a16b917'') NoChildren,
     NavEntry ''mbedtls_client_lookup'' (Some ''mbedtls__client_8c.html#abad195c7c7553b7001f043c0bfdb8717'') NoChildren,
     NavEntry ''mbedtls_client_recv'' (Some ''mbedtls__client_8c.html#a64549d8bf4d5656bc5d9d29ff81af1a3'') NoChildren,
     NavEntry ''mbedtls_client_send'' (Some ''mbedtls__client_8c.html#a1fca418b50b62b9acea0e70a54bffff3'') NoChildren,
     NavEntry ''mbedtls_client_set_identity'' (Some ''mbedtls__client_8c.html#ad01edb6916ad07a9a73f6f4c100d10fb'') NoChildren,
     NavEntry ''mbedtls_client_socket'' (Some ''mbedtls__client_8c.html#a509ad28979c6a0585077adb777743983'') NoChildren,
     NavEntry ''mbedtls_recv'' (Some ''mbedtls__client_8c.html#a7ac4e128a127e5332f4fc97b39b3b16e'') NoChildren,
     NavEntry ''mbedtls_send'' (Some ''mbedtls__client_8c.html#a687df3fc00aac32c7bafc388265d8ac2'') NoChildren,
     NavEntry ''mbedtls_timing_hardclock'' (Some ''mbedtls__client_8c.html#aeec9ae2577ce34ab01f2d213b99d07e1'') NoChildren,
     NavEntry ''my_debug'' (Some ''mbedtls__client_8c.html#aac77d0d0cab161bbd0d78ca85c12438c'') NoChildren,
     NavEntry ''ssl_client_init'' (Some ''mbedtls__client_8c.html#a5bd9a41c7b8c230735c46624fc13bb1a'') NoChildren,
     NavEntry ''ssl_client_new'' (Some ''mbedtls__client_8c.html#a02c20a3169dfdc6418ed518675ab1736'') NoChildren,
     NavEntry ''net_if_identity'' (Some ''mbedtls__client_8c.html#a7f6d1291ebc8fa56f72cb4752f908e43'') NoChildren,
     NavEntry ''net_if_ops'' (Some ''mbedtls__client_8c.html#a4b002f35a665663bfab60eb577537f4f'') NoChildren,
     NavEntry ''net_if_passphrase'' (Some ''mbedtls__client_8c.html#a1b3c92e068e27568f92f8240a48df984'') NoChildren,
     NavEntry ''net_if_type'' (Some ''mbedtls__client_8c.html#a78212fc67ef153e2df0f4fe3a22cdeca'') NoChildren,
     NavEntry ''ssl_client_ops'' (Some ''mbedtls__client_8c.html#af44aa7f44da6c96d5c4e1a8fdba09627'') NoChildren]"

definition nav_mem__check_8c :: "nav_data list" where
  "nav_mem__check_8c =
    [NavEntry ''check_memory'' (Some ''mem__check_8c.html#a3c74ce74ba1115f588f162521a543180'') NoChildren,
     NavEntry ''print_allocated_memory'' (Some ''mem__check_8c.html#a37af92b37143e17b2c7c48fb28d086d9'') NoChildren,
     NavEntry ''print_mem_blocks'' (Some ''mem__check_8c.html#a754729bbe51c1d7fba99f5c28f04a10d'') NoChildren,
     NavEntry ''register_stack_checker'' (Some ''mem__check_8c.html#a4ab2b537ab6eac4c5755285ee4440e8f'') NoChildren,
     NavEntry ''is_st_limit_exceeded'' (Some ''mem__check_8c.html#ac244c5a2f942e05ed76faca1ce0edc37'') NoChildren]"

definition nav_mem__check_8h :: "nav_data list" where
  "nav_mem__check_8h =
    [NavEntry ''stack_checker'' (Some ''mem__check_8h.html#ae2483e2b904e2c143797446aa2d1d492'') NoChildren,
     NavEntry ''check_memory'' (Some ''mem__check_8h.html#a3c74ce74ba1115f588f162521a543180'') NoChildren,
     NavEntry ''mem_check_register_heap'' (Some ''mem__check_8h.html#ac3c99c845ef22f3116a10ae5dfb93f29'') NoChildren,
     NavEntry ''register_stack_checker'' (Some ''mem__check_8h.html#a4ab2b537ab6eac4c5755285ee4440e8f'') NoChildren]"

definition nav_modules :: "nav_data list" where
  "nav_modules =
    [NavEntry ''Configurator API'' (Some ''group___configurator___a_p_i.html'') (ScriptVar ''group___configurator___a_p_i''),
     NavEntry ''Exosite API'' (Some ''group___exosite___a_p_i.html'') (ScriptVar ''group___exosite___a_p_i''),
     NavEntry ''Configuration'' (Some ''group__config__port.html'') (ScriptVar ''group__config__port''),
     NavEntry ''Network Port Interface'' (Some ''group__net__port__interface.html'') (ScriptVar ''group__net__port__interface''),
     NavEntry ''System Port Interface'' (Some ''group__system__port__interface.html'') (ScriptVar ''group__system__port__interface''),
     NavEntry ''Thread Port Interface'' (Some ''group__thread__port__interface.html'') (ScriptVar ''group__thread__port__interface''),
     NavEntry ''Client Configuration'' (Some ''group__client__config.html'') (ScriptVar ''group__client__config''),
     NavEntry ''Periodic Callback interface'' (Some ''group__pclb.html'') (ScriptVar ''group__pclb''),
     NavEntry ''Protocol Client interface'' (Some ''group__protocol__client.html'') (ScriptVar ''group__protocol__client''),
     NavEntry ''Protocol Client State-Machine interface'' (Some ''group__protocol__client__sm.html'') (ScriptVar ''group__protocol__client__sm'')]"

definition nav_net__dev__factory_8c :: "nav_data list" where
  "nav_net__dev__factory_8c =
    [NavEntry ''net_dev_factory_init'' (Some ''net__dev__factory_8c.html#acb280287adf782228bd50c1f755edb20'') NoChildren,
     NavEntry ''net_dev_get'' (Some ''net__dev__factory_8c.html#a385dfe3d6b0a8e3eccb44ae7ee73eb42'') NoChildren,
     NavEntry ''tcp_client'' (Some ''net__dev__factory_8c.html#a6cc9b6074d754acdee35352a933483dd'') NoChildren,
     NavEntry ''udp_client'' (Some ''net__dev__factory_8c.html#a7c9ed237149426df1b08059f798a08cd'') NoChildren]"

definition nav_net__dev__test_8c :: "nav_data list" where
  "nav_net__dev__test_8c =
    [NavEntry ''empty'' (Some ''net__dev__test_8c.html#a7d076984670ab0600048b27ffb9ccdc3'') NoChildren]"

definition nav_net__dev__test_8h :: "nav_data list" where
  "nav_net__dev__test_8h =
    [NavEntry ''net_dev_test_new'' (Some ''net__dev__test_8h.html#aed606f2f8c8c5587459b3ea4892dc0ec'') NoChildren]"

definition nav_net__if__atheros__tcp_8c :: "nav_data list" where
  "nav_net__if__atheros__tcp_8c =
    [NavEntry ''ath_inet_aton'' (Some ''net__if__atheros__tcp_8c.html#ad93cd56ce186111f0a9ed114cb6174a6'') NoChildren,
     NavEntry ''net_dev_tcp_new'' (Some ''group__net__port__interface.html#ga54772bbed992f9c80914e0935e80f8f8'') NoChildren,
     NavEntry ''net_if_close'' (Some ''net__if__atheros__tcp_8c.html#abbf4a205b0586355b3821e58a867d8f1'') NoChildren,
     NavEntry ''net_if_config'' (Some ''net__if__atheros__tcp_8c.html#ad57393a3568c12c015389586f3b5f4d6'') NoChildren,
     NavEntry ''net_if_connect'' (Some ''net__if__atheros__tcp_8c.html#aed906ab76989bf15fe868e971141dd42'') NoChildren,
     NavEntry ''net_if_lookup'' (Some ''net__if__atheros__tcp_8c.html#a28569a3b4677fab35aeb9db0e7f78c85'') NoChildren,
     NavEntry ''net_if_receive'' (Some ''net__if__atheros__tcp_8c.html#a5abe032e1714d3e016e9f2109d9896bb'') NoChildren,
     NavEntry ''net_if_send'' (Some ''net__if__atheros__tcp_8c.html#a7cf2278d82d4800291f01d7c5c3ffbd7'') NoChildren,
     NavEntry ''net_if_socket'' (Some ''net__if__atheros__tcp_8c.html#ab9489e4b567199e6192ba4da278137db'') NoChildren,
     NavEntry ''packip'' (Some ''net__if__atheros__tcp_8c.html#a4aed22ddfd8b800859f2172b1bb4e750'') NoChildren,
     NavEntry ''unpackip'' (Some ''net__if__atheros__tcp_8c.html#ac037d39d323763020a5d3b929f6f4df5'') NoChildren,
     NavEntry ''eth_ops'' (Some ''net__if__atheros__tcp_8c.html#ad933675ffcc4449069e5a82d1c60e2e1'') NoChildren,
     NavEntry ''gehandle'' (Some ''net__if__atheros__tcp_8c.html#a2fa84e25c39aae66ed73e4bf0fd2a65f'') NoChildren]"

definition nav_net__if__atheros__udp_8c :: "nav_data list" where
  "nav_net__if__atheros__udp_8c =
    [NavEntry ''ath_inet_aton'' (Some ''net__if__atheros__udp_8c.html#ad93cd56ce186111f0a9ed114cb6174a6'') NoChildren,
     NavEntry ''net_dev_udp_new'' (Some ''group__net__port__interface.html#gae91e94bda8afc019c748978a7a22e5cb'') NoChildren,
     NavEntry ''net_if_close'' (Some ''net__if__atheros__udp_8c.html#abbf4a205b0586355b3821e58a867d8f1'') NoChildren,
     NavEntry ''net_if_config'' (Some ''net__if__atheros__udp_8c.html#ad57393a3568c12c015389586f3b5f4d6'') NoChildren,
     NavEntry ''net_if_connect'' (Some ''net__if__atheros__udp_8c.html#aed906ab76989bf15fe868e971141dd42'') NoChildren,
     NavEntry ''net_if_lookup'' (Some ''net__if__atheros__udp_8c.html#a28569a3b4677fab35aeb9db0e7f78c85'') NoChildren,
     NavEntry ''net_if_receive'' (Some ''net__if__atheros__udp_8c.html#a5abe032e1714d3e016e9f2109d9896bb'') NoChildren,
     NavEntry ''net_if_send'' (Some ''net__if__atheros__udp_8c.html#a7cf2278d82d4800291f01d7c5c3ffbd7'') NoChildren,
     NavEntry ''net_if_socket'' (Some ''net__if__atheros__udp_8c.html#ab9489e4b567199e6192ba4da278137db'') NoChildren,
     NavEntry ''packip'' (Some ''net__if__atheros__udp_8c.html#a4aed22ddfd8b800859f2172b1bb4e750'') NoChildren,
     NavEntry ''unpackip'' (Some ''net__if__atheros__udp_8c.html#ac037d39d323763020a5d3b929f6f4df5'') NoChildren,
     NavEntry ''eth_ops'' (Some ''net__if__atheros__udp_8c.html#ad933675ffcc4449069e5a82d1c60e2e1'') NoChildren,
     NavEntry ''gehandle'' (Some ''net__if__atheros__udp_8c.html#a2fa84e25c39aae66ed73e4bf0fd2a65f'') NoChildren]"

definition nav_net__if__lwip__tcp_8c :: "nav_data list" where
  "nav_net__if__lwip__tcp_8c =
    [NavEntry ''net_dev_tcp_new'' (Some ''group__net__port__interface.html#ga54772bbed992f9c80914e0935e80f8f8'') NoChildren,
     NavEntry ''net_if_close'' (Some ''net__if__lwip__tcp_8c.html#a145f03c9c3c49a73560974a38367ad9c'') NoChildren,
     NavEntry ''net_if_config'' (Some ''net__if__lwip__tcp_8c.html#aa015db3a9eff4068b6ec383e43bcbfdd'') NoChildren,
     NavEntry ''net_if_connect'' (Some ''net__if__lwip__tcp_8c.html#a4068a9af469c66f436dc75a3ecf8acae'') NoChildren,
     NavEntry ''net_if_lookup'' (Some ''net__if__lwip__tcp_8c.html#a9db729fe448cab37484bd40d1afe0010'') NoChildren,
     NavEntry ''net_if_receive'' (Some ''net__if__lwip__tcp_8c.html#a8f4b7c0a1f3f37df9588ad678caf9ecc'') NoChildren,
     NavEntry ''net_if_send'' (Some ''net__if__lwip__tcp_8c.html#a9bbaaaedf4c73576c3ec21835aee3037'') NoChildren,
     NavEntry ''net_if_socket_internal'' (Some ''net__if__lwip__tcp_8c.html#a12f12a602172da48c5ddd9abc2258bf3'') NoChildren,
     NavEntry ''net_if_socket_tcp'' (Some ''net__if__lwip__tcp_8c.html#a96d40c2912084babf6fa5ab483d732a3'') NoChildren,
     NavEntry ''net_if_socket_udp'' (Some ''net__if__lwip__tcp_8c.html#a6f78e482e0102e9fe13b84bc89b75a42'') NoChildren,
     NavEntry ''unpackip'' (Some ''net__if__lwip__tcp_8c.html#a82390a3ff9b54bb33b41cd5a8f1431f4'') NoChildren,
     NavEntry ''eth_ops'' (Some ''net__if__lwip__tcp_8c.html#a2761b0219f6d1ee5217b476c87b0d910'') NoChildren,
     NavEntry ''tcp_ops'' (Some ''net__if__lwip__tcp_8c.html#a2db4b36d6794dfb971911527b3b79e62'') NoChildren,
     NavEntry ''udp_ops'' (Some ''net__if__lwip__tcp_8c.html#a198ecd1a1a214c7692ee80d092d881bf'') NoChildren]"

definition nav_net__if__lwip__udp_8c :: "nav_data list" where
  "nav_net__if__lwip__udp_8c =
    [NavEntry ''net_dev_udp_new'' (Some ''group__net__port__interface.html#gae91e94bda8afc019c748978a7a22e5cb'') NoChildren,
     NavEntry ''udp_ops'' (Some ''net__if__lwip__udp_8c.html#ac5f8f995469df1302cb3f10c6203202f'') NoChildren]"

definition nav_net__if__posix__tcp_8c :: "nav_data list" where
  "nav_net__if__posix__tcp_8c =
    [NavEntry ''getipa'' (Some ''net__if__posix__tcp_8c.html#a433a0c9147da8943e2198089ed5be167'') NoChildren,
     NavEntry ''net_dev_tcp_new'' (Some ''group__net__port__interface.html#ga54772bbed992f9c80914e0935e80f8f8'') NoChildren,
     NavEntry ''net_if_accept'' (Some ''net__if__posix__tcp_8c.html#ae475f293486cafb10aa422872ae2e40e'') NoChildren,
     NavEntry ''net_if_close'' (Some ''net__if__posix__tcp_8c.html#a2eb537ea8ee56c51406752b75adcd19f'') NoChildren,
     NavEntry ''net_if_connect'' (Some ''net__if__posix__tcp_8c.html#a4068a9af469c66f436dc75a3ecf8acae'') NoChildren,
     NavEntry ''net_if_lookup'' (Some ''net__if__posix__tcp_8c.html#a28569a3b4677fab35aeb9db0e7f78c85'') NoChildren,
     NavEntry ''net_if_receive'' (Some ''net__if__posix__tcp_8c.html#af0fb03ed628866c0f25fd148f65ac544'') NoChildren,
     NavEntry ''net_if_send'' (Some ''net__if__posix__tcp_8c.html#a5491428be9cf51830de6ebfd1fdef633'') NoChildren,
     NavEntry ''net_if_server_socket_tcp'' (Some ''net__if__posix__tcp_8c.html#ae5a27c9e2e04f4d4adafcb9c3dc998c0'') NoChildren,
     NavEntry ''net_if_socket_internal'' (Some ''net__if__posix__tcp_8c.html#a803ae0a444bbff9dea7cf40b8559b85d'') NoChildren,
     NavEntry ''net_if_socket_tcp'' (Some ''net__if__posix__tcp_8c.html#a96d40c2912084babf6fa5ab483d732a3'') NoChildren,
     NavEntry ''net_if_socket_udp'' (Some ''net__if__posix__tcp_8c.html#a6f78e482e0102e9fe13b84bc89b75a42'') NoChildren,
     NavEntry ''eth_ops'' (Some ''net__if__posix__tcp_8c.html#a2761b0219f6d1ee5217b476c87b0d910'') NoChildren,
     NavEntry ''tcp_ops'' (Some ''net__if__posix__tcp_8c.html#a2db4b36d6794dfb971911527b3b79e62'') NoChildren,
     NavEntry ''udp_ops'' (Some ''net__if__posix__tcp_8c.html#ac5f8f995469df1302cb3f10c6203202f'') NoChildren]"

definition nav_net__if__posix__udp_8c :: "nav_data list" where
  "nav_net__if__posix__udp_8c =
    [NavEntry ''net_dev_udp_new'' (Some ''group__net__port__interface.html#gae91e94bda8afc019c748978a7a22e5cb'') NoChildren,
     NavEntry ''udp_ops'' (Some ''net__if__posix__udp_8c.html#ac5f8f995469df1302cb3f10c6203202f'') NoChildren]"

definition nav_net__if__uip__udp_8c :: "nav_data list" where
  "nav_net__if__uip__udp_8c =
    [NavEntry ''net_dev_udp_new'' (Some ''group__net__port__interface.html#gae91e94bda8afc019c748978a7a22e5cb'') NoChildren,
     NavEntry ''net_if_close'' (Some ''net__if__uip__udp_8c.html#a145f03c9c3c49a73560974a38367ad9c'') NoChildren,
     NavEntry ''net_if_config'' (Some ''net__if__uip__udp_8c.html#aa015db3a9eff4068b6ec383e43bcbfdd'') NoChildren,
     NavEntry ''net_if_connect'' (Some ''net__if__uip__udp_8c.html#a4068a9af469c66f436dc75a3ecf8acae'') NoChildren,
     NavEntry ''net_if_lookup'' (Some ''net__if__uip__udp_8c.html#a9db729fe448cab37484bd40d1afe0010'') NoChildren,
     NavEntry ''net_if_receive'' (Some ''net__if__uip__udp_8c.html#a8f4b7c0a1f3f37df9588ad678caf9ecc'') NoChildren,
     NavEntry ''net_if_send'' (Some ''net__if__uip__udp_8c.html#a9bbaaaedf4c73576c3ec21835aee3037'') NoChildren,
     NavEntry ''net_if_socket'' (Some ''net__if__uip__udp_8c.html#ab9489e4b567199e6192ba4da278137db'') NoChildren,
     NavEntry ''packip'' (Some ''net__if__uip__udp_8c.html#a393231e56f72f038d5761b36a4b57b13'') NoChildren,
     NavEntry ''unpackip'' (Some ''net__if__uip__udp_8c.html#a025c33e150c7cf3c24d865a0576ff6fd'') NoChildren,
     NavEntry ''eth_ops'' (Some ''net__if__uip__udp_8c.html#ad933675ffcc4449069e5a82d1c60e2e1'') NoChildren]"

definition nav_ns__list_8h :: "nav_data list" where
  "nav_ns__list_8h =
    [NavEntry ''cfg_atheros'' (Some ''ns__list_8h.html#a14a0c7c235d16f34ce49500798ccf3fa'') NoChildren,
     NavEntry ''cfg_custom'' (Some ''ns__list_8h.html#ac0bc20f9cb06d6c872f09ca4ca056e7a'') NoChildren,
     NavEntry ''cfg_lwip'' (Some ''ns__list_8h.html#aba436d92c40493f711a4442c7634203e'') NoChildren,
     NavEntry ''cfg_posix'' (Some ''ns__list_8h.html#a6ff1de4c9ab1d7866568c7017af43f60'') NoChildren,
     NavEntry ''cfg_uip'' (Some ''ns__list_8h.html#a030e72d69056e4fa387e0ff1e70f978a'') NoChildren,
     NavEntry ''cfg_wcm'' (Some ''ns__list_8h.html#ad7625844f798861643eb32dee0623f07'') NoChildren]"

definition nav_os__list_8h :: "nav_data list" where
  "nav_os__list_8h =
    [NavEntry ''cfg_exos'' (Some ''os__list_8h.html#ad61f32163ec9701c973b0c213191b036'') NoChildren,
     NavEntry ''cfg_freertos'' (Some ''os__list_8h.html#a919c9440f2270d0511d2f5e5bacf8136'') NoChildren,
     NavEntry ''cfg_linux'' (Some ''os__list_8h.html#aaf544f838c6e12947edd54c5bbaa057a'') NoChildren,
     NavEntry ''cfg_mqx'' (Some ''os__list_8h.html#a31da6e09d039f91447cee20b0236284f'') NoChildren,
     NavEntry ''cfg_osx'' (Some ''os__list_8h.html#afec0ac832000898baddcea3d787791d4'') NoChildren]"

definition nav_packet__buffer_8c :: "nav_data list" where
  "nav_packet__buffer_8c =
    [NavEntry ''packet_buffer_entry'' (Some ''structpacket__buffer__entry.html'') (ScriptVar ''structpacket__buffer__entry''),
     NavEntry ''packet_buffer'' (Some ''structpacket__buffer.html'') (ScriptVar ''structpacket__buffer''),
     NavEntry ''packet_buffer_delete'' (Some ''packet__buffer_8c.html#ab17e5db67d71a2c3e2c96571021501c0'') NoChildren,
     NavEntry ''packet_buffer_new'' (Some ''packet__buffer_8c.html#afcbcad1f1a5b4828819d8e25e5e006ee'') NoChildren,
     NavEntry ''packet_buffer_pop'' (Some ''packet__buffer_8c.html#ae97b304f28017466e85c771acfec0478'') NoChildren,
     NavEntry ''packet_buffer_push'' (Some ''packet__buffer_8c.html#a21fed34872aa06770baf3e0250c8a611'') NoChildren]"

definition nav_packet__buffer_8h :: "nav_data list" where
  "nav_packet__buffer_8h =
    [NavEntry ''packet_buffer_delete'' (Some ''packet__buffer_8h.html#ab17e5db67d71a2c3e2c96571021501c0'') NoChildren,
     NavEntry ''packet_buffer_new'' (Some ''packet__buffer_8h.html#afcbcad1f1a5b4828819d8e25e5e006ee'') NoChildren,
     NavEntry ''packet_buffer_pop'' (Some ''packet__buffer_8h.html#ae97b304f28017466e85c771acfec0478'') NoChildren,
     NavEntry ''packet_buffer_push'' (Some ''packet__buffer_8h.html#a21fed34872aa06770baf3e0250c8a611'') NoChildren]"

definition nav_pclb_8c :: "nav_data list" where
  "nav_pclb_8c =
    [NavEntry ''periodic_clb_class'' (Some ''structperiodic__clb__class.html'') (ScriptVar ''structperiodic__clb__class''),
     NavEntry ''pclb_get_clb_num'' (Some ''group__pclb.html#ga1019b64a2ec387817a5685540f0d6486'') NoChildren,
     NavEntry ''pclb_init'' (Some ''group__pclb.html#ga28c23ebda75cc16d211cf170b57e65f6'') NoChildren,
     NavEntry ''pclb_register'' (Some ''group__pclb.html#gabaf3ae1c39154d13f10730be4dc13451'') NoChildren,
     NavEntry ''pclb_task'' (Some ''group__pclb.html#ga2d55dfa4072a1a8426d030c1753824f1'') NoChildren,
     NavEntry ''pclb_unregister'' (Some ''group__pclb.html#gac4f5668e377615f881e10902795718a7'') NoChildren,
     NavEntry ''pcld_has_thread'' (Some ''group__pclb.html#gaecd6386f09d025ffabc5c4cea4829fcf'') NoChildren,
     NavEntry ''periodic_clb_thread'' (Some ''pclb_8c.html#ac958b85856be2ac13ec01be9853cd007'') NoChildren,
     NavEntry ''clb_num'' (Some ''pclb_8c.html#a5773803ea2460e2ae10e1dd8d8b4faa3'') NoChildren,
     NavEntry ''clb_obj_cnt'' (Some ''pclb_8c.html#a882be74bf188a19cf7625e9780444b57'') NoChildren,
     NavEntry ''has_thread'' (Some ''pclb_8c.html#aac86c440258a1edf24cc40fbeb668ee2'') NoChildren,
     NavEntry ''pclb_thread'' (Some ''pclb_8c.html#a30412717c9b530a2cd38fb9186a3a645'') NoChildren,
     NavEntry ''periodic_clb_head'' (Some ''pclb_8c.html#a071d0846ff2dd2b41dd5ca498f8f445a'') NoChildren,
     NavEntry ''periodic_clb_mutex'' (Some ''pclb_8c.html#ad56244bc12ec10ebbe88e21ffe658524'') NoChildren,
     NavEntry ''shadow_periodic_clb_head'' (Some ''pclb_8c.html#a2d9f34918fec7b8c6c0cbfc588ba7b07'') NoChildren,
     NavEntry ''t_attr'' (Some ''pclb_8c.html#a26c2834b48df3637acda3e16ce6ec40e'') NoChildren]"

definition nav_pclb_8h :: "nav_data list" where
  "nav_pclb_8h =
    [NavEntry ''pclb_get_clb_num'' (Some ''group__pclb.html#ga1019b64a2ec387817a5685540f0d6486'') NoChildren,
     NavEntry ''pclb_init'' (Some ''group__pclb.html#ga28c23ebda75cc16d211cf170b57e65f6'') NoChildren,
     NavEntry ''pclb_register'' (Some ''group__pclb.html#gabaf3ae1c39154d13f10730be4dc13451'') NoChildren,
     NavEntry ''pclb_task'' (Some ''group__pclb.html#ga2d55dfa4072a1a8426d030c1753824f1'') NoChildren,
     NavEntry ''pclb_unregister'' (Some ''group__pclb.html#gac4f5668e377615f881e10902795718a7'') NoChildren,
     NavEntry ''pcld_has_thread'' (Some ''group__pclb.html#gaecd6386f09d025ffabc5c4cea4829fcf'') NoChildren]"

definition nav_picocoap__client_8c :: "nav_data list" where
  "nav_picocoap__client_8c =
    [NavEntry ''picocoap_context'' (Some ''structpicocoap__context.html'') (ScriptVar ''structpicocoap__context''),
     NavEntry ''RECV_BUFFER_LEN'' (Some ''picocoap__client_8c.html#a48ca0b8cdb22c3f9cc02806d5ea4e6a2'') NoChildren,
     NavEntry ''coap_client_new'' (Some ''group__client__config.html#gafea73188c2073dc2b683fb44bab69349'') NoChildren,
     NavEntry ''picocoap_clear_socket'' (Some ''picocoap__client_8c.html#a33455b0e6439a084b878f8d6ff1df654'') NoChildren,
     NavEntry ''picocoap_context_new'' (Some ''picocoap__client_8c.html#a3222fd202d676391273d6e810dc26a9c'') NoChildren,
     NavEntry ''picocoap_delete_all'' (Some ''picocoap__client_8c.html#ab45dd34e79c672285fe65aea36c1a72a'') NoChildren,
     NavEntry ''picocoap_get_response_status'' (Some ''picocoap__client_8c.html#a2401073546f895bd690e56ed4de886f8'') NoChildren,
     NavEntry ''picocoap_recv_response'' (Some ''picocoap__client_8c.html#abddd5a4f6cc6d5da72a26e4a012795e3'') NoChildren,
     NavEntry ''picocoap_send_request'' (Some ''picocoap__client_8c.html#a5091804a6597cebd46f5ac9ac16f0859'') NoChildren,
     NavEntry ''picocoap_set_socket'' (Some ''picocoap__client_8c.html#a09d71990a9459576795528dd84d8f9a6'') NoChildren,
     NavEntry ''rest_operations'' (Some ''picocoap__client_8c.html#a89ed942e6fdbb546d09d2f7c026d566b'') NoChildren]"

definition nav_platform__exos_8h :: "nav_data list" where
  "nav_platform__exos_8h =
    [NavEntry ''platform_exos_init'' (Some ''platform__exos_8h.html#adad556005bb7b185644b1207c0f78c48'') NoChildren,
     NavEntry ''platform_get_cik'' (Some ''platform__exos_8h.html#a8471bf7902f30585012b5feaea84021c'') NoChildren,
     NavEntry ''platform_get_sn'' (Some ''platform__exos_8h.html#a1bdfbc42522159f4df1beccaeabbfe27'') NoChildren,
     NavEntry ''platform_get_stack_base'' (Some ''platform__exos_8h.html#a63bd3ece27b3a4f16902aa5714a85a0f'') NoChildren,
     NavEntry ''platform_get_stack_location'' (Some ''platform__exos_8h.html#a5649d29ecb98603b1a045f9c6e4fa30b'') NoChildren,
     NavEntry ''platform_get_time_ms'' (Some ''platform__exos_8h.html#a45700f188f4d4e6f8ec44f4002c441bc'') NoChildren,
     NavEntry ''platform_reset'' (Some ''platform__exos_8h.html#afea180ee48367b63170d1eeb5fd468e6'') NoChildren,
     NavEntry ''platform_set_cik'' (Some ''platform__exos_8h.html#a6e7b369b84a0e5d821565d2cec759bd3'') NoChildren,
     NavEntry ''platform_set_global_interrupts'' (Some ''platform__exos_8h.html#a231524764892a09a29896ee061fad476'') NoChildren]"

definition nav_platform__freertos_8h :: "nav_data list" where
  "nav_platform__freertos_8h =
    [NavEntry ''platform_get_cik'' (Some ''platform__freertos_8h.html#a4d318b9dfbdd9d21b4c503719742694b'') NoChildren,
     NavEntry ''platform_get_sn'' (Some ''platform__freertos_8h.html#a1bdfbc42522159f4df1beccaeabbfe27'') NoChildren,
     NavEntry ''platform_reset'' (Some ''platform__freertos_8h.html#afea180ee48367b63170d1eeb5fd468e6'') NoChildren,
     NavEntry ''platform_set_cik'' (Some ''platform__freertos_8h.html#a7ac700a1ab69bba1dd50c7f977cfef26'') NoChildren]"

definition nav_platform__lwip_8h :: "nav_data list" where
  "nav_platform__lwip_8h =
    [NavEntry ''link_layer_if'' (Some ''structlink__layer__if.html'') (ScriptVar ''structlink__layer__if''),
     NavEntry ''platform_ll_device_init'' (Some ''platform__lwip_8h.html#a8f860439acfa05f11d00c1ccd564688b'') NoChildren]"

definition nav_platform__qmx_8h :: "nav_data list" where
  "nav_platform__qmx_8h =
    [NavEntry ''platform_get_cik'' (Some ''platform__qmx_8h.html#a4d318b9dfbdd9d21b4c503719742694b'') NoChildren,
     NavEntry ''platform_get_sn'' (Some ''platform__qmx_8h.html#a1bdfbc42522159f4df1beccaeabbfe27'') NoChildren,
     NavEntry ''platform_reset'' (Some ''platform__qmx_8h.html#afea180ee48367b63170d1eeb5fd468e6'') NoChildren,
     NavEntry ''platform_set_cik'' (Some ''platform__qmx_8h.html#a7ac700a1ab69bba1dd50c7f977cfef26'') NoChildren]"

definition nav_platform__uip_8h :: "nav_data list" where
  "nav_platform__uip_8h =
    [NavEntry ''link_layer_if'' (Some ''structlink__layer__if.html'') (ScriptVar ''structlink__layer__if''),
     NavEntry ''platform_ll_device_init'' (Some ''platform__uip_8h.html#a8f860439acfa05f11d00c1ccd564688b'') NoChildren]"

definition nav_pmatch_8h :: "nav_data list" where
  "nav_pmatch_8h =
    [NavEntry ''capture'' (Some ''structcapture.html'') (ScriptVar ''structcapture''),
     NavEntry ''LUA_MAXCAPTURES'' (Some ''pmatch_8h.html#a7cecfa7bbfb47e8a8598a9bfbfbcab54'') NoChildren,
     NavEntry ''str_find'' (Some ''pmatch_8h.html#a3ea3eb12e2b6599a3c398f70e75527ba'') NoChildren]"

definition nav_posix__port_8c :: "nav_data list" where
  "nav_posix__port_8c =
    [NavEntry ''net_dev_init'' (Some ''group__net__port__interface.html#ga74f8a52f05a711c0aa99104f23808ecb'') NoChildren]"

definition nav_protocol__client__common_8h :: "nav_data list" where
  "nav_protocol__client__common_8h =
    [NavEntry ''application_protocol_type'' (Some ''protocol__client__common_8h.html#a8ce0de6bac471812ebf86cfd9c956156'') (Entries
      [NavEntry ''APP_PROTO_HTTP'' (Some ''protocol__client__common_8h.html#a8ce0de6bac471812ebf86cfd9c956156a9ee0ba13acb2ff189a452404d91d708a'') NoChildren,
       NavEntry ''APP_PROTO_COAP'' (Some ''protocol__client__common_8h.html#a8ce0de6bac471812ebf86cfd9c956156a75c68063b2889d7546a7aaa0d507c873'') NoChildren,
       NavEntry ''APP_PROTO_JSON'' (Some ''protocol__client__common_8h.html#a8ce0de6bac471812ebf86cfd9c956156ac9f23ae19f06324132af3eedfd98ff08'') NoChildren]),
     NavEntry ''security_mode'' (Some ''protocol__client__common_8h.html#a5f45705d4dd8263a700ee423404a6c30'') (Entries
      [NavEntry ''SECURITY_OFF'' (Some ''protocol__client__common_8h.html#a5f45705d4dd8263a700ee423404a6c30a70b01fded9406d2923634b44176eb2f8'') NoChildren,
       NavEntry ''SECURITY_TLS_DTLS'' (Some ''protocol__client__common_8h.html#a5f45705d4dd8263a700ee423404a6c30a2d60b3695250c45911fd0695445ec025'') NoChildren]),
     NavEntry ''state_machine_type'' (Some ''protocol__client__common_8h.html#a24c97402d92588e4d0ddb5b2fe24491c'') (Entries
      [NavEntry ''SM_SYNCH'' (Some ''protocol__client__common_8h.html#a24c97402d92588e4d0ddb5b2fe24491ca2c5d8e2da5844f45fd99da8f64d0e7a8'') NoChildren,
       NavEntry ''SM_ASYNCH'' (Some ''protocol__client__common_8h.html#a24c97402d92588e4d0ddb5b2fe24491ca62962e4ed89f39108a99bfb1a3b86c7b'') NoChildren])]"

definition nav_protocol__client__sm_8c :: "nav_data list" where
  "nav_protocol__client__sm_8c =
    [NavEntry ''protocol_client_request'' (Some ''structprotocol__client__request.html'') (ScriptVar ''structprotocol__client__request''),
     NavEntry ''protocol_client_sm_class'' (Some ''structprotocol__client__sm__class.html'') (ScriptVar ''structprotocol__client__sm__class''),
     NavEntry ''MAX_RESPONSE_TIMEOUT_PER_SESSION'' (Some ''protocol__client__sm_8c.html#a052b075027c1605244dd0abd11f4f6b7'') NoChildren,
     NavEntry ''protocol_client_sm_state'' (Some ''protocol__client__sm_8c.html#a54cd400966566e1438b830369676be57'') (Entries
      [NavEntry ''SM_RESET'' (Some ''protocol__client__sm_8c.html#a54cd400966566e1438b830369676be57a545e14532af664f7d9532848beccb9af'') NoChildren,
       NavEntry ''SM_CONNECT'' (Some ''protocol__client__sm_8c.html#a54cd400966566e1438b830369676be57ad31fa66ecd88377bea1a9abe52d811ae'') NoChildren,
       NavEntry ''SM_TRANSMIT'' (Some ''protocol__client__sm_8c.html#a54cd400966566e1438b830369676be57af8c4ea0c1659a96b2011da716a39e152'') NoChildren,
       NavEntry ''SM_FAILURE'' (Some ''protocol__client__sm_8c.html#a54cd400966566e1438b830369676be57a805af68a0a2489245620b4a43ffd679b'') NoChildren]),
     NavEntry ''abort_transfers'' (Some ''protocol__client__sm_8c.html#a5e0b33a47de5c98a4fb555d5e108dc7c'') NoChildren,
     NavEntry ''bool_get_atomic'' (Some ''protocol__client__sm_8c.html#af1d270af205f567f3083fce16fd3fc30'') NoChildren,
     NavEntry ''bool_set_atomic'' (Some ''protocol__client__sm_8c.html#adc64847128a925cf462de5aebf323621'') NoChildren,
     NavEntry ''check_timeout'' (Some ''protocol__client__sm_8c.html#ab9a045d2d879493a555a9a4ee895e803'') NoChildren,
     NavEntry ''connect_post'' (Some ''protocol__client__sm_8c.html#ad06cceec80241b8602caaa1c4feb5e20'') NoChildren,
     NavEntry ''connect_wait'' (Some ''protocol__client__sm_8c.html#a99f7191e62ca1f1a6730c37b4f5dca0e'') NoChildren,
     NavEntry ''create_socket'' (Some ''protocol__client__sm_8c.html#a060a41ff0e2d0fb5a87de7115c1253d2'') NoChildren,
     NavEntry ''pair_request_to_response'' (Some ''protocol__client__sm_8c.html#a9c769a427a1d8784d18d64d49c438f75'') NoChildren,
     NavEntry ''protocol_client_request_delete'' (Some ''protocol__client__sm_8c.html#ad5cdb71d86d27fe06e8be6322e9be824'') NoChildren,
     NavEntry ''protocol_client_request_new'' (Some ''protocol__client__sm_8c.html#a177d0aa79d6aa89851b69f1ecd5c1521'') NoChildren,
     NavEntry ''protocol_client_sm_clear'' (Some ''group__protocol__client__sm.html#gad530e5f70715093294451963921d3407'') NoChildren,
     NavEntry ''protocol_client_sm_delete'' (Some ''group__protocol__client__sm.html#ga5d6eb263e6472e3da31268c2d13a0a47'') NoChildren,
     NavEntry ''protocol_client_sm_init'' (Some ''group__protocol__client__sm.html#ga25c31f466eb4402dcfdfe1be49d6cd57'') NoChildren,
     NavEntry ''protocol_client_sm_is_empty'' (Some ''group__protocol__client__sm.html#ga4f3d55469e8c238a454b3a8e670965ea'') NoChildren,
     NavEntry ''protocol_client_sm_is_queue_full'' (Some ''group__protocol__client__sm.html#gaf20f6dea17c9ff09ff4c4c5c005390fc'') NoChildren,
     NavEntry ''protocol_client_sm_new'' (Some ''group__protocol__client__sm.html#ga2eeace0f82cb4db6054278da31fac6df'') NoChildren,
     NavEntry ''protocol_client_sm_set_identity'' (Some ''group__protocol__client__sm.html#gaa4630c533cc1804e2de9d8d26e0d7082'') NoChildren,
     NavEntry ''protocol_client_sm_task'' (Some ''protocol__client__sm_8c.html#a1128fcb6132653226d9a63b7c671552e'') NoChildren,
     NavEntry ''protocol_client_sm_transmit'' (Some ''group__protocol__client__sm.html#gac4759723fde32a0427cbd7d484cc873b'') NoChildren,
     NavEntry ''st_connect'' (Some ''protocol__client__sm_8c.html#a793c96501088470af603e89fc5382cfd'') NoChildren,
     NavEntry ''st_failure'' (Some ''protocol__client__sm_8c.html#a0450d95601472a56eb68b68f60ae3131'') NoChildren,
     NavEntry ''st_new_transmit'' (Some ''protocol__client__sm_8c.html#aef86f2f5ce8299a907c6e95a81d5bbc4'') NoChildren,
     NavEntry ''st_recv_response'' (Some ''protocol__client__sm_8c.html#a54b76a48797001790e33fd0687a77f23'') NoChildren,
     NavEntry ''st_reset'' (Some ''protocol__client__sm_8c.html#ab23aad3fa07bfc549a608c33ce7a2692'') NoChildren,
     NavEntry ''st_send_request'' (Some ''protocol__client__sm_8c.html#a4134c9169ad8372193f6be3e8dd59b93'') NoChildren,
     NavEntry ''st_transmit'' (Some ''protocol__client__sm_8c.html#ab3047b363558745911b4782f5abc26fd'') NoChildren,
     NavEntry ''st_transmit_complete'' (Some ''protocol__client__sm_8c.html#ac947b076ffc261c02dfb4b86e742dee7'') NoChildren,
     NavEntry ''connect_mtx'' (Some ''protocol__client__sm_8c.html#a2901798989912796c7ee27e1b97828c3'') NoChildren,
     NavEntry ''connecting_sm'' (Some ''protocol__client__sm_8c.html#a1c4f85d56828ab70e3872dbcf266f01b'') NoChildren]"

definition nav_protocol__client__sm_8h :: "nav_data list" where
  "nav_protocol__client__sm_8h =
    [NavEntry ''pc_sm_callback'' (Some ''group__protocol__client__sm.html#ga4115db5a1dec137d034ba334d16373fc'') NoChildren,
     NavEntry ''request_type'' (Some ''group__protocol__client__sm.html#gadeac0c2c8171a49ced17f4d4a542a4ec'') (Entries
      [NavEntry ''REQUEST_NORMAL'' (Some ''group__protocol__client__sm.html#ggadeac0c2c8171a49ced17f4d4a542a4eca904943854ec6125db0ce323002773c89'') NoChildren,
       NavEntry ''REQUEST_SUBSCRIBE'' (Some ''group__protocol__client__sm.html#ggadeac0c2c8171a49ced17f4d4a542a4ecacfda64619e61c1358fea23fd33d51d11'') NoChildren,
       NavEntry ''REQUEST_SUBSCRIBE_ASYNCH'' (Some ''group__protocol__client__sm.html#ggadeac0c2c8171a49ced17f4d4a542a4ecaa6f940d9de17a31c844df2011d228bb3'') NoChildren]),
     NavEntry ''protocol_client_sm_clear'' (Some ''group__protocol__client__sm.html#gad530e5f70715093294451963921d3407'') NoChildren,
     NavEntry ''protocol_client_sm_delete'' (Some ''group__protocol__client__sm.html#ga5d6eb263e6472e3da31268c2d13a0a47'') NoChildren,
     NavEntry ''protocol_client_sm_init'' (Some ''group__protocol__client__sm.html#ga25c31f466eb4402dcfdfe1be49d6cd57'') NoChildren,
     NavEntry ''protocol_client_sm_is_empty'' (Some ''group__protocol__client__sm.html#ga4f3d55469e8c238a454b3a8e670965ea'') NoChildren,
     NavEntry ''protocol_client_sm_is_queue_full'' (Some ''group__protocol__client__sm.html#gaf20f6dea17c9ff09ff4c4c5c005390fc'') NoChildren,
     NavEntry ''protocol_client_sm_new'' (Some ''group__protocol__client__sm.html#ga2eeace0f82cb4db6054278da31fac6df'') NoChildren,
     NavEntry ''protocol_client_sm_set_identity'' (Some ''group__protocol__client__sm.html#gaa4630c533cc1804e2de9d8d26e0d7082'') NoChildren,
     NavEntry ''protocol_client_sm_transmit'' (Some ''group__protocol__client__sm.html#gac4759723fde32a0427cbd7d484cc873b'') NoChildren]"

definition nav_queue_8h :: "nav_data list" where
  "nav_queue_8h =
    [NavEntry ''QUEUE_NULL'' (Some ''queue_8h.html#af29d693964d82bac8e9df2416ac71f2f'') NoChildren,
     NavEntry ''Queue'' (Some ''queue_8h.html#aaa31d02f2b2876d12bb8f83900eacce6'') NoChildren,
     NavEntry ''QueueValue'' (Some ''queue_8h.html#aaa11c2556614d37a83769324dc392dce'') NoChildren,
     NavEntry ''queue_free'' (Some ''queue_8h.html#a42c7cc8caeb6778234887511db8fba40'') NoChildren,
     NavEntry ''queue_get_size'' (Some ''queue_8h.html#afdb1e0bb5faf7e5393e55b13e5b78f3d'') NoChildren,
     NavEntry ''queue_is_empty'' (Some ''queue_8h.html#a6b4d227552b30fe657a12b88ecad46bb'') NoChildren,
     NavEntry ''queue_new'' (Some ''queue_8h.html#a6822f963b6a23e3890b51dc7b690f09f'') NoChildren,
     NavEntry ''queue_peek_head'' (Some ''queue_8h.html#a8924c24ee3250e23fa4009f46ba4b9d8'') NoChildren,
     NavEntry ''queue_peek_tail'' (Some ''queue_8h.html#a13eed7922e2baaa839b3fca630a04e99'') NoChildren,
     NavEntry ''queue_pop_head'' (Some ''queue_8h.html#ad6bcabffd5a8947dfba39698aa003a8b'') NoChildren,
     NavEntry ''queue_pop_tail'' (Some ''queue_8h.html#ae5084bfe95c3cf582dff20f05abaf06a'') NoChildren,
     NavEntry ''queue_push_head'' (Some ''queue_8h.html#aa4d24e6ff6b3b3300aa4a61fe31a26ab'') NoChildren,
     NavEntry ''queue_push_tail'' (Some ''queue_8h.html#a312cbe8ee04e9e89f079c9588c97f4b0'') NoChildren]"

definition nav_rtc_8c :: "nav_data list" where
  "nav_rtc_8c =
    [NavEntry ''rtc_get'' (Some ''rtc_8c.html#ab9566103b8b1de139da5a472000c7617'') NoChildren,
     NavEntry ''rtc_periodic'' (Some ''rtc_8c.html#a86ce0e5c919135157bb9cac8a8f8655f'') NoChildren,
     NavEntry ''rtc_set'' (Some ''rtc_8c.html#a6eb764fb255bc69b431cb429fdc177aa'') NoChildren,
     NavEntry ''XTIME'' (Some ''rtc_8c.html#a8d3665206b0dbb3dea506e8fd8541aa1'') NoChildren,
     NavEntry ''previous_system_time'' (Some ''rtc_8c.html#af1e535025d4c26067f4d89998f17ad77'') NoChildren,
     NavEntry ''system_time_linux'' (Some ''rtc_8c.html#a7526110e0b5243700589531a89d64fe3'') NoChildren]"

definition nav_sdk__config_8h :: "nav_data list" where
  "nav_sdk__config_8h =
    [NavEntry ''BUILD_HTTP'' (Some ''sdk__config_8h.html#a77752447fff431bca5d08e715aa5e661'') NoChildren,
     NavEntry ''BUILD_POSIX_NET'' (Some ''sdk__config_8h.html#a0bd999c1a337fec7b9cbfbbdfec25555'') NoChildren,
     NavEntry ''BUILD_SSL'' (Some ''sdk__config_8h.html#a6099c708ec012fd5cbc4c6ec731a0ace'') NoChildren,
     NavEntry ''BUILD_TCP'' (Some ''sdk__config_8h.html#aae55a27a672515d8b452101cb75bb348'') NoChildren,
     NavEntry ''BUILD_UDP'' (Some ''sdk__config_8h.html#a0ca5d35079270679e42bf97cc5bcc31f'') NoChildren,
     NavEntry ''CONFIGURATOR_SERVER_PCLB_PERIOD'' (Some ''sdk__config_8h.html#a9b4e103b6288d196cf9c93307602e1ea'') NoChildren,
     NavEntry ''LACKS_UNISTD_H'' (Some ''sdk__config_8h.html#a8a7fbe672ed8d5e54cbc153a0432f75d'') NoChildren,
     NavEntry ''MAX_CONFIGURATOR_CONNECTION'' (Some ''sdk__config_8h.html#aef05b29f60475a1b7a6e1402218c95b4'') NoChildren,
     NavEntry ''PACKAGE_BUGREPORT'' (Some ''sdk__config_8h.html#a1d1d2d7f8d2f95b376954d649ab03233'') NoChildren,
     NavEntry ''PACKAGE_NAME'' (Some ''sdk__config_8h.html#a1c0439e4355794c09b64274849eb0279'') NoChildren,
     NavEntry ''PACKAGE_STRING'' (Some ''sdk__config_8h.html#ac73e6f903c16eca7710f92e36e1c6fbf'') NoChildren,
     NavEntry ''PACKAGE_TARNAME'' (Some ''sdk__config_8h.html#af415af6bfede0e8d5453708afe68651c'') NoChildren,
     NavEntry ''PACKAGE_URL'' (Some ''sdk__config_8h.html#a5c93853116d5a50307b6744f147840aa'') NoChildren,
     NavEntry ''PACKAGE_VERSION'' (Some ''sdk__config_8h.html#aa326a05d5e30f9e9a4bb0b4469d5d0c0'') NoChildren,
     NavEntry ''RTOS_Linux'' (Some ''sdk__config_8h.html#a68d6083cd27ad8399b3247bb8dbe5f0a'') NoChildren,
     NavEntry ''USE_MULTIPLE_ALLOCATOR'' (Some ''sdk__config_8h.html#a02d868acf2f26ba769657279770d9dd7'') NoChildren]"

definition nav_sdk__init_8c :: "nav_data list" where
  "nav_sdk__init_8c =
    [NavEntry ''SYSTEM_THREAD_STACK_SIZE'' (Some ''sdk__init_8c.html#a87f5b1f52beefd61d31c50126483d9c4'') NoChildren,
     NavEntry ''exosite_sdk_init'' (Some ''group___exosite___a_p_i.html#gaac628db55f159c64251584ef611d6ef1'') NoChildren,
     NavEntry ''exosite_sdk_register_memory_allocators'' (Some ''group___exosite___a_p_i.html#gadc34ec5c4ff81d6e0985218f43209ac0'') NoChildren,
     NavEntry ''exosite_sdk_register_memory_buffer'' (Some ''group___exosite___a_p_i.html#ga9728f396a2c9259a48796d9c65bac121'') NoChildren,
     NavEntry ''memory_buffer'' (Some ''sdk__init_8c.html#a17347cfb1731c8bd3178cd4ec0cfde75'') NoChildren,
     NavEntry ''memory_buffer_size'' (Some ''sdk__init_8c.html#aae1300cef693b47f8290159d44fb9d21'') NoChildren]"

definition nav_security__list_8h :: "nav_data list" where
  "nav_security__list_8h =
    [NavEntry ''cfg_cyassl'' (Some ''security__list_8h.html#ac7b5ac1bc2ffd3ac35d756e85ea05894'') NoChildren,
     NavEntry ''cfg_mbedtls'' (Some ''security__list_8h.html#aa4702b020d2a6c7921f58dd52faac896'') NoChildren]"

definition nav_sf__malloc_8h :: "nav_data list" where
  "nav_sf__malloc_8h =
    [NavEntry ''HEAP_MODULE_ID'' (Some ''sf__malloc_8h.html#a26376e5aabceec328c9dec6de17b9677'') NoChildren,
     NavEntry ''LOCATION_IN_FILE'' (Some ''sf__malloc_8h.html#add88961d2b07aeb9ad3e77ffd18f57da'') NoChildren,
     NavEntry ''sf_free'' (Some ''sf__malloc_8h.html#a05d3c6a4f409b6603ba0d1239b952ab8'') NoChildren,
     NavEntry ''sf_malloc'' (Some ''sf__malloc_8h.html#afa76a4dbc64e0696ba5294eca128177a'') NoChildren,
     NavEntry ''sf_mem_alloc'' (Some ''sf__malloc_8h.html#a005081174717896877b73030b6399fe5'') NoChildren,
     NavEntry ''sf_mem_free'' (Some ''sf__malloc_8h.html#a1802190363c4c55f6bb61235e175fa16'') NoChildren,
     NavEntry ''sf_mem_realloc'' (Some ''sf__malloc_8h.html#a67acc98962d3af4d35439101597c5ca6'') NoChildren,
     NavEntry ''sf_memcpy'' (Some ''sf__malloc_8h.html#a596711f8a4c914f9da585abf80fead36'') NoChildren,
     NavEntry ''sf_memfill'' (Some ''sf__malloc_8h.html#a7661fea66b9b807c49726786b49e4a6a'') NoChildren,
     NavEntry ''sf_realloc'' (Some ''sf__malloc_8h.html#a923d5aca489915e01cac6d4ee243258c'') NoChildren,
     NavEntry ''mem_debug_emulate_out_of_memory'' (Some ''sf__malloc_8h.html#a29c249dfdca80ad8d5e1e1e70e9b9425'') NoChildren,
     NavEntry ''mem_debug_enable_log'' (Some ''sf__malloc_8h.html#a431f60ff798d3a652be70e7ba6d771f8'') NoChildren]"

definition nav_ssl__client_8c :: "nav_data list" where
  "nav_ssl__client_8c =
    [NavEntry ''client_dev'' (Some ''structclient__dev.html'') (ScriptVar ''structclient__dev''),
     NavEntry ''caCert'' (Some ''ssl__client_8c.html#ab1209bfc79c3a7bc1e4d53a5aa30c1ee'') NoChildren,
     NavEntry ''container_of'' (Some ''ssl__client_8c.html#af8c317a42292b61c93aae91e59118a46'') NoChildren,
     NavEntry ''IDENTITY_MAX_SIZE'' (Some ''ssl__client_8c.html#a72485f691c477cca885a6089365b6b24'') NoChildren,
     NavEntry ''PASSPHRASE_MAX_SIZE'' (Some ''ssl__client_8c.html#a736c30ff881d73d7c115dfb2f1d19a62'') NoChildren,
     NavEntry ''client_close'' (Some ''ssl__client_8c.html#a2b436c2c2eb12d6d72705e069bafd5f0'') NoChildren,
     NavEntry ''client_config'' (Some ''ssl__client_8c.html#af822cc28da7d3738c97d8a941236a062'') NoChildren,
     NavEntry ''client_connect'' (Some ''ssl__client_8c.html#ae4e8ff46f8eef30def6b8c33f12ec666'') NoChildren,
     NavEntry ''client_deinit'' (Some ''ssl__client_8c.html#aba8d2dd3b68b2a9af67b7f1c76171b90'') NoChildren,
     NavEntry ''client_logging_cb'' (Some ''ssl__client_8c.html#a9bad63b84c38a487cca33e6535b395c8'') NoChildren,
     NavEntry ''client_lookup'' (Some ''ssl__client_8c.html#ac6e3ee5b7cc62ac460b0ff87d421d4ef'') NoChildren,
     NavEntry ''client_recv'' (Some ''ssl__client_8c.html#a9e1419d5eaba42b5878e6676f2cc7988'') NoChildren,
     NavEntry ''client_send'' (Some ''ssl__client_8c.html#ad41af0615815cda928f4849fb1fc072f'') NoChildren,
     NavEntry ''client_set_identity'' (Some ''ssl__client_8c.html#ac1d4acf81e8d75a063b4d53967cd6b6c'') NoChildren,
     NavEntry ''client_socket'' (Some ''ssl__client_8c.html#abd2ae53d6c57a803f46dfc6b379193cc'') NoChildren,
     NavEntry ''cyassl_recv'' (Some ''ssl__client_8c.html#a676d6c06e8eeee00e65951929d8e761f'') NoChildren,
     NavEntry ''cyassl_send'' (Some ''ssl__client_8c.html#a1496a9b08b6c460f88cdc738eeb7b7b9'') NoChildren,
     NavEntry ''err_sys'' (Some ''ssl__client_8c.html#a5c8056091f9a8cd7d8b14ff6bdb1df25'') NoChildren,
     NavEntry ''exosite_psk_client_cb'' (Some ''ssl__client_8c.html#a419954f51ac51f82736dc2008328d7d2'') NoChildren,
     NavEntry ''map_cyassl_error_code'' (Some ''ssl__client_8c.html#a422d12a79e1ce4e47211e3ed6b0cbc4c'') NoChildren,
     NavEntry ''showPeer'' (Some ''ssl__client_8c.html#ab462a9afbccc3695e963b2c1fbafddf0'') NoChildren,
     NavEntry ''ssl_client_init'' (Some ''ssl__client_8c.html#a5bd9a41c7b8c230735c46624fc13bb1a'') NoChildren,
     NavEntry ''ssl_client_new'' (Some ''ssl__client_8c.html#a02c20a3169dfdc6418ed518675ab1736'') NoChildren,
     NavEntry ''XTIME'' (Some ''ssl__client_8c.html#a8d3665206b0dbb3dea506e8fd8541aa1'') NoChildren,
     NavEntry ''net_if_identity'' (Some ''ssl__client_8c.html#a7f6d1291ebc8fa56f72cb4752f908e43'') NoChildren,
     NavEntry ''net_if_ops'' (Some ''ssl__client_8c.html#a4b002f35a665663bfab60eb577537f4f'') NoChildren,
     NavEntry ''net_if_passphrase'' (Some ''ssl__client_8c.html#a1b3c92e068e27568f92f8240a48df984'') NoChildren,
     NavEntry ''net_if_type'' (Some ''ssl__client_8c.html#a78212fc67ef153e2df0f4fe3a22cdeca'') NoChildren,
     NavEntry ''ssl_client_ops'' (Some ''ssl__client_8c.html#af44aa7f44da6c96d5c4e1a8fdba09627'') NoChildren]"

definition nav_ssl__client_8h :: "nav_data list" where
  "nav_ssl__client_8h =
    [NavEntry ''ssl_client_init'' (Some ''ssl__client_8h.html#a5bd9a41c7b8c230735c46624fc13bb1a'') NoChildren,
     NavEntry ''ssl_client_new'' (Some ''ssl__client_8h.html#a02c20a3169dfdc6418ed518675ab1736'') NoChildren]"

definition nav_string__class_8c :: "nav_data list" where
  "nav_string__class_8c =
    [NavEntry ''string_class'' (Some ''structstring__class.html'') (ScriptVar ''structstring__class''),
     NavEntry ''string_cat'' (Some ''string__class_8c.html#abc6229c233e7671be132774cc8a5a8dc'') NoChildren,
     NavEntry ''string_catc'' (Some ''string__class_8c.html#a3942f35051f61d7370d4ec8ec904e2ca'') NoChildren,
     NavEntry ''string_catcn'' (Some ''string__class_8c.html#ab10e7fa9ead90aa12bcab56578595ad3'') NoChildren,
     NavEntry ''string_delete'' (Some ''string__class_8c.html#a6f65fa996f09a3ce90557fa121a1c333'') NoChildren,
     NavEntry ''string_empty'' (Some ''string__class_8c.html#a5aff4005ac362285b7363fa2c201e6f7'') NoChildren,
     NavEntry ''string_get_buffer'' (Some ''string__class_8c.html#ac80dc6c93952467919eb8c8e75415390'') NoChildren,
     NavEntry ''string_get_cstring'' (Some ''string__class_8c.html#acbcddcbdf37a4476c1ce27ce101960ed'') NoChildren,
     NavEntry ''string_get_size'' (Some ''string__class_8c.html#a20d0c5ee7a5bc90abdffdb02e837cabf'') NoChildren,
     NavEntry ''string_is_equal'' (Some ''string__class_8c.html#ae2f56113e3fb9d5b1a9cc11d908767b7'') NoChildren,
     NavEntry ''string_new'' (Some ''string__class_8c.html#a8422c6ac5a273f270c36eaf237c94f04'') NoChildren,
     NavEntry ''string_new_const'' (Some ''string__class_8c.html#a220590225cb85736f21497ea29148fa8'') NoChildren,
     NavEntry ''string_print'' (Some ''string__class_8c.html#a08a45356d772a55b48f2b65be881f237'') NoChildren,
     NavEntry ''string_replace'' (Some ''string__class_8c.html#aa7367c5e6085093b8dface7b3fcee178'') NoChildren]"

definition nav_string__class_8h :: "nav_data list" where
  "nav_string__class_8h =
    [NavEntry ''SET_STRING_CHECKER'' (Some ''string__class_8h.html#a928b1957b7da12654168c1e02f297d84'') NoChildren,
     NavEntry ''ersdk_free'' (Some ''string__class_8h.html#a549e480288217217f65c0ca5f917ef3e'') NoChildren,
     NavEntry ''ersdk_malloc'' (Some ''string__class_8h.html#ab6536699e165c1df6a3359c6169d2832'') NoChildren,
     NavEntry ''ersdk_realloc'' (Some ''string__class_8h.html#af04d61dda25bf4822be4b591cfa7847a'') NoChildren,
     NavEntry ''string_cat'' (Some ''string__class_8h.html#abc6229c233e7671be132774cc8a5a8dc'') NoChildren,
     NavEntry ''string_catc'' (Some ''string__class_8h.html#a3942f35051f61d7370d4ec8ec904e2ca'') NoChildren,
     NavEntry ''string_catcn'' (Some ''string__class_8h.html#ab10e7fa9ead90aa12bcab56578595ad3'') NoChildren,
     NavEntry ''string_delete'' (Some ''string__class_8h.html#a6f65fa996f09a3ce90557fa121a1c333'') NoChildren,
     NavEntry ''string_empty'' (Some ''string__class_8h.html#a5aff4005ac362285b7363fa2c201e6f7'') NoChildren,
     NavEntry ''string_get_buffer'' (Some ''string__class_8h.html#ac80dc6c93952467919eb8c8e75415390'') NoChildren,
     NavEntry ''string_get_cstring'' (Some ''string__class_8h.html#acbcddcbdf37a4476c1ce27ce101960ed'') NoChildren,
     NavEntry ''string_get_size'' (Some ''string__class_8h.html#a20d0c5ee7a5bc90abdffdb02e837cabf'') NoChildren,
     NavEntry ''string_init'' (Some ''string__class_8h.html#a9643310134f259bff7406d4fbffd10aa'') NoChildren,
     NavEntry ''string_is_equal'' (Some ''string__class_8h.html#ae2f56113e3fb9d5b1a9cc11d908767b7'') NoChildren,
     NavEntry ''string_new'' (Some ''string__class_8h.html#a1077f82572b93979a0a1f374dadd9297'') NoChildren,
     NavEntry ''string_new_const'' (Some ''string__class_8h.html#a220590225cb85736f21497ea29148fa8'') NoChildren,
     NavEntry ''string_print'' (Some ''string__class_8h.html#a08a45356d772a55b48f2b65be881f237'') NoChildren,
     NavEntry ''string_replace'' (Some ''string__class_8h.html#aa7367c5e6085093b8dface7b3fcee178'') NoChildren]"

definition nav_struct___c_queue :: "nav_data list" where
  "nav_struct___c_queue =
    [NavEntry ''max_size'' (Some ''struct___c_queue.html#a8ffec3b4623a65f70dedcf86770bb31b'') NoChildren,
     NavEntry ''queue'' (Some ''struct___c_queue.html#a619d6436aff43bc5367015ef9d3108e8'') NoChildren,
     NavEntry ''queue_lock'' (Some ''struct___c_queue.html#a9af2171f0d32668a11dd46af1e2ebd6d'') NoChildren]"

definition nav_struct__configurator__server :: "nav_data list" where
  "nav_struct__configurator__server =
    [NavEntry ''cfg_changed'' (Some ''struct__configurator__server.html#ab663bc7b17b9ac6e247fb543eaf43751'') NoChildren,
     NavEntry ''clb_set'' (Some ''struct__configurator__server.html#a92003dc80587ef7df15b220a8f6a9ff3'') NoChildren,
     NavEntry ''client_socket'' (Some ''struct__configurator__server.html#a114cbd0eff33b87802272ad67840a059'') NoChildren,
     NavEntry ''connections'' (Some ''struct__configurator__server.html#a8da1ed449c369af1186e22c9013ed7c2'') NoChildren,
     NavEntry ''input_buff'' (Some ''struct__configurator__server.html#afac8da44722d6b8101417811caf9a244'') NoChildren,
     NavEntry ''ip'' (Some ''struct__configurator__server.html#ae80ec7ba256f73dc4ea50622716be6a5'') NoChildren,
     NavEntry ''net_if'' (Some ''struct__configurator__server.html#a849c56089ebf2c0c7825c17a98624b2c'') NoChildren,
     NavEntry ''parser_settings'' (Some ''struct__configurator__server.html#a446c180a449b2c24186ffe53c30e53e8'') NoChildren,
     NavEntry ''port'' (Some ''struct__configurator__server.html#add5c5d7e0563e9980d693ac441240747'') NoChildren,
     NavEntry ''server_socket'' (Some ''struct__configurator__server.html#a49504d4f2720ae556aae7ff8c4a9b871'') NoChildren,
     NavEntry ''wifi'' (Some ''struct__configurator__server.html#a2c54207537f4416323ad2989bc829d6d'') NoChildren]"

definition nav_files2a :: "string \<Rightarrow> nav_data list option" where
  "nav_files2a v =
    (if v = ''heap__tracker_8h'' then Some nav_heap__tracker_8h
     else if v = ''heap__types_8h'' then Some nav_heap__types_8h
     else if v = ''hs__mem_8c'' then Some nav_hs__mem_8c
     else if v = ''hs__mem_8h'' then Some nav_hs__mem_8h
     else if v = ''http__client_8c'' then Some nav_http__client_8c
     else if v = ''http__parser_8c'' then Some nav_http__parser_8c
     else if v = ''http__parser_8h'' then Some nav_http__parser_8h
     else if v = ''libcoap__client_8c'' then Some nav_libcoap__client_8c
     else if v = ''lwip__port_8c'' then Some nav_lwip__port_8c
     else if v = ''mbedtls__client_8c'' then Some nav_mbedtls__client_8c
     else if v = ''mem__check_8c'' then Some nav_mem__check_8c
     else if v = ''mem__check_8h'' then Some nav_mem__check_8h
     else if v = ''modules'' then Some nav_modules
     else if v = ''net__dev__factory_8c'' then Some nav_net__dev__factory_8c
     else if v = ''net__dev__test_8c'' then Some nav_net__dev__test_8c
     else if v = ''net__dev__test_8h'' then Some nav_net__dev__test_8h
     else if v = ''net__if__atheros__tcp_8c'' then Some nav_net__if__atheros__tcp_8c
     else if v = ''net__if__atheros__udp_8c'' then Some nav_net__if__atheros__udp_8c
     else if v = ''net__if__lwip__tcp_8c'' then Some nav_net__if__lwip__tcp_8c
     else if v = ''net__if__lwip__udp_8c'' then Some nav_net__if__lwip__udp_8c
     else if v = ''net__if__posix__tcp_8c'' then Some nav_net__if__posix__tcp_8c
     else if v = ''net__if__posix__udp_8c'' then Some nav_net__if__posix__udp_8c
     else if v = ''net__if__uip__udp_8c'' then Some nav_net__if__uip__udp_8c
     else if v = ''ns__list_8h'' then Some nav_ns__list_8h
     else if v = ''os__list_8h'' then Some nav_os__list_8h
     else if v = ''packet__buffer_8c'' then Some nav_packet__buffer_8c
     else None)"

definition nav_files2b :: "string \<Rightarrow> nav_data list option" where
  "nav_files2b v =
    (if v = ''packet__buffer_8h'' then Some nav_packet__buffer_8h
     else if v = ''pclb_8c'' then Some nav_pclb_8c
     else if v = ''pclb_8h'' then Some nav_pclb_8h
     else if v = ''picocoap__client_8c'' then Some nav_picocoap__client_8c
     else if v = ''platform__exos_8h'' then Some nav_platform__exos_8h
     else if v = ''platform__freertos_8h'' then Some nav_platform__freertos_8h
     else if v = ''platform__lwip_8h'' then Some nav_platform__lwip_8h
     else if v = ''platform__qmx_8h'' then Some nav_platform__qmx_8h
     else if v = ''platform__uip_8h'' then Some nav_platform__uip_8h
     else if v = ''pmatch_8h'' then Some nav_pmatch_8h
     else if v = ''posix__port_8c'' then Some nav_posix__port_8c
     else if v = ''protocol__client__common_8h'' then Some nav_protocol__client__common_8h
     else if v = ''protocol__client__sm_8c'' then Some nav_protocol__client__sm_8c
     else if v = ''protocol__client__sm_8h'' then Some nav_protocol__client__sm_8h
     else if v = ''queue_8h'' then Some nav_queue_8h
     else if v = ''rtc_8c'' then Some nav_rtc_8c
     else if v = ''sdk__config_8h'' then Some nav_sdk__config_8h
     else if v = ''sdk__init_8c'' then Some nav_sdk__init_8c
     else if v = ''security__list_8h'' then Some nav_security__list_8h
     else if v = ''sf__malloc_8h'' then Some nav_sf__malloc_8h
     else if v = ''ssl__client_8c'' then Some nav_ssl__client_8c
     else if v = ''ssl__client_8h'' then Some nav_ssl__client_8h
     else if v = ''string__class_8c'' then Some nav_string__class_8c
     else if v = ''string__class_8h'' then Some nav_string__class_8h
     else if v = ''struct___c_queue'' then Some nav_struct___c_queue
     else if v = ''struct__configurator__server'' then Some nav_struct__configurator__server
     else None)"

end
