(* ===== verification/NavFiles3.thy ===== *)
theory NavFiles3
  imports NavData
begin

text \<open>
  Generated data files of the navigation tree, \<open>struct__system__thread__attr__t.js\<close> to \<open>utils_8h.js\<close>: each
  defines one variable of its own name, the list of the entries below one node. The last two
  definitions map the name of a variable to its list.
\<close>

definition nav_struct__system__thread__attr__t :: "nav_data list" where
  "nav_struct__system__thread__attr__t =
    [NavEntry ''name'' (Some ''struct__system__thread__attr__t.html#a379a3cbfe3eeb32b51bb6bae90edf984'') NoChildren,
     NavEntry ''priority'' (Some ''struct__system__thread__attr__t.html#a4475674eab6377892c6f1b6204d9979d'') NoChildren,
     NavEntry ''stack_loc'' (Some ''struct__system__thread__attr__t.html#a067e5da622dab67495c54084c3a48062'') NoChildren,
     NavEntry ''stack_size'' (Some ''struct__system__thread__attr__t.html#ab130225c1ecefc38938759d140c63cd3'') NoChildren]"

definition nav_struct_d_m___d_e_v_i_c_e :: "nav_data list" where
  "nav_struct_d_m___d_e_v_i_c_e =
    [NavEntry ''p_close_r'' (Some ''struct_d_m___d_e_v_i_c_e.html#a006a990cca224cde5290c8493124cf52'') NoChildren,
     NavEntry ''p_closedir_r'' (Some ''struct_d_m___d_e_v_i_c_e.html#ac0564eeee317694bf5863a148111e143'') NoChildren,
     NavEntry ''p_getaddr_r'' (Some ''struct_d_m___d_e_v_i_c_e.html#a5f70386a7fdf7f4caf758341ba95ad38'') NoChildren,
     NavEntry ''p_lseek_r'' (Some ''struct_d_m___d_e_v_i_c_e.html#a086d8aa52b606666c0ae32a3bdca8c6d'') NoChildren,
     NavEntry ''p_mkdir_r'' (Some ''struct_d_m___d_e_v_i_c_e.html#aeccd2a1db793d769a6a32fa0951bda17'') NoChildren,
     NavEntry ''p_open_r'' (Some ''struct_d_m___d_e_v_i_c_e.html#a110ca466165bd2aa8191a539763d3293'') NoChildren,
     NavEntry ''p_opendir_r'' (Some ''struct_d_m___d_e_v_i_c_e.html#a2c73f2fb41bc0c7cb4948f7224aa9191'') NoChildren,
     NavEntry ''p_read_r'' (Some ''struct_d_m___d_e_v_i_c_e.html#a62334a68570ff2aef58bfa16b5378820'') NoChildren,
     NavEntry ''p_readdir_r'' (Some ''struct_d_m___d_e_v_i_c_e.html#a91831519bd03aecc66a98b67bf8c2eb5'') NoChildren,
     NavEntry ''p_rename_r'' (Some ''struct_d_m___d_e_v_i_c_e.html#abf002d96a86ffebc296667b8005623ef'') NoChildren,
     NavEntry ''p_rmdir_r'' (Some ''struct_d_m___d_e_v_i_c_e.html#a076d52de95024c686b215ce4bf7314b7'') NoChildren,
     NavEntry ''p_unlink_r'' (Some ''struct_d_m___d_e_v_i_c_e.html#a08eee9b17ad7ea4f33fe8efef72e3412'') NoChildren,
     NavEntry ''p_write_r'' (Some ''struct_d_m___d_e_v_i_c_e.html#a2654da7d8a295f7543df51ce950dcc2a'') NoChildren]"

definition nav_struct_d_m___d_i_r :: "nav_data list" where
  "nav_struct_d_m___d_i_r =
    [NavEntry ''devid'' (Some ''struct_d_m___d_i_r.html#a0bd732c3e06f0190d455677ef546e2af'') NoChildren,
     NavEntry ''userdata'' (Some ''struct_d_m___d_i_r.html#a5bb95a594e653661e1d11b94a4f5735c'') NoChildren]"

definition nav_struct_d_m___i_n_s_t_a_n_c_e___d_a_t_a :: "nav_data list" where
  "nav_struct_d_m___i_n_s_t_a_n_c_e___d_a_t_a =
    [NavEntry ''name'' (Some ''struct_d_m___i_n_s_t_a_n_c_e___d_a_t_a.html#a6b966cfd1614f2c1858318e47583de38'') NoChildren,
     NavEntry ''pdata'' (Some ''struct_d_m___i_n_s_t_a_n_c_e___d_a_t_a.html#a8ae2a23b44ea1f85cd72445154f6a403'') NoChildren,
     NavEntry ''pdev'' (Some ''struct_d_m___i_n_s_t_a_n_c_e___d_a_t_a.html#a8da23af0e5b87249f724515c1c7487d5'') NoChildren]"

definition nav_struct_match_state :: "nav_data list" where
  "nav_struct_match_state =
    [NavEntry ''capture'' (Some ''struct_match_state.html#a124f459c7198823dac5416c701879e6e'') NoChildren,
     NavEntry ''init'' (Some ''struct_match_state.html#a2b63cea9c88925a59ba9680d8c615dd7'') NoChildren,
     NavEntry ''len'' (Some ''struct_match_state.html#af4c1ae5e7b90e726401874e9b2059a32'') NoChildren,
     NavEntry ''level'' (Some ''struct_match_state.html#a0f87e2f7accab0805741673e93654d7e'') NoChildren,
     NavEntry ''src_end'' (Some ''struct_match_state.html#a28b9c3fdaacf56755b78a95b0d1e2b88'') NoChildren,
     NavEntry ''src_init'' (Some ''struct_match_state.html#a8ad3eceb7c5e8dc9c07834470a4a31f4'') NoChildren]"

definition nav_structbdev :: "nav_data list" where
  "nav_structbdev =
    [NavEntry ''base_address'' (Some ''structbdev.html#a52f1923a18d1854a0beabbf316c9b92f'') NoChildren,
     NavEntry ''mass_erase'' (Some ''structbdev.html#aac9de50003f4d880c9102fc8195f7248'') NoChildren,
     NavEntry ''read'' (Some ''structbdev.html#a77560e72f9342ed09d6f50d89130c883'') NoChildren,
     NavEntry ''write'' (Some ''structbdev.html#a57137541082df48bce31900558ffdc84'') NoChildren]"

definition nav_structcapture :: "nav_data list" where
  "nav_structcapture =
    [NavEntry ''init'' (Some ''structcapture.html#a11dc7f0d20e86dc371d7e913196e94ad'') NoChildren,
     NavEntry ''len'' (Some ''structcapture.html#ae7f001d747a100fe5a2a4dedb49dcd39'') NoChildren]"

definition nav_structcbuffer__class :: "nav_data list" where
  "nav_structcbuffer__class =
    [NavEntry ''buffer'' (Some ''structcbuffer__class.html#a0df42abf2024609abe1c4805f57a3ecf'') NoChildren,
     NavEntry ''read_pointer'' (Some ''structcbuffer__class.html#a1dbacab251df98934cefcd79d39ad0ef'') NoChildren,
     NavEntry ''size'' (Some ''structcbuffer__class.html#a0e5094b5bc59aaab84585942f48427ba'') NoChildren,
     NavEntry ''write_pointer'' (Some ''structcbuffer__class.html#a0972318ed64610a2b90005ce50ee114d'') NoChildren]"

definition nav_structclient__dev :: "nav_data list" where
  "nav_structclient__dev =
    [NavEntry ''ctx'' (Some ''structclient__dev.html#a741725f39489c145caa630c164eee9fe'') NoChildren,
     NavEntry ''net_if'' (Some ''structclient__dev.html#acc27a6d6a4773e413bd84b21727344e0'') NoChildren,
     NavEntry ''self'' (Some ''structclient__dev.html#a672a9c4df04d75586f239f6e0483fae5'') NoChildren,
     NavEntry ''ssl'' (Some ''structclient__dev.html#a4c2d2a6bf74e73618b98d3a3e2b80ece'') NoChildren]"

definition nav_structclient__socket :: "nav_data list" where
  "nav_structclient__socket =
    [NavEntry ''CLOSED'' (Some ''structclient__socket.html#ad57918476c7afe9a9c6f1dccf8bea508a58b82bc132811f116f7e815eade60135'') NoChildren,
     NavEntry ''OPENED'' (Some ''structclient__socket.html#ad57918476c7afe9a9c6f1dccf8bea508a97ee1c84bc313705e4cd9e1f1e8426d4'') NoChildren,
     NavEntry ''DISCONNECTED'' (Some ''structclient__socket.html#ad57918476c7afe9a9c6f1dccf8bea508a97d6cf75a1f1b73bb87f31127c42f568'') NoChildren,
     NavEntry ''RECV_IN_PROGRESS'' (Some ''structclient__socket.html#ad57918476c7afe9a9c6f1dccf8bea508a0b2d6c6f7d2acf784f3a80433007945c'') NoChildren,
     NavEntry ''MESSAGE_RECVD'' (Some ''structclient__socket.html#ad57918476c7afe9a9c6f1dccf8bea508a2ab71cf83f1c5eec784075c10d54c873'') NoChildren,
     NavEntry ''SEND_IN_PROGRESS'' (Some ''structclient__socket.html#ad57918476c7afe9a9c6f1dccf8bea508a5bd853e1bb9d8c309e5a4e7a8fcabaa7'') NoChildren,
     NavEntry ''RESPONSE_SENT'' (Some ''structclient__socket.html#ad57918476c7afe9a9c6f1dccf8bea508a9f38f49fc7d63378f84610f9eda2b82a'') NoChildren,
     NavEntry ''HTTP_ERROR'' (Some ''structclient__socket.html#ad57918476c7afe9a9c6f1dccf8bea508a53eaaef59112d73517e4b44e46799f50'') NoChildren,
     NavEntry ''SOCKET_ERROR'' (Some ''structclient__socket.html#ad57918476c7afe9a9c6f1dccf8bea508aa80cac08f2ac81032790f9c8db6eeb99'') NoChildren,
     NavEntry ''header_field'' (Some ''structclient__socket.html#aa86865c6d8f4102f071298c5c0b5d1da'') NoChildren,
     NavEntry ''header_fields'' (Some ''structclient__socket.html#a483485151356a331bd1ccefffd148db5'') NoChildren,
     NavEntry ''header_value'' (Some ''structclient__socket.html#aa8380926e386ae93f65e21de7f019c58'') NoChildren,
     NavEntry ''parser'' (Some ''structclient__socket.html#a92ef8b77aedfaf44e7da18c3c103dfa9'') NoChildren,
     NavEntry ''response'' (Some ''structclient__socket.html#af3d956f1b690abbd38b745033cd38bdc'') NoChildren,
     NavEntry ''sent'' (Some ''structclient__socket.html#af7485b382a9056c75a3c969dc6ee18ad'') NoChildren,
     NavEntry ''socket'' (Some ''structclient__socket.html#af50b9ce1b59c85f8bad4f5c5604388fd'') NoChildren,
     NavEntry ''status'' (Some ''structclient__socket.html#a3a9aa54cfa5e7e247989ad86e2187828'') NoChildren]"

definition nav_structconfig__fs :: "nav_data list" where
  "nav_structconfig__fs =
    [NavEntry ''config_dev'' (Some ''structconfig__fs.html#abefaf7f9206c7264cc20b7aed25ece79'') NoChildren,
     NavEntry ''get_active_boot_image'' (Some ''structconfig__fs.html#ae526f54de4dbf0df7e6e879727758cca'') NoChildren,
     NavEntry ''get_started_flag'' (Some ''structconfig__fs.html#a62bd8096b852548371376c9529d3e1b1'') NoChildren,
     NavEntry ''get_updated_flag'' (Some ''structconfig__fs.html#a5b8312f7356b7a9fda7cc08f80319ec1'') NoChildren,
     NavEntry ''set_active_boot_image'' (Some ''structconfig__fs.html#a10897ac94e14a2698ea89e6653e7aa7d'') NoChildren,
     NavEntry ''set_started_flag'' (Some ''structconfig__fs.html#a63ceed7d51da2f94b518df0961ff46c1'') NoChildren,
     NavEntry ''set_updated_flag'' (Some ''structconfig__fs.html#ab50138e77ef369fbb0bc858ae3722bdf'') NoChildren]"

definition nav_structdevice__list :: "nav_data list" where
  "nav_structdevice__list =
    [NavEntry ''config'' (Some ''structdevice__list.html#a5652b1b4a2db8f8296b50d7dbee3187f'') NoChildren,
     NavEntry ''config_dev'' (Some ''structdevice__list.html#a8f7fa8edf80b47acf42786df374ffef3'') NoChildren,
     NavEntry ''debug_serial'' (Some ''structdevice__list.html#a90c6fbab7d21569c4f4f84410bb72b3e'') NoChildren,
     NavEntry ''flash_serial'' (Some ''structdevice__list.html#a28aa14c2e4fcdbb7ab31b134432e2b7c'') NoChildren,
     NavEntry ''ll_if'' (Some ''structdevice__list.html#aee1cb2492bc0e75349421e02a1ca9ce8'') NoChildren]"

definition nav_structdictionary__class :: "nav_data list" where
  "nav_structdictionary__class =
    [NavEntry ''root'' (Some ''structdictionary__class.html#aaed13c853bee53d97ab4bdb2f088faf3'') NoChildren]"

definition nav_structdm__dirent :: "nav_data list" where
  "nav_structdm__dirent =
    [NavEntry ''flags'' (Some ''structdm__dirent.html#a2647d60144b73f8756c18feb87b5de36'') NoChildren,
     NavEntry ''fname'' (Some ''structdm__dirent.html#ac91fbcb6f75e627670fe45b741591c6f'') NoChildren,
     NavEntry ''fsize'' (Some ''structdm__dirent.html#a9d3dc196369cb7f2875f3c7bbe1faf55'') NoChildren,
     NavEntry ''ftime'' (Some ''structdm__dirent.html#a054b043e6e987a9df697fc830559a2e6'') NoChildren]"

definition nav_structexo__request__args :: "nav_data list" where
  "nav_structexo__request__args =
    [NavEntry ''activate'' (Some ''structexo__request__args.html#af18b6cbdfa28e056879ee28eb8d8149b'') NoChildren,
     NavEntry ''alias'' (Some ''structexo__request__args.html#aaed170b373434a254ad199548099dbf4'') NoChildren,
     NavEntry ''app_type'' (Some ''structexo__request__args.html#aaf50078b644d9307d8ca37cd15112b33'') NoChildren,
     NavEntry ''callback'' (Some ''structexo__request__args.html#a91fbc400a7e28900bc94fcf961fcdeed'') NoChildren,
     NavEntry ''cik'' (Some ''structexo__request__args.html#ac6b9371942e1c55c4212d6fd8fde8e6e'') NoChildren,
     NavEntry ''clb_params'' (Some ''structexo__request__args.html#ae8a014037216c07fdeb05f6554d74b90'') NoChildren,
     NavEntry ''content'' (Some ''structexo__request__args.html#a84bce40bef29fd12665380bda77dda6e'') NoChildren,
     NavEntry ''exo'' (Some ''structexo__request__args.html#a9dfc5d85d98c1543f58c4c4580d01089'') NoChildren,
     NavEntry ''get_timestamp'' (Some ''structexo__request__args.html#a744eebbd504414a08d7e5fa37636791f'') NoChildren,
     NavEntry ''id'' (Some ''structexo__request__args.html#a809cfd75f903faaaa31c9cd2abbae047'') NoChildren,
     NavEntry ''message_id'' (Some ''structexo__request__args.html#a10da3940404c5ee12faade87e95fcd97'') NoChildren,
     NavEntry ''method'' (Some ''structexo__request__args.html#a4ab12b08060394e54983ed7167bb8557'') NoChildren,
     NavEntry ''model'' (Some ''structexo__request__args.html#a96a70e697800a855b1ec9bab6c255f5e'') NoChildren,
     NavEntry ''no_type'' (Some ''structexo__request__args.html#a3dceec3a607ab846872017d48f835c32'') NoChildren,
     NavEntry ''read'' (Some ''structexo__request__args.html#a3c7f6045f55276f7026f17e8b2bf6c45'') NoChildren,
     NavEntry ''server_api'' (Some ''structexo__request__args.html#a0b31a3b287e3738ee18c5dde21c64b3b'') NoChildren,
     NavEntry ''sn'' (Some ''structexo__request__args.html#ac74ac39218e72f4c88652adbc00c65f2'') NoChildren,
     NavEntry ''subscribe'' (Some ''structexo__request__args.html#a853be85f06f87735b01a3ff715d95e3a'') NoChildren,
     NavEntry ''subscribe_usr_callback'' (Some ''structexo__request__args.html#a8a885d488d7b1918b84404f1d679e303'') NoChildren,
     NavEntry ''timeout'' (Some ''structexo__request__args.html#a6271c4da956daa9e384105567950020e'') NoChildren,
     NavEntry ''timestamp'' (Some ''structexo__request__args.html#a338fd2aa5bed723d9baf705ec8cc2bb5'') NoChildren,
     NavEntry ''value'' (Some ''structexo__request__args.html#a7f2d771a96695e8eeb0d41dae29d2909'') NoChildren,
     NavEntry ''vendor'' (Some ''structexo__request__args.html#a3567e0e7dee740a58073da31dec9c0e9'') NoChildren,
     NavEntry ''write'' (Some ''structexo__request__args.html#a0504ddc0add39895e2636f86f5b072e2'') NoChildren]"

definition nav_structexosite__class :: "nav_data list" where
  "nav_structexosite__class =
    [NavEntry ''activate_request_attempts'' (Some ''structexosite__class.html#a7f6dcf5e876eda753ad257cfd52d47e6'') NoChildren,
     NavEntry ''activate_requests'' (Some ''structexosite__class.html#ad215fef64e4efd94c60da12aaa4fca23'') NoChildren,
     NavEntry ''activate_sm_mutex'' (Some ''structexosite__class.html#a248dbbf54885ecdcdbf43a0003b7ce0c'') NoChildren,
     NavEntry ''activate_state'' (Some ''structexosite__class.html#a3c30edc8aa80f3284e658cc576b93b06'') NoChildren,
     NavEntry ''asynch_state_event'' (Some ''structexosite__class.html#abe989a68b44ac5842b2db4d433797f05'') NoChildren,
     NavEntry ''cik'' (Some ''structexosite__class.html#aad964545a008f328012e069ab17118ff'') NoChildren,
     NavEntry ''last_activation_time'' (Some ''structexosite__class.html#ac808128decbb220848156672d1479aca'') NoChildren,
     NavEntry ''max_numberof_state_machines'' (Some ''structexosite__class.html#ad97e82e60cdd6277ccda96ea8467e5f0'') NoChildren,
     NavEntry ''model'' (Some ''structexosite__class.html#a987e55dd47e10140aff87335fe93fd26'') NoChildren,
     NavEntry ''next_state'' (Some ''structexosite__class.html#ad91bde114b4b1f8ecdd74a6b1fe22a2c'') NoChildren,
     NavEntry ''numberof_state_machines'' (Some ''structexosite__class.html#ae7089cde3eaee843e7f9f3bf65deee53'') NoChildren,
     NavEntry ''protocol_type'' (Some ''structexosite__class.html#ac267b80baf6b9951165b0651837e85f1'') NoChildren,
     NavEntry ''request_queue'' (Some ''structexosite__class.html#aed27c93ddee808a4dd4f6b0f7de52a3d'') NoChildren,
     NavEntry ''server_api'' (Some ''structexosite__class.html#a02c5428ffd45adeb5b07d004cdabd8da'') NoChildren,
     NavEntry ''sm_head'' (Some ''structexosite__class.html#a5f4e353be21735a22435653b68812c34'') NoChildren,
     NavEntry ''sn'' (Some ''structexosite__class.html#a6a6b5e30eccfbc5633aee9392f2e1618'') NoChildren,
     NavEntry ''subscribe_map'' (Some ''structexosite__class.html#a9bfdb9b2c16dd01f8ef69faeca83e4e4'') NoChildren,
     NavEntry ''timestamp'' (Some ''structexosite__class.html#ab9454728b86504545acec94a9ae323de'') NoChildren,
     NavEntry ''transmission_config'' (Some ''structexosite__class.html#a483e524506d8cb4de919e659ef9da31a'') NoChildren,
     NavEntry ''vendor'' (Some ''structexosite__class.html#af65c39ed491e7382d5f95fbe219525a6'') NoChildren]"

definition nav_structfd__seek :: "nav_data list" where
  "nav_structfd__seek =
    [NavEntry ''dir'' (Some ''structfd__seek.html#a6798ebb7b331cbd347825f438ac9dfc5'') NoChildren,
     NavEntry ''off'' (Some ''structfd__seek.html#afdf49eab6dbfc9763cbfb30c7613be7b'') NoChildren]"

definition nav_structheader__field__filter :: "nav_data list" where
  "nav_structheader__field__filter =
    [NavEntry ''clb'' (Some ''structheader__field__filter.html#a9333c37abf0659498b7ec92a39037912'') NoChildren,
     NavEntry ''header_field'' (Some ''structheader__field__filter.html#a41a0438f33b4f8bfcb2789f5319ef514'') NoChildren,
     NavEntry ''pattern'' (Some ''structheader__field__filter.html#a5fd03c317f31242478e0d895fa47a1a1'') NoChildren]"

definition nav_structheap__config :: "nav_data list" where
  "nav_structheap__config =
    [NavEntry ''id'' (Some ''structheap__config.html#ae66f9133ff4354d8adef645d5d2a5036'') NoChildren,
     NavEntry ''name'' (Some ''structheap__config.html#a83b03a9733c1bfad5e8d831e124690a4'') NoChildren,
     NavEntry ''size'' (Some ''structheap__config.html#ab7ba5d5b655e54f9378adfdc35e55935'') NoChildren]"

definition nav_structheap__space__class :: "nav_data list" where
  "nav_structheap__space__class =
    [NavEntry ''base'' (Some ''structheap__space__class.html#a1f6a620a946efa1178e960fd890e4d93'') NoChildren,
     NavEntry ''free'' (Some ''structheap__space__class.html#a252684f9b250042c03cba18d5a79e0f7'') NoChildren,
     NavEntry ''heap_tracker'' (Some ''structheap__space__class.html#aab1a19a520ea68ab83adf5086a2c27e1'') NoChildren,
     NavEntry ''heap_usage'' (Some ''structheap__space__class.html#a357011a291475746f9503d28a95764b2'') NoChildren,
     NavEntry ''id'' (Some ''structheap__space__class.html#a091f64987574f109d208e2584cd86296'') NoChildren,
     NavEntry ''malloc'' (Some ''structheap__space__class.html#a3c3a65d684fa191d9cefb32f93c55c98'') NoChildren,
     NavEntry ''name'' (Some ''structheap__space__class.html#a285e9308489e0ca5c34399f364621d85'') NoChildren,
     NavEntry ''peak_heap_usage'' (Some ''structheap__space__class.html#ad2474313cb12720d05926dc9e6bb35eb'') NoChildren,
     NavEntry ''realloc'' (Some ''structheap__space__class.html#a01caa82f209670110f067722bb889ee5'') NoChildren,
     NavEntry ''size'' (Some ''structheap__space__class.html#ab22b0cffeb943687f514d95491055d28'') NoChildren,
     NavEntry ''space'' (Some ''structheap__space__class.html#ae6584963ba34e990fe3371fdf7f91055'') NoChildren]"

definition nav_structhttp__context :: "nav_data list" where
  "nav_structhttp__context =
    [NavEntry ''request'' (Some ''structhttp__context.html#ab9e86519fde435f850b54db3383aab2d'') NoChildren,
     NavEntry ''socket'' (Some ''structhttp__context.html#af92694e5b8e20a407e1938dbe0614c33'') NoChildren]"

definition nav_structlink__layer__if :: "nav_data list" where
  "nav_structlink__layer__if =
    [NavEntry ''get_mac'' (Some ''structlink__layer__if.html#a3b555c5a53d2ee3461163154819c85e9'') NoChildren,
     NavEntry ''get_packet_nb'' (Some ''structlink__layer__if.html#a167bd62f9244e4d7a16515bcd7c3d23c'') NoChildren,
     NavEntry ''send_packet'' (Some ''structlink__layer__if.html#a8989beea5ebd78579cbca2347fb77891'') NoChildren,
     NavEntry ''unused'' (Some ''structlink__layer__if.html#a2364f9b40b72cf457bd80d80b7496b7b'') NoChildren]"

definition nav_structlist__head :: "nav_data list" where
  "nav_structlist__head =
    [NavEntry ''next'' (Some ''structlist__head.html#ac3b0ff0dfb978a0cfbdad6b9d19cdcfe'') NoChildren,
     NavEntry ''prev'' (Some ''structlist__head.html#aaa0eabda8877e1d6de73a33f223ad004'') NoChildren]"

definition nav_structmac__addr :: "nav_data list" where
  "nav_structmac__addr =
    [NavEntry ''addr_bytes'' (Some ''structmac__addr.html#ad3c2609cad6d7e8cce2b8f39c4bbdac1'') NoChildren]"

definition nav_structmallinfo :: "nav_data list" where
  "nav_structmallinfo =
    [NavEntry ''arena'' (Some ''structmallinfo.html#a2dd8e574430e788f53919db129f2a2ff'') NoChildren,
     NavEntry ''fordblks'' (Some ''structmallinfo.html#a2fc75bf31817d4a64d0a6970aa5278dd'') NoChildren,
     NavEntry ''fsmblks'' (Some ''structmallinfo.html#a6b1a33ff0fc95bdab9c79ce271f58003'') NoChildren,
     NavEntry ''hblkhd'' (Some ''structmallinfo.html#ab78bcaeb59449f1a9c292bfe3dde8dbb'') NoChildren,
     NavEntry ''hblks'' (Some ''structmallinfo.html#aaf01c52dcd016834ae176885fa32b550'') NoChildren,
     NavEntry ''keepcost'' (Some ''structmallinfo.html#a9cd2ce910ff603217426d9b1b7c0e430'') NoChildren,
     NavEntry ''ordblks'' (Some ''structmallinfo.html#afaac6d1e005097fa1ed835684e23bfa7'') NoChildren,
     NavEntry ''smblks'' (Some ''structmallinfo.html#a93076145f3f542dfe5e4e6d1e3feaf0b'') NoChildren,
     NavEntry ''uordblks'' (Some ''structmallinfo.html#a4676f74c10d8bf8b79585b04d520356f'') NoChildren,
     NavEntry ''usmblks'' (Some ''structmallinfo.html#a470a5e18a1f5eb3cac48020268ca49b8'') NoChildren]"

definition nav_structmbedtls__client__dev :: "nav_data list" where
  "nav_structmbedtls__client__dev =
    [NavEntry ''cacert'' (Some ''structmbedtls__client__dev.html#aeb693e438b6302ffba52494604bcd493'') NoChildren,
     NavEntry ''conf'' (Some ''structmbedtls__client__dev.html#aac1698cfd8273ed0ab9a2bf6c0df5ff7'') NoChildren,
     NavEntry ''connected'' (Some ''structmbedtls__client__dev.html#adc3a410f941053ea36f2e9d40ddad6ca'') NoChildren,
     NavEntry ''ctr_drbg'' (Some ''structmbedtls__client__dev.html#aa3893ec5afa0efcd8c8fbc0169c565d6'') NoChildren,
     NavEntry ''entropy'' (Some ''structmbedtls__client__dev.html#a8f92d11091c64ca8c17c5c600a899626'') NoChildren,
     NavEntry ''net_if'' (Some ''structmbedtls__client__dev.html#afd665272fae3c8ab3a8a9e5471a4c3fa'') NoChildren,
     NavEntry ''self'' (Some ''structmbedtls__client__dev.html#afc76b2d217090855aaef9b25fe2f8d21'') NoChildren,
     NavEntry ''ssl'' (Some ''structmbedtls__client__dev.html#a167deeb352c068e70c855db248b410be'') NoChildren]"

definition nav_structnet__dev__operations :: "nav_data list" where
  "nav_structnet__dev__operations =
    [NavEntry ''accept'' (Some ''structnet__dev__operations.html#aa7117040725691ab877bd629c4f133c1'') NoChildren,
     NavEntry ''close'' (Some ''structnet__dev__operations.html#a9fd6a9817d88fd545642a4c710c96c16'') NoChildren,
     NavEntry ''config'' (Some ''structnet__dev__operations.html#a17c6796bf622cedaeadf189a7b4b2bc8'') NoChildren,
     NavEntry ''connect'' (Some ''structnet__dev__operations.html#a017ea21464813e54d35f40cc2ac398ef'') NoChildren,
     NavEntry ''deinit'' (Some ''structnet__dev__operations.html#a317590ba68fea3e35f7f61c37536e106'') NoChildren,
     NavEntry ''lookup'' (Some ''structnet__dev__operations.html#a5ce9f3830007182982d99c6bd79411d4'') NoChildren,
     NavEntry ''recv'' (Some ''structnet__dev__operations.html#aca9b3c22e5ecdf5e0458a18dd6f07562'') NoChildren,
     NavEntry ''send'' (Some ''structnet__dev__operations.html#ae2a48d1cf3cb1d17097cb6a26de7fe78'') NoChildren,
     NavEntry ''server_socket'' (Some ''structnet__dev__operations.html#a936778ff19ef0234cc8b2b58dbdeb68e'') NoChildren,
     NavEntry ''set_identity'' (Some ''structnet__dev__operations.html#a9b673fe73e9041e3ba033fe9792fd998'') NoChildren,
     NavEntry ''socket'' (Some ''structnet__dev__operations.html#a2f5b1d769acebb45d85d712de02160c3'') NoChildren]"

definition nav_structnet__socket :: "nav_data list" where
  "nav_structnet__socket =
    [NavEntry ''addr'' (Some ''structnet__socket.html#a906b0dc6c99704ba90e0f3b1e1aaab39'') NoChildren,
     NavEntry ''already_started'' (Some ''structnet__socket.html#a43d206eab083ac59bffd45c34acb5033'') NoChildren,
     NavEntry ''connected'' (Some ''structnet__socket.html#a51823687b80ced9c16654ab93f561d3b'') NoChildren,
     NavEntry ''dtls'' (Some ''structnet__socket.html#a1f2f5eb54891234342bf3d4ceda7f698'') NoChildren,
     NavEntry ''non_blocking'' (Some ''structnet__socket.html#aceac1b2ee9517c972a9d84c17f4fa0bc'') NoChildren,
     NavEntry ''ops'' (Some ''structnet__socket.html#a36141c060ffc561b2b90377984e4ff54'') NoChildren,
     NavEntry ''port'' (Some ''structnet__socket.html#a8d6d86b48d9216989465d9f9505057b1'') NoChildren,
     NavEntry ''rflags'' (Some ''structnet__socket.html#ab964cba0295ccd244984ddc7605cca57'') NoChildren,
     NavEntry ''sockfd'' (Some ''structnet__socket.html#ac89a11feb66f89678637ad3c729344e2'') NoChildren,
     NavEntry ''wflags'' (Some ''structnet__socket.html#a0e354ca21b2dbee0799d270a94b96eaf'') NoChildren]"

definition nav_structnlist :: "nav_data list" where
  "nav_structnlist =
    [NavEntry ''name'' (Some ''structnlist.html#adae5489b500836e59f19fad605a63b07'') NoChildren,
     NavEntry ''next'' (Some ''structnlist.html#a6e5fbb2f12a2799e60611dbda92c6f38'') NoChildren,
     NavEntry ''prev'' (Some ''structnlist.html#a8e366bc78e31ada3a61b2dda92265643'') NoChildren,
     NavEntry ''value'' (Some ''structnlist.html#a27f17fc905fb827114fc59c508e1bac8'') NoChildren]"

definition nav_structnode :: "nav_data list" where
  "nav_structnode =
    [NavEntry ''key'' (Some ''structnode.html#a69c02a14f8fdbc19c86fcd22854a4bda'') NoChildren,
     NavEntry ''left'' (Some ''structnode.html#a3ce38490a651bfda86d88ff955e96abc'') NoChildren,
     NavEntry ''parent'' (Some ''structnode.html#a05e4fe9e0177ba2d8dbd2c487cfddd53'') NoChildren,
     NavEntry ''right'' (Some ''structnode.html#a875f75abfe22103500535b179828e4e3'') NoChildren,
     NavEntry ''value'' (Some ''structnode.html#a288a44aecd04d7839824d50a0b65982e'') NoChildren]"

definition nav_structpacket__buffer :: "nav_data list" where
  "nav_structpacket__buffer =
    [NavEntry ''max_packet_size'' (Some ''structpacket__buffer.html#ac554052de2bc161f9f446563b6da8955'') NoChildren,
     NavEntry ''packets'' (Some ''structpacket__buffer.html#a0870e2ca90debdc2bf75fa66eaaa116b'') NoChildren,
     NavEntry ''pool'' (Some ''structpacket__buffer.html#a078828dd6da33f0a4810689c3f2a23dc'') NoChildren,
     NavEntry ''read_index'' (Some ''structpacket__buffer.html#ab37ebc174b4cac36108d35efd479ba7f'') NoChildren,
     NavEntry ''size'' (Some ''structpacket__buffer.html#ad3eff0ecd0fbb687aab93a1aca531448'') NoChildren,
     NavEntry ''write_index'' (Some ''structpacket__buffer.html#aa51961ba241b84f5e4315ab1d45e6681'') NoChildren]"

definition nav_structpacket__buffer__entry :: "nav_data list" where
  "nav_structpacket__buffer__entry =
    [NavEntry ''buffer'' (Some ''structpacket__buffer__entry.html#a01757530937d11996527881ac7f79fc1'') NoChildren,
     NavEntry ''size'' (Some ''structpacket__buffer__entry.html#a8c0ab782e2aaf8fa1b71f4c2b6b7d664'') NoChildren]"

definition nav_structperiodic__clb__class :: "nav_data list" where
  "nav_structperiodic__clb__class =
    [NavEntry ''clb'' (Some ''structperiodic__clb__class.html#af9e2a744a0f5df6d5cf99755852994fc'') NoChildren,
     NavEntry ''cnt'' (Some ''structperiodic__clb__class.html#a599d04f87baf27fd4fa67084e7961e0d'') NoChildren,
     NavEntry ''id'' (Some ''structperiodic__clb__class.html#a5551defbb4f6610b87723845a2f95b2e'') NoChildren,
     NavEntry ''next'' (Some ''structperiodic__clb__class.html#a5b6a961cd55714808aded0d8b8907774'') NoChildren,
     NavEntry ''param'' (Some ''structperiodic__clb__class.html#a652bfa81276291f62fd5319f2691cabe'') NoChildren,
     NavEntry ''period'' (Some ''structperiodic__clb__class.html#a556461810a033e2ac8f7922f572395e6'') NoChildren,
     NavEntry ''shadow_next'' (Some ''structperiodic__clb__class.html#a6a56d137c8c41ac7475736eae8b98ffc'') NoChildren]"

definition nav_structperiodic__config__class :: "nav_data list" where
  "nav_structperiodic__config__class =
    [NavEntry ''rtc_period'' (Some ''structperiodic__config__class.html#ac68231502812b0106d0e03ec2323bb57'') NoChildren,
     NavEntry ''sm_period'' (Some ''structperiodic__config__class.html#a4b07310b4b4491059444259661d8876b'') NoChildren]"

definition nav_structpicocoap__context :: "nav_data list" where
  "nav_structpicocoap__context =
    [NavEntry ''request'' (Some ''structpicocoap__context.html#a3d4681bd982da02dc7840b2dafb6f491'') NoChildren,
     NavEntry ''socket'' (Some ''structpicocoap__context.html#a0d90aeab9c88771f64094937c68e7776'') NoChildren]"

definition nav_structprotocol__client__class :: "nav_data list" where
  "nav_structprotocol__client__class =
    [NavEntry ''ctx'' (Some ''structprotocol__client__class.html#ac5c44b3ebb931ee9cdcdb15c5e20f3ab'') NoChildren,
     NavEntry ''net_if'' (Some ''structprotocol__client__class.html#a283f3cb42e52f2a7b0d3a2db84255e0b'') NoChildren,
     NavEntry ''ops'' (Some ''structprotocol__client__class.html#af31fae5c6b03ff0d746d0bc26e0947a2'') NoChildren,
     NavEntry ''socket'' (Some ''structprotocol__client__class.html#aca8a898eaf07a43dee8627d50e1cf1ba'') NoChildren]"

definition nav_structprotocol__client__config__class :: "nav_data list" where
  "nav_structprotocol__client__config__class =
    [NavEntry ''appproto_type'' (Some ''structprotocol__client__config__class.html#aa08598d5d85304a2194062e3094f3607'') NoChildren,
     NavEntry ''exo_api'' (Some ''structprotocol__client__config__class.html#af1f10a95911f469f1d158319c89e0c71'') NoChildren,
     NavEntry ''name'' (Some ''structprotocol__client__config__class.html#a77de9c5cc28e9161d4f30b88de2acc1b'') NoChildren,
     NavEntry ''new'' (Some ''structprotocol__client__config__class.html#a2d4a27d9a5bbc97e99a554477640902e'') NoChildren,
     NavEntry ''rq_limit'' (Some ''structprotocol__client__config__class.html#acb5fbe20c2e29991014dbffd14d5417c'') NoChildren,
     NavEntry ''stype'' (Some ''structprotocol__client__config__class.html#aa5c8819aa979d74e7d70d0a175eddfcb'') NoChildren,
     NavEntry ''tproto_type'' (Some ''structprotocol__client__config__class.html#a6ee393b341b25e0dafc1304d8c226439'') NoChildren]"

definition nav_structprotocol__client__ops :: "nav_data list" where
  "nav_structprotocol__client__ops =
    [NavEntry ''clear_socket'' (Some ''structprotocol__client__ops.html#ad542416a5c24912de4b7e00076cfcb90'') NoChildren,
     NavEntry ''close'' (Some ''structprotocol__client__ops.html#ab797554943fe45937cbfbcecf826081a'') NoChildren,
     NavEntry ''get_response_status'' (Some ''structprotocol__client__ops.html#a5f5e7d71b6f6a3e212a896b32f31c022'') NoChildren,
     NavEntry ''recv_response'' (Some ''structprotocol__client__ops.html#aa6e33523f5190984e6a898eb90730e4e'') NoChildren,
     NavEntry ''send_request'' (Some ''structprotocol__client__ops.html#ac4c931fa75636fc811aecd5ca3139b00'') NoChildren,
     NavEntry ''set_socket'' (Some ''structprotocol__client__ops.html#adf92c0c94fe4567247e1e78936586614'') NoChildren]"

definition nav_structprotocol__client__request :: "nav_data list" where
  "nav_structprotocol__client__request =
    [NavEntry ''clb'' (Some ''structprotocol__client__request.html#a216c54997d9a5f55bff6e6d8e0917858'') NoChildren,
     NavEntry ''message_id'' (Some ''structprotocol__client__request.html#a6c0765786b41d747aae558dd13aca536'') NoChildren,
     NavEntry ''request'' (Some ''structprotocol__client__request.html#a942d582969a11f3e98a79c065e9c018e'') NoChildren,
     NavEntry ''request_args'' (Some ''structprotocol__client__request.html#ad49d9a37169b9ec9958d54943174421b'') NoChildren,
     NavEntry ''request_list'' (Some ''structprotocol__client__request.html#aac71782a6be124be255643497d9734e0'') NoChildren,
     NavEntry ''start_of_transmit'' (Some ''structprotocol__client__request.html#a0b684c3e232c6f4aa8d2b6e0549327a7'') NoChildren,
     NavEntry ''type'' (Some ''structprotocol__client__request.html#a56f3326db8513e2ed231107300150a27'') NoChildren]"

definition nav_structprotocol__client__response :: "nav_data list" where
  "nav_structprotocol__client__response =
    [NavEntry ''id'' (Some ''structprotocol__client__response.html#ac3b1c7e0b66499a5ea17db5b575fac7c'') NoChildren,
     NavEntry ''max_payload_size'' (Some ''structprotocol__client__response.html#abba561eeab6bdc6d59e77e1687d3c912'') NoChildren,
     NavEntry ''payload'' (Some ''structprotocol__client__response.html#ae65e59ec2796e797fc8b423abaa6b441'') NoChildren,
     NavEntry ''payload_size'' (Some ''structprotocol__client__response.html#a75f646539bc0a2f249f317013ea43210'') NoChildren,
     NavEntry ''request_type'' (Some ''structprotocol__client__response.html#ad9b91a24b0217ee69bcb92b7e066d019'') NoChildren,
     NavEntry ''response_code'' (Some ''structprotocol__client__response.html#a3f9cc66d63f22740024b7a6945e69fca'') NoChildren,
     NavEntry ''sm'' (Some ''structprotocol__client__response.html#aa311384c3d43d1052514fc2bfe2c0c76'') NoChildren,
     NavEntry ''status'' (Some ''structprotocol__client__response.html#a5e2239fd9d3b8de5b2073e6fdcf1dacb'') NoChildren]"

definition nav_structprotocol__client__sm__class :: "nav_data list" where
  "nav_structprotocol__client__sm__class =
    [NavEntry ''abort_done'' (Some ''structprotocol__client__sm__class.html#a12dbc99bfd1d50f54000f7d53bee251f'') NoChildren,
     NavEntry ''abort_transfers_in_progress'' (Some ''structprotocol__client__sm__class.html#a2ad126013be537f21e4cd2c23e266231'') NoChildren,
     NavEntry ''active_request'' (Some ''structprotocol__client__sm__class.html#a473312be971906fe7450682caf53454a'') NoChildren,
     NavEntry ''always_disconnect'' (Some ''structprotocol__client__sm__class.html#ab7b1dabe9eacf949e16f232f0f6d99cf'') NoChildren,
     NavEntry ''completed_request'' (Some ''structprotocol__client__sm__class.html#ad64595b06f22107e47dd4a5e0b8183c0'') NoChildren,
     NavEntry ''connected'' (Some ''structprotocol__client__sm__class.html#ae77dab290ba7c3cf54dbe6566bcca96d'') NoChildren,
     NavEntry ''host_ip'' (Some ''structprotocol__client__sm__class.html#a47727981a3519bc146c230d8b2677ba0'') NoChildren,
     NavEntry ''last_reset'' (Some ''structprotocol__client__sm__class.html#aa64ee650f876d3e0c47bb751f0f58626'') NoChildren,
     NavEntry ''name'' (Some ''structprotocol__client__sm__class.html#abaf91d9de34f4eda8eddcbaf18cf408f'') NoChildren,
     NavEntry ''net_if'' (Some ''structprotocol__client__sm__class.html#ae893aacad2ff0bbe09367d7280f0cc7f'') NoChildren,
     NavEntry ''paralell_request_limit'' (Some ''structprotocol__client__sm__class.html#a4542490514403a425cc68f283000de6b'') NoChildren,
     NavEntry ''protocol_client'' (Some ''structprotocol__client__sm__class.html#a4e838c3ca41b2dc5172c06703895ee24'') NoChildren,
     NavEntry ''response'' (Some ''structprotocol__client__sm__class.html#a81f18025b89d158d231d4350b4554db5'') NoChildren,
     NavEntry ''retry_cnt'' (Some ''structprotocol__client__sm__class.html#a83b3b8614a009c94a0578c856c4ad6c8'') NoChildren,
     NavEntry ''sent_request_list'' (Some ''structprotocol__client__sm__class.html#a6fce692787a7db2658b9a0cdd3b7cc7d'') NoChildren,
     NavEntry ''sent_request_num'' (Some ''structprotocol__client__sm__class.html#ac742c7bfc0d97e11acc5fed0ce65375a'') NoChildren,
     NavEntry ''server_name'' (Some ''structprotocol__client__sm__class.html#a223aa570c9348a48ac6fbe563000f549'') NoChildren,
     NavEntry ''server_port'' (Some ''structprotocol__client__sm__class.html#a406115994588efdead7ccd4bd32f02dd'') NoChildren,
     NavEntry ''sm_mutex'' (Some ''structprotocol__client__sm__class.html#ad74a348c01ab5c7368143ae19aaf27fd'') NoChildren,
     NavEntry ''socket'' (Some ''structprotocol__client__sm__class.html#a456cb05c22677b5fecb4c935aa319f2d'') NoChildren,
     NavEntry ''state'' (Some ''structprotocol__client__sm__class.html#a1b26fe62c977bbed585bb16b92e56d5d'') NoChildren,
     NavEntry ''timeouts'' (Some ''structprotocol__client__sm__class.html#ab8beec0eb52bc3f910e3ba28cf7ee79e'') NoChildren,
     NavEntry ''transfer_queue'' (Some ''structprotocol__client__sm__class.html#af44e5211d8efc0ee442df62bf71ec939'') NoChildren,
     NavEntry ''transmission_config'' (Some ''structprotocol__client__sm__class.html#a00b0da1b11309e4a66ccfeaeba27e58b'') NoChildren,
     NavEntry ''transmit_failures'' (Some ''structprotocol__client__sm__class.html#a9be85a433620f56e5211e6b264515a13'') NoChildren,
     NavEntry ''type'' (Some ''structprotocol__client__sm__class.html#ac56aca844b1beb0d9194e9a08b6314e5'') NoChildren]"

definition nav_structresponse__table__entry :: "nav_data list" where
  "nav_structresponse__table__entry =
    [NavEntry ''length'' (Some ''structresponse__table__entry.html#a4ada9cc6f1d3e4fb25a3d2787f657969'') NoChildren,
     NavEntry ''response'' (Some ''structresponse__table__entry.html#a9c57d2c2b61fafdbe85dc9518942926f'') NoChildren,
     NavEntry ''result_code'' (Some ''structresponse__table__entry.html#add5ae001d65d0b412366b958776b2ddc'') NoChildren,
     NavEntry ''valid'' (Some ''structresponse__table__entry.html#abbc1af55d7a0a11f55c3e50a139e043c'') NoChildren]"

definition nav_structsdev :: "nav_data list" where
  "nav_structsdev =
    [NavEntry ''base_address'' (Some ''structsdev.html#a46787df128b58d868311376bcd04d739'') NoChildren,
     NavEntry ''next'' (Some ''structsdev.html#afe3305accaef4765a7c0ad1cadeede34'') NoChildren,
     NavEntry ''read'' (Some ''structsdev.html#a43f8fd29f5d3438cca7244e291461289'') NoChildren,
     NavEntry ''write'' (Some ''structsdev.html#af3db0101f756546c78423d450da90f89'') NoChildren]"

definition nav_structserver__api__class :: "nav_data list" where
  "nav_structserver__api__class =
    [NavEntry ''api_ops'' (Some ''structserver__api__class.html#a544784c3730f51016647576b68e6c0e9'') NoChildren,
     NavEntry ''appproto_type'' (Some ''structserver__api__class.html#a61d76beae0e1bf475da1fa6760b48a18'') NoChildren,
     NavEntry ''name'' (Some ''structserver__api__class.html#a4dea164194e86353d9541b4831139857'') NoChildren,
     NavEntry ''new'' (Some ''structserver__api__class.html#a422de71a59ec445d5f6e93f95e3403b9'') NoChildren]"

definition nav_structserver__api__request__ops :: "nav_data list" where
  "nav_structserver__api__request__ops =
    [NavEntry ''request_delete'' (Some ''structserver__api__request__ops.html#aeb505fecc5a310ce1873bcd06471d9af'') NoChildren,
     NavEntry ''request_new'' (Some ''structserver__api__request__ops.html#abc1e5c854aa6738aa1d17a299a1b35aa'') NoChildren,
     NavEntry ''response_callback'' (Some ''structserver__api__request__ops.html#ab2fbf58614c5278e10fcd67bd174765e'') NoChildren]"

definition nav_structserver__data__class :: "nav_data list" where
  "nav_structserver__data__class =
    [NavEntry ''protocol_type'' (Some ''structserver__data__class.html#aed84f15d659cb6af80960fdc8123a44f'') NoChildren,
     NavEntry ''security'' (Some ''structserver__data__class.html#afc70c73843c63c3c6a9195acb5e3342a'') NoChildren,
     NavEntry ''server_name'' (Some ''structserver__data__class.html#aece1f4dd418bd5d83db629a66a2153c3'') NoChildren,
     NavEntry ''server_port'' (Some ''structserver__data__class.html#aea2bd70a53925d45c2d7794c4c3e23c6'') NoChildren]"

definition nav_structsm__list__item :: "nav_data list" where
  "nav_structsm__list__item =
    [NavEntry ''name'' (Some ''structsm__list__item.html#a3804ea88c7ad7e0055a76f425e9fe1ef'') NoChildren,
     NavEntry ''next'' (Some ''structsm__list__item.html#a1f838d7159dd9cbf64079b8041e360d7'') NoChildren,
     NavEntry ''sm'' (Some ''structsm__list__item.html#a2e3a4e704c56210def3d34736ab69bf4'') NoChildren,
     NavEntry ''type'' (Some ''structsm__list__item.html#a08b9c1193c944c07bd710aec94715f6c'') NoChildren]"

definition nav_structstring__class :: "nav_data list" where
  "nav_structstring__class =
    [NavEntry ''buffer'' (Some ''structstring__class.html#a9e9a0e6ec74a47fd7798e1d52e7f2550'') NoChildren,
     NavEntry ''bufsize'' (Some ''structstring__class.html#ac4db4b5814caa7694de95c2372bd6138'') NoChildren,
     NavEntry ''fixed_size'' (Some ''structstring__class.html#a9163999409ec358c7c68f15eb6709131'') NoChildren,
     NavEntry ''size'' (Some ''structstring__class.html#ae613681050f059baab072573f11fe705'') NoChildren]"

definition nav_structsubscribe__item :: "nav_data list" where
  "nav_structsubscribe__item =
    [NavEntry ''acknowledged'' (Some ''structsubscribe__item.html#a6c03492e98836f71a3327ad275ca15ff'') NoChildren,
     NavEntry ''args'' (Some ''structsubscribe__item.html#af3d6c40fe7f106d338a8ab6352e519ed'') NoChildren,
     NavEntry ''sent'' (Some ''structsubscribe__item.html#a7a731cc6df004020860b19c2630c3570'') NoChildren]"

definition nav_structtcp__buffer__class :: "nav_data list" where
  "nav_structtcp__buffer__class =
    [NavEntry ''cbuffer'' (Some ''structtcp__buffer__class.html#abd7e4ea92301da99f6e22db21f7b3b14'') NoChildren,
     NavEntry ''size'' (Some ''structtcp__buffer__class.html#a0832afdd06115db9b305a87c77d5472b'') NoChildren]"

definition nav_structthread__instance__args :: "nav_data list" where
  "nav_structthread__instance__args =
    [NavEntry ''threadCode'' (Some ''structthread__instance__args.html#ad67db7480b3029d668b374a483e297fe'') NoChildren,
     NavEntry ''threadParams'' (Some ''structthread__instance__args.html#a4a5a311022df0c23faccda2d8a3b23d1'') NoChildren]"

definition nav_structtransmission__config__class :: "nav_data list" where
  "nav_structtransmission__config__class =
    [NavEntry ''connect_retries'' (Some ''structtransmission__config__class.html#a43911be81d3678ac37486ed5d9b4e9e6'') NoChildren,
     NavEntry ''connect_timeout'' (Some ''structtransmission__config__class.html#a8b5e13338eb27c8e49c828e7115cc3d7'') NoChildren,
     NavEntry ''forced_activation'' (Some ''structtransmission__config__class.html#a2ff28d350c91e09b08be9f0239966b52'') NoChildren,
     NavEntry ''max_request_queue_size'' (Some ''structtransmission__config__class.html#a1064b8324df5a3ed09e97ebbee77db20'') NoChildren,
     NavEntry ''parallel_request_limit'' (Some ''structtransmission__config__class.html#a330f2b50ce5b3c811915fdadba95d37c'') NoChildren,
     NavEntry ''protocol_client_sm_queue_size'' (Some ''structtransmission__config__class.html#a4bb3b61887b537ee850a6f5339169444'') NoChildren,
     NavEntry ''security'' (Some ''structtransmission__config__class.html#af09ab7bf8d3101f310c13c0072b5f02b'') NoChildren,
     NavEntry ''transmission_retries'' (Some ''structtransmission__config__class.html#af4151a8902591e0f5b9f8507b4aaae7a'') NoChildren,
     NavEntry ''transmission_timeout'' (Some ''structtransmission__config__class.html#a0dbb57a5d1895dbe2293f1d24a3f93d4'') NoChildren]"

definition nav_structuip__state :: "nav_data list" where
  "nav_structuip__state =
    [NavEntry ''connect_started'' (Some ''structuip__state.html#a299134dd1ccf0e88c489cd4a20d95900'') NoChildren,
     NavEntry ''connected'' (Some ''structuip__state.html#a2f41038b3d851d3e9e58a32928df0fa0'') NoChildren,
     NavEntry ''inbuf'' (Some ''structuip__state.html#a796126ec28d3feb1dfbbfd0e5fae8dd9'') NoChildren,
     NavEntry ''inbuf_len'' (Some ''structuip__state.html#a384c2fab94ba8c73d541b01917aa3cd3'') NoChildren,
     NavEntry ''inbuf_max_len'' (Some ''structuip__state.html#a11d6541510926543b027c7fe4dd5b3ca'') NoChildren,
     NavEntry ''inptr'' (Some ''structuip__state.html#ae28daf4075d1ad7b4b7a333ebb0531b4'') NoChildren,
     NavEntry ''inuse'' (Some ''structuip__state.html#af9415d11e994ea4a778fc2544210bea3'') NoChildren,
     NavEntry ''len'' (Some ''structuip__state.html#ade7325764629bbea4a862a69957ad79a'') NoChildren,
     NavEntry ''non_blocking'' (Some ''structuip__state.html#a4ef60c2df07b5abb1a86d1ca940ae243'') NoChildren,
     NavEntry ''outbuf'' (Some ''structuip__state.html#a679897ec71e7421feeee6a29bbb6e103'') NoChildren,
     NavEntry ''outbuf_len'' (Some ''structuip__state.html#a59375a5321f9acf1a7be901d15f85bb9'') NoChildren,
     NavEntry ''outbuf_max_len'' (Some ''structuip__state.html#a34cb1b5505dae787fbf956b9f067beee'') NoChildren,
     NavEntry ''outptr'' (Some ''structuip__state.html#aa3635211a84ceebaec9f0010d4d7ff53'') NoChildren,
     NavEntry ''ptr'' (Some ''structuip__state.html#aeda3b44537b9dbab82e82eed4e1e58c1'') NoChildren,
     NavEntry ''readto'' (Some ''structuip__state.html#a91d2764af50d1c12e47062572e16c747'') NoChildren,
     NavEntry ''res'' (Some ''structuip__state.html#a72c92f67584764ab7f655175b9cdb709'') NoChildren,
     NavEntry ''state'' (Some ''structuip__state.html#a46cd1f0e6d30fb80be48d8dca6ce7d9f'') NoChildren,
     NavEntry ''tcp_inbuf'' (Some ''structuip__state.html#ad492b0e9098be6fae968c13ad972c978'') NoChildren,
     NavEntry ''with_buffer'' (Some ''structuip__state.html#a17d3087e5dc732af70015250241d5013'') NoChildren]"

definition nav_structwifi__settings :: "nav_data list" where
  "nav_structwifi__settings =
    [NavEntry ''OPEN'' (Some ''structwifi__settings.html#afb0f25fe5d5c0a8d6658a59b00cfc1c8a35399e653b4fc82050565587d15af295'') NoChildren,
     NavEntry ''WPA2'' (Some ''structwifi__settings.html#afb0f25fe5d5c0a8d6658a59b00cfc1c8a0c3a65f3cfb6b4972f421b445c7b707a'') NoChildren,
     NavEntry ''passpharase'' (Some ''structwifi__settings.html#a1ecb2b0ba66e404c577856ddb8c984d0'') NoChildren,
     NavEntry ''security'' (Some ''structwifi__settings.html#a6666158891102cd2a40c5515da609bc4'') NoChildren,
     NavEntry ''ssid'' (Some ''structwifi__settings.html#a3a01ea343f60a1a4d9200589fd6babba'') NoChildren]"

definition nav_system__utils_8c :: "nav_data list" where
  "nav_system__utils_8c =
    [NavEntry ''system_delay_and_poll'' (Some ''system__utils_8c.html#a73dd8fa42fa897b8c7226cf954e3d965'') NoChildren,
     NavEntry ''system_get_diff_time'' (Some ''system__utils_8c.html#ac2c7bbb10ec79feaeaa01b7a128beb36'') NoChildren,
     NavEntry ''system_is_cik_format_valid'' (Some ''system__utils_8c.html#a2e391d6625b10de37e81aed4995e0302'') NoChildren,
     NavEntry ''system_poll'' (Some ''system__utils_8c.html#abd723470d3686000632614e2f2c0fd80'') NoChildren]"

definition nav_system__utils_8h :: "nav_data list" where
  "nav_system__utils_8h =
    [NavEntry ''CIK_LENGTH'' (Some ''system__utils_8h.html#a61f28072627aed56c749851c085145c2'') NoChildren,
     NavEntry ''system_delay_and_poll'' (Some ''system__utils_8h.html#a93d3ad7efae2f983a54ae5264145c9a2'') NoChildren,
     NavEntry ''system_get_diff_time'' (Some ''system__utils_8h.html#ac2c7bbb10ec79feaeaa01b7a128beb36'') NoChildren,
     NavEntry ''system_is_cik_format_valid'' (Some ''system__utils_8h.html#a2e391d6625b10de37e81aed4995e0302'') NoChildren,
     NavEntry ''system_poll'' (Some ''system__utils_8h.html#abd723470d3686000632614e2f2c0fd80'') NoChildren,
     NavEntry ''system_print_version'' (Some ''system__utils_8h.html#ab49461016c7855b7353348a8525ef07f'') NoChildren]"

definition nav_tcp__buffer_8c :: "nav_data list" where
  "nav_tcp__buffer_8c =
    [NavEntry ''tcp_buffer_class'' (Some ''structtcp__buffer__class.html'') (ScriptVar ''structtcp__buffer__class''),
     NavEntry ''tcp_buffer_delete'' (Some ''tcp__buffer_8c.html#a6d191aca3ca006d60c27247bc9c734f1'') NoChildren,
     NavEntry ''tcp_buffer_get_free'' (Some ''tcp__buffer_8c.html#a7489d7d4726c351c19d2fd50ab13847c'') NoChildren,
     NavEntry ''tcp_buffer_get_used'' (Some ''tcp__buffer_8c.html#a6f61fe92245308031949dcc67e5720ba'') NoChildren,
     NavEntry ''tcp_buffer_new'' (Some ''tcp__buffer_8c.html#a4d516969837473d35f3a4351ec99b215'') NoChildren,
     NavEntry ''tcp_buffer_pop'' (Some ''tcp__buffer_8c.html#a0dd4511ed1c91af31789bca10d7c35e8'') NoChildren,
     NavEntry ''tcp_buffer_push'' (Some ''tcp__buffer_8c.html#ae7f0eb5e342504e94626fa9e87c8e95f'') NoChildren,
     NavEntry ''cbuffer_obj'' (Some ''tcp__buffer_8c.html#a20ca19d33ee73c6751fc34132f67fdae'') NoChildren]"

definition nav_tcp__buffer_8h :: "nav_data list" where
  "nav_tcp__buffer_8h =
    [NavEntry ''tcp_buffer_delete'' (Some ''tcp__buffer_8h.html#a6d191aca3ca006d60c27247bc9c734f1'') NoChildren,
     NavEntry ''tcp_buffer_get_free'' (Some ''tcp__buffer_8h.html#a7489d7d4726c351c19d2fd50ab13847c'') NoChildren,
     NavEntry ''tcp_buffer_get_used'' (Some ''tcp__buffer_8h.html#a6f61fe92245308031949dcc67e5720ba'') NoChildren,
     NavEntry ''tcp_buffer_new'' (Some ''tcp__buffer_8h.html#a4d516969837473d35f3a4351ec99b215'') NoChildren,
     NavEntry ''tcp_buffer_pop'' (Some ''tcp__buffer_8h.html#a0dd4511ed1c91af31789bca10d7c35e8'') NoChildren,
     NavEntry ''tcp_buffer_push'' (Some ''tcp__buffer_8h.html#ae7f0eb5e342504e94626fa9e87c8e95f'') NoChildren]"

definition nav_tdictionary_8c :: "nav_data list" where
  "nav_tdictionary_8c =
    [NavEntry ''node'' (Some ''structnode.html'') (ScriptVar ''structnode''),
     NavEntry ''dictionary_class'' (Some ''structdictionary__class.html'') (ScriptVar ''structdictionary__class''),
     NavEntry ''DEBUG_DICT'' (Some ''tdictionary_8c.html#a40e62743c7e7da0f6236fee69d794cc1'') NoChildren,
     NavEntry ''tree_log'' (Some ''tdictionary_8c.html#a53c759f2d4a59521571929ef03730fa0'') NoChildren,
     NavEntry ''dictionary_add'' (Some ''tdictionary_8c.html#a3796b34c8cc74864f790c6bbc87dc8db'') NoChildren,
     NavEntry ''dictionary_get_iterator'' (Some ''tdictionary_8c.html#a9ca1848c12632429cd8a05cb1e7b9356'') NoChildren,
     NavEntry ''dictionary_get_value'' (Some ''tdictionary_8c.html#a83cb57209142af0def99f0ff28f52bd3'') NoChildren,
     NavEntry ''dictionary_iterate'' (Some ''tdictionary_8c.html#a5aa7e02b70a46d5f8e112c051f63dae8'') NoChildren,
     NavEntry ''dictionary_lookup'' (Some ''tdictionary_8c.html#a1c287327eeab65bbfdda0fd2399a655f'') NoChildren,
     NavEntry ''dictionary_new'' (Some ''tdictionary_8c.html#a6834d7527fc6cf4dd287f8c51bc93157'') NoChildren,
     NavEntry ''dictionary_print'' (Some ''tdictionary_8c.html#a334bd741d35625861dd7af95e40e680f'') NoChildren,
     NavEntry ''dictionary_remove'' (Some ''tdictionary_8c.html#a397510bc2adbd6aa96a59a8e81a0a932'') NoChildren,
     NavEntry ''get_begin'' (Some ''tdictionary_8c.html#a5a60cfb47679ee1e3397f039ed756182'') NoChildren,
     NavEntry ''insert'' (Some ''tdictionary_8c.html#aad6781481670e1b4b431dca7a94e9156'') NoChildren,
     NavEntry ''lib_strdup'' (Some ''tdictionary_8c.html#a3afc72f1f0eebf96861c115fc1c6d3b8'') NoChildren,
     NavEntry ''lookup'' (Some ''tdictionary_8c.html#ae45c7ac7a6e13a760b7ae146836a41e5'') NoChildren,
     NavEntry ''node_new'' (Some ''tdictionary_8c.html#ae8b76877372a517eddcfa9b56731beab'') NoChildren,
     NavEntry ''print_inorder'' (Some ''tdictionary_8c.html#ae3b07659bf0eb2e9631a8ed49b5cbe12'') NoChildren]"

definition nav_ts__cbuffer_8h :: "nav_data list" where
  "nav_ts__cbuffer_8h =
    [NavEntry ''ts_cbuffer_delete'' (Some ''ts__cbuffer_8h.html#ad6e9c1cd3d49fa374e4f26857df6108f'') NoChildren,
     NavEntry ''ts_cbuffer_get_free'' (Some ''ts__cbuffer_8h.html#a0971fdc8382b814be46a2cd60931aaa1'') NoChildren,
     NavEntry ''ts_cbuffer_get_used'' (Some ''ts__cbuffer_8h.html#a5e002c83d58fddbb5268235f664e3b56'') NoChildren,
     NavEntry ''ts_cbuffer_new'' (Some ''ts__cbuffer_8h.html#a86dcbd1d167c3f979d08f7948fca7ccc'') NoChildren,
     NavEntry ''ts_cbuffer_pop'' (Some ''ts__cbuffer_8h.html#a9ae4a1535f5e7495d5530ccbd0f97488'') NoChildren,
     NavEntry ''ts_cbuffer_push'' (Some ''ts__cbuffer_8h.html#a6773a1abe116f2db101429fbe0eeb897'') NoChildren]"

definition nav_type_8h :: "nav_data list" where
  "nav_type_8h =
    [NavEntry ''FALSE'' (Some ''type_8h.html#aa93f0eb578d23995850d61f7d61c55c1'') NoChildren,
     NavEntry ''HANDLE'' (Some ''type_8h.html#ab521aa5010fb1afb801a899a55569e03'') NoChildren,
     NavEntry ''MAKE_STRING'' (Some ''type_8h.html#a8891ea0e3bc77416c6b07a01c331794c'') NoChildren,
     NavEntry ''NULL'' (Some ''type_8h.html#a070d2ce7b6bb7e5c05602aa8c308d0c4'') NoChildren,
     NavEntry ''PLATFORM_TIMER_SYS_MAX'' (Some ''type_8h.html#a0894ca2119e0285f23b13f1caf7f2a04'') NoChildren,
     NavEntry ''STRINGIFY'' (Some ''type_8h.html#a6df1d22fb5f09eccc23b9f399670cfd7'') NoChildren,
     NavEntry ''TRUE'' (Some ''type_8h.html#aa8cecfc5c5c054d2875c03e77b7be15d'') NoChildren,
     NavEntry ''BOOL'' (Some ''type_8h.html#ac3247c51e4e3de674affb32998e133e2'') NoChildren,
     NavEntry ''sys_time_t'' (Some ''type_8h.html#a92ecdce15ad4d83b5aca7e17ef0db09b'') NoChildren,
     NavEntry ''timer_data_type'' (Some ''type_8h.html#a0ec4cb8729af22c699b47792804947b7'') NoChildren]"

definition nav_uip__adapter__conf_8h :: "nav_data list" where
  "nav_uip__adapter__conf_8h =
    [NavEntry ''UIP_CONF_DEFGW0'' (Some ''uip__adapter__conf_8h.html#aa497ae51bdff1021f7780b477005ceaa'') NoChildren,
     NavEntry ''UIP_CONF_DEFGW1'' (Some ''uip__adapter__conf_8h.html#adfac0aadc6912259243bd5451ddabc9c'') NoChildren,
     NavEntry ''UIP_CONF_DEFGW2'' (Some ''uip__adapter__conf_8h.html#abccb52444edd5bf8c5d30f95630c1c04'') NoChildren,
     NavEntry ''UIP_CONF_DEFGW3'' (Some ''uip__adapter__conf_8h.html#ac5692a843ce9ba52684c2f83333313a1'') NoChildren,
     NavEntry ''UIP_CONF_DNS0'' (Some ''uip__adapter__conf_8h.html#a3c9e17e284bb9030cae208bc1a7e5af0'') NoChildren,
     NavEntry ''UIP_CONF_DNS1'' (Some ''uip__adapter__conf_8h.html#a34fd676fe8b8f284a124a98a84da6b38'') NoChildren,
     NavEntry ''UIP_CONF_DNS2'' (Some ''uip__adapter__conf_8h.html#ac63383383187048b6b73a382616617ba'') NoChildren,
     NavEntry ''UIP_CONF_DNS3'' (Some ''uip__adapter__conf_8h.html#aeb9c84de3bec6fb8c0d24d23f04f1a5f'') NoChildren,
     NavEntry ''UIP_CONF_IPADDR0'' (Some ''uip__adapter__conf_8h.html#a43973950b4507726aed3663c9767e9ff'') NoChildren,
     NavEntry ''UIP_CONF_IPADDR1'' (Some ''uip__adapter__conf_8h.html#ab510a117deb780715834a9a3ec0ebb78'') NoChildren,
     NavEntry ''UIP_CONF_IPADDR2'' (Some ''uip__adapter__conf_8h.html#a2c6bcaf92a7c2cfcb4611157ab82d9d3'') NoChildren,
     NavEntry ''UIP_CONF_IPADDR3'' (Some ''uip__adapter__conf_8h.html#a14a432f28385e73ab2dd5c81ebfb6835'') NoChildren,
     NavEntry ''UIP_CONF_NETMASK0'' (Some ''uip__adapter__conf_8h.html#a6b73f14ad6dd00cf8782b1de1dcd8f03'') NoChildren,
     NavEntry ''UIP_CONF_NETMASK1'' (Some ''uip__adapter__conf_8h.html#a66dc6adf46e6c3e73583c853f46be96f'') NoChildren,
     NavEntry ''UIP_CONF_NETMASK2'' (Some ''uip__adapter__conf_8h.html#abe75ba50f77b0f0cce42a8e834855f05'') NoChildren,
     NavEntry ''UIP_CONF_NETMASK3'' (Some ''uip__adapter__conf_8h.html#a9a605a11b6943cb615d655e228846f5b'') NoChildren]"

definition nav_unionatheros__net__ip :: "nav_data list" where
  "nav_unionatheros__net__ip =
    [NavEntry ''ipaddr'' (Some ''unionatheros__net__ip.html#abd2e7d29b78ac9ffa349714e3c0552fa'') NoChildren,
     NavEntry ''ipbytes'' (Some ''unionatheros__net__ip.html#ab73fed0f0ebcc26ebfc8f805be07d1e2'') NoChildren,
     NavEntry ''ipwords'' (Some ''unionatheros__net__ip.html#aaad7d11bc7739a4f4d0fcdeedbddcad2'') NoChildren]"

definition nav_unionuip__net__ip :: "nav_data list" where
  "nav_unionuip__net__ip =
    [NavEntry ''ipaddr'' (Some ''unionuip__net__ip.html#aa4d7f14afa975eac46b3e34d4bf007d5'') NoChildren,
     NavEntry ''ipbytes'' (Some ''unionuip__net__ip.html#ab81ff06342a108ddf0d99ba674020e0e'') NoChildren,
     NavEntry ''ipwords'' (Some ''unionuip__net__ip.html#a7ebff34162f1f7df5985341eb99d9e26'') NoChildren]"

definition nav_utils_8h :: "nav_data list" where
  "nav_utils_8h =
    [NavEntry ''ABSDIFF'' (Some ''utils_8h.html#a2de4f6bc21efefdc74d69adb0f058cfa'') NoChildren,
     NavEntry ''container_of'' (Some ''utils_8h.html#af8c317a42292b61c93aae91e59118a46'') NoChildren,
     NavEntry ''DUFF_DEVICE_8'' (Some ''utils_8h.html#a7e4f67775dbc3c86749d5b34761b9ee7'') NoChildren,
     NavEntry ''EXC_CATCH'' (Some ''utils_8h.html#a2280b51905ffea4be82413741c51332a'') NoChildren,
     NavEntry ''EXC_DECLARE'' (Some ''utils_8h.html#ab899e8962223c706bcad776009bdaa82'') NoChildren,
     NavEntry ''EXC_THROW'' (Some ''utils_8h.html#a7ef09e9e6786b59af5a82ed8c7eb911d'') NoChildren,
     NavEntry ''EXC_TRY'' (Some ''utils_8h.html#af6090442ea127999a6f20a6440be7fe0'') NoChildren,
     NavEntry ''STD_CTRLZ_CODE'' (Some ''utils_8h.html#ae7f93ffdf8dfc2c120528db5e82e5850'') NoChildren,
     NavEntry ''UABS'' (Some ''utils_8h.html#a081eb466e4e94b8930ebca0df511929e'') NoChildren,
     NavEntry ''UMAX'' (Some ''utils_8h.html#a3b5a861df38f6abb5e7b4864c4deac09'') NoChildren,
     NavEntry ''UMIN'' (Some ''utils_8h.html#a89c8e4b56d332e9e399d9c1a2d06a4e9'') NoChildren,
     NavEntry ''debug_utils_get_filename'' (Some ''utils_8h.html#a869947708423634650791302637c4614'') NoChildren]"

definition nav_files3a :: "string \<Rightarrow> nav_data list option" where
  "nav_files3a v =
    (if v = ''struct__system__thread__attr__t'' then Some nav_struct__system__thread__attr__t
     else if v = ''struct_d_m___d_e_v_i_c_e'' then Some nav_struct_d_m___d_e_v_i_c_e
     else if v = ''struct_d_m___d_i_r'' then Some nav_struct_d_m___d_i_r
     else if v = ''struct_d_m___i_n_s_t_a_n_c_e___d_a_t_a'' then Some nav_struct_d_m___i_n_s_t_a_n_c_e___d_a_t_a
     else if v = ''struct_match_state'' then Some nav_struct_match_state
     else if v = ''structbdev'' then Some nav_structbdev
     else if v = ''structcapture'' then Some nav_structcapture
     else if v = ''structcbuffer__class'' then Some nav_structcbuffer__class
     else if v = ''structclient__dev'' then Some nav_structclient__dev
     else if v = ''structclient__socket'' then Some nav_structclient__socket
     else if v = ''structconfig__fs'' then Some nav_structconfig__fs
     else if v = ''structdevice__list'' then Some nav_structdevice__list
     else if v = ''structdictionary__class'' then Some nav_structdictionary__class
     else if v = ''structdm__dirent'' then Some nav_structdm__dirent
     else if v = ''structexo__request__args'' then Some nav_structexo__request__args
     else if v = ''structexosite__class'' then Some nav_structexosite__class
     else if v = ''structfd__seek'' then Some nav_structfd__seek
     else if v = ''structheader__field__filter'' then Some nav_structheader__field__filter
     else if v = ''structheap__config'' then Some nav_structheap__config
     else if v = ''structheap__space__class'' then Some nav_structheap__space__class
     else if v = ''structhttp__context'' then Some nav_structhttp__context
     else if v = ''structlink__layer__if'' then Some nav_structlink__layer__if
     else if v = ''structlist__head'' then Some nav_structlist__head
     else if v = ''structmac__addr'' then Some nav_structmac__addr
     else if v = ''structmallinfo'' then Some nav_structmallinfo
     else if v = ''structmbedtls__client__dev'' then Some nav_structmbedtls__client__dev
     else if v = ''structnet__dev__operations'' then Some nav_structnet__dev__operations
     else if v = ''structnet__socket'' then Some nav_structnet__socket
     else if v = ''structnlist'' then Some nav_structnlist
     else if v = ''structnode'' then Some nav_structnode
     else if v = ''structpacket__buffer'' then Some nav_structpacket__buffer
     else if v = ''structpacket__buffer__entry'' then Some nav_structpacket__buffer__entry
     else None)"

definition nav_files3b :: "string \<Rightarrow> nav_data list option" where
  "nav_files3b v =
    (if v = ''structperiodic__clb__class'' then Some nav_structperiodic__clb__class
     else if v = ''structperiodic__config__class'' then Some nav_structperiodic__config__class
     else if v = ''structpicocoap__context'' then Some nav_structpicocoap__context
     else if v = ''structprotocol__client__class'' then Some nav_structprotocol__client__class
     else if v = ''structprotocol__client__config__class'' then Some nav_structprotocol__client__config__class
     else if v = ''structprotocol__client__ops'' then Some nav_structprotocol__client__ops
     else if v = ''structprotocol__client__request'' then Some nav_structprotocol__client__request
     else if v = ''structprotocol__client__response'' then Some nav_structprotocol__client__response
     else if v = ''structprotocol__client__sm__class'' then Some nav_structprotocol__client__sm__class
     else if v = ''structresponse__table__entry'' then Some nav_structresponse__table__entry
     else if v = ''structsdev'' then Some nav_structsdev
     else if v = ''structserver__api__class'' then Some nav_structserver__api__class
     else if v = ''structserver__api__request__ops'' then Some nav_structserver__api__request__ops
     else if v = ''structserver__data__class'' then Some nav_structserver__data__class
     else if v = ''structsm__list__item'' then Some nav_structsm__list__item
     else if v = ''structstring__class'' then Some nav_structstring__class
     else if v = ''structsubscribe__item'' then Some nav_structsubscribe__item
     else if v = ''structtcp__buffer__class'' then Some nav_structtcp__buffer__class
     else if v = ''structthread__instance__args'' then Some nav_structthread__instance__args
     else if v = ''structtransmission__config__class'' then Some nav_structtransmission__config__class
     else if v = ''structuip__state'' then Some nav_structuip__state
     else if v = ''structwifi__settings'' then Some nav_structwifi__settings
     else if v = ''system__utils_8c'' then Some nav_system__utils_8c
     else if v = ''system__utils_8h'' then Some nav_system__utils_8h
     else if v = ''tcp__buffer_8c'' then Some nav_tcp__buffer_8c
     else if v = ''tcp__buffer_8h'' then Some nav_tcp__buffer_8h
     else if v = ''tdictionary_8c'' then Some nav_tdictionary_8c
     else if v = ''ts__cbuffer_8h'' then Some nav_ts__cbuffer_8h
     else if v = ''type_8h'' then Some nav_type_8h
     else if v = ''uip__adapter__conf_8h'' then Some nav_uip__adapter__conf_8h
     else if v = ''unionatheros__net__ip'' then Some nav_unionatheros__net__ip
     else if v = ''unionuip__net__ip'' then Some nav_unionuip__net__ip
     else if v = ''utils_8h'' then Some nav_utils_8h
     else None)"

end
