(* ===== verification/NavFiles.thy ===== *)
theory NavFiles
  imports NavShow NavFiles0 NavFiles1 NavFiles2 NavFiles3
begin

text \<open>
  The variables that the generated data files define, and the comparison of an index table with the
  tree they make up: every key of the table leads, through the files, to the entry that links to
  it. The comparison groups the keys by their first index, so that each file is opened once.
\<close>

definition data_file :: "string \<Rightarrow> nav_data list option" where
  "data_file v =
    (if js_le ''heap__tracker_8h'' v
     then (if js_le ''struct__system__thread__attr__t'' v
           then (if js_le ''structperiodic__clb__class'' v
                 then nav_files3b v
                 else nav_files3a v)
           else (if js_le ''packet__buffer_8h'' v
                 then nav_files2b v
                 else nav_files2a v))
     else (if js_le ''error_8h'' v
           then (if js_le ''group___exosite___a_p_i'' v
                 then nav_files1b v
                 else nav_files1a v)
           else (if js_le ''dir_04ac16e32990e7b0365b3b7d643d7e2a'' v
                 then nav_files0b v
                 else nav_files0a v)))"

text \<open>The address an entry is indexed under: its link, or the listing of the file it describes.\<close>

definition source_page :: "string \<Rightarrow> string" where
  "source_page l = take (length l - 5) l @ ''_source.html''"

lemma source_page_code [code]:
  "source_page (c # d # e # f # g # h # s) = c # source_page (d # e # f # g # h # s)"
  "source_page [c, d, e, f, g] = ''_source.html''"
  "source_page [c, d, e, f] = ''_source.html''"
  "source_page [c, d, e] = ''_source.html''"
  "source_page [c, d] = ''_source.html''"
  "source_page [c] = ''_source.html''"
  "source_page [] = ''_source.html''"
  by (simp_all add: source_page_def)

text \<open>Equality of addresses, which the evaluation leaves alone: what is left is closed by
  reflexivity, in one step per address.\<close>

definition same_address :: "string \<Rightarrow> string \<Rightarrow> bool" where
  [code del]: "same_address u l \<longleftrightarrow> u = l"

lemma same_address_refl: "same_address u u = True"
  by (simp add: same_address_def)

text \<open>A conjunction of which both parts are evaluated.\<close>

definition both :: "bool \<Rightarrow> bool \<Rightarrow> bool" where
  [code del]: "both p q \<longleftrightarrow> p \<and> q"

definition own_entry :: "string \<Rightarrow> nav_data \<Rightarrow> bool" where
  "own_entry u e \<longleftrightarrow> both
     (case entryLink e of None \<Rightarrow> False | Some l \<Rightarrow> same_address u l \<or> same_address u (source_page l))
     (entryChildren e = NoChildren \<or> child_entries data_file (entryChildren e) \<noteq> None)"

section \<open>Keys grouped by their first index\<close>

type_synonym nav_keys = "(string \<times> path) list"

fun keep :: "bool \<Rightarrow> 'a \<Rightarrow> 'a list \<Rightarrow> 'a list" where
  "keep True x xs = x # xs"
| "keep False x xs = xs"

lemma keep_set [simp]: "x \<in> set (keep b y xs) \<longleftrightarrow> b \<and> x = y \<or> x \<in> set xs"
  by (cases b) auto

lemma keep_length: "length (keep b y xs) \<le> Suc (length xs)"
  by (cases b) auto

text \<open>The keys that lead below the child \<open>i\<close>, seen from there, and the other keys.\<close>

fun keys_below :: "nat \<Rightarrow> nav_keys \<Rightarrow> nav_keys" where
  "keys_below i ((u, j # k # p) # ks) = keep (i = j) (u, k # p) (keys_below i ks)"
| "keys_below i (x # ks) = keys_below i ks"
| "keys_below i [] = []"

fun keys_off :: "nat \<Rightarrow> nav_keys \<Rightarrow> nav_keys" where
  "keys_off i ((u, j # k # p) # ks) = keep (i \<noteq> j) (u, j # k # p) (keys_off i ks)"
| "keys_off i (x # ks) = x # keys_off i ks"
| "keys_off i [] = []"

lemma keys_split: "(u, p) \<in> set ks \<Longrightarrow>
    (u, p) \<in> set (keys_off i ks) \<or> (\<exists>q. p = i # q \<and> (u, q) \<in> set (keys_below i ks))"
  by (induction i ks rule: keys_off.induct) auto

lemma keys_off_length: "length (keys_off i ks) \<le> length ks"
  by (induction i ks rule: keys_off.induct) (auto intro: order_trans [OF keep_length])

fun nth_entry :: "nav_data list \<Rightarrow> nat \<Rightarrow> nav_data option" where
  "nth_entry [] i = None"
| "nth_entry (e # es) 0 = Some e"
| "nth_entry (e # es) (Suc i) = nth_entry es i"

lemma nth_entry_Some: "nth_entry es i = Some e \<longleftrightarrow> i < length es \<and> es ! i = e"
  by (induction es i rule: nth_entry.induct) auto

fun own_at :: "string \<Rightarrow> nav_data option \<Rightarrow> bool" where
  "own_at u None = False"
| "own_at u (Some e) = own_entry u e"

fun below_at :: "nav_data option \<Rightarrow> nav_data list option" where
  "below_at None = None"
| "below_at (Some e) = child_entries data_file (entryChildren e)"

text \<open>\<open>n\<close> bounds the depth. The alternatives are equations, not conditionals, so that the
  evaluation by rewriting visits each list of entries once.\<close>

function (sequential) leads :: "nat \<Rightarrow> nav_data list \<Rightarrow> nav_keys \<Rightarrow> bool"
  and leads_opt :: "nat \<Rightarrow> nav_data list option \<Rightarrow> nav_keys \<Rightarrow> bool" where
  "leads n es [] = True"
| "leads n es ((u, []) # ks) = False"
| "leads n es ((u, [j]) # ks) = both (own_at u (nth_entry es j)) (leads n es ks)"
| "leads n es ((u, j # k # p) # ks) =
     both (leads_opt n (below_at (nth_entry es j)) ((u, k # p) # keys_below j ks))
       (leads n es (keys_off j ks))"
| "leads_opt (Suc m) (Some es) ks = leads m es ks"
| "leads_opt m oes ks = False"
  by pat_completeness auto
termination
  by (relation "measures [\<lambda>x. case x of Inl (n, es, ks) \<Rightarrow> n | Inr (n, es, ks) \<Rightarrow> n,
      \<lambda>x. case x of Inl (n, es, ks) \<Rightarrow> length ks | Inr (n, es, ks) \<Rightarrow> 0]")
    (auto simp: le_imp_less_Suc keys_off_length)

lemma leads_entry:
  "leads n es ks \<Longrightarrow> (u, p) \<in> set ks \<Longrightarrow> \<exists>e. entry_at data_file es p = Some e \<and> own_entry u e"
  "leads_opt n oes ks \<Longrightarrow> (u, p) \<in> set ks \<Longrightarrow>
     \<exists>es e. oes = Some es \<and> entry_at data_file es p = Some e \<and> own_entry u e"
proof (induction n es ks and n oes ks arbitrary: p and p rule: leads_leads_opt.induct)
  case (3 n es v j ks)
  show ?case
  proof (cases "(u, p) = (v, [j])")
    case True
    with "3.prems"(1) show ?thesis by (auto simp: both_def nth_entry_Some elim!: own_at.elims)
  next
    case False
    with "3.IH" "3.prems" show ?thesis by (auto simp: both_def)
  qed
next
  case (4 n es v j k q ks)
  let ?sub = "(v, k # q) # keys_below j ks"
  from "4.prems"(2) have "(u, p) \<in> set (keys_off j ks) \<or> (\<exists>r. p = j # r \<and> (u, r) \<in> set ?sub)"
    using keys_split [of u p ks j] by auto
  then show ?case
  proof (elim disjE exE conjE)
    assume "(u, p) \<in> set (keys_off j ks)"
    with "4.IH"(2) "4.prems"(1) show ?thesis by (simp add: both_def)
  next
    fix r
    assume r: "p = j # r" "(u, r) \<in> set ?sub"
    from "4.IH"(1) [OF _ r(2)] "4.prems"(1) obtain es' e where
      e: "below_at (nth_entry es j) = Some es'" "entry_at data_file es' r = Some e" "own_entry u e" by (auto simp: both_def)
    from e(1) have "j < length es" "child_entries data_file (entryChildren (es ! j)) = Some es'"
      by (auto simp: nth_entry_Some elim!: below_at.elims)
    moreover from e(2) have "r \<noteq> []" by auto
    ultimately show ?thesis using e r(1) by auto
  qed
qed simp_all

text \<open>One part of a table. A key with an empty path belongs to the root of the tree.\<close>

fun root_keys :: "nav_index \<Rightarrow> nav_keys" where
  "root_keys [] = []"
| "root_keys ((u, p) # t) = keep (p \<noteq> []) (u, 0 # p) (root_keys t)"

lemma root_keys_set: "(u, p) \<in> set t \<Longrightarrow> p \<noteq> [] \<Longrightarrow> (u, 0 # p) \<in> set (root_keys t)"
  by (induction t rule: root_keys.induct) auto

definition leads_home :: "nav_index \<Rightarrow> bool" where
  "leads_home t \<longleftrightarrow> leads 9 NAVTREE (root_keys t)"

fun all_lead :: "nav_index list \<Rightarrow> bool" where
  "all_lead [] = True"
| "all_lead (t # ts) = both (leads_home t) (all_lead ts)"

lemma all_lead_iff: "all_lead ts \<longleftrightarrow> (\<forall>t \<in> set ts. leads_home t)"
  by (induction ts) (auto simp: both_def)

lemmas lead_rest = same_address_refl both_def source_page_code simp_thms

lemma leads_home_entry:
  assumes "leads_home t" "(u, p) \<in> set t" "p \<noteq> []"
  shows "\<exists>e. entry_at data_file NAVTREE (0 # p) = Some e \<and> own_entry u e"
  using leads_entry(1) [OF assms(1) [unfolded leads_home_def] root_keys_set [OF assms(2,3)]] by simp

end
