(* ===== verification/NavIndex0.thy ===== *)
theory NavIndex0
  imports NavData
begin

text \<open>
  The generated index table \<open>navtreeindex0.js\<close>, in two parts, and the fact that the loop of
  \<open>navTo\<close> sends every key of it to this table.
\<close>

definition navtreeindex0a :: nav_index where
  "navtreeindex0a =
     [(''annotated.html'', [7, 0]),
      (''atheros__net_8h_source.html'', [8, 0, 2, 0, 0, 0]),
      (''atheros__port_8c.html'', [8, 0, 2, 0, 0, 1]),
      (''ca-cert_8h_source.html'', [8, 0, 3, 2, 0]),
      (''cbuffer_8c.html'', [8, 0, 3, 1, 0]),
      (''cbuffer_8c.html#a2d7144c62c574f0970d593bc576446e1'', [8, 0, 3, 1, 0, 5]),
      (''cbuffer_8c.html#a80ff3b6e58e146387739a28ee6bde496'', [8, 0, 3, 1, 0, 3]),
      (''cbuffer_8c.html#a8a5e3d2b62d8b7ec7ca5469a7c5d9f9a'', [8, 0, 3, 1, 0, 1]),
      (''cbuffer_8c.html#aa26249031a802071f9eac3f03ddb7a1c'', [8, 0, 3, 1, 0, 2]),
      (''cbuffer_8c.html#ae5612c4ecab13e51a3cb0792c6907317'', [8, 0, 3, 1, 0, 6]),
      (''cbuffer_8c.html#af0cafb24f63fcd82c108b23050fe6622'', [8, 0, 3, 1, 0, 4]),
      (''cbuffer_8h.html'', [8, 0, 3, 0, 1, 0]),
      (''cbuffer_8h.html#a4ea8dc3cbd7e8f517f56c8e31e37098d'', [8, 0, 3, 0, 1, 0, 5]),
      (''cbuffer_8h.html#a80ff3b6e58e146387739a28ee6bde496'', [8, 0, 3, 0, 1, 0, 2]),
      (''cbuffer_8h.html#a87b371ad832db31b46209bf853c71bfb'', [8, 0, 3, 0, 1, 0, 4]),
      (''cbuffer_8h.html#a8a5e3d2b62d8b7ec7ca5469a7c5d9f9a'', [8, 0, 3, 0, 1, 0, 0]),
      (''cbuffer_8h.html#aa26249031a802071f9eac3f03ddb7a1c'', [8, 0, 3, 0, 1, 0, 1]),
      (''cbuffer_8h.html#af0cafb24f63fcd82c108b23050fe6622'', [8, 0, 3, 0, 1, 0, 3]),
      (''cbuffer_8h_source.html'', [8, 0, 3, 0, 1, 0]),
      (''classes.html'', [7, 1]),
      (''client__config_8c.html'', [8, 0, 3, 4]),
      (''client__config_8c.html#a05cdb74a1adfd47a6a5ce3576b47127d'', [8, 0, 3, 4, 4]),
      (''client__config_8c.html#a100e0ab1d8bcbd5779ed7ee0f8dc4045'', [8, 0, 3, 4, 3]),
      (''client__config_8c.html#a18c574db255718397b4d6bc65ddddb08'', [8, 0, 3, 4, 18]),
      (''client__config_8c.html#a252b2cb72531cb00ecd4d4db37a5a473'', [8, 0, 3, 4, 1]),
      (''client__config_8c.html#a454f969d9aab3198f064d6c48d121570'', [8, 0, 3, 4, 23]),
      (''client__config_8c.html#a5edb2fdb88125c1c6adfd14ea1cde312'', [8, 0, 3, 4, 0]),
      (''client__config_8c.html#a5ee8dbda58c4714067c35f664f5a600d'', [8, 0, 3, 4, 24]),
      (''client__config_8c.html#a78350433d123287f55af87e1223d38e5'', [8, 0, 3, 4, 22]),
      (''client__config_8c.html#a7b0df01f44d2fd37f0b4b2179c09f69a'', [8, 0, 3, 4, 17]),
      (''client__config_8c.html#a960fe16594362c852a507668b96820c9'', [8, 0, 3, 4, 14]),
      (''client__config_8c.html#a9931f2159d63c548c60d30ff1aa0c89f'', [8, 0, 3, 4, 16]),
      (''client__config_8c.html#a9c5a1927a18c4ef85da348e9e5b0b77d'', [8, 0, 3, 4, 12]),
      (''client__config_8c.html#ab06cee2ba0d76c15765a6e4e500a9b9c'', [8, 0, 3, 4, 15]),
      (''client__config_8c.html#abc5a447271811dc0cbfcb3e80e4a3a89'', [8, 0, 3, 4, 2]),
      (''client__config_8c.html#acb5ccb31638cdc0e1863bd27a3fd6acf'', [8, 0, 3, 4, 20]),
      (''client__config_8c.html#acf6f5dc40635e3ae0f3f8f3ed1822918'', [8, 0, 3, 4, 19]),
      (''client__config_8c.html#ad741a21703155842220b2623d358e45a'', [8, 0, 3, 4, 5]),
      (''client__config_8c.html#adcbad00b17e6ffa81169735d65be0d3a'', [8, 0, 3, 4, 21]),
      (''client__config_8c.html#ae84592975f71f23e0f3f6e55c37814ac'', [8, 0, 3, 4, 13]),
      (''client__config_8c.html#aefe8531ed840e6f83e8725c8be8fbe7b'', [8, 0, 3, 4, 25]),
      (''client__config_8h_source.html'', [8, 0, 3, 0, 2]),
      (''common__defines_8h.html'', [8, 0, 3, 0, 1, 1]),
      (''common__defines_8h.html#a055fa550e08799c557e9758c8e7fb33b'', [8, 0, 3, 0, 1, 1, 0]),
      (''common__defines_8h.html#a1a14f2ab6e23e263754ecca29d5114f1'', [8, 0, 3, 0, 1, 1, 6]),
      (''common__defines_8h.html#a1cc9468e05bece36e61907abe60c9c38'', [8, 0, 3, 0, 1, 1, 1]),
      (''common__defines_8h.html#a4407b4d6eae3ba7fe9538b1242a7e165'', [8, 0, 3, 0, 1, 1, 4]),
      (''common__defines_8h.html#a49bce9dafa991fde5616257caa9e3c4a'', [8, 0, 3, 0, 1, 1, 2]),
      (''common__defines_8h.html#a722eaa2d34b5468859b5556359116f48'', [8, 0, 3, 0, 1, 1, 3]),
      (''common__defines_8h.html#a8a4e4885193c12b840ff3cbedec2451d'', [8, 0, 3, 0, 1, 1, 7]),
      (''common__defines_8h.html#aebd07260354e7800236116a0496bd6c5'', [8, 0, 3, 0, 1, 1, 5]),
      (''common__defines_8h_source.html'', [8, 0, 3, 0, 1, 1]),
      (''concurrent__queue_8c.html'', [8, 0, 3, 1, 1]),
      (''concurrent__queue_8c.html#a082c71e2ae633f79f9c5e8b9cfd1ca2e'', [8, 0, 3, 1, 1, 5]),
      (''concurrent__queue_8c.html#a13d1b13d62b14239a6a51f5ef05d4931'', [8, 0, 3, 1, 1, 4]),
      (''concurrent__queue_8c.html#a32daa322af17d03980a5ec0911c033c9'', [8, 0, 3, 1, 1, 8]),
      (''concurrent__queue_8c.html#a8133cf05c1694eb2e705fb6742e0c954'', [8, 0, 3, 1, 1, 10]),
      (''concurrent__queue_8c.html#ab93ede1a512270842a3eeb3e3949fcae'', [8, 0, 3, 1, 1, 7]),
      (''concurrent__queue_8c.html#abe1739d6f365fbfe314e2c4d85ab9581'', [8, 0, 3, 1, 1, 1]),
      (''concurrent__queue_8c.html#ace59eba8e971fb368533dc253a6f1639'', [8, 0, 3, 1, 1, 2]),
      (''concurrent__queue_8c.html#ad14c5bc780bcc13a4112e98e3cc6db09'', [8, 0, 3, 1, 1, 3]),
      (''concurrent__queue_8c.html#adfb372b4fe6a5e0e298cd3906feb4a8f'', [8, 0, 3, 1, 1, 6]),
      (''concurrent__queue_8c.html#ae5c730edc25b36ccf16e0745e915af26'', [8, 0, 3, 1, 1, 9]),
      (''concurrent__queue_8h.html'', [8, 0, 3, 0, 1, 2]),
      (''concurrent__queue_8h.html#a082c71e2ae633f79f9c5e8b9cfd1ca2e'', [8, 0, 3, 0, 1, 2, 7]),
      (''concurrent__queue_8h.html#a13d1b13d62b14239a6a51f5ef05d4931'', [8, 0, 3, 0, 1, 2, 6]),
      (''concurrent__queue_8h.html#a32daa322af17d03980a5ec0911c033c9'', [8, 0, 3, 0, 1, 2, 10]),
      (''concurrent__queue_8h.html#a8133cf05c1694eb2e705fb6742e0c954'', [8, 0, 3, 0, 1, 2, 12]),
      (''concurrent__queue_8h.html#aa946bef772d46cd7423e5aa3fdc9b0a3'', [8, 0, 3, 0, 1, 2, 0]),
      (''concurrent__queue_8h.html#ab93ede1a512270842a3eeb3e3949fcae'', [8, 0, 3, 0, 1, 2, 9]),
      (''concurrent__queue_8h.html#abe1739d6f365fbfe314e2c4d85ab9581'', [8, 0, 3, 0, 1, 2, 3]),
      (''concurrent__queue_8h.html#ace59eba8e971fb368533dc253a6f1639'', [8, 0, 3, 0, 1, 2, 4]),
      (''concurrent__queue_8h.html#ad14c5bc780bcc13a4112e98e3cc6db09'', [8, 0, 3, 0, 1, 2, 5]),
      (''concurrent__queue_8h.html#ad17a3090f35e87f09c27ee0a136f8743'', [8, 0, 3, 0, 1, 2, 1]),
      (''concurrent__queue_8h.html#adfb372b4fe6a5e0e298cd3906feb4a8f'', [8, 0, 3, 0, 1, 2, 8]),
      (''concurrent__queue_8h.html#ae5c730edc25b36ccf16e0745e915af26'', [8, 0, 3, 0, 1, 2, 11]),
      (''concurrent__queue_8h.html#aefc9faa4cd22e3979d9401bb6f2955ee'', [8, 0, 3, 0, 1, 2, 2]),
      (''concurrent__queue_8h_source.html'', [8, 0, 3, 0, 1, 2]),
      (''config_8h.html'', [8, 0, 3, 0, 0, 0]),
      (''config_8h_source.html'', [8, 0, 3, 0, 0, 0]),
      (''config__cyassl_8h.html'', [8, 0, 3, 0, 0, 1]),
      (''config__cyassl_8h.html#a03af94e90933761ea641e2ff4785e92b'', [8, 0, 3, 0, 0, 1, 10]),
      (''config__cyassl_8h.html#a06f3f162bfbd41b1cdc1a29130d0cc7a'', [8, 0, 3, 0, 0, 1, 12]),
      (''config__cyassl_8h.html#a0b5f6f89c67931193942dc3dc929fe17'', [8, 0, 3, 0, 0, 1, 4]),
      (''config__cyassl_8h.html#a2683f7f5c4e8a60f4c92541969851507'', [8, 0, 3, 0, 0, 1, 1]),
      (''config__cyassl_8h.html#a3c0eb63307250fcdc3bb40cf342cfcc9'', [8, 0, 3, 0, 0, 1, 17]),
      (''config__cyassl_8h.html#a45af1e3d5329309a0a02e455b9497930'', [8, 0, 3, 0, 0, 1, 6]),
      (''config__cyassl_8h.html#a4ac30654e67e206d019dc7949c3fb524'', [8, 0, 3, 0, 0, 1, 11]),
      (''config__cyassl_8h.html#a56504bff07ab22b60e12175b06fb6930'', [8, 0, 3, 0, 0, 1, 9]),
      (''config__cyassl_8h.html#a5af8613455f8fe5fcaed941bf2532072'', [8, 0, 3, 0, 0, 1, 3]),
      (''config__cyassl_8h.html#a6a66bb85a847abdaf6f837ccd16320fd'', [8, 0, 3, 0, 0, 1, 2]),
      (''config__cyassl_8h.html#a6bc2cc41a5932c347f119282ea9cb728'', [8, 0, 3, 0, 0, 1, 5]),
      (''config__cyassl_8h.html#a6fcd232e7c921bffec06f3398959a3a5'', [8, 0, 3, 0, 0, 1, 22]),
      (''config__cyassl_8h.html#a77e8846d00607f5e457ae6ba88a981ad'', [8, 0, 3, 0, 0, 1, 15]),
      (''config__cyassl_8h.html#a7cb2bc5dd18d959101fbf0fdf47bcbcb'', [8, 0, 3, 0, 0, 1, 16]),
      (''config__cyassl_8h.html#a7f104765d6a3301af5bf519cf5cf8eaa'', [8, 0, 3, 0, 0, 1, 13]),
      (''config__cyassl_8h.html#a95d6f182a8e0e7324a1b424e2ec6d8de'', [8, 0, 3, 0, 0, 1, 14]),
      (''config__cyassl_8h.html#abea6eca7ea86b9aea0f1662b71eecc92'', [8, 0, 3, 0, 0, 1, 21]),
      (''config__cyassl_8h.html#ad136c89fde7a7561cb617fb71b6c240b'', [8, 0, 3, 0, 0, 1, 20]),
      (''config__cyassl_8h.html#ad396dd5f1d22ba9a948f9dcd9296c73c'', [8, 0, 3, 0, 0, 1, 7]),
      (''config__cyassl_8h.html#ad821d3823a5f6bfe9a1b54e7307fb9b9'', [8, 0, 3, 0, 0, 1, 0]),
      (''config__cyassl_8h.html#aed916aa8b71fbdcf140051cf0ac47611'', [8, 0, 3, 0, 0, 1, 8]),
      (''config__cyassl_8h.html#af4b5801a4c9128b19e3c604bc04bd0b0'', [8, 0, 3, 0, 0, 1, 19]),
      (''config__cyassl_8h.html#af6185694e805fc231df5e0a19c07b9d7'', [8, 0, 3, 0, 0, 1, 18]),
      (''config__cyassl_8h_source.html'', [8, 0, 3, 0, 0, 1]),
      (''config__mbedtls_8h.html'', [8, 0, 3, 0, 0, 2]),
      (''config__mbedtls_8h.html#a02bfffc46b7b2e10c0080d29bb56e6b0'', [8, 0, 3, 0, 0, 2, 34]),
      (''config__mbedtls_8h.html#a035227f1c3c88103fdb13621e9a5df51'', [8, 0, 3, 0, 0, 2, 45]),
      (''config__mbedtls_8h.html#a04d813ba9404e494a175e14a675cf711'', [8, 0, 3, 0, 0, 2, 50]),
      (''config__mbedtls_8h.html#a056eb2e0e44147c2df7ec5a4c0c8b152'', [8, 0, 3, 0, 0, 2, 20]),
      (''config__mbedtls_8h.html#a0960129d0cf6e043a1cbc7c41d7c2297'', [8, 0, 3, 0, 0, 2, 38]),
      (''config__mbedtls_8h.html#a09eefef8f4562ba86a9c7a47c114ddaa'', [8, 0, 3, 0, 0, 2, 41]),
      (''config__mbedtls_8h.html#a0afb3cbe18e3ad5abde001c32f319d12'', [8, 0, 3, 0, 0, 2, 25]),
      (''config__mbedtls_8h.html#a0d2a3e0e00f099a570fa56a0c4cf0d35'', [8, 0, 3, 0, 0, 2, 30]),
      (''config__mbedtls_8h.html#a0dcc79b4e757e34d2a625470fb016e18'', [8, 0, 3, 0, 0, 2, 40]),
      (''config__mbedtls_8h.html#a0e14e10966cfd209e80d66a16b6c94ec'', [8, 0, 3, 0, 0, 2, 27]),
      (''config__mbedtls_8h.html#a17195cf7384dbcab5bae3f1d2971fb03'', [8, 0, 3, 0, 0, 2, 33]),
      (''config__mbedtls_8h.html#a1cceb2b05fcbf777d24948d63a1aa74c'', [8, 0, 3, 0, 0, 2, 5]),
      (''config__mbedtls_8h.html#a24884ce4da3fed0ceff29962dd7a01fc'', [8, 0, 3, 0, 0, 2, 28]),
      (''config__mbedtls_8h.html#a311e2a994e4e5f25b550e170ca9605e0'', [8, 0, 3, 0, 0, 2, 52]),
      (''config__mbedtls_8h.html#a38112435a93c8cf0e9c9e9c15cb3f516'', [8, 0, 3, 0, 0, 2, 48]),
      (''config__mbedtls_8h.html#a3a85a85a23a2b5935e97d400d224eac5'', [8, 0, 3, 0, 0, 2, 18]),
      (''config__mbedtls_8h.html#a493cf54dbd2c093c8541b1ad106436e9'', [8, 0, 3, 0, 0, 2, 9]),
      (''config__mbedtls_8h.html#a4a186eda38ce80f484524f3f12de2923'', [8, 0, 3, 0, 0, 2, 7]),
      (''config__mbedtls_8h.html#a4a5b73bae4d762a05684812ad6c6b1b2'', [8, 0, 3, 0, 0, 2, 49])]"

definition navtreeindex0b :: nav_index where
  "navtreeindex0b =
     [(''config__mbedtls_8h.html#a4e31bcb46f4cd29deced2ef3ef6a8925'', [8, 0, 3, 0, 0, 2, 31]),
      (''config__mbedtls_8h.html#a5234a2a9d84b7b6c8de05f1494ead4d7'', [8, 0, 3, 0, 0, 2, 22]),
      (''config__mbedtls_8h.html#a53ca938afec54658ef4b643c60ed617c'', [8, 0, 3, 0, 0, 2, 21]),
      (''config__mbedtls_8h.html#a54a11655ee76cbd7b4d8b159e377adef'', [8, 0, 3, 0, 0, 2, 0]),
      (''config__mbedtls_8h.html#a6eb06bd9262371cafc5e51e40285d4bb'', [8, 0, 3, 0, 0, 2, 29]),
      (''config__mbedtls_8h.html#a756fb086e76be2a76954beb682195a49'', [8, 0, 3, 0, 0, 2, 43]),
      (''config__mbedtls_8h.html#a76686ebb937ad5cc1623638965c4bc22'', [8, 0, 3, 0, 0, 2, 32]),
      (''config__mbedtls_8h.html#a79098f46901a7da949424ca81fcb4be2'', [8, 0, 3, 0, 0, 2, 3]),
      (''config__mbedtls_8h.html#a7bb6872451a7b080abda9d489bd56826'', [8, 0, 3, 0, 0, 2, 17]),
      (''config__mbedtls_8h.html#a7cec1de79c434f1053488b1d3b9454c4'', [8, 0, 3, 0, 0, 2, 35]),
      (''config__mbedtls_8h.html#a813d4cf0b3fc03db0f9dbec52ba04b40'', [8, 0, 3, 0, 0, 2, 54]),
      (''config__mbedtls_8h.html#a85f2821433dbf22916e865a49f2652df'', [8, 0, 3, 0, 0, 2, 53]),
      (''config__mbedtls_8h.html#a8a7aca10569198cf8e8dbff1c40677c6'', [8, 0, 3, 0, 0, 2, 51]),
      (''config__mbedtls_8h.html#a8c45e2be551b48e4feb1453fff99b8d5'', [8, 0, 3, 0, 0, 2, 19]),
      (''config__mbedtls_8h.html#a8cc51fc9b077f5b669bc4dfba0bde43e'', [8, 0, 3, 0, 0, 2, 47]),
      (''config__mbedtls_8h.html#a8d7d810065d58b237787c6749b7ef232'', [8, 0, 3, 0, 0, 2, 24]),
      (''config__mbedtls_8h.html#a95e58aa3f6b5391f9fc423b3809cf9a4'', [8, 0, 3, 0, 0, 2, 4]),
      (''config__mbedtls_8h.html#a98099ce7241e89e42ba34b79e770a0ab'', [8, 0, 3, 0, 0, 2, 26]),
      (''config__mbedtls_8h.html#a980c4064e72ef188840d9b0a68d2e85e'', [8, 0, 3, 0, 0, 2, 15]),
      (''config__mbedtls_8h.html#a9ac44283cf06c7c475c574774ed51338'', [8, 0, 3, 0, 0, 2, 6]),
      (''config__mbedtls_8h.html#aa0aaa3f0466b5ae15ff9bf176f632a3d'', [8, 0, 3, 0, 0, 2, 1]),
      (''config__mbedtls_8h.html#aa3615295cbab56882c919eb9cf79fe10'', [8, 0, 3, 0, 0, 2, 12]),
      (''config__mbedtls_8h.html#aa7661e25bab8f0e87060ee05f1216fe4'', [8, 0, 3, 0, 0, 2, 23]),
      (''config__mbedtls_8h.html#ab6d2cedeb9ad2d5f11e008708c922a7d'', [8, 0, 3, 0, 0, 2, 2]),
      (''config__mbedtls_8h.html#ab9ff33e1da5c1afaf8ce3fc47ab8d577'', [8, 0, 3, 0, 0, 2, 42]),
      (''config__mbedtls_8h.html#abc22a5b0870dd8ff1b38cdce1423b0ff'', [8, 0, 3, 0, 0, 2, 14]),
      (''config__mbedtls_8h.html#ac64f663ce793cda3cc14e5a300e30a65'', [8, 0, 3, 0, 0, 2, 10]),
      (''config__mbedtls_8h.html#ac90a92552ac2f87c701b24857fd6d4c1'', [8, 0, 3, 0, 0, 2, 39]),
      (''config__mbedtls_8h.html#ad377c385a02385defbd866a5b190bba8'', [8, 0, 3, 0, 0, 2, 55]),
      (''config__mbedtls_8h.html#ae0290beb1dc98ac21d930144d34ae2d0'', [8, 0, 3, 0, 0, 2, 8]),
      (''config__mbedtls_8h.html#ae58dba1b4a4c30f8c4d2f0e6080351af'', [8, 0, 3, 0, 0, 2, 44]),
      (''config__mbedtls_8h.html#ae6058d084fccdc95cce6de3b5e46b367'', [8, 0, 3, 0, 0, 2, 11]),
      (''config__mbedtls_8h.html#ae73dbeb395510070a756ed6689459b30'', [8, 0, 3, 0, 0, 2, 36]),
      (''config__mbedtls_8h.html#ae9d24fd58758d905e43ace39f9798b46'', [8, 0, 3, 0, 0, 2, 13]),
      (''config__mbedtls_8h.html#af0a5a26171b8cc9ba46b9775cf56b541'', [8, 0, 3, 0, 0, 2, 46]),
      (''config__mbedtls_8h.html#af7975b148abc283e6ee41854637185e1'', [8, 0, 3, 0, 0, 2, 37]),
      (''config__mbedtls_8h.html#afd338008d2ae25ba0dba0c07ba1e2482'', [8, 0, 3, 0, 0, 2, 16]),
      (''config__mbedtls_8h_source.html'', [8, 0, 3, 0, 0, 2]),
      (''config__port_8h.html'', [8, 0, 2, 2]),
      (''config__port_8h_source.html'', [8, 0, 2, 2]),
      (''configurator__api_8h_source.html'', [8, 0, 1, 0]),
      (''cyassl__client_8c.html'', [8, 0, 3, 2, 1]),
      (''cyassl__client_8c.html#a02c20a3169dfdc6418ed518675ab1736'', [8, 0, 3, 2, 1, 24]),
      (''cyassl__client_8c.html#a1496a9b08b6c460f88cdc738eeb7b7b9'', [8, 0, 3, 2, 1, 18]),
      (''cyassl__client_8c.html#a1b3c92e068e27568f92f8240a48df984'', [8, 0, 3, 2, 1, 28]),
      (''cyassl__client_8c.html#a2b27f7fe2a3753bacbf49d3a1638f7b5'', [8, 0, 3, 2, 1, 16]),
      (''cyassl__client_8c.html#a2b436c2c2eb12d6d72705e069bafd5f0'', [8, 0, 3, 2, 1, 4]),
      (''cyassl__client_8c.html#a419954f51ac51f82736dc2008328d7d2'', [8, 0, 3, 2, 1, 20]),
      (''cyassl__client_8c.html#a422d12a79e1ce4e47211e3ed6b0cbc4c'', [8, 0, 3, 2, 1, 21]),
      (''cyassl__client_8c.html#a4b002f35a665663bfab60eb577537f4f'', [8, 0, 3, 2, 1, 27]),
      (''cyassl__client_8c.html#a4b2dea8150bf311ec03c66f596a9fe88'', [8, 0, 3, 2, 1, 14]),
      (''cyassl__client_8c.html#a5ae9243df9888f36401c7e0248ec1f1b'', [8, 0, 3, 2, 1, 15]),
      (''cyassl__client_8c.html#a5bd9a41c7b8c230735c46624fc13bb1a'', [8, 0, 3, 2, 1, 23]),
      (''cyassl__client_8c.html#a5c8056091f9a8cd7d8b14ff6bdb1df25'', [8, 0, 3, 2, 1, 19]),
      (''cyassl__client_8c.html#a676d6c06e8eeee00e65951929d8e761f'', [8, 0, 3, 2, 1, 17]),
      (''cyassl__client_8c.html#a72485f691c477cca885a6089365b6b24'', [8, 0, 3, 2, 1, 2]),
      (''cyassl__client_8c.html#a736c30ff881d73d7c115dfb2f1d19a62'', [8, 0, 3, 2, 1, 3]),
      (''cyassl__client_8c.html#a78212fc67ef153e2df0f4fe3a22cdeca'', [8, 0, 3, 2, 1, 29]),
      (''cyassl__client_8c.html#a7f6d1291ebc8fa56f72cb4752f908e43'', [8, 0, 3, 2, 1, 26]),
      (''cyassl__client_8c.html#a811d40865ec9c5bc3044a5cfa4612276'', [8, 0, 3, 2, 1, 11]),
      (''cyassl__client_8c.html#a8d3665206b0dbb3dea506e8fd8541aa1'', [8, 0, 3, 2, 1, 25]),
      (''cyassl__client_8c.html#a9bad63b84c38a487cca33e6535b395c8'', [8, 0, 3, 2, 1, 8]),
      (''cyassl__client_8c.html#a9e1419d5eaba42b5878e6676f2cc7988'', [8, 0, 3, 2, 1, 10]),
      (''cyassl__client_8c.html#ab1209bfc79c3a7bc1e4d53a5aa30c1ee'', [8, 0, 3, 2, 1, 1]),
      (''cyassl__client_8c.html#ab462a9afbccc3695e963b2c1fbafddf0'', [8, 0, 3, 2, 1, 22]),
      (''cyassl__client_8c.html#aba8d2dd3b68b2a9af67b7f1c76171b90'', [8, 0, 3, 2, 1, 7]),
      (''cyassl__client_8c.html#ac1d4acf81e8d75a063b4d53967cd6b6c'', [8, 0, 3, 2, 1, 12]),
      (''cyassl__client_8c.html#ac9007b477fae12bd58317ec24872cffc'', [8, 0, 3, 2, 1, 9]),
      (''cyassl__client_8c.html#ad1af23f2007ffadf1a4dc0d6f9d334fc'', [8, 0, 3, 2, 1, 13]),
      (''cyassl__client_8c.html#ae4e8ff46f8eef30def6b8c33f12ec666'', [8, 0, 3, 2, 1, 6]),
      (''cyassl__client_8c.html#af44aa7f44da6c96d5c4e1a8fdba09627'', [8, 0, 3, 2, 1, 30]),
      (''cyassl__client_8c.html#af822cc28da7d3738c97d8a941236a062'', [8, 0, 3, 2, 1, 5]),
      (''cyassl__heap_8c.html'', [8, 0, 3, 2, 2]),
      (''cyassl__heap_8c.html#a14008c9d326b94a5398bd3ae01861b3a'', [8, 0, 3, 2, 2, 1]),
      (''cyassl__heap_8c.html#a1412b82da3c295e48ee8aee5e7fe04aa'', [8, 0, 3, 2, 2, 3]),
      (''cyassl__heap_8c.html#a23e53227e214563ae30478825f2ea0c3'', [8, 0, 3, 2, 2, 9]),
      (''cyassl__heap_8c.html#a2743998ef433692f1f68554a15f03efa'', [8, 0, 3, 2, 2, 2]),
      (''cyassl__heap_8c.html#a454ef3982917cfc24247436eb6837c5a'', [8, 0, 3, 2, 2, 12]),
      (''cyassl__heap_8c.html#a5c9b66e660c8d0594a88fead475da6b0'', [8, 0, 3, 2, 2, 7]),
      (''cyassl__heap_8c.html#a63a4053bc5955fc7c861917111f045a7'', [8, 0, 3, 2, 2, 16]),
      (''cyassl__heap_8c.html#a75664d973604173d369b9d8a5b0358c9'', [8, 0, 3, 2, 2, 10]),
      (''cyassl__heap_8c.html#a7c82063eca53ff1f49fa5c058c12040a'', [8, 0, 3, 2, 2, 5]),
      (''cyassl__heap_8c.html#aa94bf85171fab481c50c3334078cdf13'', [8, 0, 3, 2, 2, 4]),
      (''cyassl__heap_8c.html#ab2c49468a1306361d948619f1789c704'', [8, 0, 3, 2, 2, 14]),
      (''cyassl__heap_8c.html#ac3a95abb659f6005b812b59a2ac50b03'', [8, 0, 3, 2, 2, 15]),
      (''cyassl__heap_8c.html#ad622f5be63e319c0cc0348f7a6b62bb0'', [8, 0, 3, 2, 2, 11]),
      (''cyassl__heap_8c.html#ad8fdb4469cb541e88ae9dabb7bfbd803'', [8, 0, 3, 2, 2, 13]),
      (''cyassl__heap_8c.html#ae4dc607e12745ea1fe128d411792c62f'', [8, 0, 3, 2, 2, 6]),
      (''cyassl__heap_8c.html#ae5dbaf232eb055721252c5e82dd2658e'', [8, 0, 3, 2, 2, 0]),
      (''cyassl__heap_8c.html#ae7781a4145ce4e925392b313e4f4ad63'', [8, 0, 3, 2, 2, 8]),
      (''cyassl__heap_8h.html'', [8, 0, 3, 2, 3]),
      (''cyassl__heap_8h.html#a1412b82da3c295e48ee8aee5e7fe04aa'', [8, 0, 3, 2, 3, 0]),
      (''cyassl__heap_8h.html#aa94bf85171fab481c50c3334078cdf13'', [8, 0, 3, 2, 3, 1]),
      (''cyassl__heap_8h_source.html'', [8, 0, 3, 2, 3]),
      (''debug_8c.html'', [8, 0, 3, 1, 2]),
      (''debug_8c.html#a0ec3c4c9919c1f4e145c315eb687aa61'', [8, 0, 3, 1, 2, 1]),
      (''debug_8c.html#a175bf51679637462bfb6b9d11a96193e'', [8, 0, 3, 1, 2, 10]),
      (''debug_8c.html#a2d1aff48a4c82b7e8b4252aa64c19479'', [8, 0, 3, 1, 2, 3]),
      (''debug_8c.html#a45e25a89e7e3fc603ca4a7bf1db6d4e2'', [8, 0, 3, 1, 2, 7]),
      (''debug_8c.html#a47c445f8400690f1e4a361710073c294'', [8, 0, 3, 1, 2, 8]),
      (''debug_8c.html#a56df89b49018da858ba1d8d56e5a6973'', [8, 0, 3, 1, 2, 5]),
      (''debug_8c.html#a84f0e8b7312f438f913a322ac5b74e24'', [8, 0, 3, 1, 2, 2]),
      (''debug_8c.html#a88bdb1952e8645245a9e7a7e7890c682'', [8, 0, 3, 1, 2, 9]),
      (''debug_8c.html#abb433d0baa2427df7c994db4cd5c2a8b'', [8, 0, 3, 1, 2, 4]),
      (''debug_8c.html#ac5e0bd7e07d3f6954b13cfd9c4153744'', [8, 0, 3, 1, 2, 6]),
      (''debug_8c.html#af046044c98c236d3ebc81c925d508fa0'', [8, 0, 3, 1, 2, 0]),
      (''debug_8h.html'', [8, 0, 3, 0, 1, 3]),
      (''debug_8h.html#a0ec3c4c9919c1f4e145c315eb687aa61'', [8, 0, 3, 0, 1, 3, 29]),
      (''debug_8h.html#a21ded5ca7e2b71b5911b0d6a1d5be5b2'', [8, 0, 3, 0, 1, 3, 12]),
      (''debug_8h.html#a2756127335810471fc2ea8b84538f693'', [8, 0, 3, 0, 1, 3, 14]),
      (''debug_8h.html#a2d1aff48a4c82b7e8b4252aa64c19479'', [8, 0, 3, 0, 1, 3, 33]),
      (''debug_8h.html#a311734b79248eb747c06a54edb0a7bb0'', [8, 0, 3, 0, 1, 3, 31]),
      (''debug_8h.html#a44f3fbef24c0bc8fca979d0e1c32e020'', [8, 0, 3, 0, 1, 3, 7]),
      (''debug_8h.html#a459730ceedb53f637caa7c09222df569'', [8, 0, 3, 0, 1, 3, 25]),
      (''debug_8h.html#a47c445f8400690f1e4a361710073c294'', [8, 0, 3, 0, 1, 3, 40]),
      (''debug_8h.html#a48eeabf5f18f05ac73b454fdfd5e5307'', [8, 0, 3, 0, 1, 3, 24]),
      (''debug_8h.html#a4ea0131ca12f47a2f1208e6eec5d68fc'', [8, 0, 3, 0, 1, 3, 30]),
      (''debug_8h.html#a53cb8c01d6181c264aa25cc37f269ac8'', [8, 0, 3, 0, 1, 3, 27]),
      (''debug_8h.html#a56df89b49018da858ba1d8d56e5a6973'', [8, 0, 3, 0, 1, 3, 35]),
      (''debug_8h.html#a5ddc525d20abf0ce5a9bf965ccc33a4a'', [8, 0, 3, 0, 1, 3, 16]),
      (''debug_8h.html#a5ee44d5cd954fe9d29fa02ea5cca2979'', [8, 0, 3, 0, 1, 3, 20]),
      (''debug_8h.html#a5fccb4fc71e44089a1b1a77fc76c0b68'', [8, 0, 3, 0, 1, 3, 0]),
      (''debug_8h.html#a6b831f5f57f87e0b03ee3a5f0c669975'', [8, 0, 3, 0, 1, 3, 2]),
      (''debug_8h.html#a7137837d0f551831ca629773f23d85d5'', [8, 0, 3, 0, 1, 3, 13]),
      (''debug_8h.html#a73b80f4c98130d298291127e18c454b0'', [8, 0, 3, 0, 1, 3, 19])]"

definition NAVTREEINDEX0 :: nav_index where
  "NAVTREEINDEX0 = navtreeindex0a @ navtreeindex0b"

lemma located_0a: "located_in 0 navtreeindex0a"
  by (rule located_in_code [of 0, simplified]; code_simp)

lemma located_0b: "located_in 0 navtreeindex0b"
  by (rule located_in_code [of 0, simplified]; code_simp)

lemma located_0: "located_in 0 NAVTREEINDEX0"
  by (simp add: NAVTREEINDEX0_def located_in_append located_0a located_0b)

end
