(* ===== verification/NavIndex1.thy ===== *)
theory NavIndex1
  imports NavData
begin

text \<open>
  The generated index table \<open>navtreeindex1.js\<close>, in two parts, and the fact that the loop of
  \<open>navTo\<close> sends every key of it to this table.
\<close>

definition navtreeindex1a :: nav_index where
  "navtreeindex1a =
     [(''debug_8h.html#a79da58dac9dcdbcd4005f1d440e363ba'', [8, 0, 3, 0, 1, 3, 1]),
      (''debug_8h.html#a82de04bdc2900d1db3b60e3660b89d71'', [8, 0, 3, 0, 1, 3, 36]),
      (''debug_8h.html#a84f0e8b7312f438f913a322ac5b74e24'', [8, 0, 3, 0, 1, 3, 32]),
      (''debug_8h.html#a88bdb1952e8645245a9e7a7e7890c682'', [8, 0, 3, 0, 1, 3, 41]),
      (''debug_8h.html#a8de935a0028f3f702ac188c25ad52945'', [8, 0, 3, 0, 1, 3, 15]),
      (''debug_8h.html#a999297658e9b434ba58d4bfebb78d9f0'', [8, 0, 3, 0, 1, 3, 18]),
      (''debug_8h.html#aa3abaafc5cd85852a33525ef90941a68'', [8, 0, 3, 0, 1, 3, 10]),
      (''debug_8h.html#aa6f3dc01f32854cbc27447ae06836bd4'', [8, 0, 3, 0, 1, 3, 3]),
      (''debug_8h.html#aa6ff61ba82790f0a97fc37ac636bc84b'', [8, 0, 3, 0, 1, 3, 4]),
      (''debug_8h.html#aac019ee8ef1c8aae888df379e793d951'', [8, 0, 3, 0, 1, 3, 9]),
      (''debug_8h.html#aae79cd06585322c9652075e3b59cc307'', [8, 0, 3, 0, 1, 3, 37]),
      (''debug_8h.html#aaf23acbb1b06b4abadab578f11119662'', [8, 0, 3, 0, 1, 3, 21]),
      (''debug_8h.html#ab30d5946e31b7a4e8fafee6e8a68377a'', [8, 0, 3, 0, 1, 3, 38]),
      (''debug_8h.html#ab4fb31c7a01a3748ddbffc1512e50cb5'', [8, 0, 3, 0, 1, 3, 22]),
      (''debug_8h.html#ab5e6b51515439b22ac0321d70af265b8'', [8, 0, 3, 0, 1, 3, 5]),
      (''debug_8h.html#ab5f6b65aa5fa2b22443dd966aa13b84a'', [8, 0, 3, 0, 1, 3, 8]),
      (''debug_8h.html#abb433d0baa2427df7c994db4cd5c2a8b'', [8, 0, 3, 0, 1, 3, 34]),
      (''debug_8h.html#ac5e0bd7e07d3f6954b13cfd9c4153744'', [8, 0, 3, 0, 1, 3, 39]),
      (''debug_8h.html#ad6b29a4957040b515517ec9f6240addd'', [8, 0, 3, 0, 1, 3, 23]),
      (''debug_8h.html#ae05a21ecb1eedbf50483847ffb4419ec'', [8, 0, 3, 0, 1, 3, 17]),
      (''debug_8h.html#ae134ff9e257f4bed289113e9cf5023be'', [8, 0, 3, 0, 1, 3, 28]),
      (''debug_8h.html#ae3248ebf89f7b4059c3401f01b99f154'', [8, 0, 3, 0, 1, 3, 6]),
      (''debug_8h.html#afbe515301424cc36a7bfe6435c280ea7'', [8, 0, 3, 0, 1, 3, 26]),
      (''debug_8h.html#afeea07958e3e5c2cade7a12f8a3f6ea0'', [8, 0, 3, 0, 1, 3, 11]),
      (''debug_8h_source.html'', [8, 0, 3, 0, 1, 3]),
      (''dictionary_8h.html'', [8, 0, 3, 0, 1, 4]),
      (''dictionary_8h.html#a1c287327eeab65bbfdda0fd2399a655f'', [8, 0, 3, 0, 1, 4, 4]),
      (''dictionary_8h.html#a334bd741d35625861dd7af95e40e680f'', [8, 0, 3, 0, 1, 4, 6]),
      (''dictionary_8h.html#a5aa7e02b70a46d5f8e112c051f63dae8'', [8, 0, 3, 0, 1, 4, 3]),
      (''dictionary_8h.html#a6834d7527fc6cf4dd287f8c51bc93157'', [8, 0, 3, 0, 1, 4, 5]),
      (''dictionary_8h.html#a83cb57209142af0def99f0ff28f52bd3'', [8, 0, 3, 0, 1, 4, 2]),
      (''dictionary_8h.html#a9581c45c8ffca777b6d09ab8a35181c8'', [8, 0, 3, 0, 1, 4, 0]),
      (''dictionary_8h.html#a9ca1848c12632429cd8a05cb1e7b9356'', [8, 0, 3, 0, 1, 4, 1]),
      (''dictionary_8h.html#aa28558b16c4382e7812651149c98f853'', [8, 0, 3, 0, 1, 4, 7]),
      (''dictionary_8h_source.html'', [8, 0, 3, 0, 1, 4]),
      (''dir_04ac16e32990e7b0365b3b7d643d7e2a.html'', [8, 0, 2, 1, 0]),
      (''dir_09c654bbd753bf05984e95de00625755.html'', [8, 0, 2, 1]),
      (''dir_1db864ab52b1f4aea7ed36a891798c74.html'', [8, 0, 3, 3]),
      (''dir_298e725e8e36626d488bd488cba4f616.html'', [8, 0, 2, 1, 3]),
      (''dir_30f49a23f5f475de00557f56aa665ba8.html'', [8, 0, 2, 0, 1]),
      (''dir_33b3ca06880ffefdf34f947cbb778e50.html'', [8, 0, 3, 0, 0]),
      (''dir_68267d1309a1af8e8297ef4c3efbcdba.html'', [8, 0, 3]),
      (''dir_76f8db89a3e7bf177d9ae3aeb9b0a3ba.html'', [8, 0, 2, 1, 1]),
      (''dir_7944cfc02ed5cb6d1bf914c22b431ac5.html'', [8, 0, 2, 1, 2]),
      (''dir_8189c79547c228efec742fac4d82511f.html'', [8, 0, 3, 0, 1]),
      (''dir_89a94aa400c16e6b27756798f08d373c.html'', [8, 0, 2, 0]),
      (''dir_91748ab148b5df81b5ed0ba36e6eb6cf.html'', [8, 0, 2, 0, 3]),
      (''dir_b0856f6b0d80ccb263b2f415c91f9e17.html'', [8, 0, 3, 0]),
      (''dir_c84a3667f9d748dc370e18b6bbe94799.html'', [8, 0, 2]),
      (''dir_c85d3e3c5052e9ad9ce18c6863244a25.html'', [8, 0, 3, 1]),
      (''dir_cc1e723a43c6fd793dfb80461726ce9d.html'', [8, 0, 2, 0, 2]),
      (''dir_d28a4824dc47e487b107a5db32ef43c4.html'', [8, 0, 0]),
      (''dir_d44c64559bbebec7f509842c48db8b23.html'', [8, 0, 1]),
      (''dir_f3f7307f0e41f69a5ec1b4435b779b71.html'', [8, 0, 2, 0, 0]),
      (''dir_fe84b31a651d1608d95dc2e6540ef310.html'', [8, 0, 3, 2]),
      (''dlmalloc_8h_source.html'', [8, 0, 3, 0, 1, 5]),
      (''e__list_8h_source.html'', [8, 0, 3, 0, 1, 6]),
      (''error_8h.html'', [8, 0, 3, 0, 1, 7]),
      (''error_8h.html#a61dadd085c1777f559549e05962b2c9ea3941722ed0b7835f5f38d353b144620e'', [8, 0, 3, 0, 1, 7, 28]),
      (''error_8h.html#a90b16c5679595accfab59b6b8b882308'', [8, 0, 3, 0, 1, 7, 29]),
      (''error_8h.html#adc29c2ff13d900c2f185ee95427fb06ca068cda9cf27c3a95dde74dffca000a4b'', [8, 0, 3, 0, 1, 7, 21]),
      (''error_8h.html#adc29c2ff13d900c2f185ee95427fb06ca0b4e5c222ac30e1ebb2951f70dea3567'', [8, 0, 3, 0, 1, 7, 27]),
      (''error_8h.html#adc29c2ff13d900c2f185ee95427fb06ca15990d4e48ef10e993b4ca80ae0aadf1'', [8, 0, 3, 0, 1, 7, 14]),
      (''error_8h.html#adc29c2ff13d900c2f185ee95427fb06ca205aebe6ccc3901e86e03b174ee65512'', [8, 0, 3, 0, 1, 7, 18]),
      (''error_8h.html#adc29c2ff13d900c2f185ee95427fb06ca2e69e1496ff0e4db3266029918fa0a43'', [8, 0, 3, 0, 1, 7, 26]),
      (''error_8h.html#adc29c2ff13d900c2f185ee95427fb06ca308199736159a4f167ad4f58db8a3830'', [8, 0, 3, 0, 1, 7, 3]),
      (''error_8h.html#adc29c2ff13d900c2f185ee95427fb06ca3cfe3eff41c31f8283d57f835269a958'', [8, 0, 3, 0, 1, 7, 8]),
      (''error_8h.html#adc29c2ff13d900c2f185ee95427fb06ca4467b54d45d258245db407ec0cfb774e'', [8, 0, 3, 0, 1, 7, 19]),
      (''error_8h.html#adc29c2ff13d900c2f185ee95427fb06ca48cdce01beb2e06f56b4f6885c62c6b3'', [8, 0, 3, 0, 1, 7, 11]),
      (''error_8h.html#adc29c2ff13d900c2f185ee95427fb06ca54898c0397598a0e041fa7b0e2f3ff73'', [8, 0, 3, 0, 1, 7, 16]),
      (''error_8h.html#adc29c2ff13d900c2f185ee95427fb06ca5bed3f42a08e195b307cf8622e913327'', [8, 0, 3, 0, 1, 7, 4]),
      (''error_8h.html#adc29c2ff13d900c2f185ee95427fb06ca6d4f18a9728f434ff2d1a64043ebe6e8'', [8, 0, 3, 0, 1, 7, 0]),
      (''error_8h.html#adc29c2ff13d900c2f185ee95427fb06ca79f85ef669e3d189a75f92a4a120d08a'', [8, 0, 3, 0, 1, 7, 12]),
      (''error_8h.html#adc29c2ff13d900c2f185ee95427fb06ca7b7138523e0b03b89d2bed6c6b7f630f'', [8, 0, 3, 0, 1, 7, 20]),
      (''error_8h.html#adc29c2ff13d900c2f185ee95427fb06ca802dd0d5f2099eee1a479a916ce40d9b'', [8, 0, 3, 0, 1, 7, 9]),
      (''error_8h.html#adc29c2ff13d900c2f185ee95427fb06ca8202c3d9be21fc3b42caf07f1ce11abc'', [8, 0, 3, 0, 1, 7, 22]),
      (''error_8h.html#adc29c2ff13d900c2f185ee95427fb06ca8d4f409eda53a10f049dc6d5a833ccba'', [8, 0, 3, 0, 1, 7, 10]),
      (''error_8h.html#adc29c2ff13d900c2f185ee95427fb06caa2f43f08171ac5a0c298d31ff96b6ea3'', [8, 0, 3, 0, 1, 7, 7]),
      (''error_8h.html#adc29c2ff13d900c2f185ee95427fb06caa55cbd2b04e90d413e504ec72d76451a'', [8, 0, 3, 0, 1, 7, 15]),
      (''error_8h.html#adc29c2ff13d900c2f185ee95427fb06caa89c4aca3f88ee2abd714a3bf86af80f'', [8, 0, 3, 0, 1, 7, 5]),
      (''error_8h.html#adc29c2ff13d900c2f185ee95427fb06caac5fef038dfa68c9fcba888f6c2f37d3'', [8, 0, 3, 0, 1, 7, 24]),
      (''error_8h.html#adc29c2ff13d900c2f185ee95427fb06cabab57420ffe640266775a7582eeb045a'', [8, 0, 3, 0, 1, 7, 2]),
      (''error_8h.html#adc29c2ff13d900c2f185ee95427fb06cac0bb67e2982b4328c32a81d1d52f5058'', [8, 0, 3, 0, 1, 7, 25]),
      (''error_8h.html#adc29c2ff13d900c2f185ee95427fb06cac0f6a8a19421df17185e37b22b2d056a'', [8, 0, 3, 0, 1, 7, 17]),
      (''error_8h.html#adc29c2ff13d900c2f185ee95427fb06cac568baeb6407ef5e2630084ccbc34be8'', [8, 0, 3, 0, 1, 7, 6]),
      (''error_8h.html#adc29c2ff13d900c2f185ee95427fb06cadc9f2a735e2abcf988f6e586dee481fa'', [8, 0, 3, 0, 1, 7, 23]),
      (''error_8h.html#adc29c2ff13d900c2f185ee95427fb06caec0e6fbb561943d5153c0aa0c98c6a46'', [8, 0, 3, 0, 1, 7, 13]),
      (''error_8h.html#adc29c2ff13d900c2f185ee95427fb06cafc3fcefbe5fe939745539df41ab0bd20'', [8, 0, 3, 0, 1, 7, 1]),
      (''error_8h_source.html'', [8, 0, 3, 0, 1, 7]),
      (''examples.html'', [9]),
      (''exosite__api_8c.html'', [8, 0, 3, 5]),
      (''exosite__api_8c.html#a0436842a103e458d51c7b48ce9d735d3'', [8, 0, 3, 5, 17]),
      (''exosite__api_8c.html#a0dfc6bdb207dc01d4e6c66a6f4b8dc03'', [8, 0, 3, 5, 28]),
      (''exosite__api_8c.html#a17dcb0d46d084257e321cbea1d92c86b'', [8, 0, 3, 5, 10]),
      (''exosite__api_8c.html#a2d52d2c2cdb7316aea39c31e4c9d1ecb'', [8, 0, 3, 5, 30]),
      (''exosite__api_8c.html#a3205f8ee56f91f04079eddeebf659555'', [8, 0, 3, 5, 26]),
      (''exosite__api_8c.html#a3db0c33c745e0b74ebc87e243d863d64'', [8, 0, 3, 5, 27]),
      (''exosite__api_8c.html#a4220bc598405e83e01ca79c3d99d7392'', [8, 0, 3, 5, 4]),
      (''exosite__api_8c.html#a449f10c878b734714ff2cfd93c5d87cb'', [8, 0, 3, 5, 38]),
      (''exosite__api_8c.html#a4aad5a1453c31249d8688201537205ef'', [8, 0, 3, 5, 6]),
      (''exosite__api_8c.html#a4aad5a1453c31249d8688201537205efa146e826e08fccc19896301e509beb617'', [8, 0, 3, 5, 6, 4]),
      (''exosite__api_8c.html#a4aad5a1453c31249d8688201537205efa4d58d2823ca3f705933bfa1fa618115c'', [8, 0, 3, 5, 6, 6]),
      (''exosite__api_8c.html#a4aad5a1453c31249d8688201537205efa83f331d627addfdb12be805123bdfd67'', [8, 0, 3, 5, 6, 1]),
      (''exosite__api_8c.html#a4aad5a1453c31249d8688201537205efa9b4139d79be42352e563562248aaf7e8'', [8, 0, 3, 5, 6, 3]),
      (''exosite__api_8c.html#a4aad5a1453c31249d8688201537205efacb502e9b0cb29d691d65e56177545bd9'', [8, 0, 3, 5, 6, 0]),
      (''exosite__api_8c.html#a4aad5a1453c31249d8688201537205efaed7086089069fee94e1a0ed4bdc2444a'', [8, 0, 3, 5, 6, 2]),
      (''exosite__api_8c.html#a4aad5a1453c31249d8688201537205efaee1b161df07b8ba816d172f47ee09919'', [8, 0, 3, 5, 6, 7]),
      (''exosite__api_8c.html#a4aad5a1453c31249d8688201537205efaf29726d3d5c22e931fcf218fac5c0292'', [8, 0, 3, 5, 6, 5]),
      (''exosite__api_8c.html#a514ffa9538c2749779516886ddbc32a0'', [8, 0, 3, 5, 35]),
      (''exosite__api_8c.html#a60ca897f8c1e389fd9243e23b645541a'', [8, 0, 3, 5, 12]),
      (''exosite__api_8c.html#a65f400cf7ab24a50367886e93fb3a6f8'', [8, 0, 3, 5, 9]),
      (''exosite__api_8c.html#a78eee434b05b518bd6aa3db3a38e633e'', [8, 0, 3, 5, 15]),
      (''exosite__api_8c.html#a7f9c0a7808b75cc88e82fd9d5e7f3bbd'', [8, 0, 3, 5, 13]),
      (''exosite__api_8c.html#a87c26b1fab1a6c68218d239bd2735fd4'', [8, 0, 3, 5, 23]),
      (''exosite__api_8c.html#a8f3a5acb5ba42aed972003572eda3b3f'', [8, 0, 3, 5, 11]),
      (''exosite__api_8c.html#a92138ea7fb3d6331f4038681f784cafa'', [8, 0, 3, 5, 36]),
      (''exosite__api_8c.html#a96dc33d8c0ed189c3f0502b3598b1113'', [8, 0, 3, 5, 33]),
      (''exosite__api_8c.html#a98c9fb576a723ad34428a2cd39e0c384'', [8, 0, 3, 5, 39]),
      (''exosite__api_8c.html#aaed3bf6494ca3c829e8708c343459ebc'', [8, 0, 3, 5, 3]),
      (''exosite__api_8c.html#ab378caa28aab2d7047e71263af252ca6'', [8, 0, 3, 5, 34]),
      (''exosite__api_8c.html#ab69cb59e5331032de1383c55f0ea17de'', [8, 0, 3, 5, 41]),
      (''exosite__api_8c.html#abca7bdbb52f87b7733c680b1ac64bca5'', [8, 0, 3, 5, 7]),
      (''exosite__api_8c.html#abca7bdbb52f87b7733c680b1ac64bca5a1d1edd148f5296a22da3e5a1b88692b9'', [8, 0, 3, 5, 7, 1]),
      (''exosite__api_8c.html#abca7bdbb52f87b7733c680b1ac64bca5a63fb56cd4a7c8d7b017ea6b71b92c388'', [8, 0, 3, 5, 7, 2]),
      (''exosite__api_8c.html#abca7bdbb52f87b7733c680b1ac64bca5aa8d21515f7fa9d58dd81240f81329601'', [8, 0, 3, 5, 7, 0])]"

definition navtreeindex1b :: nav_index where
  "navtreeindex1b =
     [(''exosite__api_8c.html#ac372540c9a5f248d69273a58a22834ba'', [8, 0, 3, 5, 14]),
      (''exosite__api_8c.html#ace0faab8cc3ec86564203d9c9c06ed1b'', [8, 0, 3, 5, 8]),
      (''exosite__api_8c.html#ad1b63408daffa26fdf5b3705a8de3b3c'', [8, 0, 3, 5, 37]),
      (''exosite__api_8c.html#ad63bfde46de7b2630517ca0cbadc2069'', [8, 0, 3, 5, 5]),
      (''exosite__api_8c.html#adf30a697b0ad9976bd2a98d96f20859c'', [8, 0, 3, 5, 40]),
      (''exosite__api_8c.html#ae2127bcd3a584662dd215d7c9c8fea18'', [8, 0, 3, 5, 31]),
      (''exosite__api_8c.html#ae53581938a33faf0cffd5ede9ade8f1c'', [8, 0, 3, 5, 29]),
      (''exosite__api_8c.html#af44f4ac9612be5ff1efb26d09f0da2ed'', [8, 0, 3, 5, 32]),
      (''exosite__api_8c.html#afc6464a5ce51715566ed6abbf7c192c3'', [8, 0, 3, 5, 16]),
      (''exosite__api_8h.html'', [8, 0, 1, 1]),
      (''exosite__api_8h_source.html'', [8, 0, 1, 1]),
      (''exosite__api__internal_8h.html'', [8, 0, 3, 0, 3]),
      (''exosite__api__internal_8h.html#a1ec075ea005450169975e25e9cfcafcb'', [8, 0, 3, 0, 3, 6]),
      (''exosite__api__internal_8h.html#a1ec075ea005450169975e25e9cfcafcba10423e45e8433479bee71b69d4047bc8'', [8, 0, 3, 0, 3, 6, 1]),
      (''exosite__api__internal_8h.html#a1ec075ea005450169975e25e9cfcafcba565874881d768e4e8796e4ecdea839df'', [8, 0, 3, 0, 3, 6, 7]),
      (''exosite__api__internal_8h.html#a1ec075ea005450169975e25e9cfcafcba5c4cb7b3d416073860d26d092605ce1e'', [8, 0, 3, 0, 3, 6, 0]),
      (''exosite__api__internal_8h.html#a1ec075ea005450169975e25e9cfcafcba5f2b8e4127321d256fd9957c0767e36f'', [8, 0, 3, 0, 3, 6, 4]),
      (''exosite__api__internal_8h.html#a1ec075ea005450169975e25e9cfcafcba9532e7bfe77959cb91c213bf9451c75c'', [8, 0, 3, 0, 3, 6, 8]),
      (''exosite__api__internal_8h.html#a1ec075ea005450169975e25e9cfcafcba9c4360e5d933410c60e9a92855b11b15'', [8, 0, 3, 0, 3, 6, 3]),
      (''exosite__api__internal_8h.html#a1ec075ea005450169975e25e9cfcafcbaa817e0430ad931be29a5fd8b133b9e76'', [8, 0, 3, 0, 3, 6, 6]),
      (''exosite__api__internal_8h.html#a1ec075ea005450169975e25e9cfcafcbacb44101c823a709223b7a5de91c21432'', [8, 0, 3, 0, 3, 6, 5]),
      (''exosite__api__internal_8h.html#a1ec075ea005450169975e25e9cfcafcbacf6fd802a9500a6e072389efbbb324b0'', [8, 0, 3, 0, 3, 6, 2]),
      (''exosite__api__internal_8h.html#a6184b17f453d49dd002c41c55dce80dc'', [8, 0, 3, 0, 3, 4]),
      (''exosite__api__internal_8h.html#a76a1af0498a651312d2346f57aff04bd'', [8, 0, 3, 0, 3, 5]),
      (''exosite__api__internal_8h.html#a995df6c4ab768546bd94ed2cc03b8dc3'', [8, 0, 3, 0, 3, 3]),
      (''exosite__api__internal_8h.html#ac0bce01861d24a44b7728f465a17d1e2'', [8, 0, 3, 0, 3, 2]),
      (''exosite__api__internal_8h.html#af2e35973ee404379204a182bff1e57a0'', [8, 0, 3, 0, 3, 1]),
      (''exosite__api__internal_8h_source.html'', [8, 0, 3, 0, 3]),
      (''exosite__http__api_8c.html'', [8, 0, 3, 3, 0]),
      (''exosite__http__api_8c.html#a010c836604118ae8edd6970bb1536450'', [8, 0, 3, 3, 0, 21]),
      (''exosite__http__api_8c.html#a0524361ae85610d48f04b8c684874b5c'', [8, 0, 3, 3, 0, 9]),
      (''exosite__http__api_8c.html#a084c00682e14af18a1e7d1955d2f1cc5'', [8, 0, 3, 3, 0, 18]),
      (''exosite__http__api_8c.html#a0b8fb43064ed1e40ec2bee6a17fb13a9'', [8, 0, 3, 3, 0, 19]),
      (''exosite__http__api_8c.html#a13866c4d2045861a54cef96f71028fd6'', [8, 0, 3, 3, 0, 5]),
      (''exosite__http__api_8c.html#a13c5270a774f1b0062104db05871e8ab'', [8, 0, 3, 3, 0, 7]),
      (''exosite__http__api_8c.html#a26dd0f10ea649c0b13c6495376961820'', [8, 0, 3, 3, 0, 17]),
      (''exosite__http__api_8c.html#a35b7da877ba1129a08420f4661a7d899'', [8, 0, 3, 3, 0, 4]),
      (''exosite__http__api_8c.html#a388ddf924b81e63b614e4de767dc5628'', [8, 0, 3, 3, 0, 15]),
      (''exosite__http__api_8c.html#a47979aafc73a40e44719946a8671e2f6'', [8, 0, 3, 3, 0, 8]),
      (''exosite__http__api_8c.html#a5a6f06f774f0f2431fd484db64d55959'', [8, 0, 3, 3, 0, 10]),
      (''exosite__http__api_8c.html#a5a8e1ea08a0e816c6d71d9c67ecaef5c'', [8, 0, 3, 3, 0, 29]),
      (''exosite__http__api_8c.html#a63773fbd1391d14eb45002876ee0ffa5'', [8, 0, 3, 3, 0, 1]),
      (''exosite__http__api_8c.html#a6a88e0579c5a6accca1b65bc299c01bd'', [8, 0, 3, 3, 0, 3]),
      (''exosite__http__api_8c.html#a6a88e0579c5a6accca1b65bc299c01bda20dbeb18499bdc5b57fd973960f4cff0'', [8, 0, 3, 3, 0, 3, 0]),
      (''exosite__http__api_8c.html#a7afd23f1440658d41acc6e73299de7a4'', [8, 0, 3, 3, 0, 13]),
      (''exosite__http__api_8c.html#a8f2bd7ddc64f8cbd1bba11bf6fb6071b'', [8, 0, 3, 3, 0, 24]),
      (''exosite__http__api_8c.html#a944bef8ecc53d43b562bf7636065cd86'', [8, 0, 3, 3, 0, 25]),
      (''exosite__http__api_8c.html#aa2843843bb29a9b6332c3611a47c1dd6'', [8, 0, 3, 3, 0, 14]),
      (''exosite__http__api_8c.html#aa7f7fcf8755920b0fa7027dd3bb0afa9'', [8, 0, 3, 3, 0, 16]),
      (''exosite__http__api_8c.html#ab056dbeac16a3dc6da696e0e8d1947f4'', [8, 0, 3, 3, 0, 22]),
      (''exosite__http__api_8c.html#ad069df8f25c704cdb66fd4c092df5cc9'', [8, 0, 3, 3, 0, 12]),
      (''exosite__http__api_8c.html#ad49224254f5fd50853ff66da8efa401b'', [8, 0, 3, 3, 0, 20]),
      (''exosite__http__api_8c.html#ad5abc58fc0867d50548af0be237c7914'', [8, 0, 3, 3, 0, 28]),
      (''exosite__http__api_8c.html#adb72f0e9ea0dcb42f51bca3d3251e5ec'', [8, 0, 3, 3, 0, 2]),
      (''exosite__http__api_8c.html#adb72f0e9ea0dcb42f51bca3d3251e5eca4ad23c3d2f21f7502ba058ef89518166'', [8, 0, 3, 2, 4, 2, 3]),
      (''exosite__http__api_8c.html#adb72f0e9ea0dcb42f51bca3d3251e5eca4ad23c3d2f21f7502ba058ef89518166'', [8, 0, 3, 3, 0, 2, 3]),
      (''exosite__http__api_8c.html#adb72f0e9ea0dcb42f51bca3d3251e5ecaa763023b51da2b3618f24cbf994b34bf'', [8, 0, 3, 2, 4, 2, 2]),
      (''exosite__http__api_8c.html#adb72f0e9ea0dcb42f51bca3d3251e5ecaa763023b51da2b3618f24cbf994b34bf'', [8, 0, 3, 3, 0, 2, 2]),
      (''exosite__http__api_8c.html#ae0000dbd8c0185f4d03208e1a8b87d67'', [8, 0, 3, 3, 0, 6]),
      (''exosite__http__api_8c.html#ae183ed7a04cb3b848033c4d117a6778a'', [8, 0, 3, 3, 0, 26]),
      (''exosite__http__api_8c.html#ae4e9acb58e6fe9b82dc8998aa28216b4'', [8, 0, 3, 3, 0, 27]),
      (''exosite__http__api_8c.html#afb71b6cbb08030bfac57d6f6577d4b70'', [8, 0, 3, 3, 0, 23]),
      (''exosite__libcoap__api_8c.html'', [8, 0, 3, 3, 1]),
      (''exosite__libcoap__api_8c.html#a2d5ae1ff3e905e9e2f379179fab3b2c7'', [8, 0, 3, 3, 1, 0]),
      (''exosite__libcoap__api_8c.html#a560b6ce61cb862b34e545578d4a86c9b'', [8, 0, 3, 3, 1, 3]),
      (''exosite__libcoap__api_8c.html#a5a8e1ea08a0e816c6d71d9c67ecaef5c'', [8, 0, 3, 3, 1, 10]),
      (''exosite__libcoap__api_8c.html#a6806468df9e0dcae164d9bcca072e873'', [8, 0, 3, 3, 1, 4]),
      (''exosite__libcoap__api_8c.html#a6be9df1a19ef2810f0980fad6daf81d9'', [8, 0, 3, 3, 1, 2]),
      (''exosite__libcoap__api_8c.html#a944bef8ecc53d43b562bf7636065cd86'', [8, 0, 3, 3, 1, 8]),
      (''exosite__libcoap__api_8c.html#ab6510041ef6223e615ef4dbe8530bb0a'', [8, 0, 3, 3, 1, 6]),
      (''exosite__libcoap__api_8c.html#ad773b314b1ac7591f38f7b4b04d9e68d'', [8, 0, 3, 3, 1, 7]),
      (''exosite__libcoap__api_8c.html#aece1a432dd603e87bb7dbfc76038f694'', [8, 0, 3, 3, 1, 1]),
      (''exosite__libcoap__api_8c.html#af5d7adf42092bc224273910c4098ca36'', [8, 0, 3, 3, 1, 9]),
      (''exosite__picocoap__api_8c.html'', [8, 0, 3, 3, 2]),
      (''exosite__picocoap__api_8c.html#a204443e8b93a8883bcdaac26d5c8b9fc'', [8, 0, 3, 3, 2, 1]),
      (''exosite__picocoap__api_8c.html#a5a8e1ea08a0e816c6d71d9c67ecaef5c'', [8, 0, 3, 3, 2, 8]),
      (''exosite__picocoap__api_8c.html#a6be9df1a19ef2810f0980fad6daf81d9'', [8, 0, 3, 3, 2, 2]),
      (''exosite__picocoap__api_8c.html#a944bef8ecc53d43b562bf7636065cd86'', [8, 0, 3, 3, 2, 6]),
      (''exosite__picocoap__api_8c.html#abcc9f02c3a3095633eeac46058a43424'', [8, 0, 3, 3, 2, 3]),
      (''exosite__picocoap__api_8c.html#abd55521187de5f99b96a34c3acc93ac1'', [8, 0, 3, 3, 2, 0]),
      (''exosite__picocoap__api_8c.html#acae062551517cfd53da2fff02462fc9a'', [8, 0, 3, 3, 2, 7]),
      (''exosite__picocoap__api_8c.html#ae708dcde54ede5e302991eae28a5621b'', [8, 0, 3, 3, 2, 4]),
      (''exosite__send__coap_8c.html'', [8, 0, 0, 0]),
      (''exosite__send__coap_8c.html#a0ddf1224851353fc92bfbff6f499fa97'', [8, 0, 0, 0, 0]),
      (''exosite__send__coap_8c.html#a617a47c70795bcff659815ad0efd2266'', [8, 0, 0, 0, 3]),
      (''exosite__send__coap_8c.html#a751d7b3fd21bd292464fc9a3241b962d'', [8, 0, 0, 0, 4]),
      (''exosite__send__coap_8c.html#a8ffc2c808eb0c212ecac8e088359eac0'', [8, 0, 0, 0, 2]),
      (''exosite__send__coap_8c.html#adf9e893b8610533b2a615f03375a3408'', [8, 0, 0, 0, 1]),
      (''exosite__send__http_8c.html'', [8, 0, 0, 1]),
      (''exosite__send__http_8c.html#a0ddf1224851353fc92bfbff6f499fa97'', [8, 0, 0, 1, 0]),
      (''exosite__send__http_8c.html#a617a47c70795bcff659815ad0efd2266'', [8, 0, 0, 1, 3]),
      (''exosite__send__http_8c.html#a751d7b3fd21bd292464fc9a3241b962d'', [8, 0, 0, 1, 4]),
      (''exosite__send__http_8c.html#a8ffc2c808eb0c212ecac8e088359eac0'', [8, 0, 0, 1, 2]),
      (''exosite__send__http_8c.html#adf9e893b8610533b2a615f03375a3408'', [8, 0, 0, 1, 1]),
      (''exosite__subscribe__coap_8c.html'', [8, 0, 0, 2]),
      (''exosite__subscribe__coap_8c.html#a0ddf1224851353fc92bfbff6f499fa97'', [8, 0, 0, 2, 0]),
      (''exosite__subscribe__coap_8c.html#a6b8e22f298c5bf38d1396a2da5c70eac'', [8, 0, 0, 2, 1]),
      (''exosite__subscribe__http_8c.html'', [8, 0, 0, 3]),
      (''exosite__subscribe__http_8c.html#a0ddf1224851353fc92bfbff6f499fa97'', [8, 0, 0, 3, 0]),
      (''exosite__subscribe__http_8c.html#a6b8e22f298c5bf38d1396a2da5c70eac'', [8, 0, 0, 3, 1]),
      (''exosite_send_coap_8c-example.html'', [9, 0]),
      (''exosite_send_http.html'', [0]),
      (''exosite_send_http.html#http_send'', [0, 0]),
      (''exosite_send_http_8c-example.html'', [9, 1]),
      (''exosite_subscribe_coap_8c-example.html'', [9, 2]),
      (''exosite_subscribe_http_8c-example.html'', [9, 3]),
      (''fault__injection_8h_source.html'', [8, 0, 3, 0, 1, 8]),
      (''files.html'', [8, 0]),
      (''functions.html'', [7, 2, 0]),
      (''functions_vars.html'', [7, 2, 1]),
      (''globals.html'', [8, 1, 0]),
      (''globals.html'', [8, 1, 0, 0]),
      (''globals_c.html'', [8, 1, 0, 1]),
      (''globals_d.html'', [8, 1, 0, 2]),
      (''globals_defs.html'', [8, 1, 6]),
      (''globals_e.html'', [8, 1, 0, 3]),
      (''globals_enum.html'', [8, 1, 4]),
      (''globals_eval.html'', [8, 1, 5]),
      (''globals_func.html'', [8, 1, 1]),
      (''globals_func.html'', [8, 1, 1, 0]),
      (''globals_func_c.html'', [8, 1, 1, 1]),
      (''globals_func_d.html'', [8, 1, 1, 2]),
      (''globals_func_e.html'', [8, 1, 1, 3]),
      (''globals_func_g.html'', [8, 1, 1, 4]),
      (''globals_func_h.html'', [8, 1, 1, 5])]"

definition NAVTREEINDEX1 :: nav_index where
  "NAVTREEINDEX1 = navtreeindex1a @ navtreeindex1b"

lemma located_1a: "located_in 1 navtreeindex1a"
  by (rule located_in_code [of 1, simplified]; code_simp)

lemma located_1b: "located_in 1 navtreeindex1b"
  by (rule located_in_code [of 1, simplified]; code_simp)

lemma located_1: "located_in 1 NAVTREEINDEX1"
  by (simp add: NAVTREEINDEX1_def located_in_append located_1a located_1b)

end
