(* ===== verification/NavIndex2.thy ===== *)
theory NavIndex2
  imports NavData
begin

text \<open>
  The generated index table \<open>navtreeindex2.js\<close>, in two parts, and the fact that the loop of
  \<open>navTo\<close> sends every key of it to this table.
\<close>

definition navtreeindex2a :: nav_index where
  "navtreeindex2a =
     [(''globals_func_i.html'', [8, 1, 1, 6]),
      (''globals_func_m.html'', [8, 1, 1, 7]),
      (''globals_func_n.html'', [8, 1, 1, 8]),
      (''globals_func_o.html'', [8, 1, 1, 9]),
      (''globals_func_p.html'', [8, 1, 1, 10]),
      (''globals_func_q.html'', [8, 1, 1, 11]),
      (''globals_func_r.html'', [8, 1, 1, 12]),
      (''globals_func_s.html'', [8, 1, 1, 13]),
      (''globals_func_t.html'', [8, 1, 1, 14]),
      (''globals_g.html'', [8, 1, 0, 4]),
      (''globals_h.html'', [8, 1, 0, 5]),
      (''globals_i.html'', [8, 1, 0, 6]),
      (''globals_l.html'', [8, 1, 0, 7]),
      (''globals_m.html'', [8, 1, 0, 8]),
      (''globals_n.html'', [8, 1, 0, 9]),
      (''globals_o.html'', [8, 1, 0, 10]),
      (''globals_p.html'', [8, 1, 0, 11]),
      (''globals_q.html'', [8, 1, 0, 12]),
      (''globals_r.html'', [8, 1, 0, 13]),
      (''globals_s.html'', [8, 1, 0, 14]),
      (''globals_t.html'', [8, 1, 0, 15]),
      (''globals_type.html'', [8, 1, 3]),
      (''globals_u.html'', [8, 1, 0, 16]),
      (''globals_vars.html'', [8, 1, 2]),
      (''globals_w.html'', [8, 1, 0, 17]),
      (''group___configurator___a_p_i.html'', [6, 0]),
      (''group___configurator___a_p_i.html#ga1736c42332e463fa31e148dd3826c780'', [6, 0, 2]),
      (''group___configurator___a_p_i.html#gaa08bc3adea39f236fc473a595ae6fb96'', [6, 0, 1]),
      (''group___exosite___a_p_i.html'', [6, 1]),
      (''group___exosite___a_p_i.html#ga035e1a5989983f94d04e838684d2e75c'', [8, 0, 1, 1, 13]),
      (''group___exosite___a_p_i.html#ga035e1a5989983f94d04e838684d2e75c'', [8, 0, 3, 5, 22]),
      (''group___exosite___a_p_i.html#ga035e1a5989983f94d04e838684d2e75c'', [6, 1, 10]),
      (''group___exosite___a_p_i.html#ga089a989dc1285a3594501aef49f1dd6a'', [8, 0, 1, 1, 4]),
      (''group___exosite___a_p_i.html#ga089a989dc1285a3594501aef49f1dd6a'', [6, 1, 3]),
      (''group___exosite___a_p_i.html#ga1a2cc30a82998509f33b7f08388b8274'', [8, 0, 1, 1, 8]),
      (''group___exosite___a_p_i.html#ga1a5c5601699db951d116d0cf7e4c38a1'', [8, 0, 1, 1, 10]),
      (''group___exosite___a_p_i.html#ga1a5c5601699db951d116d0cf7e4c38a1'', [8, 0, 3, 5, 19]),
      (''group___exosite___a_p_i.html#ga1a5c5601699db951d116d0cf7e4c38a1'', [6, 1, 7]),
      (''group___exosite___a_p_i.html#ga245a9bf0809e30f4bf79a259ca8c9778'', [8, 0, 1, 1, 18]),
      (''group___exosite___a_p_i.html#ga245a9bf0809e30f4bf79a259ca8c9778'', [6, 1, 15]),
      (''group___exosite___a_p_i.html#ga245a9bf0809e30f4bf79a259ca8c9778'', [8, 0, 3, 5, 24]),
      (''group___exosite___a_p_i.html#ga24eb564aea3e0bf7f15b5da5af6bb804'', [8, 0, 1, 1, 0]),
      (''group___exosite___a_p_i.html#ga24eb564aea3e0bf7f15b5da5af6bb804'', [6, 1, 0]),
      (''group___exosite___a_p_i.html#ga2681b5ce3d505b037ded36df8bab15ef'', [8, 0, 1, 1, 12]),
      (''group___exosite___a_p_i.html#ga2681b5ce3d505b037ded36df8bab15ef'', [8, 0, 3, 5, 21]),
      (''group___exosite___a_p_i.html#ga2681b5ce3d505b037ded36df8bab15ef'', [6, 1, 9]),
      (''group___exosite___a_p_i.html#ga5e26d3ea540cea5325256a25eb6a3f8a'', [8, 0, 1, 1, 1]),
      (''group___exosite___a_p_i.html#ga6518b4e7bb4925ee525e4fa43debc85d'', [8, 0, 1, 1, 2]),
      (''group___exosite___a_p_i.html#ga6518b4e7bb4925ee525e4fa43debc85d'', [6, 1, 1]),
      (''group___exosite___a_p_i.html#ga6820c6a3a1004c3cf5b94eeeff670dd8'', [6, 1, 14]),
      (''group___exosite___a_p_i.html#ga6820c6a3a1004c3cf5b94eeeff670dd8'', [8, 0, 1, 1, 17]),
      (''group___exosite___a_p_i.html#ga70278e356b752eba1ee606a725aec40b'', [8, 0, 1, 1, 11]),
      (''group___exosite___a_p_i.html#ga70278e356b752eba1ee606a725aec40b'', [8, 0, 3, 5, 20]),
      (''group___exosite___a_p_i.html#ga70278e356b752eba1ee606a725aec40b'', [6, 1, 8]),
      (''group___exosite___a_p_i.html#ga84b7eddedcd3e64923683b3f3ce8dbc7'', [8, 0, 1, 1, 5]),
      (''group___exosite___a_p_i.html#ga84b7eddedcd3e64923683b3f3ce8dbc7'', [6, 1, 4]),
      (''group___exosite___a_p_i.html#ga8dea001937a82446e953b63abb7c9e63'', [8, 0, 1, 1, 19]),
      (''group___exosite___a_p_i.html#ga8dea001937a82446e953b63abb7c9e63'', [6, 1, 16]),
      (''group___exosite___a_p_i.html#ga8dea001937a82446e953b63abb7c9e63'', [8, 0, 3, 5, 25]),
      (''group___exosite___a_p_i.html#ga9693b45f5a9d30fdce647d2c3a379f44'', [8, 0, 1, 1, 7]),
      (''group___exosite___a_p_i.html#ga9693b45f5a9d30fdce647d2c3a379f44'', [6, 1, 5]),
      (''group___exosite___a_p_i.html#ga9728f396a2c9259a48796d9c65bac121'', [8, 0, 1, 1, 16]),
      (''group___exosite___a_p_i.html#ga9728f396a2c9259a48796d9c65bac121'', [6, 1, 13]),
      (''group___exosite___a_p_i.html#ga9728f396a2c9259a48796d9c65bac121'', [8, 0, 3, 9, 3]),
      (''group___exosite___a_p_i.html#ga9d01bddd12fb83b8c9cb185a2662e8be'', [8, 0, 1, 1, 3]),
      (''group___exosite___a_p_i.html#ga9d01bddd12fb83b8c9cb185a2662e8be'', [6, 1, 2]),
      (''group___exosite___a_p_i.html#gaac628db55f159c64251584ef611d6ef1'', [8, 0, 1, 1, 14]),
      (''group___exosite___a_p_i.html#gaac628db55f159c64251584ef611d6ef1'', [6, 1, 11]),
      (''group___exosite___a_p_i.html#gaac628db55f159c64251584ef611d6ef1'', [8, 0, 3, 9, 1]),
      (''group___exosite___a_p_i.html#gab8edb09e2a237927624249c76dbf99a4'', [8, 0, 1, 1, 9]),
      (''group___exosite___a_p_i.html#gab8edb09e2a237927624249c76dbf99a4'', [8, 0, 3, 5, 18]),
      (''group___exosite___a_p_i.html#gab8edb09e2a237927624249c76dbf99a4'', [6, 1, 6]),
      (''group___exosite___a_p_i.html#gadc34ec5c4ff81d6e0985218f43209ac0'', [6, 1, 12]),
      (''group___exosite___a_p_i.html#gadc34ec5c4ff81d6e0985218f43209ac0'', [8, 0, 1, 1, 15]),
      (''group___exosite___a_p_i.html#gadc34ec5c4ff81d6e0985218f43209ac0'', [8, 0, 3, 9, 2]),
      (''group___exosite___a_p_i.html#gaeb9551e987ca4d871864732b3da1233e'', [8, 0, 1, 1, 6]),
      (''group___exosite___a_p_i.html#gga1a2cc30a82998509f33b7f08388b8274a7a0e78e6954dec518f535198c6474c7f'', [8, 0, 1, 1, 8, 4]),
      (''group___exosite___a_p_i.html#gga1a2cc30a82998509f33b7f08388b8274aa99124b4129730fc6de8275519af1fbd'', [8, 0, 1, 1, 8, 1]),
      (''group___exosite___a_p_i.html#gga1a2cc30a82998509f33b7f08388b8274ab12deb5de5374012eb6e586bed50dfc5'', [8, 0, 1, 1, 8, 0]),
      (''group___exosite___a_p_i.html#gga1a2cc30a82998509f33b7f08388b8274adadd8b75c632ecb5e4f70670b701e313'', [8, 0, 1, 1, 8, 2]),
      (''group___exosite___a_p_i.html#gga1a2cc30a82998509f33b7f08388b8274af3fb151cad7b03a0c89855a4ab36896a'', [8, 0, 1, 1, 8, 3]),
      (''group__client__config.html'', [6, 6]),
      (''group__client__config.html#ga00dd14915a00326a6e39b8eeee387780'', [6, 6, 6]),
      (''group__client__config.html#ga00dd14915a00326a6e39b8eeee387780'', [8, 0, 3, 4, 7]),
      (''group__client__config.html#ga0f3c844fa9aae27378590e1840bf9a32'', [6, 6, 9]),
      (''group__client__config.html#ga0f3c844fa9aae27378590e1840bf9a32'', [8, 0, 3, 4, 10]),
      (''group__client__config.html#ga11fa5f73d9270aa199c83279a7bd59a0'', [8, 0, 3, 2, 4, 4]),
      (''group__client__config.html#ga11fa5f73d9270aa199c83279a7bd59a0'', [6, 6, 14]),
      (''group__client__config.html#ga1cf61a25d85cf08a85d6d9adbaed5b09'', [8, 0, 3, 4, 6]),
      (''group__client__config.html#ga1dc406ec756f603c58b9ae6680716d6c'', [6, 6, 10]),
      (''group__client__config.html#ga1dc406ec756f603c58b9ae6680716d6c'', [8, 0, 3, 4, 11]),
      (''group__client__config.html#ga51c133c21f108820a33c6cbcd97bde45'', [6, 6, 7]),
      (''group__client__config.html#ga51c133c21f108820a33c6cbcd97bde45'', [8, 0, 3, 4, 8]),
      (''group__client__config.html#ga7ecfc4f687a6d4e03a885968718423cd'', [8, 0, 3, 4, 9]),
      (''group__client__config.html#ga7ecfc4f687a6d4e03a885968718423cd'', [6, 6, 8]),
      (''group__client__config.html#gacc5775b631ae131c3ff8641bc40ca25e'', [8, 0, 3, 3, 0, 11]),
      (''group__client__config.html#gacc5775b631ae131c3ff8641bc40ca25e'', [6, 6, 13]),
      (''group__client__config.html#gaf6a9fbe09b9918b8a6bcdb4f91794910'', [8, 0, 3, 3, 2, 5]),
      (''group__client__config.html#gaf6a9fbe09b9918b8a6bcdb4f91794910'', [8, 0, 3, 3, 1, 5]),
      (''group__client__config.html#gaf6a9fbe09b9918b8a6bcdb4f91794910'', [6, 6, 12]),
      (''group__client__config.html#gafea73188c2073dc2b683fb44bab69349'', [8, 0, 3, 2, 7, 5]),
      (''group__client__config.html#gafea73188c2073dc2b683fb44bab69349'', [8, 0, 3, 2, 10, 2]),
      (''group__client__config.html#gafea73188c2073dc2b683fb44bab69349'', [6, 6, 11]),
      (''group__config__port.html'', [6, 2]),
      (''group__config__port.html#ga084b21d60a4579a4c866f2a095bc65c6'', [8, 0, 2, 2, 6]),
      (''group__config__port.html#ga084b21d60a4579a4c866f2a095bc65c6'', [6, 2, 6]),
      (''group__config__port.html#ga099581e53d07aedb98b3bf6b520dd62a'', [8, 0, 2, 2, 9]),
      (''group__config__port.html#ga099581e53d07aedb98b3bf6b520dd62a'', [6, 2, 9]),
      (''group__config__port.html#ga0ad68b7e15c177f5c5c65858a3002041'', [6, 2, 0]),
      (''group__config__port.html#ga0ad68b7e15c177f5c5c65858a3002041'', [8, 0, 2, 2, 0]),
      (''group__config__port.html#ga122d7b3d8e66a5b7f29b626d1e57c0e6'', [8, 0, 2, 2, 17]),
      (''group__config__port.html#ga122d7b3d8e66a5b7f29b626d1e57c0e6'', [6, 2, 17]),
      (''group__config__port.html#ga14503280ca0cb757db915eea09282bfc'', [6, 2, 25]),
      (''group__config__port.html#ga14503280ca0cb757db915eea09282bfc'', [8, 0, 2, 2, 26]),
      (''group__config__port.html#ga1569275063253ce85180e755a82e536d'', [6, 2, 30]),
      (''group__config__port.html#ga1569275063253ce85180e755a82e536d'', [8, 0, 2, 2, 31]),
      (''group__config__port.html#ga2756127335810471fc2ea8b84538f693'', [8, 0, 2, 2, 22]),
      (''group__config__port.html#ga2756127335810471fc2ea8b84538f693'', [6, 2, 21]),
      (''group__config__port.html#ga2fe5244476e17317164dd863ba34a0ea'', [8, 0, 2, 2, 7]),
      (''group__config__port.html#ga2fe5244476e17317164dd863ba34a0ea'', [6, 2, 7]),
      (''group__config__port.html#ga346f861aa5bdea452c2d0edbec3cb852'', [8, 0, 2, 2, 40]),
      (''group__config__port.html#ga346f861aa5bdea452c2d0edbec3cb852'', [6, 2, 39]),
      (''group__config__port.html#ga351863517ce2dd6bc71f458cc6a0ca23'', [8, 0, 2, 2, 5]),
      (''group__config__port.html#ga351863517ce2dd6bc71f458cc6a0ca23'', [6, 2, 5]),
      (''group__config__port.html#ga3df52e9809253860c385be6f3a160607'', [6, 2, 27])]"

definition navtreeindex2b :: nav_index where
  "navtreeindex2b =
     [(''group__config__port.html#ga3df52e9809253860c385be6f3a160607'', [8, 0, 2, 2, 28]),
      (''group__config__port.html#ga405d10d46190bcb0320524c54eafc850'', [6, 2, 32]),
      (''group__config__port.html#ga405d10d46190bcb0320524c54eafc850'', [8, 0, 2, 2, 33]),
      (''group__config__port.html#ga44947a45f8730ca78692b152f9916be6'', [6, 2, 1]),
      (''group__config__port.html#ga44947a45f8730ca78692b152f9916be6'', [8, 0, 2, 2, 1]),
      (''group__config__port.html#ga550e5c272cc3cf3814651721167dcd23'', [6, 2, 37]),
      (''group__config__port.html#ga550e5c272cc3cf3814651721167dcd23'', [8, 0, 2, 2, 38]),
      (''group__config__port.html#ga586542b79d00e4db7e1d5a667ae83a2b'', [8, 0, 2, 2, 41]),
      (''group__config__port.html#ga586542b79d00e4db7e1d5a667ae83a2b'', [6, 2, 40]),
      (''group__config__port.html#ga5cb94dc8a4a53289ac2c3735863442e6'', [6, 2, 2]),
      (''group__config__port.html#ga5cb94dc8a4a53289ac2c3735863442e6'', [8, 0, 2, 2, 2]),
      (''group__config__port.html#ga701661959748304450fc323fe09f617b'', [8, 0, 2, 2, 20]),
      (''group__config__port.html#ga790c97bbd7d37b1ea2d2edeecff9d480'', [8, 0, 2, 2, 10]),
      (''group__config__port.html#ga790c97bbd7d37b1ea2d2edeecff9d480'', [6, 2, 10]),
      (''group__config__port.html#ga7ed5b6c7cde2d0cf187305c882526fba'', [6, 2, 4]),
      (''group__config__port.html#ga7ed5b6c7cde2d0cf187305c882526fba'', [8, 0, 2, 2, 4]),
      (''group__config__port.html#ga8e1458050722d11b62f88ffd94fa31fa'', [6, 2, 3]),
      (''group__config__port.html#ga8e1458050722d11b62f88ffd94fa31fa'', [8, 0, 2, 2, 3]),
      (''group__config__port.html#ga9bee6d8db098b2230690f8e8db9ffb74'', [6, 2, 33]),
      (''group__config__port.html#ga9bee6d8db098b2230690f8e8db9ffb74'', [8, 0, 2, 2, 34]),
      (''group__config__port.html#ga9c2636db474d43e3b4d079b615b92d18'', [6, 2, 35]),
      (''group__config__port.html#ga9c2636db474d43e3b4d079b615b92d18'', [8, 0, 2, 2, 36]),
      (''group__config__port.html#ga9e0e434ec1a6ddbd97db12b5a32905e0'', [6, 2, 29]),
      (''group__config__port.html#ga9e0e434ec1a6ddbd97db12b5a32905e0'', [8, 0, 2, 2, 30]),
      (''group__config__port.html#gaa6121130d0dd17bf9bb6e3c75871222a'', [8, 0, 2, 2, 16]),
      (''group__config__port.html#gaa6121130d0dd17bf9bb6e3c75871222a'', [6, 2, 16]),
      (''group__config__port.html#gaa71f926ee4abe503b5c13ea0d0edc131'', [8, 0, 2, 2, 15]),
      (''group__config__port.html#gaa71f926ee4abe503b5c13ea0d0edc131'', [6, 2, 15]),
      (''group__config__port.html#gaaf5a0973d3b3092f368ba4af59b7c3d0'', [8, 0, 2, 2, 19]),
      (''group__config__port.html#gaaf5a0973d3b3092f368ba4af59b7c3d0'', [6, 2, 19]),
      (''group__config__port.html#gab6cd6d1c63c1e26ea2d4537b77148354'', [6, 2, 28]),
      (''group__config__port.html#gab6cd6d1c63c1e26ea2d4537b77148354'', [8, 0, 2, 2, 29]),
      (''group__config__port.html#gab90a030ff2790ebdc176660a6dd2a478'', [8, 0, 2, 2, 24]),
      (''group__config__port.html#gab90a030ff2790ebdc176660a6dd2a478'', [6, 2, 23]),
      (''group__config__port.html#gabe44721da938e6d638054219dd72c907'', [8, 0, 2, 2, 39]),
      (''group__config__port.html#gabe44721da938e6d638054219dd72c907'', [6, 2, 38]),
      (''group__config__port.html#gabfdba307670e26e0cd69840fc48d89f2'', [8, 0, 2, 2, 18]),
      (''group__config__port.html#gabfdba307670e26e0cd69840fc48d89f2'', [6, 2, 18]),
      (''group__config__port.html#gac113b1149ff6806b32454e2897354a40'', [6, 2, 34]),
      (''group__config__port.html#gac113b1149ff6806b32454e2897354a40'', [8, 0, 2, 2, 35]),
      (''group__config__port.html#gac70f0930238c8d095d7cc2ee8b522c77'', [8, 0, 2, 2, 25]),
      (''group__config__port.html#gac70f0930238c8d095d7cc2ee8b522c77'', [6, 2, 24]),
      (''group__config__port.html#gacd294693d00439623abeeacb8f78b33a'', [8, 0, 2, 2, 12]),
      (''group__config__port.html#gacd294693d00439623abeeacb8f78b33a'', [6, 2, 12]),
      (''group__config__port.html#gad0eabe2e5407bc73450eb15b657983cd'', [8, 0, 2, 2, 23]),
      (''group__config__port.html#gad0eabe2e5407bc73450eb15b657983cd'', [6, 2, 22]),
      (''group__config__port.html#gad4c234dd1625255dc626a15886306e7d'', [6, 2, 31]),
      (''group__config__port.html#gad4c234dd1625255dc626a15886306e7d'', [8, 0, 2, 2, 32]),
      (''group__config__port.html#gad571c2c076a0a2b5b9126e3778a60f86'', [6, 2, 13]),
      (''group__config__port.html#gad571c2c076a0a2b5b9126e3778a60f86'', [8, 0, 2, 2, 13]),
      (''group__config__port.html#gada1a09fe8b112ccfd27ba0f7722f1cc1'', [6, 2, 8]),
      (''group__config__port.html#gada1a09fe8b112ccfd27ba0f7722f1cc1'', [8, 0, 2, 2, 8]),
      (''group__config__port.html#gae8c5a13f1bb84e12c962f2f83a5c7640'', [8, 0, 2, 2, 21]),
      (''group__config__port.html#gae8c5a13f1bb84e12c962f2f83a5c7640'', [6, 2, 20]),
      (''group__config__port.html#gae93a78f9d076138897af441c9f86f285'', [6, 2, 26]),
      (''group__config__port.html#gae93a78f9d076138897af441c9f86f285'', [8, 0, 2, 2, 27]),
      (''group__config__port.html#gaece77dcdf776ae8a75b2c08dea2cbf15'', [8, 0, 2, 2, 14]),
      (''group__config__port.html#gaece77dcdf776ae8a75b2c08dea2cbf15'', [6, 2, 14]),
      (''group__config__port.html#gaee65942ab29aecd1dabbef2bde8532fa'', [8, 0, 2, 2, 37]),
      (''group__config__port.html#gaee65942ab29aecd1dabbef2bde8532fa'', [6, 2, 36]),
      (''group__config__port.html#gaf1a8e3b50eb34ebb5dacd9fcb2f0250c'', [8, 0, 2, 2, 11]),
      (''group__config__port.html#gaf1a8e3b50eb34ebb5dacd9fcb2f0250c'', [6, 2, 11]),
      (''group__net__port__interface.html'', [6, 3]),
      (''group__net__port__interface.html#ga54772bbed992f9c80914e0935e80f8f8'', [8, 0, 2, 0, 0, 2, 1]),
      (''group__net__port__interface.html#ga54772bbed992f9c80914e0935e80f8f8'', [8, 0, 2, 0, 1, 1, 0]),
      (''group__net__port__interface.html#ga54772bbed992f9c80914e0935e80f8f8'', [8, 0, 2, 0, 2, 0, 1]),
      (''group__net__port__interface.html#ga54772bbed992f9c80914e0935e80f8f8'', [6, 3, 6]),
      (''group__net__port__interface.html#ga6c56f35694918f8250fc2649f3139316'', [6, 3, 4]),
      (''group__net__port__interface.html#ga74f8a52f05a711c0aa99104f23808ecb'', [8, 0, 2, 0, 0, 1, 0]),
      (''group__net__port__interface.html#ga74f8a52f05a711c0aa99104f23808ecb'', [8, 0, 2, 0, 1, 0, 0]),
      (''group__net__port__interface.html#ga74f8a52f05a711c0aa99104f23808ecb'', [8, 0, 2, 0, 2, 3, 0]),
      (''group__net__port__interface.html#ga74f8a52f05a711c0aa99104f23808ecb'', [6, 3, 5]),
      (''group__net__port__interface.html#ga939b5c918f33d00da530eee4a47e142d'', [6, 3, 3]),
      (''group__net__port__interface.html#gae91e94bda8afc019c748978a7a22e5cb'', [8, 0, 2, 0, 0, 3, 1]),
      (''group__net__port__interface.html#gae91e94bda8afc019c748978a7a22e5cb'', [8, 0, 2, 0, 1, 2, 0]),
      (''group__net__port__interface.html#gae91e94bda8afc019c748978a7a22e5cb'', [8, 0, 2, 0, 2, 1, 0]),
      (''group__net__port__interface.html#gae91e94bda8afc019c748978a7a22e5cb'', [8, 0, 2, 0, 3, 0, 0]),
      (''group__net__port__interface.html#gae91e94bda8afc019c748978a7a22e5cb'', [6, 3, 7]),
      (''group__net__port__interface.html#gga939b5c918f33d00da530eee4a47e142dac94dd5f2c451c7dd87ed23e78240a41c'', [6, 3, 3, 0]),
      (''group__net__port__interface.html#gga939b5c918f33d00da530eee4a47e142dae8a6d6a784f1a4dd5a66d93a0dcc73c9'', [6, 3, 3, 1]),
      (''group__pclb.html'', [6, 7]),
      (''group__pclb.html#ga1019b64a2ec387817a5685540f0d6486'', [8, 0, 3, 1, 10, 1]),
      (''group__pclb.html#ga1019b64a2ec387817a5685540f0d6486'', [6, 7, 0]),
      (''group__pclb.html#ga1019b64a2ec387817a5685540f0d6486'', [8, 0, 3, 0, 1, 13, 0]),
      (''group__pclb.html#ga28c23ebda75cc16d211cf170b57e65f6'', [8, 0, 3, 1, 10, 2]),
      (''group__pclb.html#ga28c23ebda75cc16d211cf170b57e65f6'', [6, 7, 1]),
      (''group__pclb.html#ga28c23ebda75cc16d211cf170b57e65f6'', [8, 0, 3, 0, 1, 13, 1]),
      (''group__pclb.html#ga2d55dfa4072a1a8426d030c1753824f1'', [8, 0, 3, 1, 10, 4]),
      (''group__pclb.html#ga2d55dfa4072a1a8426d030c1753824f1'', [6, 7, 3]),
      (''group__pclb.html#ga2d55dfa4072a1a8426d030c1753824f1'', [8, 0, 3, 0, 1, 13, 3]),
      (''group__pclb.html#gabaf3ae1c39154d13f10730be4dc13451'', [8, 0, 3, 1, 10, 3]),
      (''group__pclb.html#gabaf3ae1c39154d13f10730be4dc13451'', [6, 7, 2]),
      (''group__pclb.html#gabaf3ae1c39154d13f10730be4dc13451'', [8, 0, 3, 0, 1, 13, 2]),
      (''group__pclb.html#gac4f5668e377615f881e10902795718a7'', [8, 0, 3, 1, 10, 5]),
      (''group__pclb.html#gac4f5668e377615f881e10902795718a7'', [6, 7, 4]),
      (''group__pclb.html#gac4f5668e377615f881e10902795718a7'', [8, 0, 3, 0, 1, 13, 4]),
      (''group__pclb.html#gaecd6386f09d025ffabc5c4cea4829fcf'', [8, 0, 3, 1, 10, 6]),
      (''group__pclb.html#gaecd6386f09d025ffabc5c4cea4829fcf'', [6, 7, 5]),
      (''group__pclb.html#gaecd6386f09d025ffabc5c4cea4829fcf'', [8, 0, 3, 0, 1, 13, 5]),
      (''group__protocol__client.html'', [6, 8]),
      (''group__protocol__client__sm.html'', [6, 9]),
      (''group__protocol__client__sm.html#ga25c31f466eb4402dcfdfe1be49d6cd57'', [8, 0, 3, 0, 8, 4]),
      (''group__protocol__client__sm.html#ga25c31f466eb4402dcfdfe1be49d6cd57'', [8, 0, 3, 7, 16]),
      (''group__protocol__client__sm.html#ga25c31f466eb4402dcfdfe1be49d6cd57'', [6, 9, 3]),
      (''group__protocol__client__sm.html#ga2eeace0f82cb4db6054278da31fac6df'', [8, 0, 3, 0, 8, 7]),
      (''group__protocol__client__sm.html#ga2eeace0f82cb4db6054278da31fac6df'', [8, 0, 3, 7, 19]),
      (''group__protocol__client__sm.html#ga2eeace0f82cb4db6054278da31fac6df'', [6, 9, 6]),
      (''group__protocol__client__sm.html#ga4115db5a1dec137d034ba334d16373fc'', [8, 0, 3, 0, 8, 0]),
      (''group__protocol__client__sm.html#ga4f3d55469e8c238a454b3a8e670965ea'', [8, 0, 3, 0, 8, 5]),
      (''group__protocol__client__sm.html#ga4f3d55469e8c238a454b3a8e670965ea'', [8, 0, 3, 7, 17]),
      (''group__protocol__client__sm.html#ga4f3d55469e8c238a454b3a8e670965ea'', [6, 9, 4]),
      (''group__protocol__client__sm.html#ga5d6eb263e6472e3da31268c2d13a0a47'', [8, 0, 3, 0, 8, 3]),
      (''group__protocol__client__sm.html#ga5d6eb263e6472e3da31268c2d13a0a47'', [8, 0, 3, 7, 15]),
      (''group__protocol__client__sm.html#ga5d6eb263e6472e3da31268c2d13a0a47'', [6, 9, 2]),
      (''group__protocol__client__sm.html#gaa4630c533cc1804e2de9d8d26e0d7082'', [8, 0, 3, 0, 8, 8]),
      (''group__protocol__client__sm.html#gaa4630c533cc1804e2de9d8d26e0d7082'', [8, 0, 3, 7, 20]),
      (''group__protocol__client__sm.html#gaa4630c533cc1804e2de9d8d26e0d7082'', [6, 9, 7]),
      (''group__protocol__client__sm.html#gac4759723fde32a0427cbd7d484cc873b'', [8, 0, 3, 0, 8, 9]),
      (''group__protocol__client__sm.html#gac4759723fde32a0427cbd7d484cc873b'', [8, 0, 3, 7, 22]),
      (''group__protocol__client__sm.html#gac4759723fde32a0427cbd7d484cc873b'', [6, 9, 8]),
      (''group__protocol__client__sm.html#gad530e5f70715093294451963921d3407'', [8, 0, 3, 0, 8, 2]),
      (''group__protocol__client__sm.html#gad530e5f70715093294451963921d3407'', [8, 0, 3, 7, 14]),
      (''group__protocol__client__sm.html#gad530e5f70715093294451963921d3407'', [6, 9, 1]),
      (''group__protocol__client__sm.html#gadeac0c2c8171a49ced17f4d4a542a4ec'', [8, 0, 3, 0, 8, 1]),
      (''group__protocol__client__sm.html#gaf20f6dea17c9ff09ff4c4c5c005390fc'', [8, 0, 3, 0, 8, 6])]"

definition NAVTREEINDEX2 :: nav_index where
  "NAVTREEINDEX2 = navtreeindex2a @ navtreeindex2b"

lemma located_2a: "located_in 2 navtreeindex2a"
  by (rule located_in_code [of 2, simplified]; code_simp)

lemma located_2b: "located_in 2 navtreeindex2b"
  by (rule located_in_code [of 2, simplified]; code_simp)

lemma located_2: "located_in 2 NAVTREEINDEX2"
  by (simp add: NAVTREEINDEX2_def located_in_append located_2a located_2b)

end
