(* ===== verification/NavIndex3.thy ===== *)
theory NavIndex3
  imports NavData
begin

text \<open>
  The generated index table \<open>navtreeindex3.js\<close>, in two parts, and the fact that the loop of
  \<open>navTo\<close> sends every key of it to this table.
\<close>

definition navtreeindex3a :: nav_index where
  "navtreeindex3a =
     [(''group__protocol__client__sm.html#gaf20f6dea17c9ff09ff4c4c5c005390fc'', [8, 0, 3, 7, 18]),
      (''group__protocol__client__sm.html#gaf20f6dea17c9ff09ff4c4c5c005390fc'', [6, 9, 5]),
      (''group__protocol__client__sm.html#ggadeac0c2c8171a49ced17f4d4a542a4eca904943854ec6125db0ce323002773c89'', [8, 0, 3, 0, 8, 1, 0]),
      (''group__protocol__client__sm.html#ggadeac0c2c8171a49ced17f4d4a542a4ecaa6f940d9de17a31c844df2011d228bb3'', [8, 0, 3, 0, 8, 1, 2]),
      (''group__protocol__client__sm.html#ggadeac0c2c8171a49ced17f4d4a542a4ecacfda64619e61c1358fea23fd33d51d11'', [8, 0, 3, 0, 8, 1, 1]),
      (''group__system__port__interface.html'', [6, 4]),
      (''group__system__port__interface.html#ga06f6bc506ca833208f11fa9bf4c18c3f'', [6, 4, 10]),
      (''group__system__port__interface.html#ga100b86113d1fadedf408aa73f69616d0'', [6, 4, 2]),
      (''group__system__port__interface.html#ga48c1a60a65fe4aebb0821b338de0c683'', [6, 4, 5]),
      (''group__system__port__interface.html#ga694b8756f4eac9935d58923c9652f8e8'', [6, 4, 3]),
      (''group__system__port__interface.html#ga7ecf46987ea3260b0e54fb6e5765bc7e'', [6, 4, 9]),
      (''group__system__port__interface.html#ga89525ce656ca48f2506477d69c538794'', [6, 4, 7]),
      (''group__system__port__interface.html#ga9feeb70b1abd192deab9df0df68aed92'', [6, 4, 1]),
      (''group__system__port__interface.html#gaa6b8b52cd91774ae02c2b293d982a646'', [6, 4, 8]),
      (''group__system__port__interface.html#gacd4ffaeda19468b998d390451652133a'', [6, 4, 4]),
      (''group__system__port__interface.html#gad4c2a0f4911bc247f3629e4bc30d1ce3'', [6, 4, 6]),
      (''group__thread__port__interface.html'', [6, 5]),
      (''group__thread__port__interface.html#ga0ae99c82b2bffa8342d49a3be86fba2c'', [6, 5, 4]),
      (''group__thread__port__interface.html#ga1400a0ed4a4c5b30cd6203ad6ffb56b5'', [6, 5, 3]),
      (''group__thread__port__interface.html#ga3f1ab376de20ab7bf067703dea235bf5'', [6, 5, 9]),
      (''group__thread__port__interface.html#ga46f8aaa2375b466fc565c9459ee43556'', [6, 5, 10]),
      (''group__thread__port__interface.html#ga5381c059d28416a8dfcc7f2d5fb71e22'', [6, 5, 1]),
      (''group__thread__port__interface.html#ga53bc3277f7f3474be3e08dd3a12d09a5'', [6, 5, 8]),
      (''group__thread__port__interface.html#ga5ff76e122b93e2e9aa258f49eff037b4'', [6, 5, 6]),
      (''group__thread__port__interface.html#ga7f59d2e926f019ad955ccba7d87c3e4f'', [6, 5, 7]),
      (''group__thread__port__interface.html#gaa8b9fd873cdf3adc814876bb222efffc'', [6, 5, 2]),
      (''group__thread__port__interface.html#gab37a0136390eff5aaf2bd8d6650f4532'', [6, 5, 5]),
      (''heap__manager_8c.html'', [8, 0, 3, 1, 3]),
      (''heap__manager_8c.html#a014cdab9bda09f5eea9fbc6e6f257370'', [8, 0, 3, 1, 3, 8]),
      (''heap__manager_8c.html#a0e39537c2e3371742bc2443160d048ef'', [8, 0, 3, 1, 3, 7]),
      (''heap__manager_8c.html#a11c2163051d5e412ebb1f8dd24b45948'', [8, 0, 3, 1, 3, 6]),
      (''heap__manager_8c.html#a4f4870d1334dd6f817c4e703f1b4ce4a'', [8, 0, 3, 1, 3, 2]),
      (''heap__manager_8c.html#a59ea9700053f11233202c878907ba7df'', [8, 0, 3, 1, 3, 9]),
      (''heap__manager_8c.html#a9709a55d2c94b1407332f98fb246524e'', [8, 0, 3, 1, 3, 5]),
      (''heap__manager_8c.html#a9b087321eeff841aaa8a9d0099879d05'', [8, 0, 3, 1, 3, 1]),
      (''heap__manager_8c.html#ab30d5946e31b7a4e8fafee6e8a68377a'', [8, 0, 3, 1, 3, 11]),
      (''heap__manager_8c.html#abd1ca9b002dcac8b42b772ef33b65cc2'', [8, 0, 3, 1, 3, 12]),
      (''heap__manager_8c.html#abe3ffc4123091cf910712e8bc8b6f5ff'', [8, 0, 3, 1, 3, 3]),
      (''heap__manager_8c.html#ac73167606b674264e2e798aea50932af'', [8, 0, 3, 1, 3, 10]),
      (''heap__manager_8c.html#ad55ffa19b719c69a7ff77491ffde38e5'', [8, 0, 3, 1, 3, 4]),
      (''heap__manager_8c.html#ae7d703c2cfa87d66c6f01d4419ab6f1d'', [8, 0, 3, 1, 3, 0]),
      (''heap__manager_8h.html'', [8, 0, 3, 0, 1, 9]),
      (''heap__manager_8h.html#a014cdab9bda09f5eea9fbc6e6f257370'', [8, 0, 3, 0, 1, 9, 6]),
      (''heap__manager_8h.html#a0e39537c2e3371742bc2443160d048ef'', [8, 0, 3, 0, 1, 9, 5]),
      (''heap__manager_8h.html#a4f4870d1334dd6f817c4e703f1b4ce4a'', [8, 0, 3, 0, 1, 9, 0]),
      (''heap__manager_8h.html#a59ea9700053f11233202c878907ba7df'', [8, 0, 3, 0, 1, 9, 7]),
      (''heap__manager_8h.html#a8baa85576fa9835e3a1aa6837a62379a'', [8, 0, 3, 0, 1, 9, 4]),
      (''heap__manager_8h.html#a9709a55d2c94b1407332f98fb246524e'', [8, 0, 3, 0, 1, 9, 3]),
      (''heap__manager_8h.html#abe3ffc4123091cf910712e8bc8b6f5ff'', [8, 0, 3, 0, 1, 9, 1]),
      (''heap__manager_8h.html#ac73167606b674264e2e798aea50932af'', [8, 0, 3, 0, 1, 9, 8]),
      (''heap__manager_8h.html#ad55ffa19b719c69a7ff77491ffde38e5'', [8, 0, 3, 0, 1, 9, 2]),
      (''heap__manager_8h_source.html'', [8, 0, 3, 0, 1, 9]),
      (''heap__space__internal_8h.html'', [8, 0, 3, 1, 4]),
      (''heap__space__internal_8h.html#a1ac1f2903d3f9e4205e022ba8984687e'', [8, 0, 3, 1, 4, 8]),
      (''heap__space__internal_8h.html#a252d9209df207f63174aa9981c5c07a5'', [8, 0, 3, 1, 4, 6]),
      (''heap__space__internal_8h.html#a4f0acc986673de16a419acbd316758c8'', [8, 0, 3, 1, 4, 2]),
      (''heap__space__internal_8h.html#a52ba851d3b7ea59f4a1e9c603e1274f3'', [8, 0, 3, 1, 4, 1]),
      (''heap__space__internal_8h.html#a889b8610956439677e9ba5672fc230ed'', [8, 0, 3, 1, 4, 5]),
      (''heap__space__internal_8h.html#aa2b613ea7a3b04266caa641aa7e455f4'', [8, 0, 3, 1, 4, 4]),
      (''heap__space__internal_8h.html#abb95733e44e9a0314a47aed84b6daff9'', [8, 0, 3, 1, 4, 3]),
      (''heap__space__internal_8h.html#af4fee48a8244986b8fd2e14e17dc1599'', [8, 0, 3, 1, 4, 7]),
      (''heap__space__internal_8h_source.html'', [8, 0, 3, 1, 4]),
      (''heap__tracker_8c.html'', [8, 0, 3, 1, 5]),
      (''heap__tracker_8h.html'', [8, 0, 3, 1, 6]),
      (''heap__tracker_8h.html#a14a226a0932f7f37add9cd192dd61cab'', [8, 0, 3, 1, 6, 4]),
      (''heap__tracker_8h.html#a441643e406222575ce010889af191358'', [8, 0, 3, 1, 6, 9]),
      (''heap__tracker_8h.html#a748cf12dd4dfbaa99424174a72cf6997'', [8, 0, 3, 1, 6, 5]),
      (''heap__tracker_8h.html#a7cd975175c109bcfbf58357eebee4fc8'', [8, 0, 3, 1, 6, 6]),
      (''heap__tracker_8h.html#a8677fbdd6478373ff798b1b54d575070'', [8, 0, 3, 1, 6, 0]),
      (''heap__tracker_8h.html#ad8ac258df7b6abec8f073b33c4a04a27'', [8, 0, 3, 1, 6, 1]),
      (''heap__tracker_8h.html#ad8b83aa14d8f63bb5ae1d7e6a06f1f30'', [8, 0, 3, 1, 6, 3]),
      (''heap__tracker_8h.html#adb60b33c5836f6fd74023c3875325117'', [8, 0, 3, 1, 6, 2]),
      (''heap__tracker_8h.html#addf20b6b016f3973dbed6018193ef9f9'', [8, 0, 3, 1, 6, 7]),
      (''heap__tracker_8h.html#aff64ae8138815cd0220055a569a48423'', [8, 0, 3, 1, 6, 8]),
      (''heap__tracker_8h_source.html'', [8, 0, 3, 1, 6]),
      (''heap__types_8h.html'', [8, 0, 3, 0, 1, 10]),
      (''heap__types_8h.html#a131513ede31377e2bc97895d93554efb'', [8, 0, 3, 0, 1, 10, 2]),
      (''heap__types_8h.html#a1f27fad81dc4701347d633d2669eb23f'', [8, 0, 3, 0, 1, 10, 3]),
      (''heap__types_8h.html#a2189f918f5fd458c5246f6535b6c6f16'', [8, 0, 3, 0, 1, 10, 1]),
      (''heap__types_8h.html#a5366ca355250281cafbf8d52e5f1c132'', [8, 0, 3, 0, 1, 10, 0]),
      (''heap__types_8h_source.html'', [8, 0, 3, 0, 1, 10]),
      (''hs__mem_8c.html'', [8, 0, 3, 1, 7]),
      (''hs__mem_8c.html#a03c3aea29e2ca1d8739d9d2300fa33c3'', [8, 0, 3, 1, 7, 5]),
      (''hs__mem_8c.html#a1ac1f2903d3f9e4205e022ba8984687e'', [8, 0, 3, 1, 7, 9]),
      (''hs__mem_8c.html#a1e8e12ef58fd905bb7105942576052db'', [8, 0, 3, 1, 7, 13]),
      (''hs__mem_8c.html#a47bc255bc7f708ea1cbb3f2718364dbd'', [8, 0, 3, 1, 7, 16]),
      (''hs__mem_8c.html#a589e439beaf940d2b97c8431048adfb2'', [8, 0, 3, 1, 7, 3]),
      (''hs__mem_8c.html#a725283494be0db3da21055876e952065'', [8, 0, 3, 1, 7, 8]),
      (''hs__mem_8c.html#a7c1e70261e3452e8f72ff53e827a3938'', [8, 0, 3, 1, 7, 14]),
      (''hs__mem_8c.html#a80522cfaced663b94354eef91be36d18'', [8, 0, 3, 1, 7, 4]),
      (''hs__mem_8c.html#a81a3ed5acc0322b55531cda770fa6b7d'', [8, 0, 3, 1, 7, 10]),
      (''hs__mem_8c.html#a8fe712d2e28a77ac0f96aa5766a3a9e6'', [8, 0, 3, 1, 7, 1]),
      (''hs__mem_8c.html#a9ddd2215bcc5df514b05fe6bfd91eda7'', [8, 0, 3, 1, 7, 15]),
      (''hs__mem_8c.html#aa5729502103345cfc0eae7f057467eb1'', [8, 0, 3, 1, 7, 12]),
      (''hs__mem_8c.html#aae34cdbf1ab14641f3e8faca94b65400'', [8, 0, 3, 1, 7, 11]),
      (''hs__mem_8c.html#accf4a69ee5c00d1aca4ed7688b289194'', [8, 0, 3, 1, 7, 0]),
      (''hs__mem_8c.html#ad7bfce2880a89919cc97a9ba96c7f021'', [8, 0, 3, 1, 7, 2]),
      (''hs__mem_8c.html#af35ccedd1e68d8ab7e523022b2312b30'', [8, 0, 3, 1, 7, 6]),
      (''hs__mem_8c.html#af4fee48a8244986b8fd2e14e17dc1599'', [8, 0, 3, 1, 7, 7]),
      (''hs__mem_8h.html'', [8, 0, 3, 1, 8]),
      (''hs__mem_8h.html#a03c3aea29e2ca1d8739d9d2300fa33c3'', [8, 0, 3, 1, 8, 4]),
      (''hs__mem_8h.html#a80522cfaced663b94354eef91be36d18'', [8, 0, 3, 1, 8, 3]),
      (''hs__mem_8h.html#a8fe712d2e28a77ac0f96aa5766a3a9e6'', [8, 0, 3, 1, 8, 0]),
      (''hs__mem_8h.html#abe60e3b524cb1e625d2536ff7a648b28'', [8, 0, 3, 1, 8, 2]),
      (''hs__mem_8h.html#ad7bfce2880a89919cc97a9ba96c7f021'', [8, 0, 3, 1, 8, 1]),
      (''hs__mem_8h_source.html'', [8, 0, 3, 1, 8]),
      (''http__client_8c.html'', [8, 0, 3, 2, 4]),
      (''http__client_8c.html#a2024c7586f13b16cee236910e4ced78f'', [8, 0, 3, 2, 4, 1]),
      (''http__client_8c.html#a47526076b45c28eff60b5f8bcd96e759'', [8, 0, 3, 2, 4, 9]),
      (''http__client_8c.html#a68db36952738158b292291ed4d5e8ae9'', [8, 0, 3, 2, 4, 5]),
      (''http__client_8c.html#aa8b0ac6215e7a232d88b1f67ef1a40fb'', [8, 0, 3, 2, 4, 7]),
      (''http__client_8c.html#ab549ad2be6a298e4f6523350fa3e817e'', [8, 0, 3, 2, 4, 6]),
      (''http__client_8c.html#ac5d5b8c741ba234b056159f8f676d8b1'', [8, 0, 3, 2, 4, 3]),
      (''http__client_8c.html#ad60c3ee8e60735a48140b6eb6b2be82c'', [8, 0, 3, 2, 4, 10]),
      (''http__client_8c.html#adb72f0e9ea0dcb42f51bca3d3251e5ec'', [8, 0, 3, 2, 4, 2]),
      (''http__client_8c.html#adb72f0e9ea0dcb42f51bca3d3251e5eca02ced3c5e0a56e8678da531813ce1c9d'', [8, 0, 3, 2, 4, 2, 1]),
      (''http__client_8c.html#adb72f0e9ea0dcb42f51bca3d3251e5eca02ced3c5e0a56e8678da531813ce1c9d'', [8, 0, 3, 3, 0, 2, 1]),
      (''http__client_8c.html#adb72f0e9ea0dcb42f51bca3d3251e5eca6c4e86ee86eeeb33c535992d67e2c04e'', [8, 0, 3, 3, 0, 2, 0]),
      (''http__client_8c.html#adb72f0e9ea0dcb42f51bca3d3251e5eca6c4e86ee86eeeb33c535992d67e2c04e'', [8, 0, 3, 2, 4, 2, 0]),
      (''http__client_8c.html#ae4ea76f9a40ffec36623d28424cbc475'', [8, 0, 3, 2, 4, 8]),
      (''http__parser_8c.html'', [8, 0, 3, 2, 5]),
      (''http__parser_8c.html#aaa235d5971e8ad6e1caed8f71d2a4022'', [8, 0, 3, 2, 5, 0]),
      (''http__parser_8h.html'', [8, 0, 3, 2, 6]),
      (''http__parser_8h.html#a080e90459a19bbd0acf7e3d8a332e581'', [8, 0, 3, 2, 6, 0]),
      (''http__parser_8h_source.html'', [8, 0, 3, 2, 6])]"

definition navtreeindex3b :: nav_index where
  "navtreeindex3b =
     [(''index.html'', []),
      (''libcoap__client_8c.html'', [8, 0, 3, 2, 7]),
      (''libcoap__client_8c.html#a11b93a7e19b9152269789f137e606878'', [8, 0, 3, 2, 7, 15]),
      (''libcoap__client_8c.html#a207cae0e752016f3bd8e8f6cab4283fd'', [8, 0, 3, 2, 7, 14]),
      (''libcoap__client_8c.html#a32ef43b419c476c8473b7000688740ae'', [8, 0, 3, 2, 7, 19]),
      (''libcoap__client_8c.html#a46c3d6acda82830fcc0eebcc7ccd4dd3'', [8, 0, 3, 2, 7, 6]),
      (''libcoap__client_8c.html#a699d266b20540b000d6ac20cbba15f88'', [8, 0, 3, 2, 7, 9]),
      (''libcoap__client_8c.html#a8302c46748200737c319a44a20c1f7b8'', [8, 0, 3, 2, 7, 8]),
      (''libcoap__client_8c.html#a84c73675e0711227fec0231ac44e3441'', [8, 0, 3, 2, 7, 13]),
      (''libcoap__client_8c.html#a9b537b4b0fcecf9ee6165f27dd947e48'', [8, 0, 3, 2, 7, 4]),
      (''libcoap__client_8c.html#a9c3b3b68af7cec983147ae5b96fee3c9'', [8, 0, 3, 2, 7, 10]),
      (''libcoap__client_8c.html#aab0c5cc5db68a422004add5ff99e7f91'', [8, 0, 3, 2, 7, 7]),
      (''libcoap__client_8c.html#aabc497173a09768daedbe2b1dd4eea2f'', [8, 0, 3, 2, 7, 1]),
      (''libcoap__client_8c.html#abc446dce76352a9d523347019508de46'', [8, 0, 3, 2, 7, 2]),
      (''libcoap__client_8c.html#ac467e9dbbd3caafa4e31321bbe24694d'', [8, 0, 3, 2, 7, 16]),
      (''libcoap__client_8c.html#ad2a730d35eec70bc8d141d5d934d069f'', [8, 0, 3, 2, 7, 3]),
      (''libcoap__client_8c.html#ad2f3678bf5eae3684fc497130b946eae'', [8, 0, 3, 2, 7, 0]),
      (''libcoap__client_8c.html#ad9ca4a191feaf20d711f13566ab8b9ce'', [8, 0, 3, 2, 7, 11]),
      (''libcoap__client_8c.html#aedfe6aa9526d8a12974e6413b5ae9291'', [8, 0, 3, 2, 7, 12]),
      (''libcoap__client_8c.html#afbd843f4997908fdeae2a22bd6ff3878'', [8, 0, 3, 2, 7, 17]),
      (''libcoap__client_8c.html#afbd853b38b9ef381b3715c4c7525ce4b'', [8, 0, 3, 2, 7, 18]),
      (''lwip__port_8c.html'', [8, 0, 2, 0, 1, 0]),
      (''mbedtls__client_8c.html'', [8, 0, 3, 2, 8]),
      (''mbedtls__client_8c.html#a02c20a3169dfdc6418ed518675ab1736'', [8, 0, 3, 2, 8, 22]),
      (''mbedtls__client_8c.html#a17184d9964af1b4a098dc06ede81c079'', [8, 0, 3, 2, 8, 6]),
      (''mbedtls__client_8c.html#a1b3c92e068e27568f92f8240a48df984'', [8, 0, 3, 2, 8, 25]),
      (''mbedtls__client_8c.html#a1fca418b50b62b9acea0e70a54bffff3'', [8, 0, 3, 2, 8, 14]),
      (''mbedtls__client_8c.html#a29f484533bf20c3fdc279c375327049c'', [8, 0, 3, 2, 8, 7]),
      (''mbedtls__client_8c.html#a2c09b9548f4ce6cb1436d2e41a16b917'', [8, 0, 3, 2, 8, 11]),
      (''mbedtls__client_8c.html#a4aa2463995c8fecfebcb42473971d8e7'', [8, 0, 3, 2, 8, 4]),
      (''mbedtls__client_8c.html#a4b002f35a665663bfab60eb577537f4f'', [8, 0, 3, 2, 8, 24]),
      (''mbedtls__client_8c.html#a509ad28979c6a0585077adb777743983'', [8, 0, 3, 2, 8, 16]),
      (''mbedtls__client_8c.html#a5335f3d92fcc5a0251343ff2a488903d'', [8, 0, 3, 2, 8, 5]),
      (''mbedtls__client_8c.html#a5bd9a41c7b8c230735c46624fc13bb1a'', [8, 0, 3, 2, 8, 21]),
      (''mbedtls__client_8c.html#a64549d8bf4d5656bc5d9d29ff81af1a3'', [8, 0, 3, 2, 8, 13]),
      (''mbedtls__client_8c.html#a6725e00970694716c672b03087235ada'', [8, 0, 3, 2, 8, 10]),
      (''mbedtls__client_8c.html#a687df3fc00aac32c7bafc388265d8ac2'', [8, 0, 3, 2, 8, 18]),
      (''mbedtls__client_8c.html#a72485f691c477cca885a6089365b6b24'', [8, 0, 3, 2, 8, 1]),
      (''mbedtls__client_8c.html#a736c30ff881d73d7c115dfb2f1d19a62'', [8, 0, 3, 2, 8, 3]),
      (''mbedtls__client_8c.html#a78212fc67ef153e2df0f4fe3a22cdeca'', [8, 0, 3, 2, 8, 26]),
      (''mbedtls__client_8c.html#a7ac4e128a127e5332f4fc97b39b3b16e'', [8, 0, 3, 2, 8, 17]),
      (''mbedtls__client_8c.html#a7f6d1291ebc8fa56f72cb4752f908e43'', [8, 0, 3, 2, 8, 23]),
      (''mbedtls__client_8c.html#aac77d0d0cab161bbd0d78ca85c12438c'', [8, 0, 3, 2, 8, 20]),
      (''mbedtls__client_8c.html#abad195c7c7553b7001f043c0bfdb8717'', [8, 0, 3, 2, 8, 12]),
      (''mbedtls__client_8c.html#ac91ef0c52b25b75bd5b1e0a276290b53'', [8, 0, 3, 2, 8, 9]),
      (''mbedtls__client_8c.html#ad01edb6916ad07a9a73f6f4c100d10fb'', [8, 0, 3, 2, 8, 15]),
      (''mbedtls__client_8c.html#ad7c91d0ff5c8e6ff5b44b1c8cb04b934'', [8, 0, 3, 2, 8, 8]),
      (''mbedtls__client_8c.html#aeec9ae2577ce34ab01f2d213b99d07e1'', [8, 0, 3, 2, 8, 19]),
      (''mbedtls__client_8c.html#af44aa7f44da6c96d5c4e1a8fdba09627'', [8, 0, 3, 2, 8, 27]),
      (''mbedtls__client_8c.html#af846397815d6b78aadc6ce9bb6bc9238'', [8, 0, 3, 2, 8, 2]),
      (''md__l_i_c_e_n_s_e.html'', [3]),
      (''md_docs__t_e_c_h_n_i_c_a_l__o_v_e_r_v_i_e_w.html'', [1]),
      (''md_include__r_e_a_d_m_e.html'', [2]),
      (''mem__check_8h.html'', [8, 0, 3, 0, 1, 11]),
      (''mem__check_8h.html#a3c74ce74ba1115f588f162521a543180'', [8, 0, 3, 0, 1, 11, 1]),
      (''mem__check_8h.html#a4ab2b537ab6eac4c5755285ee4440e8f'', [8, 0, 3, 0, 1, 11, 3]),
      (''mem__check_8h.html#ac3c99c845ef22f3116a10ae5dfb93f29'', [8, 0, 3, 0, 1, 11, 2]),
      (''mem__check_8h.html#ae2483e2b904e2c143797446aa2d1d492'', [8, 0, 3, 0, 1, 11, 0]),
      (''mem__check_8h_source.html'', [8, 0, 3, 0, 1, 11]),
      (''modules.html'', [6]),
      (''net__dev__factory_8c.html'', [8, 0, 3, 6]),
      (''net__dev__factory_8c.html#a385dfe3d6b0a8e3eccb44ae7ee73eb42'', [8, 0, 3, 6, 1]),
      (''net__dev__factory_8c.html#a6cc9b6074d754acdee35352a933483dd'', [8, 0, 3, 6, 2]),
      (''net__dev__factory_8c.html#a7c9ed237149426df1b08059f798a08cd'', [8, 0, 3, 6, 3]),
      (''net__dev__factory_8c.html#acb280287adf782228bd50c1f755edb20'', [8, 0, 3, 6, 0]),
      (''net__dev__factory_8h_source.html'', [8, 0, 3, 0, 4]),
      (''net__dev__test_8c.html'', [8, 0, 3, 2, 9]),
      (''net__dev__test_8c.html#a7d076984670ab0600048b27ffb9ccdc3'', [8, 0, 3, 2, 9, 0]),
      (''net__dev__test_8h.html'', [8, 0, 3, 0, 5]),
      (''net__dev__test_8h.html#aed606f2f8c8c5587459b3ea4892dc0ec'', [8, 0, 3, 0, 5, 0]),
      (''net__dev__test_8h_source.html'', [8, 0, 3, 0, 5]),
      (''net__if__atheros__tcp_8c.html'', [8, 0, 2, 0, 0, 2]),
      (''net__if__atheros__tcp_8c.html#a28569a3b4677fab35aeb9db0e7f78c85'', [8, 0, 2, 0, 0, 2, 5]),
      (''net__if__atheros__tcp_8c.html#a2fa84e25c39aae66ed73e4bf0fd2a65f'', [8, 0, 2, 0, 0, 2, 12]),
      (''net__if__atheros__tcp_8c.html#a4aed22ddfd8b800859f2172b1bb4e750'', [8, 0, 2, 0, 0, 2, 9]),
      (''net__if__atheros__tcp_8c.html#a5abe032e1714d3e016e9f2109d9896bb'', [8, 0, 2, 0, 0, 2, 6]),
      (''net__if__atheros__tcp_8c.html#a7cf2278d82d4800291f01d7c5c3ffbd7'', [8, 0, 2, 0, 0, 2, 7]),
      (''net__if__atheros__tcp_8c.html#ab9489e4b567199e6192ba4da278137db'', [8, 0, 2, 0, 0, 2, 8]),
      (''net__if__atheros__tcp_8c.html#abbf4a205b0586355b3821e58a867d8f1'', [8, 0, 2, 0, 0, 2, 2]),
      (''net__if__atheros__tcp_8c.html#ac037d39d323763020a5d3b929f6f4df5'', [8, 0, 2, 0, 0, 2, 10]),
      (''net__if__atheros__tcp_8c.html#ad57393a3568c12c015389586f3b5f4d6'', [8, 0, 2, 0, 0, 2, 3]),
      (''net__if__atheros__tcp_8c.html#ad933675ffcc4449069e5a82d1c60e2e1'', [8, 0, 2, 0, 0, 2, 11]),
      (''net__if__atheros__tcp_8c.html#ad93cd56ce186111f0a9ed114cb6174a6'', [8, 0, 2, 0, 0, 2, 0]),
      (''net__if__atheros__tcp_8c.html#aed906ab76989bf15fe868e971141dd42'', [8, 0, 2, 0, 0, 2, 4]),
      (''net__if__atheros__udp_8c.html'', [8, 0, 2, 0, 0, 3]),
      (''net__if__atheros__udp_8c.html#a28569a3b4677fab35aeb9db0e7f78c85'', [8, 0, 2, 0, 0, 3, 5]),
      (''net__if__atheros__udp_8c.html#a2fa84e25c39aae66ed73e4bf0fd2a65f'', [8, 0, 2, 0, 0, 3, 12]),
      (''net__if__atheros__udp_8c.html#a4aed22ddfd8b800859f2172b1bb4e750'', [8, 0, 2, 0, 0, 3, 9]),
      (''net__if__atheros__udp_8c.html#a5abe032e1714d3e016e9f2109d9896bb'', [8, 0, 2, 0, 0, 3, 6]),
      (''net__if__atheros__udp_8c.html#a7cf2278d82d4800291f01d7c5c3ffbd7'', [8, 0, 2, 0, 0, 3, 7]),
      (''net__if__atheros__udp_8c.html#ab9489e4b567199e6192ba4da278137db'', [8, 0, 2, 0, 0, 3, 8]),
      (''net__if__atheros__udp_8c.html#abbf4a205b0586355b3821e58a867d8f1'', [8, 0, 2, 0, 0, 3, 2]),
      (''net__if__atheros__udp_8c.html#ac037d39d323763020a5d3b929f6f4df5'', [8, 0, 2, 0, 0, 3, 10]),
      (''net__if__atheros__udp_8c.html#ad57393a3568c12c015389586f3b5f4d6'', [8, 0, 2, 0, 0, 3, 3]),
      (''net__if__atheros__udp_8c.html#ad933675ffcc4449069e5a82d1c60e2e1'', [8, 0, 2, 0, 0, 3, 11]),
      (''net__if__atheros__udp_8c.html#ad93cd56ce186111f0a9ed114cb6174a6'', [8, 0, 2, 0, 0, 3, 0]),
      (''net__if__atheros__udp_8c.html#aed906ab76989bf15fe868e971141dd42'', [8, 0, 2, 0, 0, 3, 4]),
      (''net__if__lwip__tcp_8c.html'', [8, 0, 2, 0, 1, 1]),
      (''net__if__lwip__tcp_8c.html#a12f12a602172da48c5ddd9abc2258bf3'', [8, 0, 2, 0, 1, 1, 7]),
      (''net__if__lwip__tcp_8c.html#a145f03c9c3c49a73560974a38367ad9c'', [8, 0, 2, 0, 1, 1, 1]),
      (''net__if__lwip__tcp_8c.html#a198ecd1a1a214c7692ee80d092d881bf'', [8, 0, 2, 0, 1, 1, 13]),
      (''net__if__lwip__tcp_8c.html#a2761b0219f6d1ee5217b476c87b0d910'', [8, 0, 2, 0, 1, 1, 11]),
      (''net__if__lwip__tcp_8c.html#a2db4b36d6794dfb971911527b3b79e62'', [8, 0, 2, 0, 1, 1, 12]),
      (''net__if__lwip__tcp_8c.html#a4068a9af469c66f436dc75a3ecf8acae'', [8, 0, 2, 0, 1, 1, 3]),
      (''net__if__lwip__tcp_8c.html#a6f78e482e0102e9fe13b84bc89b75a42'', [8, 0, 2, 0, 1, 1, 9]),
      (''net__if__lwip__tcp_8c.html#a82390a3ff9b54bb33b41cd5a8f1431f4'', [8, 0, 2, 0, 1, 1, 10]),
      (''net__if__lwip__tcp_8c.html#a8f4b7c0a1f3f37df9588ad678caf9ecc'', [8, 0, 2, 0, 1, 1, 5]),
      (''net__if__lwip__tcp_8c.html#a96d40c2912084babf6fa5ab483d732a3'', [8, 0, 2, 0, 1, 1, 8]),
      (''net__if__lwip__tcp_8c.html#a9bbaaaedf4c73576c3ec21835aee3037'', [8, 0, 2, 0, 1, 1, 6]),
      (''net__if__lwip__tcp_8c.html#a9db729fe448cab37484bd40d1afe0010'', [8, 0, 2, 0, 1, 1, 4]),
      (''net__if__lwip__tcp_8c.html#aa015db3a9eff4068b6ec383e43bcbfdd'', [8, 0, 2, 0, 1, 1, 2]),
      (''net__if__lwip__udp_8c.html'', [8, 0, 2, 0, 1, 2]),
      (''net__if__lwip__udp_8c.html#ac5f8f995469df1302cb3f10c6203202f'', [8, 0, 2, 0, 1, 2, 1]),
      (''net__if__posix__tcp_8c.html'', [8, 0, 2, 0, 2, 0]),
      (''net__if__posix__tcp_8c.html#a2761b0219f6d1ee5217b476c87b0d910'', [8, 0, 2, 0, 2, 0, 12]),
      (''net__if__posix__tcp_8c.html#a28569a3b4677fab35aeb9db0e7f78c85'', [8, 0, 2, 0, 2, 0, 5]),
      (''net__if__posix__tcp_8c.html#a2db4b36d6794dfb971911527b3b79e62'', [8, 0, 2, 0, 2, 0, 13]),
      (''net__if__posix__tcp_8c.html#a2eb537ea8ee56c51406752b75adcd19f'', [8, 0, 2, 0, 2, 0, 3]),
      (''net__if__posix__tcp_8c.html#a4068a9af469c66f436dc75a3ecf8acae'', [8, 0, 2, 0, 2, 0, 4]),
      (''net__if__posix__tcp_8c.html#a433a0c9147da8943e2198089ed5be167'', [8, 0, 2, 0, 2, 0, 0]),
      (''net__if__posix__tcp_8c.html#a5491428be9cf51830de6ebfd1fdef633'', [8, 0, 2, 0, 2, 0, 7]),
      (''net__if__posix__tcp_8c.html#a6f78e482e0102e9fe13b84bc89b75a42'', [8, 0, 2, 0, 2, 0, 11]),
      (''net__if__posix__tcp_8c.html#a803ae0a444bbff9dea7cf40b8559b85d'', [8, 0, 2, 0, 2, 0, 9]),
      (''net__if__posix__tcp_8c.html#a96d40c2912084babf6fa5ab483d732a3'', [8, 0, 2, 0, 2, 0, 10]),
      (''net__if__posix__tcp_8c.html#ac5f8f995469df1302cb3f10c6203202f'', [8, 0, 2, 0, 2, 0, 14])]"

definition NAVTREEINDEX3 :: nav_index where
  "NAVTREEINDEX3 = navtreeindex3a @ navtreeindex3b"

lemma located_3a: "located_in 3 navtreeindex3a"
  by (rule located_in_code [of 3, simplified]; code_simp)

lemma located_3b: "located_in 3 navtreeindex3b"
  by (rule located_in_code [of 3, simplified]; code_simp)

lemma located_3: "located_in 3 NAVTREEINDEX3"
  by (simp add: NAVTREEINDEX3_def located_in_append located_3a located_3b)

end
