(* ===== verification/NavIndex4.thy ===== *)
theory NavIndex4
  imports NavData
begin

text \<open>
  The generated index table \<open>navtreeindex4.js\<close>, in two parts, and the fact that the loop of
  \<open>navTo\<close> sends every key of it to this table.
\<close>

definition navtreeindex4a :: nav_index where
  "navtreeindex4a =
     [(''net__if__posix__tcp_8c.html#ae475f293486cafb10aa422872ae2e40e'', [8, 0, 2, 0, 2, 0, 2]),
      (''net__if__posix__tcp_8c.html#ae5a27c9e2e04f4d4adafcb9c3dc998c0'', [8, 0, 2, 0, 2, 0, 8]),
      (''net__if__posix__tcp_8c.html#af0fb03ed628866c0f25fd148f65ac544'', [8, 0, 2, 0, 2, 0, 6]),
      (''net__if__posix__udp_8c.html'', [8, 0, 2, 0, 2, 1]),
      (''net__if__posix__udp_8c.html#ac5f8f995469df1302cb3f10c6203202f'', [8, 0, 2, 0, 2, 1, 1]),
      (''net__if__uip__udp_8c.html'', [8, 0, 2, 0, 3, 0]),
      (''net__if__uip__udp_8c.html#a025c33e150c7cf3c24d865a0576ff6fd'', [8, 0, 2, 0, 3, 0, 9]),
      (''net__if__uip__udp_8c.html#a145f03c9c3c49a73560974a38367ad9c'', [8, 0, 2, 0, 3, 0, 1]),
      (''net__if__uip__udp_8c.html#a393231e56f72f038d5761b36a4b57b13'', [8, 0, 2, 0, 3, 0, 8]),
      (''net__if__uip__udp_8c.html#a4068a9af469c66f436dc75a3ecf8acae'', [8, 0, 2, 0, 3, 0, 3]),
      (''net__if__uip__udp_8c.html#a8f4b7c0a1f3f37df9588ad678caf9ecc'', [8, 0, 2, 0, 3, 0, 5]),
      (''net__if__uip__udp_8c.html#a9bbaaaedf4c73576c3ec21835aee3037'', [8, 0, 2, 0, 3, 0, 6]),
      (''net__if__uip__udp_8c.html#a9db729fe448cab37484bd40d1afe0010'', [8, 0, 2, 0, 3, 0, 4]),
      (''net__if__uip__udp_8c.html#aa015db3a9eff4068b6ec383e43bcbfdd'', [8, 0, 2, 0, 3, 0, 2]),
      (''net__if__uip__udp_8c.html#ab9489e4b567199e6192ba4da278137db'', [8, 0, 2, 0, 3, 0, 7]),
      (''net__if__uip__udp_8c.html#ad933675ffcc4449069e5a82d1c60e2e1'', [8, 0, 2, 0, 3, 0, 10]),
      (''net__port_8h_source.html'', [8, 0, 2, 3]),
      (''ns__list_8h.html'', [8, 0, 2, 0, 4]),
      (''ns__list_8h.html#a030e72d69056e4fa387e0ff1e70f978a'', [8, 0, 2, 0, 4, 4]),
      (''ns__list_8h.html#a14a0c7c235d16f34ce49500798ccf3fa'', [8, 0, 2, 0, 4, 0]),
      (''ns__list_8h.html#a6ff1de4c9ab1d7866568c7017af43f60'', [8, 0, 2, 0, 4, 3]),
      (''ns__list_8h.html#aba436d92c40493f711a4442c7634203e'', [8, 0, 2, 0, 4, 2]),
      (''ns__list_8h.html#ac0bc20f9cb06d6c872f09ca4ca056e7a'', [8, 0, 2, 0, 4, 1]),
      (''ns__list_8h.html#ad7625844f798861643eb32dee0623f07'', [8, 0, 2, 0, 4, 5]),
      (''ns__list_8h_source.html'', [8, 0, 2, 0, 4]),
      (''os__list_8h.html'', [8, 0, 2, 1, 4]),
      (''os__list_8h.html#a31da6e09d039f91447cee20b0236284f'', [8, 0, 2, 1, 4, 3]),
      (''os__list_8h.html#a919c9440f2270d0511d2f5e5bacf8136'', [8, 0, 2, 1, 4, 1]),
      (''os__list_8h.html#aaf544f838c6e12947edd54c5bbaa057a'', [8, 0, 2, 1, 4, 2]),
      (''os__list_8h.html#ad61f32163ec9701c973b0c213191b036'', [8, 0, 2, 1, 4, 0]),
      (''os__list_8h.html#afec0ac832000898baddcea3d787791d4'', [8, 0, 2, 1, 4, 4]),
      (''os__list_8h_source.html'', [8, 0, 2, 1, 4]),
      (''packet__buffer_8c.html'', [8, 0, 3, 1, 9]),
      (''packet__buffer_8c.html#a21fed34872aa06770baf3e0250c8a611'', [8, 0, 3, 1, 9, 5]),
      (''packet__buffer_8c.html#ab17e5db67d71a2c3e2c96571021501c0'', [8, 0, 3, 1, 9, 2]),
      (''packet__buffer_8c.html#ae97b304f28017466e85c771acfec0478'', [8, 0, 3, 1, 9, 4]),
      (''packet__buffer_8c.html#afcbcad1f1a5b4828819d8e25e5e006ee'', [8, 0, 3, 1, 9, 3]),
      (''packet__buffer_8h.html'', [8, 0, 3, 0, 1, 12]),
      (''packet__buffer_8h.html#a21fed34872aa06770baf3e0250c8a611'', [8, 0, 3, 0, 1, 12, 3]),
      (''packet__buffer_8h.html#ab17e5db67d71a2c3e2c96571021501c0'', [8, 0, 3, 0, 1, 12, 0]),
      (''packet__buffer_8h.html#ae97b304f28017466e85c771acfec0478'', [8, 0, 3, 0, 1, 12, 2]),
      (''packet__buffer_8h.html#afcbcad1f1a5b4828819d8e25e5e006ee'', [8, 0, 3, 0, 1, 12, 1]),
      (''packet__buffer_8h_source.html'', [8, 0, 3, 0, 1, 12]),
      (''pages.html'', []),
      (''pclb_8c.html'', [8, 0, 3, 1, 10]),
      (''pclb_8c.html#a071d0846ff2dd2b41dd5ca498f8f445a'', [8, 0, 3, 1, 10, 12]),
      (''pclb_8c.html#a26c2834b48df3637acda3e16ce6ec40e'', [8, 0, 3, 1, 10, 15]),
      (''pclb_8c.html#a2d9f34918fec7b8c6c0cbfc588ba7b07'', [8, 0, 3, 1, 10, 14]),
      (''pclb_8c.html#a30412717c9b530a2cd38fb9186a3a645'', [8, 0, 3, 1, 10, 11]),
      (''pclb_8c.html#a5773803ea2460e2ae10e1dd8d8b4faa3'', [8, 0, 3, 1, 10, 8]),
      (''pclb_8c.html#a882be74bf188a19cf7625e9780444b57'', [8, 0, 3, 1, 10, 9]),
      (''pclb_8c.html#aac86c440258a1edf24cc40fbeb668ee2'', [8, 0, 3, 1, 10, 10]),
      (''pclb_8c.html#ac958b85856be2ac13ec01be9853cd007'', [8, 0, 3, 1, 10, 7]),
      (''pclb_8c.html#ad56244bc12ec10ebbe88e21ffe658524'', [8, 0, 3, 1, 10, 13]),
      (''pclb_8h.html'', [8, 0, 3, 0, 1, 13]),
      (''pclb_8h_source.html'', [8, 0, 3, 0, 1, 13]),
      (''picocoap__client_8c.html'', [8, 0, 3, 2, 10]),
      (''picocoap__client_8c.html#a09d71990a9459576795528dd84d8f9a6'', [8, 0, 3, 2, 10, 9]),
      (''picocoap__client_8c.html#a2401073546f895bd690e56ed4de886f8'', [8, 0, 3, 2, 10, 6]),
      (''picocoap__client_8c.html#a3222fd202d676391273d6e810dc26a9c'', [8, 0, 3, 2, 10, 4]),
      (''picocoap__client_8c.html#a33455b0e6439a084b878f8d6ff1df654'', [8, 0, 3, 2, 10, 3]),
      (''picocoap__client_8c.html#a48ca0b8cdb22c3f9cc02806d5ea4e6a2'', [8, 0, 3, 2, 10, 1]),
      (''picocoap__client_8c.html#a5091804a6597cebd46f5ac9ac16f0859'', [8, 0, 3, 2, 10, 8]),
      (''picocoap__client_8c.html#a89ed942e6fdbb546d09d2f7c026d566b'', [8, 0, 3, 2, 10, 10]),
      (''picocoap__client_8c.html#ab45dd34e79c672285fe65aea36c1a72a'', [8, 0, 3, 2, 10, 5]),
      (''picocoap__client_8c.html#abddd5a4f6cc6d5da72a26e4a012795e3'', [8, 0, 3, 2, 10, 7]),
      (''platform__exos_8h.html'', [8, 0, 2, 1, 0, 0]),
      (''platform__exos_8h.html#a1bdfbc42522159f4df1beccaeabbfe27'', [8, 0, 2, 1, 0, 0, 2]),
      (''platform__exos_8h.html#a231524764892a09a29896ee061fad476'', [8, 0, 2, 1, 0, 0, 8]),
      (''platform__exos_8h.html#a45700f188f4d4e6f8ec44f4002c441bc'', [8, 0, 2, 1, 0, 0, 5]),
      (''platform__exos_8h.html#a5649d29ecb98603b1a045f9c6e4fa30b'', [8, 0, 2, 1, 0, 0, 4]),
      (''platform__exos_8h.html#a63bd3ece27b3a4f16902aa5714a85a0f'', [8, 0, 2, 1, 0, 0, 3]),
      (''platform__exos_8h.html#a6e7b369b84a0e5d821565d2cec759bd3'', [8, 0, 2, 1, 0, 0, 7]),
      (''platform__exos_8h.html#a8471bf7902f30585012b5feaea84021c'', [8, 0, 2, 1, 0, 0, 1]),
      (''platform__exos_8h.html#adad556005bb7b185644b1207c0f78c48'', [8, 0, 2, 1, 0, 0, 0]),
      (''platform__exos_8h.html#afea180ee48367b63170d1eeb5fd468e6'', [8, 0, 2, 1, 0, 0, 6]),
      (''platform__exos_8h_source.html'', [8, 0, 2, 1, 0, 0]),
      (''platform__freertos_8h.html'', [8, 0, 2, 1, 1, 0]),
      (''platform__freertos_8h.html#a1bdfbc42522159f4df1beccaeabbfe27'', [8, 0, 2, 1, 1, 0, 1]),
      (''platform__freertos_8h.html#a4d318b9dfbdd9d21b4c503719742694b'', [8, 0, 2, 1, 1, 0, 0]),
      (''platform__freertos_8h.html#a7ac700a1ab69bba1dd50c7f977cfef26'', [8, 0, 2, 1, 1, 0, 3]),
      (''platform__freertos_8h.html#afea180ee48367b63170d1eeb5fd468e6'', [8, 0, 2, 1, 1, 0, 2]),
      (''platform__freertos_8h_source.html'', [8, 0, 2, 1, 1, 0]),
      (''platform__lwip_8h.html'', [8, 0, 2, 0, 1, 3]),
      (''platform__lwip_8h.html#a8f860439acfa05f11d00c1ccd564688b'', [8, 0, 2, 0, 1, 3, 1]),
      (''platform__lwip_8h_source.html'', [8, 0, 2, 0, 1, 3]),
      (''platform__posix_8h.html'', [8, 0, 2, 1, 3, 0]),
      (''platform__posix_8h_source.html'', [8, 0, 2, 1, 3, 0]),
      (''platform__posix__ns_8h.html'', [8, 0, 2, 0, 2, 2]),
      (''platform__posix__ns_8h_source.html'', [8, 0, 2, 0, 2, 2]),
      (''platform__qmx_8h.html'', [8, 0, 2, 1, 2, 0]),
      (''platform__qmx_8h.html#a1bdfbc42522159f4df1beccaeabbfe27'', [8, 0, 2, 1, 2, 0, 1]),
      (''platform__qmx_8h.html#a4d318b9dfbdd9d21b4c503719742694b'', [8, 0, 2, 1, 2, 0, 0]),
      (''platform__qmx_8h.html#a7ac700a1ab69bba1dd50c7f977cfef26'', [8, 0, 2, 1, 2, 0, 3]),
      (''platform__qmx_8h.html#afea180ee48367b63170d1eeb5fd468e6'', [8, 0, 2, 1, 2, 0, 2]),
      (''platform__qmx_8h_source.html'', [8, 0, 2, 1, 2, 0]),
      (''platform__uip_8h.html'', [8, 0, 2, 0, 3, 1]),
      (''platform__uip_8h.html#a8f860439acfa05f11d00c1ccd564688b'', [8, 0, 2, 0, 3, 1, 1]),
      (''platform__uip_8h_source.html'', [8, 0, 2, 0, 3, 1]),
      (''pmatch_8h.html'', [8, 0, 3, 0, 1, 14]),
      (''pmatch_8h.html#a3ea3eb12e2b6599a3c398f70e75527ba'', [8, 0, 3, 0, 1, 14, 2]),
      (''pmatch_8h.html#a7cecfa7bbfb47e8a8598a9bfbfbcab54'', [8, 0, 3, 0, 1, 14, 1]),
      (''pmatch_8h_source.html'', [8, 0, 3, 0, 1, 14]),
      (''posix__port_8c.html'', [8, 0, 2, 0, 2, 3]),
      (''protocol__client_8h.html'', [8, 0, 3, 0, 6]),
      (''protocol__client_8h_source.html'', [8, 0, 3, 0, 6]),
      (''protocol__client__common_8h.html'', [8, 0, 3, 0, 7]),
      (''protocol__client__common_8h.html#a24c97402d92588e4d0ddb5b2fe24491c'', [8, 0, 3, 0, 7, 2]),
      (''protocol__client__common_8h.html#a24c97402d92588e4d0ddb5b2fe24491ca2c5d8e2da5844f45fd99da8f64d0e7a8'', [8, 0, 3, 0, 7, 2, 0]),
      (''protocol__client__common_8h.html#a24c97402d92588e4d0ddb5b2fe24491ca62962e4ed89f39108a99bfb1a3b86c7b'', [8, 0, 3, 0, 7, 2, 1]),
      (''protocol__client__common_8h.html#a5f45705d4dd8263a700ee423404a6c30'', [8, 0, 3, 0, 7, 1]),
      (''protocol__client__common_8h.html#a5f45705d4dd8263a700ee423404a6c30a2d60b3695250c45911fd0695445ec025'', [8, 0, 3, 0, 7, 1, 1]),
      (''protocol__client__common_8h.html#a5f45705d4dd8263a700ee423404a6c30a70b01fded9406d2923634b44176eb2f8'', [8, 0, 3, 0, 7, 1, 0]),
      (''protocol__client__common_8h.html#a8ce0de6bac471812ebf86cfd9c956156'', [8, 0, 3, 0, 7, 0]),
      (''protocol__client__common_8h.html#a8ce0de6bac471812ebf86cfd9c956156a75c68063b2889d7546a7aaa0d507c873'', [8, 0, 3, 0, 7, 0, 1]),
      (''protocol__client__common_8h.html#a8ce0de6bac471812ebf86cfd9c956156a9ee0ba13acb2ff189a452404d91d708a'', [8, 0, 3, 0, 7, 0, 0]),
      (''protocol__client__common_8h.html#a8ce0de6bac471812ebf86cfd9c956156ac9f23ae19f06324132af3eedfd98ff08'', [8, 0, 3, 0, 7, 0, 2]),
      (''protocol__client__common_8h_source.html'', [8, 0, 3, 0, 7]),
      (''protocol__client__sm_8c.html'', [8, 0, 3, 7]),
      (''protocol__client__sm_8c.html#a0450d95601472a56eb68b68f60ae3131'', [8, 0, 3, 7, 24]),
      (''protocol__client__sm_8c.html#a052b075027c1605244dd0abd11f4f6b7'', [8, 0, 3, 7, 2]),
      (''protocol__client__sm_8c.html#a060a41ff0e2d0fb5a87de7115c1253d2'', [8, 0, 3, 7, 10]),
      (''protocol__client__sm_8c.html#a1128fcb6132653226d9a63b7c671552e'', [8, 0, 3, 7, 21]),
      (''protocol__client__sm_8c.html#a177d0aa79d6aa89851b69f1ecd5c1521'', [8, 0, 3, 7, 13]),
      (''protocol__client__sm_8c.html#a1c4f85d56828ab70e3872dbcf266f01b'', [8, 0, 3, 7, 32])]"

definition navtreeindex4b :: nav_index where
  "navtreeindex4b =
     [(''protocol__client__sm_8c.html#a2901798989912796c7ee27e1b97828c3'', [8, 0, 3, 7, 31]),
      (''protocol__client__sm_8c.html#a4134c9169ad8372193f6be3e8dd59b93'', [8, 0, 3, 7, 28]),
      (''protocol__client__sm_8c.html#a54b76a48797001790e33fd0687a77f23'', [8, 0, 3, 7, 26]),
      (''protocol__client__sm_8c.html#a54cd400966566e1438b830369676be57'', [8, 0, 3, 7, 3]),
      (''protocol__client__sm_8c.html#a54cd400966566e1438b830369676be57a545e14532af664f7d9532848beccb9af'', [8, 0, 3, 7, 3, 0]),
      (''protocol__client__sm_8c.html#a54cd400966566e1438b830369676be57a805af68a0a2489245620b4a43ffd679b'', [8, 0, 3, 7, 3, 3]),
      (''protocol__client__sm_8c.html#a54cd400966566e1438b830369676be57ad31fa66ecd88377bea1a9abe52d811ae'', [8, 0, 3, 7, 3, 1]),
      (''protocol__client__sm_8c.html#a54cd400966566e1438b830369676be57af8c4ea0c1659a96b2011da716a39e152'', [8, 0, 3, 7, 3, 2]),
      (''protocol__client__sm_8c.html#a5e0b33a47de5c98a4fb555d5e108dc7c'', [8, 0, 3, 7, 4]),
      (''protocol__client__sm_8c.html#a793c96501088470af603e89fc5382cfd'', [8, 0, 3, 7, 23]),
      (''protocol__client__sm_8c.html#a99f7191e62ca1f1a6730c37b4f5dca0e'', [8, 0, 3, 7, 9]),
      (''protocol__client__sm_8c.html#a9c769a427a1d8784d18d64d49c438f75'', [8, 0, 3, 7, 11]),
      (''protocol__client__sm_8c.html#ab23aad3fa07bfc549a608c33ce7a2692'', [8, 0, 3, 7, 27]),
      (''protocol__client__sm_8c.html#ab3047b363558745911b4782f5abc26fd'', [8, 0, 3, 7, 29]),
      (''protocol__client__sm_8c.html#ab9a045d2d879493a555a9a4ee895e803'', [8, 0, 3, 7, 7]),
      (''protocol__client__sm_8c.html#ac947b076ffc261c02dfb4b86e742dee7'', [8, 0, 3, 7, 30]),
      (''protocol__client__sm_8c.html#ad06cceec80241b8602caaa1c4feb5e20'', [8, 0, 3, 7, 8]),
      (''protocol__client__sm_8c.html#ad5cdb71d86d27fe06e8be6322e9be824'', [8, 0, 3, 7, 12]),
      (''protocol__client__sm_8c.html#adc64847128a925cf462de5aebf323621'', [8, 0, 3, 7, 6]),
      (''protocol__client__sm_8c.html#aef86f2f5ce8299a907c6e95a81d5bbc4'', [8, 0, 3, 7, 25]),
      (''protocol__client__sm_8c.html#af1d270af205f567f3083fce16fd3fc30'', [8, 0, 3, 7, 5]),
      (''protocol__client__sm_8h.html'', [8, 0, 3, 0, 8]),
      (''protocol__client__sm_8h_source.html'', [8, 0, 3, 0, 8]),
      (''queue_8h.html'', [8, 0, 3, 0, 1, 15]),
      (''queue_8h.html#a13eed7922e2baaa839b3fca630a04e99'', [8, 0, 3, 0, 1, 15, 8]),
      (''queue_8h.html#a312cbe8ee04e9e89f079c9588c97f4b0'', [8, 0, 3, 0, 1, 15, 12]),
      (''queue_8h.html#a42c7cc8caeb6778234887511db8fba40'', [8, 0, 3, 0, 1, 15, 3]),
      (''queue_8h.html#a6822f963b6a23e3890b51dc7b690f09f'', [8, 0, 3, 0, 1, 15, 6]),
      (''queue_8h.html#a6b4d227552b30fe657a12b88ecad46bb'', [8, 0, 3, 0, 1, 15, 5]),
      (''queue_8h.html#a8924c24ee3250e23fa4009f46ba4b9d8'', [8, 0, 3, 0, 1, 15, 7]),
      (''queue_8h.html#aa4d24e6ff6b3b3300aa4a61fe31a26ab'', [8, 0, 3, 0, 1, 15, 11]),
      (''queue_8h.html#aaa11c2556614d37a83769324dc392dce'', [8, 0, 3, 0, 1, 15, 2]),
      (''queue_8h.html#aaa31d02f2b2876d12bb8f83900eacce6'', [8, 0, 3, 0, 1, 15, 1]),
      (''queue_8h.html#ad6bcabffd5a8947dfba39698aa003a8b'', [8, 0, 3, 0, 1, 15, 9]),
      (''queue_8h.html#ae5084bfe95c3cf582dff20f05abaf06a'', [8, 0, 3, 0, 1, 15, 10]),
      (''queue_8h.html#af29d693964d82bac8e9df2416ac71f2f'', [8, 0, 3, 0, 1, 15, 0]),
      (''queue_8h.html#afdb1e0bb5faf7e5393e55b13e5b78f3d'', [8, 0, 3, 0, 1, 15, 4]),
      (''queue_8h_source.html'', [8, 0, 3, 0, 1, 15]),
      (''rtc_8c.html'', [8, 0, 3, 8]),
      (''rtc_8c.html#a6eb764fb255bc69b431cb429fdc177aa'', [8, 0, 3, 8, 2]),
      (''rtc_8c.html#a7526110e0b5243700589531a89d64fe3'', [8, 0, 3, 8, 5]),
      (''rtc_8c.html#a86ce0e5c919135157bb9cac8a8f8655f'', [8, 0, 3, 8, 1]),
      (''rtc_8c.html#a8d3665206b0dbb3dea506e8fd8541aa1'', [8, 0, 3, 8, 3]),
      (''rtc_8c.html#ab9566103b8b1de139da5a472000c7617'', [8, 0, 3, 8, 0]),
      (''rtc_8c.html#af1e535025d4c26067f4d89998f17ad77'', [8, 0, 3, 8, 4]),
      (''rtc__if_8h_source.html'', [8, 0, 3, 0, 9]),
      (''sdk__config_8h.html'', [8, 0, 3, 0, 10]),
      (''sdk__config_8h.html#a02d868acf2f26ba769657279770d9dd7'', [8, 0, 3, 0, 10, 15]),
      (''sdk__config_8h.html#a0bd999c1a337fec7b9cbfbbdfec25555'', [8, 0, 3, 0, 10, 1]),
      (''sdk__config_8h.html#a0ca5d35079270679e42bf97cc5bcc31f'', [8, 0, 3, 0, 10, 4]),
      (''sdk__config_8h.html#a1c0439e4355794c09b64274849eb0279'', [8, 0, 3, 0, 10, 9]),
      (''sdk__config_8h.html#a1d1d2d7f8d2f95b376954d649ab03233'', [8, 0, 3, 0, 10, 8]),
      (''sdk__config_8h.html#a5c93853116d5a50307b6744f147840aa'', [8, 0, 3, 0, 10, 12]),
      (''sdk__config_8h.html#a6099c708ec012fd5cbc4c6ec731a0ace'', [8, 0, 3, 0, 10, 2]),
      (''sdk__config_8h.html#a68d6083cd27ad8399b3247bb8dbe5f0a'', [8, 0, 3, 0, 10, 14]),
      (''sdk__config_8h.html#a77752447fff431bca5d08e715aa5e661'', [8, 0, 3, 0, 10, 0]),
      (''sdk__config_8h.html#a8a7fbe672ed8d5e54cbc153a0432f75d'', [8, 0, 3, 0, 10, 6]),
      (''sdk__config_8h.html#a9b4e103b6288d196cf9c93307602e1ea'', [8, 0, 3, 0, 10, 5]),
      (''sdk__config_8h.html#aa326a05d5e30f9e9a4bb0b4469d5d0c0'', [8, 0, 3, 0, 10, 13]),
      (''sdk__config_8h.html#aae55a27a672515d8b452101cb75bb348'', [8, 0, 3, 0, 10, 3]),
      (''sdk__config_8h.html#ac73e6f903c16eca7710f92e36e1c6fbf'', [8, 0, 3, 0, 10, 10]),
      (''sdk__config_8h.html#aef05b29f60475a1b7a6e1402218c95b4'', [8, 0, 3, 0, 10, 7]),
      (''sdk__config_8h.html#af415af6bfede0e8d5453708afe68651c'', [8, 0, 3, 0, 10, 11]),
      (''sdk__config_8h_source.html'', [8, 0, 3, 0, 10]),
      (''sdk__init_8c.html'', [8, 0, 3, 9]),
      (''sdk__init_8c.html#a17347cfb1731c8bd3178cd4ec0cfde75'', [8, 0, 3, 9, 4]),
      (''sdk__init_8c.html#a87f5b1f52beefd61d31c50126483d9c4'', [8, 0, 3, 9, 0]),
      (''sdk__init_8c.html#aae1300cef693b47f8290159d44fb9d21'', [8, 0, 3, 9, 5]),
      (''sdk_config.html'', [4]),
      (''sdk_porting_guide.html'', [5]),
      (''security__list_8h.html'', [8, 0, 3, 0, 0, 3]),
      (''security__list_8h.html#aa4702b020d2a6c7921f58dd52faac896'', [8, 0, 3, 0, 0, 3, 1]),
      (''security__list_8h.html#ac7b5ac1bc2ffd3ac35d756e85ea05894'', [8, 0, 3, 0, 0, 3, 0]),
      (''security__list_8h_source.html'', [8, 0, 3, 0, 0, 3]),
      (''server__api_8h.html'', [8, 0, 3, 0, 11]),
      (''server__api_8h_source.html'', [8, 0, 3, 0, 11]),
      (''sf__malloc_8h.html'', [8, 0, 3, 0, 1, 16]),
      (''sf__malloc_8h.html#a005081174717896877b73030b6399fe5'', [8, 0, 3, 0, 1, 16, 4]),
      (''sf__malloc_8h.html#a05d3c6a4f409b6603ba0d1239b952ab8'', [8, 0, 3, 0, 1, 16, 2]),
      (''sf__malloc_8h.html#a1802190363c4c55f6bb61235e175fa16'', [8, 0, 3, 0, 1, 16, 5]),
      (''sf__malloc_8h.html#a26376e5aabceec328c9dec6de17b9677'', [8, 0, 3, 0, 1, 16, 0]),
      (''sf__malloc_8h.html#a29c249dfdca80ad8d5e1e1e70e9b9425'', [8, 0, 3, 0, 1, 16, 10]),
      (''sf__malloc_8h.html#a431f60ff798d3a652be70e7ba6d771f8'', [8, 0, 3, 0, 1, 16, 11]),
      (''sf__malloc_8h.html#a596711f8a4c914f9da585abf80fead36'', [8, 0, 3, 0, 1, 16, 7]),
      (''sf__malloc_8h.html#a67acc98962d3af4d35439101597c5ca6'', [8, 0, 3, 0, 1, 16, 6]),
      (''sf__malloc_8h.html#a7661fea66b9b807c49726786b49e4a6a'', [8, 0, 3, 0, 1, 16, 8]),
      (''sf__malloc_8h.html#a923d5aca489915e01cac6d4ee243258c'', [8, 0, 3, 0, 1, 16, 9]),
      (''sf__malloc_8h.html#add88961d2b07aeb9ad3e77ffd18f57da'', [8, 0, 3, 0, 1, 16, 1]),
      (''sf__malloc_8h.html#afa76a4dbc64e0696ba5294eca128177a'', [8, 0, 3, 0, 1, 16, 3]),
      (''sf__malloc_8h_source.html'', [8, 0, 3, 0, 1, 16]),
      (''ssl__client_8h.html'', [8, 0, 3, 0, 12]),
      (''ssl__client_8h.html#a02c20a3169dfdc6418ed518675ab1736'', [8, 0, 3, 0, 12, 1]),
      (''ssl__client_8h.html#a5bd9a41c7b8c230735c46624fc13bb1a'', [8, 0, 3, 0, 12, 0]),
      (''ssl__client_8h_source.html'', [8, 0, 3, 0, 12]),
      (''string__class_8c.html'', [8, 0, 3, 1, 11]),
      (''string__class_8c.html#a08a45356d772a55b48f2b65be881f237'', [8, 0, 3, 1, 11, 12]),
      (''string__class_8c.html#a20d0c5ee7a5bc90abdffdb02e837cabf'', [8, 0, 3, 1, 11, 8]),
      (''string__class_8c.html#a220590225cb85736f21497ea29148fa8'', [8, 0, 3, 1, 11, 11]),
      (''string__class_8c.html#a3942f35051f61d7370d4ec8ec904e2ca'', [8, 0, 3, 1, 11, 2]),
      (''string__class_8c.html#a5aff4005ac362285b7363fa2c201e6f7'', [8, 0, 3, 1, 11, 5]),
      (''string__class_8c.html#a6f65fa996f09a3ce90557fa121a1c333'', [8, 0, 3, 1, 11, 4]),
      (''string__class_8c.html#a8422c6ac5a273f270c36eaf237c94f04'', [8, 0, 3, 1, 11, 10]),
      (''string__class_8c.html#aa7367c5e6085093b8dface7b3fcee178'', [8, 0, 3, 1, 11, 13]),
      (''string__class_8c.html#ab10e7fa9ead90aa12bcab56578595ad3'', [8, 0, 3, 1, 11, 3]),
      (''string__class_8c.html#abc6229c233e7671be132774cc8a5a8dc'', [8, 0, 3, 1, 11, 1]),
      (''string__class_8c.html#ac80dc6c93952467919eb8c8e75415390'', [8, 0, 3, 1, 11, 6]),
      (''string__class_8c.html#acbcddcbdf37a4476c1ce27ce101960ed'', [8, 0, 3, 1, 11, 7]),
      (''string__class_8c.html#ae2f56113e3fb9d5b1a9cc11d908767b7'', [8, 0, 3, 1, 11, 9]),
      (''string__class_8h.html'', [8, 0, 3, 0, 1, 17]),
      (''string__class_8h.html#a08a45356d772a55b48f2b65be881f237'', [8, 0, 3, 0, 1, 17, 16]),
      (''string__class_8h.html#a1077f82572b93979a0a1f374dadd9297'', [8, 0, 3, 0, 1, 17, 14]),
      (''string__class_8h.html#a20d0c5ee7a5bc90abdffdb02e837cabf'', [8, 0, 3, 0, 1, 17, 11]),
      (''string__class_8h.html#a220590225cb85736f21497ea29148fa8'', [8, 0, 3, 0, 1, 17, 15]),
      (''string__class_8h.html#a3942f35051f61d7370d4ec8ec904e2ca'', [8, 0, 3, 0, 1, 17, 5]),
      (''string__class_8h.html#a549e480288217217f65c0ca5f917ef3e'', [8, 0, 3, 0, 1, 17, 1]),
      (''string__class_8h.html#a5aff4005ac362285b7363fa2c201e6f7'', [8, 0, 3, 0, 1, 17, 8]),
      (''string__class_8h.html#a6f65fa996f09a3ce90557fa121a1c333'', [8, 0, 3, 0, 1, 17, 7]),
      (''string__class_8h.html#a928b1957b7da12654168c1e02f297d84'', [8, 0, 3, 0, 1, 17, 0]),
      (''string__class_8h.html#a9643310134f259bff7406d4fbffd10aa'', [8, 0, 3, 0, 1, 17, 12]),
      (''string__class_8h.html#aa7367c5e6085093b8dface7b3fcee178'', [8, 0, 3, 0, 1, 17, 17]),
      (''string__class_8h.html#ab10e7fa9ead90aa12bcab56578595ad3'', [8, 0, 3, 0, 1, 17, 6]),
      (''string__class_8h.html#ab6536699e165c1df6a3359c6169d2832'', [8, 0, 3, 0, 1, 17, 2]),
      (''string__class_8h.html#abc6229c233e7671be132774cc8a5a8dc'', [8, 0, 3, 0, 1, 17, 4]),
      (''string__class_8h.html#ac80dc6c93952467919eb8c8e75415390'', [8, 0, 3, 0, 1, 17, 9]),
      (''string__class_8h.html#acbcddcbdf37a4476c1ce27ce101960ed'', [8, 0, 3, 0, 1, 17, 10])]"

definition NAVTREEINDEX4 :: nav_index where
  "NAVTREEINDEX4 = navtreeindex4a @ navtreeindex4b"

lemma located_4a: "located_in 4 navtreeindex4a"
  by (rule located_in_code [of 4, simplified]; code_simp)

lemma located_4b: "located_in 4 navtreeindex4b"
  by (rule located_in_code [of 4, simplified]; code_simp)

lemma located_4: "located_in 4 NAVTREEINDEX4"
  by (simp add: NAVTREEINDEX4_def located_in_append located_4a located_4b)

end
