(* ===== verification/NavIndex5.thy ===== *)
theory NavIndex5
  imports NavData
begin

text \<open>
  The generated index table \<open>navtreeindex5.js\<close>, in two parts, and the fact that the loop of
  \<open>navTo\<close> sends every key of it to this table.
\<close>

definition navtreeindex5a :: nav_index where
  "navtreeindex5a =
     [(''string__class_8h.html#ae2f56113e3fb9d5b1a9cc11d908767b7'', [8, 0, 3, 0, 1, 17, 13]),
      (''string__class_8h.html#af04d61dda25bf4822be4b591cfa7847a'', [8, 0, 3, 0, 1, 17, 3]),
      (''string__class_8h_source.html'', [8, 0, 3, 0, 1, 17]),
      (''string__class__priv_8h.html'', [8, 0, 3, 0, 1, 18]),
      (''string__class__priv_8h_source.html'', [8, 0, 3, 0, 1, 18]),
      (''struct___c_queue.html'', [7, 0, 1]),
      (''struct___c_queue.html#a619d6436aff43bc5367015ef9d3108e8'', [7, 0, 1, 1]),
      (''struct___c_queue.html#a8ffec3b4623a65f70dedcf86770bb31b'', [7, 0, 1, 0]),
      (''struct___c_queue.html#a9af2171f0d32668a11dd46af1e2ebd6d'', [7, 0, 1, 2]),
      (''struct__configurator__server.html'', [7, 0, 0]),
      (''struct__configurator__server.html#a114cbd0eff33b87802272ad67840a059'', [7, 0, 0, 2]),
      (''struct__configurator__server.html#a2c54207537f4416323ad2989bc829d6d'', [7, 0, 0, 10]),
      (''struct__configurator__server.html#a446c180a449b2c24186ffe53c30e53e8'', [7, 0, 0, 7]),
      (''struct__configurator__server.html#a49504d4f2720ae556aae7ff8c4a9b871'', [7, 0, 0, 9]),
      (''struct__configurator__server.html#a849c56089ebf2c0c7825c17a98624b2c'', [7, 0, 0, 6]),
      (''struct__configurator__server.html#a8da1ed449c369af1186e22c9013ed7c2'', [7, 0, 0, 3]),
      (''struct__configurator__server.html#a92003dc80587ef7df15b220a8f6a9ff3'', [7, 0, 0, 1]),
      (''struct__configurator__server.html#ab663bc7b17b9ac6e247fb543eaf43751'', [7, 0, 0, 0]),
      (''struct__configurator__server.html#add5c5d7e0563e9980d693ac441240747'', [7, 0, 0, 8]),
      (''struct__configurator__server.html#ae80ec7ba256f73dc4ea50622716be6a5'', [7, 0, 0, 5]),
      (''struct__configurator__server.html#afac8da44722d6b8101417811caf9a244'', [7, 0, 0, 4]),
      (''struct__system__thread__attr__t.html'', [6, 5, 0]),
      (''struct__system__thread__attr__t.html#a067e5da622dab67495c54084c3a48062'', [6, 5, 0, 2]),
      (''struct__system__thread__attr__t.html#a379a3cbfe3eeb32b51bb6bae90edf984'', [6, 5, 0, 0]),
      (''struct__system__thread__attr__t.html#a4475674eab6377892c6f1b6204d9979d'', [6, 5, 0, 1]),
      (''struct__system__thread__attr__t.html#ab130225c1ecefc38938759d140c63cd3'', [6, 5, 0, 3]),
      (''struct_match_state.html'', [7, 0, 19]),
      (''struct_match_state.html#a0f87e2f7accab0805741673e93654d7e'', [7, 0, 19, 3]),
      (''struct_match_state.html#a124f459c7198823dac5416c701879e6e'', [7, 0, 19, 0]),
      (''struct_match_state.html#a28b9c3fdaacf56755b78a95b0d1e2b88'', [7, 0, 19, 4]),
      (''struct_match_state.html#a2b63cea9c88925a59ba9680d8c615dd7'', [7, 0, 19, 1]),
      (''struct_match_state.html#a8ad3eceb7c5e8dc9c07834470a4a31f4'', [7, 0, 19, 5]),
      (''struct_match_state.html#af4c1ae5e7b90e726401874e9b2059a32'', [7, 0, 19, 2]),
      (''structcapture.html'', [7, 0, 4]),
      (''structcapture.html#a11dc7f0d20e86dc371d7e913196e94ad'', [7, 0, 4, 0]),
      (''structcapture.html#ae7f001d747a100fe5a2a4dedb49dcd39'', [7, 0, 4, 1]),
      (''structcbuffer__class.html'', [7, 0, 5]),
      (''structcbuffer__class.html#a0972318ed64610a2b90005ce50ee114d'', [7, 0, 5, 3]),
      (''structcbuffer__class.html#a0df42abf2024609abe1c4805f57a3ecf'', [7, 0, 5, 0]),
      (''structcbuffer__class.html#a0e5094b5bc59aaab84585942f48427ba'', [7, 0, 5, 2]),
      (''structcbuffer__class.html#a1dbacab251df98934cefcd79d39ad0ef'', [7, 0, 5, 1]),
      (''structclient__dev.html'', [7, 0, 6]),
      (''structclient__dev.html#a4c2d2a6bf74e73618b98d3a3e2b80ece'', [7, 0, 6, 3]),
      (''structclient__dev.html#a672a9c4df04d75586f239f6e0483fae5'', [7, 0, 6, 2]),
      (''structclient__dev.html#a741725f39489c145caa630c164eee9fe'', [7, 0, 6, 0]),
      (''structclient__dev.html#acc27a6d6a4773e413bd84b21727344e0'', [7, 0, 6, 1]),
      (''structclient__socket.html'', [7, 0, 7]),
      (''structclient__socket.html#a3a9aa54cfa5e7e247989ad86e2187828'', [7, 0, 7, 16]),
      (''structclient__socket.html#a483485151356a331bd1ccefffd148db5'', [7, 0, 7, 10]),
      (''structclient__socket.html#a92ef8b77aedfaf44e7da18c3c103dfa9'', [7, 0, 7, 12]),
      (''structclient__socket.html#aa8380926e386ae93f65e21de7f019c58'', [7, 0, 7, 11]),
      (''structclient__socket.html#aa86865c6d8f4102f071298c5c0b5d1da'', [7, 0, 7, 9]),
      (''structclient__socket.html#ad57918476c7afe9a9c6f1dccf8bea508a0b2d6c6f7d2acf784f3a80433007945c'', [7, 0, 7, 3]),
      (''structclient__socket.html#ad57918476c7afe9a9c6f1dccf8bea508a2ab71cf83f1c5eec784075c10d54c873'', [7, 0, 7, 4]),
      (''structclient__socket.html#ad57918476c7afe9a9c6f1dccf8bea508a53eaaef59112d73517e4b44e46799f50'', [7, 0, 7, 7]),
      (''structclient__socket.html#ad57918476c7afe9a9c6f1dccf8bea508a58b82bc132811f116f7e815eade60135'', [7, 0, 7, 0]),
      (''structclient__socket.html#ad57918476c7afe9a9c6f1dccf8bea508a5bd853e1bb9d8c309e5a4e7a8fcabaa7'', [7, 0, 7, 5]),
      (''structclient__socket.html#ad57918476c7afe9a9c6f1dccf8bea508a97d6cf75a1f1b73bb87f31127c42f568'', [7, 0, 7, 2]),
      (''structclient__socket.html#ad57918476c7afe9a9c6f1dccf8bea508a97ee1c84bc313705e4cd9e1f1e8426d4'', [7, 0, 7, 1]),
      (''structclient__socket.html#ad57918476c7afe9a9c6f1dccf8bea508a9f38f49fc7d63378f84610f9eda2b82a'', [7, 0, 7, 6]),
      (''structclient__socket.html#ad57918476c7afe9a9c6f1dccf8bea508aa80cac08f2ac81032790f9c8db6eeb99'', [7, 0, 7, 8]),
      (''structclient__socket.html#af3d956f1b690abbd38b745033cd38bdc'', [7, 0, 7, 13]),
      (''structclient__socket.html#af50b9ce1b59c85f8bad4f5c5604388fd'', [7, 0, 7, 15]),
      (''structclient__socket.html#af7485b382a9056c75a3c969dc6ee18ad'', [7, 0, 7, 14]),
      (''structdictionary__class.html'', [7, 0, 8]),
      (''structdictionary__class.html#aaed13c853bee53d97ab4bdb2f088faf3'', [7, 0, 8, 0]),
      (''structexo__request__args.html'', [7, 0, 9]),
      (''structexo__request__args.html#a0504ddc0add39895e2636f86f5b072e2'', [7, 0, 9, 23]),
      (''structexo__request__args.html#a0b31a3b287e3738ee18c5dde21c64b3b'', [7, 0, 9, 15]),
      (''structexo__request__args.html#a10da3940404c5ee12faade87e95fcd97'', [7, 0, 9, 10]),
      (''structexo__request__args.html#a338fd2aa5bed723d9baf705ec8cc2bb5'', [7, 0, 9, 20]),
      (''structexo__request__args.html#a3567e0e7dee740a58073da31dec9c0e9'', [7, 0, 9, 22]),
      (''structexo__request__args.html#a3c7f6045f55276f7026f17e8b2bf6c45'', [7, 0, 9, 14]),
      (''structexo__request__args.html#a3dceec3a607ab846872017d48f835c32'', [7, 0, 9, 13]),
      (''structexo__request__args.html#a4ab12b08060394e54983ed7167bb8557'', [7, 0, 9, 11]),
      (''structexo__request__args.html#a6271c4da956daa9e384105567950020e'', [7, 0, 9, 19]),
      (''structexo__request__args.html#a744eebbd504414a08d7e5fa37636791f'', [7, 0, 9, 8]),
      (''structexo__request__args.html#a7f2d771a96695e8eeb0d41dae29d2909'', [7, 0, 9, 21]),
      (''structexo__request__args.html#a809cfd75f903faaaa31c9cd2abbae047'', [7, 0, 9, 9]),
      (''structexo__request__args.html#a84bce40bef29fd12665380bda77dda6e'', [7, 0, 9, 6]),
      (''structexo__request__args.html#a853be85f06f87735b01a3ff715d95e3a'', [7, 0, 9, 17]),
      (''structexo__request__args.html#a8a885d488d7b1918b84404f1d679e303'', [7, 0, 9, 18]),
      (''structexo__request__args.html#a91fbc400a7e28900bc94fcf961fcdeed'', [7, 0, 9, 3]),
      (''structexo__request__args.html#a96a70e697800a855b1ec9bab6c255f5e'', [7, 0, 9, 12]),
      (''structexo__request__args.html#a9dfc5d85d98c1543f58c4c4580d01089'', [7, 0, 9, 7]),
      (''structexo__request__args.html#aaed170b373434a254ad199548099dbf4'', [7, 0, 9, 1]),
      (''structexo__request__args.html#aaf50078b644d9307d8ca37cd15112b33'', [7, 0, 9, 2]),
      (''structexo__request__args.html#ac6b9371942e1c55c4212d6fd8fde8e6e'', [7, 0, 9, 4]),
      (''structexo__request__args.html#ac74ac39218e72f4c88652adbc00c65f2'', [7, 0, 9, 16]),
      (''structexo__request__args.html#ae8a014037216c07fdeb05f6554d74b90'', [7, 0, 9, 5]),
      (''structexo__request__args.html#af18b6cbdfa28e056879ee28eb8d8149b'', [7, 0, 9, 0]),
      (''structexosite__class.html'', [7, 0, 10]),
      (''structexosite__class.html#a02c5428ffd45adeb5b07d004cdabd8da'', [7, 0, 10, 13]),
      (''structexosite__class.html#a248dbbf54885ecdcdbf43a0003b7ce0c'', [7, 0, 10, 2]),
      (''structexosite__class.html#a3c30edc8aa80f3284e658cc576b93b06'', [7, 0, 10, 3]),
      (''structexosite__class.html#a483e524506d8cb4de919e659ef9da31a'', [7, 0, 10, 18]),
      (''structexosite__class.html#a5f4e353be21735a22435653b68812c34'', [7, 0, 10, 14]),
      (''structexosite__class.html#a6a6b5e30eccfbc5633aee9392f2e1618'', [7, 0, 10, 15]),
      (''structexosite__class.html#a7f6dcf5e876eda753ad257cfd52d47e6'', [7, 0, 10, 0]),
      (''structexosite__class.html#a987e55dd47e10140aff87335fe93fd26'', [7, 0, 10, 8]),
      (''structexosite__class.html#a9bfdb9b2c16dd01f8ef69faeca83e4e4'', [7, 0, 10, 16]),
      (''structexosite__class.html#aad964545a008f328012e069ab17118ff'', [7, 0, 10, 5]),
      (''structexosite__class.html#ab9454728b86504545acec94a9ae323de'', [7, 0, 10, 17]),
      (''structexosite__class.html#abe989a68b44ac5842b2db4d433797f05'', [7, 0, 10, 4]),
      (''structexosite__class.html#ac267b80baf6b9951165b0651837e85f1'', [7, 0, 10, 11]),
      (''structexosite__class.html#ac808128decbb220848156672d1479aca'', [7, 0, 10, 6]),
      (''structexosite__class.html#ad215fef64e4efd94c60da12aaa4fca23'', [7, 0, 10, 1]),
      (''structexosite__class.html#ad91bde114b4b1f8ecdd74a6b1fe22a2c'', [7, 0, 10, 9]),
      (''structexosite__class.html#ad97e82e60cdd6277ccda96ea8467e5f0'', [7, 0, 10, 7]),
      (''structexosite__class.html#ae7089cde3eaee843e7f9f3bf65deee53'', [7, 0, 10, 10]),
      (''structexosite__class.html#aed27c93ddee808a4dd4f6b0f7de52a3d'', [7, 0, 10, 12]),
      (''structexosite__class.html#af65c39ed491e7382d5f95fbe219525a6'', [7, 0, 10, 19]),
      (''structheader__field__filter.html'', [7, 0, 11]),
      (''structheader__field__filter.html#a41a0438f33b4f8bfcb2789f5319ef514'', [7, 0, 11, 1]),
      (''structheader__field__filter.html#a5fd03c317f31242478e0d895fa47a1a1'', [7, 0, 11, 2]),
      (''structheader__field__filter.html#a9333c37abf0659498b7ec92a39037912'', [7, 0, 11, 0]),
      (''structheap__config.html'', [6, 6, 5]),
      (''structheap__config.html#a83b03a9733c1bfad5e8d831e124690a4'', [6, 6, 5, 1]),
      (''structheap__config.html#ab7ba5d5b655e54f9378adfdc35e55935'', [6, 6, 5, 2]),
      (''structheap__config.html#ae66f9133ff4354d8adef645d5d2a5036'', [6, 6, 5, 0]),
      (''structheap__space__class.html'', [7, 0, 13]),
      (''structheap__space__class.html#a01caa82f209670110f067722bb889ee5'', [7, 0, 13, 8]),
      (''structheap__space__class.html#a091f64987574f109d208e2584cd86296'', [7, 0, 13, 4]),
      (''structheap__space__class.html#a1f6a620a946efa1178e960fd890e4d93'', [7, 0, 13, 0]),
      (''structheap__space__class.html#a252684f9b250042c03cba18d5a79e0f7'', [7, 0, 13, 1])]"

definition navtreeindex5b :: nav_index where
  "navtreeindex5b =
     [(''structheap__space__class.html#a285e9308489e0ca5c34399f364621d85'', [7, 0, 13, 6]),
      (''structheap__space__class.html#a357011a291475746f9503d28a95764b2'', [7, 0, 13, 3]),
      (''structheap__space__class.html#a3c3a65d684fa191d9cefb32f93c55c98'', [7, 0, 13, 5]),
      (''structheap__space__class.html#aab1a19a520ea68ab83adf5086a2c27e1'', [7, 0, 13, 2]),
      (''structheap__space__class.html#ab22b0cffeb943687f514d95491055d28'', [7, 0, 13, 9]),
      (''structheap__space__class.html#ad2474313cb12720d05926dc9e6bb35eb'', [7, 0, 13, 7]),
      (''structheap__space__class.html#ae6584963ba34e990fe3371fdf7f91055'', [7, 0, 13, 10]),
      (''structhttp__context.html'', [7, 0, 14]),
      (''structhttp__context.html#ab9e86519fde435f850b54db3383aab2d'', [7, 0, 14, 0]),
      (''structhttp__context.html#af92694e5b8e20a407e1938dbe0614c33'', [7, 0, 14, 1]),
      (''structlink__layer__if.html'', [7, 0, 15]),
      (''structlink__layer__if.html#a167bd62f9244e4d7a16515bcd7c3d23c'', [7, 0, 15, 1]),
      (''structlink__layer__if.html#a2364f9b40b72cf457bd80d80b7496b7b'', [7, 0, 15, 3]),
      (''structlink__layer__if.html#a3b555c5a53d2ee3461163154819c85e9'', [7, 0, 15, 0]),
      (''structlink__layer__if.html#a8989beea5ebd78579cbca2347fb77891'', [7, 0, 15, 2]),
      (''structlist__head.html'', [7, 0, 16]),
      (''structlist__head.html#aaa0eabda8877e1d6de73a33f223ad004'', [7, 0, 16, 1]),
      (''structlist__head.html#ac3b0ff0dfb978a0cfbdad6b9d19cdcfe'', [7, 0, 16, 0]),
      (''structmac__addr.html'', [6, 3, 0]),
      (''structmac__addr.html#ad3c2609cad6d7e8cce2b8f39c4bbdac1'', [6, 3, 0, 0]),
      (''structmallinfo.html'', [7, 0, 18]),
      (''structmallinfo.html#a2dd8e574430e788f53919db129f2a2ff'', [7, 0, 18, 0]),
      (''structmallinfo.html#a2fc75bf31817d4a64d0a6970aa5278dd'', [7, 0, 18, 1]),
      (''structmallinfo.html#a4676f74c10d8bf8b79585b04d520356f'', [7, 0, 18, 8]),
      (''structmallinfo.html#a470a5e18a1f5eb3cac48020268ca49b8'', [7, 0, 18, 9]),
      (''structmallinfo.html#a6b1a33ff0fc95bdab9c79ce271f58003'', [7, 0, 18, 2]),
      (''structmallinfo.html#a93076145f3f542dfe5e4e6d1e3feaf0b'', [7, 0, 18, 7]),
      (''structmallinfo.html#a9cd2ce910ff603217426d9b1b7c0e430'', [7, 0, 18, 5]),
      (''structmallinfo.html#aaf01c52dcd016834ae176885fa32b550'', [7, 0, 18, 4]),
      (''structmallinfo.html#ab78bcaeb59449f1a9c292bfe3dde8dbb'', [7, 0, 18, 3]),
      (''structmallinfo.html#afaac6d1e005097fa1ed835684e23bfa7'', [7, 0, 18, 6]),
      (''structmbedtls__client__dev.html'', [7, 0, 20]),
      (''structmbedtls__client__dev.html#a167deeb352c068e70c855db248b410be'', [7, 0, 20, 7]),
      (''structmbedtls__client__dev.html#a8f92d11091c64ca8c17c5c600a899626'', [7, 0, 20, 4]),
      (''structmbedtls__client__dev.html#aa3893ec5afa0efcd8c8fbc0169c565d6'', [7, 0, 20, 3]),
      (''structmbedtls__client__dev.html#aac1698cfd8273ed0ab9a2bf6c0df5ff7'', [7, 0, 20, 1]),
      (''structmbedtls__client__dev.html#adc3a410f941053ea36f2e9d40ddad6ca'', [7, 0, 20, 2]),
      (''structmbedtls__client__dev.html#aeb693e438b6302ffba52494604bcd493'', [7, 0, 20, 0]),
      (''structmbedtls__client__dev.html#afc76b2d217090855aaef9b25fe2f8d21'', [7, 0, 20, 6]),
      (''structmbedtls__client__dev.html#afd665272fae3c8ab3a8a9e5471a4c3fa'', [7, 0, 20, 5]),
      (''structnet__dev__operations.html'', [6, 3, 1]),
      (''structnet__dev__operations.html#a017ea21464813e54d35f40cc2ac398ef'', [6, 3, 1, 3]),
      (''structnet__dev__operations.html#a17c6796bf622cedaeadf189a7b4b2bc8'', [6, 3, 1, 2]),
      (''structnet__dev__operations.html#a2f5b1d769acebb45d85d712de02160c3'', [6, 3, 1, 10]),
      (''structnet__dev__operations.html#a317590ba68fea3e35f7f61c37536e106'', [6, 3, 1, 4]),
      (''structnet__dev__operations.html#a5ce9f3830007182982d99c6bd79411d4'', [6, 3, 1, 5]),
      (''structnet__dev__operations.html#a936778ff19ef0234cc8b2b58dbdeb68e'', [6, 3, 1, 8]),
      (''structnet__dev__operations.html#a9b673fe73e9041e3ba033fe9792fd998'', [6, 3, 1, 9]),
      (''structnet__dev__operations.html#a9fd6a9817d88fd545642a4c710c96c16'', [6, 3, 1, 1]),
      (''structnet__dev__operations.html#aa7117040725691ab877bd629c4f133c1'', [6, 3, 1, 0]),
      (''structnet__dev__operations.html#aca9b3c22e5ecdf5e0458a18dd6f07562'', [6, 3, 1, 6]),
      (''structnet__dev__operations.html#ae2a48d1cf3cb1d17097cb6a26de7fe78'', [6, 3, 1, 7]),
      (''structnet__socket.html'', [6, 3, 2]),
      (''structnet__socket.html#a0e354ca21b2dbee0799d270a94b96eaf'', [6, 3, 2, 9]),
      (''structnet__socket.html#a1f2f5eb54891234342bf3d4ceda7f698'', [6, 3, 2, 3]),
      (''structnet__socket.html#a36141c060ffc561b2b90377984e4ff54'', [6, 3, 2, 5]),
      (''structnet__socket.html#a43d206eab083ac59bffd45c34acb5033'', [6, 3, 2, 1]),
      (''structnet__socket.html#a51823687b80ced9c16654ab93f561d3b'', [6, 3, 2, 2]),
      (''structnet__socket.html#a8d6d86b48d9216989465d9f9505057b1'', [6, 3, 2, 6]),
      (''structnet__socket.html#a906b0dc6c99704ba90e0f3b1e1aaab39'', [6, 3, 2, 0]),
      (''structnet__socket.html#ab964cba0295ccd244984ddc7605cca57'', [6, 3, 2, 7]),
      (''structnet__socket.html#ac89a11feb66f89678637ad3c729344e2'', [6, 3, 2, 8]),
      (''structnet__socket.html#aceac1b2ee9517c972a9d84c17f4fa0bc'', [6, 3, 2, 4]),
      (''structnode.html'', [7, 0, 23]),
      (''structnode.html#a05e4fe9e0177ba2d8dbd2c487cfddd53'', [7, 0, 23, 2]),
      (''structnode.html#a288a44aecd04d7839824d50a0b65982e'', [7, 0, 23, 4]),
      (''structnode.html#a3ce38490a651bfda86d88ff955e96abc'', [7, 0, 23, 1]),
      (''structnode.html#a69c02a14f8fdbc19c86fcd22854a4bda'', [7, 0, 23, 0]),
      (''structnode.html#a875f75abfe22103500535b179828e4e3'', [7, 0, 23, 3]),
      (''structpacket__buffer.html'', [7, 0, 24]),
      (''structpacket__buffer.html#a078828dd6da33f0a4810689c3f2a23dc'', [7, 0, 24, 2]),
      (''structpacket__buffer.html#a0870e2ca90debdc2bf75fa66eaaa116b'', [7, 0, 24, 1]),
      (''structpacket__buffer.html#aa51961ba241b84f5e4315ab1d45e6681'', [7, 0, 24, 5]),
      (''structpacket__buffer.html#ab37ebc174b4cac36108d35efd479ba7f'', [7, 0, 24, 3]),
      (''structpacket__buffer.html#ac554052de2bc161f9f446563b6da8955'', [7, 0, 24, 0]),
      (''structpacket__buffer.html#ad3eff0ecd0fbb687aab93a1aca531448'', [7, 0, 24, 4]),
      (''structpacket__buffer__entry.html'', [7, 0, 25]),
      (''structpacket__buffer__entry.html#a01757530937d11996527881ac7f79fc1'', [7, 0, 25, 0]),
      (''structpacket__buffer__entry.html#a8c0ab782e2aaf8fa1b71f4c2b6b7d664'', [7, 0, 25, 1]),
      (''structperiodic__clb__class.html'', [7, 0, 26]),
      (''structperiodic__clb__class.html#a5551defbb4f6610b87723845a2f95b2e'', [7, 0, 26, 2]),
      (''structperiodic__clb__class.html#a556461810a033e2ac8f7922f572395e6'', [7, 0, 26, 5]),
      (''structperiodic__clb__class.html#a599d04f87baf27fd4fa67084e7961e0d'', [7, 0, 26, 1]),
      (''structperiodic__clb__class.html#a5b6a961cd55714808aded0d8b8907774'', [7, 0, 26, 3]),
      (''structperiodic__clb__class.html#a652bfa81276291f62fd5319f2691cabe'', [7, 0, 26, 4]),
      (''structperiodic__clb__class.html#a6a56d137c8c41ac7475736eae8b98ffc'', [7, 0, 26, 6]),
      (''structperiodic__clb__class.html#af9e2a744a0f5df6d5cf99755852994fc'', [7, 0, 26, 0]),
      (''structperiodic__config__class.html'', [6, 6, 1]),
      (''structperiodic__config__class.html#a4b07310b4b4491059444259661d8876b'', [6, 6, 1, 1]),
      (''structperiodic__config__class.html#ac68231502812b0106d0e03ec2323bb57'', [6, 6, 1, 0]),
      (''structpicocoap__context.html'', [7, 0, 28]),
      (''structpicocoap__context.html#a0d90aeab9c88771f64094937c68e7776'', [7, 0, 28, 1]),
      (''structpicocoap__context.html#a3d4681bd982da02dc7840b2dafb6f491'', [7, 0, 28, 0]),
      (''structprotocol__client__class.html'', [6, 8, 0]),
      (''structprotocol__client__class.html#a283f3cb42e52f2a7b0d3a2db84255e0b'', [6, 8, 0, 1]),
      (''structprotocol__client__class.html#ac5c44b3ebb931ee9cdcdb15c5e20f3ab'', [6, 8, 0, 0]),
      (''structprotocol__client__class.html#aca8a898eaf07a43dee8627d50e1cf1ba'', [6, 8, 0, 3]),
      (''structprotocol__client__class.html#af31fae5c6b03ff0d746d0bc26e0947a2'', [6, 8, 0, 2]),
      (''structprotocol__client__config__class.html'', [6, 6, 3]),
      (''structprotocol__client__config__class.html#a2d4a27d9a5bbc97e99a554477640902e'', [6, 6, 3, 3]),
      (''structprotocol__client__config__class.html#a6ee393b341b25e0dafc1304d8c226439'', [6, 6, 3, 6]),
      (''structprotocol__client__config__class.html#a77de9c5cc28e9161d4f30b88de2acc1b'', [6, 6, 3, 2]),
      (''structprotocol__client__config__class.html#aa08598d5d85304a2194062e3094f3607'', [6, 6, 3, 0]),
      (''structprotocol__client__config__class.html#aa5c8819aa979d74e7d70d0a175eddfcb'', [6, 6, 3, 5]),
      (''structprotocol__client__config__class.html#acb5fbe20c2e29991014dbffd14d5417c'', [6, 6, 3, 4]),
      (''structprotocol__client__config__class.html#af1f10a95911f469f1d158319c89e0c71'', [6, 6, 3, 1]),
      (''structprotocol__client__ops.html'', [6, 8, 1]),
      (''structprotocol__client__ops.html#a5f5e7d71b6f6a3e212a896b32f31c022'', [6, 8, 1, 2]),
      (''structprotocol__client__ops.html#aa6e33523f5190984e6a898eb90730e4e'', [6, 8, 1, 3]),
      (''structprotocol__client__ops.html#ab797554943fe45937cbfbcecf826081a'', [6, 8, 1, 1]),
      (''structprotocol__client__ops.html#ac4c931fa75636fc811aecd5ca3139b00'', [6, 8, 1, 4]),
      (''structprotocol__client__ops.html#ad542416a5c24912de4b7e00076cfcb90'', [6, 8, 1, 0]),
      (''structprotocol__client__ops.html#adf92c0c94fe4567247e1e78936586614'', [6, 8, 1, 5]),
      (''structprotocol__client__request.html'', [7, 0, 32]),
      (''structprotocol__client__request.html#a0b684c3e232c6f4aa8d2b6e0549327a7'', [7, 0, 32, 5]),
      (''structprotocol__client__request.html#a216c54997d9a5f55bff6e6d8e0917858'', [7, 0, 32, 0]),
      (''structprotocol__client__request.html#a56f3326db8513e2ed231107300150a27'', [7, 0, 32, 6]),
      (''structprotocol__client__request.html#a6c0765786b41d747aae558dd13aca536'', [7, 0, 32, 1]),
      (''structprotocol__client__request.html#a942d582969a11f3e98a79c065e9c018e'', [7, 0, 32, 2]),
      (''structprotocol__client__request.html#aac71782a6be124be255643497d9734e0'', [7, 0, 32, 4]),
      (''structprotocol__client__request.html#ad49d9a37169b9ec9958d54943174421b'', [7, 0, 32, 3]),
      (''structprotocol__client__response.html'', [6, 9, 0]),
      (''structprotocol__client__response.html#a3f9cc66d63f22740024b7a6945e69fca'', [6, 9, 0, 5]),
      (''structprotocol__client__response.html#a5e2239fd9d3b8de5b2073e6fdcf1dacb'', [6, 9, 0, 7]),
      (''structprotocol__client__response.html#a75f646539bc0a2f249f317013ea43210'', [6, 9, 0, 3])]"

definition NAVTREEINDEX5 :: nav_index where
  "NAVTREEINDEX5 = navtreeindex5a @ navtreeindex5b"

lemma located_5a: "located_in 5 navtreeindex5a"
  by (rule located_in_code [of 5, simplified]; code_simp)

lemma located_5b: "located_in 5 navtreeindex5b"
  by (rule located_in_code [of 5, simplified]; code_simp)

lemma located_5: "located_in 5 NAVTREEINDEX5"
  by (simp add: NAVTREEINDEX5_def located_in_append located_5a located_5b)

end
