(* ===== verification/NavIndex6.thy ===== *)
theory NavIndex6
  imports NavData
begin

text \<open>
  The generated index table \<open>navtreeindex6.js\<close>, in two parts, and the fact that the loop of
  \<open>navTo\<close> sends every key of it to this table.
\<close>

definition navtreeindex6a :: nav_index where
  "navtreeindex6a =
     [(''structprotocol__client__response.html#aa311384c3d43d1052514fc2bfe2c0c76'', [6, 9, 0, 6]),
      (''structprotocol__client__response.html#abba561eeab6bdc6d59e77e1687d3c912'', [6, 9, 0, 1]),
      (''structprotocol__client__response.html#ac3b1c7e0b66499a5ea17db5b575fac7c'', [6, 9, 0, 0]),
      (''structprotocol__client__response.html#ad9b91a24b0217ee69bcb92b7e066d019'', [6, 9, 0, 4]),
      (''structprotocol__client__response.html#ae65e59ec2796e797fc8b423abaa6b441'', [6, 9, 0, 2]),
      (''structprotocol__client__sm__class.html'', [7, 0, 34]),
      (''structprotocol__client__sm__class.html#a00b0da1b11309e4a66ccfeaeba27e58b'', [7, 0, 34, 23]),
      (''structprotocol__client__sm__class.html#a12dbc99bfd1d50f54000f7d53bee251f'', [7, 0, 34, 0]),
      (''structprotocol__client__sm__class.html#a1b26fe62c977bbed585bb16b92e56d5d'', [7, 0, 34, 20]),
      (''structprotocol__client__sm__class.html#a223aa570c9348a48ac6fbe563000f549'', [7, 0, 34, 16]),
      (''structprotocol__client__sm__class.html#a2ad126013be537f21e4cd2c23e266231'', [7, 0, 34, 1]),
      (''structprotocol__client__sm__class.html#a406115994588efdead7ccd4bd32f02dd'', [7, 0, 34, 17]),
      (''structprotocol__client__sm__class.html#a4542490514403a425cc68f283000de6b'', [7, 0, 34, 10]),
      (''structprotocol__client__sm__class.html#a456cb05c22677b5fecb4c935aa319f2d'', [7, 0, 34, 19]),
      (''structprotocol__client__sm__class.html#a473312be971906fe7450682caf53454a'', [7, 0, 34, 2]),
      (''structprotocol__client__sm__class.html#a47727981a3519bc146c230d8b2677ba0'', [7, 0, 34, 6]),
      (''structprotocol__client__sm__class.html#a4e838c3ca41b2dc5172c06703895ee24'', [7, 0, 34, 11]),
      (''structprotocol__client__sm__class.html#a6fce692787a7db2658b9a0cdd3b7cc7d'', [7, 0, 34, 14]),
      (''structprotocol__client__sm__class.html#a81f18025b89d158d231d4350b4554db5'', [7, 0, 34, 12]),
      (''structprotocol__client__sm__class.html#a83b3b8614a009c94a0578c856c4ad6c8'', [7, 0, 34, 13]),
      (''structprotocol__client__sm__class.html#a9be85a433620f56e5211e6b264515a13'', [7, 0, 34, 24]),
      (''structprotocol__client__sm__class.html#aa64ee650f876d3e0c47bb751f0f58626'', [7, 0, 34, 7]),
      (''structprotocol__client__sm__class.html#ab7b1dabe9eacf949e16f232f0f6d99cf'', [7, 0, 34, 3]),
      (''structprotocol__client__sm__class.html#ab8beec0eb52bc3f910e3ba28cf7ee79e'', [7, 0, 34, 21]),
      (''structprotocol__client__sm__class.html#abaf91d9de34f4eda8eddcbaf18cf408f'', [7, 0, 34, 8]),
      (''structprotocol__client__sm__class.html#ac56aca844b1beb0d9194e9a08b6314e5'', [7, 0, 34, 25]),
      (''structprotocol__client__sm__class.html#ac742c7bfc0d97e11acc5fed0ce65375a'', [7, 0, 34, 15]),
      (''structprotocol__client__sm__class.html#ad64595b06f22107e47dd4a5e0b8183c0'', [7, 0, 34, 4]),
      (''structprotocol__client__sm__class.html#ad74a348c01ab5c7368143ae19aaf27fd'', [7, 0, 34, 18]),
      (''structprotocol__client__sm__class.html#ae77dab290ba7c3cf54dbe6566bcca96d'', [7, 0, 34, 5]),
      (''structprotocol__client__sm__class.html#ae893aacad2ff0bbe09367d7280f0cc7f'', [7, 0, 34, 9]),
      (''structprotocol__client__sm__class.html#af44e5211d8efc0ee442df62bf71ec939'', [7, 0, 34, 22]),
      (''structsdev.html'', [6, 4, 0]),
      (''structsdev.html#a43f8fd29f5d3438cca7244e291461289'', [6, 4, 0, 2]),
      (''structsdev.html#a46787df128b58d868311376bcd04d739'', [6, 4, 0, 0]),
      (''structsdev.html#af3db0101f756546c78423d450da90f89'', [6, 4, 0, 3]),
      (''structsdev.html#afe3305accaef4765a7c0ad1cadeede34'', [6, 4, 0, 1]),
      (''structserver__api__class.html'', [6, 6, 4]),
      (''structserver__api__class.html#a422de71a59ec445d5f6e93f95e3403b9'', [6, 6, 4, 3]),
      (''structserver__api__class.html#a4dea164194e86353d9541b4831139857'', [6, 6, 4, 2]),
      (''structserver__api__class.html#a544784c3730f51016647576b68e6c0e9'', [6, 6, 4, 0]),
      (''structserver__api__class.html#a61d76beae0e1bf475da1fa6760b48a18'', [6, 6, 4, 1]),
      (''structserver__api__request__ops.html'', [7, 0, 37]),
      (''structserver__api__request__ops.html#ab2fbf58614c5278e10fcd67bd174765e'', [7, 0, 37, 2]),
      (''structserver__api__request__ops.html#abc1e5c854aa6738aa1d17a299a1b35aa'', [7, 0, 37, 1]),
      (''structserver__api__request__ops.html#aeb505fecc5a310ce1873bcd06471d9af'', [7, 0, 37, 0]),
      (''structserver__data__class.html'', [6, 6, 2]),
      (''structserver__data__class.html#aea2bd70a53925d45c2d7794c4c3e23c6'', [6, 6, 2, 3]),
      (''structserver__data__class.html#aece1f4dd418bd5d83db629a66a2153c3'', [6, 6, 2, 2]),
      (''structserver__data__class.html#aed84f15d659cb6af80960fdc8123a44f'', [6, 6, 2, 0]),
      (''structserver__data__class.html#afc70c73843c63c3c6a9195acb5e3342a'', [6, 6, 2, 1]),
      (''structsm__list__item.html'', [7, 0, 39]),
      (''structsm__list__item.html#a08b9c1193c944c07bd710aec94715f6c'', [7, 0, 39, 3]),
      (''structsm__list__item.html#a1f838d7159dd9cbf64079b8041e360d7'', [7, 0, 39, 1]),
      (''structsm__list__item.html#a2e3a4e704c56210def3d34736ab69bf4'', [7, 0, 39, 2]),
      (''structsm__list__item.html#a3804ea88c7ad7e0055a76f425e9fe1ef'', [7, 0, 39, 0]),
      (''structstring__class.html'', [7, 0, 40]),
      (''structstring__class.html#a9163999409ec358c7c68f15eb6709131'', [7, 0, 40, 2]),
      (''structstring__class.html#a9e9a0e6ec74a47fd7798e1d52e7f2550'', [7, 0, 40, 0]),
      (''structstring__class.html#ac4db4b5814caa7694de95c2372bd6138'', [7, 0, 40, 1]),
      (''structstring__class.html#ae613681050f059baab072573f11fe705'', [7, 0, 40, 3]),
      (''structsubscribe__item.html'', [7, 0, 41]),
      (''structsubscribe__item.html#a6c03492e98836f71a3327ad275ca15ff'', [7, 0, 41, 0]),
      (''structsubscribe__item.html#a7a731cc6df004020860b19c2630c3570'', [7, 0, 41, 2]),
      (''structsubscribe__item.html#af3d6c40fe7f106d338a8ab6352e519ed'', [7, 0, 41, 1]),
      (''structtcp__buffer__class.html'', [7, 0, 42]),
      (''structtcp__buffer__class.html#a0832afdd06115db9b305a87c77d5472b'', [7, 0, 42, 1]),
      (''structtcp__buffer__class.html#abd7e4ea92301da99f6e22db21f7b3b14'', [7, 0, 42, 0]),
      (''structthread__instance__args.html'', [7, 0, 43]),
      (''structthread__instance__args.html#a4a5a311022df0c23faccda2d8a3b23d1'', [7, 0, 43, 1]),
      (''structthread__instance__args.html#ad67db7480b3029d668b374a483e297fe'', [7, 0, 43, 0]),
      (''structtransmission__config__class.html'', [6, 6, 0]),
      (''structtransmission__config__class.html#a0dbb57a5d1895dbe2293f1d24a3f93d4'', [6, 6, 0, 8]),
      (''structtransmission__config__class.html#a1064b8324df5a3ed09e97ebbee77db20'', [6, 6, 0, 3]),
      (''structtransmission__config__class.html#a2ff28d350c91e09b08be9f0239966b52'', [6, 6, 0, 2]),
      (''structtransmission__config__class.html#a330f2b50ce5b3c811915fdadba95d37c'', [6, 6, 0, 4]),
      (''structtransmission__config__class.html#a43911be81d3678ac37486ed5d9b4e9e6'', [6, 6, 0, 0]),
      (''structtransmission__config__class.html#a4bb3b61887b537ee850a6f5339169444'', [6, 6, 0, 5]),
      (''structtransmission__config__class.html#a8b5e13338eb27c8e49c828e7115cc3d7'', [6, 6, 0, 1]),
      (''structtransmission__config__class.html#af09ab7bf8d3101f310c13c0072b5f02b'', [6, 6, 0, 6]),
      (''structtransmission__config__class.html#af4151a8902591e0f5b9f8507b4aaae7a'', [6, 6, 0, 7]),
      (''structuip__state.html'', [7, 0, 46]),
      (''structuip__state.html#a11d6541510926543b027c7fe4dd5b3ca'', [7, 0, 46, 4]),
      (''structuip__state.html#a17d3087e5dc732af70015250241d5013'', [7, 0, 46, 18]),
      (''structuip__state.html#a299134dd1ccf0e88c489cd4a20d95900'', [7, 0, 46, 0]),
      (''structuip__state.html#a2f41038b3d851d3e9e58a32928df0fa0'', [7, 0, 46, 1]),
      (''structuip__state.html#a34cb1b5505dae787fbf956b9f067beee'', [7, 0, 46, 11]),
      (''structuip__state.html#a384c2fab94ba8c73d541b01917aa3cd3'', [7, 0, 46, 3]),
      (''structuip__state.html#a46cd1f0e6d30fb80be48d8dca6ce7d9f'', [7, 0, 46, 16]),
      (''structuip__state.html#a4ef60c2df07b5abb1a86d1ca940ae243'', [7, 0, 46, 8]),
      (''structuip__state.html#a59375a5321f9acf1a7be901d15f85bb9'', [7, 0, 46, 10]),
      (''structuip__state.html#a679897ec71e7421feeee6a29bbb6e103'', [7, 0, 46, 9]),
      (''structuip__state.html#a72c92f67584764ab7f655175b9cdb709'', [7, 0, 46, 15]),
      (''structuip__state.html#a796126ec28d3feb1dfbbfd0e5fae8dd9'', [7, 0, 46, 2]),
      (''structuip__state.html#a91d2764af50d1c12e47062572e16c747'', [7, 0, 46, 14]),
      (''structuip__state.html#aa3635211a84ceebaec9f0010d4d7ff53'', [7, 0, 46, 12]),
      (''structuip__state.html#ad492b0e9098be6fae968c13ad972c978'', [7, 0, 46, 17]),
      (''structuip__state.html#ade7325764629bbea4a862a69957ad79a'', [7, 0, 46, 7]),
      (''structuip__state.html#ae28daf4075d1ad7b4b7a333ebb0531b4'', [7, 0, 46, 5]),
      (''structuip__state.html#aeda3b44537b9dbab82e82eed4e1e58c1'', [7, 0, 46, 13]),
      (''structuip__state.html#af9415d11e994ea4a778fc2544210bea3'', [7, 0, 46, 6]),
      (''structwifi__settings.html'', [6, 0, 0]),
      (''structwifi__settings.html#a1ecb2b0ba66e404c577856ddb8c984d0'', [6, 0, 0, 2]),
      (''structwifi__settings.html#a3a01ea343f60a1a4d9200589fd6babba'', [6, 0, 0, 4]),
      (''structwifi__settings.html#a6666158891102cd2a40c5515da609bc4'', [6, 0, 0, 3]),
      (''structwifi__settings.html#afb0f25fe5d5c0a8d6658a59b00cfc1c8a0c3a65f3cfb6b4972f421b445c7b707a'', [6, 0, 0, 1]),
      (''structwifi__settings.html#afb0f25fe5d5c0a8d6658a59b00cfc1c8a35399e653b4fc82050565587d15af295'', [6, 0, 0, 0]),
      (''system__port_8h_source.html'', [8, 0, 2, 4]),
      (''system__utils_8c.html'', [8, 0, 3, 10]),
      (''system__utils_8c.html#a2e391d6625b10de37e81aed4995e0302'', [8, 0, 3, 10, 2]),
      (''system__utils_8c.html#a73dd8fa42fa897b8c7226cf954e3d965'', [8, 0, 3, 10, 0]),
      (''system__utils_8c.html#abd723470d3686000632614e2f2c0fd80'', [8, 0, 3, 10, 3]),
      (''system__utils_8c.html#ac2c7bbb10ec79feaeaa01b7a128beb36'', [8, 0, 3, 10, 1]),
      (''system__utils_8h.html'', [8, 0, 3, 0, 13]),
      (''system__utils_8h.html#a2e391d6625b10de37e81aed4995e0302'', [8, 0, 3, 0, 13, 3]),
      (''system__utils_8h.html#a61f28072627aed56c749851c085145c2'', [8, 0, 3, 0, 13, 0]),
      (''system__utils_8h.html#a93d3ad7efae2f983a54ae5264145c9a2'', [8, 0, 3, 0, 13, 1]),
      (''system__utils_8h.html#ab49461016c7855b7353348a8525ef07f'', [8, 0, 3, 0, 13, 5]),
      (''system__utils_8h.html#abd723470d3686000632614e2f2c0fd80'', [8, 0, 3, 0, 13, 4]),
      (''system__utils_8h.html#ac2c7bbb10ec79feaeaa01b7a128beb36'', [8, 0, 3, 0, 13, 2]),
      (''system__utils_8h_source.html'', [8, 0, 3, 0, 13]),
      (''tcp__buffer_8c.html'', [8, 0, 3, 1, 12]),
      (''tcp__buffer_8c.html#a0dd4511ed1c91af31789bca10d7c35e8'', [8, 0, 3, 1, 12, 5]),
      (''tcp__buffer_8c.html#a20ca19d33ee73c6751fc34132f67fdae'', [8, 0, 3, 1, 12, 7]),
      (''tcp__buffer_8c.html#a4d516969837473d35f3a4351ec99b215'', [8, 0, 3, 1, 12, 4])]"

definition navtreeindex6b :: nav_index where
  "navtreeindex6b =
     [(''tcp__buffer_8c.html#a6d191aca3ca006d60c27247bc9c734f1'', [8, 0, 3, 1, 12, 1]),
      (''tcp__buffer_8c.html#a6f61fe92245308031949dcc67e5720ba'', [8, 0, 3, 1, 12, 3]),
      (''tcp__buffer_8c.html#a7489d7d4726c351c19d2fd50ab13847c'', [8, 0, 3, 1, 12, 2]),
      (''tcp__buffer_8c.html#ae7f0eb5e342504e94626fa9e87c8e95f'', [8, 0, 3, 1, 12, 6]),
      (''tcp__buffer_8h.html'', [8, 0, 3, 0, 1, 19]),
      (''tcp__buffer_8h.html#a0dd4511ed1c91af31789bca10d7c35e8'', [8, 0, 3, 0, 1, 19, 4]),
      (''tcp__buffer_8h.html#a4d516969837473d35f3a4351ec99b215'', [8, 0, 3, 0, 1, 19, 3]),
      (''tcp__buffer_8h.html#a6d191aca3ca006d60c27247bc9c734f1'', [8, 0, 3, 0, 1, 19, 0]),
      (''tcp__buffer_8h.html#a6f61fe92245308031949dcc67e5720ba'', [8, 0, 3, 0, 1, 19, 2]),
      (''tcp__buffer_8h.html#a7489d7d4726c351c19d2fd50ab13847c'', [8, 0, 3, 0, 1, 19, 1]),
      (''tcp__buffer_8h.html#ae7f0eb5e342504e94626fa9e87c8e95f'', [8, 0, 3, 0, 1, 19, 5]),
      (''tcp__buffer_8h_source.html'', [8, 0, 3, 0, 1, 19]),
      (''tdictionary_8c.html'', [8, 0, 3, 1, 13]),
      (''tdictionary_8c.html#a1c287327eeab65bbfdda0fd2399a655f'', [8, 0, 3, 1, 13, 8]),
      (''tdictionary_8c.html#a334bd741d35625861dd7af95e40e680f'', [8, 0, 3, 1, 13, 10]),
      (''tdictionary_8c.html#a3796b34c8cc74864f790c6bbc87dc8db'', [8, 0, 3, 1, 13, 4]),
      (''tdictionary_8c.html#a397510bc2adbd6aa96a59a8e81a0a932'', [8, 0, 3, 1, 13, 11]),
      (''tdictionary_8c.html#a3afc72f1f0eebf96861c115fc1c6d3b8'', [8, 0, 3, 1, 13, 14]),
      (''tdictionary_8c.html#a40e62743c7e7da0f6236fee69d794cc1'', [8, 0, 3, 1, 13, 2]),
      (''tdictionary_8c.html#a53c759f2d4a59521571929ef03730fa0'', [8, 0, 3, 1, 13, 3]),
      (''tdictionary_8c.html#a5a60cfb47679ee1e3397f039ed756182'', [8, 0, 3, 1, 13, 12]),
      (''tdictionary_8c.html#a5aa7e02b70a46d5f8e112c051f63dae8'', [8, 0, 3, 1, 13, 7]),
      (''tdictionary_8c.html#a6834d7527fc6cf4dd287f8c51bc93157'', [8, 0, 3, 1, 13, 9]),
      (''tdictionary_8c.html#a83cb57209142af0def99f0ff28f52bd3'', [8, 0, 3, 1, 13, 6]),
      (''tdictionary_8c.html#a9ca1848c12632429cd8a05cb1e7b9356'', [8, 0, 3, 1, 13, 5]),
      (''tdictionary_8c.html#aad6781481670e1b4b431dca7a94e9156'', [8, 0, 3, 1, 13, 13]),
      (''tdictionary_8c.html#ae3b07659bf0eb2e9631a8ed49b5cbe12'', [8, 0, 3, 1, 13, 17]),
      (''tdictionary_8c.html#ae45c7ac7a6e13a760b7ae146836a41e5'', [8, 0, 3, 1, 13, 15]),
      (''tdictionary_8c.html#ae8b76877372a517eddcfa9b56731beab'', [8, 0, 3, 1, 13, 16]),
      (''thread__port_8h_source.html'', [8, 0, 2, 5]),
      (''ts__cbuffer_8h.html'', [8, 0, 3, 0, 1, 20]),
      (''ts__cbuffer_8h.html#a0971fdc8382b814be46a2cd60931aaa1'', [8, 0, 3, 0, 1, 20, 1]),
      (''ts__cbuffer_8h.html#a5e002c83d58fddbb5268235f664e3b56'', [8, 0, 3, 0, 1, 20, 2]),
      (''ts__cbuffer_8h.html#a6773a1abe116f2db101429fbe0eeb897'', [8, 0, 3, 0, 1, 20, 5]),
      (''ts__cbuffer_8h.html#a86dcbd1d167c3f979d08f7948fca7ccc'', [8, 0, 3, 0, 1, 20, 3]),
      (''ts__cbuffer_8h.html#a9ae4a1535f5e7495d5530ccbd0f97488'', [8, 0, 3, 0, 1, 20, 4]),
      (''ts__cbuffer_8h.html#ad6e9c1cd3d49fa374e4f26857df6108f'', [8, 0, 3, 0, 1, 20, 0]),
      (''ts__cbuffer_8h_source.html'', [8, 0, 3, 0, 1, 20]),
      (''type_8h.html'', [8, 0, 3, 0, 1, 21]),
      (''type_8h.html#a070d2ce7b6bb7e5c05602aa8c308d0c4'', [8, 0, 3, 0, 1, 21, 3]),
      (''type_8h.html#a0894ca2119e0285f23b13f1caf7f2a04'', [8, 0, 3, 0, 1, 21, 4]),
      (''type_8h.html#a0ec4cb8729af22c699b47792804947b7'', [8, 0, 3, 0, 1, 21, 9]),
      (''type_8h.html#a6df1d22fb5f09eccc23b9f399670cfd7'', [8, 0, 3, 0, 1, 21, 5]),
      (''type_8h.html#a8891ea0e3bc77416c6b07a01c331794c'', [8, 0, 3, 0, 1, 21, 2]),
      (''type_8h.html#a92ecdce15ad4d83b5aca7e17ef0db09b'', [8, 0, 3, 0, 1, 21, 8]),
      (''type_8h.html#aa8cecfc5c5c054d2875c03e77b7be15d'', [8, 0, 3, 0, 1, 21, 6]),
      (''type_8h.html#aa93f0eb578d23995850d61f7d61c55c1'', [8, 0, 3, 0, 1, 21, 0]),
      (''type_8h.html#ab521aa5010fb1afb801a899a55569e03'', [8, 0, 3, 0, 1, 21, 1]),
      (''type_8h.html#ac3247c51e4e3de674affb32998e133e2'', [8, 0, 3, 0, 1, 21, 7]),
      (''type_8h_source.html'', [8, 0, 3, 0, 1, 21]),
      (''uip__adapter__conf_8h.html'', [8, 0, 2, 0, 3, 2]),
      (''uip__adapter__conf_8h.html#a14a432f28385e73ab2dd5c81ebfb6835'', [8, 0, 2, 0, 3, 2, 11]),
      (''uip__adapter__conf_8h.html#a2c6bcaf92a7c2cfcb4611157ab82d9d3'', [8, 0, 2, 0, 3, 2, 10]),
      (''uip__adapter__conf_8h.html#a34fd676fe8b8f284a124a98a84da6b38'', [8, 0, 2, 0, 3, 2, 5]),
      (''uip__adapter__conf_8h.html#a3c9e17e284bb9030cae208bc1a7e5af0'', [8, 0, 2, 0, 3, 2, 4]),
      (''uip__adapter__conf_8h.html#a43973950b4507726aed3663c9767e9ff'', [8, 0, 2, 0, 3, 2, 8]),
      (''uip__adapter__conf_8h.html#a66dc6adf46e6c3e73583c853f46be96f'', [8, 0, 2, 0, 3, 2, 13]),
      (''uip__adapter__conf_8h.html#a6b73f14ad6dd00cf8782b1de1dcd8f03'', [8, 0, 2, 0, 3, 2, 12]),
      (''uip__adapter__conf_8h.html#a9a605a11b6943cb615d655e228846f5b'', [8, 0, 2, 0, 3, 2, 15]),
      (''uip__adapter__conf_8h.html#aa497ae51bdff1021f7780b477005ceaa'', [8, 0, 2, 0, 3, 2, 0]),
      (''uip__adapter__conf_8h.html#ab510a117deb780715834a9a3ec0ebb78'', [8, 0, 2, 0, 3, 2, 9]),
      (''uip__adapter__conf_8h.html#abccb52444edd5bf8c5d30f95630c1c04'', [8, 0, 2, 0, 3, 2, 2]),
      (''uip__adapter__conf_8h.html#abe75ba50f77b0f0cce42a8e834855f05'', [8, 0, 2, 0, 3, 2, 14]),
      (''uip__adapter__conf_8h.html#ac5692a843ce9ba52684c2f83333313a1'', [8, 0, 2, 0, 3, 2, 3]),
      (''uip__adapter__conf_8h.html#ac63383383187048b6b73a382616617ba'', [8, 0, 2, 0, 3, 2, 6]),
      (''uip__adapter__conf_8h.html#adfac0aadc6912259243bd5451ddabc9c'', [8, 0, 2, 0, 3, 2, 1]),
      (''uip__adapter__conf_8h.html#aeb9c84de3bec6fb8c0d24d23f04f1a5f'', [8, 0, 2, 0, 3, 2, 7]),
      (''uip__adapter__conf_8h_source.html'', [8, 0, 2, 0, 3, 2]),
      (''uip__net_8h_source.html'', [8, 0, 2, 0, 3, 3]),
      (''uip__port_8h_source.html'', [8, 0, 2, 0, 3, 4]),
      (''unionatheros__net__ip.html'', [7, 0, 3]),
      (''unionatheros__net__ip.html#aaad7d11bc7739a4f4d0fcdeedbddcad2'', [7, 0, 3, 2]),
      (''unionatheros__net__ip.html#ab73fed0f0ebcc26ebfc8f805be07d1e2'', [7, 0, 3, 1]),
      (''unionatheros__net__ip.html#abd2e7d29b78ac9ffa349714e3c0552fa'', [7, 0, 3, 0]),
      (''unionuip__net__ip.html'', [7, 0, 45]),
      (''unionuip__net__ip.html#a7ebff34162f1f7df5985341eb99d9e26'', [7, 0, 45, 2]),
      (''unionuip__net__ip.html#aa4d7f14afa975eac46b3e34d4bf007d5'', [7, 0, 45, 0]),
      (''unionuip__net__ip.html#ab81ff06342a108ddf0d99ba674020e0e'', [7, 0, 45, 1]),
      (''use__ssl__heap_8h.html'', [8, 0, 3, 0, 1, 22]),
      (''use__ssl__heap_8h_source.html'', [8, 0, 3, 0, 1, 22]),
      (''use__string__heap_8h.html'', [8, 0, 3, 0, 1, 23]),
      (''use__string__heap_8h_source.html'', [8, 0, 3, 0, 1, 23]),
      (''utils_8h.html'', [8, 0, 3, 0, 1, 24]),
      (''utils_8h.html#a081eb466e4e94b8930ebca0df511929e'', [8, 0, 3, 0, 1, 24, 8]),
      (''utils_8h.html#a2280b51905ffea4be82413741c51332a'', [8, 0, 3, 0, 1, 24, 3]),
      (''utils_8h.html#a2de4f6bc21efefdc74d69adb0f058cfa'', [8, 0, 3, 0, 1, 24, 0]),
      (''utils_8h.html#a3b5a861df38f6abb5e7b4864c4deac09'', [8, 0, 3, 0, 1, 24, 9]),
      (''utils_8h.html#a7e4f67775dbc3c86749d5b34761b9ee7'', [8, 0, 3, 0, 1, 24, 2]),
      (''utils_8h.html#a7ef09e9e6786b59af5a82ed8c7eb911d'', [8, 0, 3, 0, 1, 24, 5]),
      (''utils_8h.html#a869947708423634650791302637c4614'', [8, 0, 3, 0, 1, 24, 11]),
      (''utils_8h.html#a89c8e4b56d332e9e399d9c1a2d06a4e9'', [8, 0, 3, 0, 1, 24, 10]),
      (''utils_8h.html#ab899e8962223c706bcad776009bdaa82'', [8, 0, 3, 0, 1, 24, 4]),
      (''utils_8h.html#ae7f93ffdf8dfc2c120528db5e82e5850'', [8, 0, 3, 0, 1, 24, 7]),
      (''utils_8h.html#af6090442ea127999a6f20a6440be7fe0'', [8, 0, 3, 0, 1, 24, 6]),
      (''utils_8h.html#af8c317a42292b61c93aae91e59118a46'', [8, 0, 3, 0, 1, 24, 1]),
      (''utils_8h_source.html'', [8, 0, 3, 0, 1, 24])]"

definition NAVTREEINDEX6 :: nav_index where
  "NAVTREEINDEX6 = navtreeindex6a @ navtreeindex6b"

lemma located_6a: "located_in 6 navtreeindex6a"
  by (rule located_in_code [of 6, simplified]; code_simp)

lemma located_6b: "located_in 6 navtreeindex6b"
  by (rule located_in_code [of 6, simplified]; code_simp)

lemma located_6: "located_in 6 NAVTREEINDEX6"
  by (simp add: NAVTREEINDEX6_def located_in_append located_6a located_6b)

end
