(* ===== verification/NavLeads.thy ===== *)
theory NavLeads
  imports NavFiles NavIndex0 NavIndex1 NavIndex2 NavIndex3 NavIndex4 NavIndex5 NavIndex6
begin

text \<open>
  The comparison of the seven index tables with the tree of the data files, evaluated table by
  table.
\<close>

lemma leads_tables: "all_lead
  [navtreeindex0a, navtreeindex0b, navtreeindex1a, navtreeindex1b, navtreeindex2a, navtreeindex2b,
   navtreeindex3a, navtreeindex3b, navtreeindex4a, navtreeindex4b, navtreeindex5a, navtreeindex5b,
   navtreeindex6a, navtreeindex6b]"
  apply code_simp
  apply (simp only: lead_rest)
  done

end
