(* ===== verification/NavTables.thy ===== *)
theory NavTables
  imports NavLeads
begin

text \<open>
  The navigation tree with its real index tables and data files: every address the tables know is
  found in the table that the loop of \<open>navTo\<close> picks, its path leads through the files to the
  entry that links to it, and \<open>navTo\<close> ends with that entry's node selected and its ancestors
  open, after at most one script per level and one for the table.
\<close>

definition nav_tables :: "nat \<Rightarrow> nav_index option" where
  "nav_tables i =
     (if i = 0 then Some NAVTREEINDEX0 else if i = 1 then Some NAVTREEINDEX1
      else if i = 2 then Some NAVTREEINDEX2 else if i = 3 then Some NAVTREEINDEX3
      else if i = 4 then Some NAVTREEINDEX4 else if i = 5 then Some NAVTREEINDEX5
      else if i = 6 then Some NAVTREEINDEX6 else None)"

lemma nav_tables_located: "nav_tables j = Some t \<Longrightarrow> located_in (int j) t"
  using located_0 located_1 located_2 located_3 located_4 located_5 located_6
  by (auto simp: nav_tables_def split: if_splits)

lemma shared_key_located: "nav_locate shared_key = 3"
  by code_simp

lemma shared_key_found: "shared_key \<in> fst ` set NAVTREEINDEX3"
proof -
  have "fst (hd navtreeindex3a) = shared_key" "navtreeindex3a \<noteq> []" by code_simp+
  then show ?thesis by (metis NAVTREEINDEX3_def Un_iff hd_in_set image_eqI set_append)
qed

lemma found_where_located:
  assumes "nav_tables j = Some t" "url \<in> fst ` set t"
  shows "\<exists>i u. nav_locate url = int i \<and> nav_tables i = Some u \<and> url \<in> fst ` set u"
proof -
  from assms nav_tables_located [OF assms(1)]
  have "nav_locate url = int j \<or> url = shared_key" by (auto simp: located_in_def)
  then show ?thesis
  proof
    assume "nav_locate url = int j"
    with assms show ?thesis by blast
  next
    assume "url = shared_key"
    then show ?thesis
      using shared_key_located shared_key_found
      by (intro exI [of _ 3] exI [of _ NAVTREEINDEX3]) (simp add: nav_tables_def)
  qed
qed

text \<open>C36: the seven index tables are one index: an address is a key of some table exactly if it is
  a key of the table that the loop over \<open>NAVTREEINDEX\<close> picks for it.\<close>

theorem index_tables_complete:
  "(\<exists>t. nav_tables (nat (nav_locate url)) = Some t \<and> index_get t url \<noteq> None) =
   (\<exists>j t. nav_tables j = Some t \<and> index_get t url \<noteq> None)"
proof
  assume "\<exists>j t. nav_tables j = Some t \<and> index_get t url \<noteq> None"
  then obtain j t where t: "nav_tables j = Some t" "url \<in> fst ` set t"
    unfolding index_get_defined by blast
  from found_where_located [OF t] show
    "\<exists>t. nav_tables (nat (nav_locate url)) = Some t \<and> index_get t url \<noteq> None"
    unfolding index_get_defined by auto
qed blast

lemma nav_tables_lead:
  assumes "nav_tables j = Some t" "(u, p) \<in> set t" "p \<noteq> []"
  shows "\<exists>e. entry_at data_file NAVTREE (0 # p) = Some e \<and> own_entry u e"
  using leads_tables [unfolded all_lead_iff] assms leads_home_entry [OF _ _ assms(3)]
  by (auto simp: nav_tables_def NAVTREEINDEX0_def NAVTREEINDEX1_def NAVTREEINDEX2_def NAVTREEINDEX3_def
      NAVTREEINDEX4_def NAVTREEINDEX5_def NAVTREEINDEX6_def split: if_splits)

text \<open>The entry linked to an address, or the entry of the file whose listing the address is.\<close>

definition entry_of :: "string \<Rightarrow> nav_data \<Rightarrow> bool" where
  "entry_of u e \<longleftrightarrow> (\<exists>l. entryLink e = Some l \<and> (u = l \<or> u = source_page l))"

lemma own_entryD: "own_entry u e \<Longrightarrow> entry_of u e"
  "own_entry u e \<Longrightarrow> entryChildren e = NoChildren \<or> child_entries data_file (entryChildren e) \<noteq> None"
  by (auto simp: own_entry_def entry_of_def both_def same_address_def split: option.splits)

lemma root_entry: "\<exists>e. entry_at data_file NAVTREE [0] = Some e \<and> child_entries data_file (entryChildren e) \<noteq> None"
  by (simp add: NAVTREE_def child_entries_def)

lemma index_entry:
  assumes "nav_tables j = Some t" "index_get t u = Some bs"
  shows "\<exists>e. entry_at data_file NAVTREE (0 # bs) = Some e \<and> (bs = [] \<or> entry_of u e) \<and>
    (entryChildren e = NoChildren \<or> child_entries data_file (entryChildren e) \<noteq> None)"
proof (cases "bs = []")
  case True
  with root_entry show ?thesis by blast
next
  case False
  have "(u, bs) \<in> set t" using assms(2) map_of_SomeD by (fastforce simp: index_get_def)
  from nav_tables_lead [OF assms(1) this False] own_entryD show ?thesis by blast
qed

text \<open>C9: every row of the seven index tables is right: its path leads, through the tree and the
  data files, to the entry that links to the row's address (or to the file whose source listing
  the address is); the rows with an empty path are those of the root.\<close>

theorem index_paths_lead_home:
  assumes "nav_tables j = Some t" and "(u, p) \<in> set t"
  shows "\<exists>e. entry_at data_file NAVTREE (0 # p) = Some e \<and>
    (p = [] \<or> (\<exists>l. entryLink e = Some l \<and> (u = l \<or> u = source_page l)))"
proof (cases "p = []")
  case True
  with root_entry show ?thesis by blast
next
  case False
  from nav_tables_lead [OF assms False] own_entryD show ?thesis unfolding entry_of_def by blast
qed

theorem index_paths_lead_home_witness:
  "\<exists>e. entry_at data_file NAVTREE [0, 7, 0] = Some e \<and> entryLink e = Some ''annotated.html''"
proof -
  have "hd navtreeindex0a = (''annotated.html'', [7, 0]) \<and> navtreeindex0a \<noteq> []" by code_simp
  then have "(''annotated.html'', [7, 0]) \<in> set NAVTREEINDEX0"
    by (metis NAVTREEINDEX0_def Un_iff hd_in_set set_append)
  from index_paths_lead_home [of 0, OF _ this] show ?thesis
    by (auto simp: nav_tables_def source_page_def)
qed

text \<open>C4: going to an address of the index. From every state in which the node objects agree with
  the data files, no script is awaited and the tables loaded so far are the real ones: if the
  table of the requested address knows it (or knows its page), then after at most one script per
  level and one for the table nothing is awaited, every node above the address's entry is open,
  and the entry's node exists and is selected, unless the address names an anchor, whose nodes are
  selected then.\<close>

theorem navTo_selects:
  assumes "nodes_ok data_file st" and "waiting st = []"
    and "\<And>i. subIndices st i = None \<or> subIndices st i = nav_tables i"
    and "nav_request st root0 hash0 = (root, hash)"
    and "nav_tables (nat (nav_locate (root @ hash))) = Some t" and "nav_locate (root @ hash) \<noteq> -1"
    and "index_get t (root @ hash) = Some bs \<and> u = root @ hash \<or>
      index_get t (root @ hash) = None \<and> index_get t root = Some bs \<and> u = root"
  shows "\<exists>m \<le> length bs + 3. \<exists>st' e.
    run_scripts data_file nav_tables m (navTo root0 hash0 st) = Inr st' \<and> waiting st' = [] \<and>
    entry_at data_file NAVTREE (0 # bs) = Some e \<and> (bs = [] \<or> entry_of u e) \<and>
    (\<forall>j \<le> length bs. \<exists>n. nodes st' (take j (0 # bs)) = Some n \<and> expanded n \<and> ulDisplay n = DBlock) \<and>
    (\<exists>n. nodes st' (0 # bs) = Some n \<and> nodeText n = entryText e \<and>
       (anchorNodes hash st' = [] \<longrightarrow> selected n)) \<and>
    (\<forall>q \<in> set (anchorNodes hash st'). \<exists>n. nodes st' q = Some n \<and> selected n)"
proof -
  have "0 \<le> nav_locate (root @ hash)"
    using assms(6) locate_from_range [of "-1" NAVTREEINDEX "root @ hash"] by (simp add: nav_locate_def)
  then have loc: "nav_locate (root @ hash) = int (nat (nav_locate (root @ hash)))" by simp
  have sub: "subIndices st (nat (nav_locate (root @ hash))) = None \<or>
      subIndices st (nat (nav_locate (root @ hash))) = Some t"
    using assms(3) [of "nat (nav_locate (root @ hash))"] assms(5) by simp
  have idx: "index_get t (root @ hash) = Some bs \<or>
      index_get t (root @ hash) = None \<and> index_get t root = Some bs" using assms(7) by blast
  have "index_get t u = Some bs" using assms(7) by blast
  from index_entry [OF assms(5) this] obtain e where e: "entry_at data_file NAVTREE (0 # bs) = Some e"
    "bs = [] \<or> entry_of u e"
    "entryChildren e = NoChildren \<or> child_entries data_file (entryChildren e) \<noteq> None" by blast
  from navTo_reaches [where tables = nav_tables, OF assms(1,2,4) loc assms(5) sub idx e(1,3)] obtain m st' where
    "m \<le> length bs + 3" "run_scripts data_file nav_tables m (navTo root0 hash0 st) = Inr st'"
    "reached data_file hash (0 # bs) st'" by blast
  with e(1,2) show ?thesis by (auto simp: reached_def opened_def less_Suc_eq_le)
qed

theorem navTo_selects_witness:
  "\<exists>m \<le> 5. \<exists>st' n.
    run_scripts data_file nav_tables m
      (onLoad (initNavTree ''group__pclb.html'' [] ''/docs/group__pclb.html'' [] True None True)) = Inr st' \<and>
    nodes st' [0, 6, 7] = Some n \<and> nodeText n = ''Periodic Callback interface''"
proof -
  let ?st = "initNavTree ''group__pclb.html'' [] ''/docs/group__pclb.html'' [] True None True"
  have t: "toroot ?st = ''group__pclb.html''" "hashUrl ?st = ''#''" by code_simp+
  have rq: "nav_request ?st ''group__pclb.html'' ''#'' = (''group__pclb.html'', ''#'')" by code_simp
  have l: "nav_locate (''group__pclb.html'' @ ''#'') = 2" by code_simp
  have i: "index_get NAVTREEINDEX2 (''group__pclb.html'' @ ''#'') = None"
    "index_get NAVTREEINDEX2 ''group__pclb.html'' = Some [6, 7]" by code_simp+
  have tb: "nav_tables (nat (nav_locate (''group__pclb.html'' @ ''#''))) = Some NAVTREEINDEX2"
    unfolding l by (simp add: nav_tables_def)
  have e: "map_option entryText (entry_at data_file NAVTREE [0, 6, 7]) = Some ''Periodic Callback interface''"
    by code_simp
  have "\<exists>m \<le> length [6, 7 :: nat] + 3. \<exists>st' e.
    run_scripts data_file nav_tables m (navTo ''group__pclb.html'' ''#'' ?st) = Inr st' \<and> waiting st' = [] \<and>
    entry_at data_file NAVTREE (0 # [6, 7]) = Some e \<and> ([6, 7 :: nat] = [] \<or> entry_of ''group__pclb.html'' e) \<and>
    (\<forall>j \<le> length [6, 7 :: nat]. \<exists>n. nodes st' (take j (0 # [6, 7])) = Some n \<and> expanded n \<and> ulDisplay n = DBlock) \<and>
    (\<exists>n. nodes st' (0 # [6, 7]) = Some n \<and> nodeText n = entryText e \<and>
       (anchorNodes ''#'' st' = [] \<longrightarrow> selected n)) \<and>
    (\<forall>q \<in> set (anchorNodes ''#'' st'). \<exists>n. nodes st' q = Some n \<and> selected n)"
    by (rule navTo_selects [OF initNavTree_ok initNavTree_waiting(1) _ rq tb])
       (use l i in simp_all)
  then obtain m st' e' n where r: "m \<le> 5"
    "run_scripts data_file nav_tables m (navTo ''group__pclb.html'' ''#'' ?st) = Inr st'"
    "entry_at data_file NAVTREE [0, 6, 7] = Some e'" "nodes st' [0, 6, 7] = Some n" "nodeText n = entryText e'"
    by auto
  from r(3,5) e have "nodeText n = ''Periodic Callback interface''" by simp
  with r(1,2,4) show ?thesis unfolding onLoad_def t by blast
qed

end
