(* ===== verification/NavLooks.thy ===== *)
theory NavLooks
  imports NavTree Complex_Main
begin

text \<open>
  What the navigation tree shows beside its data, and where it scrolls (\<open>navtree.js\<close>): the
  indentation and the arrow of an item, the pictures of the synchronisation button, the list of the
  children that is made when it is first asked for, the effect on an anchor the page jumps to, and the
  two scrolled panes. Positions are whole pixels.
\<close>

section \<open>Items\<close>

text \<open>The loop of \<open>createIndent\<close> over \<open>parentNode\<close>: the parent of a node drops the last index of its
  path, the root has none.\<close>

function indent_level :: "int \<Rightarrow> path \<Rightarrow> int" where
  "indent_level level n = (if n = [] then level else indent_level (level + 1) (butlast n))"
  by pat_completeness auto
termination by (relation "measure (\<lambda>(level, n). length n)") auto

declare indent_level.simps [simp del]

text \<open>An item with children gets a picture in a link that toggles it, another one a blank.\<close>

datatype indent =
    ArrowImg (paddingLeft: string) (imgWidth: int) (imgHeight: int) (imgSrc: string)
  | BlankSpan (spanWidth: string) (spanHeight: string)

definition createIndent :: "string \<Rightarrow> path \<Rightarrow> bool \<Rightarrow> indent" where
  "createIndent rel node children =
     (let level = indent_level (-1) node in
      if children then ArrowImg (int_string (16 * level) @ ''px'') 16 22 (rel @ ''arrowright.png'')
      else BlankSpan (int_string (16 * (level + 1)) @ ''px'') ''22px'')"

text \<open>\<open>expandNode\<close> and the toggle change the picture.\<close>

definition arrow_picture :: "string \<Rightarrow> bool \<Rightarrow> string" where
  "arrow_picture rel down = rel @ (if down then ''arrowdown.png'' else ''arrowright.png'')"

lemma indent_level_length: "indent_level level n = level + int (length n)"
  by (induction level n rule: indent_level.induct) (subst indent_level.simps, auto simp: of_nat_diff Suc_leI)

text \<open>Items of one depth start at the same column, with an arrow or without: the padding and the
  width of the picture give the width of the blank.\<close>

lemma indent_aligned:
  assumes "length n = d"
  shows "createIndent rel n True = ArrowImg (int_string (16 * (int d - 1)) @ ''px'') 16 22 (arrow_picture rel False)"
    and "createIndent rel n False = BlankSpan (int_string (16 * (int d - 1) + 16) @ ''px'') ''22px''"
  using assms by (simp_all add: createIndent_def indent_level_length arrow_picture_def algebra_simps)

definition SYNCONMSG :: string where
  "SYNCONMSG = ''click to disable panel synchronisation''"

definition SYNCOFFMSG :: string where
  "SYNCOFFMSG = ''click to enable panel synchronisation''"

definition showSyncOff :: "string \<Rightarrow> string" where
  "showSyncOff rel = ''<img src=\"'' @ rel @ ''sync_off.png\" title=\"'' @ SYNCOFFMSG @ ''\"/>''"

definition showSyncOn :: "string \<Rightarrow> string" where
  "showSyncOn rel = ''<img src=\"'' @ rel @ ''sync_on.png\" title=\"'' @ SYNCONMSG @ ''\"/>''"

text \<open>What \<open>window\<close> has under \<open>localStorage\<close>; reading it can throw. The function passes an object with a
  \<open>getItem\<close> on, which is true where the result is tested.\<close>

datatype storage_slot = NoSlot | NullSlot | SlotThrows | Slot bool

definition localStorageSupported :: "storage_slot \<Rightarrow> bool" where
  "localStorageSupported slot =
     (case slot of NoSlot \<Rightarrow> False | NullSlot \<Rightarrow> False | SlotThrows \<Rightarrow> False | Slot getItem \<Rightarrow> getItem)"

section \<open>The elements of a parent\<close>

text \<open>\<open>li.children\<close> as ids. \<open>getChildrenUL\<close> makes the list element once, hidden, behind what the
  item has.\<close>

record 'e item_li =
  liChildren :: "'e list"
  childrenUL :: "'e option"

definition getChildrenUL :: "'e \<Rightarrow> 'e item_li \<Rightarrow> 'e \<times> 'e item_li" where
  "getChildrenUL fresh node =
     (case childrenUL node of
        None \<Rightarrow> (fresh, node\<lparr>childrenUL := Some fresh, liChildren := liChildren node @ [fresh]\<rparr>)
      | Some ul \<Rightarrow> (ul, node))"

lemma getChildrenUL_once: "getChildrenUL e' (snd (getChildrenUL e node)) = getChildrenUL e node"
  if "childrenUL node \<noteq> None"
  using that by (auto simp: getChildrenUL_def)

lemma getChildrenUL_stays: "getChildrenUL e node = (ul, node') \<Longrightarrow> getChildrenUL e' node' = (ul, node')"
  by (auto simp: getChildrenUL_def split: option.splits)

text \<open>\<open>removeToInsertLater\<close> takes an element out while its descendants are made, so that the page is
  not laid out again for each; the function it returns puts it back before the sibling that
  followed it.\<close>

fun next_of :: "'e \<Rightarrow> 'e list \<Rightarrow> 'e option" where
  "next_of x [] = None"
| "next_of x (y # ys) = (if y = x then (case ys of [] \<Rightarrow> None | z # zs \<Rightarrow> Some z) else next_of x ys)"

fun insertBefore :: "'e \<Rightarrow> 'e \<Rightarrow> 'e list \<Rightarrow> 'e list" where
  "insertBefore x s [] = []"
| "insertBefore x s (y # ys) = (if y = s then x # y # ys else y # insertBefore x s ys)"

definition removeToInsertLater :: "'e \<Rightarrow> 'e list \<Rightarrow> 'e list \<times> ('e list \<Rightarrow> 'e list)" where
  "removeToInsertLater element siblings =
     (let nextSibling = next_of element siblings in
      (remove1 element siblings,
       \<lambda>now. (case nextSibling of Some s \<Rightarrow> insertBefore element s now | None \<Rightarrow> now @ [element])))"

lemma next_of_in: "next_of x ys = Some z \<Longrightarrow> z \<in> set ys"
  by (induction ys) (auto split: if_splits list.splits)

text \<open>The element comes back to its place.\<close>

lemma removed_comes_back:
  "distinct xs \<Longrightarrow> x \<in> set xs \<Longrightarrow> snd (removeToInsertLater x xs) (fst (removeToInsertLater x xs)) = xs"
proof (induction xs)
  case (Cons y ys)
  show ?case
  proof (cases "y = x")
    case True
    with Cons.prems show ?thesis by (cases ys) (auto simp: removeToInsertLater_def)
  next
    case False
    with Cons.prems have "x \<in> set ys" "distinct ys" by auto
    with Cons.IH have "snd (removeToInsertLater x ys) (remove1 x ys) = ys" by (simp add: removeToInsertLater_def)
    moreover have "next_of x ys \<noteq> Some y" using next_of_in [of x ys y] Cons.prems(1) by auto
    ultimately show ?thesis using False
      by (auto simp: removeToInsertLater_def Let_def split: option.splits)
  qed
qed simp

section \<open>Jumping to an anchor\<close>

text \<open>The anchor of the page, as the functions ask for it: the classes and the kind of its parent, and
  the places of both in the scrolled pane (an anchor that is not on the page has none).\<close>

record page_anchor =
  parentClass :: string
  parentIsHeader :: bool
  parentTop :: int
  anchorTop :: "int option"

record doc_content =
  offsetTop :: int
  scrollHeight :: int
  contentSize :: int
  scrollTop :: int
  animationInProgress :: bool
  goingTo :: "(int \<times> int \<times> string option) option"
  address :: "string option"

text \<open>\<open>hasClass\<close> looks for one of the classes.\<close>

definition hasClass :: "string \<Rightarrow> string \<Rightarrow> bool" where
  "hasClass c s \<longleftrightarrow> c \<in> set (split_on CHR '' '' s)"

definition anchor_pos :: "page_anchor \<Rightarrow> int option" where
  "anchor_pos a =
     (if hasClass ''memItemLeft'' (parentClass a) \<or> hasClass ''fieldname'' (parentClass a) \<or>
         hasClass ''fieldtype'' (parentClass a) \<or> parentIsHeader a
      then Some (parentTop a) else anchorTop a)"

text \<open>A position of 0 is false like a missing one. The animation scrolls to a place in a time, after
  which the address of the page is set and the flag cleared.\<close>

definition gotoAnchor :: "page_anchor \<Rightarrow> string \<Rightarrow> bool \<Rightarrow> doc_content \<Rightarrow> doc_content" where
  "gotoAnchor a aname updateLocation doc =
     (case anchor_pos a of
        None \<Rightarrow> doc
      | Some pos \<Rightarrow>
          if pos = 0 then doc
          else
            let dist = \<bar>min (pos - offsetTop doc) (scrollHeight doc - contentSize doc - scrollTop doc)\<bar>
            in doc\<lparr>animationInProgress := True,
                   goingTo := Some (pos + scrollTop doc - offsetTop doc, max 50 (min 500 dist),
                     if updateLocation then Some aname else None)\<rparr>)"

definition animation_done :: "doc_content \<Rightarrow> doc_content" where
  "animation_done doc =
     (case goingTo doc of
        None \<Rightarrow> doc
      | Some (place, time, aname) \<Rightarrow>
          doc\<lparr>scrollTop := place, goingTo := None, animationInProgress := False,
              address := (case aname of Some n \<Rightarrow> Some n | None \<Rightarrow> address doc)\<rparr>)"

text \<open>The flag is set exactly while an animation runs, which takes between 50 and 500 ms and brings the
  anchor to the upper edge of the pane.\<close>

definition scroll_ok :: "doc_content \<Rightarrow> bool" where
  "scroll_ok doc \<longleftrightarrow> animationInProgress doc = (goingTo doc \<noteq> None) \<and>
     (\<forall>place time n. goingTo doc = Some (place, time, n) \<longrightarrow> 50 \<le> time \<and> time \<le> 500)"

lemma scroll_invariant: "scroll_ok doc \<Longrightarrow> scroll_ok (gotoAnchor a n u doc)" "scroll_ok doc \<Longrightarrow> scroll_ok (animation_done doc)"
  by (auto simp: scroll_ok_def gotoAnchor_def animation_done_def Let_def split: option.split)

lemma anchor_reaches_top:
  assumes "anchor_pos a = Some pos" "pos \<noteq> 0"
  shows "pos - (scrollTop (animation_done (gotoAnchor a n u doc)) - scrollTop doc) = offsetTop doc"
  using assms by (simp add: gotoAnchor_def animation_done_def Let_def)

text \<open>The whole handler of a label: the state of the tree and the scrolled pane; \<open>anchors\<close> is \<open>$(aname)\<close>.\<close>

definition clickLabel_pane :: "(string \<Rightarrow> page_anchor) \<Rightarrow> path \<Rightarrow> nav_state \<times> doc_content \<Rightarrow> nav_state \<times> doc_content" where
  "clickLabel_pane anchors p page =
     (let (st, aname) = clickLabel p (fst page)
      in (st, case aname of None \<Rightarrow> snd page | Some a \<Rightarrow> gotoAnchor (anchors a) a True (snd page)))"

lemma clickLabel_pane_ok: "scroll_ok (snd page) \<Longrightarrow> scroll_ok (snd (clickLabel_pane anchors p page))"
  by (auto simp: clickLabel_pane_def split_beta Let_def scroll_invariant split: option.split)

text \<open>What \<open>highlightAnchor\<close> lets glow, relative to the anchor, and for how long. It compares the whole
  \<open>class\<close> attribute, unlike \<open>gotoAnchor\<close>.\<close>

datatype glow_target = DeclRows string | GrandParent | ParentOf | NextOf

definition highlight_target :: "string \<Rightarrow> page_anchor \<Rightarrow> glow_target \<times> nat" where
  "highlight_target hash a =
     (if parentClass a = ''memItemLeft'' then (DeclRows hash, 300)
      else if parentClass a = ''fieldname'' then (GrandParent, 1000)
      else if parentClass a = ''fieldtype'' then (GrandParent, 1000)
      else if parentIsHeader a then (ParentOf, 1000)
      else (NextOf, 1000))"

definition highlightAnchor :: "string \<Rightarrow> page_anchor \<Rightarrow> doc_content \<Rightarrow> (glow_target \<times> nat) \<times> doc_content" where
  "highlightAnchor hash a doc = (highlight_target hash a, gotoAnchor a (CHR ''#'' # hash) False doc)"

text \<open>\<open>glowEffect\<close>: the class is added, and taken away when the delay is over.\<close>

definition glow_begin :: "string list \<Rightarrow> string list" where
  "glow_begin classes = (if ''glow'' \<in> set classes then classes else classes @ [''glow''])"

definition glow_end :: "string list \<Rightarrow> string list" where
  "glow_end classes = filter (\<lambda>c. c \<noteq> ''glow'') classes"

lemma glow_leaves_no_trace: "''glow'' \<notin> set classes \<Longrightarrow> glow_end (glow_begin classes) = classes"
  by (auto simp: glow_begin_def glow_end_def filter_id_conv)

section \<open>Scrolling the tree\<close>

text \<open>\<open>showRoot\<close> tries to scroll the selected item to the middle until it works: each try throws (True)
  or not. \<open>tries\<close> counts those that are made of the given ones.\<close>

definition root_offset :: "int \<Rightarrow> int \<Rightarrow> int \<Rightarrow> rat" where
  "root_offset window header footer = - rat_of_int (window - header - footer) / 2"

fun showRoot :: "bool list \<Rightarrow> nat option" where
  "showRoot [] = None"
| "showRoot (throws # later) = (if throws then map_option Suc (showRoot later) else Some 1)"

lemma showRoot_first_success: "showRoot ts = Some n \<longleftrightarrow> 0 < n \<and> n \<le> length ts \<and> \<not> ts ! (n - 1) \<and> (\<forall>i < n - 1. ts ! i)"
proof (induction ts arbitrary: n)
  case (Cons t ts)
  show ?case
  proof (cases n)
    case (Suc m)
    with Cons.IH [of m] show ?thesis
      by (cases m) (auto simp: nth_Cons' less_Suc_eq_0_disj)
  qed auto
qed auto

end
