(* ===== verification/NavSync.thy ===== *)
theory NavSync
  imports NavShow
begin

text \<open>
  Panel synchronisation (\<open>navtree.js\<close>): what happens to the stored link over any sequence of events,
  the button, clicks on labels and arrows of the tree, scripts that arrive, changes of the anchor and
  other pages of the documentation, which share the storage.
\<close>

section \<open>Events\<close>

text \<open>The root of the tree has no arrow. \<open>ScriptArrives k\<close>: the \<open>k\<close>th script that is awaited. \<open>OpenPage\<close>: another page is opened in its
  place, with the path and the anchor given; its button has the class \<open>sync\<close>, as every page has it.\<close>

datatype nav_event =
    SyncButton
  | ClickLabel path
  | ClickArrow path
  | ScriptArrives nat
  | WindowLoads
  | HashChanges bool string
  | OpenPage string string string string

definition result_state :: "nav_result \<Rightarrow> nav_state" where
  "result_state r = (case r of Inl (e, st) \<Rightarrow> st | Inr st \<Rightarrow> st)"

lemma result_state_simps [simp]: "result_state (Inl (e, st)) = st" "result_state (Inr st) = st"
  by (simp_all add: result_state_def)

definition nav_step :: "(string \<Rightarrow> nav_data list option) \<Rightarrow> (nat \<Rightarrow> nav_index option) \<Rightarrow>
    nav_event \<Rightarrow> nav_state \<Rightarrow> nav_state" where
  "nav_step files tables ev st =
     (case ev of
        SyncButton \<Rightarrow> if storageSupported st then toggleSyncButton st else st
      | ClickLabel p \<Rightarrow> fst (clickLabel p st)
      | ClickArrow p \<Rightarrow> if p \<noteq> [] then toggleNode p st else st
      | ScriptArrives k \<Rightarrow>
          if k < length (waiting st) then
            let c = waiting st ! k; rest = take k (waiting st) @ drop (Suc k) (waiting st)
            in result_state (deliver files tables c (st\<lparr>waiting := rest\<rparr>))
          else st
      | WindowLoads \<Rightarrow> result_state (onLoad st)
      | HashChanges busy hash \<Rightarrow> result_state (onHashChange busy hash st)
      | OpenPage root rel page hash \<Rightarrow>
          initNavTree root rel page hash (storageSupported st) (navpath st) True)"

text \<open>The links that a sequence of events passes to \<open>storeLink\<close>: those of the labels that are clicked.\<close>

definition label_link :: "path \<Rightarrow> nav_state \<Rightarrow> string list" where
  "label_link p st =
     (case nodes st p of
        None \<Rightarrow> []
      | Some n \<Rightarrow> (case linkClick n of StoresLink l \<Rightarrow> [l] | GoesToAnchor l a \<Rightarrow> [l] | _ \<Rightarrow> []))"

fun links_clicked :: "(string \<Rightarrow> nav_data list option) \<Rightarrow> (nat \<Rightarrow> nav_index option) \<Rightarrow>
    nav_event list \<Rightarrow> nav_state \<Rightarrow> string list" where
  "links_clicked files tables [] st = []"
| "links_clicked files tables (ev # evs) st =
     (case ev of ClickLabel p \<Rightarrow> label_link p st | _ \<Rightarrow> []) @
     links_clicked files tables evs (nav_step files tables ev st)"

section \<open>Who changes the stored link\<close>

text \<open>The part of the state that synchronisation is about. Everything but the button, the labels and a
  new page leaves it alone.\<close>

definition sync_part :: "nav_state \<Rightarrow> bool \<times> string option \<times> bool" where
  "sync_part st = (storageSupported st, navpath st, syncOn st)"

named_theorems sync_frame

lemma sync_basic [sync_frame]:
  "sync_part (update_node p f st) = sync_part st" "sync_part (clearSelected st) = sync_part st"
  "sync_part (getScript c st) = sync_part st" "sync_part (setData q es st) = sync_part st"
  "sync_part (openNode p st) = sync_part st" "sync_part (setSelected p st) = sync_part st"
  "sync_part (st\<lparr>waiting := w\<rparr>) = sync_part st" "sync_part (st\<lparr>breadcrumbs := b\<rparr>) = sync_part st"
  "sync_part (st\<lparr>subIndices := i\<rparr>) = sync_part st" "sync_part (st\<lparr>locHash := h\<rparr>) = sync_part st"
  "sync_part (st\<lparr>syncTop := t\<rparr>) = sync_part st"
  by (simp_all add: sync_part_def update_node_def clearSelected_def getScript_def setData_def openNode_def
      setSelected_def)

lemma sync_make_children [sync_frame]: "sync_part (make_children p d i es st) = sync_part st"
  by (induction p d i es st rule: make_children.induct) (simp_all add: sync_part_def)

lemma sync_visitNode [sync_frame]: "sync_part (visitNode p es v st) = sync_part st"
  by (simp add: visitNode_def getNode_def sync_frame)

lemma sync_expandNode [sync_frame]: "sync_part (expandNode p imm st) = sync_part st"
  by (simp add: expandNode_def sync_frame split: option.split nav_children.split)

lemma sync_toggleNode [sync_frame]: "sync_part (toggleNode p st) = sync_part st"
  by (simp add: toggleNode_def sync_frame split: option.split)

lemma sync_select [sync_frame]: "sync_part (selectAndHighlight hash n st) = sync_part st"
proof -
  have "sync_part (fold setSelected ps st) = sync_part st" for ps
    by (induction ps arbitrary: st) (simp_all add: sync_frame)
  then show ?thesis by (simp add: selectAndHighlight_def Let_def sync_frame split: option.split)
qed

lemma sync_show_from [sync_frame]: "sync_part (result_state (show_from p k crumbs hash st)) = sync_part st"
proof (induction p k crumbs hash st rule: show_from.induct)
  case (1 p k crumbs hash st)
  show ?case
    by (subst show_from.simps)
       (auto simp: Let_def sync_frame 1 split: option.split nav_children.split list.split)
qed

lemma sync_navTo [sync_frame]: "sync_part (result_state (navTo root hash st)) = sync_part st"
  by (simp add: navTo_def gotoNode_def showNode_def Let_def sync_frame split_beta split: option.split)

lemma sync_deliver [sync_frame]: "sync_part (result_state (deliver files tables c st)) = sync_part st"
  by (simp add: deliver_def gotoNode_def showNode_def Let_def sync_frame
      split: nav_cont.split option.split)

lemma sync_handlers [sync_frame]:
  "sync_part (result_state (onLoad st)) = sync_part st"
  "sync_part (result_state (onHashChange busy hash st)) = sync_part st"
  by (simp_all add: onLoad_def onHashChange_def Let_def sync_frame)

lemma sync_label: "sync_part (fst (clickLabel p st)) =
    sync_part (if label_link p st = [] then st else storeLink (last (label_link p st)) st)"
  by (auto simp: clickLabel_def label_link_def Let_def sync_frame split: option.split link_click.split)

section \<open>Runs without the button\<close>

definition nav_run :: "(string \<Rightarrow> nav_data list option) \<Rightarrow> (nat \<Rightarrow> nav_index option) \<Rightarrow>
    nav_event list \<Rightarrow> nav_state \<Rightarrow> nav_state" where
  "nav_run files tables evs st = fold (nav_step files tables) evs st"

text \<open>Off: the last link that was stored stays, until a label stores its own.\<close>

lemma step_off:
  assumes "sync_part st = (True, Some l, False)" "l \<noteq> []" "ev \<noteq> SyncButton"
    and "[] \<notin> set (links_clicked files tables [ev] st)"
  shows "sync_part (nav_step files tables ev st) =
    (True, Some (last (l # links_clicked files tables [ev] st)), False)"
proof (cases ev)
  case (ClickLabel p)
  then show ?thesis using assms
    by (simp add: nav_step_def sync_label) (auto simp: sync_part_def storeLink_def)
next
  case (OpenPage a b c d)
  then show ?thesis using assms by (simp add: nav_step_def sync_part_def initNavTree_def cachedLink_def Let_def)
qed (use assms in \<open>simp_all add: nav_step_def Let_def sync_frame\<close>)

lemma run_off:
  assumes "sync_part st = (True, Some l, False)" "l \<noteq> []" "SyncButton \<notin> set evs"
    and "[] \<notin> set (links_clicked files tables evs st)"
  shows "sync_part (nav_run files tables evs st) =
    (True, Some (last (l # links_clicked files tables evs st)), False)"
  using assms
proof (induction evs arbitrary: st l)
  case (Cons ev evs)
  let ?new = "links_clicked files tables [ev] st" and ?st = "nav_step files tables ev st"
  have links: "links_clicked files tables (ev # evs) st = ?new @ links_clicked files tables evs ?st" by simp
  have s: "sync_part ?st = (True, Some (last (l # ?new)), False)"
    by (rule step_off) (use Cons.prems links in auto)
  have "last (l # ?new) \<in> set (l # ?new)" by (rule last_in_set) simp
  with Cons.prems(2,4) links have "last (l # ?new) \<noteq> []" by auto
  from Cons.IH [OF s this] Cons.prems links show ?case
    by (cases "links_clicked files tables evs ?st = []") (auto simp: nav_run_def)
qed (simp add: nav_run_def)

text \<open>On: nothing is stored, and every page that is opened keeps the class of its button.\<close>

lemma run_on:
  assumes "sync_part st = (True, Some [], True)" "SyncButton \<notin> set evs"
  shows "sync_part (nav_run files tables evs st) = (True, Some [], True)"
  using assms
proof (induction evs arbitrary: st)
  case (Cons ev evs)
  have "sync_part (nav_step files tables ev st) = (True, Some [], True)"
  proof (cases ev)
    case (ClickLabel p)
    then show ?thesis using Cons.prems
      by (simp add: nav_step_def sync_label) (auto simp: sync_part_def storeLink_def)
  next
    case (OpenPage a b c d)
    then show ?thesis using Cons.prems
      by (simp add: nav_step_def sync_part_def initNavTree_def cachedLink_def Let_def)
  qed (use Cons.prems in \<open>simp_all add: nav_step_def Let_def sync_frame\<close>)
  from Cons.IH [OF this] Cons.prems show ?case by (simp add: nav_run_def)
qed (simp add: nav_run_def)

section \<open>Where navigation goes\<close>

text \<open>The page and the anchor of a link, the anchor without the characters that \<open>navTo\<close> removes; an
  anchor of a line number is dropped.\<close>

definition link_page :: "string \<Rightarrow> string" where
  "link_page link = takeWhile (\<lambda>c. c \<noteq> CHR ''#'') link"

definition link_anchor :: "string \<Rightarrow> string" where
  "link_anchor link =
     (case dropWhile (\<lambda>c. c \<noteq> CHR ''#'') link of
        [] \<Rightarrow> []
      | _ # a \<Rightarrow> CHR ''#'' # filter hash_char (takeWhile (\<lambda>c. c \<noteq> CHR ''#'') a))"

definition link_goal :: "string \<Rightarrow> string \<times> string" where
  "link_goal link = (link_page link, if line_anchor (link_anchor link) then [] else link_anchor link)"

lemma cut_at:
  "c \<notin> set u \<Longrightarrow> takeWhile (\<lambda>x. x \<noteq> c) u = u" "c \<notin> set u \<Longrightarrow> dropWhile (\<lambda>x. x \<noteq> c) u = []"
  "c \<notin> set u \<Longrightarrow> takeWhile (\<lambda>x. x \<noteq> c) (u @ c # v) = u"
  "c \<notin> set u \<Longrightarrow> dropWhile (\<lambda>x. x \<noteq> c) (u @ c # v) = c # v"
  by (induction u) auto

lemma split_on_first: "split_on c s ! 0 = takeWhile (\<lambda>x. x \<noteq> c) s"
proof (cases "c \<in> set s")
  case True
  then obtain u v where "s = u @ c # v" "c \<notin> set u" by (meson split_list_first)
  then show ?thesis by (simp add: split_on_append cut_at)
qed (simp add: split_on_fresh cut_at)

lemma link_anchor_parts: "link_anchor l = (if 1 < length (split_on CHR ''#'' l)
    then CHR ''#'' # filter hash_char (split_on CHR ''#'' l ! 1) else [])"
proof (cases "CHR ''#'' \<in> set l")
  case True
  then obtain u v where "l = u @ CHR ''#'' # v" "CHR ''#'' \<notin> set u" by (meson split_list_first)
  then show ?thesis using split_on_first [of "CHR ''#''" v] by (simp add: link_anchor_def split_on_append cut_at)
qed (simp add: link_anchor_def split_on_fresh cut_at)

lemma request_stored:
  assumes "sync_part st = (True, Some l, False)" "l \<noteq> []"
  shows "nav_request st root hash = link_goal l"
proof -
  have c: "cachedLink st = l" using assms by (simp add: sync_part_def cachedLink_def)
  show ?thesis
    using assms(2) split_on_first [of "CHR ''#''" l]
    by (simp add: nav_request_def Let_def link_goal_def link_page_def c link_anchor_parts)
qed

lemma request_followed:
  "sync_part st = (True, Some [], True) \<Longrightarrow> nav_request st root hash = (root, if line_anchor hash then [] else hash)"
  by (simp add: nav_request_def sync_part_def cachedLink_def)

lemma set_substring: "set (substring s i) \<subseteq> set s"
  by (simp add: substring_def set_drop_subset)

lemma set_stripPath2: "set (stripPath2 u) \<subseteq> set u"
  using set_substring by (auto simp: stripPath2_def Let_def)

lemma own_goal:
  assumes "CHR ''#'' \<notin> set (locPath st)"
  shows "link_goal (stripPath2 (pathName st) @ hashUrl st) =
    (stripPath2 (pathName st), if line_anchor (hashUrl st) then [] else hashUrl st)"
proof -
  have P: "CHR ''#'' \<notin> set (stripPath2 (pathName st))"
    using set_stripPath2 [of "pathName st"] assms by (auto simp: pathName_def)
  have "\<not> hash_char (CHR ''#'')" by code_simp
  then have h: "CHR ''#'' \<notin> set (hashValue st)" "filter hash_char (hashValue st) = hashValue st"
    by (simp_all add: hashValue_def)
  have "link_page (stripPath2 (pathName st) @ hashUrl st) = stripPath2 (pathName st)"
    using P by (simp add: link_page_def hashUrl_def cut_at)
  moreover have "link_anchor (stripPath2 (pathName st) @ hashUrl st) = hashUrl st"
    using P h by (simp add: link_anchor_def hashUrl_def cut_at)
  ultimately show ?thesis by (simp add: link_goal_def)
qed

text \<open>C25: what the button stores is what \<open>navTo\<close> reads, over any sequence of events on this page and on
  pages opened after it, as long as the browser has a local storage and the button is not pressed
  again. When the user turns synchronisation off, every navigation goes to the page and anchor where
  that was done, until a label of the tree is clicked, which stores its own link: then to the last
  link that was clicked (anchors of line numbers are dropped). A second press ends this: from then
  on, again whatever happens, navigation follows the request.\<close>

theorem sync_link_roundtrip:
  assumes "storageSupported st" and "syncOn st" and "CHR ''#'' \<notin> set (locPath st)"
    and "SyncButton \<notin> set evs" and "SyncButton \<notin> set later"
    and "[] \<notin> set (links_clicked files tables evs st1)"
    and own_def: "own = stripPath2 (pathName st) @ hashUrl st"
    and st1_def: "st1 = nav_step files tables SyncButton st"
    and st2_def: "st2 = nav_run files tables evs st1"
  shows "nav_request st2 root hash = link_goal (last (own # links_clicked files tables evs st1)) \<and>
    link_goal own = (stripPath2 (pathName st), if line_anchor (hashUrl st) then [] else hashUrl st) \<and>
    nav_request (nav_run files tables (SyncButton # later) st2) root hash =
      (root, if line_anchor hash then [] else hash)"
proof -
  have s1: "sync_part st1 = (True, Some own, False)"
    using assms(1,2) by (simp add: st1_def own_def nav_step_def toggleSyncButton_def storeLink_def Let_def
        sync_part_def pathName_def hashUrl_def hashValue_def)
  have own: "own \<noteq> []" by (simp add: own_def hashUrl_def)
  let ?links = "links_clicked files tables evs st1"
  have s2: "sync_part st2 = (True, Some (last (own # ?links)), False)"
    unfolding st2_def by (rule run_off [OF s1 own assms(4,6)])
  have "last (own # ?links) \<in> set (own # ?links)" by (rule last_in_set) simp
  with own assms(6) have "last (own # ?links) \<noteq> []" by auto
  with s2 have "nav_request st2 root hash = link_goal (last (own # ?links))" by (rule request_stored)
  moreover have "sync_part (nav_step files tables SyncButton st2) = (True, Some [], True)"
    using s2 by (simp add: nav_step_def toggleSyncButton_def deleteLink_def sync_part_def)
  then have "sync_part (nav_run files tables (SyncButton # later) st2) = (True, Some [], True)"
    using run_on [OF _ assms(5)] by (simp add: nav_run_def)
  then have "nav_request (nav_run files tables (SyncButton # later) st2) root hash =
      (root, if line_anchor hash then [] else hash)" by (rule request_followed)
  ultimately show ?thesis using own_goal [OF assms(3)] by (simp add: own_def)
qed

text \<open>On the page of \<open>cbuffer.c\<close> the button is pressed; the page of files is opened, and navigation still
  goes to the first one; then its tree is shown and the label of the main page is clicked, and
  navigation goes there.\<close>

definition demo_nav :: nav_state where
  "demo_nav = initNavTree ''cbuffer_8c.html'' [] ''/docs/cbuffer_8c.html'' ''#a1-b<c'' True None True"

definition demo_tables :: "nat \<Rightarrow> nav_index option" where
  "demo_tables i = Some [(''index.html'', [])]"

definition demo_clicks :: "nav_event list" where
  "demo_clicks = [OpenPage ''files.html'' [] ''/docs/files.html'' [], WindowLoads, ScriptArrives 0, ClickLabel [0]]"

theorem sync_link_roundtrip_witness:
  "nav_request (nav_run (\<lambda>f. None) demo_tables [OpenPage ''files.html'' [] ''/docs/files.html'' []]
      (nav_step (\<lambda>f. None) demo_tables SyncButton demo_nav)) ''files.html'' ''#'' = (''cbuffer_8c.html'', ''#a1-bc'') \<and>
   nav_request (nav_run (\<lambda>f. None) demo_tables demo_clicks
      (nav_step (\<lambda>f. None) demo_tables SyncButton demo_nav)) ''files.html'' ''#'' = (''index.html'', [])"
proof -
  let ?st1 = "nav_step (\<lambda>f. None) demo_tables SyncButton demo_nav"
  have h: "storageSupported demo_nav" "syncOn demo_nav" "CHR ''#'' \<notin> set (locPath demo_nav)" by code_simp+
  have l: "links_clicked (\<lambda>f. None) demo_tables [OpenPage ''files.html'' [] ''/docs/files.html'' []] ?st1 = []"
    "links_clicked (\<lambda>f. None) demo_tables demo_clicks ?st1 = [''index.html'']" by code_simp+
  have g: "link_goal ''index.html'' = (''index.html'', [])"
    "link_goal (stripPath2 (pathName demo_nav) @ hashUrl demo_nav) = (''cbuffer_8c.html'', ''#a1-bc'')" by code_simp+
  have n: "SyncButton \<notin> set [OpenPage ''files.html'' [] ''/docs/files.html'' []]" "SyncButton \<notin> set demo_clicks"
    "SyncButton \<notin> set []" by (simp_all add: demo_clicks_def)
  from sync_link_roundtrip [OF h n(1,3) _ refl refl refl, of "\<lambda>f. None" demo_tables "''files.html''" "''#''"]
    sync_link_roundtrip [OF h n(2,3) _ refl refl refl, of "\<lambda>f. None" demo_tables "''files.html''" "''#''"] l g
  show ?thesis by simp
qed

end
