(* ===== verification/Resize.thy ===== *)
theory Resize
  imports SearchText
begin

text \<open>
  The cookies and the panel sizes of the documentation pages (\<open>resize.js\<close>). The browser's cookie
  jar is a list of names and values; \<open>document.cookie\<close> shows it as one text. The sizes jQuery reads
  from the page are fields of the state.
\<close>

section \<open>Cookies\<close>

type_synonym cookie_jar = "(string \<times> string) list"

fun cookie_text :: "cookie_jar \<Rightarrow> string" where
  "cookie_text [] = []"
| "cookie_text [(n, v)] = n @ ''='' @ v"
| "cookie_text ((n, v) # c # cs) = n @ ''='' @ v @ ''; '' @ cookie_text (c # cs)"

text \<open>Assigning \<open>name=value; expires=...; path=/\<close> to \<open>document.cookie\<close>.\<close>

fun set_cookie :: "string \<Rightarrow> string \<Rightarrow> cookie_jar \<Rightarrow> cookie_jar" where
  "set_cookie n v [] = [(n, v)]"
| "set_cookie n v ((m, w) # cs) = (if m = n then (n, v) # cs else (m, w) # set_cookie n v cs)"

definition cookie_namespace :: string where
  "cookie_namespace = ''doxygen''"

definition cookie_name :: "string \<Rightarrow> string" where
  "cookie_name cookie = cookie_namespace @ ''_'' @ cookie"

text \<open>\<open>indexOf(p, from)\<close>.\<close>

definition indexOf2 :: "string \<Rightarrow> string \<Rightarrow> int \<Rightarrow> int" where
  "indexOf2 s p i = index_from (nat i) (drop (nat i) s) p"

text \<open>\<open>None\<close> is the result \<open>0\<close>.\<close>

definition readCookie :: "string \<Rightarrow> cookie_jar \<Rightarrow> string option" where
  "readCookie cookie jar =
     (let myCookie = cookie_name cookie @ ''='';
          text = cookie_text jar
      in if text \<noteq> [] then
           let index = indexOf text myCookie in
           if index \<noteq> -1 then
             let valStart = index + int (length myCookie);
                 valEnd0 = indexOf2 text '';'' valStart;
                 valEnd = (if valEnd0 = -1 then int (length text) else valEnd0)
             in Some (substring2 text valStart valEnd)
           else None
         else None)"

text \<open>The value \<open>None\<close> is \<open>undefined\<close>; the cookie then stays as it is.\<close>

definition writeCookie :: "string \<Rightarrow> string option \<Rightarrow> cookie_jar \<Rightarrow> cookie_jar" where
  "writeCookie cookie val jar =
     (case val of None \<Rightarrow> jar | Some v \<Rightarrow> set_cookie (cookie_name cookie) v jar)"

section \<open>Sizes\<close>

text \<open>\<open>parseInt\<close> on a text: an optional sign and the digits that follow; \<open>None\<close> is \<open>NaN\<close>. Leading
  white space is not modelled.\<close>

definition digits_value :: "string \<Rightarrow> nat" where
  "digits_value s = foldl (\<lambda>n c. 10 * n + (code c - 48)) 0 s"

definition parseInt :: "string \<Rightarrow> int option" where
  "parseInt s =
     (let neg = (take 1 s = ''-'');
          t = (if take 1 s = ''-'' \<or> take 1 s = ''+'' then drop 1 s else s);
          ds = takeWhile is_09 t
      in if ds = [] then None
         else Some (if neg then - int (digits_value ds) else int (digits_value ds)))"

text \<open>The inner width of the navigation panel is the \<open>width\<close> of its style; \<open>outerWidth()\<close> adds the
  padding that the style sheet gives \<open>#side-nav\<close>, 6 pixels on the right (\<open>navtree.css\<close>); the panel
  has no border. The user changes the inner width by dragging. Widths are whole pixels.\<close>

record panels =
  jar :: cookie_jar
  windowHeight :: int
  headerHeight :: int
  footerHeight :: int
  sidenavWidth :: int
  contentMargin :: "int option"
  contentHeight :: "int option"
  navtreeHeight :: "int option"
  sidenavHeight :: "int option"
  sidenavTop :: "int option"
  pageHash :: "string option"

definition sidenav_padding :: int where
  "sidenav_padding = 6"

definition outerWidth :: "panels \<Rightarrow> int" where
  "outerWidth s = sidenavWidth s + sidenav_padding"

text \<open>Setting the style \<open>width\<close> to a number of pixels. Texts other than decimal digits, which the
  script never stores, leave the style as it is here.\<close>

definition css_width :: "string \<Rightarrow> panels \<Rightarrow> panels" where
  "css_width number s =
     (if number \<noteq> [] \<and> list_all is_09 number then s\<lparr>sidenavWidth := int (digits_value number)\<rparr> else s)"

definition resizeWidth :: "panels \<Rightarrow> panels" where
  "resizeWidth s = s\<lparr>contentMargin := Some (outerWidth s),
     jar := writeCookie ''width'' (Some (int_string (outerWidth s))) (jar s)\<rparr>"

definition restoreWidth :: "string \<Rightarrow> panels \<Rightarrow> panels" where
  "restoreWidth navWidth s =
     css_width navWidth (s\<lparr>contentMargin := map_option (\<lambda>w. w + 6) (parseInt navWidth)\<rparr>)"

definition resizeHeight :: "panels \<Rightarrow> panels" where
  "resizeHeight s =
     (let h = windowHeight s - headerHeight s - footerHeight s
      in s\<lparr>contentHeight := Some h, navtreeHeight := Some h, sidenavHeight := Some h,
            sidenavTop := Some (headerHeight s)\<rparr>)"

text \<open>The user drags the splitter until the panel has the inner width \<open>w\<close>.\<close>

definition on_resize :: "int \<Rightarrow> panels \<Rightarrow> panels" where
  "on_resize w s = resizeWidth (s\<lparr>sidenavWidth := w\<rparr>)"

text \<open>An empty cookie value is false like \<open>0\<close>.\<close>

definition initResizable :: "string \<Rightarrow> panels \<Rightarrow> panels" where
  "initResizable url s =
     (let s1 = resizeHeight (case readCookie ''width'' (jar s) of
                 Some w \<Rightarrow> if w \<noteq> [] then restoreWidth w s else resizeWidth s
               | None \<Rightarrow> resizeWidth s);
          i = indexOf url ''#''
      in if 0 \<le> i then s1\<lparr>pageHash := Some (substring url i)\<rparr> else s1)"

section \<open>Touching the page\<close>

text \<open>The handler of \<open>touchmove\<close>: on a device of Apple a touch must not scroll the page, unless the
  element under it or one around it scrolls by touch. \<open>styles\<close> are the values of
  \<open>-webkit-overflow-scrolling\<close> from the target outwards; reading one can throw (\<open>None\<close>). The result
  is whether the touch is prevented.\<close>

fun touch_prevented :: "string option list \<Rightarrow> bool" where
  "touch_prevented [] = True"
| "touch_prevented (None # outer) = True"
| "touch_prevented (Some s # outer) = (if s = ''touch'' then False else touch_prevented outer)"

definition apple_device :: "string \<Rightarrow> bool" where
  "apple_device userAgent \<longleftrightarrow>
     (let device = toLowerCase userAgent
      in 0 \<le> indexOf device ''iphone'' \<or> 0 \<le> indexOf device ''ipod'' \<or> 0 \<le> indexOf device ''ipad'')"

definition on_touchmove :: "string \<Rightarrow> string option list \<Rightarrow> bool" where
  "on_touchmove userAgent styles \<longleftrightarrow> apple_device userAgent \<and> touch_prevented styles"

lemma touch_free_iff: "\<not> touch_prevented styles \<longleftrightarrow>
    (\<exists>inner outer. styles = inner @ Some ''touch'' # outer \<and> None \<notin> set inner)"
proof (induction styles rule: touch_prevented.induct)
  case (3 s outer)
  show ?case
  proof (cases "s = ''touch''")
    case True
    then show ?thesis by (auto intro: exI [of _ "[]"])
  next
    case False
    have "(\<exists>inner out. Some s # outer = inner @ Some ''touch'' # out \<and> None \<notin> set inner) \<longleftrightarrow>
        (\<exists>inner out. outer = inner @ Some ''touch'' # out \<and> None \<notin> set inner)" (is "?l = ?r")
    proof
      assume ?l
      then obtain inner out where i: "Some s # outer = inner @ Some ''touch'' # out" "None \<notin> set inner" by blast
      with False show ?r by (cases inner) auto
    next
      assume ?r
      then obtain inner out where "outer = inner @ Some ''touch'' # out" "None \<notin> set inner" by blast
      then show ?l by (intro exI [of _ "Some s # inner"] exI [of _ out]) simp
    qed
    with 3 False show ?thesis by simp
  qed
qed (auto simp: Cons_eq_append_conv)

section \<open>Reading a cookie back\<close>

lemma prefix_stop: "c \<notin> set p \<Longrightarrow> prefix p (a @ c # r) \<longleftrightarrow> prefix p a"
proof (induction p arbitrary: a)
  case (Cons x p)
  then show ?case by (cases a) auto
qed simp

lemma sublist_Cons_iff: "sublist p (x # a) \<longleftrightarrow> prefix p (x # a) \<or> sublist p a"
  by (auto simp: sublist_Cons_right)

lemma index_from_skip:
  "\<not> sublist p a \<Longrightarrow> c \<notin> set p \<Longrightarrow> p \<noteq> [] \<Longrightarrow>
   index_from k (a @ c # r) p = index_from (k + length a + 1) r p"
proof (induction a arbitrary: k)
  case Nil
  then show ?case by (cases p) auto
next
  case (Cons x a)
  from Cons.prems have n: "\<not> prefix p (x # a)" "\<not> sublist p a"
    by (simp_all add: sublist_Cons_iff)
  have "\<not> prefix p ((x # a) @ c # r)" using n(1) prefix_stop [OF Cons.prems(2), of "x # a" r] by simp
  with Cons.IH [OF n(2) Cons.prems(2,3), of "Suc k"] show ?case by simp
qed

lemma index_from_here: "p \<noteq> [] \<Longrightarrow> prefix p s \<Longrightarrow> index_from k s p = int k"
  by (cases s) auto

lemma cookie_text_Cons: "cs \<noteq> [] \<Longrightarrow> cookie_text ((n, v) # cs) = n @ ''='' @ v @ ''; '' @ cookie_text cs"
  by (cases cs) auto

text \<open>No other cookie shows the name searched for, in its name or its value.\<close>

definition no_other :: "string \<Rightarrow> cookie_jar \<Rightarrow> bool" where
  "no_other name cs \<longleftrightarrow> (\<forall>(n, v) \<in> set cs. n \<noteq> name \<longrightarrow> \<not> sublist (name @ ''='') (n @ ''='' @ v))"

lemma find_cookie:
  assumes "no_other name cs" "CHR '';'' \<notin> set name" "CHR '' '' \<notin> set name" "CHR '';'' \<notin> set v" "name \<noteq> []"
  shows "\<exists>pre post. cookie_text (set_cookie name v cs) = pre @ name @ ''='' @ v @ post \<and>
    index_from k (cookie_text (set_cookie name v cs)) (name @ ''='') = int (k + length pre) \<and>
    (post = [] \<or> hd post = CHR '';'')"
  using assms
proof (induction cs arbitrary: k)
  case Nil
  then show ?case by (intro exI [of _ "[]"]) (simp add: index_from_here)
next
  case (Cons c cs)
  obtain n w where c: "c = (n, w)" by (cases c)
  show ?case
  proof (cases "n = name")
    case True
    then obtain post where t: "cookie_text (set_cookie name v (c # cs)) = name @ ''='' @ v @ post"
        "post = [] \<or> hd post = CHR '';''"
      using that [of "[]"] that [of "''; '' @ cookie_text cs"]
      by (cases "cs = []") (simp_all add: c cookie_text_Cons)
    then show ?thesis using Cons.prems(5)
      by (intro exI [of _ "[]"] exI [of _ post]) (simp add: index_from_here)
  next
    case False
    have ne: "set_cookie name v cs \<noteq> []" by (cases cs) (auto split: if_splits)
    have no: "\<not> sublist (name @ ''='') (n @ ''='' @ w)" "no_other name cs"
      using Cons.prems(1) False by (auto simp: no_other_def c)
    have ct: "cookie_text (set_cookie name v (c # cs)) =
        (n @ ''='' @ w) @ CHR '';'' # CHR '' '' # cookie_text (set_cookie name v cs)"
      using False ne by (simp add: c cookie_text_Cons)
    let ?k = "Suc (k + length (n @ ''='' @ w) + 1)"
    have "index_from k (cookie_text (set_cookie name v (c # cs))) (name @ ''='') =
        index_from ?k (cookie_text (set_cookie name v cs)) (name @ ''='')"
      unfolding ct using Cons.prems(2,3,5)
      by (subst index_from_skip [OF no(1)]) (auto simp: hd_append neq_Nil_conv)
    moreover from Cons.IH [OF no(2) Cons.prems(2-5), of ?k] obtain pre post where
      "cookie_text (set_cookie name v cs) = pre @ name @ ''='' @ v @ post"
      "index_from ?k (cookie_text (set_cookie name v cs)) (name @ ''='') = int (?k + length pre)"
      "post = [] \<or> hd post = CHR '';''" by blast
    ultimately show ?thesis
      by (intro exI [of _ "(n @ ''='' @ w) @ ''; '' @ pre"] exI [of _ post]) (simp add: ct)
  qed
qed

lemma indexOf2_stop:
  assumes "CHR '';'' \<notin> set v" "post = [] \<or> hd post = CHR '';''"
  shows "indexOf2 (a @ v @ post) '';'' (int (length a)) =
    (if post = [] then -1 else int (length a + length v))"
proof (cases post)
  case Nil
  with assms(1) show ?thesis by (simp add: indexOf2_def index_from_char_iff)
next
  case (Cons c r)
  have "index_from k (v @ CHR '';'' # r) '';'' = int (k + length v)" for k
    using assms(1) by (induction v arbitrary: k) auto
  with Cons assms(2) show ?thesis by (simp add: indexOf2_def)
qed

lemma substring2_mid: "substring2 (a @ v @ post) (int (length a)) (int (length a + length v)) = v"
  by (simp add: substring2_def nat_add_distrib)

lemma readCookie_written:
  assumes "no_other (cookie_name c) cs" "CHR '';'' \<notin> set c" "CHR '' '' \<notin> set c" "CHR '';'' \<notin> set v"
  shows "readCookie c (writeCookie c (Some v) cs) = Some v"
proof -
  let ?n = "cookie_name c"
  have n: "CHR '';'' \<notin> set ?n" "CHR '' '' \<notin> set ?n" "?n \<noteq> []"
    using assms(2,3) by (simp_all add: cookie_name_def cookie_namespace_def)
  from find_cookie [OF assms(1) n(1,2) assms(4) n(3), of 0] obtain pre post where
    t: "cookie_text (set_cookie ?n v cs) = pre @ ?n @ ''='' @ v @ post"
    "index_from 0 (cookie_text (set_cookie ?n v cs)) (?n @ ''='') = int (length pre)"
    "post = [] \<or> hd post = CHR '';''" unfolding add_0 by blast
  let ?a = "pre @ ?n @ ''=''"
  have e: "indexOf2 (pre @ ?n @ ''='' @ v @ post) '';'' (int (length ?a)) =
      (if post = [] then -1 else int (length ?a + length v))"
    using indexOf2_stop [OF assms(4) t(3), of ?a] by simp
  have i: "indexOf (pre @ ?n @ ''='' @ v @ post) (?n @ ''='') = int (length pre)"
    using t(2) unfolding t(1) indexOf_def .
  have st: "int (length pre) + int (length (?n @ ''='')) = int (length ?a)" by simp
  have cut: "substring2 (pre @ ?n @ ''='' @ v @ post) (int (length ?a)) (int (length ?a + length v)) = v"
    using substring2_mid [of ?a v post] by simp
  have "int (length (pre @ ?n @ ''='' @ v @ post)) = int (length ?a + length v)" if "post = []"
    using that by simp
  then show ?thesis
    unfolding readCookie_def writeCookie_def option.case t(1) Let_def i st e
    using cut by (cases "post = []") (simp_all add: add.assoc)
qed

section \<open>The width on the next page\<close>

lemma digits_value_snoc: "digits_value (s @ [c]) = 10 * digits_value s + (code c - 48)"
  by (simp add: digits_value_def)

lemma digits_toString10: "digits_value (toString10 n) = n \<and> list_all is_09 (toString10 n)"
proof (induction n rule: less_induct)
  case (less n)
  have d: "code (char_of (48 + m)) - 48 = m" "is_09 (char_of (48 + m))" if "m < 10" for m :: nat
    using that code_char_of [of "48 + m"] by (simp_all add: is_09_def)
  show ?case
  proof (cases "n < 10")
    case True
    with d [of n] show ?thesis by (simp add: toString10_small digits_value_def)
  next
    case False
    with less [of "n div 10"] d [of "n mod 10"] show ?thesis
      by (simp add: toString10_big digits_value_snoc)
  qed
qed

lemma takeWhile_all: "list_all P xs \<Longrightarrow> takeWhile P xs = xs"
  by (induction xs) auto

lemma parseInt_int_string: "0 \<le> i \<Longrightarrow> parseInt (int_string i) = Some i"
proof -
  assume i: "0 \<le> i"
  let ?t = "toString10 (nat i)"
  have d: "list_all is_09 ?t" "digits_value ?t = nat i" using digits_toString10 by blast+
  then have h: "is_09 (hd ?t)" by (cases ?t) (simp_all add: toString10_Nil [of "nat i"])
  have n: "\<not> is_09 (CHR ''-'')" "\<not> is_09 (CHR ''+'')" by code_simp+
  have "take 1 ?t = [hd ?t]" by (cases ?t) (simp_all add: toString10_Nil [of "nat i"])
  with h n have s: "take 1 ?t \<noteq> ''-''" "take 1 ?t \<noteq> ''+''" by auto
  from d i s show ?thesis by (simp add: parseInt_def int_string_def Let_def takeWhile_all)
qed

lemma int_string_plain: "CHR '';'' \<notin> set (int_string i)"
proof -
  have n: "\<not> is_09 (CHR '';'')" by code_simp
  have "list_all is_09 (toString10 k)" for k using digits_toString10 by blast
  with n show ?thesis by (auto simp: int_string_def list_all_iff)
qed

lemma int_string_Nil [simp]: "int_string i \<noteq> []"
  by (simp add: int_string_def)

lemma int_string_digits:
  assumes "0 \<le> i" shows "list_all is_09 (int_string i) \<and> int (digits_value (int_string i)) = i"
  using digits_toString10 [of "nat i"] assms by (simp add: int_string_def)

text \<open>C26: what a page makes of the width of the one before. The user drags the panel to the inner
  width \<open>w\<close>; its outer width is \<open>w + 6\<close>, which is saved and where the contents begin. A page that
  loads with these cookies uses the saved outer width as inner width: the panel is 6 pixels wider
  than the user left it. The contents begin right of the panel again, and the cookie is kept, so
  that further pages show the same width and it grows only once. No other cookie may show the text
  \<open>doxygen_width=\<close> in its name or value.\<close>

theorem reload_widens_panel:
  assumes "no_other ''doxygen_width'' (jar s)" and "0 \<le> w"
    and "jar s' = jar (on_resize w s)"
  shows "outerWidth (on_resize w s) = w + 6 \<and> contentMargin (on_resize w s) = Some (w + 6) \<and>
    sidenavWidth (initResizable url s') = w + 6 \<and>
    outerWidth (initResizable url s') = outerWidth (on_resize w s) + 6 \<and>
    contentMargin (initResizable url s') = Some (outerWidth (initResizable url s')) \<and>
    jar (initResizable url s') = jar (on_resize w s)"
proof -
  have n: "cookie_name ''width'' = ''doxygen_width''" by (simp add: cookie_name_def cookie_namespace_def)
  have d: "list_all is_09 (int_string (w + 6))" "int (digits_value (int_string (w + 6))) = w + 6"
    using int_string_digits [of "w + 6"] assms(2) by simp_all
  have "readCookie ''width'' (jar s') = Some (int_string (w + 6))"
    unfolding assms(3) on_resize_def resizeWidth_def
    using readCookie_written [of "''width''" "jar s" "int_string (w + 6)"] assms(1) int_string_plain [of "w + 6"]
    by (simp add: n outerWidth_def sidenav_padding_def)
  then show ?thesis
    using parseInt_int_string [of "w + 6"] assms d
    by (simp add: initResizable_def Let_def restoreWidth_def resizeHeight_def css_width_def on_resize_def
        resizeWidth_def outerWidth_def sidenav_padding_def)
qed

definition demo_panels :: panels where
  "demo_panels = \<lparr>jar = [(''lang'', ''en''), (''doxygen_width'', ''256'')], windowHeight = 900,
     headerHeight = 90, footerHeight = 30, sidenavWidth = 256, contentMargin = None,
     contentHeight = None, navtreeHeight = None, sidenavHeight = None, sidenavTop = None, pageHash = None\<rparr>"

theorem reload_widens_panel_witness:
  "outerWidth (on_resize 306 demo_panels) = 312 \<and>
   outerWidth (initResizable ''index.html#top'' (on_resize 306 demo_panels)) = 318 \<and>
   contentMargin (initResizable ''index.html#top'' (on_resize 306 demo_panels)) = Some 318"
proof -
  have no: "no_other ''doxygen_width'' (jar demo_panels)"
  proof -
    have "\<not> sublist (''doxygen_width'' @ ''='') (''lang'' @ ''='' @ ''en'')" by code_simp
    then show ?thesis by (simp add: no_other_def demo_panels_def)
  qed
  from reload_widens_panel [OF no _ refl, of 306 "''index.html#top''"] show ?thesis by simp
qed

end
