(* ===== verification/DynSections.thy ===== *)
theory DynSections
  imports SearchText
begin

text \<open>
  The folding sections of the documentation pages (\<open>dynsections.js\<close>): sections with a summary,
  the rows of a directory table with their folder icons, and inherited members. A jQuery set of
  elements is the list of their records; an attribute that an element lacks is \<open>None\<close>.
\<close>

section \<open>Sections\<close>

record dyn_section =
  contentVisible :: bool
  summaryVisible :: bool
  isClosed :: bool
  isOpened :: bool
  triggerSrc :: string

definition cut_end :: "string \<Rightarrow> nat \<Rightarrow> string" where
  "cut_end s n = substring2 s 0 (int (length s) - int n)"

definition toggleVisibility :: "dyn_section \<Rightarrow> dyn_section" where
  "toggleVisibility s =
     (if contentVisible s then
        s\<lparr>contentVisible := False, summaryVisible := True, isClosed := True, isOpened := False,
          triggerSrc := cut_end (triggerSrc s) 8 @ ''closed.png''\<rparr>
      else
        s\<lparr>contentVisible := True, summaryVisible := False, isClosed := False, isOpened := True,
          triggerSrc := cut_end (triggerSrc s) 10 @ ''open.png''\<rparr>)"

text \<open>The rows of \<open>toggleInherit\<close> (their visibility) and the source of the header's image.\<close>

definition toggleInherit :: "bool list \<times> string \<Rightarrow> bool list \<times> string" where
  "toggleInherit s =
     (let (rows, src) = s in
      if rows \<noteq> [] \<and> hd rows then (map (\<lambda>r. False) rows, cut_end src 8 @ ''closed.png'')
      else (map (\<lambda>r. True) rows, cut_end src 10 @ ''open.png''))"

section \<open>The directory table\<close>

datatype folder_icon = IconOpen | IconClosed

record dir_row =
  rowId :: string
  icon :: "folder_icon option"
  arrow :: "string option"
  visible :: bool
  evenRow :: bool

definition arrow_right :: string where "arrow_right = ''&#9658;''"
definition arrow_down :: string where "arrow_down = ''&#9660;''"

fun stripe :: "bool \<Rightarrow> dir_row list \<Rightarrow> dir_row list" where
  "stripe b [] = []"
| "stripe b (r # rs) =
     (if visible r then r\<lparr>evenRow := b\<rparr> # stripe (\<not> b) rs else r\<lparr>evenRow := False\<rparr> # stripe b rs)"

definition updateStripes :: "dir_row list \<Rightarrow> dir_row list" where
  "updateStripes rs = stripe True rs"

definition set_folder :: "folder_icon \<Rightarrow> string \<Rightarrow> dir_row \<Rightarrow> dir_row" where
  "set_folder i a r = r\<lparr>icon := map_option (\<lambda>x. i) (icon r), arrow := map_option (\<lambda>x. a) (arrow r)\<rparr>"

definition row_level :: "dir_row \<Rightarrow> int" where
  "row_level r = int (length (split_on CHR ''_'' (rowId r))) - 1"

definition toggleLevel :: "int \<Rightarrow> dir_row list \<Rightarrow> dir_row list" where
  "toggleLevel level rs =
     updateStripes
       (map (\<lambda>r. let l = row_level r in
          if l < level + 1 then (set_folder IconOpen arrow_down r)\<lparr>visible := True\<rparr>
          else if l = level + 1 then (set_folder IconClosed arrow_right r)\<lparr>visible := True\<rparr>
          else r\<lparr>visible := False\<rparr>) rs)"

text \<open>The test of the regular expression \<open>^row_<id>\d+_$\<close>, in either case of letters.\<close>

definition child_row :: "string \<Rightarrow> dir_row \<Rightarrow> bool" where
  "child_row x r \<longleftrightarrow>
     (let p = toLowerCase (''row_'' @ x);
          s = toLowerCase (rowId r);
          t = drop (length p) s
      in prefix p s \<and> 2 \<le> length t \<and> last t = CHR ''_'' \<and> list_all is_09 (butlast t))"

definition below_row :: "string \<Rightarrow> dir_row \<Rightarrow> bool" where
  "below_row x r \<longleftrightarrow> prefix (''row_'' @ x) (rowId r)"

definition hide_row :: "string \<Rightarrow> dir_row \<Rightarrow> dir_row" where
  "hide_row x r = (if below_row x r then r\<lparr>visible := False\<rparr> else r)"

definition show_row :: "string \<Rightarrow> dir_row \<Rightarrow> dir_row" where
  "show_row x r = (if child_row x r then (set_folder IconClosed arrow_right r)\<lparr>visible := True\<rparr> else r)"

text \<open>The clicked row is the first with its id; \<open>nextAll\<close> gives the rows after it.\<close>

fun toggle_from :: "string \<Rightarrow> dir_row list \<Rightarrow> dir_row list" where
  "toggle_from x [] = []"
| "toggle_from x (r # rows) =
     (if rowId r = ''row_'' @ x then
        (case filter (child_row x) rows of
           c # cs \<Rightarrow>
             if visible c then set_folder IconClosed arrow_right r # map (hide_row x) rows
             else set_folder IconOpen arrow_down r # map (show_row x) rows
         | [] \<Rightarrow> set_folder IconOpen arrow_down r # map (show_row x) rows)
      else r # toggle_from x rows)"

definition toggleFolder :: "string \<Rightarrow> dir_row list \<Rightarrow> dir_row list" where
  "toggleFolder x rows = updateStripes (toggle_from x rows)"

section \<open>Toggling twice\<close>

lemma cut_end_append: "cut_end (s @ t) (length t) = s"
  by (simp add: cut_end_def substring2_def)

lemma cut_open: "cut_end (s @ ''open.png'') 8 = s" and cut_closed: "cut_end (s @ ''closed.png'') 10 = s"
  using cut_end_append [of s "''open.png''"] cut_end_append [of s "''closed.png''"]
  by (simp_all add: eval_nat_numeral)

text \<open>A section as the generator writes it: icon and summary agree with what is shown.\<close>

definition section_ok :: "string \<Rightarrow> dyn_section \<Rightarrow> bool" where
  "section_ok base s \<longleftrightarrow> summaryVisible s = (\<not> contentVisible s) \<and> isOpened s = contentVisible s \<and>
     isClosed s = (\<not> contentVisible s) \<and>
     triggerSrc s = base @ (if contentVisible s then ''open.png'' else ''closed.png'')"

text \<open>C27: opening and closing a section: the icon, the summary and the classes always agree with
  what is shown, one click changes what is shown, and two clicks restore every field.\<close>

theorem toggleVisibility_twice:
  assumes "section_ok base s"
  shows "section_ok base (toggleVisibility s) \<and>
    contentVisible (toggleVisibility s) = (\<not> contentVisible s) \<and>
    toggleVisibility (toggleVisibility s) = s"
  using assms cut_open [of base] cut_closed [of base]
  by (cases s) (auto simp: section_ok_def toggleVisibility_def)

theorem toggleVisibility_twice_witness:
  "toggleVisibility (toggleVisibility \<lparr>contentVisible = False, summaryVisible = True, isClosed = True,
     isOpened = False, triggerSrc = ''./closed.png''\<rparr>) =
   \<lparr>contentVisible = False, summaryVisible = True, isClosed = True, isOpened = False,
    triggerSrc = ''./closed.png''\<rparr>"
  using toggleVisibility_twice [of "''./''" "\<lparr>contentVisible = False, summaryVisible = True,
    isClosed = True, isOpened = False, triggerSrc = ''./closed.png''\<rparr>"]
  by (simp add: section_ok_def)

section \<open>Folding a directory\<close>

lemma updateStripes_fields:
  "map rowId (stripe b rs) = map rowId rs" "map visible (stripe b rs) = map visible rs"
  "map icon (stripe b rs) = map icon rs" "map arrow (stripe b rs) = map arrow rs"
  by (induction b rs rule: stripe.induct) simp_all

fun alternate :: "bool \<Rightarrow> nat \<Rightarrow> bool list" where
  "alternate b 0 = []"
| "alternate b (Suc n) = b # alternate (\<not> b) n"

lemma alternate_nth: "i < n \<Longrightarrow> alternate b n ! i = (even i = b)"
  by (induction b n arbitrary: i rule: alternate.induct) (auto simp: nth_Cons split: nat.splits)

lemma stripe_alternate: "map evenRow (filter visible (stripe b rs)) = alternate b (length (filter visible rs))"
  by (induction b rs rule: stripe.induct) simp_all

lemma length_alternate [simp]: "length (alternate b n) = n"
  by (induction b n rule: alternate.induct) simp_all

text \<open>The visible rows are alternately even and odd, beginning with an even one; no hidden row is even.\<close>

definition striped :: "dir_row list \<Rightarrow> bool" where
  "striped rows \<longleftrightarrow>
     (\<forall>i < length (filter visible rows). evenRow (filter visible rows ! i) = even i) \<and>
     list_all (\<lambda>r. evenRow r \<longrightarrow> visible r) rows"

lemma stripe_hidden: "list_all (\<lambda>r. evenRow r \<longrightarrow> visible r) (stripe b rs)"
  by (induction b rs rule: stripe.induct) simp_all

lemma updateStripes_striped: "striped (updateStripes rs)"
proof -
  let ?F = "filter visible (stripe True rs)" and ?n = "length (filter visible rs)"
  have e: "map evenRow ?F = alternate True ?n" by (rule stripe_alternate)
  then have l: "length ?F = ?n" by (metis length_alternate length_map)
  have "evenRow (?F ! i) = even i" if i: "i < length ?F" for i
  proof -
    from i l have "map evenRow ?F ! i = even i" unfolding e by (simp add: alternate_nth)
    with i show ?thesis by simp
  qed
  then show ?thesis by (simp add: striped_def updateStripes_def stripe_hidden)
qed

definition row_key :: "dir_row \<Rightarrow> string \<times> bool" where
  "row_key r = (rowId r, visible r)"

lemma stripe_key: "map row_key (stripe b rs) = map row_key rs"
  by (induction b rs rule: stripe.induct) (simp_all add: row_key_def)

lemma row_key_D: "row_key r = row_key q \<Longrightarrow> rowId r = rowId q \<and> visible r = visible q \<and>
    child_row x r = child_row x q \<and> below_row x r = below_row x q"
  by (simp add: row_key_def child_row_def below_row_def)

lemma row_key_map:
  assumes "map row_key rs = map row_key qs"
  shows "map row_key (map (hide_row x) rs) = map row_key (map (hide_row x) qs)"
    "map row_key (map (show_row x) rs) = map row_key (map (show_row x) qs)"
    "map row_key (filter (child_row x) rs) = map row_key (filter (child_row x) qs)"
proof -
  have "list_all2 (\<lambda>r q. row_key r = row_key q) rs qs"
    using assms by (simp add: list_all2_conv_all_nth list_eq_iff_nth_eq)
  then have "map row_key (map (hide_row x) rs) = map row_key (map (hide_row x) qs) \<and>
    map row_key (map (show_row x) rs) = map row_key (map (show_row x) qs) \<and>
    map row_key (filter (child_row x) rs) = map row_key (filter (child_row x) qs)"
  proof (induction rule: list_all2_induct)
    case (Cons r rs q qs)
    then show ?case using row_key_D [OF Cons.hyps(1), of x]
      by (simp add: hide_row_def show_row_def set_folder_def row_key_def)
  qed simp
  then show "map row_key (map (hide_row x) rs) = map row_key (map (hide_row x) qs)"
    "map row_key (map (show_row x) rs) = map row_key (map (show_row x) qs)"
    "map row_key (filter (child_row x) rs) = map row_key (filter (child_row x) qs)" by blast+
qed

lemma row_key_set_folder [simp]: "row_key (set_folder i a r) = row_key r"
  by (simp add: row_key_def set_folder_def)

lemma toggle_from_key:
  assumes "map row_key rs = map row_key qs"
  shows "map row_key (toggle_from x rs) = map row_key (toggle_from x qs)"
proof -
  have "list_all2 (\<lambda>r q. row_key r = row_key q) rs qs"
    using assms by (simp add: list_all2_conv_all_nth list_eq_iff_nth_eq)
  then show ?thesis
  proof (induction rule: list_all2_induct)
    case (Cons r rs q qs)
    have m: "map row_key rs = map row_key qs"
      using Cons.hyps(2) by (simp add: list_all2_conv_all_nth list_eq_iff_nth_eq)
    note k = row_key_D [OF Cons.hyps(1), of x] and mm = row_key_map [OF m, of x]
    show ?case
    proof (cases "filter (child_row x) rs")
      case Nil
      with mm(3) have "filter (child_row x) qs = []" by simp
      with Nil k mm(2) Cons show ?thesis by simp
    next
      case first: (Cons c cs)
      with mm(3) obtain d ds where d: "filter (child_row x) qs = d # ds" "row_key c = row_key d"
        by (cases "filter (child_row x) qs") auto
      from row_key_D [OF d(2), of x] have "visible c = visible d" by simp
      with first d k mm(1,2) Cons show ?thesis by simp
    qed
  qed simp
qed

lemma toggle_from_at:
  assumes "\<forall>q \<in> set pre. rowId q \<noteq> ''row_'' @ x" "rowId r = ''row_'' @ x"
  shows "toggle_from x (pre @ r # post) = pre @ toggle_from x (r # post)"
  using assms by (induction pre) auto

lemma map_fst_key: "map visible rs = map snd (map row_key rs)"
  by (induction rs) (simp_all add: row_key_def)

lemma child_shown: "map row_key (map (show_row x) rs) =
    map (\<lambda>q. (rowId q, child_row x q \<or> visible q)) rs"
  by (induction rs) (simp_all add: row_key_def show_row_def set_folder_def)

lemma below_hidden: "map row_key (map (hide_row x) rs) =
    map (\<lambda>q. (rowId q, visible q \<and> \<not> below_row x q)) rs"
  by (induction rs) (simp_all add: row_key_def hide_row_def)

text \<open>C37: folding a directory. If the first child row of the clicked row is visible, a click hides
  every row below it, at any depth, and no other; a second click brings back its direct children
  only. After the first click and after the second the visible rows are striped alternately, the
  first one even, and no hidden row is marked even.\<close>

theorem toggleFolder_twice:
  assumes "rows = pre @ r # post" and "rowId r = ''row_'' @ x"
    and "\<forall>q \<in> set pre. rowId q \<noteq> ''row_'' @ x"
    and "filter (child_row x) post = c # cs" and "visible c"
    and "\<forall>q \<in> set post. child_row x q \<longrightarrow> below_row x q"
  shows "map visible (toggleFolder x rows) =
      map visible (pre @ [r]) @ map (\<lambda>q. visible q \<and> \<not> below_row x q) post \<and>
    map visible (toggleFolder x (toggleFolder x rows)) =
      map visible (pre @ [r]) @ map (\<lambda>q. child_row x q \<or> visible q \<and> \<not> below_row x q) post \<and>
    striped (toggleFolder x rows) \<and> striped (toggleFolder x (toggleFolder x rows))"
proof -
  let ?r = "set_folder IconClosed arrow_right r"
  have t1: "toggle_from x rows = pre @ ?r # map (hide_row x) post"
    using assms(1-5) toggle_from_at [OF assms(3,2)] by simp
  have k1: "map row_key (toggleFolder x rows) = map row_key (pre @ ?r # map (hide_row x) post)"
    by (simp add: toggleFolder_def updateStripes_def stripe_key t1)
  have h: "filter (child_row x) (map (hide_row x) post) = map (hide_row x) (c # cs)"
  proof -
    have "child_row x (hide_row x q) = child_row x q" for q by (simp add: hide_row_def child_row_def)
    then show ?thesis unfolding assms(4) [symmetric] by (simp add: filter_map comp_def)
  qed
  have "c \<in> set (filter (child_row x) post)" by (simp add: assms(4))
  then have c: "\<not> visible (hide_row x c)" using assms(6) by (simp add: hide_row_def)
  have k2: "map row_key (toggleFolder x (toggleFolder x rows)) =
      map row_key (pre @ set_folder IconOpen arrow_down ?r # map (show_row x) (map (hide_row x) post))"
  proof -
    have "map row_key (toggleFolder x (toggleFolder x rows)) =
        map row_key (toggle_from x (pre @ ?r # map (hide_row x) post))"
      unfolding toggleFolder_def [of x "toggleFolder x rows"] updateStripes_def stripe_key
      using k1 by (rule toggle_from_key)
    also have "toggle_from x (pre @ ?r # map (hide_row x) post) =
        pre @ set_folder IconOpen arrow_down ?r # map (show_row x) (map (hide_row x) post)"
      using toggle_from_at [OF assms(3), of ?r "map (hide_row x) post"] assms(2) h c
      by (simp add: set_folder_def)
    finally show ?thesis .
  qed
  have cr: "child_row x (hide_row x q) = child_row x q" "rowId (hide_row x q) = rowId q"
    "visible (hide_row x q) = (visible q \<and> \<not> below_row x q)" for q
    by (simp_all add: hide_row_def child_row_def)
  have v1: "map visible (toggleFolder x rows) =
      map visible (pre @ [r]) @ map (\<lambda>q. visible q \<and> \<not> below_row x q) post"
    unfolding map_fst_key k1 by (simp add: below_hidden [unfolded map_map] comp_def row_key_def cr set_folder_def)
  have v2: "map visible (toggleFolder x (toggleFolder x rows)) =
      map visible (pre @ [r]) @ map (\<lambda>q. child_row x q \<or> visible q \<and> \<not> below_row x q) post"
    unfolding map_fst_key k2 by (simp add: comp_def row_key_def cr show_row_def set_folder_def)
  have "striped (toggleFolder x qs)" for qs unfolding toggleFolder_def by (rule updateStripes_striped)
  with v1 v2 show ?thesis by blast
qed

definition demo_rows :: "dir_row list" where
  "demo_rows =
     [\<lparr>rowId = ''row_0_'', icon = Some IconOpen, arrow = Some arrow_down, visible = True, evenRow = True\<rparr>,
      \<lparr>rowId = ''row_0_0_'', icon = Some IconOpen, arrow = Some arrow_down, visible = True, evenRow = False\<rparr>,
      \<lparr>rowId = ''row_0_0_0_'', icon = None, arrow = None, visible = True, evenRow = True\<rparr>,
      \<lparr>rowId = ''row_1_'', icon = None, arrow = None, visible = True, evenRow = False\<rparr>]"

theorem toggleFolder_twice_witness:
  "map visible (toggleFolder ''0_'' demo_rows) = [True, False, False, True] \<and>
   map visible (toggleFolder ''0_'' (toggleFolder ''0_'' demo_rows)) = [True, True, False, True] \<and>
   striped (toggleFolder ''0_'' (toggleFolder ''0_'' demo_rows))"
proof -
  let ?r = "demo_rows ! 0" and ?c = "demo_rows ! 1" and ?d = "demo_rows ! 2" and ?e = "demo_rows ! 3"
  have rows: "demo_rows = [?r, ?c, ?d, ?e]" by (simp add: demo_rows_def)
  have ch: "child_row ''0_'' ?c" "\<not> child_row ''0_'' ?d" "\<not> child_row ''0_'' ?e" by code_simp+
  have be: "below_row ''0_'' ?c" "below_row ''0_'' ?d" "\<not> below_row ''0_'' ?e" by code_simp+
  have id: "rowId ?r = ''row_'' @ ''0_''" "visible ?r" "visible ?c" "visible ?e" by (simp_all add: demo_rows_def)
  from toggleFolder_twice [of demo_rows "[]" ?r "[?c, ?d, ?e]" "''0_''" ?c "[]"] rows ch be id
  show ?thesis by simp
qed

end
