(* ===== verification/CBase.thy ===== *)
theory CBase
  imports Prelude "HOL-Library.Word"
begin

text \<open>
  Shared ground of the models of the C sources: what can go wrong in a C step that the language
  does not define, the error codes of \<open>lib/error.h\<close>, times of 32 bits, and the interface of a
  first-in first-out store that the buffers and queues of \<open>lib/\<close> implement.
\<close>

section \<open>Faults and error codes\<close>

text \<open>A step with one of these faults has no defined result in C.\<close>

datatype c_fault = OutOfBounds | UseAfterFree | NullPointer | AssertFails

definition c_bind :: "c_fault + 'a \<Rightarrow> ('a \<Rightarrow> c_fault + 'b) \<Rightarrow> c_fault + 'b" where
  "c_bind r f = (case r of Inl e \<Rightarrow> Inl e | Inr x \<Rightarrow> f x)"

lemma c_bind_simps [simp]: "c_bind (Inl e) f = Inl e" "c_bind (Inr x) f = f x"
  by (simp_all add: c_bind_def)

datatype err =
    ERR_SUCCESS | ERR_FAILURE | ERR_NO_MEMORY | ERR_WOULD_BLOCK | ERR_TIMEOUT | ERR_BUSY
  | ERR_OVERFLOW | ERR_NOT_FOUND | ERR_BAD_ARGS | ERR_DUPLICATE | ERR_REQUEST_ABORTED
  | ERR_NO_NET_DEV | ERR_NET_TIMEDOUT | ERR_NET_CLOSED | ERR_NO_RESOURCE | ERR_UNCHANGED
  | ERR_CIK_NOT_VALID | ERR_OTHER int

definition err_code :: "err \<Rightarrow> int" where
  "err_code e = (case e of
     ERR_SUCCESS \<Rightarrow> 0 | ERR_FAILURE \<Rightarrow> -1 | ERR_WOULD_BLOCK \<Rightarrow> -2 | ERR_NO_MEMORY \<Rightarrow> -3
   | ERR_TIMEOUT \<Rightarrow> -13 | ERR_OVERFLOW \<Rightarrow> -14 | ERR_NOT_FOUND \<Rightarrow> -15 | ERR_BAD_ARGS \<Rightarrow> -16
   | ERR_BUSY \<Rightarrow> -17 | ERR_DUPLICATE \<Rightarrow> -21 | ERR_NO_NET_DEV \<Rightarrow> -22 | ERR_REQUEST_ABORTED \<Rightarrow> -105
   | ERR_NO_RESOURCE \<Rightarrow> -20 | ERR_UNCHANGED \<Rightarrow> -102 | ERR_CIK_NOT_VALID \<Rightarrow> -104
   | ERR_NET_TIMEDOUT \<Rightarrow> -205 | ERR_NET_CLOSED \<Rightarrow> -206 | ERR_OTHER n \<Rightarrow> n)"

section \<open>Time\<close>

type_synonym sys_time = "32 word"

text \<open>\<open>system_get_diff_time\<close>: the difference wraps like the clock does.\<close>

definition diff_time :: "sys_time \<Rightarrow> sys_time \<Rightarrow> sys_time" where
  "diff_time now start = now - start"

text \<open>The difference is the time that has passed, also when the clock has wrapped in between,
  as long as less than 2^32 ticks have passed.\<close>

lemma diff_time_elapsed: "n < 2 ^ 32 \<Longrightarrow> unat (diff_time (start + of_nat n) start) = n"
  by (simp add: diff_time_def unat_of_nat take_bit_nat_eq_self)

section \<open>First in, first out\<close>

text \<open>
  The interface of a bounded store with its contents in order. \<open>ok\<close> is what the store keeps
  about itself, \<open>limit\<close> the number of items it can hold, \<open>put\<close> appends one item, \<open>get\<close> removes
  the first. Only items that the store \<open>accepts\<close> are put into it.
\<close>

locale fifo =
  fixes ok :: "'s \<Rightarrow> bool" and contents :: "'s \<Rightarrow> 'a list" and limit :: "'s \<Rightarrow> nat"
    and accepts :: "'a \<Rightarrow> bool"
    and put :: "'a \<Rightarrow> 's \<Rightarrow> 's" and get :: "'s \<Rightarrow> ('a \<times> 's) option"
  assumes put_ok: "ok s \<Longrightarrow> accepts a \<Longrightarrow> length (contents s) < limit s \<Longrightarrow> ok (put a s)"
    and put_contents: "ok s \<Longrightarrow> accepts a \<Longrightarrow> length (contents s) < limit s \<Longrightarrow>
      contents (put a s) = contents s @ [a]"
    and put_limit: "ok s \<Longrightarrow> accepts a \<Longrightarrow> length (contents s) < limit s \<Longrightarrow> limit (put a s) = limit s"
    and get_empty: "ok s \<Longrightarrow> get s = None \<longleftrightarrow> contents s = []"
    and get_contents: "ok s \<Longrightarrow> get s = Some (a, s') \<Longrightarrow> contents s = a # contents s' \<and> ok s' \<and> limit s' = limit s"
begin

fun get_n :: "nat \<Rightarrow> 's \<Rightarrow> 'a list \<times> 's" where
  "get_n 0 s = ([], s)"
| "get_n (Suc n) s = (case get s of None \<Rightarrow> ([], s)
     | Some (a, s1) \<Rightarrow> (let (as, s2) = get_n n s1 in (a # as, s2)))"

lemma put_all:
  "ok s \<Longrightarrow> list_all accepts as \<Longrightarrow> length (contents s) + length as \<le> limit s \<Longrightarrow>
   ok (fold put as s) \<and> contents (fold put as s) = contents s @ as \<and> limit (fold put as s) = limit s"
proof (induction as arbitrary: s)
  case (Cons a as)
  from Cons.prems have lt: "accepts a" "length (contents s) < limit s" "list_all accepts as" by simp_all
  note p = put_ok [OF Cons.prems(1) lt(1,2)] put_contents [OF Cons.prems(1) lt(1,2)]
    put_limit [OF Cons.prems(1) lt(1,2)]
  have "length (contents (put a s)) + length as \<le> limit (put a s)"
    using Cons.prems p(2,3) by simp
  from Cons.IH [OF p(1) lt(3) this] p(2,3) show ?case by simp
qed simp

lemma get_all:
  "ok s \<Longrightarrow> fst (get_n n s) = take n (contents s) \<and> contents (snd (get_n n s)) = drop n (contents s) \<and>
   ok (snd (get_n n s)) \<and> limit (snd (get_n n s)) = limit s"
proof (induction n arbitrary: s)
  case (Suc n)
  show ?case
  proof (cases "get s")
    case None
    with get_empty [OF Suc.prems] have "contents s = []" by simp
    with None Suc.prems show ?thesis by simp
  next
    case (Some r)
    obtain a s1 where r: "r = (a, s1)" by (cases r)
    note g = get_contents [OF Suc.prems Some [unfolded r]]
    with Suc.IH [of s1] Some r show ?thesis by (auto simp: case_prod_unfold Let_def)
  qed
qed simp

text \<open>What goes in comes out, in the same order and behind what was there before.\<close>

lemma put_then_get:
  assumes "ok s" "list_all accepts as" "length (contents s) + length as \<le> limit s"
  shows "fst (get_n (length (contents s) + length as) (fold put as s)) = contents s @ as"
    and "contents (snd (get_n (length (contents s) + length as) (fold put as s))) = []"
proof -
  note p = put_all [OF assms]
  with get_all [of "fold put as s" "length (contents s) + length as"]
  show "fst (get_n (length (contents s) + length as) (fold put as s)) = contents s @ as"
    and "contents (snd (get_n (length (contents s) + length as) (fold put as s))) = []"
    by simp_all
qed

end

end
