(* ===== verification/CBuffer.thy ===== *)
theory CBuffer
  imports CBase
begin

text \<open>
  The circular byte buffer (\<open>lib/cbuffer.c\<close>), its wrapper with critical sections
  (\<open>lib/ts_cbuffer.c\<close>, the same functions in one thread) and the buffer of the TCP drivers built on
  it (\<open>lib/tcp_buffer.c\<close>). The memory is a list of \<open>size\<close> bytes. The buffer is an instance of the
  interface \<open>fifo\<close> for up to \<open>size - 1\<close> bytes; the theorems say what a byte more does.
\<close>

section \<open>The operations\<close>

record cbuffer =
  cb_buffer :: "char list"
  cb_read :: nat
  cb_write :: nat
  cb_size :: nat

text \<open>The results of the two calls of \<open>sf_malloc\<close> decide; the memory has arbitrary contents.\<close>

definition cbuffer_new :: "bool \<Rightarrow> bool \<Rightarrow> char list \<Rightarrow> nat \<Rightarrow> cbuffer option" where
  "cbuffer_new alloc_object alloc_buffer memory len =
     (if \<not> alloc_object then None
      else if \<not> alloc_buffer then None
      else Some \<lparr>cb_buffer = take len memory @ replicate (len - length memory) (CHR 0x00),
                 cb_read = 0, cb_write = 0, cb_size = len\<rparr>)"

definition cbuffer_push :: "char \<Rightarrow> cbuffer \<Rightarrow> c_fault + cbuffer" where
  "cbuffer_push ch cb =
     (if cb_write cb < length (cb_buffer cb) then
        let w = Suc (cb_write cb)
        in Inr (cb\<lparr>cb_buffer := (cb_buffer cb)[cb_write cb := ch],
                   cb_write := (if w = cb_size cb then 0 else w)\<rparr>)
      else Inl OutOfBounds)"

fun cbuffer_pop :: "nat \<Rightarrow> cbuffer \<Rightarrow> c_fault + (char list \<times> cbuffer)" where
  "cbuffer_pop 0 cb = Inr ([], cb)"
| "cbuffer_pop (Suc max_len) cb =
     (if cb_read cb \<noteq> cb_write cb then
        if cb_read cb < length (cb_buffer cb) then
          let ch = cb_buffer cb ! cb_read cb; r = Suc (cb_read cb) in
          c_bind (cbuffer_pop max_len (cb\<lparr>cb_read := (if r = cb_size cb then 0 else r)\<rparr>))
            (\<lambda>(chs, cb'). Inr (ch # chs, cb'))
        else Inl OutOfBounds
      else Inr ([], cb))"

definition cbuffer_get_used :: "cbuffer \<Rightarrow> nat" where
  "cbuffer_get_used cb =
     (if cb_write cb \<ge> cb_read cb then cb_write cb - cb_read cb
      else cb_size cb - (cb_read cb - cb_write cb))"

definition cbuffer_get_free :: "cbuffer \<Rightarrow> nat" where
  "cbuffer_get_free cb = cb_size cb - cbuffer_get_used cb"

text \<open>\<open>tcp_buffer_push\<close>: the bytes of a packet, one after the other.\<close>

fun tcp_buffer_push :: "char list \<Rightarrow> cbuffer \<Rightarrow> c_fault + cbuffer" where
  "tcp_buffer_push [] cb = Inr cb"
| "tcp_buffer_push (ch # buf) cb = c_bind (cbuffer_push ch cb) (tcp_buffer_push buf)"

definition tcp_buffer_pop :: "nat \<Rightarrow> cbuffer \<Rightarrow> c_fault + (char list \<times> cbuffer)" where
  "tcp_buffer_pop max_size cb = cbuffer_pop max_size cb"

text \<open>\<open>tcp_buffer_new\<close> looks at the pointer that \<open>cbuffer_new\<close> has set, not at its result; it was
  filled with zeros before.\<close>

definition tcp_buffer_new :: "bool \<Rightarrow> bool \<Rightarrow> bool \<Rightarrow> char list \<Rightarrow> nat \<Rightarrow> int \<times> cbuffer option" where
  "tcp_buffer_new alloc_tcp alloc_object alloc_buffer memory len =
     (if \<not> alloc_tcp then (-1, None)
      else case cbuffer_new alloc_object alloc_buffer memory len of
          None \<Rightarrow> (-1, None)
        | Some cb \<Rightarrow> (0, Some cb))"

definition tcp_buffer_get_free :: "cbuffer \<Rightarrow> nat" where
  "tcp_buffer_get_free cb = cbuffer_get_free cb"

definition tcp_buffer_get_used :: "cbuffer \<Rightarrow> nat" where
  "tcp_buffer_get_used cb = cbuffer_get_used cb"

section \<open>The contents\<close>

definition cb_ok :: "cbuffer \<Rightarrow> bool" where
  "cb_ok cb \<longleftrightarrow> length (cb_buffer cb) = cb_size cb \<and> cb_read cb < cb_size cb \<and> cb_write cb < cb_size cb"

definition cb_contents :: "cbuffer \<Rightarrow> char list" where
  "cb_contents cb = map (\<lambda>i. cb_buffer cb ! ((cb_read cb + i) mod cb_size cb)) [0..<cbuffer_get_used cb]"

lemma cb_contents_length [simp]: "length (cb_contents cb) = cbuffer_get_used cb"
  by (simp add: cb_contents_def)

lemma used_less: "cb_ok cb \<Longrightarrow> cbuffer_get_used cb < cb_size cb"
  by (auto simp: cb_ok_def cbuffer_get_used_def)

lemma write_from_read: "cb_ok cb \<Longrightarrow> (cb_read cb + cbuffer_get_used cb) mod cb_size cb = cb_write cb"
  by (auto simp: cb_ok_def cbuffer_get_used_def)

lemma cbuffer_new_ok: "cbuffer_new a b m n = Some cb \<Longrightarrow> 0 < n \<Longrightarrow>
    cb_ok cb \<and> cb_contents cb = [] \<and> cb_size cb = n"
  by (auto simp: cbuffer_new_def cb_ok_def cb_contents_def cbuffer_get_used_def split: if_splits)

definition pushed :: "char \<Rightarrow> cbuffer \<Rightarrow> cbuffer" where
  "pushed ch cb = cb\<lparr>cb_buffer := (cb_buffer cb)[cb_write cb := ch],
     cb_write := (if Suc (cb_write cb) = cb_size cb then 0 else Suc (cb_write cb))\<rparr>"

lemma cbuffer_push_ok: "cb_ok cb \<Longrightarrow> cbuffer_push ch cb = Inr (pushed ch cb)"
  by (simp add: cbuffer_push_def cb_ok_def pushed_def Let_def)

lemma pushed_ok: "cb_ok cb \<Longrightarrow> cb_ok (pushed ch cb)"
  by (auto simp: cb_ok_def pushed_def)

lemma pushed_used: "cb_ok cb \<Longrightarrow> cbuffer_get_used (pushed ch cb) =
    (if Suc (cbuffer_get_used cb) = cb_size cb then 0 else Suc (cbuffer_get_used cb))"
  by (auto simp: cb_ok_def pushed_def cbuffer_get_used_def)

lemma pushed_nth:
  assumes "cb_ok cb" "i < cbuffer_get_used cb"
  shows "cb_buffer (pushed ch cb) ! ((cb_read cb + i) mod cb_size cb) =
    cb_buffer cb ! ((cb_read cb + i) mod cb_size cb)"
proof -
  have "(cb_read cb + i) mod cb_size cb =
      (if cb_read cb + i < cb_size cb then cb_read cb + i else cb_read cb + i - cb_size cb)"
    using assms used_less [OF assms(1)] by (intro mod_step) (simp_all add: cb_ok_def)
  then have "(cb_read cb + i) mod cb_size cb \<noteq> cb_write cb"
    using assms by (auto simp: cb_ok_def cbuffer_get_used_def split: if_splits)
  then show ?thesis by (simp add: pushed_def)
qed

lemma pushed_contents:
  assumes "cb_ok cb"
  shows "cb_contents (pushed ch cb) =
    (if Suc (cbuffer_get_used cb) = cb_size cb then [] else cb_contents cb @ [ch])"
proof (cases "Suc (cbuffer_get_used cb) = cb_size cb")
  case True
  then show ?thesis using assms by (simp add: cb_contents_def pushed_used)
next
  case False
  have s: "cb_size (pushed ch cb) = cb_size cb" "cb_read (pushed ch cb) = cb_read cb"
    by (simp_all add: pushed_def)
  have l: "cb_buffer (pushed ch cb) ! ((cb_read cb + cbuffer_get_used cb) mod cb_size cb) = ch"
    using write_from_read [OF assms] assms by (simp add: pushed_def cb_ok_def)
  have m: "map (\<lambda>i. cb_buffer (pushed ch cb) ! ((cb_read cb + i) mod cb_size cb)) [0..<cbuffer_get_used cb] =
      cb_contents cb"
    unfolding cb_contents_def using pushed_nth [OF assms] by (intro map_cong) auto
  show ?thesis
    using False l m unfolding cb_contents_def [of "pushed ch cb"] s pushed_used [OF assms] by simp
qed

definition popped :: "cbuffer \<Rightarrow> cbuffer" where
  "popped cb = cb\<lparr>cb_read := (if Suc (cb_read cb) = cb_size cb then 0 else Suc (cb_read cb))\<rparr>"

definition cb_get :: "cbuffer \<Rightarrow> (char \<times> cbuffer) option" where
  "cb_get cb = (if cb_read cb = cb_write cb then None else Some (cb_buffer cb ! cb_read cb, popped cb))"

lemma popped_ok: "cb_ok cb \<Longrightarrow> cb_ok (popped cb)"
  by (auto simp: cb_ok_def popped_def)

lemma empty_iff: "cb_ok cb \<Longrightarrow> cb_contents cb = [] \<longleftrightarrow> cb_read cb = cb_write cb"
  by (auto simp: cb_contents_def cbuffer_get_used_def cb_ok_def)

lemma popped_contents:
  assumes "cb_ok cb" "cb_read cb \<noteq> cb_write cb"
  shows "cb_contents cb = cb_buffer cb ! cb_read cb # cb_contents (popped cb)"
proof -
  have u: "cbuffer_get_used cb = Suc (cbuffer_get_used (popped cb))"
    using assms by (auto simp: cbuffer_get_used_def popped_def cb_ok_def)
  have i: "(cb_read (popped cb) + i) mod cb_size cb = (cb_read cb + Suc i) mod cb_size cb" for i
  proof (cases "Suc (cb_read cb) = cb_size cb")
    case True
    then have "cb_read cb + Suc i = cb_size cb + i" by simp
    then have "(cb_read cb + Suc i) mod cb_size cb = i mod cb_size cb" by (simp only: mod_add_self1)
    with True show ?thesis by (simp add: popped_def)
  qed (simp add: popped_def)
  have "cb_contents cb = cb_buffer cb ! ((cb_read cb + 0) mod cb_size cb) #
      map (\<lambda>i. cb_buffer cb ! ((cb_read cb + Suc i) mod cb_size cb)) [0..<cbuffer_get_used (popped cb)]"
    unfolding cb_contents_def u by (simp add: map_upt_Suc del: upt_Suc)
  moreover have "cb_size (popped cb) = cb_size cb" "cb_buffer (popped cb) = cb_buffer cb"
    by (simp_all add: popped_def)
  ultimately show ?thesis
    using assms unfolding cb_contents_def [of "popped cb"] by (simp add: i cb_ok_def)
qed

interpretation cb: fifo cb_ok cb_contents "\<lambda>cb. cb_size cb - 1" "\<lambda>ch. True" pushed cb_get
proof
  fix s a s'
  assume ok: "cb_ok s"
  { assume lt: "length (cb_contents s) < cb_size s - 1"
    show "cb_ok (pushed a s)" using ok by (rule pushed_ok)
    show "cb_contents (pushed a s) = cb_contents s @ [a]" using lt by (simp add: pushed_contents [OF ok])
    show "cb_size (pushed a s) - 1 = cb_size s - 1" by (simp add: pushed_def) }
  show "cb_get s = None \<longleftrightarrow> cb_contents s = []" by (simp add: cb_get_def empty_iff [OF ok])
  assume g: "cb_get s = Some (a, s')"
  then have ne: "cb_read s \<noteq> cb_write s" "a = cb_buffer s ! cb_read s" "s' = popped s"
    by (auto simp: cb_get_def split: if_splits)
  from popped_contents [OF ok ne(1)] popped_ok [OF ok] ne
  show "cb_contents s = a # cb_contents s' \<and> cb_ok s' \<and> cb_size s' - 1 = cb_size s - 1"
    by (simp add: popped_def)
qed

section \<open>Pushing and popping\<close>

lemma cbuffer_pop_get_n: "cb_ok cb \<Longrightarrow> cbuffer_pop n cb = Inr (cb.get_n n cb)"
proof (induction n arbitrary: cb)
  case (Suc n)
  then have lt: "cb_read cb < length (cb_buffer cb)" by (simp add: cb_ok_def)
  have p: "cbuffer_pop n (popped cb) = Inr (cb.get_n n (popped cb))"
    by (rule Suc.IH [OF popped_ok [OF Suc.prems]])
  have g: "cb_get cb = (if cb_read cb = cb_write cb then None else Some (cb_buffer cb ! cb_read cb, popped cb))"
    by (rule cb_get_def)
  from lt p show ?case
    by (simp add: g Let_def case_prod_unfold flip: popped_def)
qed simp

lemma pushed_size [simp]: "cb_size (pushed ch cb) = cb_size cb" "cb_size (fold pushed bs cb) = cb_size cb"
proof -
  show "cb_size (pushed ch cb) = cb_size cb" for ch cb by (simp add: pushed_def)
  then show "cb_size (fold pushed bs cb) = cb_size cb" by (induction bs arbitrary: cb) simp_all
qed

lemma tcp_buffer_push_fold: "cb_ok cb \<Longrightarrow> tcp_buffer_push buf cb = Inr (fold pushed buf cb)"
  by (induction buf arbitrary: cb) (simp_all add: cbuffer_push_ok pushed_ok)

text \<open>C20: the TCP buffer is a queue of bytes. If the bytes that wait and the new packet together
  are fewer than the size of the buffer, a push followed by a pop of \<open>n\<close> bytes returns the first \<open>n\<close>
  of them in order, the rest stays, and the counts of used and free bytes agree with that.\<close>

theorem tcp_buffer_is_fifo:
  assumes "cb_ok cb" and "length (cb_contents cb) + length buf < cb_size cb"
  shows "\<exists>cb1 cb2. tcp_buffer_push buf cb = Inr cb1 \<and> cb_contents cb1 = cb_contents cb @ buf \<and>
    cbuffer_get_used cb1 = cbuffer_get_used cb + length buf \<and>
    cbuffer_get_free cb1 + length buf = cbuffer_get_free cb \<and>
    tcp_buffer_pop n cb1 = Inr (take n (cb_contents cb @ buf), cb2) \<and>
    cb_contents cb2 = drop n (cb_contents cb @ buf) \<and> cb_ok cb2"
proof -
  let ?c = "fold pushed buf cb"
  have "length (cb_contents cb) + length buf \<le> cb_size cb - 1" using assms(2) by simp
  then have a: "cb_ok ?c \<and> cb_contents ?c = cb_contents cb @ buf \<and> cb_size ?c - 1 = cb_size cb - 1"
    by (intro cb.put_all [OF assms(1)]) (simp_all add: list_all_iff)
  then have ok: "cb_ok ?c" by blast
  note g = cb.get_all [OF ok, of n]
  have s: "cb_size ?c = cb_size cb" by simp
  have u: "cbuffer_get_used ?c = cbuffer_get_used cb + length buf"
    using a cb_contents_length [of ?c] by (simp del: cb_contents_length) simp
  from used_less [OF ok] s u have f: "cbuffer_get_free ?c + length buf = cbuffer_get_free cb"
    by (simp add: cbuffer_get_free_def)
  have "tcp_buffer_pop n ?c = Inr (fst (cb.get_n n ?c), snd (cb.get_n n ?c))"
    by (simp add: tcp_buffer_pop_def cbuffer_pop_get_n [OF ok])
  with a g u f tcp_buffer_push_fold [OF assms(1)] show ?thesis by auto
qed

definition small_buffer :: cbuffer where
  "small_buffer = \<lparr>cb_buffer = ''abcd'', cb_read = 3, cb_write = 1, cb_size = 4\<rparr>"

theorem tcp_buffer_is_fifo_witness:
  "\<exists>cb1 cb2. tcp_buffer_push ''x'' small_buffer = Inr cb1 \<and> tcp_buffer_pop 5 cb1 = Inr (''dax'', cb2)"
proof -
  have ok: "cb_ok small_buffer" by code_simp
  have c: "cb_contents small_buffer = ''da''" by code_simp
  from tcp_buffer_is_fifo [OF ok, of "''x''" 5] show ?thesis
    unfolding c by (simp add: small_buffer_def) blast
qed

text \<open>C34: the last byte that \<open>cbuffer_get_free\<close> promises does not fit. A push of exactly as many bytes
  as it reports free leaves the buffer empty: everything that waited is lost.\<close>

theorem push_all_free_loses_all:
  assumes "cb_ok cb" and "length buf = cbuffer_get_free cb"
  shows "\<exists>cb'. tcp_buffer_push buf cb = Inr cb' \<and> cb_contents cb' = [] \<and>
    cbuffer_get_free cb' = cb_size cb"
proof -
  from used_less [OF assms(1)] assms(2) have pos: "0 < length buf" by (simp add: cbuffer_get_free_def)
  then have b: "buf = butlast buf @ [last buf]" by simp
  let ?c = "fold pushed (butlast buf) cb"
  have "length (cb_contents cb) + length (butlast buf) \<le> cb_size cb - 1"
    using used_less [OF assms(1)] assms(2) by (simp add: cbuffer_get_free_def)
  then have a: "cb_ok ?c \<and> cb_contents ?c = cb_contents cb @ butlast buf \<and> cb_size ?c - 1 = cb_size cb - 1"
    by (intro cb.put_all [OF assms(1)]) (simp_all add: list_all_iff)
  then have ok: "cb_ok ?c" by blast
  have "length (cb_contents ?c) = length (cb_contents cb) + length (butlast buf)" using a by simp
  then have "Suc (cbuffer_get_used ?c) = cb_size ?c"
    using used_less [OF assms(1)] assms(2) pos by (simp add: cbuffer_get_free_def)
  with pushed_contents [OF ok, of "last buf"] have e: "cb_contents (pushed (last buf) ?c) = []" by simp
  have f: "fold pushed buf cb = pushed (last buf) ?c" by (subst b) simp
  have "cbuffer_get_used (fold pushed buf cb) = 0"
    using e unfolding f [symmetric] by (metis cb_contents_length list.size(3))
  with e f tcp_buffer_push_fold [OF assms(1), of buf] show ?thesis
    by (simp add: cbuffer_get_free_def)
qed

theorem push_all_free_loses_all_witness:
  "\<exists>cb'. tcp_buffer_push ''xy'' small_buffer = Inr cb' \<and> cb_contents cb' = []"
proof -
  have h: "cb_ok small_buffer" "length ''xy'' = cbuffer_get_free small_buffer" by code_simp+
  from push_all_free_loses_all [OF h] show ?thesis by blast
qed

end
