(* ===== verification/PacketBuffer.thy ===== *)
theory PacketBuffer
  imports CBase
begin

text \<open>
  The packet buffer of the UDP drivers (\<open>lib/packet_buffer.c\<close>): a ring of slots, each a copy of at
  most \<open>max_packet_size\<close> bytes; a slot of size 0 is free. Below its capacity it is a queue of packets
  (an instance of \<open>fifo\<close>); the push has no test for a full ring.
\<close>

section \<open>The operations\<close>

text \<open>A slot is the bytes it holds: the C size is the length of the list.\<close>

record packet_buffer =
  packets :: "char list list"
  pb_size :: nat
  max_packet_size :: nat
  read_index :: nat
  write_index :: nat

definition packet_buffer_push :: "char list \<Rightarrow> packet_buffer \<Rightarrow> c_fault + packet_buffer" where
  "packet_buffer_push buf self =
     (if buf = [] then Inr self
      else if write_index self < length (packets self) then
        let w = Suc (write_index self) in
        Inr (self\<lparr>packets := (packets self)[write_index self := take (max_packet_size self) buf],
                  write_index := (if w = pb_size self then 0 else w)\<rparr>)
      else Inl OutOfBounds)"

definition packet_buffer_pop :: "nat \<Rightarrow> packet_buffer \<Rightarrow> c_fault + (char list \<times> packet_buffer)" where
  "packet_buffer_pop buflen self =
     (if read_index self < length (packets self) then
        let current_packet = packets self ! read_index self in
        if current_packet = [] then Inr ([], self)
        else let r = Suc (read_index self) in
          Inr (take buflen current_packet,
               self\<lparr>packets := (packets self)[read_index self := []],
                    read_index := (if r = pb_size self then 0 else r)\<rparr>)
      else Inl OutOfBounds)"

text \<open>
  \<open>packet_buffer_new\<close> keeps the result of every allocation in a \<open>bool\<close>: a failure becomes \<open>true\<close>,
  so the caller gets the number 1, which is no error code. What was allocated before is lost.
\<close>

definition packet_buffer_new :: "bool list \<Rightarrow> nat \<Rightarrow> nat \<Rightarrow> int \<times> nat \<times> packet_buffer option" where
  "packet_buffer_new allocs n bufsize =
     (case allocs of
        [True, True, True] \<Rightarrow>
          (0, 0, Some \<lparr>packets = replicate n [], pb_size = n, max_packet_size = bufsize,
                       read_index = 0, write_index = 0\<rparr>)
      | _ \<Rightarrow> (1, length (takeWhile (\<lambda>a. a) allocs), None))"

section \<open>The ring\<close>

definition ring :: "packet_buffer \<Rightarrow> char list list" where
  "ring self = rotate (read_index self) (packets self)"

definition waiting_packets :: "packet_buffer \<Rightarrow> char list list" where
  "waiting_packets self = takeWhile (\<lambda>p. p \<noteq> []) (ring self)"

definition pb_ok :: "nat \<Rightarrow> packet_buffer \<Rightarrow> bool" where
  "pb_ok m self \<longleftrightarrow> max_packet_size self = m \<and> 0 < m \<and> length (packets self) = pb_size self \<and>
     read_index self < pb_size self \<and>
     (\<exists>ps. [] \<notin> set ps \<and> (\<forall>p \<in> set ps. length p \<le> m) \<and> length ps \<le> pb_size self \<and>
        ring self = ps @ replicate (pb_size self - length ps) [] \<and>
        write_index self = (read_index self + length ps) mod pb_size self)"

lemma takeWhile_filled: "[] \<notin> set ps \<Longrightarrow> takeWhile (\<lambda>p. p \<noteq> []) (ps @ replicate n []) = ps"
  by (induction ps) (auto simp: takeWhile_replicate)

lemma pb_okE:
  assumes "pb_ok m self"
  obtains "max_packet_size self = m" "0 < m" "length (packets self) = pb_size self"
    "read_index self < pb_size self" "[] \<notin> set (waiting_packets self)"
    "\<forall>p \<in> set (waiting_packets self). length p \<le> m" "length (waiting_packets self) \<le> pb_size self"
    "ring self = waiting_packets self @ replicate (pb_size self - length (waiting_packets self)) []"
    "write_index self = (read_index self + length (waiting_packets self)) mod pb_size self"
proof -
  from assms obtain ps where ps: "[] \<notin> set ps" "\<forall>p \<in> set ps. length p \<le> m" "length ps \<le> pb_size self"
    "ring self = ps @ replicate (pb_size self - length ps) []"
    "write_index self = (read_index self + length ps) mod pb_size self"
    by (auto simp: pb_ok_def)
  have "waiting_packets self = ps"
    unfolding waiting_packets_def ps(4) by (rule takeWhile_filled [OF ps(1)])
  with ps assms that show thesis by (simp add: pb_ok_def)
qed

lemma rotate_update:
  assumes "i < length xs"
  shows "rotate r (xs[(r + i) mod length xs := y]) = (rotate r xs)[i := y]"
proof (rule nth_equalityI)
  fix j assume "j < length (rotate r (xs[(r + i) mod length xs := y]))"
  then have j: "j < length xs" by simp
  have "(r + i) mod length xs = (r + j) mod length xs \<longleftrightarrow> i = j"
    using add_mod_inj [OF assms j] .
  moreover have "(r + j) mod length xs < length xs" using j by (cases xs) simp_all
  ultimately show "rotate r (xs[(r + i) mod length xs := y]) ! j = (rotate r xs)[i := y] ! j"
    using assms j by (simp add: nth_rotate nth_list_update)
qed simp

lemma rotate_next:
  assumes "r < length xs" "rotate r xs = p # ps"
  shows "rotate (Suc r mod length xs) (xs[r := y]) = ps @ [y]"
proof -
  have "rotate (Suc r mod length xs) (xs[r := y]) = rotate (Suc r) (xs[r := y])"
    by (metis length_list_update rotate_conv_mod)
  also have "\<dots> = rotate1 (rotate r (xs[r := y]))" by simp
  also have "rotate r (xs[r := y]) = (rotate r xs)[0 := y]"
    using rotate_update [of 0 xs r y] assms(1) by (cases "xs = []") simp_all
  finally show ?thesis using assms(2) by simp
qed

lemma wrap_mod: "r < n \<Longrightarrow> (if Suc r = n then 0 else Suc r) = Suc r mod n"
  by auto

lemma push_room:
  assumes ok: "pb_ok m self" and room: "length (waiting_packets self) < pb_size self" and buf: "buf \<noteq> []"
  obtains self' where "packet_buffer_push buf self = Inr self'" "pb_ok m self'"
    "waiting_packets self' = waiting_packets self @ [take m buf]" "pb_size self' = pb_size self"
proof (rule pb_okE [OF ok])
  let ?n = "length (waiting_packets self)" and ?k = "take m buf"
  assume a: "max_packet_size self = m" "0 < m" "length (packets self) = pb_size self"
    "read_index self < pb_size self" "[] \<notin> set (waiting_packets self)"
    "\<forall>p \<in> set (waiting_packets self). length p \<le> m"
    "ring self = waiting_packets self @ replicate (pb_size self - ?n) []"
    "write_index self = (read_index self + ?n) mod pb_size self"
  define self' where "self' = self\<lparr>packets := (packets self)[write_index self := ?k],
    write_index := Suc (write_index self) mod pb_size self\<rparr>"
  have w: "write_index self < pb_size self" using a room by simp
  have p: "packet_buffer_push buf self = Inr self'"
    using buf a(1-4) w wrap_mod [OF w] by (simp add: packet_buffer_push_def Let_def self'_def)
  have "ring self' = (ring self)[?n := ?k]"
    using rotate_update [of ?n "packets self" "read_index self" ?k] room a
    by (simp add: ring_def self'_def)
  moreover have "replicate (pb_size self - ?n) [] = [] # replicate (pb_size self - Suc ?n) ([] :: char list)"
    using room by (metis Suc_diff_Suc replicate_Suc)
  ultimately have r: "ring self' = (waiting_packets self @ [?k]) @ replicate (pb_size self - Suc ?n) []"
    using a by (simp add: list_update_append)
  have k: "[] \<notin> set (waiting_packets self @ [?k])" using a(2,5) buf by auto
  have wp: "waiting_packets self' = waiting_packets self @ [?k]"
    unfolding waiting_packets_def [of self'] r by (rule takeWhile_filled [OF k])
  have "write_index self' = (read_index self + length (waiting_packets self @ [?k])) mod pb_size self"
    using a by (simp add: self'_def mod_Suc_eq)
  with r k a room have "pb_ok m self'"
    unfolding pb_ok_def by (intro conjI exI [of _ "waiting_packets self @ [?k]"]) (simp_all add: self'_def)
  with p wp show thesis by (intro that [of self']) (simp_all add: self'_def)
qed

lemma pop_next:
  assumes ok: "pb_ok m self"
  shows "(waiting_packets self = [] \<longrightarrow> packet_buffer_pop l self = Inr ([], self)) \<and>
    (\<forall>p ps. waiting_packets self = p # ps \<longrightarrow>
      (\<exists>self'. packet_buffer_pop l self = Inr (take l p, self') \<and> pb_ok m self' \<and>
         waiting_packets self' = ps \<and> pb_size self' = pb_size self))"
proof (rule pb_okE [OF ok])
  let ?n = "length (waiting_packets self)"
  assume a: "max_packet_size self = m" "0 < m" "length (packets self) = pb_size self"
    "read_index self < pb_size self" "[] \<notin> set (waiting_packets self)"
    "\<forall>p \<in> set (waiting_packets self). length p \<le> m" "?n \<le> pb_size self"
    "ring self = waiting_packets self @ replicate (pb_size self - ?n) []"
    "write_index self = (read_index self + ?n) mod pb_size self"
  have hd: "packets self ! read_index self = hd (ring self)"
    using a(3,4) by (simp add: ring_def hd_rotate_conv_nth length_greater_0_conv [symmetric] del: length_greater_0_conv)
  show ?thesis
  proof (cases "waiting_packets self")
    case Nil
    then have "hd (ring self) = []" using a by (cases "pb_size self") auto
    with a hd Nil show ?thesis by (simp add: packet_buffer_pop_def)
  next
    case (Cons p ps)
    define self' where "self' = self\<lparr>packets := (packets self)[read_index self := []],
      read_index := Suc (read_index self) mod pb_size self\<rparr>"
    have p: "packets self ! read_index self = p" "p \<noteq> []" using hd a Cons by auto
    then have pop: "packet_buffer_pop l self = Inr (take l p, self')"
      using a wrap_mod [OF a(4)] by (simp add: packet_buffer_pop_def Let_def self'_def)
    have "rotate (read_index self) (packets self) = p # (ps @ replicate (pb_size self - ?n) [])"
      using a(8) Cons by (simp add: ring_def)
    from rotate_next [OF _ this, of "[]"] a(3,4) Cons
    have "ring self' = (ps @ replicate (pb_size self - Suc (length ps)) []) @ [[]]"
      by (simp add: ring_def self'_def)
    moreover have "pb_size self - length ps = Suc (pb_size self - Suc (length ps))"
      using a(7) Cons by simp
    ultimately have r: "ring self' = ps @ replicate (pb_size self - length ps) []"
      by (simp add: replicate_append_same)
    have nn: "[] \<notin> set ps" using a(5) Cons by simp
    have wp: "waiting_packets self' = ps"
      unfolding waiting_packets_def [of self'] r by (rule takeWhile_filled [OF nn])
    have "write_index self' = (read_index self' + length ps) mod pb_size self"
      using a Cons by (simp add: self'_def mod_add_left_eq)
    with r nn a Cons have "pb_ok m self'"
      unfolding pb_ok_def by (intro conjI exI [of _ ps]) (simp_all add: self'_def)
    with pop wp Cons show ?thesis by (auto simp: self'_def)
  qed
qed

definition pb_put :: "char list \<Rightarrow> packet_buffer \<Rightarrow> packet_buffer" where
  "pb_put buf self = (case packet_buffer_push buf self of Inl e \<Rightarrow> self | Inr self' \<Rightarrow> self')"

definition pb_get :: "nat \<Rightarrow> packet_buffer \<Rightarrow> (char list \<times> packet_buffer) option" where
  "pb_get buflen self = (if waiting_packets self = [] then None
     else case packet_buffer_pop buflen self of Inl e \<Rightarrow> None | Inr r \<Rightarrow> Some r)"

interpretation pb: fifo "pb_ok m" waiting_packets pb_size "\<lambda>buf. buf \<noteq> [] \<and> length buf \<le> m"
    pb_put "pb_get m" for m
proof
  fix s :: packet_buffer and a :: "char list" and s'
  assume ok: "pb_ok m s"
  { assume acc: "a \<noteq> [] \<and> length a \<le> m" and lt: "length (waiting_packets s) < pb_size s"
    obtain s1 where s1: "packet_buffer_push a s = Inr s1" "pb_ok m s1"
      "waiting_packets s1 = waiting_packets s @ [take m a]" "pb_size s1 = pb_size s"
      using push_room [OF ok lt] acc by metis
    show "pb_ok m (pb_put a s)" using s1 by (simp add: pb_put_def)
    show "waiting_packets (pb_put a s) = waiting_packets s @ [a]" using s1 acc by (simp add: pb_put_def)
    show "pb_size (pb_put a s) = pb_size s" using s1 by (simp add: pb_put_def) }
  have len: "\<forall>p \<in> set (waiting_packets s). length p \<le> m" using ok by (rule pb_okE)
  show "pb_get m s = None \<longleftrightarrow> waiting_packets s = []"
    using pop_next [OF ok, of m] by (cases "waiting_packets s") (auto simp: pb_get_def)
  assume "pb_get m s = Some (a, s')"
  then show "waiting_packets s = a # waiting_packets s' \<and> pb_ok m s' \<and> pb_size s' = pb_size s"
    using pop_next [OF ok, of m] len by (cases "waiting_packets s") (auto simp: pb_get_def)
qed

section \<open>Pushing and popping\<close>

fun push_packets :: "char list list \<Rightarrow> packet_buffer \<Rightarrow> c_fault + packet_buffer" where
  "push_packets [] self = Inr self"
| "push_packets (buf # bufs) self = c_bind (packet_buffer_push buf self) (push_packets bufs)"

fun pop_packets :: "nat \<Rightarrow> nat \<Rightarrow> packet_buffer \<Rightarrow> c_fault + (char list list \<times> packet_buffer)" where
  "pop_packets 0 l self = Inr ([], self)"
| "pop_packets (Suc n) l self =
     c_bind (packet_buffer_pop l self) (\<lambda>(p, self').
       c_bind (pop_packets n l self') (\<lambda>(ps, self''). Inr (p # ps, self'')))"

lemma push_packets_fold:
  "pb_ok m self \<Longrightarrow> list_all (\<lambda>buf. buf \<noteq> [] \<and> length buf \<le> m) bufs \<Longrightarrow>
   length (waiting_packets self) + length bufs \<le> pb_size self \<Longrightarrow>
   push_packets bufs self = Inr (fold pb_put bufs self)"
proof (induction bufs arbitrary: self)
  case (Cons buf bufs)
  have room: "length (waiting_packets self) < pb_size self" and b: "buf \<noteq> []" using Cons.prems by simp_all
  obtain s1 where s1: "packet_buffer_push buf self = Inr s1" "pb_ok m s1"
    "waiting_packets s1 = waiting_packets self @ [take m buf]" "pb_size s1 = pb_size self"
    using push_room [OF Cons.prems(1) room b] by metis
  have "push_packets bufs s1 = Inr (fold pb_put bufs s1)"
    by (rule Cons.IH [OF s1(2)]) (use Cons.prems s1 in simp_all)
  moreover have "pb_put buf self = s1" using s1(1) by (simp add: pb_put_def)
  ultimately show ?case using s1(1) by simp
qed simp

lemma pop_packets_all:
  "pb_ok m self \<Longrightarrow> n \<le> length (waiting_packets self) \<Longrightarrow>
   \<exists>self'. pop_packets n m self = Inr (take n (waiting_packets self), self') \<and> pb_ok m self' \<and>
     waiting_packets self' = drop n (waiting_packets self)"
proof (induction n arbitrary: self)
  case (Suc n)
  then obtain p ps where w: "waiting_packets self = p # ps" by (cases "waiting_packets self") auto
  have l: "take m p = p" using Suc.prems(1) by (rule pb_okE) (simp add: w)
  from pop_next [OF Suc.prems(1), of m] w l obtain s1 where s1: "packet_buffer_pop m self = Inr (p, s1)"
    "pb_ok m s1" "waiting_packets s1 = ps" by auto
  from Suc.IH [OF s1(2)] Suc.prems(2) w s1 show ?case by auto
qed auto

text \<open>C24: below its capacity the packet buffer is a queue. If the new packets fit in size and number,
  they come out after the packets that waited, whole and in the order they went in.\<close>

theorem packet_buffer_is_fifo:
  assumes "pb_ok m self" and "list_all (\<lambda>buf. buf \<noteq> [] \<and> length buf \<le> m) bufs"
    and "length (waiting_packets self) + length bufs \<le> pb_size self"
  shows "\<exists>s1 s2. push_packets bufs self = Inr s1 \<and>
    pop_packets (length (waiting_packets self) + length bufs) m s1 =
      Inr (waiting_packets self @ bufs, s2) \<and> waiting_packets s2 = []"
proof -
  note a = pb.put_all [OF assms]
  then have ok: "pb_ok m (fold pb_put bufs self)" by blast
  from pop_packets_all [OF ok, of "length (waiting_packets self) + length bufs"] a
    push_packets_fold [OF assms]
  show ?thesis by auto
qed

definition new_pbuf :: "nat \<Rightarrow> nat \<Rightarrow> packet_buffer" where
  "new_pbuf n m = \<lparr>packets = replicate n [], pb_size = n, max_packet_size = m, read_index = 0, write_index = 0\<rparr>"

lemma new_pbuf_ok: "0 < n \<Longrightarrow> 0 < m \<Longrightarrow> pb_ok m (new_pbuf n m) \<and> waiting_packets (new_pbuf n m) = []"
  by (auto simp: pb_ok_def new_pbuf_def ring_def waiting_packets_def takeWhile_replicate
      intro!: exI [of _ "[]"])

theorem packet_buffer_is_fifo_witness:
  "\<exists>s1 s2. push_packets [''ab'', ''c''] (new_pbuf 2 3) = Inr s1 \<and>
    pop_packets 2 3 s1 = Inr ([''ab'', ''c''], s2)"
proof -
  have ok: "pb_ok 3 (new_pbuf 2 3)" "waiting_packets (new_pbuf 2 3) = []" "pb_size (new_pbuf 2 3) = 2"
    using new_pbuf_ok [of 2 3] by (simp_all add: new_pbuf_def)
  have n: "length ([] :: char list list) + length [''ab'', ''c''] = 2" by simp
  have "\<exists>s1 s2. push_packets [''ab'', ''c''] (new_pbuf 2 3) = Inr s1 \<and>
    pop_packets (length (waiting_packets (new_pbuf 2 3)) + length [''ab'', ''c'']) 3 s1 =
      Inr (waiting_packets (new_pbuf 2 3) @ [''ab'', ''c''], s2) \<and> waiting_packets s2 = []"
    by (rule packet_buffer_is_fifo [OF ok(1)]) (simp_all add: ok)
  then show ?thesis unfolding ok(2) n append_Nil by blast
qed

text \<open>C35: a push into a full ring. Nothing stops it: the slot of the oldest packet is overwritten,
  and the newest packet is the next one to be popped, before all that waited longer.\<close>

theorem push_full_reorders:
  assumes "pb_ok m self" and "length (waiting_packets self) = pb_size self" and "buf \<noteq> []"
  shows "\<exists>s1 s2. packet_buffer_push buf self = Inr s1 \<and>
    waiting_packets s1 = take m buf # tl (waiting_packets self) \<and>
    packet_buffer_pop l s1 = Inr (take l (take m buf), s2) \<and> waiting_packets s2 = tl (waiting_packets self)"
proof (rule pb_okE [OF assms(1)])
  let ?k = "take m buf"
  assume a: "max_packet_size self = m" "0 < m" "length (packets self) = pb_size self"
    "read_index self < pb_size self" "[] \<notin> set (waiting_packets self)"
    "\<forall>p \<in> set (waiting_packets self). length p \<le> m"
    "ring self = waiting_packets self @ replicate (pb_size self - length (waiting_packets self)) []"
    "write_index self = (read_index self + length (waiting_packets self)) mod pb_size self"
  have w: "write_index self = read_index self" using a(4,8) assms(2) by simp
  define s1 where "s1 = self\<lparr>packets := (packets self)[read_index self := ?k],
    write_index := Suc (read_index self) mod pb_size self\<rparr>"
  have p: "packet_buffer_push buf self = Inr s1"
    using assms(3) a(1-4) w wrap_mod [OF a(4)] by (simp add: packet_buffer_push_def Let_def s1_def)
  have "rotate (read_index self) ((packets self)[(read_index self + 0) mod length (packets self) := ?k]) =
      (rotate (read_index self) (packets self))[0 := ?k]"
    by (rule rotate_update) (use a(3,4) in simp)
  then have r: "ring s1 = (waiting_packets self)[0 := ?k]"
    using a(3,4,7) assms(2) by (simp add: ring_def s1_def)
  obtain x xs where x: "waiting_packets self = x # xs" using a(4) assms(2) by (cases "waiting_packets self") auto
  have nn: "[] \<notin> set (?k # xs)" using a(2,5) assms(3) x by auto
  have wp: "waiting_packets s1 = ?k # xs"
    using takeWhile_filled [OF nn, of 0] r x by (simp add: waiting_packets_def)
  have hd: "packets s1 ! read_index s1 = ?k" using a(3,4) by (simp add: s1_def)
  define s2 where "s2 = s1\<lparr>packets := (packets s1)[read_index s1 := []],
    read_index := Suc (read_index s1) mod pb_size s1\<rparr>"
  have k: "?k \<noteq> []" using nn by simp
  have pop: "packet_buffer_pop l s1 = Inr (take l ?k, s2)"
    using hd k a(3,4) wrap_mod [OF a(4)] by (simp add: packet_buffer_pop_def Let_def s1_def s2_def)
  have "rotate (read_index s1) (packets s1) = ?k # xs" using r x by (simp add: ring_def)
  from rotate_next [OF _ this, of "[]"] a(3,4) have "ring s2 = xs @ [[]]"
    by (simp add: ring_def s2_def s1_def)
  then have "waiting_packets s2 = xs"
    using takeWhile_filled [of xs 1] nn by (simp add: waiting_packets_def)
  with p wp pop x show ?thesis by auto
qed

theorem push_full_reorders_witness:
  "\<exists>s1 s2 s3. push_packets [''ab'', ''c''] (new_pbuf 2 3) = Inr s1 \<and>
    packet_buffer_push ''new'' s1 = Inr s2 \<and> packet_buffer_pop 9 s2 = Inr (''new'', s3)"
proof -
  let ?s = "new_pbuf 2 3"
  have ok: "pb_ok 3 ?s" "waiting_packets ?s = []" using new_pbuf_ok [of 2 3] by simp_all
  have acc: "list_all (\<lambda>buf. buf \<noteq> [] \<and> length buf \<le> 3) [''ab'', ''c'']" by simp
  have room: "length (waiting_packets ?s) + length [''ab'', ''c''] \<le> pb_size ?s"
    using ok by (simp add: new_pbuf_def)
  note a = pb.put_all [OF ok(1) acc room]
  let ?t = "fold pb_put [''ab'', ''c''] ?s"
  have t: "pb_ok 3 ?t" "length (waiting_packets ?t) = pb_size ?t"
    using a ok(2) by (simp_all add: new_pbuf_def)
  from push_full_reorders [OF t, of "''new''" 9] push_packets_fold [OF ok(1) acc room]
  show ?thesis by auto
qed

end
