(* ===== verification/TDictionary.thy ===== *)
theory TDictionary
  imports CBase "HOL-Library.List_Lexorder"
begin

text \<open>
  The dictionary (\<open>lib/tdictionary.c\<close>): a binary search tree with parent pointers. A node is
  addressed by its path from the root, so \<open>parent\<close>, \<open>left\<close> and \<open>right\<close> are functions on paths, and
  inserting moves no node. Keys are compared by \<open>strcmp\<close>, the lexicographic order of unsigned
  characters. The dictionary is an instance of the interface \<open>dictionary\<close>, and its iterator
  visits the entries in the order of their keys.
\<close>

section \<open>The interface\<close>

text \<open>What a user of a dictionary relies on: entries are added once, and only a successful \<open>add\<close>
  changes what is found.\<close>

locale dictionary =
  fixes inv :: "'s \<Rightarrow> bool" and empty :: 's and add :: "'k \<Rightarrow> 'v \<Rightarrow> 's \<Rightarrow> err \<times> 's"
    and find :: "'s \<Rightarrow> 'k \<Rightarrow> 'v option"
  assumes empty_inv: "inv empty" and find_empty: "find empty k = None"
    and add_inv: "inv s \<Longrightarrow> inv (snd (add k v s))"
    and add_known: "inv s \<Longrightarrow> find s k \<noteq> None \<Longrightarrow> add k v s = (ERR_DUPLICATE, s)"
    and add_new: "inv s \<Longrightarrow> find s k = None \<Longrightarrow> fst (add k v s) = ERR_SUCCESS \<and>
      find (snd (add k v s)) = (find s)(k \<mapsto> v)"
begin

definition add_all :: "('k \<times> 'v) list \<Rightarrow> 's \<Rightarrow> 's" where
  "add_all kvs s = fold (\<lambda>(k, v) s. snd (add k v s)) kvs s"

lemma add_all_find:
  "inv s \<Longrightarrow> inv (add_all kvs s) \<and>
   find (add_all kvs s) k = (case find s k of Some v \<Rightarrow> Some v | None \<Rightarrow> map_of kvs k)"
proof (induction kvs arbitrary: s)
  case Nil
  then show ?case by (simp add: add_all_def split: option.split)
next
  case (Cons kv kvs)
  obtain a v where kv: "kv = (a, v)" by (cases kv)
  let ?s = "snd (add a v s)"
  have s: "find ?s k = (case find s k of Some w \<Rightarrow> Some w | None \<Rightarrow> if k = a then Some v else None)"
  proof (cases "find s a")
    case None
    then show ?thesis using add_new [OF Cons.prems None, of v] by (simp split: option.split)
  next
    case (Some w)
    then show ?thesis using add_known [OF Cons.prems, of a v] by (simp split: option.split)
  qed
  from Cons.IH [OF add_inv [OF Cons.prems, of a v]] s show ?case
    by (simp add: add_all_def kv split: option.splits)
qed

text \<open>In a dictionary built from nothing every key has the value it was first added with.\<close>

lemma built_find: "find (add_all kvs empty) k = map_of kvs k"
  using add_all_find [OF empty_inv, of kvs k] by (simp add: find_empty)

end

section \<open>The tree\<close>

datatype 'v dnode = DNil | DNode (dleft: "'v dnode") (dkey: string) (dvalue: 'v) (dright: "'v dnode")

definition strcmp :: "string \<Rightarrow> string \<Rightarrow> int" where
  "strcmp s t = (if s < t then -1 else if s = t then 0 else 1)"

text \<open>The results of the two allocations of \<open>node_new\<close> decide: if the copy of the key fails, the
  node is lost but the tree is not changed.\<close>

definition node_new :: "bool \<Rightarrow> bool \<Rightarrow> string \<Rightarrow> 'v \<Rightarrow> err \<times> 'v dnode option" where
  "node_new alloc_node alloc_key key value =
     (if \<not> alloc_node then (ERR_NO_MEMORY, None)
      else if \<not> alloc_key then (ERR_NO_MEMORY, None)
      else (ERR_SUCCESS, Some (DNode DNil key value DNil)))"

fun dinsert :: "bool \<Rightarrow> bool \<Rightarrow> string \<Rightarrow> 'v \<Rightarrow> 'v dnode \<Rightarrow> err \<times> 'v dnode" where
  "dinsert an ak key value DNil =
     (case node_new an ak key value of
        (error, None) \<Rightarrow> (error, DNil)
      | (error, Some node) \<Rightarrow> (error, node))"
| "dinsert an ak key value (DNode l k v r) =
     (let compare = strcmp key k in
      if compare = 0 then (ERR_DUPLICATE, DNode l k v r)
      else if compare < 0 then
        (let (error, l') = dinsert an ak key value l in (error, DNode l' k v r))
      else
        (let (error, r') = dinsert an ak key value r in (error, DNode l k v r')))"

fun dlookup :: "'v dnode \<Rightarrow> string \<Rightarrow> 'v dnode" where
  "dlookup DNil key = DNil"
| "dlookup (DNode l k v r) key =
     (let compare = strcmp key k in
      if compare < 0 then dlookup l key
      else if compare > 0 then dlookup r key
      else if compare = 0 then DNode l k v r
      else DNil)"

definition dictionary_lookup :: "'v dnode \<Rightarrow> string \<Rightarrow> 'v option" where
  "dictionary_lookup dict key =
     (case dlookup dict key of DNil \<Rightarrow> None | DNode l k v r \<Rightarrow> Some v)"

definition dictionary_add :: "bool \<Rightarrow> bool \<Rightarrow> string \<Rightarrow> 'v \<Rightarrow> 'v dnode \<Rightarrow> err \<times> 'v dnode" where
  "dictionary_add an ak name value dict = dinsert an ak name value dict"

text \<open>\<open>dictionary_remove\<close> does nothing and reports success.\<close>

definition dictionary_remove :: "string \<Rightarrow> 'v dnode \<Rightarrow> int \<times> 'v dnode" where
  "dictionary_remove name dict = (0, dict)"

section \<open>The iterator\<close>

datatype dir = GoLeft | GoRight

fun node_at :: "'v dnode \<Rightarrow> dir list \<Rightarrow> 'v dnode" where
  "node_at t [] = t"
| "node_at DNil (d # p) = DNil"
| "node_at (DNode l k v r) (d # p) = node_at (case d of GoLeft \<Rightarrow> l | GoRight \<Rightarrow> r) p"

fun leftmost :: "'v dnode \<Rightarrow> dir list" where
  "leftmost DNil = []"
| "leftmost (DNode l k v r) = (if l = DNil then [] else GoLeft # leftmost l)"

text \<open>\<open>dictionary_get_iterator\<close>: \<open>None\<close> is the null pointer.\<close>

definition dictionary_get_iterator :: "'v dnode \<Rightarrow> dir list option" where
  "dictionary_get_iterator dict = (if dict = DNil then None else Some (leftmost dict))"

text \<open>The loop that goes up while the node is a right child. The path is given from the node to the
  root; the result is the path of the parent the loop stops at.\<close>

fun go_up :: "dir list \<Rightarrow> dir list option" where
  "go_up [] = None"
| "go_up (GoRight # up) = go_up up"
| "go_up (GoLeft # up) = Some up"

definition dictionary_iterate :: "'v dnode \<Rightarrow> dir list \<Rightarrow> dir list option" where
  "dictionary_iterate dict it =
     (case node_at dict it of
        DNil \<Rightarrow> None
      | DNode l k v r \<Rightarrow>
          if r \<noteq> DNil then Some (it @ GoRight # leftmost r)
          else map_option rev (go_up (rev it)))"

definition dictionary_get_value :: "'v dnode \<Rightarrow> dir list option \<Rightarrow> 'v option" where
  "dictionary_get_value dict it =
     (case it of None \<Rightarrow> None
      | Some p \<Rightarrow> (case node_at dict p of DNil \<Rightarrow> None | DNode l k v r \<Rightarrow> Some v))"

text \<open>A walk over the dictionary of at most \<open>n\<close> steps: the values in the order of the visit, and
  whether the walk has come to its end.\<close>

fun walk :: "nat \<Rightarrow> 'v dnode \<Rightarrow> dir list option \<Rightarrow> 'v list \<times> bool" where
  "walk n dict None = ([], True)"
| "walk 0 dict (Some p) = ([], False)"
| "walk (Suc n) dict (Some p) =
     (let (vs, fin) = walk n dict (dictionary_iterate dict p)
      in ((case dictionary_get_value dict (Some p) of Some v \<Rightarrow> [v] | None \<Rightarrow> []) @ vs, fin))"

section \<open>Search trees\<close>

fun entries :: "'v dnode \<Rightarrow> (string \<times> 'v) list" where
  "entries DNil = []"
| "entries (DNode l k v r) = entries l @ (k, v) # entries r"

definition bst :: "'v dnode \<Rightarrow> bool" where
  "bst t \<longleftrightarrow> sorted_wrt (<) (map fst (entries t))"

lemma bst_Node: "bst (DNode l k v r) \<longleftrightarrow> bst l \<and> bst r \<and>
    (\<forall>x \<in> fst ` set (entries l). x < k) \<and> (\<forall>x \<in> fst ` set (entries r). k < x)"
  by (auto simp: bst_def sorted_wrt_append dest: order_less_trans)

lemma map_of_none: "k \<notin> fst ` set xs \<Longrightarrow> map_of xs k = None"
  by (simp add: map_of_eq_None_iff)

lemma dictionary_lookup_map: "bst t \<Longrightarrow> dictionary_lookup t key = map_of (entries t) key"
proof (induction t)
  case (DNode l k v r)
  then have b: "bst l" "bst r" "\<forall>x \<in> fst ` set (entries l). x < k" "\<forall>x \<in> fst ` set (entries r). k < x"
    by (simp_all add: bst_Node)
  consider "key < k" | "key = k" | "k < key" using less_linear by blast
  then show ?case
  proof cases
    case 1
    with b(4) have "key \<notin> fst ` set (entries r)" by (meson less_asym)
    with 1 DNode.IH(1) b(1) show ?thesis
      by (simp add: dictionary_lookup_def strcmp_def map_add_def map_of_none split: option.split)
  next
    case 2
    with b(3) have "key \<notin> fst ` set (entries l)" by auto
    with 2 b show ?thesis
      by (auto simp: dictionary_lookup_def strcmp_def map_add_def map_of_none split: option.split)
  next
    case 3
    with b(3) have "key \<notin> fst ` set (entries l)" by (meson less_asym)
    with 3 DNode.IH(2) b(2) show ?thesis
      by (auto simp: dictionary_lookup_def strcmp_def map_add_def map_of_none split: option.split)
  qed
qed (simp add: dictionary_lookup_def)

lemma dinsert_keys:
  "bst t \<Longrightarrow> key \<notin> fst ` set (entries t) \<Longrightarrow>
   fst (dinsert True True key v t) = ERR_SUCCESS \<and>
   fst ` set (entries (snd (dinsert True True key v t))) = insert key (fst ` set (entries t)) \<and>
   bst (snd (dinsert True True key v t)) \<and>
   map_of (entries (snd (dinsert True True key v t))) = (map_of (entries t))(key \<mapsto> v)"
proof (induction t)
  case DNil
  then show ?case by (simp add: node_new_def bst_def)
next
  case (DNode l k w r)
  then have b: "bst l" "bst r" "\<forall>x \<in> fst ` set (entries l). x < k" "\<forall>x \<in> fst ` set (entries r). k < x"
    by (simp_all add: bst_Node)
  have ne: "key \<noteq> k" "key \<notin> fst ` set (entries l)" "key \<notin> fst ` set (entries r)"
    using DNode.prems(2) by auto
  show ?case
  proof (cases "key < k")
    case True
    note ih = DNode.IH(1) [OF b(1) ne(2)]
    have i: "dinsert True True key v (DNode l k w r) =
        (fst (dinsert True True key v l), DNode (snd (dinsert True True key v l)) k w r)"
      using True ne(1) by (simp add: strcmp_def Let_def case_prod_unfold)
    have "map_of (entries r) key = None" using ne(3) by (rule map_of_none)
    then have "map_of (entries (DNode (snd (dinsert True True key v l)) k w r)) =
        (map_of (entries (DNode l k w r)))(key \<mapsto> v)"
      using ih by (simp add: fun_eq_iff map_add_def)
    with ih b True show ?thesis unfolding i by (auto simp: bst_Node)
  next
    case False
    with ne(1) have gt: "k < key" "\<not> key < k" by simp_all
    note ih = DNode.IH(2) [OF b(2) ne(3)]
    have i: "dinsert True True key v (DNode l k w r) =
        (fst (dinsert True True key v r), DNode l k w (snd (dinsert True True key v r)))"
      using gt ne(1) by (simp add: strcmp_def Let_def case_prod_unfold)
    show ?thesis unfolding i using ih b gt ne by (auto simp: bst_Node fun_eq_iff map_add_def map_of_none split: option.split)
  qed
qed

lemma dinsert_known: "bst t \<Longrightarrow> key \<in> fst ` set (entries t) \<Longrightarrow>
    dinsert an ak key v t = (ERR_DUPLICATE, t)"
proof (induction t)
  case (DNode l k w r)
  then have b: "bst l" "bst r" "\<forall>x \<in> fst ` set (entries l). x < k" "\<forall>x \<in> fst ` set (entries r). k < x"
    by (simp_all add: bst_Node)
  consider "key < k" | "key = k" | "k < key" using less_linear by blast
  then show ?case
  proof cases
    case 1
    with b(4) have "key \<notin> fst ` set (entries r)" by (meson less_asym)
    with DNode.prems 1 have "key \<in> fst ` set (entries l)" by auto
    from DNode.IH(1) [OF b(1) this] 1 show ?thesis by (simp add: strcmp_def)
  next
    case 3
    with b(3) have "key \<notin> fst ` set (entries l)" by (meson less_asym)
    with DNode.prems 3 have "key \<in> fst ` set (entries r)" by auto
    from DNode.IH(2) [OF b(2) this] 3 show ?thesis by (auto simp: strcmp_def)
  qed (simp add: strcmp_def)
qed simp

lemma dinsert_no_memory: "key \<notin> fst ` set (entries t) \<Longrightarrow> \<not> (an \<and> ak) \<Longrightarrow>
    dinsert an ak key v t = (ERR_NO_MEMORY, t)"
proof (induction t)
  case (DNode l k w r)
  from DNode.prems(1) have ne: "key \<noteq> k" "key \<notin> fst ` set (entries l)" "key \<notin> fst ` set (entries r)"
    by auto
  from DNode.IH(1) [OF ne(2) DNode.prems(2)] DNode.IH(2) [OF ne(3) DNode.prems(2)] ne(1)
  show ?case by (simp add: strcmp_def)
qed (simp add: node_new_def)

interpretation dict: dictionary bst DNil "dictionary_add True True" dictionary_lookup
proof
  show "bst DNil" by (simp add: bst_def)
  show "dictionary_lookup DNil k = None" for k by (simp add: dictionary_lookup_def)
  fix s :: "'v dnode" and k v
  assume b: "bst s"
  have known: "dictionary_lookup s k \<noteq> None \<longleftrightarrow> k \<in> fst ` set (entries s)"
    using map_of_eq_None_iff [of "entries s" k] by (simp add: dictionary_lookup_map [OF b] del: not_None_eq)
  show "bst (snd (dictionary_add True True k v s))"
    using dinsert_keys [OF b, of k v] dinsert_known [OF b, of k True True v] b
    by (cases "k \<in> fst ` set (entries s)") (simp_all add: dictionary_add_def)
  show "dictionary_add True True k v s = (ERR_DUPLICATE, s)" if "dictionary_lookup s k \<noteq> None"
    using that unfolding known by (simp add: dictionary_add_def dinsert_known [OF b])
  show "fst (dictionary_add True True k v s) = ERR_SUCCESS \<and>
      dictionary_lookup (snd (dictionary_add True True k v s)) = (dictionary_lookup s)(k \<mapsto> v)"
    if "dictionary_lookup s k = None"
  proof -
    from that known have n: "k \<notin> fst ` set (entries s)" by blast
    note i = dinsert_keys [OF b n, of v]
    have "dictionary_lookup s = map_of (entries s)" using dictionary_lookup_map [OF b] by blast
    moreover have "dictionary_lookup (snd (dinsert True True k v s)) = map_of (entries (snd (dinsert True True k v s)))"
      using dictionary_lookup_map i by blast
    ultimately show ?thesis using i by (simp add: dictionary_add_def)
  qed
qed

section \<open>The order of the iterator\<close>

fun paths :: "'v dnode \<Rightarrow> dir list list" where
  "paths DNil = []"
| "paths (DNode l k v r) = map (Cons GoLeft) (paths l) @ [] # map (Cons GoRight) (paths r)"

lemma length_paths: "length (paths t) = length (entries t)"
  by (induction t) simp_all

lemma paths_entries: "i < length (paths t) \<Longrightarrow>
    \<exists>l r. node_at t (paths t ! i) = DNode l (fst (entries t ! i)) (snd (entries t ! i)) r"
proof (induction t arbitrary: i)
  case (DNode l k v r)
  show ?case
  proof (cases "i < length (paths l)")
    case True
    with DNode.IH(1) [OF True] show ?thesis by (simp add: nth_append length_paths [symmetric])
  next
    case False
    then obtain j where j: "i = length (paths l) + j" by (metis le_Suc_ex not_less)
    show ?thesis
    proof (cases j)
      case 0
      with j show ?thesis by (simp add: nth_append length_paths)
    next
      case (Suc m)
      with j DNode.prems have "m < length (paths r)" by simp
      moreover from this have "map (Cons GoRight) (paths r) ! m = GoRight # paths r ! m" by simp
      ultimately show ?thesis using DNode.IH(2) [of m] j Suc by (simp add: nth_append length_paths)
    qed
  qed
qed simp

lemma begin_path: "t \<noteq> DNil \<Longrightarrow> paths t \<noteq> [] \<and> leftmost t = hd (paths t)"
  by (induction t) (auto simp: hd_append hd_map)

lemma go_up_snoc: "go_up (up @ [d]) =
    (case go_up up of Some q \<Rightarrow> Some (q @ [d]) | None \<Rightarrow> if d = GoLeft then Some [] else None)"
  by (induction up rule: go_up.induct; cases d) simp_all

lemma iterate_left: "node_at l p \<noteq> DNil \<Longrightarrow> dictionary_iterate (DNode l k v r) (GoLeft # p) =
    (case dictionary_iterate l p of Some q \<Rightarrow> Some (GoLeft # q) | None \<Rightarrow> Some [])"
  by (cases "node_at l p") (auto simp: dictionary_iterate_def go_up_snoc split: option.split)

lemma iterate_right: "node_at r p \<noteq> DNil \<Longrightarrow> dictionary_iterate (DNode l k v r) (GoRight # p) =
    map_option (Cons GoRight) (dictionary_iterate r p)"
  by (cases "node_at r p") (auto simp: dictionary_iterate_def go_up_snoc split: option.split)

lemma iterate_next: "i < length (paths t) \<Longrightarrow> dictionary_iterate t (paths t ! i) =
    (if Suc i < length (paths t) then Some (paths t ! Suc i) else None)"
proof (induction t arbitrary: i)
  case (DNode l k v r)
  have at: "node_at u (paths u ! m) \<noteq> DNil" if "m < length (paths u)" for u :: "'v dnode" and m
    using paths_entries [OF that] by auto
  show ?case
  proof (cases "i < length (paths l)")
    case True
    show ?thesis
    proof (cases "Suc i < length (paths l)")
      case s: True
      with True DNode.IH(1) [OF True] at [OF True] show ?thesis by (simp add: nth_append iterate_left)
    next
      case s: False
      with True have "Suc i = length (paths l)" by simp
      with True DNode.IH(1) [OF True] at [OF True] show ?thesis
        by (simp add: nth_append iterate_left)
    qed
  next
    case False
    then obtain j where j: "i = length (paths l) + j" by (metis le_Suc_ex not_less)
    show ?thesis
    proof (cases j)
      case 0
      show ?thesis
      proof (cases "r = DNil")
        case True
        with 0 j show ?thesis by (simp add: nth_append dictionary_iterate_def)
      next
        case ne: False
        from begin_path [OF this] 0 j ne show ?thesis
          by (simp add: nth_append dictionary_iterate_def hd_conv_nth)
      qed
    next
      case (Suc m)
      with j DNode.prems have m: "m < length (paths r)" by simp
      have n: "map (Cons GoRight) (paths r) ! m = GoRight # paths r ! m" using m by simp
      from DNode.IH(2) [OF m] at [OF m] j Suc m n show ?thesis by (simp add: nth_append iterate_right)
    qed
  qed
qed simp

lemma walk_from:
  "i \<le> length (paths t) \<Longrightarrow> length (paths t) - i \<le> n \<Longrightarrow>
   walk n t (if i < length (paths t) then Some (paths t ! i) else None) =
     (map snd (drop i (entries t)), True)"
proof (induction n arbitrary: i)
  case 0
  then show ?case by (simp add: length_paths)
next
  case (Suc n)
  show ?case
  proof (cases "i < length (paths t)")
    case False
    with Suc.prems show ?thesis by (simp add: length_paths)
  next
    case True
    obtain l r where at: "node_at t (paths t ! i) = DNode l (fst (entries t ! i)) (snd (entries t ! i)) r"
      using paths_entries [OF True] by blast
    have "walk n t (dictionary_iterate t (paths t ! i)) = (map snd (drop (Suc i) (entries t)), True)"
      using Suc.IH [of "Suc i"] Suc.prems True by (simp add: iterate_next [OF True])
    moreover have "drop i (entries t) = entries t ! i # drop (Suc i) (entries t)"
      using True by (simp add: Cons_nth_drop_Suc length_paths)
    ultimately show ?thesis using True at by (simp add: dictionary_get_value_def)
  qed
qed

text \<open>C17: the dictionary as its users see it. After adding pairs to an empty dictionary, with enough
  memory, a key is found exactly if it was added, with the value it was first added with; adding a
  known key again reports \<open>ERR_DUPLICATE\<close> and changes nothing; and if the memory is exhausted the
  dictionary is unchanged and the caller is told.\<close>

theorem dictionary_finds_what_was_added:
  fixes kvs :: "(string \<times> 'v) list"
  defines "d \<equiv> fold (\<lambda>(k, v) s. snd (dictionary_add True True k v s)) kvs DNil"
  shows "dictionary_lookup d key = map_of kvs key \<and>
    fst (dictionary_add an ak key v d) =
      (if map_of kvs key \<noteq> None then ERR_DUPLICATE else if an \<and> ak then ERR_SUCCESS else ERR_NO_MEMORY) \<and>
    dictionary_lookup (snd (dictionary_add an ak key v d)) =
      (if map_of kvs key = None \<and> an \<and> ak then (map_of kvs)(key \<mapsto> v) else map_of kvs)"
proof -
  have d: "d = dict.add_all kvs DNil" by (simp add: d_def dict.add_all_def)
  have b: "bst d" unfolding d using dict.add_all_find [OF dict.empty_inv] by blast
  have f: "dictionary_lookup d = map_of kvs" unfolding d using dict.built_find by blast
  have known: "map_of kvs key = None \<longleftrightarrow> key \<notin> fst ` set (entries d)"
    using f map_of_eq_None_iff [of "entries d" key] by (simp add: dictionary_lookup_map [OF b] flip: f)
  consider "map_of kvs key \<noteq> None" | "map_of kvs key = None" "an \<and> ak" | "map_of kvs key = None" "\<not> (an \<and> ak)"
    by blast
  then show ?thesis
  proof cases
    case 1
    then obtain y where y: "map_of kvs key = Some y" by blast
    with known have "key \<in> fst ` set (entries d)" by auto
    from dinsert_known [OF b this] f y show ?thesis by (simp add: dictionary_add_def)
  next
    case 2
    then have t: "an = True" "ak = True" by simp_all
    have "dictionary_lookup d key = None" using 2 f by simp
    from dict.add_new [OF b this, of v] 2 f show ?thesis unfolding t by simp
  next
    case 3
    with known dinsert_no_memory [of key d an ak v] f show ?thesis by (simp add: dictionary_add_def)
  qed
qed

text \<open>C16: the iterator visits every entry of the dictionary once, in the increasing order of the keys,
  and then returns the null pointer.\<close>

theorem iterator_is_sorted_walk:
  fixes kvs :: "(string \<times> 'v) list"
  defines "d \<equiv> fold (\<lambda>(k, v) s. snd (dictionary_add True True k v s)) kvs DNil"
  shows "walk (length kvs) d (dictionary_get_iterator d) = (map snd (entries d), True) \<and>
    sorted_wrt (<) (map fst (entries d)) \<and> map_of (entries d) = map_of kvs"
proof -
  have d: "d = dict.add_all kvs DNil" by (simp add: d_def dict.add_all_def)
  have b: "bst d" unfolding d using dict.add_all_find [OF dict.empty_inv] by blast
  have m: "map_of (entries d) = map_of kvs"
    using dict.built_find [of kvs] dictionary_lookup_map [OF b] unfolding d by (simp add: fun_eq_iff)
  have "length (entries d) \<le> length kvs"
  proof -
    have "distinct (map fst (entries d))" using b by (simp add: bst_def strict_sorted_iff)
    from distinct_card [OF this] have "length (entries d) = card (dom (map_of (entries d)))"
      by (simp add: dom_map_of_conv_image_fst)
    also have "\<dots> = card (fst ` set kvs)" unfolding m by (simp add: dom_map_of_conv_image_fst)
    also have "\<dots> \<le> length kvs" by (metis card_length length_map list.set_map)
    finally show ?thesis .
  qed
  moreover have "dictionary_get_iterator d =
      (if 0 < length (paths d) then Some (paths d ! 0) else None)"
    using begin_path [of d] by (cases d) (auto simp: dictionary_get_iterator_def hd_conv_nth)
  ultimately have "walk (length kvs) d (dictionary_get_iterator d) = (map snd (entries d), True)"
    using walk_from [of 0 d "length kvs"] by (simp add: length_paths)
  with b m show ?thesis by (simp add: bst_def)
qed

end
