(* ===== verification/Queue.thy ===== *)
theory Queue
  imports CBase
begin

text \<open>
  The double-ended queue (\<open>third_party/lib/queue.c\<close>), with its entries in memory and their pointers
  in both directions, and the bounded queue with a lock on top of it (\<open>lib/concurrent_queue.c\<close>).
  The pointer structure refines a list, and the bounded queue, which is modelled on that list, is an
  instance of the interface \<open>fifo\<close>.
\<close>

section \<open>Entries in memory\<close>

record 'a queue_entry =
  entry_data :: 'a
  entry_prev :: "nat option"
  entry_next :: "nat option"

record 'a queue =
  memory :: "nat \<Rightarrow> 'a queue_entry option"
  queue_head :: "nat option"
  queue_tail :: "nat option"
  queue_length :: nat

definition queue_new :: "bool \<Rightarrow> 'a queue option" where
  "queue_new allocated = (if \<not> allocated then None
     else Some \<lparr>memory = (\<lambda>a. None), queue_head = None, queue_tail = None, queue_length = 0\<rparr>)"

text \<open>Following a pointer: the null pointer and freed entries are faults.\<close>

definition deref :: "nat option \<Rightarrow> 'a queue \<Rightarrow> c_fault + (nat \<times> 'a queue_entry)" where
  "deref p queue = (case p of None \<Rightarrow> Inl NullPointer
     | Some a \<Rightarrow> (case memory queue a of None \<Rightarrow> Inl UseAfterFree | Some e \<Rightarrow> Inr (a, e)))"

definition store :: "nat \<Rightarrow> 'a queue_entry \<Rightarrow> 'a queue \<Rightarrow> 'a queue" where
  "store a e queue = queue\<lparr>memory := (memory queue)(a := Some e)\<rparr>"

definition sf_free :: "nat \<Rightarrow> 'a queue \<Rightarrow> 'a queue" where
  "sf_free a queue = queue\<lparr>memory := (memory queue)(a := None)\<rparr>"

definition queue_is_empty :: "'a queue \<Rightarrow> bool" where
  "queue_is_empty queue \<longleftrightarrow> queue_head queue = None"

definition queue_get_size :: "'a queue \<Rightarrow> nat" where
  "queue_get_size queue = queue_length queue"

text \<open>The address is the result of \<open>sf_malloc\<close>, \<open>None\<close> the null pointer.\<close>

definition queue_push_head :: "nat option \<Rightarrow> 'a \<Rightarrow> 'a queue \<Rightarrow> c_fault + (err \<times> 'a queue)" where
  "queue_push_head new_entry data queue =
     (case new_entry of None \<Rightarrow> Inr (ERR_NO_MEMORY, queue)
      | Some a \<Rightarrow>
          let q = store a \<lparr>entry_data = data, entry_prev = None, entry_next = queue_head queue\<rparr> queue in
          if queue_head queue = None then
            Inr (ERR_SUCCESS, q\<lparr>queue_head := Some a, queue_tail := Some a,
                                queue_length := Suc (queue_length q)\<rparr>)
          else
            c_bind (deref (queue_head queue) q) (\<lambda>(h, e).
              Inr (ERR_SUCCESS, (store h (e\<lparr>entry_prev := Some a\<rparr>) q)
                \<lparr>queue_head := Some a, queue_length := Suc (queue_length q)\<rparr>)))"

definition queue_push_tail :: "nat option \<Rightarrow> 'a \<Rightarrow> 'a queue \<Rightarrow> c_fault + (err \<times> 'a queue)" where
  "queue_push_tail new_entry data queue =
     (case new_entry of None \<Rightarrow> Inr (ERR_NO_MEMORY, queue)
      | Some a \<Rightarrow>
          let q = store a \<lparr>entry_data = data, entry_prev = queue_tail queue, entry_next = None\<rparr> queue in
          if queue_tail queue = None then
            Inr (ERR_SUCCESS, q\<lparr>queue_head := Some a, queue_tail := Some a,
                                queue_length := Suc (queue_length q)\<rparr>)
          else
            c_bind (deref (queue_tail queue) q) (\<lambda>(t, e).
              Inr (ERR_SUCCESS, (store t (e\<lparr>entry_next := Some a\<rparr>) q)
                \<lparr>queue_tail := Some a, queue_length := Suc (queue_length q)\<rparr>)))"

definition queue_pop_head :: "'a queue \<Rightarrow> c_fault + ('a option \<times> 'a queue)" where
  "queue_pop_head queue =
     (if queue_is_empty queue then Inr (None, queue)
      else
        c_bind (deref (queue_head queue) queue) (\<lambda>(entry, e).
          let q = queue\<lparr>queue_head := entry_next e\<rparr> in
          c_bind (if queue_head q = None then Inr (q\<lparr>queue_tail := None\<rparr>)
                  else c_bind (deref (queue_head q) q) (\<lambda>(h, e').
                    Inr (store h (e'\<lparr>entry_prev := None\<rparr>) q)))
            (\<lambda>q. Inr (Some (entry_data e),
                      (sf_free entry q)\<lparr>queue_length := queue_length q - 1\<rparr>))))"

definition queue_pop_tail :: "'a queue \<Rightarrow> c_fault + ('a option \<times> 'a queue)" where
  "queue_pop_tail queue =
     (if queue_is_empty queue then Inr (None, queue)
      else
        c_bind (deref (queue_tail queue) queue) (\<lambda>(entry, e).
          let q = queue\<lparr>queue_tail := entry_prev e\<rparr> in
          c_bind (if queue_tail q = None then Inr (q\<lparr>queue_head := None\<rparr>)
                  else c_bind (deref (queue_tail q) q) (\<lambda>(t, e').
                    Inr (store t (e'\<lparr>entry_next := None\<rparr>) q)))
            (\<lambda>q. Inr (Some (entry_data e),
                      (sf_free entry q)\<lparr>queue_length := queue_length q - 1\<rparr>))))"

definition queue_peek_head :: "'a queue \<Rightarrow> c_fault + 'a option" where
  "queue_peek_head queue =
     (if queue_is_empty queue then Inr None
      else c_bind (deref (queue_head queue) queue) (\<lambda>(a, e). Inr (Some (entry_data e))))"

definition queue_peek_tail :: "'a queue \<Rightarrow> c_fault + 'a option" where
  "queue_peek_tail queue =
     (if queue_is_empty queue then Inr None
      else c_bind (deref (queue_tail queue) queue) (\<lambda>(a, e). Inr (Some (entry_data e))))"

section \<open>The list a queue represents\<close>

text \<open>The entries between the pointers \<open>p\<close> before and \<open>n\<close> behind them, as pairs of address and data.\<close>

fun links :: "(nat \<Rightarrow> 'a queue_entry option) \<Rightarrow> nat option \<Rightarrow> (nat \<times> 'a) list \<Rightarrow> nat option \<Rightarrow> bool" where
  "links m p [] n = True"
| "links m p ((a, d) # xs) n =
     (m a = Some \<lparr>entry_data = d, entry_prev = p,
                  entry_next = (case xs of [] \<Rightarrow> n | x # ys \<Rightarrow> Some (fst x))\<rparr> \<and>
      links m (Some a) xs n)"

definition represents :: "'a queue \<Rightarrow> (nat \<times> 'a) list \<Rightarrow> bool" where
  "represents q xs \<longleftrightarrow> distinct (map fst xs) \<and> dom (memory q) = fst ` set xs \<and>
     links (memory q) None xs None \<and>
     queue_head q = (if xs = [] then None else Some (fst (hd xs))) \<and>
     queue_tail q = (if xs = [] then None else Some (fst (last xs))) \<and>
     queue_length q = length xs"

lemma links_frame: "a \<notin> fst ` set xs \<Longrightarrow> links (m(a := v)) p xs n = links m p xs n"
  by (induction xs arbitrary: p) auto

lemma links_append: "links m p (xs @ ys) n \<longleftrightarrow>
    links m p xs (if ys = [] then n else Some (fst (hd ys))) \<and>
    links m (if xs = [] then p else Some (fst (last xs))) ys n"
proof (induction xs arbitrary: p)
  case (Cons x xs)
  then show ?case by (cases x; cases xs; cases ys) auto
qed simp

lemma push_head_represents:
  assumes r: "represents q xs" and a: "memory q a = None"
  shows "\<exists>q'. queue_push_head (Some a) d q = Inr (ERR_SUCCESS, q') \<and> represents q' ((a, d) # xs)"
proof -
  have na: "a \<notin> fst ` set xs" using r a by (auto simp: represents_def domIff)
  show ?thesis
  proof (cases xs)
    case Nil
    then show ?thesis using r by (auto simp: represents_def queue_push_head_def store_def Let_def)
  next
    case (Cons x ys)
    obtain b v where x: "x = (b, v)" by (cases x)
    then show ?thesis using r na
      by (auto simp: represents_def queue_push_head_def store_def deref_def Let_def Cons links_frame)
  qed
qed

lemma push_tail_represents:
  assumes r: "represents q xs" and a: "memory q a = None"
  shows "\<exists>q'. queue_push_tail (Some a) d q = Inr (ERR_SUCCESS, q') \<and> represents q' (xs @ [(a, d)])"
proof -
  have na: "a \<notin> fst ` set xs" using r a by (auto simp: represents_def domIff)
  show ?thesis
  proof (cases xs rule: rev_cases)
    case Nil
    then show ?thesis using r by (auto simp: represents_def queue_push_tail_def store_def Let_def)
  next
    case (snoc ys x)
    obtain b v where x: "x = (b, v)" by (cases x)
    then show ?thesis using r na
      by (auto simp: represents_def queue_push_tail_def store_def deref_def Let_def snoc links_frame links_append hd_append)
  qed
qed

lemma pop_head_represents:
  assumes r: "represents q ((a, d) # xs)"
  shows "\<exists>q'. queue_pop_head q = Inr (Some d, q') \<and> represents q' xs"
proof (cases xs)
  case Nil
  then show ?thesis using r
    by (auto simp: represents_def queue_pop_head_def queue_is_empty_def deref_def sf_free_def Let_def
        simp del: dom_eq_empty_conv)
next
  case (Cons x ys)
  obtain b v where x: "x = (b, v)" by (cases x)
  then show ?thesis using r
    by (auto simp: represents_def queue_pop_head_def queue_is_empty_def deref_def store_def sf_free_def
        Let_def Cons links_frame)
qed

lemma pop_tail_represents:
  assumes r: "represents q (xs @ [(a, d)])"
  shows "\<exists>q'. queue_pop_tail q = Inr (Some d, q') \<and> represents q' xs"
proof (cases xs rule: rev_cases)
  case Nil
  then show ?thesis using r
    by (auto simp: represents_def queue_pop_tail_def queue_is_empty_def deref_def sf_free_def Let_def
        simp del: dom_eq_empty_conv)
next
  case (snoc ys x)
  obtain b v where x: "x = (b, v)" by (cases x)
  then show ?thesis using r
    by (auto simp: represents_def queue_pop_tail_def queue_is_empty_def deref_def store_def sf_free_def
        Let_def snoc links_frame links_append hd_append)
qed

lemma peek_represents:
  "represents q xs \<Longrightarrow> queue_peek_head q = Inr (if xs = [] then None else Some (snd (hd xs)))"
  "represents q xs \<Longrightarrow> queue_peek_tail q = Inr (if xs = [] then None else Some (snd (last xs)))"
  by (cases xs; auto simp: represents_def queue_peek_head_def queue_is_empty_def deref_def)
    (cases xs rule: rev_cases; auto simp: represents_def queue_peek_tail_def queue_is_empty_def deref_def links_append)

section \<open>Refinement\<close>

datatype 'a queue_op =
    PushHead bool 'a | PushTail bool 'a | PopHead | PopTail | PeekHead | PeekTail | GetSize | IsEmpty

datatype 'a queue_result = QErr err | QData "'a option" | QNum nat | QBool bool

fun queue_do :: "((nat \<Rightarrow> 'a queue_entry option) \<Rightarrow> nat) \<Rightarrow> 'a queue_op \<Rightarrow> 'a queue \<Rightarrow>
    c_fault + ('a queue_result \<times> 'a queue)" where
  "queue_do malloc (PushHead room d) q =
     c_bind (queue_push_head (if room then Some (malloc (memory q)) else None) d q)
       (\<lambda>(e, q'). Inr (QErr e, q'))"
| "queue_do malloc (PushTail room d) q =
     c_bind (queue_push_tail (if room then Some (malloc (memory q)) else None) d q)
       (\<lambda>(e, q'). Inr (QErr e, q'))"
| "queue_do malloc PopHead q = c_bind (queue_pop_head q) (\<lambda>(d, q'). Inr (QData d, q'))"
| "queue_do malloc PopTail q = c_bind (queue_pop_tail q) (\<lambda>(d, q'). Inr (QData d, q'))"
| "queue_do malloc PeekHead q = c_bind (queue_peek_head q) (\<lambda>d. Inr (QData d, q))"
| "queue_do malloc PeekTail q = c_bind (queue_peek_tail q) (\<lambda>d. Inr (QData d, q))"
| "queue_do malloc GetSize q = Inr (QNum (queue_get_size q), q)"
| "queue_do malloc IsEmpty q = Inr (QBool (queue_is_empty q), q)"

text \<open>The same operations on a list.\<close>

fun list_do :: "'a queue_op \<Rightarrow> 'a list \<Rightarrow> 'a queue_result \<times> 'a list" where
  "list_do (PushHead room d) xs = (if room then (QErr ERR_SUCCESS, d # xs) else (QErr ERR_NO_MEMORY, xs))"
| "list_do (PushTail room d) xs = (if room then (QErr ERR_SUCCESS, xs @ [d]) else (QErr ERR_NO_MEMORY, xs))"
| "list_do PopHead xs = (case xs of [] \<Rightarrow> (QData None, []) | x # ys \<Rightarrow> (QData (Some x), ys))"
| "list_do PopTail xs = (if xs = [] then (QData None, []) else (QData (Some (last xs)), butlast xs))"
| "list_do PeekHead xs = (QData (if xs = [] then None else Some (hd xs)), xs)"
| "list_do PeekTail xs = (QData (if xs = [] then None else Some (last xs)), xs)"
| "list_do GetSize xs = (QNum (length xs), xs)"
| "list_do IsEmpty xs = (QBool (xs = []), xs)"

fun queue_run :: "((nat \<Rightarrow> 'a queue_entry option) \<Rightarrow> nat) \<Rightarrow> 'a queue_op list \<Rightarrow> 'a queue \<Rightarrow>
    c_fault + ('a queue_result list \<times> 'a queue)" where
  "queue_run malloc [] q = Inr ([], q)"
| "queue_run malloc (c # cs) q = c_bind (queue_do malloc c q) (\<lambda>(r, q').
     c_bind (queue_run malloc cs q') (\<lambda>(rs, q''). Inr (r # rs, q'')))"

fun list_run :: "'a queue_op list \<Rightarrow> 'a list \<Rightarrow> 'a queue_result list \<times> 'a list" where
  "list_run [] xs = ([], xs)"
| "list_run (c # cs) xs = (let (r, ys) = list_do c xs; (rs, zs) = list_run cs ys in (r # rs, zs))"

text \<open>What the allocator promises when it has memory: an address that is not in use.\<close>

definition fresh_alloc :: "((nat \<Rightarrow> 'a option) \<Rightarrow> nat) \<Rightarrow> bool" where
  "fresh_alloc malloc \<longleftrightarrow> (\<forall>m. finite (dom m) \<longrightarrow> m (malloc m) = None)"

lemma queue_do_represents:
  assumes r: "represents q xs" and fresh: "fresh_alloc malloc"
  shows "\<exists>q' ys. queue_do malloc c q = Inr (fst (list_do c (map snd xs)), q') \<and>
    represents q' ys \<and> map snd ys = snd (list_do c (map snd xs))"
proof -
  have "finite (dom (memory q))" using r by (simp add: represents_def)
  then have a: "memory q (malloc (memory q)) = None" using fresh by (simp add: fresh_alloc_def)
  have e: "queue_head q = None \<longleftrightarrow> xs = []" "queue_length q = length xs"
    using r by (auto simp: represents_def)
  show ?thesis
  proof (cases c)
    case (PushHead room d)
    show ?thesis
    proof (cases room)
      case True
      obtain q' where "queue_push_head (Some (malloc (memory q))) d q = Inr (ERR_SUCCESS, q')"
        "represents q' ((malloc (memory q), d) # xs)" using push_head_represents [OF r a] by blast
      then show ?thesis using True PushHead by auto
    next
      case False
      then show ?thesis using PushHead r by (auto simp: queue_push_head_def)
    qed
  next
    case (PushTail room d)
    show ?thesis
    proof (cases room)
      case True
      obtain q' where "queue_push_tail (Some (malloc (memory q))) d q = Inr (ERR_SUCCESS, q')"
        "represents q' (xs @ [(malloc (memory q), d)])" using push_tail_represents [OF r a] by blast
      then show ?thesis using True PushTail by (auto intro!: exI [of _ "xs @ [(malloc (memory q), d)]"])
    next
      case False
      then show ?thesis using PushTail r by (auto simp: queue_push_tail_def)
    qed
  next
    case PopHead
    show ?thesis
    proof (cases xs)
      case Nil
      then show ?thesis using PopHead r e by (auto simp: queue_pop_head_def queue_is_empty_def)
    next
      case (Cons x ys)
      then obtain q' where "queue_pop_head q = Inr (Some (snd x), q')" "represents q' ys"
        using pop_head_represents [of q "fst x" "snd x" ys] r by auto
      then show ?thesis using PopHead Cons by auto
    qed
  next
    case PopTail
    show ?thesis
    proof (cases xs rule: rev_cases)
      case Nil
      then show ?thesis using PopTail r e by (auto simp: queue_pop_tail_def queue_is_empty_def)
    next
      case (snoc ys x)
      then obtain q' where "queue_pop_tail q = Inr (Some (snd x), q')" "represents q' ys"
        using pop_tail_represents [of q ys "fst x" "snd x"] r by auto
      then show ?thesis using PopTail snoc by auto
    qed
  next
    case PeekHead
    then show ?thesis using peek_represents(1) [OF r] r by (auto simp: hd_map)
  next
    case PeekTail
    then show ?thesis using peek_represents(2) [OF r] r by (auto simp: last_map)
  qed (use r e in \<open>auto simp: queue_get_size_def queue_is_empty_def\<close>)
qed

lemma queue_run_represents:
  assumes fresh: "fresh_alloc malloc"
  shows "represents q xs \<Longrightarrow> \<exists>q' ys. queue_run malloc cs q = Inr (fst (list_run cs (map snd xs)), q') \<and>
    represents q' ys \<and> map snd ys = snd (list_run cs (map snd xs))"
proof (induction cs arbitrary: q xs)
  case (Cons c cs)
  obtain q1 ys where s: "queue_do malloc c q = Inr (fst (list_do c (map snd xs)), q1)"
    "represents q1 ys" "map snd ys = snd (list_do c (map snd xs))"
    using queue_do_represents [OF Cons.prems fresh] by blast
  from Cons.IH [OF s(2)] s show ?case by (auto simp: case_prod_unfold Let_def)
qed auto

text \<open>C8: the linked queue refines a list. Any sequence of operations on a new queue, with an
  allocator that gives out unused addresses or no memory, follows no null or freed pointer, answers
  what the list answers, and keeps exactly as many entries allocated as the list is long.\<close>

theorem queue_refines_list:
  assumes "queue_new True = Some q" and "fresh_alloc malloc"
  shows "\<exists>q'. queue_run malloc cs q = Inr (fst (list_run cs []), q') \<and>
    card (dom (memory q')) = length (snd (list_run cs []))"
proof -
  have "represents q []" using assms(1) by (auto simp: queue_new_def represents_def)
  from queue_run_represents [OF assms(2) this, of cs] obtain q' ys where q:
    "queue_run malloc cs q = Inr (fst (list_run cs []), q')" "represents q' ys"
    "map snd ys = snd (list_run cs [])" by auto
  then have "card (dom (memory q')) = length ys"
    using distinct_card [of "map fst ys"] by (simp add: represents_def)
  moreover have "length ys = length (snd (list_run cs []))" using q(3) by (metis length_map)
  ultimately show ?thesis using q(1) by auto
qed

text \<open>An allocator: the address above all that are in use.\<close>

definition bump :: "(nat \<Rightarrow> 'a option) \<Rightarrow> nat" where
  "bump m = Suc (Max (insert 0 (dom m)))"

lemma bump_fresh: "fresh_alloc bump"
  unfolding fresh_alloc_def
proof (intro allI impI, rule ccontr)
  fix m :: "nat \<Rightarrow> 'a option"
  assume f: "finite (dom m)" and "m (bump m) \<noteq> None"
  then have "bump m \<in> insert 0 (dom m)" by (simp add: domIff)
  with f have "bump m \<le> Max (insert 0 (dom m))" by (intro Max_ge) simp_all
  then show False by (simp add: bump_def)
qed

theorem queue_refines_list_witness:
  "\<exists>q. queue_run bump [PushTail True 1, PushHead True 2, PopTail, PushTail False 3, PopHead, PopHead]
     (the (queue_new True)) =
     Inr ([QErr ERR_SUCCESS, QErr ERR_SUCCESS, QData (Some 1), QErr ERR_NO_MEMORY, QData (Some (2 :: nat)), QData None], q)"
  using queue_refines_list [of "the (queue_new True)" bump
      "[PushTail True 1, PushHead True 2, PopTail, PushTail False 3, PopHead, PopHead :: nat queue_op]"]
    bump_fresh by (auto simp: queue_new_def)

section \<open>The bounded queue\<close>

record 'a cqueue =
  cq_items :: "'a list"
  cq_max :: nat

definition cqueue_new :: "bool \<Rightarrow> bool \<Rightarrow> bool \<Rightarrow> nat \<Rightarrow> 'a cqueue option" where
  "cqueue_new alloc alloc_queue mutex max_size =
     (if \<not> alloc then None else if \<not> alloc_queue then None else if \<not> mutex then None
      else Some \<lparr>cq_items = [], cq_max = max_size\<rparr>)"

definition cqueue_get_size :: "'a cqueue \<Rightarrow> nat" where
  "cqueue_get_size cqueue = length (cq_items cqueue)"

definition cqueue_is_empty :: "'a cqueue \<Rightarrow> bool" where
  "cqueue_is_empty cqueue \<longleftrightarrow> cq_items cqueue = []"

definition cqueue_push_head :: "bool \<Rightarrow> 'a \<Rightarrow> 'a cqueue \<Rightarrow> err \<times> 'a cqueue" where
  "cqueue_push_head room data cqueue =
     (if room then (ERR_SUCCESS, cqueue\<lparr>cq_items := data # cq_items cqueue\<rparr>) else (ERR_NO_MEMORY, cqueue))"

definition cqueue_push_tail :: "bool \<Rightarrow> 'a \<Rightarrow> 'a cqueue \<Rightarrow> err \<times> 'a cqueue" where
  "cqueue_push_tail room data cqueue =
     (if cqueue_get_size cqueue < cq_max cqueue then
        if room then (ERR_SUCCESS, cqueue\<lparr>cq_items := cq_items cqueue @ [data]\<rparr>)
        else (ERR_NO_MEMORY, cqueue)
      else (ERR_FAILURE, cqueue))"

definition cqueue_pop_head :: "'a cqueue \<Rightarrow> 'a option \<times> 'a cqueue" where
  "cqueue_pop_head cqueue = (case cq_items cqueue of [] \<Rightarrow> (None, cqueue)
     | x # xs \<Rightarrow> (Some x, cqueue\<lparr>cq_items := xs\<rparr>))"

definition cqueue_pop_tail :: "'a cqueue \<Rightarrow> 'a option \<times> 'a cqueue" where
  "cqueue_pop_tail cqueue = (if cq_items cqueue = [] then (None, cqueue)
     else (Some (last (cq_items cqueue)), cqueue\<lparr>cq_items := butlast (cq_items cqueue)\<rparr>))"

definition cqueue_peek_head :: "'a cqueue \<Rightarrow> 'a option" where
  "cqueue_peek_head cqueue = (case cq_items cqueue of [] \<Rightarrow> None | x # xs \<Rightarrow> Some x)"

definition cqueue_peek_tail :: "'a cqueue \<Rightarrow> 'a option" where
  "cqueue_peek_tail cqueue = (if cq_items cqueue = [] then None else Some (last (cq_items cqueue)))"

definition cqueue_get :: "'a cqueue \<Rightarrow> ('a \<times> 'a cqueue) option" where
  "cqueue_get q = (case cqueue_pop_head q of (None, q') \<Rightarrow> None | (Some x, q') \<Rightarrow> Some (x, q'))"

interpretation cq: fifo "\<lambda>q. True" cq_items cq_max "\<lambda>x. True"
    "\<lambda>x q. snd (cqueue_push_tail True x q)" cqueue_get
  by unfold_locales (auto simp: cqueue_push_tail_def cqueue_get_def cqueue_pop_head_def
      cqueue_get_size_def split: list.splits)

lemma push_tail_cases: "cqueue_push_tail room x q =
    (if length (cq_items q) < cq_max q \<and> room then (ERR_SUCCESS, q\<lparr>cq_items := cq_items q @ [x]\<rparr>)
     else (if length (cq_items q) < cq_max q then ERR_NO_MEMORY else ERR_FAILURE, q))"
  by (simp add: cqueue_push_tail_def cqueue_get_size_def)

end
