(* ===== verification/ProtocolSM.thy ===== *)
theory ProtocolSM
  imports Queue
begin

text \<open>
  The protocol client state machine (\<open>protocol_client_sm.c\<close>): it takes requests from a queue, sends
  them over one socket with a protocol client, pairs the responses with the requests that were sent
  and calls the application back, also for requests that time out or are aborted. A tick is one call
  of \<open>protocol_client_sm_task\<close>; what the network, the protocol client, the clock and the callbacks of
  the application do in it is the argument \<open>tick\<close>.
\<close>

section \<open>Data\<close>

datatype sm_phase = SM_RESET | SM_CONNECT | SM_TRANSMIT | SM_FAILURE

datatype state_machine_type = SM_SYNCH | SM_ASYNCH

datatype request_type = REQUEST_NORMAL | REQUEST_SUBSCRIBE | REQUEST_SUBSCRIBE_ASYNCH

text \<open>A request; \<open>rq_id\<close> names the object, a new number for every object that is created.\<close>

record protocol_client_request =
  rq_id :: nat
  rq_type :: request_type
  rq_request :: nat
  rq_args :: nat
  rq_clb :: nat
  start_of_transmit :: sys_time
  message_id :: int

record protocol_client_response =
  payload :: string
  payload_size :: nat
  response_code :: int
  response_id :: int
  response_type :: request_type
  response_status :: bool

record transmission_config =
  connect_retries :: int
  transmission_retries :: int
  connect_timeout :: sys_time
  transmission_timeout :: sys_time
  sm_queue_size :: nat

text \<open>What the state machine does to the outside, and \<open>BadAccess\<close> for following a null pointer.\<close>

datatype sm_event =
    Sent protocol_client_request
  | Polled err
  | Called protocol_client_request protocol_client_response
  | Closed
  | BadAccess

record protocol_client_sm =
  sm_id :: nat
  stype :: state_machine_type
  always_disconnect :: bool
  paralell_request_limit :: int
  config :: transmission_config
  socket :: "nat option"
  connected :: bool
  transfer_queue :: "protocol_client_request cqueue"
  sent_request_list :: "protocol_client_request list"
  sent_request_num :: int
  active_request :: "protocol_client_request option"
  completed_request :: "protocol_client_request option"
  response :: protocol_client_response
  sm_state :: sm_phase
  retry_cnt :: int
  transmit_failures :: int
  abort_in_progress :: bool
  abort_done :: bool
  last_reset :: sys_time
  timeouts :: int
  created :: nat
  trace :: "sm_event list"

text \<open>The variables all state machines share: the one that is connecting, and the local variables
  of \<open>st_connect\<close> and of the task that are declared \<open>static\<close>.\<close>

record sm_shared =
  connecting_sm :: "nat option"
  start_time :: sys_time
  next_state :: sm_phase

text \<open>What an application does with a state machine, from its own thread or in a callback. The two
  flags are the results of the allocations.\<close>

datatype sm_call =
    Transmit bool bool request_type nat nat int nat
  | Clear

record sm_tick =
  now :: sys_time
  lookup_answer :: err
  socket_answer :: "err \<times> nat"
  connect_answer :: err
  send_answer :: err
  recv_answer :: err
  recv_code :: int
  recv_id :: int
  recv_payload :: string
  recv_status :: bool
  app :: "protocol_client_request \<Rightarrow> protocol_client_response \<Rightarrow> sm_call list"

definition emit :: "sm_event \<Rightarrow> protocol_client_sm \<Rightarrow> protocol_client_sm" where
  "emit e self = self\<lparr>trace := trace self @ [e]\<rparr>"

section \<open>Connecting\<close>

definition connect_wait :: "nat \<Rightarrow> sm_shared \<Rightarrow> err \<times> sm_shared" where
  "connect_wait me sh =
     (if connecting_sm sh = None \<or> connecting_sm sh = Some me
      then (ERR_SUCCESS, sh\<lparr>connecting_sm := Some me\<rparr>)
      else (ERR_BUSY, sh))"

definition connect_post :: "sm_shared \<Rightarrow> sm_shared" where
  "connect_post sh = sh\<lparr>connecting_sm := None\<rparr>"

definition create_socket :: "sm_tick \<Rightarrow> protocol_client_sm \<Rightarrow> err \<times> protocol_client_sm" where
  "create_socket t self =
     (if lookup_answer t \<noteq> ERR_SUCCESS then (lookup_answer t, self)
      else if fst (socket_answer t) \<noteq> ERR_SUCCESS then (fst (socket_answer t), self)
      else (ERR_SUCCESS, self\<lparr>socket := Some (snd (socket_answer t))\<rparr>))"

definition close_socket :: "protocol_client_sm \<Rightarrow> protocol_client_sm" where
  "close_socket self =
     (if socket self \<noteq> None
      then (emit Closed self)\<lparr>socket := None, connected := False, retry_cnt := 0\<rparr>
      else self)"

definition st_reset :: "sm_tick \<Rightarrow> protocol_client_sm \<Rightarrow> sm_phase \<times> protocol_client_sm" where
  "st_reset t self =
     (if diff_time (now t) (last_reset self) < 1000 then (SM_RESET, self)
      else (SM_TRANSMIT, close_socket (self\<lparr>last_reset := now t\<rparr>)))"

text \<open>The part of \<open>st_connect\<close> with a socket.\<close>

definition st_connect_socket ::
    "sm_tick \<Rightarrow> protocol_client_sm \<Rightarrow> sm_shared \<Rightarrow> sm_phase \<times> protocol_client_sm \<times> sm_shared" where
  "st_connect_socket t self sh =
     (if connected self then (SM_TRANSMIT, self, connect_post sh)
      else
        let (self, sh) = (if retry_cnt self = 0
              then (self\<lparr>retry_cnt := retry_cnt self + 1\<rparr>, sh\<lparr>start_time := now t\<rparr>)
              else (self, sh)) in
        if connect_answer t = ERR_SUCCESS then (SM_TRANSMIT, self\<lparr>connected := True\<rparr>, connect_post sh)
        else if connect_answer t = ERR_WOULD_BLOCK then
          (if diff_time (now t) (start_time sh) > connect_timeout (config self)
           then if retry_cnt self \<ge> connect_retries (config self) then SM_FAILURE else SM_RESET
           else SM_CONNECT, self, sh)
        else (SM_RESET, self, connect_post sh))"

definition st_connect ::
    "sm_tick \<Rightarrow> protocol_client_sm \<Rightarrow> sm_shared \<Rightarrow> sm_phase \<times> protocol_client_sm \<times> sm_shared" where
  "st_connect t self sh =
     (let (error, sh) = connect_wait (sm_id self) sh in
      if error \<noteq> ERR_SUCCESS then (SM_CONNECT, self, sh)
      else
        let (error, self) = (if socket self = None then create_socket t self else (ERR_SUCCESS, self)) in
        if error = ERR_WOULD_BLOCK then (SM_CONNECT, self, sh)
        else if error \<noteq> ERR_SUCCESS then (SM_RESET, self, sh)
        else st_connect_socket t self sh)"

definition st_failure :: "protocol_client_sm \<Rightarrow> sm_phase \<times> protocol_client_sm" where
  "st_failure self = (SM_RESET, self\<lparr>transmit_failures := 0\<rparr>)"

section \<open>The calls of the application\<close>

definition protocol_client_sm_is_queue_full :: "protocol_client_sm \<Rightarrow> bool" where
  "protocol_client_sm_is_queue_full self \<longleftrightarrow>
     cqueue_get_size (transfer_queue self) = sm_queue_size (config self)"

definition protocol_client_sm_transmit ::
    "bool \<Rightarrow> bool \<Rightarrow> request_type \<Rightarrow> nat \<Rightarrow> nat \<Rightarrow> int \<Rightarrow> nat \<Rightarrow> protocol_client_sm \<Rightarrow> err \<times> protocol_client_sm" where
  "protocol_client_sm_transmit alloc_request alloc_entry ty request args message resp_clb self =
     (if \<not> alloc_request then (ERR_NO_MEMORY, self)
      else
        let erequest = \<lparr>rq_id = created self, rq_type = ty, rq_request = request, rq_args = args,
              rq_clb = resp_clb, start_of_transmit = 0, message_id = message\<rparr>;
            (error, queue) = cqueue_push_tail alloc_entry erequest (transfer_queue self);
            self = self\<lparr>created := Suc (created self), transfer_queue := queue\<rparr>
        in if error \<noteq> ERR_SUCCESS then (error, self) else (ERR_SUCCESS, self))"

definition protocol_client_sm_clear :: "protocol_client_sm \<Rightarrow> protocol_client_sm" where
  "protocol_client_sm_clear self = self\<lparr>abort_in_progress := True\<rparr>"

definition protocol_client_sm_is_empty :: "protocol_client_sm \<Rightarrow> bool" where
  "protocol_client_sm_is_empty self \<longleftrightarrow> \<not> abort_in_progress self"

fun sm_do :: "sm_call \<Rightarrow> protocol_client_sm \<Rightarrow> protocol_client_sm" where
  "sm_do (Transmit a b ty request args message clb) self =
     snd (protocol_client_sm_transmit a b ty request args message clb self)"
| "sm_do Clear self = protocol_client_sm_clear self"

section \<open>Transmitting\<close>

definition st_new_transmit :: "sm_tick \<Rightarrow> protocol_client_sm \<Rightarrow> protocol_client_sm" where
  "st_new_transmit t self =
     (if abort_in_progress self then self
      else if active_request self = None \<and> \<not> cqueue_is_empty (transfer_queue self) \<and>
        (paralell_request_limit self = 0 \<or> paralell_request_limit self > sent_request_num self)
      then
        (case cqueue_pop_head (transfer_queue self) of
           (None, queue) \<Rightarrow> emit BadAccess self
         | (Some request, queue) \<Rightarrow>
             self\<lparr>transfer_queue := queue,
                  active_request := Some (request\<lparr>start_of_transmit := now t\<rparr>)\<rparr>)
      else self)"

definition st_send_request :: "sm_tick \<Rightarrow> protocol_client_sm \<Rightarrow> err \<times> protocol_client_sm" where
  "st_send_request t self =
     (case active_request self of
        None \<Rightarrow> (ERR_SUCCESS, self)
      | Some request \<Rightarrow>
          if send_answer t = ERR_SUCCESS then
            (ERR_SUCCESS, (emit (Sent request) self)
              \<lparr>sent_request_list := request # sent_request_list self,
               sent_request_num := sent_request_num self + 1, active_request := None\<rparr>)
          else if send_answer t = ERR_WOULD_BLOCK then
            (if diff_time (now t) (start_of_transmit request) > transmission_timeout (config self)
             then ERR_TIMEOUT else ERR_WOULD_BLOCK, self)
          else (send_answer t, self))"

definition st_recv_response :: "sm_tick \<Rightarrow> protocol_client_sm \<Rightarrow> err \<times> protocol_client_sm" where
  "st_recv_response t self =
     (let self = emit (Polled (recv_answer t)) self;
          resp = (response self)\<lparr>response_id := recv_id t, payload := recv_payload t\<rparr>;
          resp = (if recv_answer t = ERR_SUCCESS then
                    resp\<lparr>response_code := recv_code t, payload_size := length (recv_payload t),
                         response_status := recv_status t\<rparr>
                  else if recv_answer t = ERR_WOULD_BLOCK then resp
                  else resp\<lparr>response_code := err_code (recv_answer t), payload_size := 0\<rparr>)
      in (recv_answer t, self\<lparr>response := resp\<rparr>))"

text \<open>\<open>list_del\<close> unlinks the request from the list it is in, if any.\<close>

definition st_transmit_complete :: "sm_tick \<Rightarrow> protocol_client_sm \<Rightarrow> protocol_client_sm" where
  "st_transmit_complete t self =
     (case completed_request self of
        None \<Rightarrow> emit BadAccess self
      | Some request \<Rightarrow>
          let resp = (response self)\<lparr>response_type := rq_type request\<rparr>;
              self = (emit (Called request resp) self)\<lparr>response := resp\<rparr>;
              self = fold sm_do (app t request resp) self
          in
          if stype self = SM_ASYNCH \<and> rq_type request = REQUEST_SUBSCRIBE_ASYNCH \<and>
             \<not> abort_in_progress self \<and> response_status (response self)
          then self\<lparr>completed_request := None\<rparr>
          else self\<lparr>sent_request_list := filter (\<lambda>r. rq_id r \<noteq> rq_id request) (sent_request_list self),
                    completed_request := None,
                    sent_request_num := (if sent_request_num self \<noteq> 0 then sent_request_num self - 1 else 0)\<rparr>)"

definition pair_request_to_response :: "protocol_client_sm \<Rightarrow> bool \<times> protocol_client_sm" where
  "pair_request_to_response self =
     (case find (\<lambda>r. message_id r = response_id (response self)) (sent_request_list self) of
        Some request \<Rightarrow> (True, self\<lparr>completed_request := Some request\<rparr>)
      | None \<Rightarrow> (False, self))"

text \<open>What \<open>check_timeout\<close> and \<open>abort_transfers\<close> do with the request they give up.\<close>

definition give_up :: "err \<Rightarrow> protocol_client_request \<Rightarrow> protocol_client_sm \<Rightarrow> protocol_client_sm" where
  "give_up error request self =
     self\<lparr>response := (response self)\<lparr>response_code := err_code error, payload_size := 0\<rparr>,
          completed_request := Some request, active_request := None\<rparr>"

definition repeating :: "protocol_client_sm \<Rightarrow> protocol_client_request \<Rightarrow> bool" where
  "repeating self request \<longleftrightarrow> stype self = SM_ASYNCH \<and> rq_type request = REQUEST_SUBSCRIBE_ASYNCH"

definition expired :: "sm_tick \<Rightarrow> protocol_client_sm \<Rightarrow> protocol_client_request \<Rightarrow> bool" where
  "expired t self request \<longleftrightarrow>
     diff_time (now t) (start_of_transmit request) > transmission_timeout (config self)"

definition check_timeout :: "sm_tick \<Rightarrow> protocol_client_sm \<Rightarrow> bool \<times> protocol_client_sm" where
  "check_timeout t self =
     (case find (\<lambda>r. \<not> repeating self r \<and> expired t self r) (sent_request_list self) of
        Some request \<Rightarrow> (True, (give_up ERR_TIMEOUT request self)\<lparr>timeouts := timeouts self + 1\<rparr>)
      | None \<Rightarrow>
          (case active_request self of
             None \<Rightarrow> (False, self)
           | Some request \<Rightarrow>
               if expired t self request
               then (True, (give_up ERR_TIMEOUT request self)\<lparr>timeouts := timeouts self + 1\<rparr>)
               else (False, self)))"

definition abort_transfers :: "protocol_client_sm \<Rightarrow> bool \<times> protocol_client_sm" where
  "abort_transfers self =
     (if \<not> abort_in_progress self then (False, self)
      else
        (case cqueue_pop_head (transfer_queue self) of
           (Some request, queue) \<Rightarrow>
             (True, give_up ERR_REQUEST_ABORTED request (self\<lparr>transfer_queue := queue\<rparr>))
         | (None, queue) \<Rightarrow>
             (case sent_request_list self of
                request # rest \<Rightarrow> (True, give_up ERR_REQUEST_ABORTED request self)
              | [] \<Rightarrow>
                  (case active_request self of
                     Some request \<Rightarrow> (True, give_up ERR_REQUEST_ABORTED request self)
                   | None \<Rightarrow> (False, self\<lparr>abort_in_progress := False, abort_done := True\<rparr>)))))"

definition complete_if :: "sm_tick \<Rightarrow> bool \<times> protocol_client_sm \<Rightarrow> protocol_client_sm" where
  "complete_if t r = (if fst r then st_transmit_complete t (snd r) else snd r)"

text \<open>Sending and receiving, when there is a connection.\<close>

definition count_failure :: "bool \<Rightarrow> protocol_client_sm \<Rightarrow> protocol_client_sm" where
  "count_failure failed self =
     (if failed then self\<lparr>transmit_failures := transmit_failures self + 1\<rparr> else self)"

definition exchange :: "sm_tick \<Rightarrow> protocol_client_sm \<Rightarrow> bool \<times> protocol_client_sm" where
  "exchange t self =
     (let (error, self) = st_send_request t self;
          self = count_failure (error \<notin> {ERR_SUCCESS, ERR_WOULD_BLOCK}) self;
          (error, self) = st_recv_response t self
      in if error \<in> {ERR_SUCCESS, ERR_OVERFLOW} then pair_request_to_response self
         else (False, count_failure (error \<noteq> ERR_WOULD_BLOCK) self))"

text \<open>The end of \<open>st_transmit\<close>: whether the socket is given up.\<close>

definition wind_up :: "bool \<Rightarrow> sm_phase \<Rightarrow> protocol_client_sm \<Rightarrow> sm_phase \<times> protocol_client_sm" where
  "wind_up some_completed nxt self =
     (let nxt = (if always_disconnect self \<and> some_completed then SM_RESET else nxt);
          (nxt, self) = (if timeouts self > 5 then (SM_RESET, self\<lparr>timeouts := 0\<rparr>) else (nxt, self));
          (nxt, self) = (if abort_done self then (SM_RESET, self\<lparr>abort_done := False\<rparr>) else (nxt, self));
          nxt = (if nxt = SM_CONNECT then SM_TRANSMIT else nxt)
      in (nxt, if nxt = SM_RESET then close_socket self else self))"

definition st_transmit ::
    "sm_tick \<Rightarrow> protocol_client_sm \<Rightarrow> sm_shared \<Rightarrow> sm_phase \<times> protocol_client_sm \<times> sm_shared" where
  "st_transmit t self sh =
     (let (nxt, self, sh) = st_connect t (st_new_transmit t self) sh;
          (completed, self) = (if nxt = SM_TRANSMIT then exchange t self else (False, self));
          self = complete_if t (completed, self);
          (completed_with_timeout, self) = check_timeout t self;
          self = complete_if t (completed_with_timeout, self);
          (completed_aborted, self) = abort_transfers self;
          self = complete_if t (completed_aborted, self);
          (nxt, self) = wind_up (completed \<or> completed_with_timeout \<or> completed_aborted) nxt self
      in (nxt, self, sh))"

definition protocol_client_sm_task ::
    "sm_tick \<Rightarrow> protocol_client_sm \<times> sm_shared \<Rightarrow> protocol_client_sm \<times> sm_shared" where
  "protocol_client_sm_task t = (\<lambda>(self, sh).
     let (nxt, self, sh) =
           (case sm_state self of
              SM_RESET \<Rightarrow> (let (n, s) = st_reset t self in (n, s, sh))
            | SM_TRANSMIT \<Rightarrow> st_transmit t self sh
            | SM_FAILURE \<Rightarrow> (let (n, s) = st_failure self in (n, s, sh))
            | SM_CONNECT \<Rightarrow> (next_state sh, self, sh));
         nxt = (if transmit_failures self > transmission_retries (config self) then SM_FAILURE else nxt)
     in (self\<lparr>sm_state := nxt\<rparr>, sh\<lparr>next_state := nxt\<rparr>))"

text \<open>\<open>protocol_client_sm_new\<close>, for the configuration of a protocol: its kind of state machine and
  its limit of parallel requests. The flags are the results of the allocations and of creating the
  mutex.\<close>

definition protocol_client_sm_new ::
    "bool \<Rightarrow> bool \<Rightarrow> bool \<Rightarrow> bool \<Rightarrow> bool \<Rightarrow> nat \<Rightarrow> state_machine_type \<Rightarrow> int \<Rightarrow> transmission_config \<Rightarrow>
     protocol_client_response \<Rightarrow> err + protocol_client_sm" where
  "protocol_client_sm_new has_client alloc_sm alloc_name alloc_queue mutex me ty limit conf garbage =
     (if \<not> has_client then Inl ERR_BAD_ARGS
      else if \<not> alloc_sm then Inl ERR_NO_MEMORY
      else if \<not> alloc_name then Inl ERR_NO_MEMORY
      else case cqueue_new alloc_queue True True (sm_queue_size conf) of
          None \<Rightarrow> Inl ERR_NO_MEMORY
        | Some queue \<Rightarrow>
            if \<not> mutex then Inl ERR_FAILURE
            else Inr \<lparr>sm_id = me, stype = ty, always_disconnect = False, paralell_request_limit = limit,
                      config = conf, socket = None, connected = False, transfer_queue = queue,
                      sent_request_list = [], sent_request_num = 0, active_request = None,
                      completed_request = None, response = garbage, sm_state = SM_RESET, retry_cnt = 0,
                      transmit_failures = 0, abort_in_progress = False, abort_done = False,
                      last_reset = 0, timeouts = 0, created = 0, trace = []\<rparr>)"

end
