(* ===== verification/ProtocolInv.thy ===== *)
theory ProtocolInv
  imports ProtocolSM "HOL-Library.Multiset"
begin

text \<open>
  What the protocol client state machine keeps in every reachable state: the state of its socket,
  its counters, and the accounting of the requests, each of which is in one place and is answered
  at most once. A request can only get lost in one way, which is characterised here.
\<close>

section \<open>Frames\<close>

lemma sm_do_frame [state_simps]:
  "sent_request_list (sm_do c s) = sent_request_list s" "sent_request_num (sm_do c s) = sent_request_num s"
  "active_request (sm_do c s) = active_request s" "completed_request (sm_do c s) = completed_request s"
  "trace (sm_do c s) = trace s" "stype (sm_do c s) = stype s" "config (sm_do c s) = config s"
  "socket (sm_do c s) = socket s" "connected (sm_do c s) = connected s" "retry_cnt (sm_do c s) = retry_cnt s"
  "transmit_failures (sm_do c s) = transmit_failures s" "timeouts (sm_do c s) = timeouts s"
  "sm_state (sm_do c s) = sm_state s" "response (sm_do c s) = response s" "sm_id (sm_do c s) = sm_id s"
  "abort_done (sm_do c s) = abort_done s" "always_disconnect (sm_do c s) = always_disconnect s"
  "paralell_request_limit (sm_do c s) = paralell_request_limit s" "last_reset (sm_do c s) = last_reset s"
  by (cases c; simp add: protocol_client_sm_transmit_def protocol_client_sm_clear_def push_tail_cases Let_def)+

lemma fold_frame: "(\<And>c s. f (sm_do c s) = f s) \<Longrightarrow> f (fold sm_do cs s) = f s"
  by (induction cs arbitrary: s) simp_all

lemmas sm_dos_frame [state_simps] = sm_do_frame [THEN fold_frame]

text \<open>What the application adds: new requests at the end of the queue, within its size.\<close>

lemma sm_dos_queue:
  "\<exists>new. cq_items (transfer_queue (fold sm_do cs s)) = cq_items (transfer_queue s) @ new \<and>
     cq_max (transfer_queue (fold sm_do cs s)) = cq_max (transfer_queue s) \<and>
     distinct (map rq_id new) \<and> created s \<le> created (fold sm_do cs s) \<and>
     (\<forall>r \<in> set new. created s \<le> rq_id r \<and> rq_id r < created (fold sm_do cs s)) \<and>
     (length (cq_items (transfer_queue s)) \<le> cq_max (transfer_queue s) \<longrightarrow>
      length (cq_items (transfer_queue s) @ new) \<le> cq_max (transfer_queue s))"
proof (induction cs arbitrary: s)
  case (Cons c cs)
  have "\<exists>new. cq_items (transfer_queue (sm_do c s)) = cq_items (transfer_queue s) @ new \<and>
     cq_max (transfer_queue (sm_do c s)) = cq_max (transfer_queue s) \<and>
     distinct (map rq_id new) \<and> created s \<le> created (sm_do c s) \<and>
     (\<forall>r \<in> set new. created s \<le> rq_id r \<and> rq_id r < created (sm_do c s)) \<and>
     (length (cq_items (transfer_queue s)) \<le> cq_max (transfer_queue s) \<longrightarrow>
      length (cq_items (transfer_queue s) @ new) \<le> cq_max (transfer_queue s))"
    by (cases c) (simp_all add: protocol_client_sm_transmit_def protocol_client_sm_clear_def
        push_tail_cases Let_def)
  then obtain n1 where n1: "cq_items (transfer_queue (sm_do c s)) = cq_items (transfer_queue s) @ n1"
    "cq_max (transfer_queue (sm_do c s)) = cq_max (transfer_queue s)" "distinct (map rq_id n1)"
    "created s \<le> created (sm_do c s)" "\<forall>r \<in> set n1. created s \<le> rq_id r \<and> rq_id r < created (sm_do c s)"
    "length (cq_items (transfer_queue s)) \<le> cq_max (transfer_queue s) \<longrightarrow>
      length (cq_items (transfer_queue s) @ n1) \<le> cq_max (transfer_queue s)" by blast
  obtain n2 where n2: "cq_items (transfer_queue (fold sm_do cs (sm_do c s))) = cq_items (transfer_queue (sm_do c s)) @ n2"
    "cq_max (transfer_queue (fold sm_do cs (sm_do c s))) = cq_max (transfer_queue (sm_do c s))"
    "distinct (map rq_id n2)" "created (sm_do c s) \<le> created (fold sm_do cs (sm_do c s))"
    "\<forall>r \<in> set n2. created (sm_do c s) \<le> rq_id r \<and> rq_id r < created (fold sm_do cs (sm_do c s))"
    "length (cq_items (transfer_queue (sm_do c s))) \<le> cq_max (transfer_queue (sm_do c s)) \<longrightarrow>
      length (cq_items (transfer_queue (sm_do c s)) @ n2) \<le> cq_max (transfer_queue (sm_do c s))"
    using Cons.IH [of "sm_do c s"] by blast
  have "distinct (map rq_id (n1 @ n2))" using n1(3,5) n2(3,5) by fastforce
  then show ?case using n1 n2 by (intro exI [of _ "n1 @ n2"]) fastforce
qed simp

lemma sm_dos_abort: "abort_in_progress s \<Longrightarrow> abort_in_progress (fold sm_do cs s)"
proof (induction cs arbitrary: s)
  case (Cons c cs)
  then show ?case
    by (cases c) (simp_all add: protocol_client_sm_transmit_def protocol_client_sm_clear_def push_tail_cases Let_def)
qed simp

section \<open>Accounting\<close>

lemma disjoint_if: "(\<And>x. x \<in> A \<Longrightarrow> f x \<in> B \<Longrightarrow> False) \<Longrightarrow> f ` A \<inter> B = {}"
  by auto

primrec calls :: "sm_event list \<Rightarrow> (protocol_client_request \<times> protocol_client_response) list" where
  "calls [] = []"
| "calls (e # tr) = (case e of Called r p \<Rightarrow> (r, p) # calls tr | _ \<Rightarrow> calls tr)"

lemma calls_append [simp]: "calls (a @ b) = calls a @ calls b"
  by (induction a) (auto split: sm_event.split)

definition pending :: "protocol_client_sm \<Rightarrow> protocol_client_request list" where
  "pending s = cq_items (transfer_queue s) @ sent_request_list s @
     (case active_request s of None \<Rightarrow> [] | Some r \<Rightarrow> [r])"

definition once_called :: "protocol_client_sm \<Rightarrow> nat list" where
  "once_called s = map (rq_id \<circ> fst) (filter (\<lambda>c. \<not> repeating s (fst c)) (calls (trace s)))"

definition reqs_ok :: "protocol_client_sm \<Rightarrow> bool" where
  "reqs_ok s \<longleftrightarrow> distinct (map rq_id (pending s)) \<and> distinct (once_called s) \<and>
     rq_id ` set (pending s) \<inter> set (once_called s) = {} \<and>
     (\<forall>i \<in> rq_id ` set (pending s) \<union> set (once_called s). i < created s) \<and>
     BadAccess \<notin> set (trace s) \<and>
     length (cq_items (transfer_queue s)) \<le> cq_max (transfer_queue s)"

text \<open>A request that is about to be completed.\<close>

definition due :: "protocol_client_request \<Rightarrow> protocol_client_sm \<Rightarrow> bool" where
  "due r s \<longleftrightarrow> completed_request s = Some r \<and>
     (r \<in> set (sent_request_list s) \<or>
      rq_id r \<notin> rq_id ` set (pending s) \<and> rq_id r \<notin> set (once_called s) \<and> rq_id r < created s)"

lemma complete_effect:
  assumes "completed_request s = Some r"
  obtains new s' where "st_transmit_complete t s = s'"
    "trace s' = trace s @ [Called r ((response s)\<lparr>response_type := rq_type r\<rparr>)]"
    "cq_items (transfer_queue s') = cq_items (transfer_queue s) @ new"
    "cq_max (transfer_queue s') = cq_max (transfer_queue s)"
    "distinct (map rq_id new)" "created s \<le> created s'"
    "\<forall>x \<in> set new. created s \<le> rq_id x \<and> rq_id x < created s'"
    "length (cq_items (transfer_queue s)) \<le> cq_max (transfer_queue s) \<Longrightarrow>
      length (cq_items (transfer_queue s')) \<le> cq_max (transfer_queue s')"
    "repeating s r \<and> \<not> abort_in_progress s \<and> sent_request_list s' = sent_request_list s \<and> sent_request_num s' = sent_request_num s \<or>
     sent_request_list s' = filter (\<lambda>q. rq_id q \<noteq> rq_id r) (sent_request_list s) \<and>
     sent_request_num s' = (if sent_request_num s \<noteq> 0 then sent_request_num s - 1 else 0)"
    "active_request s' = active_request s" "stype s' = stype s" "completed_request s' = None"
proof -
  let ?p = "(response s)\<lparr>response_type := rq_type r\<rparr>"
  let ?s = "(emit (Called r ?p) s)\<lparr>response := ?p\<rparr>"
  obtain new where new: "cq_items (transfer_queue (fold sm_do (app t r ?p) ?s)) = cq_items (transfer_queue ?s) @ new"
    "cq_max (transfer_queue (fold sm_do (app t r ?p) ?s)) = cq_max (transfer_queue ?s)"
    "distinct (map rq_id new)" "created ?s \<le> created (fold sm_do (app t r ?p) ?s)"
    "\<forall>x \<in> set new. created ?s \<le> rq_id x \<and> rq_id x < created (fold sm_do (app t r ?p) ?s)"
    "length (cq_items (transfer_queue ?s)) \<le> cq_max (transfer_queue ?s) \<longrightarrow>
      length (cq_items (transfer_queue ?s) @ new) \<le> cq_max (transfer_queue ?s)"
    using sm_dos_queue [of "app t r ?p" ?s] by blast
  have ab: "abort_in_progress s \<Longrightarrow> abort_in_progress (fold sm_do (app t r ?p) ?s)"
    by (rule sm_dos_abort) (simp add: emit_def)
  show thesis
    by (rule that [of "st_transmit_complete t s" new])
      (use assms new ab in \<open>auto simp: st_transmit_complete_def Let_def state_simps emit_def repeating_def\<close>)
qed

lemma complete_reqs:
  assumes ok: "reqs_ok s" and due: "due r s"
  shows "reqs_ok (st_transmit_complete t s)"
proof -
  from due have c: "completed_request s = Some r" by (simp add: due_def)
  show ?thesis
  proof (rule complete_effect [OF c, of t])
    fix new s'
    assume e: "st_transmit_complete t s = s'"
      "trace s' = trace s @ [Called r ((response s)\<lparr>response_type := rq_type r\<rparr>)]"
      "cq_items (transfer_queue s') = cq_items (transfer_queue s) @ new"
      "distinct (map rq_id new)" "created s \<le> created s'"
      "\<forall>x \<in> set new. created s \<le> rq_id x \<and> rq_id x < created s'"
      "length (cq_items (transfer_queue s)) \<le> cq_max (transfer_queue s) \<Longrightarrow>
        length (cq_items (transfer_queue s')) \<le> cq_max (transfer_queue s')"
      "repeating s r \<and> \<not> abort_in_progress s \<and> sent_request_list s' = sent_request_list s \<and> sent_request_num s' = sent_request_num s \<or>
       sent_request_list s' = filter (\<lambda>q. rq_id q \<noteq> rq_id r) (sent_request_list s) \<and>
       sent_request_num s' = (if sent_request_num s \<noteq> 0 then sent_request_num s - 1 else 0)"
      "active_request s' = active_request s" "stype s' = stype s"
    have rep: "repeating s' = repeating s" using e(10) by (simp add: repeating_def fun_eq_iff)
    have oc: "once_called s' = once_called s @ (if repeating s r then [] else [rq_id r])"
      by (simp add: once_called_def e(2) rep)
    let ?q = "cq_items (transfer_queue s)" and ?a = "case active_request s of None \<Rightarrow> [] | Some r \<Rightarrow> [r]"
    have p: "pending s' = ?q @ new @ sent_request_list s' @ ?a" by (simp add: pending_def e(3,9))
    have sub: "set (pending s') \<subseteq> set (pending s) \<union> set new" using e(8) unfolding p pending_def [of s] by auto
    have below: "\<forall>i \<in> rq_id ` set (pending s) \<union> set (once_called s). i < created s"
      using ok by (simp add: reqs_ok_def)
    have sent: "set (sent_request_list s) \<subseteq> set (pending s)" by (auto simp: pending_def)
    have rb: "rq_id r < created s" using due below sent by (auto simp: due_def)
    have above: "\<not> created s \<le> i \<Longrightarrow> i \<notin> rq_id ` set new" for i using e(6) by auto
    have new: "rq_id ` set new \<inter> rq_id ` set (pending s) = {}" "rq_id ` set new \<inter> set (once_called s) = {}"
      "rq_id r \<notin> rq_id ` set new" "rq_id r < created s"
      using below above rb by (auto simp: disjoint_iff not_le)
    have "distinct (map rq_id (?q @ sent_request_list s' @ ?a))"
      using ok e(8) distinct_mid_filter [of rq_id ?q "sent_request_list s" ?a] unfolding reqs_ok_def pending_def [of s]
      by (elim disjE) simp_all
    moreover have "rq_id ` set new \<inter> rq_id ` set (?q @ sent_request_list s' @ ?a) = {}"
      using new(1) e(8) unfolding pending_def [of s] by (elim disjE) auto
    ultimately have "distinct (map rq_id (pending s'))"
      unfolding p using e(4) by (auto simp only: map_append distinct_append set_append set_map image_Un)
    then have nodup: "distinct (map rq_id (pending s'))" .
    have once: "distinct (once_called s')"
      using ok due by (auto simp: oc reqs_ok_def due_def pending_def [of s])
    have nr: "rq_id r \<notin> rq_id ` set (pending s') \<or> repeating s r"
      using ok due e(8) new(3) by (auto simp: p reqs_ok_def due_def pending_def [of s] inj_on_def image_iff)
    moreover have "rq_id ` set (pending s') \<inter> set (once_called s') = {}"
    proof (rule disjoint_if)
      fix x assume x: "x \<in> set (pending s')" and y: "rq_id x \<in> set (once_called s')"
      have "rq_id x \<notin> set (once_called s)"
        using x sub new(2) ok by (auto simp: reqs_ok_def disjoint_iff)
      with y have "rq_id x = rq_id r" "\<not> repeating s r" by (auto simp: oc split: if_splits)
      with nr x show False by (metis imageI)
    qed
    moreover have "\<forall>i \<in> rq_id ` set (pending s') \<union> set (once_called s'). i < created s'"
    proof
      fix i assume i: "i \<in> rq_id ` set (pending s') \<union> set (once_called s')"
      then have "i \<in> rq_id ` set (pending s) \<union> set (once_called s) \<or> i \<in> rq_id ` set new \<or> i = rq_id r"
        using sub by (auto simp: oc split: if_splits)
      then show "i < created s'"
        using below rb e(5,6) by (elim disjE) (blast intro: less_le_trans)+
    qed
    ultimately show ?thesis using ok e(2,7) nodup once by (simp add: reqs_ok_def e(1))
  qed
qed

lemma complete_frame [state_simps]:
  "active_request (st_transmit_complete t s) = active_request s"
  "stype (st_transmit_complete t s) = stype s" "config (st_transmit_complete t s) = config s"
  "socket (st_transmit_complete t s) = socket s" "connected (st_transmit_complete t s) = connected s"
  "retry_cnt (st_transmit_complete t s) = retry_cnt s"
  "transmit_failures (st_transmit_complete t s) = transmit_failures s"
  "timeouts (st_transmit_complete t s) = timeouts s" "sm_state (st_transmit_complete t s) = sm_state s"
  "abort_done (st_transmit_complete t s) = abort_done s" "sm_id (st_transmit_complete t s) = sm_id s"
  by (cases "completed_request s"; simp add: st_transmit_complete_def Let_def state_simps emit_def)+

lemma give_up_frame [state_simps]:
  "sent_request_list (give_up e r s) = sent_request_list s" "sent_request_num (give_up e r s) = sent_request_num s"
  "transfer_queue (give_up e r s) = transfer_queue s" "trace (give_up e r s) = trace s"
  "stype (give_up e r s) = stype s" "config (give_up e r s) = config s" "created (give_up e r s) = created s"
  "socket (give_up e r s) = socket s" "connected (give_up e r s) = connected s" "retry_cnt (give_up e r s) = retry_cnt s"
  "transmit_failures (give_up e r s) = transmit_failures s" "timeouts (give_up e r s) = timeouts s"
  "sm_state (give_up e r s) = sm_state s" "abort_done (give_up e r s) = abort_done s" "sm_id (give_up e r s) = sm_id s"
  "completed_request (give_up e r s) = Some r" "active_request (give_up e r s) = None"
  "response_code (response (give_up e r s)) = err_code e" "abort_in_progress (give_up e r s) = abort_in_progress s"
  by (simp_all add: give_up_def)

lemma connect_effect:
  obtains so co re where "fst (snd (st_connect t s sh)) = s\<lparr>socket := so, connected := co, retry_cnt := re\<rparr>"
proof -
  have "\<exists>so co re. fst (snd (st_connect t s sh)) = s\<lparr>socket := so, connected := co, retry_cnt := re\<rparr>"
    (is "\<exists>so co re. ?P so co re")
  proof -
    have "?P (socket (fst (snd (st_connect t s sh)))) (connected (fst (snd (st_connect t s sh))))
        (retry_cnt (fst (snd (st_connect t s sh))))"
      by (simp add: st_connect_def st_connect_socket_def create_socket_def Let_def case_prod_unfold)
    then show ?thesis by blast
  qed
  with that show thesis by blast
qed

lemma connect_frame [state_simps]:
  "sent_request_list (fst (snd (st_connect t s sh))) = sent_request_list s"
  "sent_request_num (fst (snd (st_connect t s sh))) = sent_request_num s"
  "transfer_queue (fst (snd (st_connect t s sh))) = transfer_queue s"
  "active_request (fst (snd (st_connect t s sh))) = active_request s"
  "trace (fst (snd (st_connect t s sh))) = trace s" "stype (fst (snd (st_connect t s sh))) = stype s"
  "created (fst (snd (st_connect t s sh))) = created s" "config (fst (snd (st_connect t s sh))) = config s"
  "transmit_failures (fst (snd (st_connect t s sh))) = transmit_failures s"
  "timeouts (fst (snd (st_connect t s sh))) = timeouts s"
  "abort_in_progress (fst (snd (st_connect t s sh))) = abort_in_progress s"
  "abort_done (fst (snd (st_connect t s sh))) = abort_done s"
  "sm_id (fst (snd (st_connect t s sh))) = sm_id s"
  by (rule connect_effect [of t s sh]; simp)+

text \<open>What a phase may do to the requests in flight: at most send the active one.\<close>

definition moved :: "protocol_client_sm \<Rightarrow> protocol_client_sm \<Rightarrow> bool" where
  "moved s s' \<longleftrightarrow> transfer_queue s' = transfer_queue s \<and> stype s' = stype s \<and> created s' = created s \<and>
     config s' = config s \<and> timeouts s' = timeouts s \<and> abort_in_progress s' = abort_in_progress s \<and>
     calls (trace s') = calls (trace s) \<and> (BadAccess \<in> set (trace s') \<longrightarrow> BadAccess \<in> set (trace s)) \<and>
     (active_request s' = active_request s \<and> sent_request_list s' = sent_request_list s \<and>
        sent_request_num s' = sent_request_num s \<or>
      (\<exists>q. active_request s = Some q \<and> active_request s' = None \<and>
        sent_request_list s' = q # sent_request_list s \<and> sent_request_num s' = sent_request_num s + 1))"

lemma exchange_moved: "moved s (snd (exchange t s))"
  by (cases "active_request s")
    (auto simp: moved_def exchange_def st_send_request_def st_recv_response_def pair_request_to_response_def
      count_failure_def emit_def Let_def split: option.split)

lemma exchange_frame [state_simps]:
  "socket (snd (exchange t s)) = socket s" "connected (snd (exchange t s)) = connected s"
  "retry_cnt (snd (exchange t s)) = retry_cnt s" "abort_done (snd (exchange t s)) = abort_done s"
  "sm_id (snd (exchange t s)) = sm_id s"
  by (cases "active_request s";
      auto simp: exchange_def st_send_request_def st_recv_response_def pair_request_to_response_def
      count_failure_def emit_def Let_def split: option.split)+

lemma exchange_failures:
  "transmit_failures s \<le> transmit_failures (snd (exchange t s))"
  "transmit_failures (snd (exchange t s)) \<le> transmit_failures s + 2"
  by (cases "active_request s";
      auto simp: exchange_def st_send_request_def st_recv_response_def pair_request_to_response_def
      count_failure_def emit_def Let_def split: option.split)+

lemma exchange_completed: "fst (exchange t s) \<Longrightarrow>
    \<exists>r \<in> set (sent_request_list (snd (exchange t s))). completed_request (snd (exchange t s)) = Some r"
proof -
  assume a: "fst (exchange t s)"
  define u where "u = snd (st_recv_response t (count_failure (fst (st_send_request t s) \<notin> {ERR_SUCCESS, ERR_WOULD_BLOCK})
    (snd (st_send_request t s))))"
  have "exchange t s = pair_request_to_response u"
    using a by (auto simp: exchange_def Let_def case_prod_unfold u_def split: if_splits)
  with a show ?thesis
    by (auto simp: pair_request_to_response_def split: option.splits dest: find_in)
qed

lemma moved_pending:
  assumes "moved s s'"
  shows "rq_id ` set (pending s') = rq_id ` set (pending s)" "mset (map rq_id (pending s')) = mset (map rq_id (pending s))"
  using assms by (auto simp: moved_def pending_def)

lemma moved_reqs: "moved s s' \<Longrightarrow> reqs_ok s \<Longrightarrow> reqs_ok s'"
proof -
  assume m: "moved s s'" and ok: "reqs_ok s"
  have "repeating s' = repeating s" "once_called s' = once_called s"
    using m by (auto simp: moved_def repeating_def once_called_def fun_eq_iff)
  moreover have "distinct (map rq_id (pending s'))"
    using moved_pending(2) [OF m] ok unfolding reqs_ok_def by (metis mset_eq_imp_distinct_iff)
  ultimately show ?thesis using m ok moved_pending(1) [OF m] by (auto simp: reqs_ok_def moved_def)
qed

lemma connect_moved: "moved s (fst (snd (st_connect t s sh)))"
  by (simp add: moved_def state_simps)

lemma new_transmit_frame [state_simps]:
  "socket (st_new_transmit t s) = socket s" "connected (st_new_transmit t s) = connected s"
  "retry_cnt (st_new_transmit t s) = retry_cnt s" "abort_done (st_new_transmit t s) = abort_done s"
  "sm_id (st_new_transmit t s) = sm_id s" "transmit_failures (st_new_transmit t s) = transmit_failures s"
  "timeouts (st_new_transmit t s) = timeouts s" "config (st_new_transmit t s) = config s"
  "trace (st_new_transmit t s) = trace s" "stype (st_new_transmit t s) = stype s"
  "sent_request_list (st_new_transmit t s) = sent_request_list s" "created (st_new_transmit t s) = created s"
  "sent_request_num (st_new_transmit t s) = sent_request_num s" "abort_in_progress (st_new_transmit t s) = abort_in_progress s"
  by (cases "cq_items (transfer_queue s)";
      simp add: st_new_transmit_def cqueue_pop_head_def cqueue_is_empty_def)+

lemma new_transmit_pending:
  "mset (map rq_id (pending (st_new_transmit t s))) = mset (map rq_id (pending s))"
  "rq_id ` set (pending (st_new_transmit t s)) = rq_id ` set (pending s)"
  by (cases "cq_items (transfer_queue s)"; auto simp: pending_def st_new_transmit_def
      cqueue_pop_head_def cqueue_is_empty_def)+

lemma new_transmit_reqs: "reqs_ok s \<Longrightarrow> reqs_ok (st_new_transmit t s)"
proof -
  assume ok: "reqs_ok s"
  have "repeating (st_new_transmit t s) = repeating s" "once_called (st_new_transmit t s) = once_called s"
    by (auto simp: repeating_def once_called_def state_simps)
  moreover have "distinct (map rq_id (pending (st_new_transmit t s)))"
    using new_transmit_pending(1) [of t s] ok unfolding reqs_ok_def by (metis mset_eq_imp_distinct_iff)
  moreover have "length (cq_items (transfer_queue (st_new_transmit t s))) \<le> cq_max (transfer_queue (st_new_transmit t s))"
    using ok by (cases "cq_items (transfer_queue s)") (auto simp: reqs_ok_def st_new_transmit_def
      cqueue_pop_head_def cqueue_is_empty_def)
  ultimately show ?thesis using ok by (auto simp: reqs_ok_def state_simps new_transmit_pending(2))
qed

text \<open>Giving a request up drops the active request, whichever request it is.\<close>

definition gives_up :: "err \<Rightarrow> protocol_client_request \<Rightarrow> protocol_client_sm \<Rightarrow> protocol_client_sm \<Rightarrow> bool" where
  "gives_up e r s s' \<longleftrightarrow> r \<in> set (pending s) \<and> completed_request s' = Some r \<and> active_request s' = None \<and>
     response_code (response s') = err_code e \<and> sent_request_list s' = sent_request_list s \<and>
     sent_request_num s' = sent_request_num s \<and> trace s' = trace s \<and> stype s' = stype s \<and>
     created s' = created s \<and> config s' = config s \<and>
     cq_max (transfer_queue s') = cq_max (transfer_queue s) \<and>
     (transfer_queue s' = transfer_queue s \<or> cq_items (transfer_queue s) = r # cq_items (transfer_queue s')) \<and>
     (r \<in> set (sent_request_list s) \<or> active_request s = Some r \<or>
      cq_items (transfer_queue s) = r # cq_items (transfer_queue s'))"

lemma check_timeout_gives_up:
  "fst (check_timeout t s) \<Longrightarrow> \<exists>r. gives_up ERR_TIMEOUT r s (snd (check_timeout t s))"
  "\<not> fst (check_timeout t s) \<Longrightarrow> snd (check_timeout t s) = s"
  by (auto simp: check_timeout_def gives_up_def state_simps pending_def split: option.splits if_splits dest: find_in)

lemma abort_transfers_gives_up:
  "fst (abort_transfers s) \<Longrightarrow> \<exists>r. gives_up ERR_REQUEST_ABORTED r s (snd (abort_transfers s))"
  by (auto simp: abort_transfers_def gives_up_def state_simps pending_def cqueue_pop_head_def
      split: option.splits if_splits list.splits)

lemma abort_transfers_stays: "\<not> fst (abort_transfers s) \<Longrightarrow>
    \<exists>b c. snd (abort_transfers s) = s\<lparr>abort_in_progress := b, abort_done := c\<rparr>"
proof -
  assume "\<not> fst (abort_transfers s)"
  then have "snd (abort_transfers s) = s\<lparr>abort_in_progress := abort_in_progress (snd (abort_transfers s)),
      abort_done := abort_done (snd (abort_transfers s))\<rparr>"
    by (auto simp: abort_transfers_def cqueue_pop_head_def split: option.splits if_splits list.splits)
  then show ?thesis by blast
qed

lemma gives_up_reqs:
  assumes g: "gives_up e r s s'" and ok: "reqs_ok s"
  shows "reqs_ok s' \<and> due r s'"
proof -
  have rep: "repeating s' = repeating s" and oc: "once_called s' = once_called s"
    using g by (auto simp: gives_up_def repeating_def once_called_def fun_eq_iff)
  obtain pre post where pp: "pending s = pre @ pending s' @ post" "r \<in> set pre \<or> r \<in> set post \<or> r \<in> set (sent_request_list s')"
  proof -
    from g consider "transfer_queue s' = transfer_queue s" "r \<in> set (sent_request_list s) \<or> active_request s = Some r"
      | "cq_items (transfer_queue s) = r # cq_items (transfer_queue s')"
      unfolding gives_up_def by argo
    then show thesis
    proof cases
      case 1
      with g show thesis
        by (intro that [of "[]" "case active_request s of None \<Rightarrow> [] | Some r \<Rightarrow> [r]"])
          (auto simp: pending_def gives_up_def)
    next
      case 2
      with g show thesis
        by (intro that [of "[r]" "case active_request s of None \<Rightarrow> [] | Some r \<Rightarrow> [r]"])
          (auto simp: pending_def gives_up_def)
    qed
  qed
  have q: "length (cq_items (transfer_queue s')) \<le> length (cq_items (transfer_queue s))"
    "cq_max (transfer_queue s') = cq_max (transfer_queue s)" "created s' = created s" "trace s' = trace s"
    using g by (auto simp: gives_up_def)
  have d: "distinct (map rq_id (pre @ pending s' @ post))" using ok pp(1) by (simp add: reqs_ok_def)
  then have "distinct (map rq_id (pending s'))" by simp
  moreover have sub: "set (pending s') \<subseteq> set (pending s)" using pp(1) by auto
  ultimately have ok': "reqs_ok s'" using ok q unfolding reqs_ok_def oc by fastforce
  have "r \<in> set (sent_request_list s') \<or> rq_id r \<notin> rq_id ` set (pending s')"
    using d pp(2) by auto
  moreover have "rq_id r \<notin> set (once_called s')" "rq_id r < created s'"
    using g ok by (auto simp: gives_up_def reqs_ok_def oc)
  ultimately show ?thesis using ok' g by (auto simp: due_def gives_up_def)
qed

end
