(* ===== verification/ProtocolTick.thy ===== *)
theory ProtocolTick
  imports ProtocolInv
begin

text \<open>
  The tick of the protocol client state machine as a whole: the invariant of its reachable states,
  what becomes of every request, time-outs and aborts, and the lock around connecting that all state
  machines share.
\<close>

section \<open>The phases of a tick\<close>

definition after_exchange :: "sm_tick \<Rightarrow> protocol_client_sm \<Rightarrow> sm_shared \<Rightarrow> protocol_client_sm" where
  "after_exchange t s sh =
     (let c = st_connect t (st_new_transmit t s) sh
      in complete_if t (if fst c = SM_TRANSMIT then exchange t (fst (snd c)) else (False, fst (snd c))))"

definition after_timeout :: "sm_tick \<Rightarrow> protocol_client_sm \<Rightarrow> sm_shared \<Rightarrow> protocol_client_sm" where
  "after_timeout t s sh = complete_if t (check_timeout t (after_exchange t s sh))"

definition after_abort :: "sm_tick \<Rightarrow> protocol_client_sm \<Rightarrow> sm_shared \<Rightarrow> protocol_client_sm" where
  "after_abort t s sh = complete_if t (abort_transfers (after_timeout t s sh))"

lemma st_transmit_phases: "\<exists>b. st_transmit t s sh =
    (let c = st_connect t (st_new_transmit t s) sh; w = wind_up b (fst c) (after_abort t s sh)
     in (fst w, snd w, snd (snd c)))"
  unfolding st_transmit_def after_abort_def after_timeout_def after_exchange_def Let_def case_prod_unfold
  by (auto simp: if_distrib [of fst] if_distrib [of snd] intro!: exI)

lemma wind_up_effect: "\<exists>so co re ti ad tr. snd (wind_up b n s) = s\<lparr>socket := so, connected := co,
    retry_cnt := re, timeouts := ti, abort_done := ad, trace := trace s @ tr\<rparr> \<and> set tr \<subseteq> {Closed}"
proof -
  let ?w = "snd (wind_up b n s)"
  have "?w = s\<lparr>socket := socket ?w, connected := connected ?w, retry_cnt := retry_cnt ?w,
      timeouts := timeouts ?w, abort_done := abort_done ?w, trace := trace s @ drop (length (trace s)) (trace ?w)\<rparr> \<and>
      set (drop (length (trace s)) (trace ?w)) \<subseteq> {Closed}"
    by (simp add: wind_up_def close_socket_def emit_def Let_def)
  then show ?thesis by blast
qed

lemma calls_closed: "set tr \<subseteq> {Closed} \<Longrightarrow> calls tr = []"
  by (induction tr) auto

lemma reqs_ok_cong:
  assumes "transfer_queue s' = transfer_queue s" "sent_request_list s' = sent_request_list s"
    "active_request s' = active_request s" "stype s' = stype s" "created s' = created s"
    "calls (trace s') = calls (trace s)" "BadAccess \<in> set (trace s') \<Longrightarrow> BadAccess \<in> set (trace s)"
  shows "reqs_ok s \<Longrightarrow> reqs_ok s'"
  using assms by (auto simp: reqs_ok_def pending_def once_called_def repeating_def)

lemma after_exchange_reqs: "reqs_ok s \<Longrightarrow> reqs_ok (after_exchange t s sh)"
proof -
  assume "reqs_ok s"
  from moved_reqs [OF connect_moved new_transmit_reqs [OF this]]
  have c: "reqs_ok (fst (snd (st_connect t (st_new_transmit t s) sh)))" .
  let ?c = "fst (snd (st_connect t (st_new_transmit t s) sh))"
  have x: "reqs_ok (snd (exchange t ?c))" using moved_reqs [OF exchange_moved c] .
  have "due r (snd (exchange t ?c)) \<Longrightarrow> reqs_ok (st_transmit_complete t (snd (exchange t ?c)))" for r
    by (rule complete_reqs [OF x])
  with x have "reqs_ok (complete_if t (exchange t ?c))"
    using exchange_completed [of t ?c] by (auto simp: complete_if_def due_def)
  with c show ?thesis by (simp add: after_exchange_def Let_def complete_if_def split: if_splits)
qed

lemma complete_given_up: "gives_up e r s s' \<Longrightarrow> reqs_ok s \<Longrightarrow> reqs_ok (st_transmit_complete t s')"
  using gives_up_reqs complete_reqs by blast

lemma timeout_reqs: "reqs_ok s \<Longrightarrow> reqs_ok (complete_if t (check_timeout t s))"
  using check_timeout_gives_up [of t s] by (auto simp: complete_if_def intro: complete_given_up)

lemma abort_reqs: "reqs_ok s \<Longrightarrow> reqs_ok (complete_if t (abort_transfers s))"
proof (cases "fst (abort_transfers s)")
  case False
  assume "reqs_ok s"
  moreover obtain b c where "snd (abort_transfers s) = s\<lparr>abort_in_progress := b, abort_done := c\<rparr>"
    using abort_transfers_stays [OF False] by blast
  ultimately show ?thesis using False by (auto simp: complete_if_def intro: reqs_ok_cong [of _ s])
qed (use abort_transfers_gives_up [of s] in \<open>auto simp: complete_if_def intro: complete_given_up\<close>)

lemma wind_up_reqs: "reqs_ok s \<Longrightarrow> reqs_ok (snd (wind_up b n s))"
proof -
  assume ok: "reqs_ok s"
  obtain so co re ti ad tr where w: "snd (wind_up b n s) = s\<lparr>socket := so, connected := co,
    retry_cnt := re, timeouts := ti, abort_done := ad, trace := trace s @ tr\<rparr>" "set tr \<subseteq> {Closed}"
    using wind_up_effect [of b n s] by blast
  show ?thesis unfolding w(1) by (rule reqs_ok_cong [OF _ _ _ _ _ _ _ ok]) (use w(2) in \<open>auto simp: calls_closed\<close>)
qed

lemma st_transmit_reqs: "reqs_ok s \<Longrightarrow> reqs_ok (fst (snd (st_transmit t s sh)))"
proof -
  assume ok: "reqs_ok s"
  have "reqs_ok (after_abort t s sh)"
    unfolding after_abort_def after_timeout_def by (intro abort_reqs timeout_reqs after_exchange_reqs ok)
  then show ?thesis using st_transmit_phases [of t s sh] wind_up_reqs by (auto simp: Let_def)
qed

section \<open>Counters\<close>

definition count_ok :: "protocol_client_sm \<Rightarrow> bool" where
  "count_ok s \<longleftrightarrow> 0 \<le> sent_request_num s \<and> sent_request_num s \<le> int (length (sent_request_list s))"

lemma length_without: "distinct (map f xs) \<Longrightarrow> length xs \<le> Suc (length (filter (\<lambda>q. f q \<noteq> k) xs))"
proof (induction xs)
  case (Cons x xs)
  show ?case
  proof (cases "f x = k")
    case True
    with Cons.prems have "filter (\<lambda>q. f q \<noteq> k) xs = xs" by (intro filter_True) (force simp: image_iff)
    then show ?thesis by simp
  qed (use Cons in simp)
qed simp

lemma complete_count: "completed_request s = Some r \<Longrightarrow> reqs_ok s \<Longrightarrow> count_ok s \<Longrightarrow>
    count_ok (st_transmit_complete t s)"
proof -
  assume c: "completed_request s = Some r" and r: "reqs_ok s" and k: "count_ok s"
  have "distinct (map rq_id (sent_request_list s))" using r by (simp add: reqs_ok_def pending_def)
  note l = length_without [OF this, of "rq_id r"]
  show ?thesis
    by (rule complete_effect [OF c, of t]) (use k l in \<open>auto simp: count_ok_def\<close>)
qed

lemma moved_count: "moved s s' \<Longrightarrow> count_ok s \<Longrightarrow> count_ok s'"
  by (auto simp: moved_def count_ok_def)

lemma gives_up_count: "gives_up e r s s' \<Longrightarrow> reqs_ok s \<Longrightarrow> count_ok s \<Longrightarrow> count_ok (st_transmit_complete t s')"
proof -
  assume g: "gives_up e r s s'" and r: "reqs_ok s" and k: "count_ok s"
  have "count_ok s'" "completed_request s' = Some r" using g k by (auto simp: gives_up_def count_ok_def)
  with gives_up_reqs [OF g r] complete_count show ?thesis by blast
qed

lemma after_timeout_count: "reqs_ok s \<Longrightarrow> count_ok s \<Longrightarrow> count_ok (after_timeout t s sh)"
proof -
  assume r: "reqs_ok s" and k: "count_ok s"
  let ?c = "fst (snd (st_connect t (st_new_transmit t s) sh))"
  have c: "count_ok ?c" "reqs_ok ?c"
    using k moved_reqs [OF connect_moved new_transmit_reqs [OF r]] by (simp_all add: count_ok_def state_simps)
  have x: "count_ok (snd (exchange t ?c))" "reqs_ok (snd (exchange t ?c))"
    using moved_count [OF exchange_moved c(1)] moved_reqs [OF exchange_moved c(2)] by simp_all
  have a: "count_ok (after_exchange t s sh)"
    using c x exchange_completed [of t ?c]
    by (auto simp: after_exchange_def Let_def complete_if_def intro: complete_count)
  show ?thesis
    unfolding after_timeout_def using check_timeout_gives_up [of t "after_exchange t s sh"] a
      after_exchange_reqs [OF r, of t sh]
    by (auto simp: complete_if_def intro: gives_up_count)
qed

lemma after_abort_count: "reqs_ok s \<Longrightarrow> count_ok s \<Longrightarrow> count_ok (after_abort t s sh)"
proof -
  assume r: "reqs_ok s" and k: "count_ok s"
  note b = after_timeout_count [OF r k, of t sh]
  have rb: "reqs_ok (after_timeout t s sh)"
    unfolding after_timeout_def by (rule timeout_reqs [OF after_exchange_reqs [OF r]])
  show ?thesis
  proof (cases "fst (abort_transfers (after_timeout t s sh))")
    case True
    with abort_transfers_gives_up [OF True] b rb show ?thesis
      by (auto simp: after_abort_def complete_if_def intro: gives_up_count)
  next
    case False
    with abort_transfers_stays [OF False] b show ?thesis
      by (auto simp: after_abort_def complete_if_def count_ok_def)
  qed
qed

definition link_ok :: "protocol_client_sm \<Rightarrow> bool" where
  "link_ok s \<longleftrightarrow> (socket s = None \<longrightarrow> \<not> connected s \<and> retry_cnt s = 0) \<and> (retry_cnt s = 0 \<or> retry_cnt s = 1)"

lemma connect_link: "link_ok s \<Longrightarrow> link_ok (fst (snd (st_connect t s sh)))"
  by (auto simp: link_ok_def st_connect_def connect_wait_def create_socket_def st_connect_socket_def Let_def)

lemma close_link: "link_ok s \<Longrightarrow> link_ok (close_socket s)"
  by (simp add: link_ok_def close_socket_def)

lemma complete_if_frame [state_simps]:
  "socket (complete_if t x) = socket (snd x)" "connected (complete_if t x) = connected (snd x)"
  "retry_cnt (complete_if t x) = retry_cnt (snd x)" "config (complete_if t x) = config (snd x)"
  "timeouts (complete_if t x) = timeouts (snd x)" "abort_done (complete_if t x) = abort_done (snd x)"
  "transmit_failures (complete_if t x) = transmit_failures (snd x)"
  "active_request (complete_if t x) = active_request (snd x)" "stype (complete_if t x) = stype (snd x)"
  "sm_id (complete_if t x) = sm_id (snd x)"
  by (simp_all add: complete_if_def state_simps)

lemma check_timeout_frame [state_simps]:
  "socket (snd (check_timeout t s)) = socket s" "connected (snd (check_timeout t s)) = connected s"
  "retry_cnt (snd (check_timeout t s)) = retry_cnt s" "config (snd (check_timeout t s)) = config s"
  "transmit_failures (snd (check_timeout t s)) = transmit_failures s" "sm_id (snd (check_timeout t s)) = sm_id s"
  "timeouts (snd (check_timeout t s)) = (if fst (check_timeout t s) then timeouts s + 1 else timeouts s)"
  by (simp_all add: check_timeout_def state_simps split: option.split)

lemma abort_frame [state_simps]:
  "socket (snd (abort_transfers s)) = socket s" "connected (snd (abort_transfers s)) = connected s"
  "retry_cnt (snd (abort_transfers s)) = retry_cnt s" "config (snd (abort_transfers s)) = config s"
  "transmit_failures (snd (abort_transfers s)) = transmit_failures s" "sm_id (snd (abort_transfers s)) = sm_id s"
  "timeouts (snd (abort_transfers s)) = timeouts s"
  by (auto simp: abort_transfers_def state_simps cqueue_pop_head_def split: option.split list.split)

lemma after_abort_frame:
  "socket (after_abort t s sh) = socket (fst (snd (st_connect t (st_new_transmit t s) sh)))"
  "connected (after_abort t s sh) = connected (fst (snd (st_connect t (st_new_transmit t s) sh)))"
  "retry_cnt (after_abort t s sh) = retry_cnt (fst (snd (st_connect t (st_new_transmit t s) sh)))"
  "config (after_abort t s sh) = config s" "sm_id (after_abort t s sh) = sm_id s"
  "transmit_failures s \<le> transmit_failures (after_abort t s sh)"
  "transmit_failures (after_abort t s sh) \<le> transmit_failures s + 2"
  "timeouts s \<le> timeouts (after_abort t s sh)" "timeouts (after_abort t s sh) \<le> timeouts s + 1"
  using exchange_failures [where t = t and s = "fst (snd (st_connect t (st_new_transmit t s) sh))"]
    exchange_moved [where t = t and s = "fst (snd (st_connect t (st_new_transmit t s) sh))"]
  by (auto simp: after_abort_def after_timeout_def after_exchange_def Let_def state_simps moved_def)

section \<open>The invariant\<close>

datatype sm_step = Tick sm_tick | Do sm_call | Others sm_shared

fun sm_next :: "sm_step \<Rightarrow> protocol_client_sm \<times> sm_shared \<Rightarrow> protocol_client_sm \<times> sm_shared" where
  "sm_next (Tick t) c = protocol_client_sm_task t c"
| "sm_next (Do call) (s, sh) = (sm_do call s, sh)"
| "sm_next (Others sh') (s, sh) = (s, sh')"

definition sm_start :: "protocol_client_sm \<times> sm_shared \<Rightarrow> bool" where
  "sm_start c \<longleftrightarrow> (\<exists>a me ty limit conf garbage. 0 \<le> transmission_retries conf \<and>
     protocol_client_sm_new True a a a a me ty limit conf garbage = Inr (fst c))"

definition sm_ok :: "protocol_client_sm \<Rightarrow> bool" where
  "sm_ok s \<longleftrightarrow> reqs_ok s \<and> count_ok s \<and> link_ok s \<and> sm_state s \<noteq> SM_CONNECT \<and>
     0 \<le> timeouts s \<and> timeouts s \<le> 5 \<and> 0 \<le> transmission_retries (config s) \<and>
     0 \<le> transmit_failures s \<and> transmit_failures s \<le> transmission_retries (config s) + 2 \<and>
     (transmit_failures s > transmission_retries (config s) \<longrightarrow> sm_state s = SM_FAILURE)"

lemma sm_start_ok: "sm_start c \<Longrightarrow> sm_ok (fst c)"
  by (cases c) (auto simp: sm_start_def protocol_client_sm_new_def cqueue_new_def sm_ok_def reqs_ok_def pending_def
      once_called_def count_ok_def link_ok_def split: if_splits option.splits)

lemma sm_do_ok: "sm_ok s \<Longrightarrow> sm_ok (sm_do c s)"
proof -
  assume ok: "sm_ok s"
  then have r: "reqs_ok s" by (simp add: sm_ok_def)
  obtain new where n: "cq_items (transfer_queue (sm_do c s)) = cq_items (transfer_queue s) @ new"
    "distinct (map rq_id new)" "created s \<le> created (sm_do c s)"
    "\<forall>r \<in> set new. created s \<le> rq_id r \<and> rq_id r < created (sm_do c s)"
    "length (cq_items (transfer_queue (sm_do c s))) \<le> cq_max (transfer_queue (sm_do c s))"
    using sm_dos_queue [of "[c]" s] r by (auto simp: reqs_ok_def)
  have p: "set (pending (sm_do c s)) = set (pending s) \<union> set new"
    by (auto simp: pending_def n(1) state_simps)
  have oc: "once_called (sm_do c s) = once_called s"
    by (simp add: once_called_def repeating_def state_simps)
  have below: "\<forall>i \<in> rq_id ` set (pending s) \<union> set (once_called s). i < created s"
    using r by (simp add: reqs_ok_def)
  then have dis: "rq_id ` set new \<inter> (rq_id ` set (pending s) \<union> set (once_called s)) = {}"
    by (rule fresh_above) (use n(4) in blast)
  then have "distinct (map rq_id (pending (sm_do c s)))"
    using r n(2) by (auto simp: reqs_ok_def pending_def n(1) state_simps)
  moreover have "rq_id ` set (pending (sm_do c s)) \<inter> set (once_called (sm_do c s)) = {}"
    using r dis unfolding p oc reqs_ok_def by auto
  moreover have "\<forall>i \<in> rq_id ` set (pending (sm_do c s)) \<union> set (once_called (sm_do c s)). i < created (sm_do c s)"
  proof
    fix i assume "i \<in> rq_id ` set (pending (sm_do c s)) \<union> set (once_called (sm_do c s))"
    then have "i \<in> rq_id ` set (pending s) \<union> set (once_called s) \<or> i \<in> rq_id ` set new"
      unfolding p oc by blast
    then show "i < created (sm_do c s)"
    proof
      assume "i \<in> rq_id ` set (pending s) \<union> set (once_called s)"
      with below have "i < created s" by blast
      with n(3) show ?thesis by simp
    qed (use n(4) in auto)
  qed
  ultimately have "reqs_ok (sm_do c s)" using r n(5) by (simp add: reqs_ok_def state_simps oc)
  with ok show ?thesis by (simp add: sm_ok_def count_ok_def link_ok_def state_simps)
qed

lemma wind_up_parts:
  "link_ok s \<Longrightarrow> link_ok (snd (wind_up b n s))" "count_ok (snd (wind_up b n s)) = count_ok s"
  "timeouts (snd (wind_up b n s)) = (if timeouts s > 5 then 0 else timeouts s)"
  "transmit_failures (snd (wind_up b n s)) = transmit_failures s" "config (snd (wind_up b n s)) = config s"
  "fst (wind_up b n s) \<noteq> SM_CONNECT"
  by (simp_all add: wind_up_def close_socket_def emit_def link_ok_def count_ok_def Let_def)

lemma st_transmit_parts:
  assumes ok: "sm_ok s"
  shows "reqs_ok (fst (snd (st_transmit t s sh)))" "count_ok (fst (snd (st_transmit t s sh)))"
    "link_ok (fst (snd (st_transmit t s sh)))" "fst (st_transmit t s sh) \<noteq> SM_CONNECT"
    "0 \<le> timeouts (fst (snd (st_transmit t s sh)))" "timeouts (fst (snd (st_transmit t s sh))) \<le> 5"
    "transmit_failures s \<le> transmit_failures (fst (snd (st_transmit t s sh)))"
    "transmit_failures (fst (snd (st_transmit t s sh))) \<le> transmit_failures s + 2"
    "config (fst (snd (st_transmit t s sh))) = config s"
proof -
  obtain b where b: "st_transmit t s sh =
    (let c = st_connect t (st_new_transmit t s) sh; w = wind_up b (fst c) (after_abort t s sh)
     in (fst w, snd w, snd (snd c)))" using st_transmit_phases by blast
  have r: "reqs_ok s" "count_ok s" "link_ok s" using ok by (simp_all add: sm_ok_def)
  show "reqs_ok (fst (snd (st_transmit t s sh)))" by (rule st_transmit_reqs [OF r(1)])
  have "link_ok (st_new_transmit t s)" using r(3) by (simp add: link_ok_def state_simps)
  then have "link_ok (after_abort t s sh)"
    using connect_link [of "st_new_transmit t s" t sh] by (simp add: link_ok_def after_abort_frame)
  then show "link_ok (fst (snd (st_transmit t s sh)))" by (simp add: b Let_def wind_up_parts)
  show "count_ok (fst (snd (st_transmit t s sh)))"
    using after_abort_count [OF r(1,2)] by (simp add: b Let_def wind_up_parts)
  show "fst (st_transmit t s sh) \<noteq> SM_CONNECT" by (simp add: b Let_def wind_up_parts)
  show "0 \<le> timeouts (fst (snd (st_transmit t s sh)))" "timeouts (fst (snd (st_transmit t s sh))) \<le> 5"
    using ok after_abort_frame(8,9) [where t = t and s = s and sh = sh] by (simp_all add: b Let_def wind_up_parts sm_ok_def)
  show "transmit_failures s \<le> transmit_failures (fst (snd (st_transmit t s sh)))"
    "transmit_failures (fst (snd (st_transmit t s sh))) \<le> transmit_failures s + 2"
    "config (fst (snd (st_transmit t s sh))) = config s"
    using after_abort_frame(4,6,7) [where t = t and s = s and sh = sh]
    by (simp_all add: b Let_def wind_up_parts)
qed

lemma st_reset_ok: "sm_ok s \<Longrightarrow> sm_state s = SM_RESET \<Longrightarrow>
    sm_ok ((snd (st_reset t s))\<lparr>sm_state := fst (st_reset t s)\<rparr>) \<and>
    transmit_failures (snd (st_reset t s)) \<le> transmission_retries (config (snd (st_reset t s)))"
proof -
  assume ok: "sm_ok s" and st: "sm_state s = SM_RESET"
  have "reqs_ok ((snd (st_reset t s))\<lparr>sm_state := fst (st_reset t s)\<rparr>)"
    by (rule reqs_ok_cong [of _ s])
      (use ok in \<open>auto simp: sm_ok_def st_reset_def close_socket_def emit_def split: if_splits\<close>)
  with ok st show ?thesis
    by (auto simp: sm_ok_def st_reset_def close_socket_def emit_def link_ok_def count_ok_def)
qed

lemma task_ok: "sm_ok (fst c) \<Longrightarrow> sm_ok (fst (protocol_client_sm_task t c))"
proof (cases c)
  case (Pair s sh)
  assume "sm_ok (fst c)"
  with Pair have ok: "sm_ok s" by simp
  show ?thesis
  proof (cases "sm_state s")
    case SM_RESET
    with st_reset_ok [OF ok SM_RESET, of t] show ?thesis
      by (simp add: protocol_client_sm_task_def Pair Let_def case_prod_unfold not_less)
  next
    case SM_CONNECT
    with ok show ?thesis by (simp add: sm_ok_def)
  next
    case SM_TRANSMIT
    let ?s = "fst (snd (st_transmit t s sh))"
    have f: "transmit_failures s \<le> transmission_retries (config s)" "0 \<le> transmit_failures s"
      "0 \<le> transmission_retries (config s)"
      using ok SM_TRANSMIT by (auto simp: sm_ok_def)
    note p = st_transmit_parts [OF ok, of t sh]
    have "reqs_ok (?s\<lparr>sm_state := n\<rparr>)" for n by (rule reqs_ok_cong [OF _ _ _ _ _ _ _ p(1)]) simp_all
    with SM_TRANSMIT p f show ?thesis
      by (simp add: protocol_client_sm_task_def Pair Let_def case_prod_unfold sm_ok_def count_ok_def link_ok_def)
  next
    case SM_FAILURE
    have "reqs_ok (s\<lparr>transmit_failures := 0, sm_state := n\<rparr>)" for n
      by (rule reqs_ok_cong [of _ s]) (use ok in \<open>auto simp: sm_ok_def\<close>)
    with ok SM_FAILURE show ?thesis
      by (simp add: protocol_client_sm_task_def Pair Let_def case_prod_unfold st_failure_def sm_ok_def
          count_ok_def link_ok_def)
  qed
qed

interpretation sm: kept sm_start sm_next "\<lambda>c. sm_ok (fst c)"
proof
  show "sm_ok (fst c)" if "sm_start c" for c using that by (rule sm_start_ok)
  show "sm_ok (fst (sm_next e c))" if "sm_ok (fst c)" for e c
    using that by (cases e; cases c) (auto intro: task_ok [of "(s, sh)" for s sh, simplified] sm_do_ok)
qed

text \<open>A state machine and its surroundings for the examples: time-outs of 100 ms, one request per
  queue, no retries; everything answers, the responses are for the message 7.\<close>

definition demo_conf :: transmission_config where
  "demo_conf = \<lparr>connect_retries = 5, transmission_retries = 0, connect_timeout = 100,
     transmission_timeout = 100, sm_queue_size = 1\<rparr>"

definition demo_response :: protocol_client_response where
  "demo_response = \<lparr>payload = [], payload_size = 0, response_code = 0, response_id = 0,
     response_type = REQUEST_NORMAL, response_status = False\<rparr>"

definition demo_sm :: "nat \<Rightarrow> state_machine_type \<Rightarrow> int \<Rightarrow> protocol_client_sm" where
  "demo_sm me ty limit = \<lparr>sm_id = me, stype = ty, always_disconnect = False, paralell_request_limit = limit,
     config = demo_conf, socket = None, connected = False, transfer_queue = \<lparr>cq_items = [], cq_max = 1\<rparr>,
     sent_request_list = [], sent_request_num = 0, active_request = None,
     completed_request = None, response = demo_response, sm_state = SM_RESET, retry_cnt = 0,
     transmit_failures = 0, abort_in_progress = False, abort_done = False,
     last_reset = 0, timeouts = 0, created = 0, trace = []\<rparr>"

definition demo_shared :: sm_shared where
  "demo_shared = \<lparr>connecting_sm = None, start_time = 0, next_state = SM_RESET\<rparr>"

definition demo_tick :: "sys_time \<Rightarrow> err \<Rightarrow> err \<Rightarrow> sm_tick" where
  "demo_tick time sending receiving = \<lparr>now = time, lookup_answer = ERR_SUCCESS, socket_answer = (ERR_SUCCESS, 1),
     connect_answer = ERR_SUCCESS, send_answer = sending, recv_answer = receiving, recv_code = 200,
     recv_id = 7, recv_payload = [], recv_status = True, app = (\<lambda>r p. [])\<rparr>"

definition demo_request :: "int \<Rightarrow> sm_step" where
  "demo_request message = Do (Transmit True True REQUEST_NORMAL 0 0 message 0)"

lemmas demo_defs = demo_conf_def demo_response_def demo_sm_def demo_shared_def demo_tick_def demo_request_def

lemma sm_demo_start: "sm_start (demo_sm me ty limit, demo_shared)"
  by (auto simp: sm_start_def protocol_client_sm_new_def cqueue_new_def demo_defs
      intro!: exI [of _ demo_conf] exI [of _ True])

lemma sm_demo_reachable: "reachable sm_start sm_next (fold sm_next es (demo_sm me ty limit, demo_shared))"
  by (intro reachable_run reach_start sm_demo_start)

text \<open>C3: the reachable states of a protocol client state machine, whatever the network, the protocol
  client, the clock, the application and the other state machines do. No null pointer is followed;
  the task is never left in the state \<open>SM_CONNECT\<close>; every request is in one of the queue, the list of
  sent requests and the active slot at most once, and the queue respects its size; a request that is
  not a repeating subscription is called back at most once, and when it was, it is in none of these
  places; the number of sent requests the machine counts never exceeds the number in its list; and
  there is a connection only with a socket.\<close>

theorem sm_reachable_states:
  assumes "reachable sm_start sm_next (s, sh)"
  shows "BadAccess \<notin> set (trace s) \<and> sm_state s \<noteq> SM_CONNECT \<and>
    distinct (map rq_id (cq_items (transfer_queue s) @ sent_request_list s @
      (case active_request s of None \<Rightarrow> [] | Some r \<Rightarrow> [r]))) \<and>
    length (cq_items (transfer_queue s)) \<le> cq_max (transfer_queue s) \<and>
    distinct (once_called s) \<and> rq_id ` set (pending s) \<inter> set (once_called s) = {} \<and>
    0 \<le> sent_request_num s \<and> sent_request_num s \<le> int (length (sent_request_list s)) \<and>
    (socket s = None \<longrightarrow> \<not> connected s) \<and>
    timeouts s \<le> 5 \<and> transmit_failures s \<le> transmission_retries (config s) + 2"
  using sm.holds [OF assms]
  by (auto simp: sm_ok_def reqs_ok_def count_ok_def link_ok_def pending_def [symmetric])

theorem sm_reachable_states_witness:
  "let (s, sh) = fold sm_next [demo_request 7, Tick (demo_tick 1000 ERR_SUCCESS ERR_WOULD_BLOCK),
       Tick (demo_tick 1010 ERR_SUCCESS ERR_WOULD_BLOCK), demo_request 8,
       Tick (demo_tick 1020 ERR_SUCCESS ERR_SUCCESS)] (demo_sm 0 SM_SYNCH 1, demo_shared)
   in BadAccess \<notin> set (trace s) \<and> once_called s = [0] \<and> map rq_id (pending s) = [1]"
proof -
  let ?es = "[demo_request 7, Tick (demo_tick 1000 ERR_SUCCESS ERR_WOULD_BLOCK),
       Tick (demo_tick 1010 ERR_SUCCESS ERR_WOULD_BLOCK), demo_request 8,
       Tick (demo_tick 1020 ERR_SUCCESS ERR_SUCCESS)]"
  obtain s sh where f: "fold sm_next ?es (demo_sm 0 SM_SYNCH 1, demo_shared) = (s, sh)"
    by (cases "fold sm_next ?es (demo_sm 0 SM_SYNCH 1, demo_shared)")
  have "BadAccess \<notin> set (trace s)"
    using sm_reachable_states [of s sh] sm_demo_reachable [of ?es 0 SM_SYNCH 1] unfolding f by blast
  moreover have "let (s, sh) = fold sm_next ?es (demo_sm 0 SM_SYNCH 1, demo_shared)
      in once_called s = [0] \<and> map rq_id (pending s) = [1]"
    by code_simp
  ultimately show ?thesis unfolding f by simp
qed

end
