(* ===== verification/ProtocolLinks.thy ===== *)
theory ProtocolLinks
  imports ProtocolTick
begin

text \<open>
  The connection of a protocol client state machine: how connecting can end, the lock by which one
  machine that cannot connect keeps all others from transmitting, and the orderly abort of all
  requests with the connection up.
\<close>

section \<open>Connecting\<close>

text \<open>C23: how one call of \<open>st_connect\<close> ends in a reachable state. It asks for transmission exactly with a
  connection and the lock returned; and, as the machine counts only one attempt before the counter
  is reset with the socket, it never fails for good when more than one retry is configured.\<close>

theorem connect_outcomes:
  assumes "reachable sm_start sm_next (s, sh)"
  shows "(fst (st_connect t s sh) = SM_TRANSMIT \<longrightarrow>
      connected (fst (snd (st_connect t s sh))) \<and> socket (fst (snd (st_connect t s sh))) \<noteq> None \<and>
      connecting_sm (snd (snd (st_connect t s sh))) = None) \<and>
    (connect_retries (config s) > 1 \<longrightarrow> fst (st_connect t s sh) \<noteq> SM_FAILURE)"
  using sm.holds [OF assms]
  by (auto simp: sm_ok_def link_ok_def st_connect_def connect_wait_def create_socket_def connect_post_def
      st_connect_socket_def Let_def)

theorem connect_outcomes_witness:
  "let s = demo_sm 0 SM_SYNCH 1; c = st_connect (demo_tick 9 ERR_SUCCESS ERR_SUCCESS) s demo_shared
   in fst c = SM_TRANSMIT \<and> connected (fst (snd c)) \<and> connect_retries (config s) > 1 \<and>
      (\<forall>t. fst (st_connect t s demo_shared) \<noteq> SM_FAILURE)"
proof -
  let ?s = "demo_sm 0 SM_SYNCH 1" and ?t = "demo_tick 9 ERR_SUCCESS ERR_SUCCESS"
  have r: "reachable sm_start sm_next (?s, demo_shared)" using sm_demo_reachable [of "[]"] by simp
  have c: "fst (st_connect ?t ?s demo_shared) = SM_TRANSMIT" "connect_retries (config ?s) > 1" by code_simp+
  from connect_outcomes [OF r] c show ?thesis by (auto simp: Let_def)
qed

section \<open>The lock around connecting\<close>

text \<open>What a machine sends and asks for.\<close>

definition traffic :: "protocol_client_sm \<Rightarrow> sm_event list" where
  "traffic s = filter (\<lambda>e. case e of Sent r \<Rightarrow> True | Polled x \<Rightarrow> True | _ \<Rightarrow> False) (trace s)"

lemma complete_traffic: "traffic (complete_if t x) = traffic (snd x)"
proof (cases "fst x")
  case True
  show ?thesis
  proof (cases "completed_request (snd x)")
    case None
    then show ?thesis by (simp add: complete_if_def st_transmit_complete_def emit_def traffic_def)
  next
    case (Some r)
    show ?thesis
      by (rule complete_effect [OF Some, of t]) (use True in \<open>simp add: complete_if_def traffic_def\<close>)
  qed
qed (simp add: complete_if_def)

lemma give_up_traffic: "traffic (snd (check_timeout t s)) = traffic s" "traffic (snd (abort_transfers s)) = traffic s"
  by (auto simp: check_timeout_def abort_transfers_def traffic_def state_simps cqueue_pop_head_def
      split: option.split list.split)

lemma wind_up_traffic: "traffic (snd (wind_up b n s)) = traffic s" "traffic (close_socket s) = traffic s"
  by (simp_all add: wind_up_def close_socket_def emit_def traffic_def Let_def)

lemma blocked_transmit:
  assumes "connecting_sm sh = Some a" "sm_id s \<noteq> a"
  shows "traffic (fst (snd (st_transmit t s sh))) = traffic s \<and> snd (snd (st_transmit t s sh)) = sh"
proof -
  have c: "st_connect t (st_new_transmit t s) sh = (SM_CONNECT, st_new_transmit t s, sh)"
    using assms by (simp add: st_connect_def connect_wait_def state_simps)
  obtain b where b: "st_transmit t s sh =
    (let c = st_connect t (st_new_transmit t s) sh; w = wind_up b (fst c) (after_abort t s sh)
     in (fst w, snd w, snd (snd c)))" using st_transmit_phases by blast
  have "traffic (after_abort t s sh) = traffic (st_new_transmit t s)"
    by (simp add: after_abort_def after_timeout_def after_exchange_def complete_traffic give_up_traffic c)
  then show ?thesis by (simp add: b c Let_def wind_up_traffic) (simp add: traffic_def state_simps)
qed

lemma task_blocked:
  assumes "connecting_sm sh = Some a" "sm_id s \<noteq> a"
  shows "traffic (fst (protocol_client_sm_task t (s, sh))) = traffic s \<and>
    connecting_sm (snd (protocol_client_sm_task t (s, sh))) = Some a"
  using blocked_transmit [OF assms, of t] assms(1)
  by (cases "sm_state s")
    (auto simp: protocol_client_sm_task_def Let_def case_prod_unfold st_reset_def st_failure_def traffic_def
      wind_up_traffic [unfolded traffic_def])

lemma task_id: "sm_id (fst (protocol_client_sm_task t (s, sh))) = sm_id s"
proof (cases "sm_state s")
  case SM_TRANSMIT
  obtain b where b: "st_transmit t s sh =
    (let c = st_connect t (st_new_transmit t s) sh; w = wind_up b (fst c) (after_abort t s sh)
     in (fst w, snd w, snd (snd c)))" using st_transmit_phases by blast
  then have "sm_id (fst (snd (st_transmit t s sh))) = sm_id (after_abort t s sh)"
    by (simp add: Let_def wind_up_def close_socket_def emit_def)
  with SM_TRANSMIT show ?thesis
    by (simp add: protocol_client_sm_task_def Let_def case_prod_unfold after_abort_frame)
qed (simp_all add: protocol_client_sm_task_def Let_def case_prod_unfold st_reset_def st_failure_def close_socket_def emit_def)

lemma wind_up_socket: "socket s = None \<Longrightarrow> socket (snd (wind_up b n s)) = None"
  by (simp add: wind_up_def close_socket_def emit_def Let_def)

text \<open>A machine without a socket whose look-up fails keeps the lock it has.\<close>

lemma task_keeps_lock:
  assumes "connecting_sm sh = Some (sm_id s)" "socket s = None" "lookup_answer t \<noteq> ERR_SUCCESS"
  shows "connecting_sm (snd (protocol_client_sm_task t (s, sh))) = Some (sm_id s) \<and>
    socket (fst (protocol_client_sm_task t (s, sh))) = None"
proof (cases "sm_state s")
  case SM_TRANSMIT
  have sh: "sh\<lparr>connecting_sm := Some (sm_id s)\<rparr> = sh" using assms(1) by (cases sh) simp
  obtain n where c: "st_connect t (st_new_transmit t s) sh = (n, st_new_transmit t s, sh)"
    using assms by (cases "lookup_answer t = ERR_WOULD_BLOCK")
      (auto simp: st_connect_def connect_wait_def create_socket_def state_simps sh)
  obtain b where b: "st_transmit t s sh =
    (let c = st_connect t (st_new_transmit t s) sh; w = wind_up b (fst c) (after_abort t s sh)
     in (fst w, snd w, snd (snd c)))" using st_transmit_phases by blast
  have "socket (after_abort t s sh) = None" using assms(2) by (simp add: after_abort_frame c state_simps)
  with SM_TRANSMIT assms(1) show ?thesis
    by (simp add: protocol_client_sm_task_def Let_def case_prod_unfold b c wind_up_socket)
qed (use assms in \<open>auto simp: protocol_client_sm_task_def Let_def case_prod_unfold st_reset_def st_failure_def close_socket_def\<close>)

text \<open>Two state machines, which share the lock and have their ticks in any order.\<close>

fun two_ticks :: "(bool \<times> sm_tick) list \<Rightarrow> protocol_client_sm \<times> protocol_client_sm \<times> sm_shared \<Rightarrow>
    protocol_client_sm \<times> protocol_client_sm \<times> sm_shared" where
  "two_ticks [] c = c"
| "two_ticks ((first, t) # ts) (a, b, sh) =
     (if first then (let (a', sh') = protocol_client_sm_task t (a, sh) in two_ticks ts (a', b, sh'))
      else (let (b', sh') = protocol_client_sm_task t (b, sh) in two_ticks ts (a, b', sh')))"

text \<open>C32: a machine whose server name cannot be looked up stops the others. \<open>st_connect\<close> returns without
  giving the lock back when no socket can be created; as long as that goes on, the other machine sends
  and receives nothing, even if it has been connected all the time.\<close>

theorem failed_lookup_blocks_others:
  assumes "connecting_sm sh = Some (sm_id a)" and "socket a = None" and "sm_id b \<noteq> sm_id a"
    and "\<forall>(first, t) \<in> set ts. first \<longrightarrow> lookup_answer t \<noteq> ERR_SUCCESS"
  shows "traffic (fst (snd (two_ticks ts (a, b, sh)))) = traffic b"
  using assms
proof (induction ts arbitrary: a b sh)
  case (Cons e ts)
  obtain first t where e: "e = (first, t)" by (cases e)
  show ?case
  proof (cases first)
    case True
    obtain a' sh' where n: "protocol_client_sm_task t (a, sh) = (a', sh')" by (cases "protocol_client_sm_task t (a, sh)")
    have "lookup_answer t \<noteq> ERR_SUCCESS" using Cons.prems(4) e True by auto
    from task_keeps_lock [OF Cons.prems(1,2) this] task_id [of t a sh] n
    have "connecting_sm sh' = Some (sm_id a')" "socket a' = None" "sm_id a' = sm_id a" by simp_all
    with Cons.IH [of sh' a' b] Cons.prems(3,4) True n show ?thesis by (simp add: e)
  next
    case False
    obtain b' sh' where n: "protocol_client_sm_task t (b, sh) = (b', sh')" by (cases "protocol_client_sm_task t (b, sh)")
    from task_blocked [OF Cons.prems(1,3), of t] task_id [of t b sh] n
    have "traffic b' = traffic b" "connecting_sm sh' = Some (sm_id a)" "sm_id b' = sm_id b" by simp_all
    with Cons.IH [of sh' a b'] Cons.prems(2-4) False n show ?thesis by (simp add: e)
  qed
qed simp

theorem failed_lookup_blocks_others_witness:
  "let fail = (demo_tick 1000 ERR_SUCCESS ERR_SUCCESS)\<lparr>lookup_answer := ERR_NOT_FOUND\<rparr>;
       good = demo_tick 1005 ERR_SUCCESS ERR_SUCCESS;
       b = fst (fold sm_next [Tick (demo_tick 1000 ERR_SUCCESS ERR_WOULD_BLOCK),
         Tick (demo_tick 1001 ERR_SUCCESS ERR_WOULD_BLOCK), demo_request 7] (demo_sm 2 SM_SYNCH 1, demo_shared));
       (a, b', sh) = two_ticks [(True, fail), (True, fail)] (demo_sm 1 SM_SYNCH 1, b, demo_shared)
   in connected b \<and> connecting_sm sh = Some 1 \<and>
      traffic (fst (snd (two_ticks [(False, good), (True, fail), (False, good)] (a, b, sh)))) = traffic b"
proof -
  let ?fail = "(demo_tick 1000 ERR_SUCCESS ERR_SUCCESS)\<lparr>lookup_answer := ERR_NOT_FOUND\<rparr>"
  let ?good = "demo_tick 1005 ERR_SUCCESS ERR_SUCCESS"
  define b where "b = fst (fold sm_next [Tick (demo_tick 1000 ERR_SUCCESS ERR_WOULD_BLOCK),
         Tick (demo_tick 1001 ERR_SUCCESS ERR_WOULD_BLOCK), demo_request 7] (demo_sm 2 SM_SYNCH 1, demo_shared))"
  obtain a b' sh where r: "two_ticks [(True, ?fail), (True, ?fail)] (demo_sm 1 SM_SYNCH 1, b, demo_shared) = (a, b', sh)"
    by (cases "two_ticks [(True, ?fail), (True, ?fail)] (demo_sm 1 SM_SYNCH 1, b, demo_shared)")
  have i: "connected b" "sm_id b = 2" unfolding b_def by code_simp+
  have "let (a, b', sh) = two_ticks [(True, ?fail), (True, ?fail)] (demo_sm 1 SM_SYNCH 1, b, demo_shared)
    in connecting_sm sh = Some 1 \<and> sm_id a = 1 \<and> socket a = None" unfolding b_def by code_simp
  then have s: "connecting_sm sh = Some (sm_id a)" "sm_id a = 1" "socket a = None" unfolding r by simp_all
  have "traffic (fst (snd (two_ticks [(False, ?good), (True, ?fail), (False, ?good)] (a, b, sh)))) = traffic b"
    by (rule failed_lookup_blocks_others [OF s(1,3)]) (use i s in simp_all)
  with i s r show ?thesis unfolding Let_def b_def [symmetric] by simp
qed

section \<open>Aborting\<close>

text \<open>A connected machine that was told to clear, with nothing on its way to the socket.\<close>

definition abort_ready :: "protocol_client_sm \<Rightarrow> sm_shared \<Rightarrow> bool" where
  "abort_ready s sh \<longleftrightarrow> sm_state s = SM_TRANSMIT \<and> abort_in_progress s \<and> \<not> abort_done s \<and> \<not> always_disconnect s \<and>
     connected s \<and> socket s \<noteq> None \<and> active_request s = None \<and> distinct (map rq_id (pending s)) \<and> timeouts s \<le> 5 \<and>
     transmit_failures s \<le> transmission_retries (config s) \<and> connecting_sm sh \<in> {None, Some (sm_id s)}"

text \<open>A tick in which nothing arrives, nothing times out and the callbacks do nothing.\<close>

definition calm :: "protocol_client_sm \<Rightarrow> sm_tick \<Rightarrow> bool" where
  "calm s t \<longleftrightarrow> app t = (\<lambda>r p. []) \<and> recv_answer t = ERR_WOULD_BLOCK \<and>
     (\<forall>r \<in> set (sent_request_list s). \<not> expired t s r)"

definition heard :: "sm_tick \<Rightarrow> protocol_client_sm \<Rightarrow> protocol_client_sm" where
  "heard t s = (emit (Polled ERR_WOULD_BLOCK) s)
     \<lparr>response := (response s)\<lparr>response_id := recv_id t, payload := recv_payload t\<rparr>\<rparr>"

lemma heard_frame [state_simps]:
  "active_request (heard t s) = active_request s" "sent_request_list (heard t s) = sent_request_list s"
  "transfer_queue (heard t s) = transfer_queue s" "abort_in_progress (heard t s) = abort_in_progress s"
  "stype (heard t s) = stype s" "config (heard t s) = config s" "pending (heard t s) = pending s"
  "calls (trace (heard t s)) = calls (trace s)"
  by (simp_all add: heard_def emit_def pending_def)

lemma calm_timeout:
  assumes "abort_ready s sh" "calm s t"
  shows "after_timeout t s sh = heard t s" "st_connect t (st_new_transmit t s) sh = (SM_TRANSMIT, s, connect_post sh)"
proof -
  have n: "st_new_transmit t s = s" using assms(1) by (simp add: st_new_transmit_def abort_ready_def)
  show c: "st_connect t (st_new_transmit t s) sh = (SM_TRANSMIT, s, connect_post sh)"
    unfolding n using assms(1)
    by (auto simp: abort_ready_def st_connect_def connect_wait_def st_connect_socket_def connect_post_def)
  have "exchange t s = (False, heard t s)"
    using assms(1,2) by (simp add: abort_ready_def calm_def exchange_def st_send_request_def st_recv_response_def
        count_failure_def heard_def emit_def Let_def)
  then have x: "after_exchange t s sh = heard t s"
    by (simp add: after_exchange_def c complete_if_def)
  have "find (\<lambda>r. \<not> repeating (heard t s) r \<and> expired t (heard t s) r) (sent_request_list s) = None"
    using assms(2) by (auto simp: find_None_iff calm_def expired_def state_simps)
  then have "check_timeout t (heard t s) = (False, heard t s)"
    using assms(1) by (simp add: check_timeout_def state_simps abort_ready_def)
  then show "after_timeout t s sh = heard t s" by (simp add: after_timeout_def x complete_if_def)
qed

text \<open>The abort of one request.\<close>

definition drop_request :: "protocol_client_request \<Rightarrow> protocol_client_sm \<Rightarrow> protocol_client_sm" where
  "drop_request r s = (let p = (response s)\<lparr>response_code := err_code ERR_REQUEST_ABORTED, payload_size := 0, response_type := rq_type r\<rparr>
     in (emit (Called r p) s)\<lparr>response := p, active_request := None, completed_request := None,
          sent_request_list := filter (\<lambda>q. rq_id q \<noteq> rq_id r) (sent_request_list s),
          sent_request_num := (if sent_request_num s \<noteq> 0 then sent_request_num s - 1 else 0)\<rparr>)"

lemma complete_given_up_silent:
  "app t = (\<lambda>r p. []) \<Longrightarrow> abort_in_progress s \<Longrightarrow>
   st_transmit_complete t (give_up ERR_REQUEST_ABORTED r s) = drop_request r s"
  by (simp add: st_transmit_complete_def give_up_def drop_request_def emit_def Let_def)

lemma abort_one:
  assumes ab: "abort_in_progress s" and app: "app t = (\<lambda>r p. [])" and p: "pending s = r # rs"
    and act: "active_request s = None" and d: "distinct (map rq_id (pending s))"
  shows "\<exists>q. complete_if t (abort_transfers s) = drop_request r (s\<lparr>transfer_queue := q\<rparr>) \<and>
    cq_max q = cq_max (transfer_queue s) \<and>
    cq_items q @ filter (\<lambda>q. rq_id q \<noteq> rq_id r) (sent_request_list s) = rs"
proof (cases "cq_items (transfer_queue s)")
  case Nil
  with p act have l: "sent_request_list s = r # rs" by (simp add: pending_def)
  with d Nil act have "filter (\<lambda>q. rq_id q \<noteq> rq_id r) rs = rs"
    using filter_other [of rq_id r rs] by (simp add: pending_def)
  with Nil l ab app show ?thesis
    by (intro exI [of _ "transfer_queue s"])
      (simp add: abort_transfers_def cqueue_pop_head_def complete_if_def complete_given_up_silent)
next
  case (Cons x xs)
  with p act have l: "x = r" "rs = xs @ sent_request_list s" by (simp_all add: pending_def)
  with d p have "distinct (map rq_id (r # sent_request_list s))" by simp
  from filter_other [OF this] have "filter (\<lambda>q. rq_id q \<noteq> rq_id r) (sent_request_list s) = sent_request_list s" .
  with Cons l ab app show ?thesis
    by (intro exI [of _ "(transfer_queue s)\<lparr>cq_items := xs\<rparr>"])
      (simp add: abort_transfers_def cqueue_pop_head_def complete_if_def complete_given_up_silent)
qed

lemma abort_tick:
  assumes ok: "abort_ready s sh" and calm: "calm s t" and p: "pending s = r # rs"
  obtains p s' sh' where "protocol_client_sm_task t (s, sh) = (s', sh')" "abort_ready s' sh'" "pending s' = rs"
    "calls (trace s') = calls (trace s) @ [(r, p)]" "response_code p = err_code ERR_REQUEST_ABORTED" "config s' = config s"
    "set (sent_request_list s') \<subseteq> set (sent_request_list s)"
proof -
  note c = calm_timeout [OF ok calm]
  obtain q where q: "complete_if t (abort_transfers (heard t s)) = drop_request r ((heard t s)\<lparr>transfer_queue := q\<rparr>)"
    "cq_items q @ filter (\<lambda>q. rq_id q \<noteq> rq_id r) (sent_request_list s) = rs"
    using abort_one [of "heard t s" t r rs] ok calm p by (auto simp: abort_ready_def calm_def state_simps)
  let ?d = "drop_request r ((heard t s)\<lparr>transfer_queue := q\<rparr>)"
  have a: "after_abort t s sh = ?d" by (simp add: after_abort_def c(1) q(1))
  have f: "abort_done ?d = abort_done s" "timeouts ?d = timeouts s" "always_disconnect ?d = always_disconnect s"
    "transmit_failures ?d = transmit_failures s" "config ?d = config s" "socket ?d = socket s"
    "connected ?d = connected s" "abort_in_progress ?d = abort_in_progress s" "active_request ?d = None"
    "sm_id ?d = sm_id s" "transfer_queue ?d = q"
    "sent_request_list ?d = filter (\<lambda>q. rq_id q \<noteq> rq_id r) (sent_request_list s)"
    "\<exists>p. calls (trace ?d) = calls (trace s) @ [(r, p)] \<and> response_code p = err_code ERR_REQUEST_ABORTED"
    by (simp_all add: drop_request_def heard_def emit_def Let_def)
  obtain b where b: "st_transmit t s sh =
    (let c = st_connect t (st_new_transmit t s) sh; w = wind_up b (fst c) (after_abort t s sh)
     in (fst w, snd w, snd (snd c)))" using st_transmit_phases by blast
  have w: "wind_up b SM_TRANSMIT ?d = (SM_TRANSMIT, ?d)"
    using ok f by (simp add: wind_up_def abort_ready_def)
  have t: "st_transmit t s sh = (SM_TRANSMIT, ?d, connect_post sh)" by (simp add: b c(2) a w)
  have s': "protocol_client_sm_task t (s, sh) = (?d\<lparr>sm_state := SM_TRANSMIT\<rparr>, (connect_post sh)\<lparr>next_state := SM_TRANSMIT\<rparr>)"
    using ok f(4,5) by (simp add: protocol_client_sm_task_def t abort_ready_def)
  have pd: "pending (?d\<lparr>sm_state := SM_TRANSMIT\<rparr>) = rs"
    using f(9,11,12) q(2) by (simp add: pending_def)
  moreover have "distinct (map rq_id rs)" using ok p by (simp add: abort_ready_def)
  ultimately have "abort_ready (?d\<lparr>sm_state := SM_TRANSMIT\<rparr>) ((connect_post sh)\<lparr>next_state := SM_TRANSMIT\<rparr>)"
    using ok f by (simp add: abort_ready_def connect_post_def)
  with s' pd f(5,12,13) that show thesis by auto
qed

lemma abort_end:
  assumes ok: "abort_ready s sh" and calm: "calm s t" and p: "pending s = []"
  shows "sm_state (fst (protocol_client_sm_task t (s, sh))) = SM_RESET \<and>
    socket (fst (protocol_client_sm_task t (s, sh))) = None \<and>
    protocol_client_sm_is_empty (fst (protocol_client_sm_task t (s, sh))) \<and>
    calls (trace (fst (protocol_client_sm_task t (s, sh)))) = calls (trace s)"
proof -
  have e: "cq_items (transfer_queue s) = []" "sent_request_list s = []" using p by (simp_all add: pending_def)
  note c = calm_timeout [OF ok calm]
  let ?d = "(heard t s)\<lparr>abort_in_progress := False, abort_done := True\<rparr>"
  have a: "after_abort t s sh = ?d"
    using ok e by (simp add: after_abort_def c(1) abort_transfers_def state_simps cqueue_pop_head_def complete_if_def abort_ready_def)
  obtain b where b: "st_transmit t s sh =
    (let c = st_connect t (st_new_transmit t s) sh; w = wind_up b (fst c) (after_abort t s sh)
     in (fst w, snd w, snd (snd c)))" using st_transmit_phases by blast
  show ?thesis
    using ok by (simp add: protocol_client_sm_task_def b c(2) a wind_up_def Let_def abort_ready_def
        close_socket_def heard_def emit_def protocol_client_sm_is_empty_def)
qed

text \<open>C21: what \<open>protocol_client_sm_clear\<close> leads to on a working connection, when no request is active and
  nothing else happens: the callbacks of all queued and then of all sent requests are called, one per
  tick, in order and with \<open>ERR_REQUEST_ABORTED\<close>; one tick later the socket is closed, the machine is in
  the state \<open>SM_RESET\<close> and reports that it is empty.\<close>

theorem clear_aborts_every_request:
  assumes "abort_ready s sh" and "length ts = length (pending s)" and "\<forall>t \<in> set (ts @ [last_tick]). calm s t"
  shows "\<exists>ps. let (s1, sh1) = fold protocol_client_sm_task ts (s, sh); (s2, sh2) = protocol_client_sm_task last_tick (s1, sh1) in
    calls (trace s2) = calls (trace s) @ zip (pending s) ps \<and> length ps = length (pending s) \<and>
    (\<forall>p \<in> set ps. response_code p = err_code ERR_REQUEST_ABORTED) \<and>
    pending s1 = [] \<and> sm_state s2 = SM_RESET \<and> socket s2 = None \<and> protocol_client_sm_is_empty s2"
  using assms
proof (induction ts arbitrary: s sh)
  case Nil
  then have p: "pending s = []" by simp
  from Nil.prems(3) have "calm s last_tick" by simp
  from abort_end [OF Nil.prems(1) this p] p show ?case by (simp add: case_prod_unfold)
next
  case (Cons t ts)
  then obtain r rs where p: "pending s = r # rs" by (cases "pending s") auto
  have "calm s t" using Cons.prems(3) by simp
  from abort_tick [OF Cons.prems(1) this p] obtain p' s' sh' where
    n: "protocol_client_sm_task t (s, sh) = (s', sh')" "abort_ready s' sh'" "pending s' = rs"
    "calls (trace s') = calls (trace s) @ [(r, p')]" "response_code p' = err_code ERR_REQUEST_ABORTED" "config s' = config s"
    "set (sent_request_list s') \<subseteq> set (sent_request_list s)" by blast
  have "\<forall>t \<in> set (ts @ [last_tick]). calm s' t"
    using Cons.prems(3) n(6,7) by (auto simp: calm_def expired_def)
  from Cons.IH [OF n(2) _ this] Cons.prems(2) p n(3) obtain ps where
    "let (s1, sh1) = fold protocol_client_sm_task ts (s', sh'); (s2, sh2) = protocol_client_sm_task last_tick (s1, sh1) in
    calls (trace s2) = calls (trace s') @ zip (pending s') ps \<and> length ps = length (pending s') \<and>
    (\<forall>p \<in> set ps. response_code p = err_code ERR_REQUEST_ABORTED) \<and>
    pending s1 = [] \<and> sm_state s2 = SM_RESET \<and> socket s2 = None \<and> protocol_client_sm_is_empty s2" by auto
  then show ?case using n p by (intro exI [of _ "p' # ps"]) (simp add: case_prod_unfold Let_def)
qed

theorem clear_aborts_every_request_witness:
  "\<exists>s sh. map rq_id (pending s) = [1, 0] \<and>
    map rq_id (map fst (calls (trace (fst (fold protocol_client_sm_task
      (replicate 3 (demo_tick 1030 ERR_SUCCESS ERR_WOULD_BLOCK)) (s, sh)))))) = [1, 0]"
proof -
  let ?t = "demo_tick 1030 ERR_SUCCESS ERR_WOULD_BLOCK"
  define c where "c = fold sm_next [demo_request 7, Tick (demo_tick 1000 ERR_SUCCESS ERR_WOULD_BLOCK),
         Tick (demo_tick 1010 ERR_SUCCESS ERR_WOULD_BLOCK), demo_request 8, Do Clear] (demo_sm 0 SM_ASYNCH 0, demo_shared)"
  have r: "abort_ready (fst c) (snd c)" unfolding c_def abort_ready_def by code_simp
  have p: "map rq_id (pending (fst c)) = [1, 0]" "calls (trace (fst c)) = []" unfolding c_def by code_simp+
  have e: "list_all (\<lambda>r. \<not> expired ?t (fst c) r) (sent_request_list (fst c))" unfolding c_def by code_simp
  have calm: "\<forall>t \<in> set (replicate 2 ?t @ [?t]). calm (fst c) t"
    using e by (auto simp: calm_def demo_tick_def list_all_iff)
  have "length (replicate 2 ?t) = length (pending (fst c))" using arg_cong [OF p(1), of length] by simp
  from clear_aborts_every_request [OF r this calm] obtain ps where
    "calls (trace (fst (protocol_client_sm_task ?t (fold protocol_client_sm_task (replicate 2 ?t) (fst c, snd c))))) =
      zip (pending (fst c)) ps" "length ps = length (pending (fst c))" using p(2) by (auto simp: case_prod_unfold Let_def)
  then have "map rq_id (map fst (calls (trace (fst (fold protocol_client_sm_task (replicate 3 ?t) (fst c, snd c)))))) = [1, 0]"
    using p(1) by (simp add: numeral_eq_Suc)
  with p(1) show ?thesis by (intro exI [of _ "fst c"] exI [of _ "snd c"]) simp
qed

end
