(* ===== verification/Pclb.thy ===== *)
theory Pclb
  imports CBase
begin

text \<open>
  Periodic callbacks (\<open>lib/pclb.c\<close>). Registered objects are on the list of the \<open>shadow_next\<close> pointers;
  a task first copies them to the list of the \<open>next\<close> pointers, over which it then runs. Both lists
  are modelled as lists of addresses, the objects as a memory in which freed ones are missing.
\<close>

section \<open>The operations\<close>

record clb_obj =
  clb :: nat
  clb_param :: nat
  period :: "64 word"
  cnt :: "64 word"
  clb_id :: int

record pclb =
  objs :: "nat \<Rightarrow> clb_obj option"
  periodic_clbs :: "nat list"
  shadow_clbs :: "nat list"
  clb_obj_cnt :: int
  clb_num :: int
  last_system_time :: sys_time
  made :: "nat list"

text \<open>The address is the result of the allocation, one that was not used before; going to the end of
  the shadow list reads every object on it.\<close>

definition pclb_register ::
    "nat option \<Rightarrow> 64 word \<Rightarrow> nat \<Rightarrow> nat \<Rightarrow> pclb \<Rightarrow> c_fault + (err \<times> int option \<times> pclb)" where
  "pclb_register new_clb_obj per fn param st =
     (case new_clb_obj of None \<Rightarrow> Inr (ERR_NO_MEMORY, None, st)
      | Some a \<Rightarrow>
          if list_all (\<lambda>b. objs st b \<noteq> None) (shadow_clbs st) then
            let i = clb_obj_cnt st in
            Inr (ERR_SUCCESS, Some i,
              st\<lparr>objs := (objs st)(a \<mapsto> \<lparr>clb = fn, clb_param = param, period = per, cnt = 0, clb_id = i\<rparr>),
                 shadow_clbs := shadow_clbs st @ [a], clb_obj_cnt := i + 1, clb_num := clb_num st + 1\<rparr>)
          else Inl UseAfterFree)"

text \<open>The search for an id along the \<open>next\<close> pointers.\<close>

fun find_clb :: "(nat \<Rightarrow> clb_obj option) \<Rightarrow> int \<Rightarrow> nat list \<Rightarrow> c_fault + nat option" where
  "find_clb m i [] = Inr None"
| "find_clb m i (a # as) =
     (case m a of None \<Rightarrow> Inl UseAfterFree
      | Some ob \<Rightarrow> if clb_id ob = i then Inr (Some a) else find_clb m i as)"

definition pclb_unregister :: "int \<Rightarrow> pclb \<Rightarrow> c_fault + (err \<times> pclb)" where
  "pclb_unregister i st =
     c_bind (find_clb (objs st) i (periodic_clbs st)) (\<lambda>found. case found of
        None \<Rightarrow> Inr (ERR_FAILURE, st)
      | Some a \<Rightarrow> Inr (ERR_SUCCESS, st\<lparr>objs := (objs st)(a := None),
          periodic_clbs := remove1 a (periodic_clbs st), clb_num := clb_num st - 1\<rparr>))"

text \<open>What a callback does with this module; a registration is given its address.\<close>

datatype pclb_call = Register "nat option" "64 word" nat nat | Unregister int

fun pclb_do :: "pclb_call list \<Rightarrow> pclb \<Rightarrow> c_fault + pclb" where
  "pclb_do [] st = Inr st"
| "pclb_do (Register a per fn param # cs) st =
     c_bind (pclb_register a per fn param st) (\<lambda>(e, i, st). pclb_do cs st)"
| "pclb_do (Unregister i # cs) st = c_bind (pclb_unregister i st) (\<lambda>(e, st). pclb_do cs st)"

text \<open>The loop of the task over the addresses it has still to visit. An object that a callback has
  unregistered meanwhile is no longer on the way; the object itself is read again after its callback.\<close>

fun run_clbs :: "(nat \<Rightarrow> nat \<Rightarrow> pclb_call list) \<Rightarrow> sys_time \<Rightarrow> nat list \<Rightarrow> pclb \<Rightarrow> c_fault + pclb" where
  "run_clbs app dtime [] st = Inr st"
| "run_clbs app dtime (a # as) st =
     (if a \<notin> set (periodic_clbs st) then run_clbs app dtime as st
      else case objs st a of
        None \<Rightarrow> Inl UseAfterFree
      | Some ob \<Rightarrow>
          let c = cnt ob + ucast dtime; st = st\<lparr>objs := (objs st)(a \<mapsto> ob\<lparr>cnt := c\<rparr>)\<rparr> in
          if period ob < c then
            c_bind (pclb_do (app (clb ob) (clb_param ob)) (st\<lparr>made := made st @ [a]\<rparr>)) (\<lambda>st.
              case objs st a of
                None \<Rightarrow> Inl UseAfterFree
              | Some ob \<Rightarrow> run_clbs app dtime as (st\<lparr>objs := (objs st)(a \<mapsto> ob\<lparr>cnt := 0\<rparr>)\<rparr>))
          else run_clbs app dtime as st)"

definition pclb_task :: "(nat \<Rightarrow> nat \<Rightarrow> pclb_call list) \<Rightarrow> sys_time \<Rightarrow> sys_time \<Rightarrow> pclb \<Rightarrow> c_fault + pclb" where
  "pclb_task app now ms st =
     (if shadow_clbs st = [] then Inr (st\<lparr>periodic_clbs := []\<rparr>)
      else if list_all (\<lambda>b. objs st b \<noteq> None) (shadow_clbs st) then
        let st = st\<lparr>periodic_clbs := shadow_clbs st\<rparr>;
            (dtime, st) = (if ms = 0 then (diff_time now (last_system_time st), st\<lparr>last_system_time := now\<rparr>)
              else (ms, st\<lparr>last_system_time := last_system_time st + ms\<rparr>))
        in run_clbs app dtime (periodic_clbs st) st
      else Inl UseAfterFree)"

section \<open>Callbacks that leave the list alone\<close>

definition aged :: "sys_time \<Rightarrow> clb_obj \<Rightarrow> clb_obj" where
  "aged d ob = ob\<lparr>cnt := (if period ob < cnt ob + ucast d then 0 else cnt ob + ucast d)\<rparr>"

definition due :: "sys_time \<Rightarrow> clb_obj \<Rightarrow> bool" where
  "due d ob \<longleftrightarrow> period ob < cnt ob + ucast d"

definition live :: "pclb \<Rightarrow> bool" where
  "live st \<longleftrightarrow> shadow_clbs st \<noteq> [] \<and> distinct (shadow_clbs st) \<and> (\<forall>a \<in> set (shadow_clbs st). objs st a \<noteq> None)"

lemma made_objs_swap: "st\<lparr>made := m, objs := f\<rparr> = st\<lparr>objs := f, made := m\<rparr>"
  by (cases st) simp

lemma run_clbs_silent:
  assumes "distinct as" "set as \<subseteq> set (periodic_clbs st)" "\<forall>a \<in> set as. objs st a \<noteq> None"
  shows "run_clbs (\<lambda>f p. []) d as st = Inr (st\<lparr>
    objs := (\<lambda>a. if a \<in> set as then map_option (aged d) (objs st a) else objs st a),
    made := made st @ filter (\<lambda>a. due d (the (objs st a))) as\<rparr>)"
  using assms
proof (induction as arbitrary: st)
  case (Cons a as)
  then obtain ob where ob: "objs st a = Some ob" by auto
  define st' where "st' = st\<lparr>objs := (objs st)(a \<mapsto> aged d ob), made := made st @ (if due d ob then [a] else [])\<rparr>"
  have step: "run_clbs (\<lambda>f p. []) d (a # as) st = run_clbs (\<lambda>f p. []) d as st'"
    using Cons.prems ob by (simp add: st'_def aged_def due_def Let_def made_objs_swap)
  have same: "objs st' b = objs st b" if "b \<in> set as" for b using that Cons.prems(1) by (auto simp: st'_def)
  have "run_clbs (\<lambda>f p. []) d as st' = Inr (st'\<lparr>
    objs := (\<lambda>a. if a \<in> set as then map_option (aged d) (objs st' a) else objs st' a),
    made := made st' @ filter (\<lambda>a. due d (the (objs st' a))) as\<rparr>)"
    by (rule Cons.IH) (use Cons.prems same in \<open>auto simp: st'_def\<close>)
  also have "filter (\<lambda>a. due d (the (objs st' a))) as = filter (\<lambda>a. due d (the (objs st a))) as"
    using same by (intro filter_cong) simp_all
  also have "(\<lambda>b. if b \<in> set as then map_option (aged d) (objs st' b) else objs st' b) =
      (\<lambda>b. if b \<in> set (a # as) then map_option (aged d) (objs st b) else objs st b)"
    using ob Cons.prems(1) by (auto simp: st'_def fun_eq_iff)
  finally show ?case unfolding step using ob by (simp add: st'_def)
qed simp

lemma task_silent:
  assumes "live st" "ms \<noteq> 0"
  shows "\<exists>st'. pclb_task (\<lambda>f p. []) now ms st = Inr st' \<and> live st' \<and> shadow_clbs st' = shadow_clbs st \<and>
    (\<forall>a \<in> set (shadow_clbs st). objs st' a = map_option (aged ms) (objs st a)) \<and>
    made st' = made st @ filter (\<lambda>a. due ms (the (objs st a))) (shadow_clbs st)"
proof -
  let ?s = "st\<lparr>periodic_clbs := shadow_clbs st, last_system_time := last_system_time st + ms\<rparr>"
  have "run_clbs (\<lambda>f p. []) ms (shadow_clbs st) ?s = Inr (?s\<lparr>
    objs := (\<lambda>a. if a \<in> set (shadow_clbs st) then map_option (aged ms) (objs ?s a) else objs ?s a),
    made := made ?s @ filter (\<lambda>a. due ms (the (objs ?s a))) (shadow_clbs st)\<rparr>)"
    by (rule run_clbs_silent) (use assms in \<open>simp_all add: live_def\<close>)
  then show ?thesis using assms by (auto simp: pclb_task_def live_def list_all_iff Let_def)
qed

fun pclb_ticks :: "nat \<Rightarrow> sys_time \<Rightarrow> pclb \<Rightarrow> c_fault + pclb" where
  "pclb_ticks 0 ms st = Inr st"
| "pclb_ticks (Suc n) ms st = c_bind (pclb_ticks n ms st) (pclb_task (\<lambda>f p. []) 0 ms)"

lemma count_filter_one: "distinct as \<Longrightarrow> a \<in> set as \<Longrightarrow> count_list (filter P as) a = (if P a then 1 else 0)"
  by (induction as) (auto simp: count_list_0_iff)

lemma mod_Suc_cases: "Suc n mod k = (if Suc (n mod k) = k then 0 else Suc (n mod k))"
    "Suc n div k = (if Suc (n mod k) = k then Suc (n div k) else n div k)" if "0 < k"
  by (simp_all add: mod_Suc div_Suc)

lemma ticks_silent:
  assumes l: "live st" and a: "a \<in> set (shadow_clbs st)" "objs st a = Some ob" "cnt ob = 0"
    and ms: "ms \<noteq> 0" and p: "unat (period ob) + unat ms < 2 ^ 64"
  defines "k \<equiv> Suc (unat (period ob) div unat ms)"
  shows "\<exists>st'. pclb_ticks n ms st = Inr st' \<and> live st' \<and> shadow_clbs st' = shadow_clbs st \<and>
    (\<exists>ob'. objs st' a = Some ob' \<and> period ob' = period ob \<and> unat (cnt ob') = n mod k * unat ms) \<and>
    count_list (made st') a = count_list (made st) a + n div k"
proof (induction n)
  case 0
  show ?case using l a by simp
next
  case (Suc n)
  then obtain s1 o1 where s1: "pclb_ticks n ms st = Inr s1" "live s1" "shadow_clbs s1 = shadow_clbs st"
    "objs s1 a = Some o1" "period o1 = period ob" "unat (cnt o1) = n mod k * unat ms"
    "count_list (made s1) a = count_list (made st) a + n div k" by blast
  obtain s2 where s2: "pclb_task (\<lambda>f p. []) 0 ms s1 = Inr s2" "live s2" "shadow_clbs s2 = shadow_clbs s1"
    "\<forall>b \<in> set (shadow_clbs s1). objs s2 b = map_option (aged ms) (objs s1 b)"
    "made s2 = made s1 @ filter (\<lambda>b. due ms (the (objs s1 b))) (shadow_clbs s1)"
    using task_silent [OF s1(2) ms] by blast
  have m: "0 < unat ms" using ms by (simp add: unat_gt_0)
  have "n mod k \<le> unat (period ob) div unat ms" using mod_less_divisor [of k n] by (simp add: k_def less_Suc_eq_le del: mod_less_divisor)
  then have le: "n mod k * unat ms \<le> unat (period ob)"
    by (metis div_times_less_eq_dividend mult_le_mono1 le_trans)
  have um: "unat (ucast ms :: 64 word) = unat ms" using unsigned_less [where ?'a = nat, of ms] by (simp add: unsigned_ucast_eq take_bit_nat_eq_self)
  have sum: "unat (cnt o1 + ucast ms) = Suc (n mod k) * unat ms"
    using le p by (subst unat_add_lem [THEN iffD1]) (simp_all add: s1(6) um)
  have lt: "n mod k < k" by (simp add: k_def)
  have due: "due ms o1 \<longleftrightarrow> Suc (n mod k) = k"
  proof -
    have "due ms o1 \<longleftrightarrow> unat (period ob) < Suc (n mod k) * unat ms"
      by (simp only: due_def word_less_nat_alt sum s1(5))
    also have "\<dots> \<longleftrightarrow> unat (period ob) div unat ms < Suc (n mod k)"
      using m by (simp add: div_less_iff_less_mult)
    also have "\<dots> \<longleftrightarrow> k \<le> Suc (n mod k)" by (simp add: k_def Suc_le_eq)
    also have "\<dots> \<longleftrightarrow> Suc (n mod k) = k" using lt by linarith
    finally show ?thesis .
  qed
  have k: "0 < k" by (simp add: k_def)
  have "objs s2 a = Some (aged ms o1)" using s2(4) s1(3,4) a(1) by simp
  moreover have "unat (cnt (aged ms o1)) = Suc n mod k * unat ms"
    using due sum by (simp add: aged_def due_def mod_Suc_cases(1) [OF k])
  moreover have "count_list (made s2) a = count_list (made st) a + Suc n div k"
    using s1 s2(5) a(1) due l by (simp add: count_filter_one live_def mod_Suc_cases(2) [OF k])
  ultimately show ?case using s1 s2 by (simp add: aged_def)
qed


definition no_clbs :: pclb where
  "no_clbs = \<lparr>objs = Map.empty, periodic_clbs = [], shadow_clbs = [], clb_obj_cnt = 0, clb_num = 0,
     last_system_time = 0, made = []\<rparr>"

definition two_clbs :: pclb where
  "two_clbs = (case pclb_do [Register (Some 1) 1000 11 0, Register (Some 2) 10 12 0] no_clbs of Inr st \<Rightarrow> st)"

lemma two_clbs: "two_clbs = \<lparr>objs = [1 \<mapsto> \<lparr>clb = 11, clb_param = 0, period = 1000, cnt = 0, clb_id = 0\<rparr>,
    2 \<mapsto> \<lparr>clb = 12, clb_param = 0, period = 10, cnt = 0, clb_id = 1\<rparr>],
    periodic_clbs = [], shadow_clbs = [1, 2], clb_obj_cnt = 2, clb_num = 2, last_system_time = 0, made = []\<rparr>"
  by (simp add: two_clbs_def no_clbs_def pclb_register_def)




end
