(* ===== verification/Polling.thy ===== *)
theory Polling
  imports Pclb
begin

text \<open>
  Who calls \<open>pclb_task\<close>: the thread that \<open>pclb_init\<close> starts, or, where there are no threads, the
  functions of \<open>system_utils.c\<close> with which an application waits.
\<close>

section \<open>The thread\<close>

definition pclb_get_clb_num :: "pclb \<Rightarrow> int" where
  "pclb_get_clb_num st = clb_num st"

record pclb_thread_state =
  stack_size :: nat
  has_thread :: bool

text \<open>The arguments are the results of creating the mutex and the thread.\<close>

definition pclb_init :: "err \<Rightarrow> err \<Rightarrow> nat \<Rightarrow> pclb_thread_state \<Rightarrow> err \<times> pclb_thread_state" where
  "pclb_init mutex thread wanted t =
     (let t = (if wanted \<noteq> 0 then t\<lparr>stack_size := wanted\<rparr> else t) in
      if mutex \<noteq> ERR_SUCCESS then (mutex, t)
      else (ERR_SUCCESS, t\<lparr>has_thread := (thread = ERR_SUCCESS)\<rparr>))"

text \<open>The thread runs for ever; these are its first rounds, \<open>clock\<close> has the time of each.\<close>

fun periodic_clb_thread :: "(nat \<Rightarrow> nat \<Rightarrow> pclb_call list) \<Rightarrow> sys_time list \<Rightarrow> pclb \<Rightarrow> c_fault + pclb" where
  "periodic_clb_thread app [] st = Inr st"
| "periodic_clb_thread app (time # clock) st = c_bind (pclb_task app time 10 st) (periodic_clb_thread app clock)"

section \<open>Waiting without a thread\<close>

definition system_poll ::
    "bool \<Rightarrow> (nat \<Rightarrow> nat \<Rightarrow> pclb_call list) \<Rightarrow> sys_time \<Rightarrow> sys_time \<Rightarrow> pclb \<Rightarrow> c_fault + pclb" where
  "system_poll thread app time ms st = (if thread then Inr st else pclb_task app time ms st)"

text \<open>The loop of \<open>system_delay_and_poll\<close>; \<open>clock\<close> has what the calls of \<open>system_get_diff_time\<close> read, one for
  each test of the condition. The second result says whether the loop has come to its end.\<close>

fun delay_loop ::
    "(nat \<Rightarrow> nat \<Rightarrow> pclb_call list) \<Rightarrow> sys_time \<Rightarrow> sys_time \<Rightarrow> sys_time list \<Rightarrow> pclb \<Rightarrow> c_fault + (pclb \<times> bool)" where
  "delay_loop app start ms [] st = Inr (st, False)"
| "delay_loop app start ms (time # clock) st =
     (let diff = diff_time time start in
      if diff < ms then c_bind (system_poll False app time diff st) (delay_loop app start ms clock)
      else Inr (st, True))"

definition system_delay_and_poll ::
    "bool \<Rightarrow> (nat \<Rightarrow> nat \<Rightarrow> pclb_call list) \<Rightarrow> sys_time \<Rightarrow> sys_time \<Rightarrow> sys_time list \<Rightarrow> pclb \<Rightarrow> c_fault + (pclb \<times> bool)" where
  "system_delay_and_poll thread app start ms clock st =
     c_bind (system_poll thread app start 0 st) (\<lambda>st.
       if thread then Inr (st, True) else delay_loop app start ms clock st)"

text \<open>The delay ends with the first reading at which the time is over, also across the wrap of the
  clock, when the readings go on long enough and the callbacks fault nowhere.\<close>

lemma delay_loop_ends:
  assumes "\<exists>time \<in> set clock. ms \<le> diff_time time start"
  shows "case delay_loop app start ms clock st of Inl f \<Rightarrow> True | Inr (st', ended) \<Rightarrow> ended"
  using assms
proof (induction clock arbitrary: st)
  case (Cons time clock)
  show ?case
  proof (cases "diff_time time start < ms")
    case True
    with Cons.prems have "\<exists>time \<in> set clock. ms \<le> diff_time time start" by auto
    from Cons.IH [OF this] True show ?thesis
      by (cases "system_poll False app time (diff_time time start) st") (auto simp: Let_def)
  qed (simp add: Let_def)
qed simp

text \<open>Each round of the delay passes on the time since its start, not since the last round, and
  \<open>pclb_task\<close> adds it to every counter: in a delay of 60 ms that is polled every 10 ms, a callback
  with a period of 100 ms is called.\<close>

definition one_callback :: pclb where
  "one_callback = \<lparr>objs = [1 \<mapsto> \<lparr>clb = 0, clb_param = 0, period = 100, cnt = 0, clb_id = 0\<rparr>], periodic_clbs = [],
     shadow_clbs = [1], clb_obj_cnt = 1, clb_num = 1, last_system_time = 1000, made = []\<rparr>"

lemma delay_counts_time_twice:
  "map_sum id (\<lambda>(st, ended). (made st, ended))
     (system_delay_and_poll False (\<lambda>fn p. []) 1000 60 [1010, 1020, 1030, 1040, 1050, 1060] one_callback) =
   Inr ([1], True)"
  by code_simp

text \<open>The thread, which passes on 10 ms a round, does not call it in this time.\<close>

lemma thread_counts_time_once:
  "map_sum id made (periodic_clb_thread (\<lambda>fn p. []) [1010, 1020, 1030, 1040, 1050, 1060] one_callback) = Inr []"
  by code_simp

end
