(* ===== verification/ProtocolRuns.thy ===== *)
theory ProtocolRuns
  imports ProtocolTick
begin

text \<open>
  What happens to the requests of a protocol client state machine over its ticks: which are answered,
  the one way in which a request gets lost, time-outs, the abort of all requests, and one request at a
  time for a synchronous protocol.
\<close>

section \<open>Where requests go\<close>

definition ids :: "protocol_client_sm \<Rightarrow> nat set" where
  "ids s = rq_id ` set (pending s)"

definition called_ids :: "(protocol_client_request \<times> protocol_client_response) list \<Rightarrow> nat set" where
  "called_ids cs = (rq_id \<circ> fst) ` set cs"

lemma called_ids_simps [simp]: "called_ids [] = {}" "called_ids ((r, p) # cs) = insert (rq_id r) (called_ids cs)"
  "called_ids (cs @ ds) = called_ids cs \<union> called_ids ds"
  by (auto simp: called_ids_def)

text \<open>From one state to a later one: the new calls, what may have been lost, and nothing old comes
  from nowhere.\<close>

definition carries ::
    "protocol_client_sm \<Rightarrow> protocol_client_sm \<Rightarrow> (protocol_client_request \<times> protocol_client_response) list \<Rightarrow> nat set \<Rightarrow> bool" where
  "carries s s' cs lost \<longleftrightarrow> calls (trace s') = calls (trace s) @ cs \<and> created s \<le> created s' \<and>
     ids s \<subseteq> ids s' \<union> called_ids cs \<union> lost \<and>
     (\<forall>i \<in> ids s' \<union> called_ids cs. i \<in> ids s \<or> created s \<le> i)"

lemma carries_trans: "carries s s' cs l \<Longrightarrow> carries s' s'' ds m \<Longrightarrow> carries s s'' (cs @ ds) (l \<union> m)"
  unfolding carries_def by fastforce

lemma carries_same: "calls (trace s') = calls (trace s) \<Longrightarrow> created s' = created s \<Longrightarrow> ids s' = ids s \<Longrightarrow>
    carries s s' [] {}"
  by (simp add: carries_def)

lemma moved_carries: "moved s s' \<Longrightarrow> carries s s' [] {}"
  using moved_pending(1) by (intro carries_same) (auto simp: moved_def ids_def)

lemma new_transmit_carries: "carries s (st_new_transmit t s) [] {}"
  by (rule carries_same) (simp_all add: state_simps ids_def new_transmit_pending)

lemma complete_carries:
  assumes c: "completed_request s' = Some r" and r: "rq_id r \<in> ids s"
    and s: "calls (trace s') = calls (trace s)" "created s' = created s" "ids s' \<subseteq> ids s"
      "ids s \<subseteq> insert (rq_id r) (ids s' \<union> lost)"
  shows "\<exists>p. carries s (st_transmit_complete t s') [(r, p)] lost \<and> response_code p = response_code (response s')"
proof (rule complete_effect [OF c, of t])
  fix new s''
  assume e: "st_transmit_complete t s' = s''"
    "trace s'' = trace s' @ [Called r ((response s')\<lparr>response_type := rq_type r\<rparr>)]"
    "cq_items (transfer_queue s'') = cq_items (transfer_queue s') @ new" "created s' \<le> created s''"
    "\<forall>x \<in> set new. created s' \<le> rq_id x \<and> rq_id x < created s''"
    "repeating s' r \<and> \<not> abort_in_progress s' \<and> sent_request_list s'' = sent_request_list s' \<and> sent_request_num s'' = sent_request_num s' \<or>
     sent_request_list s'' = filter (\<lambda>q. rq_id q \<noteq> rq_id r) (sent_request_list s') \<and>
     sent_request_num s'' = (if sent_request_num s' \<noteq> 0 then sent_request_num s' - 1 else 0)"
    "active_request s'' = active_request s'"
  have "ids s' \<subseteq> insert (rq_id r) (ids s'')"
    using e(6) unfolding ids_def pending_def e(3,7) by (elim disjE conjE) auto
  moreover have "ids s'' \<subseteq> ids s' \<union> rq_id ` set new"
    using e(6) unfolding ids_def pending_def e(3,7) by (elim disjE conjE) auto
  moreover have "\<forall>i \<in> rq_id ` set new. created s \<le> i" using e(5) s(2) by auto
  ultimately have "carries s s'' [(r, (response s')\<lparr>response_type := rq_type r\<rparr>)] lost"
    using e(2,4) r s by (auto simp: carries_def)
  then show ?thesis using e(1) by auto
qed

lemma gives_up_carries:
  assumes g: "gives_up e r s s'"
  shows "\<exists>p. carries s (st_transmit_complete t s') [(r, p)]
      {i. \<exists>q. active_request s = Some q \<and> rq_id q = i \<and> i \<noteq> rq_id r} \<and> response_code p = err_code e"
proof -
  have c: "completed_request s' = Some r" "response_code (response s') = err_code e" "rq_id r \<in> ids s"
    "calls (trace s') = calls (trace s)" "created s' = created s"
    using g by (auto simp: gives_up_def ids_def)
  have p: "active_request s' = None" "sent_request_list s' = sent_request_list s"
    "transfer_queue s' = transfer_queue s \<or> cq_items (transfer_queue s) = r # cq_items (transfer_queue s')"
    using g by (auto simp: gives_up_def)
  have "ids s' \<subseteq> ids s" "ids s \<subseteq> insert (rq_id r) (ids s' \<union>
      {i. \<exists>q. active_request s = Some q \<and> rq_id q = i \<and> i \<noteq> rq_id r})"
    using p(3) unfolding ids_def pending_def p(1,2) by (elim disjE; cases "active_request s"; auto)+
  from complete_carries [OF c(1,3-5) this, of t] c(2) show ?thesis by auto
qed

definition active_id :: "protocol_client_sm \<Rightarrow> nat set" where
  "active_id s = rq_id ` set_option (active_request s)"

lemma exchange_phase:
  "\<exists>cs. carries s (after_exchange t s sh) cs {} \<and> active_id (after_exchange t s sh) \<subseteq> active_id (st_new_transmit t s)"
proof -
  let ?c = "fst (snd (st_connect t (st_new_transmit t s) sh))"
  have c: "carries s ?c [] {}"
    using carries_trans [OF new_transmit_carries moved_carries [OF connect_moved]] by simp
  have a: "active_id ?c = active_id (st_new_transmit t s)" by (simp add: active_id_def state_simps)
  have x: "moved ?c (snd (exchange t ?c))" by (rule exchange_moved)
  show ?thesis
  proof (cases "fst (st_connect t (st_new_transmit t s) sh) = SM_TRANSMIT")
    case False
    with c a show ?thesis by (auto simp: after_exchange_def Let_def complete_if_def)
  next
    case True
    show ?thesis
    proof (cases "fst (exchange t ?c)")
      case False
      with carries_trans [OF c moved_carries [OF x]] x True a show ?thesis
        by (auto simp: after_exchange_def Let_def complete_if_def moved_def active_id_def)
    next
      case c1: True
      from exchange_completed [OF c1] obtain r where r: "completed_request (snd (exchange t ?c)) = Some r"
        "r \<in> set (sent_request_list (snd (exchange t ?c)))" by blast
      have i: "ids (snd (exchange t ?c)) = ids ?c" using moved_pending(1) [OF x] by (simp add: ids_def)
      have "rq_id r \<in> ids ?c" unfolding i [symmetric] using r(2) by (auto simp: ids_def pending_def)
      from complete_carries [OF r(1) this, of "{}" t] x i obtain p where
        "carries ?c (st_transmit_complete t (snd (exchange t ?c))) [(r, p)] {}" by (auto simp: moved_def)
      from carries_trans [OF c this] True c1 x a show ?thesis
        by (auto simp: after_exchange_def Let_def complete_if_def moved_def active_id_def state_simps)
    qed
  qed
qed

lemma give_up_phase:
  assumes "fst (f s) \<Longrightarrow> \<exists>r. gives_up e r s (snd (f s))"
    and "\<not> fst (f s) \<Longrightarrow> ids (snd (f s)) = ids s \<and> active_request (snd (f s)) = active_request s \<and>
      trace (snd (f s)) = trace s \<and> created (snd (f s)) = created s"
  shows "\<exists>cs l. carries s (complete_if t (f s)) cs l \<and> active_id (complete_if t (f s)) \<subseteq> active_id s \<and>
    (\<forall>i \<in> l. i \<in> active_id s \<and> (\<exists>(r, p) \<in> set cs. rq_id r \<noteq> i \<and> response_code p = err_code e))"
proof (cases "fst (f s)")
  case True
  then obtain r where g: "gives_up e r s (snd (f s))" using assms(1) by blast
  from gives_up_carries [OF g, of t] obtain p where p: "carries s (st_transmit_complete t (snd (f s))) [(r, p)]
      {i. \<exists>q. active_request s = Some q \<and> rq_id q = i \<and> i \<noteq> rq_id r}" "response_code p = err_code e" by blast
  have "active_id (st_transmit_complete t (snd (f s))) = {}"
    using g by (simp add: active_id_def state_simps gives_up_def)
  with p True show ?thesis
    by (intro exI [of _ "[(r, p)]"] exI [of _ "{i. \<exists>q. active_request s = Some q \<and> rq_id q = i \<and> i \<noteq> rq_id r}"])
      (auto simp: complete_if_def active_id_def)
next
  case False
  with assms(2) have "carries s (snd (f s)) [] {}" by (intro carries_same) simp_all
  with False assms(2) show ?thesis
    by (intro exI [of _ "[]"] exI [of _ "{}"]) (auto simp: complete_if_def active_id_def)
qed

lemma wind_up_same: "ids (snd (wind_up b n s)) = ids s" "calls (trace (snd (wind_up b n s))) = calls (trace s)"
    "created (snd (wind_up b n s)) = created s"
  by (simp_all add: wind_up_def close_socket_def emit_def ids_def pending_def Let_def)

lemma close_same: "ids (close_socket s) = ids s" "calls (trace (close_socket s)) = calls (trace s)"
    "created (close_socket s) = created s"
  by (simp_all add: close_socket_def emit_def ids_def pending_def)

definition given_up_codes :: "int set" where
  "given_up_codes = {err_code ERR_TIMEOUT, err_code ERR_REQUEST_ABORTED}"

lemma st_transmit_carries:
  "\<exists>cs l. carries s (fst (snd (st_transmit t s sh))) cs l \<and>
     (\<forall>i \<in> l. i \<in> active_id (st_new_transmit t s) \<and>
       (\<exists>(r, p) \<in> set cs. rq_id r \<noteq> i \<and> response_code p \<in> given_up_codes))"
proof -
  obtain cs where c: "carries s (after_exchange t s sh) cs {}"
    "active_id (after_exchange t s sh) \<subseteq> active_id (st_new_transmit t s)" using exchange_phase by blast
  obtain ds l where d: "carries (after_exchange t s sh) (after_timeout t s sh) ds l"
    "active_id (after_timeout t s sh) \<subseteq> active_id (after_exchange t s sh)"
    "\<forall>i \<in> l. i \<in> active_id (after_exchange t s sh) \<and>
      (\<exists>(r, p) \<in> set ds. rq_id r \<noteq> i \<and> response_code p = err_code ERR_TIMEOUT)"
    using give_up_phase [of "check_timeout t" "after_exchange t s sh" ERR_TIMEOUT t]
      check_timeout_gives_up [of t "after_exchange t s sh"] unfolding after_timeout_def by auto
  have stay: "\<not> fst (abort_transfers u) \<Longrightarrow> ids (snd (abort_transfers u)) = ids u \<and>
      active_request (snd (abort_transfers u)) = active_request u \<and>
      trace (snd (abort_transfers u)) = trace u \<and> created (snd (abort_transfers u)) = created u" for u
    using abort_transfers_stays [of u] by (auto simp: ids_def pending_def)
  obtain es m where e: "carries (after_timeout t s sh) (after_abort t s sh) es m"
    "\<forall>i \<in> m. i \<in> active_id (after_timeout t s sh) \<and>
      (\<exists>(r, p) \<in> set es. rq_id r \<noteq> i \<and> response_code p = err_code ERR_REQUEST_ABORTED)"
    using give_up_phase [of abort_transfers "after_timeout t s sh" ERR_REQUEST_ABORTED t]
      abort_transfers_gives_up [of "after_timeout t s sh"] stay unfolding after_abort_def by blast
  obtain b where b: "fst (snd (st_transmit t s sh)) =
      snd (wind_up b (fst (st_connect t (st_new_transmit t s) sh)) (after_abort t s sh))"
    using st_transmit_phases [of t s sh] by (auto simp: Let_def)
  have "carries s (after_abort t s sh) ((cs @ ds) @ es) (({} \<union> l) \<union> m)"
    by (rule carries_trans [OF carries_trans [OF c(1) d(1)] e(1)])
  then have "carries s (fst (snd (st_transmit t s sh))) ((cs @ ds) @ es) (l \<union> m)"
    by (simp add: b carries_def wind_up_same)
  moreover have "i \<in> active_id (st_new_transmit t s) \<and>
      (\<exists>(r, p) \<in> set ((cs @ ds) @ es). rq_id r \<noteq> i \<and> response_code p \<in> given_up_codes)" if "i \<in> l \<union> m" for i
    using that c(2) d(2,3) e(2) by (fastforce simp: given_up_codes_def)
  ultimately show ?thesis by blast
qed

lemma task_carries:
  "\<exists>cs l. carries s (fst (protocol_client_sm_task t (s, sh))) cs l \<and>
     (\<forall>i \<in> l. sm_state s = SM_TRANSMIT \<and> i \<in> active_id (st_new_transmit t s) \<and>
       (\<exists>(r, p) \<in> set cs. rq_id r \<noteq> i \<and> response_code p \<in> given_up_codes))"
proof -
  have k: "carries s u cs l \<Longrightarrow> carries s (u\<lparr>sm_state := n\<rparr>) cs l" for u cs l n
    by (simp add: carries_def ids_def pending_def)
  show ?thesis
  proof (cases "sm_state s")
    case SM_RESET
    have "carries s (snd (st_reset t s)) [] {}"
      by (rule carries_same) (auto simp: st_reset_def close_same ids_def pending_def close_socket_def emit_def)
    from k [OF this] show ?thesis
      using SM_RESET by (auto simp: protocol_client_sm_task_def Let_def case_prod_unfold)
  next
    case SM_TRANSMIT
    obtain cs l where "carries s (fst (snd (st_transmit t s sh))) cs l"
      "\<forall>i \<in> l. i \<in> active_id (st_new_transmit t s) \<and>
       (\<exists>(r, p) \<in> set cs. rq_id r \<noteq> i \<and> response_code p \<in> given_up_codes)" using st_transmit_carries by blast
    with k [OF this(1)] SM_TRANSMIT show ?thesis
      by (auto simp: protocol_client_sm_task_def Let_def case_prod_unfold)
  next
    case SM_FAILURE
    have "carries s (snd (st_failure s)) [] {}"
      by (rule carries_same) (auto simp: st_failure_def ids_def pending_def)
    from k [OF this] show ?thesis
      using SM_FAILURE by (auto simp: protocol_client_sm_task_def Let_def case_prod_unfold)
  next
    case SM_CONNECT
    have "carries s s [] {}" by (rule carries_same) simp_all
    from k [OF this] show ?thesis
      using SM_CONNECT by (auto simp: protocol_client_sm_task_def Let_def case_prod_unfold)
  qed
qed

text \<open>C5: in one tick every request that waits, is active or was sent either stays with the machine or its
  callback is called, with one exception: the active request is dropped without a callback when in
  the same tick another request times out or is aborted. Nothing is called back that was not with
  the machine before or was added in the tick.\<close>

theorem requests_stay_or_are_answered:
  fixes t s sh
  defines "s' \<equiv> fst (protocol_client_sm_task t (s, sh))"
  shows "\<exists>cs. calls (trace s') = calls (trace s) @ cs \<and>
    (\<forall>i \<in> rq_id ` set (pending s). i \<in> rq_id ` set (pending s') \<or> i \<in> called_ids cs \<or>
       (\<exists>q. active_request (st_new_transmit t s) = Some q \<and> rq_id q = i \<and>
          (\<exists>(r, p) \<in> set cs. rq_id r \<noteq> i \<and>
             (response_code p = err_code ERR_TIMEOUT \<or> response_code p = err_code ERR_REQUEST_ABORTED)))) \<and>
    (\<forall>i \<in> called_ids cs. i \<in> rq_id ` set (pending s) \<or> created s \<le> i)"
proof -
  obtain cs l where c: "carries s s' cs l" "\<forall>i \<in> l. sm_state s = SM_TRANSMIT \<and>
      i \<in> active_id (st_new_transmit t s) \<and> (\<exists>(r, p) \<in> set cs. rq_id r \<noteq> i \<and> response_code p \<in> given_up_codes)"
    using task_carries [of s t sh] unfolding s'_def by blast
  have l: "\<exists>q. active_request (st_new_transmit t s) = Some q \<and> rq_id q = i \<and>
      (\<exists>(r, p) \<in> set cs. rq_id r \<noteq> i \<and>
        (response_code p = err_code ERR_TIMEOUT \<or> response_code p = err_code ERR_REQUEST_ABORTED))" if "i \<in> l" for i
    using c(2) that by (fastforce simp: active_id_def given_up_codes_def)
  show ?thesis
    using c(1) l unfolding carries_def ids_def by (intro exI [of _ cs]) blast
qed

text \<open>A request that is neither with the machine nor called back never is.\<close>

definition gone :: "nat \<Rightarrow> protocol_client_sm \<Rightarrow> bool" where
  "gone i s \<longleftrightarrow> i < created s \<and> i \<notin> ids s \<and> i \<notin> called_ids (calls (trace s))"

lemma gone_carries: "gone i s \<Longrightarrow> carries s s' cs l \<Longrightarrow> gone i s'"
  unfolding gone_def carries_def by fastforce

lemma sm_do_carries: "carries s (sm_do c s) [] {}"
proof -
  obtain new where n: "cq_items (transfer_queue (sm_do c s)) = cq_items (transfer_queue s) @ new"
    "created s \<le> created (sm_do c s)" "\<forall>r \<in> set new. created s \<le> rq_id r \<and> rq_id r < created (sm_do c s)"
    using sm_dos_queue [of "[c]" s] by auto
  then show ?thesis by (auto simp: carries_def ids_def pending_def state_simps)
qed

lemma gone_step: "gone i (fst c) \<Longrightarrow> gone i (fst (sm_next e c))"
proof (cases e; cases c)
  fix t s sh
  assume "gone i (fst c)" and "e = Tick t" "c = (s, sh)"
  with task_carries [of s t sh] show ?thesis by (auto intro: gone_carries)
qed (auto intro: gone_carries [OF _ sm_do_carries])

lemma gone_forever: "gone i (fst c) \<Longrightarrow> gone i (fst (fold sm_next es c))"
proof (induction es arbitrary: c)
  case (Cons e es)
  from Cons.IH [OF gone_step [OF Cons.prems]] show ?case by simp
qed simp

text \<open>C22: a request can get lost for good. With an asynchronous protocol the first request was sent and
  the second, not yet sent, is active when the first times out: from then on, whatever happens, the
  second request is never called back, not even with a time-out or an abort.\<close>

theorem timeout_loses_active_request:
  fixes later :: "sm_step list"
  shows "let es = [demo_request 7, Tick (demo_tick 1000 ERR_SUCCESS ERR_WOULD_BLOCK),
        Tick (demo_tick 1010 ERR_SUCCESS ERR_WOULD_BLOCK), demo_request 8,
        Tick (demo_tick 1100 ERR_WOULD_BLOCK ERR_WOULD_BLOCK),
        Tick (demo_tick 1111 ERR_WOULD_BLOCK ERR_WOULD_BLOCK)] @ later
   in map rq_id (pending (fst (fold sm_next (take 5 es) (demo_sm 0 SM_ASYNCH 0, demo_shared)))) = [0, 1] \<and>
      1 \<notin> called_ids (calls (trace (fst (fold sm_next es (demo_sm 0 SM_ASYNCH 0, demo_shared)))))"
proof -
  let ?es = "[demo_request 7, Tick (demo_tick 1000 ERR_SUCCESS ERR_WOULD_BLOCK),
        Tick (demo_tick 1010 ERR_SUCCESS ERR_WOULD_BLOCK), demo_request 8,
        Tick (demo_tick 1100 ERR_WOULD_BLOCK ERR_WOULD_BLOCK),
        Tick (demo_tick 1111 ERR_WOULD_BLOCK ERR_WOULD_BLOCK)]"
  have p: "map rq_id (pending (fst (fold sm_next (take 5 ?es) (demo_sm 0 SM_ASYNCH 0, demo_shared)))) = [0, 1]"
    by code_simp
  have "gone 1 (fst (fold sm_next ?es (demo_sm 0 SM_ASYNCH 0, demo_shared)))"
    unfolding gone_def ids_def called_ids_def by code_simp
  from gone_forever [OF this, of later] p show ?thesis by (simp add: gone_def)
qed

lemma exchange_sent: "r \<in> set (sent_request_list s) \<Longrightarrow>
    r \<in> set (sent_request_list (after_exchange t s sh)) \<or>
    (\<exists>cs q p. calls (trace (after_exchange t s sh)) = calls (trace s) @ cs \<and> (q, p) \<in> set cs \<and> rq_id q = rq_id r)"
proof -
  assume r: "r \<in> set (sent_request_list s)"
  let ?c = "fst (snd (st_connect t (st_new_transmit t s) sh))"
  let ?x = "exchange t ?c"
  have m: "moved ?c (snd ?x)" by (rule exchange_moved)
  have x: "r \<in> set (sent_request_list (snd ?x))" "calls (trace (snd ?x)) = calls (trace s)"
    using r m by (auto simp: moved_def state_simps)
  show ?thesis
  proof (cases "fst (st_connect t (st_new_transmit t s) sh) = SM_TRANSMIT \<and> fst ?x")
    case True
    from exchange_completed [of t ?c] True obtain q where q: "completed_request (snd ?x) = Some q" by blast
    show ?thesis
      by (rule complete_effect [OF q, of t])
        (use x True in \<open>auto simp: after_exchange_def Let_def complete_if_def\<close>)
  next
    case False
    with r x show ?thesis by (auto simp: after_exchange_def Let_def complete_if_def state_simps)
  qed
qed

lemma timeout_fires:
  assumes "r \<in> set (sent_request_list u)" "\<not> repeating u r" "expired t u r"
  shows "\<exists>q p l. carries u (complete_if t (check_timeout t u)) [(q, p)] l \<and> \<not> repeating u q \<and> expired t u q \<and>
    response_code p = err_code ERR_TIMEOUT"
proof -
  obtain q where q: "find (\<lambda>r. \<not> repeating u r \<and> expired t u r) (sent_request_list u) = Some q"
    using assms by (cases "find (\<lambda>r. \<not> repeating u r \<and> expired t u r) (sent_request_list u)")
      (auto simp: find_None_iff)
  note f = find_in [OF q]
  have k: "check_timeout t u = (True, (give_up ERR_TIMEOUT q u)\<lparr>timeouts := timeouts u + 1\<rparr>)"
    by (simp add: check_timeout_def q)
  have "gives_up ERR_TIMEOUT q u (snd (check_timeout t u))"
    using f by (simp add: k gives_up_def state_simps pending_def)
  from gives_up_carries [OF this, of t] f show ?thesis by (auto simp: complete_if_def k)
qed

lemma after_abort_calls: "\<exists>cs. calls (trace (fst (snd (st_transmit t s sh)))) = calls (trace (after_timeout t s sh)) @ cs"
proof -
  obtain b where b: "fst (snd (st_transmit t s sh)) =
      snd (wind_up b (fst (st_connect t (st_new_transmit t s) sh)) (after_abort t s sh))"
    using st_transmit_phases [of t s sh] by (auto simp: Let_def)
  let ?u = "after_timeout t s sh"
  show ?thesis
  proof (cases "fst (abort_transfers ?u)")
    case True
    from abort_transfers_gives_up [OF True] obtain r where "gives_up ERR_REQUEST_ABORTED r ?u (snd (abort_transfers ?u))" by blast
    from gives_up_carries [OF this, of t] True show ?thesis
      by (auto simp: b wind_up_same after_abort_def complete_if_def carries_def)
  next
    case False
    with abort_transfers_stays [OF False] show ?thesis
      by (auto simp: b wind_up_same after_abort_def complete_if_def)
  qed
qed

text \<open>C14: a sent request whose time is up is not left waiting behind others: in the next tick of the state
  \<open>SM_TRANSMIT\<close> it is called back, or another request whose time is up is called back with
  \<open>ERR_TIMEOUT\<close>. Repeating subscriptions do not time out.\<close>

theorem expired_request_is_answered:
  assumes "sm_state s = SM_TRANSMIT" and "r \<in> set (sent_request_list s)"
    and "\<not> repeating s r" and "expired t s r"
  shows "\<exists>q p cs. calls (trace (fst (protocol_client_sm_task t (s, sh)))) = calls (trace s) @ cs \<and> (q, p) \<in> set cs \<and>
    (rq_id q = rq_id r \<or>
     \<not> repeating s q \<and> expired t s q \<and> response_code p = err_code ERR_TIMEOUT)"
proof -
  let ?u = "after_exchange t s sh"
  have same: "stype ?u = stype s" "config ?u = config s"
    using exchange_moved [of "fst (snd (st_connect t (st_new_transmit t s) sh))" t]
    by (simp_all add: after_exchange_def Let_def state_simps moved_def)
  then have re: "repeating ?u = repeating s" "expired t ?u = expired t s"
    by (auto simp: repeating_def expired_def fun_eq_iff)
  have task: "calls (trace (fst (protocol_client_sm_task t (s, sh)))) = calls (trace (fst (snd (st_transmit t s sh))))"
    using assms(1) by (simp add: protocol_client_sm_task_def Let_def case_prod_unfold)
  obtain cs where cs: "calls (trace (fst (snd (st_transmit t s sh)))) = calls (trace (after_timeout t s sh)) @ cs"
    using after_abort_calls by blast
  from exchange_sent [OF assms(2)] show ?thesis
  proof
    assume "r \<in> set (sent_request_list ?u)"
    from timeout_fires [where t = t, OF this] assms(3,4) obtain q p l where
      q: "carries ?u (after_timeout t s sh) [(q, p)] l" "\<not> repeating s q" "expired t s q"
      "response_code p = err_code ERR_TIMEOUT" unfolding re after_timeout_def by blast
    obtain ds where "calls (trace ?u) = calls (trace s) @ ds" using exchange_phase [of s t sh] unfolding carries_def by blast
    with q cs show ?thesis unfolding task
      by (intro exI [of _ q] exI [of _ p] exI [of _ "ds @ [(q, p)] @ cs"]) (auto simp: carries_def)
  next
    assume "\<exists>ds q p. calls (trace ?u) = calls (trace s) @ ds \<and> (q, p) \<in> set ds \<and> rq_id q = rq_id r"
    then obtain ds q p where d: "calls (trace ?u) = calls (trace s) @ ds" "(q, p) \<in> set ds" "rq_id q = rq_id r"
      by blast
    obtain es where "calls (trace (after_timeout t s sh)) = calls (trace ?u) @ es"
      using give_up_phase [of "check_timeout t" ?u ERR_TIMEOUT t] check_timeout_gives_up [of t ?u]
      unfolding after_timeout_def by (auto simp: carries_def)
    with d cs show ?thesis unfolding task
      by (intro exI [of _ q] exI [of _ p] exI [of _ "ds @ es @ cs"]) auto
  qed
qed

theorem requests_stay_or_are_answered_witness:
  "let s = fst (fold sm_next [demo_request 7, Tick (demo_tick 1000 ERR_SUCCESS ERR_WOULD_BLOCK),
        Tick (demo_tick 1010 ERR_SUCCESS ERR_WOULD_BLOCK), demo_request 8,
        Tick (demo_tick 1100 ERR_WOULD_BLOCK ERR_WOULD_BLOCK)] (demo_sm 0 SM_ASYNCH 0, demo_shared));
       t = demo_tick 1111 ERR_WOULD_BLOCK ERR_WOULD_BLOCK
   in rq_id ` set (pending s) = {0, 1} \<and>
      (\<exists>cs. calls (trace (fst (protocol_client_sm_task t (s, demo_shared)))) = calls (trace s) @ cs \<and>
        called_ids cs \<subseteq> {0, 1} \<union> {i. created s \<le> i})"
proof -
  define s where "s = fst (fold sm_next [demo_request 7, Tick (demo_tick 1000 ERR_SUCCESS ERR_WOULD_BLOCK),
        Tick (demo_tick 1010 ERR_SUCCESS ERR_WOULD_BLOCK), demo_request 8,
        Tick (demo_tick 1100 ERR_WOULD_BLOCK ERR_WOULD_BLOCK)] (demo_sm 0 SM_ASYNCH 0, demo_shared))"
  have p: "rq_id ` set (pending s) = {0, 1}" unfolding s_def by code_simp
  from requests_stay_or_are_answered [of "demo_tick 1111 ERR_WOULD_BLOCK ERR_WOULD_BLOCK" s demo_shared]
  show ?thesis unfolding Let_def s_def [symmetric] p by blast
qed

theorem expired_request_is_answered_witness:
  "\<exists>s r cs. map rq_id (sent_request_list s) = [0] \<and> r = hd (sent_request_list s) \<and>
     calls (trace (fst (protocol_client_sm_task (demo_tick 1111 ERR_WOULD_BLOCK ERR_WOULD_BLOCK) (s, demo_shared)))) =
       calls (trace s) @ cs \<and> cs \<noteq> []"
proof -
  define s where "s = fst (fold sm_next [demo_request 7, Tick (demo_tick 1000 ERR_SUCCESS ERR_WOULD_BLOCK),
        Tick (demo_tick 1010 ERR_SUCCESS ERR_WOULD_BLOCK)] (demo_sm 0 SM_ASYNCH 0, demo_shared))"
  let ?t = "demo_tick 1111 ERR_WOULD_BLOCK ERR_WOULD_BLOCK" and ?r = "hd (sent_request_list s)"
  have l: "map rq_id (sent_request_list s) = [0]" and h: "sm_state s = SM_TRANSMIT" "\<not> repeating s ?r" "expired ?t s ?r"
    unfolding s_def by code_simp+
  then have "?r \<in> set (sent_request_list s)" by (cases "sent_request_list s") auto
  from expired_request_is_answered [OF h(1) this h(2,3), of demo_shared] obtain q p cs where
    "calls (trace (fst (protocol_client_sm_task ?t (s, demo_shared)))) = calls (trace s) @ cs" "(q, p) \<in> set cs"
    by blast
  with l show ?thesis by (intro exI [of _ s] exI [of _ ?r] exI [of _ cs]) auto
qed

section \<open>One request at a time\<close>

text \<open>The configuration of the HTTP client: synchronous, with one parallel request.\<close>

definition flight :: "protocol_client_sm \<Rightarrow> nat" where
  "flight s = length (sent_request_list s) + (case active_request s of None \<Rightarrow> 0 | Some r \<Rightarrow> 1)"

definition single_ok :: "protocol_client_sm \<Rightarrow> bool" where
  "single_ok s \<longleftrightarrow> stype s = SM_SYNCH \<and> paralell_request_limit s = 1 \<and> flight s \<le> 1 \<and>
     (abort_in_progress s \<or> sent_request_num s = int (length (sent_request_list s)))"

lemma complete_single:
  assumes c: "completed_request s = Some r" and ok: "single_ok s"
    and r: "abort_in_progress s \<or> r \<in> set (sent_request_list s) \<or> sent_request_list s = []"
  shows "single_ok (st_transmit_complete t s)"
proof -
  let ?p = "(response s)\<lparr>response_type := rq_type r\<rparr>"
  let ?s = "fold sm_do (app t r ?p) ((emit (Called r ?p) s)\<lparr>response := ?p\<rparr>)"
  have a: "abort_in_progress s \<Longrightarrow> abort_in_progress ?s" by (rule sm_dos_abort) (simp add: emit_def)
  have e: "st_transmit_complete t s = ?s\<lparr>
      sent_request_list := filter (\<lambda>q. rq_id q \<noteq> rq_id r) (sent_request_list s), completed_request := None,
      sent_request_num := (if sent_request_num s \<noteq> 0 then sent_request_num s - 1 else 0)\<rparr>"
    using c ok by (simp add: st_transmit_complete_def Let_def state_simps emit_def single_ok_def)
  have l: "length (filter (\<lambda>q. rq_id q \<noteq> rq_id r) (sent_request_list s)) \<le> length (sent_request_list s)" by simp
  have n: "sent_request_num s = int (length (sent_request_list s)) \<Longrightarrow> \<not> abort_in_progress s \<Longrightarrow>
      filter (\<lambda>q. rq_id q \<noteq> rq_id r) (sent_request_list s) = [] \<and> (if sent_request_num s \<noteq> 0 then sent_request_num s - 1 else 0) = 0"
    using r ok by (cases "sent_request_list s") (auto simp: single_ok_def flight_def split: option.splits)
  show ?thesis
  proof (cases "abort_in_progress s")
    case True
    have "flight (st_transmit_complete t s) \<le> flight s"
      using l unfolding e by (simp add: flight_def state_simps emit_def)
    with ok have "flight (st_transmit_complete t s) \<le> 1" by (simp add: single_ok_def)
    with True a ok show ?thesis unfolding e by (simp add: single_ok_def state_simps emit_def)
  next
    case False
    with n ok show ?thesis unfolding e by (auto simp: single_ok_def flight_def state_simps emit_def)
  qed
qed

lemma new_transmit_single: "single_ok s \<Longrightarrow> single_ok (st_new_transmit t s)"
proof -
  assume ok: "single_ok s"
  have "paralell_request_limit (st_new_transmit t s) = 1"
    using ok by (cases "cq_items (transfer_queue s)")
      (auto simp: st_new_transmit_def single_ok_def cqueue_pop_head_def cqueue_is_empty_def)
  moreover have "flight (st_new_transmit t s) \<le> 1"
    using ok by (cases "cq_items (transfer_queue s)")
      (auto simp: flight_def single_ok_def st_new_transmit_def cqueue_pop_head_def cqueue_is_empty_def split: option.splits)
  ultimately show ?thesis using ok by (simp add: single_ok_def state_simps)
qed

lemma limit_frame [state_simps]:
  "paralell_request_limit (fst (snd (st_connect t s sh))) = paralell_request_limit s"
  "paralell_request_limit (snd (exchange t s)) = paralell_request_limit s"
  "paralell_request_limit (give_up e r s) = paralell_request_limit s"
  "paralell_request_limit (snd (wind_up b n s)) = paralell_request_limit s"
  by (rule connect_effect [of t s sh], simp)
    (cases "active_request s"; auto simp: exchange_def st_send_request_def st_recv_response_def
      pair_request_to_response_def count_failure_def emit_def Let_def give_up_def wind_up_def close_socket_def
      split: option.split)+

lemma exchange_single: "single_ok s \<Longrightarrow> single_ok (complete_if t (exchange t s))"
proof -
  assume ok: "single_ok s"
  have x: "single_ok (snd (exchange t s))"
    using exchange_moved [of s t] ok
    by (auto simp: moved_def single_ok_def flight_def state_simps split: option.splits)
  show ?thesis
  proof (cases "fst (exchange t s)")
    case True
    from exchange_completed [OF True] obtain r where "completed_request (snd (exchange t s)) = Some r"
      "r \<in> set (sent_request_list (snd (exchange t s)))" by blast
    with complete_single [OF _ x, of r t] True show ?thesis by (simp add: complete_if_def)
  qed (use x in \<open>simp add: complete_if_def\<close>)
qed

lemma timeout_single: "single_ok s \<Longrightarrow> single_ok (complete_if t (check_timeout t s))"
proof -
  assume ok: "single_ok s"
  show ?thesis
  proof (cases "fst (check_timeout t s)")
    case True
    let ?s = "snd (check_timeout t s)"
    obtain r where r: "completed_request ?s = Some r" "r \<in> set (sent_request_list s) \<or> active_request s = Some r"
      using True by (auto simp: check_timeout_def state_simps split: option.splits if_splits dest: find_in)
    have "single_ok ?s" "sent_request_list ?s = sent_request_list s"
      using ok by (auto simp: check_timeout_def single_ok_def flight_def state_simps split: option.splits)
    moreover have "active_request s = Some r \<Longrightarrow> sent_request_list s = []"
      using ok by (auto simp: single_ok_def flight_def)
    ultimately have "single_ok (st_transmit_complete t ?s)"
      using r by (intro complete_single) auto
    then show ?thesis using True by (simp add: complete_if_def)
  next
    case False
    with ok check_timeout_gives_up(2) [OF False] show ?thesis by (simp add: complete_if_def)
  qed
qed

lemma abort_single: "single_ok s \<Longrightarrow> count_ok s \<Longrightarrow> single_ok (complete_if t (abort_transfers s))"
proof -
  assume ok: "single_ok s" and k: "count_ok s"
  show ?thesis
  proof (cases "fst (abort_transfers s)")
    case True
    let ?s = "snd (abort_transfers s)"
    obtain r where r: "completed_request ?s = Some r" using True
      by (auto simp: abort_transfers_def state_simps cqueue_pop_head_def split: option.splits if_splits list.splits)
    have "single_ok ?s" "abort_in_progress ?s"
      using ok True by (auto simp: abort_transfers_def single_ok_def flight_def state_simps cqueue_pop_head_def
          split: option.splits if_splits list.splits)
    then have "single_ok (st_transmit_complete t ?s)" using r by (intro complete_single) auto
    then show ?thesis using True by (simp add: complete_if_def)
  next
    case False
    then show ?thesis using ok k by (auto simp: abort_transfers_def single_ok_def flight_def count_ok_def complete_if_def
          cqueue_pop_head_def split: option.splits if_splits list.splits)
  qed
qed

lemma st_transmit_single: "single_ok s \<Longrightarrow> reqs_ok s \<Longrightarrow> count_ok s \<Longrightarrow> single_ok (fst (snd (st_transmit t s sh)))"
proof -
  assume ok: "single_ok s" and r: "reqs_ok s" and k: "count_ok s"
  obtain b where b: "fst (snd (st_transmit t s sh)) =
      snd (wind_up b (fst (st_connect t (st_new_transmit t s) sh)) (after_abort t s sh))"
    using st_transmit_phases [of t s sh] by (auto simp: Let_def)
  have "single_ok (fst (snd (st_connect t (st_new_transmit t s) sh)))"
    using new_transmit_single [OF ok, of t] by (simp add: single_ok_def flight_def state_simps)
  then have "single_ok (after_exchange t s sh)"
    using exchange_single [where s = "fst (snd (st_connect t (st_new_transmit t s) sh))" and t = t]
    by (simp add: after_exchange_def Let_def complete_if_def split: if_splits)
  then have a: "single_ok (after_timeout t s sh)" unfolding after_timeout_def by (rule timeout_single)
  have "count_ok (after_timeout t s sh)" by (rule after_timeout_count [OF r k])
  from abort_single [OF a this, of t] have "single_ok (after_abort t s sh)" by (simp add: after_abort_def)
  then show ?thesis unfolding b
    by (simp add: single_ok_def flight_def state_simps) (simp add: wind_up_def close_socket_def emit_def Let_def)
qed

lemma single_next: "sm_ok (fst c) \<and> single_ok (fst c) \<Longrightarrow> sm_ok (fst (sm_next e c)) \<and> single_ok (fst (sm_next e c))"
proof -
  assume ok: "sm_ok (fst c) \<and> single_ok (fst c)"
  obtain s sh where c: "c = (s, sh)" by (cases c)
  have "single_ok (fst (sm_next e c))"
  proof (cases e)
    case (Tick t)
    have "single_ok (fst (snd (st_transmit t s sh)))"
      using ok c by (intro st_transmit_single) (auto simp: sm_ok_def)
    then show ?thesis using ok c Tick
      by (auto simp: protocol_client_sm_task_def Let_def case_prod_unfold single_ok_def flight_def st_reset_def
          st_failure_def close_socket_def emit_def split: sm_phase.split)
  next
    case (Do call)
    have "abort_in_progress s \<Longrightarrow> abort_in_progress (sm_do call s)" using sm_dos_abort [of s "[call]"] by simp
    then show ?thesis using ok c Do by (auto simp: single_ok_def flight_def state_simps)
  qed (use ok c in auto)
  with ok sm.kept_by_event show ?thesis by blast
qed

text \<open>The machines that start with this configuration.\<close>

definition http_start :: "protocol_client_sm \<times> sm_shared \<Rightarrow> bool" where
  "http_start c \<longleftrightarrow> sm_start c \<and> stype (fst c) = SM_SYNCH \<and> paralell_request_limit (fst c) = 1"

interpretation http: kept http_start sm_next "\<lambda>c. sm_ok (fst c) \<and> single_ok (fst c)"
proof
  show "sm_ok (fst c) \<and> single_ok (fst c)" if "http_start c" for c
    using that sm_start_ok [of c] by (cases c) (auto simp: http_start_def sm_start_def single_ok_def flight_def
        protocol_client_sm_new_def split: if_splits option.splits)
qed (rule single_next)

text \<open>C11: with the configuration of the HTTP client there is never more than one request on its way: in
  every reachable state the list of sent requests and the active request together hold at most one,
  also while requests time out, are aborted or are added and cleared in callbacks.\<close>

theorem one_request_at_a_time:
  assumes "reachable http_start sm_next (s, sh)"
  shows "length (sent_request_list s) + (case active_request s of None \<Rightarrow> 0 | Some r \<Rightarrow> 1) \<le> 1"
  using http.holds [OF assms] by (simp add: single_ok_def flight_def)

theorem one_request_at_a_time_witness:
  "let (s, sh) = fold sm_next [demo_request 7, Tick (demo_tick 1000 ERR_SUCCESS ERR_WOULD_BLOCK),
       Tick (demo_tick 1010 ERR_SUCCESS ERR_WOULD_BLOCK), demo_request 8,
       Tick (demo_tick 1020 ERR_SUCCESS ERR_WOULD_BLOCK)] (demo_sm 0 SM_SYNCH 1, demo_shared)
   in map rq_id (sent_request_list s) = [0] \<and>
      length (sent_request_list s) + (case active_request s of None \<Rightarrow> 0 | Some r \<Rightarrow> 1) \<le> 1"
proof -
  let ?es = "[demo_request 7, Tick (demo_tick 1000 ERR_SUCCESS ERR_WOULD_BLOCK),
       Tick (demo_tick 1010 ERR_SUCCESS ERR_WOULD_BLOCK), demo_request 8,
       Tick (demo_tick 1020 ERR_SUCCESS ERR_WOULD_BLOCK)]"
  obtain s sh where f: "fold sm_next ?es (demo_sm 0 SM_SYNCH 1, demo_shared) = (s, sh)"
    by (cases "fold sm_next ?es (demo_sm 0 SM_SYNCH 1, demo_shared)")
  have "http_start (demo_sm 0 SM_SYNCH 1, demo_shared)"
    using sm_demo_start by (simp add: http_start_def demo_sm_def)
  from reachable_run [OF reach_start [of http_start, OF this], of sm_next ?es]
  have "reachable http_start sm_next (s, sh)" unfolding f .
  from one_request_at_a_time [OF this]
  have "length (sent_request_list s) + (case active_request s of None \<Rightarrow> 0 | Some r \<Rightarrow> 1) \<le> 1" .
  moreover have "let (s, sh) = fold sm_next ?es (demo_sm 0 SM_SYNCH 1, demo_shared)
      in map rq_id (sent_request_list s) = [0]" by code_simp
  ultimately show ?thesis unfolding f by simp
qed

end
