(* ===== verification/ProtocolTags.thy ===== *)
theory ProtocolTags
  imports ProtocolRuns
begin

text \<open>
  The arguments that the requests of a protocol client state machine carry, over a tick in which the
  application makes no calls of its own: the machine keeps, loses or calls back what it had, and
  calls no request back twice, repeating ones apart.
\<close>

definition quiet :: "sm_tick \<Rightarrow> bool" where
  "quiet t \<longleftrightarrow> (\<forall>r p. app t r p = [])"

definition tag :: "protocol_client_request \<Rightarrow> nat \<times> nat \<times> request_type" where
  "tag r = (rq_id r, rq_args r, rq_type r)"

lemma tag_simps [simp]: "tag (r\<lparr>start_of_transmit := x\<rparr>) = tag r"
  by (simp add: tag_def)

definition keeps ::
    "protocol_client_sm \<Rightarrow> protocol_client_sm \<Rightarrow> (protocol_client_request \<times> protocol_client_response) list \<Rightarrow> bool" where
  "keeps s s' cs \<longleftrightarrow> calls (trace s') = calls (trace s) @ cs \<and>
     tag ` set (pending s') \<subseteq> tag ` set (pending s) \<and> (tag \<circ> fst) ` set cs \<subseteq> tag ` set (pending s)"

lemma keeps_trans: "keeps s s' cs \<Longrightarrow> keeps s' s'' ds \<Longrightarrow> keeps s s'' (cs @ ds)"
  unfolding keeps_def image_comp [symmetric] by (simp add: image_Un) blast

lemma keeps_same: "calls (trace s') = calls (trace s) \<Longrightarrow> tag ` set (pending s') \<subseteq> tag ` set (pending s) \<Longrightarrow>
    keeps s s' []"
  by (simp add: keeps_def)

lemma moved_keeps: "moved s s' \<Longrightarrow> keeps s s' []"
  by (intro keeps_same) (auto simp: moved_def pending_def)

lemma new_transmit_keeps: "keeps s (st_new_transmit t s) []"
  by (intro keeps_same; cases "cq_items (transfer_queue s)";
      auto simp: pending_def st_new_transmit_def cqueue_pop_head_def cqueue_is_empty_def emit_def)

lemma complete_keeps:
  assumes c: "completed_request s' = Some r" and q: "quiet t" and k: "keeps s s' []" and r: "r \<in> set (pending s)"
  shows "\<exists>p. keeps s (st_transmit_complete t s') [(r, p)]"
proof -
  have "calls (trace (st_transmit_complete t s')) = calls (trace s') @ [(r, (response s')\<lparr>response_type := rq_type r\<rparr>)]"
    using c q by (simp add: st_transmit_complete_def Let_def emit_def quiet_def)
  moreover have "set (pending (st_transmit_complete t s')) \<subseteq> set (pending s')"
    using c q by (auto simp: st_transmit_complete_def Let_def emit_def quiet_def pending_def)
  ultimately have "keeps s (st_transmit_complete t s') [(r, (response s')\<lparr>response_type := rq_type r\<rparr>)]"
    using k r unfolding keeps_def by auto
  then show ?thesis by blast
qed

lemma gives_up_keeps:
  assumes g: "gives_up e r s s'" and q: "quiet t"
  shows "\<exists>p. keeps s (st_transmit_complete t s') [(r, p)]"
proof (rule complete_keeps [OF _ q])
  show "completed_request s' = Some r" "r \<in> set (pending s)" using g by (simp_all add: gives_up_def)
  have t: "trace s' = trace s" "active_request s' = None" "sent_request_list s' = sent_request_list s"
    and q: "cq_items (transfer_queue s') = cq_items (transfer_queue s) \<or>
      cq_items (transfer_queue s) = r # cq_items (transfer_queue s')"
    using g by (auto simp: gives_up_def)
  from q have "set (cq_items (transfer_queue s')) \<subseteq> set (cq_items (transfer_queue s))"
    by (metis list.set_intros(2) subset_iff order_refl)
  then have "set (pending s') \<subseteq> set (pending s)" using t unfolding pending_def by auto
  then show "keeps s s' []" using t by (intro keeps_same image_mono) simp_all
qed

lemma exchange_keeps: "quiet t \<Longrightarrow> \<exists>cs. keeps s (after_exchange t s sh) cs"
proof -
  assume q: "quiet t"
  let ?c = "fst (snd (st_connect t (st_new_transmit t s) sh))"
  have c: "keeps s ?c []"
    using keeps_trans [OF new_transmit_keeps moved_keeps [OF connect_moved]] by simp
  note x = keeps_trans [OF c moved_keeps [OF exchange_moved], simplified]
  have "\<exists>p. keeps s (st_transmit_complete t (snd (exchange t ?c))) p" if "fst (exchange t ?c)"
  proof -
    from exchange_completed [OF that] obtain r where r: "r \<in> set (sent_request_list (snd (exchange t ?c)))"
      "completed_request (snd (exchange t ?c)) = Some r" by blast
    let ?x = "snd (exchange t ?c)"
    have "keeps ?x ?x []" by (simp add: keeps_def)
    from complete_keeps [OF r(2) q this] r(1) obtain p where "keeps ?x (st_transmit_complete t ?x) [(r, p)]"
      by (auto simp: pending_def)
    from keeps_trans [OF x this] show ?thesis by blast
  qed
  with c x show ?thesis by (auto simp: after_exchange_def Let_def complete_if_def)
qed

lemma give_up_keeps:
  assumes g: "fst (f s) \<Longrightarrow> \<exists>r. gives_up e r s (snd (f s))"
    and n: "\<not> fst (f s) \<Longrightarrow> pending (snd (f s)) = pending s \<and> trace (snd (f s)) = trace s" and q: "quiet t"
  shows "\<exists>cs. keeps s (complete_if t (f s)) cs"
proof (cases "fst (f s)")
  case True
  from g [OF True] obtain r where "gives_up e r s (snd (f s))" by blast
  from gives_up_keeps [OF this q] show ?thesis using True by (auto simp: complete_if_def case_prod_unfold)
next
  case False
  with n have "keeps s (complete_if t (f s)) []" by (simp add: keeps_def complete_if_def case_prod_unfold)
  then show ?thesis by blast
qed

lemma st_transmit_keeps: "quiet t \<Longrightarrow> \<exists>cs. keeps s (fst (snd (st_transmit t s sh))) cs"
proof -
  assume q: "quiet t"
  obtain cs where c: "keeps s (after_exchange t s sh) cs" using exchange_keeps [OF q] by blast
  have "\<exists>cs. keeps (after_exchange t s sh) (after_timeout t s sh) cs"
    unfolding after_timeout_def
    by (rule give_up_keeps [OF _ _ q]) (use check_timeout_gives_up [of t "after_exchange t s sh"] in auto)
  then obtain ds where d: "keeps (after_exchange t s sh) (after_timeout t s sh) ds" by blast
  have stay: "\<not> fst (abort_transfers u) \<Longrightarrow> pending (snd (abort_transfers u)) = pending u \<and>
      trace (snd (abort_transfers u)) = trace u" for u
    using abort_transfers_stays [of u] by (auto simp: pending_def)
  have "\<exists>cs. keeps (after_timeout t s sh) (after_abort t s sh) cs"
    unfolding after_abort_def by (rule give_up_keeps [OF abort_transfers_gives_up stay q])
  then obtain es where "keeps (after_timeout t s sh) (after_abort t s sh) es" by blast
  from keeps_trans [OF keeps_trans [OF c d] this]
  have a: "keeps s (after_abort t s sh) ((cs @ ds) @ es)" .
  have w: "calls (trace (snd (wind_up b n u))) = calls (trace u)" "pending (snd (wind_up b n u)) = pending u" for b n u
    by (simp_all add: wind_up_def close_socket_def emit_def pending_def Let_def)
  obtain b where "fst (snd (st_transmit t s sh)) =
      snd (wind_up b (fst (st_connect t (st_new_transmit t s) sh)) (after_abort t s sh))"
    using st_transmit_phases [of t s sh] by (auto simp: Let_def)
  with a show ?thesis by (auto simp: keeps_def w)
qed

lemma task_keeps: "quiet t \<Longrightarrow> \<exists>cs. keeps s (fst (protocol_client_sm_task t (s, sh))) cs"
proof -
  assume q: "quiet t"
  have k: "keeps s u cs \<Longrightarrow> keeps s (u\<lparr>sm_state := n\<rparr>) cs" for u cs n
    by (simp add: keeps_def pending_def)
  have r: "keeps s (snd (st_reset t s)) []" "keeps s (snd (st_failure s)) []" "keeps s s []"
    by (simp_all add: keeps_def st_reset_def st_failure_def close_socket_def emit_def pending_def)
  obtain cs where c: "keeps s (fst (snd (st_transmit t s sh))) cs" using st_transmit_keeps [OF q] by blast
  have "\<exists>cs n u. keeps s u cs \<and> fst (protocol_client_sm_task t (s, sh)) = u\<lparr>sm_state := n\<rparr>"
  proof (cases "sm_state s")
    case SM_TRANSMIT
    with c show ?thesis by (auto simp: protocol_client_sm_task_def Let_def case_prod_unfold)
  qed (use r in \<open>auto simp: protocol_client_sm_task_def Let_def case_prod_unfold\<close>)
  then show ?thesis using k by metis
qed

text \<open>The arguments of the ordinary requests. After a tick those still pending and those called back
  are together no more than those before.\<close>

definition loose :: "protocol_client_request list \<Rightarrow> nat list" where
  "loose rs = map rq_args (filter (\<lambda>r. rq_type r = REQUEST_NORMAL) rs)"

lemma loose_simps [simp]: "loose [] = []"
  "loose (r # rs) = (if rq_type r = REQUEST_NORMAL then [rq_args r] else []) @ loose rs"
  "loose (rs @ qs) = loose rs @ loose qs"
  by (simp_all add: loose_def)

lemma mset_loose: "mset (loose rs) = image_mset (\<lambda>(i, a, ty). a) (filter_mset (\<lambda>(i, a, ty). ty = REQUEST_NORMAL) (mset (map tag rs)))"
  by (induction rs) (simp_all add: tag_def)

lemma loose_subset:
  assumes "distinct (map rq_id rs)" "tag ` set rs \<subseteq> tag ` set qs"
  shows "mset (loose rs) \<subseteq># mset (loose qs)"
proof -
  have "map rq_id rs = map fst (map tag rs)" by (simp add: tag_def)
  with assms(1) have "distinct (map tag rs)" by (metis distinct_map)
  then have "mset (map tag rs) = mset_set (tag ` set rs)" by (metis mset_set_set set_map)
  moreover have "mset_set (tag ` set rs) \<subseteq># mset_set (tag ` set qs)" using assms(2) by (simp add: subset_imp_msubset_mset_set)
  moreover have "mset_set (tag ` set qs) \<subseteq># mset (map tag qs)"
    by (metis list.set_map mset_set_set_mset_msubset set_mset_mset)
  ultimately have "mset (map tag rs) \<subseteq># mset (map tag qs)"
    by (simp only: subset_mset.order_trans)
  then show ?thesis unfolding mset_loose by (intro image_mset_subseteq_mono multiset_filter_mono)
qed

lemma task_loose:
  assumes ok: "sm_ok s" and q: "quiet t" and s': "s' = fst (protocol_client_sm_task t (s, sh))"
  obtains cs where "calls (trace s') = calls (trace s) @ cs"
    "(tag \<circ> fst) ` set cs \<subseteq> tag ` set (pending s)" "tag ` set (pending s') \<subseteq> tag ` set (pending s)"
    "mset (loose (pending s' @ map fst cs)) \<subseteq># mset (loose (pending s))"
proof -
  obtain cs where k: "keeps s s' cs" using task_keeps [OF q] s' by blast
  have ok': "reqs_ok s'" using task_ok [of "(s, sh)"] ok s' by (simp add: sm_ok_def)
  let ?n = "map fst (filter (\<lambda>c. rq_type (fst c) = REQUEST_NORMAL) cs)"
  let ?once = "\<lambda>c. \<not> repeating s' (fst c)"
  have nr: "rq_type r = REQUEST_NORMAL \<Longrightarrow> \<not> repeating s' r" for r by (simp add: repeating_def)
  have oc: "once_called s' = map (rq_id \<circ> fst) (filter ?once (calls (trace s))) @
      map (rq_id \<circ> fst) (filter ?once cs)"
    using k by (simp add: once_called_def keeps_def)
  then have "distinct (map (rq_id \<circ> fst) (filter ?once cs))" using ok' by (auto simp: reqs_ok_def)
  then have "distinct (map (rq_id \<circ> fst) (filter (\<lambda>c. rq_type (fst c) = REQUEST_NORMAL) (filter ?once cs)))"
    by (rule distinct_map_filter)
  moreover have "filter (\<lambda>c. rq_type (fst c) = REQUEST_NORMAL) (filter ?once cs) =
      filter (\<lambda>c. rq_type (fst c) = REQUEST_NORMAL) cs"
    by (induction cs) (auto simp: nr)
  ultimately have dn: "distinct (map rq_id ?n)" by simp
  have "rq_id ` set ?n \<subseteq> set (once_called s')" using nr unfolding oc by auto
  then have "rq_id ` set (pending s') \<inter> rq_id ` set ?n = {}" using ok' by (auto simp: reqs_ok_def)
  with dn ok' have "distinct (map rq_id (pending s' @ ?n))" by (simp add: reqs_ok_def image_image comp_def)
  moreover have "tag ` set (pending s' @ ?n) \<subseteq> tag ` set (pending s)"
    using k unfolding keeps_def by auto
  ultimately have "mset (loose (pending s' @ ?n)) \<subseteq># mset (loose (pending s))" by (rule loose_subset)
  moreover have "loose ?n = loose (map fst cs)" by (induction cs) auto
  ultimately have "mset (loose (pending s' @ map fst cs)) \<subseteq># mset (loose (pending s))" by simp
  with k show thesis by (intro that [of cs]) (auto simp: keeps_def)
qed

section \<open>A request that is alone\<close>

text \<open>A request that is alone with its machine is not lost.\<close>

lemma ids_tag: "ids s = fst ` tag ` set (pending s)"
  by (simp add: ids_def image_image tag_def)

lemma lone_task:
  assumes ok: "sm_ok s" and q: "quiet t" and r: "pending s = [r]" "rq_type r = REQUEST_NORMAL"
    and s': "s' = fst (protocol_client_sm_task t (s, sh))" and cs: "calls (trace s') = calls (trace s) @ cs"
  shows "(\<exists>r'. pending s' = [r'] \<and> tag r' = tag r \<and> cs = []) \<or>
    (\<exists>r' p. pending s' = [] \<and> cs = [(r', p)] \<and> tag r' = tag r)"
proof -
  obtain ds where "keeps s s' ds" using task_keeps [OF q] s' by blast
  with cs have k: "keeps s s' cs" by (simp add: keeps_def)
  obtain ds l where c: "carries s s' ds l"
    "\<forall>i \<in> l. i \<in> active_id (st_new_transmit t s) \<and> (\<exists>(r, p) \<in> set ds. rq_id r \<noteq> i)"
    using task_carries [of s t sh] s' by blast
  have ds: "ds = cs" using c(1) cs by (simp add: carries_def)
  have same: "x \<in> set (pending s') \<Longrightarrow> tag x = tag r" "(x, p) \<in> set cs \<Longrightarrow> tag x = tag r" for x p
    using k r(1) unfolding keeps_def by force+
  then have one: "rq_id ` set (pending s') \<subseteq> {rq_id r}" "called_ids cs \<subseteq> {rq_id r}"
    by (auto simp: tag_def called_ids_def)
  have "i \<in> active_id (st_new_transmit t s) \<Longrightarrow> i = rq_id r" for i
    using r(1) by (auto simp: active_id_def st_new_transmit_def pending_def cqueue_pop_head_def cqueue_is_empty_def
        split: if_splits list.splits option.splits)
  with c(2) one(2) ds have l: "l = {}" by (fastforce simp: called_ids_def)
  with c(1) ds r(1) have "rq_id r \<in> rq_id ` set (pending s') \<union> called_ids cs"
    by (auto simp: carries_def ids_def)
  moreover have ok': "reqs_ok s'" using task_ok [of "(s, sh)"] ok s' by (simp add: sm_ok_def)
  have ty: "rq_type (fst c) = REQUEST_NORMAL" if "c \<in> set cs" for c
    using same(2) [of "fst c" "snd c"] that r(2) by (simp add: tag_def)
  then have "filter (\<lambda>c. \<not> repeating s' (fst c)) cs = cs" by (auto simp: filter_id_conv repeating_def)
  with cs have oc: "once_called s' = once_called s' \<and> set (map (rq_id \<circ> fst) cs) \<subseteq> set (once_called s') \<and>
      distinct (map (rq_id \<circ> fst) cs)"
    using ok' by (auto simp: once_called_def reqs_ok_def)
  have dp: "distinct (map rq_id (pending s'))" "rq_id ` set (pending s') \<inter> set (once_called s') = {}"
    using ok' by (auto simp: reqs_ok_def)
  have "length (pending s') \<le> 1" using dp(1) one(1)
    by (cases "pending s'" rule: remdups_adj.cases) auto
  moreover have "length cs \<le> 1" using oc one(2)
    by (cases cs rule: remdups_adj.cases) (auto simp: called_ids_def)
  moreover have "pending s' \<noteq> [] \<Longrightarrow> cs = []"
    using oc dp(2) one by (cases cs; cases "pending s'") (auto simp: called_ids_def)
  ultimately consider r' where "pending s' = [r']" "cs = []" | r' p where "pending s' = []" "cs = [(r', p)]"
    by (cases "pending s'"; cases cs) auto
  then show ?thesis using same by cases auto
qed

lemma idle_task:
  assumes q: "quiet t" and r: "pending s = []"
    and s': "s' = fst (protocol_client_sm_task t (s, sh))"
  shows "pending s' = []" "calls (trace s') = calls (trace s)"
proof -
  obtain cs where "keeps s s' cs" using task_keeps [OF q] s' by blast
  then show "pending s' = []" "calls (trace s') = calls (trace s)" using r by (auto simp: keeps_def)
qed

lemma complete_abort: "quiet t \<Longrightarrow> abort_in_progress (st_transmit_complete t s) = abort_in_progress s"
  by (auto simp: st_transmit_complete_def quiet_def emit_def Let_def split: option.split)

lemma abort_goes_on: "abort_in_progress s \<Longrightarrow>
    abort_in_progress (snd (abort_transfers s)) \<or> \<not> fst (abort_transfers s) \<and> pending (snd (abort_transfers s)) = []"
  by (auto simp: abort_transfers_def give_up_def pending_def cqueue_pop_head_def split: list.split option.split)

lemma task_abort:
  assumes q: "quiet t" and a: "abort_in_progress s"
  shows "abort_in_progress (fst (protocol_client_sm_task t (s, sh))) \<or> pending (fst (protocol_client_sm_task t (s, sh))) = []"
proof -
  have x: "abort_in_progress (after_timeout t s sh)"
    using a q complete_abort [OF q] exchange_moved [of "fst (snd (st_connect t (st_new_transmit t s) sh))" t]
    by (auto simp: after_timeout_def after_exchange_def complete_if_def Let_def state_simps check_timeout_def moved_def
        st_new_transmit_def split: option.split)
  have "abort_in_progress (after_abort t s sh) \<or> pending (after_abort t s sh) = []"
    using abort_goes_on [OF x] complete_abort [OF q] by (auto simp: after_abort_def complete_if_def)
  moreover obtain b where "fst (snd (st_transmit t s sh)) =
      snd (wind_up b (fst (st_connect t (st_new_transmit t s) sh)) (after_abort t s sh))"
    using st_transmit_phases [of t s sh] by (auto simp: Let_def)
  moreover have "abort_in_progress (snd (wind_up b n u)) = abort_in_progress u" "pending (snd (wind_up b n u)) = pending u" for b n u
    by (simp_all add: wind_up_def close_socket_def emit_def pending_def Let_def)
  ultimately have t: "abort_in_progress (fst (snd (st_transmit t s sh))) \<or> pending (fst (snd (st_transmit t s sh))) = []"
    by simp
  have o: "abort_in_progress (snd (st_reset t s))" "abort_in_progress (snd (st_failure s))"
    using a by (simp_all add: st_reset_def st_failure_def close_socket_def emit_def)
  have p: "pending (u\<lparr>sm_state := n\<rparr>) = pending u" for u n by (simp add: pending_def)
  show ?thesis using t o a
    by (cases "sm_state s") (auto simp: protocol_client_sm_task_def Let_def case_prod_unfold p)
qed

end
