(* ===== verification/Rtc.thy ===== *)
theory Rtc
  imports CBase
begin

text \<open>
  The real-time clock (\<open>rtc.c\<close>): the Unix time in seconds, advanced from the millisecond clock of the
  system, whose 32 bits wrap. Every function is given the reading of the system clock.
\<close>

record rtc =
  system_time_linux :: sys_time
  previous_system_time :: sys_time

definition rtc_set :: "sys_time \<Rightarrow> sys_time \<Rightarrow> rtc \<Rightarrow> rtc" where
  "rtc_set now new_time r = r\<lparr>previous_system_time := now, system_time_linux := new_time\<rparr>"

definition rtc_get :: "rtc \<Rightarrow> sys_time" where
  "rtc_get r = system_time_linux r"

definition rtc_periodic :: "sys_time \<Rightarrow> rtc \<Rightarrow> rtc" where
  "rtc_periodic now r =
     (let r = r\<lparr>system_time_linux := system_time_linux r + (now - previous_system_time r) div 1000\<rparr>
      in r\<lparr>previous_system_time := now - (now - previous_system_time r) mod 1000\<rparr>)"

text \<open>The clock after periods of the given lengths in milliseconds.\<close>

fun run_clock :: "sys_time \<Rightarrow> nat list \<Rightarrow> rtc \<Rightarrow> rtc" where
  "run_clock now [] r = r"
| "run_clock now (d # ds) r = run_clock (now + of_nat d) ds (rtc_periodic (now + of_nat d) r)"

lemma word_div_mod_1000:
  assumes "n < 2 ^ 32"
  shows "(of_nat n :: 32 word) div 1000 = of_nat (n div 1000)" "(of_nat n :: 32 word) mod 1000 = of_nat (n mod 1000)"
proof -
  have n: "unat (of_nat n :: 32 word) = n" using assms by (simp add: unat_of_nat take_bit_nat_eq_self)
  have k: "unat (1000 :: 32 word) = 1000" by simp
  have "n div 1000 < 2 ^ 32" "n mod 1000 < 2 ^ 32" using assms by simp_all
  then show "(of_nat n :: 32 word) div 1000 = of_nat (n div 1000)" "(of_nat n :: 32 word) mod 1000 = of_nat (n mod 1000)"
    using assms by (simp_all add: word_unat_eq_iff unat_div unat_mod n k unat_of_nat take_bit_nat_eq_self)
qed

lemma rtc_periodic_step:
  assumes r: "previous_system_time r = now - of_nat (s mod 1000)" "system_time_linux r = base + of_nat (s div 1000)"
    and d: "s mod 1000 + d < 2 ^ 32"
  shows "previous_system_time (rtc_periodic (now + of_nat d) r) = now + of_nat d - of_nat ((s + d) mod 1000)"
    "system_time_linux (rtc_periodic (now + of_nat d) r) = base + of_nat ((s + d) div 1000)"
proof -
  have e: "now + of_nat d - previous_system_time r = of_nat (s mod 1000 + d)" by (simp add: r)
  have "(s mod 1000 + d) mod 1000 = (s + d) mod 1000" by (simp add: mod_add_left_eq)
  then show "previous_system_time (rtc_periodic (now + of_nat d) r) = now + of_nat d - of_nat ((s + d) mod 1000)"
    by (simp add: rtc_periodic_def Let_def e word_div_mod_1000 [OF d] del: of_nat_add)
  have "s + d = (s mod 1000 + d) + s div 1000 * 1000" by simp
  then have "(s + d) div 1000 = ((s mod 1000 + d) + s div 1000 * 1000) div 1000" by (rule arg_cong)
  then have "s div 1000 + (s mod 1000 + d) div 1000 = (s + d) div 1000" by (simp only: div_mult_self1)
  then have "(of_nat (s div 1000) :: 32 word) + of_nat ((s mod 1000 + d) div 1000) = of_nat ((s + d) div 1000)"
    by (metis of_nat_add)
  then show "system_time_linux (rtc_periodic (now + of_nat d) r) = base + of_nat ((s + d) div 1000)"
    by (simp add: rtc_periodic_def Let_def e word_div_mod_1000 [OF d] r(2) add.assoc del: of_nat_add)
qed

lemma run_clock_time:
  "previous_system_time r = now - of_nat (s mod 1000) \<Longrightarrow> system_time_linux r = base + of_nat (s div 1000) \<Longrightarrow>
   list_all (\<lambda>d. d + 1000 \<le> 2 ^ 32) ds \<Longrightarrow>
   rtc_get (run_clock now ds r) = base + of_nat ((s + sum_list ds) div 1000)"
proof (induction ds arbitrary: now r s)
  case (Cons d ds)
  have "s mod 1000 + d < 2 ^ 32"
    using Cons.prems(3) mod_less_divisor [of 1000 s] by (simp del: mod_less_divisor)
  note step = rtc_periodic_step [OF Cons.prems(1,2) this]
  from Cons.IH [OF step] Cons.prems(3) show ?case by (simp add: add.assoc)
qed (simp add: rtc_get_def)

text \<open>C29: the clock does not drift. However long the periods between two calls of \<open>rtc_periodic\<close> are, up
  to the wrap of the system clock less one second, the clock shows the time it was set to plus all
  the whole seconds that have passed since; the rests of the divisions are not lost, and the wrap of
  the system clock is not seen.\<close>

theorem clock_does_not_drift:
  assumes "list_all (\<lambda>d. d + 1000 \<le> 2 ^ 32) ds"
  shows "rtc_get (run_clock now ds (rtc_set now new_time r)) = new_time + of_nat (sum_list ds div 1000)"
  using run_clock_time [where s = 0 and r = "rtc_set now new_time r" and base = new_time, OF _ _ assms]
  by (simp add: rtc_set_def)

theorem clock_does_not_drift_witness:
  "\<forall>r. rtc_get (run_clock 4294967000 [999, 999, 999, 4] (rtc_set 4294967000 1700000000 r)) = 1700000003"
proof
  show "rtc_get (run_clock 4294967000 [999, 999, 999, 4] (rtc_set 4294967000 1700000000 r)) = 1700000003" for r
    using clock_does_not_drift [of "[999, 999, 999, 4]" 4294967000 1700000000 r] by simp
qed

end
