(* ===== verification/ExositeApi.thy ===== *)
theory ExositeApi
  imports ProtocolTags TDictionary Rtc
begin

text \<open>
  The user's side of the library (\<open>exosite_api.c\<close>): requests of the application wait in a queue,
  subscriptions in a dictionary, until the activation state machine has a valid key of the device
  (CIK); then they are handed to protocol client state machines, one for ordinary requests, one for
  the time, and over HTTP one per subscription. The responses come back as calls of
  \<open>exosite_api_callback\<close>. The protocol client machines are those of \<open>ProtocolSM\<close>.
\<close>

section \<open>Data\<close>

datatype application_protocol_type = APP_PROTO_HTTP | APP_PROTO_COAP | APP_PROTO_JSON

datatype exosite_method =
    EXO_DP_WRITE | EXO_DP_READ | EXO_DP_READ_WRITE | EXO_DP_SUBSCRIBE
  | EXO_PP_ACTIVATE | EXO_PP_LIST_CONTENT | EXO_PP_DOWNLOAD_CONTENT
  | EXO_UP_TIMESTAMP | EXO_UP_IP

datatype sm_type = SM_MAIN | SM_HTTP_LONG_POLL | SM_TIME_SYNC

datatype activate_states =
    AS_SEND_GET_TIMESTAMP | AS_WAIT_TIMESTAMP | AS_INIT | AS_START | AS_PREPARE_ACTIVATE
  | AS_SEND_ACTIVATE | AS_WAIT_ACTIVATE | AS_ACTIVATED

text \<open>The callback of a request: a function of the user by its number, or one of this file. The
  method says which member of the union is called.\<close>

datatype exo_callback = NoCallback | UserCallback nat | OnSubscribe | OnActivate | OnTimestamp

record exo_request_args =
  app_type :: application_protocol_type
  callback :: exo_callback
  subscribe_usr_callback :: "nat option"
  args_method :: exosite_method
  args_message_id :: int
  args_cik :: string
  args_alias :: "string option"
  args_value :: "string option"
  args_content :: "string option"
  args_timeout :: "string option"
  args_timestamp :: "string option"
  args_vendor :: "string option"
  args_model :: "string option"
  args_sn :: "string option"
  content_id :: "string option"

record sm_list_item =
  sm_kind :: sm_type
  sm_name :: "string option"
  sm :: protocol_client_sm

text \<open>\<open>args\<close> is a pointer: the number of an object in the store.\<close>

record subscribe_item =
  item_args :: nat
  sent :: bool
  acknowledged :: bool

text \<open>What the user and the platform see, and \<open>Asserted\<close> for an \<open>ASSERT(0)\<close> that is reached (it
  does nothing in a build without assertions).\<close>

datatype exo_event =
    UserRead nat err "string option" string
  | UserWrite nat err "string option"
  | UserChange nat err "string option" string
  | StoreCik string
  | Asserted

text \<open>How a call ends that does not return: it loops for ever, or follows a pointer to an object that
  has been freed.\<close>

datatype exo_stop = Loops | Dangling

record exosite =
  protocol_type :: application_protocol_type
  sm_head :: "sm_list_item list"
  numberof_state_machines :: "16 word"
  max_numberof_state_machines :: "16 word"
  cik :: string
  vendor :: string
  model :: string
  sn :: string
  request_queue :: "nat cqueue"
  subscribe_map :: "subscribe_item dnode"
  request_timeout :: sys_time
  activate_state :: activate_states
  next_activate :: activate_states
  asynch_state_event :: bool
  last_activation_time :: sys_time
  args_heap :: "nat \<Rightarrow> exo_request_args option"
  next_args :: nat
  gmessage_id :: int
  clock :: rtc
  shared :: sm_shared
  events :: "exo_event list"

definition exo_bind :: "exo_stop + 'a \<Rightarrow> ('a \<Rightarrow> exo_stop + 'b) \<Rightarrow> exo_stop + 'b" where
  "exo_bind r f = (case r of Inl e \<Rightarrow> Inl e | Inr x \<Rightarrow> f x)"

lemma exo_bind_simps [simp]: "exo_bind (Inl e) f = Inl e" "exo_bind (Inr x) f = f x"
  by (simp_all add: exo_bind_def)

definition log_event :: "exo_event \<Rightarrow> exosite \<Rightarrow> exosite" where
  "log_event e exo = exo\<lparr>events := events exo @ [e]\<rparr>"

section \<open>The format of a key\<close>

text \<open>\<open>isalnum\<close> of the C library in the C locale.\<close>

definition isalnum :: "char \<Rightarrow> bool" where
  "isalnum c \<longleftrightarrow>
     (let n = of_char c :: nat in 48 \<le> n \<and> n \<le> 57 \<or> 65 \<le> n \<and> n \<le> 90 \<or> 97 \<le> n \<and> n \<le> 122)"

text \<open>The loop over \<open>cik[i]\<close>; \<open>CIK_LENGTH\<close> is 40.\<close>

fun cik_loop :: "nat \<Rightarrow> string \<Rightarrow> bool" where
  "cik_loop i [] = (i = 40)"
| "cik_loop i (c # s) =
     (if i \<ge> 40 then False else if \<not> isalnum c then False else cik_loop (Suc i) s)"

definition system_is_cik_format_valid :: "string \<Rightarrow> bool" where
  "system_is_cik_format_valid s = cik_loop 0 s"

lemma cik_loop_valid: "i \<le> 40 \<Longrightarrow> cik_loop i s \<longleftrightarrow> i + length s = 40 \<and> list_all isalnum s"
  by (induction i s rule: cik_loop.induct) auto

lemma cik_valid_iff: "system_is_cik_format_valid s \<longleftrightarrow> length s = 40 \<and> list_all isalnum s"
  by (simp add: system_is_cik_format_valid_def cik_loop_valid)

section \<open>Request arguments\<close>

definition no_args :: exo_request_args where
  "no_args = \<lparr>app_type = APP_PROTO_HTTP, callback = NoCallback, subscribe_usr_callback = None,
     args_method = EXO_DP_WRITE, args_message_id = 0, args_cik = [], args_alias = None, args_value = None,
     args_content = None, args_timeout = None, args_timestamp = None, args_vendor = None,
     args_model = None, args_sn = None, content_id = None\<rparr>"

text \<open>\<open>exo_request_args_new\<close> copies the arguments into a new object; \<open>room\<close> is the result of the
  allocation. Each message gets a new number, except over HTTP.\<close>

definition exo_request_args_new :: "bool \<Rightarrow> exo_request_args \<Rightarrow> exosite \<Rightarrow> err \<times> nat \<times> exosite" where
  "exo_request_args_new room args exo =
     (if \<not> room then (ERR_NO_MEMORY, 0, exo)
      else
        let (message, exo) =
              (if app_type args = APP_PROTO_HTTP then (1, exo)
               else (gmessage_id exo, exo\<lparr>gmessage_id := gmessage_id exo + 1\<rparr>));
            new = args\<lparr>args_message_id := message, args_cik := take 40 (args_cik args)\<rparr>;
            p = next_args exo
        in (ERR_SUCCESS, p, exo\<lparr>args_heap := (args_heap exo)(p \<mapsto> new), next_args := Suc p\<rparr>))"

definition exo_request_args_delete :: "nat \<Rightarrow> exosite \<Rightarrow> exosite" where
  "exo_request_args_delete p exo = exo\<lparr>args_heap := (args_heap exo)(p := None)\<rparr>"

section \<open>The list of state machines\<close>

text \<open>\<open>find_sm\<close>: the index of the machine. When a name is asked for and an item of the type has
  none, the loop continues without going to the next item, for ever.\<close>

fun find_sm :: "sm_type \<Rightarrow> string option \<Rightarrow> sm_list_item list \<Rightarrow> exo_stop + nat option" where
  "find_sm ty name [] = Inr None"
| "find_sm ty name (item # rest) =
     (if sm_kind item = ty then
        (case name of None \<Rightarrow> Inr (Some 0)
         | Some n \<Rightarrow>
             (case sm_name item of None \<Rightarrow> Inl Loops
              | Some m \<Rightarrow>
                  if strcmp n m = 0 then Inr (Some 0)
                  else exo_bind (find_sm ty name rest) (\<lambda>r. Inr (map_option Suc r))))
      else exo_bind (find_sm ty name rest) (\<lambda>r. Inr (map_option Suc r)))"

text \<open>The surroundings of one hand-over: what creating a state machine gives (the configuration of
  the client, the server's name and the allocations, or the machine), what the server API returns
  for a new request, and the two allocations of \<open>protocol_client_sm_transmit\<close>.\<close>

record push_env =
  new_sm :: "err + protocol_client_sm"
  request_new :: "err \<times> nat"
  room_request :: bool
  room_entry :: bool

definition create_new_sm :: "string option \<Rightarrow> sm_type \<Rightarrow> push_env \<Rightarrow> exosite \<Rightarrow> err \<times> exosite" where
  "create_new_sm name ty env exo =
     (if max_numberof_state_machines exo \<noteq> 0 \<and>
         numberof_state_machines exo = max_numberof_state_machines exo
      then (ERR_NO_RESOURCE, exo)
      else (case new_sm env of
              Inl error \<Rightarrow> (error, exo)
            | Inr s \<Rightarrow> (ERR_SUCCESS,
                exo\<lparr>sm_head := sm_head exo @ [\<lparr>sm_kind = ty, sm_name = name, sm = s\<rparr>],
                    numberof_state_machines := numberof_state_machines exo + 1\<rparr>)))"

text \<open>Which machine a request goes to: its type, the name to look for, the name of a new one, and how
  the request is sent.\<close>

definition route ::
    "exosite \<Rightarrow> exo_request_args \<Rightarrow> sm_type \<times> string option \<times> string option \<times> request_type" where
  "route exo args =
     (case args_method args of
        EXO_UP_TIMESTAMP \<Rightarrow> (SM_TIME_SYNC, None, args_alias args, REQUEST_NORMAL)
      | EXO_DP_SUBSCRIBE \<Rightarrow>
          (let ty = (if protocol_type exo = APP_PROTO_COAP then REQUEST_SUBSCRIBE_ASYNCH
                     else REQUEST_SUBSCRIBE)
           in if protocol_type exo = APP_PROTO_HTTP
              then (SM_HTTP_LONG_POLL, args_alias args, args_alias args, ty)
              else (SM_MAIN, None, None, ty))
      | _ \<Rightarrow> (SM_MAIN, None, None, REQUEST_NORMAL))"

definition find_or_create ::
    "sm_type \<Rightarrow> string option \<Rightarrow> string option \<Rightarrow> push_env \<Rightarrow> exosite \<Rightarrow> exo_stop + (err \<times> nat option \<times> exosite)" where
  "find_or_create ty name new_name env exo =
     exo_bind (find_sm ty name (sm_head exo)) (\<lambda>found.
       (case found of
          Some k \<Rightarrow> Inr (ERR_FAILURE, Some k, exo)
        | None \<Rightarrow>
            let (error, exo) = create_new_sm new_name ty env exo in
            if error \<noteq> ERR_SUCCESS then Inr (error, None, exo)
            else exo_bind (find_sm ty name (sm_head exo)) (\<lambda>k. Inr (error, k, exo))))"

text \<open>The last part: the request is created and put into the queue of the machine, unless that is
  full; then the error is the one from before.\<close>

definition hand_over ::
    "err \<Rightarrow> nat \<Rightarrow> request_type \<Rightarrow> nat \<Rightarrow> exo_request_args \<Rightarrow> push_env \<Rightarrow> exosite \<Rightarrow> err \<times> exosite" where
  "hand_over error k ty p args env exo =
     (let args = args\<lparr>args_cik := take 40 (cik exo)\<rparr>;
          exo = exo\<lparr>args_heap := (args_heap exo)(p \<mapsto> args)\<rparr>;
          item = sm_head exo ! k
      in if protocol_client_sm_is_queue_full (sm item) then (error, exo)
         else if fst (request_new env) \<noteq> ERR_SUCCESS then (fst (request_new env), exo)
         else
           let (error, s) = protocol_client_sm_transmit (room_request env) (room_entry env) ty
                 (snd (request_new env)) p (args_message_id args) 0 (sm item)
           in (error, exo\<lparr>sm_head := (sm_head exo)[k := item\<lparr>sm := s\<rparr>]\<rparr>))"

definition pcsm_push_no_copy :: "nat \<Rightarrow> push_env \<Rightarrow> exosite \<Rightarrow> exo_stop + (err \<times> exosite)" where
  "pcsm_push_no_copy p env exo =
     (case args_heap exo p of
        None \<Rightarrow> Inl Dangling
      | Some args \<Rightarrow>
          let (ty, name, new_name, rty) = route exo args in
          exo_bind (find_or_create ty name new_name env exo) (\<lambda>(error, found, exo).
            (case found of
               None \<Rightarrow> Inr (error, if error = ERR_SUCCESS then log_event Asserted exo else exo)
             | Some k \<Rightarrow> Inr (hand_over error k rty p args env exo))))"

definition pcsm_push :: "bool \<Rightarrow> exo_request_args \<Rightarrow> push_env \<Rightarrow> exosite \<Rightarrow> exo_stop + (err \<times> exosite)" where
  "pcsm_push room args env exo =
     (let (error, p, exo) = exo_request_args_new room args exo in
      if error \<noteq> ERR_SUCCESS then Inr (error, exo)
      else exo_bind (pcsm_push_no_copy p env exo) (\<lambda>(error, exo).
        Inr (error, if error \<noteq> ERR_SUCCESS then exo_request_args_delete p exo else exo)))"
section \<open>The callbacks of the requests\<close>

text \<open>\<open>strtol (s, &end, 10)\<close>: blanks, a sign, digits; \<open>None\<close> when there is no digit, so that
  \<open>end\<close> is \<open>s\<close>. A \<open>long\<close> has 32 bits here, and the result is clamped to it.\<close>

definition isdigit :: "char \<Rightarrow> bool" where
  "isdigit c \<longleftrightarrow> (let n = of_char c :: nat in 48 \<le> n \<and> n \<le> 57)"

definition isspace :: "char \<Rightarrow> bool" where
  "isspace c \<longleftrightarrow> c \<in> {CHR '' '', CHR 0x09, CHR 0x0A, CHR 0x0B, CHR 0x0C, CHR 0x0D}"

definition decimal :: "string \<Rightarrow> int" where
  "decimal ds = foldl (\<lambda>n c. 10 * n + (of_char c - 48)) 0 ds"

definition strtol10 :: "string \<Rightarrow> int option" where
  "strtol10 str =
     (let t = dropWhile isspace str;
          (sign, u) = (case t of [] \<Rightarrow> (1, t)
            | c # r \<Rightarrow> if c = CHR ''-'' then (-1, r) else if c = CHR ''+'' then (1, r) else (1, t));
          ds = takeWhile isdigit u
      in if ds = [] then None else Some (max (- (2 ^ 31)) (min (2 ^ 31 - 1) (sign * decimal ds))))"

definition on_timestamp :: "sys_time \<Rightarrow> err \<Rightarrow> string \<Rightarrow> exosite \<Rightarrow> exosite" where
  "on_timestamp time status timestr exo =
     (if status = ERR_SUCCESS then
        (case strtol10 timestr of
           None \<Rightarrow> exo\<lparr>next_activate := AS_SEND_GET_TIMESTAMP\<rparr>
         | Some timestamp \<Rightarrow>
             exo\<lparr>clock := rtc_set time (of_int timestamp) (clock exo), next_activate := AS_INIT\<rparr>)
      else exo\<lparr>next_activate := AS_SEND_GET_TIMESTAMP\<rparr>)"

text \<open>\<open>memcpy\<close> of 41 bytes of the response and a final zero: the first 40 characters of the text.\<close>

definition on_activate :: "err \<Rightarrow> string \<Rightarrow> exosite \<Rightarrow> exosite" where
  "on_activate status new_cik exo =
     (if status = ERR_SUCCESS then
        let exo = exo\<lparr>cik := take 40 new_cik\<rparr> in
        if system_is_cik_format_valid (cik exo)
        then (log_event (StoreCik (cik exo)) exo)
          \<lparr>next_activate := AS_ACTIVATED, asynch_state_event := False\<rparr>
        else (log_event Asserted exo)\<lparr>next_activate := AS_PREPARE_ACTIVATE\<rparr>
      else exo\<lparr>next_activate := AS_PREPARE_ACTIVATE\<rparr>)"

text \<open>The dictionary gives a pointer to the item, whose flags are then set in place.\<close>

fun set_item :: "(subscribe_item \<Rightarrow> subscribe_item) \<Rightarrow> string \<Rightarrow> subscribe_item dnode \<Rightarrow> subscribe_item dnode" where
  "set_item f key DNil = DNil"
| "set_item f key (DNode l k v r) =
     (if strcmp key k = 0 then DNode l k (f v) r
      else if strcmp key k < 0 then DNode (set_item f key l) k v r
      else DNode l k v (set_item f key r))"

definition answered :: "err \<Rightarrow> application_protocol_type \<Rightarrow> subscribe_item \<Rightarrow> subscribe_item" where
  "answered status proto item =
     (if status \<noteq> ERR_SUCCESS then item\<lparr>sent := False, acknowledged := False\<rparr>
      else
        let item = item\<lparr>acknowledged := True\<rparr> in
        if proto = APP_PROTO_HTTP then item\<lparr>sent := False, acknowledged := False\<rparr> else item)"

definition on_subscribe :: "err \<Rightarrow> exo_request_args \<Rightarrow> string \<Rightarrow> exosite \<Rightarrow> exosite" where
  "on_subscribe status args value exo =
     (let exo =
        (if status \<noteq> ERR_UNCHANGED then
           (case subscribe_usr_callback args of
              Some clb \<Rightarrow> log_event (UserChange clb status (args_alias args) value) exo
            | None \<Rightarrow> exo)
         else exo)
      in case args_alias args of
           None \<Rightarrow> exo
         | Some key \<Rightarrow>
             exo\<lparr>subscribe_map := set_item (answered status (app_type args)) key (subscribe_map exo)\<rparr>)"

text \<open>\<open>exosite_api_callback\<close>: \<open>status\<close> is what the server API makes of the response, \<open>text\<close> the
  payload it leaves. The request is deleted at the end, its arguments too unless the subscription
  owns them.\<close>

definition call_back :: "sys_time \<Rightarrow> err \<Rightarrow> string \<Rightarrow> exo_request_args \<Rightarrow> exosite \<Rightarrow> exosite" where
  "call_back time status payld args exo =
     (case args_method args of
        EXO_DP_WRITE \<Rightarrow>
          (case callback args of UserCallback c \<Rightarrow> log_event (UserWrite c status (args_alias args)) exo
           | _ \<Rightarrow> exo)
      | EXO_DP_READ \<Rightarrow>
          (case callback args of UserCallback c \<Rightarrow> log_event (UserRead c status (args_alias args) payld) exo
           | _ \<Rightarrow> exo)
      | EXO_DP_SUBSCRIBE \<Rightarrow>
          (case callback args of OnSubscribe \<Rightarrow> on_subscribe status args payld exo | _ \<Rightarrow> exo)
      | EXO_PP_ACTIVATE \<Rightarrow>
          (case callback args of OnActivate \<Rightarrow> on_activate status payld exo | _ \<Rightarrow> exo)
      | EXO_UP_TIMESTAMP \<Rightarrow>
          (case callback args of OnTimestamp \<Rightarrow> on_timestamp time status payld exo | _ \<Rightarrow> exo)
      | _ \<Rightarrow> exo)"

definition exosite_api_callback ::
    "sys_time \<Rightarrow> err \<Rightarrow> string \<Rightarrow> nat \<Rightarrow> exosite \<Rightarrow> exo_stop + exosite" where
  "exosite_api_callback time status payld p exo =
     (case args_heap exo p of
        None \<Rightarrow> Inl Dangling
      | Some args \<Rightarrow>
          let exo = (if status = ERR_CIK_NOT_VALID then exo\<lparr>asynch_state_event := True\<rparr> else exo);
              exo = call_back time status payld args exo
          in Inr (if args_method args \<noteq> EXO_DP_SUBSCRIBE then exo_request_args_delete p exo else exo))"

section \<open>The activation state machine\<close>

text \<open>The surroundings of one call of \<open>activate_sm\<close>: the clock, the CIK the build and the platform
  have, the allocation of new arguments, and for every pointer of arguments what handing it over
  meets.\<close>

record act_env =
  act_now :: sys_time
  device_cik :: string
  stored_cik :: "err \<times> string"
  room_args :: bool
  push_at :: "nat \<Rightarrow> push_env"

definition get_timestamp :: "act_env \<Rightarrow> exosite \<Rightarrow> exo_stop + (err \<times> exosite)" where
  "get_timestamp env exo =
     pcsm_push (room_args env) (no_args\<lparr>args_method := EXO_UP_TIMESTAMP, callback := OnTimestamp\<rparr>)
       (push_at env (next_args exo)) exo"

definition activate :: "act_env \<Rightarrow> exosite \<Rightarrow> exo_stop + (err \<times> exosite)" where
  "activate env exo =
     pcsm_push (room_args env) (no_args\<lparr>args_method := EXO_PP_ACTIVATE, args_vendor := Some (vendor exo),
         args_model := Some (model exo), args_sn := Some (sn exo), callback := OnActivate\<rparr>)
       (push_at env (next_args exo)) exo"

text \<open>The default kind of delay, \<open>ACTIVATION_RETRY_TYPE\<close> 1 with \<open>ACTIVATION_DELAY\<close> 10000.\<close>

definition should_delay_activate :: "sys_time \<Rightarrow> exosite \<Rightarrow> bool \<times> exosite" where
  "should_delay_activate time exo =
     (if diff_time time (last_activation_time exo) > 10000
      then (False, exo\<lparr>last_activation_time := time\<rparr>) else (True, exo))"

text \<open>\<open>api_get_cik\<close>: the key of the platform goes to \<open>exo->cik\<close>, valid or not, unless reading it
  fails.\<close>

definition api_get_cik :: "err \<times> string \<Rightarrow> exosite \<Rightarrow> err \<times> exosite" where
  "api_get_cik got exo =
     (if fst got \<noteq> ERR_SUCCESS then (fst got, exo)
      else
        let exo = exo\<lparr>cik := snd got\<rparr> in
        (if system_is_cik_format_valid (cik exo) then ERR_SUCCESS else ERR_CIK_NOT_VALID, exo))"

text \<open>The iteration over the subscriptions, in the order of the dictionary; the items that are not
  under way are handed over.\<close>

fun push_subscriptions ::
    "act_env \<Rightarrow> subscribe_item dnode \<Rightarrow> exosite \<Rightarrow> exo_stop + (subscribe_item dnode \<times> exosite)" where
  "push_subscriptions env DNil exo = Inr (DNil, exo)"
| "push_subscriptions env (DNode l k item r) exo =
     exo_bind (push_subscriptions env l exo) (\<lambda>(l, exo).
     exo_bind (if \<not> sent item \<and> \<not> acknowledged item
               then exo_bind (pcsm_push_no_copy (item_args item) (push_at env (item_args item)) exo)
                 (\<lambda>(error, exo). Inr (if error = ERR_SUCCESS then item\<lparr>sent := True\<rparr> else item, exo))
               else Inr (item, exo)) (\<lambda>(item, exo).
     exo_bind (push_subscriptions env r exo) (\<lambda>(r, exo). Inr (DNode l k item r, exo))))"

definition push_next :: "act_env \<Rightarrow> exosite \<Rightarrow> exo_stop + exosite" where
  "push_next env exo =
     (case cqueue_peek_head (request_queue exo) of
        None \<Rightarrow> Inr exo
      | Some p \<Rightarrow>
          exo_bind (pcsm_push_no_copy p (push_at env p) exo) (\<lambda>(error, exo).
            Inr (if error = ERR_SUCCESS
                 then exo\<lparr>request_queue := snd (cqueue_pop_head (request_queue exo))\<rparr> else exo)))"

definition act_activated :: "act_env \<Rightarrow> exosite \<Rightarrow> exo_stop + exosite" where
  "act_activated env exo =
     (if asynch_state_event exo
      then Inr (exo\<lparr>asynch_state_event := False, next_activate := AS_PREPARE_ACTIVATE\<rparr>)
      else exo_bind (push_subscriptions env (subscribe_map exo) exo) (\<lambda>(items, exo).
        push_next env (exo\<lparr>subscribe_map := items\<rparr>)))"

definition activate_sm :: "act_env \<Rightarrow> exosite \<Rightarrow> exo_stop + exosite" where
  "activate_sm env exo0 =
     (let exo = exo0\<lparr>activate_state := next_activate exo0\<rparr> in
      case activate_state exo of
        AS_SEND_GET_TIMESTAMP \<Rightarrow>
          exo_bind (get_timestamp env exo) (\<lambda>(error, exo).
            Inr (if error = ERR_SUCCESS then exo\<lparr>next_activate := AS_WAIT_TIMESTAMP\<rparr> else exo))
      | AS_WAIT_TIMESTAMP \<Rightarrow> Inr exo
      | AS_INIT \<Rightarrow>
          (let exo = exo\<lparr>cik := device_cik env\<rparr> in
           Inr (if system_is_cik_format_valid (cik exo) then exo\<lparr>next_activate := AS_ACTIVATED\<rparr>
                else exo\<lparr>next_activate := AS_START, cik := []\<rparr>))
      | AS_START \<Rightarrow>
          (let (error, exo) = api_get_cik (stored_cik env) exo in
           Inr (exo\<lparr>next_activate := (if error = ERR_SUCCESS then AS_ACTIVATED else AS_PREPARE_ACTIVATE)\<rparr>))
      | AS_PREPARE_ACTIVATE \<Rightarrow>
          (let (delay, exo) = should_delay_activate (act_now env) exo in
           Inr (if delay then exo
                else exo\<lparr>sm_head := map (\<lambda>i. i\<lparr>sm := protocol_client_sm_clear (sm i)\<rparr>) (sm_head exo),
                         next_activate := AS_SEND_ACTIVATE\<rparr>))
      | AS_SEND_ACTIVATE \<Rightarrow>
          if \<not> list_all (\<lambda>i. protocol_client_sm_is_empty (sm i)) (sm_head exo) then Inr exo
          else exo_bind (activate env exo) (\<lambda>(error, exo).
            Inr (if error = ERR_SUCCESS then exo\<lparr>next_activate := AS_WAIT_ACTIVATE\<rparr> else exo))
      | AS_WAIT_ACTIVATE \<Rightarrow> Inr exo
      | AS_ACTIVATED \<Rightarrow> act_activated env exo)"

section \<open>The calls of the application\<close>

definition callback_of :: "nat option \<Rightarrow> exo_callback" where
  "callback_of clb = (case clb of None \<Rightarrow> NoCallback | Some c \<Rightarrow> UserCallback c)"

definition request_queue_push :: "bool \<Rightarrow> bool \<Rightarrow> exo_request_args \<Rightarrow> exosite \<Rightarrow> err \<times> exosite" where
  "request_queue_push room entry args exo =
     (let (error, p, exo) = exo_request_args_new room (args\<lparr>app_type := protocol_type exo\<rparr>) exo in
      if error \<noteq> ERR_SUCCESS then (error, exo)
      else
        let (error, queue) = cqueue_push_tail entry p (request_queue exo);
            exo = exo\<lparr>request_queue := queue\<rparr>
        in (error, if error \<noteq> ERR_SUCCESS then exo_request_args_delete p exo else exo))"

definition exosite_read :: "bool \<Rightarrow> bool \<Rightarrow> string \<Rightarrow> nat option \<Rightarrow> exosite \<Rightarrow> err \<times> exosite" where
  "exosite_read room entry alias on_read exo =
     request_queue_push room entry
       (no_args\<lparr>args_method := EXO_DP_READ, args_alias := Some alias, callback := callback_of on_read\<rparr>) exo"

definition exosite_write ::
    "bool \<Rightarrow> bool \<Rightarrow> string \<Rightarrow> string \<Rightarrow> nat option \<Rightarrow> exosite \<Rightarrow> err \<times> exosite" where
  "exosite_write room entry alias val on_write exo =
     request_queue_push room entry
       (no_args\<lparr>args_method := EXO_DP_WRITE, args_alias := Some alias, args_value := Some val,
          callback := callback_of on_write\<rparr>) exo"

text \<open>The item and its arguments go to the dictionary under the alias, which is no null pointer. The flags
  are the allocations of the item, of the arguments and of the dictionary.\<close>

definition add_to_subscribe_map ::
    "bool \<Rightarrow> bool \<Rightarrow> bool \<Rightarrow> bool \<Rightarrow> exo_request_args \<Rightarrow> exosite \<Rightarrow> err \<times> exosite" where
  "add_to_subscribe_map room_item room room_node room_key args exo =
     (if \<not> room_item then (ERR_NO_MEMORY, exo)
      else
        let (error, p, exo) = exo_request_args_new room (args\<lparr>app_type := protocol_type exo\<rparr>) exo in
        if error \<noteq> ERR_SUCCESS then (error, exo)
        else
          let (error, items) = dictionary_add room_node room_key (case args_alias args of None \<Rightarrow> [] | Some a \<Rightarrow> a)
                \<lparr>item_args = p, sent = False, acknowledged = False\<rparr> (subscribe_map exo);
              exo = exo\<lparr>subscribe_map := items\<rparr>
          in (error, if error \<noteq> ERR_SUCCESS then exo_request_args_delete p exo else exo))"

text \<open>\<open>snprintf\<close> of an \<open>int\<close> with \<open>"%d"\<close>.\<close>

function dec_digits :: "int \<Rightarrow> string" where
  "dec_digits n = (if n < 10 then [] else dec_digits (n div 10)) @ [char_of (48 + n mod 10)]"
  by pat_completeness auto
termination by (relation "measure nat") auto

declare dec_digits.simps [simp del]

definition dec_int :: "int \<Rightarrow> string" where
  "dec_int n = (if n < 0 then CHR ''-'' # dec_digits (- n) else dec_digits n)"

definition exosite_subscribe ::
    "bool \<Rightarrow> bool \<Rightarrow> bool \<Rightarrow> bool \<Rightarrow> string \<Rightarrow> nat option \<Rightarrow> exosite \<Rightarrow> err \<times> exosite" where
  "exosite_subscribe room_item room room_node room_key alias on_change exo =
     (let timeout = dec_int (sint (request_timeout exo - 15000)) in
      if length timeout = 16 then (ERR_FAILURE, log_event Asserted exo)
      else add_to_subscribe_map room_item room room_node room_key
        (no_args\<lparr>args_method := EXO_DP_SUBSCRIBE, args_alias := Some alias, args_timeout := Some timeout,
           subscribe_usr_callback := on_change, callback := OnSubscribe\<rparr>) exo)"

datatype exosite_device_status = DEVICE_STATUS_ACTIVATED | DEVICE_STATUS_NOT_ACTIVATED

definition exosite_get_status :: "exosite \<Rightarrow> exosite_device_status" where
  "exosite_get_status exo =
     (case activate_state exo of AS_ACTIVATED \<Rightarrow> DEVICE_STATUS_ACTIVATED | _ \<Rightarrow> DEVICE_STATUS_NOT_ACTIVATED)"

section \<open>A new object\<close>

text \<open>The surroundings of \<open>exosite_new\<close>: the results of its calls, the configuration, and the variables
  that exist before. \<open>activate_state\<close> is filled with zeros, which is no state of the enumeration; the
  first call of \<open>activate_sm\<close> sets it.\<close>

record new_env =
  rooms :: bool
  new_queue :: "nat cqueue option"
  new_dictionary :: err
  new_mutex :: err
  registered :: err
  max_machines :: "16 word"
  new_timeout :: sys_time
  next_message :: int
  rtc_now :: rtc
  shared_now :: sm_shared
  system_sn :: string

text \<open>Every failure is reported as \<open>ERR_SUCCESS\<close>; then no object is stored.\<close>

definition exosite_new ::
    "new_env \<Rightarrow> string \<Rightarrow> string \<Rightarrow> string option \<Rightarrow> application_protocol_type \<Rightarrow> err \<times> exosite option" where
  "exosite_new env vend mdl optional_sn proto =
     (case new_queue env of
        None \<Rightarrow> (ERR_SUCCESS, None)
      | Some queue \<Rightarrow>
          if \<not> rooms env \<or> new_dictionary env \<noteq> ERR_SUCCESS \<or> new_mutex env \<noteq> ERR_SUCCESS \<or>
             registered env \<noteq> ERR_SUCCESS
          then (ERR_SUCCESS, None)
          else (ERR_SUCCESS, Some \<lparr>protocol_type = proto, sm_head = [], numberof_state_machines = 0,
            max_numberof_state_machines = max_machines env, cik = [], vendor = vend, model = mdl,
            sn = (case optional_sn of Some s \<Rightarrow> s | None \<Rightarrow> system_sn env), request_queue = queue,
            subscribe_map = DNil, request_timeout = new_timeout env, activate_state = AS_SEND_GET_TIMESTAMP,
            next_activate = AS_SEND_GET_TIMESTAMP, asynch_state_event = False, last_activation_time = 0,
            args_heap = Map.empty, next_args = 0, gmessage_id = next_message env, clock = rtc_now env,
            shared = shared_now env, events = []\<rparr>))"

section \<open>Runs\<close>

text \<open>One tick of the \<open>k\<close>-th machine. The responses go to \<open>exosite_api_callback\<close>, which does nothing to
  the machine; what the functions of the user call (\<open>exosite_read\<close>, \<open>exosite_write\<close>,
  \<open>exosite_subscribe\<close>) are inputs of their own. \<open>answer\<close> is the server API.\<close>

fun answer_calls ::
    "sys_time \<Rightarrow> (protocol_client_request \<Rightarrow> protocol_client_response \<Rightarrow> err \<times> string) \<Rightarrow>
     (protocol_client_request \<times> protocol_client_response) list \<Rightarrow> exosite \<Rightarrow> exo_stop + exosite" where
  "answer_calls time answer [] exo = Inr exo"
| "answer_calls time answer ((r, p) # cs) exo =
     exo_bind (exosite_api_callback time (fst (answer r p)) (snd (answer r p)) (rq_args r) exo)
       (answer_calls time answer cs)"

definition machine_tick ::
    "nat \<Rightarrow> sm_tick \<Rightarrow> (protocol_client_request \<Rightarrow> protocol_client_response \<Rightarrow> err \<times> string) \<Rightarrow>
     exosite \<Rightarrow> exo_stop + exosite" where
  "machine_tick k t answer exo =
     (if k < length (sm_head exo) then
        let item = sm_head exo ! k;
            (s, sh) = protocol_client_sm_task (t\<lparr>app := \<lambda>r p. []\<rparr>) (sm item, shared exo);
            exo = exo\<lparr>sm_head := (sm_head exo)[k := item\<lparr>sm := s\<rparr>], shared := sh\<rparr>
        in answer_calls (now t) answer (drop (length (calls (trace (sm item)))) (calls (trace s))) exo
      else Inr exo)"

datatype exo_input =
    AppRead bool bool string "nat option"
  | AppWrite bool bool string string "nat option"
  | AppSubscribe bool bool bool bool string "nat option"
  | Activation act_env
  | Machine nat sm_tick "protocol_client_request \<Rightarrow> protocol_client_response \<Rightarrow> err \<times> string"

fun exo_next :: "exo_input \<Rightarrow> exosite \<Rightarrow> exo_stop + exosite" where
  "exo_next (AppRead a b alias clb) exo = Inr (snd (exosite_read a b alias clb exo))"
| "exo_next (AppWrite a b alias val clb) exo = Inr (snd (exosite_write a b alias val clb exo))"
| "exo_next (AppSubscribe a b c d alias clb) exo = Inr (snd (exosite_subscribe a b c d alias clb exo))"
| "exo_next (Activation env) exo = activate_sm env exo"
| "exo_next (Machine k t answer) exo = machine_tick k t answer exo"

fun exo_run :: "exo_input list \<Rightarrow> exosite \<Rightarrow> exo_stop + exosite" where
  "exo_run [] exo = Inr exo"
| "exo_run (i # is) exo = exo_bind (exo_next i exo) (exo_run is)"

end
