(* ===== verification/ExositeInv.thy ===== *)
theory ExositeInv
  imports ExositeApi ProtocolTags
begin

text \<open>
  Where the arguments of the requests are, and how handing a request over changes that: the facts
  the invariants of \<open>exosite_api.c\<close> rest on.
\<close>

section \<open>Requests and their arguments\<close>

definition pend :: "exosite \<Rightarrow> protocol_client_request multiset" where
  "pend exo = (\<Sum>item\<in>#mset (sm_head exo). mset (pending (sm item)))"

lemma pend_simps [simp]:
  "pend (exo\<lparr>args_heap := h\<rparr>) = pend exo" "pend (exo\<lparr>events := ev\<rparr>) = pend exo"
  "pend (exo\<lparr>next_activate := n\<rparr>) = pend exo" "pend (exo\<lparr>cik := c\<rparr>) = pend exo"
  "pend (exo\<lparr>clock := cl\<rparr>) = pend exo" "pend (exo\<lparr>asynch_state_event := b\<rparr>) = pend exo"
  "pend (exo\<lparr>subscribe_map := m\<rparr>) = pend exo" "pend (exo\<lparr>request_queue := q\<rparr>) = pend exo"
  "pend (exo\<lparr>next_args := i\<rparr>) = pend exo" "pend (exo\<lparr>gmessage_id := g\<rparr>) = pend exo"
  "pend (exo\<lparr>activate_state := n\<rparr>) = pend exo" "pend (exo\<lparr>last_activation_time := tm\<rparr>) = pend exo"
  "pend (exo\<lparr>shared := sh\<rparr>) = pend exo" "pend (exo\<lparr>numberof_state_machines := w\<rparr>) = pend exo"
  by (simp_all add: pend_def)

lemma pend_append: "pend (exo\<lparr>sm_head := xs @ [item]\<rparr>) = pend (exo\<lparr>sm_head := xs\<rparr>) + mset (pending (sm item))"
  by (simp add: pend_def)

lemma pend_update:
  assumes k: "k < length xs"
  shows "pend (exo\<lparr>sm_head := xs[k := item]\<rparr>) + mset (pending (sm (xs ! k))) =
    pend (exo\<lparr>sm_head := xs\<rparr>) + mset (pending (sm item))"
proof -
  define M where "M = mset xs - {#xs ! k#}"
  have m: "mset xs = add_mset (xs ! k) M" unfolding M_def using k by simp
  have u: "mset (xs[k := item]) = add_mset item M" unfolding M_def using k by (simp add: mset_update)
  show ?thesis by (simp add: pend_def m u)
qed

lemma pend_item: "k < length (sm_head exo) \<Longrightarrow> set (pending (sm (sm_head exo ! k))) \<subseteq> set_mset (pend exo)"
  using nth_mem [of k "sm_head exo"] by (auto simp: pend_def simp del: nth_mem)

lemma pend_empty: "pend exo = {#} \<longleftrightarrow> (\<forall>item \<in> set (sm_head exo). pending (sm item) = [])"
  by (auto simp: pend_def)

definition subs :: "exo_request_args \<Rightarrow> bool" where
  "subs a \<longleftrightarrow> args_method a = EXO_DP_SUBSCRIBE \<and> args_alias a \<noteq> None"

definition points_to :: "exosite \<Rightarrow> nat \<Rightarrow> (exo_request_args \<Rightarrow> bool) \<Rightarrow> bool" where
  "points_to exo p P \<longleftrightarrow> (\<exists>a. args_heap exo p = Some a \<and> P a)"

definition machines_ok :: "exosite \<Rightarrow> bool" where
  "machines_ok exo \<longleftrightarrow> (\<forall>item \<in> set (sm_head exo). sm_ok (sm item) \<and>
     (sm_kind item = SM_HTTP_LONG_POLL \<longrightarrow> sm_name item \<noteq> None))"

definition env_ok :: "push_env \<Rightarrow> bool" where
  "env_ok env \<longleftrightarrow> (case new_sm env of Inl error \<Rightarrow> error \<noteq> ERR_SUCCESS
     | Inr s \<Rightarrow> (\<exists>sh. sm_start (s, sh)) \<and> 0 < sm_queue_size (config s))"

section \<open>Handing a request over\<close>

lemma find_sm_returns:
  "name = None \<or> (\<forall>i \<in> set xs. sm_kind i = ty \<longrightarrow> sm_name i \<noteq> None) \<Longrightarrow>
     \<exists>r. find_sm ty name xs = Inr r \<and> (\<forall>k. r = Some k \<longrightarrow> k < length xs)"
proof (induction xs)
  case (Cons i xs)
  then obtain r where "find_sm ty name xs = Inr r" "\<forall>k. r = Some k \<longrightarrow> k < length xs" by auto
  with Cons.prems show ?case by (cases name; cases "sm_name i"; cases r) auto
qed simp

lemma find_sm_new: "find_sm ty name xs = Inr None \<Longrightarrow> sm_kind x = ty \<Longrightarrow> name = None \<or> sm_name x = name \<Longrightarrow>
    find_sm ty name (xs @ [x]) = Inr (Some (length xs))"
proof (induction xs)
  case Nil
  have "strcmp n n = 0" for n by (simp add: strcmp_def)
  with Nil show ?case by (auto split: option.split)
next
  case (Cons i xs)
  then show ?case by (auto simp: exo_bind_def split: if_splits option.splits sum.splits)
qed

lemma fresh_sm: "sm_start (s, sh) \<Longrightarrow> sm_ok s \<and> pending s = [] \<and> cq_items (transfer_queue s) = []"
  using sm_start_ok [of "(s, sh)"]
  by (auto simp: sm_start_def protocol_client_sm_new_def cqueue_new_def pending_def split: if_splits option.splits)

lemma transmit_effect:
  assumes "protocol_client_sm_transmit a b ty rq p mid clb s = (error, s')" and ok: "sm_ok s"
  shows "sm_ok s'" "error \<noteq> ERR_SUCCESS \<Longrightarrow> mset (pending s') = mset (pending s)"
    "error = ERR_SUCCESS \<Longrightarrow> \<exists>r. mset (pending s') = add_mset r (mset (pending s)) \<and> rq_args r = p \<and> rq_type r = ty"
proof -
  show "sm_ok s'" using sm_do_ok [OF ok, of "Transmit a b ty rq p mid clb"] assms(1) by simp
  show "error \<noteq> ERR_SUCCESS \<Longrightarrow> mset (pending s') = mset (pending s)"
    using assms(1) by (auto simp: protocol_client_sm_transmit_def Let_def pending_def cqueue_push_tail_def split: if_splits prod.splits)
  show "error = ERR_SUCCESS \<Longrightarrow> \<exists>r. mset (pending s') = add_mset r (mset (pending s)) \<and> rq_args r = p \<and> rq_type r = ty"
    using assms(1) by (auto simp: protocol_client_sm_transmit_def Let_def pending_def cqueue_push_tail_def split: if_splits prod.splits)
qed

text \<open>What handing over leaves: machines may be new, one may have a request more, and the key of
  arguments that were to be handed over is the current one.\<close>

definition rekeyed :: "(nat \<Rightarrow> bool) \<Rightarrow> exosite \<Rightarrow> exosite \<Rightarrow> bool" where
  "rekeyed Q exo exo' \<longleftrightarrow> (\<forall>p. args_heap exo' p = args_heap exo p \<or>
     Q p \<and> (\<exists>a. args_heap exo p = Some a \<and> args_heap exo' p = Some (a\<lparr>args_cik := take 40 (cik exo)\<rparr>)))"

definition same_rest :: "exosite \<Rightarrow> exosite \<Rightarrow> bool" where
  "same_rest exo exo' \<longleftrightarrow> (\<exists>h n g ev. exo' = exo\<lparr>sm_head := h, numberof_state_machines := n, args_heap := g, events := ev\<rparr>)"

definition grows :: "(nat \<Rightarrow> bool) \<Rightarrow> protocol_client_request multiset \<Rightarrow> exosite \<Rightarrow> exosite \<Rightarrow> bool" where
  "grows Q R exo exo' \<longleftrightarrow> same_rest exo exo' \<and> rekeyed Q exo exo' \<and> pend exo' = pend exo + R \<and> machines_ok exo' \<and>
     (\<forall>r \<in># R. Q (rq_args r) \<and> points_to exo' (rq_args r) (\<lambda>a. args_cik a = take 40 (cik exo) \<and>
        (rq_type r = REQUEST_NORMAL \<longleftrightarrow> args_method a \<noteq> EXO_DP_SUBSCRIBE)))"

lemma same_rest_refl [simp]: "same_rest exo exo"
proof -
  have "exo = exo\<lparr>sm_head := sm_head exo, numberof_state_machines := numberof_state_machines exo,
      args_heap := args_heap exo, events := events exo\<rparr>" by simp
  then show ?thesis unfolding same_rest_def by blast
qed

lemma grows_refl [simp]: "grows Q {#} exo exo \<longleftrightarrow> machines_ok exo"
  by (simp add: grows_def rekeyed_def)

lemma same_rest_fields:
  assumes "same_rest exo exo'"
  shows "request_queue exo' = request_queue exo" "subscribe_map exo' = subscribe_map exo"
    "next_args exo' = next_args exo" "next_activate exo' = next_activate exo" "cik exo' = cik exo"
    "activate_state exo' = activate_state exo" "protocol_type exo' = protocol_type exo"
  using assms by (auto simp: same_rest_def)

lemma same_rest_trans: "same_rest a b \<Longrightarrow> same_rest b c \<Longrightarrow> same_rest a c"
  unfolding same_rest_def by force

lemma rekeyed_trans:
  assumes g: "rekeyed Q a b" and h: "rekeyed Q b c" and ck: "cik b = cik a"
  shows "rekeyed Q a c" unfolding rekeyed_def
proof
  fix p
  from g have "args_heap b p = args_heap a p \<or> Q p \<and> (\<exists>x. args_heap a p = Some x \<and>
      args_heap b p = Some (x\<lparr>args_cik := take 40 (cik a)\<rparr>))" by (simp add: rekeyed_def)
  moreover from h have "args_heap c p = args_heap b p \<or> Q p \<and> (\<exists>x. args_heap b p = Some x \<and>
      args_heap c p = Some (x\<lparr>args_cik := take 40 (cik a)\<rparr>))" unfolding ck [symmetric] by (simp add: rekeyed_def)
  ultimately show "args_heap c p = args_heap a p \<or> Q p \<and> (\<exists>x. args_heap a p = Some x \<and>
      args_heap c p = Some (x\<lparr>args_cik := take 40 (cik a)\<rparr>))" by (elim disjE conjE exE; simp)
qed

lemma grows_mono: "grows Q R a b \<Longrightarrow> (\<And>p. Q p \<Longrightarrow> P p) \<Longrightarrow> grows P R a b"
  unfolding grows_def rekeyed_def by blast

lemma grows_trans:
  assumes g: "grows Q R a b" and h: "grows Q S b c"
  shows "grows Q (R + S) a c"
proof -
  note s = same_rest_fields [of a b]
  have ck: "cik b = cik a" using g s(5) by (simp add: grows_def)
  have k: "rekeyed Q a c" using g h ck rekeyed_trans by (auto simp: grows_def)
  have old: "points_to c (rq_args r) (\<lambda>x. args_cik x = take 40 (cik a) \<and>
      (rq_type r = REQUEST_NORMAL \<longleftrightarrow> args_method x \<noteq> EXO_DP_SUBSCRIBE))" if "r \<in># R" for r
  proof -
    from g that obtain x where x: "args_heap b (rq_args r) = Some x" "args_cik x = take 40 (cik a)"
      "rq_type r = REQUEST_NORMAL \<longleftrightarrow> args_method x \<noteq> EXO_DP_SUBSCRIBE" by (auto simp: grows_def points_to_def)
    from h have "rekeyed Q b c" by (simp add: grows_def)
    then have "args_heap c (rq_args r) = args_heap b (rq_args r) \<or>
        args_heap c (rq_args r) = Some (x\<lparr>args_cik := take 40 (cik a)\<rparr>)"
      using x(1) unfolding ck [symmetric] rekeyed_def by (auto dest!: spec [of _ "rq_args r"])
    with x show ?thesis by (auto simp: points_to_def)
  qed
  show ?thesis using g h k old same_rest_trans ck unfolding grows_def by (auto simp: add.assoc)
qed

lemma route_facts:
  assumes "route exo a = (ty, name, new_name, rty)"
  shows "name = None \<or> ty = SM_HTTP_LONG_POLL" "name = None \<or> new_name = name"
    "args_method a = EXO_DP_SUBSCRIBE \<longrightarrow> args_alias a \<noteq> None \<Longrightarrow> ty = SM_HTTP_LONG_POLL \<longrightarrow> new_name \<noteq> None"
    "rty = REQUEST_NORMAL \<longleftrightarrow> args_method a \<noteq> EXO_DP_SUBSCRIBE"
  using assms by (auto simp: route_def Let_def split: exosite_method.splits if_splits)

lemma find_or_create_effect:
  assumes ok: "machines_ok exo" and e: "env_ok env" and n: "name = None \<or> ty = SM_HTTP_LONG_POLL"
    "name = None \<or> new_name = name" "ty = SM_HTTP_LONG_POLL \<longrightarrow> new_name \<noteq> None"
  shows "\<exists>error found exo'. find_or_create ty name new_name env exo = Inr (error, found, exo') \<and>
    (found = None \<and> error \<noteq> ERR_SUCCESS \<and> exo' = exo \<or>
     (\<exists>k. found = Some k \<and> k < length (sm_head exo') \<and> grows Q {#} exo exo' \<and> args_heap exo' = args_heap exo \<and>
        (error \<noteq> ERR_SUCCESS \<or> \<not> protocol_client_sm_is_queue_full (sm (sm_head exo' ! k)))))"
proof -
  have "name = None \<or> (\<forall>i \<in> set (sm_head exo). sm_kind i = ty \<longrightarrow> sm_name i \<noteq> None)"
    using n(1) ok by (auto simp: machines_ok_def)
  from find_sm_returns [OF this] obtain r where r: "find_sm ty name (sm_head exo) = Inr r"
    "\<forall>k. r = Some k \<longrightarrow> k < length (sm_head exo)" by blast
  show ?thesis
  proof (cases r)
    case (Some k)
    with r ok show ?thesis by (auto simp: find_or_create_def intro: exI [of _ ERR_FAILURE])
  next
    case None
    show ?thesis
    proof (cases "fst (create_new_sm new_name ty env exo) = ERR_SUCCESS")
      case False
      then have "snd (create_new_sm new_name ty env exo) = exo"
        by (auto simp: create_new_sm_def split: sum.splits if_splits)
      with False None r show ?thesis by (auto simp: find_or_create_def case_prod_unfold)
    next
      case True
      then obtain s where s: "new_sm env = Inr s" "create_new_sm new_name ty env exo = (ERR_SUCCESS,
          exo\<lparr>sm_head := sm_head exo @ [\<lparr>sm_kind = ty, sm_name = new_name, sm = s\<rparr>],
              numberof_state_machines := numberof_state_machines exo + 1\<rparr>)"
        using e by (auto simp: create_new_sm_def env_ok_def split: sum.splits if_splits)
      let ?i = "\<lparr>sm_kind = ty, sm_name = new_name, sm = s\<rparr>"
      let ?e = "exo\<lparr>sm_head := sm_head exo @ [?i], numberof_state_machines := numberof_state_machines exo + 1\<rparr>"
      from e s(1) obtain sh where f: "sm_start (s, sh)" "0 < sm_queue_size (config s)" by (auto simp: env_ok_def)
      note f1 = fresh_sm [OF f(1)]
      have "find_sm ty name (sm_head exo @ [?i]) = Inr (Some (length (sm_head exo)))"
        using find_sm_new [of ty name "sm_head exo" ?i] r None n(2) by auto
      with s None r have "find_or_create ty name new_name env exo = Inr (ERR_SUCCESS, Some (length (sm_head exo)), ?e)"
        by (simp add: find_or_create_def)
      moreover have "same_rest exo ?e" unfolding same_rest_def
        by (intro exI [of _ "sm_head exo @ [?i]"] exI [of _ "numberof_state_machines exo + 1"]
          exI [of _ "args_heap exo"] exI [of _ "events exo"]) simp
      then have "grows Q {#} exo ?e"
        using ok f1 n(3) by (auto simp: grows_def rekeyed_def machines_ok_def pend_def)
      moreover have "\<not> protocol_client_sm_is_queue_full s"
        using f f1 by (simp add: protocol_client_sm_is_queue_full_def cqueue_get_size_def)
      ultimately show ?thesis by auto
    qed
  qed
qed

definition handed :: "err \<Rightarrow> nat \<Rightarrow> protocol_client_request multiset \<Rightarrow> bool" where
  "handed error p R \<longleftrightarrow> (if error = ERR_SUCCESS then \<exists>r. R = {#r#} \<and> rq_args r = p else R = {#})"

lemma hand_over_effect:
  assumes ok: "machines_ok exo" and k: "k < length (sm_head exo)" and a: "args_heap exo p = Some a"
    and f: "error \<noteq> ERR_SUCCESS \<or> \<not> protocol_client_sm_is_queue_full (sm (sm_head exo ! k))"
    and ty: "rty = REQUEST_NORMAL \<longleftrightarrow> args_method a \<noteq> EXO_DP_SUBSCRIBE"
    and h: "hand_over error k rty p a env exo = (error', exo')"
  shows "\<exists>R. grows (\<lambda>q. q = p) R exo exo' \<and> handed error' p R"
proof -
  let ?a = "a\<lparr>args_cik := take 40 (cik exo)\<rparr>" and ?item = "sm_head exo ! k"
  let ?e = "exo\<lparr>args_heap := (args_heap exo)(p \<mapsto> ?a)\<rparr>"
  have se: "same_rest exo ?e" unfolding same_rest_def
    by (intro exI [of _ "sm_head exo"] exI [of _ "numberof_state_machines exo"] exI [of _ "(args_heap exo)(p \<mapsto> ?a)"]
      exI [of _ "events exo"]) simp
  have e: "grows (\<lambda>q. q = p) {#} exo ?e"
    using ok a se by (auto simp: grows_def rekeyed_def machines_ok_def)
  show ?thesis
  proof (cases "protocol_client_sm_is_queue_full (sm ?item) \<or> fst (request_new env) \<noteq> ERR_SUCCESS")
    case True
    with h e f show ?thesis by (intro exI [of _ "{#}"]) (auto simp: hand_over_def Let_def handed_def split: if_splits)
  next
    case False
    let ?tr = "protocol_client_sm_transmit (room_request env) (room_entry env) rty
        (snd (request_new env)) p (args_message_id a) 0 (sm ?item)"
    obtain s where s: "?tr = (error', s)" and x: "exo' = ?e\<lparr>sm_head := (sm_head exo)[k := ?item\<lparr>sm := s\<rparr>]\<rparr>"
      using h False by (auto simp: hand_over_def Let_def split: prod.splits)
    have io: "sm_ok (sm ?item)" "sm_kind ?item = SM_HTTP_LONG_POLL \<longrightarrow> sm_name ?item \<noteq> None"
      using ok k by (auto simp: machines_ok_def)
    note t = transmit_effect [OF s io(1)]
    have m: "machines_ok exo'" using ok t(1) io(2) k unfolding x machines_ok_def
      by (auto dest!: set_update_subset_insert [THEN subsetD])
    have pe: "pend exo' + mset (pending (sm ?item)) = pend exo + mset (pending s)"
      using pend_update [OF k, where exo = ?e and item = "?item\<lparr>sm := s\<rparr>"] by (simp add: x)
    have se': "same_rest exo exo'" unfolding x same_rest_def
      by (intro exI [of _ "(sm_head exo)[k := ?item\<lparr>sm := s\<rparr>]"] exI [of _ "numberof_state_machines exo"]
        exI [of _ "(args_heap exo)(p \<mapsto> ?a)"] exI [of _ "events exo"]) simp
    have rk: "rekeyed (\<lambda>q. q = p) exo exo'" using a by (auto simp: rekeyed_def x)
    show ?thesis
    proof (cases "error' = ERR_SUCCESS")
      case True
      from t(3) [OF this] obtain r where r: "mset (pending s) = add_mset r (mset (pending (sm ?item)))"
        "rq_args r = p" "rq_type r = rty" by blast
      with pe have "pend exo' = pend exo + {#r#}" by simp
      with m se' rk r ty True show ?thesis
        by (intro exI [of _ "{#r#}"]) (auto simp: grows_def handed_def points_to_def x)
    next
      case False
      with t(2) pe have "pend exo' = pend exo" by simp
      with m se' rk False show ?thesis by (intro exI [of _ "{#}"]) (auto simp: grows_def handed_def)
    qed
  qed
qed

lemma push_effect:
  assumes ok: "machines_ok exo" and e: "env_ok env" and a: "args_heap exo p = Some a"
    and n: "args_method a = EXO_DP_SUBSCRIBE \<longrightarrow> args_alias a \<noteq> None"
  shows "\<exists>error exo' R. pcsm_push_no_copy p env exo = Inr (error, exo') \<and>
    grows (\<lambda>q. q = p) R exo exo' \<and> handed error p R"
proof -
  obtain ty name new_name rty where r: "route exo a = (ty, name, new_name, rty)" by (metis prod_cases4)
  note f = route_facts [OF r]
  from find_or_create_effect [OF ok e f(1,2) f(3) [OF n], of "\<lambda>q. q = p"] obtain error found exo1 where
    c: "find_or_create ty name new_name env exo = Inr (error, found, exo1)" and
    d: "found = None \<and> error \<noteq> ERR_SUCCESS \<and> exo1 = exo \<or>
     (\<exists>k. found = Some k \<and> k < length (sm_head exo1) \<and> grows (\<lambda>q. q = p) {#} exo exo1 \<and> args_heap exo1 = args_heap exo \<and>
        (error \<noteq> ERR_SUCCESS \<or> \<not> protocol_client_sm_is_queue_full (sm (sm_head exo1 ! k))))" by blast
  from d consider "found = None" "error \<noteq> ERR_SUCCESS" "exo1 = exo"
    | k where "found = Some k" "k < length (sm_head exo1)" "grows (\<lambda>q. q = p) {#} exo exo1"
      "args_heap exo1 = args_heap exo" "error \<noteq> ERR_SUCCESS \<or> \<not> protocol_client_sm_is_queue_full (sm (sm_head exo1 ! k))"
    by blast
  then show ?thesis
  proof cases
    case 1
    with ok a r c show ?thesis by (auto simp: pcsm_push_no_copy_def handed_def)
  next
    case k: (2 k)
    obtain error' exo' where h: "hand_over error k rty p a env exo1 = (error', exo')" by fastforce
    have "machines_ok exo1" using k(3) by (simp add: grows_def)
    from hand_over_effect [OF this k(2) _ k(5) f(4) h] a k(4) obtain R where
      R: "grows (\<lambda>q. q = p) R exo1 exo'" "handed error' p R" by auto
    from grows_trans [OF k(3) R(1)] R(2) h a r c k(1) show ?thesis
      by (auto simp: pcsm_push_no_copy_def)
  qed
qed

end
