(* ===== verification/ExositeRefs.thy ===== *)
theory ExositeRefs
  imports ExositeInv
begin

text \<open>
  The invariants of the user's side of the library: no pointer of a request or a subscription dangles
  and no list of machines is walked for ever; what is sent on behalf of the user carries a valid key;
  the activation never waits for an answer to nothing.
\<close>

section \<open>Every pointer is good\<close>

text \<open>\<open>X\<close> are requests that have left their machine and are about to be called back.\<close>

definition ptrs :: "protocol_client_request multiset \<Rightarrow> exosite \<Rightarrow> nat multiset" where
  "ptrs X exo = mset (cq_items (request_queue exo)) +
     image_mset rq_args (filter_mset (\<lambda>r. rq_type r = REQUEST_NORMAL) (pend exo + X))"

definition exo_okx :: "protocol_client_request multiset \<Rightarrow> exosite \<Rightarrow> bool" where
  "exo_okx X exo \<longleftrightarrow> machines_ok exo \<and> (\<forall>p. count (ptrs X exo) p \<le> 1) \<and>
     (\<forall>p \<in># ptrs X exo. points_to exo p (\<lambda>a. args_method a \<noteq> EXO_DP_SUBSCRIBE)) \<and>
     (\<forall>p \<in> set (cq_items (request_queue exo)). points_to exo p (\<lambda>a. args_method a \<in> {EXO_DP_READ, EXO_DP_WRITE})) \<and>
     (\<forall>item \<in> snd ` set (entries (subscribe_map exo)). points_to exo (item_args item) subs) \<and>
     (\<forall>r \<in># pend exo + X. rq_type r \<noteq> REQUEST_NORMAL \<longrightarrow> points_to exo (rq_args r) subs) \<and>
     (\<forall>p. args_heap exo p \<noteq> None \<longrightarrow> p < next_args exo)"

definition refs :: "protocol_client_request multiset \<Rightarrow> exosite \<Rightarrow> nat set" where
  "refs X exo = set (cq_items (request_queue exo)) \<union> rq_args ` set_mset (pend exo + X) \<union>
     item_args ` snd ` set (entries (subscribe_map exo))"

lemma okx_machines: "exo_okx X exo \<Longrightarrow> machines_ok exo"
  by (simp add: exo_okx_def)

lemma points_to_frame: "points_to exo p P \<Longrightarrow> args_heap exo' p = args_heap exo p \<Longrightarrow> points_to exo' p P"
  by (simp add: points_to_def)

lemma okx_refs: "exo_okx X exo \<Longrightarrow> p \<in> refs X exo \<Longrightarrow> p < next_args exo \<and> args_heap exo p \<noteq> None"
proof -
  assume ok: "exo_okx X exo" and p: "p \<in> refs X exo"
  have "\<exists>P. points_to exo p P"
  proof -
    from p consider "p \<in> set (cq_items (request_queue exo))"
      | r where "r \<in># pend exo + X" "rq_args r = p"
      | item where "item \<in> snd ` set (entries (subscribe_map exo))" "item_args item = p"
      unfolding refs_def by blast
    then show ?thesis
    proof cases
      case (2 r)
      then have "rq_type r = REQUEST_NORMAL \<Longrightarrow> p \<in># ptrs X exo" by (auto simp: ptrs_def)
      with 2 ok show ?thesis unfolding exo_okx_def by blast
    qed (use ok in \<open>auto simp: exo_okx_def\<close>)
  qed
  with ok show ?thesis by (auto simp: points_to_def exo_okx_def)
qed

text \<open>A change that keeps what the pointers lead to keeps the invariant.\<close>

lemma okx_frame:
  assumes ok: "exo_okx X exo" and m: "machines_ok exo'" and p: "pend exo' = pend exo"
    and q: "request_queue exo' = request_queue exo"
    and s: "item_args ` snd ` set (entries (subscribe_map exo')) = item_args ` snd ` set (entries (subscribe_map exo))"
    and h: "\<And>p. p \<in> refs X exo \<Longrightarrow> args_heap exo' p = args_heap exo p"
    and n: "\<And>p. args_heap exo' p \<noteq> None \<Longrightarrow> p < next_args exo'"
  shows "exo_okx X exo'" "refs X exo' = refs X exo"
proof -
  have t: "ptrs X exo' = ptrs X exo" by (simp add: ptrs_def p q)
  show r: "refs X exo' = refs X exo" by (simp add: refs_def p q s)
  have in_refs: "p \<in># ptrs X exo \<Longrightarrow> p \<in> refs X exo" "r \<in># pend exo + X \<Longrightarrow> rq_args r \<in> refs X exo"
    "p \<in> set (cq_items (request_queue exo)) \<Longrightarrow> p \<in> refs X exo" for p r
    by (auto simp: ptrs_def refs_def)
  have "points_to exo' (item_args item) subs" if i: "item \<in> snd ` set (entries (subscribe_map exo'))" for item
  proof -
    from imageI [OF i, of item_args] have "item_args item \<in> item_args ` snd ` set (entries (subscribe_map exo))"
      unfolding s .
    then obtain item' where j: "item' \<in> snd ` set (entries (subscribe_map exo))" "item_args item = item_args item'"
      by (rule imageE)
    from j(1) ok have "points_to exo (item_args item') subs" unfolding exo_okx_def by blast
    moreover have "item_args item' \<in> refs X exo" using imageI [OF j(1), of item_args] unfolding refs_def by blast
    ultimately show ?thesis using h unfolding j(2) by (auto intro: points_to_frame)
  qed
  moreover have k: "points_to exo' p P" if "points_to exo p P" "p \<in> refs X exo" for p P
    using that h points_to_frame by blast
  moreover have "\<forall>p \<in># ptrs X exo. points_to exo' p (\<lambda>a. args_method a \<noteq> EXO_DP_SUBSCRIBE)"
    using ok k in_refs(1) by (simp add: exo_okx_def)
  moreover have "\<forall>p \<in> set (cq_items (request_queue exo)). points_to exo' p (\<lambda>a. args_method a \<in> {EXO_DP_READ, EXO_DP_WRITE})"
    using ok k in_refs(3) by (simp add: exo_okx_def)
  moreover have "\<forall>r \<in># pend exo + X. rq_type r \<noteq> REQUEST_NORMAL \<longrightarrow> points_to exo' (rq_args r) subs"
    using ok k in_refs(2) unfolding exo_okx_def by blast
  moreover have "\<forall>p. count (ptrs X exo) p \<le> 1" using ok by (simp add: exo_okx_def)
  ultimately show "exo_okx X exo'" using m n unfolding exo_okx_def t p q by simp
qed

lemma ptrs_normal: "r \<in># pend exo + X \<Longrightarrow> rq_type r = REQUEST_NORMAL \<Longrightarrow> rq_args r \<in># ptrs X exo"
  by (auto simp: ptrs_def)

lemma ptrs_add: "ptrs (add_mset r X) exo =
    (if rq_type r = REQUEST_NORMAL then add_mset (rq_args r) (ptrs X exo) else ptrs X exo)"
  by (simp add: ptrs_def)

lemma okx_less: "exo_okx (add_mset r X) exo \<Longrightarrow> exo_okx X exo"
proof -
  assume ok: "exo_okx (add_mset r X) exo"
  have "count (ptrs X exo) p \<le> count (ptrs (add_mset r X) exo) p" for p by (simp add: ptrs_add)
  with ok have "count (ptrs X exo) p \<le> 1" for p unfolding exo_okx_def by (meson order_trans)
  moreover have "set_mset (ptrs X exo) \<subseteq> set_mset (ptrs (add_mset r X) exo)" by (auto simp: ptrs_add)
  ultimately show ?thesis using ok unfolding exo_okx_def by (simp add: subset_iff)
qed

section \<open>Handing over\<close>

lemma rekeyed_points_to: "rekeyed Q exo exo' \<Longrightarrow> points_to exo p P \<Longrightarrow> (\<And>a. P a \<Longrightarrow> P (a\<lparr>args_cik := take 40 (cik exo)\<rparr>)) \<Longrightarrow> points_to exo' p P"
  unfolding rekeyed_def points_to_def by (metis option.inject)

lemma rekeyed_points_to_back:
  assumes k: "rekeyed Q a b" and h: "points_to b p P" and P: "\<And>x. P (x\<lparr>args_cik := take 40 (cik a)\<rparr>) \<Longrightarrow> P x"
  shows "points_to a p P"
proof -
  from h obtain y where y: "args_heap b p = Some y" "P y" by (auto simp: points_to_def)
  from k have "args_heap b p = args_heap a p \<or>
      (\<exists>x. args_heap a p = Some x \<and> args_heap b p = Some (x\<lparr>args_cik := take 40 (cik a)\<rparr>))"
    unfolding rekeyed_def by blast
  then show ?thesis
  proof
    assume "args_heap b p = args_heap a p"
    with y show ?thesis by (simp add: points_to_def)
  next
    assume "\<exists>x. args_heap a p = Some x \<and> args_heap b p = Some (x\<lparr>args_cik := take 40 (cik a)\<rparr>)"
    with y P show ?thesis by (auto simp: points_to_def)
  qed
qed

lemma rekeyed_alive: "rekeyed Q exo exo' \<Longrightarrow> args_heap exo' p \<noteq> None \<longleftrightarrow> args_heap exo p \<noteq> None"
  unfolding rekeyed_def by (metis option.distinct(1))

lemma grows_okx:
  assumes ok: "exo_okx X exo" and g: "grows Q R exo exo'"
    and q: "set (cq_items q) \<subseteq> set (cq_items (request_queue exo))"
    and c: "\<And>p. count (ptrs X (exo'\<lparr>request_queue := q\<rparr>)) p \<le> 1"
    and a: "\<And>r. r \<in># R \<Longrightarrow> points_to exo (rq_args r) (\<lambda>a. args_method a = EXO_DP_SUBSCRIBE \<longrightarrow> args_alias a \<noteq> None)"
  shows "exo_okx X (exo'\<lparr>request_queue := q\<rparr>)"
proof -
  have k: "rekeyed Q exo exo'" and m: "machines_ok exo'" and p: "pend exo' = pend exo + R" and s: "same_rest exo exo'"
    using g by (simp_all add: grows_def)
  note h = rekeyed_points_to [OF k]
  have hx: "points_to (exo'\<lparr>request_queue := q\<rparr>) p P = points_to exo' p P" for p P by (simp add: points_to_def)
  have R: "points_to exo' (rq_args r) (\<lambda>a. (args_method a = EXO_DP_SUBSCRIBE \<longrightarrow> args_alias a \<noteq> None) \<and>
      (rq_type r = REQUEST_NORMAL \<longleftrightarrow> args_method a \<noteq> EXO_DP_SUBSCRIBE))" if "r \<in># R" for r
    using h [OF a [OF that]] g that by (auto simp: grows_def points_to_def)
  have "points_to exo' p (\<lambda>a. args_method a \<noteq> EXO_DP_SUBSCRIBE)" if "p \<in># ptrs X (exo'\<lparr>request_queue := q\<rparr>)" for p
  proof -
    from that q have "p \<in># ptrs X exo \<or> (\<exists>r \<in># R. rq_type r = REQUEST_NORMAL \<and> rq_args r = p)"
      by (auto simp: ptrs_def p)
    with ok R h show ?thesis unfolding exo_okx_def by (fastforce simp: points_to_def)
  qed
  moreover have "points_to exo' (rq_args r) subs" if "r \<in># pend exo' + X" "rq_type r \<noteq> REQUEST_NORMAL" for r
  proof (cases "r \<in># pend exo + X")
    case True
    with ok that h [of "rq_args r" subs] show ?thesis by (auto simp: exo_okx_def subs_def)
  next
    case False
    with that p have "r \<in># R" by auto
    from R [OF this] that(2) show ?thesis by (auto simp: points_to_def subs_def)
  qed
  moreover have "points_to exo' (item_args item) subs" if "item \<in> snd ` set (entries (subscribe_map exo'))" for item
    using that ok h [of "item_args item" subs] same_rest_fields(2) [OF s] by (auto simp: exo_okx_def subs_def)
  moreover have "points_to exo' p (\<lambda>a. args_method a \<in> {EXO_DP_READ, EXO_DP_WRITE})" if "p \<in> set (cq_items q)" for p
    using that q ok h [of p "\<lambda>a. args_method a \<in> {EXO_DP_READ, EXO_DP_WRITE}"] by (auto simp: exo_okx_def)
  moreover have "p < next_args exo'" if "args_heap exo' p \<noteq> None" for p
    using that ok rekeyed_alive [OF k] same_rest_fields(3) [OF s] by (auto simp: exo_okx_def)
  moreover have "machines_ok (exo'\<lparr>request_queue := q\<rparr>)" using m by (simp add: machines_ok_def)
  ultimately show ?thesis using c unfolding exo_okx_def by (simp add: hx)
qed

lemma new_effect:
  assumes "exo_request_args_new room args exo = (error, p, exo1)"
  shows "error \<noteq> ERR_SUCCESS \<Longrightarrow> exo1 = exo"
    "error = ERR_SUCCESS \<Longrightarrow> p = next_args exo \<and> (\<exists>new g. exo1 = exo\<lparr>gmessage_id := g,
       args_heap := (args_heap exo)(p \<mapsto> new), next_args := Suc p\<rparr> \<and> args_method new = args_method args \<and>
       callback new = callback args \<and> args_alias new = args_alias args)"
proof -
  show "error \<noteq> ERR_SUCCESS \<Longrightarrow> exo1 = exo"
    using assms by (auto simp: exo_request_args_new_def Let_def split: if_splits)
  let ?http = "app_type args = APP_PROTO_HTTP"
  let ?new = "args\<lparr>args_message_id := (if ?http then 1 else gmessage_id exo), args_cik := take 40 (args_cik args)\<rparr>"
  let ?g = "if ?http then gmessage_id exo else gmessage_id exo + 1"
  assume "error = ERR_SUCCESS"
  then have "p = next_args exo \<and> exo1 = exo\<lparr>gmessage_id := ?g, args_heap := (args_heap exo)(p \<mapsto> ?new), next_args := Suc p\<rparr>"
    using assms by (auto simp: exo_request_args_new_def Let_def split: if_splits)
  then show "p = next_args exo \<and> (\<exists>new g. exo1 = exo\<lparr>gmessage_id := g,
       args_heap := (args_heap exo)(p \<mapsto> new), next_args := Suc p\<rparr> \<and> args_method new = args_method args \<and>
       callback new = callback args \<and> args_alias new = args_alias args)"
    by (intro conjI exI [of _ ?new] exI [of _ ?g]) simp_all
qed

lemma new_okx:
  assumes ok: "exo_okx X exo" and p: "p = next_args exo"
    and e: "exo1 = exo\<lparr>gmessage_id := g, args_heap := (args_heap exo)(p \<mapsto> new), next_args := Suc p\<rparr>"
  shows "exo_okx X exo1" "refs X exo1 = refs X exo" "p \<notin> refs X exo"
proof -
  show n: "p \<notin> refs X exo" using okx_refs [OF ok, of p] p by auto
  have a: "args_heap exo q \<noteq> None \<Longrightarrow> q < p" for q using ok p by (simp add: exo_okx_def)
  have m: "machines_ok exo1" using okx_machines [OF ok] by (simp add: e machines_ok_def)
  have h: "q \<in> refs X exo \<Longrightarrow> args_heap exo1 q = args_heap exo q" for q using n by (auto simp: e)
  have l: "args_heap exo1 q \<noteq> None \<Longrightarrow> q < next_args exo1" for q using a by (auto simp: e less_Suc_eq split: if_splits)
  show "exo_okx X exo1" "refs X exo1 = refs X exo"
    by (rule okx_frame [OF ok m _ _ _ h l]; simp add: e)+
qed

lemma delete_okx:
  assumes ok: "exo_okx X exo" and p: "p \<notin> refs X exo"
  shows "exo_okx X (exo_request_args_delete p exo)" "refs X (exo_request_args_delete p exo) = refs X exo"
proof -
  let ?e = "exo_request_args_delete p exo"
  have m: "machines_ok ?e" using okx_machines [OF ok] by (simp add: machines_ok_def exo_request_args_delete_def)
  have h: "q \<in> refs X exo \<Longrightarrow> args_heap ?e q = args_heap exo q" for q
    using p by (auto simp: exo_request_args_delete_def)
  have l: "args_heap ?e q \<noteq> None \<Longrightarrow> q < next_args ?e" for q
    using ok by (auto simp: exo_request_args_delete_def exo_okx_def split: if_splits)
  show "exo_okx X ?e" "refs X ?e = refs X exo"
    by (rule okx_frame [OF ok m _ _ _ h l]; simp add: exo_request_args_delete_def)+
qed

lemma push_new:
  assumes ok: "exo_okx {#} exo" and e: "env_ok env" and m: "args_method args \<noteq> EXO_DP_SUBSCRIBE"
  shows "\<exists>error exo'. pcsm_push room args env exo = Inr (error, exo') \<and> exo_okx {#} exo' \<and>
    next_activate exo' = next_activate exo \<and> cik exo' = cik exo \<and>
    (if error = ERR_SUCCESS then \<exists>r. pend exo' = add_mset r (pend exo) \<and> rq_type r = REQUEST_NORMAL \<and>
        points_to exo' (rq_args r) (\<lambda>a. args_method a = args_method args \<and> callback a = callback args)
     else pend exo' = pend exo) \<and>
    (\<forall>p \<in> refs {#} exo. args_heap exo' p = args_heap exo p)"
proof -
  obtain error p exo1 where n: "exo_request_args_new room args exo = (error, p, exo1)" by (metis prod_cases3)
  show ?thesis
  proof (cases "error = ERR_SUCCESS")
    case False
    with n new_effect(1) [OF n] ok show ?thesis by (simp add: pcsm_push_def)
  next
    case True
    from new_effect(2) [OF n True] obtain new g where p: "p = next_args exo" and
      x: "exo1 = exo\<lparr>gmessage_id := g, args_heap := (args_heap exo)(p \<mapsto> new), next_args := Suc p\<rparr>"
        "args_method new = args_method args" "callback new = callback args" by blast
    note k = new_okx [OF ok p x(1)]
    have h: "args_heap exo1 p = Some new" by (simp add: x)
    from push_effect [OF okx_machines [OF k(1)] e h] x(2) m obtain error' exo' R where
      q: "pcsm_push_no_copy p env exo1 = Inr (error', exo')" "grows (\<lambda>q. q = p) R exo1 exo'" "handed error' p R" by auto
    have s: "same_rest exo1 exo'" "pend exo' = pend exo1 + R" and rk: "rekeyed (\<lambda>q. q = p) exo1 exo'"
      using q(2) by (simp_all add: grows_def)
    note f = same_rest_fields [OF s(1)]
    have id: "exo'\<lparr>request_queue := request_queue exo1\<rparr> = exo'" using f(1) by simp
    have R: "R = {#} \<or> (\<exists>r. R = {#r#} \<and> rq_args r = p)" using q(3) by (auto simp: handed_def split: if_splits)
    have t: "p \<notin># ptrs {#} exo1" using k(2,3) by (auto simp: refs_def ptrs_def)
    have pt: "ptrs {#} exo' = ptrs {#} exo1 + image_mset rq_args (filter_mset (\<lambda>r. rq_type r = REQUEST_NORMAL) R)"
      by (simp add: ptrs_def f(1) s(2))
    have c: "count (ptrs {#} (exo'\<lparr>request_queue := request_queue exo1\<rparr>)) i \<le> 1" for i
      using R t k(1) unfolding id pt by (auto simp: exo_okx_def not_in_iff)
    have al: "points_to exo1 (rq_args r) (\<lambda>a. args_method a = EXO_DP_SUBSCRIBE \<longrightarrow> args_alias a \<noteq> None)" if "r \<in># R" for r
      using R that h m x(2) by (auto simp: points_to_def)
    have ok': "exo_okx {#} exo'" using grows_okx [OF k(1) q(2) _ c al] unfolding id by simp
    have same: "args_heap exo' i = args_heap exo i" if "i \<in> refs {#} exo" for i
    proof -
      have "i \<noteq> p" using k(3) that by blast
      then have "args_heap exo' i = args_heap exo1 i" using rk unfolding rekeyed_def by blast
      with \<open>i \<noteq> p\<close> show ?thesis by (simp add: x)
    qed
    show ?thesis
    proof (cases "error' = ERR_SUCCESS")
      case True
      with q(3) obtain r where r: "R = {#r#}" "rq_args r = p" by (auto simp: handed_def)
      have nh: "points_to exo' p (\<lambda>a. args_method a = args_method args \<and> callback a = callback args)"
        using rekeyed_points_to [OF rk, of p "\<lambda>a. args_method a = args_method args \<and> callback a = callback args"] h x
        by (simp add: points_to_def)
      then have "rq_type r = REQUEST_NORMAL" using q(2) r m by (auto simp: grows_def points_to_def)
      with nh r s True q(1) n \<open>error = ERR_SUCCESS\<close> ok' f same show ?thesis by (simp add: pcsm_push_def x)
    next
      case False
      with q(3) have r: "R = {#}" by (simp add: handed_def)
      have "p \<notin> refs {#} exo'" using k(2,3) f s(2) r by (simp add: refs_def)
      note d = delete_okx [OF ok' this]
      have "pend (exo_request_args_delete p exo') = pend exo" using s(2) r by (simp add: exo_request_args_delete_def x)
      with False q(1) n \<open>error = ERR_SUCCESS\<close> d f same k(3) show ?thesis
        by (auto simp: pcsm_push_def exo_request_args_delete_def x)
    qed
  qed
qed

section \<open>Calling back\<close>

lemma set_item_args: "(\<And>v. item_args (f v) = item_args v) \<Longrightarrow>
    item_args ` snd ` set (entries (set_item f key t)) = item_args ` snd ` set (entries t)"
  by (induction t) (auto simp: image_Un)

lemma log_event_frame [simp]:
  "sm_head (log_event ev exo) = sm_head exo" "request_queue (log_event ev exo) = request_queue exo"
  "args_heap (log_event ev exo) = args_heap exo" "next_args (log_event ev exo) = next_args exo"
  "subscribe_map (log_event ev exo) = subscribe_map exo" "next_activate (log_event ev exo) = next_activate exo"
  "cik (log_event ev exo) = cik exo" "pend (log_event ev exo) = pend exo"
  by (simp_all add: log_event_def)

lemma answered_args: "item_args (answered st proto item) = item_args item"
  by (simp add: answered_def Let_def)

lemma call_back_frame:
  "sm_head (call_back tm st pl args exo) = sm_head exo"
  "request_queue (call_back tm st pl args exo) = request_queue exo"
  "args_heap (call_back tm st pl args exo) = args_heap exo"
  "next_args (call_back tm st pl args exo) = next_args exo"
  "item_args ` snd ` set (entries (subscribe_map (call_back tm st pl args exo))) =
    item_args ` snd ` set (entries (subscribe_map exo))"
  by (simp_all add: call_back_def on_subscribe_def on_activate_def on_timestamp_def Let_def set_item_args answered_args
      split: exosite_method.split exo_callback.split option.split)

definition special :: "exo_request_args \<Rightarrow> bool" where
  "special a \<longleftrightarrow> args_method a \<in> {EXO_PP_ACTIVATE, EXO_UP_TIMESTAMP}"

lemma call_back_ordinary: "\<not> special args \<Longrightarrow> next_activate (call_back tm st pl args exo) = next_activate exo"
    "\<not> special args \<Longrightarrow> cik (call_back tm st pl args exo) = cik exo"
  by (auto simp: call_back_def special_def on_subscribe_def Let_def
      split: exosite_method.split exo_callback.split option.split)

lemma call_back_activated:
  "(next_activate exo = AS_ACTIVATED \<longrightarrow> system_is_cik_format_valid (cik exo)) \<Longrightarrow>
   next_activate (call_back tm st pl args exo) = AS_ACTIVATED \<longrightarrow>
     system_is_cik_format_valid (cik (call_back tm st pl args exo))"
  by (auto simp: call_back_def on_subscribe_def on_activate_def on_timestamp_def Let_def
      split: exosite_method.split exo_callback.split option.split)

lemma called_is_free:
  assumes ok: "exo_okx (add_mset r X) exo" and a: "args_heap exo (rq_args r) = Some a"
    and m: "args_method a \<noteq> EXO_DP_SUBSCRIBE"
  shows "rq_args r \<notin> refs X exo"
proof -
  let ?p = "rq_args r"
  note okX = okx_less [OF ok]
  have n: "rq_type r = REQUEST_NORMAL"
    using ok a m by (auto simp: exo_okx_def points_to_def subs_def)
  have c: "?p \<notin># ptrs X exo"
  proof
    assume "?p \<in># ptrs X exo"
    then have "count (ptrs (add_mset r X) exo) ?p \<ge> 2" using n
      by (simp add: ptrs_add)
    moreover have "count (ptrs (add_mset r X) exo) ?p \<le> 1" using ok by (simp add: exo_okx_def)
    ultimately show False by simp
  qed
  show ?thesis
  proof
    assume "?p \<in> refs X exo"
    then consider "?p \<in> set (cq_items (request_queue exo))"
      | q where "q \<in># pend exo + X" "rq_args q = ?p"
      | item where "item \<in> snd ` set (entries (subscribe_map exo))" "item_args item = ?p"
      unfolding refs_def by (metis UnE imageE)
    then show False
    proof cases
      case 1
      with c show False by (simp add: ptrs_def)
    next
      case (2 q)
      with c ptrs_normal [OF 2(1)] have "rq_type q \<noteq> REQUEST_NORMAL" by auto
      with 2 okX have "points_to exo (rq_args q) subs" unfolding exo_okx_def by blast
      with 2 a m show False by (simp add: points_to_def subs_def)
    next
      case (3 item)
      with ok have "points_to exo (item_args item) subs" unfolding exo_okx_def by blast
      with 3 a m show False by (simp add: points_to_def subs_def)
    qed
  qed
qed

lemma callback_effect:
  assumes ok: "exo_okx (add_mset r X) exo"
  shows "\<exists>exo' a. exosite_api_callback tm st pl (rq_args r) exo = Inr exo' \<and> exo_okx X exo' \<and>
    args_heap exo (rq_args r) = Some a \<and> sm_head exo' = sm_head exo \<and>
    (\<forall>p x. args_heap exo' p = Some x \<longrightarrow> args_heap exo p = Some x) \<and>
    (\<not> special a \<longrightarrow> next_activate exo' = next_activate exo) \<and>
    ((next_activate exo = AS_ACTIVATED \<longrightarrow> system_is_cik_format_valid (cik exo)) \<longrightarrow>
     next_activate exo' = AS_ACTIVATED \<longrightarrow> system_is_cik_format_valid (cik exo')) \<and>
    (args_method a = EXO_UP_TIMESTAMP \<and> callback a = OnTimestamp \<longrightarrow> next_activate exo' \<in> {AS_INIT, AS_SEND_GET_TIMESTAMP}) \<and>
    (args_method a = EXO_PP_ACTIVATE \<and> callback a = OnActivate \<longrightarrow> next_activate exo' \<in> {AS_ACTIVATED, AS_PREPARE_ACTIVATE})"
proof -
  let ?p = "rq_args r"
  have "?p \<in> refs (add_mset r X) exo" by (simp add: refs_def)
  with okx_refs [OF ok] obtain a where a: "args_heap exo ?p = Some a" by blast
  define exo1 where "exo1 = (if st = ERR_CIK_NOT_VALID then exo\<lparr>asynch_state_event := True\<rparr> else exo)"
  define exo2 where "exo2 = call_back tm st pl a exo1"
  define exo' where "exo' = (if args_method a \<noteq> EXO_DP_SUBSCRIBE then exo_request_args_delete ?p exo2 else exo2)"
  have call: "exosite_api_callback tm st pl ?p exo = Inr exo'"
    by (simp add: exosite_api_callback_def a exo1_def exo2_def exo'_def Let_def)
  have f1: "sm_head exo1 = sm_head exo" "request_queue exo1 = request_queue exo" "args_heap exo1 = args_heap exo"
    "next_args exo1 = next_args exo" "subscribe_map exo1 = subscribe_map exo" "next_activate exo1 = next_activate exo"
    "cik exo1 = cik exo" by (simp_all add: exo1_def)
  note f2 = call_back_frame [of tm st pl a exo1, folded exo2_def, unfolded f1]
  have p2: "pend exo2 = pend exo" by (simp add: pend_def f2)
  note okX = okx_less [OF ok]
  have m2: "machines_ok exo2" using okx_machines [OF ok] by (simp add: machines_ok_def f2)
  have l2: "args_heap exo2 q \<noteq> None \<Longrightarrow> q < next_args exo2" for q using ok by (simp add: exo_okx_def f2)
  note ok2 = okx_frame [OF okX m2 p2 f2(2,5) _ l2, unfolded f2(3), simplified]
  have ok': "exo_okx X exo'"
  proof (cases "args_method a = EXO_DP_SUBSCRIBE")
    case True
    with ok2 show ?thesis by (simp add: exo'_def)
  next
    case False
    from called_is_free [OF ok a this] ok2 have "?p \<notin> refs X exo2" by simp
    from delete_okx [OF ok2(1) this] False show ?thesis by (simp add: exo'_def)
  qed
  have d: "sm_head exo' = sm_head exo2" "next_activate exo' = next_activate exo2" "cik exo' = cik exo2"
    by (simp_all add: exo'_def exo_request_args_delete_def)
  have h: "args_heap exo' p = Some x \<Longrightarrow> args_heap exo p = Some x" for p x
    by (auto simp: exo'_def exo_request_args_delete_def f2 split: if_splits)
  have s: "args_method a = EXO_UP_TIMESTAMP \<Longrightarrow> callback a = OnTimestamp \<Longrightarrow> next_activate exo2 \<in> {AS_INIT, AS_SEND_GET_TIMESTAMP}"
    "args_method a = EXO_PP_ACTIVATE \<Longrightarrow> callback a = OnActivate \<Longrightarrow> next_activate exo2 \<in> {AS_ACTIVATED, AS_PREPARE_ACTIVATE}"
    by (auto simp: exo2_def call_back_def on_timestamp_def on_activate_def Let_def split: option.split)
  note v = call_back_activated [of exo1 tm st pl a, folded exo2_def, unfolded f1(6,7)]
  show ?thesis using call ok' a h s v call_back_ordinary(1) [of a tm st pl exo1, folded exo2_def]
    by (intro exI [of _ exo'] exI [of _ a]) (simp add: d f1 f2)
qed

lemma answers_effect:
  "exo_okx (mset (map fst cs)) exo \<Longrightarrow>
    \<exists>exo'. answer_calls tm f cs exo = Inr exo' \<and> exo_okx {#} exo' \<and> sm_head exo' = sm_head exo \<and>
    (\<forall>p x. args_heap exo' p = Some x \<longrightarrow> args_heap exo p = Some x) \<and>
    ((\<forall>c \<in> set cs. \<forall>a. args_heap exo (rq_args (fst c)) = Some a \<longrightarrow> \<not> special a) \<longrightarrow>
       next_activate exo' = next_activate exo) \<and>
    ((next_activate exo = AS_ACTIVATED \<longrightarrow> system_is_cik_format_valid (cik exo)) \<longrightarrow>
     next_activate exo' = AS_ACTIVATED \<longrightarrow> system_is_cik_format_valid (cik exo'))"
proof (induction cs arbitrary: exo)
  case (Cons c cs)
  obtain r p where c: "c = (r, p)" by fastforce
  with Cons.prems have "exo_okx (add_mset r (mset (map fst cs))) exo" by simp
  from callback_effect [OF this, of tm "fst (f r p)" "snd (f r p)"] obtain exo1 a where
    e: "exosite_api_callback tm (fst (f r p)) (snd (f r p)) (rq_args r) exo = Inr exo1" "exo_okx (mset (map fst cs)) exo1"
      "args_heap exo (rq_args r) = Some a" "sm_head exo1 = sm_head exo"
      "\<forall>p x. args_heap exo1 p = Some x \<longrightarrow> args_heap exo p = Some x"
      "\<not> special a \<longrightarrow> next_activate exo1 = next_activate exo"
      "(next_activate exo = AS_ACTIVATED \<longrightarrow> system_is_cik_format_valid (cik exo)) \<longrightarrow>
         next_activate exo1 = AS_ACTIVATED \<longrightarrow> system_is_cik_format_valid (cik exo1)" by blast
  from Cons.IH [OF e(2)] obtain exo' where
    i: "answer_calls tm f cs exo1 = Inr exo'" "exo_okx {#} exo'" "sm_head exo' = sm_head exo1"
      "\<forall>p x. args_heap exo' p = Some x \<longrightarrow> args_heap exo1 p = Some x"
      "(\<forall>c \<in> set cs. \<forall>a. args_heap exo1 (rq_args (fst c)) = Some a \<longrightarrow> \<not> special a) \<longrightarrow>
         next_activate exo' = next_activate exo1"
      "(next_activate exo1 = AS_ACTIVATED \<longrightarrow> system_is_cik_format_valid (cik exo1)) \<longrightarrow>
         next_activate exo' = AS_ACTIVATED \<longrightarrow> system_is_cik_format_valid (cik exo')" by blast
  have "next_activate exo' = next_activate exo"
    if n: "\<forall>c' \<in> set (c # cs). \<forall>a. args_heap exo (rq_args (fst c')) = Some a \<longrightarrow> \<not> special a"
  proof -
    from n e(3,5) c have "\<not> special a" "\<forall>c' \<in> set cs. \<forall>a. args_heap exo1 (rq_args (fst c')) = Some a \<longrightarrow> \<not> special a"
      by auto
    with e(6) i(5) show ?thesis by simp
  qed
  with c e i show ?case by (intro exI [of _ exo']) auto
qed simp

section \<open>A tick of a machine\<close>

lemma loose_okx:
  assumes ok: "exo_okx {#} exo" and k: "k < length (sm_head exo)"
    and s: "s = sm (sm_head exo ! k)" and so: "sm_ok s'"
    and t: "tag ` set (pending s') \<subseteq> tag ` set (pending s)" "(tag \<circ> fst) ` set cs \<subseteq> tag ` set (pending s)"
    and l: "mset (loose (pending s' @ map fst cs)) \<subseteq># mset (loose (pending s))"
    and e: "exo' = exo\<lparr>sm_head := (sm_head exo)[k := (sm_head exo ! k)\<lparr>sm := s'\<rparr>], shared := sh\<rparr>"
  shows "exo_okx (mset (map fst cs)) exo'"
proof -
  let ?item = "sm_head exo ! k"
  let ?n = "\<lambda>M. image_mset rq_args (filter_mset (\<lambda>r. rq_type r = REQUEST_NORMAL) M)"
  have io: "sm_kind ?item = SM_HTTP_LONG_POLL \<longrightarrow> sm_name ?item \<noteq> None"
    using okx_machines [OF ok] k by (auto simp: machines_ok_def)
  have m: "machines_ok exo'" using okx_machines [OF ok] so io k unfolding e machines_ok_def
    by (auto dest!: set_update_subset_insert [THEN subsetD])
  have pe: "pend exo' + mset (pending s) = pend exo + mset (pending s')"
    using pend_update [OF k, where exo = exo and item = "?item\<lparr>sm := s'\<rparr>"] by (simp add: e s)
  have lo: "mset (loose rs) = ?n (mset rs)" for rs by (induction rs) auto
  have "?n (mset (pending s')) + ?n (mset (map fst cs)) \<subseteq># ?n (mset (pending s))"
    using l unfolding lo by simp
  then have le: "count (?n (mset (pending s'))) p + count (?n (mset (map fst cs))) p \<le> count (?n (mset (pending s))) p" for p
    by (metis count_union mset_subset_eq_count)
  have "?n (pend exo') + ?n (mset (pending s)) = ?n (pend exo) + ?n (mset (pending s'))"
    using arg_cong [OF pe, of ?n] by simp
  then have eq: "count (?n (pend exo')) p + count (?n (mset (pending s))) p =
      count (?n (pend exo)) p + count (?n (mset (pending s'))) p" for p
    by (metis count_union)
  have "count (?n (pend exo')) p + count (?n (mset (map fst cs))) p \<le> count (?n (pend exo)) p" for p
    using le [of p] eq [of p] by linarith
  then have c: "count (ptrs (mset (map fst cs)) exo') p \<le> count (ptrs {#} exo) p" for p
    by (simp add: ptrs_def e)
  have tg: "\<exists>q \<in># pend exo. tag q = tag r" if "r \<in># pend exo' + mset (map fst cs)" for r
  proof -
    have "pend exo' \<subseteq># pend exo + mset (pending s')" using pe by (metis mset_subset_eq_add_left)
    with that have "r \<in># pend exo \<or> r \<in> set (pending s') \<or> r \<in> fst ` set cs"
      by (auto dest: mset_subset_eqD)
    moreover have "r \<in> set (pending s') \<Longrightarrow> tag r \<in> tag ` set (pending s)"
      using t(1) by blast
    moreover have "r \<in> fst ` set cs \<Longrightarrow> tag r \<in> tag ` set (pending s)"
      using t(2) unfolding image_comp [symmetric] by blast
    ultimately consider "r \<in># pend exo" | "tag r \<in> tag ` set (pending s)" by blast
    then show ?thesis
    proof cases
      case 2
      then obtain q where "q \<in> set (pending s)" "tag q = tag r" by auto
      with pend_item [OF k] show ?thesis by (auto simp: s)
    qed auto
  qed
  have "count (ptrs (mset (map fst cs)) exo') p \<le> 1" for p
    using ok c [of p] unfolding exo_okx_def by (meson order_trans)
  moreover have "set_mset (ptrs (mset (map fst cs)) exo') \<subseteq> set_mset (ptrs {#} exo)"
    using c by (metis count_eq_zero_iff le_zero_eq subsetI)
  moreover have "points_to exo' p P = points_to exo p P" for p P by (simp add: points_to_def e)
  moreover have "points_to exo (rq_args r) subs" if "r \<in># pend exo' + mset (map fst cs)" "rq_type r \<noteq> REQUEST_NORMAL" for r
  proof -
    from tg [OF that(1)] obtain q where "q \<in># pend exo" "rq_args q = rq_args r" "rq_type q = rq_type r"
      by (auto simp: tag_def)
    with that(2) ok show ?thesis unfolding exo_okx_def by (metis add.right_neutral)
  qed
  ultimately show ?thesis using ok m unfolding exo_okx_def
    by (simp add: e subset_iff)
qed

lemma machine_tick_parts:
  assumes ok: "exo_okx {#} exo" and k: "k < length (sm_head exo)"
  obtains t' s' sh' cs exo1 where "quiet t'"
    "s' = fst (protocol_client_sm_task t' (sm (sm_head exo ! k), shared exo))"
    "calls (trace s') = calls (trace (sm (sm_head exo ! k))) @ cs"
    "exo1 = exo\<lparr>sm_head := (sm_head exo)[k := (sm_head exo ! k)\<lparr>sm := s'\<rparr>], shared := sh'\<rparr>"
    "machine_tick k t f exo = answer_calls (now t) f cs exo1"
    "exo_okx (mset (map fst cs)) exo1"
    "(tag \<circ> fst) ` set cs \<subseteq> tag ` set (pending (sm (sm_head exo ! k)))"
    "tag ` set (pending s') \<subseteq> tag ` set (pending (sm (sm_head exo ! k)))"
proof -
  let ?item = "sm_head exo ! k" and ?t = "t\<lparr>app := \<lambda>r p. []\<rparr>"
  have q: "quiet ?t" by (simp add: quiet_def)
  have so: "sm_ok (sm ?item)" using okx_machines [OF ok] k by (simp add: machines_ok_def)
  obtain s' sh' where s: "protocol_client_sm_task ?t (sm ?item, shared exo) = (s', sh')" by fastforce
  then have s': "s' = fst (protocol_client_sm_task ?t (sm ?item, shared exo))" by simp
  from task_loose [OF so q s'] obtain cs where c: "calls (trace s') = calls (trace (sm ?item)) @ cs"
    "(tag \<circ> fst) ` set cs \<subseteq> tag ` set (pending (sm ?item))" "tag ` set (pending s') \<subseteq> tag ` set (pending (sm ?item))"
    "mset (loose (pending s' @ map fst cs)) \<subseteq># mset (loose (pending (sm ?item)))" by blast
  have so': "sm_ok s'" using task_ok [of "(sm ?item, shared exo)" ?t] so s' by simp
  define exo1 where "exo1 = exo\<lparr>sm_head := (sm_head exo)[k := ?item\<lparr>sm := s'\<rparr>], shared := sh'\<rparr>"
  have "machine_tick k t f exo = answer_calls (now t) f cs exo1"
    using k c(1) by (simp add: machine_tick_def s exo1_def)
  then show thesis
    by (rule that [OF q s' c(1) exo1_def]) (use c loose_okx [OF ok k refl so' c(3,2,4) exo1_def] in auto)
qed

lemma tags_in:
  assumes k: "k < length (sm_head exo)"
    and t: "tag ` set (pending s') \<subseteq> tag ` set (pending (sm (sm_head exo ! k)))"
    and r: "r \<in># pend (exo\<lparr>sm_head := (sm_head exo)[k := (sm_head exo ! k)\<lparr>sm := s'\<rparr>], shared := sh'\<rparr>)"
  shows "\<exists>q \<in># pend exo. tag q = tag r"
proof -
  from r obtain item where i: "item \<in> set ((sm_head exo)[k := (sm_head exo ! k)\<lparr>sm := s'\<rparr>])" "r \<in> set (pending (sm item))"
    by (auto simp: pend_def)
  from i(1) have "item \<in> set (sm_head exo) \<or> item = (sm_head exo ! k)\<lparr>sm := s'\<rparr>"
    using set_update_subset_insert by fastforce
  then show ?thesis
  proof
    assume "item \<in> set (sm_head exo)"
    with i(2) show ?thesis by (auto simp: pend_def)
  next
    assume "item = (sm_head exo ! k)\<lparr>sm := s'\<rparr>"
    with i(2) t have "tag r \<in> tag ` set (pending (sm (sm_head exo ! k)))" by auto
    then obtain q where "q \<in> set (pending (sm (sm_head exo ! k)))" "tag q = tag r" by auto
    with pend_item [OF k] show ?thesis by auto
  qed
qed

lemma machine_effect:
  assumes ok: "exo_okx {#} exo"
  shows "\<exists>exo'. machine_tick k t f exo = Inr exo' \<and> exo_okx {#} exo' \<and>
    (\<forall>r \<in># pend exo'. \<exists>q \<in># pend exo. tag q = tag r) \<and>
    (\<forall>p x. args_heap exo' p = Some x \<longrightarrow> args_heap exo p = Some x) \<and>
    ((\<forall>r \<in># pend exo. \<forall>a. args_heap exo (rq_args r) = Some a \<longrightarrow> \<not> special a) \<longrightarrow>
       next_activate exo' = next_activate exo) \<and>
    ((next_activate exo = AS_ACTIVATED \<longrightarrow> system_is_cik_format_valid (cik exo)) \<longrightarrow>
     next_activate exo' = AS_ACTIVATED \<longrightarrow> system_is_cik_format_valid (cik exo'))"
proof (cases "k < length (sm_head exo)")
  case False
  with ok show ?thesis by (auto simp: machine_tick_def)
next
  case k: True
  let ?s = "sm (sm_head exo ! k)"
  obtain t' s' sh' cs exo1 where p: "exo1 = exo\<lparr>sm_head := (sm_head exo)[k := (sm_head exo ! k)\<lparr>sm := s'\<rparr>], shared := sh'\<rparr>"
    "machine_tick k t f exo = answer_calls (now t) f cs exo1" "exo_okx (mset (map fst cs)) exo1"
    "(tag \<circ> fst) ` set cs \<subseteq> tag ` set (pending ?s)" "tag ` set (pending s') \<subseteq> tag ` set (pending ?s)"
    by (rule machine_tick_parts [OF ok k, of t f])
  have f: "next_activate exo1 = next_activate exo" "cik exo1 = cik exo" "args_heap exo1 = args_heap exo"
    by (simp_all add: p(1))
  have called: "\<exists>q \<in># pend exo. rq_args q = rq_args (fst c)" if c: "c \<in> set cs" for c
  proof -
    from imageI [OF c, of "tag \<circ> fst"] p(4) have "tag (fst c) \<in> tag ` set (pending ?s)" by auto
    then obtain q where "q \<in> set (pending ?s)" "tag q = tag (fst c)" by auto
    with pend_item [OF k] show ?thesis by (auto simp: tag_def)
  qed
  from answers_effect [OF p(3), of "now t" f] obtain exo' where
    a: "answer_calls (now t) f cs exo1 = Inr exo'" "exo_okx {#} exo'" "sm_head exo' = sm_head exo1"
      "\<forall>p x. args_heap exo' p = Some x \<longrightarrow> args_heap exo p = Some x"
      "(\<forall>c \<in> set cs. \<forall>a. args_heap exo (rq_args (fst c)) = Some a \<longrightarrow> \<not> special a) \<longrightarrow>
         next_activate exo' = next_activate exo"
      "(next_activate exo = AS_ACTIVATED \<longrightarrow> system_is_cik_format_valid (cik exo)) \<longrightarrow>
         next_activate exo' = AS_ACTIVATED \<longrightarrow> system_is_cik_format_valid (cik exo')"
    unfolding f by blast
  have "pend exo' = pend exo1" by (simp add: pend_def a(3))
  then have "\<forall>r \<in># pend exo'. \<exists>q \<in># pend exo. tag q = tag r" using tags_in [OF k p(5)] p(1) by simp
  moreover have "(\<forall>r \<in># pend exo. \<forall>a. args_heap exo (rq_args r) = Some a \<longrightarrow> \<not> special a) \<longrightarrow>
       next_activate exo' = next_activate exo" using a(5) called by metis
  ultimately show ?thesis using p(2) a(1,2,4,6) by (intro exI [of _ exo']) auto
qed

text \<open>When one request is pending in all machines, a tick leaves it alone or answers it.\<close>

lemma machine_lone:
  assumes ok: "exo_okx {#} exo" and one: "pend exo = {#r#}" and n: "rq_type r = REQUEST_NORMAL"
    and a: "args_heap exo (rq_args r) = Some a" and m: "machine_tick k t f exo = Inr exo'"
  shows "(\<exists>r'. pend exo' = {#r'#} \<and> tag r' = tag r \<and> args_heap exo' = args_heap exo \<and> next_activate exo' = next_activate exo) \<or>
    pend exo' = {#} \<and>
    (args_method a = EXO_UP_TIMESTAMP \<and> callback a = OnTimestamp \<longrightarrow> next_activate exo' \<in> {AS_INIT, AS_SEND_GET_TIMESTAMP}) \<and>
    (args_method a = EXO_PP_ACTIVATE \<and> callback a = OnActivate \<longrightarrow> next_activate exo' \<in> {AS_ACTIVATED, AS_PREPARE_ACTIVATE})"
proof (cases "k < length (sm_head exo)")
  case False
  with m one show ?thesis by (simp add: machine_tick_def)
next
  case k: True
  let ?s = "sm (sm_head exo ! k)"
  obtain t' s' sh' cs exo1 where p: "quiet t'" "s' = fst (protocol_client_sm_task t' (?s, shared exo))"
    "calls (trace s') = calls (trace ?s) @ cs"
    "exo1 = exo\<lparr>sm_head := (sm_head exo)[k := (sm_head exo ! k)\<lparr>sm := s'\<rparr>], shared := sh'\<rparr>"
    "machine_tick k t f exo = answer_calls (now t) f cs exo1" "exo_okx (mset (map fst cs)) exo1"
    by (rule machine_tick_parts [OF ok k, of t f])
  have so: "sm_ok ?s" using okx_machines [OF ok] k by (simp add: machines_ok_def)
  have pe: "pend exo1 + mset (pending ?s) = {#r#} + mset (pending s')"
    using pend_update [OF k, where exo = exo and item = "(sm_head exo ! k)\<lparr>sm := s'\<rparr>"] one by (simp add: p(4))
  have sub: "set (pending ?s) \<subseteq> {r}" using pend_item [OF k] one by simp
  have small: "size (mset (pending ?s)) \<le> 1"
  proof -
    have "mset (sm_head exo) = add_mset (sm_head exo ! k) (mset (sm_head exo) - {#sm_head exo ! k#})"
      using k by simp
    then obtain N where "mset (sm_head exo) = add_mset (sm_head exo ! k) N" by blast
    then obtain M where "pend exo = mset (pending ?s) + M" by (simp add: pend_def)
    with one show ?thesis by (metis size_single size_union le_add1)
  qed
  show ?thesis
  proof (cases "pending ?s")
    case Nil
    from idle_task [OF p(1) Nil p(2)] have "pending s' = []" "cs = []" using p(3) by simp_all
    moreover from this pe Nil have "pend exo1 = {#r#}" by simp
    ultimately show ?thesis using p(4,5) m by auto
  next
    case (Cons r0 rs)
    with sub small have r: "pending ?s = [r]" by auto
    from lone_task [OF so p(1) r n p(2,3)] show ?thesis
    proof
      assume "\<exists>r'. pending s' = [r'] \<and> tag r' = tag r \<and> cs = []"
      then obtain r' where r': "pending s' = [r']" "tag r' = tag r" "cs = []" by blast
      with pe r have "pend exo1 = {#r'#}" by simp
      with r' p(4,5) m show ?thesis by auto
    next
      assume "\<exists>r' p. pending s' = [] \<and> cs = [(r', p)] \<and> tag r' = tag r"
      then obtain r' rp where r': "pending s' = []" "cs = [(r', rp)]" "tag r' = tag r" by blast
      with pe r have e: "pend exo1 = {#}" by simp
      have ra: "rq_args r' = rq_args r" using r'(3) by (simp add: tag_def)
      from p(6) r'(2) have "exo_okx (add_mset r' {#}) exo1" by simp
      from callback_effect [OF this, of "now t" "fst (f r' rp)" "snd (f r' rp)"] obtain exo2 a' where
        c: "exosite_api_callback (now t) (fst (f r' rp)) (snd (f r' rp)) (rq_args r') exo1 = Inr exo2"
          "args_heap exo1 (rq_args r') = Some a'" "sm_head exo2 = sm_head exo1"
          "args_method a' = EXO_UP_TIMESTAMP \<and> callback a' = OnTimestamp \<longrightarrow> next_activate exo2 \<in> {AS_INIT, AS_SEND_GET_TIMESTAMP}"
          "args_method a' = EXO_PP_ACTIVATE \<and> callback a' = OnActivate \<longrightarrow> next_activate exo2 \<in> {AS_ACTIVATED, AS_PREPARE_ACTIVATE}"
        by blast
      have "a' = a" using c(2) a ra p(4) by simp
      moreover have "exo2 = exo'" using m p(5) r'(2) c(1) by simp
      moreover have "pend exo2 = {#}" using e c(3) by (simp add: pend_def)
      ultimately show ?thesis using c(4,5) by simp
    qed
  qed
qed

text \<open>When every machine is aborting or has nothing to do, a tick leaves it so.\<close>

definition clearing :: "exosite \<Rightarrow> bool" where
  "clearing exo \<longleftrightarrow> (\<forall>item \<in> set (sm_head exo). abort_in_progress (sm item) \<or> pending (sm item) = [])"

lemma answers_head: "answer_calls tm f cs exo = Inr exo' \<Longrightarrow> sm_head exo' = sm_head exo"
proof (induction cs arbitrary: exo)
  case (Cons c cs)
  obtain r p where c: "c = (r, p)" by fastforce
  with Cons.prems obtain exo1 where e: "exosite_api_callback tm (fst (f r p)) (snd (f r p)) (rq_args r) exo = Inr exo1"
    "answer_calls tm f cs exo1 = Inr exo'" by (auto simp: exo_bind_def split: sum.splits)
  have "sm_head exo1 = sm_head exo" using e(1)
    by (auto simp: exosite_api_callback_def Let_def call_back_frame exo_request_args_delete_def split: option.splits if_splits)
  with Cons.IH [OF e(2)] show ?case by simp
qed simp

lemma machine_clearing:
  assumes ok: "exo_okx {#} exo" and c: "clearing exo" and m: "machine_tick k t f exo = Inr exo'"
  shows "clearing exo'"
proof (cases "k < length (sm_head exo)")
  case False
  with m c show ?thesis by (simp add: machine_tick_def)
next
  case k: True
  let ?s = "sm (sm_head exo ! k)"
  obtain t' s' sh' cs exo1 where p: "quiet t'" "s' = fst (protocol_client_sm_task t' (?s, shared exo))"
    "exo1 = exo\<lparr>sm_head := (sm_head exo)[k := (sm_head exo ! k)\<lparr>sm := s'\<rparr>], shared := sh'\<rparr>"
    "machine_tick k t f exo = answer_calls (now t) f cs exo1"
    by (rule machine_tick_parts [OF ok k, of t f])
  have "abort_in_progress ?s \<or> pending ?s = []" using c k by (simp add: clearing_def)
  with task_abort [OF p(1)] idle_task(1) [OF p(1)] p(2) have "abort_in_progress s' \<or> pending s' = []" by blast
  with c have "clearing exo1" unfolding clearing_def p(3)
    by (auto dest!: set_update_subset_insert [THEN subsetD])
  then show ?thesis using answers_head m p(4) by (simp add: clearing_def)
qed

section \<open>Sending in the activated state\<close>

lemma push_subscriptions_effect:
  "\<forall>item \<in> snd ` set (entries t). points_to exo (item_args item) subs \<Longrightarrow> machines_ok exo \<Longrightarrow>
   \<forall>p. env_ok (push_at env p) \<Longrightarrow>
   \<exists>t' exo' R. push_subscriptions env t exo = Inr (t', exo') \<and> grows (\<lambda>p. True) R exo exo' \<and>
     item_args ` snd ` set (entries t') = item_args ` snd ` set (entries t) \<and>
     (\<forall>r \<in># R. points_to exo (rq_args r) subs)"
proof (induction t arbitrary: exo)
  case DNil
  then show ?case by (intro exI [of _ DNil] exI [of _ exo] exI [of _ "{#}"]) simp
next
  case (DNode l key item r)
  have keep: "grows (\<lambda>p. True) R a b \<Longrightarrow> points_to a p subs \<Longrightarrow> points_to b p subs" for R a b p
    unfolding grows_def by (auto simp: subs_def elim: rekeyed_points_to)
  have earlier: "grows (\<lambda>p. True) R a b \<Longrightarrow> points_to b p subs \<Longrightarrow> points_to a p subs" for R a b p
    unfolding grows_def by (auto simp: subs_def elim: rekeyed_points_to_back)
  have hl: "\<forall>x \<in> snd ` set (entries l). points_to exo (item_args x) subs"
    using DNode.prems(1) by simp
  from DNode.IH(1) [OF hl DNode.prems(2,3)] obtain l' exo1 R1 where
    l: "push_subscriptions env l exo = Inr (l', exo1)" "grows (\<lambda>p. True) R1 exo exo1"
      "item_args ` snd ` set (entries l') = item_args ` snd ` set (entries l)" "\<forall>r \<in># R1. points_to exo (rq_args r) subs"
    by (elim exE conjE) (rule that)
  have h1: "points_to exo (item_args item) subs" using DNode.prems(1) by simp
  note h2 = keep [OF l(2) h1]
  have "\<exists>item' exo2 R2. (if \<not> sent item \<and> \<not> acknowledged item
               then exo_bind (pcsm_push_no_copy (item_args item) (push_at env (item_args item)) exo1)
                 (\<lambda>(error, exo). Inr (if error = ERR_SUCCESS then item\<lparr>sent := True\<rparr> else item, exo))
               else Inr (item, exo1)) = Inr (item', exo2) \<and> grows (\<lambda>p. True) R2 exo1 exo2 \<and>
      item_args item' = item_args item \<and> (\<forall>r \<in># R2. rq_args r = item_args item)"
  proof (cases "\<not> sent item \<and> \<not> acknowledged item")
    case False
    with l(2) show ?thesis by (intro exI [of _ item] exI [of _ exo1] exI [of _ "{#}"]) (auto simp: grows_def rekeyed_def)
  next
    case True
    from h2 obtain a where "args_heap exo1 (item_args item) = Some a" "subs a" by (auto simp: points_to_def)
    with push_effect [of exo1 "push_at env (item_args item)" "item_args item" a] DNode.prems(3) l(2) obtain error exo2 R2 where
      "pcsm_push_no_copy (item_args item) (push_at env (item_args item)) exo1 = Inr (error, exo2)"
      "grows (\<lambda>q. q = item_args item) R2 exo1 exo2" "handed error (item_args item) R2"
      by (auto simp: subs_def grows_def)
    with True show ?thesis
      by (intro exI [of _ "if error = ERR_SUCCESS then item\<lparr>sent := True\<rparr> else item"] exI [of _ exo2] exI [of _ R2])
        (auto simp: handed_def split: if_splits elim: grows_mono)
  qed
  then obtain item' exo2 R2 where i: "(if \<not> sent item \<and> \<not> acknowledged item
               then exo_bind (pcsm_push_no_copy (item_args item) (push_at env (item_args item)) exo1)
                 (\<lambda>(error, exo). Inr (if error = ERR_SUCCESS then item\<lparr>sent := True\<rparr> else item, exo))
               else Inr (item, exo1)) = Inr (item', exo2)" "grows (\<lambda>p. True) R2 exo1 exo2"
      "item_args item' = item_args item" "\<forall>r \<in># R2. rq_args r = item_args item" by blast
  have m2: "machines_ok exo2" using i(2) by (simp add: grows_def)
  have "\<forall>x \<in> snd ` set (entries r). points_to exo2 (item_args x) subs"
    using keep [OF i(2) keep [OF l(2)]] DNode.prems(1) by simp
  from DNode.IH(2) [OF this m2 DNode.prems(3)] obtain r' exo3 R3 where
    r: "push_subscriptions env r exo2 = Inr (r', exo3)" "grows (\<lambda>p. True) R3 exo2 exo3"
      "item_args ` snd ` set (entries r') = item_args ` snd ` set (entries r)" "\<forall>r \<in># R3. points_to exo2 (rq_args r) subs"
    by (elim exE conjE) (rule that)
  have g: "grows (\<lambda>p. True) (R1 + (R2 + R3)) exo exo3"
    using grows_trans [OF l(2) grows_trans [OF i(2) r(2)]] .
  have "\<forall>q \<in># R1 + (R2 + R3). points_to exo (rq_args q) subs"
    using l(4) i(4) h1 r(4) earlier [OF l(2) earlier [OF i(2)]] by auto
  with g l(1) i(1) r(1) l(3) i(3) r(3) show ?case
    by (intro exI [of _ "DNode l' key item' r'"] exI [of _ exo3] exI [of _ "R1 + (R2 + R3)"]) (simp add: image_Un)
qed

end
