(* ===== verification/ExositeRuns.thy ===== *)
theory ExositeRuns
  imports ExositeRefs
begin

text \<open>
  Runs of the user's side of the library: what the application, the activation task and the machines
  do in any order, and the invariants of all states reached.
\<close>

section \<open>The activated state\<close>

definition sends :: "exosite \<Rightarrow> exosite \<Rightarrow> bool" where
  "sends exo exo' \<longleftrightarrow> next_activate exo' = next_activate exo \<and> cik exo' = cik exo \<and> rekeyed (\<lambda>p. True) exo exo' \<and>
     (\<exists>R. pend exo' = pend exo + R \<and>
        (\<forall>r \<in># R. points_to exo' (rq_args r) (\<lambda>a. args_cik a = take 40 (cik exo) \<and> \<not> special a)))"

lemma special_rekey [simp]: "special (a\<lparr>args_cik := c\<rparr>) = special a" "subs (a\<lparr>args_cik := c\<rparr>) = subs a"
  by (simp_all add: special_def subs_def)

lemma sends_trans:
  assumes g: "sends a b" and h: "sends b c"
  shows "sends a c"
proof -
  have ck: "cik b = cik a" and k: "rekeyed (\<lambda>p. True) a b" "rekeyed (\<lambda>p. True) b c"
    using g h by (simp_all add: sends_def)
  from g obtain R where R: "pend b = pend a + R"
    "\<forall>r \<in># R. points_to b (rq_args r) (\<lambda>x. args_cik x = take 40 (cik a) \<and> \<not> special x)" by (auto simp: sends_def)
  from h obtain S where S: "pend c = pend b + S"
    "\<forall>r \<in># S. points_to c (rq_args r) (\<lambda>x. args_cik x = take 40 (cik a) \<and> \<not> special x)" by (auto simp: sends_def ck)
  have "points_to c (rq_args r) (\<lambda>x. args_cik x = take 40 (cik a) \<and> \<not> special x)" if "r \<in># R" for r
    by (rule rekeyed_points_to [OF k(2)]) (use R(2) that ck in auto)
  with R S g h rekeyed_trans [OF k ck] show ?thesis
    unfolding sends_def by (intro conjI exI [of _ "R + S"]) (auto simp: add.assoc)
qed

lemma grows_sends:
  assumes g: "grows Q R exo exo'" and s: "\<forall>r \<in># R. points_to exo (rq_args r) (\<lambda>a. \<not> special a)"
    and e: "exo'' = exo'\<lparr>request_queue := q, subscribe_map := m\<rparr>"
  shows "sends exo exo''"
proof -
  from g have k: "rekeyed Q exo exo'" "pend exo' = pend exo + R" "same_rest exo exo'" by (simp_all add: grows_def)
  note f = same_rest_fields [OF k(3)]
  have hx: "points_to exo'' p P = points_to exo' p P" for p P by (simp add: points_to_def e)
  have "points_to exo'' (rq_args r) (\<lambda>a. args_cik a = take 40 (cik exo) \<and> \<not> special a)" if r: "r \<in># R" for r
  proof -
    from rekeyed_points_to [OF k(1) s [rule_format, OF r]] have "points_to exo' (rq_args r) (\<lambda>a. \<not> special a)" by simp
    moreover have "points_to exo' (rq_args r) (\<lambda>a. args_cik a = take 40 (cik exo))"
      using g r by (auto simp: grows_def points_to_def)
    ultimately show ?thesis unfolding hx by (auto simp: points_to_def)
  qed
  moreover have "rekeyed (\<lambda>p. True) exo exo''" using k(1) by (auto simp: rekeyed_def e)
  ultimately show ?thesis using k(2) f unfolding sends_def by (intro conjI exI [of _ R]) (simp_all add: e)
qed

lemma push_next_effect:
  assumes ok: "exo_okx {#} exo" and e: "\<forall>p. env_ok (push_at env p)"
  shows "\<exists>exo'. push_next env exo = Inr exo' \<and> exo_okx {#} exo' \<and> sends exo exo'"
proof (cases "cq_items (request_queue exo)")
  case Nil
  have "sends exo exo" by (simp add: sends_def rekeyed_def)
  with Nil ok show ?thesis by (auto simp: push_next_def cqueue_peek_head_def)
next
  case (Cons p ps)
  then have peek: "cqueue_peek_head (request_queue exo) = Some p" by (simp add: cqueue_peek_head_def)
  from ok Cons have "points_to exo p (\<lambda>a. args_method a \<in> {EXO_DP_READ, EXO_DP_WRITE})" by (simp add: exo_okx_def)
  then obtain a where a: "args_heap exo p = Some a" "args_method a \<in> {EXO_DP_READ, EXO_DP_WRITE}" by (auto simp: points_to_def)
  from push_effect [OF okx_machines [OF ok] e [rule_format, of p] a(1)] a(2) obtain error exo1 R where
    q: "pcsm_push_no_copy p (push_at env p) exo = Inr (error, exo1)" "grows (\<lambda>q. q = p) R exo exo1" "handed error p R"
    by auto
  have s: "same_rest exo exo1" "pend exo1 = pend exo + R" and k: "rekeyed (\<lambda>q. q = p) exo exo1" using q(2) by (simp_all add: grows_def)
  note f = same_rest_fields [OF s(1)]
  have al: "points_to exo (rq_args r) (\<lambda>a. args_method a = EXO_DP_SUBSCRIBE \<longrightarrow> args_alias a \<noteq> None)"
    "points_to exo (rq_args r) (\<lambda>a. \<not> special a)" if "r \<in># R" for r
    using that q(3) a by (auto simp: handed_def points_to_def special_def split: if_splits)
  show ?thesis
  proof (cases "error = ERR_SUCCESS")
    case False
    with q(3) have R: "R = {#}" by (simp add: handed_def)
    have id: "exo1\<lparr>request_queue := request_queue exo\<rparr> = exo1" "exo1 = exo1\<lparr>request_queue := request_queue exo1, subscribe_map := subscribe_map exo1\<rparr>"
      using f(1) by simp_all
    have "ptrs {#} exo1 = ptrs {#} exo" using s R f by (simp add: ptrs_def)
    then have "exo_okx {#} exo1" using grows_okx [OF ok q(2) order_refl _ al(1)] ok unfolding id(1) by (simp add: exo_okx_def)
    moreover have "sends exo exo1" using grows_sends [OF q(2) _ id(2)] R by simp
    ultimately show ?thesis using peek q(1) False by (simp add: push_next_def)
  next
    case True
    with q(3) obtain r where R: "R = {#r#}" "rq_args r = p" by (auto simp: handed_def)
    let ?q = "snd (cqueue_pop_head (request_queue exo))"
    have items: "cq_items ?q = ps" using Cons by (simp add: cqueue_pop_head_def)
    have n: "rq_type r = REQUEST_NORMAL"
    proof -
      have "points_to exo1 p (\<lambda>a. args_method a \<in> {EXO_DP_READ, EXO_DP_WRITE})"
        by (rule rekeyed_points_to [OF k]) (use a in \<open>auto simp: points_to_def\<close>)
      moreover have "points_to exo1 p (\<lambda>a. rq_type r = REQUEST_NORMAL \<longleftrightarrow> args_method a \<noteq> EXO_DP_SUBSCRIBE)"
        using q(2) R by (auto simp: grows_def points_to_def)
      ultimately show ?thesis by (auto simp: points_to_def)
    qed
    have "ptrs {#} (exo1\<lparr>request_queue := ?q\<rparr>) = ptrs {#} exo"
      using n R s(2) Cons items by (simp add: ptrs_def)
    then have c: "count (ptrs {#} (exo1\<lparr>request_queue := ?q\<rparr>)) i \<le> 1" for i using ok by (simp add: exo_okx_def)
    have "set (cq_items ?q) \<subseteq> set (cq_items (request_queue exo))" using Cons items by auto
    from grows_okx [OF ok q(2) this c al(1)] have "exo_okx {#} (exo1\<lparr>request_queue := ?q\<rparr>)" .
    moreover have "sends exo (exo1\<lparr>request_queue := ?q\<rparr>)"
      by (rule grows_sends [OF q(2), where q = ?q and m = "subscribe_map exo1"]) (use al(2) in auto)
    ultimately show ?thesis using peek q(1) True f(1) by (simp add: push_next_def)
  qed
qed

lemma act_activated_effect:
  assumes ok: "exo_okx {#} exo" and e: "\<forall>p. env_ok (push_at env p)" and n: "\<not> asynch_state_event exo"
  shows "\<exists>exo'. act_activated env exo = Inr exo' \<and> exo_okx {#} exo' \<and> sends exo exo'"
proof -
  have "\<forall>item \<in> snd ` set (entries (subscribe_map exo)). points_to exo (item_args item) subs" using ok by (simp add: exo_okx_def)
  from push_subscriptions_effect [OF this okx_machines [OF ok] e] obtain items exo1 R where
    p: "push_subscriptions env (subscribe_map exo) exo = Inr (items, exo1)" "grows (\<lambda>p. True) R exo exo1"
      "item_args ` snd ` set (entries items) = item_args ` snd ` set (entries (subscribe_map exo))"
      "\<forall>r \<in># R. points_to exo (rq_args r) subs"
    by (elim exE conjE) (rule that)
  let ?e = "exo1\<lparr>subscribe_map := items\<rparr>"
  have s: "same_rest exo exo1" "pend exo1 = pend exo + R" "machines_ok exo1" "rekeyed (\<lambda>p. True) exo exo1"
    using p(2) by (simp_all add: grows_def)
  note f = same_rest_fields [OF s(1)]
  have nn: "rq_type r \<noteq> REQUEST_NORMAL" if "r \<in># R" for r
  proof -
    have "points_to exo1 (rq_args r) subs" using rekeyed_points_to [OF s(4)] p(4) that by simp
    moreover have "points_to exo1 (rq_args r) (\<lambda>a. rq_type r = REQUEST_NORMAL \<longleftrightarrow> args_method a \<noteq> EXO_DP_SUBSCRIBE)"
      using p(2) that by (auto simp: grows_def points_to_def)
    ultimately show ?thesis by (auto simp: points_to_def subs_def)
  qed
  then have "filter_mset (\<lambda>r. rq_type r = REQUEST_NORMAL) R = filter_mset (\<lambda>r. False) R"
    by (intro filter_mset_cong) auto
  then have pt: "ptrs {#} exo1 = ptrs {#} exo" using s(2) f(1) by (simp add: ptrs_def)
  have id: "exo1\<lparr>request_queue := request_queue exo\<rparr> = exo1" using f(1) by simp
  have "points_to exo (rq_args r) (\<lambda>a. args_method a = EXO_DP_SUBSCRIBE \<longrightarrow> args_alias a \<noteq> None)" if "r \<in># R" for r
    using p(4) that by (auto simp: points_to_def subs_def)
  then have ok1: "exo_okx {#} exo1"
    using grows_okx [OF ok p(2) order_refl] ok unfolding id pt by (simp add: exo_okx_def)
  have m: "machines_ok ?e" using s(3) by (simp add: machines_ok_def)
  have "exo_okx {#} ?e"
    by (rule okx_frame [OF ok1 m]) (use p(3) f(2) ok1 in \<open>simp_all add: exo_okx_def\<close>)
  from push_next_effect [OF this e] obtain exo' where
    q: "push_next env ?e = Inr exo'" "exo_okx {#} exo'" "sends ?e exo'" by blast
  have "\<forall>r \<in># R. points_to exo (rq_args r) (\<lambda>a. \<not> special a)"
    using p(4) by (auto simp: points_to_def subs_def special_def)
  then have "sends exo ?e"
    by (rule grows_sends [OF p(2), where q = "request_queue exo1" and m = items]) simp
  from sends_trans [OF this q(3)] q(1,2) p(1) n show ?thesis by (simp add: act_activated_def)
qed

section \<open>The invariants\<close>

text \<open>What is sent for the user carries a valid key.\<close>

definition for_user :: "exosite_method \<Rightarrow> bool" where
  "for_user m \<longleftrightarrow> m = EXO_DP_READ \<or> m = EXO_DP_WRITE \<or> m = EXO_DP_SUBSCRIBE"

definition keys_ok :: "exosite \<Rightarrow> bool" where
  "keys_ok exo \<longleftrightarrow> (next_activate exo = AS_ACTIVATED \<longrightarrow> system_is_cik_format_valid (cik exo)) \<and>
     (\<forall>r \<in># pend exo. \<forall>a. args_heap exo (rq_args r) = Some a \<longrightarrow> for_user (args_method a) \<longrightarrow>
        system_is_cik_format_valid (args_cik a))"

text \<open>Which requests are with the machines in which state of the activation.\<close>

definition ordinary :: "exosite \<Rightarrow> bool" where
  "ordinary exo \<longleftrightarrow> (\<forall>r \<in># pend exo. \<forall>a. args_heap exo (rq_args r) = Some a \<longrightarrow> \<not> special a)"

definition waits_for :: "exosite_method \<Rightarrow> exo_callback \<Rightarrow> exosite \<Rightarrow> bool" where
  "waits_for m c exo \<longleftrightarrow> (\<exists>r. pend exo = {#r#} \<and> rq_type r = REQUEST_NORMAL \<and>
     points_to exo (rq_args r) (\<lambda>a. args_method a = m \<and> callback a = c))"

definition waits_ok :: "exosite \<Rightarrow> bool" where
  "waits_ok exo = (case next_activate exo of
       AS_WAIT_TIMESTAMP \<Rightarrow> waits_for EXO_UP_TIMESTAMP OnTimestamp exo
     | AS_WAIT_ACTIVATE \<Rightarrow> waits_for EXO_PP_ACTIVATE OnActivate exo
     | AS_SEND_ACTIVATE \<Rightarrow> ordinary exo \<and> clearing exo
     | AS_PREPARE_ACTIVATE \<Rightarrow> ordinary exo
     | AS_ACTIVATED \<Rightarrow> ordinary exo
     | _ \<Rightarrow> pend exo = {#})"

definition exo_inv :: "exosite \<Rightarrow> bool" where
  "exo_inv exo \<longleftrightarrow> exo_okx {#} exo \<and> keys_ok exo \<and> waits_ok exo"

definition input_ok :: "exo_input \<Rightarrow> bool" where
  "input_ok i \<longleftrightarrow> (case i of Activation env \<Rightarrow> \<forall>p. env_ok (push_at env p) | _ \<Rightarrow> True)"

text \<open>A change that keeps the machines, the state of the activation and the arguments that are in use.\<close>

lemma inv_frame:
  assumes i: "keys_ok exo" "waits_ok exo" and s: "sm_head exo' = sm_head exo"
    and n: "next_activate exo' = next_activate exo" "cik exo' = cik exo"
    and h: "\<And>r. r \<in># pend exo \<Longrightarrow> args_heap exo' (rq_args r) = args_heap exo (rq_args r)"
  shows "keys_ok exo'" "waits_ok exo'"
proof -
  have p: "pend exo' = pend exo" by (simp add: pend_def s)
  show "keys_ok exo'" using i(1) h by (auto simp: keys_ok_def p n)
  have "ordinary exo' = ordinary exo" using h by (auto simp: ordinary_def p)
  moreover have "clearing exo' = clearing exo" by (simp add: clearing_def s)
  moreover have "pend exo = {#r#} \<Longrightarrow> points_to exo' (rq_args r) P = points_to exo (rq_args r) P" for r P
    using h [of r] by (simp add: points_to_def)
  then have "waits_for m c exo' = waits_for m c exo" for m c unfolding waits_for_def p by blast
  ultimately show "waits_ok exo'" using i(2) by (simp add: waits_ok_def n p split: activate_states.splits)
qed

lemma pend_refs: "r \<in># pend exo \<Longrightarrow> rq_args r \<in> refs X exo"
  by (simp add: refs_def)

text \<open>The calls of the application.\<close>

lemma queue_push_inv:
  assumes i: "exo_inv exo" and m: "args_method args \<in> {EXO_DP_READ, EXO_DP_WRITE}"
  shows "exo_inv (snd (request_queue_push room entry args exo))"
proof -
  have ok: "exo_okx {#} exo" and k: "keys_ok exo" "waits_ok exo" using i by (simp_all add: exo_inv_def)
  let ?args = "args\<lparr>app_type := protocol_type exo\<rparr>"
  obtain error p exo1 where n: "exo_request_args_new room ?args exo = (error, p, exo1)" by (metis prod_cases3)
  show ?thesis
  proof (cases "error = ERR_SUCCESS")
    case False
    with new_effect(1) [OF n] n i show ?thesis by (simp add: request_queue_push_def)
  next
    case True
    from new_effect(2) [OF n True] obtain new g where p: "p = next_args exo" and
      x: "exo1 = exo\<lparr>gmessage_id := g, args_heap := (args_heap exo)(p \<mapsto> new), next_args := Suc p\<rparr>"
        "args_method new = args_method args" by auto
    note ok1 = new_okx [OF ok p x(1)]
    have h: "args_heap exo1 (rq_args r) = args_heap exo (rq_args r)" if "r \<in># pend exo" for r
      using pend_refs [OF that, of "{#}"] ok1(3) by (auto simp: x)
    have k1: "keys_ok exo1" "waits_ok exo1" using inv_frame [OF k _ _ _ h] by (simp_all add: x)
    obtain error' q where q: "cqueue_push_tail entry p (request_queue exo) = (error', q)" by fastforce
    show ?thesis
    proof (cases "error' = ERR_SUCCESS")
      case e': True
      with q have items: "cq_items q = cq_items (request_queue exo) @ [p]"
        by (auto simp: cqueue_push_tail_def split: if_splits)
      let ?e = "exo1\<lparr>request_queue := q\<rparr>"
      have pt: "ptrs {#} ?e = add_mset p (ptrs {#} exo1)" by (simp add: ptrs_def items x)
      have "p \<notin># ptrs {#} exo1" using ok1(2,3) by (auto simp: refs_def ptrs_def)
      then have "count (ptrs {#} ?e) i \<le> 1" for i
        using ok1(1) by (auto simp: pt exo_okx_def not_in_iff)
      moreover have hp: "args_heap exo1 p = Some new" by (simp add: x)
      have "points_to ?e p' P = points_to exo1 p' P" for p' P by (simp add: points_to_def)
      ultimately have "exo_okx {#} ?e" using ok1(1) m x(2) hp unfolding exo_okx_def pt
        by (auto simp: machines_ok_def items points_to_def x(1))
      moreover have "keys_ok ?e" "waits_ok ?e" by (rule inv_frame [OF k1]; simp)+
      ultimately show ?thesis using n q True e' by (simp add: request_queue_push_def exo_inv_def x(1))
    next
      case e': False
      with q have "q = request_queue exo" by (auto simp: cqueue_push_tail_def split: if_splits)
      then have e: "exo1\<lparr>request_queue := q\<rparr> = exo1" by (simp add: x)
      have pn: "p \<notin> refs {#} exo1" using ok1(2,3) by simp
      note d = delete_okx [OF ok1(1) pn]
      have "keys_ok (exo_request_args_delete p exo1)" "waits_ok (exo_request_args_delete p exo1)"
        by (rule inv_frame [OF k1]; use pn pend_refs [of _ exo1 "{#}"] in \<open>auto simp: exo_request_args_delete_def\<close>)+
      with d(1) n q True e' e show ?thesis by (simp add: request_queue_push_def exo_inv_def x(1))
    qed
  qed
qed

lemma dinsert_entries:
  "dinsert an ak key v t = (error, t') \<Longrightarrow>
     (error = ERR_SUCCESS \<longrightarrow> set (entries t') = insert (key, v) (set (entries t))) \<and>
     (error \<noteq> ERR_SUCCESS \<longrightarrow> t' = t)"
proof (induction t arbitrary: t')
  case DNil
  then show ?case by (auto simp: node_new_def split: if_splits)
next
  case (DNode l k x r)
  obtain el l' where l: "dinsert an ak key v l = (el, l')" by fastforce
  obtain er r' where r: "dinsert an ak key v r = (er, r')" by fastforce
  have il: "(el = ERR_SUCCESS \<longrightarrow> set (entries l') = insert (key, v) (set (entries l))) \<and> (el \<noteq> ERR_SUCCESS \<longrightarrow> l' = l)"
    if "el = error" using DNode.IH(1) [of l'] l that by simp
  have ir: "(er = ERR_SUCCESS \<longrightarrow> set (entries r') = insert (key, v) (set (entries r))) \<and> (er \<noteq> ERR_SUCCESS \<longrightarrow> r' = r)"
    if "er = error" using DNode.IH(2) [of r'] r that by simp
  show ?case
  proof (cases "strcmp key k = 0")
    case True
    with DNode.prems show ?thesis by auto
  next
    case n: False
    show ?thesis
    proof (cases "strcmp key k < 0")
      case True
      with n DNode.prems l have e: "el = error" "t' = DNode l' k x r" by (simp_all add: Let_def)
      from il [OF e(1)] show ?thesis unfolding e by (auto simp: insert_commute)
    next
      case False
      with n DNode.prems r have e: "er = error" "t' = DNode l k x r'" by (simp_all add: Let_def)
      from ir [OF e(1)] show ?thesis unfolding e by (auto simp: insert_commute)
    qed
  qed
qed

lemma subscribe_inv:
  assumes i: "exo_inv exo"
  shows "exo_inv (snd (exosite_subscribe room_item room room_node room_key alias on_change exo))"
proof -
  have ok: "exo_okx {#} exo" and k: "keys_ok exo" "waits_ok exo" using i by (simp_all add: exo_inv_def)
  let ?tm = "dec_int (sint (request_timeout exo - 15000))"
  let ?args = "no_args\<lparr>args_method := EXO_DP_SUBSCRIBE, args_alias := Some alias, args_timeout := Some ?tm,
           subscribe_usr_callback := on_change, callback := OnSubscribe, app_type := protocol_type exo\<rparr>"
  obtain error p exo1 where n: "exo_request_args_new room ?args exo = (error, p, exo1)" by (metis prod_cases3)
  have log: "exo_inv (log_event ev exo)" for ev
  proof -
    have "exo_okx {#} (log_event ev exo)"
      by (rule okx_frame [OF ok]) (use ok in \<open>simp_all add: exo_okx_def machines_ok_def\<close>)
    moreover have "keys_ok (log_event ev exo)" "waits_ok (log_event ev exo)" by (rule inv_frame [OF k]; simp)+
    ultimately show ?thesis by (simp add: exo_inv_def)
  qed
  show ?thesis
  proof (cases "length ?tm = 16 \<or> \<not> room_item")
    case True
    with log i show ?thesis by (auto simp: exosite_subscribe_def add_to_subscribe_map_def Let_def)
  next
    case F: False
    show ?thesis
    proof (cases "error = ERR_SUCCESS")
      case False
      with new_effect(1) [OF n] n i F show ?thesis by (simp add: exosite_subscribe_def add_to_subscribe_map_def Let_def)
    next
      case True
      from new_effect(2) [OF n True] obtain new g where p: "p = next_args exo" and
        x: "exo1 = exo\<lparr>gmessage_id := g, args_heap := (args_heap exo)(p \<mapsto> new), next_args := Suc p\<rparr>"
          "args_method new = EXO_DP_SUBSCRIBE" "args_alias new = Some alias" by auto
      note ok1 = new_okx [OF ok p x(1)]
      have h: "args_heap exo1 (rq_args r) = args_heap exo (rq_args r)" if "r \<in># pend exo" for r
        using pend_refs [OF that, of "{#}"] ok1(3) by (auto simp: x)
      have k1: "keys_ok exo1" "waits_ok exo1" using inv_frame [OF k _ _ _ h] by (simp_all add: x)
      obtain error' items where d: "dinsert room_node room_key alias \<lparr>item_args = p, sent = False, acknowledged = False\<rparr>
          (subscribe_map exo) = (error', items)" by fastforce
      note de = dinsert_entries [OF d]
      let ?e = "exo1\<lparr>subscribe_map := items\<rparr>"
      show ?thesis
      proof (cases "error' = ERR_SUCCESS")
        case e': True
        have hp: "points_to exo1 p subs" by (simp add: x points_to_def subs_def)
        have "exo_okx {#} ?e" using ok1(1) hp de e' unfolding exo_okx_def
          by (auto simp: machines_ok_def points_to_def ptrs_def x(1))
        moreover have "keys_ok ?e" "waits_ok ?e" by (rule inv_frame [OF k1]; simp)+
        ultimately show ?thesis using n d True e' F
          by (simp add: exosite_subscribe_def add_to_subscribe_map_def dictionary_add_def exo_inv_def x(1))
      next
        case e': False
        with de have "items = subscribe_map exo" by simp
        then have e: "?e = exo1" by (simp add: x)
        have pn: "p \<notin> refs {#} exo1" using ok1(2,3) by simp
        note dl = delete_okx [OF ok1(1) pn]
        have "keys_ok (exo_request_args_delete p exo1)" "waits_ok (exo_request_args_delete p exo1)"
          by (rule inv_frame [OF k1]; use pn pend_refs [of _ exo1 "{#}"] in \<open>auto simp: exo_request_args_delete_def\<close>)+
        with dl(1) n d True e' e F show ?thesis
          by (simp add: exosite_subscribe_def add_to_subscribe_map_def dictionary_add_def exo_inv_def x(1))
      qed
    qed
  qed
qed

text \<open>A tick of a machine.\<close>

lemma machine_inv:
  assumes i: "exo_inv exo"
  shows "\<exists>exo'. machine_tick k t f exo = Inr exo' \<and> exo_inv exo'"
proof -
  have ok: "exo_okx {#} exo" and ko: "keys_ok exo" and w: "waits_ok exo" using i by (simp_all add: exo_inv_def)
  from machine_effect [OF ok, of k t f] obtain exo' where m: "machine_tick k t f exo = Inr exo'" "exo_okx {#} exo'"
    "\<forall>r \<in># pend exo'. \<exists>q \<in># pend exo. tag q = tag r"
    "\<forall>p x. args_heap exo' p = Some x \<longrightarrow> args_heap exo p = Some x"
    "ordinary exo \<longrightarrow> next_activate exo' = next_activate exo"
    "(next_activate exo = AS_ACTIVATED \<longrightarrow> system_is_cik_format_valid (cik exo)) \<longrightarrow>
     next_activate exo' = AS_ACTIVATED \<longrightarrow> system_is_cik_format_valid (cik exo')"
    unfolding ordinary_def by blast
  have keep: "\<exists>q \<in># pend exo. rq_args q = rq_args r \<and> args_heap exo (rq_args q) = Some a"
    if "r \<in># pend exo'" "args_heap exo' (rq_args r) = Some a" for r a
  proof -
    from m(3) that(1) obtain q where "q \<in># pend exo" "tag q = tag r" by blast
    with m(4) that(2) show ?thesis by (auto simp: tag_def)
  qed
  have keys: "keys_ok exo'" using ko m(6) keep unfolding keys_ok_def by blast
  have ord: "ordinary exo \<Longrightarrow> ordinary exo'" using keep unfolding ordinary_def by blast
  have none: "pend exo = {#} \<Longrightarrow> pend exo' = {#}"
    using m(3) by (metis multiset_nonemptyE set_mset_empty empty_iff)
  have cl: "clearing exo \<Longrightarrow> clearing exo'" using machine_clearing [OF ok _ m(1)] .
  have empty_ord: "pend exo = {#} \<Longrightarrow> ordinary exo" for exo by (simp add: ordinary_def)
  have wait: "(waits_for mt c exo' \<and> next_activate exo' = next_activate exo) \<or> pend exo' = {#} \<and>
      (mt = EXO_UP_TIMESTAMP \<and> c = OnTimestamp \<longrightarrow> next_activate exo' \<in> {AS_INIT, AS_SEND_GET_TIMESTAMP}) \<and>
      (mt = EXO_PP_ACTIVATE \<and> c = OnActivate \<longrightarrow> next_activate exo' \<in> {AS_ACTIVATED, AS_PREPARE_ACTIVATE})"
    if "waits_for mt c exo" for mt c
  proof -
    from that obtain r a where r: "pend exo = {#r#}" "rq_type r = REQUEST_NORMAL" "args_heap exo (rq_args r) = Some a"
      "args_method a = mt" "callback a = c" by (auto simp: waits_for_def points_to_def)
    from machine_lone [OF ok r(1-3) m(1)] show ?thesis
    proof
      assume "\<exists>r'. pend exo' = {#r'#} \<and> tag r' = tag r \<and> args_heap exo' = args_heap exo \<and>
        next_activate exo' = next_activate exo"
      then obtain r' where "pend exo' = {#r'#}" "tag r' = tag r" "args_heap exo' = args_heap exo"
        "next_activate exo' = next_activate exo" by blast
      with r show ?thesis by (intro disjI1 conjI) (auto simp: waits_for_def points_to_def tag_def)
    qed (use r in auto)
  qed
  have "waits_ok exo'"
  proof (cases "next_activate exo")
    case AS_WAIT_TIMESTAMP
    with w wait [of EXO_UP_TIMESTAMP OnTimestamp] show ?thesis by (auto simp: waits_ok_def)
  next
    case AS_WAIT_ACTIVATE
    with w wait [of EXO_PP_ACTIVATE OnActivate] empty_ord [of exo'] show ?thesis by (auto simp: waits_ok_def)
  qed (use w m(5) ord none cl empty_ord in \<open>auto simp: waits_ok_def\<close>)
  with m(1,2) keys show ?thesis by (auto simp: exo_inv_def)
qed

text \<open>A call of \<open>activate_sm\<close>.\<close>

lemma okx_same:
  assumes "exo_okx X exo" "sm_head exo' = sm_head exo" "request_queue exo' = request_queue exo"
    "subscribe_map exo' = subscribe_map exo" "args_heap exo' = args_heap exo" "next_args exo' = next_args exo"
  shows "exo_okx X exo'"
  by (rule okx_frame [OF assms(1)]) (use assms in \<open>simp_all add: exo_okx_def machines_ok_def pend_def\<close>)

lemma idle_inv:
  assumes "exo_okx {#} exo" "pend exo = {#}" "next_activate exo \<notin> {AS_WAIT_TIMESTAMP, AS_WAIT_ACTIVATE}"
    "next_activate exo = AS_ACTIVATED \<longrightarrow> system_is_cik_format_valid (cik exo)"
  shows "exo_inv exo"
proof -
  have "clearing exo" using assms(2) by (simp add: pend_empty clearing_def)
  with assms show ?thesis by (auto simp: exo_inv_def keys_ok_def waits_ok_def ordinary_def split: activate_states.split)
qed

lemma send_inv:
  assumes ok: "exo_okx {#} exo" and e: "pend exo = {#}" and env: "env_ok env"
    and m: "args_method args = mt" "callback args = c" "special args" "mt \<noteq> EXO_DP_SUBSCRIBE"
    and n: "next_activate exo \<in> {AS_SEND_GET_TIMESTAMP, AS_SEND_ACTIVATE}"
    and w: "(mt, c, nxt) \<in> {(EXO_UP_TIMESTAMP, OnTimestamp, AS_WAIT_TIMESTAMP), (EXO_PP_ACTIVATE, OnActivate, AS_WAIT_ACTIVATE)}"
  shows "\<exists>error exo'. pcsm_push room args env exo = Inr (error, exo') \<and>
    exo_inv (if error = ERR_SUCCESS then exo'\<lparr>next_activate := nxt\<rparr> else exo')"
proof -
  from push_new [OF ok env, of args room] m obtain error exo' where
    p: "pcsm_push room args env exo = Inr (error, exo')" "exo_okx {#} exo'" "next_activate exo' = next_activate exo"
      "if error = ERR_SUCCESS then \<exists>r. pend exo' = add_mset r (pend exo) \<and> rq_type r = REQUEST_NORMAL \<and>
          points_to exo' (rq_args r) (\<lambda>a. args_method a = mt \<and> callback a = c)
       else pend exo' = pend exo" by blast
  have "exo_inv (if error = ERR_SUCCESS then exo'\<lparr>next_activate := nxt\<rparr> else exo')"
  proof (cases "error = ERR_SUCCESS")
    case True
    with p(4) e obtain r where r: "pend exo' = {#r#}" "rq_type r = REQUEST_NORMAL"
      "points_to exo' (rq_args r) (\<lambda>a. args_method a = mt \<and> callback a = c)" by auto
    let ?e = "exo'\<lparr>next_activate := nxt\<rparr>"
    have "waits_for mt c ?e" using r by (auto simp: waits_for_def points_to_def)
    moreover have "keys_ok ?e" using r w m(1,3,4) by (auto simp: keys_ok_def points_to_def for_user_def)
    moreover have "exo_okx {#} ?e" by (rule okx_same [OF p(2)]) simp_all
    ultimately show ?thesis using True w by (auto simp: exo_inv_def waits_ok_def)
  next
    case False
    with p(4) e have "pend exo' = {#}" by simp
    then have "exo_inv exo'" by (rule idle_inv [OF p(2)]) (use n p(3) in auto)
    with False show ?thesis by simp
  qed
  with p(1) show ?thesis by blast
qed

lemma valid_take: "system_is_cik_format_valid s \<Longrightarrow> take 40 s = s"
  by (simp add: cik_valid_iff)

lemma sends_inv:
  assumes ok: "exo_okx {#} exo'" and s: "sends exo exo'" and k: "keys_ok exo" and o: "ordinary exo"
    and a: "next_activate exo = AS_ACTIVATED"
  shows "exo_inv exo'"
proof -
  have n: "next_activate exo' = AS_ACTIVATED" "cik exo' = cik exo" and rk: "rekeyed (\<lambda>p. True) exo exo'"
    using s a by (simp_all add: sends_def)
  have v: "system_is_cik_format_valid (cik exo)" using k a by (simp add: keys_ok_def)
  from s obtain R where R: "pend exo' = pend exo + R"
    "\<forall>r \<in># R. points_to exo' (rq_args r) (\<lambda>a. args_cik a = take 40 (cik exo) \<and> \<not> special a)" by (auto simp: sends_def)
  have both: "\<not> special x \<and> (for_user (args_method x) \<longrightarrow> system_is_cik_format_valid (args_cik x))"
    if r: "r \<in># pend exo'" and x: "args_heap exo' (rq_args r) = Some x" for r x
  proof (cases "r \<in># R")
    case True
    with R(2) x v valid_take show ?thesis by (auto simp: points_to_def)
  next
    case False
    with r R(1) have r0: "r \<in># pend exo" by simp
    from rk have "args_heap exo' (rq_args r) = args_heap exo (rq_args r) \<or>
      (\<exists>y. args_heap exo (rq_args r) = Some y \<and> args_heap exo' (rq_args r) = Some (y\<lparr>args_cik := take 40 (cik exo)\<rparr>))"
      by (auto simp: rekeyed_def)
    then show ?thesis
    proof
      assume "args_heap exo' (rq_args r) = args_heap exo (rq_args r)"
      with x r0 k o show ?thesis unfolding keys_ok_def ordinary_def by auto
    next
      assume "\<exists>y. args_heap exo (rq_args r) = Some y \<and> args_heap exo' (rq_args r) = Some (y\<lparr>args_cik := take 40 (cik exo)\<rparr>)"
      then obtain y where "args_heap exo (rq_args r) = Some y" "x = y\<lparr>args_cik := take 40 (cik exo)\<rparr>" using x by auto
      with r0 o v valid_take show ?thesis unfolding ordinary_def by auto
    qed
  qed
  have "keys_ok exo'" using both v n by (auto simp: keys_ok_def)
  moreover have "waits_ok exo'" using both n by (auto simp: waits_ok_def ordinary_def)
  ultimately show ?thesis using ok by (simp add: exo_inv_def)
qed

lemma inv_parts: "exo_inv exo \<Longrightarrow> exo_okx {#} exo" "exo_inv exo \<Longrightarrow> keys_ok exo" "exo_inv exo \<Longrightarrow> waits_ok exo"
  by (simp_all add: exo_inv_def)

lemma entered_inv: "exo_inv exo \<Longrightarrow> exo_inv (exo\<lparr>activate_state := s\<rparr>)"
proof -
  assume i: "exo_inv exo"
  let ?e = "exo\<lparr>activate_state := s\<rparr>"
  have "exo_okx {#} ?e" by (rule okx_same [OF inv_parts(1) [OF i]]) simp_all
  moreover have "keys_ok ?e" "waits_ok ?e" by (rule inv_frame [OF inv_parts(2) [OF i] inv_parts(3) [OF i]]; simp)+
  ultimately show ?thesis by (simp add: exo_inv_def)
qed

lemma device_key_inv:
  assumes i: "exo_inv exo" and p: "pend exo = {#}"
  shows "exo_inv (if system_is_cik_format_valid c then exo\<lparr>cik := c, next_activate := AS_ACTIVATED\<rparr>
      else exo\<lparr>next_activate := AS_START, cik := []\<rparr>)" (is "exo_inv ?x")
proof -
  have "exo_okx {#} ?x" by (rule okx_same [OF inv_parts(1) [OF i]]) simp_all
  then show ?thesis by (rule idle_inv) (use p in auto)
qed

lemma stored_key_inv:
  assumes i: "exo_inv exo" and p: "pend exo = {#}" and g: "api_get_cik stored exo = (error, exo')"
  shows "exo_inv (exo'\<lparr>next_activate := (if error = ERR_SUCCESS then AS_ACTIVATED else AS_PREPARE_ACTIVATE)\<rparr>)"
    (is "exo_inv ?x")
proof -
  have "exo_okx {#} ?x" by (rule okx_same [OF inv_parts(1) [OF i]]) (use g in \<open>auto simp: api_get_cik_def Let_def split: if_splits\<close>)
  moreover have "pend ?x = {#}" using p g by (auto simp: api_get_cik_def Let_def split: if_splits)
  ultimately show ?thesis by (rule idle_inv) (use g in \<open>auto simp: api_get_cik_def Let_def split: if_splits\<close>)
qed

lemma cleared_inv:
  assumes i: "exo_inv exo" and o: "ordinary exo"
  shows "exo_inv (exo\<lparr>last_activation_time := tm,
     sm_head := map (\<lambda>i. i\<lparr>sm := protocol_client_sm_clear (sm i)\<rparr>) (sm_head exo), next_activate := AS_SEND_ACTIVATE\<rparr>)"
    (is "exo_inv ?x")
proof -
  note ok = inv_parts(1) [OF i]
  have pe: "pending (protocol_client_sm_clear s) = pending s" for s by (simp add: protocol_client_sm_clear_def pending_def)
  have p: "pend ?x = pend exo" by (simp add: pend_def image_mset.compositionality comp_def pe)
  have m: "machines_ok ?x" using okx_machines [OF ok] sm_do_ok [where c = Clear] by (auto simp: machines_ok_def)
  have "exo_okx {#} ?x" by (rule okx_frame [OF ok m p]) (use ok in \<open>simp_all add: exo_okx_def\<close>)
  moreover have "keys_ok ?x" using inv_parts(2) [OF i] unfolding keys_ok_def p by simp
  moreover have "ordinary ?x" using o unfolding ordinary_def p by simp
  moreover have "clearing ?x" by (simp add: clearing_def protocol_client_sm_clear_def)
  ultimately show ?thesis by (simp add: exo_inv_def waits_ok_def)
qed

lemma reactivate_inv:
  assumes i: "exo_inv exo" and o: "ordinary exo"
  shows "exo_inv (exo\<lparr>asynch_state_event := False, next_activate := AS_PREPARE_ACTIVATE\<rparr>)" (is "exo_inv ?x")
proof -
  have "exo_okx {#} ?x" by (rule okx_same [OF inv_parts(1) [OF i]]) simp_all
  moreover have "keys_ok ?x" using inv_parts(2) [OF i] by (simp add: keys_ok_def)
  moreover have "waits_ok ?x" using o by (simp add: waits_ok_def ordinary_def)
  ultimately show ?thesis by (simp add: exo_inv_def)
qed

lemma activation_inv:
  assumes i: "exo_inv exo0" and e: "\<forall>p. env_ok (push_at env p)"
  shows "\<exists>exo'. activate_sm env exo0 = Inr exo' \<and> exo_inv exo'"
proof -
  let ?e = "exo0\<lparr>activate_state := next_activate exo0\<rparr>"
  note ie = entered_inv [OF i, of "next_activate exo0"]
  note ok = inv_parts(1) [OF ie] and w = inv_parts(3) [OF ie]
  show ?thesis
  proof (cases "next_activate exo0")
    case AS_SEND_GET_TIMESTAMP
    with w have "pend ?e = {#}" by (simp add: waits_ok_def)
    from send_inv [OF ok this e [rule_format], of "no_args\<lparr>args_method := EXO_UP_TIMESTAMP, callback := OnTimestamp\<rparr>"
        EXO_UP_TIMESTAMP OnTimestamp AS_WAIT_TIMESTAMP "room_args env" "next_args ?e"] AS_SEND_GET_TIMESTAMP
    show ?thesis by (auto simp: activate_sm_def get_timestamp_def special_def)
  next
    case AS_INIT
    with w have p: "pend ?e = {#}" by (simp add: waits_ok_def)
    from device_key_inv [OF ie p, of "device_cik env"] AS_INIT show ?thesis by (auto simp: activate_sm_def Let_def)
  next
    case AS_START
    with w have p: "pend ?e = {#}" by (simp add: waits_ok_def)
    obtain error exo1 where g: "api_get_cik (stored_cik env) ?e = (error, exo1)" by fastforce
    from stored_key_inv [OF ie p g] g AS_START show ?thesis by (simp add: activate_sm_def)
  next
    case AS_PREPARE_ACTIVATE
    with w have "ordinary ?e" by (simp add: waits_ok_def)
    note cleared = cleared_inv [OF ie this, of "act_now env"]
    show ?thesis
    proof (cases "diff_time (act_now env) (last_activation_time exo0) > 10000")
      case True
      with cleared AS_PREPARE_ACTIVATE show ?thesis by (simp add: activate_sm_def should_delay_activate_def)
    next
      case False
      with ie AS_PREPARE_ACTIVATE show ?thesis by (simp add: activate_sm_def should_delay_activate_def)
    qed
  next
    case AS_SEND_ACTIVATE
    show ?thesis
    proof (cases "list_all (\<lambda>i. protocol_client_sm_is_empty (sm i)) (sm_head exo0)")
      case False
      with AS_SEND_ACTIVATE ie show ?thesis by (simp add: activate_sm_def)
    next
      case True
      from w AS_SEND_ACTIVATE have "clearing ?e" by (simp add: waits_ok_def)
      with True have "pend ?e = {#}"
        by (auto simp: pend_empty clearing_def list_all_iff protocol_client_sm_is_empty_def)
      from send_inv [OF ok this e [rule_format], of "no_args\<lparr>args_method := EXO_PP_ACTIVATE, args_vendor := Some (vendor exo0),
         args_model := Some (model exo0), args_sn := Some (sn exo0), callback := OnActivate\<rparr>"
        EXO_PP_ACTIVATE OnActivate AS_WAIT_ACTIVATE "room_args env" "next_args ?e"] AS_SEND_ACTIVATE True
      show ?thesis by (auto simp: activate_sm_def activate_def special_def)
    qed
  next
    case AS_ACTIVATED
    with w have o: "ordinary ?e" by (simp add: waits_ok_def)
    show ?thesis
    proof (cases "asynch_state_event exo0")
      case True
      with reactivate_inv [OF ie o] AS_ACTIVATED show ?thesis by (simp add: activate_sm_def act_activated_def)
    next
      case False
      then have "\<not> asynch_state_event ?e" by simp
      from act_activated_effect [OF ok e this] obtain exo' where
        "act_activated env ?e = Inr exo'" "exo_okx {#} exo'" "sends ?e exo'" by blast
      with sends_inv [OF _ _ inv_parts(2) [OF ie] o] AS_ACTIVATED show ?thesis by (simp add: activate_sm_def)
    qed
  qed (use ie in \<open>simp_all add: activate_sm_def\<close>)
qed

section \<open>Reachable states\<close>

lemma step_inv: "exo_inv exo \<Longrightarrow> input_ok i \<Longrightarrow> \<exists>exo'. exo_next i exo = Inr exo' \<and> exo_inv exo'"
  by (cases i) (auto simp: input_ok_def exosite_read_def exosite_write_def
      intro: queue_push_inv subscribe_inv activation_inv machine_inv)

inductive exo_reachable :: "exosite \<Rightarrow> bool" where
  born: "exosite_new env vend mdl optional_sn proto = (ERR_SUCCESS, Some exo) \<Longrightarrow>
     (\<exists>size. new_queue env = cqueue_new True True True size) \<Longrightarrow> exo_reachable exo"
| lives: "exo_reachable exo \<Longrightarrow> input_ok i \<Longrightarrow> exo_next i exo = Inr exo' \<Longrightarrow> exo_reachable exo'"

lemma reachable_inv: "exo_reachable exo \<Longrightarrow> exo_inv exo"
proof (induction rule: exo_reachable.induct)
  case (born env vend mdl optional_sn proto exo)
  then have e: "sm_head exo = []" "cq_items (request_queue exo) = []" "subscribe_map exo = DNil" "args_heap exo = Map.empty"
    "next_activate exo = AS_SEND_GET_TIMESTAMP"
    by (auto simp: exosite_new_def cqueue_new_def split: option.splits if_splits)
  then have p: "pend exo = {#}" by (simp add: pend_def)
  have "exo_okx {#} exo" by (simp add: exo_okx_def ptrs_def machines_ok_def p e)
  then show ?case by (rule idle_inv) (simp_all add: p e)
next
  case (lives exo i exo')
  with step_inv [of exo i] show ?case by auto
qed

lemma run_reachable: "exo_reachable exo \<Longrightarrow> list_all input_ok ins \<Longrightarrow> exo_run ins exo = Inr exo' \<Longrightarrow> exo_reachable exo'"
proof (induction ins arbitrary: exo)
  case (Cons i ins)
  then obtain exo1 where "exo_next i exo = Inr exo1" "exo_run ins exo1 = Inr exo'"
    by (auto simp: exo_bind_def split: sum.splits)
  with Cons show ?case by (auto intro: lives)
qed simp

section \<open>Properties\<close>

text \<open>An application over HTTP for the examples: the platform has no key, everything is granted; a machine's
  tick sends, and receives \<open>recv\<close> with the message number of HTTP, which the server API turns into
  the text \<open>reply\<close>.\<close>

definition demo_push :: push_env where
  "demo_push = \<lparr>new_sm = Inr (demo_sm 0 SM_SYNCH 1), request_new = (ERR_SUCCESS, 0),
     room_request = True, room_entry = True\<rparr>"

definition demo_act :: "sys_time \<Rightarrow> exo_input" where
  "demo_act time = Activation \<lparr>act_now = time, device_cik = [], stored_cik = (ERR_FAILURE, []),
     room_args = True, push_at = \<lambda>p. demo_push\<rparr>"

definition demo_machine :: "nat \<Rightarrow> sys_time \<Rightarrow> err \<Rightarrow> string \<Rightarrow> exo_input" where
  "demo_machine k time recv reply = Machine k ((demo_tick time ERR_SUCCESS recv)\<lparr>recv_id := 1\<rparr>) (\<lambda>r p. (ERR_SUCCESS, reply))"

definition demo_new :: new_env where
  "demo_new = \<lparr>rooms = True, new_queue = cqueue_new True True True 5,
     new_dictionary = ERR_SUCCESS, new_mutex = ERR_SUCCESS, registered = ERR_SUCCESS, max_machines = 0,
     new_timeout = 90000, next_message = 6, rtc_now = \<lparr>system_time_linux = 0, previous_system_time = 0\<rparr>,
     shared_now = demo_shared, system_sn = ''1''\<rparr>"

definition demo_exo :: exosite where
  "demo_exo = the (snd (exosite_new demo_new ''v'' ''m'' None APP_PROTO_HTTP))"

definition demo_key :: string where
  "demo_key = replicate 40 CHR ''a''"

text \<open>The time is fetched, there is no key, the machines are cleared, the activation is sent.\<close>

definition demo_inputs :: "exo_input list" where
  "demo_inputs = [demo_act 100, demo_machine 0 1000 ERR_WOULD_BLOCK [], demo_machine 0 1010 ERR_SUCCESS ''1400000000'',
     demo_act 1020, demo_act 1030, demo_act 20000, demo_machine 0 20010 ERR_WOULD_BLOCK [], demo_act 20020]"

text \<open>The key arrives; a read and a subscription are handed over.\<close>

definition demo_later :: "exo_input list" where
  "demo_later = [demo_machine 1 21000 ERR_WOULD_BLOCK [], demo_machine 1 21010 ERR_SUCCESS demo_key,
     AppRead True True ''temp'' None, AppSubscribe True True True True ''led'' None, demo_act 21020]"

lemma demo_inputs_ok: "input_ok (demo_act tm)" "input_ok (demo_machine k tm e reply)"
  "list_all input_ok demo_inputs" "list_all input_ok demo_later"
proof -
  have e: "env_ok demo_push" using sm_demo_start [of 0 SM_SYNCH 1]
    by (auto simp: env_ok_def demo_push_def demo_defs)
  show a: "input_ok (demo_act tm)" for tm by (simp add: input_ok_def demo_act_def e)
  show m: "input_ok (demo_machine k tm e reply)" for k tm e reply by (simp add: input_ok_def demo_machine_def)
  have "input_ok (AppRead x y al c)" "input_ok (AppSubscribe x y z w al c)" for x y z w al c
    by (simp_all add: input_ok_def)
  with a m show "list_all input_ok demo_inputs" "list_all input_ok demo_later"
    by (simp_all add: demo_inputs_def demo_later_def)
qed

lemma exo_demo_reachable: "list_all input_ok ins \<Longrightarrow> exo_run ins demo_exo = Inr exo \<Longrightarrow> exo_reachable exo"
proof (rule run_reachable [of demo_exo ins])
  show "exo_reachable demo_exo"
    by (rule born [of demo_new "''v''" "''m''" None APP_PROTO_HTTP])
      (auto simp: demo_exo_def demo_new_def exosite_new_def cqueue_new_def)
qed

text \<open>C1: every call returns: whatever the application, the activation task and the machines have done, the
  next call of any of them comes back. No list of machines is walked for ever, although
  \<open>find_sm\<close> can, and no pointer to arguments is followed after they are freed.\<close>

theorem exo_always_returns:
  assumes "exo_reachable exo" and "input_ok i"
  shows "\<exists>exo'. exo_next i exo = Inr exo'"
  using step_inv [OF reachable_inv [OF assms(1)] assms(2)] by blast

theorem exo_always_returns_witness:
  "\<exists>exo exo'. exo_run demo_inputs demo_exo = Inr exo \<and> next_activate exo = AS_WAIT_ACTIVATE \<and>
     exo_next (demo_machine 1 21010 ERR_SUCCESS demo_key) exo = Inr exo'"
proof -
  have "case exo_run demo_inputs demo_exo of Inl e \<Rightarrow> False | Inr exo \<Rightarrow> next_activate exo = AS_WAIT_ACTIVATE"
    by code_simp
  then obtain exo where e: "exo_run demo_inputs demo_exo = Inr exo" "next_activate exo = AS_WAIT_ACTIVATE"
    by (auto split: sum.splits)
  from exo_always_returns [OF exo_demo_reachable [OF demo_inputs_ok(3) e(1)] demo_inputs_ok(2)] e show ?thesis by blast
qed

text \<open>C10: the arguments of every request that is with a machine are alive, and a read, a write or a
  subscription carries a key of the right format: nothing is sent for the user before the device is
  activated.\<close>

theorem user_requests_carry_key:
  assumes "exo_reachable exo" and "item \<in> set (sm_head exo)" and "r \<in> set (pending (sm item))"
  shows "\<exists>a. args_heap exo (rq_args r) = Some a \<and>
    (args_method a \<in> {EXO_DP_READ, EXO_DP_WRITE, EXO_DP_SUBSCRIBE} \<longrightarrow> system_is_cik_format_valid (args_cik a))"
proof -
  have i: "exo_okx {#} exo" "keys_ok exo" using reachable_inv [OF assms(1)] by (simp_all add: exo_inv_def)
  have r: "r \<in># pend exo" using assms(2,3) by (auto simp: pend_def)
  with okx_refs [OF i(1) pend_refs] obtain a where "args_heap exo (rq_args r) = Some a" by blast
  with i(2) r show ?thesis by (auto simp: keys_ok_def for_user_def)
qed

theorem user_requests_carry_key_witness:
  "\<exists>exo r a. exo_run (demo_inputs @ demo_later) demo_exo = Inr exo \<and> pending (sm (sm_head exo ! 1)) = [r] \<and>
     args_heap exo (rq_args r) = Some a \<and> args_method a = EXO_DP_READ \<and> system_is_cik_format_valid (args_cik a)"
proof -
  have "case exo_run (demo_inputs @ demo_later) demo_exo of Inl e \<Rightarrow> False | Inr exo \<Rightarrow>
      length (sm_head exo) = 3 \<and> length (pending (sm (sm_head exo ! 1))) = 1 \<and>
      map_option args_method (args_heap exo (rq_args (hd (pending (sm (sm_head exo ! 1)))))) = Some EXO_DP_READ"
    by code_simp
  then obtain exo where x: "exo_run (demo_inputs @ demo_later) demo_exo = Inr exo" "length (sm_head exo) = 3"
    "length (pending (sm (sm_head exo ! 1))) = 1"
    "map_option args_method (args_heap exo (rq_args (hd (pending (sm (sm_head exo ! 1)))))) = Some EXO_DP_READ"
    by (simp split: sum.splits)
  then obtain r where e: "exo_run (demo_inputs @ demo_later) demo_exo = Inr exo" "length (sm_head exo) = 3"
    "pending (sm (sm_head exo ! 1)) = [r]" "map_option args_method (args_heap exo (rq_args r)) = Some EXO_DP_READ"
    by (cases "pending (sm (sm_head exo ! 1))") simp_all
  have "list_all input_ok (demo_inputs @ demo_later)" using demo_inputs_ok(3,4) by simp
  from user_requests_carry_key [OF exo_demo_reachable [OF this e(1)], of "sm_head exo ! 1" r] e(2,3) obtain a where
    a: "args_heap exo (rq_args r) = Some a"
      "args_method a \<in> {EXO_DP_READ, EXO_DP_WRITE, EXO_DP_SUBSCRIBE} \<longrightarrow> system_is_cik_format_valid (args_cik a)"
    by auto
  with e show ?thesis by (intro exI [of _ exo] exI [of _ r] exI [of _ a]) auto
qed

text \<open>C7: the activation never waits in vain: when it waits for the time or for a key, exactly one request
  is with all machines together, it is the one whose answer is waited for, and its callback, which
  is called for an answer, a time-out and an abort alike, leads out of the state.\<close>

theorem activation_waits_for_one_request:
  assumes "exo_reachable exo"
    and "next_activate exo = AS_WAIT_TIMESTAMP \<and> m = EXO_UP_TIMESTAMP \<and> out = {AS_INIT, AS_SEND_GET_TIMESTAMP} \<or>
      next_activate exo = AS_WAIT_ACTIVATE \<and> m = EXO_PP_ACTIVATE \<and> out = {AS_ACTIVATED, AS_PREPARE_ACTIVATE}"
  shows "\<exists>r a. concat (map (\<lambda>item. pending (sm item)) (sm_head exo)) = [r] \<and>
    args_heap exo (rq_args r) = Some a \<and> args_method a = m \<and>
    (\<forall>time status reply. \<exists>exo'. exosite_api_callback time status reply (rq_args r) exo = Inr exo' \<and>
       next_activate exo' \<in> out)"
proof -
  have "waits_ok exo" using reachable_inv [OF assms(1)] by (simp add: exo_inv_def)
  with assms(2) obtain c where c: "waits_for m c exo" "(m, c, out) \<in> {(EXO_UP_TIMESTAMP, OnTimestamp, {AS_INIT, AS_SEND_GET_TIMESTAMP}),
      (EXO_PP_ACTIVATE, OnActivate, {AS_ACTIVATED, AS_PREPARE_ACTIVATE})}" by (auto simp: waits_ok_def)
  from c(1) obtain r a where r: "pend exo = {#r#}" "args_heap exo (rq_args r) = Some a" "args_method a = m" "callback a = c"
    by (auto simp: waits_for_def points_to_def)
  have "pend exo = mset (concat (map (\<lambda>item. pending (sm item)) xs))" if "xs = sm_head exo" for xs
    unfolding pend_def that [symmetric] by (induction xs) simp_all
  with r(1) have "concat (map (\<lambda>item. pending (sm item)) (sm_head exo)) = [r]" by simp
  moreover have "\<exists>exo'. exosite_api_callback time status reply (rq_args r) exo = Inr exo' \<and> next_activate exo' \<in> out"
    for time status reply
    using r c(2) by (auto simp: exosite_api_callback_def call_back_def on_timestamp_def on_activate_def Let_def
        exo_request_args_delete_def split: option.split)
  ultimately show ?thesis using r by blast
qed

theorem activation_waits_for_one_request_witness:
  "\<exists>exo r a. exo_run demo_inputs demo_exo = Inr exo \<and> next_activate exo = AS_WAIT_ACTIVATE \<and>
     concat (map (\<lambda>item. pending (sm item)) (sm_head exo)) = [r] \<and>
     args_heap exo (rq_args r) = Some a \<and> args_method a = EXO_PP_ACTIVATE"
proof -
  have "case exo_run demo_inputs demo_exo of Inl e \<Rightarrow> False | Inr exo \<Rightarrow> next_activate exo = AS_WAIT_ACTIVATE"
    by code_simp
  then obtain exo where e: "exo_run demo_inputs demo_exo = Inr exo" "next_activate exo = AS_WAIT_ACTIVATE"
    by (auto split: sum.splits)
  from activation_waits_for_one_request [OF exo_demo_reachable [OF demo_inputs_ok(3) e(1)], of EXO_PP_ACTIVATE
      "{AS_ACTIVATED, AS_PREPARE_ACTIVATE}"] e show ?thesis by auto
qed

end
