(* ===== verification/Spec2Isabelle.thy ===== *)
theory Spec2Isabelle
  imports SearchWhole NavTables NavLooks NavSync Resize DynSections CBuffer PacketBuffer TDictionary ProtocolLinks Polling ExositeRuns
begin

text \<open>
  A verification library for the Exosite Ready SDK: the scripts of the shipped documentation browser
  (\<open>src/docs/Doxygen/html\<close>) with all their data, and the protocol core of the C library
  (\<open>src/src\<close>).

  The documentation browser. Doxygen writes HTML pages, generated data files and four scripts that
  make them one browser: \<open>search/search.js\<close> (a search box in every page and a result page in a
  frame), \<open>navtree.js\<close> (the tree at the left, whose data arrive with scripts that are loaded on
  demand), \<open>resize.js\<close> (the width of the tree, kept in a cookie) and \<open>dynsections.js\<close> (sections
  and tables that fold). The scripts share the page address: the search box sets the address of its
  frame, the result page reads the search text from it, the tree finds the node of the page by it.

  \<^item> \<open>Prelude\<close>, \<open>JsString\<close>: reachable states and invariants, the locale \<open>prefix_code\<close> of
    codes that keep prefixes, and the part of the JavaScript string library the scripts use. A
    string is a list of code units below 256.
  \<^item> \<open>SearchText\<close>, \<open>CharBits\<close>: \<open>convertToId\<close>, \<open>escape\<close> and \<open>unescape\<close>; both codes are
    instances of \<open>prefix_code\<close>. \<open>CharBits\<close> gives the same functions equations on bits, for
    evaluation.
  \<^item> \<open>Dom\<close>, \<open>ResultsPage\<close>, \<open>SearchResults\<close>, \<open>SearchNav\<close>: elements as trees with ids,
    classes and display values; \<open>createResults\<close>; the class \<open>SearchResults\<close> with \<open>Search\<close>,
    \<open>Toggle\<close>, \<open>Nav\<close>, \<open>NavChild\<close>. A page that a user has searched and toggled satisfies
    \<open>page_of\<close>; \<open>Search\<close> shows exactly the rows whose name starts with the text, and the keys
    visit the visible rows in order. \<open>focus()\<close> does nothing on an element that is not \<open>rendered\<close>; the
    styles that \<open>search.css\<close> gives rows and child lists count for that.
  \<^item> \<open>SearchData\<close>, \<open>SearchBox\<close>: the table of sections and the class \<open>SearchBox\<close> with its
    timers, windows and menu, as a machine that takes user and timer events. A click of the mouse
    takes the focus first, so that the field may be reset before the handler of the click runs.
  \<^item> \<open>SearchRow\<close>, \<open>SearchPages0\<close> to \<open>SearchPages3\<close>, \<open>SearchWhole\<close>: the 118 generated
    data files \<open>search/*_*.js\<close>. Every page is checked against the code: ids are converted names,
    and the page belongs to the letter that opens it. So a search shows all entries of the section
    that start with the text, whichever page they are on.
  \<^item> \<open>NavData\<close>, \<open>NavIndex0\<close> to \<open>NavIndex6\<close>, \<open>NavFiles0\<close> to \<open>NavFiles3\<close>:
    \<open>navtreedata.js\<close>, the seven index tables and the 191 files of tree entries, transcribed;
    \<open>NavFiles\<close>, \<open>NavLeads\<close> check that the path of every key of every table leads through these
    files to the entry with that link.
  \<^item> \<open>NavTree\<close>, \<open>NavShow\<close>, \<open>NavTables\<close>: the nodes of the tree, loading by scripts,
    \<open>showNode\<close>, \<open>gotoNode\<close>, \<open>navTo\<close>, the button that keeps the tree in step with the page.
    \<open>run_scripts\<close> lets \<open>n\<close> awaited scripts arrive; one per level of the path and one for the
    table are enough (\<open>navTo_selects\<close>).
  \<^item> \<open>NavSync\<close>: the events of the pages as steps, the button, clicks on labels and arrows, scripts,
    anchors and other pages; which of them change the stored link, and where navigation goes after any
    sequence of them (\<open>sync_link_roundtrip\<close>).
  \<^item> \<open>NavLooks\<close>: indentation, pictures, the scrolled panes and the glow of an anchor; an element
    that is taken out while its children are made comes back to its place.
  \<^item> \<open>Resize\<close>, \<open>DynSections\<close>: cookies and sizes, the inner width of the panel and the outer one, which
    adds the padding of \<open>navtree.css\<close>; folding of sections and directory tables.

  The C library. A device registers callbacks that a task calls at their periods (\<open>pclb.c\<close>); one of
  them drives the protocol client state machines (\<open>protocol_client_sm.c\<close>), which take requests from
  a queue, send them over a socket and call the application back. Machine integers have their width
  where they can wrap (times are words of 32 bits).

  \<^item> \<open>CBase\<close>: error codes, times, faults of C steps, the locale \<open>fifo\<close>.
  \<^item> \<open>CBuffer\<close>, \<open>PacketBuffer\<close>: \<open>cbuffer.c\<close>, \<open>ts_cbuffer.c\<close>, \<open>tcp_buffer.c\<close>,
    \<open>packet_buffer.c\<close> on the bytes they hold, refined to lists.
  \<^item> \<open>Queue\<close>: the linked queue with its pointers, which refines lists, and the bounded queue
    \<open>concurrent_queue.c\<close>, an interpretation of \<open>fifo\<close>.
  \<^item> \<open>TDictionary\<close>: the search tree of \<open>tdictionary.c\<close> and its iterator.
  \<^item> \<open>ProtocolSM\<close>, \<open>ProtocolInv\<close>, \<open>ProtocolTick\<close>, \<open>ProtocolRuns\<close>, \<open>ProtocolLinks\<close>:
    the state machine; where its requests are; the invariant \<open>sm_ok\<close> of reachable states; what
    becomes of a request (answered, timed out, aborted, or lost in the one way there is); two machines
    that share the right to connect.
  \<^item> \<open>Pclb\<close>, \<open>Polling\<close>, \<open>Rtc\<close>: the periodic callbacks, who calls their task, and the clock they
    drive.
  \<^item> \<open>ProtocolTags\<close>, \<open>ExositeApi\<close>, \<open>ExositeInv\<close>, \<open>ExositeRefs\<close>, \<open>ExositeRuns\<close>:
    the user's side, \<open>exosite_api.c\<close>, over those machines. \<open>ExositeApi\<close> has the calls of the
    application, the activation (\<open>activate_sm\<close>) and the callback of the responses; the arguments of the
    requests are objects in a store, so that following a freed pointer and looping for ever are
    values of the model. \<open>ExositeInv\<close> says what handing a request over does, \<open>ExositeRefs\<close> that
    every pointer stays good, \<open>ExositeRuns\<close> has the reachable states and their properties.

  Bounds and fuel. Loops that end because an index runs out are recursive functions with a measure;
  \<open>NavNext\<close> and \<open>NavPrev\<close> end because element ids are finitely many. The comparison of index
  tables and files has depth 9, which is the depth of the tree and is checked with it.

  Not modelled. \<open>jquery.js\<close> is third-party code in minified form; the calls the scripts make are
  modelled where they are made. Animations are their start and their end; positions are whole pixels.
  The calls that bind event handlers are the steps of the models. Of the C library: the TLS and CoAP clients and the porting layer (drivers over code
  that is not in the repository), the HTTP client with its third-party parser, the server APIs that
  format messages over these clients, the string and heap modules, the configuration, the
  configurator server, and the examples. What the clients and the server APIs answer is an argument
  of the steps that use it.
\<close>

end
